(* ===== verification/Prelude.thy ===== *)
theory Prelude
  imports Complex_Main "HOL-Library.Word" "HOL-Library.Char_ord"
begin

text \<open>
  Shared base of the PandaEngine development: the integer widths and the \<open>Result\<close> type of
  the Rust sources, the saturating operations on unsigned words, the part of \<open>str\<close> and of
  decimal formatting the engine uses, and generic lemmas on lists keyed by a field. The
  collection \<open>engine_simps\<close> gathers the unfolding lemmas that component proofs use together.
\<close>

named_theorems engine_simps "unfolding lemmas of the engine's small functional updates"
named_theorems frame_simps "which snapshot and engine fields an operation leaves alone"

subsection \<open>Types of the Rust sources\<close>

type_synonym u64 = "64 word"
type_synonym u32 = "32 word"
type_synonym usize = nat

text \<open>\<open>Result<T, E>\<close> is a sum; a length or index (\<open>usize\<close>) is a \<open>nat\<close>, since a \<open>Vec\<close>
  never holds more than \<open>isize::MAX\<close> elements and no index arithmetic of the engine overflows.\<close>

abbreviation Ok :: "'a \<Rightarrow> 'e + 'a" where
  "Ok \<equiv> Inr"

abbreviation Err :: "'e \<Rightarrow> 'e + 'a" where
  "Err \<equiv> Inl"

definition map_ok :: "('a \<Rightarrow> 'b) \<Rightarrow> 'e + 'a \<Rightarrow> 'e + 'b" where
  "map_ok f r = (case r of Inl e \<Rightarrow> Inl e | Inr a \<Rightarrow> Inr (f a))"

definition is_ok :: "'e + 'a \<Rightarrow> bool" where
  "is_ok r = (case r of Inl _ \<Rightarrow> False | Inr _ \<Rightarrow> True)"

lemma map_ok_simps [simp]: "map_ok f (Inl e) = Inl e" "map_ok f (Inr a) = Inr (f a)"
  by (simp_all add: map_ok_def)

lemma is_ok_simps [simp]: "\<not> is_ok (Inl e)" "is_ok (Inr a)"
  by (simp_all add: is_ok_def)

lemma is_ok_iff: "is_ok r \<longleftrightarrow> (\<exists>a. r = Inr a)"
  by (cases r) auto

subsection \<open>Saturating arithmetic on unsigned words\<close>

definition sat_add :: "'l::len word \<Rightarrow> 'l word \<Rightarrow> 'l word" where
  "sat_add a b = (if a + b < a then - 1 else a + b)"

definition sat_sub :: "'l::len word \<Rightarrow> 'l word \<Rightarrow> 'l word" where
  "sat_sub a b = (if b \<le> a then a - b else 0)"

definition abs_diff :: "'l::len word \<Rightarrow> 'l word \<Rightarrow> 'l word" where
  "abs_diff a b = (if a < b then b - a else a - b)"

lemma word_add_less_iff_overflow:
  fixes a b :: "'l::len word"
  shows "a + b < a \<longleftrightarrow> 2 ^ LENGTH('l) \<le> unat a + unat b"
proof -
  let ?m = "2 ^ LENGTH('l) :: nat"
  have less: "unat a < ?m" "unat b < ?m"
    by (rule unsigned_less)+
  have eq: "unat (a + b) = (unat a + unat b) mod ?m"
    by (simp add: unat_word_ariths)
  show ?thesis
  proof (cases "unat a + unat b < ?m")
    case True
    then have "unat (a + b) = unat a + unat b" using eq by simp
    with True show ?thesis by (simp add: word_less_nat_alt)
  next
    case False
    then have "(unat a + unat b) mod ?m = (unat a + unat b - ?m) mod ?m"
      by (simp add: le_mod_geq)
    also have "\<dots> = unat a + unat b - ?m"
      using less by (intro mod_less) linarith
    finally have "unat (a + b) = unat a + unat b - ?m" using eq by simp
    with False less show ?thesis unfolding word_less_nat_alt by linarith
  qed
qed

lemma unat_max_word: "unat (- 1 :: 'l::len word) = 2 ^ LENGTH('l) - 1"
  by (simp add: unsigned_minus_1_eq_mask mask_eq_exp_minus_1)

lemma unat_sat_add:
  fixes a b :: "'l::len word"
  shows "unat (sat_add a b) = min (unat a + unat b) (2 ^ LENGTH('l) - 1)"
proof (cases "2 ^ LENGTH('l) \<le> unat a + unat b")
  case True
  then have "sat_add a b = - 1"
    by (simp add: sat_add_def word_add_less_iff_overflow)
  with True show ?thesis by (simp add: unat_max_word)
next
  case False
  then have "sat_add a b = a + b"
    by (simp add: sat_add_def word_add_less_iff_overflow)
  with False show ?thesis by (simp add: unat_word_ariths)
qed

lemma unat_sat_sub: "unat (sat_sub a b) = unat a - unat b"
  by (auto simp: sat_sub_def word_le_nat_alt unat_sub)

lemma unat_abs_diff: "unat (abs_diff a b) = (if unat a < unat b then unat b - unat a else unat a - unat b)"
  by (auto simp: abs_diff_def word_less_nat_alt word_le_nat_alt unat_sub)

lemma sat_add_ge [simp]: "a \<le> sat_add a b"
proof -
  have "unat a < 2 ^ LENGTH('a)" by (rule unsigned_less)
  then show ?thesis unfolding word_le_nat_alt unat_sat_add by linarith
qed

lemma sat_add_one_less: "a \<noteq> - 1 \<Longrightarrow> a < sat_add a 1"
proof -
  assume "a \<noteq> - 1"
  then have "unat a \<noteq> unat (- 1 :: 'a word)"
    by (metis unsigned_word_eqI)
  moreover have "unat a < 2 ^ LENGTH('a)" by (rule unsigned_less)
  ultimately have "unat a < 2 ^ LENGTH('a) - 1"
    unfolding unat_max_word by linarith
  then show ?thesis by (simp add: word_less_nat_alt unat_sat_add del: One_nat_def)
qed

lemma sat_sub_le [simp]: "sat_sub a b \<le> a"
  by (simp add: word_le_nat_alt unat_sat_sub)

end
