(* ===== verification/RustStd.thy ===== *)
theory RustStd
  imports Prelude
begin

text \<open>
  What the engine uses of Rust's standard library beyond integers: blank strings
  (\<open>str::trim().is_empty()\<close>), decimal formatting and parsing of unsigned integers, and IEEE
  floating point with the rounding of \<open>f32\<close> and \<open>f64\<close> written out. A \<open>String\<close> is its UTF-8
  byte sequence, one \<open>char\<close> per byte.
\<close>

subsection \<open>White space\<close>

text \<open>Width in bytes of the \<open>White_Space\<close> code point a string starts with, 0 when it does not
  start with one: U+0009 to U+000D and U+0020, then the encodings of U+0085, U+00A0, U+1680,
  U+2000 to U+200A, U+2028, U+2029, U+202F, U+205F and U+3000.\<close>

definition byte_at :: "string \<Rightarrow> nat \<Rightarrow> nat" where
  "byte_at s i = (if i < length s then of_char (s ! i) else 0)"

definition ws_width :: "string \<Rightarrow> nat" where
  "ws_width s =
     (let b0 = byte_at s 0; b1 = byte_at s 1; b2 = byte_at s 2 in
      if (9 \<le> b0 \<and> b0 \<le> 13) \<or> b0 = 32 then 1
      else if b0 = 0xC2 \<and> (b1 = 0x85 \<or> b1 = 0xA0) then 2
      else if b0 = 0xE1 \<and> b1 = 0x9A \<and> b2 = 0x80 then 3
      else if b0 = 0xE2 \<and> b1 = 0x80 \<and>
              ((0x80 \<le> b2 \<and> b2 \<le> 0x8A) \<or> b2 = 0xA8 \<or> b2 = 0xA9 \<or> b2 = 0xAF) then 3
      else if b0 = 0xE2 \<and> b1 = 0x81 \<and> b2 = 0x9F then 3
      else if b0 = 0xE3 \<and> b1 = 0x80 \<and> b2 = 0x80 then 3
      else 0)"

function blank :: "string \<Rightarrow> bool" where
  "blank s =
     (if s = [] then True else if ws_width s = 0 then False else blank (drop (ws_width s) s))"
  by pat_completeness auto
termination
  by (relation "measure length") (auto simp: neq_Nil_conv)

declare blank.simps [simp del]

lemma blank_Nil [simp]: "blank []"
  by (simp add: blank.simps)

lemma not_blank_nonempty: "\<not> blank s \<Longrightarrow> s \<noteq> []"
  by auto

lemma blank_leading_visible:
  "33 \<le> (of_char c :: nat) \<Longrightarrow> (of_char c :: nat) < 128 \<Longrightarrow> \<not> blank (c # s)"
  by (subst blank.simps) (simp add: ws_width_def byte_at_def Let_def)

subsection \<open>Decimal formatting and parsing\<close>

fun show_nat :: "nat \<Rightarrow> string" where
  "show_nat n =
     (if n < 10 then [char_of (48 + n)] else show_nat (n div 10) @ [char_of (48 + n mod 10)])"

declare show_nat.simps [simp del]

definition show_u64 :: "u64 \<Rightarrow> string" where
  "show_u64 w = show_nat (unat w)"

definition digit_value :: "char \<Rightarrow> nat option" where
  "digit_value c =
     (let v = of_char c in if 48 \<le> v \<and> v \<le> (57::nat) then Some (v - 48) else None)"

fun parse_digits :: "nat \<Rightarrow> string \<Rightarrow> nat option" where
  "parse_digits acc [] = Some acc"
| "parse_digits acc (c # cs) =
     (case digit_value c of None \<Rightarrow> None | Some d \<Rightarrow> parse_digits (10 * acc + d) cs)"

text \<open>\<open>str::parse::<usize>()\<close>: an optional \<open>+\<close>, at least one digit, no overflow of 64 bits.\<close>

definition parse_usize :: "string \<Rightarrow> usize option" where
  "parse_usize s =
     (let t = (case s of [] \<Rightarrow> [] | c # cs \<Rightarrow> if c = CHR ''+'' then cs else s) in
      if t = [] then None
      else case parse_digits 0 t of
             None \<Rightarrow> None
           | Some n \<Rightarrow> if n < 2 ^ 64 then Some n else None)"

lemma digit_value_char_of [simp]: "d < 10 \<Longrightarrow> digit_value (char_of (48 + d)) = Some d"
  by (simp add: digit_value_def Let_def)

lemma parse_digits_append:
  "parse_digits acc (xs @ ys) =
     (case parse_digits acc xs of None \<Rightarrow> None | Some n \<Rightarrow> parse_digits n ys)"
  by (induction xs arbitrary: acc) (auto split: option.splits)

lemma parse_digits_show_nat: "parse_digits 0 (show_nat n) = Some n"
proof (induction n rule: show_nat.induct)
  case (1 n)
  show ?case
  proof (cases "n < 10")
    case True
    then show ?thesis by (simp add: show_nat.simps [of n])
  next
    case False
    with "1" have "parse_digits 0 (show_nat (n div 10)) = Some (n div 10)" by simp
    with False show ?thesis
      by (simp add: show_nat.simps [of n] parse_digits_append)
  qed
qed

lemma show_nat_nonempty [simp]: "show_nat n \<noteq> []"
  by (subst show_nat.simps) simp

lemma show_nat_digits: "c \<in> set (show_nat n) \<Longrightarrow> digit_value c \<noteq> None"
proof (induction n rule: show_nat.induct)
  case (1 n)
  then show ?case
    by (cases "n < 10") (auto simp: show_nat.simps [of n])
qed

lemma show_nat_inject [simp]: "show_nat m = show_nat n \<longleftrightarrow> m = n"
  by (metis option.inject parse_digits_show_nat)

lemma show_u64_inject [simp]: "show_u64 a = show_u64 b \<longleftrightarrow> a = b"
  by (auto simp: show_u64_def intro: unsigned_word_eqI)

lemma parse_usize_show_nat: "n < 2 ^ 64 \<Longrightarrow> parse_usize (show_nat n) = Some n"
proof -
  assume n: "n < 2 ^ 64"
  obtain c cs where s: "show_nat n = c # cs"
    by (metis neq_Nil_conv show_nat_nonempty)
  have "c \<noteq> CHR ''+''"
    using show_nat_digits [of c n] s by (auto simp: digit_value_def)
  with n show ?thesis
    using parse_digits_show_nat [of n] by (simp add: parse_usize_def s)
qed

subsection \<open>IEEE binary floating point\<close>

text \<open>A float is a NaN, an infinity (\<open>True\<close> for the negative one) or a rational. The two zeros
  are one value: no operation of the engine tells them apart.\<close>

datatype fp = FNaN | FInf bool | Fin rat

type_synonym f32 = fp
type_synonym f64 = fp

fun blen :: "nat \<Rightarrow> nat" where
  "blen n = (if n = 0 then 0 else Suc (blen (n div 2)))"

declare blen.simps [simp del]

definition pow2 :: "int \<Rightarrow> rat" where
  "pow2 k = (if 0 \<le> k then 2 ^ nat k else 1 / 2 ^ nat (- k))"

definition fp_exponent :: "rat \<Rightarrow> int" where
  "fp_exponent q =
     (let e = int (blen (nat (fst (quotient_of q)))) - int (blen (nat (snd (quotient_of q))))
      in if q < pow2 e then e - 1 else e)"

definition round_half_even :: "rat \<Rightarrow> int" where
  "round_half_even q =
     (let f = \<lfloor>q\<rfloor>; d = q - of_int f in
      if d < 1 / 2 then f else if 1 / 2 < d then f + 1 else if even f then f else f + 1)"

text \<open>Round to nearest, ties to even, with precision \<open>p\<close>, least exponent \<open>emin\<close> (of the last
  subnormal bit) and greatest exponent \<open>emax\<close>.\<close>

definition round_fp :: "int \<Rightarrow> int \<Rightarrow> int \<Rightarrow> rat \<Rightarrow> fp" where
  "round_fp p emin emax q =
     (if q = 0 then Fin 0
      else let a = \<bar>q\<bar>;
               u = max (fp_exponent a - (p - 1)) emin;
               v = of_int (round_half_even (a / pow2 u)) * pow2 u
           in if pow2 (emax + 1) \<le> v then FInf (q < 0) else Fin (sgn q * v))"

definition round_f32 :: "rat \<Rightarrow> f32" where
  "round_f32 = round_fp 24 (- 149) 127"

definition round_f64 :: "rat \<Rightarrow> f64" where
  "round_f64 = round_fp 53 (- 1074) 1023"

definition f32_of_u64 :: "u64 \<Rightarrow> f32" where
  "f32_of_u64 w = round_f32 (of_nat (unat w))"

definition f64_of_u64 :: "u64 \<Rightarrow> f64" where
  "f64_of_u64 w = round_f64 (of_nat (unat w))"

fun fp_is_finite :: "fp \<Rightarrow> bool" where
  "fp_is_finite (Fin _) = True"
| "fp_is_finite _ = False"

text \<open>\<open>f32\<close> division; a zero divisor counts as \<open>+0.0\<close>.\<close>

fun f32_div :: "f32 \<Rightarrow> f32 \<Rightarrow> f32" where
  "f32_div (Fin a) (Fin b) =
     (if b = 0 then (if a = 0 then FNaN else FInf (a < 0)) else round_f32 (a / b))"
| "f32_div (FInf s) (Fin b) = FInf (s \<noteq> (b < 0))"
| "f32_div (Fin a) (FInf s) = Fin 0"
| "f32_div _ _ = FNaN"

fun f64_mul :: "f64 \<Rightarrow> f64 \<Rightarrow> f64" where
  "f64_mul (Fin a) (Fin b) = round_f64 (a * b)"
| "f64_mul (FInf s) (Fin b) = (if b = 0 then FNaN else FInf (s \<noteq> (b < 0)))"
| "f64_mul (Fin a) (FInf s) = (if a = 0 then FNaN else FInf (s \<noteq> (a < 0)))"
| "f64_mul (FInf s) (FInf t) = FInf (s \<noteq> t)"
| "f64_mul _ _ = FNaN"

text \<open>\<open>max(0.0)\<close> ignores a NaN operand; \<open>clamp(0.0, 1.0)\<close> passes it through; \<open>as u64\<close>
  truncates and saturates, and sends NaN to 0.\<close>

fun fp_max_zero :: "fp \<Rightarrow> fp" where
  "fp_max_zero (Fin a) = Fin (max a 0)"
| "fp_max_zero (FInf s) = (if s then Fin 0 else FInf False)"
| "fp_max_zero FNaN = Fin 0"

fun fp_clamp01 :: "fp \<Rightarrow> fp" where
  "fp_clamp01 (Fin a) = Fin (if a < 0 then 0 else if 1 < a then 1 else a)"
| "fp_clamp01 (FInf s) = Fin (if s then 0 else 1)"
| "fp_clamp01 FNaN = FNaN"

fun u64_of_f64 :: "f64 \<Rightarrow> u64" where
  "u64_of_f64 FNaN = 0"
| "u64_of_f64 (FInf s) = (if s then 0 else - 1)"
| "u64_of_f64 (Fin a) =
     (if a \<le> 0 then 0 else if 2 ^ 64 \<le> a then - 1 else of_int \<lfloor>a\<rfloor>)"

lemma fp_clamp01_range: "fp_is_finite x \<Longrightarrow> \<exists>r. fp_clamp01 x = Fin r \<and> 0 \<le> r \<and> r \<le> 1"
  by (cases x) auto

lemma blen_0 [simp]: "blen 0 = 0"
  by (simp add: blen.simps)

lemma blen_pos: "0 < n \<Longrightarrow> blen n = Suc (blen (n div 2))"
  by (simp add: blen.simps [of n])

lemma blen_le_iff: "blen n \<le> k \<longleftrightarrow> n < 2 ^ k"
proof (induction k arbitrary: n)
  case 0
  then show ?case by (cases "n = 0") (simp_all add: blen_pos)
next
  case (Suc k)
  show ?case
  proof (cases "n = 0")
    case True
    then show ?thesis by simp
  next
    case False
    have "n div 2 < 2 ^ k \<longleftrightarrow> n < 2 ^ Suc k" by auto
    with False Suc.IH [of "n div 2"] show ?thesis by (simp add: blen_pos)
  qed
qed

lemma round_half_even_of_int [simp]: "round_half_even (of_int z) = z"
  by (simp add: round_half_even_def Let_def)

text \<open>Integers below \<open>2 ^ 53\<close> are exact in \<open>f64\<close>.\<close>

lemma round_f64_of_nat: "n < 2 ^ 53 \<Longrightarrow> round_f64 (of_nat n) = Fin (of_nat n)"
proof (cases "n = 0")
  case True
  then show ?thesis by (simp add: round_f64_def round_fp_def)
next
  case False
  assume n: "n < 2 ^ 53"
  define u where "u = max (fp_exponent (of_nat n) - 52) (- 1074)"
  have q: "quotient_of (of_nat n) = (int n, 1)"
    using quotient_of_int [of "int n"] by (simp add: Rat.of_int_def)
  have "blen n \<le> 53" using n by (simp only: blen_le_iff)
  moreover have "blen 1 = 1" by (simp add: blen.simps)
  ultimately have "fp_exponent (of_nat n) \<le> 52"
    by (simp add: fp_exponent_def q Let_def)
  then have u: "u \<le> 0" by (simp add: u_def)
  have p: "pow2 u = 1 / 2 ^ nat (- u)"
    using u by (cases "u = 0") (auto simp: pow2_def)
  have "of_nat n / pow2 u = of_int (int n * 2 ^ nat (- u))"
    by (simp add: p)
  then have r: "of_int (round_half_even (of_nat n / pow2 u)) * pow2 u = (of_nat n :: rat)"
    by (simp only: round_half_even_of_int) (simp add: p)
  have "(of_nat n :: rat) < 2 ^ 53"
    using n by (metis of_nat_less_iff of_nat_numeral of_nat_power)
  also have "(2 ^ 53 :: rat) \<le> pow2 1024"
    by (simp add: pow2_def power_increasing)
  finally have "\<not> pow2 1024 \<le> (of_nat n :: rat)" by simp
  with False r show ?thesis
    by (simp add: round_f64_def round_fp_def Let_def flip: u_def)
qed

end
