(* ===== verification/Model.thy ===== *)
theory Model
  imports RustStd
begin

text \<open>
  The data of \<open>app_core/src/model\<close> and \<open>app_core/src/data\<close>: errors, pages, catalog tracks and
  media items, accounts and authentication state, history, library, playlist and profile
  resources, backend status, playback and preference states, effects and events. A struct is a
  record (its fields prefixed by the record's initials), an enum a datatype with the source's
  constructors.
\<close>

subsection \<open>Errors and pages\<close>

datatype engine_error_type =
    InvalidInput | NotFound | LoginRequiredError | AuthExpired | Forbidden | AlreadyExists
  | FailedPrecondition | Conflict | RateLimited | ServiceUnavailableError | BackendFault
  | Transport | UnsafeTransport | MappingDefect | NetworkError | PlayerError
  | AuthenticationError | SessionStorage | MediaSkipped | CommandRejected | UnknownError

record engine_error =
  error_type :: engine_error_type
  error_message :: string
  is_fatal :: bool
  retry_after_millis :: "u64 option"

definition engine_error_new :: "engine_error_type \<Rightarrow> string \<Rightarrow> bool \<Rightarrow> engine_error" where
  "engine_error_new ty msg fatal =
     \<lparr>error_type = ty, error_message = msg, is_fatal = fatal, retry_after_millis = None\<rparr>"

definition player_error :: "string \<Rightarrow> engine_error" where
  "player_error msg = engine_error_new PlayerError msg True"

definition media_skipped :: "string \<Rightarrow> engine_error" where
  "media_skipped msg = engine_error_new MediaSkipped msg False"

lemma error_type_new [simp]: "error_type (engine_error_new ty msg fatal) = ty"
  by (simp add: engine_error_new_def)

lemma error_type_player [simp]: "error_type (player_error msg) = PlayerError"
  by (simp add: player_error_def)

type_synonym 'a result = "engine_error + 'a"

text \<open>\<open>EnginePageToken\<close> is a non-empty string: \<open>new\<close> refuses the empty one.\<close>

datatype page_token = PageToken (token_str: string)

definition page_token_new :: "string \<Rightarrow> page_token result" where
  "page_token_new value =
     (if value = [] then Err (engine_error_new InvalidInput ''empty page token'' False)
      else Ok (PageToken value))"

record page_request =
  page_size :: u32
  page_token :: "page_token option"

definition page_request_default :: page_request where
  "page_request_default = \<lparr>page_size = 0, page_token = None\<rparr>"

record 'a paged_result =
  pr_items :: "'a list"
  pr_next_page_token :: "page_token option"

subsection \<open>Catalog\<close>

record engine_artist =
  artist_id :: string
  artist_name :: string

record engine_album =
  album_id :: string
  album_title :: string

record engine_artwork =
  aw_id :: string
  aw_content_hash :: string
  aw_uri :: "string option"

record engine_track =
  tr_id :: string
  tr_title :: string
  tr_artist :: engine_artist
  tr_album :: "engine_album option"
  tr_duration_millis :: u64
  tr_explicit :: bool
  tr_artwork :: "engine_artwork option"
  tr_genres :: "string list"

datatype media_item_type =
  TrackItem | ArtistItem | AlbumItem | FolderItem | PlaylistItem | RadioStationItem

record media_item =
  mi_id :: string
  mi_title :: string
  mi_artist :: string
  mi_album :: "string option"
  mi_duration_millis :: "u64 option"
  mi_thumbnail_url :: "string option"
  mi_artwork_id :: "string option"
  mi_artwork_content_hash :: "string option"
  mi_source_uri :: "string option"
  mi_mime_type :: "string option"
  mi_item_type :: media_item_type
  mi_parent_id :: "string option"

definition media_item_default :: media_item where
  "media_item_default =
     \<lparr>mi_id = [], mi_title = [], mi_artist = [], mi_album = None, mi_duration_millis = None,
      mi_thumbnail_url = None, mi_artwork_id = None, mi_artwork_content_hash = None,
      mi_source_uri = None, mi_mime_type = None, mi_item_type = TrackItem, mi_parent_id = None\<rparr>"

definition non_empty :: "string \<Rightarrow> string option" where
  "non_empty s = (if s = [] then None else Some s)"

definition project_artwork_identity ::
  "engine_artwork option \<Rightarrow> string option \<times> string option \<times> string option" where
  "project_artwork_identity artwork =
     (case artwork of
        Some a \<Rightarrow> (non_empty (aw_id a), non_empty (aw_content_hash a), aw_uri a)
      | None \<Rightarrow> (None, None, None))"

definition project_discovery_track :: "engine_track \<Rightarrow> media_item" where
  "project_discovery_track t =
     (let (art_id, art_hash, thumb) = project_artwork_identity (tr_artwork t) in
      media_item_default\<lparr>mi_id := tr_id t, mi_title := tr_title t,
        mi_artist := artist_name (tr_artist t), mi_album := map_option album_title (tr_album t),
        mi_duration_millis := Some (tr_duration_millis t), mi_thumbnail_url := thumb,
        mi_artwork_id := art_id, mi_artwork_content_hash := art_hash\<rparr>)"

datatype discovery_feed = Discovery | ForYou | Recommendations

subsection \<open>Accounts and authentication\<close>

record account =
  acct_id :: string
  acct_primary_email :: string
  acct_status :: string
  acct_created_at_epoch_millis :: u64

record auth_session =
  as_id :: string
  as_device_label :: string
  as_created_at_epoch_millis :: u64
  as_last_used_at_epoch_millis :: u64
  as_expires_at_epoch_millis :: u64
  as_current :: bool

datatype auth_state = Anonymous | Authenticated account auth_session | LoginRequired

text \<open>\<open>AuthIdentity\<close> and the per-port identities that copy its two fields.\<close>

record auth_identity =
  ai_account_id :: string
  ai_session_id :: string

definition auth_identity_from_state :: "auth_state \<Rightarrow> auth_identity option" where
  "auth_identity_from_state state =
     (case state of
        Authenticated account session \<Rightarrow>
          (if \<not> blank (acct_id account) \<and> \<not> blank (as_id session) \<and> as_current session
           then Some \<lparr>ai_account_id = acct_id account, ai_session_id = as_id session\<rparr>
           else None)
      | Anonymous \<Rightarrow> None
      | LoginRequired \<Rightarrow> None)"

lemma auth_identity_from_state_Some:
  assumes "auth_identity_from_state state = Some i"
  obtains account session where "state = Authenticated account session"
    "ai_account_id i = acct_id account" "ai_session_id i = as_id session" "as_current session"
  using assms by (auto simp: auth_identity_from_state_def split: auth_state.splits if_splits)

lemma auth_identity_from_state_simps [simp]:
  "auth_identity_from_state Anonymous = None"
  "auth_identity_from_state LoginRequired = None"
  by (simp_all add: auth_identity_from_state_def)

subsection \<open>History, library, playlists, profiles\<close>

record history_settings =
  hs_enabled :: bool

record history_settings_update =
  hsu_settings :: history_settings
  hsu_deleted_count :: u64

datatype history_availability =
  AvailabilityUnknown | HistoryAvailable | HistoryLoginRequired | HistoryUnavailable

datatype history_refresh_state = RefreshIdle | RefreshLoading | RefreshDegraded

record history_state =
  hst_generation :: u64
  hst_availability :: history_availability
  hst_refresh_state :: history_refresh_state

record playback_record =
  rec_track_id :: string
  rec_duration_millis :: u64
  rec_completion_ratio :: f32

record history_entry =
  he_id :: string
  he_played_at_epoch_millis :: "u64 option"
  he_duration_millis :: u64
  he_completion_ratio :: f32
  he_track :: "engine_track option"

record history_reconciliation =
  hr_promoted_entry_ids :: "string list"
  hr_clear_anonymous :: bool
  hr_error :: "engine_error option"

definition history_reconciliation_default :: history_reconciliation where
  "history_reconciliation_default =
     \<lparr>hr_promoted_entry_ids = [], hr_clear_anonymous = False, hr_error = None\<rparr>"

definition invalid_history_input :: "string \<Rightarrow> engine_error" where
  "invalid_history_input msg = engine_error_new InvalidInput msg False"

definition normalize_completion_ratio :: "f32 \<Rightarrow> f32 result" where
  "normalize_completion_ratio value =
     (if \<not> fp_is_finite value
      then Err (invalid_history_input ''playback completion ratio must be finite'')
      else Ok (fp_clamp01 value))"

definition playback_record_new :: "string \<Rightarrow> u64 \<Rightarrow> f32 \<Rightarrow> playback_record result" where
  "playback_record_new track duration ratio =
     (if blank track then Err (invalid_history_input ''playback track id is required'')
      else case normalize_completion_ratio ratio of
             Inl e \<Rightarrow> Err e
           | Inr r \<Rightarrow> Ok \<lparr>rec_track_id = track, rec_duration_millis = duration,
                          rec_completion_ratio = r\<rparr>)"

definition to_playback_record :: "history_entry \<Rightarrow> playback_record option" where
  "to_playback_record entry =
     (case he_track entry of
        None \<Rightarrow> None
      | Some t \<Rightarrow> (case playback_record_new (tr_id t) (he_duration_millis entry)
                            (he_completion_ratio entry) of
                   Inl _ \<Rightarrow> None | Inr r \<Rightarrow> Some r))"

record library_track =
  lt_relationship_id :: string
  lt_track :: engine_track
  lt_relationship_at_epoch_millis :: u64

datatype library_mutation = Save | RemoveSaved | Like | Unlike

record playlist =
  pl_id :: string
  pl_name :: string
  pl_description :: "string option"
  pl_revision :: u64
  pl_created_at_epoch_millis :: u64
  pl_updated_at_epoch_millis :: u64

record create_playlist =
  cp_name :: string
  cp_description :: "string option"

record update_playlist =
  up_id :: string
  up_name :: string
  up_description :: "string option"
  up_expected_revision :: u64

record playlist_track =
  pt_membership_id :: string
  pt_playlist_id :: string
  pt_track :: engine_track
  pt_position :: u32
  pt_added_at_epoch_millis :: u64

record playlist_reconciliation =
  prc_playlist_id :: string
  prc_expected_revision :: u64
  prc_server_revision :: u64
  prc_server_membership_ids :: "string list"
  prc_proposed_membership_ids :: "string list"

record profile =
  prof_id :: string
  prof_external_user_id :: string
  prof_display_name :: "string option"
  prof_created_at_epoch_millis :: "u64 option"
  prof_updated_at_epoch_millis :: "u64 option"

record profile_update =
  pu_display_name :: "string option option"

end
