(* ===== verification/Preferences.thy ===== *)
theory Preferences
  imports Model "HOL-Library.List_Lexorder"
begin

text \<open>
  Theme preferences and the profile preference document (\<open>model/preferences.rs\<close>,
  \<open>model/config.rs\<close>). A JSON value is a datatype; an object is the sorted association list
  that \<open>serde_json::Map\<close> (a \<open>BTreeMap\<close>) iterates over. \<open>merge_preferences\<close> is the recursive
  merge of an update into the stored document.
\<close>

datatype theme_preference =
    SystemDefault | BambooGroveLight | MoonlitBambooDark | ForestTechLight | ForestTechDark

definition theme_from_wire :: "string \<Rightarrow> theme_preference option" where
  "theme_from_wire value =
     (if value = ''system_default'' then Some SystemDefault
      else if value = ''bamboo_grove_light'' then Some BambooGroveLight
      else if value = ''moonlit_bamboo_dark'' then Some MoonlitBambooDark
      else if value = ''forest_tech_light'' then Some ForestTechLight
      else if value = ''forest_tech_dark'' then Some ForestTechDark
      else None)"

fun theme_as_wire :: "theme_preference \<Rightarrow> string" where
  "theme_as_wire SystemDefault = ''system_default''"
| "theme_as_wire BambooGroveLight = ''bamboo_grove_light''"
| "theme_as_wire MoonlitBambooDark = ''moonlit_bamboo_dark''"
| "theme_as_wire ForestTechLight = ''forest_tech_light''"
| "theme_as_wire ForestTechDark = ''forest_tech_dark''"

lemma theme_from_as_wire [simp]: "theme_from_wire (theme_as_wire t) = Some t"
  by (cases t) (simp_all add: theme_from_wire_def)

datatype preference_source = Uninitialized | LocalCache | LocalUser | RemoteProfile

record theme_preference_state =
  tp_theme :: theme_preference
  tp_source :: preference_source
  tp_revision :: u64
  tp_session_user_id :: "string option"

definition theme_preference_state_default :: theme_preference_state where
  "theme_preference_state_default =
     \<lparr>tp_theme = SystemDefault, tp_source = Uninitialized, tp_revision = 0,
      tp_session_user_id = None\<rparr>"

definition is_initialized :: "theme_preference_state \<Rightarrow> bool" where
  "is_initialized t = (tp_source t \<noteq> Uninitialized)"

record engine_config =
  vehicle_name :: string
  hifi_enabled :: bool
  max_volume :: "8 word"
  auto_resume :: bool
  preferred_language :: string

definition engine_config_default :: engine_config where
  "engine_config_default =
     \<lparr>vehicle_name = ''Generic Car'', hifi_enabled = False, max_volume = 100,
      auto_resume = True, preferred_language = ''en-US''\<rparr>"

subsection \<open>JSON documents\<close>

text \<open>A number keeps its textual form: the engine stores and merges numbers but never computes
  with them.\<close>

datatype json =
    JNull | JBool bool | JNumber string | JString string
  | JArray "json list" | JObject "(string \<times> json) list"

type_synonym json_map = "(string \<times> json) list"

definition obj_get :: "string \<Rightarrow> json_map \<Rightarrow> json option" where
  "obj_get k m = map_of m k"

definition obj_remove :: "string \<Rightarrow> json_map \<Rightarrow> json_map" where
  "obj_remove k m = filter (\<lambda>(k', _). k' \<noteq> k) m"

fun obj_insert :: "string \<Rightarrow> json \<Rightarrow> json_map \<Rightarrow> json_map" where
  "obj_insert k v [] = [(k, v)]"
| "obj_insert k v ((k', v') # m) =
     (if k < k' then (k, v) # (k', v') # m
      else if k = k' then (k, v) # m
      else (k', v') # obj_insert k v m)"

function (sequential) merge_preferences :: "json \<Rightarrow> json \<Rightarrow> json"
  and merge_entries :: "json_map \<Rightarrow> json_map \<Rightarrow> json_map" where
  "merge_preferences (JObject current) (JObject updates) =
     JObject (merge_entries current updates)"
| "merge_preferences _ updates = updates"
| "merge_entries current [] = current"
| "merge_entries current ((key, update) # rest) =
     (let merged = (case obj_get key current of
                      Some existing \<Rightarrow> merge_preferences existing update
                    | None \<Rightarrow> update)
      in merge_entries (obj_insert key merged (obj_remove key current)) rest)"
  by pat_completeness auto
termination
  by (relation "measure (\<lambda>x. case x of Inl (_, u) \<Rightarrow> size u | Inr (_, us) \<Rightarrow> size_list (\<lambda>(k, v). Suc (size v)) us)")
     (auto simp: size_prod_def split: prod.splits)

definition json_as_str :: "json \<Rightarrow> string option" where
  "json_as_str v = (case v of JString s \<Rightarrow> Some s | _ \<Rightarrow> None)"

text \<open>A well-formed object: keys strictly increasing, as a \<open>BTreeMap\<close> iterates.\<close>

definition obj_wf :: "json_map \<Rightarrow> bool" where
  "obj_wf m = sorted_wrt (<) (map fst m)"

lemma obj_get_insert: "obj_wf m \<Longrightarrow>
    obj_get k (obj_insert j v m) = (if k = j then Some v else obj_get k m)"
  by (induction m) (auto simp: obj_get_def obj_wf_def)

lemma set_fst_obj_insert: "fst ` set (obj_insert j v m) = insert j (fst ` set m)"
proof (induction m)
  case Nil
  then show ?case by simp
next
  case (Cons e m)
  then show ?case by (cases e) (simp add: insert_commute)
qed

lemma obj_wf_insert: "obj_wf m \<Longrightarrow> obj_wf (obj_insert j v m)"
proof (induction m)
  case Nil
  then show ?case by (simp add: obj_wf_def)
next
  case (Cons e m)
  obtain k' v' where e: "e = (k', v')" by (cases e)
  from Cons.prems have m: "obj_wf m" and lt: "\<forall>x \<in> fst ` set m. k' < x"
    by (auto simp: obj_wf_def e)
  show ?case
  proof (cases "j < k'")
    case True
    with Cons.prems show ?thesis by (auto simp: obj_wf_def e dest: less_trans)
  next
    case False
    show ?thesis
    proof (cases "j = k'")
      case True
      with Cons.prems show ?thesis by (simp add: obj_wf_def e)
    next
      case neq: False
      with False have "k' < j" by simp
      with lt have "\<forall>x \<in> fst ` set (obj_insert j v m). k' < x"
        by (simp add: set_fst_obj_insert)
      with Cons.IH [OF m] False neq show ?thesis by (simp add: obj_wf_def e)
    qed
  qed
qed

lemma obj_wf_remove: "obj_wf m \<Longrightarrow> obj_wf (obj_remove k m)"
  by (induction m) (auto simp: obj_wf_def obj_remove_def)

lemma obj_get_remove: "obj_get k (obj_remove j m) = (if k = j then None else obj_get k m)"
  by (induction m) (auto simp: obj_get_def obj_remove_def)

lemma merge_entries_wf: "obj_wf m \<Longrightarrow> obj_wf (merge_entries m us)"
  by (induction us arbitrary: m) (auto simp: Let_def obj_wf_insert obj_wf_remove)

definition merge_value :: "json option \<Rightarrow> json \<Rightarrow> json" where
  "merge_value old u = (case old of Some v \<Rightarrow> merge_preferences v u | None \<Rightarrow> u)"

text \<open>Lookup after a merge: an updated key holds the merge of its old and new value, every
  other key its old value.\<close>

lemma obj_get_merge_entries:
  "obj_wf m \<Longrightarrow> obj_wf us \<Longrightarrow>
   obj_get k (merge_entries m us) =
     (case obj_get k us of
        Some u \<Rightarrow> Some (merge_value (obj_get k m) u)
      | None \<Rightarrow> obj_get k m)"
proof (induction us arbitrary: m)
  case Nil
  then show ?case by (simp add: obj_get_def)
next
  case (Cons e us)
  obtain j u where e: "e = (j, u)" by (cases e)
  from Cons.prems have us: "obj_wf us" and j: "obj_get j us = None"
    by (auto simp: obj_wf_def e obj_get_def map_of_eq_None_iff)
  let ?m = "obj_insert j (merge_value (obj_get j m) u) (obj_remove j m)"
  have "obj_wf ?m" using Cons.prems by (simp add: obj_wf_insert obj_wf_remove)
  note IH = Cons.IH [OF this us]
  have step: "merge_entries m (e # us) = merge_entries ?m us"
    by (simp add: e merge_value_def Let_def)
  show ?case
    using Cons.prems j unfolding step IH
    by (auto simp: obj_get_insert obj_wf_remove obj_get_remove e split: option.splits)
       (simp_all add: obj_get_def)
qed

subsection \<open>Properties\<close>

fun json_wf :: "json \<Rightarrow> bool" where
  "json_wf (JObject m) = (obj_wf m \<and> (\<forall>e \<in> set m. json_wf (snd e)))"
| "json_wf (JArray xs) = (\<forall>x \<in> set xs. json_wf x)"
| "json_wf _ = True"

lemma obj_get_size: "obj_get k m = Some v \<Longrightarrow> size v < size (JObject m)"
  by (induction m) (auto simp: obj_get_def split: if_splits)

lemma obj_get_mem: "obj_get k m = Some v \<Longrightarrow> (k, v) \<in> set m"
  by (simp add: obj_get_def map_of_SomeD)

lemma obj_ext:
  assumes "obj_wf m" "obj_wf n" "\<And>k. obj_get k m = obj_get k n"
  shows "m = n"
proof -
  have d: "distinct (map fst m)" "distinct (map fst n)" "sorted (map fst m)" "sorted (map fst n)"
    using assms(1,2) by (auto simp: obj_wf_def strict_sorted_iff)
  have "map_of m = map_of n"
    using assms(3) by (auto simp: obj_get_def)
  then have "set m = set n"
    using d(1,2) by (simp add: map_of_inject_set)
  moreover have "inj_on fst (set m)" using d(1) by (simp add: distinct_map)
  ultimately show ?thesis
    using d by (intro map_sorted_distinct_set_unique [of fst]) simp_all
qed

lemma json_wf_get: "json_wf (JObject m) \<Longrightarrow> obj_get k m = Some v \<Longrightarrow> json_wf v"
  using obj_get_mem [of k m v] by force

lemma merge_object: "merge_preferences v (JObject us) =
    (case v of JObject m \<Rightarrow> JObject (merge_entries m us) | _ \<Rightarrow> JObject us)"
  by (cases v) simp_all

lemma merge_non_object: "\<forall>us. u \<noteq> JObject us \<Longrightarrow> merge_preferences v u = u"
  by (cases v; cases u) simp_all

lemma merge_self: "json_wf u \<Longrightarrow> merge_preferences u u = u"
proof (induction "size u" arbitrary: u rule: less_induct)
  case less
  show ?case
  proof (cases "\<exists>us. u = JObject us")
    case True
    then obtain us where u: "u = JObject us" by blast
    have wf: "obj_wf us" using less.prems by (simp add: u)
    have "merge_entries us us = us"
    proof (rule obj_ext [OF merge_entries_wf [OF wf] wf])
      fix k
      have "merge_preferences w w = w" if "obj_get k us = Some w" for w
        by (rule less.hyps) (use obj_get_size [OF that] json_wf_get [OF less.prems [unfolded u] that] in \<open>simp_all add: u\<close>)
      then show "obj_get k (merge_entries us us) = obj_get k us"
        by (simp add: obj_get_merge_entries [OF wf wf] merge_value_def split: option.split)
    qed
    then show ?thesis by (simp add: u)
  next
    case False
    then show ?thesis by (simp add: merge_non_object)
  qed
qed

lemma merge_idem:
  assumes "json_wf v" "json_wf u"
  shows "merge_preferences (merge_preferences v u) u = merge_preferences v u"
  using assms
proof (induction "size u" arbitrary: u v rule: less_induct)
  case less
  show ?case
  proof (cases "\<exists>us m. u = JObject us \<and> v = JObject m")
    case True
    then obtain us m where u: "u = JObject us" and v: "v = JObject m" by blast
    have wf: "obj_wf us" "obj_wf m" using less.prems by (simp_all add: u v)
    note wf' = merge_entries_wf [OF wf(2), of us]
    have "merge_entries (merge_entries m us) us = merge_entries m us"
    proof (rule obj_ext [OF merge_entries_wf [OF wf'] wf'])
      fix k
      have "merge_value (Some (merge_value (obj_get k m) w)) w = merge_value (obj_get k m) w"
        if w: "obj_get k us = Some w" for w
      proof (cases "obj_get k m")
        case None
        then show ?thesis
          using merge_self [OF json_wf_get [OF less.prems(2) [unfolded u] w]] by (simp add: merge_value_def)
      next
        case (Some x)
        have "merge_preferences (merge_preferences x w) w = merge_preferences x w"
          by (rule less.hyps)
             (use obj_get_size [OF w] json_wf_get [OF less.prems(2) [unfolded u] w]
               json_wf_get [OF less.prems(1) [unfolded v] Some] in \<open>simp_all add: u\<close>)
        with Some show ?thesis by (simp add: merge_value_def)
      qed
      then show "obj_get k (merge_entries (merge_entries m us) us) = obj_get k (merge_entries m us)"
        by (simp add: obj_get_merge_entries [OF wf' wf(1)] obj_get_merge_entries [OF wf(2,1)] split: option.split)
    qed
    then show ?thesis by (simp add: u v)
  next
    case False
    then have "merge_preferences v u = u"
      by (cases v; cases u) simp_all
    then show ?thesis by (simp add: merge_self less.prems)
  qed
qed

text \<open>A path into a document, and the paths an update says nothing about.\<close>

fun json_at :: "string list \<Rightarrow> json \<Rightarrow> json option" where
  "json_at [] v = Some v"
| "json_at (k # p) (JObject m) = Option.bind (obj_get k m) (json_at p)"
| "json_at (k # p) _ = None"

fun untouched :: "string list \<Rightarrow> json \<Rightarrow> bool" where
  "untouched (k # p) (JObject us) =
     (case obj_get k us of None \<Rightarrow> True | Some u \<Rightarrow> untouched p u)"
| "untouched _ _ = False"

lemma untouched_absent: "untouched p u \<Longrightarrow> json_at p u = None"
  by (induction p u rule: untouched.induct) (auto split: option.splits)

lemma merge_untouched:
  assumes "json_wf v" "json_wf u" "untouched p u"
  shows "json_at p (merge_preferences v u) = json_at p v"
  using assms
proof (induction p arbitrary: v u)
  case (Cons k p)
  then obtain us where u: "u = JObject us" by (cases u) auto
  show ?case
  proof (cases "\<exists>m. v = JObject m")
    case True
    then obtain m where v: "v = JObject m" by blast
    have wf: "obj_wf us" "obj_wf m" using Cons.prems by (simp_all add: u v)
    show ?thesis
    proof (cases "obj_get k us")
      case None
      then show ?thesis by (simp add: u v obj_get_merge_entries [OF wf(2,1)])
    next
      case (Some w)
      have w: "json_wf w" "untouched p w"
        using Cons.prems(3) Some json_wf_get [OF Cons.prems(2) [unfolded u] Some] by (simp_all add: u)
      show ?thesis
      proof (cases "obj_get k m")
        case None
        then show ?thesis
          using untouched_absent [OF w(2)] Some
          by (simp add: u v obj_get_merge_entries [OF wf(2,1)] merge_value_def)
      next
        case x: (Some x)
        then have "json_wf x" using json_wf_get [OF Cons.prems(1) [unfolded v]] by blast
        with Cons.IH [OF this w] Some x show ?thesis
          by (simp add: u v obj_get_merge_entries [OF wf(2,1)] merge_value_def)
      qed
    qed
  next
    case False
    then have "merge_preferences v u = u" "json_at (k # p) v = None"
      by (cases v; simp add: u)+
    then show ?thesis using untouched_absent [OF Cons.prems(3)] by simp
  qed
qed simp

text \<open>C35: merging application preferences into the stored profile document never discards what
  the update does not mention, at any nesting depth; applying the same update twice is applying
  it once; the result is again an object with ordered keys; and a value that is not an object
  replaces what was there.\<close>

theorem merge_preferences_correct:
  assumes "json_wf v" and "json_wf u"
  shows "(untouched p u \<longrightarrow> json_at p (merge_preferences v u) = json_at p v) \<and>
    merge_preferences (merge_preferences v u) u = merge_preferences v u \<and>
    (\<forall>m us. v = JObject m \<longrightarrow> u = JObject us \<longrightarrow>
       (\<exists>m'. merge_preferences v u = JObject m' \<and> obj_wf m')) \<and>
    ((\<forall>us. u \<noteq> JObject us) \<longrightarrow> merge_preferences v u = u)"
proof (intro conjI)
  show "untouched p u \<longrightarrow> json_at p (merge_preferences v u) = json_at p v"
    using assms merge_untouched by blast
  show "\<forall>m us. v = JObject m \<longrightarrow> u = JObject us \<longrightarrow>
       (\<exists>m'. merge_preferences v u = JObject m' \<and> obj_wf m')"
    using assms(1) by (auto simp: merge_entries_wf)
qed (use assms merge_idem merge_non_object in blast)+

theorem merge_preferences_correct_witness:
  "json_at [''future'', ''n''] (merge_preferences
     (JObject [(''future'', JObject [(''n'', JNumber ''7'')]), (''theme'', JString ''dark'')])
     (JObject [(''theme'', JString ''light'')])) = Some (JNumber ''7'')"
proof -
  let ?v = "JObject [(''future'', JObject [(''n'', JNumber ''7'')]), (''theme'', JString ''dark'')]"
  let ?u = "JObject [(''theme'', JString ''light'')]"
  have "''future'' < ''theme''" by (simp add: less_char_def)
  then have "json_wf ?v" "json_wf ?u" by (simp_all add: obj_wf_def)
  moreover have "untouched [''future'', ''n''] ?u" by (simp add: obj_get_def)
  ultimately have "json_at [''future'', ''n''] (merge_preferences ?v ?u) = json_at [''future'', ''n''] ?v"
    using merge_preferences_correct by blast
  then show ?thesis by (simp only:) (simp add: obj_get_def)
qed

end
