(* ===== verification/Commands.thy ===== *)
theory Commands
  imports Preferences
begin

text \<open>
  The command vocabulary of the engine (\<open>model/command.rs\<close> and \<open>model/command/\<close>): the enum, its
  wire names in both directions, and the versioned JSON payload layer. Decoding JSON text into a
  payload struct is in theory Payloads, with \<open>serde_json\<close> as the fields of \<open>command_codec\<close>; what the engine
  does with a decoded payload is modelled.
\<close>

subsection \<open>The command enum and its wire names\<close>

datatype (plugins only: size) engine_command_type =
    Bootstrap
  | Play
  | Pause
  | SkipPrevious
  | SkipNext
  | StartSession string
  | EndSession
  | RefreshBackendStatus
  | SearchCatalog string page_request
  | BrowseCatalog "string option" "string list" page_request
  | LoadNextCatalogPage string
  | LoadDiscoveryFeed "string list" page_request
  | LoadForYouFeed "string list" page_request
  | LoadRecommendations "string list" page_request
  | LoadNextDiscoveryPage
  | LoadHistorySettings
  | UpdateHistorySettings bool
  | ListHistory page_request
  | LoadNextHistoryPage
  | DeleteHistoryEntry string
  | ClearHistory
  | SaveTrack string
  | RemoveSavedTrack string
  | ListSavedTracks page_request
  | LoadNextSavedTracksPage
  | LikeTrack string
  | UnlikeTrack string
  | ListLikedTracks page_request
  | LoadNextLikedTracksPage
  | CreatePlaylist create_playlist
  | UpdatePlaylist update_playlist
  | DeletePlaylist string
  | ListPlaylists page_request
  | LoadNextPlaylistsPage
  | AddPlaylistTrack string string
  | RemovePlaylistTrack string string
  | ListPlaylistTracks string page_request
  | LoadNextPlaylistTracksPage
  | ReorderPlaylistTracks string "string list" u64
  | GetAccount
  | DeleteAccount
  | ListDeviceSessions page_request
  | LoadNextDeviceSessionsPage
  | RevokeDeviceSession string
  | SetSpeed f32
  | Seek u64
  | UpdateConfig engine_config
  | HydrateThemePreference theme_preference
  | SetThemePreference theme_preference
  | ApplyRemoteThemePreference theme_preference string u64
  | UpsertProfile "string option"
  | GetProfile
  | UpdateProfile profile_update
  | DeleteProfile
  | LoadProfilePreferences
  | UpdateProfilePreferences json_map
  | VoicePlay string
  | StartVoiceInteraction
  | StopVoiceInteraction
  | ProcessVoiceAudio "16 word list"
  | PlayMediaById string
  | PlayQueue "string list" usize
  | SetSleepTimer "u64 option"
  | UnknownCommand string

primrec command_as_wire :: "engine_command_type \<Rightarrow> string" where
  "command_as_wire Bootstrap = ''bootstrap''"
| "command_as_wire Play = ''play''"
| "command_as_wire Pause = ''pause''"
| "command_as_wire SkipPrevious = ''skip_previous''"
| "command_as_wire SkipNext = ''skip_next''"
| "command_as_wire (StartSession _) = ''start_session''"
| "command_as_wire EndSession = ''end_session''"
| "command_as_wire RefreshBackendStatus = ''refresh_backend_status''"
| "command_as_wire (SearchCatalog _ _) = ''search''"
| "command_as_wire (BrowseCatalog _ _ _) = ''browse''"
| "command_as_wire (LoadNextCatalogPage _) = ''load_next_catalog_page''"
| "command_as_wire (LoadDiscoveryFeed _ _) = ''load_discovery_feed''"
| "command_as_wire (LoadForYouFeed _ _) = ''load_for_you_feed''"
| "command_as_wire (LoadRecommendations _ _) = ''load_recommendations''"
| "command_as_wire LoadNextDiscoveryPage = ''load_next_discovery_page''"
| "command_as_wire LoadHistorySettings = ''load_history_settings''"
| "command_as_wire (UpdateHistorySettings _) = ''update_history_settings''"
| "command_as_wire (ListHistory _) = ''list_history''"
| "command_as_wire LoadNextHistoryPage = ''load_next_history_page''"
| "command_as_wire (DeleteHistoryEntry _) = ''delete_history_entry''"
| "command_as_wire ClearHistory = ''clear_history''"
| "command_as_wire (SaveTrack _) = ''save_track''"
| "command_as_wire (RemoveSavedTrack _) = ''remove_saved_track''"
| "command_as_wire (ListSavedTracks _) = ''list_saved_tracks''"
| "command_as_wire LoadNextSavedTracksPage = ''load_next_saved_tracks_page''"
| "command_as_wire (LikeTrack _) = ''like_track''"
| "command_as_wire (UnlikeTrack _) = ''unlike_track''"
| "command_as_wire (ListLikedTracks _) = ''list_liked_tracks''"
| "command_as_wire LoadNextLikedTracksPage = ''load_next_liked_tracks_page''"
| "command_as_wire (CreatePlaylist _) = ''create_playlist''"
| "command_as_wire (UpdatePlaylist _) = ''update_playlist''"
| "command_as_wire (DeletePlaylist _) = ''delete_playlist''"
| "command_as_wire (ListPlaylists _) = ''list_playlists''"
| "command_as_wire LoadNextPlaylistsPage = ''load_next_playlists_page''"
| "command_as_wire (AddPlaylistTrack _ _) = ''add_playlist_track''"
| "command_as_wire (RemovePlaylistTrack _ _) = ''remove_playlist_track''"
| "command_as_wire (ListPlaylistTracks _ _) = ''list_playlist_tracks''"
| "command_as_wire LoadNextPlaylistTracksPage = ''load_next_playlist_tracks_page''"
| "command_as_wire (ReorderPlaylistTracks _ _ _) = ''reorder_playlist_tracks''"
| "command_as_wire GetAccount = ''get_account''"
| "command_as_wire DeleteAccount = ''delete_account''"
| "command_as_wire (ListDeviceSessions _) = ''list_device_sessions''"
| "command_as_wire LoadNextDeviceSessionsPage = ''load_next_device_sessions_page''"
| "command_as_wire (RevokeDeviceSession _) = ''revoke_device_session''"
| "command_as_wire (SetSpeed _) = ''set_speed''"
| "command_as_wire (Seek _) = ''seek''"
| "command_as_wire (UpdateConfig _) = ''update_config''"
| "command_as_wire (HydrateThemePreference _) = ''hydrate_theme_preference''"
| "command_as_wire (SetThemePreference _) = ''set_theme_preference''"
| "command_as_wire (ApplyRemoteThemePreference _ _ _) = ''apply_remote_theme_preference''"
| "command_as_wire (UpsertProfile _) = ''upsert_profile''"
| "command_as_wire GetProfile = ''get_profile''"
| "command_as_wire (UpdateProfile _) = ''update_profile''"
| "command_as_wire DeleteProfile = ''delete_profile''"
| "command_as_wire LoadProfilePreferences = ''load_profile_preferences''"
| "command_as_wire (UpdateProfilePreferences _) = ''update_profile_preferences''"
| "command_as_wire (VoicePlay _) = ''voice_play''"
| "command_as_wire StartVoiceInteraction = ''start_voice_interaction''"
| "command_as_wire StopVoiceInteraction = ''stop_voice_interaction''"
| "command_as_wire (ProcessVoiceAudio _) = ''process_voice_audio''"
| "command_as_wire (PlayMediaById _) = ''play_media_by_id''"
| "command_as_wire (PlayQueue _ _) = ''play_queue''"
| "command_as_wire (SetSleepTimer _) = ''set_sleep_timer''"
| "command_as_wire (UnknownCommand value) = value"

definition command_from_wire :: "string \<Rightarrow> engine_command_type" where
  "command_from_wire value =
     (if value = ''bootstrap'' then Bootstrap
     else if value = ''play'' then Play
     else if value = ''pause'' then Pause
     else if value = ''skip_previous'' then SkipPrevious
     else if value = ''skip_next'' then SkipNext
     else if value = ''start_session'' then StartSession ''unknown''
     else if value = ''end_session'' then EndSession
     else if value = ''refresh_backend_status'' then RefreshBackendStatus
     else if value = ''search'' then SearchCatalog [] page_request_default
     else if value = ''browse'' then BrowseCatalog None [] page_request_default
     else if value = ''load_next_catalog_page'' then LoadNextCatalogPage []
     else if value = ''load_discovery_feed'' then LoadDiscoveryFeed [] page_request_default
     else if value = ''load_for_you_feed'' then LoadForYouFeed [] page_request_default
     else if value = ''load_recommendations'' then LoadRecommendations [] page_request_default
     else if value = ''load_next_discovery_page'' then LoadNextDiscoveryPage
     else if value = ''load_history_settings'' then LoadHistorySettings
     else if value = ''update_history_settings'' then UpdateHistorySettings False
     else if value = ''list_history'' then ListHistory page_request_default
     else if value = ''load_next_history_page'' then LoadNextHistoryPage
     else if value = ''delete_history_entry'' then DeleteHistoryEntry []
     else if value = ''clear_history'' then ClearHistory
     else if value = ''save_track'' then SaveTrack []
     else if value = ''remove_saved_track'' then RemoveSavedTrack []
     else if value = ''list_saved_tracks'' then ListSavedTracks page_request_default
     else if value = ''load_next_saved_tracks_page'' then LoadNextSavedTracksPage
     else if value = ''like_track'' then LikeTrack []
     else if value = ''unlike_track'' then UnlikeTrack []
     else if value = ''list_liked_tracks'' then ListLikedTracks page_request_default
     else if value = ''load_next_liked_tracks_page'' then LoadNextLikedTracksPage
     else if value = ''create_playlist'' then CreatePlaylist \<lparr>cp_name = [], cp_description = None\<rparr>
     else if value = ''update_playlist'' then UpdatePlaylist \<lparr>up_id = [], up_name = [], up_description = None, up_expected_revision = 0\<rparr>
     else if value = ''delete_playlist'' then DeletePlaylist []
     else if value = ''list_playlists'' then ListPlaylists page_request_default
     else if value = ''load_next_playlists_page'' then LoadNextPlaylistsPage
     else if value = ''add_playlist_track'' then AddPlaylistTrack [] []
     else if value = ''remove_playlist_track'' then RemovePlaylistTrack [] []
     else if value = ''list_playlist_tracks'' then ListPlaylistTracks [] page_request_default
     else if value = ''load_next_playlist_tracks_page'' then LoadNextPlaylistTracksPage
     else if value = ''reorder_playlist_tracks'' then ReorderPlaylistTracks [] [] 0
     else if value = ''get_account'' then GetAccount
     else if value = ''delete_account'' then DeleteAccount
     else if value = ''list_device_sessions'' then ListDeviceSessions page_request_default
     else if value = ''load_next_device_sessions_page'' then LoadNextDeviceSessionsPage
     else if value = ''revoke_device_session'' then RevokeDeviceSession []
     else if value = ''set_speed'' then SetSpeed (Fin 1)
     else if value = ''seek'' then Seek 0
     else if value = ''update_config'' then UpdateConfig engine_config_default
     else if value = ''hydrate_theme_preference'' then HydrateThemePreference SystemDefault
     else if value = ''set_theme_preference'' then SetThemePreference SystemDefault
     else if value = ''apply_remote_theme_preference'' then ApplyRemoteThemePreference SystemDefault [] 0
     else if value = ''upsert_profile'' then UpsertProfile None
     else if value = ''get_profile'' then GetProfile
     else if value = ''update_profile'' then UpdateProfile \<lparr>pu_display_name = None\<rparr>
     else if value = ''delete_profile'' then DeleteProfile
     else if value = ''load_profile_preferences'' then LoadProfilePreferences
     else if value = ''update_profile_preferences'' then UpdateProfilePreferences []
     else if value = ''voice_play'' then VoicePlay []
     else if value = ''start_voice_interaction'' then StartVoiceInteraction
     else if value = ''stop_voice_interaction'' then StopVoiceInteraction
     else if value = ''process_voice_audio'' then ProcessVoiceAudio []
     else if value = ''play_media_by_id'' then PlayMediaById []
     else if value = ''play_queue'' then PlayQueue [] 0
     else if value = ''set_sleep_timer'' then SetSleepTimer None
     else UnknownCommand value)"

text \<open>Equality of commands is the structural one; the instance keeps it out of the code generator,
  where the quadratic case distinction would dominate.\<close>

instantiation engine_command_type :: equal
begin

definition equal_engine_command_type :: "engine_command_type \<Rightarrow> engine_command_type \<Rightarrow> bool" where
  "equal_engine_command_type a b \<longleftrightarrow> a = b"

instance
  by standard (simp add: equal_engine_command_type_def)

end

record engine_command =
  command_type :: engine_command_type
  command_payload :: "string option"

definition engine_command_new :: "engine_command_type \<Rightarrow> string option \<Rightarrow> engine_command" where
  "engine_command_new ty payload = \<lparr>command_type = ty, command_payload = payload\<rparr>"

text \<open>Every wire value survives the way through the enum, known or not.\<close>

lemma as_wire_if:
  "(value = wire \<Longrightarrow> command_as_wire a = value) \<Longrightarrow> command_as_wire b = value \<Longrightarrow>
   command_as_wire (if value = wire then a else b) = value"
  by simp

lemma command_as_wire_from_wire: "command_as_wire (command_from_wire value) = value"
  unfolding command_from_wire_def by (intro as_wire_if) simp_all

end
