(* ===== verification/Playback.thy ===== *)
theory Playback
  imports Commands
begin

text \<open>
  Playback status, restrictions and controls (\<open>model/playback.rs\<close>), effects and events
  (\<open>model/effect.rs\<close>, \<open>model/event.rs\<close>), platform events (\<open>model/platform_event.rs\<close>) and the
  playback state machine (\<open>engine/state_machine.rs\<close>) with its transition relation, reachable
  states and the laws of its two transition functions.
\<close>

datatype playback_state = Idle | Playing | Paused | Buffering | Recovering | Ended | PlaybackError

fun playback_state_as_wire :: "playback_state \<Rightarrow> string" where
  "playback_state_as_wire Idle = ''idle''"
| "playback_state_as_wire Playing = ''playing''"
| "playback_state_as_wire Paused = ''paused''"
| "playback_state_as_wire Buffering = ''buffering''"
| "playback_state_as_wire Recovering = ''recovering''"
| "playback_state_as_wire Ended = ''ended''"
| "playback_state_as_wire PlaybackError = ''error''"

datatype restriction_state = RestrictionUnknown | Unrestricted | Restricted

definition restriction_state_from_wire :: "string \<Rightarrow> restriction_state" where
  "restriction_state_from_wire value =
     (if value = ''unrestricted'' then Unrestricted
      else if value = ''restricted'' then Restricted
      else RestrictionUnknown)"

datatype driving_state = DrivingUnknown | Parked | Idling | Moving

definition driving_state_from_wire :: "string \<Rightarrow> driving_state" where
  "driving_state_from_wire value =
     (if value = ''parked'' then Parked
      else if value = ''idling'' then Idling
      else if value = ''moving'' then Moving
      else DrivingUnknown)"

record control_state =
  is_visible :: bool
  is_enabled :: bool
  is_active :: bool

record player_controls =
  play_pause :: control_state
  skip_next :: control_state
  skip_prev :: control_state
  show_play_icon :: bool

definition control_state_default :: control_state where
  "control_state_default = \<lparr>is_visible = False, is_enabled = False, is_active = False\<rparr>"

definition player_controls_default :: player_controls where
  "player_controls_default =
     \<lparr>play_pause = control_state_default, skip_next = control_state_default,
      skip_prev = control_state_default, show_play_icon = False\<rparr>"

record playback_source =
  ps_track_id :: string
  ps_url :: string
  ps_content_type :: string
  ps_codec :: string
  ps_duration_millis :: u64
  ps_expires_at_epoch_millis :: u64

record media_session =
  ms_session_id :: string
  ms_user_id :: string
  ms_is_active :: bool
  ms_created_at_epoch_millis :: u64

definition media_session_new :: "string \<Rightarrow> string \<Rightarrow> u64 \<Rightarrow> media_session" where
  "media_session_new session_id user_id now =
     \<lparr>ms_session_id = session_id, ms_user_id = user_id, ms_is_active = True,
      ms_created_at_epoch_millis = now\<rparr>"

subsection \<open>Backend status\<close>

record dependency_status =
  ds_name :: string
  ds_status :: string
  ds_message :: string

record backend_status =
  bs_healthy :: bool
  bs_version :: string
  bs_status :: string
  bs_dependencies :: "dependency_status list"
  bs_checked_at_epoch_millis :: "u64 option"

datatype backend_unavailable_reason =
  NetworkUnavailable | ConnectionFailed | Timeout | ServiceUnavailable

datatype backend_availability =
  Connecting | BackendAvailable | BackendUnavailable backend_unavailable_reason

definition unavailable_reason :: "engine_error \<Rightarrow> backend_unavailable_reason" where
  "unavailable_reason error =
     (case error_type error of
        NetworkError \<Rightarrow> NetworkUnavailable
      | Transport \<Rightarrow> Timeout
      | ServiceUnavailableError \<Rightarrow> ServiceUnavailable
      | _ \<Rightarrow> ConnectionFailed)"

subsection \<open>Effects, events, platform events\<close>

datatype engine_effect =
    PlayEffect | PauseEffect | StopEffect | SeekEffect u64 | SetSpeedEffect f32
  | SessionStarted string | SessionEnded | NotifyUser string
  | StartAudioCapture | StopAudioCapture | DuckAudio | UnduckAudio
  | PreparePlaybackSource string u64 u64
  | RecreatePlayerAndLoad string u64 u64
  | UpdateMetadata string string string

datatype engine_event_type =
  CommandApplied | PlatformEventApplied | ListenerRegistered | AnalyticsReported

record engine_event =
  event_type :: engine_event_type
  event_message :: "string option"

definition command_applied :: "string option \<Rightarrow> engine_event" where
  "command_applied message = \<lparr>event_type = CommandApplied, event_message = message\<rparr>"

definition platform_event_applied :: "string option \<Rightarrow> engine_event" where
  "platform_event_applied message = \<lparr>event_type = PlatformEventApplied, event_message = message\<rparr>"

definition analytics_reported :: "string \<Rightarrow> engine_event" where
  "analytics_reported payload = \<lparr>event_type = AnalyticsReported, event_message = Some payload\<rparr>"

datatype platform_event_type =
    AppForegrounded | AppBackgrounded | SuspendToRam | ResumeFromRam | UxRestrictionsChanged
  | VehicleDrivingStateChanged | MediaButtonPressed | MediaLoaded | MediaError
  | PlaybackCompleted | PlaybackPositionCheckpoint | UnknownPlatformEvent string

definition platform_event_from_wire :: "string \<Rightarrow> platform_event_type" where
  "platform_event_from_wire value =
     (if value = ''app_foregrounded'' then AppForegrounded
      else if value = ''app_backgrounded'' then AppBackgrounded
      else if value = ''suspend_to_ram'' then SuspendToRam
      else if value = ''resume_from_ram'' then ResumeFromRam
      else if value = ''ux_restrictions_changed'' then UxRestrictionsChanged
      else if value = ''vehicle_driving_state_changed'' then VehicleDrivingStateChanged
      else if value = ''media_button_pressed'' then MediaButtonPressed
      else if value = ''media_loaded'' then MediaLoaded
      else if value = ''media_error'' then MediaError
      else if value = ''playback_completed'' then PlaybackCompleted
      else if value = ''playback_position_checkpoint'' then PlaybackPositionCheckpoint
      else UnknownPlatformEvent value)"

fun platform_event_as_wire :: "platform_event_type \<Rightarrow> string" where
  "platform_event_as_wire AppForegrounded = ''app_foregrounded''"
| "platform_event_as_wire AppBackgrounded = ''app_backgrounded''"
| "platform_event_as_wire SuspendToRam = ''suspend_to_ram''"
| "platform_event_as_wire ResumeFromRam = ''resume_from_ram''"
| "platform_event_as_wire UxRestrictionsChanged = ''ux_restrictions_changed''"
| "platform_event_as_wire VehicleDrivingStateChanged = ''vehicle_driving_state_changed''"
| "platform_event_as_wire MediaButtonPressed = ''media_button_pressed''"
| "platform_event_as_wire MediaLoaded = ''media_loaded''"
| "platform_event_as_wire MediaError = ''media_error''"
| "platform_event_as_wire PlaybackCompleted = ''playback_completed''"
| "platform_event_as_wire PlaybackPositionCheckpoint = ''playback_position_checkpoint''"
| "platform_event_as_wire (UnknownPlatformEvent value) = value"

lemma platform_event_as_wire_from_wire:
  "platform_event_as_wire (platform_event_from_wire value) = value"
  by (simp add: platform_event_from_wire_def)

record platform_event =
  pe_type :: platform_event_type
  pe_payload :: "string option"

record playback_observation =
  po_version :: "8 word"
  po_playback_instance_id :: u64
  po_kind :: "string option"
  po_position_ms :: "u64 option"
  po_decoder :: "string option"
  po_error_code :: "32 word option"
  po_phase :: "string option"
  po_play_when_ready :: "bool option"
  po_duration_ms :: "u64 option"

subsection \<open>The playback state machine\<close>

definition next_state_from_command :: "playback_state \<Rightarrow> engine_command_type \<Rightarrow> playback_state" where
  "next_state_from_command current command =
     (case current of
        Idle \<Rightarrow> (case command of Play \<Rightarrow> Buffering | Bootstrap \<Rightarrow> Idle | _ \<Rightarrow> current)
      | Buffering \<Rightarrow> (case command of Pause \<Rightarrow> Paused | _ \<Rightarrow> Buffering)
      | Recovering \<Rightarrow> (case command of Pause \<Rightarrow> Paused | _ \<Rightarrow> Recovering)
      | Playing \<Rightarrow> (case command of Pause \<Rightarrow> Paused | _ \<Rightarrow> current)
      | Paused \<Rightarrow> (case command of Play \<Rightarrow> Playing | _ \<Rightarrow> current)
      | PlaybackError \<Rightarrow> (case command of Play \<Rightarrow> Buffering | _ \<Rightarrow> current)
      | Ended \<Rightarrow> (case command of Play \<Rightarrow> Buffering | SkipPrevious \<Rightarrow> Buffering | _ \<Rightarrow> current))"

definition next_state_from_platform_event ::
  "playback_state \<Rightarrow> platform_event_type \<Rightarrow> playback_state" where
  "next_state_from_platform_event current event =
     (case (current, event) of
        (Buffering, MediaLoaded) \<Rightarrow> Playing
      | (Buffering, MediaError) \<Rightarrow> PlaybackError
      | (Recovering, MediaLoaded) \<Rightarrow> Playing
      | (Recovering, MediaError) \<Rightarrow> PlaybackError
      | (Playing, MediaError) \<Rightarrow> PlaybackError
      | (PlaybackError, MediaLoaded) \<Rightarrow> Playing
      | (_, SuspendToRam) \<Rightarrow> Paused
      | (s, _) \<Rightarrow> s)"

lemmas state_machine_defs = next_state_from_command_def next_state_from_platform_event_def

lemma playback_state_as_wire_inject [simp]:
  "playback_state_as_wire a = playback_state_as_wire b \<longleftrightarrow> a = b"
  by (cases a; cases b) simp_all

datatype transport_input = CommandInput engine_command_type | PlatformInput platform_event_type

fun next_state :: "playback_state \<Rightarrow> transport_input \<Rightarrow> playback_state" where
  "next_state st (CommandInput c) = next_state_from_command st c"
| "next_state st (PlatformInput ev) = next_state_from_platform_event st ev"

text \<open>The labelled transitions of the state machine, and the states a sequence of inputs leads
  to.\<close>

inductive transport_step :: "playback_state \<Rightarrow> transport_input \<Rightarrow> playback_state \<Rightarrow> bool" where
  transport_step: "next_state st i = st' \<Longrightarrow> transport_step st i st'"

inductive transport_run :: "playback_state \<Rightarrow> transport_input list \<Rightarrow> playback_state \<Rightarrow> bool" where
  run_nil: "transport_run st [] st"
| run_step: "transport_run st is st' \<Longrightarrow> transport_step st' i st'' \<Longrightarrow> transport_run st (is @ [i]) st''"

inductive_simps transport_step_iff [simp]: "transport_step st i st'"

inductive_cases transport_run_snocE: "transport_run st (is @ [i]) st''"

lemma transport_run_foldl: "transport_run st is st' \<Longrightarrow> st' = foldl next_state st is"
  by (induction rule: transport_run.induct) auto

lemma foldl_transport_run: "transport_run st is (foldl next_state st is)"
  by (induction "is" rule: rev_induct) (auto intro: transport_run.intros)

lemma platform_cases:
  "next_state_from_platform_event st ev =
     (if ev = SuspendToRam then Paused
      else if ev = MediaLoaded \<and> st \<in> {Buffering, Recovering, PlaybackError} then Playing
      else if ev = MediaError \<and> st \<in> {Buffering, Recovering, Playing} then PlaybackError
      else st)"
  by (cases st; cases ev; simp add: next_state_from_platform_event_def)

lemma command_cases:
  "next_state_from_command st c =
     (if c = Play \<and> st \<in> {Idle, PlaybackError, Ended} \<or> c = SkipPrevious \<and> st = Ended then Buffering
      else if c = Play \<and> st = Paused then Playing
      else if c = Pause \<and> st \<in> {Playing, Buffering, Recovering} then Paused
      else st)"
  by (cases st; cases c; simp add: next_state_from_command_def)

subsection \<open>Properties\<close>

text \<open>The states of the transport. Whatever commands and platform events arrive, the state
  machine started in \<open>Idle\<close> never reaches \<open>Recovering\<close> or \<open>Ended\<close> (only the engine's recovery and
  completion code enters them); it reaches \<open>Playing\<close> only through a \<open>MediaLoaded\<close> event or by
  resuming with Play from a pause; and its run is a function of the inputs.\<close>

lemma transport_reachable:
  assumes "transport_run Idle is st"
  shows "st \<notin> {Recovering, Ended} \<and> st = foldl next_state Idle is \<and>
    (st = Playing \<longrightarrow> PlatformInput MediaLoaded \<in> set is \<or>
       CommandInput Play \<in> set is \<and> (CommandInput Pause \<in> set is \<or> PlatformInput SuspendToRam \<in> set is))"
proof -
  have "st \<notin> {Recovering, Ended} \<and>
    (st = Playing \<longrightarrow> PlatformInput MediaLoaded \<in> set is \<or>
       CommandInput Play \<in> set is \<and> (CommandInput Pause \<in> set is \<or> PlatformInput SuspendToRam \<in> set is)) \<and>
    (st = Paused \<longrightarrow> CommandInput Pause \<in> set is \<or> PlatformInput SuspendToRam \<in> set is)"
    using assms
  proof (induction Idle "is" st rule: transport_run.induct)
    case (run_step "is" st' i st'')
    then show ?case
      by (cases i) (auto simp: platform_cases command_cases split: if_splits)
  qed simp
  with transport_run_foldl [OF assms] show ?thesis by simp
qed

lemma transport_reachable_witness:
  "foldl next_state Idle [CommandInput Play, PlatformInput MediaLoaded] = Playing \<and>
   PlatformInput MediaLoaded \<in> set [CommandInput Play, PlatformInput MediaLoaded]"
proof -
  have "foldl next_state Idle [CommandInput Play, PlatformInput MediaLoaded] = Playing"
    by (simp add: state_machine_defs)
  then show ?thesis
    using transport_reachable [OF foldl_transport_run [of Idle "[CommandInput Play, PlatformInput MediaLoaded]"]]
    by simp
qed

text \<open>Stopping always works. Pause in any active state and a suspend to RAM in any state
  leave the transport paused, and from then on only Play, or a device that loads or fails a
  medium after Play, changes it: without a Play command it stays paused.\<close>

lemma pause_and_suspend_stop:
  assumes "i = PlatformInput SuspendToRam \<or>
      i = CommandInput Pause \<and> st \<in> {Playing, Buffering, Recovering, Paused}"
    and "CommandInput Play \<notin> set is"
  shows "transport_run st (i # is) Paused"
proof -
  have "next_state st i = Paused"
    using assms(1) by (auto simp: platform_cases command_cases)
  moreover have "foldl next_state Paused is = Paused"
    using assms(2)
  proof (induction "is")
    case (Cons j "is")
    then have "next_state Paused j = Paused"
      by (cases j) (auto simp: platform_cases command_cases)
    with Cons show ?case by simp
  qed simp
  ultimately show ?thesis
    using foldl_transport_run [of st "i # is"] by simp
qed

lemma pause_and_suspend_stop_witness:
  "transport_run Playing [PlatformInput SuspendToRam, PlatformInput MediaLoaded, CommandInput SkipNext] Paused"
  by (rule pause_and_suspend_stop) simp_all

text \<open>Wire names are faithful. Every command and platform event name survives the way
  through its enum, unknown names included; theme names round-trip; playback states and theme
  preferences have distinct names.\<close>

lemma wire_names_roundtrip:
  "command_as_wire (command_from_wire v) = v \<and> platform_event_as_wire (platform_event_from_wire v) = v \<and>
   theme_from_wire (theme_as_wire t) = Some t \<and>
   (playback_state_as_wire a = playback_state_as_wire b \<longleftrightarrow> a = b)"
  by (simp add: command_as_wire_from_wire platform_event_as_wire_from_wire)

end
