(* ===== verification/Queue.thy ===== *)
theory Queue
  imports Playback
begin

text \<open>
  The playback queue (\<open>data/queue/manager.rs\<close>): items, cursor, repeat mode and generation, one
  definition per method. The locale \<open>play_queue\<close> states what the dispatcher relies on: moving
  the cursor never changes the items, a move that yields nothing changes nothing, and a
  selected item is the item under the cursor.
\<close>

datatype repeat_mode = RepeatNone | RepeatOne | RepeatAll

record queue_manager =
  q_items :: "media_item list"
  q_current_index :: "usize option"
  q_shuffle_enabled :: bool
  q_repeat_mode :: repeat_mode
  q_generation :: u64

definition queue_default :: queue_manager where
  "queue_default =
     \<lparr>q_items = [], q_current_index = None, q_shuffle_enabled = False,
      q_repeat_mode = RepeatNone, q_generation = 0\<rparr>"

definition queue_new :: "media_item list \<Rightarrow> queue_manager" where
  "queue_new items =
     \<lparr>q_items = items, q_current_index = None, q_shuffle_enabled = False,
      q_repeat_mode = RepeatNone, q_generation = (if items = [] then 0 else 1)\<rparr>"

text \<open>\<open>Vec::get\<close>.\<close>

definition vec_get :: "'a list \<Rightarrow> usize \<Rightarrow> 'a option" where
  "vec_get xs i = (if i < length xs then Some (xs ! i) else None)"

definition current_item :: "queue_manager \<Rightarrow> media_item option" where
  "current_item q = Option.bind (q_current_index q) (vec_get (q_items q))"

definition set_current_index :: "usize \<Rightarrow> queue_manager \<Rightarrow> queue_manager" where
  "set_current_index index q =
     (if index < length (q_items q) then q\<lparr>q_current_index := Some index\<rparr> else q)"

definition unwrap_or :: "'a option \<Rightarrow> 'a \<Rightarrow> 'a" where
  "unwrap_or m d = (case m of None \<Rightarrow> d | Some a \<Rightarrow> a)"

lemma unwrap_or_simps [simp]: "unwrap_or None d = d" "unwrap_or (Some a) d = a"
  by (simp_all add: unwrap_or_def)

definition next_item :: "queue_manager \<Rightarrow> media_item option \<times> queue_manager" where
  "next_item q =
     (if q_items q = [] then (None, q)
      else let current = unwrap_or (q_current_index q) 0;
               target = (case q_repeat_mode q of
                           RepeatOne \<Rightarrow> Some current
                         | RepeatAll \<Rightarrow> Some ((current + 1) mod length (q_items q))
                         | RepeatNone \<Rightarrow>
                             (if current + 1 < length (q_items q) then Some (current + 1) else None))
           in case target of
                None \<Rightarrow> (None, q)
              | Some n \<Rightarrow> let q' = q\<lparr>q_current_index := Some n\<rparr> in (current_item q', q'))"

definition previous_item :: "queue_manager \<Rightarrow> media_item option \<times> queue_manager" where
  "previous_item q =
     (if q_items q = [] then (None, q)
      else let current = unwrap_or (q_current_index q) 0;
               target = (if current = 0
                         then (if q_repeat_mode q = RepeatAll then Some (length (q_items q) - 1)
                               else None)
                         else Some (current - 1))
           in case target of
                None \<Rightarrow> (None, q)
              | Some n \<Rightarrow> let q' = q\<lparr>q_current_index := Some n\<rparr> in (current_item q', q'))"

definition set_shuffle :: "bool \<Rightarrow> queue_manager \<Rightarrow> queue_manager" where
  "set_shuffle enabled q = q\<lparr>q_shuffle_enabled := enabled\<rparr>"

definition set_repeat_mode :: "repeat_mode \<Rightarrow> queue_manager \<Rightarrow> queue_manager" where
  "set_repeat_mode mode q = q\<lparr>q_repeat_mode := mode\<rparr>"

definition set_items :: "media_item list \<Rightarrow> queue_manager \<Rightarrow> queue_manager" where
  "set_items items q =
     q\<lparr>q_items := items, q_current_index := (if items = [] then None else Some 0),
       q_generation := sat_add (q_generation q) 1\<rparr>"

definition queue_len :: "queue_manager \<Rightarrow> usize" where
  "queue_len q = length (q_items q)"

definition has_next :: "queue_manager \<Rightarrow> bool" where
  "has_next q =
     (if q_items q = [] then False
      else if q_repeat_mode q \<noteq> RepeatNone then True
      else unwrap_or (q_current_index q) 0 + 1 < length (q_items q))"

definition has_previous :: "queue_manager \<Rightarrow> bool" where
  "has_previous q =
     (if q_items q = [] then False
      else if q_repeat_mode q \<noteq> RepeatNone then True
      else 0 < unwrap_or (q_current_index q) 0)"

definition has_current :: "queue_manager \<Rightarrow> bool" where
  "has_current q = (current_item q \<noteq> None)"

lemmas queue_op_defs =
  next_item_def previous_item_def set_current_index_def set_items_def set_shuffle_def
  set_repeat_mode_def current_item_def vec_get_def has_next_def has_previous_def has_current_def

subsection \<open>Cursor invariant\<close>

definition queue_wf :: "queue_manager \<Rightarrow> bool" where
  "queue_wf q = (case q_current_index q of None \<Rightarrow> True | Some i \<Rightarrow> i < length (q_items q))"

datatype queue_op =
    QNext | QPrevious | QSetCurrent usize | QSetItems "media_item list"
  | QSetShuffle bool | QSetRepeat repeat_mode

fun queue_step :: "queue_op \<Rightarrow> queue_manager \<Rightarrow> queue_manager" where
  "queue_step QNext q = snd (next_item q)"
| "queue_step QPrevious q = snd (previous_item q)"
| "queue_step (QSetCurrent i) q = set_current_index i q"
| "queue_step (QSetItems xs) q = set_items xs q"
| "queue_step (QSetShuffle b) q = set_shuffle b q"
| "queue_step (QSetRepeat m) q = set_repeat_mode m q"

lemma queue_wf_default [simp]: "queue_wf queue_default"
  by (simp add: queue_wf_def queue_default_def)

lemma queue_wf_new [simp]: "queue_wf (queue_new items)"
  by (simp add: queue_wf_def queue_new_def)

lemma next_item_move:
  assumes "queue_wf q"
  shows "next_item q = (None, q) \<and> \<not> has_next q \<or>
    (\<exists>n < length (q_items q). next_item q = (Some (q_items q ! n), q\<lparr>q_current_index := Some n\<rparr>)) \<and> has_next q"
proof (cases "q_items q = []")
  case True
  then show ?thesis by (simp add: next_item_def has_next_def)
next
  case False
  define c where "c = unwrap_or (q_current_index q) 0"
  have c: "c < length (q_items q)"
    using assms False by (auto simp: c_def queue_wf_def split: option.splits)
  have m: "(c + 1) mod length (q_items q) < length (q_items q)" using False by simp
  define n where "n = (c + 1) mod length (q_items q)"
  show ?thesis
    using False c m unfolding next_item_def has_next_def Let_def c_def [symmetric] n_def [symmetric]
    by (cases "q_repeat_mode q") (auto simp: current_item_def vec_get_def)
qed

lemma queue_wf_next: "queue_wf q \<Longrightarrow> queue_wf (snd (next_item q))"
  by (frule next_item_move, elim disjE conjE exE) (simp_all add: queue_wf_def cong: option.case_cong)

lemma queue_wf_previous: "queue_wf q \<Longrightarrow> queue_wf (snd (previous_item q))"
  by (auto simp: queue_wf_def previous_item_def Let_def split: option.splits)

lemma queue_wf_set_current: "queue_wf q \<Longrightarrow> queue_wf (set_current_index i q)"
  by (simp add: queue_wf_def set_current_index_def)

lemma queue_wf_set_items [simp]: "queue_wf (set_items items q)"
  by (simp add: queue_wf_def set_items_def)

lemma queue_wf_set_shuffle: "queue_wf q \<Longrightarrow> queue_wf (set_shuffle b q)"
  by (simp add: queue_wf_def set_shuffle_def cong: option.case_cong)

lemma queue_wf_set_repeat_mode: "queue_wf q \<Longrightarrow> queue_wf (set_repeat_mode m q)"
  by (simp add: queue_wf_def set_repeat_mode_def cong: option.case_cong)

lemma queue_step_wf: "queue_wf q \<Longrightarrow> queue_wf (queue_step op q)"
  by (cases op) (simp_all add: queue_wf_next queue_wf_previous queue_wf_set_current
      queue_wf_set_shuffle queue_wf_set_repeat_mode)

lemma queue_run_wf: "queue_wf q \<Longrightarrow> queue_wf (fold queue_step ops q)"
  by (induction ops arbitrary: q) (auto simp: queue_step_wf)

lemma queue_items_move [simp]:
  "q_items (snd (next_item q)) = q_items q"
  "q_items (snd (previous_item q)) = q_items q"
  "q_items (set_current_index i q) = q_items q"
  by (auto simp: next_item_def previous_item_def set_current_index_def Let_def
      split: option.splits repeat_mode.splits)

lemma queue_generation_move [simp]:
  "q_generation (snd (next_item q)) = q_generation q"
  "q_generation (snd (previous_item q)) = q_generation q"
  "q_generation (set_current_index i q) = q_generation q"
  by (auto simp: next_item_def previous_item_def set_current_index_def Let_def
      split: option.splits repeat_mode.splits)

lemma queue_repeat_mode_move [simp]:
  "q_repeat_mode (snd (next_item q)) = q_repeat_mode q"
  "q_repeat_mode (snd (previous_item q)) = q_repeat_mode q"
  by (auto simp: next_item_def previous_item_def Let_def split: option.splits repeat_mode.splits)

lemma next_item_target:
  assumes "queue_wf q" and "q_current_index q = Some i"
  shows "next_item q =
    (case q_repeat_mode q of
       RepeatOne \<Rightarrow> (Some (q_items q ! i), q)
     | RepeatAll \<Rightarrow> (let j = Suc i mod length (q_items q) in
                     (Some (q_items q ! j), q\<lparr>q_current_index := Some j\<rparr>))
     | RepeatNone \<Rightarrow> (if Suc i < length (q_items q)
                     then (Some (q_items q ! Suc i), q\<lparr>q_current_index := Some (Suc i)\<rparr>)
                     else (None, q)))"
  using assms
  by (auto simp: queue_wf_def next_item_def current_item_def vec_get_def Let_def
      split: repeat_mode.splits)

lemma previous_item_target:
  assumes "queue_wf q" and "q_current_index q = Some i"
  shows "previous_item q =
    (if i = 0
     then (if q_repeat_mode q = RepeatAll
           then (Some (q_items q ! (length (q_items q) - 1)),
                 q\<lparr>q_current_index := Some (length (q_items q) - 1)\<rparr>)
           else (None, q))
     else (Some (q_items q ! (i - 1)), q\<lparr>q_current_index := Some (i - 1)\<rparr>))"
  using assms
  by (auto simp: queue_wf_def previous_item_def current_item_def vec_get_def Let_def)

lemma next_item_None: "queue_wf q \<Longrightarrow> fst (next_item q) = None \<Longrightarrow> snd (next_item q) = q"
  using next_item_move [of q] by auto

lemma previous_item_None:
  "queue_wf q \<Longrightarrow> fst (previous_item q) = None \<Longrightarrow> snd (previous_item q) = q"
  by (cases "q_current_index q")
     (auto simp: previous_item_def current_item_def vec_get_def queue_wf_def Let_def
       split: if_splits)

lemma next_item_Some: "fst (next_item q) = Some m \<Longrightarrow> current_item (snd (next_item q)) = Some m"
  by (auto simp: next_item_def Let_def split: repeat_mode.splits if_splits option.splits)

lemma previous_item_Some:
  "fst (previous_item q) = Some m \<Longrightarrow> current_item (snd (previous_item q)) = Some m"
  by (auto simp: previous_item_def Let_def split: if_splits option.splits)

subsection \<open>The contract the dispatcher relies on\<close>

locale play_queue =
  fixes content :: "'q \<Rightarrow> 'a list"
    and cursor :: "'q \<Rightarrow> nat option"
    and invar :: "'q \<Rightarrow> bool"
    and forward :: "'q \<Rightarrow> 'a option \<times> 'q"
    and backward :: "'q \<Rightarrow> 'a option \<times> 'q"
    and load :: "'a list \<Rightarrow> 'q \<Rightarrow> 'q"
  assumes invar_cursor: "invar q \<Longrightarrow> cursor q = Some i \<Longrightarrow> i < length (content q)"
    and invar_forward: "invar q \<Longrightarrow> invar (snd (forward q))"
    and invar_backward: "invar q \<Longrightarrow> invar (snd (backward q))"
    and invar_load: "invar (load xs q)"
    and content_forward: "content (snd (forward q)) = content q"
    and content_backward: "content (snd (backward q)) = content q"
    and content_load: "content (load xs q) = xs"
    and cursor_load: "cursor (load xs q) = (if xs = [] then None else Some 0)"
    and forward_None: "invar q \<Longrightarrow> fst (forward q) = None \<Longrightarrow> snd (forward q) = q"
    and backward_None: "invar q \<Longrightarrow> fst (backward q) = None \<Longrightarrow> snd (backward q) = q"
    and forward_Some: "fst (forward q) = Some a \<Longrightarrow>
          Option.bind (cursor (snd (forward q))) (vec_get (content q)) = Some a"
    and backward_Some: "fst (backward q) = Some a \<Longrightarrow>
          Option.bind (cursor (snd (backward q))) (vec_get (content q)) = Some a"
begin

definition selected :: "'q \<Rightarrow> 'a option" where
  "selected q = Option.bind (cursor q) (vec_get (content q))"

definition press :: "bool \<Rightarrow> 'q \<Rightarrow> 'q" where
  "press fwd q = snd (if fwd then forward q else backward q)"

lemma selected_mem: "selected q = Some a \<Longrightarrow> a \<in> set (content q)"
  by (auto simp: selected_def vec_get_def bind_eq_Some_conv split: if_splits)

lemma forward_selected: "fst (forward q) = Some a \<Longrightarrow> selected (snd (forward q)) = Some a"
  by (simp add: selected_def content_forward forward_Some)

lemma backward_selected: "fst (backward q) = Some a \<Longrightarrow> selected (snd (backward q)) = Some a"
  by (simp add: selected_def content_backward backward_Some)

lemma moved_mem:
  "fst (forward q) = Some a \<Longrightarrow> a \<in> set (content q)"
  "fst (backward q) = Some a \<Longrightarrow> a \<in> set (content q)"
  using selected_mem [OF forward_selected] selected_mem [OF backward_selected]
  by (simp_all add: content_forward content_backward)

lemma content_press: "content (press fwd q) = content q"
  by (simp add: press_def content_forward content_backward)

lemma invar_press: "invar q \<Longrightarrow> invar (press fwd q)"
  by (simp add: press_def invar_forward invar_backward)

lemma presses: "invar q \<Longrightarrow> invar (fold press ps q) \<and> content (fold press ps q) = content q"
  by (induction ps arbitrary: q) (auto simp: content_press invar_press)

lemma selected_load: "selected (load xs q) = (if xs = [] then None else Some (hd xs))"
  by (simp add: selected_def cursor_load content_load vec_get_def hd_conv_nth)

lemma selected_keeps:
  assumes "invar q" and "cursor q \<noteq> None"
  shows "selected q \<noteq> None"
  using assms invar_cursor by (auto simp: selected_def vec_get_def)

lemma presses_from_load:
  assumes "selected (fold press ps (load xs q)) = Some a"
  shows "a \<in> set xs"
  using selected_mem [OF assms] presses [OF invar_load] by (simp add: content_load)

end

interpretation qm: play_queue q_items q_current_index queue_wf next_item previous_item set_items
proof (unfold_locales, goal_cases)
  case (1 q i)
  then show ?case by (simp add: queue_wf_def)
next
  case (11 q a)
  then show ?case using next_item_Some [of q a] by (simp add: current_item_def)
next
  case (12 q a)
  then show ?case using previous_item_Some [of q a] by (simp add: current_item_def)
qed (simp_all add: queue_wf_next queue_wf_previous next_item_None previous_item_None, simp_all add: set_items_def)

subsection \<open>Properties\<close>

text \<open>Whatever sequence of moves, jumps, replacements and mode changes a queue built from
  any items goes through, its cursor, when it has one, points at an item of the queue, so
  \<open>current_item\<close> finds one.\<close>

lemma queue_cursor_in_range:
  "case q_current_index (fold queue_step ops (queue_new items)) of
     None \<Rightarrow> True
   | Some i \<Rightarrow> i < length (q_items (fold queue_step ops (queue_new items))) \<and>
       current_item (fold queue_step ops (queue_new items)) =
         Some (q_items (fold queue_step ops (queue_new items)) ! i)"
proof -
  have "queue_wf (fold queue_step ops (queue_new items))"
    by (simp add: queue_run_wf)
  then show ?thesis
    by (auto simp: queue_wf_def current_item_def vec_get_def split: option.splits)
qed

text \<open>With \<open>RepeatMode::All\<close>, \<open>n\<close> presses of Next advance the cursor by \<open>n\<close> around the
  ring of the queue, whatever \<open>n\<close>; in particular a full round returns to the same item.\<close>

lemma repeat_all_ring:
  assumes "q_items q \<noteq> []" and "q_current_index q = Some i" and "q_repeat_mode q = RepeatAll"
    and "i < length (q_items q)"
  shows "q_current_index (((\<lambda>q. snd (next_item q)) ^^ n) q) = Some ((i + n) mod length (q_items q))"
proof -
  let ?step = "\<lambda>q. snd (next_item q)"
  have "q_items ((?step ^^ n) q) = q_items q \<and> q_repeat_mode ((?step ^^ n) q) = RepeatAll \<and>
        q_current_index ((?step ^^ n) q) = Some ((i + n) mod length (q_items q))"
  proof (induction n)
    case 0
    then show ?case using assms by simp
  next
    case (Suc n)
    then have "queue_wf ((?step ^^ n) q)"
      using assms(1) by (simp add: queue_wf_def)
    with Suc show ?case
      by (simp add: next_item_target Let_def mod_Suc_eq)
  qed
  then show ?thesis by simp
qed

lemma repeat_all_ring_witness:
  "q_current_index (((\<lambda>q. snd (next_item q)) ^^ 2)
     ((set_repeat_mode RepeatAll (set_items [media_item_default, media_item_default] queue_default)))) =
   Some (2 mod 2)"
proof -
  let ?q = "set_repeat_mode RepeatAll (set_items [media_item_default, media_item_default] queue_default)"
  have "q_items ?q \<noteq> []" "q_current_index ?q = Some 0" "q_repeat_mode ?q = RepeatAll"
    "0 < length (q_items ?q)" "length (q_items ?q) = 2"
    by (simp_all add: set_repeat_mode_def set_items_def)
  then show ?thesis using repeat_all_ring [of ?q 0 2] by simp
qed

text \<open>Previous undoes Next: unless a single item is repeated, going forward to an item and
  back again restores the queue exactly, across the wrap-around of \<open>RepeatMode::All\<close> too.\<close>

lemma previous_undoes_next:
  assumes "queue_wf q" and "q_current_index q = Some i" and "q_repeat_mode q \<noteq> RepeatOne"
    and "next_item q = (Some m, q')"
  shows "snd (previous_item q') = q \<and> fst (previous_item q') = current_item q"
proof -
  have wf': "queue_wf q'" using queue_wf_next [OF assms(1)] assms(4) by simp
  have i: "i < length (q_items q)" using assms(1,2) by (simp add: queue_wf_def)
  define j where "j = (if Suc i < length (q_items q) then Suc i else 0)"
  have "Suc i mod length (q_items q) = j"
    using i by (auto simp: j_def mod_Suc)
  with assms i have q': "q' = q\<lparr>q_current_index := Some j\<rparr>"
    and all: "j = 0 \<Longrightarrow> q_repeat_mode q = RepeatAll \<and> Suc i = length (q_items q)"
    by (auto simp: next_item_target Let_def j_def split: repeat_mode.splits if_splits)
  have restore: "q'\<lparr>q_current_index := Some i\<rparr> = q"
    using assms(2) by (simp add: q')
  have "previous_item q' = (Some (q_items q ! i), q'\<lparr>q_current_index := Some i\<rparr>)"
  proof (cases "j = 0")
    case True
    then have "length (q_items q) - 1 = i" using all [OF True] by (metis diff_Suc_1)
    then show ?thesis
      using previous_item_target [OF wf', of j] True all by (simp add: q')
  next
    case False
    then have "j - 1 = i" by (simp add: j_def split: if_splits)
    then show ?thesis
      using previous_item_target [OF wf', of j] False by (simp add: q')
  qed
  then show ?thesis using assms(2) i restore by (simp add: current_item_def vec_get_def)
qed

lemma previous_undoes_next_witness:
  "snd (previous_item (snd (next_item (set_items [media_item_default, media_item_default] queue_default)))) =
   set_items [media_item_default, media_item_default] queue_default"
proof -
  let ?q = "set_items [media_item_default, media_item_default] queue_default"
  have "next_item ?q = (Some media_item_default, snd (next_item ?q))"
    by (simp add: next_item_def set_items_def queue_default_def current_item_def vec_get_def)
  from previous_undoes_next [OF _ _ _ this, of 0] show ?thesis
    by (simp add: set_items_def queue_default_def queue_wf_def)
qed

text \<open>The availability flags of a queue with a valid cursor. \<open>has_next\<close> is exactly "a press
  of Next selects an item"; a press of Next or Previous that selects nothing leaves the queue as
  it was; and \<open>has_previous\<close> promises an item that \<open>previous_item\<close> refuses exactly at the first
  item under \<open>RepeatMode::One\<close>.\<close>

lemma queue_availability:
  assumes "queue_wf q"
  shows "(has_next q \<longleftrightarrow> fst (next_item q) \<noteq> None) \<and>
    (fst (next_item q) = None \<longrightarrow> snd (next_item q) = q) \<and>
    (fst (previous_item q) = None \<longrightarrow> snd (previous_item q) = q) \<and>
    (fst (previous_item q) \<noteq> None \<longrightarrow> has_previous q) \<and>
    (has_previous q \<and> fst (previous_item q) = None \<longleftrightarrow>
       q_items q \<noteq> [] \<and> q_repeat_mode q = RepeatOne \<and> unwrap_or (q_current_index q) 0 = 0)"
proof -
  have wf: "\<And>i. q_current_index q = Some i \<Longrightarrow> i < length (q_items q)"
    using assms by (simp add: queue_wf_def)
  have "has_next q \<longleftrightarrow> fst (next_item q) \<noteq> None"
    using next_item_move [OF assms] by auto
  moreover have "fst (previous_item q) \<noteq> None \<longrightarrow> has_previous q"
    and "has_previous q \<and> fst (previous_item q) = None \<longleftrightarrow>
       q_items q \<noteq> [] \<and> q_repeat_mode q = RepeatOne \<and> unwrap_or (q_current_index q) 0 = 0"
    using wf by (cases "q_current_index q"; cases "q_repeat_mode q";
        auto simp: has_previous_def previous_item_def current_item_def vec_get_def Let_def
        split: if_splits)+
  ultimately show ?thesis
    using assms by (simp add: next_item_None previous_item_None)
qed

lemma queue_availability_witness:
  "has_previous (set_repeat_mode RepeatOne (set_items [media_item_default] queue_default)) \<and>
   fst (previous_item (set_repeat_mode RepeatOne (set_items [media_item_default] queue_default))) = None"
proof -
  let ?q = "set_repeat_mode RepeatOne (set_items [media_item_default] queue_default)"
  have "queue_wf ?q" by (simp add: queue_wf_set_repeat_mode)
  from queue_availability [OF this] show ?thesis
    by (simp add: set_repeat_mode_def set_items_def)
qed

text \<open>A freshly loaded queue starts at its first item, and however often Next and Previous
  are pressed afterwards, the item under the cursor is one of the loaded items.\<close>

lemma loaded_queue_plays_its_items:
  "current_item (set_items items q) = (if items = [] then None else Some (hd items)) \<and>
   (\<forall>m. current_item (fold qm.press presses (set_items items q)) = Some m \<longrightarrow> m \<in> set items)"
proof -
  have eq: "current_item = qm.selected"
    by (simp add: fun_eq_iff current_item_def qm.selected_def)
  show ?thesis
    unfolding eq using qm.selected_load [of items q] qm.presses_from_load [of presses items q]
    by auto
qed

lemma loaded_queue_plays_its_items_witness:
  "current_item (set_items [media_item_default] queue_default) = Some media_item_default"
  using loaded_queue_plays_its_items [of "[media_item_default]" queue_default "[]"] by simp

end
