(* ===== verification/Snapshot.thy ===== *)
theory Snapshot
  imports Queue
begin

text \<open>
  The engine snapshot (\<open>model/snapshot.rs\<close>): the record the UI and the platform read, with its
  functional updates, and the command-time rebase of the playback position. The lemma group
  \<open>frame_simps\<close> says which parts each update leaves alone.
\<close>

record engine_snapshot =
  sn_auth_state :: auth_state
  sn_protected_account :: "account option"
  sn_device_sessions :: "auth_session list"
  sn_device_sessions_next :: "page_token option"
  sn_playback_state :: playback_state
  sn_last_error :: "engine_error option"
  sn_backend_status :: "backend_status option"
  sn_backend_availability :: backend_availability
  sn_media_id :: "string option"
  sn_title :: "string option"
  sn_artist :: "string option"
  sn_album :: "string option"
  sn_duration_millis :: "u64 option"
  sn_thumbnail_url :: "string option"
  sn_artwork_id :: "string option"
  sn_artwork_content_hash :: "string option"
  sn_source_uri :: "string option"
  sn_mime_type :: "string option"
  sn_playback_expires_at :: "u64 option"
  sn_user_id :: "string option"
  sn_theme_preference :: theme_preference_state
  sn_profile :: "profile option"
  sn_history_settings :: "history_settings option"
  sn_history_state :: history_state
  sn_history_entries :: "history_entry list"
  sn_history_next :: "page_token option"
  sn_history_deleted_count :: u64
  sn_saved_tracks :: "library_track list"
  sn_saved_tracks_next :: "page_token option"
  sn_liked_tracks :: "library_track list"
  sn_liked_tracks_next :: "page_token option"
  sn_library_pending :: "string list"
  sn_playlists :: "playlist list"
  sn_playlists_next :: "page_token option"
  sn_playlist_tracks :: "playlist_track list"
  sn_playlist_tracks_id :: "string option"
  sn_playlist_tracks_next :: "page_token option"
  sn_playlist_reconciliation :: "playlist_reconciliation option"
  sn_profile_preferences :: json_map
  sn_restriction_state :: restriction_state
  sn_driving_state :: driving_state
  sn_updated_at :: u64
  sn_last_progress_tick :: u64
  sn_metadata_revision :: u64
  sn_session :: "media_session option"
  sn_search_results :: "media_item list"
  sn_browse_results :: "media_item list"
  sn_discovery_results :: "media_item list"
  sn_discovery_next :: "page_token option"
  sn_for_you_results :: "media_item list"
  sn_recommendations_results :: "media_item list"
  sn_playback_speed :: f32
  sn_position_millis :: u64
  sn_is_busy :: bool
  sn_controls :: player_controls
  sn_voice_hypothesis :: "string option"
  sn_queue_size :: usize
  sn_queue_current_index :: "usize option"
  sn_queue_generation :: u64

definition history_state_default :: history_state where
  "history_state_default =
     \<lparr>hst_generation = 0, hst_availability = AvailabilityUnknown, hst_refresh_state = RefreshIdle\<rparr>"

definition snapshot_default :: engine_snapshot where
  "snapshot_default =
     \<lparr>sn_auth_state = Anonymous, sn_protected_account = None, sn_device_sessions = [],
      sn_device_sessions_next = None, sn_playback_state = Idle, sn_last_error = None,
      sn_backend_status = None, sn_backend_availability = Connecting, sn_media_id = None,
      sn_title = None, sn_artist = None, sn_album = None, sn_duration_millis = None,
      sn_thumbnail_url = None, sn_artwork_id = None, sn_artwork_content_hash = None,
      sn_source_uri = None, sn_mime_type = None, sn_playback_expires_at = None,
      sn_user_id = None, sn_theme_preference = theme_preference_state_default,
      sn_profile = None, sn_history_settings = None, sn_history_state = history_state_default,
      sn_history_entries = [], sn_history_next = None, sn_history_deleted_count = 0,
      sn_saved_tracks = [], sn_saved_tracks_next = None, sn_liked_tracks = [],
      sn_liked_tracks_next = None, sn_library_pending = [], sn_playlists = [],
      sn_playlists_next = None, sn_playlist_tracks = [], sn_playlist_tracks_id = None,
      sn_playlist_tracks_next = None, sn_playlist_reconciliation = None,
      sn_profile_preferences = [], sn_restriction_state = RestrictionUnknown,
      sn_driving_state = DrivingUnknown, sn_updated_at = 0, sn_last_progress_tick = 0,
      sn_metadata_revision = 0, sn_session = None, sn_search_results = [],
      sn_browse_results = [], sn_discovery_results = [], sn_discovery_next = None,
      sn_for_you_results = [], sn_recommendations_results = [], sn_playback_speed = Fin 0,
      sn_position_millis = 0, sn_is_busy = False, sn_controls = player_controls_default,
      sn_voice_hypothesis = None, sn_queue_size = 0, sn_queue_current_index = None,
      sn_queue_generation = 0\<rparr>"

definition snapshot_idle :: "u64 \<Rightarrow> engine_snapshot" where
  "snapshot_idle now =
     (let s = snapshot_default\<lparr>sn_playback_state := Idle, sn_updated_at := now,
                sn_last_progress_tick := now, sn_playback_speed := Fin 1,
                sn_position_millis := 0, sn_is_busy := False\<rparr>;
          c = sn_controls s
      in s\<lparr>sn_controls := c\<lparr>show_play_icon := True,
            play_pause := (play_pause c)\<lparr>is_visible := True, is_enabled := True\<rparr>\<rparr>\<rparr>)"

definition can_dispatch :: "engine_snapshot \<Rightarrow> bool" where
  "can_dispatch s = (\<not> sn_is_busy s)"

subsection \<open>Functional updates\<close>

definition with_playback_state :: "playback_state \<Rightarrow> u64 \<Rightarrow> engine_snapshot \<Rightarrow> engine_snapshot" where
  "with_playback_state st now s = s\<lparr>sn_playback_state := st, sn_updated_at := now\<rparr>"

definition with_session :: "media_session option \<Rightarrow> engine_snapshot \<Rightarrow> engine_snapshot" where
  "with_session session s =
     (let s = (if sn_session s \<noteq> session
               then s\<lparr>sn_metadata_revision := sat_add (sn_metadata_revision s) 1\<rparr> else s)
      in s\<lparr>sn_session := session\<rparr>)"

definition with_error :: "engine_error option \<Rightarrow> engine_snapshot \<Rightarrow> engine_snapshot" where
  "with_error e s = s\<lparr>sn_last_error := e\<rparr>"

definition with_backend_status :: "backend_status option \<Rightarrow> engine_snapshot \<Rightarrow> engine_snapshot" where
  "with_backend_status b s = s\<lparr>sn_backend_status := b\<rparr>"

definition with_backend_availability :: "backend_availability \<Rightarrow> engine_snapshot \<Rightarrow> engine_snapshot" where
  "with_backend_availability b s = s\<lparr>sn_backend_availability := b\<rparr>"

definition with_playback_expiry :: "u64 option \<Rightarrow> engine_snapshot \<Rightarrow> engine_snapshot" where
  "with_playback_expiry t s =
     (let s = (if sn_playback_expires_at s \<noteq> t
               then s\<lparr>sn_metadata_revision := sat_add (sn_metadata_revision s) 1\<rparr> else s)
      in s\<lparr>sn_playback_expires_at := t\<rparr>)"

definition with_search_results :: "media_item list \<Rightarrow> engine_snapshot \<Rightarrow> engine_snapshot" where
  "with_search_results xs s = s\<lparr>sn_search_results := xs\<rparr>"

definition metadata_changed :: "media_item \<Rightarrow> engine_snapshot \<Rightarrow> bool" where
  "metadata_changed media s =
     (sn_media_id s \<noteq> Some (mi_id media) \<or> sn_title s \<noteq> Some (mi_title media) \<or>
      sn_artist s \<noteq> Some (mi_artist media) \<or> sn_album s \<noteq> mi_album media \<or>
      sn_duration_millis s \<noteq> mi_duration_millis media \<or>
      sn_thumbnail_url s \<noteq> mi_thumbnail_url media \<or>
      sn_artwork_id s \<noteq> mi_artwork_id media \<or>
      sn_artwork_content_hash s \<noteq> mi_artwork_content_hash media \<or>
      sn_source_uri s \<noteq> mi_source_uri media \<or> sn_mime_type s \<noteq> mi_mime_type media)"

definition with_media :: "media_item \<Rightarrow> engine_snapshot \<Rightarrow> engine_snapshot" where
  "with_media media s =
     (let s = (if metadata_changed media s
               then s\<lparr>sn_metadata_revision := sat_add (sn_metadata_revision s) 1\<rparr> else s)
      in s\<lparr>sn_media_id := Some (mi_id media), sn_title := Some (mi_title media),
           sn_artist := Some (mi_artist media), sn_album := mi_album media,
           sn_duration_millis := mi_duration_millis media,
           sn_thumbnail_url := mi_thumbnail_url media, sn_artwork_id := mi_artwork_id media,
           sn_artwork_content_hash := mi_artwork_content_hash media,
           sn_source_uri := mi_source_uri media, sn_mime_type := mi_mime_type media\<rparr>)"

definition with_browse_results :: "media_item list \<Rightarrow> engine_snapshot \<Rightarrow> engine_snapshot" where
  "with_browse_results xs s = s\<lparr>sn_browse_results := xs\<rparr>"

definition with_discovery_results :: "media_item list \<Rightarrow> engine_snapshot \<Rightarrow> engine_snapshot" where
  "with_discovery_results xs s = s\<lparr>sn_discovery_results := xs\<rparr>"

definition with_discovery_next :: "page_token option \<Rightarrow> engine_snapshot \<Rightarrow> engine_snapshot" where
  "with_discovery_next t s = s\<lparr>sn_discovery_next := t\<rparr>"

definition with_for_you_results :: "media_item list \<Rightarrow> engine_snapshot \<Rightarrow> engine_snapshot" where
  "with_for_you_results xs s = s\<lparr>sn_for_you_results := xs\<rparr>"

definition with_recommendations_results :: "media_item list \<Rightarrow> engine_snapshot \<Rightarrow> engine_snapshot" where
  "with_recommendations_results xs s = s\<lparr>sn_recommendations_results := xs\<rparr>"

definition with_feed_results ::
  "discovery_feed \<Rightarrow> media_item list \<Rightarrow> engine_snapshot \<Rightarrow> engine_snapshot" where
  "with_feed_results feed xs =
     (case feed of Discovery \<Rightarrow> with_discovery_results xs
      | ForYou \<Rightarrow> with_for_you_results xs
      | Recommendations \<Rightarrow> with_recommendations_results xs)"

definition with_speed :: "f32 \<Rightarrow> engine_snapshot \<Rightarrow> engine_snapshot" where
  "with_speed x s = s\<lparr>sn_playback_speed := x\<rparr>"

definition with_position :: "u64 \<Rightarrow> engine_snapshot \<Rightarrow> engine_snapshot" where
  "with_position p s = s\<lparr>sn_position_millis := p\<rparr>"

definition with_duration :: "u64 option \<Rightarrow> engine_snapshot \<Rightarrow> engine_snapshot" where
  "with_duration d s = s\<lparr>sn_duration_millis := d\<rparr>"

definition with_progress_tick :: "u64 \<Rightarrow> engine_snapshot \<Rightarrow> engine_snapshot" where
  "with_progress_tick t s = s\<lparr>sn_last_progress_tick := t\<rparr>"

definition with_position_rebased_at :: "u64 \<Rightarrow> engine_snapshot \<Rightarrow> engine_snapshot" where
  "with_position_rebased_at now s =
     (let elapsed = sat_sub now (sn_last_progress_tick s);
          speed = (if fp_is_finite (sn_playback_speed s) then fp_max_zero (sn_playback_speed s)
                   else Fin 0);
          elapsed_position = u64_of_f64 (f64_mul (f64_of_u64 elapsed) speed);
          rebased = sat_add (sn_position_millis s) elapsed_position
      in s\<lparr>sn_position_millis := (case sn_duration_millis s of None \<Rightarrow> rebased
                                  | Some duration \<Rightarrow> min rebased duration),
           sn_last_progress_tick := now\<rparr>)"

definition with_busy :: "bool \<Rightarrow> engine_snapshot \<Rightarrow> engine_snapshot" where
  "with_busy b s = s\<lparr>sn_is_busy := b\<rparr>"

definition with_controls :: "player_controls \<Rightarrow> engine_snapshot \<Rightarrow> engine_snapshot" where
  "with_controls c s = s\<lparr>sn_controls := c\<rparr>"

definition with_voice_hypothesis :: "string option \<Rightarrow> engine_snapshot \<Rightarrow> engine_snapshot" where
  "with_voice_hypothesis h s = s\<lparr>sn_voice_hypothesis := h\<rparr>"

lemmas with_defs =
  with_playback_state_def with_session_def with_error_def with_backend_status_def
  with_backend_availability_def with_playback_expiry_def with_search_results_def with_media_def
  with_browse_results_def with_discovery_results_def with_discovery_next_def
  with_for_you_results_def with_recommendations_results_def with_feed_results_def with_speed_def
  with_position_def with_duration_def with_progress_tick_def with_position_rebased_at_def
  with_busy_def with_controls_def with_voice_hypothesis_def

subsection \<open>Laws\<close>

lemma u64_of_f64_of_nat:
  assumes "n < 2 ^ 53"
  shows "u64_of_f64 (Fin (of_nat n)) = of_nat n"
proof (cases "n = 0")
  case False
  have "n < 2 ^ 64" using assms by simp
  then have "(of_nat n :: rat) < 2 ^ 64"
    by (metis of_nat_less_iff of_nat_numeral of_nat_power)
  then show ?thesis using False by simp
qed simp

lemma elapsed_exact:
  assumes "unat e < 2 ^ 53"
  shows "u64_of_f64 (f64_mul (f64_of_u64 e) (Fin 1)) = e"
proof -
  have "f64_of_u64 e = Fin (of_nat (unat e))"
    using assms by (simp only: f64_of_u64_def round_f64_of_nat)
  moreover have "f64_mul (Fin (of_nat (unat e))) (Fin 1) = Fin (of_nat (unat e))"
    using assms by (simp only: f64_mul.simps mult_1_right round_f64_of_nat)
  ultimately show ?thesis
    using u64_of_f64_of_nat [OF assms] by simp
qed

definition advance :: "u64 option \<Rightarrow> u64 \<Rightarrow> u64 \<Rightarrow> u64" where
  "advance duration p e =
     (case duration of None \<Rightarrow> sat_add p e | Some d \<Rightarrow> min (sat_add p e) d)"

lemma rebase_normal_speed:
  assumes "sn_playback_speed s = Fin 1" and "unat (sat_sub now (sn_last_progress_tick s)) < 2 ^ 53"
  shows "with_position_rebased_at now s =
    s\<lparr>sn_position_millis :=
        advance (sn_duration_millis s) (sn_position_millis s) (sat_sub now (sn_last_progress_tick s)),
      sn_last_progress_tick := now\<rparr>"
  using elapsed_exact [OF assms(2)] assms(1)
  by (cases "sn_duration_millis s") (simp_all add: with_position_rebased_at_def advance_def Let_def)

lemma unat_min: "unat (min a b) = min (unat a) (unat b)" for a b :: "'l::len word"
  by (simp add: min_def word_le_nat_alt)

lemma advance_advance:
  assumes "unat (e + f) = unat e + unat f"
  shows "advance d (advance d p e) f = advance d p (e + f)"
proof -
  have "unat (advance d (advance d p e) f) = unat (advance d p (e + f))"
    by (cases d) (simp_all add: advance_def unat_min unat_sat_add assms)
  then show ?thesis by (rule unsigned_word_eqI)
qed

text \<open>A command-time rebase of the playback position. It never passes the known duration, it
  never moves the position back (unless the position already exceeded the duration), whatever
  the speed is (a negative, infinite or NaN speed counts as 0), and it changes no other field
  than the position and its baseline.\<close>

lemma rebase_bounded:
  "(\<forall>d. sn_duration_millis s = Some d \<longrightarrow>
      sn_position_millis (with_position_rebased_at now s) \<le> d) \<and>
   ((\<forall>d. sn_duration_millis s = Some d \<longrightarrow> sn_position_millis s \<le> d) \<longrightarrow>
      sn_position_millis s \<le> sn_position_millis (with_position_rebased_at now s)) \<and>
   (sn_playback_speed s \<in> {FNaN, FInf True, FInf False} \<or>
      (\<exists>x\<le>0. sn_playback_speed s = Fin x) \<longrightarrow>
    (\<forall>d. sn_duration_millis s = Some d \<longrightarrow> sn_position_millis s \<le> d) \<longrightarrow>
      sn_position_millis (with_position_rebased_at now s) = sn_position_millis s) \<and>
   with_position_rebased_at now s =
     s\<lparr>sn_position_millis := sn_position_millis (with_position_rebased_at now s),
       sn_last_progress_tick := now\<rparr>"
proof (intro conjI)
  have zero: "u64_of_f64 (f64_mul x (Fin 0)) = 0" if "x = f64_of_u64 e" "e = sat_sub now t" for x e t
  proof -
    have "f64_of_u64 e \<noteq> FNaN" "\<And>b. f64_of_u64 e = FInf b \<Longrightarrow> u64_of_f64 (f64_mul (FInf b) (Fin 0)) = 0"
      by (auto simp: f64_of_u64_def round_f64_def round_fp_def Let_def)
    then show ?thesis
      using that by (cases "f64_of_u64 e") (auto simp: round_f64_def round_fp_def)
  qed
  show "\<forall>d. sn_duration_millis s = Some d \<longrightarrow>
      sn_position_millis (with_position_rebased_at now s) \<le> d"
    by (auto simp: with_position_rebased_at_def Let_def)
  show "(\<forall>d. sn_duration_millis s = Some d \<longrightarrow> sn_position_millis s \<le> d) \<longrightarrow>
      sn_position_millis s \<le> sn_position_millis (with_position_rebased_at now s)"
    by (auto simp: with_position_rebased_at_def Let_def split: option.splits)
  show "sn_playback_speed s \<in> {FNaN, FInf True, FInf False} \<or>
      (\<exists>x\<le>0. sn_playback_speed s = Fin x) \<longrightarrow>
    (\<forall>d. sn_duration_millis s = Some d \<longrightarrow> sn_position_millis s \<le> d) \<longrightarrow>
      sn_position_millis (with_position_rebased_at now s) = sn_position_millis s"
    using zero [OF refl refl, of "sn_last_progress_tick s"]
    by (auto simp: with_position_rebased_at_def Let_def sat_add_def min_absorb1 split: option.splits)
  show "with_position_rebased_at now s =
     s\<lparr>sn_position_millis := sn_position_millis (with_position_rebased_at now s),
       sn_last_progress_tick := now\<rparr>"
    by (simp add: with_position_rebased_at_def Let_def)
qed

lemma rebase_bounded_witness:
  "sn_position_millis (with_position_rebased_at 500
     (snapshot_default\<lparr>sn_duration_millis := Some 100, sn_position_millis := 40\<rparr>)) \<le> 100"
  using rebase_bounded [of "snapshot_default\<lparr>sn_duration_millis := Some 100, sn_position_millis := 40\<rparr>" 500]
  by simp

text \<open>At normal speed the rebase is exact (elapsed wall-clock milliseconds, capped at the
  duration) and does not depend on how often it happens: rebasing at \<open>t\<^sub>1\<close> and again at \<open>t\<^sub>2\<close>
  is the same as rebasing once at \<open>t\<^sub>2\<close>.\<close>

lemma rebase_composes:
  assumes speed: "sn_playback_speed s = Fin 1"
    and order: "sn_last_progress_tick s \<le> t1" "t1 \<le> t2"
    and small: "unat t2 - unat (sn_last_progress_tick s) < 2 ^ 53"
  shows "with_position_rebased_at t2 (with_position_rebased_at t1 s) = with_position_rebased_at t2 s \<and>
    unat (sn_position_millis (with_position_rebased_at t2 s)) =
      (case sn_duration_millis s of
         None \<Rightarrow> min (unat (sn_position_millis s) + (unat t2 - unat (sn_last_progress_tick s))) (2 ^ 64 - 1)
       | Some d \<Rightarrow> min (unat (sn_position_millis s) + (unat t2 - unat (sn_last_progress_tick s))) (unat d))"
proof -
  let ?t0 = "sn_last_progress_tick s"
  have le: "unat ?t0 \<le> unat t1" "unat t1 \<le> unat t2"
    using order by (simp_all add: word_le_nat_alt)
  have s1: "unat (sat_sub t1 ?t0) < 2 ^ 53" and s2: "unat (sat_sub t2 t1) < 2 ^ 53"
    and s3: "unat (sat_sub t2 ?t0) < 2 ^ 53"
    using le small by (simp_all add: unat_sat_sub)
  have sum: "sat_sub t2 ?t0 = sat_sub t1 ?t0 + sat_sub t2 t1"
    using order order_trans [OF order] by (simp add: sat_sub_def)
  have nat_sum: "unat (sat_sub t1 ?t0 + sat_sub t2 t1) = unat (sat_sub t1 ?t0) + unat (sat_sub t2 t1)"
    unfolding sum [symmetric] using le by (simp add: unat_sat_sub)
  have "with_position_rebased_at t2 (with_position_rebased_at t1 s) = with_position_rebased_at t2 s"
    using speed s1 s2 s3 nat_sum
    by (simp add: rebase_normal_speed advance_advance flip: sum)
  moreover have "unat d \<le> 2 ^ 64 - 1" for d :: u64
  proof -
    have "unat d < 2 ^ LENGTH(64)" by (rule unsigned_less)
    then show ?thesis by simp
  qed
  then have "min (min x (2 ^ 64 - 1)) (unat d) = min x (unat d)" for x and d :: u64
    by (metis min.absorb2 min.assoc)
  ultimately show ?thesis
    using speed s3 by (cases "sn_duration_millis s")
      (simp_all add: rebase_normal_speed advance_def unat_min unat_sat_add unat_sat_sub)
qed

lemma rebase_composes_witness:
  "sn_position_millis (with_position_rebased_at 250 (with_position_rebased_at 100
     (snapshot_idle 50))) = sn_position_millis (with_position_rebased_at 250 (snapshot_idle 50))"
  using rebase_composes [of "snapshot_idle 50" 100 250]
  by (simp add: snapshot_idle_def snapshot_default_def Let_def)

definition media_fields :: "engine_snapshot \<Rightarrow>
    string option \<times> string option \<times> string option \<times> string option \<times> u64 option \<times> string option \<times>
    string option \<times> string option \<times> string option \<times> string option" where
  "media_fields s =
     (sn_media_id s, sn_title s, sn_artist s, sn_album s, sn_duration_millis s, sn_thumbnail_url s,
      sn_artwork_id s, sn_artwork_content_hash s, sn_source_uri s, sn_mime_type s)"

lemma metadata_changed_iff: "metadata_changed m s \<longleftrightarrow> media_fields (with_media m s) \<noteq> media_fields s"
  by (auto simp: metadata_changed_def media_fields_def with_media_def Let_def)

lemma with_media_same: "\<not> metadata_changed m (with_media m s)"
  by (simp add: metadata_changed_def with_media_def Let_def)

text \<open>The metadata revision is a faithful change counter for the media fields: installing a
  media item advances it by one (saturating) exactly when one of the ten projected fields
  changes, installing the same item twice is installing it once, and afterwards the snapshot
  shows the item.\<close>

lemma metadata_revision_counts_changes:
  "sn_metadata_revision (with_media m s) =
     (if media_fields (with_media m s) = media_fields s then sn_metadata_revision s
      else sat_add (sn_metadata_revision s) 1) \<and>
   with_media m (with_media m s) = with_media m s \<and>
   media_fields (with_media m s) =
     (Some (mi_id m), Some (mi_title m), Some (mi_artist m), mi_album m, mi_duration_millis m,
      mi_thumbnail_url m, mi_artwork_id m, mi_artwork_content_hash m, mi_source_uri m,
      mi_mime_type m) \<and>
   (with_media m s = s \<longleftrightarrow> media_fields (with_media m s) = media_fields s)"
proof (intro conjI)
  show "sn_metadata_revision (with_media m s) =
     (if media_fields (with_media m s) = media_fields s then sn_metadata_revision s
      else sat_add (sn_metadata_revision s) 1)"
    unfolding metadata_changed_iff [symmetric, THEN arg_cong [where f = Not], simplified]
    by (simp add: with_media_def Let_def)
  show same: "with_media m (with_media m s) = with_media m s"
    using with_media_same [of m s] by (simp add: with_media_def [of m "with_media m s"]) (simp add: with_media_def Let_def)
  show "with_media m s = s \<longleftrightarrow> media_fields (with_media m s) = media_fields s"
  proof
    assume "media_fields (with_media m s) = media_fields s"
    then have "\<not> metadata_changed m s" by (simp add: metadata_changed_iff)
    then show "with_media m s = s"
      by (simp add: with_media_def metadata_changed_def)
  qed simp
qed (simp add: media_fields_def with_media_def Let_def)

end
