(* ===== verification/Ports.thy ===== *)
theory Ports
  imports Snapshot
begin

text \<open>
  The boundaries of the engine, as records of functions over an abstract outside world \<open>'w\<close>:
  one field per trait method the engine calls (\<open>model/*.rs\<close>, \<open>networking/*.rs\<close>,
  \<open>data/repository/trait_def.rs\<close>, \<open>data/persistence.rs\<close>, \<open>services/voice.rs\<close>). A call takes the
  world and returns its result with the world after it: an awaited call may change anything
  outside the engine, the authentication state included. The player, the event bus, the
  services and the middlewares are data of the engine itself.
\<close>

type_synonym ('a, 'w) io = "'w \<Rightarrow> 'a result \<times> 'w"

record 'w system_port =
  sp_get_status :: "(backend_status, 'w) io"

record 'w playback_port =
  pp_resolve_playback :: "string \<Rightarrow> (playback_source, 'w) io"

text \<open>\<open>AudioSourceClient::resolve_track\<close> fails with an \<open>anyhow\<close> error, of which the engine uses
  the rendered text.\<close>

record audio_source =
  aud_source_id :: string
  aud_uri :: string
  aud_mime_type :: "string option"
  aud_expected_duration_ms :: "u64 option"

record 'w audio_source_client =
  ac_resolve_track :: "string \<Rightarrow> 'w \<Rightarrow> (string + audio_source) \<times> 'w"

record 'w discovery_port =
  dp_get_feed :: "discovery_feed \<Rightarrow> auth_identity \<Rightarrow> string list \<Rightarrow> page_request \<Rightarrow>
    (engine_track paged_result, 'w) io"

record 'w history_port =
  hp_get_settings :: "auth_identity \<Rightarrow> (history_settings, 'w) io"
  hp_update_settings :: "auth_identity \<Rightarrow> bool \<Rightarrow> (history_settings_update, 'w) io"
  hp_record :: "auth_identity \<Rightarrow> playback_record \<Rightarrow> (bool, 'w) io"
  hp_list :: "auth_identity \<Rightarrow> page_request \<Rightarrow> (history_entry paged_result, 'w) io"
  hp_delete_entry :: "auth_identity \<Rightarrow> string \<Rightarrow> (unit, 'w) io"
  hp_clear :: "auth_identity \<Rightarrow> (u64, 'w) io"

record 'w library_port =
  lp_save :: "auth_identity \<Rightarrow> string \<Rightarrow> (library_track, 'w) io"
  lp_remove_saved :: "auth_identity \<Rightarrow> string \<Rightarrow> (unit, 'w) io"
  lp_list_saved :: "auth_identity \<Rightarrow> page_request \<Rightarrow> (library_track paged_result, 'w) io"
  lp_like :: "auth_identity \<Rightarrow> string \<Rightarrow> (library_track, 'w) io"
  lp_unlike :: "auth_identity \<Rightarrow> string \<Rightarrow> (unit, 'w) io"
  lp_list_liked :: "auth_identity \<Rightarrow> page_request \<Rightarrow> (library_track paged_result, 'w) io"

record 'w playlist_port =
  plp_create :: "auth_identity \<Rightarrow> create_playlist \<Rightarrow> (playlist, 'w) io"
  plp_get :: "auth_identity \<Rightarrow> string \<Rightarrow> (playlist, 'w) io"
  plp_update :: "auth_identity \<Rightarrow> update_playlist \<Rightarrow> (playlist, 'w) io"
  plp_delete :: "auth_identity \<Rightarrow> string \<Rightarrow> (unit, 'w) io"
  plp_list :: "auth_identity \<Rightarrow> page_request \<Rightarrow> (playlist paged_result, 'w) io"
  plp_add_track :: "auth_identity \<Rightarrow> string \<Rightarrow> string \<Rightarrow> (playlist_track, 'w) io"
  plp_remove_track :: "auth_identity \<Rightarrow> string \<Rightarrow> string \<Rightarrow> (unit, 'w) io"
  plp_reorder :: "auth_identity \<Rightarrow> string \<Rightarrow> string list \<Rightarrow> u64 \<Rightarrow> (playlist, 'w) io"
  plp_list_tracks :: "auth_identity \<Rightarrow> string \<Rightarrow> page_request \<Rightarrow> (playlist_track paged_result, 'w) io"

record 'w profile_port =
  prp_upsert :: "string option \<Rightarrow> (profile, 'w) io"
  prp_get :: "(profile, 'w) io"
  prp_update :: "profile_update \<Rightarrow> (profile, 'w) io"
  prp_delete :: "(unit, 'w) io"
  prp_get_preferences :: "(json_map, 'w) io"
  prp_update_preferences :: "json_map \<Rightarrow> (json_map, 'w) io"

record 'w account_port =
  ap_get_account :: "auth_identity \<Rightarrow> (account, 'w) io"
  ap_list_sessions :: "auth_identity \<Rightarrow> page_request \<Rightarrow> (auth_session paged_result, 'w) io"
  ap_revoke_session :: "auth_identity \<Rightarrow> string \<Rightarrow> (unit, 'w) io"
  ap_delete_account :: "auth_identity \<Rightarrow> (unit, 'w) io"

record 'w repository =
  rp_get_by_id :: "string \<Rightarrow> 'w \<Rightarrow> media_item option"
  rp_search :: "string \<Rightarrow> 'w \<Rightarrow> (string + media_item list) \<times> 'w"
  rp_browse_catalog :: "string option \<Rightarrow> string list \<Rightarrow> page_request \<Rightarrow>
    (media_item paged_result, 'w) io"
  rp_search_catalog :: "string \<Rightarrow> page_request \<Rightarrow> (media_item paged_result, 'w) io"

record persistent_state =
  pst_snapshot :: engine_snapshot
  pst_queue :: queue_manager

record 'w persistence =
  per_save :: "persistent_state \<Rightarrow> 'w \<Rightarrow> (string + unit) \<times> 'w"
  per_load :: "'w \<Rightarrow> string + persistent_state option"

definition noop_persistence :: "'w persistence" where
  "noop_persistence = \<lparr>per_save = (\<lambda>_ w. (Ok (), w)), per_load = (\<lambda>_. Ok None)\<rparr>"

datatype voice_interaction_result = VoiceCommand engine_command | VoiceError string | NoMatch

record 'w voice_engine =
  ve_process_audio_chunk :: "16 word list \<Rightarrow> 'w \<Rightarrow> (string + unit) \<times> 'w"
  ve_finish :: "'w \<Rightarrow> (string + voice_interaction_result) \<times> 'w"
  ve_partial_hypothesis :: "'w \<Rightarrow> string"
  ve_reset :: "'w \<Rightarrow> 'w"
  ve_set_context :: "(string \<times> string) option \<Rightarrow> 'w \<Rightarrow> 'w"

subsection \<open>The in-memory repository\<close>

text \<open>\<open>to_lowercase\<close> is the Unicode mapping of the standard library, a parameter here. The
  catalog defaults of \<open>MediaRepository\<close> wrap \<open>browse\<close> and \<open>search\<close>, which cannot fail.\<close>

definition str_contains :: "string \<Rightarrow> string \<Rightarrow> bool" where
  "str_contains s pat =
     list_ex (\<lambda>i. take (length pat) (drop i s) = pat) [0..<Suc (length s)]"

definition in_memory_search :: "(string \<Rightarrow> string) \<Rightarrow> media_item list \<Rightarrow> string \<Rightarrow> media_item list" where
  "in_memory_search lower items query =
     filter (\<lambda>i. str_contains (lower (mi_title i)) (lower query) \<or>
                 str_contains (lower (mi_artist i)) (lower query)) items"

definition in_memory_repository :: "(string \<Rightarrow> string) \<Rightarrow> media_item list \<Rightarrow> 'w repository" where
  "in_memory_repository lower items =
     \<lparr>rp_get_by_id = (\<lambda>i _. find (\<lambda>m. mi_id m = i) items),
      rp_search = (\<lambda>query w. (Ok (in_memory_search lower items query), w)),
      rp_browse_catalog = (\<lambda>parent genres page w.
        (Ok \<lparr>pr_items = filter (\<lambda>m. mi_parent_id m = Some (unwrap_or parent ''root'')) items,
             pr_next_page_token = None\<rparr>, w)),
      rp_search_catalog = (\<lambda>query page w.
        (Ok \<lparr>pr_items = in_memory_search lower items query, pr_next_page_token = None\<rparr>, w))\<rparr>"

subsection \<open>Player, event bus, services, middlewares\<close>

text \<open>The player and the observers of the event bus are seen as the sequences of calls they
  receive.\<close>

datatype player_call =
    PPrepare string | PPlay | PPause | PStop | PSeek u64 | PSetSpeed f32

datatype bus_event = StateChanged engine_snapshot | EventEmitted engine_event

text \<open>\<open>SleepTimerService\<close> holds its fire time, 0 meaning disabled.\<close>

datatype engine_service = ProgressService | SleepTimerService u64

definition services_new :: "engine_service list" where
  "services_new = [ProgressService, SleepTimerService 0]"

datatype middleware =
    LoggerMiddleware | TelemetryMiddleware | FocusMiddleware | RecoveryMiddleware
  | ValidationMiddleware
  | ThrottlingMiddleware u64 "string \<rightharpoonup> u64"
  | AnalyticsMiddleware u64

text \<open>The functions \<open>serde\<close> and \<open>derive(Debug)\<close> generate: decoding a platform payload, and the
  debug renderings that appear in messages. \<open>de_duration_ms\<close> is the \<open>duration_ms\<close> number of a
  JSON payload.\<close>

record playback_completed =
  pc_version :: u32
  pc_playback_instance_id :: "u64 option"
  pc_track_id :: string
  pc_duration_ms :: u64
  pc_completion_ratio :: f32

record codec =
  de_observation :: "string \<Rightarrow> playback_observation option"
  de_playback_completed :: "string \<Rightarrow> playback_completed option"
  de_duration_ms :: "string \<Rightarrow> u64 option"
  de_engine_error :: "string \<Rightarrow> engine_error option"
  dbg_command :: "engine_command_type \<Rightarrow> string"
  dbg_playback_state :: "playback_state \<Rightarrow> string"
  dbg_media_id :: "string option \<Rightarrow> string"

text \<open>A codec that decodes nothing, for concrete engines.\<close>

definition null_codec :: codec where
  "null_codec =
     \<lparr>de_observation = (\<lambda>_. None), de_playback_completed = (\<lambda>_. None), de_duration_ms = (\<lambda>_. None),
      de_engine_error = (\<lambda>_. None), dbg_command = (\<lambda>_. []), dbg_playback_state = (\<lambda>_. []),
      dbg_media_id = (\<lambda>_. [])\<rparr>"

end
