(* ===== verification/EngineState.thy ===== *)
theory EngineState
  imports Ports
begin

text \<open>
  The state of the engine (\<open>engine/core.rs\<close>): its fields as one record, the projections of account
  data into the snapshot and their clearing, the synchronisation with the live authentication
  state, prefetched operation results, player controls, the queue projection and the execution of
  effects. \<open>en_world\<close> is the state of everything outside the engine.
\<close>

subsection \<open>Bookkeeping records\<close>

datatype catalog_operation =
    CatalogSearch string u32 "page_token option" "media_item list"
  | CatalogBrowse "string option" "string list" u32 "page_token option" "media_item list"

record discovery_operation =
  dop_auth_identity :: auth_identity
  dop_excluded_track_ids :: "string list"
  dop_page_size :: u32
  dop_next_page_token :: "page_token option"
  dop_items :: "media_item list"

text \<open>\<open>LibraryPageOperation\<close> and \<open>DeviceSessionsOperation\<close> have the same two fields.\<close>

record page_operation =
  pop_auth_identity :: auth_identity
  pop_page_size :: u32

record playlist_page_operation =
  ppo_auth_identity :: auth_identity
  ppo_playlist_id :: "string option"
  ppo_page_size :: u32

datatype history_owner = OwnerAnonymous | OwnerAuthenticated auth_identity

definition history_owner_current :: "auth_state \<Rightarrow> history_owner" where
  "history_owner_current auth =
     (case auth_identity_from_state auth of None \<Rightarrow> OwnerAnonymous | Some i \<Rightarrow> OwnerAuthenticated i)"

definition matches_auth_state :: "history_owner \<Rightarrow> auth_state \<Rightarrow> bool" where
  "matches_auth_state own auth =
     (case (own, auth_identity_from_state auth) of
        (OwnerAnonymous, None) \<Rightarrow> True
      | (OwnerAuthenticated expected, Some current) \<Rightarrow> expected = current
      | _ \<Rightarrow> False)"

record history_operation =
  hop_owner :: history_owner
  hop_page_size :: u32

record anonymous_history =
  ah_entries :: "history_entry list"
  ah_max_entries :: usize
  ah_enabled :: bool
  ah_next_sequence :: u64

definition ANONYMOUS_HISTORY_MAX_ENTRIES :: usize where
  "ANONYMOUS_HISTORY_MAX_ENTRIES = 50"

definition anonymous_history_new :: "usize \<Rightarrow> anonymous_history" where
  "anonymous_history_new max_entries =
     \<lparr>ah_entries = [], ah_max_entries = max_entries, ah_enabled = True, ah_next_sequence = 0\<rparr>"

text \<open>\<open>AnonymousHistoryBuffer::clear\<close>: the number of deleted entries and the emptied buffer.\<close>

definition anonymous_history_clear :: "anonymous_history \<Rightarrow> u64 \<times> anonymous_history" where
  "anonymous_history_clear b = (of_nat (length (ah_entries b)), b\<lparr>ah_entries := []\<rparr>)"

record history_listen =
  hl_playback_instance_id :: "u64 option"
  hl_accumulated_playing_millis :: u64
  hl_playing_since :: "u64 option"
  hl_recorded_instance_id :: "u64 option"

definition history_listen_default :: history_listen where
  "history_listen_default =
     \<lparr>hl_playback_instance_id = None, hl_accumulated_playing_millis = 0,
      hl_playing_since = None, hl_recorded_instance_id = None\<rparr>"

definition elapsed_millis :: "history_listen \<Rightarrow> u64 \<Rightarrow> u64" where
  "elapsed_millis h now =
     sat_add (hl_accumulated_playing_millis h)
       (case hl_playing_since h of None \<Rightarrow> 0 | Some started \<Rightarrow> sat_sub now started)"

record recovery_state =
  rs_source_refresh_attempted_for :: "u64 option"
  rs_decoder_attempted_for :: "u64 option"
  rs_desired_play_when_ready :: bool

definition recovery_default :: recovery_state where
  "recovery_default =
     \<lparr>rs_source_refresh_attempted_for = None, rs_decoder_attempted_for = None,
      rs_desired_play_when_ready = False\<rparr>"

record prefetched_history_settings =
  phs_settings :: "history_settings result"
  phs_reconciliation :: history_reconciliation

record prefetched_history_page =
  php_page :: "history_entry paged_result result"
  php_reconciliation :: history_reconciliation

datatype prefetched_operation =
    PrefetchedAccount "account result"
  | PrefetchedSearch "media_item paged_result result"
  | PrefetchedPlaylists "playlist paged_result result"
  | PrefetchedHistorySettings prefetched_history_settings
  | PrefetchedHistorySettingsUpdate "history_settings_update result"
  | PrefetchedHistoryPage prefetched_history_page
  | PrefetchedHistoryDelete "unit result"
  | PrefetchedHistoryClear "u64 result"
  | PrefetchedPlayback "playback_source result"
  | PrefetchedLibraryPage "library_track paged_result result"
  | PrefetchedLibraryMutation "library_track option result"

subsection \<open>The engine\<close>

record 'w engine =
  en_snapshot :: engine_snapshot
  en_config :: engine_config
  en_middleware :: "middleware list"
  en_repository :: "'w repository"
  en_queue :: queue_manager
  en_persistence :: "'w persistence"
  en_bus :: "bus_event list"
  en_services :: "engine_service list"
  en_audio_source_client :: "'w audio_source_client option"
  en_playback_port :: "'w playback_port option"
  en_system_port :: "'w system_port option"
  en_auth_state_provider :: "('w \<Rightarrow> auth_state) option"
  en_discovery_port :: "'w discovery_port option"
  en_history_port :: "'w history_port option"
  en_library_port :: "'w library_port option"
  en_playlist_port :: "'w playlist_port option"
  en_profile_port :: "'w profile_port option"
  en_account_port :: "'w account_port option"
  en_account_identity :: "auth_identity option"
  en_device_sessions_operation :: "page_operation option"
  en_profile_identity :: "auth_identity option"
  en_history_owner :: "history_owner option"
  en_history_operation :: "history_operation option"
  en_anonymous_history :: anonymous_history
  en_reconciliation_in_flight :: bool
  en_history_listen :: history_listen
  en_next_history_record_sequence :: u64
  en_library_identity :: "auth_identity option"
  en_saved_operation :: "page_operation option"
  en_liked_operation :: "page_operation option"
  en_playlist_identity :: "auth_identity option"
  en_playlists_operation :: "playlist_page_operation option"
  en_playlist_tracks_operation :: "playlist_page_operation option"
  en_catalog_operations :: "string \<rightharpoonup> catalog_operation"
  en_next_catalog_sequence :: u64
  en_next_instance :: u64
  en_current_instance :: "u64 option"
  en_pending_seek :: "u64 option"
  en_recovery :: recovery_state
  en_feed_identity :: "auth_identity option"
  en_discovery_operation :: "discovery_operation option"
  en_player :: "player_call list option"
  en_voice_engine :: "'w voice_engine option"
  en_prefetched :: "prefetched_operation option"
  en_codec :: codec
  en_world :: 'w

text \<open>\<open>Engine::new\<close>; the repository is an empty in-memory one.\<close>

definition engine_fields_new :: "codec \<Rightarrow> (string \<Rightarrow> string) \<Rightarrow> 'w \<Rightarrow> engine_snapshot \<Rightarrow> 'w engine" where
  "engine_fields_new cdc lower w snap =
     \<lparr>en_snapshot = snap, en_config = engine_config_default, en_middleware = [],
      en_repository = in_memory_repository lower [], en_queue = queue_default,
      en_persistence = noop_persistence, en_bus = [], en_services = services_new,
      en_audio_source_client = None, en_playback_port = None, en_system_port = None,
      en_auth_state_provider = None, en_discovery_port = None, en_history_port = None,
      en_library_port = None, en_playlist_port = None, en_profile_port = None,
      en_account_port = None, en_account_identity = None, en_device_sessions_operation = None,
      en_profile_identity = None, en_history_owner = None, en_history_operation = None,
      en_anonymous_history = anonymous_history_new ANONYMOUS_HISTORY_MAX_ENTRIES,
      en_reconciliation_in_flight = False, en_history_listen = history_listen_default,
      en_next_history_record_sequence = 0, en_library_identity = None,
      en_saved_operation = None, en_liked_operation = None, en_playlist_identity = None,
      en_playlists_operation = None, en_playlist_tracks_operation = None,
      en_catalog_operations = Map.empty, en_next_catalog_sequence = 0, en_next_instance = 0,
      en_current_instance = None, en_pending_seek = None, en_recovery = recovery_default,
      en_feed_identity = None, en_discovery_operation = None, en_player = None,
      en_voice_engine = None, en_prefetched = None, en_codec = cdc, en_world = w\<rparr>"

subsection \<open>Queue projection and controls\<close>

definition apply_queue_projection :: "queue_manager \<Rightarrow> engine_snapshot \<Rightarrow> engine_snapshot" where
  "apply_queue_projection q s =
     s\<lparr>sn_queue_size := queue_len q, sn_queue_current_index := q_current_index q,
       sn_queue_generation := q_generation q\<rparr>"

definition derive_controls :: "queue_manager \<Rightarrow> engine_snapshot \<Rightarrow> player_controls" where
  "derive_controls q s =
     (let dispatch = can_dispatch s;
          playing = (sn_playback_state s \<in> {Playing, Recovering, Buffering})
      in \<lparr>play_pause = \<lparr>is_visible = True, is_enabled = dispatch, is_active = playing\<rparr>,
          skip_next = \<lparr>is_visible = True, is_enabled = dispatch \<and> has_next q, is_active = False\<rparr>,
          skip_prev = \<lparr>is_visible = True, is_enabled = dispatch \<and> has_current q, is_active = False\<rparr>,
          show_play_icon = (\<not> playing)\<rparr>)"

definition refresh_controls :: "'w engine \<Rightarrow> 'w engine" where
  "refresh_controls e =
     (let s = en_snapshot e
      in e\<lparr>en_snapshot := apply_queue_projection (en_queue e)
             (s\<lparr>sn_controls := derive_controls (en_queue e) s\<rparr>)\<rparr>)"

definition engine_new :: "codec \<Rightarrow> (string \<Rightarrow> string) \<Rightarrow> 'w \<Rightarrow> u64 \<Rightarrow> 'w engine" where
  "engine_new cdc lower w now =
     (let s = snapshot_idle now; q = queue_default
      in engine_fields_new cdc lower w
           (apply_queue_projection q (s\<lparr>sn_controls := derive_controls q s\<rparr>)))"

subsection \<open>Publishing\<close>

definition notify_state_changed :: "engine_snapshot \<Rightarrow> 'w engine \<Rightarrow> 'w engine" where
  "notify_state_changed s e = e\<lparr>en_bus := en_bus e @ [StateChanged s]\<rparr>"

definition notify_event_emitted :: "engine_event \<Rightarrow> 'w engine \<Rightarrow> 'w engine" where
  "notify_event_emitted ev e = e\<lparr>en_bus := en_bus e @ [EventEmitted ev]\<rparr>"

definition publish_intermediate_snapshot :: "engine_snapshot \<Rightarrow> 'w engine \<Rightarrow> 'w engine" where
  "publish_intermediate_snapshot s e = notify_state_changed s (e\<lparr>en_snapshot := s\<rparr>)"

subsection \<open>Clearing projections\<close>

definition clear_profile_projection :: "engine_snapshot \<Rightarrow> engine_snapshot" where
  "clear_profile_projection s =
     (let s = s\<lparr>sn_profile := None, sn_profile_preferences := []\<rparr>
      in if tp_source (sn_theme_preference s) = RemoteProfile
         then s\<lparr>sn_theme_preference := theme_preference_state_default\<rparr> else s)"

definition clear_account_projection :: "engine_snapshot \<Rightarrow> engine_snapshot" where
  "clear_account_projection s =
     s\<lparr>sn_protected_account := None, sn_device_sessions := [], sn_device_sessions_next := None\<rparr>"

definition bump_history_generation :: "engine_snapshot \<Rightarrow> engine_snapshot" where
  "bump_history_generation s =
     s\<lparr>sn_history_state := (sn_history_state s)
         \<lparr>hst_generation := sat_add (hst_generation (sn_history_state s)) 1\<rparr>\<rparr>"

definition clear_history_projection :: "engine_snapshot \<Rightarrow> engine_snapshot" where
  "clear_history_projection s =
     s\<lparr>sn_history_settings := None,
       sn_history_state := \<lparr>hst_generation = sat_add (hst_generation (sn_history_state s)) 1,
         hst_availability = AvailabilityUnknown, hst_refresh_state = RefreshIdle\<rparr>,
       sn_history_entries := [], sn_history_next := None, sn_history_deleted_count := 0\<rparr>"

definition clear_library_projection :: "engine_snapshot \<Rightarrow> engine_snapshot" where
  "clear_library_projection s =
     s\<lparr>sn_saved_tracks := [], sn_saved_tracks_next := None, sn_liked_tracks := [],
       sn_liked_tracks_next := None, sn_library_pending := []\<rparr>"

definition clear_playlist_projection :: "engine_snapshot \<Rightarrow> engine_snapshot" where
  "clear_playlist_projection s =
     s\<lparr>sn_playlists := [], sn_playlists_next := None, sn_playlist_tracks := [],
       sn_playlist_tracks_id := None, sn_playlist_tracks_next := None,
       sn_playlist_reconciliation := None\<rparr>"

definition clear_feed_projection :: "engine_snapshot \<Rightarrow> engine_snapshot" where
  "clear_feed_projection s =
     s\<lparr>sn_discovery_results := [], sn_for_you_results := [], sn_recommendations_results := [],
       sn_discovery_next := None\<rparr>"

lemmas clear_defs =
  clear_profile_projection_def clear_account_projection_def clear_history_projection_def
  clear_library_projection_def clear_playlist_projection_def clear_feed_projection_def

subsection \<open>The live authentication state\<close>

definition current_auth :: "'w engine \<Rightarrow> auth_state" where
  "current_auth e =
     (case en_auth_state_provider e of None \<Rightarrow> Anonymous | Some provider \<Rightarrow> provider (en_world e))"

definition current_identity :: "'w engine \<Rightarrow> auth_identity option" where
  "current_identity e = auth_identity_from_state (current_auth e)"

text \<open>\<open>is_some_and(|i| Some(i) != current)\<close>.\<close>

definition stale :: "'i option \<Rightarrow> 'i option \<Rightarrow> bool" where
  "stale own current = (own \<noteq> None \<and> own \<noteq> current)"

definition stale_owner :: "history_owner option \<Rightarrow> auth_state \<Rightarrow> bool" where
  "stale_owner own auth = (case own of None \<Rightarrow> False | Some h \<Rightarrow> \<not> matches_auth_state h auth)"

definition feed_matches :: "'i option \<Rightarrow> 'i option \<Rightarrow> bool" where
  "feed_matches own current = (own \<noteq> None \<and> own = current)"

text \<open>\<open>sync_auth_state_projection\<close>, one step per projection.\<close>

definition sync_feed :: "'w engine \<Rightarrow> 'w engine" where
  "sync_feed e =
     (if feed_matches (en_feed_identity e) (auth_identity_from_state (sn_auth_state (en_snapshot e)))
      then e
      else e\<lparr>en_feed_identity := None, en_discovery_operation := None,
             en_snapshot := clear_feed_projection (en_snapshot e)\<rparr>)"

definition sync_account :: "'w engine \<Rightarrow> 'w engine" where
  "sync_account e =
     (if stale (en_account_identity e) (auth_identity_from_state (sn_auth_state (en_snapshot e)))
      then e\<lparr>en_account_identity := None, en_device_sessions_operation := None,
             en_snapshot := clear_account_projection (en_snapshot e)\<rparr>
      else e)"

definition sync_profile :: "'w engine \<Rightarrow> 'w engine" where
  "sync_profile e =
     (if stale (en_profile_identity e) (auth_identity_from_state (sn_auth_state (en_snapshot e)))
      then e\<lparr>en_profile_identity := None,
             en_snapshot := clear_profile_projection (en_snapshot e)\<rparr>
      else e)"

definition sync_history :: "'w engine \<Rightarrow> 'w engine" where
  "sync_history e =
     (if stale_owner (en_history_owner e) (sn_auth_state (en_snapshot e))
      then e\<lparr>en_history_owner := None, en_history_operation := None,
             en_snapshot := clear_history_projection (en_snapshot e)\<rparr>
      else e)"

definition sync_library :: "'w engine \<Rightarrow> 'w engine" where
  "sync_library e =
     (if stale (en_library_identity e) (auth_identity_from_state (sn_auth_state (en_snapshot e)))
      then e\<lparr>en_library_identity := None, en_saved_operation := None, en_liked_operation := None,
             en_snapshot := clear_library_projection (en_snapshot e)\<rparr>
      else e)"

definition sync_playlist :: "'w engine \<Rightarrow> 'w engine" where
  "sync_playlist e =
     (if stale (en_playlist_identity e) (auth_identity_from_state (sn_auth_state (en_snapshot e)))
      then e\<lparr>en_playlist_identity := None, en_playlists_operation := None,
             en_playlist_tracks_operation := None,
             en_snapshot := clear_playlist_projection (en_snapshot e)\<rparr>
      else e)"

definition sync_auth_state_projection :: "'w engine \<Rightarrow> 'w engine" where
  "sync_auth_state_projection e =
     sync_playlist (sync_library (sync_history (sync_profile (sync_account (sync_feed
       (e\<lparr>en_snapshot := (en_snapshot e)\<lparr>sn_auth_state := current_auth e\<rparr>\<rparr>))))))"

text \<open>\<open>snapshot_projection\<close>: what \<open>snapshot()\<close> returns. It reads the engine and changes nothing.\<close>

definition snapshot_projection :: "'w engine \<Rightarrow> engine_snapshot" where
  "snapshot_projection e =
     (let auth = current_auth e;
          s = (apply_queue_projection (en_queue e) (en_snapshot e))\<lparr>sn_auth_state := auth\<rparr>;
          cur = auth_identity_from_state auth;
          s = (if feed_matches (en_feed_identity e) cur then s else clear_feed_projection s);
          s = (if stale (en_account_identity e) cur then clear_account_projection s else s);
          s = (if stale (en_profile_identity e) cur then clear_profile_projection s else s);
          s = (if stale_owner (en_history_owner e) auth then clear_history_projection s else s);
          s = (if stale (en_library_identity e) cur then clear_library_projection s else s)
      in if stale (en_playlist_identity e) cur then clear_playlist_projection s else s)"

subsection \<open>Prefetched results\<close>

definition take_prefetched ::
  "(prefetched_operation \<Rightarrow> 'a option) \<Rightarrow> 'w engine \<Rightarrow> 'a option \<times> 'w engine" where
  "take_prefetched sel e =
     (case en_prefetched e of
        None \<Rightarrow> (None, e)
      | Some op \<Rightarrow> (case sel op of None \<Rightarrow> (None, e) | Some r \<Rightarrow> (Some r, e\<lparr>en_prefetched := None\<rparr>)))"

fun as_account where "as_account (PrefetchedAccount r) = Some r" | "as_account _ = None"
fun as_search where "as_search (PrefetchedSearch r) = Some r" | "as_search _ = None"
fun as_playlists where "as_playlists (PrefetchedPlaylists r) = Some r" | "as_playlists _ = None"
fun as_history_settings where
  "as_history_settings (PrefetchedHistorySettings r) = Some r" | "as_history_settings _ = None"
fun as_history_settings_update where
  "as_history_settings_update (PrefetchedHistorySettingsUpdate r) = Some r"
| "as_history_settings_update _ = None"
fun as_history_page where
  "as_history_page (PrefetchedHistoryPage r) = Some r" | "as_history_page _ = None"
fun as_history_delete where
  "as_history_delete (PrefetchedHistoryDelete r) = Some r" | "as_history_delete _ = None"
fun as_history_clear where
  "as_history_clear (PrefetchedHistoryClear r) = Some r" | "as_history_clear _ = None"
fun as_playback where "as_playback (PrefetchedPlayback r) = Some r" | "as_playback _ = None"
fun as_library_page where
  "as_library_page (PrefetchedLibraryPage r) = Some r" | "as_library_page _ = None"
fun as_library_mutation where
  "as_library_mutation (PrefetchedLibraryMutation r) = Some r" | "as_library_mutation _ = None"

text \<open>\<open>match self.take_prefetched_x() { Some(p) => p, None => port.call().await }\<close>.\<close>

definition prefetched_or ::
  "(prefetched_operation \<Rightarrow> 'a option) \<Rightarrow> ('w \<Rightarrow> 'a \<times> 'w) \<Rightarrow> 'w engine \<Rightarrow> 'a \<times> 'w engine" where
  "prefetched_or sel call e =
     (case take_prefetched sel e of
        (Some r, e) \<Rightarrow> (r, e)
      | (None, e) \<Rightarrow> (let (r, w) = call (en_world e) in (r, e\<lparr>en_world := w\<rparr>)))"

text \<open>An awaited call of a port.\<close>

definition await_call :: "('w \<Rightarrow> 'a \<times> 'w) \<Rightarrow> 'w engine \<Rightarrow> 'a \<times> 'w engine" where
  "await_call call e = (let (r, w) = call (en_world e) in (r, e\<lparr>en_world := w\<rparr>))"

subsection \<open>Effects\<close>

fun player_call :: "engine_effect \<Rightarrow> player_call option" where
  "player_call PlayEffect = Some PPlay"
| "player_call PauseEffect = Some PPause"
| "player_call StopEffect = Some PStop"
| "player_call (PreparePlaybackSource media inst pos) = Some (PPrepare media)"
| "player_call (SeekEffect pos) = Some (PSeek pos)"
| "player_call (SetSpeedEffect speed) = Some (PSetSpeed speed)"
| "player_call _ = None"

definition execute_effects :: "engine_effect list \<Rightarrow> 'w engine \<Rightarrow> 'w engine" where
  "execute_effects effects e =
     (case en_player e of
        None \<Rightarrow> e
      | Some calls \<Rightarrow> e\<lparr>en_player := Some (calls @ List.map_filter player_call effects)\<rparr>)"

definition catalog_operation_id :: "u64 \<Rightarrow> u64 \<Rightarrow> string" where
  "catalog_operation_id now sequence = ''catalog-'' @ show_u64 now @ ''-'' @ show_u64 sequence"

definition allocate_catalog_operation_id :: "u64 \<Rightarrow> 'w engine \<Rightarrow> string \<times> 'w engine" where
  "allocate_catalog_operation_id now e =
     (catalog_operation_id now (en_next_catalog_sequence e),
      e\<lparr>en_next_catalog_sequence := en_next_catalog_sequence e + 1\<rparr>)"

subsection \<open>Synchronisation laws\<close>

lemmas sync_step_defs =
  sync_feed_def sync_account_def sync_profile_def sync_history_def sync_library_def sync_playlist_def

lemma clear_frame [simp]:
  "sn_auth_state (clear_profile_projection s) = sn_auth_state s"
  "sn_auth_state (clear_account_projection s) = sn_auth_state s"
  "sn_auth_state (clear_history_projection s) = sn_auth_state s"
  "sn_auth_state (clear_library_projection s) = sn_auth_state s"
  "sn_auth_state (clear_playlist_projection s) = sn_auth_state s"
  "sn_auth_state (clear_feed_projection s) = sn_auth_state s"
  by (simp_all add: clear_defs Let_def)

lemma sync_step_auth [simp]:
  "sn_auth_state (en_snapshot (sync_feed e)) = sn_auth_state (en_snapshot e)"
  "sn_auth_state (en_snapshot (sync_account e)) = sn_auth_state (en_snapshot e)"
  "sn_auth_state (en_snapshot (sync_profile e)) = sn_auth_state (en_snapshot e)"
  "sn_auth_state (en_snapshot (sync_history e)) = sn_auth_state (en_snapshot e)"
  "sn_auth_state (en_snapshot (sync_library e)) = sn_auth_state (en_snapshot e)"
  "sn_auth_state (en_snapshot (sync_playlist e)) = sn_auth_state (en_snapshot e)"
  by (simp_all add: sync_step_defs)

lemma sync_step_frame [simp]:
  "en_world (sync_feed e) = en_world e" "en_world (sync_account e) = en_world e"
  "en_world (sync_profile e) = en_world e" "en_world (sync_history e) = en_world e"
  "en_world (sync_library e) = en_world e" "en_world (sync_playlist e) = en_world e"
  "en_auth_state_provider (sync_feed e) = en_auth_state_provider e"
  "en_auth_state_provider (sync_account e) = en_auth_state_provider e"
  "en_auth_state_provider (sync_profile e) = en_auth_state_provider e"
  "en_auth_state_provider (sync_history e) = en_auth_state_provider e"
  "en_auth_state_provider (sync_library e) = en_auth_state_provider e"
  "en_auth_state_provider (sync_playlist e) = en_auth_state_provider e"
  "en_queue (sync_feed e) = en_queue e" "en_queue (sync_account e) = en_queue e"
  "en_queue (sync_profile e) = en_queue e" "en_queue (sync_history e) = en_queue e"
  "en_queue (sync_library e) = en_queue e" "en_queue (sync_playlist e) = en_queue e"
  by (simp_all add: sync_step_defs)

lemma sync_step_identity [simp]:
  "en_account_identity (sync_feed e) = en_account_identity e"
  "en_profile_identity (sync_feed e) = en_profile_identity e"
  "en_profile_identity (sync_account e) = en_profile_identity e"
  "en_history_owner (sync_feed e) = en_history_owner e"
  "en_history_owner (sync_account e) = en_history_owner e"
  "en_history_owner (sync_profile e) = en_history_owner e"
  "en_library_identity (sync_feed e) = en_library_identity e"
  "en_library_identity (sync_account e) = en_library_identity e"
  "en_library_identity (sync_profile e) = en_library_identity e"
  "en_library_identity (sync_history e) = en_library_identity e"
  "en_playlist_identity (sync_feed e) = en_playlist_identity e"
  "en_playlist_identity (sync_account e) = en_playlist_identity e"
  "en_playlist_identity (sync_profile e) = en_playlist_identity e"
  "en_playlist_identity (sync_history e) = en_playlist_identity e"
  "en_playlist_identity (sync_library e) = en_playlist_identity e"
  "en_feed_identity (sync_account e) = en_feed_identity e"
  "en_feed_identity (sync_profile e) = en_feed_identity e"
  "en_feed_identity (sync_history e) = en_feed_identity e"
  "en_feed_identity (sync_library e) = en_feed_identity e"
  "en_feed_identity (sync_playlist e) = en_feed_identity e"
  "en_account_identity (sync_profile e) = en_account_identity e"
  "en_account_identity (sync_history e) = en_account_identity e"
  "en_account_identity (sync_library e) = en_account_identity e"
  "en_account_identity (sync_playlist e) = en_account_identity e"
  "en_profile_identity (sync_history e) = en_profile_identity e"
  "en_profile_identity (sync_library e) = en_profile_identity e"
  "en_profile_identity (sync_playlist e) = en_profile_identity e"
  "en_history_owner (sync_library e) = en_history_owner e"
  "en_history_owner (sync_playlist e) = en_history_owner e"
  "en_library_identity (sync_playlist e) = en_library_identity e"
  by (simp_all add: sync_step_defs)

lemma stale_simps [simp]: "\<not> stale None cur" "stale (Some i) cur \<longleftrightarrow> cur \<noteq> Some i"
  by (auto simp: stale_def)

lemma stale_owner_simps [simp]: "\<not> stale_owner None auth"
  by (simp add: stale_owner_def)

lemma not_stale_iff: "\<not> stale own cur \<longleftrightarrow> own = None \<or> own = cur"
  by (auto simp: stale_def)

lemma sync_auth [simp]: "sn_auth_state (en_snapshot (sync_auth_state_projection e)) = current_auth e"
  by (simp add: sync_auth_state_projection_def)

lemma sync_frame [simp]:
  "en_world (sync_auth_state_projection e) = en_world e"
  "en_auth_state_provider (sync_auth_state_projection e) = en_auth_state_provider e"
  "en_queue (sync_auth_state_projection e) = en_queue e"
  by (simp_all add: sync_auth_state_projection_def)

lemma sync_current_auth [simp]: "current_auth (sync_auth_state_projection e) = current_auth e"
  by (simp add: current_auth_def cong: option.case_cong)

lemma sync_current_identity [simp]: "current_identity (sync_auth_state_projection e) = current_identity e"
  by (simp add: current_identity_def)

lemma sync_not_stale:
  "\<not> stale (en_account_identity (sync_auth_state_projection e)) (current_identity e)"
  "\<not> stale (en_profile_identity (sync_auth_state_projection e)) (current_identity e)"
  "\<not> stale_owner (en_history_owner (sync_auth_state_projection e)) (current_auth e)"
  "\<not> stale (en_library_identity (sync_auth_state_projection e)) (current_identity e)"
  "\<not> stale (en_playlist_identity (sync_auth_state_projection e)) (current_identity e)"
  by (simp_all add: sync_auth_state_projection_def current_identity_def sync_account_def
      sync_profile_def sync_history_def sync_library_def sync_playlist_def)

text \<open>The private part of a snapshot, per projection.\<close>

definition feed_empty :: "engine_snapshot \<Rightarrow> bool" where
  "feed_empty s = (sn_discovery_results s = [] \<and> sn_for_you_results s = [] \<and>
     sn_recommendations_results s = [] \<and> sn_discovery_next s = None)"

definition account_empty :: "engine_snapshot \<Rightarrow> bool" where
  "account_empty s = (sn_protected_account s = None \<and> sn_device_sessions s = [] \<and>
     sn_device_sessions_next s = None)"

definition profile_empty :: "engine_snapshot \<Rightarrow> bool" where
  "profile_empty s = (sn_profile s = None \<and> sn_profile_preferences s = [])"

definition history_empty :: "engine_snapshot \<Rightarrow> bool" where
  "history_empty s = (sn_history_settings s = None \<and> sn_history_entries s = [] \<and>
     sn_history_next s = None \<and> sn_history_deleted_count s = 0)"

definition library_empty :: "engine_snapshot \<Rightarrow> bool" where
  "library_empty s = (sn_saved_tracks s = [] \<and> sn_saved_tracks_next s = None \<and>
     sn_liked_tracks s = [] \<and> sn_liked_tracks_next s = None \<and> sn_library_pending s = [])"

definition playlist_empty :: "engine_snapshot \<Rightarrow> bool" where
  "playlist_empty s = (sn_playlists s = [] \<and> sn_playlists_next s = None \<and>
     sn_playlist_tracks s = [] \<and> sn_playlist_tracks_id s = None \<and>
     sn_playlist_tracks_next s = None \<and> sn_playlist_reconciliation s = None)"

lemmas empty_defs =
  feed_empty_def account_empty_def profile_empty_def history_empty_def library_empty_def
  playlist_empty_def

lemma clear_empty [simp]:
  "feed_empty (clear_feed_projection s)" "account_empty (clear_account_projection s)"
  "profile_empty (clear_profile_projection s)" "history_empty (clear_history_projection s)"
  "library_empty (clear_library_projection s)" "playlist_empty (clear_playlist_projection s)"
  by (simp_all add: clear_defs empty_defs Let_def)

lemma clear_feed_empty: "feed_empty s \<Longrightarrow> clear_feed_projection s = s"
  by (simp add: clear_feed_projection_def feed_empty_def)

lemma sync_step_feed_empty [simp]:
  "feed_empty (en_snapshot (sync_account e)) \<longleftrightarrow> feed_empty (en_snapshot e)"
  "feed_empty (en_snapshot (sync_profile e)) \<longleftrightarrow> feed_empty (en_snapshot e)"
  "feed_empty (en_snapshot (sync_history e)) \<longleftrightarrow> feed_empty (en_snapshot e)"
  "feed_empty (en_snapshot (sync_library e)) \<longleftrightarrow> feed_empty (en_snapshot e)"
  "feed_empty (en_snapshot (sync_playlist e)) \<longleftrightarrow> feed_empty (en_snapshot e)"
  by (simp_all add: sync_step_defs clear_defs feed_empty_def Let_def)

lemma sync_step_discovery_operation [simp]:
  "en_discovery_operation (sync_account e) = en_discovery_operation e"
  "en_discovery_operation (sync_profile e) = en_discovery_operation e"
  "en_discovery_operation (sync_history e) = en_discovery_operation e"
  "en_discovery_operation (sync_library e) = en_discovery_operation e"
  "en_discovery_operation (sync_playlist e) = en_discovery_operation e"
  by (simp_all add: sync_step_defs)

lemma sync_feed_state:
  "feed_matches (en_feed_identity (sync_auth_state_projection e)) (current_identity e) \<or>
   en_feed_identity (sync_auth_state_projection e) = None \<and>
   en_discovery_operation (sync_auth_state_projection e) = None \<and>
   feed_empty (en_snapshot (sync_auth_state_projection e))"
  by (simp add: sync_auth_state_projection_def current_identity_def sync_feed_def)

lemma sync_fixed_point:
  assumes "sn_auth_state (en_snapshot e) = current_auth e"
    and "feed_matches (en_feed_identity e) (current_identity e) \<or>
      en_feed_identity e = None \<and> en_discovery_operation e = None \<and> feed_empty (en_snapshot e)"
    and "\<not> stale (en_account_identity e) (current_identity e)"
    and "\<not> stale (en_profile_identity e) (current_identity e)"
    and "\<not> stale_owner (en_history_owner e) (current_auth e)"
    and "\<not> stale (en_library_identity e) (current_identity e)"
    and "\<not> stale (en_playlist_identity e) (current_identity e)"
  shows "sync_auth_state_projection e = e"
proof -
  have auth: "auth_identity_from_state (sn_auth_state (en_snapshot e)) = current_identity e"
    by (simp add: assms(1) current_identity_def)
  have "e\<lparr>en_snapshot := (en_snapshot e)\<lparr>sn_auth_state := current_auth e\<rparr>\<rparr> = e"
    by (simp flip: assms(1))
  moreover have "sync_feed e = e"
    using assms(2) by (auto simp: sync_feed_def auth clear_feed_empty)
  moreover have "sync_account e = e" "sync_profile e = e" "sync_history e = e" "sync_library e = e"
    "sync_playlist e = e"
    using assms(3-) by (simp_all add: sync_step_defs assms(1) flip: current_identity_def)
  ultimately show ?thesis
    by (simp add: sync_auth_state_projection_def)
qed

lemma sync_idempotent: "sync_auth_state_projection (sync_auth_state_projection e) = sync_auth_state_projection e"
  by (rule sync_fixed_point) (use sync_feed_state [of e] sync_not_stale [of e] in simp_all)

definition clear_if :: "bool \<Rightarrow> ('s \<Rightarrow> 's) \<Rightarrow> 's \<Rightarrow> 's" where
  "clear_if b f s = (if b then f s else s)"

lemma sync_step_snapshot:
  "en_snapshot (sync_playlist e) = clear_if (stale (en_playlist_identity e)
     (auth_identity_from_state (sn_auth_state (en_snapshot e)))) clear_playlist_projection (en_snapshot e)"
  "en_snapshot (sync_library e) = clear_if (stale (en_library_identity e)
     (auth_identity_from_state (sn_auth_state (en_snapshot e)))) clear_library_projection (en_snapshot e)"
  "en_snapshot (sync_history e) = clear_if (stale_owner (en_history_owner e)
     (sn_auth_state (en_snapshot e))) clear_history_projection (en_snapshot e)"
  "en_snapshot (sync_profile e) = clear_if (stale (en_profile_identity e)
     (auth_identity_from_state (sn_auth_state (en_snapshot e)))) clear_profile_projection (en_snapshot e)"
  "en_snapshot (sync_account e) = clear_if (stale (en_account_identity e)
     (auth_identity_from_state (sn_auth_state (en_snapshot e)))) clear_account_projection (en_snapshot e)"
  "en_snapshot (sync_feed e) = clear_if (\<not> feed_matches (en_feed_identity e)
     (auth_identity_from_state (sn_auth_state (en_snapshot e)))) clear_feed_projection (en_snapshot e)"
  by (simp_all add: sync_step_defs clear_if_def)

lemma clear_if_auth [simp]:
  "(\<And>x. sn_auth_state (f x) = sn_auth_state x) \<Longrightarrow> sn_auth_state (clear_if b f s) = sn_auth_state s"
  by (simp add: clear_if_def)

lemma clear_if_queue_projection:
  "apply_queue_projection q (clear_if b clear_feed_projection s) =
     clear_if b clear_feed_projection (apply_queue_projection q s)"
  "apply_queue_projection q (clear_if b clear_account_projection s) =
     clear_if b clear_account_projection (apply_queue_projection q s)"
  "apply_queue_projection q (clear_if b clear_profile_projection s) =
     clear_if b clear_profile_projection (apply_queue_projection q s)"
  "apply_queue_projection q (clear_if b clear_history_projection s) =
     clear_if b clear_history_projection (apply_queue_projection q s)"
  "apply_queue_projection q (clear_if b clear_library_projection s) =
     clear_if b clear_library_projection (apply_queue_projection q s)"
  "apply_queue_projection q (clear_if b clear_playlist_projection s) =
     clear_if b clear_playlist_projection (apply_queue_projection q s)"
  "apply_queue_projection q (s\<lparr>sn_auth_state := a\<rparr>) =
     (apply_queue_projection q s)\<lparr>sn_auth_state := a\<rparr>"
  by (simp_all add: clear_defs apply_queue_projection_def clear_if_def Let_def)

lemma snapshot_projection_clear_if:
  "snapshot_projection e =
     (let cur = current_identity e in
      clear_if (stale (en_playlist_identity e) cur) clear_playlist_projection
      (clear_if (stale (en_library_identity e) cur) clear_library_projection
      (clear_if (stale_owner (en_history_owner e) (current_auth e)) clear_history_projection
      (clear_if (stale (en_profile_identity e) cur) clear_profile_projection
      (clear_if (stale (en_account_identity e) cur) clear_account_projection
      (clear_if (\<not> feed_matches (en_feed_identity e) cur) clear_feed_projection
        ((apply_queue_projection (en_queue e) (en_snapshot e))\<lparr>sn_auth_state := current_auth e\<rparr>)))))))"
proof -
  have neg: "(if \<not> b then x else y) = (if b then y else x)" for b and x y :: engine_snapshot
    by simp
  show ?thesis
    unfolding snapshot_projection_def current_identity_def clear_if_def Let_def neg by (rule refl)
qed

lemma snapshot_projection_sync:
  "snapshot_projection e = apply_queue_projection (en_queue e) (en_snapshot (sync_auth_state_projection e))"
  unfolding snapshot_projection_clear_if sync_auth_state_projection_def Let_def current_identity_def
  by (simp add: sync_step_snapshot clear_if_queue_projection)

subsection \<open>Ownership of private data\<close>

lemma matches_auth_state_iff: "matches_auth_state h auth \<longleftrightarrow> h = history_owner_current auth"
  by (cases h; cases "auth_identity_from_state auth")
     (auto simp: matches_auth_state_def history_owner_current_def)

lemma projected_empty [simp]:
  "feed_empty (apply_queue_projection q s) = feed_empty s"
  "account_empty (apply_queue_projection q s) = account_empty s"
  "profile_empty (apply_queue_projection q s) = profile_empty s"
  "history_empty (apply_queue_projection q s) = history_empty s"
  "library_empty (apply_queue_projection q s) = library_empty s"
  "playlist_empty (apply_queue_projection q s) = playlist_empty s"
  by (simp_all add: empty_defs apply_queue_projection_def)

lemma projected_auth [simp]:
  "sn_auth_state (apply_queue_projection q s) = sn_auth_state s"
  "sn_auth_state (s\<lparr>sn_auth_state := a\<rparr>) = a"
  by (simp_all add: apply_queue_projection_def)

lemma clear_other [simp]:
  "feed_empty (clear_account_projection s) = feed_empty s"
  "feed_empty (clear_profile_projection s) = feed_empty s"
  "feed_empty (clear_history_projection s) = feed_empty s"
  "feed_empty (clear_library_projection s) = feed_empty s"
  "feed_empty (clear_playlist_projection s) = feed_empty s"
  "account_empty (clear_feed_projection s) = account_empty s"
  "account_empty (clear_profile_projection s) = account_empty s"
  "account_empty (clear_history_projection s) = account_empty s"
  "account_empty (clear_library_projection s) = account_empty s"
  "account_empty (clear_playlist_projection s) = account_empty s"
  "profile_empty (clear_feed_projection s) = profile_empty s"
  "profile_empty (clear_account_projection s) = profile_empty s"
  "profile_empty (clear_history_projection s) = profile_empty s"
  "profile_empty (clear_library_projection s) = profile_empty s"
  "profile_empty (clear_playlist_projection s) = profile_empty s"
  "history_empty (clear_feed_projection s) = history_empty s"
  "history_empty (clear_account_projection s) = history_empty s"
  "history_empty (clear_profile_projection s) = history_empty s"
  "history_empty (clear_library_projection s) = history_empty s"
  "history_empty (clear_playlist_projection s) = history_empty s"
  "library_empty (clear_feed_projection s) = library_empty s"
  "library_empty (clear_account_projection s) = library_empty s"
  "library_empty (clear_profile_projection s) = library_empty s"
  "library_empty (clear_history_projection s) = library_empty s"
  "library_empty (clear_playlist_projection s) = library_empty s"
  "playlist_empty (clear_feed_projection s) = playlist_empty s"
  "playlist_empty (clear_account_projection s) = playlist_empty s"
  "playlist_empty (clear_profile_projection s) = playlist_empty s"
  "playlist_empty (clear_history_projection s) = playlist_empty s"
  "playlist_empty (clear_library_projection s) = playlist_empty s"
  by (simp_all add: clear_defs empty_defs Let_def)

lemma auth_empty [simp]:
  "feed_empty (s\<lparr>sn_auth_state := a\<rparr>) = feed_empty s"
  "account_empty (s\<lparr>sn_auth_state := a\<rparr>) = account_empty s"
  "profile_empty (s\<lparr>sn_auth_state := a\<rparr>) = profile_empty s"
  "history_empty (s\<lparr>sn_auth_state := a\<rparr>) = history_empty s"
  "library_empty (s\<lparr>sn_auth_state := a\<rparr>) = library_empty s"
  "playlist_empty (s\<lparr>sn_auth_state := a\<rparr>) = playlist_empty s"
  by (simp_all add: empty_defs)

lemma clear_if_keeps [simp]:
  "(\<And>x. P (f x) = P x) \<Longrightarrow> P (clear_if b f s) = P s" for P :: "'s \<Rightarrow> bool"
  by (simp add: clear_if_def)

lemma clear_if_drops:
  "(\<And>x. P (f x)) \<Longrightarrow> P (clear_if b f s) \<longleftrightarrow> b \<or> P s" for P :: "'s \<Rightarrow> bool"
  by (simp add: clear_if_def)

lemma engine_new_fields [simp]:
  "en_snapshot (engine_new cdc lower w now) =
     apply_queue_projection queue_default
       ((snapshot_idle now)\<lparr>sn_controls := derive_controls queue_default (snapshot_idle now)\<rparr>)"
  "en_account_identity (engine_new cdc lower w now) = None"
  "en_profile_identity (engine_new cdc lower w now) = None"
  "en_history_owner (engine_new cdc lower w now) = None"
  "en_library_identity (engine_new cdc lower w now) = None"
  "en_playlist_identity (engine_new cdc lower w now) = None"
  "en_queue (engine_new cdc lower w now) = queue_default"
  "en_auth_state_provider (engine_new cdc lower w now) = None"
  by (simp_all only: engine_new_def engine_fields_new_def Let_def engine.simps)

lemma snapshot_idle_empty [simp]:
  "feed_empty (snapshot_idle now)" "account_empty (snapshot_idle now)"
  "profile_empty (snapshot_idle now)" "history_empty (snapshot_idle now)"
  "library_empty (snapshot_idle now)" "playlist_empty (snapshot_idle now)"
  by (simp_all add: empty_defs snapshot_idle_def snapshot_default_def Let_def)

lemma controls_empty [simp]:
  "account_empty (s\<lparr>sn_controls := c\<rparr>) = account_empty s"
  "profile_empty (s\<lparr>sn_controls := c\<rparr>) = profile_empty s"
  "history_empty (s\<lparr>sn_controls := c\<rparr>) = history_empty s"
  "library_empty (s\<lparr>sn_controls := c\<rparr>) = library_empty s"
  "playlist_empty (s\<lparr>sn_controls := c\<rparr>) = playlist_empty s"
  by (simp_all add: empty_defs)

subsection \<open>What a reader sees\<close>

text \<open>The private fields of a snapshot, per projection, and the snapshot without them. A theme that
  came with the profile and the bookkeeping of the history count as private here.\<close>

definition feed_shown where
  "feed_shown s = (sn_discovery_results s, sn_for_you_results s, sn_recommendations_results s, sn_discovery_next s)"

definition account_shown where
  "account_shown s = (sn_protected_account s, sn_device_sessions s, sn_device_sessions_next s)"

definition profile_shown where
  "profile_shown s = (sn_profile s, sn_profile_preferences s, sn_theme_preference s)"

definition history_shown where
  "history_shown s = (sn_history_settings s, sn_history_entries s, sn_history_next s, sn_history_deleted_count s,
     sn_history_state s)"

definition library_shown where
  "library_shown s = (sn_saved_tracks s, sn_saved_tracks_next s, sn_liked_tracks s, sn_liked_tracks_next s,
     sn_library_pending s)"

definition playlist_shown where
  "playlist_shown s = (sn_playlists s, sn_playlists_next s, sn_playlist_tracks s, sn_playlist_tracks_id s,
     sn_playlist_tracks_next s, sn_playlist_reconciliation s)"

definition public_part :: "engine_snapshot \<Rightarrow> engine_snapshot" where
  "public_part s =
     s\<lparr>sn_discovery_results := [], sn_for_you_results := [], sn_recommendations_results := [],
       sn_discovery_next := None, sn_protected_account := None, sn_device_sessions := [],
       sn_device_sessions_next := None, sn_profile := None, sn_profile_preferences := [],
       sn_theme_preference := theme_preference_state_default, sn_history_settings := None,
       sn_history_entries := [], sn_history_next := None, sn_history_deleted_count := 0,
       sn_history_state := history_state_default, sn_saved_tracks := [], sn_saved_tracks_next := None,
       sn_liked_tracks := [], sn_liked_tracks_next := None, sn_library_pending := [], sn_playlists := [],
       sn_playlists_next := None, sn_playlist_tracks := [], sn_playlist_tracks_id := None,
       sn_playlist_tracks_next := None, sn_playlist_reconciliation := None\<rparr>"

lemmas shown_defs =
  feed_shown_def account_shown_def profile_shown_def history_shown_def library_shown_def playlist_shown_def

text \<open>The profile and the history after they were cleared: a theme of the profile gives way to the
  default, the generation of the history advances.\<close>

definition cleared_profile where
  "cleared_profile view =
     (let theme = snd (snd view) in
      (None, [], if tp_source theme = RemoteProfile then theme_preference_state_default else theme))"

definition cleared_history where
  "cleared_history view =
     (let state = snd (snd (snd (snd view))) in
      (None, [], None, 0, \<lparr>hst_generation = sat_add (hst_generation state) 1,
         hst_availability = AvailabilityUnknown, hst_refresh_state = RefreshIdle\<rparr>))"

lemma cleared_shown [simp]:
  "feed_shown (clear_feed_projection s) = ([], [], [], None)"
  "account_shown (clear_account_projection s) = (None, [], None)"
  "profile_shown (clear_profile_projection s) = cleared_profile (profile_shown s)"
  "history_shown (clear_history_projection s) = cleared_history (history_shown s)"
  "library_shown (clear_library_projection s) = ([], None, [], None, [])"
  "playlist_shown (clear_playlist_projection s) = ([], None, [], None, None, None)"
  by (simp_all add: clear_defs shown_defs cleared_profile_def cleared_history_def Let_def)

lemma other_shown [simp]:
  "account_shown (clear_feed_projection s) = account_shown s" "profile_shown (clear_feed_projection s) = profile_shown s"
  "history_shown (clear_feed_projection s) = history_shown s" "library_shown (clear_feed_projection s) = library_shown s"
  "playlist_shown (clear_feed_projection s) = playlist_shown s"
  "feed_shown (clear_account_projection s) = feed_shown s" "profile_shown (clear_account_projection s) = profile_shown s"
  "history_shown (clear_account_projection s) = history_shown s" "library_shown (clear_account_projection s) = library_shown s"
  "playlist_shown (clear_account_projection s) = playlist_shown s"
  "feed_shown (clear_profile_projection s) = feed_shown s" "account_shown (clear_profile_projection s) = account_shown s"
  "history_shown (clear_profile_projection s) = history_shown s" "library_shown (clear_profile_projection s) = library_shown s"
  "playlist_shown (clear_profile_projection s) = playlist_shown s"
  "feed_shown (clear_history_projection s) = feed_shown s" "account_shown (clear_history_projection s) = account_shown s"
  "profile_shown (clear_history_projection s) = profile_shown s" "library_shown (clear_history_projection s) = library_shown s"
  "playlist_shown (clear_history_projection s) = playlist_shown s"
  "feed_shown (clear_library_projection s) = feed_shown s" "account_shown (clear_library_projection s) = account_shown s"
  "profile_shown (clear_library_projection s) = profile_shown s" "history_shown (clear_library_projection s) = history_shown s"
  "playlist_shown (clear_library_projection s) = playlist_shown s"
  "feed_shown (clear_playlist_projection s) = feed_shown s" "account_shown (clear_playlist_projection s) = account_shown s"
  "profile_shown (clear_playlist_projection s) = profile_shown s" "history_shown (clear_playlist_projection s) = history_shown s"
  "library_shown (clear_playlist_projection s) = library_shown s"
  by (simp_all add: clear_defs shown_defs Let_def)

lemma projected_shown [simp]:
  "feed_shown ((apply_queue_projection q s)\<lparr>sn_auth_state := a\<rparr>) = feed_shown s"
  "account_shown ((apply_queue_projection q s)\<lparr>sn_auth_state := a\<rparr>) = account_shown s"
  "profile_shown ((apply_queue_projection q s)\<lparr>sn_auth_state := a\<rparr>) = profile_shown s"
  "history_shown ((apply_queue_projection q s)\<lparr>sn_auth_state := a\<rparr>) = history_shown s"
  "library_shown ((apply_queue_projection q s)\<lparr>sn_auth_state := a\<rparr>) = library_shown s"
  "playlist_shown ((apply_queue_projection q s)\<lparr>sn_auth_state := a\<rparr>) = playlist_shown s"
  by (simp_all add: shown_defs apply_queue_projection_def)

lemma public_part_cleared [simp]:
  "public_part (clear_feed_projection s) = public_part s" "public_part (clear_account_projection s) = public_part s"
  "public_part (clear_profile_projection s) = public_part s" "public_part (clear_history_projection s) = public_part s"
  "public_part (clear_library_projection s) = public_part s" "public_part (clear_playlist_projection s) = public_part s"
  by (simp_all add: public_part_def clear_defs Let_def)

lemma of_clear_if: "part (clear_if b f s) = (if b then part (f s) else part s)"
  by (simp add: clear_if_def)

lemmas part_clear_if =
  of_clear_if [of feed_shown] of_clear_if [of account_shown] of_clear_if [of profile_shown]
  of_clear_if [of history_shown] of_clear_if [of library_shown] of_clear_if [of playlist_shown]
  of_clear_if [of public_part]

text \<open>C13: what \<open>snapshot()\<close> returns in any state of the engine, exactly. Each of the six private
  projections is decided by its own tag and the login at that moment: it is as stored, or cleared
  as a whole when the tag names somebody else. The feeds are shown to the identity of their tag only; an
  untagged projection of another kind, which a run does not leave behind outside the history, is shown to
  everyone. Everything else is as stored, with the queue fields of the queue and the
  live auth state.\<close>

theorem snapshot_shows_by_owner:
  "feed_shown (snapshot_projection e) =
     (if feed_matches (en_feed_identity e) (current_identity e) then feed_shown (en_snapshot e)
      else ([], [], [], None)) \<and>
   account_shown (snapshot_projection e) =
     (if en_account_identity e \<in> {None, current_identity e} then account_shown (en_snapshot e)
      else (None, [], None)) \<and>
   profile_shown (snapshot_projection e) =
     (if en_profile_identity e \<in> {None, current_identity e} then profile_shown (en_snapshot e)
      else cleared_profile (profile_shown (en_snapshot e))) \<and>
   history_shown (snapshot_projection e) =
     (if en_history_owner e \<in> {None, Some (history_owner_current (current_auth e))}
      then history_shown (en_snapshot e) else cleared_history (history_shown (en_snapshot e))) \<and>
   library_shown (snapshot_projection e) =
     (if en_library_identity e \<in> {None, current_identity e} then library_shown (en_snapshot e)
      else ([], None, [], None, [])) \<and>
   playlist_shown (snapshot_projection e) =
     (if en_playlist_identity e \<in> {None, current_identity e} then playlist_shown (en_snapshot e)
      else ([], None, [], None, None, None)) \<and>
   public_part (snapshot_projection e) =
     public_part ((apply_queue_projection (en_queue e) (en_snapshot e))\<lparr>sn_auth_state := current_auth e\<rparr>)"
proof -
  have owner: "stale_owner own auth \<longleftrightarrow> own \<notin> {None, Some (history_owner_current auth)}" for own auth
    by (auto simp: stale_owner_def matches_auth_state_iff split: option.splits)
  have stale: "stale own cur \<longleftrightarrow> own \<notin> {None, cur}" for own cur :: "auth_identity option"
    by (auto simp: stale_def)
  have neg: "(if \<not> c then a else b) = (if c then b else a)" for c and a b :: 'y by simp
  show ?thesis
    unfolding snapshot_projection_clear_if Let_def
    by (simp only: part_clear_if cleared_shown other_shown projected_shown public_part_cleared if_cancel
        stale owner neg simp_thms)
qed

text \<open>Reading and synchronising agree. \<open>snapshot()\<close> is the snapshot the engine would store
  if it synchronised with the live auth state first (up to the queue fields it refreshes), and
  synchronising a second time changes nothing: no counter advances twice for one change.\<close>

lemma snapshot_is_synchronised:
  "snapshot_projection e =
     apply_queue_projection (en_queue e) (en_snapshot (sync_auth_state_projection e)) \<and>
   sync_auth_state_projection (sync_auth_state_projection e) = sync_auth_state_projection e"
  by (simp add: snapshot_projection_sync sync_idempotent)

end
