(* ===== verification/Identity.thy ===== *)
theory Identity
  imports EngineState
begin

text \<open>
  The contract every protected operation of the engine shares: a port result is used only if
  the identity the request was made for is still the live one; otherwise the projection is
  wiped, its ownership forgotten and a login error returned. The locale \<open>identity_guard\<close> states
  it over an abstract guard; each component interprets it on its own
  \<open>*_result_for_current_identity\<close>.
\<close>

locale identity_guard =
  fixes guard :: "engine_snapshot \<Rightarrow> auth_identity \<Rightarrow> 'a result \<Rightarrow> 'w engine \<Rightarrow>
      'a result \<times> engine_snapshot \<times> 'w engine"
    and wipe :: "engine_snapshot \<Rightarrow> engine_snapshot"
    and forget :: "'w engine \<Rightarrow> 'w engine"
    and refusal :: engine_error
    and vacant :: "engine_snapshot \<Rightarrow> bool"
  assumes guard_current: "current_identity e = Some i \<Longrightarrow>
      guard s i r e = (r, s\<lparr>sn_auth_state := current_auth e\<rparr>, e)"
    and guard_changed: "current_identity e \<noteq> Some i \<Longrightarrow>
      guard s i r e = (Err refusal, wipe (s\<lparr>sn_auth_state := current_auth e\<rparr>), forget e)"
    and refusal_login: "error_type refusal = LoginRequiredError"
    and wipe_vacant: "vacant (wipe s)"
    and wipe_auth: "sn_auth_state (wipe s) = sn_auth_state s"
    and vacant_auth: "vacant (s\<lparr>sn_auth_state := auth\<rparr>) = vacant s"
    and forget_world: "en_world (forget e) = en_world e"
    and forget_provider: "en_auth_state_provider (forget e) = en_auth_state_provider e"
begin

lemma guard_Ok:
  assumes "guard s i r e = (Ok a, s', e')"
  shows "current_identity e = Some i" "r = Ok a" "s' = s\<lparr>sn_auth_state := current_auth e\<rparr>" "e' = e"
  using assms by (cases "current_identity e = Some i"; simp add: guard_current guard_changed)+

lemma guard_cases:
  obtains (current) "current_identity e = Some i"
      "guard s i r e = (r, s\<lparr>sn_auth_state := current_auth e\<rparr>, e)"
  | (changed) "current_identity e \<noteq> Some i"
      "guard s i r e = (Err refusal, wipe (s\<lparr>sn_auth_state := current_auth e\<rparr>), forget e)"
  using guard_current guard_changed by blast

lemma guard_auth: "sn_auth_state (fst (snd (guard s i r e))) = current_auth e"
  by (cases rule: guard_cases [of e i s r]) (simp_all add: wipe_auth)

lemma forget_current_auth: "current_auth (forget e) = current_auth e"
  by (simp add: current_auth_def forget_world forget_provider cong: option.case_cong)

lemma guard_current_auth: "current_auth (snd (snd (guard s i r e))) = current_auth e"
  by (cases rule: guard_cases [of e i s r]) (simp_all add: forget_current_auth)

text \<open>The snapshot a guarded call leaves behind is authentic: it shows the live auth state, and
  it holds private data only when that identity is the one the request was made for.\<close>

lemma guard_authentic:
  assumes "guard s i r e = (res, s', e')"
  shows "sn_auth_state s' = current_auth e'"
    and "current_identity e' = Some i \<and> res = r \<or> vacant s' \<and> res = Err refusal"
proof -
  have "current_auth e' = current_auth e"
    using guard_current_auth [of s i r e] assms by simp
  then have cur: "current_identity e' = current_identity e"
    by (simp add: current_identity_def)
  show "sn_auth_state s' = current_auth e'"
    using guard_auth [of s i r e] assms \<open>current_auth e' = current_auth e\<close> by simp
  show "current_identity e' = Some i \<and> res = r \<or> vacant s' \<and> res = Err refusal"
  proof (cases rule: guard_cases [of e i s r])
    case current
    with assms cur show ?thesis by simp
  next
    case changed
    have "s' = wipe (s\<lparr>sn_auth_state := current_auth e\<rparr>)" "res = Err refusal"
      using assms changed(2) by simp_all
    then show ?thesis by (simp add: wipe_vacant)
  qed
qed

end

text \<open>A projection with a recorded owner and page operations that remember whose they are. Its
  invariant \<open>owned\<close>: nobody owns it and it is empty, or the identity the snapshot shows owns it
  and all its page operations.\<close>

locale owned_projection = identity_guard guard wipe forget refusal vacant
  for guard :: "engine_snapshot \<Rightarrow> auth_identity \<Rightarrow> 'a result \<Rightarrow> 'w engine \<Rightarrow>
      'a result \<times> engine_snapshot \<times> 'w engine"
    and wipe forget refusal vacant +
  fixes owner :: "'w engine \<Rightarrow> auth_identity option"
    and pagers :: "'w engine \<Rightarrow> auth_identity set"
  assumes forget_owner: "owner (forget e) = None"
    and forget_pagers: "pagers (forget e) = {}"
begin

definition owned :: "engine_snapshot \<Rightarrow> 'w engine \<Rightarrow> bool" where
  "owned s e =
     (owner e = None \<and> vacant s \<and> pagers e = {} \<or>
      (\<exists>i. owner e = Some i \<and> auth_identity_from_state (sn_auth_state s) = Some i \<and> pagers e \<subseteq> {i}))"

lemma owned_vacant: "owner e = None \<Longrightarrow> vacant s \<Longrightarrow> pagers e = {} \<Longrightarrow> owned s e"
  by (simp add: owned_def)

lemma owned_by:
  "owner e = Some i \<Longrightarrow> auth_identity_from_state (sn_auth_state s) = Some i \<Longrightarrow> pagers e \<subseteq> {i} \<Longrightarrow> owned s e"
  by (simp add: owned_def)

text \<open>A change that keeps ownership and auth state keeps the invariant, if it fills the
  projection only under an owner.\<close>

lemma owned_change:
  assumes "owned s e" "owner e' = owner e" "pagers e' \<subseteq> pagers e" "sn_auth_state s' = sn_auth_state s"
    and "owner e = None \<Longrightarrow> vacant s \<Longrightarrow> vacant s'"
  shows "owned s' e'"
  using assms by (auto simp: owned_def)

text \<open>Claiming the projection for the identity shown.\<close>

lemma owned_claim:
  assumes "owned s e" "auth_identity_from_state (sn_auth_state s) = Some i"
    and "owner e' = Some i" "pagers e' \<subseteq> insert i (pagers e)" "sn_auth_state s' = sn_auth_state s"
  shows "owned s' e'"
  using assms by (auto simp: owned_def)

lemma owned_guard:
  assumes "owned s e" "auth_identity_from_state (sn_auth_state s) = Some i"
    and "owner e1 = owner e" "pagers e1 = pagers e" and "guard s i r e1 = (res, s', e')"
  shows "owned s' e' \<and>
    (res = Inr a \<longrightarrow> auth_identity_from_state (sn_auth_state s') = Some i \<and> r = Inr a \<and> e' = e1 \<and>
      s' = s\<lparr>sn_auth_state := sn_auth_state s'\<rparr>) \<and>
    (res = r \<and> auth_identity_from_state (sn_auth_state s') = Some i \<or> res = Err refusal)"
proof (cases rule: guard_cases [of e1 i s r])
  case current
  then have *: "s' = s\<lparr>sn_auth_state := current_auth e1\<rparr>" "e' = e1" "res = r"
    using assms(5) by simp_all
  have "auth_identity_from_state (sn_auth_state s') = Some i"
    using current(1) by (simp add: *(1) current_identity_def)
  moreover have "owned s' e'"
  proof (cases "owner e")
    case None
    then have "vacant s" "pagers e = {}" using assms(1) by (auto simp: owned_def)
    then have "vacant s' \<or> s' = s" using * vacant_auth by simp
    then show ?thesis using None \<open>vacant s\<close> \<open>pagers e = {}\<close> assms(3,4) *(2) by (auto simp: owned_def)
  next
    case (Some j)
    then have "j = i" "pagers e \<subseteq> {i}" using assms(1,2) by (auto simp: owned_def)
    with Some assms(3,4) *(2) \<open>auth_identity_from_state (sn_auth_state s') = Some i\<close>
    show ?thesis by (auto simp: owned_def)
  qed
  ultimately show ?thesis using * by simp
next
  case changed
  then have "s' = wipe (s\<lparr>sn_auth_state := current_auth e1\<rparr>)" "res = Err refusal" "e' = forget e1"
    using assms(5) by simp_all
  then show ?thesis by (simp add: owned_def wipe_vacant forget_owner forget_pagers)
qed

end

end
