(* ===== verification/Account.thy ===== *)
theory Account
  imports Identity
begin

text \<open>
  Account and device-session commands (\<open>engine/core/account.rs\<close>). A handler takes the snapshot
  under construction and the engine and returns its result with both. Every handler obtains its
  context (identity and port), awaits the port, and passes the answer through
  \<open>account_result_for_current_identity\<close>, the account's \<open>identity_guard\<close>.
\<close>

definition account_login_required :: engine_error where
  "account_login_required = engine_error_new LoginRequiredError
     ''account operation requires the current authenticated session'' False"

definition account_invalid_input :: "string \<Rightarrow> engine_error" where
  "account_invalid_input msg = engine_error_new InvalidInput msg False"

definition account_context ::
  "engine_snapshot \<Rightarrow> 'w engine \<Rightarrow> (auth_identity \<times> 'w account_port) result" where
  "account_context s e =
     (case auth_identity_from_state (sn_auth_state s) of
        None \<Rightarrow> Err account_login_required
      | Some identity \<Rightarrow>
          (case en_account_port e of
             None \<Rightarrow> Err (engine_error_new FailedPrecondition ''account service is not configured'' False)
           | Some port \<Rightarrow> Ok (identity, port)))"

definition forget_account :: "'w engine \<Rightarrow> 'w engine" where
  "forget_account e = e\<lparr>en_account_identity := None, en_device_sessions_operation := None\<rparr>"

definition clear_account_operation ::
  "engine_snapshot \<Rightarrow> 'w engine \<Rightarrow> engine_snapshot \<times> 'w engine" where
  "clear_account_operation s e = (clear_account_projection s, forget_account e)"

definition account_result_for_current_identity ::
  "engine_snapshot \<Rightarrow> auth_identity \<Rightarrow> 'a result \<Rightarrow> 'w engine \<Rightarrow>
     'a result \<times> engine_snapshot \<times> 'w engine" where
  "account_result_for_current_identity s expected r e =
     (let auth = current_auth e;
          s = s\<lparr>sn_auth_state := auth\<rparr>
      in if auth_identity_from_state auth = Some expected then (r, s, e)
         else let (s, e) = clear_account_operation s e in (Err account_login_required, s, e))"

interpretation acc: identity_guard account_result_for_current_identity clear_account_projection
  forget_account account_login_required account_empty
  by unfold_locales
     (auto simp: account_result_for_current_identity_def current_identity_def Let_def
       clear_account_operation_def account_login_required_def forget_account_def)

definition clear_all_protected_operations ::
  "engine_snapshot \<Rightarrow> 'w engine \<Rightarrow> engine_snapshot \<times> 'w engine" where
  "clear_all_protected_operations s e =
     (let (s, e) = clear_account_operation s e;
          e = e\<lparr>en_profile_identity := None\<rparr>;
          s = clear_profile_projection s;
          e = e\<lparr>en_history_owner := None, en_history_operation := None\<rparr>;
          s = clear_history_projection s;
          e = e\<lparr>en_library_identity := None, en_saved_operation := None, en_liked_operation := None\<rparr>;
          s = clear_library_projection s;
          e = e\<lparr>en_playlist_identity := None, en_playlists_operation := None,
                en_playlist_tracks_operation := None\<rparr>;
          s = clear_playlist_projection s;
          e = e\<lparr>en_feed_identity := None, en_discovery_operation := None\<rparr>
      in (clear_feed_projection s, e))"

definition get_account ::
  "engine_snapshot \<Rightarrow> 'w engine \<Rightarrow> unit result \<times> engine_snapshot \<times> 'w engine" where
  "get_account s e =
     (case account_context s e of
        Inl err \<Rightarrow> (Err err, s, e)
      | Inr (identity, port) \<Rightarrow>
          (let (r, e) = prefetched_or as_account (ap_get_account port identity) e;
               (r, s, e) = account_result_for_current_identity s identity r e
           in case r of
                Inl err \<Rightarrow> (Err err, s, e)
              | Inr account \<Rightarrow>
                  (if acct_id account \<noteq> ai_account_id identity
                   then (Err (engine_error_new Forbidden
                           ''account response does not belong to authenticated identity'' False), s, e)
                   else (Ok (), s\<lparr>sn_protected_account := Some account\<rparr>,
                         e\<lparr>en_account_identity := Some identity\<rparr>))))"

definition list_device_sessions ::
  "engine_snapshot \<Rightarrow> page_request \<Rightarrow> bool \<Rightarrow> 'w engine \<Rightarrow>
     unit result \<times> engine_snapshot \<times> 'w engine" where
  "list_device_sessions s page appending e =
     (case account_context s e of
        Inl err \<Rightarrow> (Err err, s, e)
      | Inr (identity, port) \<Rightarrow>
          (let (r, e) = await_call (ap_list_sessions port identity page) e;
               (r, s, e) = account_result_for_current_identity s identity r e
           in case r of
                Inl err \<Rightarrow> (Err err, s, e)
              | Inr result \<Rightarrow>
                  (Ok (),
                   s\<lparr>sn_device_sessions :=
                       (if appending then sn_device_sessions s @ pr_items result else pr_items result),
                     sn_device_sessions_next := pr_next_page_token result\<rparr>,
                   e\<lparr>en_account_identity := Some identity,
                     en_device_sessions_operation :=
                       Some \<lparr>pop_auth_identity = identity, pop_page_size = page_size page\<rparr>\<rparr>)))"

definition revoke_device_session ::
  "engine_snapshot \<Rightarrow> string \<Rightarrow> 'w engine \<Rightarrow> unit result \<times> engine_snapshot \<times> 'w engine" where
  "revoke_device_session s session_id e =
     (case account_context s e of
        Inl err \<Rightarrow> (Err err, s, e)
      | Inr (identity, port) \<Rightarrow>
          (if session_id = ai_session_id identity
           then (Err (account_invalid_input
                   ''the current authenticated session must be ended through logout''), s, e)
           else
             (let (r, e) = await_call (ap_revoke_session port identity session_id) e;
                  (r, s, e) = account_result_for_current_identity s identity r e
              in case r of
                   Inl err \<Rightarrow> (Err err, s, e)
                 | Inr _ \<Rightarrow>
                     (Ok (),
                      s\<lparr>sn_device_sessions :=
                          filter (\<lambda>session. as_id session \<noteq> session_id) (sn_device_sessions s)\<rparr>,
                      e\<lparr>en_account_identity := Some identity\<rparr>))))"

definition delete_account ::
  "engine_snapshot \<Rightarrow> 'w engine \<Rightarrow> unit result \<times> engine_snapshot \<times> 'w engine" where
  "delete_account s e =
     (case account_context s e of
        Inl err \<Rightarrow> (Err err, s, e)
      | Inr (identity, port) \<Rightarrow>
          (let (r, e) = await_call (ap_delete_account port identity) e;
               auth = current_auth e;
               current = auth_identity_from_state auth;
               s = s\<lparr>sn_auth_state := auth\<rparr>
           in if current = None \<and> is_ok r \<and> auth = Anonymous
              then (let (s, e) = clear_all_protected_operations s e in (Ok (), s, e))
              else if current = Some identity
              then (case r of
                      Inl err \<Rightarrow> (Err err, s, e)
                    | Inr _ \<Rightarrow> (Err (engine_error_new SessionStorage
                                  ''account deleted but local session was not cleared'' False), s, e))
              else (let (s, e) = clear_all_protected_operations s e
                    in (Err account_login_required, s, e))))"

definition set_account_error :: "engine_error \<Rightarrow> engine_snapshot \<Rightarrow> engine_snapshot" where
  "set_account_error err s = s\<lparr>sn_last_error := Some err\<rparr>"

text \<open>The tail of \<open>dispatch_account_command\<close>.\<close>

definition finish_account :: "unit result \<times> engine_snapshot \<times> 'w engine \<Rightarrow> engine_snapshot \<times> 'w engine" where
  "finish_account x =
     (case x of (r, s, e) \<Rightarrow> (case r of Inl err \<Rightarrow> (set_account_error err s, e) | Inr _ \<Rightarrow> (s, e)))"

text \<open>\<open>Self::current_identity\<close> has no identity without a provider, as \<open>current_identity\<close>.\<close>

fun dispatch_account_command ::
  "engine_command_type \<Rightarrow> engine_snapshot \<Rightarrow> 'w engine \<Rightarrow> engine_snapshot \<times> 'w engine" where
  "dispatch_account_command command s e =
     (case command of
        GetAccount \<Rightarrow> finish_account (get_account s e)
      | ListDeviceSessions page \<Rightarrow>
          finish_account (list_device_sessions
            (s\<lparr>sn_device_sessions := [], sn_device_sessions_next := None\<rparr>) page False
            (e\<lparr>en_device_sessions_operation := None\<rparr>))
      | LoadNextDeviceSessionsPage \<Rightarrow>
          (case en_device_sessions_operation e of
             None \<Rightarrow>
               (set_account_error (account_invalid_input ''no active device-session page operation'') s, e)
           | Some operation \<Rightarrow>
               (case sn_device_sessions_next s of
                  None \<Rightarrow> (s, e)
                | Some token \<Rightarrow>
                    finish_account
                      (if current_identity e \<noteq> Some (pop_auth_identity operation)
                       then let (s, e) = clear_account_operation s e in (Err account_login_required, s, e)
                       else list_device_sessions s
                              \<lparr>page_size = pop_page_size operation, page_token = Some token\<rparr> True e)))
      | RevokeDeviceSession session_id \<Rightarrow> finish_account (revoke_device_session s session_id e)
      | DeleteAccount \<Rightarrow> finish_account (delete_account s e)
      | _ \<Rightarrow> (s, e))"

declare dispatch_account_command.simps [simp del]

subsection \<open>Safety of the account projection\<close>

text \<open>Private account data in a snapshot belongs to the identity the snapshot shows, which owns
  the projection; a protected account in it is that identity's account.\<close>

definition account_ok :: "engine_snapshot \<Rightarrow> 'w engine \<Rightarrow> bool" where
  "account_ok s e =
     (account_empty s \<or>
      (\<exists>i. en_account_identity e = Some i \<and> auth_identity_from_state (sn_auth_state s) = Some i \<and>
        (\<forall>a. sn_protected_account s = Some a \<longrightarrow> acct_id a = ai_account_id i)))"

lemma await_call_frame [simp]:
  "en_account_identity (snd (await_call c e)) = en_account_identity e"
  by (simp add: await_call_def split: prod.splits)

lemma await_callD:
  "await_call c e = (r, e') \<Longrightarrow> e' = e\<lparr>en_world := en_world e'\<rparr> \<and> c (en_world e) = (r, en_world e')"
  by (auto simp: await_call_def split: prod.splits)

lemma prefetched_orD:
  "prefetched_or sel c e = (r, e') \<Longrightarrow>
     e' = e\<lparr>en_world := en_world e', en_prefetched := en_prefetched e'\<rparr>"
  by (auto simp: prefetched_or_def take_prefetched_def split: prod.splits option.splits)

lemma account_contextD:
  "account_context s e = Inr (i, port) \<Longrightarrow>
     auth_identity_from_state (sn_auth_state s) = Some i \<and> en_account_port e = Some port"
  by (auto simp: account_context_def split: option.splits)

lemma account_ok_vacant: "account_empty s \<Longrightarrow> account_ok s e"
  by (simp add: account_ok_def)

lemma account_ok_error [simp]: "account_ok (set_account_error err s) e = account_ok s e"
  by (simp add: account_ok_def set_account_error_def account_empty_def)

lemma account_ok_identity:
  assumes "account_ok s e" "en_account_identity e' = en_account_identity e"
    "sn_protected_account s' = sn_protected_account s" "account_empty s' = account_empty s"
    "auth_identity_from_state (sn_auth_state s') = auth_identity_from_state (sn_auth_state s)"
  shows "account_ok s' e'"
  using assms by (simp add: account_ok_def)

text \<open>What a guarded answer leaves of the invariant.\<close>

lemma account_guard_ok:
  assumes "account_ok s e" "auth_identity_from_state (sn_auth_state s) = Some i"
    and "account_result_for_current_identity s i r e = (res, s', e')"
  shows "account_ok s' e'"
    and "res = Inr a \<Longrightarrow> auth_identity_from_state (sn_auth_state s') = Some i"
proof -
  from acc.guard_cases [of e i s r]
  have "account_ok s' e' \<and> (res = Inr a \<longrightarrow> auth_identity_from_state (sn_auth_state s') = Some i)"
  proof cases
    case current
    then have "s' = s\<lparr>sn_auth_state := current_auth e\<rparr>" "e' = e"
      using assms(3) by simp_all
    with assms(1,2) current(1) show ?thesis
      by (simp add: account_ok_def current_identity_def)
  next
    case changed
    then have "s' = clear_account_projection (s\<lparr>sn_auth_state := current_auth e\<rparr>)" "res = Err account_login_required"
      using assms(3) by simp_all
    then show ?thesis by (simp add: account_ok_vacant)
  qed
  then show "account_ok s' e'"
    and "res = Inr a \<Longrightarrow> auth_identity_from_state (sn_auth_state s') = Some i" by simp_all
qed

lemma account_answer_ok:
  assumes "account_ok s e" "account_context s e = Inr (i, port)"
    and "en_account_identity e1 = en_account_identity e"
    and "account_result_for_current_identity s i r e1 = (res, s', e')"
  shows "account_ok s' e'"
    and "res = Inr a \<Longrightarrow> auth_identity_from_state (sn_auth_state s') = Some i"
proof -
  have "account_ok s e1" using assms(1,3) by (simp add: account_ok_def)
  note * = account_guard_ok [OF this _ assms(4)]
  show "account_ok s' e'" "res = Inr a \<Longrightarrow> auth_identity_from_state (sn_auth_state s') = Some i"
    using * account_contextD [OF assms(2)] by simp_all
qed

lemma await_call_account: "await_call c e = (r, e') \<Longrightarrow> en_account_identity e' = en_account_identity e"
  by (auto simp: await_call_def split: prod.splits)

lemma prefetched_or_account: "prefetched_or sel c e = (r, e') \<Longrightarrow> en_account_identity e' = en_account_identity e"
  by (subst prefetched_orD, assumption) simp

lemma get_account_ok:
  assumes "account_ok s e" "get_account s e = (r, s', e')"
  shows "account_ok s' e'"
proof (cases "account_context s e")
  case (Inl err)
  with assms show ?thesis by (simp add: get_account_def)
next
  case (Inr c)
  obtain i port where c: "c = (i, port)" by (cases c)
  obtain r1 e1 where p: "prefetched_or as_account (ap_get_account port i) e = (r1, e1)"
    by (cases "prefetched_or as_account (ap_get_account port i) e")
  obtain r2 s2 e2 where g: "account_result_for_current_identity s i r1 e1 = (r2, s2, e2)"
    by (cases "account_result_for_current_identity s i r1 e1")
  note ok = account_answer_ok [OF assms(1) Inr [unfolded c] prefetched_or_account [OF p] g]
  show ?thesis
  proof (cases r2)
    case Inl
    with assms(2) ok(1) show ?thesis by (simp add: get_account_def Inr c p g)
  next
    case (Inr a)
    then show ?thesis
      using assms(2) ok(1) ok(2) [OF Inr]
      by (cases "acct_id a = ai_account_id i")
         (auto simp: get_account_def \<open>account_context s e = Inr c\<close> c p g account_ok_def)
  qed
qed

lemma list_device_sessions_ok:
  assumes "account_ok s e" "list_device_sessions s page appending e = (r, s', e')"
  shows "account_ok s' e'"
proof (cases "account_context s e")
  case (Inl err)
  with assms show ?thesis by (simp add: list_device_sessions_def)
next
  case (Inr c)
  obtain i port where c: "c = (i, port)" by (cases c)
  obtain r1 e1 where p: "await_call (ap_list_sessions port i page) e = (r1, e1)"
    by (cases "await_call (ap_list_sessions port i page) e")
  obtain r2 s2 e2 where g: "account_result_for_current_identity s i r1 e1 = (r2, s2, e2)"
    by (cases "account_result_for_current_identity s i r1 e1")
  note ok = account_answer_ok [OF assms(1) Inr [unfolded c] await_call_account [OF p] g]
  show ?thesis
    using assms(2) ok
    by (cases r2) (auto simp: list_device_sessions_def Inr c p g account_ok_def account_empty_def)
qed

lemma revoke_device_session_ok:
  assumes "account_ok s e" "revoke_device_session s sid e = (r, s', e')"
  shows "account_ok s' e'"
proof (cases "account_context s e")
  case (Inl err)
  with assms show ?thesis by (simp add: revoke_device_session_def)
next
  case (Inr c)
  obtain i port where c: "c = (i, port)" by (cases c)
  obtain r1 e1 where p: "await_call (ap_revoke_session port i sid) e = (r1, e1)"
    by (cases "await_call (ap_revoke_session port i sid) e")
  obtain r2 s2 e2 where g: "account_result_for_current_identity s i r1 e1 = (r2, s2, e2)"
    by (cases "account_result_for_current_identity s i r1 e1")
  note ok = account_answer_ok [OF assms(1) Inr [unfolded c] await_call_account [OF p] g]
  show ?thesis
    using assms ok
    by (cases r2; cases "sid = ai_session_id i")
       (auto simp: revoke_device_session_def Inr c p g account_ok_def account_empty_def)
qed

lemma clear_all_vacant:
  assumes "clear_all_protected_operations s e = (s', e')"
  shows "account_empty s'" "profile_empty s'" "history_empty s'" "library_empty s'"
    "playlist_empty s'" "feed_empty s'" "sn_auth_state s' = sn_auth_state s"
    "sn_last_error s' = sn_last_error s"
  using assms by (auto simp: clear_all_protected_operations_def clear_account_operation_def Let_def
      clear_defs empty_defs)

text \<open>No private projection has an owner, and no listing is being continued.\<close>

definition untagged :: "'w engine \<Rightarrow> bool" where
  "untagged e =
     (en_account_identity e = None \<and> en_profile_identity e = None \<and> en_history_owner e = None \<and>
      en_library_identity e = None \<and> en_playlist_identity e = None \<and> en_feed_identity e = None \<and>
      en_device_sessions_operation e = None \<and> en_history_operation e = None \<and>
      en_saved_operation e = None \<and> en_liked_operation e = None \<and> en_playlists_operation e = None \<and>
      en_playlist_tracks_operation e = None \<and> en_discovery_operation e = None)"

lemma clear_all_untagged: "clear_all_protected_operations s e = (s', e') \<Longrightarrow> untagged e'"
  by (auto simp: clear_all_protected_operations_def clear_account_operation_def forget_account_def
      Let_def untagged_def)

lemma delete_account_ok:
  assumes "account_ok s e" "delete_account s e = (r, s', e')"
  shows "account_ok s' e'"
proof (cases "account_context s e")
  case (Inl err)
  with assms show ?thesis by (simp add: delete_account_def)
next
  case (Inr c)
  obtain i port where c: "c = (i, port)" by (cases c)
  obtain r1 e1 where p: "await_call (ap_delete_account port i) e = (r1, e1)"
    by (cases "await_call (ap_delete_account port i) e")
  have "auth_identity_from_state (sn_auth_state s) = Some i"
    using account_contextD [OF Inr [unfolded c]] by simp
  then show ?thesis
    using assms await_call_account [OF p]
    by (cases r1) (auto simp: delete_account_def Inr c p Let_def account_ok_def
        dest: clear_all_vacant(1) split: if_splits prod.splits)
qed

lemma finish_account_ok:
  assumes "x = (r, s, e)" "account_ok s e" "finish_account x = (s', e')"
  shows "account_ok s' e'"
  using assms by (cases r) (auto simp: finish_account_def)

lemma dispatch_account_ok:
  assumes "account_ok s e" "dispatch_account_command command s e = (s', e')"
  shows "account_ok s' e'"
proof -
  have vac: "account_ok (s\<lparr>sn_device_sessions := [], sn_device_sessions_next := None\<rparr>)
      (e\<lparr>en_device_sessions_operation := None\<rparr>)"
    using assms(1) by (auto simp: account_ok_def account_empty_def)
  have fin: "account_ok s' e'" if "x = (r, s2, e2)" "account_ok s2 e2" "finish_account x = (s', e')" for x r s2 e2
    using finish_account_ok that .
  show ?thesis
  proof (cases command)
    case GetAccount
    with assms show ?thesis
      by (cases "get_account s e") (auto simp: dispatch_account_command.simps intro: fin get_account_ok)
  next
    case (ListDeviceSessions page)
    let ?x = "list_device_sessions (s\<lparr>sn_device_sessions := [], sn_device_sessions_next := None\<rparr>) page False
        (e\<lparr>en_device_sessions_operation := None\<rparr>)"
    obtain r s2 e2 where x: "?x = (r, s2, e2)" by (cases ?x)
    with ListDeviceSessions assms(2) show ?thesis
      using fin [OF x list_device_sessions_ok [OF vac x]] by (simp add: dispatch_account_command.simps)
  next
    case LoadNextDeviceSessionsPage
    show ?thesis
    proof (cases "\<exists>op token. en_device_sessions_operation e = Some op \<and> sn_device_sessions_next s = Some token")
      case True
      then obtain op token where ot: "en_device_sessions_operation e = Some op"
        "sn_device_sessions_next s = Some token" by blast
      let ?x = "list_device_sessions s \<lparr>page_size = pop_page_size op, page_token = Some token\<rparr> True e"
      obtain r s2 e2 where x: "?x = (r, s2, e2)" by (cases ?x)
      have "finish_account (Err account_login_required, clear_account_projection s, forget_account e) = (s', e')
          \<or> finish_account ?x = (s', e')"
        using assms(2) LoadNextDeviceSessionsPage ot
        by (auto simp: dispatch_account_command.simps clear_account_operation_def split: if_splits)
      then show ?thesis
        using fin [OF x list_device_sessions_ok [OF assms(1) x]]
          fin [OF refl account_ok_vacant] clear_empty(2) by blast
    next
      case False
      with assms LoadNextDeviceSessionsPage show ?thesis
        by (auto simp: dispatch_account_command.simps split: option.splits)
    qed
  next
    case (RevokeDeviceSession sid)
    with assms show ?thesis
      by (cases "revoke_device_session s sid e")
         (auto simp: dispatch_account_command.simps intro: fin revoke_device_session_ok)
  next
    case DeleteAccount
    with assms show ?thesis
      by (cases "delete_account s e") (auto simp: dispatch_account_command.simps intro: fin delete_account_ok)
  qed (use assms in \<open>simp_all add: dispatch_account_command.simps\<close>)
qed

subsection \<open>Properties\<close>

text \<open>A port whose calls all answer with fixed values, for concrete runs.\<close>

definition fixed_account_port :: "account \<Rightarrow> 'w account_port" where
  "fixed_account_port a =
     \<lparr>ap_get_account = (\<lambda>_ w. (Ok a, w)),
      ap_list_sessions = (\<lambda>_ _ w. (Ok \<lparr>pr_items = [], pr_next_page_token = None\<rparr>, w)),
      ap_revoke_session = (\<lambda>_ _ w. (Ok (), w)), ap_delete_account = (\<lambda>_ w. (Ok (), w))\<rparr>"

definition sample_account :: account where
  "sample_account = \<lparr>acct_id = ''a'', acct_primary_email = [], acct_status = [],
     acct_created_at_epoch_millis = 0\<rparr>"

definition sample_session :: auth_session where
  "sample_session = \<lparr>as_id = ''s'', as_device_label = [], as_created_at_epoch_millis = 0,
     as_last_used_at_epoch_millis = 0, as_expires_at_epoch_millis = 0, as_current = True\<rparr>"

definition sample_identity :: auth_identity where
  "sample_identity = \<lparr>ai_account_id = ''a'', ai_session_id = ''s''\<rparr>"

definition logged_in :: auth_state where
  "logged_in = Authenticated sample_account sample_session"

lemma logged_in_identity [simp]: "auth_identity_from_state logged_in = Some sample_identity"
  by (simp add: logged_in_def auth_identity_from_state_def sample_account_def sample_session_def
      sample_identity_def blank_leading_visible)

text \<open>No account command, whatever the port answers and however the login changes while it
  is awaited, leaves another user's account data in the snapshot: protected account and device
  sessions are empty or owned by the identity the snapshot shows, and a protected account is the
  account of that identity.\<close>

lemma account_commands_keep_ownership:
  assumes "account_ok s e"
  shows "case fold (\<lambda>c (s, e). dispatch_account_command c s e) commands (s, e) of
    (s', e') \<Rightarrow> account_ok s' e'"
  using assms
proof (induction commands arbitrary: s e)
  case (Cons c commands)
  obtain s2 e2 where d: "dispatch_account_command c s e = (s2, e2)"
    by (cases "dispatch_account_command c s e")
  show ?case
    using Cons.IH [OF dispatch_account_ok [OF Cons.prems d]] by (simp add: d)
qed simp

lemma account_commands_keep_ownership_witness:
  "case fold (\<lambda>c (s, e). dispatch_account_command c s e) [GetAccount, DeleteAccount]
     (snapshot_default, engine_new null_codec id () 7) of (s', e') \<Rightarrow> account_ok s' e'"
  by (rule account_commands_keep_ownership)
     (simp add: account_ok_def account_empty_def snapshot_default_def)

text \<open>Revoking the session one is logged in with is refused before any port call: the outside
  world is untouched, the session list is kept and the error is an invalid-input error; logging
  out is the only way to end the current session.\<close>

lemma revoke_current_session_refused:
  assumes "auth_identity_from_state (sn_auth_state s) = Some i" and "en_account_port e = Some port"
  shows "dispatch_account_command (RevokeDeviceSession (ai_session_id i)) s e =
    (s\<lparr>sn_last_error := Some (account_invalid_input
        ''the current authenticated session must be ended through logout'')\<rparr>, e)"
  using assms
  by (simp add: dispatch_account_command.simps revoke_device_session_def account_context_def
      finish_account_def set_account_error_def)

lemma revoke_current_session_refused_witness:
  "en_world (snd (dispatch_account_command (RevokeDeviceSession ''s'')
     (snapshot_default\<lparr>sn_auth_state := logged_in\<rparr>)
     ((engine_new null_codec id (3::nat) 7)\<lparr>en_account_port := Some (fixed_account_port sample_account)\<rparr>))) = 3"
proof -
  let ?s = "snapshot_default\<lparr>sn_auth_state := logged_in\<rparr>"
  let ?e = "(engine_new null_codec id (3::nat) 7)\<lparr>en_account_port := Some (fixed_account_port sample_account)\<rparr>"
  have "dispatch_account_command (RevokeDeviceSession (ai_session_id sample_identity)) ?s ?e =
    (?s\<lparr>sn_last_error := Some (account_invalid_input
        ''the current authenticated session must be ended through logout'')\<rparr>, ?e)"
    by (rule revoke_current_session_refused) simp_all
  moreover have "en_world ?e = 3"
    by (simp add: engine_new_def engine_fields_new_def Let_def)
  ultimately show ?thesis by (simp add: sample_identity_def)
qed

text \<open>C21: what deleting the account leaves behind, whatever the port answers. When it succeeded and the
  session is gone, no error is raised; when the login survived, nothing of the snapshot changes but the
  auth state and the error, which says whether the deletion or the local cleanup failed, and
  nothing of the engine; in every other case a login error is reported. Whenever the login is
  gone, all protected projections are empty, untagged and not being continued.\<close>

theorem delete_account_outcomes:
  assumes "auth_identity_from_state (sn_auth_state s) = Some i" and "en_account_port e = Some port"
    and "ap_delete_account port i (en_world e) = (r, w)"
    and "dispatch_account_command DeleteAccount s e = (s', e')"
  shows "sn_auth_state s' = current_auth (e\<lparr>en_world := w\<rparr>) \<and>
    (if current_auth (e\<lparr>en_world := w\<rparr>) = Anonymous \<and> is_ok r then sn_last_error s' = sn_last_error s
     else if current_identity (e\<lparr>en_world := w\<rparr>) = Some i
     then s' = s\<lparr>sn_auth_state := current_auth (e\<lparr>en_world := w\<rparr>),
              sn_last_error := Some (case r of Inl err \<Rightarrow> err | Inr _ \<Rightarrow>
                engine_error_new SessionStorage ''account deleted but local session was not cleared'' False)\<rparr> \<and>
          e' = e\<lparr>en_world := w\<rparr>
     else sn_last_error s' = Some account_login_required) \<and>
    (current_identity (e\<lparr>en_world := w\<rparr>) \<noteq> Some i \<longrightarrow>
       account_empty s' \<and> profile_empty s' \<and> history_empty s' \<and> library_empty s' \<and>
       playlist_empty s' \<and> feed_empty s' \<and> untagged e')"
proof -
  let ?e = "e\<lparr>en_world := w\<rparr>"
  let ?s = "s\<lparr>sn_auth_state := current_auth ?e\<rparr>"
  have d: "delete_account s e =
      (if current_auth ?e = Anonymous \<and> is_ok r
       then (Ok (), clear_all_protected_operations ?s ?e)
       else if current_identity ?e = Some i
       then (Err (case r of Inl err \<Rightarrow> err | Inr _ \<Rightarrow>
          engine_error_new SessionStorage ''account deleted but local session was not cleared'' False), ?s, ?e)
       else (Err account_login_required, clear_all_protected_operations ?s ?e))"
    using assms(1-3)
    by (cases r) (auto simp: delete_account_def account_context_def await_call_def Let_def
        current_identity_def split: prod.splits)
  have fin: "finish_account (delete_account s e) = (s', e')"
    using assms(4) by (simp add: dispatch_account_command.simps)
  obtain s3 e3 where c: "clear_all_protected_operations ?s ?e = (s3, e3)"
    by (cases "clear_all_protected_operations ?s ?e")
  note v = clear_all_vacant [OF c]
  have untagged: "untagged e3" by (rule clear_all_untagged [OF c])
  consider (gone) "current_auth ?e = Anonymous" "is_ok r"
    | (kept) "\<not> (current_auth ?e = Anonymous \<and> is_ok r)" "current_identity ?e = Some i"
    | (other) "\<not> (current_auth ?e = Anonymous \<and> is_ok r)" "current_identity ?e \<noteq> Some i"
    by blast
  then show ?thesis
  proof cases
    case gone
    then have "s' = s3" "e' = e3" using fin unfolding d c by (simp_all add: finish_account_def)
    with gone v untagged show ?thesis by simp
  next
    case kept
    then have "s' = ?s\<lparr>sn_last_error := Some (case r of Inl err \<Rightarrow> err | Inr _ \<Rightarrow>
        engine_error_new SessionStorage ''account deleted but local session was not cleared'' False)\<rparr>" "e' = ?e"
      using fin unfolding d if_not_P [OF kept(1)] if_P [OF kept(2)]
      by (auto simp: finish_account_def set_account_error_def simp del: engine.simps)
    with kept show ?thesis by auto
  next
    case other
    then have "s' = s3\<lparr>sn_last_error := Some account_login_required\<rparr>" "e' = e3"
      using fin unfolding d c if_not_P [OF other(1)] if_not_P [OF other(2)]
      by (simp_all add: finish_account_def set_account_error_def)
    with other v untagged show ?thesis by (auto simp: empty_defs)
  qed
qed

theorem delete_account_outcomes_witness:
  "sn_last_error (fst (dispatch_account_command DeleteAccount
     (snapshot_default\<lparr>sn_auth_state := logged_in\<rparr>)
     ((engine_new null_codec id () 7)\<lparr>en_account_port := Some (fixed_account_port sample_account)\<rparr>))) = None"
proof -
  let ?s = "snapshot_default\<lparr>sn_auth_state := logged_in\<rparr>"
  let ?e = "(engine_new null_codec id () 7)\<lparr>en_account_port := Some (fixed_account_port sample_account)\<rparr>"
  obtain s' e' where d: "dispatch_account_command DeleteAccount ?s ?e = (s', e')"
    by (cases "dispatch_account_command DeleteAccount ?s ?e")
  have "current_auth (?e\<lparr>en_world := ()\<rparr>) = Anonymous"
    by (simp add: current_auth_def)
  with delete_account_outcomes [OF _ _ _ d, of sample_identity "fixed_account_port sample_account" "Ok ()" "()"]
  have "sn_last_error s' = None"
    by (simp add: fixed_account_port_def snapshot_default_def)
  then show ?thesis by (simp add: d)
qed

end
