(* ===== verification/Library.thy ===== *)
theory Library
  imports Account
begin

text \<open>
  Saved and liked tracks (\<open>engine/core/library.rs\<close>): paged lists guarded by the identity they
  were requested for, and optimistic mutations (a removal is shown at once, published, and
  rolled back when the port refuses). The locales \<open>keyed_upsert\<close> and \<open>keyed_list\<close> state
  what the two list primitives \<open>upsert\<close> and \<open>append_unique\<close> promise about keys; the first is
  reused for playlists.
  The \<open>unreachable!\<close> branches are the value \<open>None\<close>.
\<close>

subsection \<open>Lists keyed by an identifier\<close>

locale keyed_upsert =
  fixes key :: "'a \<Rightarrow> 'k"
    and put_front :: "'a list \<Rightarrow> 'a \<Rightarrow> 'a list"
  assumes put_front: "put_front xs x = x # filter (\<lambda>y. key y \<noteq> key x) xs"
begin

definition keys_distinct :: "'a list \<Rightarrow> bool" where
  "keys_distinct xs = distinct (map key xs)"

lemma keys_distinct_put_front: "keys_distinct xs \<Longrightarrow> keys_distinct (put_front xs x)"
  by (auto simp: keys_distinct_def put_front distinct_map_filter)

lemma keys_distinct_filter: "keys_distinct xs \<Longrightarrow> keys_distinct (filter P xs)"
  by (simp add: keys_distinct_def distinct_map_filter)

lemma keys_put_front: "key ` set (put_front xs x) = insert (key x) (key ` set xs)"
  by (auto simp: put_front)

lemma put_front_first: "hd (put_front xs x) = x \<and> set (put_front xs x) \<subseteq> insert x (set xs)"
  by (auto simp: put_front)

end

locale keyed_list = keyed_upsert key put_front
  for key :: "'a \<Rightarrow> 'k" and put_front +
  fixes add_back :: "'a list \<Rightarrow> 'a list \<Rightarrow> 'a list"
  assumes add_back_Nil: "add_back xs [] = xs"
    and add_back_Cons: "add_back xs (y # ys) =
      add_back (if key y \<in> key ` set xs then xs else xs @ [y]) ys"
begin

lemma keys_distinct_add_back: "keys_distinct xs \<Longrightarrow> keys_distinct (add_back xs ys)"
  by (induction ys arbitrary: xs) (auto simp: add_back_Nil add_back_Cons keys_distinct_def)

lemma keys_add_back: "key ` set (add_back xs ys) = key ` set xs \<union> key ` set ys"
  by (induction ys arbitrary: xs) (auto simp: add_back_Nil add_back_Cons)

lemma add_back_extends: "\<exists>zs. add_back xs ys = xs @ zs \<and> set zs \<subseteq> set ys"
proof (induction ys arbitrary: xs)
  case Nil
  then show ?case by (simp add: add_back_Nil)
next
  case (Cons y ys)
  show ?case
  proof (cases "key y \<in> key ` set xs")
    case True
    then show ?thesis using Cons.IH [of xs] by (auto simp: add_back_Cons)
  next
    case False
    then show ?thesis using Cons.IH [of "xs @ [y]"] by (auto simp: add_back_Cons)
  qed
qed

lemma add_back_fresh:
  assumes "distinct (map key ys)" "key ` set xs \<inter> key ` set ys = {}"
  shows "add_back xs ys = xs @ ys"
  using assms by (induction ys arbitrary: xs) (auto simp: add_back_Nil add_back_Cons)

end

definition upsert :: "library_track list \<Rightarrow> library_track \<Rightarrow> library_track list" where
  "upsert items item =
     item # filter (\<lambda>existing. lt_relationship_id existing \<noteq> lt_relationship_id item) items"

fun append_unique :: "library_track list \<Rightarrow> library_track list \<Rightarrow> library_track list" where
  "append_unique items [] = items"
| "append_unique items (item # incoming) =
     append_unique
       (if list_ex (\<lambda>existing. lt_relationship_id existing = lt_relationship_id item) items
        then items else items @ [item]) incoming"

interpretation lib: keyed_list lt_relationship_id upsert append_unique
  by unfold_locales (auto simp: upsert_def list_ex_iff image_iff)

subsection \<open>Context and guard\<close>

definition library_login_required :: engine_error where
  "library_login_required = engine_error_new LoginRequiredError
     ''library operation requires the current authenticated session'' False"

definition library_context ::
  "engine_snapshot \<Rightarrow> 'w library_port option \<Rightarrow> (auth_identity \<times> 'w library_port) result" where
  "library_context s port =
     (case auth_identity_from_state (sn_auth_state s) of
        None \<Rightarrow> Err library_login_required
      | Some identity \<Rightarrow>
          (case port of
             None \<Rightarrow> Err (engine_error_new FailedPrecondition ''library service is not configured'' False)
           | Some port \<Rightarrow> Ok (identity, port)))"

definition forget_library :: "'w engine \<Rightarrow> 'w engine" where
  "forget_library e =
     e\<lparr>en_library_identity := None, en_saved_operation := None, en_liked_operation := None\<rparr>"

definition library_result_for_current_identity ::
  "engine_snapshot \<Rightarrow> auth_identity \<Rightarrow> 'a result \<Rightarrow> 'w engine \<Rightarrow>
     'a result \<times> engine_snapshot \<times> 'w engine" where
  "library_result_for_current_identity s expected r e =
     (let auth = current_auth e;
          s = s\<lparr>sn_auth_state := auth\<rparr>
      in if auth_identity_from_state auth = Some expected then (r, s, e)
         else (Err library_login_required, clear_library_projection s, forget_library e))"

interpretation libg: identity_guard library_result_for_current_identity clear_library_projection
  forget_library library_login_required library_empty
  by unfold_locales
     (auto simp: library_result_for_current_identity_def current_identity_def Let_def
       library_login_required_def forget_library_def)

subsection \<open>Operations\<close>

definition fetch_library_page ::
  "'w library_port \<Rightarrow> auth_identity \<Rightarrow> page_request \<Rightarrow> bool \<Rightarrow> 'w engine \<Rightarrow>
     library_track paged_result result \<times> 'w engine" where
  "fetch_library_page port identity page saved e =
     prefetched_or as_library_page
       (if saved then lp_list_saved port identity page else lp_list_liked port identity page) e"

definition load_library_page ::
  "engine_snapshot \<Rightarrow> page_request \<Rightarrow> bool \<Rightarrow> 'w engine \<Rightarrow>
     (auth_identity \<times> library_track paged_result) result \<times> engine_snapshot \<times> 'w engine" where
  "load_library_page s page saved e =
     (case library_context s (en_library_port e) of
        Inl err \<Rightarrow> (Err err, s, e)
      | Inr (identity, port) \<Rightarrow>
          (let (r, e) = fetch_library_page port identity page saved e;
               (r, s, e) = library_result_for_current_identity s identity r e
           in (map_ok (Pair identity) r, s, e)))"

definition load_next_library_page ::
  "engine_snapshot \<Rightarrow> bool \<Rightarrow> 'w engine \<Rightarrow>
     library_track paged_result result \<times> engine_snapshot \<times> 'w engine" where
  "load_next_library_page s saved e =
     (let operation = (if saved then en_saved_operation e else en_liked_operation e);
          token = (if saved then sn_saved_tracks_next s else sn_liked_tracks_next s)
      in case auth_identity_from_state (sn_auth_state s) of
           None \<Rightarrow> (Err library_login_required, s, e)
         | Some identity \<Rightarrow>
             (case operation of
                None \<Rightarrow> (Err (engine_error_new FailedPrecondition
                           ''no current library page operation'' False), s, e)
              | Some operation \<Rightarrow>
                  (if identity \<noteq> pop_auth_identity operation
                   then (Err library_login_required, s, e)
                   else case token of
                          None \<Rightarrow> (Err (engine_error_new FailedPrecondition
                                     ''library page has no continuation'' False), s, e)
                        | Some token \<Rightarrow>
                            (case en_library_port e of
                               None \<Rightarrow> (Err (engine_error_new FailedPrecondition
                                          ''library service is not configured'' False), s, e)
                             | Some port \<Rightarrow>
                                 (let page = \<lparr>page_size = pop_page_size operation,
                                              page_token = Some token\<rparr>;
                                      (r, e) = fetch_library_page port identity page saved e
                                  in library_result_for_current_identity s identity r e)))))"

definition library_mutation_call ::
  "'w library_port \<Rightarrow> library_mutation \<Rightarrow> auth_identity \<Rightarrow> string \<Rightarrow> 'w \<Rightarrow>
     library_track option result \<times> 'w" where
  "library_mutation_call port mutation identity track_id w =
     (case mutation of
        Save \<Rightarrow> (let (r, w) = lp_save port identity track_id w in (map_ok Some r, w))
      | RemoveSaved \<Rightarrow> (let (r, w) = lp_remove_saved port identity track_id w in (map_ok (\<lambda>_. None) r, w))
      | Like \<Rightarrow> (let (r, w) = lp_like port identity track_id w in (map_ok Some r, w))
      | Unlike \<Rightarrow> (let (r, w) = lp_unlike port identity track_id w in (map_ok (\<lambda>_. None) r, w)))"

text \<open>The optimistic part of \<open>mutate_library\<close>: mark the track pending and hide a removed one.\<close>

definition library_pend :: "string \<Rightarrow> library_mutation \<Rightarrow> engine_snapshot \<Rightarrow> engine_snapshot" where
  "library_pend track_id mutation s =
     (let s = (if list_ex (\<lambda>i. i = track_id) (sn_library_pending s) then s
               else s\<lparr>sn_library_pending := sn_library_pending s @ [track_id]\<rparr>)
      in case mutation of
           RemoveSaved \<Rightarrow> s\<lparr>sn_saved_tracks :=
             filter (\<lambda>item. tr_id (lt_track item) \<noteq> track_id) (sn_saved_tracks s)\<rparr>
         | Unlike \<Rightarrow> s\<lparr>sn_liked_tracks :=
             filter (\<lambda>item. tr_id (lt_track item) \<noteq> track_id) (sn_liked_tracks s)\<rparr>
         | _ \<Rightarrow> s)"

text \<open>The end of \<open>mutate_library\<close>: settle the pending mark and apply or roll back.\<close>

definition settle_library_mutation ::
  "auth_identity \<Rightarrow> library_track list \<Rightarrow> library_track list \<Rightarrow> string \<Rightarrow> library_mutation \<Rightarrow>
     library_track option result \<Rightarrow> engine_snapshot \<Rightarrow> engine_snapshot option" where
  "settle_library_mutation identity previous_saved previous_liked track_id mutation r s =
     (let s = s\<lparr>sn_library_pending := filter (\<lambda>i. i \<noteq> track_id) (sn_library_pending s)\<rparr>
      in case r of
           Inr (Some item) \<Rightarrow>
             (case mutation of
                Save \<Rightarrow> Some (s\<lparr>sn_saved_tracks := upsert (sn_saved_tracks s) item\<rparr>)
              | Like \<Rightarrow> Some (s\<lparr>sn_liked_tracks := upsert (sn_liked_tracks s) item\<rparr>)
              | _ \<Rightarrow> None)
         | Inr None \<Rightarrow> Some s
         | Inl err \<Rightarrow>
             (let s = (if auth_identity_from_state (sn_auth_state s) = Some identity
                       then s\<lparr>sn_saved_tracks := previous_saved, sn_liked_tracks := previous_liked\<rparr>
                       else s)
              in Some (s\<lparr>sn_last_error := Some err\<rparr>)))"

definition mutate_library ::
  "engine_snapshot \<Rightarrow> string \<Rightarrow> library_mutation \<Rightarrow> 'w engine \<Rightarrow>
     (engine_snapshot \<times> 'w engine) option" where
  "mutate_library s track_id mutation e =
     (if blank track_id
      then Some (s\<lparr>sn_last_error := Some (engine_error_new InvalidInput
                     ''library track id is required'' False)\<rparr>, e)
      else case library_context s (en_library_port e) of
        Inl err \<Rightarrow> Some (s\<lparr>sn_last_error := Some err\<rparr>, e)
      | Inr (identity, port) \<Rightarrow>
          (let previous_saved = sn_saved_tracks s;
               previous_liked = sn_liked_tracks s;
               s = library_pend track_id mutation s;
               e = publish_intermediate_snapshot s (e\<lparr>en_library_identity := Some identity\<rparr>);
               (r, e) = prefetched_or as_library_mutation
                          (library_mutation_call port mutation identity track_id) e;
               (r, s, e) = library_result_for_current_identity s identity r e
           in map_option (\<lambda>s. (s, e))
                (settle_library_mutation identity previous_saved previous_liked track_id mutation r s)))"

definition dispatch_library_command ::
  "engine_command_type \<Rightarrow> engine_snapshot \<Rightarrow> 'w engine \<Rightarrow> (engine_snapshot \<times> 'w engine) option" where
  "dispatch_library_command command s e =
     (case command of
        ListSavedTracks page \<Rightarrow>
          (let e = e\<lparr>en_saved_operation := None\<rparr>;
               s = s\<lparr>sn_saved_tracks := [], sn_saved_tracks_next := None\<rparr>;
               (r, s, e) = load_library_page s page True e
           in case r of
                Inr (identity, result) \<Rightarrow>
                  Some (s\<lparr>sn_saved_tracks := pr_items result,
                          sn_saved_tracks_next := pr_next_page_token result\<rparr>,
                        e\<lparr>en_library_identity := Some identity,
                          en_saved_operation := Some \<lparr>pop_auth_identity = identity,
                                                      pop_page_size = page_size page\<rparr>\<rparr>)
              | Inl err \<Rightarrow> Some (if error_type err = NotFound then s
                                else s\<lparr>sn_last_error := Some err\<rparr>, e))
      | LoadNextSavedTracksPage \<Rightarrow>
          (let (r, s, e) = load_next_library_page s True e
           in case r of
                Inr result \<Rightarrow>
                  Some (s\<lparr>sn_saved_tracks := append_unique (sn_saved_tracks s) (pr_items result),
                          sn_saved_tracks_next := pr_next_page_token result\<rparr>, e)
              | Inl err \<Rightarrow> Some (s\<lparr>sn_last_error := Some err\<rparr>, e))
      | ListLikedTracks page \<Rightarrow>
          (let e = e\<lparr>en_liked_operation := None\<rparr>;
               s = s\<lparr>sn_liked_tracks := [], sn_liked_tracks_next := None\<rparr>;
               (r, s, e) = load_library_page s page False e
           in case r of
                Inr (identity, result) \<Rightarrow>
                  Some (s\<lparr>sn_liked_tracks := pr_items result,
                          sn_liked_tracks_next := pr_next_page_token result\<rparr>,
                        e\<lparr>en_library_identity := Some identity,
                          en_liked_operation := Some \<lparr>pop_auth_identity = identity,
                                                      pop_page_size = page_size page\<rparr>\<rparr>)
              | Inl err \<Rightarrow> Some (if error_type err = NotFound then s
                                else s\<lparr>sn_last_error := Some err\<rparr>, e))
      | LoadNextLikedTracksPage \<Rightarrow>
          (let (r, s, e) = load_next_library_page s False e
           in case r of
                Inr result \<Rightarrow>
                  Some (s\<lparr>sn_liked_tracks := append_unique (sn_liked_tracks s) (pr_items result),
                          sn_liked_tracks_next := pr_next_page_token result\<rparr>, e)
              | Inl err \<Rightarrow> Some (s\<lparr>sn_last_error := Some err\<rparr>, e))
      | SaveTrack track_id \<Rightarrow> mutate_library s track_id Save e
      | RemoveSavedTrack track_id \<Rightarrow> mutate_library s track_id RemoveSaved e
      | LikeTrack track_id \<Rightarrow> mutate_library s track_id Like e
      | UnlikeTrack track_id \<Rightarrow> mutate_library s track_id Unlike e
      | _ \<Rightarrow> None)"

text \<open>The continuation a worker needs to fetch the next page off the actor thread.\<close>

definition actor_library_continuation ::
  "'w engine \<Rightarrow> bool \<Rightarrow> (auth_identity \<times> u32 \<times> page_token) option" where
  "actor_library_continuation e saved =
     (case (if saved then en_saved_operation e else en_liked_operation e) of
        None \<Rightarrow> None
      | Some operation \<Rightarrow>
          (case (if saved then sn_saved_tracks_next (en_snapshot e)
                 else sn_liked_tracks_next (en_snapshot e)) of
             None \<Rightarrow> None
           | Some token \<Rightarrow> Some (pop_auth_identity operation, pop_page_size operation, token)))"

subsection \<open>Laws\<close>

text \<open>The library projection has no owner and is empty, or is owned by the identity the snapshot
  shows; so are its page operations.\<close>

definition library_ok :: "engine_snapshot \<Rightarrow> 'w engine \<Rightarrow> bool" where
  "library_ok s e =
     (en_library_identity e = None \<and> library_empty s \<and>
        en_saved_operation e = None \<and> en_liked_operation e = None \<or>
      (\<exists>i. en_library_identity e = Some i \<and> auth_identity_from_state (sn_auth_state s) = Some i \<and>
        (\<forall>op. en_saved_operation e = Some op \<longrightarrow> pop_auth_identity op = i) \<and>
        (\<forall>op. en_liked_operation e = Some op \<longrightarrow> pop_auth_identity op = i)))"

definition library_fields :: "'w engine \<Rightarrow> auth_identity option \<times> page_operation option \<times> page_operation option" where
  "library_fields e = (en_library_identity e, en_saved_operation e, en_liked_operation e)"

lemma library_contextD:
  "library_context s port = Inr (i, p) \<Longrightarrow>
     auth_identity_from_state (sn_auth_state s) = Some i \<and> port = Some p"
  by (auto simp: library_context_def split: option.splits)

lemma prefetched_or_library: "prefetched_or sel c e = (r, e') \<Longrightarrow> library_fields e' = library_fields e"
  by (subst prefetched_orD, assumption) (simp add: library_fields_def)

lemma library_answer_ok:
  assumes "library_ok s e" "auth_identity_from_state (sn_auth_state s) = Some i"
    and "library_fields e1 = library_fields e"
    and "library_result_for_current_identity s i r e1 = (res, s', e')"
  shows "library_ok s' e' \<and>
    (res = Inr a \<longrightarrow> auth_identity_from_state (sn_auth_state s') = Some i \<and> r = Inr a \<and> e' = e1 \<and>
      s' = s\<lparr>sn_auth_state := sn_auth_state s'\<rparr>)"
proof (cases rule: libg.guard_cases [of e1 i s r, case_names current changed])
  case current
  then have *: "s' = s\<lparr>sn_auth_state := current_auth e1\<rparr>" "e' = e1" "res = r"
    using assms(4) by simp_all
  have "library_ok s' e'"
    using assms(1-3) current(1)
    by (auto simp: *(1,2) library_ok_def current_identity_def library_empty_def library_fields_def)
  then show ?thesis
    using * current(1) by (simp add: current_identity_def)
next
  case changed
  then have "s' = clear_library_projection (s\<lparr>sn_auth_state := current_auth e1\<rparr>)"
    "res = Err library_login_required" "e' = forget_library e1"
    using assms(4) by simp_all
  then show ?thesis by (simp add: library_ok_def forget_library_def)
qed

lemma library_empty_error [simp]: "library_empty (s\<lparr>sn_last_error := x\<rparr>) = library_empty s"
  by (simp add: library_empty_def)

lemma library_ok_error [simp]: "library_ok (s\<lparr>sn_last_error := x\<rparr>) e = library_ok s e"
  by (simp add: library_ok_def library_empty_def)

lemma library_pend_frame [simp]:
  "sn_auth_state (library_pend t m s) = sn_auth_state s"
  "sn_last_error (library_pend t m s) = sn_last_error s"
  by (simp_all add: library_pend_def Let_def split: library_mutation.splits)

lemma publish_frame [simp]:
  "en_library_identity (publish_intermediate_snapshot s e) = en_library_identity e"
  "en_world (publish_intermediate_snapshot s e) = en_world e"
  "en_auth_state_provider (publish_intermediate_snapshot s e) = en_auth_state_provider e"
  "en_prefetched (publish_intermediate_snapshot s e) = en_prefetched e"
  "en_bus (publish_intermediate_snapshot s e) = en_bus e @ [StateChanged s]"
  by (simp_all add: publish_intermediate_snapshot_def notify_state_changed_def)

lemma publish_library_fields [simp]:
  "library_fields (publish_intermediate_snapshot s e) = library_fields e"
  by (simp add: library_fields_def publish_intermediate_snapshot_def notify_state_changed_def)

lemma load_library_page_ok:
  assumes "library_ok s e" "load_library_page s page saved e = (r, s', e')"
  shows "library_ok s' e' \<and> (r = Inr (i, x) \<longrightarrow> auth_identity_from_state (sn_auth_state s') = Some i)"
proof (cases "library_context s (en_library_port e)")
  case (Inl err)
  with assms show ?thesis by (auto simp: load_library_page_def)
next
  case (Inr c)
  obtain j port where c: "c = (j, port)" by (cases c)
  obtain r1 e1 where p: "fetch_library_page port j page saved e = (r1, e1)"
    by (cases "fetch_library_page port j page saved e")
  obtain r2 s2 e2 where g: "library_result_for_current_identity s j r1 e1 = (r2, s2, e2)"
    by (cases "library_result_for_current_identity s j r1 e1")
  have "auth_identity_from_state (sn_auth_state s) = Some j"
    using library_contextD Inr c by blast
  note ok = library_answer_ok [OF assms(1) this prefetched_or_library g, OF p [unfolded fetch_library_page_def]]
  have "r = map_ok (Pair j) r2" "s' = s2" "e' = e2"
    using assms(2) by (simp_all add: load_library_page_def Inr c p g)
  then show ?thesis using ok by (cases r2) auto
qed

lemma load_next_library_page_ok:
  assumes "library_ok s e" "load_next_library_page s saved e = (r, s', e')"
  shows "library_ok s' e' \<and> (r = Inr x \<longrightarrow> en_library_identity e' \<noteq> None)"
proof (cases "\<exists>i op token port. auth_identity_from_state (sn_auth_state s) = Some i \<and>
    (if saved then en_saved_operation e else en_liked_operation e) = Some op \<and>
    pop_auth_identity op = i \<and>
    (if saved then sn_saved_tracks_next s else sn_liked_tracks_next s) = Some token \<and>
    en_library_port e = Some port")
  case False
  then have "s' = s \<and> e' = e \<and> (\<exists>err. r = Inl err)"
    using assms(2)
    by (auto simp: load_next_library_page_def Let_def split: option.splits if_splits)
  with assms(1) show ?thesis by auto
next
  case True
  then obtain i op token port where c: "auth_identity_from_state (sn_auth_state s) = Some i"
    "(if saved then en_saved_operation e else en_liked_operation e) = Some op" "pop_auth_identity op = i"
    "(if saved then sn_saved_tracks_next s else sn_liked_tracks_next s) = Some token"
    "en_library_port e = Some port" by blast
  let ?page = "\<lparr>page_size = pop_page_size op, page_token = Some token\<rparr>"
  obtain r1 e1 where p: "fetch_library_page port i ?page saved e = (r1, e1)"
    by (cases "fetch_library_page port i ?page saved e")
  have g: "library_result_for_current_identity s i r1 e1 = (r, s', e')"
    using assms(2) c p by (simp add: load_next_library_page_def)
  note ok = library_answer_ok [OF assms(1) c(1) prefetched_or_library g, OF p [unfolded fetch_library_page_def]]
  have "en_library_identity e \<noteq> None"
    using assms(1) c(2) by (auto simp: library_ok_def split: if_splits)
  then have "en_library_identity e1 \<noteq> None"
    using prefetched_or_library [OF p [unfolded fetch_library_page_def]] by (simp add: library_fields_def)
  with ok show ?thesis by (cases r) auto
qed

lemma library_claim:
  assumes "library_ok s e" "auth_identity_from_state (sn_auth_state s) = Some i"
    and "sn_auth_state s' = sn_auth_state s"
    and "library_fields e' = library_fields (e\<lparr>en_library_identity := Some i\<rparr>)"
  shows "library_ok s' e'"
  using assms by (auto simp: library_ok_def library_fields_def)

text \<open>The course of a mutation that reaches the port.\<close>

lemma mutate_library_course:
  assumes "\<not> blank t" "auth_identity_from_state (sn_auth_state s) = Some i" "en_library_port e = Some port"
  obtains r e1 res s2 e2 where
    "prefetched_or as_library_mutation (library_mutation_call port m i t)
       (publish_intermediate_snapshot (library_pend t m s) (e\<lparr>en_library_identity := Some i\<rparr>)) = (r, e1)"
    "library_result_for_current_identity (library_pend t m s) i r e1 = (res, s2, e2)"
    "mutate_library s t m e = map_option (\<lambda>s. (s, e2))
       (settle_library_mutation i (sn_saved_tracks s) (sn_liked_tracks s) t m res s2)"
proof -
  let ?e = "publish_intermediate_snapshot (library_pend t m s) (e\<lparr>en_library_identity := Some i\<rparr>)"
  obtain r e1 where p: "prefetched_or as_library_mutation (library_mutation_call port m i t) ?e = (r, e1)"
    by (cases "prefetched_or as_library_mutation (library_mutation_call port m i t) ?e")
  obtain res s2 e2 where g: "library_result_for_current_identity (library_pend t m s) i r e1 = (res, s2, e2)"
    by (cases "library_result_for_current_identity (library_pend t m s) i r e1")
  have "library_context s (en_library_port e) = Inr (i, port)"
    using assms by (simp add: library_context_def)
  with assms(1) show thesis
    by (intro that [OF p g]) (simp add: mutate_library_def p g Let_def)
qed

lemma mutate_library_early:
  assumes "blank t \<or> auth_identity_from_state (sn_auth_state s) = None \<or> en_library_port e = None"
  shows "\<exists>err. mutate_library s t m e = Some (s\<lparr>sn_last_error := Some err\<rparr>, e)"
  using assms
  by (auto simp: mutate_library_def library_context_def split: option.splits)

lemma settle_auth:
  "settle_library_mutation i ps pl t m r s = Some s' \<Longrightarrow> sn_auth_state s' = sn_auth_state s"
  by (auto simp: settle_library_mutation_def Let_def split: sum.splits option.splits library_mutation.splits)

lemma settle_wiped:
  assumes "library_empty s" "auth_identity_from_state (sn_auth_state s) \<noteq> Some i"
  shows "settle_library_mutation i ps pl t m (Inl err) s = Some (s\<lparr>sn_last_error := Some err\<rparr>)"
  using assms by (simp add: settle_library_mutation_def library_empty_def)

lemma library_ok_rehome:
  "library_ok s e \<Longrightarrow> en_library_identity e = Some i \<Longrightarrow>
     auth_identity_from_state (sn_auth_state s') = Some i \<Longrightarrow> library_ok s' e"
  by (auto simp: library_ok_def)

lemma mutate_library_ok:
  assumes "library_ok s e" "mutate_library s t m e = Some (s', e')"
  shows "library_ok s' e'"
proof (cases "blank t \<or> auth_identity_from_state (sn_auth_state s) = None \<or> en_library_port e = None")
  case True
  with assms show ?thesis using mutate_library_early [OF True, of m] by auto
next
  case False
  then obtain i port where c: "\<not> blank t" "auth_identity_from_state (sn_auth_state s) = Some i"
    "en_library_port e = Some port" by auto
  let ?s = "library_pend t m s"
  let ?e = "publish_intermediate_snapshot ?s (e\<lparr>en_library_identity := Some i\<rparr>)"
  obtain r e1 res s2 e2 where
    p: "prefetched_or as_library_mutation (library_mutation_call port m i t) ?e = (r, e1)"
    and g: "library_result_for_current_identity ?s i r e1 = (res, s2, e2)"
    and eq: "mutate_library s t m e = map_option (\<lambda>s. (s, e2))
       (settle_library_mutation i (sn_saved_tracks s) (sn_liked_tracks s) t m res s2)"
    using mutate_library_course [OF c] .
  have claim: "library_ok ?s ?e"
    by (rule library_claim [OF assms(1) c(2)]) simp_all
  then have own: "library_ok ?s e1 \<and> en_library_identity e1 = Some i"
    using prefetched_or_library [OF p] c(2) by (simp add: library_ok_def library_fields_def
        publish_intermediate_snapshot_def notify_state_changed_def)
  show ?thesis
  proof (cases rule: libg.guard_cases [of e1 i ?s r, case_names current changed])
    case current
    then have "s2 = ?s\<lparr>sn_auth_state := current_auth e1\<rparr>" "e2 = e1"
      using g by simp_all
    moreover have "sn_auth_state s' = sn_auth_state s2" "e' = e2"
      using assms(2) eq by (auto dest: settle_auth)
    ultimately have "auth_identity_from_state (sn_auth_state s') = Some i" "e' = e1"
      using current(1) by (simp_all add: current_identity_def)
    with own show ?thesis using library_ok_rehome by metis
  next
    case changed
    then have s2: "s2 = clear_library_projection (?s\<lparr>sn_auth_state := current_auth e1\<rparr>)"
      "res = Err library_login_required" "e2 = forget_library e1"
      using g by simp_all
    then have "settle_library_mutation i (sn_saved_tracks s) (sn_liked_tracks s) t m res s2 =
        Some (s2\<lparr>sn_last_error := Some library_login_required\<rparr>)"
      using changed(1) settle_wiped [of s2 i] by (simp add: current_identity_def)
    with assms(2) eq show ?thesis
      by (auto simp: s2 library_ok_def forget_library_def)
  qed
qed

lemma library_ok_listed:
  assumes "library_ok s e" "auth_identity_from_state (sn_auth_state s) = Some i"
    and "sn_auth_state s' = sn_auth_state s" "pop_auth_identity op = i"
  shows "library_ok s' (e\<lparr>en_library_identity := Some i, en_saved_operation := Some op\<rparr>)"
    "library_ok s' (e\<lparr>en_library_identity := Some i, en_liked_operation := Some op\<rparr>)"
  using assms by (auto simp: library_ok_def)

lemma dispatch_library_ok:
  assumes "library_ok s e" "dispatch_library_command c s e = Some (s', e')"
  shows "library_ok s' e'"
proof -
  have saved: "library_ok (s\<lparr>sn_saved_tracks := [], sn_saved_tracks_next := None\<rparr>) (e\<lparr>en_saved_operation := None\<rparr>)"
    and liked: "library_ok (s\<lparr>sn_liked_tracks := [], sn_liked_tracks_next := None\<rparr>) (e\<lparr>en_liked_operation := None\<rparr>)"
    using assms(1) by (auto simp: library_ok_def library_empty_def)
  have own: "library_ok s2 e2 \<Longrightarrow> en_library_identity e2 \<noteq> None \<Longrightarrow> sn_auth_state s3 = sn_auth_state s2 \<Longrightarrow>
      library_ok s3 e2" for s2 s3 and e2 :: "'a engine"
    by (auto simp: library_ok_def)
  note m = mutate_library_ok [OF assms(1)]
  show ?thesis
  proof (cases c)
  
    case (ListSavedTracks page)
    let ?x = "load_library_page (s\<lparr>sn_saved_tracks := [], sn_saved_tracks_next := None\<rparr>) page True (e\<lparr>en_saved_operation := None\<rparr>)"
    obtain r s2 e2 where l: "?x = (r, s2, e2)" by (cases ?x)
    show ?thesis
    proof (cases r)
      case (Inl err)
      with assms(2) l ListSavedTracks load_library_page_ok [OF saved l] show ?thesis
        by (cases "error_type err = NotFound") (auto simp: dispatch_library_command_def)
    next
      case (Inr x)
      obtain i y where "x = (i, y)" by (cases x)
      with assms(2) l ListSavedTracks Inr load_library_page_ok [OF saved l, of i y] show ?thesis
        by (auto simp: dispatch_library_command_def intro: library_ok_listed)
    qed
  next
    case (ListLikedTracks page)
    let ?x = "load_library_page (s\<lparr>sn_liked_tracks := [], sn_liked_tracks_next := None\<rparr>) page False (e\<lparr>en_liked_operation := None\<rparr>)"
    obtain r s2 e2 where l: "?x = (r, s2, e2)" by (cases ?x)
    show ?thesis
    proof (cases r)
      case (Inl err)
      with assms(2) l ListLikedTracks load_library_page_ok [OF liked l] show ?thesis
        by (cases "error_type err = NotFound") (auto simp: dispatch_library_command_def)
    next
      case (Inr x)
      obtain i y where "x = (i, y)" by (cases x)
      with assms(2) l ListLikedTracks Inr load_library_page_ok [OF liked l, of i y] show ?thesis
        by (auto simp: dispatch_library_command_def intro: library_ok_listed)
    qed
  next
    case LoadNextSavedTracksPage
    obtain r s2 e2 where l: "load_next_library_page s True e = (r, s2, e2)"
      by (cases "load_next_library_page s True e")
    show ?thesis
    proof (cases r)
      case (Inl err)
      with assms(2) l LoadNextSavedTracksPage load_next_library_page_ok [OF assms(1) l] show ?thesis
        by (auto simp: dispatch_library_command_def)
    next
      case (Inr x)
      with assms(2) l LoadNextSavedTracksPage load_next_library_page_ok [OF assms(1) l, of x] show ?thesis
        by (auto simp: dispatch_library_command_def intro: own)
    qed
  next
    case LoadNextLikedTracksPage
    obtain r s2 e2 where l: "load_next_library_page s False e = (r, s2, e2)"
      by (cases "load_next_library_page s False e")
    show ?thesis
    proof (cases r)
      case (Inl err)
      with assms(2) l LoadNextLikedTracksPage load_next_library_page_ok [OF assms(1) l] show ?thesis
        by (auto simp: dispatch_library_command_def)
    next
      case (Inr x)
      with assms(2) l LoadNextLikedTracksPage load_next_library_page_ok [OF assms(1) l, of x] show ?thesis
        by (auto simp: dispatch_library_command_def intro: own)
    qed
  next
    case (SaveTrack t)
    with assms(2) show ?thesis by (auto simp: dispatch_library_command_def intro: m)
  next
    case (RemoveSavedTrack t)
    with assms(2) show ?thesis by (auto simp: dispatch_library_command_def intro: m)
  next
    case (LikeTrack t)
    with assms(2) show ?thesis by (auto simp: dispatch_library_command_def intro: m)
  next
    case (UnlikeTrack t)
    with assms(2) show ?thesis by (auto simp: dispatch_library_command_def intro: m)
  qed (use assms(2) in \<open>simp_all add: dispatch_library_command_def\<close>)
qed

text \<open>Without a prefetched answer of the wrong kind, the \<open>unreachable!\<close> branch is unreachable.\<close>

lemma mutation_call_kind:
  "fst (library_mutation_call port m i t w) = Inr (Some item) \<Longrightarrow> m = Save \<or> m = Like"
  by (auto simp: library_mutation_call_def map_ok_def split: library_mutation.splits prod.splits sum.splits)

lemma mutate_library_total:
  assumes "\<forall>x. en_prefetched e = Some (PrefetchedLibraryMutation (Inr (Some x))) \<longrightarrow> m = Save \<or> m = Like"
  shows "mutate_library s t m e \<noteq> None"
proof (cases "blank t \<or> auth_identity_from_state (sn_auth_state s) = None \<or> en_library_port e = None")
  case True
  then show ?thesis using mutate_library_early [OF True, of m] by auto
next
  case False
  then obtain i port where c: "\<not> blank t" "auth_identity_from_state (sn_auth_state s) = Some i"
    "en_library_port e = Some port" by auto
  let ?s = "library_pend t m s"
  let ?e = "publish_intermediate_snapshot ?s (e\<lparr>en_library_identity := Some i\<rparr>)"
  obtain r e1 res s2 e2 where
    p: "prefetched_or as_library_mutation (library_mutation_call port m i t) ?e = (r, e1)"
    and g: "library_result_for_current_identity ?s i r e1 = (res, s2, e2)"
    and eq: "mutate_library s t m e = map_option (\<lambda>s. (s, e2))
       (settle_library_mutation i (sn_saved_tracks s) (sn_liked_tracks s) t m res s2)"
    using mutate_library_course [OF c] .
  have r: "r = Inr (Some x) \<Longrightarrow> m = Save \<or> m = Like" for x
  proof -
    assume "r = Inr (Some x)"
    with p have "en_prefetched e = Some (PrefetchedLibraryMutation (Inr (Some x))) \<or>
        fst (library_mutation_call port m i t (en_world e)) = Inr (Some x)"
      by (auto simp: prefetched_or_def take_prefetched_def split: prod.splits option.splits
          elim: as_library_mutation.elims)
    with assms show "m = Save \<or> m = Like" using mutation_call_kind [of port m i t "en_world e" x] by blast
  qed
  have "m = Save \<or> m = Like" if "res = Inr (Some x)" for x
    using r libg.guard_Ok(2) [OF g [unfolded that]] by blast
  then show ?thesis
    unfolding eq by (cases m) (auto simp: settle_library_mutation_def Let_def split: sum.splits option.splits)
qed

subsection \<open>Properties\<close>

definition run_library ::
  "engine_command_type list \<Rightarrow> engine_snapshot \<times> 'w engine \<Rightarrow> (engine_snapshot \<times> 'w engine) option" where
  "run_library commands x =
     fold (\<lambda>c m. Option.bind m (\<lambda>(s, e). dispatch_library_command c s e)) commands (Some x)"

lemma run_library_None [simp]:
  "fold (\<lambda>c m. Option.bind m (\<lambda>(s, e). dispatch_library_command c s e)) commands None = None"
  by (induction commands) auto

text \<open>A library port with fixed answers, for concrete runs.\<close>

definition fixed_library_port ::
  "library_track result \<Rightarrow> unit result \<Rightarrow> library_track paged_result result \<Rightarrow> 'w library_port" where
  "fixed_library_port item done page =
     \<lparr>lp_save = (\<lambda>_ _ w. (item, w)), lp_remove_saved = (\<lambda>_ _ w. (done, w)),
      lp_list_saved = (\<lambda>_ _ w. (page, w)), lp_like = (\<lambda>_ _ w. (item, w)),
      lp_unlike = (\<lambda>_ _ w. (done, w)), lp_list_liked = (\<lambda>_ _ w. (page, w))\<rparr>"

definition sample_track :: engine_track where
  "sample_track = \<lparr>tr_id = ''t'', tr_title = ''T'', tr_artist = \<lparr>artist_id = ''x'', artist_name = ''X''\<rparr>,
     tr_album = None, tr_duration_millis = 1000, tr_explicit = False, tr_artwork = None, tr_genres = []\<rparr>"

definition sample_item :: library_track where
  "sample_item = \<lparr>lt_relationship_id = ''r'', lt_track = sample_track, lt_relationship_at_epoch_millis = 0\<rparr>"

definition sample_error :: engine_error where
  "sample_error = engine_error_new Transport ''unreachable'' False"

text \<open>An engine logged in as \<open>sample_identity\<close>, whose world is the live auth state.\<close>

definition sample_engine :: "auth_state \<Rightarrow> auth_state engine" where
  "sample_engine auth = (engine_new null_codec id auth 7)\<lparr>en_auth_state_provider := Some id\<rparr>"

definition sample_snapshot :: engine_snapshot where
  "sample_snapshot = snapshot_default\<lparr>sn_auth_state := logged_in\<rparr>"

lemma sample_engine_fields [simp]:
  "en_world (sample_engine auth) = auth" "en_auth_state_provider (sample_engine auth) = Some id"
  "en_library_identity (sample_engine auth) = None" "en_saved_operation (sample_engine auth) = None"
  "en_liked_operation (sample_engine auth) = None" "en_prefetched (sample_engine auth) = None"
  "en_bus (sample_engine auth) = []"
  by (simp_all add: sample_engine_def engine_new_def engine_fields_new_def Let_def)

lemma sample_snapshot_fields [simp]:
  "sn_auth_state sample_snapshot = logged_in" "sn_saved_tracks sample_snapshot = []"
  "sn_liked_tracks sample_snapshot = []" "sn_library_pending sample_snapshot = []"
  "library_empty sample_snapshot" "sn_last_error sample_snapshot = None"
  by (simp_all add: sample_snapshot_def snapshot_default_def library_empty_def)

text \<open>No sequence of library commands, whatever the port answers and however the login
  changes while it is awaited, leaves library data in the snapshot that the identity shown by
  the snapshot does not own; page continuations are owned by it too.\<close>

lemma library_commands_keep_ownership:
  assumes "library_ok s e" and "run_library commands (s, e) = Some (s', e')"
  shows "library_ok s' e'"
  using assms
proof (induction commands arbitrary: s e)
  case Nil
  then show ?case by (simp add: run_library_def)
next
  case (Cons c commands)
  then obtain s2 e2 where d: "dispatch_library_command c s e = Some (s2, e2)"
    by (cases "dispatch_library_command c s e") (auto simp: run_library_def)
  show ?case
    using Cons.IH [OF dispatch_library_ok [OF Cons.prems(1) d]] Cons.prems(2)
    by (simp add: run_library_def d)
qed

lemma library_commands_keep_ownership_witness:
  "\<exists>s' e'. run_library [LoadNextSavedTracksPage, LoadNextLikedTracksPage] (sample_snapshot, sample_engine logged_in)
     = Some (s', e') \<and> library_ok s' e'"
proof -
  obtain s' e' where r: "run_library [LoadNextSavedTracksPage, LoadNextLikedTracksPage]
      (sample_snapshot, sample_engine logged_in) = Some (s', e')"
    by (simp add: run_library_def dispatch_library_command_def load_next_library_page_def)
  have "library_ok sample_snapshot (sample_engine logged_in)"
    by (simp add: library_ok_def)
  with library_commands_keep_ownership [OF this r] r show ?thesis by blast
qed

text \<open>C20: an optimistic library mutation that the port refuses is undone completely: with the
  login unchanged, the saved and liked lists are the ones before the command, the pending mark is
  gone and the port's error is reported; the observers saw the optimistic state exactly once, with
  the track marked pending.\<close>

theorem library_mutation_rolls_back:
  assumes "\<not> blank t" and "auth_identity_from_state (sn_auth_state s) = Some i"
    and "en_library_port e = Some port" and "en_prefetched e = None"
    and "library_mutation_call port m i t (en_world e) = (Inl err, w)"
    and "current_identity (e\<lparr>en_world := w\<rparr>) = Some i"
    and "mutate_library s t m e = Some (s', e')"
  shows "sn_saved_tracks s' = sn_saved_tracks s \<and> sn_liked_tracks s' = sn_liked_tracks s \<and>
    sn_library_pending s' = filter (\<lambda>j. j \<noteq> t) (sn_library_pending s) \<and>
    sn_last_error s' = Some err \<and>
    en_bus e' = en_bus e @ [StateChanged (library_pend t m s)] \<and>
    t \<in> set (sn_library_pending (library_pend t m s))"
proof -
  let ?e = "publish_intermediate_snapshot (library_pend t m s) (e\<lparr>en_library_identity := Some i\<rparr>)"
  have p: "prefetched_or as_library_mutation (library_mutation_call port m i t) ?e = (Inl err, ?e\<lparr>en_world := w\<rparr>)"
    using assms(4,5) by (simp add: prefetched_or_def take_prefetched_def)
  have "current_auth (?e\<lparr>en_world := w\<rparr>) = current_auth (e\<lparr>en_world := w\<rparr>)"
    by (simp add: current_auth_def cong: option.case_cong)
  then have cur: "current_identity (?e\<lparr>en_world := w\<rparr>) = Some i"
    and id: "auth_identity_from_state (current_auth (?e\<lparr>en_world := w\<rparr>)) = Some i"
    using assms(6) by (simp_all add: current_identity_def)
  have ctx: "library_context s (en_library_port e) = Inr (i, port)"
    using assms(2,3) by (simp add: library_context_def)
  have "mutate_library s t m e = map_option (\<lambda>s. (s, ?e\<lparr>en_world := w\<rparr>))
      (settle_library_mutation i (sn_saved_tracks s) (sn_liked_tracks s) t m (Inl err)
        ((library_pend t m s)\<lparr>sn_auth_state := current_auth (?e\<lparr>en_world := w\<rparr>)\<rparr>))"
    using assms(1) ctx by (simp add: mutate_library_def p libg.guard_current [OF cur] Let_def)
  moreover have "sn_library_pending (library_pend t m s) =
      (if t \<in> set (sn_library_pending s) then sn_library_pending s else sn_library_pending s @ [t])"
    by (auto simp: library_pend_def Let_def list_ex_iff split: library_mutation.splits)
  ultimately show ?thesis
    using assms(7) id by (auto simp: settle_library_mutation_def Let_def)
qed

theorem library_mutation_rolls_back_witness:
  "map_option (\<lambda>(s', e'). (sn_saved_tracks s', sn_library_pending s', sn_last_error s'))
     (mutate_library (sample_snapshot\<lparr>sn_saved_tracks := [sample_item]\<rparr>) ''t'' RemoveSaved
       ((sample_engine logged_in)\<lparr>en_library_port := Some (fixed_library_port (Err sample_error)
          (Err sample_error) (Err sample_error))\<rparr>)) =
   Some ([sample_item], [], Some sample_error)"
proof -
  let ?s = "sample_snapshot\<lparr>sn_saved_tracks := [sample_item]\<rparr>"
  let ?p = "fixed_library_port (Err sample_error) (Err sample_error) (Err sample_error) :: auth_state library_port"
  let ?e = "(sample_engine logged_in)\<lparr>en_library_port := Some ?p\<rparr>"
  have call: "library_mutation_call ?p RemoveSaved sample_identity ''t'' (en_world ?e) = (Inl sample_error, logged_in)"
    by (simp add: library_mutation_call_def fixed_library_port_def)
  have cur: "current_identity (?e\<lparr>en_world := logged_in\<rparr>) = Some sample_identity"
    by (simp add: current_identity_def current_auth_def)
  have nb: "\<not> blank ''t''" by (simp add: blank_leading_visible)
  obtain s' e' where m: "mutate_library ?s ''t'' RemoveSaved ?e = Some (s', e')"
    using mutate_library_total [of ?e RemoveSaved ?s "''t''"] by auto
  show ?thesis
    using library_mutation_rolls_back [OF nb _ _ _ call cur m] by (simp add: m)
qed

text \<open>C19: a mutation answered after the login changed never touches the new user's view: all
  library data are wiped, page operations and ownership are forgotten, and the command ends in
  the login error, whether the port succeeded or not.\<close>

theorem library_mutation_after_login_change:
  assumes "\<not> blank t" and "auth_identity_from_state (sn_auth_state s) = Some i"
    and "en_library_port e = Some port" and "en_prefetched e = None"
    and "library_mutation_call port m i t (en_world e) = (r, w)"
    and "current_identity (e\<lparr>en_world := w\<rparr>) \<noteq> Some i"
  shows "\<exists>s' e'. mutate_library s t m e = Some (s', e') \<and> library_empty s' \<and>
    sn_auth_state s' = current_auth e' \<and> sn_last_error s' = Some library_login_required \<and>
    en_library_identity e' = None \<and> en_saved_operation e' = None \<and> en_liked_operation e' = None"
proof -
  let ?e = "publish_intermediate_snapshot (library_pend t m s) (e\<lparr>en_library_identity := Some i\<rparr>)"
  have p: "prefetched_or as_library_mutation (library_mutation_call port m i t) ?e = (r, ?e\<lparr>en_world := w\<rparr>)"
    using assms(4,5) by (simp add: prefetched_or_def take_prefetched_def)
  have "current_auth (?e\<lparr>en_world := w\<rparr>) = current_auth (e\<lparr>en_world := w\<rparr>)"
    by (simp add: current_auth_def cong: option.case_cong)
  then have cur: "current_identity (?e\<lparr>en_world := w\<rparr>) \<noteq> Some i"
    using assms(6) by (simp add: current_identity_def)
  let ?s2 = "clear_library_projection ((library_pend t m s)\<lparr>sn_auth_state := current_auth (?e\<lparr>en_world := w\<rparr>)\<rparr>)"
  have ctx: "library_context s (en_library_port e) = Inr (i, port)"
    using assms(2,3) by (simp add: library_context_def)
  have "settle_library_mutation i (sn_saved_tracks s) (sn_liked_tracks s) t m (Inl library_login_required) ?s2
      = Some (?s2\<lparr>sn_last_error := Some library_login_required\<rparr>)"
    using cur by (intro settle_wiped) (simp_all add: current_identity_def)
  then have "mutate_library s t m e =
      Some (?s2\<lparr>sn_last_error := Some library_login_required\<rparr>, forget_library (?e\<lparr>en_world := w\<rparr>))"
    using assms(1) ctx by (simp add: mutate_library_def p libg.guard_changed [OF cur] Let_def)
  moreover have "current_auth (forget_library (?e\<lparr>en_world := w\<rparr>)) = current_auth (?e\<lparr>en_world := w\<rparr>)"
    by (rule libg.forget_current_auth)
  ultimately show ?thesis by (auto simp: forget_library_def)
qed

theorem library_mutation_after_login_change_witness:
  "\<exists>s' e'. mutate_library (sample_snapshot\<lparr>sn_saved_tracks := [sample_item]\<rparr>) ''t'' Like
     ((sample_engine Anonymous)\<lparr>en_library_port := Some (fixed_library_port (Ok sample_item) (Ok ())
        (Err sample_error))\<rparr>) = Some (s', e') \<and> library_empty s'"
proof -
  let ?s = "sample_snapshot\<lparr>sn_saved_tracks := [sample_item]\<rparr>"
  let ?p = "fixed_library_port (Ok sample_item) (Ok ()) (Err sample_error) :: auth_state library_port"
  let ?e = "(sample_engine Anonymous)\<lparr>en_library_port := Some ?p\<rparr>"
  have call: "library_mutation_call ?p Like sample_identity ''t'' (en_world ?e) = (Inr (Some sample_item), Anonymous)"
    by (simp add: library_mutation_call_def fixed_library_port_def)
  have cur: "current_identity (?e\<lparr>en_world := Anonymous\<rparr>) \<noteq> Some sample_identity"
    by (simp add: current_identity_def current_auth_def)
  have nb: "\<not> blank ''t''" by (simp add: blank_leading_visible)
  have "auth_identity_from_state (sn_auth_state ?s) = Some sample_identity" "en_library_port ?e = Some ?p"
    "en_prefetched ?e = None" by simp_all
  from library_mutation_after_login_change [OF nb this call cur] show ?thesis by blast
qed

text \<open>Pages and mutations never duplicate a relationship. If the saved and liked lists have
  distinct relationship ids, they keep them through any mutation and through loading any next
  page, whatever the server sends (duplicates within a page and overlap with earlier pages
  included), and a next page only appends.\<close>

lemma library_lists_stay_distinct:
  assumes "lib.keys_distinct (sn_saved_tracks s)" and "lib.keys_distinct (sn_liked_tracks s)"
    and "c \<in> {SaveTrack t, RemoveSavedTrack t, LikeTrack t, UnlikeTrack t,
             LoadNextSavedTracksPage, LoadNextLikedTracksPage}"
    and "dispatch_library_command c s e = Some (s', e')"
  shows "lib.keys_distinct (sn_saved_tracks s') \<and> lib.keys_distinct (sn_liked_tracks s')"
proof -
  have empty: "lib.keys_distinct []" by (simp add: lib.keys_distinct_def)
  have dist: "lib.keys_distinct (sn_saved_tracks s2)" "lib.keys_distinct (sn_liked_tracks s2)"
    if "library_result_for_current_identity s1 i r e1 = (res, s2, e2)"
      "lib.keys_distinct (sn_saved_tracks s1)" "lib.keys_distinct (sn_liked_tracks s1)"
    for s1 i e1 s2 and e2 :: "'a engine" and r res :: "library_track option result"
    using that by (auto simp: library_result_for_current_identity_def Let_def clear_library_projection_def empty
        split: if_splits)
  have mut: "lib.keys_distinct (sn_saved_tracks s') \<and> lib.keys_distinct (sn_liked_tracks s')"
    if m: "mutate_library s t m e = Some (s', e')" for m
  proof (cases "blank t \<or> auth_identity_from_state (sn_auth_state s) = None \<or> en_library_port e = None")
    case True
    with m assms(1,2) show ?thesis using mutate_library_early [OF True, of m] by auto
  next
    case False
    then obtain i port where c: "\<not> blank t" "auth_identity_from_state (sn_auth_state s) = Some i"
      "en_library_port e = Some port" by auto
    obtain r e1 res s2 e2 where g: "library_result_for_current_identity (library_pend t m s) i r e1 = (res, s2, e2)"
      and eq: "mutate_library s t m e = map_option (\<lambda>s. (s, e2))
         (settle_library_mutation i (sn_saved_tracks s) (sn_liked_tracks s) t m res s2)"
      using mutate_library_course [OF c, of m] by metis
    have "lib.keys_distinct (sn_saved_tracks (library_pend t m s))"
      "lib.keys_distinct (sn_liked_tracks (library_pend t m s))"
      using assms(1,2) by (simp_all add: library_pend_def Let_def lib.keys_distinct_filter split: library_mutation.splits)
    note d = dist [OF g this]
    have "settle_library_mutation i (sn_saved_tracks s) (sn_liked_tracks s) t m res s2 = Some s'"
      using m eq by auto
    with d assms(1,2) show ?thesis
      by (auto simp: settle_library_mutation_def Let_def lib.keys_distinct_put_front
          split: sum.splits option.splits library_mutation.splits if_splits)
  qed
  have page: "lib.keys_distinct (sn_saved_tracks s2) \<and> lib.keys_distinct (sn_liked_tracks s2)"
    if "load_next_library_page s saved e = (r, s2, e2)" for saved r s2 and e2 :: "'a engine"
    using that assms(1,2)
    by (auto simp: load_next_library_page_def Let_def library_result_for_current_identity_def
        clear_library_projection_def empty split: option.splits if_splits prod.splits)
  consider (mutation) m where "dispatch_library_command c s e = mutate_library s t m e"
    | (saved) "c = LoadNextSavedTracksPage" | (liked) "c = LoadNextLikedTracksPage"
    using assms(3) by (auto simp: dispatch_library_command_def)
  then show ?thesis
  proof cases
    case mutation
    with assms(4) show ?thesis using mut by simp
  next
    case saved
    obtain r s2 e2 where l: "load_next_library_page s True e = (r, s2, e2)"
      by (cases "load_next_library_page s True e")
    with saved page [OF l] assms(4) show ?thesis
      by (cases r) (auto simp: dispatch_library_command_def lib.keys_distinct_add_back)
  next
    case liked
    obtain r s2 e2 where l: "load_next_library_page s False e = (r, s2, e2)"
      by (cases "load_next_library_page s False e")
    with liked page [OF l] assms(4) show ?thesis
      by (cases r) (auto simp: dispatch_library_command_def lib.keys_distinct_add_back)
  qed
qed

lemma library_lists_stay_distinct_witness:
  "\<exists>s' e'. dispatch_library_command (LikeTrack ''t'') sample_snapshot (sample_engine logged_in) = Some (s', e') \<and>
     lib.keys_distinct (sn_liked_tracks s')"
proof -
  obtain s' e' where d: "dispatch_library_command (LikeTrack ''t'') sample_snapshot (sample_engine logged_in)
      = Some (s', e')"
    using mutate_library_total [of "sample_engine logged_in" Like sample_snapshot "''t''"]
    by (auto simp: dispatch_library_command_def)
  have "lib.keys_distinct []" by (simp add: lib.keys_distinct_def)
  then show ?thesis
    using library_lists_stay_distinct [OF _ _ _ d, of "''t''"] d by simp
qed

end
