(* ===== verification/Playlists.thy ===== *)
theory Playlists
  imports Library "HOL-Library.Multiset"
begin

text \<open>
  Playlists (\<open>engine/core/playlist.rs\<close>) and the reorder reconciler
  (\<open>services/playlist_reconciler.rs\<close>). The reconciler pages through a playlist until the server
  sends no continuation token, which nothing bounds: it is a partial function, \<open>None\<close> when the
  paging never ends. The projection interprets \<open>owned_projection\<close>; \<open>upsert_playlist\<close> is the
  \<open>put_front\<close> of \<open>keyed_upsert\<close>.
\<close>

subsection \<open>The reconciler\<close>

definition validate_reorder :: "string \<Rightarrow> string list \<Rightarrow> unit result" where
  "validate_reorder playlist_id ordered =
     (if blank playlist_id \<or> ordered = [] \<or> list_ex blank ordered
      then Err (engine_error_new InvalidInput
                  ''playlist reorder requires a complete non-empty membership order'' False)
      else if \<not> distinct ordered
      then Err (engine_error_new InvalidInput ''playlist reorder membership ids must be unique'' False)
      else Ok ())"

partial_function (option) list_all_membership_ids ::
  "'w playlist_port \<Rightarrow> auth_identity \<Rightarrow> string \<Rightarrow> page_token option \<Rightarrow> string list \<Rightarrow> 'w \<Rightarrow>
     (string list result \<times> 'w) option" where
  "list_all_membership_ids port identity playlist_id token membership_ids w =
     (case plp_list_tracks port identity playlist_id \<lparr>page_size = 100, page_token = token\<rparr> w of
        (Inl err, w) \<Rightarrow> Some (Err err, w)
      | (Inr page, w) \<Rightarrow>
          (case pr_next_page_token page of
             None \<Rightarrow> Some (Ok (membership_ids @ map pt_membership_id (pr_items page)), w)
           | Some next_token \<Rightarrow>
               list_all_membership_ids port identity playlist_id (Some next_token)
                 (membership_ids @ map pt_membership_id (pr_items page)) w))"

text \<open>\<open>PlaylistReconciler::reorder\<close> on a fresh reconciler, with the proposal \<open>proposed()\<close> reads
  afterwards.\<close>

definition reconciler_reorder ::
  "'w playlist_port \<Rightarrow> auth_identity \<Rightarrow> string \<Rightarrow> string list \<Rightarrow> u64 \<Rightarrow> 'w \<Rightarrow>
     (playlist result \<times> playlist_reconciliation option \<times> 'w) option" where
  "reconciler_reorder port identity playlist_id ordered expected_revision w =
     (case validate_reorder playlist_id ordered of
        Inl err \<Rightarrow> Some (Err err, None, w)
      | Inr _ \<Rightarrow>
          (case plp_reorder port identity playlist_id ordered expected_revision w of
             (Inr pl, w) \<Rightarrow> Some (Ok pl, None, w)
           | (Inl err, w) \<Rightarrow>
               (if error_type err \<noteq> Conflict then Some (Err err, None, w)
                else case plp_get port identity playlist_id w of
                       (Inl err, w) \<Rightarrow> Some (Err err, None, w)
                     | (Inr pl, w) \<Rightarrow>
                         (case list_all_membership_ids port identity playlist_id None [] w of
                            None \<Rightarrow> None
                          | Some (Inl err, w) \<Rightarrow> Some (Err err, None, w)
                          | Some (Inr server_ids, w) \<Rightarrow>
                              Some (Err err,
                                Some \<lparr>prc_playlist_id = playlist_id,
                                      prc_expected_revision = expected_revision,
                                      prc_server_revision = pl_revision pl,
                                      prc_server_membership_ids = server_ids,
                                      prc_proposed_membership_ids = ordered\<rparr>, w)))))"

subsection \<open>Lists of playlists and of memberships\<close>

datatype playlist_mutation =
    MutatedPlaylist playlist | MutatedTrack playlist_track | DeletedPlaylist string
  | RemovedTrack string string

definition upsert_playlist :: "playlist list \<Rightarrow> playlist \<Rightarrow> playlist list" where
  "upsert_playlist items pl = pl # filter (\<lambda>existing. pl_id existing \<noteq> pl_id pl) items"

text \<open>\<open>iter().position(p)\<close>.\<close>

fun position :: "('a \<Rightarrow> bool) \<Rightarrow> 'a list \<Rightarrow> usize option" where
  "position p [] = None"
| "position p (x # xs) = (if p x then Some 0 else map_option Suc (position p xs))"

definition USIZE_MAX :: usize where
  "USIZE_MAX = 2 ^ 64 - 1"

definition membership_rank :: "string list \<Rightarrow> playlist_track \<Rightarrow> usize" where
  "membership_rank ordered track =
     (case position (\<lambda>i. i = pt_membership_id track) ordered of None \<Rightarrow> USIZE_MAX | Some n \<Rightarrow> n)"

text \<open>\<open>u32::try_from(position).unwrap_or(u32::MAX)\<close>.\<close>

definition u32_position :: "usize \<Rightarrow> u32" where
  "u32_position n = (if n < 2 ^ 32 then of_nat n else - 1)"

definition apply_membership_order :: "playlist_track list \<Rightarrow> string list \<Rightarrow> playlist_track list" where
  "apply_membership_order tracks ordered =
     map (\<lambda>(n, track). track\<lparr>pt_position := u32_position n\<rparr>)
       (enumerate 0 (sort_key (membership_rank ordered) tracks))"

subsection \<open>Context and guard\<close>

definition playlist_login_required :: engine_error where
  "playlist_login_required = engine_error_new LoginRequiredError
     ''playlist operation requires the current authenticated session'' False"

definition playlist_error :: "string \<Rightarrow> engine_error" where
  "playlist_error msg = engine_error_new FailedPrecondition msg False"

definition playlist_context ::
  "engine_snapshot \<Rightarrow> 'w playlist_port option \<Rightarrow> (auth_identity \<times> 'w playlist_port) result" where
  "playlist_context s port =
     (case auth_identity_from_state (sn_auth_state s) of
        None \<Rightarrow> Err playlist_login_required
      | Some identity \<Rightarrow>
          (case port of
             None \<Rightarrow> Err (playlist_error ''playlist service is not configured'')
           | Some port \<Rightarrow> Ok (identity, port)))"

definition forget_playlist :: "'w engine \<Rightarrow> 'w engine" where
  "forget_playlist e =
     e\<lparr>en_playlist_identity := None, en_playlists_operation := None,
       en_playlist_tracks_operation := None\<rparr>"

definition playlist_result_for_current_identity ::
  "engine_snapshot \<Rightarrow> auth_identity \<Rightarrow> 'a result \<Rightarrow> 'w engine \<Rightarrow>
     'a result \<times> engine_snapshot \<times> 'w engine" where
  "playlist_result_for_current_identity s expected r e =
     (let auth = current_auth e;
          s = s\<lparr>sn_auth_state := auth\<rparr>
      in if auth_identity_from_state auth = Some expected then (r, s, e)
         else (Err playlist_login_required, clear_playlist_projection s, forget_playlist e))"

subsection \<open>Operations\<close>

definition load_next_playlists ::
  "engine_snapshot \<Rightarrow> 'w engine \<Rightarrow> playlist paged_result result \<times> engine_snapshot \<times> 'w engine" where
  "load_next_playlists s e =
     (case en_playlists_operation e of
        None \<Rightarrow> (Err (playlist_error ''no current playlists page operation''), s, e)
      | Some operation \<Rightarrow>
     (case sn_playlists_next s of
        None \<Rightarrow> (Err (playlist_error ''playlists have no continuation''), s, e)
      | Some token \<Rightarrow>
     (case auth_identity_from_state (sn_auth_state s) of
        None \<Rightarrow> (Err playlist_login_required, s, e)
      | Some identity \<Rightarrow>
          (if identity \<noteq> ppo_auth_identity operation \<or> ppo_playlist_id operation \<noteq> None
           then (Err playlist_login_required, s, e)
           else case en_playlist_port e of
                  None \<Rightarrow> (Err (playlist_error ''playlist service is not configured''), s, e)
                | Some port \<Rightarrow>
                    (let (r, e) = await_call (plp_list port identity
                           \<lparr>page_size = ppo_page_size operation, page_token = Some token\<rparr>) e
                     in playlist_result_for_current_identity s identity r e)))))"

definition load_next_playlist_page ::
  "engine_snapshot \<Rightarrow> string option \<Rightarrow> 'w engine \<Rightarrow>
     playlist_track paged_result result \<times> engine_snapshot \<times> 'w engine" where
  "load_next_playlist_page s playlist_id e =
     (case en_playlist_tracks_operation e of
        None \<Rightarrow> (Err (playlist_error ''no current playlist tracks page operation''), s, e)
      | Some operation \<Rightarrow>
     (case sn_playlist_tracks_next s of
        None \<Rightarrow> (Err (playlist_error ''playlist tracks have no continuation''), s, e)
      | Some token \<Rightarrow>
     (case auth_identity_from_state (sn_auth_state s) of
        None \<Rightarrow> (Err playlist_login_required, s, e)
      | Some identity \<Rightarrow>
          (if identity \<noteq> ppo_auth_identity operation \<or> ppo_playlist_id operation \<noteq> playlist_id
           then (Err playlist_login_required, s, e)
           else case en_playlist_port e of
                  None \<Rightarrow> (Err (playlist_error ''playlist service is not configured''), s, e)
                | Some port \<Rightarrow>
                    (let (r, e) = await_call (plp_list_tracks port identity (unwrap_or playlist_id [])
                           \<lparr>page_size = ppo_page_size operation, page_token = Some token\<rparr>) e
                     in playlist_result_for_current_identity s identity r e)))))"

text \<open>The reaction of \<open>mutate_playlist\<close> to the guarded answer.\<close>

definition apply_playlist_mutation ::
  "auth_identity \<Rightarrow> playlist_mutation result \<Rightarrow> engine_snapshot \<Rightarrow> 'w engine \<Rightarrow>
     engine_snapshot \<times> 'w engine" where
  "apply_playlist_mutation identity r s e =
     (case r of
        Inr (MutatedPlaylist pl) \<Rightarrow>
          (s\<lparr>sn_playlists := upsert_playlist (sn_playlists s) pl\<rparr>,
           e\<lparr>en_playlist_identity := Some identity\<rparr>)
      | Inr (MutatedTrack track) \<Rightarrow>
          (if sn_playlist_tracks_id s = Some (pt_playlist_id track)
           then s\<lparr>sn_playlist_tracks := sn_playlist_tracks s @ [track]\<rparr> else s, e)
      | Inr (DeletedPlaylist i) \<Rightarrow>
          (let s = s\<lparr>sn_playlists := filter (\<lambda>pl. pl_id pl \<noteq> i) (sn_playlists s)\<rparr>
           in (if sn_playlist_tracks_id s = Some i
               then s\<lparr>sn_playlist_tracks := [], sn_playlist_tracks_id := None\<rparr> else s, e))
      | Inr (RemovedTrack i member) \<Rightarrow>
          (if sn_playlist_tracks_id s = Some i
           then s\<lparr>sn_playlist_tracks :=
                    filter (\<lambda>track. pt_membership_id track \<noteq> member) (sn_playlist_tracks s)\<rparr>
           else s, e)
      | Inl err \<Rightarrow> (if error_type err = NotFound then s else s\<lparr>sn_last_error := Some err\<rparr>, e))"

definition mutate_playlist ::
  "engine_snapshot \<Rightarrow> ('w playlist_port \<Rightarrow> auth_identity \<Rightarrow> 'w \<Rightarrow> playlist_mutation result \<times> 'w) \<Rightarrow>
     'w engine \<Rightarrow> engine_snapshot \<times> 'w engine" where
  "mutate_playlist s action e =
     (case playlist_context s (en_playlist_port e) of
        Inl err \<Rightarrow> (s\<lparr>sn_last_error := Some err\<rparr>, e)
      | Inr (identity, port) \<Rightarrow>
          (let (r, e) = await_call (action port identity) e;
               (r, s, e) = playlist_result_for_current_identity s identity r e
           in apply_playlist_mutation identity r s e))"

text \<open>The call with its answer wrapped as a mutation.\<close>

definition mutating :: "('a \<Rightarrow> playlist_mutation) \<Rightarrow> ('a, 'w) io \<Rightarrow> (playlist_mutation, 'w) io" where
  "mutating wrap call w = (let (r, w) = call w in (map_ok wrap r, w))"

definition list_playlists :: "page_request \<Rightarrow> engine_snapshot \<Rightarrow> 'w engine \<Rightarrow> engine_snapshot \<times> 'w engine" where
  "list_playlists page s e =
     (let s = s\<lparr>sn_playlists := [], sn_playlists_next := None\<rparr>;
          e = e\<lparr>en_playlists_operation := None\<rparr>
      in case playlist_context s (en_playlist_port e) of
           Inl err \<Rightarrow> (s\<lparr>sn_last_error := Some err\<rparr>, e)
         | Inr (identity, port) \<Rightarrow>
             (let (listed, e) = prefetched_or as_playlists (plp_list port identity page) e;
                  (r, s, e) = playlist_result_for_current_identity s identity listed e
              in case r of
                   Inr result \<Rightarrow>
                     (s\<lparr>sn_playlists := pr_items result, sn_playlists_next := pr_next_page_token result\<rparr>,
                      e\<lparr>en_playlist_identity := Some identity,
                        en_playlists_operation := Some \<lparr>ppo_auth_identity = identity,
                          ppo_playlist_id = None, ppo_page_size = page_size page\<rparr>\<rparr>)
                 | Inl err \<Rightarrow>
                     (if error_type err = NotFound then s else s\<lparr>sn_last_error := Some err\<rparr>, e)))"

definition list_playlist_tracks ::
  "string \<Rightarrow> page_request \<Rightarrow> engine_snapshot \<Rightarrow> 'w engine \<Rightarrow> engine_snapshot \<times> 'w engine" where
  "list_playlist_tracks playlist_id page s e =
     (let s = s\<lparr>sn_playlist_tracks := [], sn_playlist_tracks_next := None, sn_playlist_tracks_id := None\<rparr>;
          e = e\<lparr>en_playlist_tracks_operation := None\<rparr>
      in case playlist_context s (en_playlist_port e) of
           Inl err \<Rightarrow> (s\<lparr>sn_last_error := Some err\<rparr>, e)
         | Inr (identity, port) \<Rightarrow>
             (let (listed, e) = await_call (plp_list_tracks port identity playlist_id page) e;
                  (r, s, e) = playlist_result_for_current_identity s identity listed e
              in case r of
                   Inr result \<Rightarrow>
                     (s\<lparr>sn_playlist_tracks := pr_items result,
                        sn_playlist_tracks_next := pr_next_page_token result,
                        sn_playlist_tracks_id := Some playlist_id\<rparr>,
                      e\<lparr>en_playlist_identity := Some identity,
                        en_playlist_tracks_operation := Some \<lparr>ppo_auth_identity = identity,
                          ppo_playlist_id = Some playlist_id, ppo_page_size = page_size page\<rparr>\<rparr>)
                 | Inl err \<Rightarrow>
                     (if error_type err = NotFound then s else s\<lparr>sn_last_error := Some err\<rparr>, e)))"

definition settle_reorder ::
  "string \<Rightarrow> string list \<Rightarrow> playlist result \<Rightarrow> playlist_reconciliation option \<Rightarrow>
     auth_identity option \<Rightarrow> engine_snapshot \<Rightarrow> 'w engine \<Rightarrow> engine_snapshot \<times> 'w engine" where
  "settle_reorder playlist_id ordered r proposal identity s e =
     (case r of
        Inr pl \<Rightarrow>
          (let s = s\<lparr>sn_playlist_reconciliation := None,
                     sn_playlists := upsert_playlist (sn_playlists s) pl\<rparr>
           in (if sn_playlist_tracks_id s = Some playlist_id
               then s\<lparr>sn_playlist_tracks := apply_membership_order (sn_playlist_tracks s) ordered\<rparr>
               else s,
               e\<lparr>en_playlist_identity := identity\<rparr>))
      | Inl err \<Rightarrow>
          (let (s, e) = (if error_type err = Conflict
                         then (s\<lparr>sn_playlist_reconciliation := proposal\<rparr>,
                               e\<lparr>en_playlist_identity := identity\<rparr>)
                         else (s, e))
           in (s\<lparr>sn_last_error := Some err\<rparr>, e)))"

definition reorder_playlist_tracks ::
  "string \<Rightarrow> string list \<Rightarrow> u64 \<Rightarrow> engine_snapshot \<Rightarrow> 'w engine \<Rightarrow>
     (engine_snapshot \<times> 'w engine) option" where
  "reorder_playlist_tracks playlist_id ordered expected_revision s e =
     (if sn_playlist_tracks_id s = Some playlist_id \<and> sn_playlist_tracks_next s \<noteq> None
      then Some (s\<lparr>sn_last_error := Some (engine_error_new InvalidInput
                     ''playlist reorder requires the complete membership projection'' False)\<rparr>, e)
      else case playlist_context s (en_playlist_port e) of
             Inl err \<Rightarrow> Some (settle_reorder playlist_id ordered (Err err) None None s e)
           | Inr (identity, port) \<Rightarrow>
               (case reconciler_reorder port identity playlist_id ordered expected_revision (en_world e) of
                  None \<Rightarrow> None
                | Some (r, proposal, w) \<Rightarrow>
                    (let e = e\<lparr>en_world := w\<rparr>;
                         (r, s, e) = playlist_result_for_current_identity s identity r e
                     in Some (settle_reorder playlist_id ordered r proposal (Some identity) s e))))"

definition dispatch_playlist_command ::
  "engine_command_type \<Rightarrow> engine_snapshot \<Rightarrow> 'w engine \<Rightarrow> (engine_snapshot \<times> 'w engine) option" where
  "dispatch_playlist_command command s e =
     (case command of
        ListPlaylists page \<Rightarrow> Some (list_playlists page s e)
      | LoadNextPlaylistsPage \<Rightarrow>
          (let (r, s, e) = load_next_playlists s e
           in case r of
                Inr result \<Rightarrow>
                  Some (s\<lparr>sn_playlists := sn_playlists s @ pr_items result,
                          sn_playlists_next := pr_next_page_token result\<rparr>, e)
              | Inl err \<Rightarrow> Some (s\<lparr>sn_last_error := Some err\<rparr>, e))
      | ListPlaylistTracks playlist_id page \<Rightarrow> Some (list_playlist_tracks playlist_id page s e)
      | LoadNextPlaylistTracksPage \<Rightarrow>
          (let (r, s, e) = load_next_playlist_page s (sn_playlist_tracks_id s) e
           in case r of
                Inr result \<Rightarrow>
                  Some (s\<lparr>sn_playlist_tracks := sn_playlist_tracks s @ pr_items result,
                          sn_playlist_tracks_next := pr_next_page_token result\<rparr>, e)
              | Inl err \<Rightarrow> Some (s\<lparr>sn_last_error := Some err\<rparr>, e))
      | CreatePlaylist input \<Rightarrow>
          Some (mutate_playlist s (\<lambda>port i. mutating MutatedPlaylist (plp_create port i input)) e)
      | UpdatePlaylist input \<Rightarrow>
          Some (mutate_playlist s (\<lambda>port i. mutating MutatedPlaylist (plp_update port i input)) e)
      | DeletePlaylist playlist_id \<Rightarrow>
          Some (mutate_playlist s
            (\<lambda>port i. mutating (\<lambda>_. DeletedPlaylist playlist_id) (plp_delete port i playlist_id)) e)
      | AddPlaylistTrack playlist_id track_id \<Rightarrow>
          Some (mutate_playlist s
            (\<lambda>port i. mutating MutatedTrack (plp_add_track port i playlist_id track_id)) e)
      | RemovePlaylistTrack playlist_id track_id \<Rightarrow>
          Some (mutate_playlist s
            (\<lambda>port i. mutating (\<lambda>_. RemovedTrack playlist_id track_id)
               (plp_remove_track port i playlist_id track_id)) e)
      | ReorderPlaylistTracks playlist_id ordered expected_revision \<Rightarrow>
          reorder_playlist_tracks playlist_id ordered expected_revision s e
      | _ \<Rightarrow> None)"

subsection \<open>Ownership of the projection\<close>

definition playlist_pagers :: "'w engine \<Rightarrow> auth_identity set" where
  "playlist_pagers e =
     ppo_auth_identity ` (set_option (en_playlists_operation e) \<union> set_option (en_playlist_tracks_operation e))"

interpretation plg: owned_projection playlist_result_for_current_identity clear_playlist_projection
  forget_playlist playlist_login_required playlist_empty en_playlist_identity playlist_pagers
  by unfold_locales
     (auto simp: playlist_result_for_current_identity_def current_identity_def Let_def
       playlist_login_required_def forget_playlist_def playlist_pagers_def)

interpretation pll: keyed_upsert pl_id upsert_playlist
  by unfold_locales (auto simp: upsert_playlist_def)

text \<open>The playlist projection has no owner and is empty, or is owned by the identity the snapshot
  shows; so are its page operations.\<close>

definition playlist_ok :: "engine_snapshot \<Rightarrow> 'w engine \<Rightarrow> bool" where
  "playlist_ok s e =
     (en_playlist_identity e = None \<and> playlist_empty s \<and>
        en_playlists_operation e = None \<and> en_playlist_tracks_operation e = None \<or>
      (\<exists>i. en_playlist_identity e = Some i \<and> auth_identity_from_state (sn_auth_state s) = Some i \<and>
        (\<forall>op. en_playlists_operation e = Some op \<longrightarrow> ppo_auth_identity op = i) \<and>
        (\<forall>op. en_playlist_tracks_operation e = Some op \<longrightarrow> ppo_auth_identity op = i)))"

lemma playlist_ok_owned: "playlist_ok s e = plg.owned s e"
  by (cases "en_playlists_operation e"; cases "en_playlist_tracks_operation e")
     (auto simp: playlist_ok_def plg.owned_def playlist_pagers_def)

lemma playlist_contextD:
  "playlist_context s port = Inr (i, p) \<Longrightarrow>
     auth_identity_from_state (sn_auth_state s) = Some i \<and> port = Some p"
  by (auto simp: playlist_context_def split: option.splits)

lemma playlist_empty_error [simp]: "playlist_empty (s\<lparr>sn_last_error := x\<rparr>) = playlist_empty s"
  by (simp add: playlist_empty_def)

lemma playlist_owned_frame [simp]:
  "plg.owned (s\<lparr>sn_last_error := x\<rparr>) e = plg.owned s e"
  "plg.owned s (e\<lparr>en_world := w\<rparr>) = plg.owned s e"
  "plg.owned s (e\<lparr>en_prefetched := pre\<rparr>) = plg.owned s e"
  by (simp_all add: plg.owned_def playlist_pagers_def)

lemma playlist_pagers_frame [simp]:
  "playlist_pagers (e\<lparr>en_world := w\<rparr>) = playlist_pagers e"
  "playlist_pagers (e\<lparr>en_prefetched := pre\<rparr>) = playlist_pagers e"
  "playlist_pagers (e\<lparr>en_playlist_identity := i\<rparr>) = playlist_pagers e"
  by (simp_all add: playlist_pagers_def)

text \<open>An answered call keeps ownership; if it is accepted, the engine is the one of the call.\<close>

definition same_playlist_owner :: "'w engine \<Rightarrow> 'w engine \<Rightarrow> bool" where
  "same_playlist_owner e e1 =
     (en_playlist_identity e1 = en_playlist_identity e \<and> playlist_pagers e1 = playlist_pagers e)"

lemma same_playlist_owner_await: "await_call c e = (r, e1) \<Longrightarrow> same_playlist_owner e e1"
  by (drule await_callD, elim conjE, erule ssubst) (simp add: same_playlist_owner_def)

lemma same_playlist_owner_prefetched: "prefetched_or sel c e = (r, e1) \<Longrightarrow> same_playlist_owner e e1"
  by (drule prefetched_orD, erule ssubst) (simp add: same_playlist_owner_def)

lemma playlist_answer:
  assumes "plg.owned s e" "auth_identity_from_state (sn_auth_state s) = Some i"
    and "same_playlist_owner e e1"
    and "playlist_result_for_current_identity s i r e1 = (res, s', e')"
  shows "plg.owned s' e'"
    and "res = Inr a \<Longrightarrow> auth_identity_from_state (sn_auth_state s') = Some i"
    and "res = Inr a \<Longrightarrow> en_playlist_identity e' = en_playlist_identity e"
    and "res = r \<and> auth_identity_from_state (sn_auth_state s') = Some i \<or> res = Err playlist_login_required"
proof -
  have "en_playlist_identity e1 = en_playlist_identity e" "playlist_pagers e1 = playlist_pagers e"
    using assms(3) by (simp_all add: same_playlist_owner_def)
  note g = plg.owned_guard [OF assms(1,2) this assms(4), where a = a]
  from g show "plg.owned s' e'" by (rule conjunct1)
  from g show "res = r \<and> auth_identity_from_state (sn_auth_state s') = Some i \<or> res = Err playlist_login_required"
    by (rule conjunct2 [THEN conjunct2])
  assume r: "res = Inr a"
  from g [THEN conjunct2, THEN conjunct1, THEN mp, OF r]
  show "auth_identity_from_state (sn_auth_state s') = Some i" by (rule conjunct1)
  from g [THEN conjunct2, THEN conjunct1, THEN mp, OF r] have "e' = e1" by blast
  then show "en_playlist_identity e' = en_playlist_identity e"
    using assms(3) by (simp add: same_playlist_owner_def)
qed

lemma playlist_owned_fill:
  "plg.owned s e \<Longrightarrow> en_playlist_identity e \<noteq> None \<Longrightarrow> sn_auth_state s' = sn_auth_state s \<Longrightarrow>
     plg.owned s' e"
  by (auto simp: plg.owned_def)

lemma playlist_owned_claim:
  "plg.owned s e \<Longrightarrow> auth_identity_from_state (sn_auth_state s) = Some i \<Longrightarrow>
     sn_auth_state s' = sn_auth_state s \<Longrightarrow> plg.owned s' (e\<lparr>en_playlist_identity := Some i\<rparr>)"
  by (rule plg.owned_claim [where s = s and e = e and i = i]) (simp_all add: subset_insertI)

lemma playlist_owned_listed:
  assumes "plg.owned s e" "auth_identity_from_state (sn_auth_state s) = Some i"
    and "sn_auth_state s' = sn_auth_state s" "ppo_auth_identity op = i"
  shows "plg.owned s' (e\<lparr>en_playlist_identity := Some i, en_playlists_operation := Some op\<rparr>)"
    "plg.owned s' (e\<lparr>en_playlist_identity := Some i, en_playlist_tracks_operation := Some op\<rparr>)"
  using assms(4) by (auto intro!: plg.owned_claim [OF assms(1,2) _ _ assms(3)] simp: playlist_pagers_def)

lemma list_playlists_owned:
  assumes "plg.owned s e" "list_playlists page s e = (s', e')"
  shows "plg.owned s' e'"
proof -
  let ?s = "s\<lparr>sn_playlists := [], sn_playlists_next := None\<rparr>" and ?e = "e\<lparr>en_playlists_operation := None\<rparr>"
  have start: "plg.owned ?s ?e"
    using assms(1) by (auto simp: plg.owned_def playlist_pagers_def playlist_empty_def)
  show ?thesis
  proof (cases "playlist_context ?s (en_playlist_port ?e)")
    case (Inl err)
    with assms(2) start show ?thesis by (auto simp: list_playlists_def)
  next
    case (Inr c)
    obtain i port where c: "c = (i, port)" by (cases c)
    obtain r e1 where p: "prefetched_or as_playlists (plp_list port i page) ?e = (r, e1)"
      by (cases "prefetched_or as_playlists (plp_list port i page) ?e")
    obtain res s2 e2 where g: "playlist_result_for_current_identity ?s i r e1 = (res, s2, e2)"
      by (cases "playlist_result_for_current_identity ?s i r e1")
    have i: "auth_identity_from_state (sn_auth_state ?s) = Some i"
      using playlist_contextD Inr c by blast
    note a = playlist_answer [OF start i same_playlist_owner_prefetched [OF p] g]
    show ?thesis
    proof (cases res)
      case (Inl err)
      with assms(2) \<open>playlist_context _ _ = _\<close> c p g a(1) show ?thesis
        by (auto simp: list_playlists_def split: if_splits)
    next
      case (Inr x)
      with assms(2) \<open>playlist_context _ _ = _\<close> c p g a(1) a(2) [OF Inr] show ?thesis
        by (auto simp: list_playlists_def intro!: playlist_owned_listed)
    qed
  qed
qed

lemma list_playlist_tracks_owned:
  assumes "plg.owned s e" "list_playlist_tracks pid page s e = (s', e')"
  shows "plg.owned s' e'"
proof -
  let ?s = "s\<lparr>sn_playlist_tracks := [], sn_playlist_tracks_next := None, sn_playlist_tracks_id := None\<rparr>"
    and ?e = "e\<lparr>en_playlist_tracks_operation := None\<rparr>"
  have start: "plg.owned ?s ?e"
    using assms(1) by (auto simp: plg.owned_def playlist_pagers_def playlist_empty_def)
  show ?thesis
  proof (cases "playlist_context ?s (en_playlist_port ?e)")
    case (Inl err)
    with assms(2) start show ?thesis by (auto simp: list_playlist_tracks_def)
  next
    case (Inr c)
    obtain i port where c: "c = (i, port)" by (cases c)
    obtain r e1 where p: "await_call (plp_list_tracks port i pid page) ?e = (r, e1)"
      by (cases "await_call (plp_list_tracks port i pid page) ?e")
    obtain res s2 e2 where g: "playlist_result_for_current_identity ?s i r e1 = (res, s2, e2)"
      by (cases "playlist_result_for_current_identity ?s i r e1")
    have i: "auth_identity_from_state (sn_auth_state ?s) = Some i"
      using playlist_contextD Inr c by blast
    note a = playlist_answer [OF start i same_playlist_owner_await [OF p] g]
    show ?thesis
    proof (cases res)
      case (Inl err)
      with assms(2) \<open>playlist_context _ _ = _\<close> c p g a(1) show ?thesis
        by (auto simp: list_playlist_tracks_def split: if_splits)
    next
      case (Inr x)
      with assms(2) \<open>playlist_context _ _ = _\<close> c p g a(1) a(2) [OF Inr] show ?thesis
        by (auto simp: list_playlist_tracks_def intro!: playlist_owned_listed)
    qed
  qed
qed

lemma load_next_playlists_owned:
  assumes "plg.owned s e" "load_next_playlists s e = (r, s', e')"
  shows "plg.owned s' e'" "r = Inr x \<Longrightarrow> en_playlist_identity e' \<noteq> None"
proof -
  have "plg.owned s' e' \<and> (r = Inr x \<longrightarrow> en_playlist_identity e' \<noteq> None)"
  proof (cases "\<exists>i op token port. en_playlists_operation e = Some op \<and> sn_playlists_next s = Some token \<and>
      auth_identity_from_state (sn_auth_state s) = Some i \<and> i = ppo_auth_identity op \<and>
      ppo_playlist_id op = None \<and> en_playlist_port e = Some port")
    case False
    then have "s' = s \<and> e' = e \<and> (\<exists>err. r = Inl err)"
      using assms(2) by (auto simp: load_next_playlists_def split: option.splits if_splits)
    with assms(1) show ?thesis by auto
  next
    case True
    then obtain i op token port where c: "en_playlists_operation e = Some op" "sn_playlists_next s = Some token"
      "auth_identity_from_state (sn_auth_state s) = Some i" "i = ppo_auth_identity op"
      "ppo_playlist_id op = None" "en_playlist_port e = Some port" by blast
    let ?call = "plp_list port i \<lparr>page_size = ppo_page_size op, page_token = Some token\<rparr>"
    obtain r1 e1 where p: "await_call ?call e = (r1, e1)" by (cases "await_call ?call e")
    have g: "playlist_result_for_current_identity s i r1 e1 = (r, s', e')"
      using assms(2) c p by (simp add: load_next_playlists_def)
    note a = playlist_answer [OF assms(1) c(3) same_playlist_owner_await [OF p] g]
    have "en_playlist_identity e \<noteq> None"
      using assms(1) c(1) by (auto simp: plg.owned_def playlist_pagers_def)
    with a(1) a(3) show ?thesis by auto
  qed
  then show "plg.owned s' e'" "r = Inr x \<Longrightarrow> en_playlist_identity e' \<noteq> None" by blast+
qed

lemma load_next_playlist_page_owned:
  assumes "plg.owned s e" "load_next_playlist_page s pid e = (r, s', e')"
  shows "plg.owned s' e'" "r = Inr x \<Longrightarrow> en_playlist_identity e' \<noteq> None"
proof -
  have "plg.owned s' e' \<and> (r = Inr x \<longrightarrow> en_playlist_identity e' \<noteq> None)"
  proof (cases "\<exists>i op token port. en_playlist_tracks_operation e = Some op \<and>
      sn_playlist_tracks_next s = Some token \<and>
      auth_identity_from_state (sn_auth_state s) = Some i \<and> i = ppo_auth_identity op \<and>
      ppo_playlist_id op = pid \<and> en_playlist_port e = Some port")
    case False
    then have "s' = s \<and> e' = e \<and> (\<exists>err. r = Inl err)"
      using assms(2) by (auto simp: load_next_playlist_page_def split: option.splits if_splits)
    with assms(1) show ?thesis by auto
  next
    case True
    then obtain i op token port where c: "en_playlist_tracks_operation e = Some op"
      "sn_playlist_tracks_next s = Some token"
      "auth_identity_from_state (sn_auth_state s) = Some i" "i = ppo_auth_identity op"
      "ppo_playlist_id op = pid" "en_playlist_port e = Some port" by blast
    let ?call = "plp_list_tracks port i (unwrap_or pid []) \<lparr>page_size = ppo_page_size op, page_token = Some token\<rparr>"
    obtain r1 e1 where p: "await_call ?call e = (r1, e1)" by (cases "await_call ?call e")
    have g: "playlist_result_for_current_identity s i r1 e1 = (r, s', e')"
      using assms(2) c p by (simp add: load_next_playlist_page_def)
    note a = playlist_answer [OF assms(1) c(3) same_playlist_owner_await [OF p] g]
    have "en_playlist_identity e \<noteq> None"
      using assms(1) c(1) by (auto simp: plg.owned_def playlist_pagers_def)
    with a(1) a(3) show ?thesis by auto
  qed
  then show "plg.owned s' e'" "r = Inr x \<Longrightarrow> en_playlist_identity e' \<noteq> None" by blast+
qed

lemma apply_playlist_mutation_owned:
  assumes "plg.owned s e" "\<And>x. r = Inr x \<Longrightarrow> auth_identity_from_state (sn_auth_state s) = Some i"
  shows "plg.owned (fst (apply_playlist_mutation i r s e)) (snd (apply_playlist_mutation i r s e))"
proof -
  have keep: "plg.owned s'' e" if "sn_auth_state s'' = sn_auth_state s" "playlist_empty s \<Longrightarrow> playlist_empty s''" for s''
    by (rule plg.owned_change [OF assms(1) refl subset_refl that(1)]) (rule that(2))
  show ?thesis
    using assms
    by (cases r)
       (auto simp: apply_playlist_mutation_def playlist_empty_def Let_def
         intro!: keep playlist_owned_claim [OF assms(1)] split: playlist_mutation.splits)
qed

lemma mutate_playlist_owned:
  assumes "plg.owned s e" "mutate_playlist s action e = (s', e')"
  shows "plg.owned s' e'"
proof (cases "playlist_context s (en_playlist_port e)")
  case (Inl err)
  with assms show ?thesis by (auto simp: mutate_playlist_def)
next
  case (Inr c)
  obtain i port where c: "c = (i, port)" by (cases c)
  obtain r e1 where p: "await_call (action port i) e = (r, e1)" by (cases "await_call (action port i) e")
  obtain res s2 e2 where g: "playlist_result_for_current_identity s i r e1 = (res, s2, e2)"
    by (cases "playlist_result_for_current_identity s i r e1")
  have i: "auth_identity_from_state (sn_auth_state s) = Some i"
    using playlist_contextD Inr c by blast
  note a = playlist_answer [OF assms(1) i same_playlist_owner_await [OF p] g]
  have m: "apply_playlist_mutation i res s2 e2 = (s', e')"
    using assms(2) Inr c p g by (simp add: mutate_playlist_def)
  from apply_playlist_mutation_owned [OF a(1) a(2), of res] show ?thesis by (simp add: m)
qed

lemma settle_reorder_owned:
  assumes "plg.owned s e" "settle_reorder pid ordered r proposal own s e = (s', e')"
    and "auth_identity_from_state (sn_auth_state s) = own \<and> own \<noteq> None \<or>
      r = Inl err \<and> error_type err \<noteq> Conflict"
  shows "plg.owned s' e'"
proof (cases "r = Inl err \<and> error_type err \<noteq> Conflict")
  case True
  with assms(1,2) show ?thesis by (auto simp: settle_reorder_def)
next
  case False
  then obtain i where i: "auth_identity_from_state (sn_auth_state s) = Some i" "own = Some i"
    using assms(3) by auto
  show ?thesis
    using assms(1,2) i(2)
    by (auto simp: settle_reorder_def Let_def split: sum.splits if_splits
        intro!: playlist_owned_claim [OF assms(1) i(1)])
qed

lemma reorder_playlist_tracks_owned:
  assumes "plg.owned s e" "reorder_playlist_tracks pid ordered er s e = Some (s', e')"
  shows "plg.owned s' e'"
proof (cases "sn_playlist_tracks_id s = Some pid \<and> sn_playlist_tracks_next s \<noteq> None")
  case True
  with assms show ?thesis by (auto simp: reorder_playlist_tracks_def)
next
  case False
  show ?thesis
  proof (cases "playlist_context s (en_playlist_port e)")
    case (Inl err)
    then have "error_type err \<noteq> Conflict"
      by (auto simp: playlist_context_def playlist_login_required_def playlist_error_def split: option.splits)
    moreover have "settle_reorder pid ordered (Inl err) None None s e = (s', e')"
      using assms(2) Inl unfolding reorder_playlist_tracks_def if_not_P [OF False] by simp
    ultimately show ?thesis using settle_reorder_owned [OF assms(1)] by blast
  next
    case (Inr c)
    obtain i port where c: "c = (i, port)" by (cases c)
    have i: "auth_identity_from_state (sn_auth_state s) = Some i"
      using playlist_contextD Inr c by blast
    obtain r pr w where l: "reconciler_reorder port i pid ordered er (en_world e) = Some (r, pr, w)"
      using assms(2) Inr c
      unfolding reorder_playlist_tracks_def if_not_P [OF False]
      by (cases "reconciler_reorder port i pid ordered er (en_world e)") auto
    obtain res s2 e2 where g: "playlist_result_for_current_identity s i r (e\<lparr>en_world := w\<rparr>) = (res, s2, e2)"
      by (cases "playlist_result_for_current_identity s i r (e\<lparr>en_world := w\<rparr>)")
    have same: "same_playlist_owner e (e\<lparr>en_world := w\<rparr>)" by (simp add: same_playlist_owner_def)
    note a = playlist_answer [OF assms(1) i same g]
    have st: "settle_reorder pid ordered res pr (Some i) s2 e2 = (s', e')"
      using assms(2) Inr c l g unfolding reorder_playlist_tracks_def if_not_P [OF False] by simp
    have "auth_identity_from_state (sn_auth_state s2) = Some i \<and> Some i \<noteq> None \<or>
        res = Inl playlist_login_required \<and> error_type playlist_login_required \<noteq> Conflict"
      using a(4) by (auto simp: playlist_login_required_def)
    from settle_reorder_owned [OF a(1) st this] show ?thesis .
  qed
qed

lemma dispatch_playlist_owned:
  assumes "plg.owned s e" "dispatch_playlist_command c s e = Some (s', e')"
  shows "plg.owned s' e'"
proof (cases c)
  case LoadNextPlaylistsPage
  obtain r s2 e2 where l: "load_next_playlists s e = (r, s2, e2)" by (cases "load_next_playlists s e")
  note o = load_next_playlists_owned [OF assms(1) l]
  show ?thesis
    using assms(2) LoadNextPlaylistsPage l o
    by (cases r) (auto simp: dispatch_playlist_command_def intro: playlist_owned_fill)
next
  case LoadNextPlaylistTracksPage
  obtain r s2 e2 where l: "load_next_playlist_page s (sn_playlist_tracks_id s) e = (r, s2, e2)"
    by (cases "load_next_playlist_page s (sn_playlist_tracks_id s) e")
  note o = load_next_playlist_page_owned [OF assms(1) l]
  show ?thesis
    using assms(2) LoadNextPlaylistTracksPage l o
    by (cases r) (auto simp: dispatch_playlist_command_def intro: playlist_owned_fill)
qed (use assms(2) in \<open>auto simp: dispatch_playlist_command_def
      intro: list_playlists_owned [OF assms(1)] list_playlist_tracks_owned [OF assms(1)]
        mutate_playlist_owned [OF assms(1)] reorder_playlist_tracks_owned [OF assms(1)]\<close>)

subsection \<open>Paging and ordering\<close>

lemma list_all_error:
  "plp_list_tracks port i pid \<lparr>page_size = 100, page_token = tok\<rparr> w = (Inl err, w') \<Longrightarrow>
     list_all_membership_ids port i pid tok acc w = Some (Inl err, w')"
  by (subst list_all_membership_ids.simps) simp

lemma list_all_last:
  "plp_list_tracks port i pid \<lparr>page_size = 100, page_token = tok\<rparr> w = (Inr page, w') \<Longrightarrow>
     pr_next_page_token page = None \<Longrightarrow>
     list_all_membership_ids port i pid tok acc w = Some (Inr (acc @ map pt_membership_id (pr_items page)), w')"
  by (subst list_all_membership_ids.simps) simp

lemma list_all_more:
  "plp_list_tracks port i pid \<lparr>page_size = 100, page_token = tok\<rparr> w = (Inr page, w') \<Longrightarrow>
     pr_next_page_token page = Some tok' \<Longrightarrow>
     list_all_membership_ids port i pid tok acc w =
       list_all_membership_ids port i pid (Some tok') (acc @ map pt_membership_id (pr_items page)) w'"
  by (subst list_all_membership_ids.simps) simp

text \<open>A server that answers the chain of requests starting at \<open>tok\<close> with the given pages.\<close>

fun serves_pages ::
  "'w playlist_port \<Rightarrow> auth_identity \<Rightarrow> string \<Rightarrow> page_token option \<Rightarrow> 'w \<Rightarrow> playlist_track list list \<Rightarrow> 'w \<Rightarrow> bool" where
  "serves_pages port i pid tok w [] w' = False"
| "serves_pages port i pid tok w (items # pages) w' =
     (case plp_list_tracks port i pid \<lparr>page_size = 100, page_token = tok\<rparr> w of
        (Inl err, w1) \<Rightarrow> False
      | (Inr page, w1) \<Rightarrow>
          pr_items page = items \<and>
          (case pr_next_page_token page of
             None \<Rightarrow> pages = [] \<and> w1 = w'
           | Some tok' \<Rightarrow> serves_pages port i pid (Some tok') w1 pages w'))"

lemma list_all_pages:
  "serves_pages port i pid tok w pages w' \<Longrightarrow>
     list_all_membership_ids port i pid tok acc w =
       Some (Inr (acc @ map pt_membership_id (concat pages)), w')"
proof (induction pages arbitrary: tok w acc)
  case (Cons items pages)
  obtain r w1 where c: "plp_list_tracks port i pid \<lparr>page_size = 100, page_token = tok\<rparr> w = (r, w1)"
    by (cases "plp_list_tracks port i pid \<lparr>page_size = 100, page_token = tok\<rparr> w")
  with Cons.prems obtain page where r: "r = Inr page" by (cases r) auto
  show ?case
  proof (cases "pr_next_page_token page")
    case None
    with Cons.prems c r show ?thesis by (simp add: list_all_last [OF c [unfolded r] None])
  next
    case (Some tok')
    with Cons.prems c r have "pr_items page = items" "serves_pages port i pid (Some tok') w1 pages w'"
      by auto
    with Cons.IH [OF this(2)] show ?thesis by (simp add: list_all_more [OF c [unfolded r] Some])
  qed
qed simp

lemma list_all_endless:
  assumes "\<And>tok w. \<exists>page w'. plp_list_tracks port i pid \<lparr>page_size = 100, page_token = tok\<rparr> w = (Inr page, w') \<and>
      pr_next_page_token page \<noteq> None"
  shows "list_all_membership_ids port i pid tok acc w = None"
proof (rule ccontr)
  assume "list_all_membership_ids port i pid tok acc w \<noteq> None"
  then obtain y where y: "list_all_membership_ids port i pid tok acc w = Some y" by auto
  have endless: "plp_list_tracks port i pid \<lparr>page_size = 100, page_token = t\<rparr> v \<noteq> (Inl err, v')"
    "plp_list_tracks port i pid \<lparr>page_size = 100, page_token = t\<rparr> v = (Inr page, v') \<Longrightarrow>
       pr_next_page_token page \<noteq> None" for t v err page v'
    using assms [of t v] by auto
  have "port = port \<longrightarrow> i = i \<longrightarrow> pid = pid \<longrightarrow> False"
  proof (rule list_all_membership_ids.raw_induct
      [where P = "\<lambda>p j q _ _ _ _. p = port \<longrightarrow> j = i \<longrightarrow> q = pid \<longrightarrow> False", OF _ y])
    fix g p j q t a v z
    assume "\<And>p j q t a v z. g p j q t a v = Some z \<Longrightarrow> p = port \<longrightarrow> j = i \<longrightarrow> q = pid \<longrightarrow> False"
      and "(case plp_list_tracks p j q \<lparr>page_size = 100, page_token = t\<rparr> v of
          (Inl err, w) \<Rightarrow> Some (Err err, w)
        | (Inr page, w) \<Rightarrow>
            (case pr_next_page_token page of
               None \<Rightarrow> Some (Ok (a @ map pt_membership_id (pr_items page)), w)
             | Some next_token \<Rightarrow> g p j q (Some next_token) (a @ map pt_membership_id (pr_items page)) w)) = Some z"
    then show "p = port \<longrightarrow> j = i \<longrightarrow> q = pid \<longrightarrow> False"
      using endless(1) by (auto split: prod.splits sum.splits option.splits dest: endless(2))
  qed
  then show False by simp
qed

lemma position_Some_nth:
  "position p xs = Some n \<Longrightarrow> n < length xs \<and> p (xs ! n)"
  by (induction xs arbitrary: n) (auto split: if_splits)

lemma position_distinct: "distinct xs \<Longrightarrow> n < length xs \<Longrightarrow> position (\<lambda>y. y = xs ! n) xs = Some n"
proof (induction xs arbitrary: n)
  case (Cons x xs)
  show ?case
  proof (cases n)
    case (Suc k)
    with Cons.prems have "x \<noteq> xs ! k" by (metis Suc_less_SucD distinct.simps(2) length_Cons nth_mem)
    with Cons Suc show ?thesis by simp
  qed simp
qed simp

lemma map_position_distinct:
  assumes "distinct xs"
  shows "map (\<lambda>x. case position (\<lambda>y. y = x) xs of None \<Rightarrow> d | Some n \<Rightarrow> n) xs = [0..<length xs]"
  by (rule nth_equalityI) (simp_all add: position_distinct [OF assms])

lemma apply_membership_order_ids:
  "map pt_membership_id (apply_membership_order tracks ordered) =
     map pt_membership_id (sort_key (membership_rank ordered) tracks)"
  by (rule nth_equalityI) (simp_all add: apply_membership_order_def nth_enumerate_eq)

lemma apply_membership_order_length [simp]: "length (apply_membership_order tracks ordered) = length tracks"
  by (simp add: apply_membership_order_def)

lemma apply_membership_order_position:
  "n < length tracks \<Longrightarrow> pt_position (apply_membership_order tracks ordered ! n) = u32_position n"
  by (simp add: apply_membership_order_def nth_enumerate_eq)

lemma position_in: "x \<in> set xs \<Longrightarrow> \<exists>n. position (\<lambda>y. y = x) xs = Some n"
  by (induction xs) auto

lemma sort_by_membership_order:
  assumes "distinct ordered" "mset (map pt_membership_id tracks) = mset ordered"
  shows "map pt_membership_id (sort_key (membership_rank ordered) tracks) = ordered"
proof -
  let ?rank = "membership_rank ordered" and ?srt = "sort_key (membership_rank ordered) tracks"
  define pos where "pos = (\<lambda>x. case position (\<lambda>y. y = x) ordered of None \<Rightarrow> USIZE_MAX | Some n \<Rightarrow> n)"
  have rank: "?rank = pos \<circ> pt_membership_id"
    by (rule ext) (simp add: membership_rank_def pos_def)
  have "mset (map ?rank ?srt) = image_mset pos (mset (map pt_membership_id tracks))"
    by (simp add: rank image_mset.compositionality)
  also have "\<dots> = mset (map pos ordered)"
    unfolding assms(2) by simp
  also have "map pos ordered = [0..<length ordered]"
    unfolding pos_def by (rule map_position_distinct [OF assms(1)])
  finally have "mset (map ?rank ?srt) = mset [0..<length ordered]" .
  then have "sort [0..<length ordered] = map ?rank ?srt"
    by (rule properties_for_sort) simp
  then have ranks: "map ?rank ?srt = [0..<length ordered]"
    by (metis sorted_sort_id sorted_upt)
  from arg_cong [OF this, of length] have len: "length ?srt = length ordered" by simp
  show ?thesis
  proof (rule nth_equalityI)
    show "length (map pt_membership_id ?srt) = length ordered" using len by simp
    fix k assume k: "k < length (map pt_membership_id ?srt)"
    define t where "t = ?srt ! k"
    have "t \<in> set ?srt" unfolding t_def using k by (intro nth_mem) simp
    then have "pt_membership_id t \<in> set (map pt_membership_id tracks)" by simp
    then have "pt_membership_id t \<in> set ordered"
      unfolding mset_eq_setD [OF assms(2)] .
    from position_in [OF this] obtain n where
      n: "position (\<lambda>y. y = pt_membership_id t) ordered = Some n" ..
    have "map ?rank ?srt ! k = k" unfolding ranks using k len by simp
    then have "?rank t = k" using k by (simp add: t_def)
    then have "n = k" by (simp add: membership_rank_def n)
    with position_Some_nth [OF n] have "ordered ! k = pt_membership_id t" by simp
    then show "map pt_membership_id ?srt ! k = ordered ! k" using k by (simp add: t_def)
  qed
qed

subsection \<open>Properties\<close>

fun run_playlist ::
  "engine_command_type list \<Rightarrow> engine_snapshot \<times> 'w engine \<Rightarrow> (engine_snapshot \<times> 'w engine) option" where
  "run_playlist [] (s, e) = Some (s, e)"
| "run_playlist (c # cs) (s, e) =
     (case dispatch_playlist_command c s e of None \<Rightarrow> None | Some st \<Rightarrow> run_playlist cs st)"

text \<open>A server with one playlist of one or two pages, for concrete runs; its world counts the
  calls of \<open>reorder\<close>.\<close>

definition sample_playlist :: playlist where
  "sample_playlist = \<lparr>pl_id = ''p'', pl_name = ''P'', pl_description = None, pl_revision = 7,
     pl_created_at_epoch_millis = 0, pl_updated_at_epoch_millis = 0\<rparr>"

definition sample_member :: "string \<Rightarrow> playlist_track" where
  "sample_member i = \<lparr>pt_membership_id = i, pt_playlist_id = ''p'', pt_track = sample_track,
     pt_position = 0, pt_added_at_epoch_millis = 0\<rparr>"

definition sample_playlist_port :: "playlist result \<Rightarrow> bool \<Rightarrow> nat playlist_port" where
  "sample_playlist_port reordered endless =
     \<lparr>plp_create = (\<lambda>_ _ w. (Ok sample_playlist, w)), plp_get = (\<lambda>_ _ w. (Ok sample_playlist, w)),
      plp_update = (\<lambda>_ _ w. (Ok sample_playlist, w)), plp_delete = (\<lambda>_ _ w. (Ok (), w)),
      plp_list = (\<lambda>_ _ w. (Ok \<lparr>pr_items = [sample_playlist], pr_next_page_token = None\<rparr>, w)),
      plp_add_track = (\<lambda>_ _ t w. (Ok (sample_member t), w)), plp_remove_track = (\<lambda>_ _ _ w. (Ok (), w)),
      plp_reorder = (\<lambda>_ _ _ _ w. (reordered, Suc w)),
      plp_list_tracks = (\<lambda>_ _ page w.
        (Ok (if page_token page = None
             then \<lparr>pr_items = [sample_member ''b''], pr_next_page_token = Some (PageToken ''1'')\<rparr>
             else \<lparr>pr_items = [sample_member ''a''],
                   pr_next_page_token = if endless then Some (PageToken ''1'') else None\<rparr>), w))\<rparr>"

definition sample_playlist_engine :: "playlist result \<Rightarrow> bool \<Rightarrow> nat engine" where
  "sample_playlist_engine reordered endless =
     (engine_new null_codec id 0 0)\<lparr>en_auth_state_provider := Some (\<lambda>_. logged_in),
        en_playlist_port := Some (sample_playlist_port reordered endless)\<rparr>"

definition sample_conflict :: engine_error where
  "sample_conflict = engine_error_new Conflict ''stale'' False"

lemma sample_playlist_engine_fields [simp]:
  "en_world (sample_playlist_engine r b) = 0"
  "en_playlist_port (sample_playlist_engine r b) = Some (sample_playlist_port r b)"
  "en_playlist_identity (sample_playlist_engine r b) = None"
  "en_playlists_operation (sample_playlist_engine r b) = None"
  "en_playlist_tracks_operation (sample_playlist_engine r b) = None"
  "current_identity ((sample_playlist_engine r b)\<lparr>en_world := w\<rparr>) = Some sample_identity"
  by (simp_all add: sample_playlist_engine_def engine_new_def engine_fields_new_def Let_def
      current_identity_def current_auth_def)

lemma sample_playlist_snapshot [simp]:
  "playlist_empty sample_snapshot" "sn_playlist_tracks_id sample_snapshot = None"
  by (simp_all add: sample_snapshot_def snapshot_default_def playlist_empty_def)

lemma sample_order_valid: "validate_reorder ''p'' [''a'', ''b''] = Ok ()"
  by (simp add: validate_reorder_def blank_leading_visible)

text \<open>No sequence of playlist commands, whatever the server answers and however the login
  changes while it is awaited, leaves playlists, memberships, continuation tokens or a reorder
  proposal in the snapshot that the identity it shows does not own; page operations are owned by
  that identity too.\<close>

lemma playlist_commands_keep_ownership:
  assumes "playlist_ok s e" and "run_playlist commands (s, e) = Some (s', e')"
  shows "playlist_ok s' e'"
  using assms
proof (induction commands arbitrary: s e)
  case Nil
  then show ?case by simp
next
  case (Cons c commands)
  then obtain s2 e2 where d: "dispatch_playlist_command c s e = Some (s2, e2)"
    by (cases "dispatch_playlist_command c s e") auto
  show ?case
    using Cons.IH [of s2 e2] Cons.prems dispatch_playlist_owned [OF _ d] by (simp add: d playlist_ok_owned)
qed

lemma playlist_commands_keep_ownership_witness:
  "\<exists>s' e'. run_playlist [ListPlaylists page_request_default, AddPlaylistTrack ''p'' ''a'']
     (sample_snapshot, sample_playlist_engine (Ok sample_playlist) False) = Some (s', e') \<and> playlist_ok s' e'"
proof -
  let ?e = "sample_playlist_engine (Ok sample_playlist) False"
  let ?cs = "[ListPlaylists page_request_default, AddPlaylistTrack ''p'' ''a'']"
  obtain s1 e1 where "list_playlists page_request_default sample_snapshot ?e = (s1, e1)"
    by (cases "list_playlists page_request_default sample_snapshot ?e")
  then have "run_playlist ?cs (sample_snapshot, ?e) =
      Some (mutate_playlist s1 (\<lambda>port i. mutating MutatedTrack (plp_add_track port i ''p'' ''a'')) e1)"
    by (cases "mutate_playlist s1 (\<lambda>port i. mutating MutatedTrack (plp_add_track port i ''p'' ''a'')) e1")
       (simp add: dispatch_playlist_command_def)
  then obtain s' e' where r: "run_playlist ?cs (sample_snapshot, ?e) = Some (s', e')"
    by (metis surj_pair)
  have "playlist_ok sample_snapshot ?e" by (simp add: playlist_ok_def)
  with playlist_commands_keep_ownership [OF this] r show ?thesis by blast
qed

text \<open>C37: a reorder the server refuses with a conflict is not retried. With the login unchanged,
  the command calls \<open>reorder\<close> once, fetches the playlist and every page of its memberships, and
  proposes the merge: the proposal holds the revision and the complete order of the server beside
  the order asked for, the conflict is reported, and lists and page operations stay as they were.\<close>

theorem reorder_conflict_proposes:
  assumes "\<not> (sn_playlist_tracks_id s = Some pid \<and> sn_playlist_tracks_next s \<noteq> None)"
    and "auth_identity_from_state (sn_auth_state s) = Some i" and "en_playlist_port e = Some port"
    and "validate_reorder pid ordered = Ok ()"
    and "plp_reorder port i pid ordered er (en_world e) = (Inl err, w1)" and "error_type err = Conflict"
    and "plp_get port i pid w1 = (Inr pl, w2)" and "serves_pages port i pid None w2 pages w3"
    and "current_identity (e\<lparr>en_world := w3\<rparr>) = Some i"
  shows "dispatch_playlist_command (ReorderPlaylistTracks pid ordered er) s e =
    Some (s\<lparr>sn_auth_state := current_auth (e\<lparr>en_world := w3\<rparr>),
            sn_playlist_reconciliation := Some \<lparr>prc_playlist_id = pid, prc_expected_revision = er,
              prc_server_revision = pl_revision pl,
              prc_server_membership_ids = map pt_membership_id (concat pages),
              prc_proposed_membership_ids = ordered\<rparr>,
            sn_last_error := Some err\<rparr>,
          e\<lparr>en_world := w3, en_playlist_identity := Some i\<rparr>)"
proof -
  have "playlist_context s (en_playlist_port e) = Inr (i, port)"
    using assms(2,3) by (simp add: playlist_context_def)
  then show ?thesis
    unfolding dispatch_playlist_command_def engine_command_type.case reorder_playlist_tracks_def
      if_not_P [OF assms(1)]
    by (simp add: reconciler_reorder_def assms(4-7) list_all_pages [OF assms(8)]
        plg.guard_current [OF assms(9)] settle_reorder_def)
qed

theorem reorder_conflict_proposes_witness:
  "map_option (\<lambda>(s', e'). (map_option prc_server_membership_ids (sn_playlist_reconciliation s'), en_world e'))
     (dispatch_playlist_command (ReorderPlaylistTracks ''p'' [''a'', ''b''] 3) sample_snapshot
       (sample_playlist_engine (Err sample_conflict) False)) = Some (Some [''b'', ''a''], 1)"
proof -
  let ?e = "sample_playlist_engine (Err sample_conflict) False"
  let ?p = "sample_playlist_port (Err sample_conflict) False"
  have pages: "serves_pages ?p sample_identity ''p'' None 1 [[sample_member ''b''], [sample_member ''a'']] 1"
    by (simp add: sample_playlist_port_def)
  have "plp_reorder ?p sample_identity ''p'' [''a'', ''b''] 3 (en_world ?e) = (Inl sample_conflict, 1)"
    "plp_get ?p sample_identity ''p'' 1 = (Inr sample_playlist, 1)"
    "error_type sample_conflict = Conflict"
    by (simp_all add: sample_playlist_port_def sample_conflict_def)
  note d = reorder_conflict_proposes [OF _ _ _ sample_order_valid this(1,3,2) pages]
  show ?thesis
    by (subst d) (simp_all add: sample_member_def)
qed

text \<open>The memberships in a given order, numbered from 0: each is the track of that membership with
  another position.\<close>

definition tracks_in_order :: "playlist_track list \<Rightarrow> string list \<Rightarrow> playlist_track list" where
  "tracks_in_order tracks ordered =
     map (\<lambda>(n, m). (the (find (\<lambda>t. pt_membership_id t = m) tracks))\<lparr>pt_position := u32_position n\<rparr>)
       (enumerate 0 ordered)"

lemma find_membership:
  "distinct (map pt_membership_id tracks) \<Longrightarrow> t \<in> set tracks \<Longrightarrow>
   find (\<lambda>u. pt_membership_id u = pt_membership_id t) tracks = Some t"
  by (induction tracks) (auto simp: image_iff)

lemma apply_membership_order_tracks:
  assumes "distinct ordered" "mset (map pt_membership_id tracks) = mset ordered"
  shows "apply_membership_order tracks ordered = tracks_in_order tracks ordered"
proof (rule nth_equalityI)
  let ?srt = "sort_key (membership_rank ordered) tracks"
  have ids: "map pt_membership_id ?srt = ordered" by (rule sort_by_membership_order [OF assms])
  from arg_cong [OF ids, of length] have len: "length tracks = length ordered" by simp
  then show "length (apply_membership_order tracks ordered) = length (tracks_in_order tracks ordered)"
    by (simp add: tracks_in_order_def)
  fix n assume "n < length (apply_membership_order tracks ordered)"
  then have n: "n < length ordered" "n < length ?srt" using len by simp_all
  have "distinct (map pt_membership_id tracks)"
    using assms by (metis mset_eq_imp_distinct_iff)
  moreover have "?srt ! n \<in> set tracks" using nth_mem [OF n(2)] by simp
  moreover have "pt_membership_id (?srt ! n) = ordered ! n" using ids n(2) by (metis nth_map)
  ultimately have "find (\<lambda>t. pt_membership_id t = ordered ! n) tracks = Some (?srt ! n)"
    using find_membership by metis
  then show "apply_membership_order tracks ordered ! n = tracks_in_order tracks ordered ! n"
    using n len by (simp add: apply_membership_order_def tracks_in_order_def nth_enumerate_eq)
qed

text \<open>C38: an accepted reorder shows exactly the order that was sent. When the memberships of the
  playlist are completely loaded and the order is a permutation of them, they are afterwards in
  that order and numbered 0, 1, ..., each with the track, the playlist and the date it had. The playlist with its new
  revision leads the list in place of its old version, a pending proposal is settled, the auth state is
  the live one, and every other field of the snapshot and of the engine, but for the outside world and the
  owner of the playlists, is as before.\<close>

theorem reorder_accepted_order:
  assumes "sn_playlist_tracks_id s = Some pid" and "sn_playlist_tracks_next s = None"
    and "mset (map pt_membership_id (sn_playlist_tracks s)) = mset ordered"
    and "auth_identity_from_state (sn_auth_state s) = Some i" and "en_playlist_port e = Some port"
    and "validate_reorder pid ordered = Ok ()"
    and "plp_reorder port i pid ordered er (en_world e) = (Inr pl, w)"
    and "current_identity (e\<lparr>en_world := w\<rparr>) = Some i"
  shows "\<exists>tracks. dispatch_playlist_command (ReorderPlaylistTracks pid ordered er) s e =
      Some (s\<lparr>sn_auth_state := current_auth (e\<lparr>en_world := w\<rparr>), sn_playlist_reconciliation := None,
              sn_playlists := pl # filter (\<lambda>p. pl_id p \<noteq> pl_id pl) (sn_playlists s),
              sn_playlist_tracks := tracks\<rparr>,
            e\<lparr>en_world := w, en_playlist_identity := Some i\<rparr>) \<and>
    tracks = tracks_in_order (sn_playlist_tracks s) ordered \<and>
    map pt_membership_id tracks = ordered \<and>
    map pt_position tracks = map u32_position [0..<length ordered] \<and>
    mset (map pt_track tracks) = mset (map pt_track (sn_playlist_tracks s))"
proof -
  let ?ts = "apply_membership_order (sn_playlist_tracks s) ordered"
  have dist: "distinct ordered"
    using assms(6) by (auto simp: validate_reorder_def split: if_splits)
  have ctx: "playlist_context s (en_playlist_port e) = Inr (i, port)"
    using assms(4,5) by (simp add: playlist_context_def)
  have len: "length (sn_playlist_tracks s) = length ordered"
    using arg_cong [OF assms(3), of size] by simp
  have "map pt_membership_id ?ts = ordered"
    unfolding apply_membership_order_ids by (rule sort_by_membership_order [OF dist assms(3)])
  moreover have "map pt_position ?ts = map u32_position [0..<length ordered]"
    by (rule nth_equalityI) (simp_all add: apply_membership_order_position len)
  moreover have "map pt_track ?ts = map pt_track (sort_key (membership_rank ordered) (sn_playlist_tracks s))"
    by (rule nth_equalityI) (simp_all add: apply_membership_order_def nth_enumerate_eq)
  then have "mset (map pt_track ?ts) = mset (map pt_track (sn_playlist_tracks s))"
    by simp
  moreover have "dispatch_playlist_command (ReorderPlaylistTracks pid ordered er) s e =
    Some (s\<lparr>sn_auth_state := current_auth (e\<lparr>en_world := w\<rparr>), sn_playlist_reconciliation := None,
            sn_playlists := upsert_playlist (sn_playlists s) pl, sn_playlist_tracks := ?ts\<rparr>,
          e\<lparr>en_world := w, en_playlist_identity := Some i\<rparr>)"
    by (simp add: dispatch_playlist_command_def reorder_playlist_tracks_def assms(1,2) ctx
        reconciler_reorder_def assms(6,7) plg.guard_current [OF assms(8)] settle_reorder_def Let_def)
  moreover have "?ts = tracks_in_order (sn_playlist_tracks s) ordered"
    by (rule apply_membership_order_tracks [OF dist assms(3)])
  ultimately show ?thesis
    unfolding upsert_playlist_def by metis
qed

theorem reorder_accepted_order_witness:
  "\<exists>s' e'. dispatch_playlist_command (ReorderPlaylistTracks ''p'' [''a'', ''b''] 3)
     (sample_snapshot\<lparr>sn_playlist_tracks_id := Some ''p'', sn_playlist_tracks_next := None,
        sn_playlist_tracks := [sample_member ''b'', sample_member ''a'']\<rparr>)
     (sample_playlist_engine (Ok sample_playlist) False) = Some (s', e') \<and>
   map pt_membership_id (sn_playlist_tracks s') = [''a'', ''b'']"
proof -
  let ?s = "sample_snapshot\<lparr>sn_playlist_tracks_id := Some ''p'', sn_playlist_tracks_next := None,
        sn_playlist_tracks := [sample_member ''b'', sample_member ''a'']\<rparr>"
  let ?e = "sample_playlist_engine (Ok sample_playlist) False"
  let ?p = "sample_playlist_port (Ok sample_playlist) False"
  have m: "mset (map pt_membership_id (sn_playlist_tracks ?s)) = mset [''a'', ''b'']"
    by (simp add: sample_member_def)
  have r: "plp_reorder ?p sample_identity ''p'' [''a'', ''b''] 3 (en_world ?e) = (Inr sample_playlist, 1)"
    by (simp add: sample_playlist_port_def)
  have "sn_playlist_tracks_id ?s = Some ''p''" "sn_playlist_tracks_next ?s = None"
    "auth_identity_from_state (sn_auth_state ?s) = Some sample_identity" "en_playlist_port ?e = Some ?p"
    by simp_all
  from reorder_accepted_order [OF this(1,2) m this(3,4) sample_order_valid r sample_playlist_engine_fields(6)]
  obtain s' e' where "dispatch_playlist_command (ReorderPlaylistTracks ''p'' [''a'', ''b''] 3) ?s ?e = Some (s', e')"
    "map pt_membership_id (sn_playlist_tracks s') = [''a'', ''b'']"
    by force
  then show ?thesis by (intro exI conjI)
qed

text \<open>The paging that follows a conflict returns exactly when the server ends it. If every page
  carries a continuation token the command never returns (the result is \<open>None\<close>); nothing in the
  reconciler bounds it.\<close>

lemma reorder_conflict_endless_paging:
  assumes "\<not> (sn_playlist_tracks_id s = Some pid \<and> sn_playlist_tracks_next s \<noteq> None)"
    and "auth_identity_from_state (sn_auth_state s) = Some i" and "en_playlist_port e = Some port"
    and "validate_reorder pid ordered = Ok ()"
    and "plp_reorder port i pid ordered er (en_world e) = (Inl err, w1)" and "error_type err = Conflict"
    and "plp_get port i pid w1 = (Inr pl, w2)"
    and "\<And>tok w. \<exists>page w'. plp_list_tracks port i pid \<lparr>page_size = 100, page_token = tok\<rparr> w = (Inr page, w') \<and>
      pr_next_page_token page \<noteq> None"
  shows "dispatch_playlist_command (ReorderPlaylistTracks pid ordered er) s e = None"
proof -
  have "playlist_context s (en_playlist_port e) = Inr (i, port)"
    using assms(2,3) by (simp add: playlist_context_def)
  then show ?thesis
    unfolding dispatch_playlist_command_def engine_command_type.case reorder_playlist_tracks_def
      if_not_P [OF assms(1)]
    by (simp add: reconciler_reorder_def assms(4-7) list_all_endless [OF assms(8)])
qed

lemma reorder_conflict_endless_paging_witness:
  "dispatch_playlist_command (ReorderPlaylistTracks ''p'' [''a'', ''b''] 3) sample_snapshot
     (sample_playlist_engine (Err sample_conflict) True) = None"
proof (rule reorder_conflict_endless_paging
    [where port = "sample_playlist_port (Err sample_conflict) True" and i = sample_identity])
  show "validate_reorder ''p'' [''a'', ''b''] = Ok ()" by (rule sample_order_valid)
qed (auto simp: sample_playlist_port_def sample_conflict_def)

end
