(* ===== verification/History.thy ===== *)
theory History
  imports Playlists
begin

text \<open>
  Playback history (\<open>engine/core/history.rs\<close>). While nobody is logged in, finished listens go to a
  bounded buffer; after a login they are promoted to the account, oldest first. A listen is
  recorded once it has played for five seconds, or when the platform reports its completion, at
  most once per playback instance. The identity guard of the component interprets
  \<open>identity_guard\<close>.
\<close>

definition DEFAULT_HISTORY_PAGE_SIZE :: u32 where
  "DEFAULT_HISTORY_PAGE_SIZE = 40"

definition MAX_HISTORY_PAGE_SIZE :: u32 where
  "MAX_HISTORY_PAGE_SIZE = 50"

definition HISTORY_AUTO_RECORD_THRESHOLD_MILLIS :: u64 where
  "HISTORY_AUTO_RECORD_THRESHOLD_MILLIS = 5000"

subsection \<open>Guard and pages\<close>

definition history_login_required :: engine_error where
  "history_login_required = engine_error_new LoginRequiredError
     ''history operation requires the current authenticated session'' False"

definition history_service_unconfigured :: engine_error where
  "history_service_unconfigured =
     engine_error_new FailedPrecondition ''history service is not configured'' False"

definition forget_history :: "'w engine \<Rightarrow> 'w engine" where
  "forget_history e = e\<lparr>en_history_owner := None, en_history_operation := None\<rparr>"

definition history_result_for_current_identity ::
  "engine_snapshot \<Rightarrow> auth_identity \<Rightarrow> 'a result \<Rightarrow> 'w engine \<Rightarrow>
     'a result \<times> engine_snapshot \<times> 'w engine" where
  "history_result_for_current_identity s expected r e =
     (let auth = current_auth e;
          s = s\<lparr>sn_auth_state := auth\<rparr>
      in if auth_identity_from_state auth = Some expected then (r, s, e)
         else (Err history_login_required, clear_history_projection s, forget_history e))"

definition is_authenticated :: "auth_state \<Rightarrow> bool" where
  "is_authenticated auth = (case auth of Authenticated _ _ \<Rightarrow> True | _ \<Rightarrow> False)"

definition history_owner_identity :: "engine_snapshot \<Rightarrow> auth_identity option result" where
  "history_owner_identity s =
     (case auth_identity_from_state (sn_auth_state s) of
        Some identity \<Rightarrow> Ok (Some identity)
      | None \<Rightarrow> (if is_authenticated (sn_auth_state s) then Err history_login_required else Ok None))"

definition history_context ::
  "engine_snapshot \<Rightarrow> 'w history_port option \<Rightarrow> (auth_identity \<times> 'w history_port) result" where
  "history_context s port =
     (case history_owner_identity s of
        Inl err \<Rightarrow> Err err
      | Inr None \<Rightarrow> Err history_login_required
      | Inr (Some identity) \<Rightarrow>
          (case port of None \<Rightarrow> Err history_service_unconfigured | Some port \<Rightarrow> Ok (identity, port)))"

definition invalidate_history_pages ::
  "engine_snapshot \<Rightarrow> 'w engine \<Rightarrow> engine_snapshot \<times> 'w engine" where
  "invalidate_history_pages s e =
     (let s = bump_history_generation s;
          s = s\<lparr>sn_history_state := (sn_history_state s)\<lparr>hst_refresh_state := RefreshIdle\<rparr>,
                sn_history_entries := [], sn_history_next := None\<rparr>
      in (s, e\<lparr>en_history_operation := None\<rparr>))"

definition set_history_available :: "engine_snapshot \<Rightarrow> engine_snapshot" where
  "set_history_available s =
     s\<lparr>sn_history_state := (sn_history_state s)\<lparr>hst_availability := HistoryAvailable\<rparr>\<rparr>"

definition bounded_history_page_size :: "u32 \<Rightarrow> u32" where
  "bounded_history_page_size sz =
     (if sz = 0 then DEFAULT_HISTORY_PAGE_SIZE else min sz MAX_HISTORY_PAGE_SIZE)"

definition bounded_history_page_request :: "page_request \<Rightarrow> page_request" where
  "bounded_history_page_request page = page\<lparr>page_size := bounded_history_page_size (page_size page)\<rparr>"

definition anonymous_prefix :: string where
  "anonymous_prefix = ''anonymous:''"

definition anonymous_history_offset :: "page_token \<Rightarrow> usize result" where
  "anonymous_history_offset token =
     (let bad = Err (engine_error_new InvalidInput ''invalid anonymous history page token'' False);
          value = token_str token
      in if take (length anonymous_prefix) value \<noteq> anonymous_prefix then bad
         else case parse_usize (drop (length anonymous_prefix) value) of
                None \<Rightarrow> bad | Some offset \<Rightarrow> Ok offset)"

definition anonymous_history_page ::
  "anonymous_history \<Rightarrow> page_request \<Rightarrow> history_entry paged_result result" where
  "anonymous_history_page buffer page =
     (let limit = unat (bounded_history_page_size (page_size page))
      in case (case page_token page of None \<Rightarrow> Ok 0 | Some token \<Rightarrow> anonymous_history_offset token) of
           Inl err \<Rightarrow> Err err
         | Inr offset \<Rightarrow>
             (let items = take limit (drop offset (ah_entries buffer));
                  next_offset = min (offset + length items) USIZE_MAX
              in if next_offset < length (ah_entries buffer)
                 then (case page_token_new (anonymous_prefix @ show_nat next_offset) of
                         Inl err \<Rightarrow> Err err
                       | Inr token \<Rightarrow> Ok \<lparr>pr_items = items, pr_next_page_token = Some token\<rparr>)
                 else Ok \<lparr>pr_items = items, pr_next_page_token = None\<rparr>))"

subsection \<open>Reconciliation of the anonymous buffer\<close>

definition clear_anonymous_history_for_authenticated_disabled ::
  "engine_snapshot \<Rightarrow> 'w engine \<Rightarrow> engine_snapshot \<times> 'w engine" where
  "clear_anonymous_history_for_authenticated_disabled s e =
     (let (deleted, buffer) = anonymous_history_clear (en_anonymous_history e);
          e = e\<lparr>en_anonymous_history := buffer\<rparr>
      in if 0 < deleted then invalidate_history_pages s e else (s, e))"

definition drop_promoted :: "string list \<Rightarrow> 'w engine \<Rightarrow> 'w engine" where
  "drop_promoted promoted e =
     e\<lparr>en_anonymous_history := (en_anonymous_history e)
         \<lparr>ah_entries := filter (\<lambda>entry. he_id entry \<notin> set promoted)
                          (ah_entries (en_anonymous_history e))\<rparr>\<rparr>"

definition apply_history_reconciliation ::
  "history_reconciliation \<Rightarrow> engine_snapshot \<Rightarrow> 'w engine \<Rightarrow> engine_snapshot \<times> 'w engine" where
  "apply_history_reconciliation rec s e =
     (let (s, e) =
            (if hr_clear_anonymous rec then clear_anonymous_history_for_authenticated_disabled s e
             else if hr_promoted_entry_ids rec \<noteq> []
             then invalidate_history_pages s (drop_promoted (hr_promoted_entry_ids rec) e)
             else (s, e))
      in (case hr_error rec of None \<Rightarrow> s | Some err \<Rightarrow> s\<lparr>sn_last_error := Some err\<rparr>, e))"

text \<open>The promotion loop: the ids of the entries the server took (or that hold no valid record).
  The first failed call ends it.\<close>

fun promote_pending ::
  "'w history_port \<Rightarrow> auth_identity \<Rightarrow> history_entry list \<Rightarrow> string list \<Rightarrow> engine_snapshot \<Rightarrow>
     'w engine \<Rightarrow> string list result \<times> engine_snapshot \<times> 'w engine" where
  "promote_pending port identity [] promoted s e = (Ok promoted, s, e)"
| "promote_pending port identity (entry # pending) promoted s e =
     (case to_playback_record entry of
        None \<Rightarrow> promote_pending port identity pending (promoted @ [he_id entry]) s e
      | Some record \<Rightarrow>
          (let (r, e) = await_call (hp_record port identity record) e;
               (r, s, e) = history_result_for_current_identity s identity r e
           in case r of
                Inl err \<Rightarrow> (Err err, s, e)
              | Inr taken \<Rightarrow>
                  promote_pending port identity pending
                    (if taken then promoted @ [he_id entry] else promoted) s e))"

definition promote_anonymous_history ::
  "'w history_port \<Rightarrow> auth_identity \<Rightarrow> engine_snapshot \<Rightarrow> 'w engine \<Rightarrow>
     unit result \<times> engine_snapshot \<times> 'w engine" where
  "promote_anonymous_history port identity s e =
     (let (r, s, e) = promote_pending port identity
            (rev (ah_entries (en_anonymous_history e))) [] s e
      in case r of
           Inl err \<Rightarrow> (Err err, s, e)
         | Inr promoted \<Rightarrow>
             (if promoted \<noteq> []
              then (let (s, e) = invalidate_history_pages s (drop_promoted promoted e) in (Ok (), s, e))
              else (Ok (), s, e)))"

definition reconcile_anonymous_history_impl ::
  "auth_identity \<Rightarrow> 'w history_port \<Rightarrow> engine_snapshot \<Rightarrow> 'w engine \<Rightarrow>
     unit result \<times> engine_snapshot \<times> 'w engine" where
  "reconcile_anonymous_history_impl identity port s e =
     (let (settings, s, e) =
            (case sn_history_settings s of
               Some settings \<Rightarrow> (Ok settings, s, e)
             | None \<Rightarrow>
                 (let (r, e) = await_call (hp_get_settings port identity) e;
                      (r, s, e) = history_result_for_current_identity s identity r e
                  in case r of
                       Inl err \<Rightarrow> (Err err, s, e)
                     | Inr settings \<Rightarrow> (Ok settings, s\<lparr>sn_history_settings := Some settings\<rparr>, e)))
      in case settings of
           Inl err \<Rightarrow> (Err err, s, e)
         | Inr settings \<Rightarrow>
             (if \<not> hs_enabled settings
              then (let (s, e) = clear_anonymous_history_for_authenticated_disabled s e in (Ok (), s, e))
              else promote_anonymous_history port identity s e))"

definition reconcile_anonymous_history ::
  "auth_identity \<Rightarrow> 'w history_port \<Rightarrow> engine_snapshot \<Rightarrow> 'w engine \<Rightarrow> engine_snapshot \<times> 'w engine" where
  "reconcile_anonymous_history identity port s e =
     (if en_reconciliation_in_flight e \<or> ah_entries (en_anonymous_history e) = [] then (s, e)
      else let (r, s, e) = reconcile_anonymous_history_impl identity port s
                             (e\<lparr>en_reconciliation_in_flight := True\<rparr>);
               e = e\<lparr>en_reconciliation_in_flight := False\<rparr>
           in (case r of Inl err \<Rightarrow> s\<lparr>sn_last_error := Some err\<rparr> | Inr _ \<Rightarrow> s, e))"

subsection \<open>Commands\<close>

definition claim_history :: "history_owner \<Rightarrow> 'w engine \<Rightarrow> 'w engine" where
  "claim_history own e = e\<lparr>en_history_owner := Some own\<rparr>"

definition load_history_settings :: "engine_snapshot \<Rightarrow> 'w engine \<Rightarrow> engine_snapshot \<times> 'w engine" where
  "load_history_settings s e =
     (case history_owner_identity s of
        Inl err \<Rightarrow> (s\<lparr>sn_last_error := Some err\<rparr>, e)
      | Inr None \<Rightarrow>
          (set_history_available
             (s\<lparr>sn_history_settings := Some \<lparr>hs_enabled = ah_enabled (en_anonymous_history e)\<rparr>\<rparr>),
           claim_history OwnerAnonymous e)
      | Inr (Some identity) \<Rightarrow>
          (case en_history_port e of
             None \<Rightarrow> (s\<lparr>sn_last_error := Some history_service_unconfigured\<rparr>, e)
           | Some port \<Rightarrow>
               (let (answer, e) = prefetched_or
                      (\<lambda>op. map_option (\<lambda>p. (phs_settings p, Some (phs_reconciliation p))) (as_history_settings op))
                      (\<lambda>w. let (r, w) = hp_get_settings port identity w in ((r, None), w)) e;
                    (r, reconciliation) = answer;
                    (r, s, e) = history_result_for_current_identity s identity r e
                in case r of
                     Inl err \<Rightarrow> (s\<lparr>sn_last_error := Some err\<rparr>, e)
                   | Inr settings \<Rightarrow>
                       (let e = claim_history (OwnerAuthenticated identity) e;
                            s = set_history_available (s\<lparr>sn_history_settings := Some settings\<rparr>)
                        in if hs_enabled settings
                           then (case reconciliation of
                                   Some rec \<Rightarrow> apply_history_reconciliation rec s e
                                 | None \<Rightarrow> reconcile_anonymous_history identity port s e)
                           else clear_anonymous_history_for_authenticated_disabled s e))))"

definition update_history_settings ::
  "bool \<Rightarrow> engine_snapshot \<Rightarrow> 'w engine \<Rightarrow> engine_snapshot \<times> 'w engine" where
  "update_history_settings enabled s e =
     (case auth_identity_from_state (sn_auth_state s) of
        None \<Rightarrow>
          (let buffer = (en_anonymous_history e)\<lparr>ah_enabled := enabled\<rparr>;
               (deleted, buffer) = (if enabled then (0, buffer) else anonymous_history_clear buffer);
               s = set_history_available (s\<lparr>sn_history_deleted_count := deleted,
                     sn_history_settings := Some \<lparr>hs_enabled = enabled\<rparr>\<rparr>)
           in invalidate_history_pages s
                (claim_history OwnerAnonymous (e\<lparr>en_anonymous_history := buffer\<rparr>)))
      | Some identity \<Rightarrow>
          (case en_history_port e of
             None \<Rightarrow> (s\<lparr>sn_last_error := Some history_service_unconfigured\<rparr>, e)
           | Some port \<Rightarrow>
               (let (r, e) = prefetched_or as_history_settings_update
                      (hp_update_settings port identity enabled) e;
                    (r, s, e) = history_result_for_current_identity s identity r e
                in case r of
                     Inl err \<Rightarrow> (s\<lparr>sn_last_error := Some err\<rparr>, e)
                   | Inr update \<Rightarrow>
                       (let e = claim_history (OwnerAuthenticated identity) e;
                            s = set_history_available (s\<lparr>sn_history_settings := Some (hsu_settings update),
                                  sn_history_deleted_count := hsu_deleted_count update\<rparr>);
                            (s, e) = (if \<not> hs_enabled (hsu_settings update)
                                      then clear_anonymous_history_for_authenticated_disabled s e
                                      else (s, e))
                        in invalidate_history_pages s e))))"

text \<open>The page results of all listings.\<close>

definition show_history_page :: "history_entry paged_result \<Rightarrow> engine_snapshot \<Rightarrow> engine_snapshot" where
  "show_history_page page s =
     s\<lparr>sn_history_entries := pr_items page, sn_history_next := pr_next_page_token page,
       sn_history_state := (sn_history_state s)\<lparr>hst_availability := HistoryAvailable,
                                                 hst_refresh_state := RefreshIdle\<rparr>\<rparr>"

definition list_anonymous_history ::
  "page_request \<Rightarrow> engine_snapshot \<Rightarrow> 'w engine \<Rightarrow> engine_snapshot \<times> 'w engine" where
  "list_anonymous_history page s e =
     (case anonymous_history_page (en_anonymous_history e) page of
        Inl err \<Rightarrow> (s\<lparr>sn_last_error := Some err\<rparr>, e)
      | Inr result \<Rightarrow>
          (let s = show_history_page result s;
               e = (claim_history OwnerAnonymous e)\<lparr>en_history_operation :=
                     Some \<lparr>hop_owner = OwnerAnonymous, hop_page_size = page_size page\<rparr>\<rparr>
           in (case sn_history_settings s of
                 None \<Rightarrow> s\<lparr>sn_history_settings := Some \<lparr>hs_enabled = ah_enabled (en_anonymous_history e)\<rparr>\<rparr>
               | Some _ \<Rightarrow> s, e)))"

text \<open>The page an account's listing shows: a prefetched one, or the answer of the port after the
  anonymous buffer was promoted.\<close>

definition request_history_page ::
  "auth_identity \<Rightarrow> 'w history_port \<Rightarrow> page_request \<Rightarrow> engine_snapshot \<Rightarrow> 'w engine \<Rightarrow>
     history_entry paged_result result \<times> engine_snapshot \<times> 'w engine" where
  "request_history_page identity port page s e =
     (case take_prefetched as_history_page e of
        (Some prefetched, e) \<Rightarrow>
          (let (s, e) = apply_history_reconciliation (php_reconciliation prefetched) s e
           in history_result_for_current_identity s identity (php_page prefetched) e)
      | (None, e) \<Rightarrow>
          (let (s, e) = reconcile_anonymous_history identity port s e;
               (r, e) = await_call (hp_list port identity page) e
           in history_result_for_current_identity s identity r e))"

definition list_history :: "page_request \<Rightarrow> engine_snapshot \<Rightarrow> 'w engine \<Rightarrow> engine_snapshot \<times> 'w engine" where
  "list_history page s e =
     (let e = e\<lparr>en_history_operation := None\<rparr>;
          s = s\<lparr>sn_history_entries := [], sn_history_next := None\<rparr>;
          page = bounded_history_page_request page
      in case auth_identity_from_state (sn_auth_state s) of
           None \<Rightarrow> list_anonymous_history page s e
         | Some identity \<Rightarrow>
             (case en_history_port e of
                None \<Rightarrow> (s\<lparr>sn_last_error := Some history_service_unconfigured\<rparr>, e)
              | Some port \<Rightarrow>
                  (let (r, s, e) = request_history_page identity port page s e
                   in case r of
                        Inr result \<Rightarrow>
                          (show_history_page result s,
                           (claim_history (OwnerAuthenticated identity) e)\<lparr>en_history_operation :=
                              Some \<lparr>hop_owner = OwnerAuthenticated identity, hop_page_size = page_size page\<rparr>\<rparr>)
                      | Inl err \<Rightarrow>
                          (if error_type err = NotFound then s else s\<lparr>sn_last_error := Some err\<rparr>, e))))"

definition no_history_operation :: engine_error where
  "no_history_operation =
     engine_error_new FailedPrecondition ''no current history page operation'' False"

definition next_history_page ::
  "engine_snapshot \<Rightarrow> 'w engine \<Rightarrow> history_entry paged_result result \<times> engine_snapshot \<times> 'w engine" where
  "next_history_page s e =
     (case (history_owner_current (sn_auth_state s), en_history_operation e, sn_history_next s,
            en_history_port e) of
        (OwnerAuthenticated identity, Some operation, Some token, Some port) \<Rightarrow>
          (if hop_owner operation \<noteq> OwnerAuthenticated identity then (Err no_history_operation, s, e)
           else let (r, s, e) =
                      (case take_prefetched as_history_page e of
                         (Some prefetched, e) \<Rightarrow>
                           (let (s, e) = apply_history_reconciliation (php_reconciliation prefetched) s e
                            in (php_page prefetched, s, e))
                       | (None, e) \<Rightarrow>
                           (let (r, e) = await_call (hp_list port identity
                                  \<lparr>page_size = bounded_history_page_size (hop_page_size operation),
                                   page_token = Some token\<rparr>) e
                            in (r, s, e)))
                in history_result_for_current_identity s identity r e)
      | (OwnerAnonymous, Some operation, Some token, _) \<Rightarrow>
          (if hop_owner operation \<noteq> OwnerAnonymous then (Err no_history_operation, s, e)
           else (anonymous_history_page (en_anonymous_history e)
                   \<lparr>page_size = bounded_history_page_size (hop_page_size operation),
                    page_token = Some token\<rparr>, s, e))
      | _ \<Rightarrow> (Err no_history_operation, s, e))"

definition load_next_history_page :: "engine_snapshot \<Rightarrow> 'w engine \<Rightarrow> engine_snapshot \<times> 'w engine" where
  "load_next_history_page s e =
     (let (r, s, e) = next_history_page s e
      in case r of
           Inr page \<Rightarrow> (show_history_page page s, e)
         | Inl err \<Rightarrow> (s\<lparr>sn_last_error := Some err\<rparr>, e))"

definition delete_anonymous_history_entry ::
  "string \<Rightarrow> engine_snapshot \<Rightarrow> 'w engine \<Rightarrow> engine_snapshot \<times> 'w engine" where
  "delete_anonymous_history_entry history_id s e =
     (let entries = ah_entries (en_anonymous_history e);
          kept = filter (\<lambda>entry. he_id entry \<noteq> history_id) entries;
          e = e\<lparr>en_anonymous_history := (en_anonymous_history e)\<lparr>ah_entries := kept\<rparr>\<rparr>;
          s = s\<lparr>sn_history_entries := filter (\<lambda>entry. he_id entry \<noteq> history_id) (sn_history_entries s)\<rparr>
      in if length kept \<noteq> length entries then invalidate_history_pages s e else (s, e))"

definition delete_history_entry ::
  "string \<Rightarrow> engine_snapshot \<Rightarrow> 'w engine \<Rightarrow> engine_snapshot \<times> 'w engine" where
  "delete_history_entry history_id s e =
     (if blank history_id
      then (s\<lparr>sn_last_error := Some (engine_error_new InvalidInput ''history id is required'' False)\<rparr>, e)
      else if auth_identity_from_state (sn_auth_state s) = None
      then delete_anonymous_history_entry history_id s e
      else let (r, s, e) =
                 (case history_context s (en_history_port e) of
                    Inl err \<Rightarrow> (Err err, s, e)
                  | Inr (identity, port) \<Rightarrow>
                      (let (r, e) = prefetched_or as_history_delete
                                      (hp_delete_entry port identity history_id) e
                       in history_result_for_current_identity s identity r e));
               removed = s\<lparr>sn_history_entries :=
                             filter (\<lambda>entry. he_id entry \<noteq> history_id) (sn_history_entries s)\<rparr>
           in case r of
                Inr _ \<Rightarrow> invalidate_history_pages removed e
              | Inl err \<Rightarrow>
                  (if error_type err = NotFound then invalidate_history_pages removed e
                   else (s\<lparr>sn_last_error := Some err\<rparr>, e)))"

definition clear_history :: "engine_snapshot \<Rightarrow> 'w engine \<Rightarrow> engine_snapshot \<times> 'w engine" where
  "clear_history s e =
     (if auth_identity_from_state (sn_auth_state s) = None
      then (let (deleted, buffer) = anonymous_history_clear (en_anonymous_history e)
            in invalidate_history_pages (s\<lparr>sn_history_deleted_count := deleted\<rparr>)
                 (e\<lparr>en_anonymous_history := buffer\<rparr>))
      else let (r, s, e) =
                 (case history_context s (en_history_port e) of
                    Inl err \<Rightarrow> (Err err, s, e)
                  | Inr (identity, port) \<Rightarrow>
                      (let (r, e) = prefetched_or as_history_clear (hp_clear port identity) e
                       in history_result_for_current_identity s identity r e));
               emptied = s\<lparr>sn_history_entries := [], sn_history_next := None\<rparr>
           in case r of
                Inr deleted \<Rightarrow> invalidate_history_pages (emptied\<lparr>sn_history_deleted_count := deleted\<rparr>) e
              | Inl err \<Rightarrow>
                  (if error_type err = NotFound then invalidate_history_pages emptied e
                   else (s\<lparr>sn_last_error := Some err\<rparr>, e)))"

definition dispatch_history_command ::
  "engine_command_type \<Rightarrow> engine_snapshot \<Rightarrow> 'w engine \<Rightarrow> (engine_snapshot \<times> 'w engine) option" where
  "dispatch_history_command command s e =
     (case command of
        LoadHistorySettings \<Rightarrow> Some (load_history_settings s e)
      | UpdateHistorySettings enabled \<Rightarrow> Some (update_history_settings enabled s e)
      | ListHistory page \<Rightarrow> Some (list_history page s e)
      | LoadNextHistoryPage \<Rightarrow> Some (load_next_history_page s e)
      | DeleteHistoryEntry history_id \<Rightarrow> Some (delete_history_entry history_id s e)
      | ClearHistory \<Rightarrow> Some (clear_history s e)
      | _ \<Rightarrow> None)"

subsection \<open>Recording\<close>

definition visible :: "string option \<Rightarrow> string option" where
  "visible v = (case v of None \<Rightarrow> None | Some t \<Rightarrow> if blank t then None else Some t)"

definition history_track_from_snapshot :: "playback_record \<Rightarrow> engine_snapshot \<Rightarrow> engine_track" where
  "history_track_from_snapshot record s =
     (let artist = unwrap_or (visible (sn_artist s)) ''Unknown artist''
      in \<lparr>tr_id = rec_track_id record,
          tr_title = unwrap_or (visible (sn_title s)) (rec_track_id record),
          tr_artist = \<lparr>artist_id = artist, artist_name = artist\<rparr>,
          tr_album = map_option (\<lambda>title. \<lparr>album_id = title, album_title = title\<rparr>) (sn_album s),
          tr_duration_millis = unwrap_or (sn_duration_millis s) (rec_duration_millis record),
          tr_explicit = False,
          tr_artwork =
            (case (Option.bind (sn_artwork_id s) non_empty, Option.bind (sn_artwork_content_hash s) non_empty) of
               (Some i, Some hash) \<Rightarrow>
                 Some \<lparr>aw_id = i, aw_content_hash = hash, aw_uri = sn_thumbnail_url s\<rparr>
             | _ \<Rightarrow> None),
          tr_genres = []\<rparr>)"

definition new_history_entry ::
  "string \<Rightarrow> u64 \<Rightarrow> playback_record \<Rightarrow> engine_snapshot \<Rightarrow> history_entry" where
  "new_history_entry kind sequence record s =
     \<lparr>he_id = kind @ show_u64 (sn_updated_at s) @ ''-'' @ show_u64 sequence,
      he_played_at_epoch_millis = Some (sn_updated_at s),
      he_duration_millis = rec_duration_millis record,
      he_completion_ratio = rec_completion_ratio record,
      he_track = Some (history_track_from_snapshot record s)\<rparr>"

definition publish_history_entry ::
  "history_entry \<Rightarrow> engine_snapshot \<Rightarrow> 'w engine \<Rightarrow> engine_snapshot \<times> 'w engine" where
  "publish_history_entry entry s e =
     (let s = bump_history_generation s;
          s = s\<lparr>sn_history_state := (sn_history_state s)\<lparr>hst_refresh_state := RefreshIdle\<rparr>,
                sn_history_entries := take (unat MAX_HISTORY_PAGE_SIZE)
                  (entry # filter (\<lambda>existing. he_id existing \<noteq> he_id entry) (sn_history_entries s))\<rparr>
      in (s, e\<lparr>en_history_listen := (en_history_listen e)
                 \<lparr>hl_recorded_instance_id := en_current_instance e\<rparr>\<rparr>))"

definition record_anonymous_history_event ::
  "playback_record \<Rightarrow> engine_snapshot \<Rightarrow> 'w engine \<Rightarrow> engine_snapshot \<times> 'w engine" where
  "record_anonymous_history_event record s e =
     (let buffer = en_anonymous_history e;
          entry = new_history_entry ''anonymous-history-'' (ah_next_sequence buffer) record s;
          buffer = buffer\<lparr>ah_next_sequence := sat_add (ah_next_sequence buffer) 1,
                          ah_entries := take (ah_max_entries buffer) (entry # ah_entries buffer)\<rparr>
      in publish_history_entry entry s (claim_history OwnerAnonymous (e\<lparr>en_anonymous_history := buffer\<rparr>)))"

definition publish_recorded_history_entry ::
  "playback_record \<Rightarrow> engine_snapshot \<Rightarrow> 'w engine \<Rightarrow> engine_snapshot \<times> 'w engine" where
  "publish_recorded_history_entry record s e =
     (let sequence = en_next_history_record_sequence e;
          e = e\<lparr>en_next_history_record_sequence := sat_add sequence 1\<rparr>;
          entry = new_history_entry ''engine-history-'' sequence record s;
          e = (case auth_identity_from_state (sn_auth_state s) of
                 None \<Rightarrow> e | Some identity \<Rightarrow> claim_history (OwnerAuthenticated identity) e)
      in publish_history_entry entry s e)"

definition record_anonymous_listen ::
  "playback_record \<Rightarrow> engine_snapshot \<Rightarrow> 'w engine \<Rightarrow> engine_snapshot \<times> 'w engine" where
  "record_anonymous_listen record s e =
     (let s = (if sn_history_settings s = None
               then set_history_available
                      (s\<lparr>sn_history_settings := Some \<lparr>hs_enabled = ah_enabled (en_anonymous_history e)\<rparr>\<rparr>)
               else s)
      in if \<not> ah_enabled (en_anonymous_history e) then (s, e)
         else record_anonymous_history_event record s e)"

text \<open>The settings of the account, fetched when the snapshot has none; \<open>True\<close> when recording goes
  on.\<close>

definition ensure_history_settings ::
  "engine_snapshot \<Rightarrow> 'w engine \<Rightarrow> bool \<times> engine_snapshot \<times> 'w engine" where
  "ensure_history_settings s e =
     (if sn_history_settings s \<noteq> None then (True, s, e)
      else case history_context s (en_history_port e) of
             Inl err \<Rightarrow> (False, s\<lparr>sn_last_error := Some err\<rparr>, e)
           | Inr (identity, port) \<Rightarrow>
               (let (r, e) = await_call (hp_get_settings port identity) e;
                    (r, s, e) = history_result_for_current_identity s identity r e
                in case r of
                     Inl err \<Rightarrow> (False, s\<lparr>sn_last_error := Some err\<rparr>, e)
                   | Inr settings \<Rightarrow>
                       (let e = claim_history (OwnerAuthenticated identity) e;
                            s = set_history_available (s\<lparr>sn_history_settings := Some settings\<rparr>);
                            (s, e) = (if hs_enabled settings
                                      then reconcile_anonymous_history identity port s e
                                      else clear_anonymous_history_for_authenticated_disabled s e)
                        in (True, s, e))))"

definition submit_history_record ::
  "playback_record \<Rightarrow> engine_snapshot \<Rightarrow> 'w engine \<Rightarrow> engine_snapshot \<times> 'w engine" where
  "submit_history_record record s e =
     (let (r, s, e) =
            (case history_context s (en_history_port e) of
               Inl err \<Rightarrow> (Err err, s, e)
             | Inr (identity, port) \<Rightarrow>
                 (let (s, e) = reconcile_anonymous_history identity port s e;
                      (r, e) = await_call (hp_record port identity record) e
                  in history_result_for_current_identity s identity r e))
      in case r of
           Inr taken \<Rightarrow> (if taken then publish_recorded_history_entry record s e else (s, e))
         | Inl err \<Rightarrow> (s\<lparr>sn_last_error := Some err\<rparr>, e))"

definition record_history_listen ::
  "playback_record \<Rightarrow> engine_snapshot \<Rightarrow> 'w engine \<Rightarrow> engine_snapshot \<times> 'w engine" where
  "record_history_listen record s e =
     (if auth_identity_from_state (sn_auth_state s) = None then record_anonymous_listen record s e
      else let (go_on, s, e) = ensure_history_settings s e
           in if \<not> go_on then (s, e)
              else if \<not> (case sn_history_settings s of None \<Rightarrow> False | Some h \<Rightarrow> hs_enabled h)
              then clear_anonymous_history_for_authenticated_disabled s e
              else submit_history_record record s e)"

subsection \<open>The listen tracker\<close>

definition sync_history_listen_tracker :: "u64 \<Rightarrow> playback_state \<Rightarrow> 'w engine \<Rightarrow> 'w engine" where
  "sync_history_listen_tracker now state e =
     (let h = (if hl_playback_instance_id (en_history_listen e) \<noteq> en_current_instance e
               then history_listen_default\<lparr>hl_playback_instance_id := en_current_instance e\<rparr>
               else en_history_listen e);
          h = (if state = Playing
               then (if hl_playing_since h = None then h\<lparr>hl_playing_since := Some now\<rparr> else h)
               else case hl_playing_since h of
                      None \<Rightarrow> h
                    | Some started \<Rightarrow>
                        h\<lparr>hl_playing_since := None,
                          hl_accumulated_playing_millis :=
                            sat_add (hl_accumulated_playing_millis h) (sat_sub now started)\<rparr>)
      in e\<lparr>en_history_listen := h\<rparr>)"

definition instance_recorded :: "'w engine \<Rightarrow> bool" where
  "instance_recorded e =
     (hl_recorded_instance_id (en_history_listen e) = en_current_instance e \<and> en_current_instance e \<noteq> None)"

definition invalid_completion :: "string \<Rightarrow> engine_error" where
  "invalid_completion msg = engine_error_new InvalidInput msg False"

definition qualified_history_record :: "codec \<Rightarrow> string option \<Rightarrow> playback_record result" where
  "qualified_history_record cdc payload =
     (case de_playback_completed cdc (unwrap_or payload []) of
        None \<Rightarrow> Err (invalid_completion ''invalid playback completion payload'')
      | Some p \<Rightarrow>
          (if pc_version p \<noteq> 1 then Err (invalid_completion ''unsupported playback completion payload'')
           else playback_record_new (pc_track_id p) (pc_duration_ms p) (pc_completion_ratio p)))"

definition record_playback_completion ::
  "string option \<Rightarrow> engine_snapshot \<Rightarrow> 'w engine \<Rightarrow> engine_snapshot \<times> 'w engine" where
  "record_playback_completion payload s e =
     (if instance_recorded e then (s, e)
      else let e = sync_history_listen_tracker (sn_updated_at s) (sn_playback_state s) e
           in case qualified_history_record (en_codec e) payload of
                Inl err \<Rightarrow> (s\<lparr>sn_last_error := Some err\<rparr>, e)
              | Inr record \<Rightarrow> record_history_listen record s e)"

text \<open>The record a listen of \<open>elapsed\<close> milliseconds amounts to.\<close>

definition listened_record :: "string \<Rightarrow> u64 \<Rightarrow> engine_snapshot \<Rightarrow> playback_record result" where
  "listened_record track_id elapsed s =
     (let listened = max elapsed (sn_position_millis s);
          duration = max (case sn_duration_millis s of
                            None \<Rightarrow> listened | Some d \<Rightarrow> if 0 < d then d else listened) listened;
          ratio = (if duration = 0 then Fin 0 else f32_div (f32_of_u64 listened) (f32_of_u64 duration))
      in playback_record_new track_id listened ratio)"

definition set_recorded_instance :: "u64 option \<Rightarrow> 'w engine \<Rightarrow> 'w engine" where
  "set_recorded_instance i e =
     e\<lparr>en_history_listen := (en_history_listen e)\<lparr>hl_recorded_instance_id := i\<rparr>\<rparr>"

text \<open>Recording marks the instance first and takes the mark back when an error is shown.\<close>

definition record_once ::
  "playback_record \<Rightarrow> engine_snapshot \<Rightarrow> 'w engine \<Rightarrow> engine_snapshot \<times> 'w engine" where
  "record_once record s e =
     (let (s, e) = record_history_listen record s (set_recorded_instance (en_current_instance e) e)
      in if sn_last_error s \<noteq> None \<and> hl_recorded_instance_id (en_history_listen e) = en_current_instance e
         then (s, set_recorded_instance None e) else (s, e))"

definition maybe_auto_record_history ::
  "u64 \<Rightarrow> engine_snapshot \<Rightarrow> 'w engine \<Rightarrow> engine_snapshot \<times> 'w engine" where
  "maybe_auto_record_history now s e =
     (let e = sync_history_listen_tracker now (sn_playback_state s) e;
          elapsed = elapsed_millis (en_history_listen e) now
      in if instance_recorded e \<or> elapsed < HISTORY_AUTO_RECORD_THRESHOLD_MILLIS then (s, e)
         else let s = s\<lparr>sn_updated_at := max (sn_updated_at s) now\<rparr>
              in case visible (sn_media_id s) of
                   None \<Rightarrow> (s, e)
                 | Some track_id \<Rightarrow>
                     (case listened_record track_id elapsed s of
                        Inl _ \<Rightarrow> (s, e) | Inr record \<Rightarrow> record_once record s e))"

subsection \<open>What the actor reads\<close>

definition actor_pending_anonymous_history :: "'w engine \<Rightarrow> history_entry list" where
  "actor_pending_anonymous_history e =
     (if en_reconciliation_in_flight e \<or> ah_entries (en_anonymous_history e) = [] then []
      else rev (ah_entries (en_anonymous_history e)))"

definition actor_history_settings_enabled :: "'w engine \<Rightarrow> bool option" where
  "actor_history_settings_enabled e = map_option hs_enabled (sn_history_settings (en_snapshot e))"

definition actor_history_continuation ::
  "'w engine \<Rightarrow> (auth_identity \<times> u32 \<times> page_token) option" where
  "actor_history_continuation e =
     (case (en_history_operation e, sn_history_next (en_snapshot e)) of
        (Some operation, Some token) \<Rightarrow>
          (case hop_owner operation of
             OwnerAuthenticated identity \<Rightarrow>
               Some (identity, bounded_history_page_size (hop_page_size operation), token)
           | OwnerAnonymous \<Rightarrow> None)
      | _ \<Rightarrow> None)"

interpretation hg: identity_guard history_result_for_current_identity clear_history_projection
  forget_history history_login_required history_empty
  by unfold_locales
     (auto simp: history_result_for_current_identity_def current_identity_def Let_def
       history_login_required_def forget_history_def)

end
