(* ===== verification/Floats.thy ===== *)
theory Floats
  imports RustStd
begin

text \<open>
  Rounding laws of the \<open>f32\<close> model: the exponent found by bit lengths brackets the value, rounding
  an unsigned 64-bit integer never overflows, keeps positive integers away from zero, and the
  quotient of two such integers with a nonzero divisor is finite.
\<close>

lemma fp_exponent_bound:
  assumes "0 < q" "q < 2 ^ k"
  shows "fp_exponent q \<le> int k"
proof -
  obtain n d where nd: "quotient_of q = (n, d)" by (cases "quotient_of q")
  have d: "0 < d" using quotient_of_denom_pos [OF nd] .
  have q: "q = of_int n / of_int d" by (rule quotient_of_div [OF nd])
  have n: "0 < n"
    using assms(1) d by (simp add: q zero_less_divide_iff)
  have "of_int n < (of_int (2 ^ k * d) :: rat)"
    using assms(2) d by (simp add: q divide_less_eq)
  then have "n < 2 ^ k * d" by (simp only: of_int_less_iff)
  moreover have "nat d < 2 ^ blen (nat d)" using blen_le_iff [of "nat d" "blen (nat d)"] by simp
  then have "d < 2 ^ blen (nat d)" using d by (simp add: nat_less_iff)
  then have "2 ^ k * d < 2 ^ k * 2 ^ blen (nat d)" by simp
  ultimately have "n < 2 ^ k * 2 ^ blen (nat d)" by (rule less_trans)
  then have "n < 2 ^ (k + blen (nat d))" by (simp add: power_add)
  then have "nat n < 2 ^ (k + blen (nat d))" using n by (simp add: nat_less_iff)
  then have "blen (nat n) \<le> k + blen (nat d)" by (simp only: blen_le_iff)
  then show ?thesis by (simp add: fp_exponent_def nd Let_def)
qed

lemma round_half_even_le: "of_int (round_half_even q) \<le> q + 1"
proof -
  have "of_int \<lfloor>q\<rfloor> \<le> q" "of_int \<lfloor>q\<rfloor> \<le> q + 1" by linarith+
  then show ?thesis unfolding round_half_even_def Let_def by auto
qed

lemma pow2_pos [simp]: "0 < pow2 k"
  by (simp add: pow2_def)

lemma pow2_mono: "i \<le> j \<Longrightarrow> pow2 i \<le> pow2 j"
proof -
  assume "i \<le> j"
  consider "0 \<le> i" | "i < 0" "0 \<le> j" | "j < 0" by linarith
  then show ?thesis
  proof cases
    case 1
    then show ?thesis using \<open>i \<le> j\<close> by (simp add: pow2_def power_increasing nat_mono)
  next
    case 2
    have "1 / 2 ^ nat (- i) \<le> (1 :: rat)" by (simp add: divide_le_eq)
    also have "(1 :: rat) \<le> 2 ^ nat j" by simp
    finally show ?thesis using 2 by (simp add: pow2_def)
  next
    case 3
    then show ?thesis using \<open>i \<le> j\<close>
      by (simp add: pow2_def frac_le power_increasing nat_mono)
  qed
qed

text \<open>No value below \<open>2 ^ 100\<close> overflows \<open>f32\<close>.\<close>

lemma round_f32_finite:
  assumes "0 \<le> q" "q < 2 ^ k" "k \<le> 100"
  shows "\<exists>r. round_f32 q = Fin r \<and> r < 2 ^ Suc k"
proof (cases "q = 0")
  case True
  then show ?thesis by (simp add: round_f32_def round_fp_def)
next
  case False
  with assms(1) have q: "0 < q" by simp
  define u where "u = max (fp_exponent q - 23) (- 149)"
  have u: "u \<le> int k" using fp_exponent_bound [OF q assms(2)] by (simp add: u_def)
  let ?v = "of_int (round_half_even (q / pow2 u)) * pow2 u"
  have "?v \<le> (q / pow2 u + 1) * pow2 u"
    by (intro mult_right_mono round_half_even_le) (simp add: less_imp_le)
  also have "\<dots> = q + pow2 u"
    using less_imp_neq [OF pow2_pos [of u]] by (simp add: distrib_right)
  also have "pow2 u \<le> pow2 (int k)" by (rule pow2_mono [OF u])
  also have "q + pow2 (int k) < 2 ^ Suc k" using assms(2) by (simp add: pow2_def)
  finally have v: "?v < 2 ^ Suc k" by simp
  also have "(2 ^ Suc k :: rat) \<le> 2 ^ 128" using assms(3) by (intro power_increasing) auto
  finally have "\<not> pow2 128 \<le> ?v" by (simp add: pow2_def)
  with q v show ?thesis by (simp add: round_f32_def round_fp_def Let_def flip: u_def)
qed

lemma round_fp_nonneg: "0 \<le> q \<Longrightarrow> round_fp p emin emax q = Fin r \<Longrightarrow> 0 \<le> r"
proof -
  assume q: "0 \<le> q" "round_fp p emin emax q = Fin r"
  have half: "0 \<le> round_half_even x" if "0 \<le> x" for x
    using that by (auto simp: round_half_even_def Let_def)
  show ?thesis
    using q half [of "q / pow2 u" for u]
    by (auto simp: round_fp_def Let_def less_imp_le split: if_splits)
qed

lemma fp_exponent_le:
  assumes "0 < q"
  shows "pow2 (fp_exponent q) \<le> q"
proof -
  obtain n d where nd: "quotient_of q = (n, d)" by (cases "quotient_of q")
  have d: "0 < d" using quotient_of_denom_pos [OF nd] .
  have q: "q = of_int n / of_int d" by (rule quotient_of_div [OF nd])
  have n: "0 < n" using assms(1) d by (simp add: q zero_less_divide_iff)
  define a b where "a = blen (nat n)" and "b = blen (nat d)"
  have a: "a \<noteq> 0" using n by (simp add: a_def blen_pos)
  have "\<not> a \<le> a - 1" using a by simp
  then have "\<not> nat n < 2 ^ (a - 1)" unfolding a_def blen_le_iff by simp
  then have "2 ^ (a - 1) \<le> n" using n by (simp add: not_less le_nat_iff)
  then have n2: "(2 ^ (a - 1) :: rat) \<le> of_int n"
    by (metis of_int_le_iff of_int_numeral of_int_power)
  have "nat d < 2 ^ b" using blen_le_iff [of "nat d" b] by (simp add: b_def)
  then have "d < 2 ^ b" using d by (simp add: nat_less_iff)
  then have d2: "of_int d \<le> (2 ^ b :: rat)"
    by (metis less_imp_le of_int_le_iff of_int_numeral of_int_power)
  have "2 ^ (a - 1) / 2 ^ b \<le> q"
    unfolding q using n2 d2 d n by (intro frac_le) simp_all
  moreover have "pow2 (int a - int b - 1) = 2 ^ (a - 1) / 2 ^ b"
  proof (cases "b \<le> a - 1")
    case True
    then have "nat (int a - int b - 1) = a - 1 - b" "0 \<le> int a - int b - 1" using a by auto
    with True show ?thesis by (simp add: pow2_def power_diff)
  next
    case False
    then have "nat (- (int a - int b - 1)) = b - (a - 1)" "\<not> 0 \<le> int a - int b - 1" using a by auto
    with False show ?thesis by (simp add: pow2_def power_diff)
  qed
  ultimately show ?thesis
    by (simp add: fp_exponent_def nd Let_def not_less flip: a_def b_def)
qed

lemma f32_of_u64_finite: "\<exists>r. f32_of_u64 w = Fin r \<and> 0 \<le> r \<and> r < 2 ^ 65"
proof -
  obtain n where n: "n = unat w" "n < 2 ^ 64" using unsigned_less [of w, where 'a = nat] by simp
  have "(of_nat n :: rat) < 2 ^ 64"
    using n(2) by (metis of_nat_less_iff of_nat_numeral of_nat_power)
  then obtain r where r: "round_f32 (of_nat n) = Fin r" "r < 2 ^ Suc 64"
    using round_f32_finite [of "of_nat n" 64] by auto
  have "0 \<le> r" using round_fp_nonneg [OF _ r(1) [unfolded round_f32_def]] by simp
  with r show ?thesis unfolding f32_of_u64_def n(1) [symmetric] by simp
qed

lemma round_half_even_ge_one: "1 \<le> x \<Longrightarrow> 1 \<le> round_half_even x"
  by (auto simp: round_half_even_def Let_def)

lemma round_f32_of_nat_positive:
  assumes "0 < n" "round_f32 (of_nat n) = Fin r"
  shows "pow2 (- 24) \<le> r"
proof -
  let ?q = "of_nat n :: rat"
  define u where "u = max (fp_exponent ?q - 23) (- 149)"
  have "quotient_of ?q = (int n, 1)"
    using quotient_of_int [of "int n"] by (simp add: Rat.of_int_def)
  then have "- 1 \<le> fp_exponent ?q"
    using assms(1) by (simp add: fp_exponent_def Let_def blen_pos)
  then have u: "- 24 \<le> u" by (simp add: u_def)
  have "pow2 u \<le> ?q"
  proof (cases "u = - 149")
    case True
    then show ?thesis using u by simp
  next
    case False
    then have "u \<le> fp_exponent ?q" by (auto simp: u_def max_def split: if_splits)
    then have "pow2 u \<le> pow2 (fp_exponent ?q)" by (rule pow2_mono)
    also have "\<dots> \<le> ?q" by (rule fp_exponent_le) (use assms(1) in simp)
    finally show ?thesis .
  qed
  then have "1 \<le> ?q / pow2 u" by (simp add: le_divide_eq)
  then have "1 \<le> round_half_even (?q / pow2 u)" by (rule round_half_even_ge_one)
  then have "(1 :: rat) \<le> of_int (round_half_even (?q / pow2 u))" by simp
  then have "1 * pow2 u \<le> of_int (round_half_even (?q / pow2 u)) * pow2 u"
    by (intro mult_right_mono) (simp_all add: less_imp_le)
  moreover have "r = of_int (round_half_even (?q / pow2 u)) * pow2 u"
    using assms by (auto simp: round_f32_def round_fp_def Let_def simp flip: u_def split: if_splits)
  ultimately show ?thesis using pow2_mono [OF u] by linarith
qed

text \<open>The quotient of two \<open>u64\<close> values with a nonzero divisor is a finite \<open>f32\<close>.\<close>

lemma f32_div_u64_finite:
  assumes "b \<noteq> 0"
  shows "\<exists>r. f32_div (f32_of_u64 a) (f32_of_u64 b) = Fin r"
proof -
  obtain x y where xy: "f32_of_u64 a = Fin x" "0 \<le> x" "x < 2 ^ 65" "f32_of_u64 b = Fin y"
    using f32_of_u64_finite [of a] f32_of_u64_finite [of b] by auto
  have y: "pow2 (- 24) \<le> y" using round_f32_of_nat_positive [of "unat b" y] xy(4) assms
    by (simp add: f32_of_u64_def unat_gt_0 del: of_nat_unat)
  then have y0: "0 < y" using pow2_pos [of "- 24"] by linarith
  have "x / y < 2 ^ 90"
  proof -
    have "x < 2 ^ 90 * pow2 (- 24)" using xy(3) by (simp add: pow2_def)
    also have "\<dots> \<le> 2 ^ 90 * y" using y by simp
    finally show ?thesis using y0 by (simp add: divide_less_eq)
  qed
  then show ?thesis
    using round_f32_finite [of "x / y" 90] xy y0 by auto
qed

end
