(* ===== verification/HistoryLaws.thy ===== *)
theory HistoryLaws
  imports History Floats
begin

text \<open>
  Laws of the playback history: pages and page operations belong to the owner shown, through every
  command, completion and tick and any login change while a call is awaited; anonymous pages cover
  the buffer; a listen is measured and recorded once per playback instance; promotion is in order.
  The last section proves what goes wrong: settings without an owner, entries lost or recorded
  twice.
\<close>

subsection \<open>Ownership of the history shown\<close>

text \<open>The pages shown and the page operation belong to the owner the snapshot's auth state names,
  or there are none.\<close>

definition history_ok :: "engine_snapshot \<Rightarrow> 'w engine \<Rightarrow> bool" where
  "history_ok s e =
     (en_history_owner e = None \<and> sn_history_entries s = [] \<and> sn_history_next s = None \<and>
        en_history_operation e = None \<or>
      (\<exists>h. en_history_owner e = Some h \<and> h = history_owner_current (sn_auth_state s) \<and>
        (\<forall>op. en_history_operation e = Some op \<longrightarrow> hop_owner op = h)))"

text \<open>While a command awaits an answer for \<open>i\<close>: the snapshot shows \<open>i\<close>, or nothing is owned any
  more.\<close>

definition history_for :: "auth_identity \<Rightarrow> engine_snapshot \<Rightarrow> 'w engine \<Rightarrow> bool" where
  "history_for i s e =
     (history_ok s e \<and>
      (auth_identity_from_state (sn_auth_state s) = Some i \<or> en_history_owner e = None))"

definition history_fields :: "'w engine \<Rightarrow> history_owner option \<times> history_operation option" where
  "history_fields e = (en_history_owner e, en_history_operation e)"

lemma history_forD: "history_for i s e \<Longrightarrow> history_ok s e"
  by (simp add: history_for_def)

lemma history_for_start:
  "history_ok s e \<Longrightarrow> auth_identity_from_state (sn_auth_state s) = Some i \<Longrightarrow> history_for i s e"
  by (simp add: history_for_def)

text \<open>A change that keeps owner, operation and auth state, and shows only less.\<close>

lemma history_ok_frame:
  assumes "history_ok s e" "history_fields e' = history_fields e" "sn_auth_state s' = sn_auth_state s"
    and "sn_history_entries s = [] \<Longrightarrow> sn_history_entries s' = []"
    and "sn_history_next s = None \<Longrightarrow> sn_history_next s' = None"
  shows "history_ok s' e'"
  using assms by (auto simp: history_ok_def history_fields_def)

lemma history_for_frame:
  assumes "history_for i s e" "history_fields e' = history_fields e" "sn_auth_state s' = sn_auth_state s"
    and "sn_history_entries s = [] \<Longrightarrow> sn_history_entries s' = []"
    and "sn_history_next s = None \<Longrightarrow> sn_history_next s' = None"
  shows "history_for i s' e'"
  using assms history_ok_frame [of s e e' s'] by (simp add: history_for_def history_fields_def)

lemma history_ok_error [simp]: "history_ok (s\<lparr>sn_last_error := x\<rparr>) e = history_ok s e"
  by (simp add: history_ok_def)

lemma history_for_error [simp]: "history_for i (s\<lparr>sn_last_error := x\<rparr>) e = history_for i s e"
  by (simp add: history_for_def)

lemma invalidate_auth [simp]:
  "sn_auth_state (fst (invalidate_history_pages s e)) = sn_auth_state s"
  by (simp add: invalidate_history_pages_def bump_history_generation_def Let_def)

lemma invalidate_owner [simp]:
  "en_history_owner (snd (invalidate_history_pages s e)) = en_history_owner e"
  by (simp add: invalidate_history_pages_def Let_def)

lemma invalidate_ok:
  "history_ok s e \<Longrightarrow> history_ok (fst (invalidate_history_pages s e)) (snd (invalidate_history_pages s e))"
  by (auto simp: history_ok_def invalidate_history_pages_def bump_history_generation_def Let_def)

lemma invalidate_for:
  "history_for i s e \<Longrightarrow> history_for i (fst (invalidate_history_pages s e)) (snd (invalidate_history_pages s e))"
  by (simp add: history_for_def invalidate_ok)

lemma claim_ok:
  assumes "history_ok s e" "h = history_owner_current (sn_auth_state s)" "sn_auth_state s' = sn_auth_state s"
  shows "history_ok s' (claim_history h e)"
  using assms by (auto simp: history_ok_def claim_history_def)

lemma owner_current_identity:
  "auth_identity_from_state auth = Some i \<Longrightarrow> history_owner_current auth = OwnerAuthenticated i"
  "auth_identity_from_state auth = None \<Longrightarrow> history_owner_current auth = OwnerAnonymous"
  by (simp_all add: history_owner_current_def)

lemma claim_for:
  assumes "history_for i s e" "auth_identity_from_state (sn_auth_state s) = Some i"
    and "sn_auth_state s' = sn_auth_state s"
  shows "history_for i s' (claim_history (OwnerAuthenticated i) e)"
  using assms claim_ok [OF history_forD [OF assms(1)], of "OwnerAuthenticated i" s']
  by (simp add: history_for_def owner_current_identity)

lemma history_fields_await: "await_call c e = (r, e1) \<Longrightarrow> history_fields e1 = history_fields e"
  by (drule await_callD, elim conjE, erule ssubst) (simp add: history_fields_def)

lemma history_fields_prefetched: "prefetched_or sel c e = (r, e1) \<Longrightarrow> history_fields e1 = history_fields e"
  by (drule prefetched_orD, erule ssubst) (simp add: history_fields_def)

lemma history_fields_simps [simp]:
  "history_fields (e\<lparr>en_world := w\<rparr>) = history_fields e"
  "history_fields (e\<lparr>en_prefetched := p\<rparr>) = history_fields e"
  "history_fields (e\<lparr>en_anonymous_history := b\<rparr>) = history_fields e"
  "history_fields (e\<lparr>en_reconciliation_in_flight := f\<rparr>) = history_fields e"
  "history_fields (e\<lparr>en_history_listen := l\<rparr>) = history_fields e"
  "history_fields (e\<lparr>en_next_history_record_sequence := n\<rparr>) = history_fields e"
  "history_fields (drop_promoted ids e) = history_fields e"
  by (simp_all add: history_fields_def drop_promoted_def)

lemma history_fields_take: "take_prefetched sel e = (r, e1) \<Longrightarrow> history_fields e1 = history_fields e"
  by (auto simp: take_prefetched_def split: option.splits)

lemma history_answer:
  assumes "history_for i s e" "history_fields e1 = history_fields e"
    and "history_result_for_current_identity s i r e1 = (res, s', e')"
  shows "history_for i s' e'"
    and "res = Inr a \<Longrightarrow> auth_identity_from_state (sn_auth_state s') = Some i"
proof -
  have "history_for i s' e' \<and> (res = Inr a \<longrightarrow> auth_identity_from_state (sn_auth_state s') = Some i)"
  proof (cases rule: hg.guard_cases [of e1 i s r, case_names current changed])
    case current
    then have *: "s' = s\<lparr>sn_auth_state := current_auth e1\<rparr>" "e' = e1"
      using assms(3) by simp_all
    have id: "auth_identity_from_state (sn_auth_state s') = Some i"
      using current(1) by (simp add: *(1) current_identity_def)
    have "history_ok s' e'"
      using assms(1,2) owner_current_identity(1) [OF id]
      unfolding history_for_def history_ok_def
      by (auto simp: *(1,2) history_fields_def owner_current_identity)
    with id show ?thesis by (simp add: history_for_def)
  next
    case changed
    then have "s' = clear_history_projection (s\<lparr>sn_auth_state := current_auth e1\<rparr>)" "e' = forget_history e1"
      "res = Err history_login_required"
      using assms(3) by simp_all
    then show ?thesis
      by (simp add: history_for_def history_ok_def forget_history_def clear_history_projection_def)
  qed
  then show "history_for i s' e'" "res = Inr a \<Longrightarrow> auth_identity_from_state (sn_auth_state s') = Some i"
    by blast+
qed

lemma clear_anonymous_for:
  assumes "history_for i s e"
  shows "history_for i (fst (clear_anonymous_history_for_authenticated_disabled s e))
     (snd (clear_anonymous_history_for_authenticated_disabled s e))"
proof -
  have "history_for i s (e\<lparr>en_anonymous_history := b\<rparr>)" for b
    by (rule history_for_frame [OF assms]) simp_all
  with invalidate_for show ?thesis
    by (auto simp: clear_anonymous_history_for_authenticated_disabled_def Let_def anonymous_history_clear_def)
qed

lemma clear_anonymous_auth [simp]:
  "sn_auth_state (fst (clear_anonymous_history_for_authenticated_disabled s e)) = sn_auth_state s"
  by (simp add: clear_anonymous_history_for_authenticated_disabled_def Let_def anonymous_history_clear_def)

lemma apply_reconciliation_for:
  assumes "history_for i s e"
  shows "history_for i (fst (apply_history_reconciliation rec s e)) (snd (apply_history_reconciliation rec s e))"
proof -
  have "history_for i s (drop_promoted ids e)" for ids
    by (rule history_for_frame [OF assms]) simp_all
  note drop = invalidate_for [OF this [of "hr_promoted_entry_ids rec"]]
  then show ?thesis
    using assms clear_anonymous_for [OF assms]
    by (auto simp: apply_history_reconciliation_def Let_def split: prod.splits option.splits)
qed

lemma promote_pending_for:
  "history_for i s e \<Longrightarrow> promote_pending port i pending promoted s e = (r, s', e') \<Longrightarrow> history_for i s' e'"
proof (induction pending arbitrary: promoted s e)
  case Nil
  then show ?case by simp
next
  case (Cons entry pending)
  show ?case
  proof (cases "to_playback_record entry")
    case None
    with Cons show ?thesis by simp
  next
    case (Some prec)
    obtain r1 e1 where c: "await_call (hp_record port i prec) e = (r1, e1)"
      by (cases "await_call (hp_record port i prec) e")
    obtain r2 s2 e2 where g: "history_result_for_current_identity s i r1 e1 = (r2, s2, e2)"
      by (cases "history_result_for_current_identity s i r1 e1")
    note a = history_answer(1) [OF Cons.prems(1) history_fields_await [OF c] g]
    show ?thesis
      using Cons.prems(2) Cons.IH [OF a] a by (cases r2) (simp_all add: Some c g)
  qed
qed

lemma promote_anonymous_for:
  assumes "history_for i s e" "promote_anonymous_history port i s e = (r, s', e')"
  shows "history_for i s' e'"
proof -
  obtain r1 s1 e1 where p: "promote_pending port i (rev (ah_entries (en_anonymous_history e))) [] s e = (r1, s1, e1)"
    by (cases "promote_pending port i (rev (ah_entries (en_anonymous_history e))) [] s e")
  note a = promote_pending_for [OF assms(1) p]
  have "history_for i s1 (drop_promoted ids e1)" for ids
    by (rule history_for_frame [OF a]) simp_all
  note b = invalidate_for [OF this]
  show ?thesis
  proof (cases r1)
    case (Inl err)
    with assms(2) a show ?thesis by (simp add: promote_anonymous_history_def p)
  next
    case (Inr promoted)
    with assms(2) a b [of promoted] show ?thesis
      by (auto simp: promote_anonymous_history_def p split: prod.splits if_splits)
  qed
qed

lemma reconcile_impl_for:
  assumes "history_for i s e" "reconcile_anonymous_history_impl i port s e = (r, s', e')"
  shows "history_for i s' e'"
proof -
  have on: "history_for i s' e'" if "history_for i s1 e1"
    "(if \<not> hs_enabled settings
      then (let (s, e) = clear_anonymous_history_for_authenticated_disabled s1 e1 in (Ok (), s, e))
      else promote_anonymous_history port i s1 e1) = (r, s', e')" for s1 settings and e1 :: "'a engine"
  proof (cases "hs_enabled settings")
    case True
    then show ?thesis using that(2) by (simp add: promote_anonymous_for [OF that(1)])
  next
    case False
    then show ?thesis using clear_anonymous_for [OF that(1)] that(2) by (simp split: prod.splits)
  qed
  show ?thesis
  proof (cases "sn_history_settings s")
    case (Some settings)
    with assms(2) on [OF assms(1), of settings] show ?thesis
      by (simp add: reconcile_anonymous_history_impl_def)
  next
    case None
    obtain r1 e1 where c: "await_call (hp_get_settings port i) e = (r1, e1)"
      by (cases "await_call (hp_get_settings port i) e")
    obtain r2 s2 e2 where g: "history_result_for_current_identity s i r1 e1 = (r2, s2, e2)"
      by (cases "history_result_for_current_identity s i r1 e1")
    note a = history_answer(1) [OF assms(1) history_fields_await [OF c] g]
    show ?thesis
    proof (cases r2)
      case (Inl err)
      with assms(2) a show ?thesis
        by (simp add: reconcile_anonymous_history_impl_def None c g)
    next
      case (Inr settings)
      have "history_for i (s2\<lparr>sn_history_settings := Some settings\<rparr>) e2"
        by (rule history_for_frame [OF a]) simp_all
      from on [OF this, of settings] assms(2) Inr show ?thesis
        by (simp add: reconcile_anonymous_history_impl_def None c g)
    qed
  qed
qed

lemma reconcile_for:
  assumes "history_for i s e" "reconcile_anonymous_history i port s e = (s', e')"
  shows "history_for i s' e'"
proof (cases "en_reconciliation_in_flight e \<or> ah_entries (en_anonymous_history e) = []")
  case True
  with assms show ?thesis by (simp add: reconcile_anonymous_history_def)
next
  case False
  obtain r s1 e1 where r: "reconcile_anonymous_history_impl i port s (e\<lparr>en_reconciliation_in_flight := True\<rparr>) = (r, s1, e1)"
    by (cases "reconcile_anonymous_history_impl i port s (e\<lparr>en_reconciliation_in_flight := True\<rparr>)")
  have "history_for i s (e\<lparr>en_reconciliation_in_flight := True\<rparr>)"
    by (rule history_for_frame [OF assms(1)]) simp_all
  note a = reconcile_impl_for [OF this r]
  have "history_for i s' (e1\<lparr>en_reconciliation_in_flight := False\<rparr>)"
    by (rule history_for_frame [OF a]) (use assms(2) False r in \<open>auto simp: reconcile_anonymous_history_def split: sum.splits\<close>)
  with assms(2) False r show ?thesis by (auto simp: reconcile_anonymous_history_def)
qed

lemma set_available_auth [simp]: "sn_auth_state (set_history_available s) = sn_auth_state s"
  by (simp add: set_history_available_def)

lemma show_page_auth [simp]: "sn_auth_state (show_history_page page s) = sn_auth_state s"
  by (simp add: show_history_page_def)

lemma history_owner_identityD:
  "history_owner_identity s = Inr (Some i) \<Longrightarrow> auth_identity_from_state (sn_auth_state s) = Some i"
  "history_owner_identity s = Inr None \<Longrightarrow> auth_identity_from_state (sn_auth_state s) = None"
  by (auto simp: history_owner_identity_def split: option.splits if_splits)

lemma history_contextD:
  "history_context s port = Inr (i, p) \<Longrightarrow> auth_identity_from_state (sn_auth_state s) = Some i \<and> port = Some p"
  by (auto simp: history_context_def dest: history_owner_identityD split: sum.splits option.splits)

lemma listed_ok:
  "h = history_owner_current (sn_auth_state s) \<Longrightarrow> sn_auth_state s' = sn_auth_state s \<Longrightarrow>
     history_ok s' ((claim_history h e)\<lparr>en_history_operation := Some \<lparr>hop_owner = h, hop_page_size = n\<rparr>\<rparr>)"
  by (auto simp: history_ok_def claim_history_def)

lemma history_for_pair: "(s', e') = x \<Longrightarrow> history_for i (fst x) (snd x) \<Longrightarrow> history_for i s' e'"
  by auto

lemma history_ok_pair: "(s', e') = x \<Longrightarrow> history_ok (fst x) (snd x) \<Longrightarrow> history_ok s' e'"
  by auto

lemma load_history_settings_ok:
  assumes "history_ok s e" "load_history_settings s e = (s', e')"
  shows "history_ok s' e'"
proof (cases "history_owner_identity s")
  case (Inl err)
  with assms show ?thesis by (auto simp: load_history_settings_def)
next
  case (Inr own)
  show ?thesis
  proof (cases own)
    case None
    with Inr history_owner_identityD(2) assms(2) show ?thesis
      by (auto simp: load_history_settings_def owner_current_identity intro!: claim_ok [OF assms(1)])
  next
    case (Some i)
    then have id: "auth_identity_from_state (sn_auth_state s) = Some i"
      using Inr history_owner_identityD(1) by simp
    show ?thesis
    proof (cases "en_history_port e")
      case None
      with Inr Some assms show ?thesis by (auto simp: load_history_settings_def)
    next
      case port: (Some port)
      let ?sel = "\<lambda>op. map_option (\<lambda>p. (phs_settings p, Some (phs_reconciliation p))) (as_history_settings op)"
      let ?call = "\<lambda>w. let (r, w) = hp_get_settings port i w in ((r, None), w)"
      obtain r1 rec e1 where c: "prefetched_or ?sel ?call e = ((r1, rec), e1)"
        by (cases "prefetched_or ?sel ?call e") auto
      obtain r2 s2 e2 where g: "history_result_for_current_identity s i r1 e1 = (r2, s2, e2)"
        by (cases "history_result_for_current_identity s i r1 e1")
      note a = history_answer [OF history_for_start [OF assms(1) id] history_fields_prefetched [OF c] g]
      show ?thesis
      proof (cases r2)
        case (Inl err)
        with assms(2) \<open>history_owner_identity s = _\<close> Some port c g history_forD [OF a(1)] show ?thesis
          by (auto simp: load_history_settings_def)
      next
        case (Inr settings)
        let ?s = "set_history_available (s2\<lparr>sn_history_settings := Some settings\<rparr>)"
        let ?e = "claim_history (OwnerAuthenticated i) e2"
        have b: "history_for i ?s ?e" by (rule claim_for [OF a(1) a(2) [OF Inr]]) simp
        have "(s', e') = clear_anonymous_history_for_authenticated_disabled ?s ?e \<or>
            (\<exists>rec. apply_history_reconciliation rec ?s ?e = (s', e')) \<or>
            (s', e') = reconcile_anonymous_history i port ?s ?e"
          using assms(2) \<open>history_owner_identity s = _\<close> Some port c g Inr
          by (auto simp: load_history_settings_def Let_def split: option.splits if_splits)
        then have "history_for i s' e'"
        proof (elim disjE exE)
          assume "(s', e') = clear_anonymous_history_for_authenticated_disabled ?s ?e"
          then show ?thesis by (rule history_for_pair) (rule clear_anonymous_for [OF b])
        next
          fix rec assume "apply_history_reconciliation rec ?s ?e = (s', e')"
          from this [symmetric] show ?thesis by (rule history_for_pair) (rule apply_reconciliation_for [OF b])
        next
          assume "(s', e') = reconcile_anonymous_history i port ?s ?e"
          from reconcile_for [OF b this [symmetric]] show ?thesis .
        qed
        then show ?thesis by (rule history_forD)
      qed
    qed
  qed
qed

lemma update_history_settings_ok:
  assumes "history_ok s e" "update_history_settings enabled s e = (s', e')"
  shows "history_ok s' e'"
proof (cases "auth_identity_from_state (sn_auth_state s)")
  case None
  obtain n b where buffer: "(if enabled then (0, (en_anonymous_history e)\<lparr>ah_enabled := enabled\<rparr>)
      else anonymous_history_clear ((en_anonymous_history e)\<lparr>ah_enabled := enabled\<rparr>)) = (n, b)"
    by fastforce
  let ?s = "set_history_available (s\<lparr>sn_history_deleted_count := n,
      sn_history_settings := Some \<lparr>hs_enabled = enabled\<rparr>\<rparr>)"
  let ?e = "claim_history OwnerAnonymous (e\<lparr>en_anonymous_history := b\<rparr>)"
  have "history_ok ?s ?e"
    by (rule claim_ok [of s]) (use None assms(1) in \<open>simp_all add: owner_current_identity history_ok_def\<close>)
  moreover have "(s', e') = invalidate_history_pages ?s ?e"
    using assms(2) None by (simp add: update_history_settings_def buffer)
  ultimately show ?thesis by (blast intro: history_ok_pair invalidate_ok)
next
  case id: (Some i)
  show ?thesis
  proof (cases "en_history_port e")
    case None
    with id assms show ?thesis by (auto simp: update_history_settings_def)
  next
    case (Some port)
    obtain r1 e1 where c: "prefetched_or as_history_settings_update (hp_update_settings port i enabled) e = (r1, e1)"
      by (cases "prefetched_or as_history_settings_update (hp_update_settings port i enabled) e")
    obtain r2 s2 e2 where g: "history_result_for_current_identity s i r1 e1 = (r2, s2, e2)"
      by (cases "history_result_for_current_identity s i r1 e1")
    note a = history_answer [OF history_for_start [OF assms(1) id] history_fields_prefetched [OF c] g]
    show ?thesis
    proof (cases r2)
      case (Inl err)
      with assms(2) id Some c g history_forD [OF a(1)] show ?thesis
        by (auto simp: update_history_settings_def)
    next
      case (Inr u)
      let ?s = "set_history_available (s2\<lparr>sn_history_settings := Some (hsu_settings u),
          sn_history_deleted_count := hsu_deleted_count u\<rparr>)"
      let ?e = "claim_history (OwnerAuthenticated i) e2"
      have b: "history_for i ?s ?e" by (rule claim_for [OF a(1) a(2) [OF Inr]]) simp
      note c1 = invalidate_for [OF b] and c2 = invalidate_for [OF clear_anonymous_for [OF b]]
      have "history_for i s' e'"
      proof (cases "hs_enabled (hsu_settings u)")
        case True
        have "(s', e') = invalidate_history_pages ?s ?e"
          using assms(2) id Some c g Inr True by (simp add: update_history_settings_def Let_def)
        then show ?thesis by (rule history_for_pair) (rule c1)
      next
        case False
        have "(s', e') = (case clear_anonymous_history_for_authenticated_disabled ?s ?e of
            (s, e) \<Rightarrow> invalidate_history_pages s e)"
          using assms(2) id Some c g Inr False by (simp add: update_history_settings_def Let_def)
        then show ?thesis by (rule history_for_pair) (use c2 in \<open>simp add: split_beta\<close>)
      qed
      then show ?thesis by (rule history_forD)
    qed
  qed
qed

lemma request_history_page_for:
  assumes "history_for i s e" "request_history_page i port page s e = (r, s', e')"
  shows "history_for i s' e'" "r = Inr x \<Longrightarrow> auth_identity_from_state (sn_auth_state s') = Some i"
proof -
  obtain t e0 where t: "take_prefetched as_history_page e = (t, e0)"
    by (cases "take_prefetched as_history_page e")
  have e0: "history_for i s e0"
    by (rule history_for_frame [OF assms(1) history_fields_take [OF t]]) simp_all
  have "history_for i s' e' \<and> (r = Inr x \<longrightarrow> auth_identity_from_state (sn_auth_state s') = Some i)"
  proof (cases t)
    case (Some pre)
    obtain s2 e2 where rc: "apply_history_reconciliation (php_reconciliation pre) s e0 = (s2, e2)"
      by (cases "apply_history_reconciliation (php_reconciliation pre) s e0")
    have f: "history_for i s2 e2" using apply_reconciliation_for [OF e0, of "php_reconciliation pre"] rc by simp
    have "history_result_for_current_identity s2 i (php_page pre) e2 = (r, s', e')"
      using assms(2) t Some rc by (simp add: request_history_page_def)
    from history_answer [OF f refl this] show ?thesis by blast
  next
    case None
    obtain s2 e2 where rc: "reconcile_anonymous_history i port s e0 = (s2, e2)"
      by (cases "reconcile_anonymous_history i port s e0")
    obtain r3 e3 where c: "await_call (hp_list port i page) e2 = (r3, e3)"
      by (cases "await_call (hp_list port i page) e2")
    have "history_result_for_current_identity s2 i r3 e3 = (r, s', e')"
      using assms(2) t None rc c by (simp add: request_history_page_def)
    from history_answer [OF reconcile_for [OF e0 rc] history_fields_await [OF c] this] show ?thesis by blast
  qed
  then show "history_for i s' e'" "r = Inr x \<Longrightarrow> auth_identity_from_state (sn_auth_state s') = Some i"
    by blast+
qed

lemma list_history_ok:
  assumes "history_ok s e" "list_history page s e = (s', e')"
  shows "history_ok s' e'"
proof -
  let ?e = "e\<lparr>en_history_operation := None\<rparr>"
  let ?s = "s\<lparr>sn_history_entries := [], sn_history_next := None\<rparr>"
  let ?page = "bounded_history_page_request page"
  have start: "history_ok ?s ?e" using assms(1) by (auto simp: history_ok_def)
  show ?thesis
  proof (cases "auth_identity_from_state (sn_auth_state s)")
    case None
    have "list_anonymous_history ?page ?s ?e = (s', e')"
      using assms(2) None by (simp add: list_history_def)
    with start None show ?thesis
      by (auto simp: list_anonymous_history_def Let_def owner_current_identity split: sum.splits option.splits
          intro!: listed_ok)
  next
    case id: (Some i)
    then have id': "auth_identity_from_state (sn_auth_state ?s) = Some i" by simp
    show ?thesis
    proof (cases "en_history_port e")
      case None
      with id assms(2) start show ?thesis by (auto simp: list_history_def)
    next
      case (Some port)
      obtain r s1 e1 where ans: "request_history_page i port ?page ?s ?e = (r, s1, e1)"
        by (cases "request_history_page i port ?page ?s ?e")
      note a = request_history_page_for [OF history_for_start [OF start id'] ans]
      show ?thesis
      proof (cases r)
        case (Inl err)
        with assms(2) id Some ans history_forD [OF a(1)] show ?thesis
          by (auto simp: list_history_def split: if_splits)
      next
        case (Inr result)
        with assms(2) id Some ans a(2) [OF Inr] show ?thesis
          by (auto simp: list_history_def owner_current_identity intro!: listed_ok)
      qed
    qed
  qed
qed

lemma apply_reconciliation_owner [simp]:
  "en_history_owner (snd (apply_history_reconciliation rec s e)) = en_history_owner e"
  by (auto simp: apply_history_reconciliation_def Let_def clear_anonymous_history_for_authenticated_disabled_def
      anonymous_history_clear_def invalidate_history_pages_def drop_promoted_def)

lemma next_history_page_ok:
  assumes "history_ok s e" "next_history_page s e = (r, s', e')"
  shows "history_ok s' e'" "r = Inr x \<Longrightarrow> en_history_owner e' \<noteq> None"
proof -
  have "history_ok s' e' \<and> (r = Inr x \<longrightarrow> en_history_owner e' \<noteq> None)"
  proof (cases "\<exists>i op token port. history_owner_current (sn_auth_state s) = OwnerAuthenticated i \<and>
      en_history_operation e = Some op \<and> sn_history_next s = Some token \<and> en_history_port e = Some port \<and>
      hop_owner op = OwnerAuthenticated i")
    case False
    then have "s' = s \<and> e' = e \<and> ((\<exists>err. r = Inl err) \<or> en_history_operation e \<noteq> None)"
      using assms(2)
      by (auto simp: next_history_page_def split: history_owner.splits option.splits if_splits)
    with assms(1) show ?thesis by (auto simp: history_ok_def)
  next
    case True
    then obtain i op token port where c: "history_owner_current (sn_auth_state s) = OwnerAuthenticated i"
      "en_history_operation e = Some op" "sn_history_next s = Some token" "en_history_port e = Some port"
      "hop_owner op = OwnerAuthenticated i" by blast
    have id: "auth_identity_from_state (sn_auth_state s) = Some i"
      using c(1) by (simp add: history_owner_current_def split: option.splits)
    have own: "en_history_owner e \<noteq> None" using assms(1) c(2) by (auto simp: history_ok_def)
    obtain t e0 where t: "take_prefetched as_history_page e = (t, e0)"
      by (cases "take_prefetched as_history_page e")
    have e0: "history_for i s e0"
      by (rule history_for_frame [OF history_for_start [OF assms(1) id] history_fields_take [OF t]]) simp_all
    have own0: "en_history_owner e0 \<noteq> None"
      using own history_fields_take [OF t] by (simp add: history_fields_def)
    obtain r1 s1 e1 where g: "history_result_for_current_identity s1 i r1 e1 = (r, s', e')" "history_for i s1 e1"
      "en_history_owner e1 \<noteq> None"
    proof (cases t)
      case (Some pre)
      obtain s2 e2 where rc: "apply_history_reconciliation (php_reconciliation pre) s e0 = (s2, e2)"
        by (cases "apply_history_reconciliation (php_reconciliation pre) s e0")
      have "history_for i s2 e2" using apply_reconciliation_for [OF e0, of "php_reconciliation pre"] rc by simp
      moreover have "en_history_owner e2 \<noteq> None"
        using own0 apply_reconciliation_owner [of "php_reconciliation pre" s e0] rc by simp
      ultimately show thesis
        using that [of s2 "php_page pre" e2] assms(2) c t Some rc
        by (simp add: next_history_page_def)
    next
      case None
      let ?call = "hp_list port i \<lparr>page_size = bounded_history_page_size (hop_page_size op), page_token = Some token\<rparr>"
      obtain r3 e3 where call: "await_call ?call e0 = (r3, e3)" by (cases "await_call ?call e0")
      have "history_for i s e3"
        by (rule history_for_frame [OF e0 history_fields_await [OF call]]) simp_all
      moreover have "en_history_owner e3 \<noteq> None"
        using own0 history_fields_await [OF call] by (simp add: history_fields_def)
      ultimately show thesis
        using that [of s r3 e3] assms(2) c t None call
        by (simp add: next_history_page_def)
    qed
    note a = history_answer [OF g(2) refl g(1)]
    have "en_history_owner e' \<noteq> None" if "r = Inr x"
      using hg.guard_Ok(4) [OF g(1) [unfolded that]] g(3) by simp
    with history_forD [OF a(1)] show ?thesis by blast
  qed
  then show "history_ok s' e'" "r = Inr x \<Longrightarrow> en_history_owner e' \<noteq> None" by blast+
qed

lemma history_ok_filled:
  "history_ok s e \<Longrightarrow> en_history_owner e \<noteq> None \<Longrightarrow> sn_auth_state s' = sn_auth_state s \<Longrightarrow> history_ok s' e"
  by (auto simp: history_ok_def)

lemma load_next_history_page_ok:
  assumes "history_ok s e" "load_next_history_page s e = (s', e')"
  shows "history_ok s' e'"
proof -
  obtain r s1 e1 where n: "next_history_page s e = (r, s1, e1)" by (cases "next_history_page s e")
  note a = next_history_page_ok [OF assms(1) n]
  show ?thesis
    using assms(2) n a
    by (cases r) (auto simp: load_next_history_page_def intro: history_ok_filled)
qed

text \<open>The guarded call of the two deleting commands.\<close>

lemma deleting_call_ok:
  assumes "history_ok s e"
    and "(case history_context s (en_history_port e) of
            Inl err \<Rightarrow> (Err err, s, e)
          | Inr (identity, port) \<Rightarrow>
              (let (r, e) = prefetched_or sel (call identity port) e
               in history_result_for_current_identity s identity r e)) = (r, s', e')"
  shows "history_ok s' e'"
proof (cases "history_context s (en_history_port e)")
  case (Inl err)
  with assms show ?thesis by simp
next
  case (Inr c)
  obtain i port where c: "c = (i, port)" by (cases c)
  obtain r1 e1 where p: "prefetched_or sel (call i port) e = (r1, e1)" by (cases "prefetched_or sel (call i port) e")
  have g: "history_result_for_current_identity s i r1 e1 = (r, s', e')"
    using assms(2) Inr c p by simp
  have "auth_identity_from_state (sn_auth_state s) = Some i" using history_contextD Inr c by blast
  from history_answer(1) [OF history_for_start [OF assms(1) this] history_fields_prefetched [OF p] g]
  show ?thesis by (rule history_forD)
qed

lemma history_ok_less:
  "history_ok s e \<Longrightarrow> sn_auth_state s' = sn_auth_state s \<Longrightarrow>
     (sn_history_entries s = [] \<Longrightarrow> sn_history_entries s' = []) \<Longrightarrow>
     (sn_history_next s = None \<Longrightarrow> sn_history_next s' = None) \<Longrightarrow> history_ok s' e"
  by (rule history_ok_frame [where s = s and e = e]) simp_all

lemma invalidate_pair: "invalidate_history_pages s e = (s', e') \<Longrightarrow> history_ok s e \<Longrightarrow> history_ok s' e'"
  using invalidate_ok [of s e] by simp

lemma delete_history_entry_ok:
  assumes "history_ok s e" "delete_history_entry hid s e = (s', e')"
  shows "history_ok s' e'"
proof (cases "blank hid \<or> auth_identity_from_state (sn_auth_state s) = None")
  case True
  have "history_ok (s\<lparr>sn_history_entries := filter P (sn_history_entries s)\<rparr>) (e\<lparr>en_anonymous_history := b\<rparr>)" for P b
    by (rule history_ok_frame [OF assms(1)]) simp_all
  note b = this
  show ?thesis
    using assms True b
    by (auto simp: delete_history_entry_def delete_anonymous_history_entry_def Let_def
        elim!: invalidate_pair split: if_splits)
next
  case False
  let ?call = "\<lambda>identity port. hp_delete_entry port identity hid"
  let ?ans = "case history_context s (en_history_port e) of
            Inl err \<Rightarrow> (Err err, s, e)
          | Inr (identity, port) \<Rightarrow>
              (let (r, e) = prefetched_or as_history_delete (?call identity port) e
               in history_result_for_current_identity s identity r e)"
  obtain r s1 e1 where ans: "?ans = (r, s1, e1)" by (cases ?ans)
  note a = deleting_call_ok [OF assms(1) ans]
  have "history_ok (s1\<lparr>sn_history_entries := filter (\<lambda>entry. he_id entry \<noteq> hid) (sn_history_entries s1)\<rparr>) e1"
    by (rule history_ok_less [OF a]) simp_all
  note b = this
  show ?thesis
    using assms(2) False a b unfolding delete_history_entry_def ans
    by (auto simp: Let_def split: sum.splits if_splits elim!: invalidate_pair)
qed

lemma clear_history_ok:
  assumes "history_ok s e" "clear_history s e = (s', e')"
  shows "history_ok s' e'"
proof (cases "auth_identity_from_state (sn_auth_state s) = None")
  case True
  have "history_ok (s\<lparr>sn_history_deleted_count := n\<rparr>) (e\<lparr>en_anonymous_history := b\<rparr>)" for n b
    by (rule history_ok_frame [OF assms(1)]) simp_all
  note b = this
  show ?thesis
    using assms True b
    by (auto simp: clear_history_def anonymous_history_clear_def elim!: invalidate_pair)
next
  case False
  let ?call = "\<lambda>identity port. hp_clear port identity"
  let ?ans = "case history_context s (en_history_port e) of
            Inl err \<Rightarrow> (Err err, s, e)
          | Inr (identity, port) \<Rightarrow>
              (let (r, e) = prefetched_or as_history_clear (?call identity port) e
               in history_result_for_current_identity s identity r e)"
  obtain r s1 e1 where ans: "?ans = (r, s1, e1)" by (cases ?ans)
  note a = deleting_call_ok [OF assms(1) ans]
  have "history_ok (s1\<lparr>sn_history_entries := [], sn_history_next := None\<rparr>) e1"
    "history_ok (s1\<lparr>sn_history_entries := [], sn_history_next := None, sn_history_deleted_count := n\<rparr>) e1" for n
    by (rule history_ok_less [OF a]; simp)+
  note b = this
  show ?thesis
    using assms(2) False a b unfolding clear_history_def ans
    by (auto simp: Let_def split: sum.splits if_splits elim!: invalidate_pair)
qed

lemma dispatch_history_ok:
  assumes "history_ok s e" "dispatch_history_command c s e = Some (s', e')"
  shows "history_ok s' e'"
  using assms(2)
  by (auto simp: dispatch_history_command_def split: engine_command_type.splits
      intro: load_history_settings_ok [OF assms(1)] update_history_settings_ok [OF assms(1)]
        list_history_ok [OF assms(1)] load_next_history_page_ok [OF assms(1)]
        delete_history_entry_ok [OF assms(1)] clear_history_ok [OF assms(1)])

lemma publish_history_entry_ok:
  assumes "publish_history_entry entry s e = (s', e')" "history_ok s e" "en_history_owner e \<noteq> None"
  shows "history_ok s' e'"
proof (rule history_ok_filled [where s = s])
  have e': "e' = e\<lparr>en_history_listen := (en_history_listen e)\<lparr>hl_recorded_instance_id := en_current_instance e\<rparr>\<rparr>"
    using assms(1) by (simp add: publish_history_entry_def Let_def)
  show "history_ok s e'" unfolding e' by (rule history_ok_frame [OF assms(2)]) simp_all
  show "en_history_owner e' \<noteq> None" using assms(3) by (simp add: e')
  show "sn_auth_state s' = sn_auth_state s"
    using assms(1) by (auto simp: publish_history_entry_def bump_history_generation_def Let_def)
qed

lemma record_anonymous_listen_ok:
  assumes "history_ok s e" "auth_identity_from_state (sn_auth_state s) = None"
    and "record_anonymous_listen rec s e = (s', e')"
  shows "history_ok s' e'"
proof -
  define s1 where "s1 = (if sn_history_settings s = None
      then set_history_available (s\<lparr>sn_history_settings := Some \<lparr>hs_enabled = ah_enabled (en_anonymous_history e)\<rparr>\<rparr>)
      else s)"
  have s1: "history_ok s1 e" "sn_auth_state s1 = sn_auth_state s"
    using assms(1) by (simp_all add: s1_def set_history_available_def history_ok_def)
  have claim: "history_ok s1 (claim_history OwnerAnonymous (e\<lparr>en_anonymous_history := b\<rparr>))" for b
    by (rule claim_ok [of s1]) (use s1 assms(2) in \<open>simp_all add: owner_current_identity history_ok_def\<close>)
  show ?thesis
  proof (cases "ah_enabled (en_anonymous_history e)")
    case False
    with assms(3) s1 show ?thesis by (simp add: record_anonymous_listen_def flip: s1_def)
  next
    case True
    then have "record_anonymous_history_event rec s1 e = (s', e')"
      using assms(3) by (simp add: record_anonymous_listen_def flip: s1_def)
    then show ?thesis
      unfolding record_anonymous_history_event_def Let_def
      by (rule publish_history_entry_ok) (rule claim, simp add: claim_history_def)
  qed
qed

lemma publish_recorded_history_entry_ok:
  assumes "publish_recorded_history_entry rec s e = (s', e')" "history_ok s e"
    and "auth_identity_from_state (sn_auth_state s) = Some i"
  shows "history_ok s' e'"
proof -
  have "history_ok s (claim_history (OwnerAuthenticated i) (e\<lparr>en_next_history_record_sequence := n\<rparr>))" for n
    by (rule claim_ok [of s]) (use assms in \<open>simp_all add: owner_current_identity history_ok_def\<close>)
  with assms(1,3) show ?thesis
    unfolding publish_recorded_history_entry_def Let_def
    by (auto intro: publish_history_entry_ok simp: claim_history_def)
qed

lemma ensure_history_settings_ok:
  assumes "history_ok s e" "ensure_history_settings s e = (go, s', e')"
  shows "history_ok s' e'"
proof (cases "sn_history_settings s \<noteq> None")
  case True
  with assms show ?thesis by (simp add: ensure_history_settings_def)
next
  case False
  show ?thesis
  proof (cases "history_context s (en_history_port e)")
    case (Inl err)
    with assms False show ?thesis by (auto simp: ensure_history_settings_def)
  next
    case (Inr c)
    obtain i port where c: "c = (i, port)" by (cases c)
    have id: "auth_identity_from_state (sn_auth_state s) = Some i" using history_contextD Inr c by blast
    obtain r1 e1 where p: "await_call (hp_get_settings port i) e = (r1, e1)"
      by (cases "await_call (hp_get_settings port i) e")
    obtain r2 s2 e2 where g: "history_result_for_current_identity s i r1 e1 = (r2, s2, e2)"
      by (cases "history_result_for_current_identity s i r1 e1")
    note a = history_answer [OF history_for_start [OF assms(1) id] history_fields_await [OF p] g]
    show ?thesis
    proof (cases r2)
      case (Inl err)
      with assms(2) False \<open>history_context _ _ = _\<close> c p g history_forD [OF a(1)] show ?thesis
        by (auto simp: ensure_history_settings_def)
    next
      case settings: (Inr settings)
      let ?s = "set_history_available (s2\<lparr>sn_history_settings := Some settings\<rparr>)"
      let ?e = "claim_history (OwnerAuthenticated i) e2"
      have b: "history_for i ?s ?e" by (rule claim_for [OF a(1) a(2) [OF settings]]) simp
      have "(if hs_enabled settings then reconcile_anonymous_history i port ?s ?e
          else clear_anonymous_history_for_authenticated_disabled ?s ?e) = (s', e')"
        using assms(2) False \<open>history_context _ _ = _\<close> c p g settings
        by (simp add: ensure_history_settings_def Let_def split: prod.splits if_splits)
      with clear_anonymous_for [OF b] reconcile_for [OF b, of port s' e'] have "history_for i s' e'"
        by (cases "hs_enabled settings") simp_all
      then show ?thesis by (rule history_forD)
    qed
  qed
qed

lemma submit_history_record_ok:
  assumes "history_ok s e" "submit_history_record rec s e = (s', e')"
  shows "history_ok s' e'"
proof (cases "history_context s (en_history_port e)")
  case (Inl err)
  with assms show ?thesis by (auto simp: submit_history_record_def)
next
  case (Inr c)
  obtain i port where c: "c = (i, port)" by (cases c)
  have id: "auth_identity_from_state (sn_auth_state s) = Some i" using history_contextD Inr c by blast
  obtain s1 e1 where rc: "reconcile_anonymous_history i port s e = (s1, e1)"
    by (cases "reconcile_anonymous_history i port s e")
  obtain r2 e2 where p: "await_call (hp_record port i rec) e1 = (r2, e2)"
    by (cases "await_call (hp_record port i rec) e1")
  obtain r3 s3 e3 where g: "history_result_for_current_identity s1 i r2 e2 = (r3, s3, e3)"
    by (cases "history_result_for_current_identity s1 i r2 e2")
  note a = history_answer [OF reconcile_for [OF history_for_start [OF assms(1) id] rc] history_fields_await [OF p] g]
  note unfold = submit_history_record_def Inr c rc p g
  show ?thesis
  proof (cases r3)
    case (Inl err)
    with assms(2) Inr c rc p g history_forD [OF a(1)] show ?thesis
      by (auto simp: submit_history_record_def)
  next
    case taken: (Inr taken)
    with assms(2) Inr c rc p g have "(if taken then publish_recorded_history_entry rec s3 e3 else (s3, e3)) = (s', e')"
      by (simp add: submit_history_record_def)
    then show ?thesis
      using publish_recorded_history_entry_ok [OF _ history_forD [OF a(1)] a(2) [OF taken]] history_forD [OF a(1)]
      by (cases taken) simp_all
  qed
qed

lemma record_history_listen_ok:
  assumes "history_ok s e" "record_history_listen rec s e = (s', e')"
  shows "history_ok s' e'"
proof (cases "auth_identity_from_state (sn_auth_state s) = None")
  case True
  with assms show ?thesis by (simp add: record_history_listen_def record_anonymous_listen_ok)
next
  case False
  obtain go s1 e1 where en: "ensure_history_settings s e = (go, s1, e1)"
    by (cases "ensure_history_settings s e")
  note a = ensure_history_settings_ok [OF assms(1) en]
  have clear: "history_ok s' e'"
    if "clear_anonymous_history_for_authenticated_disabled s1 e1 = (s', e')"
  proof -
    have "history_ok s1 (e1\<lparr>en_anonymous_history := b\<rparr>)" for b
      by (rule history_ok_frame [OF a]) simp_all
    with that show ?thesis
      by (auto simp: clear_anonymous_history_for_authenticated_disabled_def anonymous_history_clear_def Let_def
          split: if_splits elim: invalidate_pair)
  qed
  show ?thesis
    using assms(2) False a clear submit_history_record_ok [OF a, of rec s' e']
    by (simp add: record_history_listen_def en split: if_splits)
qed

lemma tracker_fields [simp]: "history_fields (sync_history_listen_tracker now st e) = history_fields e"
  by (simp add: sync_history_listen_tracker_def Let_def)

lemma record_playback_completion_ok:
  assumes "history_ok s e" "record_playback_completion payload s e = (s', e')"
  shows "history_ok s' e'"
proof -
  have "history_ok s (sync_history_listen_tracker now st e)" for now st
    by (rule history_ok_frame [OF assms(1)]) simp_all
  note b = this record_history_listen_ok [OF this]
  show ?thesis
    using assms b by (auto simp: record_playback_completion_def Let_def split: sum.splits if_splits)
qed

lemma set_recorded_fields [simp]: "history_fields (set_recorded_instance i e) = history_fields e"
  by (simp add: set_recorded_instance_def)

lemma record_once_ok:
  assumes "history_ok s e" "record_once rec s e = (s', e')"
  shows "history_ok s' e'"
proof -
  obtain s2 e2 where r: "record_history_listen rec s (set_recorded_instance (en_current_instance e) e) = (s2, e2)"
    by (cases "record_history_listen rec s (set_recorded_instance (en_current_instance e) e)")
  have "history_ok s (set_recorded_instance (en_current_instance e) e)"
    by (rule history_ok_frame [OF assms(1)]) simp_all
  note b = record_history_listen_ok [OF this r]
  have "history_ok s2 (set_recorded_instance None e2)" by (rule history_ok_frame [OF b]) simp_all
  with b assms(2) show ?thesis by (simp add: record_once_def r split: if_splits)
qed

lemma maybe_auto_record_history_ok:
  assumes "history_ok s e" "maybe_auto_record_history now s e = (s', e')"
  shows "history_ok s' e'"
proof -
  define e1 where "e1 = sync_history_listen_tracker now (sn_playback_state s) e"
  have e1: "history_ok s e1" unfolding e1_def by (rule history_ok_frame [OF assms(1)]) simp_all
  let ?s = "s\<lparr>sn_updated_at := max (sn_updated_at s) now\<rparr>"
  have s: "history_ok ?s e1" by (rule history_ok_frame [OF e1]) simp_all
  show ?thesis
    using assms(2) e1 s record_once_ok [OF s, of _ s' e']
    unfolding maybe_auto_record_history_def Let_def e1_def [symmetric]
    by (auto split: if_splits option.splits sum.splits)
qed

end
