(* ===== verification/Profile.thy ===== *)
theory Profile
  imports Account
begin

text \<open>
  Profile, preference and theme commands: the profile arms of \<open>dispatch_command\<close>
  (\<open>engine/core/dispatch_command.rs\<close>) with \<open>profile_context\<close>,
  \<open>profile_result_for_current_identity\<close>, \<open>validate_profile_owner\<close> and
  \<open>project_profile_preferences\<close>, and the theme arms, which never leave the engine. The profile
  port takes no identity: the answer is checked against the identity the command started with.
\<close>

subsection \<open>Context, guard, owner check\<close>

definition profile_login_required :: engine_error where
  "profile_login_required = engine_error_new LoginRequiredError
     ''profile session changed while the operation was in flight'' False"

definition profile_context ::
  "engine_snapshot \<Rightarrow> 'w profile_port option \<Rightarrow> (auth_identity \<times> 'w profile_port) result" where
  "profile_context s port =
     (case auth_identity_from_state (sn_auth_state s) of
        None \<Rightarrow> Err (engine_error_new LoginRequiredError
                  ''profile operation requires an authenticated session'' False)
      | Some identity \<Rightarrow>
          (case port of
             None \<Rightarrow> Err (engine_error_new FailedPrecondition ''profile service is not configured'' False)
           | Some port \<Rightarrow> Ok (identity, port)))"

definition forget_profile :: "'w engine \<Rightarrow> 'w engine" where
  "forget_profile e = e\<lparr>en_profile_identity := None\<rparr>"

definition profile_result_for_current_identity ::
  "engine_snapshot \<Rightarrow> auth_identity \<Rightarrow> 'a result \<Rightarrow> 'w engine \<Rightarrow>
     'a result \<times> engine_snapshot \<times> 'w engine" where
  "profile_result_for_current_identity s expected r e =
     (let auth = current_auth e;
          s = s\<lparr>sn_auth_state := auth\<rparr>
      in if auth_identity_from_state auth = Some expected then (r, s, e)
         else (Err profile_login_required, clear_profile_projection s, forget_profile e))"

definition validate_profile_owner :: "auth_identity \<Rightarrow> profile \<Rightarrow> unit result" where
  "validate_profile_owner identity prof =
     (if prof_external_user_id prof = ai_account_id identity then Ok ()
      else Err (engine_error_new Forbidden
             ''profile does not belong to the authenticated account'' False))"

text \<open>An awaited call of the profile port, its answer passed through the guard.\<close>

definition guarded_profile_call ::
  "auth_identity \<Rightarrow> ('w \<Rightarrow> 'a result \<times> 'w) \<Rightarrow> engine_snapshot \<Rightarrow> 'w engine \<Rightarrow>
     'a result \<times> engine_snapshot \<times> 'w engine" where
  "guarded_profile_call identity call s e =
     (let (r, e) = await_call call e in profile_result_for_current_identity s identity r e)"

text \<open>\<open>port.get().await\<close>, guarded, and checked to belong to the account.\<close>

definition own_profile ::
  "auth_identity \<Rightarrow> 'w profile_port \<Rightarrow> engine_snapshot \<Rightarrow> 'w engine \<Rightarrow>
     profile result \<times> engine_snapshot \<times> 'w engine" where
  "own_profile identity port s e =
     (let (r, s, e) = guarded_profile_call identity (prp_get port) s e
      in case r of
           Inl err \<Rightarrow> (Err err, s, e)
         | Inr prof \<Rightarrow> (map_ok (\<lambda>_. prof) (validate_profile_owner identity prof), s, e))"

subsection \<open>Showing and clearing\<close>

definition profile_failed ::
  "engine_error \<Rightarrow> engine_snapshot \<Rightarrow> 'w engine \<Rightarrow> engine_snapshot \<times> 'w engine" where
  "profile_failed err s e = (with_error (Some err) s, e)"

text \<open>\<open>Err(error) if error.error_type == NotFound\<close>: the account has no profile.\<close>

definition profile_absent ::
  "engine_error \<Rightarrow> engine_snapshot \<Rightarrow> 'w engine \<Rightarrow> engine_snapshot \<times> 'w engine" where
  "profile_absent err s e =
     (if error_type err = NotFound then (clear_profile_projection s, forget_profile e)
      else profile_failed err s e)"

definition claim_profile :: "auth_identity \<Rightarrow> 'w engine \<Rightarrow> 'w engine" where
  "claim_profile identity e = e\<lparr>en_profile_identity := Some identity\<rparr>"

text \<open>The remote theme of a preference document becomes the theme of the engine.\<close>

definition remote_theme :: "auth_identity \<Rightarrow> json_map \<Rightarrow> engine_snapshot \<Rightarrow> engine_snapshot" where
  "remote_theme identity values s =
     (case Option.bind (Option.bind (obj_get ''theme'' values) json_as_str) theme_from_wire of
        None \<Rightarrow> s
      | Some theme \<Rightarrow>
          s\<lparr>sn_theme_preference :=
              \<lparr>tp_theme = theme, tp_source = RemoteProfile,
               tp_revision = sat_add (tp_revision (sn_theme_preference s)) 1,
               tp_session_user_id = Some (ai_account_id identity)\<rparr>\<rparr>)"

definition project_profile_preferences ::
  "auth_identity \<Rightarrow> profile \<Rightarrow> json_map \<Rightarrow> engine_snapshot \<Rightarrow> engine_snapshot" where
  "project_profile_preferences identity prof values s =
     (remote_theme identity values s)\<lparr>sn_profile := Some prof, sn_profile_preferences := values\<rparr>"

subsection \<open>Operations\<close>

definition show_returned_profile ::
  "auth_identity \<Rightarrow> profile result \<times> engine_snapshot \<times> 'w engine \<Rightarrow> engine_snapshot \<times> 'w engine" where
  "show_returned_profile identity x =
     (case x of (r, s, e) \<Rightarrow>
        (case r of
           Inl err \<Rightarrow> profile_failed err s e
         | Inr prof \<Rightarrow>
             (case validate_profile_owner identity prof of
                Inl err \<Rightarrow> profile_failed err s e
              | Inr _ \<Rightarrow> (s\<lparr>sn_profile := Some prof\<rparr>, claim_profile identity e))))"

definition upsert_profile ::
  "string option \<Rightarrow> engine_snapshot \<Rightarrow> 'w engine \<Rightarrow> engine_snapshot \<times> 'w engine" where
  "upsert_profile display_name s e =
     (case profile_context s (en_profile_port e) of
        Inl err \<Rightarrow> profile_failed err s e
      | Inr (identity, port) \<Rightarrow>
          show_returned_profile identity
            (guarded_profile_call identity (prp_upsert port display_name) s e))"

definition get_profile :: "engine_snapshot \<Rightarrow> 'w engine \<Rightarrow> engine_snapshot \<times> 'w engine" where
  "get_profile s e =
     (case profile_context s (en_profile_port e) of
        Inl err \<Rightarrow> profile_absent err s e
      | Inr (identity, port) \<Rightarrow>
          (case guarded_profile_call identity (prp_get port) s e of
             (Inl err, s, e) \<Rightarrow> profile_absent err s e
           | (Inr prof, s, e) \<Rightarrow>
               (case validate_profile_owner identity prof of
                  Inl err \<Rightarrow> profile_absent err s e
                | Inr _ \<Rightarrow> (s\<lparr>sn_profile := Some prof\<rparr>, claim_profile identity e))))"

definition update_profile ::
  "profile_update \<Rightarrow> engine_snapshot \<Rightarrow> 'w engine \<Rightarrow> engine_snapshot \<times> 'w engine" where
  "update_profile update s e =
     (case profile_context s (en_profile_port e) of
        Inl err \<Rightarrow> profile_failed err s e
      | Inr (identity, port) \<Rightarrow>
          (case own_profile identity port s e of
             (Inl err, s, e) \<Rightarrow> profile_failed err s e
           | (Inr _, s, e) \<Rightarrow>
               show_returned_profile identity
                 (guarded_profile_call identity (prp_update port update) s e)))"

definition delete_profile :: "engine_snapshot \<Rightarrow> 'w engine \<Rightarrow> engine_snapshot \<times> 'w engine" where
  "delete_profile s e =
     (case profile_context s (en_profile_port e) of
        Inl err \<Rightarrow> profile_failed err s e
      | Inr (identity, port) \<Rightarrow>
          (case own_profile identity port s e of
             (Inl err, s, e) \<Rightarrow> profile_failed err s e
           | (Inr _, s, e) \<Rightarrow>
               (case guarded_profile_call identity (prp_delete port) s e of
                  (Inl err, s, e) \<Rightarrow> profile_failed err s e
                | (Inr _, s, e) \<Rightarrow> (clear_profile_projection s, forget_profile e))))"

definition load_profile_preferences :: "engine_snapshot \<Rightarrow> 'w engine \<Rightarrow> engine_snapshot \<times> 'w engine" where
  "load_profile_preferences s e =
     (case profile_context s (en_profile_port e) of
        Inl err \<Rightarrow> profile_absent err s e
      | Inr (identity, port) \<Rightarrow>
          (case own_profile identity port s e of
             (Inl err, s, e) \<Rightarrow> profile_absent err s e
           | (Inr prof, s, e) \<Rightarrow>
               (case guarded_profile_call identity (prp_get_preferences port) s e of
                  (Inl err, s, e) \<Rightarrow> profile_absent err s e
                | (Inr values, s, e) \<Rightarrow>
                    (project_profile_preferences identity prof values s, claim_profile identity e))))"

text \<open>\<open>merged.as_object().cloned().unwrap_or_default()\<close>.\<close>

definition as_object :: "json \<Rightarrow> json_map" where
  "as_object v = (case v of JObject m \<Rightarrow> m | _ \<Rightarrow> [])"

definition update_profile_preferences ::
  "json_map \<Rightarrow> engine_snapshot \<Rightarrow> 'w engine \<Rightarrow> engine_snapshot \<times> 'w engine" where
  "update_profile_preferences values s e =
     (case profile_context s (en_profile_port e) of
        Inl err \<Rightarrow> profile_failed err s e
      | Inr (identity, port) \<Rightarrow>
          (case own_profile identity port s e of
             (Inl err, s, e) \<Rightarrow> profile_failed err s e
           | (Inr prof, s, e) \<Rightarrow>
               (case guarded_profile_call identity (prp_get_preferences port) s e of
                  (Inl err, s, e) \<Rightarrow> profile_failed err s e
                | (Inr current, s, e) \<Rightarrow>
                    (let merged = as_object (merge_preferences (JObject current) (JObject values))
                     in case guarded_profile_call identity (prp_update_preferences port merged) s e of
                          (Inl err, s, e) \<Rightarrow> profile_failed err s e
                        | (Inr updated, s, e) \<Rightarrow>
                            (project_profile_preferences identity prof updated s,
                             claim_profile identity e)))))"

text \<open>The profile arms of \<open>dispatch_command\<close>.\<close>

definition dispatch_profile_command ::
  "engine_command_type \<Rightarrow> engine_snapshot \<Rightarrow> 'w engine \<Rightarrow> engine_snapshot \<times> 'w engine" where
  "dispatch_profile_command command s e =
     (case command of
        UpsertProfile display_name \<Rightarrow> upsert_profile display_name s e
      | GetProfile \<Rightarrow> get_profile s e
      | UpdateProfile update \<Rightarrow> update_profile update s e
      | DeleteProfile \<Rightarrow> delete_profile s e
      | LoadProfilePreferences \<Rightarrow> load_profile_preferences s e
      | UpdateProfilePreferences values \<Rightarrow> update_profile_preferences values s e
      | _ \<Rightarrow> (s, e))"

subsection \<open>Theme commands\<close>

definition hydrate_theme :: "theme_preference \<Rightarrow> engine_snapshot \<Rightarrow> engine_snapshot" where
  "hydrate_theme theme s =
     (let current = sn_theme_preference s
      in if \<not> is_initialized current \<or> tp_theme current \<noteq> theme
         then s\<lparr>sn_theme_preference :=
                  \<lparr>tp_theme = theme, tp_source = LocalCache,
                   tp_revision = sat_add (tp_revision current) 1, tp_session_user_id = None\<rparr>\<rparr>
         else s)"

definition set_theme :: "theme_preference \<Rightarrow> engine_snapshot \<Rightarrow> engine_snapshot" where
  "set_theme theme s =
     (let current = sn_theme_preference s
      in if tp_theme current \<noteq> theme \<or> tp_source current \<noteq> LocalUser
         then s\<lparr>sn_theme_preference :=
                  \<lparr>tp_theme = theme, tp_source = LocalUser,
                   tp_revision = sat_add (tp_revision current) 1,
                   tp_session_user_id = map_option ms_user_id (sn_session s)\<rparr>\<rparr>
         else s)"

definition apply_remote_theme ::
  "theme_preference \<Rightarrow> string \<Rightarrow> u64 \<Rightarrow> engine_snapshot \<Rightarrow> engine_snapshot" where
  "apply_remote_theme theme user baseline s =
     (let active_user_id = map_option ms_user_id (sn_session s);
          current = sn_theme_preference s;
          session_is_current = (active_user_id = Some user);
          revision_is_current = (tp_revision current = baseline);
          value_changed = (tp_theme current \<noteq> theme \<or> tp_source current \<noteq> RemoteProfile \<or>
                           tp_session_user_id current \<noteq> Some user)
      in if session_is_current \<and> revision_is_current \<and> value_changed
         then s\<lparr>sn_theme_preference :=
                  \<lparr>tp_theme = theme, tp_source = RemoteProfile,
                   tp_revision = sat_add (tp_revision current) 1,
                   tp_session_user_id = Some user\<rparr>\<rparr>
         else s)"

definition dispatch_theme_command :: "engine_command_type \<Rightarrow> engine_snapshot \<Rightarrow> engine_snapshot" where
  "dispatch_theme_command command s =
     (case command of
        HydrateThemePreference theme \<Rightarrow> hydrate_theme theme s
      | SetThemePreference theme \<Rightarrow> set_theme theme s
      | ApplyRemoteThemePreference theme user baseline \<Rightarrow> apply_remote_theme theme user baseline s
      | _ \<Rightarrow> s)"

subsection \<open>Ownership of the profile projection\<close>

interpretation prg: owned_projection profile_result_for_current_identity clear_profile_projection
  forget_profile profile_login_required profile_empty en_profile_identity "\<lambda>_. {}"
  by unfold_locales
     (auto simp: profile_result_for_current_identity_def current_identity_def Let_def
       profile_login_required_def forget_profile_def)

text \<open>The projection is owned by the identity the snapshot shows, and a profile in it is that
  account's.\<close>

definition profile_ok :: "engine_snapshot \<Rightarrow> 'w engine \<Rightarrow> bool" where
  "profile_ok s e =
     (en_profile_identity e = None \<and> profile_empty s \<or>
      (\<exists>i. en_profile_identity e = Some i \<and> auth_identity_from_state (sn_auth_state s) = Some i \<and>
        (\<forall>p. sn_profile s = Some p \<longrightarrow> prof_external_user_id p = ai_account_id i)))"

lemma profile_ok_owned:
  "profile_ok s e \<longleftrightarrow> prg.owned s e \<and>
     (\<forall>p i. sn_profile s = Some p \<longrightarrow> en_profile_identity e = Some i \<longrightarrow>
        prof_external_user_id p = ai_account_id i)"
  by (auto simp: profile_ok_def prg.owned_def profile_empty_def)

lemma profile_contextD:
  "profile_context s port = Inr (i, p) \<Longrightarrow>
     auth_identity_from_state (sn_auth_state s) = Some i \<and> port = Some p"
  by (auto simp: profile_context_def split: option.splits)

lemma guarded_profile_keeps:
  assumes "profile_ok s e" "auth_identity_from_state (sn_auth_state s) = Some i"
    and "guarded_profile_call i call s e = (res, s', e')"
  shows "profile_ok s' e'"
    and "res = Inr a \<Longrightarrow> auth_identity_from_state (sn_auth_state s') = Some i"
proof -
  obtain r e1 where c: "await_call call e = (r, e1)" by (cases "await_call call e")
  then have e1: "en_profile_identity e1 = en_profile_identity e"
    by (auto simp: await_call_def split: prod.splits)
  have g: "profile_result_for_current_identity s i r e1 = (res, s', e')"
    using assms(3) by (simp add: guarded_profile_call_def c)
  have "profile_ok s' e' \<and> (\<forall>a. res = Inr a \<longrightarrow> auth_identity_from_state (sn_auth_state s') = Some i)"
  proof (cases rule: prg.guard_cases [of e1 i s r])
    case current
    then have "s' = s\<lparr>sn_auth_state := current_auth e1\<rparr>" "e' = e1"
      using g by simp_all
    with assms(1,2) current(1) e1 show ?thesis
      by (auto simp: profile_ok_def profile_empty_def current_identity_def)
  next
    case changed
    then have "s' = clear_profile_projection (s\<lparr>sn_auth_state := current_auth e1\<rparr>)"
      "e' = forget_profile e1" "res = Err profile_login_required"
      using g by simp_all
    then show ?thesis by (simp add: profile_ok_def forget_profile_def)
  qed
  then show "profile_ok s' e'"
    and "res = Inr a \<Longrightarrow> auth_identity_from_state (sn_auth_state s') = Some i" by blast+
qed

lemma profile_ok_error [simp]: "profile_ok (with_error err s) e = profile_ok s e"
  by (simp add: profile_ok_def profile_empty_def with_error_def)

lemma profile_failed_ok: "profile_ok s e \<Longrightarrow> profile_failed err s e = (s', e') \<Longrightarrow> profile_ok s' e'"
  by (auto simp: profile_failed_def)

lemma profile_ok_cleared: "profile_ok (clear_profile_projection s) (forget_profile e)"
  by (simp add: profile_ok_def forget_profile_def)

lemma profile_absent_ok: "profile_ok s e \<Longrightarrow> profile_absent err s e = (s', e') \<Longrightarrow> profile_ok s' e'"
  by (auto simp: profile_absent_def profile_ok_cleared intro: profile_failed_ok split: if_splits)

lemma validate_profile_ownerD:
  "validate_profile_owner i p = Inr u \<Longrightarrow> prof_external_user_id p = ai_account_id i"
  by (simp add: validate_profile_owner_def split: if_splits)

lemma claim_profile_ok:
  assumes "auth_identity_from_state (sn_auth_state s) = Some i" "validate_profile_owner i p = Inr u"
  shows "profile_ok (s\<lparr>sn_profile := Some p\<rparr>) (claim_profile i e)"
    and "profile_ok (project_profile_preferences i p values s) (claim_profile i e)"
  using assms by (auto simp: profile_ok_def claim_profile_def project_profile_preferences_def
      remote_theme_def dest: validate_profile_ownerD split: option.splits)

lemma own_profile_keeps:
  assumes "profile_ok s e" "auth_identity_from_state (sn_auth_state s) = Some i"
    and "own_profile i port s e = (res, s', e')"
  shows "profile_ok s' e'"
    and "res = Inr p \<Longrightarrow> auth_identity_from_state (sn_auth_state s') = Some i \<and>
      validate_profile_owner i p = Inr ()"
proof -
  obtain r s1 e1 where g: "guarded_profile_call i (prp_get port) s e = (r, s1, e1)"
    by (cases "guarded_profile_call i (prp_get port) s e")
  note k = guarded_profile_keeps [OF assms(1,2) g]
  have eq: "s' = s1 \<and> e' = e1"
    using assms(3) by (auto simp: own_profile_def g split: sum.splits)
  then show "profile_ok s' e'" using k(1) by simp
  show "auth_identity_from_state (sn_auth_state s') = Some i \<and> validate_profile_owner i p = Inr ()"
    if "res = Inr p"
  proof (cases r)
    case Inl
    with assms(3) that show ?thesis by (simp add: own_profile_def g)
  next
    case (Inr q)
    with assms(3) that have "validate_profile_owner i q = Inr () \<and> q = p"
      by (cases "validate_profile_owner i q") (simp_all add: own_profile_def g)
    with k(2) [OF Inr] eq show ?thesis by auto
  qed
qed

lemma show_returned_profile_ok:
  assumes "profile_ok s e" "auth_identity_from_state (sn_auth_state s) = Some i"
    and "show_returned_profile i (guarded_profile_call i call s e) = (s', e')"
  shows "profile_ok s' e'"
proof -
  obtain r s1 e1 where g: "guarded_profile_call i call s e = (r, s1, e1)"
    by (cases "guarded_profile_call i call s e")
  note k = guarded_profile_keeps [OF assms(1,2) g]
  show ?thesis
  proof (cases r)
    case Inl
    with assms(3) k(1) show ?thesis by (simp add: show_returned_profile_def g profile_failed_ok)
  next
    case (Inr p)
    with assms(3) k(1) k(2) [OF Inr] show ?thesis
      by (cases "validate_profile_owner i p")
         (auto simp: show_returned_profile_def g intro: profile_failed_ok claim_profile_ok)
  qed
qed

lemma load_profile_preferences_ok:
  assumes "profile_ok s e" "load_profile_preferences s e = (s', e')"
  shows "profile_ok s' e'"
proof (cases "profile_context s (en_profile_port e)")
  case (Inl err)
  with assms show ?thesis by (simp add: load_profile_preferences_def profile_absent_ok)
next
  case (Inr c)
  obtain i port where c: "c = (i, port)" by (cases c)
  note i = profile_contextD [OF Inr [unfolded c], THEN conjunct1]
  obtain r s1 e1 where o: "own_profile i port s e = (r, s1, e1)" by (cases "own_profile i port s e")
  note k = own_profile_keeps [OF assms(1) i o]
  show ?thesis
  proof (cases r)
    case (Inl err)
    with assms(2) k(1) show ?thesis by (simp add: load_profile_preferences_def Inr c o profile_absent_ok)
  next
    case r: (Inr p)
    obtain q s2 e2 where g: "guarded_profile_call i (prp_get_preferences port) s1 e1 = (q, s2, e2)"
      by (cases "guarded_profile_call i (prp_get_preferences port) s1 e1")
    note k2 = guarded_profile_keeps [OF k(1) _ g]
    show ?thesis
      using assms(2) k(2) [OF r] k2
      by (cases q) (auto simp: load_profile_preferences_def Inr c o r g intro: profile_absent_ok claim_profile_ok)
  qed
qed

lemma update_profile_preferences_ok:
  assumes "profile_ok s e" "update_profile_preferences values s e = (s', e')"
  shows "profile_ok s' e'"
proof (cases "profile_context s (en_profile_port e)")
  case (Inl err)
  with assms show ?thesis by (simp add: update_profile_preferences_def profile_failed_ok)
next
  case (Inr c)
  obtain i port where c: "c = (i, port)" by (cases c)
  note i = profile_contextD [OF Inr [unfolded c], THEN conjunct1]
  obtain r s1 e1 where o: "own_profile i port s e = (r, s1, e1)" by (cases "own_profile i port s e")
  note k = own_profile_keeps [OF assms(1) i o]
  show ?thesis
  proof (cases r)
    case (Inl err)
    with assms(2) k(1) show ?thesis by (simp add: update_profile_preferences_def Inr c o profile_failed_ok)
  next
    case r: (Inr p)
    obtain q s2 e2 where g: "guarded_profile_call i (prp_get_preferences port) s1 e1 = (q, s2, e2)"
      by (cases "guarded_profile_call i (prp_get_preferences port) s1 e1")
    note k2 = guarded_profile_keeps [OF k(1) k(2) [OF r, THEN conjunct1] g]
    show ?thesis
    proof (cases q)
      case (Inl err)
      with assms(2) k2(1) show ?thesis by (simp add: update_profile_preferences_def \<open>profile_context s _ = _\<close> c o r g profile_failed_ok)
    next
      case q: (Inr current)
      let ?call = "prp_update_preferences port (as_object (merge_preferences (JObject current) (JObject values)))"
      obtain t s3 e3 where g3: "guarded_profile_call i ?call s2 e2 = (t, s3, e3)"
        by (cases "guarded_profile_call i ?call s2 e2")
      note k3 = guarded_profile_keeps [OF k2(1) k2(2) [OF q] g3]
      show ?thesis
        using assms(2) k3 k(2) [OF r]
        by (cases t) (auto simp: update_profile_preferences_def Let_def \<open>profile_context s _ = _\<close> c o r g q g3
            simp del: merge_preferences.simps intro: profile_failed_ok claim_profile_ok)
    qed
  qed
qed

lemma get_profile_ok:
  assumes "profile_ok s e" "get_profile s e = (s', e')"
  shows "profile_ok s' e'"
proof (cases "profile_context s (en_profile_port e)")
  case (Inl err)
  with assms show ?thesis by (simp add: get_profile_def profile_absent_ok)
next
  case (Inr c)
  obtain i port where c: "c = (i, port)" by (cases c)
  note i = profile_contextD [OF Inr [unfolded c], THEN conjunct1]
  obtain r s1 e1 where g: "guarded_profile_call i (prp_get port) s e = (r, s1, e1)"
    by (cases "guarded_profile_call i (prp_get port) s e")
  note k = guarded_profile_keeps [OF assms(1) i g]
  show ?thesis
  proof (cases r)
    case (Inl err)
    with assms(2) k(1) show ?thesis by (simp add: get_profile_def Inr c g profile_absent_ok)
  next
    case r: (Inr p)
    with assms(2) k(1) k(2) [OF r] show ?thesis
      by (cases "validate_profile_owner i p")
         (auto simp: get_profile_def Inr c g intro: profile_absent_ok claim_profile_ok)
  qed
qed

lemma delete_profile_ok:
  assumes "profile_ok s e" "delete_profile s e = (s', e')"
  shows "profile_ok s' e'"
proof (cases "profile_context s (en_profile_port e)")
  case (Inl err)
  with assms show ?thesis by (simp add: delete_profile_def profile_failed_ok)
next
  case (Inr c)
  obtain i port where c: "c = (i, port)" by (cases c)
  note i = profile_contextD [OF Inr [unfolded c], THEN conjunct1]
  obtain r s1 e1 where o: "own_profile i port s e = (r, s1, e1)" by (cases "own_profile i port s e")
  note k = own_profile_keeps [OF assms(1) i o]
  show ?thesis
  proof (cases r)
    case (Inl err)
    with assms(2) k(1) show ?thesis by (simp add: delete_profile_def Inr c o profile_failed_ok)
  next
    case r: (Inr p)
    obtain q s2 e2 where g: "guarded_profile_call i (prp_delete port) s1 e1 = (q, s2, e2)"
      by (cases "guarded_profile_call i (prp_delete port) s1 e1")
    note k2 = guarded_profile_keeps [OF k(1) _ g]
    show ?thesis
      using assms(2) k(2) [OF r] k2(1)
      by (cases q) (auto simp: delete_profile_def Inr c o r g profile_ok_cleared intro: profile_failed_ok)
  qed
qed

lemma update_profile_ok:
  assumes "profile_ok s e" "update_profile update s e = (s', e')"
  shows "profile_ok s' e'"
proof (cases "profile_context s (en_profile_port e)")
  case (Inl err)
  with assms show ?thesis by (simp add: update_profile_def profile_failed_ok)
next
  case (Inr c)
  obtain i port where c: "c = (i, port)" by (cases c)
  note i = profile_contextD [OF Inr [unfolded c], THEN conjunct1]
  obtain r s1 e1 where o: "own_profile i port s e = (r, s1, e1)" by (cases "own_profile i port s e")
  note k = own_profile_keeps [OF assms(1) i o]
  show ?thesis
    using assms(2) k show_returned_profile_ok [of s1 e1 i]
    by (cases r) (auto simp: update_profile_def Inr c o intro: profile_failed_ok)
qed

lemma upsert_profile_ok:
  assumes "profile_ok s e" "upsert_profile name s e = (s', e')"
  shows "profile_ok s' e'"
  using assms show_returned_profile_ok [OF assms(1)] profile_contextD [of s "en_profile_port e"]
  by (cases "profile_context s (en_profile_port e)")
     (auto simp: upsert_profile_def intro: profile_failed_ok)

lemma dispatch_profile_ok:
  assumes "profile_ok s e" "dispatch_profile_command command s e = (s', e')"
  shows "profile_ok s' e'"
  using assms upsert_profile_ok [OF assms(1)] get_profile_ok [OF assms(1)] update_profile_ok [OF assms(1)]
    delete_profile_ok [OF assms(1)] load_profile_preferences_ok [OF assms(1)]
    update_profile_preferences_ok [OF assms(1)]
  by (cases command) (auto simp: dispatch_profile_command_def)

subsection \<open>Properties\<close>

text \<open>Profile data belongs to whoever is logged in. Along any sequence of profile commands,
  whatever the profile port answers and whenever the login changes, the profile and the
  preferences in the snapshot are empty or owned by the identity the snapshot shows, and a
  profile that is shown carries that account's user id: the answer for another account is
  refused.\<close>

lemma profile_commands_keep_ownership:
  assumes "profile_ok s e"
  shows "case fold (\<lambda>c (s, e). dispatch_profile_command c s e) commands (s, e) of
    (s', e') \<Rightarrow> profile_ok s' e'"
  using assms
proof (induction commands arbitrary: s e)
  case (Cons c commands)
  obtain s2 e2 where d: "dispatch_profile_command c s e = (s2, e2)"
    by (cases "dispatch_profile_command c s e")
  show ?case
    using Cons.IH [OF dispatch_profile_ok [OF Cons.prems d]] by (simp add: d)
qed simp

lemma profile_commands_keep_ownership_witness:
  "case fold (\<lambda>c (s, e). dispatch_profile_command c s e) [LoadProfilePreferences, DeleteProfile]
     (snapshot_default, engine_new null_codec id () 7) of (s', e') \<Rightarrow> profile_ok s' e'"
  by (rule profile_commands_keep_ownership)
     (simp add: profile_ok_def profile_empty_def snapshot_default_def)

text \<open>One theme command keeps the preference or replaces it under the next revision.\<close>

lemma theme_command_revision:
  "sn_theme_preference (dispatch_theme_command c s) = sn_theme_preference s \<or>
   tp_revision (sn_theme_preference (dispatch_theme_command c s)) =
     sat_add (tp_revision (sn_theme_preference s)) 1"
  by (simp add: dispatch_theme_command_def hydrate_theme_def set_theme_def apply_remote_theme_def Let_def
      split: engine_command_type.split)

lemma unat_sat_add_1: "unat (x :: u64) < 2 ^ 64 - 1 \<Longrightarrow> unat (sat_add x 1) = Suc (unat x)"
  by (simp add: unat_sat_add)

lemma theme_commands_revision:
  assumes "unat (tp_revision (sn_theme_preference s)) + length commands < 2 ^ 64"
  shows "sn_theme_preference (fold dispatch_theme_command commands s) = sn_theme_preference s \<or>
    unat (tp_revision (sn_theme_preference s)) <
      unat (tp_revision (sn_theme_preference (fold dispatch_theme_command commands s)))"
  using assms
proof (induction commands arbitrary: s)
  case (Cons c commands)
  let ?s = "dispatch_theme_command c s"
  from theme_command_revision [of c s] show ?case
  proof
    assume same: "sn_theme_preference ?s = sn_theme_preference s"
    with Cons.IH [of ?s] Cons.prems show ?thesis by simp
  next
    assume "tp_revision (sn_theme_preference ?s) = sat_add (tp_revision (sn_theme_preference s)) 1"
    then have next_rev: "unat (tp_revision (sn_theme_preference ?s)) = Suc (unat (tp_revision (sn_theme_preference s)))"
      using Cons.prems by (simp add: unat_sat_add_1)
    with Cons.IH [of ?s] Cons.prems show ?thesis by fastforce
  qed
qed simp

text \<open>A remote theme never overwrites a later choice. Whatever theme commands run between
  reading the revision of the preference and the arrival of the theme stored in the profile: if
  they changed the preference, the remote theme with the revision read before is ignored. (The
  revision would have to be incremented beyond 64 bits otherwise.)\<close>

lemma stale_remote_theme_ignored:
  assumes "unat (tp_revision (sn_theme_preference s)) + length commands < 2 ^ 64"
    and "sn_theme_preference (fold dispatch_theme_command commands s) \<noteq> sn_theme_preference s"
  shows "dispatch_theme_command
      (ApplyRemoteThemePreference theme user (tp_revision (sn_theme_preference s)))
      (fold dispatch_theme_command commands s) = fold dispatch_theme_command commands s"
proof -
  have "tp_revision (sn_theme_preference (fold dispatch_theme_command commands s)) \<noteq>
      tp_revision (sn_theme_preference s)"
    using theme_commands_revision [OF assms(1)] assms(2) by auto
  then show ?thesis
    by (simp add: dispatch_theme_command_def apply_remote_theme_def Let_def)
qed

lemma stale_remote_theme_ignored_witness:
  "tp_theme (sn_theme_preference (dispatch_theme_command
     (ApplyRemoteThemePreference ForestTechLight ''u'' 0)
     (fold dispatch_theme_command [SetThemePreference ForestTechDark] snapshot_default))) = ForestTechDark"
proof -
  let ?s = "fold dispatch_theme_command [SetThemePreference ForestTechDark] snapshot_default"
  have rev: "tp_revision (sn_theme_preference snapshot_default) = 0"
    by (simp add: snapshot_default_def theme_preference_state_default_def)
  have theme: "tp_theme (sn_theme_preference ?s) = ForestTechDark"
    "tp_source (sn_theme_preference ?s) = LocalUser"
    by (simp_all add: dispatch_theme_command_def set_theme_def snapshot_default_def
        theme_preference_state_default_def Let_def)
  have "tp_source (sn_theme_preference snapshot_default) = Uninitialized"
    by (simp add: snapshot_default_def theme_preference_state_default_def)
  then have "sn_theme_preference ?s \<noteq> sn_theme_preference snapshot_default"
    using theme(2) by auto
  from stale_remote_theme_ignored [OF _ this, of ForestTechLight "''u''"]
  show ?thesis using theme(1) by (simp add: rev)
qed

end
