(* ===== verification/Catalog.thy ===== *)
theory Catalog
  imports EngineState
begin

text \<open>
  Backend status, catalog search and browsing with their continuations, and the discovery feeds:
  the corresponding arms of \<open>dispatch_command\<close> (\<open>engine/core/dispatch_command.rs\<close>). A catalog
  listing is remembered under an operation id, with everything needed to ask for the next page;
  the discovery feed has one operation, which belongs to the identity it was loaded for.
\<close>

subsection \<open>Backend status\<close>

definition refresh_backend_status :: "engine_snapshot \<Rightarrow> 'w engine \<Rightarrow> engine_snapshot \<times> 'w engine" where
  "refresh_backend_status s e =
     (let (r, e) = (case en_system_port e of
                      Some port \<Rightarrow> await_call (sp_get_status port) e
                    | None \<Rightarrow> (Err (engine_error_new ServiceUnavailableError
                                      ''backend is not configured'' False), e))
      in case r of
           Inr status \<Rightarrow>
             (with_backend_availability BackendAvailable (with_backend_status (Some status) s), e)
         | Inl err \<Rightarrow>
             (with_backend_availability (BackendUnavailable (unavailable_reason err))
                (with_error (Some err) s), e))"

subsection \<open>Catalog listings\<close>

text \<open>\<open>self.catalog_operations.insert(operation_id, operation)\<close> under a fresh id.\<close>

definition remember_catalog_operation ::
  "u64 \<Rightarrow> catalog_operation \<Rightarrow> 'w engine \<Rightarrow> string \<times> 'w engine" where
  "remember_catalog_operation now operation e =
     (let (operation_id, e) = allocate_catalog_operation_id now e
      in (operation_id, e\<lparr>en_catalog_operations := (en_catalog_operations e)(operation_id \<mapsto> operation)\<rparr>))"

definition search_catalog ::
  "u64 \<Rightarrow> string \<Rightarrow> page_request \<Rightarrow> engine_snapshot \<Rightarrow> 'w engine \<Rightarrow>
     string option \<times> engine_snapshot \<times> 'w engine" where
  "search_catalog now query page s e =
     (let s = with_busy True s;
          (r, e) = prefetched_or as_search (rp_search_catalog (en_repository e) query page) e;
          (message, s, e) =
            (case r of
               Inr result \<Rightarrow>
                 (let (operation_id, e) =
                        remember_catalog_operation now
                          (CatalogSearch query (page_size page) (pr_next_page_token result)
                             (pr_items result)) e
                  in (Some operation_id, with_search_results (pr_items result) s, e))
             | Inl err \<Rightarrow> (None, with_error (Some err) s, e))
      in (message, with_busy False s, e))"

definition browse_catalog ::
  "u64 \<Rightarrow> string option \<Rightarrow> string list \<Rightarrow> page_request \<Rightarrow> engine_snapshot \<Rightarrow> 'w engine \<Rightarrow>
     string option \<times> engine_snapshot \<times> 'w engine" where
  "browse_catalog now parent_id genres page s e =
     (let s = with_busy True s;
          (r, e) = await_call (rp_browse_catalog (en_repository e) parent_id genres page) e;
          (message, s, e) =
            (case r of
               Inr result \<Rightarrow>
                 (let (operation_id, e) =
                        remember_catalog_operation now
                          (CatalogBrowse parent_id genres (page_size page) (pr_next_page_token result)
                             (pr_items result)) e
                  in (Some operation_id, with_browse_results (pr_items result) s, e))
             | Inl err \<Rightarrow> (None, with_error (Some err) s, e))
      in (message, with_busy False s, e))"

text \<open>The operation after a further page: the items so far and the next token. Only an operation
  of the same kind is updated.\<close>

definition advance_search ::
  "string \<Rightarrow> page_token option \<Rightarrow> media_item list \<Rightarrow> 'w engine \<Rightarrow> 'w engine" where
  "advance_search operation_id next_token items e =
     (case en_catalog_operations e operation_id of
        Some (CatalogSearch query sz _ _) \<Rightarrow>
          e\<lparr>en_catalog_operations := (en_catalog_operations e)
              (operation_id \<mapsto> CatalogSearch query sz next_token items)\<rparr>
      | _ \<Rightarrow> e)"

definition advance_browse ::
  "string \<Rightarrow> page_token option \<Rightarrow> media_item list \<Rightarrow> 'w engine \<Rightarrow> 'w engine" where
  "advance_browse operation_id next_token items e =
     (case en_catalog_operations e operation_id of
        Some (CatalogBrowse parent_id genres sz _ _) \<Rightarrow>
          e\<lparr>en_catalog_operations := (en_catalog_operations e)
              (operation_id \<mapsto> CatalogBrowse parent_id genres sz next_token items)\<rparr>
      | _ \<Rightarrow> e)"

definition continue_search ::
  "string \<Rightarrow> string \<Rightarrow> u32 \<Rightarrow> page_token \<Rightarrow> media_item list \<Rightarrow> engine_snapshot \<Rightarrow> 'w engine \<Rightarrow>
     string option \<times> engine_snapshot \<times> 'w engine" where
  "continue_search operation_id query sz token accumulated s e =
     (let (r, e) = prefetched_or as_search
            (rp_search_catalog (en_repository e) query \<lparr>page_size = sz, page_token = Some token\<rparr>) e
      in case r of
           Inr result \<Rightarrow>
             (let accumulated = accumulated @ pr_items result
              in (Some operation_id, with_search_results accumulated s,
                  advance_search operation_id (pr_next_page_token result) accumulated e))
         | Inl err \<Rightarrow> (None, with_error (Some err) s, e))"

definition continue_browse ::
  "string \<Rightarrow> string option \<Rightarrow> string list \<Rightarrow> u32 \<Rightarrow> page_token \<Rightarrow> media_item list \<Rightarrow>
     engine_snapshot \<Rightarrow> 'w engine \<Rightarrow> string option \<times> engine_snapshot \<times> 'w engine" where
  "continue_browse operation_id parent_id genres sz token accumulated s e =
     (let (r, e) = await_call
            (rp_browse_catalog (en_repository e) parent_id genres
               \<lparr>page_size = sz, page_token = Some token\<rparr>) e
      in case r of
           Inr result \<Rightarrow>
             (let accumulated = accumulated @ pr_items result
              in (Some operation_id, with_browse_results accumulated s,
                  advance_browse operation_id (pr_next_page_token result) accumulated e))
         | Inl err \<Rightarrow> (None, with_error (Some err) s, e))"

definition load_next_catalog_page ::
  "string \<Rightarrow> engine_snapshot \<Rightarrow> 'w engine \<Rightarrow> string option \<times> engine_snapshot \<times> 'w engine" where
  "load_next_catalog_page operation_id s e =
     (let s = with_busy True s;
          (message, s, e) =
            (case en_catalog_operations e operation_id of
               Some (CatalogSearch query sz (Some token) items) \<Rightarrow>
                 continue_search operation_id query sz token items s e
             | Some (CatalogBrowse parent_id genres sz (Some token) items) \<Rightarrow>
                 continue_browse operation_id parent_id genres sz token items s e
             | Some _ \<Rightarrow>
                 (None, with_error (Some (engine_error_new FailedPrecondition
                    ''catalog operation has no next page'' False)) s, e)
             | None \<Rightarrow>
                 (None, with_error (Some (engine_error_new InvalidInput
                    ''unknown catalog operation'' False)) s, e))
      in (message, with_busy False s, e))"

text \<open>\<open>actor_catalog_continuation\<close>: the page a worker fetches ahead.\<close>

definition actor_catalog_continuation :: "'w engine \<Rightarrow> string \<Rightarrow> (string \<times> u32 \<times> page_token) option" where
  "actor_catalog_continuation e operation_id =
     (case en_catalog_operations e operation_id of
        Some (CatalogSearch query sz (Some token) _) \<Rightarrow> Some (query, sz, token)
      | _ \<Rightarrow> None)"

subsection \<open>Discovery feeds\<close>

definition discovery_error :: "engine_error_type \<Rightarrow> string \<Rightarrow> engine_error" where
  "discovery_error ty msg = engine_error_new ty msg False"

definition drop_discovery :: "engine_snapshot \<Rightarrow> 'w engine \<Rightarrow> engine_snapshot \<times> 'w engine" where
  "drop_discovery s e = (with_discovery_next None s, e\<lparr>en_discovery_operation := None\<rparr>)"

text \<open>The request of a feed: the result, and the engine with the busy snapshot published when the
  port is asked.\<close>

definition request_feed ::
  "discovery_feed \<Rightarrow> string list \<Rightarrow> page_request \<Rightarrow> engine_snapshot \<Rightarrow> 'w engine \<Rightarrow>
     engine_track paged_result result \<times> engine_snapshot \<times> 'w engine" where
  "request_feed feed excluded page s e =
     (case (auth_identity_from_state (sn_auth_state s), en_discovery_port e) of
        (Some identity, Some port) \<Rightarrow>
          (let s = with_busy True s;
               e = publish_intermediate_snapshot s e;
               (r, e) = await_call (dp_get_feed port feed identity excluded page) e
           in (r, s, e))
      | (None, _) \<Rightarrow>
          (Err (discovery_error LoginRequiredError ''discovery requires an authenticated session''), s, e)
      | (Some _, None) \<Rightarrow>
          (Err (discovery_error FailedPrecondition ''discovery service is not configured''), s, e))"

definition show_feed ::
  "discovery_feed \<Rightarrow> auth_identity option \<Rightarrow> string list \<Rightarrow> page_request \<Rightarrow>
     engine_track paged_result \<Rightarrow> engine_snapshot \<Rightarrow> 'w engine \<Rightarrow> engine_snapshot \<times> 'w engine" where
  "show_feed feed auth_identity excluded page result s e =
     (let items = map project_discovery_track (pr_items result);
          (s, e) =
            (if feed = Discovery
             then (with_discovery_next (pr_next_page_token result) s,
                   e\<lparr>en_discovery_operation := map_option (\<lambda>identity.
                       \<lparr>dop_auth_identity = identity, dop_excluded_track_ids = excluded,
                        dop_page_size = page_size page,
                        dop_next_page_token = pr_next_page_token result,
                        dop_items = items\<rparr>) auth_identity\<rparr>)
             else (s, e))
      in (with_feed_results feed items s, e\<lparr>en_feed_identity := auth_identity\<rparr>))"

text \<open>After the answer: the auth state is read again, and a result for another identity than the
  one asked for is not shown.\<close>

definition settle_feed ::
  "discovery_feed \<Rightarrow> auth_identity option \<Rightarrow> string list \<Rightarrow> page_request \<Rightarrow>
     engine_track paged_result result \<Rightarrow> engine_snapshot \<Rightarrow> 'w engine \<Rightarrow> engine_snapshot \<times> 'w engine" where
  "settle_feed feed auth_identity excluded page r s e =
     (let s = s\<lparr>sn_auth_state := current_auth e\<rparr>
      in if auth_identity_from_state (sn_auth_state s) \<noteq> auth_identity
         then (let (s, e) = (if feed = Discovery then drop_discovery s e else (s, e))
               in (with_error (Some (discovery_error LoginRequiredError
                     ''discovery session changed while loading'')) (with_feed_results feed [] s), e))
         else case r of
                Inr result \<Rightarrow> show_feed feed auth_identity excluded page result s e
              | Inl err \<Rightarrow> (with_error (Some err) s, e))"

definition load_feed ::
  "discovery_feed \<Rightarrow> string list \<Rightarrow> page_request \<Rightarrow> engine_snapshot \<Rightarrow> 'w engine \<Rightarrow>
     engine_snapshot \<times> 'w engine" where
  "load_feed feed excluded page s e =
     (let (s, e) = (if feed = Discovery then drop_discovery s e else (s, e));
          s = with_feed_results feed [] s;
          auth_identity = auth_identity_from_state (sn_auth_state s);
          (r, s, e) = request_feed feed excluded page s e;
          (s, e) = settle_feed feed auth_identity excluded page r s e
      in (with_busy False s, e))"

definition reset_discovery ::
  "string \<Rightarrow> engine_snapshot \<Rightarrow> 'w engine \<Rightarrow> engine_snapshot \<times> 'w engine" where
  "reset_discovery msg s e =
     (with_error (Some (discovery_error LoginRequiredError msg))
        (with_discovery_next None (with_discovery_results [] s)),
      e\<lparr>en_discovery_operation := None\<rparr>)"

text \<open>\<open>if let Some(active) = self.discovery_operation.as_mut()\<close>.\<close>

definition advance_discovery ::
  "page_token option \<Rightarrow> media_item list \<Rightarrow> 'w engine \<Rightarrow> 'w engine" where
  "advance_discovery next_token items e =
     e\<lparr>en_discovery_operation := map_option
         (\<lambda>active. active\<lparr>dop_next_page_token := next_token, dop_items := items\<rparr>)
         (en_discovery_operation e)\<rparr>"

definition continue_discovery ::
  "auth_identity \<Rightarrow> discovery_operation \<Rightarrow> page_token \<Rightarrow> engine_snapshot \<Rightarrow> 'w engine \<Rightarrow>
     engine_snapshot \<times> 'w engine" where
  "continue_discovery identity operation token s e =
     (let s = with_busy True s;
          e = publish_intermediate_snapshot s e;
          (r, e) = (case en_discovery_port e of
                      Some port \<Rightarrow>
                        await_call (dp_get_feed port Discovery identity (dop_excluded_track_ids operation)
                          \<lparr>page_size = dop_page_size operation, page_token = Some token\<rparr>) e
                    | None \<Rightarrow>
                        (Err (discovery_error FailedPrecondition
                           ''discovery service is not configured''), e));
          s = s\<lparr>sn_auth_state := current_auth e\<rparr>
      in if auth_identity_from_state (sn_auth_state s) \<noteq> Some identity
         then reset_discovery ''discovery session changed while loading'' s e
         else case r of
                Inr result \<Rightarrow>
                  (let accumulated = dop_items operation @ map project_discovery_track (pr_items result)
                   in (with_discovery_next (pr_next_page_token result)
                         (with_discovery_results accumulated s),
                       advance_discovery (pr_next_page_token result) accumulated e))
              | Inl err \<Rightarrow> (with_error (Some err) s, e))"

definition load_next_discovery_page :: "engine_snapshot \<Rightarrow> 'w engine \<Rightarrow> engine_snapshot \<times> 'w engine" where
  "load_next_discovery_page s e =
     (let (s, e) =
        (case (auth_identity_from_state (sn_auth_state s), en_discovery_operation e) of
           (None, _) \<Rightarrow> reset_discovery ''discovery requires an authenticated session'' s e
         | (Some identity, Some operation) \<Rightarrow>
             (if identity \<noteq> dop_auth_identity operation
              then reset_discovery ''discovery session changed'' s e
              else case dop_next_page_token operation of
                     Some token \<Rightarrow> continue_discovery identity operation token s e
                   | None \<Rightarrow> (with_error (Some (discovery_error FailedPrecondition
                               ''discovery operation has no next page'')) s, e))
         | (Some _, None) \<Rightarrow>
             (with_error (Some (discovery_error InvalidInput ''no active discovery operation'')) s, e))
      in (with_busy False s, e))"

definition dispatch_catalog_command ::
  "u64 \<Rightarrow> engine_command_type \<Rightarrow> engine_snapshot \<Rightarrow> 'w engine \<Rightarrow>
     string option \<times> engine_snapshot \<times> 'w engine" where
  "dispatch_catalog_command now command s e =
     (case command of
        RefreshBackendStatus \<Rightarrow> (None, refresh_backend_status s e)
      | SearchCatalog query page \<Rightarrow> search_catalog now query page s e
      | BrowseCatalog parent_id genres page \<Rightarrow> browse_catalog now parent_id genres page s e
      | LoadNextCatalogPage operation_id \<Rightarrow> load_next_catalog_page operation_id s e
      | LoadDiscoveryFeed excluded page \<Rightarrow> (None, load_feed Discovery excluded page s e)
      | LoadForYouFeed excluded page \<Rightarrow> (None, load_feed ForYou excluded page s e)
      | LoadRecommendations excluded page \<Rightarrow> (None, load_feed Recommendations excluded page s e)
      | LoadNextDiscoveryPage \<Rightarrow> (None, load_next_discovery_page s e)
      | _ \<Rightarrow> (None, s, e))"

subsection \<open>Paging\<close>

text \<open>A backend that serves one listing: \<open>pg\<close> gives the page of a token. The tokens \<open>ts\<close> link the
  pages that follow the page of \<open>t\<close>.\<close>

definition serves_search ::
  "'w repository \<Rightarrow> string \<Rightarrow> u32 \<Rightarrow> (page_token option \<Rightarrow> media_item paged_result) \<Rightarrow> bool" where
  "serves_search repo query sz pg =
     (\<forall>t w. rp_search_catalog repo query \<lparr>page_size = sz, page_token = t\<rparr> w = (Ok (pg t), w))"

fun linked :: "('t option \<Rightarrow> 't option) \<Rightarrow> 't option \<Rightarrow> 't list \<Rightarrow> bool" where
  "linked next_token t [] = True"
| "linked next_token t (u # ts) = (next_token t = Some u \<and> linked next_token (Some u) ts)"

fun last_token :: "'t option \<Rightarrow> 't list \<Rightarrow> 't option" where
  "last_token t [] = t"
| "last_token t (u # ts) = last_token (Some u) ts"

fun load_pages :: "nat \<Rightarrow> string \<Rightarrow> engine_snapshot \<times> 'w engine \<Rightarrow> engine_snapshot \<times> 'w engine" where
  "load_pages 0 operation_id x = x"
| "load_pages (Suc n) operation_id (s, e) =
     load_pages n operation_id (snd (load_next_catalog_page operation_id s e))"

text \<open>The operation \<open>operation_id\<close> has seen the pages up to the one of \<open>t\<close>.\<close>

definition listing ::
  "string \<Rightarrow> u32 \<Rightarrow> (page_token option \<Rightarrow> media_item paged_result) \<Rightarrow> string \<Rightarrow> page_token option \<Rightarrow>
     media_item list \<Rightarrow> engine_snapshot \<times> 'w engine \<Rightarrow> bool" where
  "listing query sz pg operation_id t items x =
     (case x of (s, e) \<Rightarrow>
        serves_search (en_repository e) query sz pg \<and> en_prefetched e = None \<and>
        sn_search_results s = items \<and>
        en_catalog_operations e operation_id =
          Some (CatalogSearch query sz (pr_next_page_token (pg t)) items))"

lemma listing_next:
  assumes "listing query sz pg operation_id t items (s, e)" "pr_next_page_token (pg t) = Some u"
  shows "listing query sz pg operation_id (Some u) (items @ pr_items (pg (Some u)))
    (snd (load_next_catalog_page operation_id s e))"
  using assms
  by (simp add: listing_def load_next_catalog_page_def continue_search_def prefetched_or_def
      take_prefetched_def serves_search_def advance_search_def with_busy_def with_search_results_def Let_def)

lemma listing_pages:
  assumes "listing query sz pg operation_id t items x" "linked (\<lambda>t. pr_next_page_token (pg t)) t ts"
  shows "listing query sz pg operation_id (last_token t ts)
    (items @ concat (map (\<lambda>u. pr_items (pg (Some u))) ts)) (load_pages (length ts) operation_id x)"
  using assms
proof (induction ts arbitrary: t items x)
  case (Cons u ts)
  obtain s e where x: "x = (s, e)" by (cases x)
  have "listing query sz pg operation_id (Some u) (items @ pr_items (pg (Some u)))
      (snd (load_next_catalog_page operation_id s e))"
    using Cons.prems by (auto simp: x intro: listing_next)
  from Cons.IH [OF this] Cons.prems(2) show ?case by (simp add: x)
qed simp

lemma search_listing:
  assumes "serves_search (en_repository e) query sz pg" "en_prefetched e = None"
  shows "\<exists>operation_id. fst (search_catalog now query \<lparr>page_size = sz, page_token = None\<rparr> s e) = Some operation_id \<and>
    listing query sz pg operation_id None (pr_items (pg None))
      (snd (search_catalog now query \<lparr>page_size = sz, page_token = None\<rparr> s e))"
  using assms
  by (simp add: listing_def search_catalog_def prefetched_or_def take_prefetched_def serves_search_def
      remember_catalog_operation_def allocate_catalog_operation_id_def with_busy_def
      with_search_results_def Let_def)

subsection \<open>Operation ids\<close>

lemma takeWhile_separator: "c \<notin> set xs \<Longrightarrow> takeWhile (\<lambda>x. x \<noteq> c) (xs @ c # ys) = xs"
  by (induction xs) auto

lemma split_at_separator:
  assumes "xs @ c # ys = xs' @ c # ys'" "c \<notin> set xs" "c \<notin> set xs'"
  shows "xs = xs' \<and> ys = ys'"
proof -
  have "xs = xs'"
    using takeWhile_separator [OF assms(2), of ys] takeWhile_separator [OF assms(3), of ys'] assms(1)
    by simp
  with assms(1) show ?thesis by simp
qed

lemma catalog_operation_id_inject:
  "catalog_operation_id now n = catalog_operation_id now' n' \<longleftrightarrow> now = now' \<and> n = n'"
proof
  have no_dash: "CHR ''-'' \<notin> set (show_u64 m)" for m
    using show_nat_digits [of "CHR ''-''" "unat m"] by (auto simp: show_u64_def digit_value_def)
  assume "catalog_operation_id now n = catalog_operation_id now' n'"
  then have "show_u64 now @ CHR ''-'' # show_u64 n = show_u64 now' @ CHR ''-'' # show_u64 n'"
    by (simp add: catalog_operation_id_def)
  from split_at_separator [OF this no_dash no_dash] show "now = now' \<and> n = n'" by simp
qed simp

text \<open>Every id in use was given out before: its sequence number is below the next one.\<close>

definition catalog_ids_ok :: "'w engine \<Rightarrow> bool" where
  "catalog_ids_ok e =
     (\<forall>operation_id \<in> dom (en_catalog_operations e).
        \<exists>now n. operation_id = catalog_operation_id now n \<and> n < en_next_catalog_sequence e)"

lemma remember_fresh:
  assumes "catalog_ids_ok e" "en_next_catalog_sequence e \<noteq> - 1"
    and "remember_catalog_operation now op e = (operation_id, e')"
  shows "operation_id \<notin> dom (en_catalog_operations e)" "catalog_ids_ok e'"
    "en_catalog_operations e' = (en_catalog_operations e)(operation_id \<mapsto> op)"
    "en_next_catalog_sequence e' = en_next_catalog_sequence e + 1"
proof -
  let ?n = "en_next_catalog_sequence e"
  have less: "?n < ?n + 1"
  proof -
    have "1 + ?n \<noteq> 0"
      using assms(2) by (metis add.commute add_eq_0_iff)
    then have "unat (1 + ?n) = Suc (unat ?n)" by (rule unatSuc)
    then show ?thesis by (simp add: word_less_nat_alt add.commute)
  qed
  show "operation_id \<notin> dom (en_catalog_operations e)"
    using assms(1,3) by (force simp: catalog_ids_ok_def remember_catalog_operation_def
        allocate_catalog_operation_id_def catalog_operation_id_inject Let_def)
  show "en_catalog_operations e' = (en_catalog_operations e)(operation_id \<mapsto> op)"
    "en_next_catalog_sequence e' = ?n + 1"
    using assms(3) by (auto simp: remember_catalog_operation_def allocate_catalog_operation_id_def Let_def)
  then show "catalog_ids_ok e'"
    using assms(1,3) less
    by (fastforce simp: catalog_ids_ok_def remember_catalog_operation_def
        allocate_catalog_operation_id_def Let_def dest: less_trans)
qed

definition catalog_state :: "'w engine \<Rightarrow> (string \<rightharpoonup> catalog_operation) \<times> u64" where
  "catalog_state e = (en_catalog_operations e, en_next_catalog_sequence e)"

lemma catalog_ids_ok_cong: "catalog_state e' = catalog_state e \<Longrightarrow> catalog_ids_ok e' = catalog_ids_ok e"
  by (simp add: catalog_ids_ok_def catalog_state_def)

lemma await_call_catalog: "await_call c e = (r, e') \<Longrightarrow> catalog_state e' = catalog_state e"
  by (auto simp: await_call_def catalog_state_def split: prod.splits)

lemma prefetched_or_catalog: "prefetched_or sel c e = (r, e') \<Longrightarrow> catalog_state e' = catalog_state e"
  by (auto simp: prefetched_or_def take_prefetched_def catalog_state_def split: prod.splits option.splits)

lemma publish_catalog [simp]: "catalog_state (publish_intermediate_snapshot s e) = catalog_state e"
  by (simp add: catalog_state_def publish_intermediate_snapshot_def notify_state_changed_def)

lemma discovery_catalog:
  "catalog_state (snd (drop_discovery s e)) = catalog_state e"
  "catalog_state (snd (reset_discovery msg s e)) = catalog_state e"
  "catalog_state (advance_discovery token items e) = catalog_state e"
  "catalog_state (snd (show_feed feed identity excluded page shown s e)) = catalog_state e"
  by (simp_all add: drop_discovery_def reset_discovery_def advance_discovery_def show_feed_def
      catalog_state_def Let_def)

lemma request_feed_catalog:
  "catalog_state (snd (await_call c e)) = catalog_state e"
  "catalog_state (snd (snd (request_feed feed excluded page s e))) = catalog_state e"
  by (simp_all add: await_call_catalog [OF prod.collapse [symmetric]] request_feed_def Let_def case_prod_beta
      split: option.split)

lemma settle_feed_catalog:
  "catalog_state (snd (settle_feed feed identity excluded page r s e)) = catalog_state e"
  by (simp add: settle_feed_def discovery_catalog Let_def case_prod_beta split: sum.split)

lemma continue_discovery_catalog:
  "catalog_state (snd (continue_discovery identity operation token s e)) = catalog_state e"
  by (simp add: continue_discovery_def discovery_catalog request_feed_catalog Let_def case_prod_beta
      split: sum.split option.split)

lemma feed_catalog:
  "catalog_state (snd (load_feed feed excluded page s e)) = catalog_state e"
  "catalog_state (snd (load_next_discovery_page s e)) = catalog_state e"
  by (simp_all add: load_feed_def load_next_discovery_page_def discovery_catalog
      request_feed_catalog settle_feed_catalog continue_discovery_catalog Let_def case_prod_beta
      split: option.split)

lemma refresh_catalog: "catalog_state (snd (refresh_backend_status s e)) = catalog_state e"
  by (auto simp: refresh_backend_status_def await_call_def catalog_state_def Let_def
      split: sum.split option.split prod.split)

lemma search_catalog_operations:
  fixes e :: "'w engine"
  assumes "search_catalog now query page s e = (message, s', e')"
  shows "catalog_state e' = catalog_state e \<or>
    (\<exists>(e1 :: 'w engine) operation. catalog_state e1 = catalog_state e \<and>
       catalog_state e' = catalog_state (snd (remember_catalog_operation now operation e1)))"
proof -
  obtain r e1 where c: "prefetched_or as_search (rp_search_catalog (en_repository e) query page) e = (r, e1)"
    by (cases "prefetched_or as_search (rp_search_catalog (en_repository e) query page) e")
  note k = prefetched_or_catalog [OF c]
  show ?thesis
  proof (cases r)
    case Inl
    with assms k show ?thesis by (auto simp: search_catalog_def c Let_def)
  next
    case (Inr result)
    let ?op = "CatalogSearch query (page_size page) (pr_next_page_token result) (pr_items result)"
    obtain i e2 where m: "remember_catalog_operation now ?op e1 = (i, e2)"
      by (cases "remember_catalog_operation now ?op e1")
    have "e' = snd (remember_catalog_operation now ?op e1)"
      using assms by (simp add: search_catalog_def c Inr m Let_def)
    with k show ?thesis by blast
  qed
qed

lemma browse_catalog_operations:
  fixes e :: "'w engine"
  assumes "browse_catalog now parent_id genres page s e = (message, s', e')"
  shows "catalog_state e' = catalog_state e \<or>
    (\<exists>(e1 :: 'w engine) operation. catalog_state e1 = catalog_state e \<and>
       catalog_state e' = catalog_state (snd (remember_catalog_operation now operation e1)))"
proof -
  obtain r e1 where c: "await_call (rp_browse_catalog (en_repository e) parent_id genres page) e = (r, e1)"
    by (cases "await_call (rp_browse_catalog (en_repository e) parent_id genres page) e")
  note k = await_call_catalog [OF c]
  show ?thesis
  proof (cases r)
    case Inl
    with assms k show ?thesis by (auto simp: browse_catalog_def c Let_def)
  next
    case (Inr result)
    let ?op = "CatalogBrowse parent_id genres (page_size page) (pr_next_page_token result) (pr_items result)"
    obtain i e2 where m: "remember_catalog_operation now ?op e1 = (i, e2)"
      by (cases "remember_catalog_operation now ?op e1")
    have "e' = snd (remember_catalog_operation now ?op e1)"
      using assms by (simp add: browse_catalog_def c Inr m Let_def)
    with k show ?thesis by blast
  qed
qed

text \<open>A continuation changes its own operation at most.\<close>

lemma continue_catalog:
  assumes "catalog_ids_ok e" "load_next_catalog_page operation_id s e = (message, s', e')"
  shows "catalog_ids_ok e'"
    and "other \<noteq> operation_id \<Longrightarrow> en_catalog_operations e' other = en_catalog_operations e other"
proof -
  have advance: "en_next_catalog_sequence (advance_search i t items e1) = en_next_catalog_sequence e1"
    "en_next_catalog_sequence (advance_browse i t items e1) = en_next_catalog_sequence e1"
    "dom (en_catalog_operations (advance_search i t items e1)) = dom (en_catalog_operations e1)"
    "dom (en_catalog_operations (advance_browse i t items e1)) = dom (en_catalog_operations e1)"
    "j \<noteq> i \<Longrightarrow> en_catalog_operations (advance_search i t items e1) j = en_catalog_operations e1 j"
    "j \<noteq> i \<Longrightarrow> en_catalog_operations (advance_browse i t items e1) j = en_catalog_operations e1 j"
    for i j t items and e1 :: "'a engine"
    by (auto simp: advance_search_def advance_browse_def split: option.splits catalog_operation.splits)
  have step: "\<exists>e1. catalog_state e1 = catalog_state e \<and>
      (e' = e1 \<or> (\<exists>t items. e' = advance_search operation_id t items e1) \<or>
       (\<exists>t items. e' = advance_browse operation_id t items e1))"
    using assms(2)
    by (fastforce simp: load_next_catalog_page_def continue_search_def continue_browse_def Let_def
        dest: await_call_catalog prefetched_or_catalog
        split: option.splits catalog_operation.splits sum.splits prod.splits)
  then have "en_next_catalog_sequence e' = en_next_catalog_sequence e \<and>
      dom (en_catalog_operations e') = dom (en_catalog_operations e) \<and>
      (\<forall>other. other \<noteq> operation_id \<longrightarrow> en_catalog_operations e' other = en_catalog_operations e other)"
    by (elim exE conjE disjE) (simp_all add: advance catalog_state_def)
  then show "catalog_ids_ok e'"
    and "other \<noteq> operation_id \<Longrightarrow> en_catalog_operations e' other = en_catalog_operations e other"
    using assms(1) by (simp_all add: catalog_ids_ok_def)
qed

text \<open>Catalog listings never mix. Under the invariant that all operation ids in use were given
  out by the engine's counter, every catalog command keeps the invariant and every remembered
  listing except the one it continues: a new search or listing gets an id no other operation
  has, whatever the clock says. (The counter wraps at 64 bits, which the hypothesis excludes.)\<close>

lemma catalog_listings_never_mix:
  fixes e :: "'w engine"
  assumes "catalog_ids_ok e" and "en_next_catalog_sequence e \<noteq> - 1"
    and "dispatch_catalog_command now command s e = (message, s', e')"
    and "operation_id \<in> dom (en_catalog_operations e)"
    and "command \<noteq> LoadNextCatalogPage operation_id"
  shows "catalog_ids_ok e' \<and> en_catalog_operations e' operation_id = en_catalog_operations e operation_id"
proof -
  have keep: ?thesis if "catalog_state e' = catalog_state e"
    using that assms(1) catalog_ids_ok_cong [OF that] by (simp add: catalog_state_def)
  have new: ?thesis if "catalog_state e1 = catalog_state e"
    "catalog_state e' = catalog_state (snd (remember_catalog_operation now operation e1))"
    for e1 :: "'w engine" and operation
  proof -
    obtain i e2 where r: "remember_catalog_operation now operation e1 = (i, e2)"
      by (cases "remember_catalog_operation now operation e1")
    have "catalog_ids_ok e1" "en_next_catalog_sequence e1 \<noteq> - 1"
      using assms(1,2) that(1) catalog_ids_ok_cong [OF that(1)] by (simp_all add: catalog_state_def)
    note fresh = remember_fresh [OF this r]
    have ops: "en_catalog_operations e' = en_catalog_operations e2" "catalog_ids_ok e'"
      using that(2) fresh(2) catalog_ids_ok_cong [of e' e2] by (simp_all add: catalog_state_def r)
    have "operation_id \<noteq> i"
      using fresh(1) assms(4) that(1) by (auto simp: catalog_state_def)
    with ops fresh(3) that(1) show ?thesis by (simp add: catalog_state_def)
  qed
  show ?thesis
  proof (cases command)
    case (SearchCatalog query page)
    with assms(3) have "search_catalog now query page s e = (message, s', e')"
      by (simp add: dispatch_catalog_command_def)
    from search_catalog_operations [OF this] keep new show ?thesis by blast
  next
    case (BrowseCatalog parent_id genres page)
    with assms(3) have "browse_catalog now parent_id genres page s e = (message, s', e')"
      by (simp add: dispatch_catalog_command_def)
    from browse_catalog_operations [OF this] keep new show ?thesis by blast
  next
    case (LoadNextCatalogPage other)
    with assms(3) have "load_next_catalog_page other s e = (message, s', e')"
      by (simp add: dispatch_catalog_command_def)
    from continue_catalog [OF assms(1) this] LoadNextCatalogPage assms(5) show ?thesis by auto
  next
    case RefreshBackendStatus
    with assms(3) refresh_catalog [of s e] keep show ?thesis by (simp add: dispatch_catalog_command_def)
  next
    case (LoadDiscoveryFeed excluded page)
    with assms(3) feed_catalog(1) [of Discovery excluded page s e] keep show ?thesis
      by (simp add: dispatch_catalog_command_def)
  next
    case (LoadForYouFeed excluded page)
    with assms(3) feed_catalog(1) [of ForYou excluded page s e] keep show ?thesis
      by (simp add: dispatch_catalog_command_def)
  next
    case (LoadRecommendations excluded page)
    with assms(3) feed_catalog(1) [of Recommendations excluded page s e] keep show ?thesis
      by (simp add: dispatch_catalog_command_def)
  next
    case LoadNextDiscoveryPage
    with assms(3) feed_catalog(2) [of s e] keep show ?thesis by (simp add: dispatch_catalog_command_def)
  qed (use assms(3) keep in \<open>simp_all add: dispatch_catalog_command_def\<close>)
qed

subsection \<open>A concrete catalog\<close>

definition sample_media :: "string \<Rightarrow> media_item" where
  "sample_media i = media_item_default\<lparr>mi_id := i, mi_title := i\<rparr>"

definition sample_page :: "page_token option \<Rightarrow> media_item paged_result" where
  "sample_page t =
     (case t of
        None \<Rightarrow> \<lparr>pr_items = [sample_media ''a'', sample_media ''b''], pr_next_page_token = Some (PageToken ''2'')\<rparr>
      | Some _ \<Rightarrow> \<lparr>pr_items = [sample_media ''c''], pr_next_page_token = None\<rparr>)"

definition sample_catalog_engine :: "unit engine" where
  "sample_catalog_engine =
     (engine_new null_codec id () 7)\<lparr>en_repository :=
        (in_memory_repository id [])\<lparr>rp_search_catalog := (\<lambda>query page w. (Ok (sample_page (page_token page)), w))\<rparr>\<rparr>"

lemma sample_catalog_engine_fields [simp]:
  "en_catalog_operations sample_catalog_engine = Map.empty"
  "en_next_catalog_sequence sample_catalog_engine = 0"
  "en_prefetched sample_catalog_engine = None"
  "serves_search (en_repository sample_catalog_engine) query sz sample_page"
  by (simp_all add: sample_catalog_engine_def engine_new_def engine_fields_new_def Let_def serves_search_def)

lemma catalog_listings_never_mix_witness:
  "case dispatch_catalog_command 5 (LoadNextCatalogPage (catalog_operation_id 1 0)) snapshot_default
      (sample_catalog_engine\<lparr>en_next_catalog_sequence := 2,
         en_catalog_operations := [(catalog_operation_id 1 0) \<mapsto> CatalogSearch ''q'' 2 None [],
           (catalog_operation_id 1 1) \<mapsto> CatalogSearch ''r'' 2 None []]\<rparr>) of
     (message, s', e') \<Rightarrow> en_catalog_operations e' (catalog_operation_id 1 1) = Some (CatalogSearch ''r'' 2 None [])"
proof -
  let ?e = "sample_catalog_engine\<lparr>en_next_catalog_sequence := 2,
    en_catalog_operations := [(catalog_operation_id 1 0) \<mapsto> CatalogSearch ''q'' 2 None [],
      (catalog_operation_id 1 1) \<mapsto> CatalogSearch ''r'' 2 None []]\<rparr>"
  obtain message s' e' where d: "dispatch_catalog_command 5 (LoadNextCatalogPage (catalog_operation_id 1 0)) snapshot_default ?e
      = (message, s', e')"
    by (cases "dispatch_catalog_command 5 (LoadNextCatalogPage (catalog_operation_id 1 0)) snapshot_default ?e")
  have "catalog_ids_ok ?e"
    by (fastforce simp: catalog_ids_ok_def catalog_operation_id_inject split: if_splits)
  from catalog_listings_never_mix [OF this _ d, of "(catalog_operation_id 1 1)"]
  have "en_catalog_operations e' (catalog_operation_id 1 1) = Some (CatalogSearch ''r'' 2 None [])"
    by (simp add: catalog_operation_id_inject)
  then show ?thesis by (simp add: d)
qed

text \<open>Paging through a search is complete. When the backend serves a listing page by page,
  a search followed by one continuation per token shows exactly the items of all pages, in their
  order and none twice, and one more continuation changes nothing but the error, which says that
  there is no next page.\<close>

lemma catalog_paging_shows_every_page:
  assumes "serves_search (en_repository e) query sz pg" and "en_prefetched e = None"
    and "linked (\<lambda>t. pr_next_page_token (pg t)) None ts"
    and "pr_next_page_token (pg (last_token None ts)) = None"
  shows "\<exists>operation_id s1 e1.
    fst (search_catalog now query \<lparr>page_size = sz, page_token = None\<rparr> s e) = Some operation_id \<and>
    load_pages (length ts) operation_id
      (snd (search_catalog now query \<lparr>page_size = sz, page_token = None\<rparr> s e)) = (s1, e1) \<and>
    sn_search_results s1 = concat (map (\<lambda>t. pr_items (pg t)) (None # map Some ts)) \<and>
    load_next_catalog_page operation_id s1 e1 =
      (None, s1\<lparr>sn_is_busy := False, sn_last_error := Some (engine_error_new FailedPrecondition
         ''catalog operation has no next page'' False)\<rparr>, e1)"
proof -
  let ?r = "search_catalog now query \<lparr>page_size = sz, page_token = None\<rparr> s e"
  obtain operation_id where i: "fst ?r = Some operation_id"
    and l: "listing query sz pg operation_id None (pr_items (pg None)) (snd ?r)"
    using search_listing [OF assms(1,2)] by blast
  obtain s1 e1 where x: "load_pages (length ts) operation_id (snd ?r) = (s1, e1)"
    by (cases "load_pages (length ts) operation_id (snd ?r)")
  have "listing query sz pg operation_id (last_token None ts)
      (pr_items (pg None) @ concat (map (\<lambda>u. pr_items (pg (Some u))) ts)) (s1, e1)"
    using listing_pages [OF l assms(3)] by (simp add: x)
  then have "sn_search_results s1 = concat (map (\<lambda>t. pr_items (pg t)) (None # map Some ts))"
    and "load_next_catalog_page operation_id s1 e1 =
      (None, s1\<lparr>sn_is_busy := False, sn_last_error := Some (engine_error_new FailedPrecondition
         ''catalog operation has no next page'' False)\<rparr>, e1)"
    using assms(4) by (simp_all add: listing_def load_next_catalog_page_def with_error_def with_busy_def
        comp_def Let_def)
  with i x show ?thesis by blast
qed

lemma catalog_paging_shows_every_page_witness:
  "\<exists>operation_id. fst (search_catalog 5 ''q'' \<lparr>page_size = 2, page_token = None\<rparr> snapshot_default
       sample_catalog_engine) = Some operation_id \<and>
     map mi_id (sn_search_results (fst (load_pages 1 operation_id
       (snd (search_catalog 5 ''q'' \<lparr>page_size = 2, page_token = None\<rparr> snapshot_default
          sample_catalog_engine))))) = [''a'', ''b'', ''c'']"
proof -
  obtain operation_id s1 e1 where
    "fst (search_catalog 5 ''q'' \<lparr>page_size = 2, page_token = None\<rparr> snapshot_default
       sample_catalog_engine) = Some operation_id"
    "load_pages (length [PageToken ''2'']) operation_id
       (snd (search_catalog 5 ''q'' \<lparr>page_size = 2, page_token = None\<rparr> snapshot_default
          sample_catalog_engine)) = (s1, e1)"
    "sn_search_results s1 =
       concat (map (\<lambda>t. pr_items (sample_page t)) (None # map Some [PageToken ''2'']))"
    using catalog_paging_shows_every_page [of sample_catalog_engine "''q''" 2 sample_page "[PageToken ''2'']" 5
        snapshot_default]
    by (auto simp: sample_page_def)
  then show ?thesis by (auto simp: sample_page_def sample_media_def)
qed

end
