(* ===== verification/Views.thy ===== *)
theory Views
  imports HistoryLaws Library Playlists Profile Catalog
begin

text \<open>
  Which parts of the state a command handler leaves alone. A \<^emph>\<open>view\<close> is any function of the
  snapshot under construction and the engine; the locale \<open>data_view\<close> says that it does not look
  at what every handler may change (the outside world, a prefetched result, the stored snapshot,
  the bus, the error and the auth state), and each extension that it does not look at the fields
  of one component. Then that component's handler keeps it. The parts of the components at the end
  are such views, each for the handlers of all the others.
\<close>

lemmas view_unfold = Let_def case_prod_beta

locale data_view =
  fixes view :: "engine_snapshot \<Rightarrow> 'w engine \<Rightarrow> 'v"
  assumes v_world [simp]: "view s (e\<lparr>en_world := w\<rparr>) = view s e"
    and v_prefetched [simp]: "view s (e\<lparr>en_prefetched := p\<rparr>) = view s e"
    and v_snapshot [simp]: "view s (e\<lparr>en_snapshot := t\<rparr>) = view s e"
    and v_bus [simp]: "view s (e\<lparr>en_bus := b\<rparr>) = view s e"
    and v_error [simp]: "view (s\<lparr>sn_last_error := x\<rparr>) e = view s e"
    and v_auth [simp]: "view (s\<lparr>sn_auth_state := a\<rparr>) e = view s e"
begin

lemma v_await [simp]: "view s (snd (await_call c e)) = view s e"
  by (simp add: await_call_def view_unfold)

lemma v_take [simp]: "view s (snd (take_prefetched sel e)) = view s e"
  by (simp add: take_prefetched_def split: option.split)

lemma v_prefetched_or [simp]: "view s (snd (prefetched_or sel c e)) = view s e"
  by (simp add: prefetched_or_def take_prefetched_def view_unfold split: option.split)

lemma v_publish [simp]: "view s (publish_intermediate_snapshot t e) = view s e"
  by (simp add: publish_intermediate_snapshot_def notify_state_changed_def)

lemma v_with_error [simp]: "view (with_error x s) e = view s e"
  by (simp add: with_error_def)

end

subsection \<open>One extension per component\<close>

locale account_view = data_view view for view :: "engine_snapshot \<Rightarrow> 'w engine \<Rightarrow> 'v" +
  assumes va_account [simp]: "view (s\<lparr>sn_protected_account := pa\<rparr>) e = view s e"
    and va_sessions [simp]: "view (s\<lparr>sn_device_sessions := ds\<rparr>) e = view s e"
    and va_sessions_next [simp]: "view (s\<lparr>sn_device_sessions_next := dn\<rparr>) e = view s e"
    and va_identity [simp]: "view s (e\<lparr>en_account_identity := i\<rparr>) = view s e"
    and va_operation [simp]: "view s (e\<lparr>en_device_sessions_operation := po\<rparr>) = view s e"
begin

lemma v_clear_account [simp]:
  "view (fst (clear_account_operation s e)) (snd (clear_account_operation s e)) = view s e"
  by (simp add: clear_account_operation_def clear_account_projection_def forget_account_def)

lemma v_account_guard [simp]:
  "view (fst (snd (account_result_for_current_identity s i r e)))
     (snd (snd (account_result_for_current_identity s i r e))) = view s e"
  by (simp add: account_result_for_current_identity_def view_unfold)

lemma v_finish_account [simp]:
  "view (fst (finish_account x)) (snd (finish_account x)) = view (fst (snd x)) (snd (snd x))"
  by (simp add: finish_account_def set_account_error_def view_unfold split: sum.split)

lemma v_account_operations [simp]:
  "view (fst (snd (get_account s e))) (snd (snd (get_account s e))) = view s e"
  "view (fst (snd (list_device_sessions s page app e))) (snd (snd (list_device_sessions s page app e))) = view s e"
  "view (fst (snd (revoke_device_session s sid e))) (snd (snd (revoke_device_session s sid e))) = view s e"
  by (simp_all add: get_account_def list_device_sessions_def revoke_device_session_def view_unfold
      split: sum.split option.split)

lemma v_account_command:
  assumes "command \<noteq> DeleteAccount"
  shows "view (fst (dispatch_account_command command s e)) (snd (dispatch_account_command command s e)) = view s e"
  using assms by (simp add: dispatch_account_command.simps set_account_error_def view_unfold
      split: engine_command_type.split option.split)

end

locale profile_view = data_view view for view :: "engine_snapshot \<Rightarrow> 'w engine \<Rightarrow> 'v" +
  assumes vp_profile [simp]: "view (s\<lparr>sn_profile := p\<rparr>) e = view s e"
    and vp_preferences [simp]: "view (s\<lparr>sn_profile_preferences := m\<rparr>) e = view s e"
    and vp_theme [simp]: "view (s\<lparr>sn_theme_preference := t\<rparr>) e = view s e"
    and vp_identity [simp]: "view s (e\<lparr>en_profile_identity := i\<rparr>) = view s e"
begin

lemma v_profile_small [simp]:
  "view (clear_profile_projection s) e = view s e"
  "view s (forget_profile e) = view s e"
  "view s (claim_profile i e) = view s e"
  "view (remote_theme i values s) e = view s e"
  "view (project_profile_preferences i p values s) e = view s e"
  "view (fst (profile_failed err s e)) (snd (profile_failed err s e)) = view s e"
  "view (fst (profile_absent err s e)) (snd (profile_absent err s e)) = view s e"
  by (simp_all add: clear_profile_projection_def forget_profile_def claim_profile_def remote_theme_def
      project_profile_preferences_def profile_failed_def profile_absent_def view_unfold split: option.split)

lemma v_guarded_profile [simp]:
  "view (fst (snd (guarded_profile_call i c s e))) (snd (snd (guarded_profile_call i c s e))) = view s e"
  by (simp add: guarded_profile_call_def profile_result_for_current_identity_def view_unfold)

lemma v_own_profile [simp]:
  "view (fst (snd (own_profile i port s e))) (snd (snd (own_profile i port s e))) = view s e"
  by (simp add: own_profile_def view_unfold split: sum.split)

lemma v_show_profile [simp]:
  "view (fst (show_returned_profile i x)) (snd (show_returned_profile i x)) = view (fst (snd x)) (snd (snd x))"
  by (simp add: show_returned_profile_def view_unfold split: sum.split)

lemma v_profile_command:
  "view (fst (dispatch_profile_command command s e)) (snd (dispatch_profile_command command s e)) = view s e"
  by (simp add: dispatch_profile_command_def upsert_profile_def get_profile_def update_profile_def
      delete_profile_def load_profile_preferences_def update_profile_preferences_def view_unfold
      split: engine_command_type.split sum.split)

lemma v_theme_command: "view (dispatch_theme_command command s) e = view s e"
  by (simp add: dispatch_theme_command_def hydrate_theme_def set_theme_def apply_remote_theme_def Let_def
      split: engine_command_type.split)

end

locale library_view = data_view view for view :: "engine_snapshot \<Rightarrow> 'w engine \<Rightarrow> 'v" +
  assumes vl_saved [simp]: "view (s\<lparr>sn_saved_tracks := xs\<rparr>) e = view s e"
    and vl_saved_next [simp]: "view (s\<lparr>sn_saved_tracks_next := t\<rparr>) e = view s e"
    and vl_liked [simp]: "view (s\<lparr>sn_liked_tracks := xs\<rparr>) e = view s e"
    and vl_liked_next [simp]: "view (s\<lparr>sn_liked_tracks_next := t\<rparr>) e = view s e"
    and vl_pending [simp]: "view (s\<lparr>sn_library_pending := p\<rparr>) e = view s e"
    and vl_identity [simp]: "view s (e\<lparr>en_library_identity := i\<rparr>) = view s e"
    and vl_saved_operation [simp]: "view s (e\<lparr>en_saved_operation := po\<rparr>) = view s e"
    and vl_liked_operation [simp]: "view s (e\<lparr>en_liked_operation := po\<rparr>) = view s e"
begin

lemma v_library_guard [simp]:
  "view (fst (snd (library_result_for_current_identity s i r e)))
     (snd (snd (library_result_for_current_identity s i r e))) = view s e"
  by (simp add: library_result_for_current_identity_def clear_library_projection_def forget_library_def view_unfold)

lemma v_library_page [simp]:
  "view (fst (snd (load_library_page s page saved e))) (snd (snd (load_library_page s page saved e))) = view s e"
  by (simp add: load_library_page_def fetch_library_page_def view_unfold split: sum.split)

lemma v_library_next_page [simp]:
  "view (fst (snd (load_next_library_page s saved e))) (snd (snd (load_next_library_page s saved e))) = view s e"
  by (simp add: load_next_library_page_def fetch_library_page_def clear_library_projection_def
      forget_library_def view_unfold split: sum.split option.split)

lemma v_library_pend [simp]: "view (library_pend t m s) e = view s e"
  by (simp add: library_pend_def view_unfold split: library_mutation.split)

lemma v_library_settle:
  "settle_library_mutation i ps pl t m r s = Some s' \<Longrightarrow> view s' e = view s e"
  by (auto simp: settle_library_mutation_def view_unfold
      split: sum.splits option.splits library_mutation.splits if_splits)

lemma v_library_mutate: "mutate_library s t m e = Some (s', e') \<Longrightarrow> view s' e' = view s e"
  by (auto simp: mutate_library_def view_unfold v_library_settle split: sum.splits if_splits)

lemma v_library_command:
  "dispatch_library_command command s e = Some (s', e') \<Longrightarrow> view s' e' = view s e"
  by (auto simp: dispatch_library_command_def view_unfold v_library_mutate
      split: engine_command_type.splits sum.splits if_splits)

end

locale playlist_view = data_view view for view :: "engine_snapshot \<Rightarrow> 'w engine \<Rightarrow> 'v" +
  assumes vpl_playlists [simp]: "view (s\<lparr>sn_playlists := xs\<rparr>) e = view s e"
    and vpl_playlists_next [simp]: "view (s\<lparr>sn_playlists_next := t\<rparr>) e = view s e"
    and vpl_tracks [simp]: "view (s\<lparr>sn_playlist_tracks := ts\<rparr>) e = view s e"
    and vpl_tracks_id [simp]: "view (s\<lparr>sn_playlist_tracks_id := ti\<rparr>) e = view s e"
    and vpl_tracks_next [simp]: "view (s\<lparr>sn_playlist_tracks_next := t\<rparr>) e = view s e"
    and vpl_reconciliation [simp]: "view (s\<lparr>sn_playlist_reconciliation := r\<rparr>) e = view s e"
    and vpl_identity [simp]: "view s (e\<lparr>en_playlist_identity := i\<rparr>) = view s e"
    and vpl_operation [simp]: "view s (e\<lparr>en_playlists_operation := po\<rparr>) = view s e"
    and vpl_tracks_operation [simp]: "view s (e\<lparr>en_playlist_tracks_operation := po\<rparr>) = view s e"
begin

lemma v_playlist_guard [simp]:
  "view (fst (snd (playlist_result_for_current_identity s i r e)))
     (snd (snd (playlist_result_for_current_identity s i r e))) = view s e"
  by (simp add: playlist_result_for_current_identity_def clear_playlist_projection_def forget_playlist_def view_unfold)

lemma v_playlist_pages [simp]:
  "view (fst (snd (load_next_playlists s e))) (snd (snd (load_next_playlists s e))) = view s e"
  "view (fst (snd (load_next_playlist_page s i e))) (snd (snd (load_next_playlist_page s i e))) = view s e"
  by (simp_all add: load_next_playlists_def load_next_playlist_page_def view_unfold split: option.split)

lemma v_playlist_apply [simp]:
  "view (fst (apply_playlist_mutation i r s e)) (snd (apply_playlist_mutation i r s e)) = view s e"
  by (simp add: apply_playlist_mutation_def view_unfold split: sum.split playlist_mutation.split)

lemma v_playlist_settle [simp]:
  "view (fst (settle_reorder i ordered r p own s e)) (snd (settle_reorder i ordered r p own s e)) = view s e"
  by (simp add: settle_reorder_def view_unfold split: sum.split)

lemma v_playlist_operations [simp]:
  "view (fst (mutate_playlist s action e)) (snd (mutate_playlist s action e)) = view s e"
  "view (fst (list_playlists page s e)) (snd (list_playlists page s e)) = view s e"
  "view (fst (list_playlist_tracks i page s e)) (snd (list_playlist_tracks i page s e)) = view s e"
  by (simp_all add: mutate_playlist_def list_playlists_def list_playlist_tracks_def view_unfold
      split: sum.split)

lemma v_playlist_reorder:
  "reorder_playlist_tracks i ordered revision s e = Some (s', e') \<Longrightarrow> view s' e' = view s e"
  by (auto simp: reorder_playlist_tracks_def view_unfold dest!: arg_cong [where f = "\<lambda>x. view (fst x) (snd x)"]
      split: if_splits sum.splits option.splits)

lemma v_playlist_command:
  assumes "dispatch_playlist_command command s e = Some (s', e')"
  shows "view s' e' = view s e"
proof -
  have pair: "x = (s', e') \<Longrightarrow> view s' e' = view (fst x) (snd x)" for x by simp
  show ?thesis
    using assms
    by (cases command)
       (auto simp: dispatch_playlist_command_def view_unfold v_playlist_reorder dest!: pair split: sum.splits)
qed

end

locale history_view = data_view view for view :: "engine_snapshot \<Rightarrow> 'w engine \<Rightarrow> 'v" +
  assumes vh_settings [simp]: "view (s\<lparr>sn_history_settings := hs\<rparr>) e = view s e"
    and vh_state [simp]: "view (s\<lparr>sn_history_state := st\<rparr>) e = view s e"
    and vh_entries [simp]: "view (s\<lparr>sn_history_entries := xs\<rparr>) e = view s e"
    and vh_next [simp]: "view (s\<lparr>sn_history_next := t\<rparr>) e = view s e"
    and vh_deleted [simp]: "view (s\<lparr>sn_history_deleted_count := n\<rparr>) e = view s e"
    and vh_updated [simp]: "view (s\<lparr>sn_updated_at := n\<rparr>) e = view s e"
    and vh_owner [simp]: "view s (e\<lparr>en_history_owner := h\<rparr>) = view s e"
    and vh_operation [simp]: "view s (e\<lparr>en_history_operation := ho\<rparr>) = view s e"
    and vh_anonymous [simp]: "view s (e\<lparr>en_anonymous_history := ah\<rparr>) = view s e"
    and vh_flight [simp]: "view s (e\<lparr>en_reconciliation_in_flight := b\<rparr>) = view s e"
    and vh_listen [simp]: "view s (e\<lparr>en_history_listen := hl\<rparr>) = view s e"
    and vh_sequence [simp]: "view s (e\<lparr>en_next_history_record_sequence := n\<rparr>) = view s e"
begin

lemma v_history_small [simp]:
  "view (clear_history_projection s) e = view s e"
  "view (bump_history_generation s) e = view s e"
  "view (set_history_available s) e = view s e"
  "view (show_history_page page s) e = view s e"
  "view s (forget_history e) = view s e"
  "view s (claim_history own e) = view s e"
  "view s (drop_promoted ids e) = view s e"
  "view s (set_recorded_instance i e) = view s e"
  by (simp_all add: clear_history_projection_def bump_history_generation_def set_history_available_def
      show_history_page_def forget_history_def claim_history_def drop_promoted_def set_recorded_instance_def)

lemma v_history_guard [simp]:
  "view (fst (snd (history_result_for_current_identity s i r e)))
     (snd (snd (history_result_for_current_identity s i r e))) = view s e"
  by (simp add: history_result_for_current_identity_def view_unfold)

lemma v_history_pages [simp]:
  "view (fst (invalidate_history_pages s e)) (snd (invalidate_history_pages s e)) = view s e"
  "view (fst (clear_anonymous_history_for_authenticated_disabled s e))
     (snd (clear_anonymous_history_for_authenticated_disabled s e)) = view s e"
  by (simp_all add: invalidate_history_pages_def clear_anonymous_history_for_authenticated_disabled_def view_unfold)

lemma v_history_reconciliation [simp]:
  "view (fst (apply_history_reconciliation r s e)) (snd (apply_history_reconciliation r s e)) = view s e"
  by (simp add: apply_history_reconciliation_def view_unfold split: option.split)

lemma v_promote_pending [simp]:
  "view (fst (snd (promote_pending port i pending promoted s e)))
     (snd (snd (promote_pending port i pending promoted s e))) = view s e"
  by (induction pending arbitrary: promoted s e) (simp_all add: view_unfold split: option.split sum.split)

lemma v_promote [simp]:
  "view (fst (snd (promote_anonymous_history port i s e))) (snd (snd (promote_anonymous_history port i s e))) = view s e"
  by (simp add: promote_anonymous_history_def view_unfold split: sum.split)

lemma v_reconcile_impl [simp]:
  "view (fst (snd (reconcile_anonymous_history_impl i port s e)))
     (snd (snd (reconcile_anonymous_history_impl i port s e))) = view s e"
  by (simp add: reconcile_anonymous_history_impl_def view_unfold split: sum.split option.split)

lemma v_reconcile [simp]:
  "view (fst (reconcile_anonymous_history i port s e)) (snd (reconcile_anonymous_history i port s e)) = view s e"
  by (simp add: reconcile_anonymous_history_def view_unfold split: sum.split)

lemma v_history_load [simp]:
  "view (fst (load_history_settings s e)) (snd (load_history_settings s e)) = view s e"
  "view (fst (update_history_settings b s e)) (snd (update_history_settings b s e)) = view s e"
  by (simp_all add: load_history_settings_def update_history_settings_def view_unfold split: sum.split option.split)

lemma v_history_anonymous [simp]:
  "view (fst (list_anonymous_history page s e)) (snd (list_anonymous_history page s e)) = view s e"
  "view (fst (delete_anonymous_history_entry i s e)) (snd (delete_anonymous_history_entry i s e)) = view s e"
  by (simp_all add: list_anonymous_history_def delete_anonymous_history_entry_def view_unfold
      split: sum.split option.split)

lemma v_history_request [simp]:
  "view (fst (snd (request_history_page i port page s e))) (snd (snd (request_history_page i port page s e))) = view s e"
  using v_take [of s as_history_page e]
  by (simp add: request_history_page_def view_unfold split: option.split prod.split)

lemma v_history_next [simp]:
  "view (fst (snd (next_history_page s e))) (snd (snd (next_history_page s e))) = view s e"
  using v_take [of s as_history_page e]
  by (simp add: next_history_page_def view_unfold split: option.split prod.split history_owner.split)

lemma v_history_list [simp]:
  "view (fst (list_history page s e)) (snd (list_history page s e)) = view s e"
  "view (fst (load_next_history_page s e)) (snd (load_next_history_page s e)) = view s e"
  by (simp_all add: list_history_def load_next_history_page_def view_unfold split: option.split sum.split)

lemma v_history_delete [simp]:
  "view (fst (delete_history_entry i s e)) (snd (delete_history_entry i s e)) = view s e"
  "view (fst (clear_history s e)) (snd (clear_history s e)) = view s e"
  by (simp_all add: delete_history_entry_def clear_history_def view_unfold split: sum.split)

lemma v_history_command:
  "dispatch_history_command command s e = Some (s', e') \<Longrightarrow> view s' e' = view s e"
  by (cases command)
     (auto simp: dispatch_history_command_def dest: arg_cong [where f = "\<lambda>x. view (fst x) (snd x)"])

text \<open>Recording.\<close>

lemma v_history_publish [simp]:
  "view (fst (publish_history_entry entry s e)) (snd (publish_history_entry entry s e)) = view s e"
  by (simp add: publish_history_entry_def view_unfold)

lemma v_history_record [simp]:
  "view (fst (record_anonymous_history_event r s e)) (snd (record_anonymous_history_event r s e)) = view s e"
  "view (fst (publish_recorded_history_entry r s e)) (snd (publish_recorded_history_entry r s e)) = view s e"
  by (simp_all add: record_anonymous_history_event_def publish_recorded_history_entry_def view_unfold split: option.split)

lemma v_history_anonymous_listen [simp]:
  "view (fst (record_anonymous_listen r s e)) (snd (record_anonymous_listen r s e)) = view s e"
  by (simp add: record_anonymous_listen_def view_unfold)

lemma v_history_ensure [simp]:
  "view (fst (snd (ensure_history_settings s e))) (snd (snd (ensure_history_settings s e))) = view s e"
  by (simp add: ensure_history_settings_def view_unfold split: sum.split)

lemma v_history_submit [simp]:
  "view (fst (submit_history_record r s e)) (snd (submit_history_record r s e)) = view s e"
  by (simp add: submit_history_record_def view_unfold split: sum.split)

lemma v_history_listen [simp]:
  "view (fst (record_history_listen r s e)) (snd (record_history_listen r s e)) = view s e"
  by (simp add: record_history_listen_def view_unfold split: option.split)

lemma v_history_once [simp]: "view (fst (record_once r s e)) (snd (record_once r s e)) = view s e"
  by (simp add: record_once_def view_unfold)

lemma v_history_tracker [simp]: "view s (sync_history_listen_tracker now st e) = view s e"
  by (simp add: sync_history_listen_tracker_def view_unfold)

lemma v_history_auto [simp]:
  "view (fst (maybe_auto_record_history now s e)) (snd (maybe_auto_record_history now s e)) = view s e"
  by (simp add: maybe_auto_record_history_def view_unfold split: option.split sum.split)

lemma v_history_completion [simp]:
  "view (fst (record_playback_completion p s e)) (snd (record_playback_completion p s e)) = view s e"
  by (simp add: record_playback_completion_def view_unfold split: option.split sum.split)

end

locale catalog_view = data_view view for view :: "engine_snapshot \<Rightarrow> 'w engine \<Rightarrow> 'v" +
  assumes vc_busy [simp]: "view (s\<lparr>sn_is_busy := b\<rparr>) e = view s e"
    and vc_status [simp]: "view (s\<lparr>sn_backend_status := bs\<rparr>) e = view s e"
    and vc_availability [simp]: "view (s\<lparr>sn_backend_availability := ba\<rparr>) e = view s e"
    and vc_search [simp]: "view (s\<lparr>sn_search_results := xs\<rparr>) e = view s e"
    and vc_browse [simp]: "view (s\<lparr>sn_browse_results := xs\<rparr>) e = view s e"
    and vc_discovery [simp]: "view (s\<lparr>sn_discovery_results := xs\<rparr>) e = view s e"
    and vc_discovery_next [simp]: "view (s\<lparr>sn_discovery_next := t\<rparr>) e = view s e"
    and vc_for_you [simp]: "view (s\<lparr>sn_for_you_results := xs\<rparr>) e = view s e"
    and vc_recommendations [simp]: "view (s\<lparr>sn_recommendations_results := xs\<rparr>) e = view s e"
    and vc_operations [simp]: "view s (e\<lparr>en_catalog_operations := co\<rparr>) = view s e"
    and vc_sequence [simp]: "view s (e\<lparr>en_next_catalog_sequence := n\<rparr>) = view s e"
    and vc_identity [simp]: "view s (e\<lparr>en_feed_identity := i\<rparr>) = view s e"
    and vc_operation [simp]: "view s (e\<lparr>en_discovery_operation := disc\<rparr>) = view s e"
begin

lemmas v_catalog_small =
  with_busy_def with_backend_status_def with_backend_availability_def with_search_results_def
  with_browse_results_def with_discovery_results_def with_discovery_next_def with_for_you_results_def
  with_recommendations_results_def

lemma v_catalog_feed_results [simp]: "view (with_feed_results feed xs s) e = view s e"
  by (simp add: with_feed_results_def v_catalog_small split: discovery_feed.split)

lemma v_catalog_remember [simp]:
  "view s (snd (remember_catalog_operation now op e)) = view s e"
  by (simp add: remember_catalog_operation_def allocate_catalog_operation_id_def view_unfold)

lemma v_catalog_advance [simp]:
  "view s (advance_search i t xs e) = view s e"
  "view s (advance_browse i t xs e) = view s e"
  "view s (advance_discovery t xs e) = view s e"
  by (simp_all add: advance_search_def advance_browse_def advance_discovery_def
      split: option.split catalog_operation.split)

lemma v_catalog_listings [simp]:
  "view (fst (refresh_backend_status s e)) (snd (refresh_backend_status s e)) = view s e"
  "view (fst (snd (search_catalog now q page s e))) (snd (snd (search_catalog now q page s e))) = view s e"
  "view (fst (snd (browse_catalog now pid g page s e))) (snd (snd (browse_catalog now pid g page s e))) = view s e"
  "view (fst (snd (continue_search i q sz t xs s e))) (snd (snd (continue_search i q sz t xs s e))) = view s e"
  "view (fst (snd (continue_browse i pid g sz t xs s e))) (snd (snd (continue_browse i pid g sz t xs s e))) = view s e"
  by (simp_all add: refresh_backend_status_def search_catalog_def browse_catalog_def continue_search_def
      continue_browse_def v_catalog_small view_unfold split: option.split sum.split)

lemma v_catalog_next [simp]:
  "view (fst (snd (load_next_catalog_page i s e))) (snd (snd (load_next_catalog_page i s e))) = view s e"
  by (simp add: load_next_catalog_page_def v_catalog_small view_unfold split: option.split catalog_operation.split)

lemma v_catalog_feed [simp]:
  "view (fst (drop_discovery s e)) (snd (drop_discovery s e)) = view s e"
  "view (fst (reset_discovery msg s e)) (snd (reset_discovery msg s e)) = view s e"
  "view (fst (show_feed feed i ex page r s e)) (snd (show_feed feed i ex page r s e)) = view s e"
  "view (fst (snd (request_feed feed ex page s e))) (snd (snd (request_feed feed ex page s e))) = view s e"
  by (simp_all add: drop_discovery_def reset_discovery_def show_feed_def request_feed_def v_catalog_small
      view_unfold split: option.split)

lemma v_catalog_settle [simp]:
  "view (fst (settle_feed feed i ex page r s e)) (snd (settle_feed feed i ex page r s e)) = view s e"
  by (simp add: settle_feed_def view_unfold split: sum.split)

lemma v_catalog_load_feed [simp]:
  "view (fst (load_feed feed ex page s e)) (snd (load_feed feed ex page s e)) = view s e"
  by (simp add: load_feed_def v_catalog_small view_unfold)

lemma v_catalog_discovery [simp]:
  "view (fst (load_next_discovery_page s e)) (snd (load_next_discovery_page s e)) = view s e"
  by (simp add: load_next_discovery_page_def continue_discovery_def v_catalog_small view_unfold
      split: option.split sum.split)

lemma v_catalog_command:
  "view (fst (snd (dispatch_catalog_command now command s e))) (snd (snd (dispatch_catalog_command now command s e)))
     = view s e"
  by (simp add: dispatch_catalog_command_def split: engine_command_type.split)

end

subsection \<open>The parts of the components\<close>

definition account_part where
  "account_part s e =
     (sn_protected_account s, sn_device_sessions s, sn_device_sessions_next s,
      en_account_identity e, en_device_sessions_operation e)"

definition profile_part where
  "profile_part s e = (sn_profile s, sn_profile_preferences s, en_profile_identity e)"

definition history_part where
  "history_part s e =
     (sn_history_settings s, sn_history_entries s, sn_history_next s, sn_history_deleted_count s,
      en_history_owner e, en_history_operation e)"

definition library_part where
  "library_part s e =
     (sn_saved_tracks s, sn_saved_tracks_next s, sn_liked_tracks s, sn_liked_tracks_next s,
      sn_library_pending s, en_library_identity e, en_saved_operation e, en_liked_operation e)"

definition playlist_part where
  "playlist_part s e =
     (sn_playlists s, sn_playlists_next s, sn_playlist_tracks s, sn_playlist_tracks_id s,
      sn_playlist_tracks_next s, sn_playlist_reconciliation s,
      en_playlist_identity e, en_playlists_operation e, en_playlist_tracks_operation e)"

definition feed_part where
  "feed_part s e =
     (sn_discovery_results s, sn_discovery_next s, sn_for_you_results s, sn_recommendations_results s,
      en_feed_identity e, en_discovery_operation e)"

text \<open>What only playback, the middlewares and the services change.\<close>

definition core_part where
  "core_part s e =
     ((en_middleware e, en_player e, en_voice_engine e, en_queue e, en_recovery e, en_services e),
      (en_config e, en_codec e, en_current_instance e, en_next_instance e, en_pending_seek e),
      sn_playback_state s, sn_media_id s, sn_position_millis s, sn_session s)"

lemmas part_defs =
  account_part_def profile_part_def history_part_def library_part_def playlist_part_def feed_part_def
  core_part_def

text \<open>For each component, the parts of all others.\<close>

definition but_account where
  "but_account s e =
     (core_part s e, profile_part s e, history_part s e, library_part s e, playlist_part s e, feed_part s e)"

definition but_profile where
  "but_profile s e =
     (core_part s e, account_part s e, history_part s e, library_part s e, playlist_part s e, feed_part s e)"

definition but_history where
  "but_history s e =
     (core_part s e, account_part s e, profile_part s e, library_part s e, playlist_part s e, feed_part s e)"

definition but_library where
  "but_library s e =
     (core_part s e, account_part s e, profile_part s e, history_part s e, playlist_part s e, feed_part s e)"

definition but_playlist where
  "but_playlist s e =
     (core_part s e, account_part s e, profile_part s e, history_part s e, library_part s e, feed_part s e)"

definition but_feed where
  "but_feed s e =
     (core_part s e, account_part s e, profile_part s e, history_part s e, library_part s e, playlist_part s e)"

interpretation vcore: data_view core_part
  by unfold_locales (simp_all add: part_defs)

interpretation vacc: account_view but_account
  by unfold_locales (simp_all add: but_account_def part_defs)

interpretation vpro: profile_view but_profile
  by unfold_locales (simp_all add: but_profile_def part_defs)

interpretation vhis: history_view but_history
  by unfold_locales (simp_all add: but_history_def part_defs)

interpretation vlib: library_view but_library
  by unfold_locales (simp_all add: but_library_def part_defs)

interpretation vpla: playlist_view but_playlist
  by unfold_locales (simp_all add: but_playlist_def part_defs)

interpretation vcat: catalog_view but_feed
  by unfold_locales (simp_all add: but_feed_def part_defs)

end
