(* ===== verification/Transport.thy ===== *)
theory Transport
  imports EngineState
begin

text \<open>
  The playback commands: resolving a media item to a playable source and preparing it
  (\<open>engine/core/effects.rs\<close>), and the arms of \<open>dispatch_command\<close>
  (\<open>engine/core/dispatch_command.rs\<close>) that move through the queue, start, seek, and drive voice
  and the sleep timer. A \<open>command_turn\<close> holds the local variables of \<open>dispatch_command\<close>: the
  snapshot under construction, the effects, the message of the event and
  \<open>should_reassert_playback\<close>.
\<close>

record command_turn =
  ct_snapshot :: engine_snapshot
  ct_effects :: "engine_effect list"
  ct_message :: "string option"
  ct_reassert :: bool

definition on_snapshot :: "(engine_snapshot \<Rightarrow> engine_snapshot) \<Rightarrow> command_turn \<Rightarrow> command_turn" where
  "on_snapshot f t = t\<lparr>ct_snapshot := f (ct_snapshot t)\<rparr>"

definition push_effects :: "engine_effect list \<Rightarrow> command_turn \<Rightarrow> command_turn" where
  "push_effects effects t = t\<lparr>ct_effects := ct_effects t @ effects\<rparr>"

definition set_playback_state :: "playback_state \<Rightarrow> engine_snapshot \<Rightarrow> engine_snapshot" where
  "set_playback_state st s = s\<lparr>sn_playback_state := st\<rparr>"

subsection \<open>Sources\<close>

record resolved_media =
  rm_media :: media_item
  rm_expires_at :: "u64 option"

definition with_source :: "media_item \<Rightarrow> playback_source \<Rightarrow> resolved_media" where
  "with_source media source =
     \<lparr>rm_media = media\<lparr>mi_source_uri := Some (ps_url source), mi_mime_type := Some (ps_content_type source),
                       mi_duration_millis := Some (ps_duration_millis source)\<rparr>,
      rm_expires_at = Some (ps_expires_at_epoch_millis source)\<rparr>"

definition with_audio_source :: "media_item \<Rightarrow> audio_source \<Rightarrow> resolved_media" where
  "with_audio_source media source =
     \<lparr>rm_media = media\<lparr>mi_source_uri := Some (aud_uri source),
        mi_mime_type := (case aud_mime_type source of Some m \<Rightarrow> Some m | None \<Rightarrow> mi_mime_type media),
        mi_duration_millis := (case mi_duration_millis media of
                                 None \<Rightarrow> aud_expected_duration_ms source | Some d \<Rightarrow> Some d)\<rparr>,
      rm_expires_at = None\<rparr>"

definition source_failure :: "string \<Rightarrow> string \<Rightarrow> engine_error" where
  "source_failure media_id text =
     engine_error_new NetworkError
       (''Failed to resolve playback source for media_id='' @ media_id @ '': '' @ text) True"

definition resolve_playback_source ::
  "media_item \<Rightarrow> 'w engine \<Rightarrow> resolved_media result \<times> 'w engine" where
  "resolve_playback_source media e =
     (case take_prefetched as_playback e of
        (Some r, e) \<Rightarrow> (map_ok (with_source media) r, e)
      | (None, e) \<Rightarrow>
          (case en_playback_port e of
             Some port \<Rightarrow>
               (let (r, e) = await_call (pp_resolve_playback port (mi_id media)) e
                in (map_ok (with_source media) r, e))
           | None \<Rightarrow>
               (if \<not> blank (unwrap_or (mi_source_uri media) [])
                then (Ok \<lparr>rm_media = media, rm_expires_at = None\<rparr>, e)
                else case en_audio_source_client e of
                       None \<Rightarrow> (Err (engine_error_new ServiceUnavailableError
                                  ''playback resolver is not configured'' False), e)
                     | Some client \<Rightarrow>
                         (let (r, e) = await_call (ac_resolve_track client (mi_id media)) e
                          in case r of
                               Inl text \<Rightarrow> (Err (source_failure (mi_id media) text), e)
                             | Inr source \<Rightarrow> (Ok (with_audio_source media source), e)))))"

text \<open>A new playback instance: the counter advances, the recovery budget starts again.\<close>

definition start_instance :: "u64 \<Rightarrow> 'w engine \<Rightarrow> 'w engine" where
  "start_instance start_position e =
     (let inst = sat_add (en_next_instance e) 1
      in e\<lparr>en_next_instance := inst, en_current_instance := Some inst,
           en_pending_seek := Some start_position,
           en_recovery := recovery_default\<lparr>rs_desired_play_when_ready := True\<rparr>\<rparr>)"

definition update_media_state ::
  "resolved_media \<Rightarrow> engine_snapshot \<Rightarrow> 'w engine \<Rightarrow> engine_snapshot \<times> engine_effect list \<times> 'w engine" where
  "update_media_state resolved s e =
     (let media = rm_media resolved;
          media_changed = (sn_media_id s \<noteq> Some (mi_id media));
          start_position = (if media_changed then 0 else sn_position_millis s);
          s' = with_media media s;
          s' = (if media_changed
                then with_progress_tick (sn_updated_at s) (with_position 0 s') else s');
          e = start_instance start_position e
      in (with_playback_expiry (rm_expires_at resolved) s',
          [PreparePlaybackSource (mi_id media) (en_next_instance e) start_position,
           UpdateMetadata (mi_id media) (mi_title media) (mi_artist media)],
          e))"

text \<open>The two ends of resolving a source: the item is prepared and the engine buffers, or the
  error is shown.\<close>

definition prepare_media ::
  "bool \<Rightarrow> resolved_media \<Rightarrow> command_turn \<Rightarrow> 'w engine \<Rightarrow> command_turn \<times> 'w engine" where
  "prepare_media reassert resolved t e =
     (let (s, effects, e) = update_media_state resolved (ct_snapshot t) e
      in (push_effects effects (t\<lparr>ct_snapshot := s, ct_reassert := reassert\<rparr>), e))"

definition start_buffering ::
  "bool \<Rightarrow> resolved_media \<Rightarrow> command_turn \<Rightarrow> 'w engine \<Rightarrow> command_turn \<times> 'w engine" where
  "start_buffering reassert resolved t e =
     (let (t, e) = prepare_media reassert resolved t e
      in (on_snapshot (set_playback_state Buffering) t, e))"

definition source_error :: "engine_error \<Rightarrow> engine_snapshot \<Rightarrow> engine_snapshot" where
  "source_error err s = set_playback_state PlaybackError (with_busy False (with_error (Some err) s))"

text \<open>A direct request keeps the failed item on screen, without a source.\<close>

definition failed_request :: "media_item \<Rightarrow> engine_error \<Rightarrow> engine_snapshot \<Rightarrow> engine_snapshot" where
  "failed_request media err s =
     set_playback_state PlaybackError
       (with_error (Some err) (with_media (media\<lparr>mi_source_uri := None\<rparr>) s))"

definition load_selected ::
  "bool \<Rightarrow> media_item \<Rightarrow> command_turn \<Rightarrow> 'w engine \<Rightarrow> command_turn \<times> 'w engine" where
  "load_selected reassert media t e =
     (case resolve_playback_source media e of
        (Inr resolved, e) \<Rightarrow> start_buffering reassert resolved t e
      | (Inl err, e) \<Rightarrow> (on_snapshot (source_error err) t, e))"

definition load_requested :: "media_item \<Rightarrow> command_turn \<Rightarrow> 'w engine \<Rightarrow> command_turn \<times> 'w engine" where
  "load_requested media t e =
     (case resolve_playback_source media e of
        (Inr resolved, e) \<Rightarrow> start_buffering True resolved t e
      | (Inl err, e) \<Rightarrow> (on_snapshot (failed_request media err) t, e))"

subsection \<open>Moving through the queue\<close>

definition skip_next_command ::
  "bool \<Rightarrow> command_turn \<Rightarrow> 'w engine \<Rightarrow> command_turn \<times> 'w engine" where
  "skip_next_command desired_before t e =
     (case next_item (en_queue e) of
        (Some media, q) \<Rightarrow> load_selected desired_before media t (e\<lparr>en_queue := q\<rparr>)
      | (None, q) \<Rightarrow> (t\<lparr>ct_snapshot := en_snapshot e\<rparr>, e\<lparr>en_queue := q\<rparr>))"

definition PREVIOUS_TRACK_THRESHOLD_MILLIS :: u64 where
  "PREVIOUS_TRACK_THRESHOLD_MILLIS = 10000"

text \<open>Back to the start of the current item: a seek, not a new source.\<close>

definition seek_to_start :: "u64 \<Rightarrow> command_turn \<Rightarrow> 'w engine \<Rightarrow> command_turn \<times> 'w engine" where
  "seek_to_start now t e =
     (push_effects [SeekEffect 0] (on_snapshot (\<lambda>s. with_progress_tick now (with_position 0 s)) t),
      e\<lparr>en_pending_seek := Some 0\<rparr>)"

definition set_desired :: "bool \<Rightarrow> 'w engine \<Rightarrow> 'w engine" where
  "set_desired desired e =
     e\<lparr>en_recovery := (en_recovery e)\<lparr>rs_desired_play_when_ready := desired\<rparr>\<rparr>"

definition skip_previous_command ::
  "bool \<Rightarrow> playback_state \<Rightarrow> u64 \<Rightarrow> command_turn \<Rightarrow> 'w engine \<Rightarrow> command_turn \<times> 'w engine" where
  "skip_previous_command desired_before prev now t e =
     (if sn_position_millis (en_snapshot e) < PREVIOUS_TRACK_THRESHOLD_MILLIS \<and> has_previous (en_queue e)
      then case previous_item (en_queue e) of
             (Some media, q) \<Rightarrow> load_selected desired_before media t (e\<lparr>en_queue := q\<rparr>)
           | (None, q) \<Rightarrow> (t, e\<lparr>en_queue := q\<rparr>)
      else if has_current (en_queue e)
      then (let (t, e) = seek_to_start now t e
            in if prev = Ended then (t\<lparr>ct_reassert := True\<rparr>, set_desired True e) else (t, e))
      else (t\<lparr>ct_snapshot := en_snapshot e\<rparr>, e))"

definition play_command ::
  "playback_state \<Rightarrow> u64 \<Rightarrow> command_turn \<Rightarrow> 'w engine \<Rightarrow> command_turn \<times> 'w engine" where
  "play_command prev now t e =
     (if sn_session (ct_snapshot t) = None
      then (on_snapshot (set_playback_state Idle) t, e)
      else
        (let t = t\<lparr>ct_reassert := (prev \<in> {Buffering, Recovering, Ended})\<rparr>
         in if prev = Ended then seek_to_start now t e
            else if sn_media_id (en_snapshot e) \<noteq> None then (t, e)
            else
              (let (selected, q) = (case current_item (en_queue e) of
                                      Some media \<Rightarrow> (Some media, en_queue e)
                                    | None \<Rightarrow> next_item (en_queue e));
                   e = e\<lparr>en_queue := q\<rparr>
               in case selected of
                    None \<Rightarrow> (t, e)
                  | Some media \<Rightarrow>
                      (case resolve_playback_source media e of
                         (Inr resolved, e) \<Rightarrow> prepare_media True resolved t e
                       | (Inl err, e) \<Rightarrow> (on_snapshot (source_error err) t, e)))))"

definition seek_command :: "u64 \<Rightarrow> u64 \<Rightarrow> command_turn \<Rightarrow> 'w engine \<Rightarrow> command_turn \<times> 'w engine" where
  "seek_command pos now t e =
     (push_effects [SeekEffect pos] (on_snapshot (\<lambda>s. with_progress_tick now (with_position pos s)) t),
      e\<lparr>en_pending_seek := Some pos\<rparr>)"

subsection \<open>Direct requests\<close>

definition discovery_track_by_id :: "engine_snapshot \<Rightarrow> string \<Rightarrow> media_item option" where
  "discovery_track_by_id s media_id =
     find (\<lambda>media. mi_id media = media_id)
       (sn_for_you_results s @ sn_recommendations_results s @ sn_discovery_results s)"

definition known_media :: "'w engine \<Rightarrow> engine_snapshot \<Rightarrow> string \<Rightarrow> media_item option" where
  "known_media e s media_id =
     (case rp_get_by_id (en_repository e) media_id (en_world e) of
        Some media \<Rightarrow> Some media
      | None \<Rightarrow> discovery_track_by_id s media_id)"

definition queue_media :: "'w engine \<Rightarrow> engine_snapshot \<Rightarrow> string \<Rightarrow> media_item" where
  "queue_media e s media_id =
     (case known_media e s media_id of
        Some media \<Rightarrow> media
      | None \<Rightarrow>
          (case find (\<lambda>item. tr_id (pt_track item) = media_id) (sn_playlist_tracks s) of
             Some item \<Rightarrow> project_discovery_track (pt_track item)
           | None \<Rightarrow> media_item_default\<lparr>mi_id := media_id\<rparr>))"

definition play_media_by_id :: "string \<Rightarrow> command_turn \<Rightarrow> 'w engine \<Rightarrow> command_turn \<times> 'w engine" where
  "play_media_by_id media_id t e =
     (let t = on_snapshot (with_busy True) t;
          (t, e) = (case known_media e (ct_snapshot t) media_id of
                      None \<Rightarrow> (t, e)
                    | Some media \<Rightarrow>
                        load_requested media t (e\<lparr>en_queue := set_items [media] (en_queue e)\<rparr>))
      in (on_snapshot (with_busy False) t, e))"

definition play_queue ::
  "string list \<Rightarrow> usize \<Rightarrow> command_turn \<Rightarrow> 'w engine \<Rightarrow> command_turn \<times> 'w engine" where
  "play_queue media_ids start_index t e =
     (let t = on_snapshot (with_busy True) t;
          items = map (queue_media e (ct_snapshot t)) media_ids;
          e = e\<lparr>en_queue := set_current_index start_index (set_items items (en_queue e))\<rparr>;
          (t, e) = (case current_item (en_queue e) of
                      None \<Rightarrow> (t, e)
                    | Some media \<Rightarrow> load_requested media t e)
      in (on_snapshot (with_busy False) t, e))"

text \<open>\<open>results.unwrap_or_default()\<close>: a failed search finds nothing.\<close>

definition voice_play :: "string \<Rightarrow> command_turn \<Rightarrow> 'w engine \<Rightarrow> command_turn \<times> 'w engine" where
  "voice_play query t e =
     (let t = on_snapshot (with_busy True) t;
          (r, e) = await_call (rp_search (en_repository e) query) e;
          (t, e) =
            (case (case r of Inl _ \<Rightarrow> [] | Inr found \<Rightarrow> found) of
               [] \<Rightarrow> (push_effects [NotifyUser (''No results found for '' @ query)] t, e)
             | media # _ \<Rightarrow>
                 (case resolve_playback_source media e of
                    (Inr resolved, e) \<Rightarrow> start_buffering True resolved t e
                  | (Inl err, e) \<Rightarrow>
                      (on_snapshot (\<lambda>s. set_playback_state PlaybackError (with_error (Some err) s)) t, e)))
      in (on_snapshot (with_busy False) t, e))"

subsection \<open>Session, speed, configuration, sleep timer, voice\<close>

definition start_session :: "string \<Rightarrow> u64 \<Rightarrow> command_turn \<Rightarrow> command_turn" where
  "start_session user now t =
     (let session_id = ''session-'' @ show_u64 now
      in push_effects [SessionStarted session_id]
           (on_snapshot (with_session (Some (media_session_new session_id user now))) t))"

definition end_session :: "command_turn \<Rightarrow> command_turn" where
  "end_session t =
     push_effects [SessionEnded]
       (on_snapshot (\<lambda>s. let s = with_session None s
          in s\<lparr>sn_theme_preference := (sn_theme_preference s)\<lparr>tp_session_user_id := None\<rparr>\<rparr>) t)"

definition set_speed :: "f32 \<Rightarrow> command_turn \<Rightarrow> command_turn" where
  "set_speed speed t = push_effects [SetSpeedEffect speed] (on_snapshot (with_speed speed) t)"

text \<open>\<open>find_service::<SleepTimerService>()\<close> finds the first one.\<close>

fun set_timer :: "u64 \<Rightarrow> engine_service list \<Rightarrow> engine_service list" where
  "set_timer fire_at [] = []"
| "set_timer fire_at (SleepTimerService _ # services) = SleepTimerService fire_at # services"
| "set_timer fire_at (service # services) = service # set_timer fire_at services"

text \<open>\<open>now_epoch_millis + duration\<close> wraps in a release build.\<close>

definition set_sleep_timer :: "u64 option \<Rightarrow> u64 \<Rightarrow> 'w engine \<Rightarrow> 'w engine" where
  "set_sleep_timer duration now e =
     e\<lparr>en_services := set_timer (case duration of Some d \<Rightarrow> now + d | None \<Rightarrow> 0) (en_services e)\<rparr>"

definition start_voice_interaction :: "command_turn \<Rightarrow> 'w engine \<Rightarrow> command_turn \<times> 'w engine" where
  "start_voice_interaction t e =
     (let s = en_snapshot e;
          context = (case (sn_title s, sn_artist s) of
                       (Some title, Some artist) \<Rightarrow> Some (title, artist) | _ \<Rightarrow> None);
          e = (case en_voice_engine e of
                 None \<Rightarrow> e
               | Some ve \<Rightarrow> e\<lparr>en_world := ve_set_context ve context (ve_reset ve (en_world e))\<rparr>)
      in (push_effects [DuckAudio, StartAudioCapture] t, e))"

definition process_voice_audio ::
  "16 word list \<Rightarrow> command_turn \<Rightarrow> 'w engine \<Rightarrow> command_turn \<times> 'w engine" where
  "process_voice_audio chunk t e =
     (case en_voice_engine e of
        None \<Rightarrow> (t, e)
      | Some ve \<Rightarrow>
          (let (_, e) = await_call (ve_process_audio_chunk ve chunk) e;
               hypothesis = ve_partial_hypothesis ve (en_world e)
           in (on_snapshot (with_voice_hypothesis (non_empty hypothesis)) t, e)))"

text \<open>\<open>StopVoiceInteraction\<close> up to the command it may have recognised.\<close>

definition finish_voice ::
  "command_turn \<Rightarrow> 'w engine \<Rightarrow> engine_command option \<times> command_turn \<times> 'w engine" where
  "finish_voice t e =
     (case en_voice_engine e of
        None \<Rightarrow> (None, t, e)
      | Some ve \<Rightarrow>
          (let (r, e) = await_call (ve_finish ve) e
           in case r of
                Inr (VoiceCommand command) \<Rightarrow> (Some command, t, e)
              | Inr (VoiceError msg) \<Rightarrow> (None, push_effects [NotifyUser msg] t, e)
              | Inr NoMatch \<Rightarrow>
                  (None, push_effects [NotifyUser ''I didn't catch that. Could you repeat?''] t, e)
              | Inl msg \<Rightarrow> (None, push_effects [NotifyUser msg] t, e)))"

definition end_voice :: "command_turn \<Rightarrow> command_turn" where
  "end_voice t =
     on_snapshot (\<lambda>s. with_voice_hypothesis None (with_busy False s))
       (push_effects [StopAudioCapture, UnduckAudio] t)"

text \<open>The arms of \<open>dispatch_command\<close> for playback and session commands.\<close>

definition dispatch_transport_command ::
  "bool \<Rightarrow> playback_state \<Rightarrow> u64 \<Rightarrow> engine_command_type \<Rightarrow> command_turn \<Rightarrow> 'w engine \<Rightarrow>
     command_turn \<times> 'w engine" where
  "dispatch_transport_command desired_before prev now command t e =
     (case command of
        StartSession user \<Rightarrow> (start_session user now t, e)
      | EndSession \<Rightarrow> (end_session t, e)
      | SkipNext \<Rightarrow> skip_next_command desired_before t e
      | SkipPrevious \<Rightarrow> skip_previous_command desired_before prev now t e
      | Play \<Rightarrow> play_command prev now t e
      | SetSpeed speed \<Rightarrow> (set_speed speed t, e)
      | Seek pos \<Rightarrow> seek_command pos now t e
      | UpdateConfig config \<Rightarrow> (t, e\<lparr>en_config := config\<rparr>)
      | StartVoiceInteraction \<Rightarrow> start_voice_interaction t e
      | ProcessVoiceAudio chunk \<Rightarrow> process_voice_audio chunk t e
      | VoicePlay query \<Rightarrow> voice_play query t e
      | PlayMediaById media_id \<Rightarrow> play_media_by_id media_id t e
      | PlayQueue media_ids start_index \<Rightarrow> play_queue media_ids start_index t e
      | SetSleepTimer duration \<Rightarrow> (t, set_sleep_timer duration now e)
      | _ \<Rightarrow> (t, e))"

end
