(* ===== verification/Middlewares.thy ===== *)
theory Middlewares
  imports Transport
begin

text \<open>
  The middleware pipeline (\<open>middleware/pipeline.rs\<close>, \<open>middleware/standard.rs\<close>,
  \<open>middleware/analytics.rs\<close>) and the services of the engine (\<open>services/service.rs\<close>). A middleware
  may refuse a command before it is dispatched and may change the outcome afterwards. The state a
  middleware keeps for itself is in its constructor; reports go to the event bus the middleware
  was built with, which \<open>build_engine\<close> (\<open>ffi/src/engine_handle.rs\<close>) takes from the engine.
  Sums of times that the code adds with \<open>+\<close> wrap, as in a release build.
\<close>

record engine_outcome =
  oc_snapshot :: engine_snapshot
  oc_event :: engine_event
  oc_effects :: "engine_effect list"

subsection \<open>Before a command\<close>

definition should_throttle ::
  "u64 \<Rightarrow> (string \<rightharpoonup> u64) \<Rightarrow> engine_command \<Rightarrow> u64 \<Rightarrow> bool \<times> (string \<rightharpoonup> u64)" where
  "should_throttle min_interval last_map command now =
     (let key = command_as_wire (command_type command);
          last = unwrap_or (last_map key) 0
      in if now < last + min_interval then (True, last_map) else (False, last_map(key \<mapsto> now)))"

definition analytics_payload :: "codec \<Rightarrow> string \<Rightarrow> string option \<Rightarrow> string \<Rightarrow> string" where
  "analytics_payload cdc event_name media_id properties =
     ''{\"event\": \"'' @ event_name @ ''\", \"media_id\": '' @ dbg_media_id cdc media_id @
     '', \"properties\": '' @ properties @ ''}''"

definition report :: "string \<Rightarrow> string option \<Rightarrow> string \<Rightarrow> 'w engine \<Rightarrow> 'w engine" where
  "report event_name media_id properties e =
     notify_event_emitted
       (analytics_reported (analytics_payload (en_codec e) event_name media_id properties)) e"

definition show_bool :: "bool \<Rightarrow> string" where
  "show_bool b = (if b then ''true'' else ''false'')"

definition busy_rejection :: "codec \<Rightarrow> engine_command \<Rightarrow> engine_snapshot \<Rightarrow> engine_error" where
  "busy_rejection cdc command s =
     engine_error_new CommandRejected
       (''[Validation] Rejecting command '' @ dbg_command cdc (command_type command) @
        '' because the engine is currently busy (state: '' @
        dbg_playback_state cdc (sn_playback_state s) @ '', is_busy: '' @ show_bool (sn_is_busy s) @ '')'')
       False"

definition throttle_rejection :: "codec \<Rightarrow> engine_command \<Rightarrow> engine_error" where
  "throttle_rejection cdc command =
     engine_error_new CommandRejected
       (''[Throttling] Throttling command '' @ dbg_command cdc (command_type command) @ '' (too rapid)'')
       False"

text \<open>One middleware: its verdict, its new state and the engine (whose bus it may write to).\<close>

fun middleware_before ::
  "middleware \<Rightarrow> engine_command \<Rightarrow> 'w engine \<Rightarrow> engine_error option \<times> middleware \<times> 'w engine" where
  "middleware_before (ThrottlingMiddleware min_interval last_map) command e =
     (let now = sn_updated_at (snapshot_projection e);
          (throttle, last_map) = should_throttle min_interval last_map command now
      in (if throttle then Some (throttle_rejection (en_codec e) command) else None,
          ThrottlingMiddleware min_interval last_map, e))"
| "middleware_before ValidationMiddleware command e =
     (let s = snapshot_projection e
      in (if \<not> can_dispatch s then Some (busy_rejection (en_codec e) command s) else None,
          ValidationMiddleware, e))"
| "middleware_before (AnalyticsMiddleware last_heartbeat) command e =
     (None, AnalyticsMiddleware last_heartbeat,
      case command_type command of
        Play \<Rightarrow> report ''play_requested'' None ''{}'' e
      | Pause \<Rightarrow> report ''pause_requested'' None ''{}'' e
      | SkipNext \<Rightarrow> report ''skip_next_requested'' None ''{}'' e
      | SkipPrevious \<Rightarrow> report ''skip_prev_requested'' None ''{}'' e
      | _ \<Rightarrow> e)"
| "middleware_before m command e = (None, m, e)"

text \<open>The pipeline stops at the first refusal.\<close>

fun run_before ::
  "middleware list \<Rightarrow> engine_command \<Rightarrow> 'w engine \<Rightarrow> engine_error option \<times> middleware list \<times> 'w engine" where
  "run_before [] command e = (None, [], e)"
| "run_before (m # ms) command e =
     (case middleware_before m command e of
        (Some err, m, e) \<Rightarrow> (Some err, m # ms, e)
      | (None, m, e) \<Rightarrow> (case run_before ms command e of (r, ms, e) \<Rightarrow> (r, m # ms, e)))"

definition before_dispatch :: "engine_command \<Rightarrow> 'w engine \<Rightarrow> engine_error option \<times> 'w engine" where
  "before_dispatch command e =
     (case run_before (en_middleware e) command e of (r, ms, e) \<Rightarrow> (r, e\<lparr>en_middleware := ms\<rparr>))"

subsection \<open>After a command\<close>

definition recover_network_error :: "engine_outcome \<Rightarrow> 'w engine \<Rightarrow> engine_outcome \<times> 'w engine" where
  "recover_network_error outcome e =
     (case sn_last_error (oc_snapshot outcome) of
        None \<Rightarrow> (outcome, e)
      | Some err \<Rightarrow>
          (if error_type err = NetworkError \<and> \<not> is_fatal err
           then
             (let (next_media, q) = next_item (en_queue e);
                  s = (case next_media of
                         None \<Rightarrow> oc_snapshot outcome
                       | Some media \<Rightarrow> with_media media (oc_snapshot outcome))
              in (outcome\<lparr>oc_snapshot := s\<lparr>sn_last_error :=
                      Some (media_skipped ''Skipped track due to network error'')\<rparr>,
                    oc_event := command_applied
                      (Some ''recovered_from_network_error: skipped_to_next_track'')\<rparr>,
                  e\<lparr>en_queue := q\<rparr>))
           else (outcome, e)))"

definition HEARTBEAT_INTERVAL_MILLIS :: u64 where
  "HEARTBEAT_INTERVAL_MILLIS = 10000"

definition analyse_outcome ::
  "u64 \<Rightarrow> engine_outcome \<Rightarrow> 'w engine \<Rightarrow> u64 \<times> 'w engine" where
  "analyse_outcome last_heartbeat outcome e =
     (let s = snapshot_projection e;
          e = (if event_type (oc_event outcome) = CommandApplied
               then report ''state_transition'' (sn_media_id s)
                      (''{\"to_state\": \"'' @ dbg_playback_state (en_codec e) (sn_playback_state s) @ ''\"}'') e
               else e)
      in if sn_playback_state s = Playing \<and>
            sn_updated_at s \<ge> last_heartbeat + HEARTBEAT_INTERVAL_MILLIS
         then (sn_updated_at s,
               report ''playback_heartbeat'' (sn_media_id s)
                 (''{\"position_ms\": '' @ show_u64 (sn_position_millis s) @ ''}'') e)
         else (last_heartbeat, e))"

fun middleware_after ::
  "middleware \<Rightarrow> engine_outcome \<Rightarrow> 'w engine \<Rightarrow> middleware \<times> engine_outcome \<times> 'w engine" where
  "middleware_after TelemetryMiddleware outcome e =
     (TelemetryMiddleware, outcome,
      notify_event_emitted (oc_event outcome) (notify_state_changed (oc_snapshot outcome) e))"
| "middleware_after RecoveryMiddleware outcome e =
     (RecoveryMiddleware, recover_network_error outcome e)"
| "middleware_after (AnalyticsMiddleware last_heartbeat) outcome e =
     (case analyse_outcome last_heartbeat outcome e of
        (last_heartbeat, e) \<Rightarrow> (AnalyticsMiddleware last_heartbeat, outcome, e))"
| "middleware_after m outcome e = (m, outcome, e)"

fun run_after ::
  "middleware list \<Rightarrow> engine_outcome \<Rightarrow> 'w engine \<Rightarrow> middleware list \<times> engine_outcome \<times> 'w engine" where
  "run_after [] outcome e = ([], outcome, e)"
| "run_after (m # ms) outcome e =
     (case middleware_after m outcome e of
        (m, outcome, e) \<Rightarrow>
          (case run_after ms outcome e of (ms, outcome, e) \<Rightarrow> (m # ms, outcome, e)))"

definition after_dispatch :: "engine_outcome \<Rightarrow> 'w engine \<Rightarrow> engine_outcome \<times> 'w engine" where
  "after_dispatch outcome e =
     (case run_after (en_middleware e) outcome e of (ms, outcome, e) \<Rightarrow> (outcome, e\<lparr>en_middleware := ms\<rparr>))"

text \<open>The pipeline \<open>build_engine\<close> installs.\<close>

definition production_pipeline :: "middleware list" where
  "production_pipeline =
     [LoggerMiddleware, TelemetryMiddleware, AnalyticsMiddleware 0,
      ThrottlingMiddleware 300 Map.empty, FocusMiddleware]"

subsection \<open>Services\<close>

fun service_on_tick :: "u64 \<Rightarrow> engine_service \<Rightarrow> engine_command option \<times> engine_service" where
  "service_on_tick now ProgressService = (None, ProgressService)"
| "service_on_tick now (SleepTimerService fire_at) =
     (if fire_at > 0 \<and> now \<ge> fire_at then (Some (engine_command_new Pause None), SleepTimerService 0)
      else (None, SleepTimerService fire_at))"

definition services_tick :: "u64 \<Rightarrow> engine_service list \<Rightarrow> engine_command list \<times> engine_service list" where
  "services_tick now services =
     (let ticks = map (service_on_tick now) services
      in (List.map_filter fst ticks, map snd ticks))"

end
