(* ===== verification/Listening.thy ===== *)
theory Listening
  imports HistoryLaws
begin

text \<open>
  What the playback history promises, over sequences of events: ownership of what is shown, pages
  that cover the anonymous buffer, listening time, one record per playback instance, promotion in
  order. The last section proves what goes wrong.
\<close>

subsection \<open>Events\<close>

datatype history_event =
    HistoryCommand engine_command_type | CompletionReported "string option" | ListenTick u64

definition history_event_step ::
  "history_event \<Rightarrow> engine_snapshot \<Rightarrow> 'w engine \<Rightarrow> (engine_snapshot \<times> 'w engine) option" where
  "history_event_step ev s e =
     (case ev of
        HistoryCommand c \<Rightarrow> dispatch_history_command c s e
      | CompletionReported payload \<Rightarrow> Some (record_playback_completion payload s e)
      | ListenTick now \<Rightarrow> Some (maybe_auto_record_history now s e))"

inductive history_run ::
  "engine_snapshot \<times> 'w engine \<Rightarrow> engine_snapshot \<times> 'w engine \<Rightarrow> bool" where
  run_start: "history_run st st"
| run_step: "history_run st (s, e) \<Longrightarrow> history_event_step ev s e = Some st' \<Longrightarrow> history_run st st'"

lemma history_event_step_ok:
  assumes "history_ok s e" "history_event_step ev s e = Some (s', e')"
  shows "history_ok s' e'"
  using assms(2) dispatch_history_ok [OF assms(1)] record_playback_completion_ok [OF assms(1)]
    maybe_auto_record_history_ok [OF assms(1)]
  by (cases ev) (auto simp: history_event_step_def)

text \<open>Whatever commands, completion reports and ticks arrive, and however the login changes
  while a call is awaited, the history pages, the continuation token and the page operation in the
  engine belong to the owner the snapshot's auth state names (the account logged in, or the
  anonymous listener), or there are none.\<close>

lemma history_run_keeps_ownership:
  assumes "history_run (s, e) (s', e')" and "history_ok s e"
  shows "history_ok s' e'"
proof -
  have "history_ok (fst st') (snd st')" if "history_run st st'" "history_ok (fst st) (snd st)" for st st'
    using that
  proof (induction rule: history_run.induct)
    case (run_start st)
    then show ?case by simp
  next
    case (run_step st s e ev st')
    then show ?case using history_event_step_ok [of s e ev "fst st'" "snd st'"] by simp
  qed
  from this [OF assms(1)] assms(2) show ?thesis by simp
qed

lemma history_run_keeps_ownership_witness:
  "\<exists>s' e'. history_run (sample_snapshot, sample_engine logged_in) (s', e') \<and> history_ok s' e' \<and>
     sn_last_error s' = Some history_service_unconfigured"
proof -
  let ?e = "sample_engine logged_in"
  have none: "en_history_port ?e = None" "en_history_owner ?e = None" "en_history_operation ?e = None"
    by (simp_all add: sample_engine_def engine_new_def engine_fields_new_def Let_def)
  have empty: "sn_history_entries sample_snapshot = []" "sn_history_next sample_snapshot = None"
    by (simp_all add: sample_snapshot_def snapshot_default_def)
  have ok: "history_ok sample_snapshot ?e" using none empty by (simp add: history_ok_def)
  have "history_event_step (HistoryCommand LoadHistorySettings) sample_snapshot ?e =
      Some (sample_snapshot\<lparr>sn_last_error := Some history_service_unconfigured\<rparr>, ?e)"
    by (simp add: history_event_step_def dispatch_history_command_def load_history_settings_def
        history_owner_identity_def none)
  note run = run_step [OF run_start this]
  from run history_run_keeps_ownership [OF run ok]
  show ?thesis
    by (intro exI [of _ "sample_snapshot\<lparr>sn_last_error := Some history_service_unconfigured\<rparr>"]
        exI [of _ ?e] conjI) simp_all
qed

subsection \<open>Anonymous pages\<close>

lemma bounded_page_size: "1 \<le> unat (bounded_history_page_size n) \<and> unat (bounded_history_page_size n) \<le> 50"
proof (cases "n = 0")
  case True
  then show ?thesis by (simp add: bounded_history_page_size_def DEFAULT_HISTORY_PAGE_SIZE_def)
next
  case False
  then have "1 \<le> unat n" by (simp add: Suc_le_eq unat_gt_0)
  moreover have "unat (min n 50) = min (unat n) 50" by (simp add: min_def word_le_nat_alt)
  ultimately show ?thesis using False by (simp add: bounded_history_page_size_def MAX_HISTORY_PAGE_SIZE_def)
qed

lemma anonymous_offset_roundtrip:
  "n < 2 ^ 64 \<Longrightarrow> anonymous_history_offset (PageToken (anonymous_prefix @ show_nat n)) = Ok n"
  by (simp add: anonymous_history_offset_def parse_usize_show_nat)

text \<open>The page at an offset, and the token it continues with.\<close>

definition offset_token :: "usize \<Rightarrow> page_token option" where
  "offset_token n = (if n = 0 then None else Some (PageToken (anonymous_prefix @ show_nat n)))"

lemma anonymous_page_at:
  fixes sz :: u32
  assumes "length (ah_entries b) < 2 ^ 64" "n \<le> length (ah_entries b)"
  defines "k \<equiv> unat (bounded_history_page_size sz)"
  shows "anonymous_history_page b \<lparr>page_size = sz, page_token = offset_token n\<rparr> =
    Ok \<lparr>pr_items = take k (drop n (ah_entries b)),
        pr_next_page_token = (if n + k < length (ah_entries b) then offset_token (n + k) else None)\<rparr>"
proof -
  have off: "(case offset_token n of None \<Rightarrow> Ok 0 | Some token \<Rightarrow> anonymous_history_offset token) = (Ok n :: nat result)"
    using assms(1,2) by (simp add: offset_token_def anonymous_offset_roundtrip)
  have k: "1 \<le> k" using bounded_page_size unfolding k_def by blast
  have next_off: "min (n + length (take k (drop n (ah_entries b)))) USIZE_MAX =
      (if n + k < length (ah_entries b) then n + k else length (ah_entries b))"
    using assms(1,2) by (auto simp: USIZE_MAX_def min_def)
  have ne: "anonymous_prefix @ show_nat m \<noteq> []" for m by (simp add: anonymous_prefix_def)
  show ?thesis
    using k unfolding anonymous_history_page_def Let_def page_request.select_convs off k_def [symmetric] sum.case next_off
    by (simp add: page_token_new_def ne offset_token_def)
qed

text \<open>Reading page after page, following the continuation tokens.\<close>

fun read_anonymous_pages ::
  "nat \<Rightarrow> anonymous_history \<Rightarrow> u32 \<Rightarrow> page_token option \<Rightarrow> history_entry list list option" where
  "read_anonymous_pages 0 b sz token = None"
| "read_anonymous_pages (Suc fuel) b sz token =
     (case anonymous_history_page b \<lparr>page_size = sz, page_token = token\<rparr> of
        Inl err \<Rightarrow> None
      | Inr page \<Rightarrow>
          (case pr_next_page_token page of
             None \<Rightarrow> Some [pr_items page]
           | Some token \<Rightarrow> map_option (Cons (pr_items page)) (read_anonymous_pages fuel b sz (Some token))))"

lemma read_anonymous_pages_from:
  assumes "length (ah_entries b) < 2 ^ 64"
  shows "n \<le> length (ah_entries b) \<Longrightarrow> length (ah_entries b) - n < fuel \<Longrightarrow>
    \<exists>pages. read_anonymous_pages fuel b sz (offset_token n) = Some pages \<and>
      concat pages = drop n (ah_entries b) \<and> (\<forall>page\<in>set pages. length page \<le> 50)"
proof (induction fuel arbitrary: n)
  case 0
  then show ?case by simp
next
  case (Suc fuel)
  define k where "k = unat (bounded_history_page_size sz)"
  have k: "1 \<le> k" "k \<le> 50" using bounded_page_size unfolding k_def by blast+
  note page = anonymous_page_at [OF assms Suc.prems(1), of sz, folded k_def]
  show ?case
  proof (cases "n + k < length (ah_entries b)")
    case False
    then have "take k (drop n (ah_entries b)) = drop n (ah_entries b)" by simp
    with False k page show ?thesis by simp
  next
    case True
    have rest: "length (ah_entries b) - (n + k) < fuel" using True Suc.prems(2) k by linarith
    obtain pages where p: "read_anonymous_pages fuel b sz (offset_token (n + k)) = Some pages"
      "concat pages = drop (n + k) (ah_entries b)" "\<forall>page\<in>set pages. length page \<le> 50"
      using Suc.IH [of "n + k"] True rest by auto
    obtain t where t: "offset_token (n + k) = Some t" using k by (simp add: offset_token_def)
    have "read_anonymous_pages (Suc fuel) b sz (offset_token n) =
        Some (take k (drop n (ah_entries b)) # pages)"
      using True page p(1) by (simp add: t)
    moreover have "concat (take k (drop n (ah_entries b)) # pages) = drop n (ah_entries b)"
      by (simp add: p(2) add.commute flip: drop_drop)
    ultimately show ?thesis using p(3) k by auto
  qed
qed

text \<open>The pages of the anonymous history cover it. Whatever page size is asked for, following
  the continuation tokens from the first page ends, never fails on a token, and yields every entry
  exactly once and in order, in pages of at most fifty.\<close>

lemma anonymous_pages_cover_history:
  assumes "length (ah_entries b) < 2 ^ 64"
  shows "\<exists>pages. read_anonymous_pages (Suc (length (ah_entries b))) b sz None = Some pages \<and>
    concat pages = ah_entries b \<and> (\<forall>page\<in>set pages. length page \<le> 50)"
  using read_anonymous_pages_from [OF assms, of 0 "Suc (length (ah_entries b))" sz]
  by (simp add: offset_token_def)

definition sample_entry :: "string \<Rightarrow> history_entry" where
  "sample_entry i = \<lparr>he_id = i, he_played_at_epoch_millis = Some 5, he_duration_millis = 9,
     he_completion_ratio = Fin 1, he_track = Some sample_track\<rparr>"

lemma anonymous_pages_cover_history_witness:
  "\<exists>pages. read_anonymous_pages 3 ((anonymous_history_new 50)\<lparr>ah_entries := [sample_entry ''a'', sample_entry ''b'']\<rparr>)
     1 None = Some pages \<and> concat pages = [sample_entry ''a'', sample_entry ''b'']"
  using anonymous_pages_cover_history
    [of "(anonymous_history_new 50)\<lparr>ah_entries := [sample_entry ''a'', sample_entry ''b'']\<rparr>" 1]
  by (auto simp: numeral_3_eq_3)

subsection \<open>Listening time\<close>

text \<open>Abstract listening time: the gaps between consecutive observations that start in state
  \<open>Playing\<close>.\<close>

fun played_time :: "(u64 \<times> playback_state) list \<Rightarrow> nat" where
  "played_time ((t, st) # (t', st') # rest) =
     (if st = Playing then unat t' - unat t else 0) + played_time ((t', st') # rest)"
| "played_time _ = 0"

fun track_listening :: "(u64 \<times> playback_state) list \<Rightarrow> 'w engine \<Rightarrow> 'w engine" where
  "track_listening [] e = e"
| "track_listening ((t, st) # rest) e = track_listening rest (sync_history_listen_tracker t st e)"

lemma sync_tracker_instance [simp]:
  "en_current_instance (sync_history_listen_tracker t st e) = en_current_instance e"
  "hl_playback_instance_id (en_history_listen (sync_history_listen_tracker t st e)) = en_current_instance e"
  by (simp_all add: sync_history_listen_tracker_def Let_def split: option.splits)

text \<open>The tracker after an observation at \<open>t\<close> in state \<open>st\<close>, with \<open>n\<close> milliseconds listened.\<close>

definition tracked :: "nat \<Rightarrow> u64 \<Rightarrow> playback_state \<Rightarrow> 'w engine \<Rightarrow> bool" where
  "tracked n t st e =
     (hl_playback_instance_id (en_history_listen e) = en_current_instance e \<and>
      (case hl_playing_since (en_history_listen e) of
         None \<Rightarrow> st \<noteq> Playing \<and> unat (hl_accumulated_playing_millis (en_history_listen e)) = n
       | Some started \<Rightarrow> st = Playing \<and> started \<le> t \<and>
           unat (hl_accumulated_playing_millis (en_history_listen e)) + (unat t - unat started) = n))"

lemma tracked_elapsed: "tracked n t st e \<Longrightarrow> n < 2 ^ 64 \<Longrightarrow> unat (elapsed_millis (en_history_listen e) t) = n"
  by (auto simp: tracked_def elapsed_millis_def unat_sat_add unat_sat_sub split: option.splits)

lemma tracked_step:
  assumes "tracked n t st e" "t \<le> t'"
    and "n + (if st = Playing then unat t' - unat t else 0) < 2 ^ 64"
  shows "tracked (n + (if st = Playing then unat t' - unat t else 0)) t' st' (sync_history_listen_tracker t' st' e)"
proof -
  have le: "unat t \<le> unat t'" using assms(2) by (simp add: word_le_nat_alt)
  show ?thesis
  proof (cases "hl_playing_since (en_history_listen e)")
    case None
    with assms(1) show ?thesis
      by (auto simp: tracked_def sync_history_listen_tracker_def Let_def)
  next
    case (Some started)
    then have s: "st = Playing" "started \<le> t" "hl_playback_instance_id (en_history_listen e) = en_current_instance e"
      "unat (hl_accumulated_playing_millis (en_history_listen e)) + (unat t - unat started) = n"
      using assms(1) by (auto simp: tracked_def)
    have "unat started \<le> unat t" using s(2) by (simp add: word_le_nat_alt)
    then have sum: "unat (hl_accumulated_playing_millis (en_history_listen e)) + (unat t' - unat started) =
        n + (unat t' - unat t)" using s(4) le by linarith
    show ?thesis
    proof (cases "st' = Playing")
      case True
      with Some s sum assms(2) show ?thesis
        by (simp add: tracked_def sync_history_listen_tracker_def Let_def)
    next
      case False
      with Some s sum assms(3) show ?thesis
        by (simp add: tracked_def sync_history_listen_tracker_def Let_def unat_sat_add unat_sat_sub)
    qed
  qed
qed

lemma played_time_bound:
  "sorted (map fst (x # xs)) \<Longrightarrow> unat (fst x) + played_time (x # xs) \<le> unat (fst (last (x # xs)))"
proof (induction xs arbitrary: x)
  case (Cons y xs)
  have "unat (fst x) \<le> unat (fst y)" using Cons.prems by (simp add: word_le_nat_alt)
  with Cons.IH [of y] Cons.prems show ?case
    by (cases x; cases y) auto
qed simp

lemma track_listening_tracked:
  "tracked n t st e \<Longrightarrow> sorted (t # map fst obs) \<Longrightarrow> n + played_time ((t, st) # obs) < 2 ^ 64 \<Longrightarrow>
     \<exists>st'. tracked (n + played_time ((t, st) # obs)) (fst (last ((t, st) # obs))) st' (track_listening obs e)"
proof (induction obs arbitrary: n t st e)
  case Nil
  then show ?case by auto
next
  case (Cons ob obs)
  obtain t' st' where ob: "ob = (t', st')" by (cases ob)
  let ?n = "n + (if st = Playing then unat t' - unat t else 0)"
  have "tracked ?n t' st' (sync_history_listen_tracker t' st' e)"
    by (rule tracked_step) (use Cons.prems ob in \<open>auto split: if_splits\<close>)
  from Cons.IH [OF this] Cons.prems show ?case by (simp add: ob add.assoc)
qed

lemma tracked_fresh:
  assumes "hl_playback_instance_id (en_history_listen e) \<noteq> en_current_instance e"
  shows "tracked 0 t st (sync_history_listen_tracker t st e)"
  using assms by (auto simp: tracked_def sync_history_listen_tracker_def Let_def history_listen_default_def)

text \<open>C39: the tracker measures listening time, not wall-clock time. Fed with any sequence of
  observations of one playback instance at nondecreasing times, starting from whatever an earlier
  instance left, its elapsed time at the last observation is exactly the time spent in state
  \<open>Playing\<close>: pauses, buffering and the earlier instance do not count, and nothing saturates.\<close>

theorem tracker_measures_playing_time:
  assumes "hl_playback_instance_id (en_history_listen e) \<noteq> en_current_instance e"
    and "sorted (map fst (ob # obs))"
  shows "unat (elapsed_millis (en_history_listen (track_listening (ob # obs) e)) (fst (last (ob # obs)))) =
    played_time (ob # obs)"
proof -
  obtain t st where ob: "ob = (t, st)" by (cases ob)
  have bound: "unat t + played_time (ob # obs) \<le> unat (fst (last (ob # obs)))"
    using played_time_bound [OF assms(2)] by (simp add: ob)
  have "unat (fst (last (ob # obs))) < 2 ^ LENGTH(64)" by (rule unsigned_less)
  with bound have small: "played_time (ob # obs) < 2 ^ 64" by simp
  from track_listening_tracked [OF tracked_fresh [OF assms(1)], of t obs st] assms(2) small
  obtain st' where "tracked (played_time (ob # obs)) (fst (last (ob # obs))) st' (track_listening (ob # obs) e)"
    by (auto simp: ob)
  then show ?thesis using small by (rule tracked_elapsed)
qed

theorem tracker_measures_playing_time_witness:
  "let obs = [(1000, Playing), (4000, Paused), (9000, Playing), (11000, Playing)];
       e = (engine_new null_codec id () 0)\<lparr>en_current_instance := Some 1\<rparr>
   in unat (elapsed_millis (en_history_listen (track_listening obs e)) 11000) = 5000"
proof -
  let ?e = "(engine_new null_codec id () 0)\<lparr>en_current_instance := Some 1\<rparr>"
  have "hl_playback_instance_id (en_history_listen ?e) \<noteq> en_current_instance ?e"
    by (simp add: engine_new_def engine_fields_new_def Let_def history_listen_default_def)
  from tracker_measures_playing_time [OF this, of "(1000, Playing)" "[(4000, Paused), (9000, Playing), (11000, Playing)]"]
  show ?thesis by simp
qed

subsection \<open>One record per playback instance\<close>

text \<open>The part of the track that was listened to: of the track's duration when it is known and not
  exceeded, otherwise of the time listened itself.\<close>

definition listened_ratio :: "u64 \<Rightarrow> engine_snapshot \<Rightarrow> f32" where
  "listened_ratio listened s =
     (let duration = max (case sn_duration_millis s of None \<Rightarrow> 0 | Some d \<Rightarrow> d) listened
      in fp_clamp01 (f32_div (f32_of_u64 listened) (f32_of_u64 duration)))"

lemma listened_record_ok:
  assumes "\<not> blank track"
  obtains rec where "listened_record track elapsed s = Ok rec" "rec_track_id rec = track"
    "rec_duration_millis rec = max elapsed (sn_position_millis s)"
    "0 < elapsed \<Longrightarrow> rec_completion_ratio rec = listened_ratio (rec_duration_millis rec) s"
    "\<exists>x. rec_completion_ratio rec = Fin x \<and> 0 \<le> x \<and> x \<le> 1"
proof -
  let ?l = "max elapsed (sn_position_millis s)"
  obtain d where d: "d = max (case sn_duration_millis s of None \<Rightarrow> ?l | Some d \<Rightarrow> if 0 < d then d else ?l) ?l" by simp
  obtain x where x: "(if d = 0 then Fin 0 else f32_div (f32_of_u64 ?l) (f32_of_u64 d)) = Fin x"
    using f32_div_u64_finite [of d ?l] by (cases "d = 0") auto
  have "listened_record track elapsed s = playback_record_new track ?l (Fin x)"
    unfolding listened_record_def Let_def d [symmetric] x ..
  then have rec: "listened_record track elapsed s =
      Ok \<lparr>rec_track_id = track, rec_duration_millis = ?l, rec_completion_ratio = fp_clamp01 (Fin x)\<rparr>"
    using assms by (simp add: playback_record_new_def normalize_completion_ratio_def)
  have "fp_clamp01 (Fin x) = listened_ratio ?l s" if "0 < elapsed"
  proof -
    have "0 < ?l" using that by (simp add: less_max_iff_disj)
    then have "d = max (case sn_duration_millis s of None \<Rightarrow> 0 | Some d \<Rightarrow> d) ?l" "d \<noteq> 0"
      unfolding d by (auto simp: max_def split: option.splits)
    with x show ?thesis by (simp add: listened_ratio_def)
  qed
  with rec show thesis
    using fp_clamp01_range [of "Fin x"] by (intro that [OF rec]) simp_all
qed

text \<open>The entry an anonymous listen adds.\<close>

definition anonymous_entry :: "playback_record \<Rightarrow> engine_snapshot \<Rightarrow> 'w engine \<Rightarrow> history_entry" where
  "anonymous_entry rec s e =
     new_history_entry ''anonymous-history-'' (ah_next_sequence (en_anonymous_history e)) rec s"

lemma new_history_entry_frame [simp]:
  "new_history_entry kind n rec (s\<lparr>sn_history_settings := h\<rparr>) = new_history_entry kind n rec s"
  "new_history_entry kind n rec (s\<lparr>sn_history_state := x\<rparr>) = new_history_entry kind n rec s"
  by (simp_all add: new_history_entry_def history_track_from_snapshot_def
      cong: option.case_cong)

lemma visible_not_blank: "visible v = Some t \<Longrightarrow> \<not> blank t"
  by (auto simp: visible_def split: option.splits if_splits)

lemma record_history_listen_anonymous:
  assumes "auth_identity_from_state (sn_auth_state s) = None" "record_history_listen rec s e = (s', e')"
  shows "sn_auth_state s' = sn_auth_state s" "sn_last_error s' = sn_last_error s"
    "en_current_instance e' = en_current_instance e" "en_codec e' = en_codec e"
    "hl_playback_instance_id (en_history_listen e') = hl_playback_instance_id (en_history_listen e)"
    "ah_max_entries (en_anonymous_history e') = ah_max_entries (en_anonymous_history e)"
    "ah_enabled (en_anonymous_history e') = ah_enabled (en_anonymous_history e)"
    "ah_enabled (en_anonymous_history e) \<Longrightarrow>
       hl_recorded_instance_id (en_history_listen e') = en_current_instance e \<and>
       ah_entries (en_anonymous_history e') = take (ah_max_entries (en_anonymous_history e))
         (anonymous_entry rec s e # ah_entries (en_anonymous_history e))"
    "\<not> ah_enabled (en_anonymous_history e) \<Longrightarrow>
       en_history_listen e' = en_history_listen e \<and> en_anonymous_history e' = en_anonymous_history e"
  using assms
  by (auto simp: record_history_listen_def record_anonymous_listen_def record_anonymous_history_event_def
      publish_history_entry_def anonymous_entry_def Let_def claim_history_def
      bump_history_generation_def set_history_available_def
      split: if_splits)

lemma record_once_anonymous:
  assumes "auth_identity_from_state (sn_auth_state s) = None" "record_once rec s e = (s', e')"
    and "sn_last_error s = None"
  shows "sn_auth_state s' = sn_auth_state s" "sn_last_error s' = None"
    "en_current_instance e' = en_current_instance e"
    "hl_playback_instance_id (en_history_listen e') = hl_playback_instance_id (en_history_listen e)"
    "hl_recorded_instance_id (en_history_listen e') = en_current_instance e"
    "ah_max_entries (en_anonymous_history e') = ah_max_entries (en_anonymous_history e)"
    "ah_enabled (en_anonymous_history e) \<Longrightarrow>
       ah_entries (en_anonymous_history e') = take (ah_max_entries (en_anonymous_history e))
         (anonymous_entry rec s e # ah_entries (en_anonymous_history e))"
    "\<not> ah_enabled (en_anonymous_history e) \<Longrightarrow> en_anonymous_history e' = en_anonymous_history e"
proof -
  let ?e = "set_recorded_instance (en_current_instance e) e"
  obtain s2 e2 where r: "record_history_listen rec s ?e = (s2, e2)" by (cases "record_history_listen rec s ?e")
  note a = record_history_listen_anonymous [OF assms(1) r]
  have eq: "s' = s2" "e' = e2"
    using assms(2,3) a(2) by (simp_all add: record_once_def r)
  have base: "en_current_instance ?e = en_current_instance e" "en_anonymous_history ?e = en_anonymous_history e"
    "hl_playback_instance_id (en_history_listen ?e) = hl_playback_instance_id (en_history_listen e)"
    "hl_recorded_instance_id (en_history_listen ?e) = en_current_instance e"
    by (simp_all add: set_recorded_instance_def)
  show "sn_auth_state s' = sn_auth_state s" "sn_last_error s' = None"
    "en_current_instance e' = en_current_instance e"
    "hl_playback_instance_id (en_history_listen e') = hl_playback_instance_id (en_history_listen e)"
    "ah_max_entries (en_anonymous_history e') = ah_max_entries (en_anonymous_history e)"
    using a assms(3) eq base by simp_all
  show "hl_recorded_instance_id (en_history_listen e') = en_current_instance e"
    using a(8,9) eq base by (cases "ah_enabled (en_anonymous_history e)") simp_all
  show "ah_enabled (en_anonymous_history e) \<Longrightarrow>
       ah_entries (en_anonymous_history e') = take (ah_max_entries (en_anonymous_history e))
         (anonymous_entry rec s e # ah_entries (en_anonymous_history e))"
    using a(8) eq base by (simp add: anonymous_entry_def)
  show "\<not> ah_enabled (en_anonymous_history e) \<Longrightarrow> en_anonymous_history e' = en_anonymous_history e"
    using a(9) eq base by simp
qed

fun run_ticks :: "u64 list \<Rightarrow> engine_snapshot \<times> 'w engine \<Rightarrow> engine_snapshot \<times> 'w engine" where
  "run_ticks [] st = st"
| "run_ticks (now # ticks) (s, e) = run_ticks ticks (maybe_auto_record_history now s e)"

lemma sync_tracker_frame [simp]:
  "en_anonymous_history (sync_history_listen_tracker t st e) = en_anonymous_history e"
  "en_codec (sync_history_listen_tracker t st e) = en_codec e"
  by (simp_all add: sync_history_listen_tracker_def Let_def)

lemma sync_tracker_recorded:
  "hl_playback_instance_id (en_history_listen e) = en_current_instance e \<Longrightarrow>
     hl_recorded_instance_id (en_history_listen (sync_history_listen_tracker t st e)) =
       hl_recorded_instance_id (en_history_listen e)"
  by (simp add: sync_history_listen_tracker_def Let_def split: option.splits)

text \<open>A tick of an anonymous listen without an error: nothing is recorded, or one entry is, and
  then the instance is marked.\<close>

lemma anonymous_tick:
  assumes "auth_identity_from_state (sn_auth_state s) = None" "sn_last_error s = None"
    and "maybe_auto_record_history now s e = (s', e')"
  shows "auth_identity_from_state (sn_auth_state s') = None \<and> sn_last_error s' = None \<and>
    en_current_instance e' = en_current_instance e \<and>
    hl_playback_instance_id (en_history_listen e') = en_current_instance e \<and>
    ah_max_entries (en_anonymous_history e') = ah_max_entries (en_anonymous_history e) \<and>
    (ah_entries (en_anonymous_history e') = ah_entries (en_anonymous_history e) \<and>
       (instance_recorded (sync_history_listen_tracker now (sn_playback_state s) e) \<longrightarrow> instance_recorded e') \<or>
     \<not> instance_recorded (sync_history_listen_tracker now (sn_playback_state s) e) \<and>
     hl_recorded_instance_id (en_history_listen e') = en_current_instance e \<and>
     (\<exists>entry. ah_entries (en_anonymous_history e') =
        take (ah_max_entries (en_anonymous_history e)) (entry # ah_entries (en_anonymous_history e))))"
proof -
  define e1 where "e1 = sync_history_listen_tracker now (sn_playback_state s) e"
  define s1 where "s1 = s\<lparr>sn_updated_at := max (sn_updated_at s) now\<rparr>"
  have e1: "en_current_instance e1 = en_current_instance e" "en_anonymous_history e1 = en_anonymous_history e"
    "hl_playback_instance_id (en_history_listen e1) = en_current_instance e"
    by (simp_all add: e1_def)
  have s1: "auth_identity_from_state (sn_auth_state s1) = None" "sn_last_error s1 = None"
    using assms(1,2) by (simp_all add: s1_def)
  consider (skip) "e' = e1" "s' = s \<or> s' = s1"
    | (rec) rec where "\<not> instance_recorded e1" "record_once rec s1 e1 = (s', e')"
    using assms(3) unfolding maybe_auto_record_history_def Let_def e1_def [symmetric] s1_def [symmetric]
    by (auto split: if_splits option.splits sum.splits)
  then show ?thesis
  proof cases
    case skip
    with s1 assms(1,2) e1 show ?thesis by (auto simp flip: e1_def)
  next
    case rec
    note r = record_once_anonymous [OF s1(1) rec(2) s1(2)]
    show ?thesis
      using r e1 s1 rec(1) by (cases "ah_enabled (en_anonymous_history e1)") (auto simp flip: e1_def)
  qed
qed

text \<open>One listen, one entry. While the playback instance does not change, any number of ticks,
  at any times, adds at most one entry to the anonymous history.\<close>

lemma instance_recorded_at_most_once:
  assumes "auth_identity_from_state (sn_auth_state s) = None" and "sn_last_error s = None"
    and "en_current_instance e = Some i" and "run_ticks ticks (s, e) = (s', e')"
  shows "ah_entries (en_anonymous_history e') = ah_entries (en_anonymous_history e) \<or>
    (\<exists>entry. ah_entries (en_anonymous_history e') =
       take (ah_max_entries (en_anonymous_history e)) (entry # ah_entries (en_anonymous_history e)))"
proof -
  have marked: "ah_entries (en_anonymous_history e2) = ah_entries (en_anonymous_history e1)"
    if "run_ticks ts (s1, e1) = (s2, e2)" "auth_identity_from_state (sn_auth_state s1) = None"
      "sn_last_error s1 = None" "en_current_instance e1 = Some i" "instance_recorded e1"
      "hl_playback_instance_id (en_history_listen e1) = Some i"
    for ts s1 s2 and e1 e2 :: "'a engine"
    using that
  proof (induction ts arbitrary: s1 e1)
    case (Cons t ts)
    obtain s3 e3 where m: "maybe_auto_record_history t s1 e1 = (s3, e3)"
      by (cases "maybe_auto_record_history t s1 e1")
    have "instance_recorded (sync_history_listen_tracker t (sn_playback_state s1) e1)"
      using Cons.prems sync_tracker_recorded [of e1] by (simp add: instance_recorded_def)
    with anonymous_tick [OF Cons.prems(2,3) m] Cons.prems
    have "ah_entries (en_anonymous_history e3) = ah_entries (en_anonymous_history e1)"
      "auth_identity_from_state (sn_auth_state s3) = None" "sn_last_error s3 = None"
      "en_current_instance e3 = Some i" "instance_recorded e3"
      "hl_playback_instance_id (en_history_listen e3) = Some i"
      by auto
    with Cons.IH [of s3 e3] Cons.prems(1) m show ?case by simp
  qed simp
  show ?thesis
    using assms
  proof (induction ticks arbitrary: s e)
    case Nil
    then show ?case by simp
  next
    case (Cons t ts)
    obtain s3 e3 where m: "maybe_auto_record_history t s e = (s3, e3)"
      by (cases "maybe_auto_record_history t s e")
    note a = anonymous_tick [OF Cons.prems(1,2) m]
    have run: "run_ticks ts (s3, e3) = (s', e')" using Cons.prems(4) m by simp
    show ?case
    proof (cases "ah_entries (en_anonymous_history e3) = ah_entries (en_anonymous_history e)")
      case True
      with Cons.IH [of s3 e3] a run Cons.prems(3) show ?thesis by auto
    next
      case False
      with a Cons.prems(3) have rec: "instance_recorded e3" "en_current_instance e3 = Some i"
        "hl_playback_instance_id (en_history_listen e3) = Some i"
        by (auto simp: instance_recorded_def)
      from marked [OF run _ _ rec(2,1,3)] a False show ?thesis by auto
    qed
  qed
qed

text \<open>A concrete listen: an anonymous listener, playing since \<open>0\<close>.\<close>

definition listening_snapshot :: engine_snapshot where
  "listening_snapshot = (snapshot_idle 0)\<lparr>sn_playback_state := Playing, sn_media_id := Some ''t''\<rparr>"

definition listening_engine :: "unit engine" where
  "listening_engine = (engine_new null_codec id () 0)\<lparr>en_current_instance := Some 1,
     en_history_listen := history_listen_default\<lparr>hl_playback_instance_id := Some 1, hl_playing_since := Some 0\<rparr>\<rparr>"

lemma listening_fields [simp]:
  "sn_auth_state listening_snapshot = Anonymous" "sn_last_error listening_snapshot = None"
  "sn_playback_state listening_snapshot = Playing" "sn_media_id listening_snapshot = Some ''t''"
  "en_current_instance listening_engine = Some 1"
  "en_history_listen listening_engine =
     history_listen_default\<lparr>hl_playback_instance_id := Some 1, hl_playing_since := Some 0\<rparr>"
  "ah_entries (en_anonymous_history listening_engine) = []"
  "ah_max_entries (en_anonymous_history listening_engine) = 50"
  "ah_enabled (en_anonymous_history listening_engine)"
  by (simp_all add: listening_snapshot_def listening_engine_def snapshot_idle_def snapshot_default_def
      engine_new_def engine_fields_new_def anonymous_history_new_def ANONYMOUS_HISTORY_MAX_ENTRIES_def Let_def)

lemma instance_recorded_at_most_once_witness:
  "length (ah_entries (en_anonymous_history (snd (run_ticks [4000, 5000, 6000, 9000]
     (listening_snapshot, listening_engine))))) \<le> 1"
proof -
  obtain s' e' where r: "run_ticks [4000, 5000, 6000, 9000] (listening_snapshot, listening_engine) = (s', e')"
    by (cases "run_ticks [4000, 5000, 6000, 9000] (listening_snapshot, listening_engine)")
  from instance_recorded_at_most_once [OF _ _ _ r, of 1] show ?thesis unfolding r by auto
qed

text \<open>C40: an anonymous listen that has played for five seconds is recorded. With history enabled and no
  error shown, the first tick at which the listening time of an unrecorded instance reaches the threshold makes
  the listen the newest entry, with the track shown, the time listened, and as completion ratio the part of
  the track listened to, a number from 0 to 1 for every position, duration and elapsed time; the instance is
  marked and no error raised. (An error shown takes the mark back, see \<open>stale_error_repeats_record\<close>; an
  account's listen is sent to the backend.)\<close>

theorem qualified_listen_is_recorded:
  assumes "auth_identity_from_state (sn_auth_state s) = None" and "sn_last_error s = None"
    and "ah_enabled (en_anonymous_history e)" and "visible (sn_media_id s) = Some track"
    and "e1 = sync_history_listen_tracker now (sn_playback_state s) e"
    and "\<not> instance_recorded e1" and "5000 \<le> elapsed_millis (en_history_listen e1) now"
  shows "\<exists>s' e' entry. maybe_auto_record_history now s e = (s', e') \<and>
    ah_entries (en_anonymous_history e') =
      take (ah_max_entries (en_anonymous_history e)) (entry # ah_entries (en_anonymous_history e)) \<and>
    map_option tr_id (he_track entry) = Some track \<and>
    he_duration_millis entry = max (elapsed_millis (en_history_listen e1) now) (sn_position_millis s) \<and>
    he_completion_ratio entry = listened_ratio (he_duration_millis entry) s \<and>
    (\<exists>x. he_completion_ratio entry = Fin x \<and> 0 \<le> x \<and> x \<le> 1) \<and>
    hl_recorded_instance_id (en_history_listen e') = en_current_instance e \<and> sn_last_error s' = None"
proof -
  let ?s = "s\<lparr>sn_updated_at := max (sn_updated_at s) now\<rparr>"
  let ?elapsed = "elapsed_millis (en_history_listen e1) now"
  obtain rec where rec: "listened_record track ?elapsed ?s = Ok rec" "rec_track_id rec = track"
    "rec_duration_millis rec = max ?elapsed (sn_position_millis s)"
    "0 < ?elapsed \<Longrightarrow> rec_completion_ratio rec = listened_ratio (rec_duration_millis rec) ?s"
    "\<exists>x. rec_completion_ratio rec = Fin x \<and> 0 \<le> x \<and> x \<le> 1"
    using listened_record_ok [OF visible_not_blank [OF assms(4)], of ?elapsed ?s] by auto
  have "0 < ?elapsed" using assms(7) by (rule less_le_trans [rotated]) simp
  with rec have ratio: "rec_completion_ratio rec = listened_ratio (rec_duration_millis rec) s"
    by (simp add: listened_ratio_def)
  obtain s' e' where r: "record_once rec ?s e1 = (s', e')" by (cases "record_once rec ?s e1")
  have "auth_identity_from_state (sn_auth_state ?s) = None" "sn_last_error ?s = None"
    using assms(1,2) by simp_all
  note a = record_once_anonymous [OF this(1) r this(2)]
  have "\<not> (instance_recorded e1 \<or> ?elapsed < HISTORY_AUTO_RECORD_THRESHOLD_MILLIS)"
    using assms(6,7) by (simp add: HISTORY_AUTO_RECORD_THRESHOLD_MILLIS_def not_less)
  then have "maybe_auto_record_history now s e = (s', e')"
    using assms(4) rec(1) r unfolding maybe_auto_record_history_def Let_def assms(5) [symmetric]
    by (simp del: de_Morgan_disj)
  moreover have "en_anonymous_history e1 = en_anonymous_history e" "en_current_instance e1 = en_current_instance e"
    using assms(5) by simp_all
  ultimately show ?thesis
    using a assms(3) rec(2,3,5) ratio
    by (intro exI [of _ s'] exI [of _ e'] exI [of _ "anonymous_entry rec ?s e1"])
       (simp add: anonymous_entry_def new_history_entry_def history_track_from_snapshot_def Let_def)
qed

theorem qualified_listen_is_recorded_witness:
  "\<exists>s' e' entry. maybe_auto_record_history 5000 listening_snapshot listening_engine = (s', e') \<and>
     ah_entries (en_anonymous_history e') = [entry] \<and> map_option tr_id (he_track entry) = Some ''t''"
proof -
  have v: "visible (sn_media_id listening_snapshot) = Some ''t''"
    by (simp add: visible_def blank_leading_visible)
  have h: "en_history_listen (sync_history_listen_tracker 5000 Playing listening_engine) =
      history_listen_default\<lparr>hl_playback_instance_id := Some 1, hl_playing_since := Some 0\<rparr>"
    by (simp add: sync_history_listen_tracker_def Let_def)
  have "\<not> instance_recorded (sync_history_listen_tracker 5000 Playing listening_engine)"
    "5000 \<le> elapsed_millis (en_history_listen (sync_history_listen_tracker 5000 Playing listening_engine)) 5000"
    by (simp_all add: instance_recorded_def h elapsed_millis_def history_listen_default_def sat_add_def sat_sub_def)
  from qualified_listen_is_recorded [OF _ _ _ v refl, of listening_engine 5000] this
  show ?thesis by fastforce
qed

subsection \<open>Promotion after a login\<close>

text \<open>The calls of a promotion, in order.\<close>

fun submit_records :: "'w history_port \<Rightarrow> auth_identity \<Rightarrow> playback_record list \<Rightarrow> 'w \<Rightarrow> 'w" where
  "submit_records port i [] w = w"
| "submit_records port i (rec # recs) w = submit_records port i recs (snd (hp_record port i rec w))"

lemma promote_pending_all:
  assumes "en_auth_state_provider e = Some (\<lambda>_. auth)" "auth_identity_from_state auth = Some i"
    and "\<And>rec w. fst (hp_record port i rec w) = Ok True"
    and "\<forall>entry\<in>set pending. to_playback_record entry \<noteq> None"
    and "sn_auth_state s = auth"
  shows "promote_pending port i pending promoted s e =
    (Ok (promoted @ map he_id pending), s,
     e\<lparr>en_world := submit_records port i (List.map_filter to_playback_record pending) (en_world e)\<rparr>)"
  using assms(1,4)
proof (induction pending arbitrary: promoted e)
  case Nil
  then show ?case by (simp add: List.map_filter_def)
next
  case (Cons entry pending)
  obtain rec where rec: "to_playback_record entry = Some rec" using Cons.prems(2) by auto
  obtain w where c: "hp_record port i rec (en_world e) = (Ok True, w)"
    using assms(3) [of rec "en_world e"] by (cases "hp_record port i rec (en_world e)") simp
  have cur: "current_identity (e\<lparr>en_world := w\<rparr>) = Some i"
    using Cons.prems(1) assms(2) by (simp add: current_identity_def current_auth_def)
  have "current_auth (e\<lparr>en_world := w\<rparr>) = auth" using Cons.prems(1) by (simp add: current_auth_def)
  then have s: "s\<lparr>sn_auth_state := current_auth (e\<lparr>en_world := w\<rparr>)\<rparr> = s" using assms(5) by simp
  show ?case
    using Cons.IH [of "e\<lparr>en_world := w\<rparr>" "promoted @ [he_id entry]"] Cons.prems
    by (simp add: rec await_call_def c hg.guard_current [OF cur] s List.map_filter_simps)
qed

text \<open>After a login the anonymous listens are handed to the account oldest first, each exactly
  once. With the login stable, history enabled and every entry valid and accepted, reconciling
  calls \<open>record\<close> for the entries in the order they were played, empties the buffer, and only then
  invalidates the pages; a second reconciliation calls nothing.\<close>

lemma promotion_in_order:
  assumes "en_auth_state_provider e = Some (\<lambda>_. auth)" and "auth_identity_from_state auth = Some i"
    and "sn_auth_state s = auth" and "sn_history_settings s = Some settings" and "hs_enabled settings"
    and "\<not> en_reconciliation_in_flight e"
    and "\<And>rec w. fst (hp_record port i rec w) = Ok True"
    and "\<forall>entry\<in>set (ah_entries (en_anonymous_history e)). to_playback_record entry \<noteq> None"
    and "reconcile_anonymous_history i port s e = (s', e')"
  shows "ah_entries (en_anonymous_history e') = [] \<and> sn_last_error s' = sn_last_error s \<and>
    en_world e' = submit_records port i
      (List.map_filter to_playback_record (rev (ah_entries (en_anonymous_history e)))) (en_world e) \<and>
    \<not> en_reconciliation_in_flight e' \<and> reconcile_anonymous_history i port s' e' = (s', e')"
proof (cases "ah_entries (en_anonymous_history e) = []")
  case True
  with assms(6,9) show ?thesis by (auto simp: reconcile_anonymous_history_def List.map_filter_def)
next
  case False
  let ?es = "ah_entries (en_anonymous_history e)"
  let ?w = "submit_records port i (List.map_filter to_playback_record (rev ?es)) (en_world e)"
  let ?e = "e\<lparr>en_reconciliation_in_flight := True\<rparr>"
  have "promote_pending port i (rev ?es) [] s ?e = (Ok (map he_id (rev ?es)), s, ?e\<lparr>en_world := ?w\<rparr>)"
    using promote_pending_all [of ?e auth i port "rev ?es" s "[]"] assms(1-3,7,8) by simp
  moreover have "map he_id (rev ?es) \<noteq> []" using False by simp
  moreover have "filter (\<lambda>entry. he_id entry \<notin> set (map he_id (rev ?es))) ?es = []"
    by (simp add: filter_empty_conv)
  ultimately show ?thesis
    using assms(4-6,9) False
    by (auto simp: reconcile_anonymous_history_def reconcile_anonymous_history_impl_def
        promote_anonymous_history_def drop_promoted_def invalidate_history_pages_def
        bump_history_generation_def Let_def)
qed

definition sample_history_port :: "history_settings result \<Rightarrow> (playback_record \<Rightarrow> bool result) \<Rightarrow>
  history_entry paged_result result \<Rightarrow> (auth_state \<times> playback_record list) \<Rightarrow> (auth_state \<times> playback_record list) history_port" where
  "sample_history_port settings answer page after =
     \<lparr>hp_get_settings = (\<lambda>_ w. (settings, w)),
      hp_update_settings = (\<lambda>_ _ w. (Err history_service_unconfigured, w)),
      hp_record = (\<lambda>_ rec (auth, log). (answer rec, (auth, log @ [rec]))),
      hp_list = (\<lambda>_ _ w. (page, after)),
      hp_delete_entry = (\<lambda>_ _ w. (Ok (), w)), hp_clear = (\<lambda>_ w. (Ok 0, w))\<rparr>"

definition sample_history_engine ::
  "history_entry list \<Rightarrow> (auth_state \<times> playback_record list) engine" where
  "sample_history_engine entries =
     (engine_new null_codec id (logged_in, []) 0)\<lparr>en_auth_state_provider := Some (\<lambda>_. logged_in),
        en_anonymous_history := (anonymous_history_new 50)\<lparr>ah_entries := entries\<rparr>\<rparr>"

lemma sample_history_engine_fields [simp]:
  "en_world (sample_history_engine es) = (logged_in, [])"
  "en_auth_state_provider (sample_history_engine es) = Some (\<lambda>_. logged_in)"
  "ah_entries (en_anonymous_history (sample_history_engine es)) = es"
  "\<not> en_reconciliation_in_flight (sample_history_engine es)"
  "en_history_owner (sample_history_engine es) = None"
  "en_prefetched (sample_history_engine es) = None"
  by (simp_all add: sample_history_engine_def engine_new_def engine_fields_new_def Let_def)

definition sample_listen :: "string \<Rightarrow> history_entry" where
  "sample_listen i = (sample_entry i)\<lparr>he_track := Some (sample_track\<lparr>tr_id := i\<rparr>)\<rparr>"

lemma sample_listen_record:
  "\<not> blank i \<Longrightarrow> to_playback_record (sample_listen i) =
     Some \<lparr>rec_track_id = i, rec_duration_millis = 9, rec_completion_ratio = Fin 1\<rparr>"
  by (simp add: to_playback_record_def playback_record_new_def normalize_completion_ratio_def
      sample_listen_def sample_entry_def)

lemma promotion_in_order_witness:
  "map rec_track_id (snd (en_world (snd (reconcile_anonymous_history sample_identity
      (sample_history_port (Err sample_error) (\<lambda>_. Ok True) (Err sample_error) (logged_in, []))
      (sample_snapshot\<lparr>sn_history_settings := Some \<lparr>hs_enabled = True\<rparr>\<rparr>)
      (sample_history_engine [sample_listen ''b'', sample_listen ''a''])))))
   = [''a'', ''b'']"
proof -
  let ?port = "sample_history_port (Err sample_error) (\<lambda>_. Ok True) (Err sample_error) (logged_in, [])"
  let ?s = "sample_snapshot\<lparr>sn_history_settings := Some \<lparr>hs_enabled = True\<rparr>\<rparr>"
  let ?e = "sample_history_engine [sample_listen ''b'', sample_listen ''a'']"
  obtain s' e' where r: "reconcile_anonymous_history sample_identity ?port ?s ?e = (s', e')"
    by (cases "reconcile_anonymous_history sample_identity ?port ?s ?e")
  have ab: "to_playback_record (sample_listen ''a'') =
      Some \<lparr>rec_track_id = ''a'', rec_duration_millis = 9, rec_completion_ratio = Fin 1\<rparr>"
    "to_playback_record (sample_listen ''b'') =
      Some \<lparr>rec_track_id = ''b'', rec_duration_millis = 9, rec_completion_ratio = Fin 1\<rparr>"
    by (simp_all add: sample_listen_record blank_leading_visible)
  have all: "fst (hp_record ?port sample_identity rec w) = Ok True" for rec w
    by (cases w) (simp add: sample_history_port_def)
  have "en_world e' = submit_records ?port sample_identity
      (List.map_filter to_playback_record (rev [sample_listen ''b'', sample_listen ''a''])) (logged_in, [])"
    using promotion_in_order [where settings = "\<lparr>hs_enabled = True\<rparr>", OF _ _ _ _ _ _ all _ r, of logged_in]
    by (simp add: ab)
  then show ?thesis
    unfolding r by (simp add: ab List.map_filter_simps sample_history_port_def)
qed

subsection \<open>What goes wrong\<close>

lemma record_history_listen_enabled:
  assumes "auth_identity_from_state (sn_auth_state s) = None" "ah_enabled (en_anonymous_history e)"
    and "record_history_listen rec s e = (s', e')"
  shows "en_history_listen e' = (en_history_listen e)\<lparr>hl_recorded_instance_id := en_current_instance e\<rparr>"
    "sn_media_id s' = sn_media_id s" "sn_playback_state s' = sn_playback_state s"
  using assms
  by (auto simp: record_history_listen_def record_anonymous_listen_def record_anonymous_history_event_def
      publish_history_entry_def Let_def set_history_available_def claim_history_def bump_history_generation_def
      split: if_splits)

text \<open>An anonymous listen in progress, unrecorded, while some error is on screen.\<close>

definition errored_listen :: "engine_snapshot \<Rightarrow> 'w engine \<Rightarrow> bool" where
  "errored_listen s e =
     (auth_identity_from_state (sn_auth_state s) = None \<and> sn_last_error s \<noteq> None \<and>
      sn_playback_state s = Playing \<and> visible (sn_media_id s) \<noteq> None \<and>
      ah_enabled (en_anonymous_history e) \<and> en_current_instance e \<noteq> None \<and>
      hl_playback_instance_id (en_history_listen e) = en_current_instance e \<and>
      hl_playing_since (en_history_listen e) \<noteq> None \<and> hl_recorded_instance_id (en_history_listen e) = None)"

lemma errored_tick:
  assumes "errored_listen s e" "5000 \<le> elapsed_millis (en_history_listen e) now"
    and "maybe_auto_record_history now s e = (s', e')"
  shows "errored_listen s' e' \<and> en_history_listen e' = en_history_listen e \<and>
    ah_max_entries (en_anonymous_history e') = ah_max_entries (en_anonymous_history e) \<and>
    (\<exists>entry. ah_entries (en_anonymous_history e') =
       take (ah_max_entries (en_anonymous_history e)) (entry # ah_entries (en_anonymous_history e)))"
proof -
  have sync: "sync_history_listen_tracker now (sn_playback_state s) e = e"
    using assms(1) by (simp add: errored_listen_def sync_history_listen_tracker_def Let_def)
  let ?s = "s\<lparr>sn_updated_at := max (sn_updated_at s) now\<rparr>"
  let ?e = "set_recorded_instance (en_current_instance e) e"
  obtain track where track: "visible (sn_media_id ?s) = Some track"
    using assms(1) by (auto simp: errored_listen_def)
  obtain rec where rec: "listened_record track (elapsed_millis (en_history_listen e) now) ?s = Ok rec"
    using listened_record_ok [OF visible_not_blank [OF track]] by blast
  obtain s2 e2 where r: "record_history_listen rec ?s ?e = (s2, e2)" by (cases "record_history_listen rec ?s ?e")
  have pre: "auth_identity_from_state (sn_auth_state ?s) = None" "ah_enabled (en_anonymous_history ?e)"
    using assms(1) by (simp_all add: errored_listen_def set_recorded_instance_def)
  note a = record_history_listen_anonymous [OF pre(1) r] and b = record_history_listen_enabled [OF pre r]
  have "\<not> (instance_recorded e \<or> elapsed_millis (en_history_listen e) now < HISTORY_AUTO_RECORD_THRESHOLD_MILLIS)"
    using assms(1,2) by (auto simp: errored_listen_def instance_recorded_def HISTORY_AUTO_RECORD_THRESHOLD_MILLIS_def)
  then have "maybe_auto_record_history now s e = record_once rec ?s e"
    unfolding maybe_auto_record_history_def Let_def sync by (simp only: track rec if_False option.case sum.case)
  moreover have "record_once rec ?s e = (s2, set_recorded_instance None e2)"
    using a(2,3) b(1) assms(1) by (simp add: record_once_def r errored_listen_def)
  ultimately have eq: "s' = s2" "e' = set_recorded_instance None e2" using assms(3) by simp_all
  show ?thesis
    using assms(1) a b pre unfolding eq
    by (auto simp: errored_listen_def set_recorded_instance_def)
qed

text \<open>An old error makes one listen be recorded again and again. The mark of a recorded instance
  is taken back whenever the snapshot shows an error, also one that has nothing to do with the
  recording: while any error is on screen, every tick of a qualified anonymous listen adds an entry
  for the same playback instance, until the buffer is full of them.\<close>

lemma stale_error_repeats_record:
  assumes "errored_listen s e" and "\<forall>now\<in>set ticks. 5000 \<le> elapsed_millis (en_history_listen e) now"
    and "length (ah_entries (en_anonymous_history e)) \<le> ah_max_entries (en_anonymous_history e)"
    and "run_ticks ticks (s, e) = (s', e')"
  shows "length (ah_entries (en_anonymous_history e')) =
    min (ah_max_entries (en_anonymous_history e)) (length (ah_entries (en_anonymous_history e)) + length ticks)"
  using assms
proof (induction ticks arbitrary: s e)
  case Nil
  then show ?case by simp
next
  case (Cons t ts)
  obtain s1 e1 where m: "maybe_auto_record_history t s e = (s1, e1)" by (cases "maybe_auto_record_history t s e")
  have "5000 \<le> elapsed_millis (en_history_listen e) t" using Cons.prems(2) by simp
  note a = errored_tick [OF Cons.prems(1) this m]
  then obtain entry where entry: "ah_entries (en_anonymous_history e1) =
      take (ah_max_entries (en_anonymous_history e)) (entry # ah_entries (en_anonymous_history e))" by blast
  have "run_ticks ts (s1, e1) = (s', e')" using Cons.prems(4) m by simp
  from Cons.IH [OF _ _ _ this] a Cons.prems(2,3) show ?case
    by (auto simp: entry)
qed

lemma stale_error_repeats_record_witness:
  "length (ah_entries (en_anonymous_history (snd (run_ticks [5000, 5500, 6000]
     (listening_snapshot\<lparr>sn_last_error := Some sample_error\<rparr>, listening_engine))))) = 3"
proof -
  let ?s = "listening_snapshot\<lparr>sn_last_error := Some sample_error\<rparr>"
  have "visible (Some ''t'') = Some ''t''" by (simp add: visible_def blank_leading_visible)
  then have "errored_listen ?s listening_engine"
    by (simp add: errored_listen_def history_listen_default_def)
  moreover have "\<forall>now\<in>set [5000, 5500, 6000]. 5000 \<le> elapsed_millis (en_history_listen listening_engine) now"
    by (simp add: elapsed_millis_def history_listen_default_def sat_add_def sat_sub_def)
  moreover obtain s' e' where r: "run_ticks [5000, 5500, 6000] (?s, listening_engine) = (s', e')"
    by (cases "run_ticks [5000, 5500, 6000] (?s, listening_engine)")
  ultimately have "length (ah_entries (en_anonymous_history e')) = min 50 (0 + 3)"
    using stale_error_repeats_record [of ?s listening_engine "[5000, 5500, 6000]" s' e'] by simp
  then show ?thesis unfolding r by simp
qed

lemma current_identity_frame [simp]:
  "current_identity (e\<lparr>en_reconciliation_in_flight := f\<rparr>) = current_identity e"
  "current_identity (claim_history h e) = current_identity e"
  "current_identity (e\<lparr>en_reconciliation_in_flight := f, en_world := w\<rparr>) = current_identity (e\<lparr>en_world := w\<rparr>)"
  "current_identity ((claim_history h e)\<lparr>en_world := w\<rparr>) = current_identity (e\<lparr>en_world := w\<rparr>)"
  by (simp_all add: current_identity_def current_auth_def claim_history_def cong: option.case_cong)

lemma promotion_after_login_change:
  assumes "\<not> en_reconciliation_in_flight e" "sn_history_settings s = Some settings" "hs_enabled settings"
    and "ah_entries (en_anonymous_history e) = entries @ [oldest]" "to_playback_record oldest = Some rec1"
    and "hp_record port i rec1 (en_world e) = (r, w)" "current_identity (e\<lparr>en_world := w\<rparr>) \<noteq> Some i"
    and "reconcile_anonymous_history i port s e = (s', e')"
  shows "sn_history_settings s' = None \<and> en_world e' = w \<and> en_anonymous_history e' = en_anonymous_history e"
proof -
  let ?e = "e\<lparr>en_reconciliation_in_flight := True, en_world := w\<rparr>"
  have cur: "current_identity ?e \<noteq> Some i" using assms(7) by simp
  have "promote_pending port i (rev (entries @ [oldest])) [] s (e\<lparr>en_reconciliation_in_flight := True\<rparr>) =
      (Err history_login_required, clear_history_projection (s\<lparr>sn_auth_state := current_auth ?e\<rparr>), forget_history ?e)"
    using assms(5,6) by (simp add: await_call_def hg.guard_changed [OF cur])
  with assms(1-4,8) show ?thesis
    by (auto simp: reconcile_anonymous_history_def reconcile_anonymous_history_impl_def
        promote_anonymous_history_def forget_history_def clear_history_projection_def)
qed

text \<open>A login change during a promotion loses the anonymous history. When the first listen
  after a login fetches the settings, starts promoting, and the login changes while the first entry
  is submitted, the whole buffer is emptied: the wiped settings are then read as "history
  disabled".\<close>

lemma login_change_loses_anonymous_history:
  assumes "sn_history_settings s = None" and "auth_identity_from_state (sn_auth_state s) = Some i"
    and "en_history_port e = Some port" and "\<not> en_reconciliation_in_flight e"
    and "hp_get_settings port i (en_world e) = (Ok \<lparr>hs_enabled = True\<rparr>, w1)"
    and "current_identity (e\<lparr>en_world := w1\<rparr>) = Some i"
    and "ah_entries (en_anonymous_history e) = entries @ [oldest]" and "to_playback_record oldest = Some rec1"
    and "hp_record port i rec1 w1 = (r, w2)" and "current_identity (e\<lparr>en_world := w2\<rparr>) \<noteq> Some i"
    and "record_history_listen rec s e = (s', e')"
  shows "ah_entries (en_anonymous_history e') = [] \<and> en_world e' = w2"
proof -
  define e1 where "e1 = claim_history (OwnerAuthenticated i) (e\<lparr>en_world := w1\<rparr>)"
  define s1 where "s1 = set_history_available (s\<lparr>sn_auth_state := current_auth (e\<lparr>en_world := w1\<rparr>),
      sn_history_settings := Some \<lparr>hs_enabled = True\<rparr>\<rparr>)"
  obtain s2 e2 where rc: "reconcile_anonymous_history i port s1 e1 = (s2, e2)"
    by (cases "reconcile_anonymous_history i port s1 e1")
  have "sn_history_settings s1 = Some \<lparr>hs_enabled = True\<rparr>" by (simp add: s1_def set_history_available_def)
  moreover have "\<not> en_reconciliation_in_flight e1" "ah_entries (en_anonymous_history e1) = entries @ [oldest]"
    "en_world e1 = w1" using assms(4,7) by (simp_all add: e1_def claim_history_def)
  moreover have "current_identity (e1\<lparr>en_world := w2\<rparr>) \<noteq> Some i" using assms(10) by (simp add: e1_def)
  ultimately have a: "sn_history_settings s2 = None" "en_world e2 = w2"
    using promotion_after_login_change [of e1 s1 "\<lparr>hs_enabled = True\<rparr>" entries oldest rec1 port i r w2 s2 e2] assms(8,9) rc by auto
  have ctx: "history_context s (en_history_port e) = Inr (i, port)"
    using assms(2,3) by (simp add: history_context_def history_owner_identity_def)
  have "ensure_history_settings s e = (True, s2, e2)"
    using assms(1,5) by (simp add: ensure_history_settings_def ctx await_call_def hg.guard_current [OF assms(6)]
        rc flip: e1_def s1_def)
  then have "clear_anonymous_history_for_authenticated_disabled s2 e2 = (s', e')"
    using assms(2,11) a(1) by (simp add: record_history_listen_def)
  with a(2) show ?thesis
    by (auto simp: clear_anonymous_history_for_authenticated_disabled_def anonymous_history_clear_def
        invalidate_history_pages_def Let_def split: if_splits)
qed

lemma login_change_loses_anonymous_history_witness:
  "ah_entries (en_anonymous_history (snd (record_history_listen
      \<lparr>rec_track_id = ''c'', rec_duration_millis = 9, rec_completion_ratio = Fin 1\<rparr> sample_snapshot
      ((sample_history_engine [sample_listen ''b'', sample_listen ''a''])
        \<lparr>en_auth_state_provider := Some (\<lambda>(auth, log). if log = [] then auth else Anonymous),
         en_history_port := Some (sample_history_port (Ok \<lparr>hs_enabled = True\<rparr>) (\<lambda>_. Ok True)
           (Err sample_error) (Anonymous, []))\<rparr>)))) = []"
proof -
  let ?port = "sample_history_port (Ok \<lparr>hs_enabled = True\<rparr>) (\<lambda>_. Ok True) (Err sample_error) (Anonymous, [])"
  let ?e = "(sample_history_engine [sample_listen ''b'', sample_listen ''a''])
        \<lparr>en_auth_state_provider := Some (\<lambda>(auth, log). if log = [] then auth else Anonymous),
         en_history_port := Some ?port\<rparr>"
  let ?rec = "\<lparr>rec_track_id = ''c'', rec_duration_millis = 9, rec_completion_ratio = Fin 1\<rparr>"
  let ?a = "\<lparr>rec_track_id = ''a'', rec_duration_millis = 9, rec_completion_ratio = Fin 1\<rparr>"
  obtain s' e' where r: "record_history_listen ?rec sample_snapshot ?e = (s', e')"
    by (cases "record_history_listen ?rec sample_snapshot ?e")
  have a: "to_playback_record (sample_listen ''a'') = Some ?a"
    by (simp add: sample_listen_record blank_leading_visible)
  have settings: "sn_history_settings sample_snapshot = None"
    by (simp add: sample_snapshot_def snapshot_default_def)
  have calls: "hp_get_settings ?port sample_identity (logged_in, []) = (Ok \<lparr>hs_enabled = True\<rparr>, (logged_in, []))"
    "hp_record ?port sample_identity ?a (logged_in, []) = (Ok True, (logged_in, [?a]))"
    by (simp_all add: sample_history_port_def)
  have cur: "current_identity (?e\<lparr>en_world := (logged_in, [])\<rparr>) = Some sample_identity"
    "current_identity (?e\<lparr>en_world := (logged_in, [?a])\<rparr>) \<noteq> Some sample_identity"
    by (simp_all add: current_identity_def current_auth_def)
  have "ah_entries (en_anonymous_history e') = []"
    by (rule login_change_loses_anonymous_history [where entries = "[sample_listen ''b'']" and port = ?port,
          OF settings _ _ _ _ cur(1) _ a _ cur(2) r, THEN conjunct1])
       (simp_all add: calls)
  then show ?thesis unfolding r by simp
qed

lemma reconcile_disabled:
  assumes "\<not> en_reconciliation_in_flight e" "ah_entries (en_anonymous_history e) \<noteq> []"
    and "sn_history_settings s = None" "hp_get_settings port i (en_world e) = (Ok settings, w)"
    and "\<not> hs_enabled settings" "current_identity (e\<lparr>en_world := w\<rparr>) = Some i"
    and "reconcile_anonymous_history i port s e = (s', e')"
  shows "sn_history_settings s' = Some settings \<and> en_history_owner e' = en_history_owner e \<and> en_world e' = w \<and>
    en_auth_state_provider e' = en_auth_state_provider e"
proof -
  have "current_identity (e\<lparr>en_reconciliation_in_flight := True, en_world := w\<rparr>) = Some i"
    using assms(6) by simp
  note g = hg.guard_current [OF this]
  show ?thesis
    using assms(1-5,7) unfolding reconcile_anonymous_history_def reconcile_anonymous_history_impl_def
    by (auto simp: await_call_def g Let_def clear_anonymous_history_for_authenticated_disabled_def
        anonymous_history_clear_def invalidate_history_pages_def bump_history_generation_def split: if_splits)
qed

lemma settings_shown_without_owner:
  assumes "en_history_owner e = None"
  shows "sn_history_settings (snapshot_projection e) = sn_history_settings (en_snapshot e)"
proof -
  have "sn_history_settings (clear_if b clear_feed_projection x) = sn_history_settings x"
    "sn_history_settings (clear_if b clear_account_projection x) = sn_history_settings x"
    "sn_history_settings (clear_if b clear_profile_projection x) = sn_history_settings x"
    "sn_history_settings (clear_if b clear_library_projection x) = sn_history_settings x"
    "sn_history_settings (clear_if b clear_playlist_projection x) = sn_history_settings x" for b x
    by (simp_all add: clear_if_def clear_defs Let_def)
  then show ?thesis
    using assms unfolding snapshot_projection_clear_if Let_def
    by (simp add: clear_if_def [of False] apply_queue_projection_def)
qed

text \<open>Settings fetched by a reconciliation have no owner. Listing the history of an account that
  disabled history, with anonymous listens waiting and the listing itself failing, leaves the
  account's settings in the snapshot while nobody owns the projection; no later login change clears
  them, so \<open>snapshot()\<close> shows them to whoever logs in next.\<close>

lemma unowned_settings_survive_login_change:
  assumes "auth_identity_from_state (sn_auth_state s) = Some i" and "en_history_port e = Some port"
    and "en_history_owner e = None" and "en_prefetched e = None" and "sn_history_settings s = None"
    and "ah_entries (en_anonymous_history e) \<noteq> []" and "\<not> en_reconciliation_in_flight e"
    and "hp_get_settings port i (en_world e) = (Ok settings, w1)" and "\<not> hs_enabled settings"
    and "hp_list port i (bounded_history_page_request page) w1 = (Err err, w2)" and "error_type err \<noteq> NotFound"
    and "current_identity (e\<lparr>en_world := w1\<rparr>) = Some i" and "current_identity (e\<lparr>en_world := w2\<rparr>) = Some i"
    and "list_history page s e = (s', e')"
  shows "en_history_owner e' = None \<and>
    sn_history_settings (snapshot_projection
      (e'\<lparr>en_snapshot := s', en_auth_state_provider := Some (\<lambda>_. other)\<rparr>)) = Some settings"
proof -
  define e0 where "e0 = e\<lparr>en_history_operation := None\<rparr>"
  define s0 where "s0 = s\<lparr>sn_history_entries := [], sn_history_next := None\<rparr>"
  have e0: "en_prefetched e0 = None" "en_history_owner e0 = None" "\<not> en_reconciliation_in_flight e0"
    "ah_entries (en_anonymous_history e0) \<noteq> []" "en_world e0 = en_world e" "en_history_port e0 = Some port"
    using assms by (simp_all add: e0_def)
  have cur: "current_identity (e0\<lparr>en_world := w1\<rparr>) = Some i"
    using assms(12) by (simp add: e0_def current_identity_def current_auth_def cong: option.case_cong)
  obtain s1 e1 where rc: "reconcile_anonymous_history i port s0 e0 = (s1, e1)"
    by (cases "reconcile_anonymous_history i port s0 e0")
  have a: "sn_history_settings s1 = Some settings" "en_history_owner e1 = None" "en_world e1 = w1"
    "en_auth_state_provider e1 = en_auth_state_provider e"
    using reconcile_disabled [OF e0(3,4) _ _ assms(9) cur rc] e0(2,5) assms(5,8)
    by (simp_all add: s0_def e0_def)
  have cur2: "current_identity (e1\<lparr>en_world := w2\<rparr>) = Some i"
    using assms(13) a(4) by (simp add: current_identity_def current_auth_def cong: option.case_cong)
  have "request_history_page i port (bounded_history_page_request page) s0 e0 =
      (Err err, s1\<lparr>sn_auth_state := current_auth (e1\<lparr>en_world := w2\<rparr>)\<rparr>, e1\<lparr>en_world := w2\<rparr>)"
    using e0(1) a(3) assms(10)
    by (simp add: request_history_page_def take_prefetched_def rc await_call_def hg.guard_current [OF cur2])
  moreover have "auth_identity_from_state (sn_auth_state s0) = Some i" using assms(1) by (simp add: s0_def)
  ultimately have fin: "s' = s1\<lparr>sn_auth_state := current_auth (e1\<lparr>en_world := w2\<rparr>), sn_last_error := Some err\<rparr>"
    "e' = e1\<lparr>en_world := w2\<rparr>"
    using assms(11,14) e0(6) unfolding list_history_def Let_def e0_def [symmetric] s0_def [symmetric] by auto
  show ?thesis using a(1,2) by (simp add: fin settings_shown_without_owner)
qed

lemma unowned_settings_survive_login_change_witness:
  "\<exists>s' e'. list_history page_request_default sample_snapshot ((sample_history_engine [sample_listen ''a''])
       \<lparr>en_history_port := Some (sample_history_port (Ok \<lparr>hs_enabled = False\<rparr>) (\<lambda>_. Ok True)
          (Err sample_error) (logged_in, []))\<rparr>) = (s', e') \<and>
     sn_history_settings (snapshot_projection
       (e'\<lparr>en_snapshot := s', en_auth_state_provider := Some (\<lambda>_. Anonymous)\<rparr>)) = Some \<lparr>hs_enabled = False\<rparr>"
proof -
  let ?port = "sample_history_port (Ok \<lparr>hs_enabled = False\<rparr>) (\<lambda>_. Ok True) (Err sample_error) (logged_in, [])"
  let ?e = "(sample_history_engine [sample_listen ''a''])\<lparr>en_history_port := Some ?port\<rparr>"
  obtain s' e' where l: "list_history page_request_default sample_snapshot ?e = (s', e')"
    by (cases "list_history page_request_default sample_snapshot ?e")
  have settings: "sn_history_settings sample_snapshot = None"
    by (simp add: sample_snapshot_def snapshot_default_def)
  have calls: "hp_get_settings ?port sample_identity (en_world ?e) = (Ok \<lparr>hs_enabled = False\<rparr>, (logged_in, []))"
    "hp_list ?port sample_identity p (logged_in, []) = (Err sample_error, (logged_in, []))" for p
    by (simp_all add: sample_history_port_def)
  have cur: "current_identity (?e\<lparr>en_world := (logged_in, [])\<rparr>) = Some sample_identity"
    by (simp add: current_identity_def current_auth_def)
  have "error_type sample_error \<noteq> NotFound" by (simp add: sample_error_def)
  from unowned_settings_survive_login_change
    [OF _ _ _ _ settings _ _ calls(1) _ calls(2) this cur cur l, of Anonymous]
  have "sn_history_settings (snapshot_projection
       (e'\<lparr>en_snapshot := s', en_auth_state_provider := Some (\<lambda>_. Anonymous)\<rparr>)) = Some \<lparr>hs_enabled = False\<rparr>"
    by simp
  with l show ?thesis by blast
qed

end
