(* ===== verification/Dispatch.thy ===== *)
theory Dispatch
  imports Middlewares Listening Library Playlists Profile Catalog
begin

text \<open>
  The command dispatcher (\<open>dispatch_command\<close> in \<open>engine/core/dispatch_command.rs\<close>) and \<open>tick\<close>
  (\<open>engine/core.rs\<close>): the middleware verdict, the state machine, the arm of the command, the
  effects of the state change, listening history, and the middlewares and the player after it.
  None says that the code does not return: a playlist reorder may page for ever, and a voice
  engine may answer every stop with another stop.
\<close>

subsection \<open>Before the arm\<close>

definition rejected_command :: "engine_command \<Rightarrow> engine_error \<Rightarrow> 'w engine \<Rightarrow> engine_outcome \<times> 'w engine" where
  "rejected_command command err e =
     (let e = sync_auth_state_projection
                (e\<lparr>en_snapshot := with_busy False (with_error (Some err) (en_snapshot e))\<rparr>)
      in (\<lparr>oc_snapshot = en_snapshot e,
           oc_event = command_applied (Some (command_as_wire (command_type command) @ '':rejected_by_middleware'')),
           oc_effects = []\<rparr>, e))"

definition intend_playback :: "engine_command_type \<Rightarrow> 'w engine \<Rightarrow> 'w engine" where
  "intend_playback command e =
     (case command of
        Play \<Rightarrow> set_desired True e
      | Pause \<Rightarrow> set_desired False e
      | PlayMediaById _ \<Rightarrow> set_desired True e
      | PlayQueue _ _ \<Rightarrow> set_desired True e
      | VoicePlay _ \<Rightarrow> set_desired True e
      | _ \<Rightarrow> e)"

text \<open>The snapshot the arm starts from: the position is rebased when playing stops, the tick
  restarts when playing begins.\<close>

definition opening_snapshot :: "engine_command_type \<Rightarrow> u64 \<Rightarrow> engine_snapshot \<Rightarrow> engine_snapshot" where
  "opening_snapshot command now s =
     (let prev = sn_playback_state s;
          next = next_state_from_command prev command;
          t = (if prev = Playing \<and> next = Paused then with_position_rebased_at now s else s);
          t = with_busy False (with_error None (with_playback_state next now t))
      in if prev \<noteq> Playing \<and> next = Playing then with_progress_tick now t else t)"

definition open_turn :: "engine_command_type \<Rightarrow> u64 \<Rightarrow> engine_snapshot \<Rightarrow> command_turn" where
  "open_turn command now s =
     \<lparr>ct_snapshot = opening_snapshot command now s, ct_effects = [], ct_message = None, ct_reassert = False\<rparr>"

subsection \<open>The arms\<close>

definition put_snapshot :: "command_turn \<Rightarrow> engine_snapshot \<times> 'w engine \<Rightarrow> command_turn \<times> 'w engine" where
  "put_snapshot t x = (case x of (s, e) \<Rightarrow> (t\<lparr>ct_snapshot := s\<rparr>, e))"

definition run_catalog ::
  "u64 \<Rightarrow> engine_command_type \<Rightarrow> command_turn \<Rightarrow> 'w engine \<Rightarrow> command_turn \<times> 'w engine" where
  "run_catalog now command t e =
     (case dispatch_catalog_command now command (ct_snapshot t) e of
        (message, s, e) \<Rightarrow> (t\<lparr>ct_snapshot := s, ct_message := message\<rparr>, e))"

datatype arm = HistoryArm | LibraryArm | PlaylistArm | AccountArm | ProfileArm | ThemeArm
  | CatalogArm | TransportArm | NoArm

fun arm_of :: "engine_command_type \<Rightarrow> arm" where
  "arm_of LoadHistorySettings = HistoryArm"
| "arm_of (UpdateHistorySettings _) = HistoryArm"
| "arm_of (ListHistory _) = HistoryArm"
| "arm_of LoadNextHistoryPage = HistoryArm"
| "arm_of (DeleteHistoryEntry _) = HistoryArm"
| "arm_of ClearHistory = HistoryArm"
| "arm_of (SaveTrack _) = LibraryArm"
| "arm_of (RemoveSavedTrack _) = LibraryArm"
| "arm_of (ListSavedTracks _) = LibraryArm"
| "arm_of LoadNextSavedTracksPage = LibraryArm"
| "arm_of (LikeTrack _) = LibraryArm"
| "arm_of (UnlikeTrack _) = LibraryArm"
| "arm_of (ListLikedTracks _) = LibraryArm"
| "arm_of LoadNextLikedTracksPage = LibraryArm"
| "arm_of (CreatePlaylist _) = PlaylistArm"
| "arm_of (UpdatePlaylist _) = PlaylistArm"
| "arm_of (DeletePlaylist _) = PlaylistArm"
| "arm_of (ListPlaylists _) = PlaylistArm"
| "arm_of LoadNextPlaylistsPage = PlaylistArm"
| "arm_of (AddPlaylistTrack _ _) = PlaylistArm"
| "arm_of (RemovePlaylistTrack _ _) = PlaylistArm"
| "arm_of (ListPlaylistTracks _ _) = PlaylistArm"
| "arm_of LoadNextPlaylistTracksPage = PlaylistArm"
| "arm_of (ReorderPlaylistTracks _ _ _) = PlaylistArm"
| "arm_of GetAccount = AccountArm"
| "arm_of DeleteAccount = AccountArm"
| "arm_of (ListDeviceSessions _) = AccountArm"
| "arm_of LoadNextDeviceSessionsPage = AccountArm"
| "arm_of (RevokeDeviceSession _) = AccountArm"
| "arm_of (UpsertProfile _) = ProfileArm"
| "arm_of GetProfile = ProfileArm"
| "arm_of (UpdateProfile _) = ProfileArm"
| "arm_of DeleteProfile = ProfileArm"
| "arm_of LoadProfilePreferences = ProfileArm"
| "arm_of (UpdateProfilePreferences _) = ProfileArm"
| "arm_of (HydrateThemePreference _) = ThemeArm"
| "arm_of (SetThemePreference _) = ThemeArm"
| "arm_of (ApplyRemoteThemePreference _ _ _) = ThemeArm"
| "arm_of RefreshBackendStatus = CatalogArm"
| "arm_of (SearchCatalog _ _) = CatalogArm"
| "arm_of (BrowseCatalog _ _ _) = CatalogArm"
| "arm_of (LoadNextCatalogPage _) = CatalogArm"
| "arm_of (LoadDiscoveryFeed _ _) = CatalogArm"
| "arm_of (LoadForYouFeed _ _) = CatalogArm"
| "arm_of (LoadRecommendations _ _) = CatalogArm"
| "arm_of LoadNextDiscoveryPage = CatalogArm"
| "arm_of (StartSession _) = TransportArm"
| "arm_of EndSession = TransportArm"
| "arm_of SkipNext = TransportArm"
| "arm_of SkipPrevious = TransportArm"
| "arm_of Play = TransportArm"
| "arm_of (SetSpeed _) = TransportArm"
| "arm_of (Seek _) = TransportArm"
| "arm_of (UpdateConfig _) = TransportArm"
| "arm_of StartVoiceInteraction = TransportArm"
| "arm_of (ProcessVoiceAudio _) = TransportArm"
| "arm_of (VoicePlay _) = TransportArm"
| "arm_of (PlayMediaById _) = TransportArm"
| "arm_of (PlayQueue _ _) = TransportArm"
| "arm_of (SetSleepTimer _) = TransportArm"
| "arm_of StopVoiceInteraction = NoArm"
| "arm_of Bootstrap = NoArm"
| "arm_of Pause = NoArm"
| "arm_of (UnknownCommand _) = NoArm"

definition run_arm ::
  "bool \<Rightarrow> playback_state \<Rightarrow> u64 \<Rightarrow> engine_command_type \<Rightarrow> command_turn \<Rightarrow> 'w engine \<Rightarrow>
     (command_turn \<times> 'w engine) option" where
  "run_arm desired_before prev now command t e =
     (case arm_of command of
        HistoryArm \<Rightarrow> map_option (put_snapshot t) (dispatch_history_command command (ct_snapshot t) e)
      | LibraryArm \<Rightarrow> map_option (put_snapshot t) (dispatch_library_command command (ct_snapshot t) e)
      | PlaylistArm \<Rightarrow> map_option (put_snapshot t) (dispatch_playlist_command command (ct_snapshot t) e)
      | AccountArm \<Rightarrow> Some (put_snapshot t (dispatch_account_command command (ct_snapshot t) e))
      | ProfileArm \<Rightarrow> Some (put_snapshot t (dispatch_profile_command command (ct_snapshot t) e))
      | ThemeArm \<Rightarrow> Some (on_snapshot (dispatch_theme_command command) t, e)
      | CatalogArm \<Rightarrow> Some (run_catalog now command t e)
      | TransportArm \<Rightarrow> Some (dispatch_transport_command desired_before prev now command t e)
      | NoArm \<Rightarrow> Some (t, e))"

subsection \<open>After the arm\<close>

definition command_transition_effects :: "playback_state \<Rightarrow> playback_state \<Rightarrow> engine_effect list" where
  "command_transition_effects prev next =
     (if prev = next then []
      else case next of
             Buffering \<Rightarrow> [PlayEffect]
           | Playing \<Rightarrow> (if prev \<noteq> Buffering then [PlayEffect] else [])
           | Paused \<Rightarrow> [PauseEffect]
           | Idle \<Rightarrow> [StopEffect]
           | Ended \<Rightarrow> [PauseEffect]
           | _ \<Rightarrow> [])"

definition reassert_effects :: "bool \<Rightarrow> bool \<Rightarrow> playback_state \<Rightarrow> engine_effect list \<Rightarrow> engine_effect list" where
  "reassert_effects reassert desired state effects =
     (if reassert \<and> desired \<and> state \<in> {Buffering, Recovering} \<and> PlayEffect \<notin> set effects
      then [PlayEffect] else [])"

definition note_backend_failure :: "engine_snapshot \<Rightarrow> engine_snapshot" where
  "note_backend_failure s =
     (case sn_last_error s of
        None \<Rightarrow> s
      | Some err \<Rightarrow>
          (if error_type err \<in> {NetworkError, Transport, ServiceUnavailableError}
           then s\<lparr>sn_backend_availability := BackendUnavailable (unavailable_reason err)\<rparr> else s))"

text \<open>\<open>maybe_auto_record_history\<close> on a copy of the engine's own snapshot.\<close>

definition record_listening :: "u64 \<Rightarrow> 'w engine \<Rightarrow> 'w engine" where
  "record_listening now e =
     (case maybe_auto_record_history now (en_snapshot e) e of (s, e) \<Rightarrow> e\<lparr>en_snapshot := s\<rparr>)"

definition project_queue :: "'w engine \<Rightarrow> 'w engine" where
  "project_queue e = e\<lparr>en_snapshot := apply_queue_projection (en_queue e) (en_snapshot e)\<rparr>"

text \<open>The outcome passes the middlewares, then its effects drive the player.\<close>

definition publish_outcome :: "engine_outcome \<Rightarrow> 'w engine \<Rightarrow> engine_outcome \<times> 'w engine" where
  "publish_outcome outcome e =
     (let (outcome, e) = after_dispatch outcome e in (outcome, execute_effects (oc_effects outcome) e))"

definition finish_command ::
  "engine_command_type \<Rightarrow> u64 \<Rightarrow> playback_state \<Rightarrow> command_turn \<Rightarrow> 'w engine \<Rightarrow>
     engine_outcome \<times> 'w engine" where
  "finish_command command now prev t e =
     (let next = sn_playback_state (ct_snapshot t);
          effects = ct_effects t @ command_transition_effects prev next;
          effects = effects @ reassert_effects (ct_reassert t)
                       (rs_desired_play_when_ready (en_recovery e)) next effects;
          e = refresh_controls (e\<lparr>en_snapshot := note_backend_failure (ct_snapshot t)\<rparr>);
          e = (if prev = Playing \<or> sn_playback_state (en_snapshot e) = Playing
               then record_listening now e else e);
          e = project_queue e
      in publish_outcome
           \<lparr>oc_snapshot = en_snapshot e,
            oc_event = command_applied (case ct_message t of
                         Some message \<Rightarrow> Some message | None \<Rightarrow> Some (command_as_wire command)),
            oc_effects = effects\<rparr> e)"

text \<open>The turn after a nested command that the voice engine recognised.\<close>

definition adopt_outcome :: "engine_outcome \<Rightarrow> command_turn \<Rightarrow> command_turn" where
  "adopt_outcome outcome t =
     push_effects (oc_effects outcome) (t\<lparr>ct_snapshot := oc_snapshot outcome\<rparr>)"

partial_function (option) dispatch_command ::
  "engine_command \<Rightarrow> u64 \<Rightarrow> 'w engine \<Rightarrow> (engine_outcome \<times> 'w engine) option" where
  "dispatch_command command now e =
     (case before_dispatch command e of
        (Some err, e) \<Rightarrow> Some (rejected_command command err e)
      | (None, e) \<Rightarrow>
          (let e = sync_auth_state_projection e;
               desired_before = rs_desired_play_when_ready (en_recovery e);
               ty = command_type command;
               e = intend_playback ty e;
               prev = sn_playback_state (en_snapshot e);
               t = open_turn ty now (en_snapshot e)
           in if ty = StopVoiceInteraction
              then (case finish_voice t e of
                      (None, t, e) \<Rightarrow> Some (finish_command ty now prev (end_voice t) e)
                    | (Some nested, t, e) \<Rightarrow>
                        Option.bind (dispatch_command nested now e)
                          (\<lambda>(outcome, e).
                             Some (finish_command ty now prev (end_voice (adopt_outcome outcome t)) e)))
              else (case run_arm desired_before prev now ty t e of
                      None \<Rightarrow> None
                    | Some (t, e) \<Rightarrow> Some (finish_command ty now prev t e))))"

subsection \<open>Ticks\<close>

fun dispatch_all ::
  "engine_command list \<Rightarrow> u64 \<Rightarrow> 'w engine \<Rightarrow> (engine_outcome list \<times> 'w engine) option" where
  "dispatch_all [] now e = Some ([], e)"
| "dispatch_all (command # commands) now e =
     (case dispatch_command command now e of
        None \<Rightarrow> None
      | Some (outcome, e) \<Rightarrow>
          (case dispatch_all commands now e of
             None \<Rightarrow> None
           | Some (outcomes, e) \<Rightarrow> Some (outcome # outcomes, e)))"

definition tick :: "u64 \<Rightarrow> 'w engine \<Rightarrow> (engine_outcome list \<times> 'w engine) option" where
  "tick now e =
     (let (commands, services) = services_tick now (en_services e)
      in case dispatch_all commands now (e\<lparr>en_services := services\<rparr>) of
           None \<Rightarrow> None
         | Some (outcomes, e) \<Rightarrow>
             (let generation_before = hst_generation (sn_history_state (en_snapshot e));
                  e = record_listening now e
              in Some (outcomes,
                   if hst_generation (sn_history_state (en_snapshot e)) \<noteq> generation_before
                   then notify_state_changed (en_snapshot e) e else e)))"

end
