(* ===== verification/PlatformEvents.thy ===== *)
theory PlatformEvents
  imports Dispatch
begin

text \<open>
  Platform events (\<open>engine/core/dispatch_platform_event.rs\<close>): observations of the player and
  changes of the vehicle. An observation names the playback instance it belongs to; one of another
  instance is ignored. A rejected source is refreshed once per instance, a failed decoder gets
  one new player, everything else goes through the state machine.
\<close>

definition platform_outcome ::
  "platform_event_type \<Rightarrow> engine_effect list \<Rightarrow> 'w engine \<Rightarrow> engine_outcome" where
  "platform_outcome ty effects e =
     \<lparr>oc_snapshot = en_snapshot e,
      oc_event = platform_event_applied (Some (platform_event_as_wire ty)),
      oc_effects = effects\<rparr>"

definition on_engine_snapshot :: "(engine_snapshot \<Rightarrow> engine_snapshot) \<Rightarrow> 'w engine \<Rightarrow> 'w engine" where
  "on_engine_snapshot f e = e\<lparr>en_snapshot := f (en_snapshot e)\<rparr>"

definition observed_events :: "platform_event_type set" where
  "observed_events = {MediaLoaded, MediaError, PlaybackCompleted, PlaybackPositionCheckpoint}"

definition event_observation :: "codec \<Rightarrow> platform_event \<Rightarrow> playback_observation option" where
  "event_observation cdc event = Option.bind (pe_payload event) (de_observation cdc)"

definition stale_observation :: "'w engine \<Rightarrow> platform_event_type \<Rightarrow> playback_observation option \<Rightarrow> bool" where
  "stale_observation e ty observation =
     (ty \<in> observed_events \<and>
      (case observation of
         None \<Rightarrow> False
       | Some o' \<Rightarrow> po_version o' \<noteq> 1 \<or> Some (po_playback_instance_id o') \<noteq> en_current_instance e))"

definition positive :: "u64 option \<Rightarrow> u64 option" where
  "positive d = (case d of None \<Rightarrow> None | Some n \<Rightarrow> if n > 0 then Some n else None)"

subsection \<open>Position checkpoints\<close>

definition SEEK_SETTLE_TOLERANCE_MILLIS :: u64 where
  "SEEK_SETTLE_TOLERANCE_MILLIS = 1500"

text \<open>The snapshot with the reported duration, and the reported position clamped to it.\<close>

definition reported_progress ::
  "playback_observation \<Rightarrow> u64 \<Rightarrow> engine_snapshot \<Rightarrow> engine_snapshot \<times> u64" where
  "reported_progress observation pos s =
     (let s = (case positive (po_duration_ms observation) of
                 None \<Rightarrow> s | Some d \<Rightarrow> with_duration (Some d) s)
      in (s, case sn_duration_millis s of None \<Rightarrow> pos | Some d \<Rightarrow> min pos d))"

definition seek_unsettled :: "u64 option \<Rightarrow> u64 \<Rightarrow> bool" where
  "seek_unsettled target pos =
     (case target of None \<Rightarrow> False | Some t \<Rightarrow> abs_diff pos t > SEEK_SETTLE_TOLERANCE_MILLIS)"

definition accept_checkpoint :: "playback_observation \<Rightarrow> u64 \<Rightarrow> u64 \<Rightarrow> 'w engine \<Rightarrow> 'w engine" where
  "accept_checkpoint observation pos now e =
     (let (s, safe) = reported_progress observation pos (en_snapshot e)
      in if seek_unsettled (en_pending_seek e) safe then e
         else record_listening now
                (e\<lparr>en_pending_seek := None,
                   en_snapshot := with_progress_tick now (with_position safe s)\<rparr>))"

definition apply_checkpoint :: "playback_observation option \<Rightarrow> u64 \<Rightarrow> 'w engine \<Rightarrow> 'w engine" where
  "apply_checkpoint observation now e =
     (if sn_playback_state (en_snapshot e) = Ended then e
      else case observation of
             None \<Rightarrow> e
           | Some o' \<Rightarrow>
               (case po_position_ms o' of None \<Rightarrow> e | Some pos \<Rightarrow> accept_checkpoint o' pos now e))"

subsection \<open>Recovery\<close>

definition fail_player :: "engine_error \<Rightarrow> u64 \<Rightarrow> 'w engine \<Rightarrow> 'w engine" where
  "fail_player err now =
     on_engine_snapshot (\<lambda>s. with_error (Some err) (with_playback_state PlaybackError now s))"

text \<open>The refreshed source is a new instance of the same logical track: it keeps the user's
  intent and its decoder budget, and its own refresh counts as used.\<close>

definition refresh_source :: "resolved_media \<Rightarrow> u64 \<Rightarrow> 'w engine \<Rightarrow> engine_effect list \<times> 'w engine" where
  "refresh_source resolved now e =
     (let desired = rs_desired_play_when_ready (en_recovery e);
          decoder_used = (rs_decoder_attempted_for (en_recovery e) \<noteq> None);
          s = with_playback_state (if desired then Buffering else Paused) now (en_snapshot e);
          (s, effects, e) = update_media_state resolved s e;
          e = e\<lparr>en_snapshot := s,
                en_recovery := \<lparr>rs_source_refresh_attempted_for = en_current_instance e,
                  rs_decoder_attempted_for = (if decoder_used then en_current_instance e
                                              else rs_decoder_attempted_for (en_recovery e)),
                  rs_desired_play_when_ready = desired\<rparr>\<rparr>;
          e = refresh_controls e
      in (if desired then effects @ [PlayEffect] else effects, e))"

text \<open>The source of the instance was rejected: \<open>Some\<close> outcome when the handler returns early.\<close>

definition source_rejected ::
  "u64 \<Rightarrow> u64 \<Rightarrow> 'w engine \<Rightarrow> engine_outcome option \<times> 'w engine" where
  "source_rejected instance_id now e =
     (if rs_source_refresh_attempted_for (en_recovery e) = Some instance_id
      then (None, fail_player (player_error ''resolved source was rejected after refresh'') now e)
      else case current_item (en_queue e) of
             None \<Rightarrow> (None, e)
           | Some media \<Rightarrow>
               (let e = e\<lparr>en_recovery := (en_recovery e)
                          \<lparr>rs_source_refresh_attempted_for := Some instance_id\<rparr>\<rparr>
                in case resolve_playback_source media e of
                     (Inr resolved, e) \<Rightarrow>
                       (let (effects, e) = refresh_source resolved now e;
                            outcome = platform_outcome MediaError effects e
                        in (Some outcome, execute_effects effects e))
                   | (Inl err, e) \<Rightarrow> (None, fail_player err now e)))"

definition decoder_message :: string where
  "decoder_message = ''Playback could not continue because the device audio decoder failed.''"

text \<open>A fresh player resumes at the last confirmed position.\<close>

definition recreate_player :: "string \<Rightarrow> u64 \<Rightarrow> 'w engine \<Rightarrow> engine_outcome \<times> 'w engine" where
  "recreate_player media_id now e =
     (let inst = sat_add (en_next_instance e) 1;
          e = e\<lparr>en_next_instance := inst, en_current_instance := Some inst,
                en_recovery := (en_recovery e)\<lparr>rs_decoder_attempted_for := Some inst\<rparr>,
                en_pending_seek := Some (sn_position_millis (en_snapshot e))\<rparr>;
          e = on_engine_snapshot
                (\<lambda>s. with_busy True (with_error None (with_playback_state Recovering now s))) e;
          e = refresh_controls e;
          effects = RecreatePlayerAndLoad media_id inst (sn_position_millis (en_snapshot e)) #
                    (if rs_desired_play_when_ready (en_recovery e) then [PlayEffect] else [])
      in (platform_outcome MediaError effects e, execute_effects effects e))"

definition decoder_failed ::
  "playback_observation \<Rightarrow> u64 \<Rightarrow> 'w engine \<Rightarrow> engine_outcome \<times> 'w engine" where
  "decoder_failed observation now e =
     (let instance_id = po_playback_instance_id observation;
          e = set_desired (unwrap_or (po_play_when_ready observation)
                             (rs_desired_play_when_ready (en_recovery e))) e
      in case (rs_decoder_attempted_for (en_recovery e) \<noteq> Some instance_id,
               sn_media_id (en_snapshot e)) of
           (True, Some media_id) \<Rightarrow> recreate_player media_id now e
         | _ \<Rightarrow>
             (let e = on_engine_snapshot
                        (\<lambda>s. with_error (Some (player_error decoder_message))
                               (with_busy False (with_playback_state PlaybackError now s))) e;
                  e = refresh_controls e;
                  effects = [NotifyUser decoder_message]
              in (platform_outcome MediaError effects e, execute_effects effects e)))"

subsection \<open>Completion\<close>

definition snap_finished_progress :: "codec \<Rightarrow> string option \<Rightarrow> engine_snapshot \<Rightarrow> engine_snapshot" where
  "snap_finished_progress cdc payload s =
     (let reported = positive (Option.bind payload (de_duration_ms cdc))
      in case (case reported of Some d \<Rightarrow> Some d | None \<Rightarrow> sn_duration_millis s) of
           None \<Rightarrow> s
         | Some d \<Rightarrow>
             with_progress_tick (max (sn_updated_at s) (sn_last_progress_tick s))
               (with_position d (with_duration (Some d) s)))"

definition playback_completed_event ::
  "string option \<Rightarrow> u64 \<Rightarrow> 'w engine \<Rightarrow> engine_outcome \<times> 'w engine" where
  "playback_completed_event payload now e =
     (let e = sync_auth_state_projection e;
          s = with_error None (with_playback_state Ended now (en_snapshot e));
          s = snap_finished_progress (en_codec e) payload s;
          (s, e) = record_playback_completion payload s e;
          e = e\<lparr>en_snapshot := s\<rparr>
      in publish_outcome (platform_outcome PlaybackCompleted [PauseEffect] e) e)"

subsection \<open>Everything else\<close>

definition platform_next_state :: "platform_event_type \<Rightarrow> 'w engine \<Rightarrow> playback_state" where
  "platform_next_state ty e =
     (if sn_playback_state (en_snapshot e) = Recovering \<and> ty = MediaLoaded \<and>
         \<not> rs_desired_play_when_ready (en_recovery e)
      then Paused else next_state_from_platform_event (sn_playback_state (en_snapshot e)) ty)"

definition vehicle_state :: "platform_event \<Rightarrow> engine_snapshot \<Rightarrow> engine_snapshot" where
  "vehicle_state event s =
     (case pe_type event of
        VehicleDrivingStateChanged \<Rightarrow>
          s\<lparr>sn_driving_state := (case pe_payload event of
              None \<Rightarrow> DrivingUnknown | Some p \<Rightarrow> driving_state_from_wire p)\<rparr>
      | UxRestrictionsChanged \<Rightarrow>
          s\<lparr>sn_restriction_state := (case pe_payload event of
              None \<Rightarrow> RestrictionUnknown | Some p \<Rightarrow> restriction_state_from_wire p)\<rparr>
      | _ \<Rightarrow> s)"

text \<open>\<open>serde_json::from_str::<EngineError>(payload)\<close>, or the payload itself as the message.\<close>

definition platform_error :: "codec \<Rightarrow> string option \<Rightarrow> engine_error" where
  "platform_error cdc payload =
     (case payload of
        None \<Rightarrow> player_error ''Unknown platform error''
      | Some p \<Rightarrow> (case de_engine_error cdc p of Some err \<Rightarrow> err | None \<Rightarrow> player_error p))"

definition platform_snapshot ::
  "platform_event \<Rightarrow> playback_observation option \<Rightarrow> playback_state \<Rightarrow> u64 \<Rightarrow> codec \<Rightarrow>
     engine_snapshot \<Rightarrow> engine_snapshot" where
  "platform_snapshot event observation next now cdc s =
     (let prev = sn_playback_state s;
          s = vehicle_state event (with_playback_state next now s);
          s = (if prev \<noteq> Playing \<and> next = Playing then with_progress_tick now s else s);
          s = (if pe_type event = MediaLoaded
               then case positive (Option.bind observation po_duration_ms) of
                      None \<Rightarrow> s | Some d \<Rightarrow> with_duration (Some d) s
               else s)
      in with_error (if next = PlaybackError then Some (platform_error cdc (pe_payload event)) else None) s)"

definition platform_transition_effects :: "playback_state \<Rightarrow> playback_state \<Rightarrow> engine_effect list" where
  "platform_transition_effects prev next =
     (if prev = next then []
      else case next of
             Paused \<Rightarrow> [PauseEffect]
           | Playing \<Rightarrow> (if prev \<noteq> Buffering then [PlayEffect] else [])
           | Idle \<Rightarrow> [StopEffect]
           | _ \<Rightarrow> [])"

definition state_event ::
  "platform_event \<Rightarrow> playback_observation option \<Rightarrow> u64 \<Rightarrow> 'w engine \<Rightarrow> engine_outcome \<times> 'w engine" where
  "state_event event observation now e =
     (let prev = sn_playback_state (en_snapshot e);
          next = platform_next_state (pe_type event) e;
          s = platform_snapshot event observation next now (en_codec e) (en_snapshot e);
          e = e\<lparr>en_snapshot := s\<lparr>sn_controls := derive_controls (en_queue e) s\<rparr>\<rparr>;
          e = sync_auth_state_projection e;
          e = project_queue (record_listening now e)
      in publish_outcome
           (platform_outcome (pe_type event) (platform_transition_effects prev next) e) e)"

definition media_error_kind :: "platform_event_type \<Rightarrow> playback_observation option \<Rightarrow> string option" where
  "media_error_kind ty observation = (if ty = MediaError then Option.bind observation po_kind else None)"

text \<open>The handler. A media button is a command in its own right.\<close>

definition dispatch_platform_event ::
  "platform_event \<Rightarrow> u64 \<Rightarrow> 'w engine \<Rightarrow> (engine_outcome \<times> 'w engine) option" where
  "dispatch_platform_event event now e =
     (let ty = pe_type event;
          observation = event_observation (en_codec e) event
      in if stale_observation e ty observation then Some (platform_outcome ty [] e, e)
         else
           (let e = (if ty = MediaLoaded then e\<lparr>en_pending_seek := None\<rparr> else e)
            in if ty = PlaybackPositionCheckpoint
               then (let e = apply_checkpoint observation now e in Some (platform_outcome ty [] e, e))
               else
                 (let kind = media_error_kind ty observation;
                      (early, e) =
                        (case observation of
                           Some o' \<Rightarrow>
                             (if kind = Some ''source_rejected''
                              then source_rejected (po_playback_instance_id o') now e else (None, e))
                         | None \<Rightarrow> (None, e))
                  in case early of
                       Some outcome \<Rightarrow> Some (outcome, e)
                     | None \<Rightarrow>
                         (case (observation, kind = Some ''decoder_failed'') of
                            (Some o', True) \<Rightarrow> Some (decoder_failed o' now e)
                          | _ \<Rightarrow>
                              (case (ty, pe_payload event) of
                                 (MediaButtonPressed, Some payload) \<Rightarrow>
                                   dispatch_command
                                     (engine_command_new (command_from_wire payload) None) now e
                               | (PlaybackCompleted, _) \<Rightarrow>
                                   Some (playback_completed_event (pe_payload event) now e)
                               | _ \<Rightarrow> Some (state_event event observation now e))))))"

end
