(* ===== verification/Persist.thy ===== *)
theory Persist
  imports PlatformEvents
begin

text \<open>
  Saving and restoring the engine (\<open>engine/core/persistence_state.rs\<close>): the snapshot and the queue
  are stored, everything else starts anew. Restoring hands the player the item that was loaded and
  its position; an engine that was playing resumes only when the configuration says so.
\<close>

definition restore_effects :: "engine_snapshot \<Rightarrow> u64 option \<Rightarrow> bool \<Rightarrow> engine_effect list" where
  "restore_effects s inst resume =
     (case sn_media_id s of
        None \<Rightarrow> []
      | Some media_id \<Rightarrow>
          [PreparePlaybackSource media_id (unwrap_or inst 0) (sn_position_millis s),
           UpdateMetadata media_id (unwrap_or (sn_title s) []) (unwrap_or (sn_artist s) []),
           SeekEffect (sn_position_millis s)] @
          (if resume then [PlayEffect] else []))"

definition restore :: "'w engine \<Rightarrow> (string + bool) \<times> 'w engine" where
  "restore e =
     (case per_load (en_persistence e) (en_world e) of
        Inl err \<Rightarrow> (Err err, e)
      | Inr None \<Rightarrow> (Ok False, e)
      | Inr (Some state) \<Rightarrow>
          (let e = e\<lparr>en_snapshot := pst_snapshot state, en_queue := pst_queue state\<rparr>;
               playing = (sn_playback_state (en_snapshot e) = Playing);
               resume = (playing \<and> auto_resume (en_config e));
               e = (if playing
                    then on_engine_snapshot (set_playback_state (if resume then Buffering else Paused)) e
                    else e);
               e = execute_effects (restore_effects (en_snapshot e) (en_current_instance e) resume) e
           in (Ok True, refresh_controls e)))"

definition save :: "'w engine \<Rightarrow> (string + unit) \<times> 'w engine" where
  "save e =
     (let (r, w) = per_save (en_persistence e)
             \<lparr>pst_snapshot = en_snapshot e, pst_queue = en_queue e\<rparr> (en_world e)
      in (r, e\<lparr>en_world := w\<rparr>))"

end
