(* ===== verification/DispatchLaws.thy ===== *)
theory DispatchLaws
  imports Persist
begin

text \<open>
  Laws of the dispatcher that other theories and the properties share: what synchronising and
  projecting leave alone, what the middlewares may change, which commands return, and the
  throttling and voice properties.
\<close>

subsection \<open>What synchronisation leaves alone\<close>

lemma clear_public [simp]:
  "sn_updated_at (clear_profile_projection s) = sn_updated_at s"
  "sn_updated_at (clear_account_projection s) = sn_updated_at s"
  "sn_updated_at (clear_history_projection s) = sn_updated_at s"
  "sn_updated_at (clear_library_projection s) = sn_updated_at s"
  "sn_updated_at (clear_playlist_projection s) = sn_updated_at s"
  "sn_updated_at (clear_feed_projection s) = sn_updated_at s"
  "sn_playback_state (clear_profile_projection s) = sn_playback_state s"
  "sn_playback_state (clear_account_projection s) = sn_playback_state s"
  "sn_playback_state (clear_history_projection s) = sn_playback_state s"
  "sn_playback_state (clear_library_projection s) = sn_playback_state s"
  "sn_playback_state (clear_playlist_projection s) = sn_playback_state s"
  "sn_playback_state (clear_feed_projection s) = sn_playback_state s"
  by (simp_all add: clear_defs Let_def)

lemma sync_step_public [simp]:
  "sn_updated_at (en_snapshot (sync_feed e)) = sn_updated_at (en_snapshot e)"
  "sn_updated_at (en_snapshot (sync_account e)) = sn_updated_at (en_snapshot e)"
  "sn_updated_at (en_snapshot (sync_profile e)) = sn_updated_at (en_snapshot e)"
  "sn_updated_at (en_snapshot (sync_history e)) = sn_updated_at (en_snapshot e)"
  "sn_updated_at (en_snapshot (sync_library e)) = sn_updated_at (en_snapshot e)"
  "sn_updated_at (en_snapshot (sync_playlist e)) = sn_updated_at (en_snapshot e)"
  "sn_playback_state (en_snapshot (sync_feed e)) = sn_playback_state (en_snapshot e)"
  "sn_playback_state (en_snapshot (sync_account e)) = sn_playback_state (en_snapshot e)"
  "sn_playback_state (en_snapshot (sync_profile e)) = sn_playback_state (en_snapshot e)"
  "sn_playback_state (en_snapshot (sync_history e)) = sn_playback_state (en_snapshot e)"
  "sn_playback_state (en_snapshot (sync_library e)) = sn_playback_state (en_snapshot e)"
  "sn_playback_state (en_snapshot (sync_playlist e)) = sn_playback_state (en_snapshot e)"
  by (simp_all add: sync_step_defs)

text \<open>The fields of the engine that synchronisation never writes.\<close>

definition en_private_free ::
  "'w engine \<Rightarrow> middleware list \<times> player_call list option \<times> 'w voice_engine option \<times> queue_manager \<times>
     recovery_state \<times> engine_service list" where
  "en_private_free e =
     (en_middleware e, en_player e, en_voice_engine e, en_queue e, en_recovery e, en_services e)"

lemma sync_step_other [simp]:
  "en_private_free (sync_feed e) = en_private_free e" "en_private_free (sync_account e) = en_private_free e"
  "en_private_free (sync_profile e) = en_private_free e" "en_private_free (sync_history e) = en_private_free e"
  "en_private_free (sync_library e) = en_private_free e" "en_private_free (sync_playlist e) = en_private_free e"
  by (simp_all add: sync_step_defs en_private_free_def)

lemma sync_public [simp]:
  "sn_updated_at (en_snapshot (sync_auth_state_projection e)) = sn_updated_at (en_snapshot e)"
  "sn_playback_state (en_snapshot (sync_auth_state_projection e)) = sn_playback_state (en_snapshot e)"
  by (simp_all add: sync_auth_state_projection_def)

lemma sync_other: "en_private_free (sync_auth_state_projection e) = en_private_free e"
  by (simp add: sync_auth_state_projection_def) (simp add: en_private_free_def)

lemma sync_other_fields [simp]:
  "en_middleware (sync_auth_state_projection e) = en_middleware e"
  "en_player (sync_auth_state_projection e) = en_player e"
  "en_voice_engine (sync_auth_state_projection e) = en_voice_engine e"
  "en_recovery (sync_auth_state_projection e) = en_recovery e"
  "en_services (sync_auth_state_projection e) = en_services e"
  using sync_other [of e] by (simp_all add: en_private_free_def)

lemma projection_public [simp]:
  "sn_updated_at (snapshot_projection e) = sn_updated_at (en_snapshot e)"
  "sn_playback_state (snapshot_projection e) = sn_playback_state (en_snapshot e)"
  by (simp_all add: snapshot_projection_sync apply_queue_projection_def)

subsection \<open>Throttling\<close>

text \<open>Middlewares that never refuse a command.\<close>

fun lenient :: "middleware \<Rightarrow> bool" where
  "lenient ValidationMiddleware = False"
| "lenient (ThrottlingMiddleware _ _) = False"
| "lenient _ = True"

lemma keep_bus: "\<exists>bus. e = e\<lparr>en_bus := bus\<rparr>"
  by (rule exI [of _ "en_bus e"]) simp

lemma lenient_before:
  "lenient m \<Longrightarrow> \<exists>bus. middleware_before m command e = (None, m, e\<lparr>en_bus := bus\<rparr>)"
proof (induction m command e rule: middleware_before.induct)
  case (3 last_heartbeat command e)
  have "\<exists>bus. report n i p e = e\<lparr>en_bus := bus\<rparr>" for n i p
    by (auto simp: report_def notify_event_emitted_def)
  then show ?case using keep_bus [of e] by (simp split: engine_command_type.split)
qed (auto intro: keep_bus)

lemma throttled_before:
  assumes "\<forall>m \<in> set before. lenient m" "last_map (command_as_wire (command_type command)) = Some t"
    and "sn_updated_at (en_snapshot e) < t + n"
  shows "\<exists>err bus. run_before (before @ ThrottlingMiddleware n last_map # behind) command e =
    (Some err, before @ ThrottlingMiddleware n last_map # behind, e\<lparr>en_bus := bus\<rparr>)"
  using assms
proof (induction "before" arbitrary: e)
  case Nil
  then show ?case using keep_bus [of e] by (auto simp: should_throttle_def unwrap_or_def Let_def)
next
  case (Cons m "before")
  obtain bus where m: "middleware_before m command e = (None, m, e\<lparr>en_bus := bus\<rparr>)"
    using lenient_before [of m command e] Cons.prems(1) by auto
  obtain err bus' where "run_before (before @ ThrottlingMiddleware n last_map # behind) command (e\<lparr>en_bus := bus\<rparr>) =
      (Some err, before @ ThrottlingMiddleware n last_map # behind, e\<lparr>en_bus := bus, en_bus := bus'\<rparr>)"
    using Cons.IH [of "e\<lparr>en_bus := bus\<rparr>"] Cons.prems by auto
  then show ?case by (simp add: m) blast
qed

text \<open>The same command at the given times, one after the other.\<close>

fun dispatch_repeatedly ::
  "engine_command \<Rightarrow> u64 list \<Rightarrow> 'w engine \<Rightarrow> (engine_outcome list \<times> 'w engine) option" where
  "dispatch_repeatedly command [] e = Some ([], e)"
| "dispatch_repeatedly command (now # clock) e =
     (case dispatch_command command now e of
        None \<Rightarrow> None
      | Some (outcome, e) \<Rightarrow>
          (case dispatch_repeatedly command clock e of
             None \<Rightarrow> None
           | Some (outcomes, e) \<Rightarrow> Some (outcome # outcomes, e)))"

definition refused :: "engine_command \<Rightarrow> engine_outcome \<Rightarrow> bool" where
  "refused command outcome =
     (oc_effects outcome = [] \<and>
      oc_event outcome = command_applied
        (Some (command_as_wire (command_type command) @ '':rejected_by_middleware'')))"

lemma throttled_step:
  assumes "en_middleware e = before @ ThrottlingMiddleware n last_map # behind"
    and "\<forall>m \<in> set before. lenient m" "last_map (command_as_wire (command_type command)) = Some t"
    and "sn_updated_at (en_snapshot e) < t + n"
  shows "\<exists>outcome e'. dispatch_command command now e = Some (outcome, e') \<and> refused command outcome \<and>
    en_middleware e' = en_middleware e \<and> sn_updated_at (en_snapshot e') = sn_updated_at (en_snapshot e) \<and>
    sn_playback_state (en_snapshot e') = sn_playback_state (en_snapshot e) \<and> en_player e' = en_player e"
proof -
  obtain err bus where r: "run_before (en_middleware e) command e = (Some err, en_middleware e, e\<lparr>en_bus := bus\<rparr>)"
    using throttled_before [OF assms(2), of last_map command t e n behind] assms(1,3,4) by auto
  show ?thesis
    by (subst dispatch_command.simps)
       (simp add: before_dispatch_def r rejected_command_def refused_def Let_def with_busy_def with_error_def)
qed

text \<open>A throttled command can starve. The throttle compares the command's last admission with
  the time of the last state change (\<open>updated_at\<close>), which a refused command does not move. Once
  a command is refused, repeating it is refused whatever the time of each attempt: no attempt has
  an effect, and the playback state and the player stay as they are. Only another command or
  event that changes the state ends it.\<close>

lemma throttled_command_starves:
  assumes "en_middleware e = before @ ThrottlingMiddleware n last_map # behind"
    and "\<forall>m \<in> set before. lenient m" "last_map (command_as_wire (command_type command)) = Some t"
    and "sn_updated_at (en_snapshot e) < t + n"
  shows "\<exists>outcomes e'. dispatch_repeatedly command clock e = Some (outcomes, e') \<and>
    length outcomes = length clock \<and> (\<forall>outcome \<in> set outcomes. refused command outcome) \<and>
    sn_playback_state (en_snapshot e') = sn_playback_state (en_snapshot e) \<and> en_player e' = en_player e"
  using assms
proof (induction clock arbitrary: e)
  case (Cons now clock)
  obtain outcome e1 where d: "dispatch_command command now e = Some (outcome, e1)" "refused command outcome"
    and e1: "en_middleware e1 = en_middleware e" "sn_updated_at (en_snapshot e1) = sn_updated_at (en_snapshot e)"
      "sn_playback_state (en_snapshot e1) = sn_playback_state (en_snapshot e)" "en_player e1 = en_player e"
    using throttled_step [OF Cons.prems, of now] by blast
  obtain outcomes e2 where "dispatch_repeatedly command clock e1 = Some (outcomes, e2)"
    "length outcomes = length clock" "\<forall>outcome \<in> set outcomes. refused command outcome"
    "sn_playback_state (en_snapshot e2) = sn_playback_state (en_snapshot e1)" "en_player e2 = en_player e1"
    using Cons.IH [of e1] Cons.prems e1 by auto
  with d e1 show ?case by simp
qed simp

text \<open>One second after the application's pipeline admitted \<open>next\<close> at a state change of time 5000,
  an hour and a day of repeated presses are refused.\<close>

lemma throttled_command_starves_witness:
  "\<exists>outcomes e'. dispatch_repeatedly (engine_command_new SkipNext None) [6000, 3605000, 86405000]
     ((engine_new null_codec id () 5000)\<lparr>en_middleware :=
        [LoggerMiddleware, TelemetryMiddleware, AnalyticsMiddleware 0] @
        ThrottlingMiddleware 300 [''skip_next'' \<mapsto> 5000] # [FocusMiddleware]\<rparr>) = Some (outcomes, e') \<and>
     length outcomes = 3 \<and> (\<forall>outcome \<in> set outcomes. oc_effects outcome = [])"
proof -
  let ?e = "(engine_new null_codec id () 5000)\<lparr>en_middleware :=
        [LoggerMiddleware, TelemetryMiddleware, AnalyticsMiddleware 0] @
        ThrottlingMiddleware 300 [''skip_next'' \<mapsto> 5000] # [FocusMiddleware]\<rparr>"
  have now: "sn_updated_at (en_snapshot ?e) = 5000"
    by (simp add: apply_queue_projection_def snapshot_idle_def Let_def)
  have "\<exists>outcomes e'. dispatch_repeatedly (engine_command_new SkipNext None) [6000, 3605000, 86405000] ?e
      = Some (outcomes, e') \<and> length outcomes = length [6000, 3605000, 86405000 :: u64] \<and>
      (\<forall>outcome \<in> set outcomes. refused (engine_command_new SkipNext None) outcome) \<and>
      sn_playback_state (en_snapshot e') = sn_playback_state (en_snapshot ?e) \<and> en_player e' = en_player ?e"
    by (rule throttled_command_starves [where t = 5000 and n = 300 and last_map = "[''skip_next'' \<mapsto> 5000]"
        and behind = "[FocusMiddleware]" and before = "[LoggerMiddleware, TelemetryMiddleware, AnalyticsMiddleware 0]"])
       (simp_all only: now, simp_all add: engine_command_new_def)
  then show ?thesis by (auto simp: refused_def)
qed

end
