(* ===== verification/Turns.thy ===== *)
theory Turns
  imports Views DispatchLaws
begin

text \<open>
  Command turns as a whole: what the playback arms, the arms together and the closing steps of a
  command leave alone, and the effects a turn collects. The locale \<open>transport_view\<close> continues
  the views of components to the playback commands.
\<close>

locale transport_view = data_view view for view :: "engine_snapshot \<Rightarrow> 'w engine \<Rightarrow> 'v" +
  assumes vt_state [simp]: "view (s\<lparr>sn_playback_state := ps\<rparr>) e = view s e"
    and vt_busy [simp]: "view (s\<lparr>sn_is_busy := b\<rparr>) e = view s e"
    and vt_revision [simp]: "view (s\<lparr>sn_metadata_revision := n\<rparr>) e = view s e"
    and vt_media [simp]: "view (s\<lparr>sn_media_id := so\<rparr>) e = view s e"
    and vt_title [simp]: "view (s\<lparr>sn_title := so\<rparr>) e = view s e"
    and vt_artist [simp]: "view (s\<lparr>sn_artist := so\<rparr>) e = view s e"
    and vt_album [simp]: "view (s\<lparr>sn_album := so\<rparr>) e = view s e"
    and vt_duration [simp]: "view (s\<lparr>sn_duration_millis := no\<rparr>) e = view s e"
    and vt_thumbnail [simp]: "view (s\<lparr>sn_thumbnail_url := so\<rparr>) e = view s e"
    and vt_artwork [simp]: "view (s\<lparr>sn_artwork_id := so\<rparr>) e = view s e"
    and vt_hash [simp]: "view (s\<lparr>sn_artwork_content_hash := so\<rparr>) e = view s e"
    and vt_source [simp]: "view (s\<lparr>sn_source_uri := so\<rparr>) e = view s e"
    and vt_mime [simp]: "view (s\<lparr>sn_mime_type := so\<rparr>) e = view s e"
    and vt_expiry [simp]: "view (s\<lparr>sn_playback_expires_at := no\<rparr>) e = view s e"
    and vt_position [simp]: "view (s\<lparr>sn_position_millis := n\<rparr>) e = view s e"
    and vt_tick [simp]: "view (s\<lparr>sn_last_progress_tick := n\<rparr>) e = view s e"
    and vt_updated [simp]: "view (s\<lparr>sn_updated_at := n\<rparr>) e = view s e"
    and vt_session [simp]: "view (s\<lparr>sn_session := se\<rparr>) e = view s e"
    and vt_theme [simp]: "view (s\<lparr>sn_theme_preference := th\<rparr>) e = view s e"
    and vt_speed [simp]: "view (s\<lparr>sn_playback_speed := f\<rparr>) e = view s e"
    and vt_hypothesis [simp]: "view (s\<lparr>sn_voice_hypothesis := so\<rparr>) e = view s e"
    and vt_queue [simp]: "view s (e\<lparr>en_queue := q\<rparr>) = view s e"
    and vt_seek [simp]: "view s (e\<lparr>en_pending_seek := no\<rparr>) = view s e"
    and vt_instances [simp]: "view s (e\<lparr>en_next_instance := n\<rparr>) = view s e"
    and vt_instance [simp]: "view s (e\<lparr>en_current_instance := no\<rparr>) = view s e"
    and vt_recovery [simp]: "view s (e\<lparr>en_recovery := rc\<rparr>) = view s e"
    and vt_config [simp]: "view s (e\<lparr>en_config := cf\<rparr>) = view s e"
    and vt_services [simp]: "view s (e\<lparr>en_services := sv\<rparr>) = view s e"
begin

lemma v_transport_snapshot [simp]:
  "view (with_media m s) e = view s e"
  "view (with_busy b s) e = view s e"
  "view (with_playback_state st now s) e = view s e"
  "view (with_position n s) e = view s e"
  "view (with_duration no s) e = view s e"
  "view (with_progress_tick n s) e = view s e"
  "view (with_playback_expiry no s) e = view s e"
  "view (with_position_rebased_at n s) e = view s e"
  "view (with_session se s) e = view s e"
  "view (with_speed f s) e = view s e"
  "view (with_voice_hypothesis h s) e = view s e"
  "view (set_playback_state st s) e = view s e"
  "view (source_error err s) e = view s e"
  "view (failed_request m err s) e = view s e"
  by (simp_all add: with_defs set_playback_state_def source_error_def failed_request_def Let_def)

lemma v_transport_engine [simp]:
  "view s (start_instance n e) = view s e"
  "view s (set_desired b e) = view s e"
  "view s (set_sleep_timer d now e) = view s e"
  by (simp_all add: start_instance_def set_desired_def set_sleep_timer_def Let_def)

lemma v_resolve [simp]: "view s (snd (resolve_playback_source media e)) = view s e"
  using v_take [of s as_playback e]
  by (simp add: resolve_playback_source_def view_unfold split: option.split sum.split prod.split)

lemma v_update_media [simp]:
  "view (fst (update_media_state r s e)) (snd (snd (update_media_state r s e))) = view s e"
  by (simp add: update_media_state_def view_unfold)

lemma v_prepare [simp]:
  "view (ct_snapshot (fst (prepare_media b r t e))) (snd (prepare_media b r t e)) = view (ct_snapshot t) e"
  "view (ct_snapshot (fst (start_buffering b r t e))) (snd (start_buffering b r t e)) = view (ct_snapshot t) e"
  by (simp_all add: start_buffering_def prepare_media_def push_effects_def on_snapshot_def view_unfold)

lemma v_load_media [simp]:
  "view (ct_snapshot (fst (load_selected b m t e))) (snd (load_selected b m t e)) = view (ct_snapshot t) e"
  "view (ct_snapshot (fst (load_requested m t e))) (snd (load_requested m t e)) = view (ct_snapshot t) e"
  by (simp_all add: load_selected_def load_requested_def on_snapshot_def view_unfold split: sum.split)

lemma v_seek_to_start [simp]:
  "view (ct_snapshot (fst (seek_to_start now t e))) (snd (seek_to_start now t e)) = view (ct_snapshot t) e"
  by (simp add: seek_to_start_def push_effects_def on_snapshot_def)

lemma v_skip [simp]:
  assumes "view (en_snapshot e) e = view (ct_snapshot t) e"
  shows "view (ct_snapshot (fst (skip_next_command b t e))) (snd (skip_next_command b t e)) = view (ct_snapshot t) e"
    and "view (ct_snapshot (fst (skip_previous_command b prev now t e))) (snd (skip_previous_command b prev now t e))
      = view (ct_snapshot t) e"
  using assms
  by (simp_all add: skip_next_command_def skip_previous_command_def view_unfold split: option.split)

lemma v_play [simp]:
  "view (ct_snapshot (fst (play_command prev now t e))) (snd (play_command prev now t e)) = view (ct_snapshot t) e"
  by (simp add: play_command_def on_snapshot_def view_unfold split: option.split sum.split)

lemma v_requests [simp]:
  "view (ct_snapshot (fst (play_media_by_id i t e))) (snd (play_media_by_id i t e)) = view (ct_snapshot t) e"
  "view (ct_snapshot (fst (play_queue is n t e))) (snd (play_queue is n t e)) = view (ct_snapshot t) e"
  "view (ct_snapshot (fst (voice_play q t e))) (snd (voice_play q t e)) = view (ct_snapshot t) e"
  by (simp_all add: play_media_by_id_def play_queue_def voice_play_def on_snapshot_def push_effects_def view_unfold
      split: option.split sum.split list.split)

lemma v_voice [simp]:
  "view (ct_snapshot (fst (start_voice_interaction t e))) (snd (start_voice_interaction t e)) = view (ct_snapshot t) e"
  "view (ct_snapshot (fst (process_voice_audio c t e))) (snd (process_voice_audio c t e)) = view (ct_snapshot t) e"
  "view (ct_snapshot (fst (snd (finish_voice t e)))) (snd (snd (finish_voice t e))) = view (ct_snapshot t) e"
  "view (ct_snapshot (end_voice t)) e = view (ct_snapshot t) e"
  by (simp_all add: start_voice_interaction_def process_voice_audio_def finish_voice_def end_voice_def on_snapshot_def
      push_effects_def view_unfold split: option.split sum.split voice_interaction_result.split)

lemma v_transport_command:
  assumes "view (en_snapshot e) e = view (ct_snapshot t) e"
  shows "view (ct_snapshot (fst (dispatch_transport_command b prev now command t e)))
     (snd (dispatch_transport_command b prev now command t e)) = view (ct_snapshot t) e"
  using assms
  by (simp add: dispatch_transport_command_def start_session_def end_session_def set_speed_def seek_command_def
      on_snapshot_def push_effects_def view_unfold split: engine_command_type.split)

lemma v_opening [simp]: "view (opening_snapshot command now s) e = view s e"
  by (simp add: opening_snapshot_def view_unfold)

lemma v_intend [simp]: "view s (intend_playback command e) = view s e"
  by (simp add: intend_playback_def split: engine_command_type.split)

end

subsection \<open>The arms together\<close>

text \<open>All private data, with its owners.\<close>

definition private_part where
  "private_part s e =
     (account_part s e, profile_part s e, history_part s e, library_part s e, playlist_part s e, feed_part s e)"

text \<open>What no arm changes: the pipeline, the player and the voice engine.\<close>

definition device_part :: "engine_snapshot \<Rightarrow> 'w engine \<Rightarrow> middleware list \<times> player_call list option \<times> 'w voice_engine option" where
  "device_part s e = (en_middleware e, en_player e, en_voice_engine e)"

interpretation vtra: transport_view private_part
  by unfold_locales (simp_all add: private_part_def part_defs)

interpretation vdev: transport_view device_part
  by unfold_locales (simp_all add: device_part_def)

lemma device_of_core: "core_part s' e' = core_part s e \<Longrightarrow> device_part t' e' = device_part t e"
  by (simp add: core_part_def device_part_def)

lemma core_of_rest:
  "but_account s' e' = but_account s e \<Longrightarrow> core_part s' e' = core_part s e"
  "but_profile s' e' = but_profile s e \<Longrightarrow> core_part s' e' = core_part s e"
  "but_history s' e' = but_history s e \<Longrightarrow> core_part s' e' = core_part s e"
  "but_library s' e' = but_library s e \<Longrightarrow> core_part s' e' = core_part s e"
  "but_playlist s' e' = but_playlist s e \<Longrightarrow> core_part s' e' = core_part s e"
  "but_feed s' e' = but_feed s e \<Longrightarrow> core_part s' e' = core_part s e"
  by (simp_all add: but_account_def but_profile_def but_history_def but_library_def but_playlist_def but_feed_def)

text \<open>Deleting the account clears all parts, but not the core.\<close>

lemma delete_account_core:
  "core_part (fst (dispatch_account_command DeleteAccount s e)) (snd (dispatch_account_command DeleteAccount s e)) =
     core_part s e"
  by (simp add: dispatch_account_command.simps delete_account_def finish_account_def set_account_error_def
      clear_all_protected_operations_def clear_account_operation_def forget_account_def clear_defs
      core_part_def await_call_def view_unfold split: sum.split)

lemma account_command_core:
  "core_part (fst (dispatch_account_command command s e)) (snd (dispatch_account_command command s e)) = core_part s e"
  using core_of_rest(1) [OF vacc.v_account_command [of command s e]] delete_account_core [of s e]
  by (cases "command = DeleteAccount") auto

lemma run_arm_device:
  assumes "run_arm b prev now command t e = Some (t', e')"
  shows "device_part (ct_snapshot t') e' = device_part (ct_snapshot t) e"
proof (cases "arm_of command")
  case TransportArm
  have "device_part (en_snapshot e) e = device_part (ct_snapshot t) e" by (simp add: device_part_def)
  from vdev.v_transport_command [OF this, of b prev now command] TransportArm assms
  show ?thesis by (simp add: run_arm_def)
next
  case HistoryArm
  with assms show ?thesis
    by (auto simp: run_arm_def put_snapshot_def
        dest!: vhis.v_history_command core_of_rest(3) intro: device_of_core)
next
  case LibraryArm
  with assms show ?thesis
    by (auto simp: run_arm_def put_snapshot_def
        dest!: vlib.v_library_command core_of_rest(4) intro: device_of_core)
next
  case PlaylistArm
  with assms show ?thesis
    by (auto simp: run_arm_def put_snapshot_def
        dest!: vpla.v_playlist_command core_of_rest(5) intro: device_of_core)
next
  case AccountArm
  with assms account_command_core [of command "ct_snapshot t" e] show ?thesis
    by (auto simp: run_arm_def put_snapshot_def view_unfold intro: device_of_core)
next
  case ProfileArm
  with assms core_of_rest(2) [OF vpro.v_profile_command [of command "ct_snapshot t" e]] show ?thesis
    by (auto simp: run_arm_def put_snapshot_def view_unfold intro: device_of_core)
next
  case CatalogArm
  with assms core_of_rest(6) [OF vcat.v_catalog_command [of now command "ct_snapshot t" e]] show ?thesis
    by (auto simp: run_arm_def run_catalog_def view_unfold intro: device_of_core)
qed (use assms in \<open>auto simp: run_arm_def device_part_def\<close>)

end
