(* ===== verification/Returns.thy ===== *)
theory Returns
  imports DispatchLaws
begin

text \<open>
  Which commands return. Two loops of the dispatcher have no bound of their own: a reorder may
  fetch pages for ever, and the answer of the voice engine to a stop is dispatched in turn. The
  throttle of the pipeline bounds the second one, and nothing else does.
\<close>

subsection \<open>Induction over the dispatcher\<close>

text \<open>The ways in which \<open>dispatch_command\<close> returns: the pipeline refuses the command, an arm runs, or a
  voice interaction ends, without a command or with one that is dispatched in turn.\<close>

lemma dispatch_induct [consumes 1, case_names refused arm voice nested]:
  assumes run: "dispatch_command command now e = Some (outcome, e')"
    and refused: "\<And>command now e err e1 outcome e'. before_dispatch command e = (Some err, e1) \<Longrightarrow>
      rejected_command command err e1 = (outcome, e') \<Longrightarrow> P command now e outcome e'"
    and arm: "\<And>command now e e1 e2 t e3 outcome e'. before_dispatch command e = (None, e1) \<Longrightarrow>
      command_type command \<noteq> StopVoiceInteraction \<Longrightarrow>
      e2 = intend_playback (command_type command) (sync_auth_state_projection e1) \<Longrightarrow>
      run_arm (rs_desired_play_when_ready (en_recovery (sync_auth_state_projection e1)))
        (sn_playback_state (en_snapshot e2)) now (command_type command)
        (open_turn (command_type command) now (en_snapshot e2)) e2 = Some (t, e3) \<Longrightarrow>
      finish_command (command_type command) now (sn_playback_state (en_snapshot e2)) t e3 = (outcome, e') \<Longrightarrow>
      P command now e outcome e'"
    and voice: "\<And>command now e e1 e2 t e3 outcome e'. before_dispatch command e = (None, e1) \<Longrightarrow>
      command_type command = StopVoiceInteraction \<Longrightarrow> e2 = sync_auth_state_projection e1 \<Longrightarrow>
      finish_voice (open_turn StopVoiceInteraction now (en_snapshot e2)) e2 = (None, t, e3) \<Longrightarrow>
      finish_command StopVoiceInteraction now (sn_playback_state (en_snapshot e2)) (end_voice t) e3 = (outcome, e') \<Longrightarrow>
      P command now e outcome e'"
    and nested: "\<And>command now e e1 e2 n t e3 inner e4 outcome e'. before_dispatch command e = (None, e1) \<Longrightarrow>
      command_type command = StopVoiceInteraction \<Longrightarrow> e2 = sync_auth_state_projection e1 \<Longrightarrow>
      finish_voice (open_turn StopVoiceInteraction now (en_snapshot e2)) e2 = (Some n, t, e3) \<Longrightarrow>
      P n now e3 inner e4 \<Longrightarrow>
      finish_command StopVoiceInteraction now (sn_playback_state (en_snapshot e2))
        (end_voice (adopt_outcome inner t)) e4 = (outcome, e') \<Longrightarrow>
      P command now e outcome e'"
  shows "P command now e outcome e'"
proof -
  have "P command now e (fst y) (snd y)" if "dispatch_command command now e = Some y" for command now e y
  proof (rule dispatch_command.raw_induct [where P = "\<lambda>command now e y. P command now e (fst y) (snd y)", OF _ that])
    fix dispatch :: "engine_command \<Rightarrow> u64 \<Rightarrow> 'a engine \<Rightarrow> (engine_outcome \<times> 'a engine) option"
      and command and now :: u64 and e :: "'a engine" and y
    assume IH: "\<And>c n e y. dispatch c n e = Some y \<Longrightarrow> P c n e (fst y) (snd y)"
      and body: "(case before_dispatch command e of
          (None, e) \<Rightarrow>
            (let e = sync_auth_state_projection e;
                 desired_before = rs_desired_play_when_ready (en_recovery e);
                 ty = command_type command;
                 e = intend_playback ty e;
                 prev = sn_playback_state (en_snapshot e);
                 t = open_turn ty now (en_snapshot e)
             in if ty = StopVoiceInteraction
                then (case finish_voice t e of
                        (None, t, e) \<Rightarrow> Some (finish_command ty now prev (end_voice t) e)
                      | (Some nested, t, e) \<Rightarrow>
                          Option.bind (dispatch nested now e)
                            (\<lambda>(outcome, e).
                               Some (finish_command ty now prev (end_voice (adopt_outcome outcome t)) e)))
                else (case run_arm desired_before prev now ty t e of
                        None \<Rightarrow> None
                      | Some (t, e) \<Rightarrow> Some (finish_command ty now prev t e)))
        | (Some err, e) \<Rightarrow> Some (rejected_command command err e)) = Some y"
    obtain r e1 where b: "before_dispatch command e = (r, e1)" by (cases "before_dispatch command e")
    let ?e = "sync_auth_state_projection e1"
    show "P command now e (fst y) (snd y)"
    proof (cases r)
      case (Some err)
      with body b have "y = rejected_command command err e1" by simp
      then show ?thesis by (intro refused [OF b [unfolded Some]]) simp
    next
      case None
      show ?thesis
      proof (cases "command_type command = StopVoiceInteraction")
        case False
        let ?e2 = "intend_playback (command_type command) ?e"
        let ?run = "run_arm (rs_desired_play_when_ready (en_recovery ?e)) (sn_playback_state (en_snapshot ?e2)) now
          (command_type command) (open_turn (command_type command) now (en_snapshot ?e2)) ?e2"
        have m: "(case ?run of None \<Rightarrow> None
            | Some (t, e) \<Rightarrow> Some (finish_command (command_type command) now (sn_playback_state (en_snapshot ?e2)) t e))
          = Some y"
          using body by (simp only: b None False prod.case option.case Let_def if_False)
        then obtain t e3 where a: "?run = Some (t, e3)"
          by (cases ?run) (simp_all only: option.case option.distinct surj_pair, metis surj_pair)
        from m have "finish_command (command_type command) now (sn_playback_state (en_snapshot ?e2)) t e3 = y"
          by (simp only: a option.case prod.case option.inject)
        then show ?thesis by (intro arm [OF b [unfolded None] False refl a]) simp
      next
        case True
        have quiet: "intend_playback StopVoiceInteraction e = e" for e :: "'a engine"
          by (simp add: intend_playback_def)
        let ?t = "open_turn StopVoiceInteraction now (en_snapshot ?e)"
        obtain q t e3 where v: "finish_voice ?t ?e = (q, t, e3)" by (cases "finish_voice ?t ?e")
        have m: "(case (q, t, e3) of
              (None, t, e) \<Rightarrow> Some (finish_command StopVoiceInteraction now (sn_playback_state (en_snapshot ?e)) (end_voice t) e)
            | (Some nested, t, e) \<Rightarrow> Option.bind (dispatch nested now e)
                (\<lambda>(outcome, e). Some (finish_command StopVoiceInteraction now (sn_playback_state (en_snapshot ?e))
                   (end_voice (adopt_outcome outcome t)) e))) = Some y"
          using body by (simp only: b None True quiet v prod.case option.case Let_def if_True simp_thms)
        show ?thesis
        proof (cases q)
          case None
          with m have "finish_command StopVoiceInteraction now (sn_playback_state (en_snapshot ?e)) (end_voice t) e3 = y"
            by simp
          then show ?thesis
            by (intro voice [OF b [unfolded \<open>r = None\<close>] True refl v [unfolded None]]) simp
        next
          case (Some n)
          with m obtain inner e4 where d: "dispatch n now e3 = Some (inner, e4)"
            and y: "finish_command StopVoiceInteraction now (sn_playback_state (en_snapshot ?e))
              (end_voice (adopt_outcome inner t)) e4 = y"
            by (auto simp: bind_eq_Some_conv)
          have "P n now e3 inner e4" using IH [OF d] by simp
          with y show ?thesis
            by (intro nested [OF b [unfolded \<open>r = None\<close>] True refl v [unfolded Some]]) simp_all
        qed
      qed
    qed
  qed
  from this [OF run] show ?thesis by simp
qed

subsection \<open>Commands without a loop\<close>

fun reorders :: "engine_command_type \<Rightarrow> bool" where
  "reorders (ReorderPlaylistTracks _ _ _) = True"
| "reorders _ = False"

lemma history_command_returns:
  "arm_of command = HistoryArm \<Longrightarrow> \<exists>x. dispatch_history_command command s e = Some x"
  by (cases command) (simp_all add: dispatch_history_command_def)

lemma library_command_returns:
  assumes "arm_of command = LibraryArm" "en_prefetched e = None"
  shows "\<exists>x. dispatch_library_command command s e = Some x"
proof -
  have "\<exists>x. mutate_library s t m e = Some x" for t m
    using mutate_library_total [of e m s t] assms(2) by simp
  with assms(1) show ?thesis
    by (cases command)
       (simp_all add: dispatch_library_command_def Let_def case_prod_beta split: sum.split prod.split)
qed

lemma playlist_command_returns:
  "arm_of command = PlaylistArm \<Longrightarrow> \<not> reorders command \<Longrightarrow> \<exists>x. dispatch_playlist_command command s e = Some x"
  by (cases command)
     (simp_all add: dispatch_playlist_command_def Let_def case_prod_beta split: sum.split prod.split)

lemma run_arm_returns:
  assumes "\<not> reorders command" "en_prefetched e = None"
  shows "\<exists>t' e'. run_arm b prev now command t e = Some (t', e')"
  using assms history_command_returns [of command "ct_snapshot t" e] library_command_returns [of command e "ct_snapshot t"]
    playlist_command_returns [of command "ct_snapshot t" e]
  by (cases "arm_of command") (auto simp: run_arm_def)

lemma sync_prefetched [simp]: "en_prefetched (sync_auth_state_projection e) = en_prefetched e"
  by (simp add: sync_auth_state_projection_def sync_step_defs)

lemma intend_prefetched [simp]: "en_prefetched (intend_playback ty e) = en_prefetched e"
  by (simp add: intend_playback_def set_desired_def split: engine_command_type.split)

lemma refused_returns:
  "fst (before_dispatch command e) \<noteq> None \<Longrightarrow> \<exists>outcome e'. dispatch_command command now e = Some (outcome, e')"
  by (subst dispatch_command.simps) (auto split: prod.split)

lemma middleware_before_bus:
  "middleware_before m command e = (r, m', e') \<Longrightarrow> \<exists>bus. e' = e\<lparr>en_bus := bus\<rparr>"
  using keep_bus [of e]
  by (cases m) (auto simp: report_def notify_event_emitted_def Let_def
      split: prod.splits engine_command_type.splits)

lemma run_before_bus:
  "run_before ms command e = (r, ms', e') \<Longrightarrow> \<exists>bus. e' = e\<lparr>en_bus := bus\<rparr>"
proof (induction ms arbitrary: e r ms' e')
  case Nil
  then show ?case using keep_bus [of e] by simp
next
  case (Cons m ms)
  obtain r1 m1 e1 where m: "middleware_before m command e = (r1, m1, e1)"
    by (cases "middleware_before m command e")
  obtain bus where e1: "e1 = e\<lparr>en_bus := bus\<rparr>" using middleware_before_bus [OF m] by blast
  show ?case
  proof (cases r1)
    case None
    obtain r2 ms2 e2 where ms: "run_before ms command e1 = (r2, ms2, e2)"
      by (cases "run_before ms command e1")
    then obtain bus' where "e2 = e1\<lparr>en_bus := bus'\<rparr>" using Cons.IH by blast
    with Cons.prems m None ms e1 show ?thesis by auto
  qed (use Cons.prems m e1 in auto)
qed

lemma before_dispatch_bus:
  "before_dispatch command e = (r, e') \<Longrightarrow> \<exists>bus ms. e' = e\<lparr>en_bus := bus, en_middleware := ms\<rparr>"
  by (auto simp: before_dispatch_def dest!: run_before_bus split: prod.splits)

lemma plain_command_returns:
  assumes "\<not> reorders (command_type command)" "command_type command \<noteq> StopVoiceInteraction" "en_prefetched e = None"
  shows "\<exists>outcome e'. dispatch_command command now e = Some (outcome, e')"
proof (cases "fst (before_dispatch command e) = None")
  case True
  then obtain e1 where b: "before_dispatch command e = (None, e1)" by (cases "before_dispatch command e") simp
  let ?e = "sync_auth_state_projection e1"
  let ?e2 = "intend_playback (command_type command) ?e"
  have "en_prefetched ?e2 = None" using before_dispatch_bus [OF b] assms(3) by auto
  then obtain t' e' where a: "run_arm (rs_desired_play_when_ready (en_recovery ?e))
      (sn_playback_state (en_snapshot ?e2)) now (command_type command)
      (open_turn (command_type command) now (en_snapshot ?e2)) ?e2 = Some (t', e')"
    using run_arm_returns [OF assms(1)] by blast
  have "dispatch_command command now e =
      Some (finish_command (command_type command) now (sn_playback_state (en_snapshot ?e2)) t' e')"
    by (subst dispatch_command.simps) (simp only: b assms(2) prod.case option.case Let_def if_False a)
  then show ?thesis by (metis surj_pair)
qed (rule refused_returns)

subsection \<open>The throttle bounds the voice loop\<close>

text \<open>The pipeline has a throttle that admitted the command at the current state.\<close>

definition has_throttle :: "middleware list \<Rightarrow> u64 \<Rightarrow> bool" where
  "has_throttle ms now = (\<exists>n admitted. ThrottlingMiddleware n admitted \<in> set ms \<and> now < now + n)"

definition just_admitted :: "middleware list \<Rightarrow> engine_command_type \<Rightarrow> u64 \<Rightarrow> bool" where
  "just_admitted ms ty now =
     (\<exists>n admitted. ThrottlingMiddleware n admitted \<in> set ms \<and> now < now + n \<and>
        admitted (command_as_wire ty) = Some now)"

lemma throttle_admits:
  assumes "middleware_before (ThrottlingMiddleware n admitted) command e = (None, m', e')"
  shows "m' = ThrottlingMiddleware n (admitted(command_as_wire (command_type command) \<mapsto> sn_updated_at (en_snapshot e)))"
  using assms by (auto simp: should_throttle_def Let_def split: if_splits)

lemma admitted_is_noted:
  assumes "run_before ms command e = (None, ms', e')" "has_throttle ms (sn_updated_at (en_snapshot e))"
  shows "just_admitted ms' (command_type command) (sn_updated_at (en_snapshot e))"
  using assms
proof (induction ms arbitrary: e ms' e')
  case Nil
  then show ?case by (simp add: has_throttle_def)
next
  case (Cons m ms)
  obtain m1 e1 where m: "middleware_before m command e = (None, m1, e1)"
    using Cons.prems(1) by (cases "middleware_before m command e") (auto split: option.splits prod.splits)
  obtain ms2 e2 where ms: "run_before ms command e1 = (None, ms2, e2)"
    using Cons.prems(1) m by (cases "run_before ms command e1") auto
  have ms': "ms' = m1 # ms2" using Cons.prems(1) m ms by simp
  have t: "sn_updated_at (en_snapshot e1) = sn_updated_at (en_snapshot e)"
    using middleware_before_bus [OF m] by auto
  show ?case
  proof (cases "has_throttle ms (sn_updated_at (en_snapshot e))")
    case True
    with Cons.IH [OF ms] t have "just_admitted ms2 (command_type command) (sn_updated_at (en_snapshot e))" by simp
    then show ?thesis unfolding ms' by (auto simp: just_admitted_def)
  next
    case False
    with Cons.prems(2) obtain n admitted where "m = ThrottlingMiddleware n admitted"
      "sn_updated_at (en_snapshot e) < sn_updated_at (en_snapshot e) + n"
      by (auto simp: has_throttle_def)
    moreover from this m have "m1 = ThrottlingMiddleware n
        (admitted(command_as_wire (command_type command) \<mapsto> sn_updated_at (en_snapshot e)))"
      using throttle_admits [of n admitted command e m1 e1] by simp
    ultimately show ?thesis
      unfolding ms' just_admitted_def
      by (intro exI [of _ n] exI [of _ "admitted(command_as_wire (command_type command) \<mapsto> sn_updated_at (en_snapshot e))"])
         simp
  qed
qed

lemma just_admitted_refused:
  assumes "just_admitted ms (command_type command) (sn_updated_at (en_snapshot e))"
    and "run_before ms command e = (r, ms', e')"
  shows "r \<noteq> None"
  using assms
proof (induction ms arbitrary: e r ms' e')
  case Nil
  then show ?case by (simp add: just_admitted_def)
next
  case (Cons m ms)
  obtain r1 m1 e1 where m: "middleware_before m command e = (r1, m1, e1)"
    by (cases "middleware_before m command e")
  have t: "sn_updated_at (en_snapshot e1) = sn_updated_at (en_snapshot e)"
    using middleware_before_bus [OF m] by auto
  show ?case
  proof (cases r1)
    case None
    obtain r2 ms2 e2 where ms: "run_before ms command e1 = (r2, ms2, e2)"
      by (cases "run_before ms command e1")
    have "just_admitted ms (command_type command) (sn_updated_at (en_snapshot e))"
    proof (rule ccontr)
      assume "\<not> just_admitted ms (command_type command) (sn_updated_at (en_snapshot e))"
      with Cons.prems(1) obtain n admitted where "m = ThrottlingMiddleware n admitted"
        "sn_updated_at (en_snapshot e) < sn_updated_at (en_snapshot e) + n"
        "admitted (command_as_wire (command_type command)) = Some (sn_updated_at (en_snapshot e))"
        by (auto simp: just_admitted_def)
      with m None show False by (simp add: should_throttle_def unwrap_or_def Let_def)
    qed
    with Cons.IH [OF _ ms] t have "r2 \<noteq> None" by simp
    with Cons.prems(2) m ms None show ?thesis by auto
  qed (use Cons.prems(2) m in auto)
qed

text \<open>After a pipeline with a throttle admitted a command, it refuses the same command until the
  state has moved on.\<close>

lemma same_command_refused:
  assumes "before_dispatch command e = (None, e1)" "has_throttle (en_middleware e) (sn_updated_at (en_snapshot e))"
    and "en_middleware e2 = en_middleware e1" "sn_updated_at (en_snapshot e2) = sn_updated_at (en_snapshot e)"
    and "command_type again = command_type command"
  shows "fst (before_dispatch again e2) \<noteq> None"
proof -
  obtain ms e' where "run_before (en_middleware e) command e = (None, ms, e')" "en_middleware e1 = ms"
    using assms(1) by (auto simp: before_dispatch_def split: prod.splits)
  with admitted_is_noted [OF _ assms(2)]
  have "just_admitted (en_middleware e2) (command_type again) (sn_updated_at (en_snapshot e2))"
    using assms(3-5) by simp
  then show ?thesis
    using just_admitted_refused by (auto simp: before_dispatch_def split: prod.split)
qed

definition voice_answers :: "'w engine \<Rightarrow> engine_command set" where
  "voice_answers e =
     {c. \<exists>ve w. en_voice_engine e = Some ve \<and> fst (ve_finish ve w) = Inr (VoiceCommand c)}"

lemma finish_voice_keeps:
  assumes "finish_voice t e = (q, t', e')"
  shows "en_middleware e' = en_middleware e" "en_snapshot e' = en_snapshot e"
    and "q = Some nested \<Longrightarrow> nested \<in> voice_answers e" "en_prefetched e' = en_prefetched e"
  using assms
  by (auto simp: finish_voice_def await_call_def voice_answers_def Let_def case_prod_beta
      split: option.splits sum.splits voice_interaction_result.splits)

text \<open>C34: every command returns, so long as it is not a playlist reorder and the voice engine recognises
  none, in any pipeline with a throttle, whatever the ports and the voice engine answer. The
  voice engine may answer a stop with another stop; the throttle refuses the nested one because the
  state has not moved in between.\<close>

theorem dispatch_returns:
  assumes "\<not> reorders (command_type command)" "en_prefetched e = None"
    and "has_throttle (en_middleware e) (sn_updated_at (en_snapshot e))"
    and "\<And>nested. nested \<in> voice_answers e \<Longrightarrow> \<not> reorders (command_type nested)"
  shows "\<exists>outcome e'. dispatch_command command now e = Some (outcome, e')"
proof (cases "command_type command = StopVoiceInteraction \<and> fst (before_dispatch command e) = None")
  case False
  then show ?thesis
    using refused_returns plain_command_returns [OF assms(1) _ assms(2)] by blast
next
  case True
  then obtain e1 where b: "before_dispatch command e = (None, e1)" by (cases "before_dispatch command e") simp
  obtain bus ms where e1: "e1 = e\<lparr>en_bus := bus, en_middleware := ms\<rparr>" using before_dispatch_bus [OF b] by blast
  let ?e = "intend_playback StopVoiceInteraction (sync_auth_state_projection e1)"
  let ?t = "open_turn StopVoiceInteraction now (en_snapshot ?e)"
  obtain q t1 e2 where v: "finish_voice ?t ?e = (q, t1, e2)" by (cases "finish_voice ?t ?e")
  note keeps = finish_voice_keeps [OF v]
  have nested: "\<exists>outcome e'. dispatch_command n now e2 = Some (outcome, e')" if "q = Some n" for n
  proof (cases "command_type n = StopVoiceInteraction")
    case True
    have "fst (before_dispatch n e2) \<noteq> None"
      using same_command_refused [OF b assms(3), of e2 n] keeps(1,2) e1 True
        \<open>command_type command = _ \<and> _\<close> by (simp add: intend_playback_def)
    then show ?thesis by (rule refused_returns)
  next
    case False
    have "n \<in> voice_answers e" using keeps(3) [OF that] e1 by (simp add: voice_answers_def intend_playback_def)
    then show ?thesis using plain_command_returns [of n e2 now] assms(2,4) False keeps(4) e1 by simp
  qed
  show ?thesis
  proof (cases q)
    case None
    have "dispatch_command command now e =
        Some (finish_command StopVoiceInteraction now (sn_playback_state (en_snapshot ?e)) (end_voice t1) e2)"
      by (subst dispatch_command.simps)
         (simp only: b True v None prod.case option.case Let_def if_True simp_thms)
    then show ?thesis by (metis surj_pair)
  next
    case (Some n)
    then obtain inner e3 where d: "dispatch_command n now e2 = Some (inner, e3)" using nested by blast
    have "dispatch_command command now e =
        Some (finish_command StopVoiceInteraction now (sn_playback_state (en_snapshot ?e))
          (end_voice (adopt_outcome inner t1)) e3)"
      by (subst dispatch_command.simps)
         (simp only: b True v Some d prod.case option.case Let_def if_True simp_thms bind.simps)
    then show ?thesis by (metis surj_pair)
  qed
qed

text \<open>An engine whose voice engine hears a stop in every stop.\<close>

definition echo_voice :: "'w voice_engine" where
  "echo_voice =
     \<lparr>ve_process_audio_chunk = (\<lambda>_ w. (Inr (), w)),
      ve_finish = (\<lambda>w. (Inr (VoiceCommand (engine_command_new StopVoiceInteraction None)), w)),
      ve_partial_hypothesis = (\<lambda>w. []), ve_reset = id, ve_set_context = (\<lambda>_. id)\<rparr>"

definition echo_engine :: "middleware list \<Rightarrow> unit engine" where
  "echo_engine ms = (engine_new null_codec id () 5000)\<lparr>en_middleware := ms, en_voice_engine := Some echo_voice\<rparr>"

lemma echo_engine_time: "sn_updated_at (en_snapshot (echo_engine ms)) = 5000"
  by (simp add: echo_engine_def apply_queue_projection_def snapshot_idle_def Let_def)

theorem dispatch_returns_witness:
  "\<exists>outcome e'. dispatch_command (engine_command_new StopVoiceInteraction None) 6000 (echo_engine production_pipeline)
     = Some (outcome, e')"
  by (rule dispatch_returns)
     (unfold echo_engine_time, auto simp: echo_engine_def has_throttle_def production_pipeline_def voice_answers_def
        echo_voice_def engine_command_new_def engine_new_def
        engine_fields_new_def Let_def)

definition echoes :: "'w engine \<Rightarrow> bool" where
  "echoes e \<longleftrightarrow> list_all lenient (en_middleware e) \<and>
     (\<exists>ve. en_voice_engine e = Some ve \<and>
        (\<forall>w. \<exists>c w'. ve_finish ve w = (Inr (VoiceCommand c), w') \<and> command_type c = StopVoiceInteraction))"

lemma lenient_run:
  "list_all lenient ms \<Longrightarrow> \<exists>bus. run_before ms command e = (None, ms, e\<lparr>en_bus := bus\<rparr>)"
proof (induction ms arbitrary: e)
  case Nil
  then show ?case using keep_bus [of e] by simp
next
  case (Cons m ms)
  obtain bus where m: "middleware_before m command e = (None, m, e\<lparr>en_bus := bus\<rparr>)"
    using lenient_before [of m command e] Cons.prems by auto
  obtain bus' where "run_before ms command (e\<lparr>en_bus := bus\<rparr>) = (None, ms, e\<lparr>en_bus := bus, en_bus := bus'\<rparr>)"
    using Cons.IH [of "e\<lparr>en_bus := bus\<rparr>"] Cons.prems by auto
  with m show ?case by auto
qed

lemma lenient_before_dispatch:
  assumes "list_all lenient (en_middleware e)"
  shows "\<exists>bus. before_dispatch command e = (None, e\<lparr>en_bus := bus\<rparr>)"
proof -
  obtain bus where "run_before (en_middleware e) command e = (None, en_middleware e, e\<lparr>en_bus := bus\<rparr>)"
    using lenient_run [OF assms] by blast
  then have "before_dispatch command e = (None, e\<lparr>en_bus := bus\<rparr>)"
    by (simp add: before_dispatch_def)
  then show ?thesis ..
qed

lemma echo_step:
  assumes "echoes e" and "e1 = e\<lparr>en_bus := bus\<rparr>"
  shows "\<exists>c e2. finish_voice t (sync_auth_state_projection e1) = (Some c, t, e2) \<and>
    command_type c = StopVoiceInteraction \<and> echoes e2"
proof -
  let ?e = "sync_auth_state_projection e1"
  obtain ve where ve: "en_voice_engine e = Some ve"
    "\<forall>w. \<exists>c w'. ve_finish ve w = (Inr (VoiceCommand c), w') \<and> command_type c = StopVoiceInteraction"
    using assms(1) by (auto simp: echoes_def)
  then obtain c w' where f: "ve_finish ve (en_world ?e) = (Inr (VoiceCommand c), w')" "command_type c = StopVoiceInteraction"
    by blast
  have "en_voice_engine ?e = Some ve" "en_middleware ?e = en_middleware e"
    using ve(1) assms(2) by simp_all
  with f ve assms(1) show ?thesis
    by (auto simp: finish_voice_def await_call_def echoes_def)
qed

lemma echo_heard:
  assumes "echoes e" "before_dispatch command e = (None, e1)"
  shows "\<exists>c e2. finish_voice t (sync_auth_state_projection e1) = (Some c, t, e2) \<and>
    command_type c = StopVoiceInteraction \<and> echoes e2"
proof -
  obtain bus where "before_dispatch command e = (None, e\<lparr>en_bus := bus\<rparr>)"
    using lenient_before_dispatch [of e command] assms(1) by (auto simp: echoes_def)
  with assms(2) have "e1 = e\<lparr>en_bus := bus\<rparr>" by simp
  from echo_step [OF assms(1) this] show ?thesis .
qed

text \<open>Without a throttle nothing bounds the voice loop. With middlewares that never refuse and a
  voice engine that hears a stop in every stop, \<open>StopVoiceInteraction\<close> never returns.\<close>

lemma unthrottled_voice_loop:
  assumes "echoes e" "command_type command = StopVoiceInteraction"
  shows "dispatch_command command now e = None"
proof (rule ccontr)
  assume "dispatch_command command now e \<noteq> None"
  then obtain outcome e' where "dispatch_command command now e = Some (outcome, e')" by auto
  then have "\<not> (echoes e \<and> command_type command = StopVoiceInteraction)"
  proof (induction rule: dispatch_induct)
    case (refused command now e err e1)
    show ?case
      using lenient_before_dispatch [of e command] refused(1) by (auto simp: echoes_def)
  next
    case (arm command now e e1 e2 t e3)
    then show ?case by simp
  next
    case (voice command now e e1 e2 t e3)
    show ?case
    proof
      assume "echoes e \<and> command_type command = StopVoiceInteraction"
      with echo_heard [OF _ voice(1), of "open_turn StopVoiceInteraction now (en_snapshot e2)"] voice(3,4)
      show False by auto
    qed
  next
    case (nested command now e e1 e2 n t e3)
    show ?case
    proof
      assume "echoes e \<and> command_type command = StopVoiceInteraction"
      with echo_heard [OF _ nested(1), of "open_turn StopVoiceInteraction now (en_snapshot e2)"] nested(3,4)
      have "command_type n = StopVoiceInteraction \<and> echoes e3" by auto
      with nested.IH show False by blast
    qed
  qed
  with assms show False by simp
qed

lemma unthrottled_voice_loop_witness:
  "dispatch_command (engine_command_new StopVoiceInteraction None) 6000
     (echo_engine [LoggerMiddleware, TelemetryMiddleware, AnalyticsMiddleware 0, FocusMiddleware]) = None"
  by (rule unthrottled_voice_loop) (simp_all add: echoes_def echo_engine_def echo_voice_def engine_command_new_def)

end
