(* ===== verification/PlayerLaws.thy ===== *)
theory PlayerLaws
  imports Turns Returns
begin

text \<open>
  The player and the state shown. \<open>MockPlayer\<close> (\<open>services/player.rs\<close>) interprets the calls a
  player receives; the laws here say that along every command it plays exactly when the engine's
  state says so.
\<close>

subsection \<open>The player\<close>

record mock_player =
  mp_current_media_id :: "string option"
  mp_is_playing :: bool
  mp_position :: u64
  mp_speed :: f32

definition mock_player_new :: mock_player where
  "mock_player_new =
     \<lparr>mp_current_media_id = None, mp_is_playing = False, mp_position = 0, mp_speed = Fin 1\<rparr>"

fun mock_player_call :: "player_call \<Rightarrow> mock_player \<Rightarrow> mock_player" where
  "mock_player_call (PPrepare media_id) p = p\<lparr>mp_current_media_id := Some media_id, mp_position := 0\<rparr>"
| "mock_player_call PPlay p = p\<lparr>mp_is_playing := True\<rparr>"
| "mock_player_call PPause p = p\<lparr>mp_is_playing := False\<rparr>"
| "mock_player_call PStop p = p\<lparr>mp_is_playing := False, mp_current_media_id := None\<rparr>"
| "mock_player_call (PSeek pos) p = p\<lparr>mp_position := pos\<rparr>"
| "mock_player_call (PSetSpeed speed) p = p\<lparr>mp_speed := speed\<rparr>"

definition run_player :: "player_call list \<Rightarrow> mock_player \<Rightarrow> mock_player" where
  "run_player calls p = fold mock_player_call calls p"

definition calls_of :: "engine_effect list \<Rightarrow> player_call list" where
  "calls_of effects = List.map_filter player_call effects"

lemma run_player_append [simp]: "run_player (xs @ ys) p = run_player ys (run_player xs p)"
  by (simp add: run_player_def)

lemma calls_of_append [simp]: "calls_of (xs @ ys) = calls_of xs @ calls_of ys"
  by (simp add: calls_of_def List.map_filter_def)

lemma run_player_Nil [simp]: "run_player [] p = p"
  by (simp add: run_player_def)

lemma calls_of_Nil [simp]: "calls_of [] = []"
  by (simp add: calls_of_def List.map_filter_def)

text \<open>Effects that leave the player playing or not.\<close>

definition quiet :: "engine_effect list \<Rightarrow> bool" where
  "quiet effects = (\<forall>f \<in> set effects. f \<notin> {PlayEffect, PauseEffect, StopEffect})"

lemma quiet_simps [simp]:
  "quiet []" "quiet (f # fs) \<longleftrightarrow> f \<notin> {PlayEffect, PauseEffect, StopEffect} \<and> quiet fs"
  "quiet (fs @ gs) \<longleftrightarrow> quiet fs \<and> quiet gs"
  by (auto simp: quiet_def)

lemma quiet_run: "quiet effects \<Longrightarrow> mp_is_playing (run_player (calls_of effects) p) = mp_is_playing p"
proof (induction effects arbitrary: p)
  case (Cons f effects)
  then show ?case
    by (cases f) (simp_all add: calls_of_def List.map_filter_def run_player_def)
qed (simp add: calls_of_def run_player_def List.map_filter_def)

subsection \<open>Playing as the state says\<close>

text \<open>A failed or recovering engine promises nothing about the player.\<close>

fun plays_as :: "playback_state \<Rightarrow> bool \<Rightarrow> bool" where
  "plays_as Playing b = b"
| "plays_as Buffering b = b"
| "plays_as Idle b = (\<not> b)"
| "plays_as Paused b = (\<not> b)"
| "plays_as Ended b = (\<not> b)"
| "plays_as Recovering b = True"
| "plays_as PlaybackError b = True"

definition effects_ok :: "playback_state \<Rightarrow> playback_state \<Rightarrow> engine_effect list \<Rightarrow> bool" where
  "effects_ok prev next effects =
     (\<forall>p. (plays_as prev (mp_is_playing p) \<longrightarrow> plays_as next (mp_is_playing (run_player (calls_of effects) p))) \<and>
          (plays_as next (mp_is_playing p) \<longrightarrow> plays_as next (mp_is_playing (run_player (calls_of effects) p))))"

lemma effects_ok_quiet: "quiet effects \<Longrightarrow> effects_ok st st effects"
  by (simp add: effects_ok_def quiet_run)

lemma transition_ok:
  "effects_ok prev next (command_transition_effects prev next)"
  by (cases prev; cases "next")
     (simp_all add: effects_ok_def command_transition_effects_def calls_of_def List.map_filter_def run_player_def)

lemma reassert_ok: "effects_ok next next (reassert_effects b d next effects)"
  by (cases "next")
     (simp_all add: effects_ok_def reassert_effects_def calls_of_def List.map_filter_def run_player_def)

lemma effects_ok_then: "effects_ok prev next xs \<Longrightarrow> effects_ok next next ys \<Longrightarrow> effects_ok prev next (xs @ ys)"
  by (simp add: effects_ok_def)

lemma effects_ok_transition:
  assumes "quiet effects \<or> effects_ok prev next effects"
  shows "effects_ok prev next (effects @ command_transition_effects prev next @ reassert_effects b d next fs)"
proof -
  have "effects_ok prev next (effects @ command_transition_effects prev next)"
    using assms transition_ok [of prev "next"] by (auto simp: effects_ok_def quiet_run)
  from effects_ok_then [OF this reassert_ok] show ?thesis by simp
qed

text \<open>A step of the engine: the player it had, if any, received more calls.\<close>

definition player_step :: "playback_state \<Rightarrow> player_call list option \<Rightarrow> playback_state \<Rightarrow> player_call list option \<Rightarrow> bool" where
  "player_step st pl st' pl' =
     (case pl of
        None \<Rightarrow> pl' = None
      | Some calls \<Rightarrow> \<exists>more. pl' = Some (calls @ more) \<and>
          (\<forall>p. plays_as st (mp_is_playing p) \<longrightarrow> plays_as st' (mp_is_playing (run_player more p))))"

lemma player_step_refl [simp]: "player_step st pl st pl"
  by (auto simp: player_step_def split: option.split)

lemma player_step_trans:
  assumes "player_step st pl st' pl'" "player_step st' pl' st'' pl''"
  shows "player_step st pl st'' pl''"
proof (cases pl)
  case None
  with assms show ?thesis by (auto simp: player_step_def)
next
  case (Some calls)
  then obtain more more' where m: "pl' = Some (calls @ more)" "pl'' = Some ((calls @ more) @ more')"
    "\<forall>p. plays_as st (mp_is_playing p) \<longrightarrow> plays_as st' (mp_is_playing (run_player more p))"
    "\<forall>p. plays_as st' (mp_is_playing p) \<longrightarrow> plays_as st'' (mp_is_playing (run_player more' p))"
    using assms by (auto simp: player_step_def)
  then show ?thesis by (simp add: player_step_def Some)
qed

lemma player_step_effects:
  "effects_ok st st' effects \<Longrightarrow>
     player_step st pl st' (map_option (\<lambda>calls. calls @ calls_of effects) pl)"
  by (auto simp: player_step_def effects_ok_def split: option.split)

lemma execute_effects_player [simp]:
  "en_player (execute_effects effects e) = map_option (\<lambda>calls. calls @ calls_of effects) (en_player e)"
  "en_snapshot (execute_effects effects e) = en_snapshot e"
  by (simp_all add: execute_effects_def calls_of_def split: option.split)

subsection \<open>Arms push quiet effects\<close>

abbreviation quiet_turn :: "command_turn \<Rightarrow> bool" where
  "quiet_turn t \<equiv> quiet (ct_effects t)"

lemma quiet_on_snapshot [simp]: "ct_effects (on_snapshot f t) = ct_effects t"
  by (simp add: on_snapshot_def)

lemma quiet_push [simp]: "ct_effects (push_effects fs t) = ct_effects t @ fs"
  by (simp add: push_effects_def)

lemma quiet_update_media [simp]: "quiet (fst (snd (update_media_state r s e)))"
  by (simp add: update_media_state_def Let_def)

lemma quiet_prepare [simp]:
  "quiet_turn (fst (prepare_media b r t e)) = quiet_turn t"
  "quiet_turn (fst (start_buffering b r t e)) = quiet_turn t"
  by (simp_all add: start_buffering_def prepare_media_def view_unfold)

lemma quiet_load [simp]:
  "quiet_turn (fst (load_selected b m t e)) = quiet_turn t"
  "quiet_turn (fst (load_requested m t e)) = quiet_turn t"
  by (simp_all add: load_selected_def load_requested_def view_unfold split: sum.split)

lemma quiet_moves [simp]:
  "quiet_turn (fst (seek_to_start now t e)) = quiet_turn t"
  "quiet_turn (fst (skip_next_command b t e)) = quiet_turn t"
  "quiet_turn (fst (skip_previous_command b prev now t e)) = quiet_turn t"
  "quiet_turn (fst (play_command prev now t e)) = quiet_turn t"
  by (simp_all add: seek_to_start_def skip_next_command_def skip_previous_command_def play_command_def view_unfold
      split: option.split sum.split)

lemma quiet_requests [simp]:
  "quiet_turn (fst (play_media_by_id i t e)) = quiet_turn t"
  "quiet_turn (fst (play_queue is n t e)) = quiet_turn t"
  "quiet_turn (fst (voice_play q t e)) = quiet_turn t"
  by (simp_all add: play_media_by_id_def play_queue_def voice_play_def view_unfold
      split: option.split sum.split list.split)

lemma quiet_voice [simp]:
  "quiet_turn (fst (start_voice_interaction t e)) = quiet_turn t"
  "quiet_turn (fst (process_voice_audio c t e)) = quiet_turn t"
  "quiet_turn (fst (snd (finish_voice t e))) = quiet_turn t"
  "quiet_turn (end_voice t) = quiet_turn t"
  by (simp_all add: start_voice_interaction_def process_voice_audio_def finish_voice_def end_voice_def view_unfold
      split: option.split sum.split voice_interaction_result.split)

lemma quiet_transport:
  "quiet_turn (fst (dispatch_transport_command b prev now command t e)) = quiet_turn t"
  by (simp add: dispatch_transport_command_def start_session_def end_session_def set_speed_def seek_command_def Let_def
      split: engine_command_type.split)

lemma quiet_arm:
  assumes "run_arm b prev now command t e = Some (t', e')" "quiet_turn t"
  shows "quiet_turn t'"
  using assms quiet_transport [of b prev now command t e]
  by (cases "arm_of command") (auto simp: run_arm_def put_snapshot_def run_catalog_def view_unfold)

subsection \<open>The pipeline\<close>

lemma middleware_after_frame:
  "middleware_after m outcome e = (m', outcome', e') \<Longrightarrow>
     en_snapshot e' = en_snapshot e \<and> en_player e' = en_player e \<and> en_voice_engine e' = en_voice_engine e \<and>
     en_recovery e' = en_recovery e \<and>
     oc_effects outcome' = oc_effects outcome \<and>
     sn_playback_state (oc_snapshot outcome') = sn_playback_state (oc_snapshot outcome)"
  by (cases m)
     (auto simp: recover_network_error_def analyse_outcome_def report_def notify_event_emitted_def
        notify_state_changed_def with_media_def Let_def split: option.splits if_splits prod.splits)

lemma run_after_frame:
  "run_after ms outcome e = (ms', outcome', e') \<Longrightarrow>
     en_snapshot e' = en_snapshot e \<and> en_player e' = en_player e \<and> en_voice_engine e' = en_voice_engine e \<and>
     en_recovery e' = en_recovery e \<and>
     oc_effects outcome' = oc_effects outcome \<and>
     sn_playback_state (oc_snapshot outcome') = sn_playback_state (oc_snapshot outcome)"
proof (induction ms arbitrary: outcome e ms' outcome' e')
  case (Cons m ms)
  obtain m1 outcome1 e1 where m: "middleware_after m outcome e = (m1, outcome1, e1)"
    by (cases "middleware_after m outcome e")
  obtain ms2 outcome2 e2 where ms: "run_after ms outcome1 e1 = (ms2, outcome2, e2)"
    by (cases "run_after ms outcome1 e1")
  show ?case
    using middleware_after_frame [OF m] Cons.IH [OF ms] Cons.prems by (simp add: m ms)
qed simp

lemma publish_outcome_frame:
  assumes "publish_outcome outcome e = (outcome', e')"
  shows "en_snapshot e' = en_snapshot e"
    and "en_player e' = map_option (\<lambda>calls. calls @ calls_of (oc_effects outcome)) (en_player e)"
    and "oc_effects outcome' = oc_effects outcome"
    and "sn_playback_state (oc_snapshot outcome') = sn_playback_state (oc_snapshot outcome)"
proof -
  obtain ms outcome1 e1 where r: "run_after (en_middleware e) outcome e = (ms, outcome1, e1)"
    by (cases "run_after (en_middleware e) outcome e")
  note * = run_after_frame [OF r]
  have "outcome' = outcome1" "e' = execute_effects (oc_effects outcome1) (e1\<lparr>en_middleware := ms\<rparr>)"
    using assms by (auto simp: publish_outcome_def after_dispatch_def r)
  with * show "en_snapshot e' = en_snapshot e"
    "en_player e' = map_option (\<lambda>calls. calls @ calls_of (oc_effects outcome)) (en_player e)"
    "oc_effects outcome' = oc_effects outcome"
    "sn_playback_state (oc_snapshot outcome') = sn_playback_state (oc_snapshot outcome)" by simp_all
qed

subsection \<open>Commands\<close>

lemma record_listening_frame [simp]:
  "en_player (record_listening now e) = en_player e"
  "en_recovery (record_listening now e) = en_recovery e"
  "sn_playback_state (en_snapshot (record_listening now e)) = sn_playback_state (en_snapshot e)"
  using vhis.v_history_auto [of now "en_snapshot e" e]
  by (simp_all add: record_listening_def but_history_def core_part_def view_unfold)

lemma refresh_controls_frame [simp]:
  "en_player (refresh_controls e) = en_player e"
  "sn_playback_state (en_snapshot (refresh_controls e)) = sn_playback_state (en_snapshot e)"
  by (simp_all add: refresh_controls_def apply_queue_projection_def Let_def)

lemma project_queue_frame [simp]:
  "en_player (project_queue e) = en_player e"
  "sn_playback_state (en_snapshot (project_queue e)) = sn_playback_state (en_snapshot e)"
  by (simp_all add: project_queue_def apply_queue_projection_def)

lemma note_backend_failure_state [simp]: "sn_playback_state (note_backend_failure s) = sn_playback_state s"
  by (simp add: note_backend_failure_def split: option.split)

definition command_effects :: "playback_state \<Rightarrow> command_turn \<Rightarrow> 'w engine \<Rightarrow> engine_effect list" where
  "command_effects prev t e =
     (let next = sn_playback_state (ct_snapshot t);
          effects = ct_effects t @ command_transition_effects prev next
      in effects @ reassert_effects (ct_reassert t) (rs_desired_play_when_ready (en_recovery e)) next effects)"

lemma finish_command_frame:
  assumes "finish_command command now prev t e = (outcome, e')"
  shows "sn_playback_state (en_snapshot e') = sn_playback_state (ct_snapshot t)"
    and "sn_playback_state (oc_snapshot outcome) = sn_playback_state (ct_snapshot t)"
    and "oc_effects outcome = command_effects prev t e"
    and "en_player e' = map_option (\<lambda>calls. calls @ calls_of (command_effects prev t e)) (en_player e)"
proof -
  let ?e1 = "refresh_controls (e\<lparr>en_snapshot := note_backend_failure (ct_snapshot t)\<rparr>)"
  let ?e = "project_queue (if prev = Playing \<or> sn_playback_state (en_snapshot ?e1) = Playing
                           then record_listening now ?e1 else ?e1)"
  let ?o = "\<lparr>oc_snapshot = en_snapshot ?e,
      oc_event = command_applied (case ct_message t of
        Some message \<Rightarrow> Some message | None \<Rightarrow> Some (command_as_wire command)),
      oc_effects = command_effects prev t e\<rparr>"
  have p: "publish_outcome ?o ?e = (outcome, e')"
    using assms by (simp only: finish_command_def command_effects_def Let_def append_assoc)
  have e: "sn_playback_state (en_snapshot ?e) = sn_playback_state (ct_snapshot t)" "en_player ?e = en_player e"
    by simp_all
  from publish_outcome_frame [OF p] e
  show "sn_playback_state (en_snapshot e') = sn_playback_state (ct_snapshot t)"
    "sn_playback_state (oc_snapshot outcome) = sn_playback_state (ct_snapshot t)"
    "oc_effects outcome = command_effects prev t e"
    "en_player e' = map_option (\<lambda>calls. calls @ calls_of (command_effects prev t e)) (en_player e)"
    by (simp_all only: engine_outcome.simps)
qed

text \<open>What a command does to the player of the engine and with its effects.\<close>

definition command_follows :: "'w engine \<Rightarrow> engine_outcome \<Rightarrow> 'w engine \<Rightarrow> bool" where
  "command_follows e outcome e' =
     (effects_ok (sn_playback_state (en_snapshot e)) (sn_playback_state (en_snapshot e')) (oc_effects outcome) \<and>
      sn_playback_state (oc_snapshot outcome) = sn_playback_state (en_snapshot e') \<and>
      player_step (sn_playback_state (en_snapshot e)) (en_player e)
        (sn_playback_state (en_snapshot e')) (en_player e'))"

lemma command_effects_ok:
  assumes "quiet_turn t \<or> effects_ok prev (sn_playback_state (ct_snapshot t)) (ct_effects t)"
  shows "effects_ok prev (sn_playback_state (ct_snapshot t)) (command_effects prev t e)"
  using effects_ok_transition [OF assms] by (simp add: command_effects_def Let_def)

lemma finish_follows:
  assumes "finish_command command now prev t e1 = (outcome, e')" "prev = sn_playback_state (en_snapshot e)"
    and "quiet_turn t" "en_player e1 = en_player e"
  shows "command_follows e outcome e'"
  using finish_command_frame [OF assms(1)] command_effects_ok [of t prev e1] assms(2-4)
  by (simp add: command_follows_def player_step_effects)

lemma finish_nested_follows:
  assumes "command_follows e inner e1" "finish_command command now prev t e1 = (outcome, e')"
    and "prev = sn_playback_state (en_snapshot e)" "sn_playback_state (ct_snapshot t) = sn_playback_state (en_snapshot e1)"
    and "ct_effects t = before @ oc_effects inner @ behind" "quiet before" "quiet behind"
  shows "command_follows e outcome e'"
proof -
  let ?next = "sn_playback_state (en_snapshot e1)"
  have inner: "effects_ok prev ?next (oc_effects inner)"
    "player_step prev (en_player e) ?next (en_player e1)"
    using assms(1,3) by (simp_all add: command_follows_def)
  have "effects_ok prev ?next (ct_effects t)"
    using inner(1) assms(5-7) by (simp add: effects_ok_def quiet_run)
  then have ok: "effects_ok prev ?next (command_effects prev t e1)"
    using command_effects_ok [of t prev e1] assms(4) by simp
  then have "effects_ok ?next ?next (command_effects prev t e1)"
    by (simp add: effects_ok_def)
  with player_step_trans [OF inner(2) player_step_effects] ok show ?thesis
    using finish_command_frame [OF assms(2)] assms(3,4) by (simp add: command_follows_def)
qed

lemma command_follows_cong:
  "command_follows e outcome e' \<Longrightarrow> sn_playback_state (en_snapshot e) = sn_playback_state (en_snapshot f) \<Longrightarrow>
     en_player e = en_player f \<Longrightarrow> command_follows f outcome e'"
  by (simp add: command_follows_def)

lemma intend_cases: "intend_playback command e \<in> {e, set_desired True e, set_desired False e}"
  by (cases command) (simp_all add: intend_playback_def)

lemma intend_frame [simp]:
  "en_player (intend_playback command e) = en_player e"
  "en_snapshot (intend_playback command e) = en_snapshot e"
  using intend_cases [of command e] by (auto simp: set_desired_def)

lemma finish_voice_frame:
  assumes "finish_voice t e = (r, t', e')"
  shows "en_snapshot e' = en_snapshot e" "en_player e' = en_player e" "quiet_turn t' = quiet_turn t"
  using assms
  by (auto simp: finish_voice_def await_call_def view_unfold
      split: option.splits sum.splits voice_interaction_result.splits)

lemma rejected_follows: "rejected_command command err e = (outcome, e') \<Longrightarrow> command_follows e outcome e'"
  by (auto simp: rejected_command_def command_follows_def Let_def with_busy_def with_error_def effects_ok_quiet)

lemma open_turn_quiet [simp]: "ct_effects (open_turn command now s) = []"
  by (simp add: open_turn_def)

lemma dispatch_follows:
  assumes "dispatch_command command now e = Some (outcome, e')"
  shows "command_follows e outcome e'"
  using assms
proof (induction rule: dispatch_induct)
  case (refused command now e err e1)
  from rejected_follows [OF refused(2)] before_dispatch_bus [OF refused(1)] show ?case
    by (auto intro: command_follows_cong)
next
  case (arm command now e e1 e2 t e3)
  have "sn_playback_state (en_snapshot e2) = sn_playback_state (en_snapshot e)" "en_player e2 = en_player e"
    using before_dispatch_bus [OF arm(1)] arm(3) by auto
  moreover have "en_player e3 = en_player e2"
    using run_arm_device [OF arm(4)] by (simp add: device_part_def)
  ultimately show ?case
    using finish_follows [OF arm(5) _ quiet_arm [OF arm(4)]] by simp
next
  case (voice command now e e1 e2 t e3)
  have "sn_playback_state (en_snapshot e2) = sn_playback_state (en_snapshot e)" "en_player e2 = en_player e"
    using before_dispatch_bus [OF voice(1)] voice(3) by auto
  with finish_voice_frame [OF voice(4)] show ?case
    using finish_follows [OF voice(5)] by simp
next
  case (nested command now e e1 e2 n t e3 inner e4)
  have e2: "sn_playback_state (en_snapshot e2) = sn_playback_state (en_snapshot e)" "en_player e2 = en_player e"
    using before_dispatch_bus [OF nested(1)] nested(3) by auto
  note frame = finish_voice_frame [OF nested(4)]
  have inner: "command_follows e inner e4"
    using nested.IH frame e2 by (simp add: command_follows_cong)
  then have "sn_playback_state (oc_snapshot inner) = sn_playback_state (en_snapshot e4)"
    by (simp add: command_follows_def)
  then show ?case
    using finish_nested_follows [OF inner nested(5), of "ct_effects t" "[StopAudioCapture, UnduckAudio]"] frame e2
    by (simp add: end_voice_def adopt_outcome_def on_snapshot_def push_effects_def with_busy_def
        with_voice_hypothesis_def)
qed

subsection \<open>Runs\<close>

text \<open>Commands one after the other, each with the time it is handled.\<close>

fun dispatch_session ::
  "(engine_command \<times> u64) list \<Rightarrow> 'w engine \<Rightarrow> (engine_outcome list \<times> 'w engine) option" where
  "dispatch_session [] e = Some ([], e)"
| "dispatch_session ((command, now) # commands) e =
     (case dispatch_command command now e of
        None \<Rightarrow> None
      | Some (outcome, e) \<Rightarrow>
          (case dispatch_session commands e of
             None \<Rightarrow> None
           | Some (outcomes, e) \<Rightarrow> Some (outcome # outcomes, e)))"

text \<open>The player of the engine plays as its state says.\<close>

definition player_in_step :: "'w engine \<Rightarrow> bool" where
  "player_in_step e =
     (case en_player e of
        None \<Rightarrow> True
      | Some calls \<Rightarrow> plays_as (sn_playback_state (en_snapshot e)) (mp_is_playing (run_player calls mock_player_new)))"

lemma player_step_in_step:
  assumes "player_step (sn_playback_state (en_snapshot e)) (en_player e) (sn_playback_state (en_snapshot e')) (en_player e')"
    and "player_in_step e"
  shows "player_in_step e'"
  using assms by (auto simp: player_step_def player_in_step_def split: option.splits)

lemma player_in_step_new: "player_in_step (engine_new cdc lower w now)"
  by (simp add: player_in_step_def engine_new_def engine_fields_new_def Let_def)

text \<open>C14: the player plays exactly when the state says so. Whatever commands are handled, whatever the
  ports, middlewares, services and the voice engine (with the commands it recognises) do, the calls
  the player has received leave it playing while the state is Playing or Buffering and not playing
  while it is Idle, Paused or Ended, after every command.\<close>

theorem player_follows_commands:
  assumes "dispatch_session commands e = Some (outcomes, e')" and "player_in_step e"
  shows "player_in_step e'"
  using assms
proof (induction commands arbitrary: e outcomes)
  case (Cons c commands)
  obtain command now where c: "c = (command, now)" by (cases c)
  from Cons.prems(1) obtain outcome e1 rest where d: "dispatch_command command now e = Some (outcome, e1)"
    and r: "dispatch_session commands e1 = Some (rest, e')"
    by (auto simp: c split: option.splits)
  have "player_in_step e1"
    using dispatch_follows [OF d] Cons.prems(2) by (auto simp: command_follows_def intro: player_step_in_step)
  from Cons.IH [OF r this] show ?case .
qed simp

text \<open>A playing engine that is paused.\<close>

definition playing_engine :: "unit engine" where
  "playing_engine = (engine_new null_codec id () 5000)
     \<lparr>en_player := Some [PPrepare ''t'', PPlay],
      en_snapshot := (snapshot_idle 5000)\<lparr>sn_playback_state := Playing\<rparr>\<rparr>"

theorem player_follows_commands_witness:
  "\<exists>outcomes e'. dispatch_session [(engine_command_new Pause None, 6000)] playing_engine = Some (outcomes, e') \<and>
     player_in_step e'"
proof -
  have "en_prefetched playing_engine = None"
    by (simp add: playing_engine_def engine_new_def engine_fields_new_def Let_def)
  then obtain outcome e' where "dispatch_command (engine_command_new Pause None) 6000 playing_engine = Some (outcome, e')"
    using plain_command_returns [of "engine_command_new Pause None" playing_engine 6000]
    by (auto simp: engine_command_new_def)
  then have "dispatch_session [(engine_command_new Pause None, 6000)] playing_engine = Some ([outcome], e')" by simp
  moreover have "player_in_step playing_engine"
    by (simp add: player_in_step_def playing_engine_def run_player_def)
  ultimately show ?thesis using player_follows_commands by blast
qed

end
