(* ===== verification/Ownership.thy ===== *)
theory Ownership
  imports Turns Returns
begin

text \<open>
  Who owns what the engine keeps, over whole runs: commands, platform events, ticks, changes of the
  login and of everything else outside the engine, in any order. Account, profile, library and
  playlist data without a recorded owner is empty, so \<open>snapshot()\<close> never shows another account's.
  History is different: recording after a command can attribute an account's list to nobody.
\<close>

subsection \<open>The invariant\<close>

definition account_kept :: "engine_snapshot \<Rightarrow> 'w engine \<Rightarrow> bool" where
  "account_kept s e =
     ((en_account_identity e = None \<longrightarrow> account_empty s) \<and>
      (\<forall>i a. en_account_identity e = Some i \<longrightarrow> sn_protected_account s = Some a \<longrightarrow> acct_id a = ai_account_id i))"

definition profile_kept :: "engine_snapshot \<Rightarrow> 'w engine \<Rightarrow> bool" where
  "profile_kept s e =
     ((en_profile_identity e = None \<longrightarrow> profile_empty s) \<and>
      (\<forall>i p. en_profile_identity e = Some i \<longrightarrow> sn_profile s = Some p \<longrightarrow>
         prof_external_user_id p = ai_account_id i))"

definition library_kept :: "engine_snapshot \<Rightarrow> 'w engine \<Rightarrow> bool" where
  "library_kept s e =
     (case en_library_identity e of
        None \<Rightarrow> library_empty s \<and> en_saved_operation e = None \<and> en_liked_operation e = None
      | Some i \<Rightarrow> (\<forall>op. en_saved_operation e = Some op \<longrightarrow> pop_auth_identity op = i) \<and>
                  (\<forall>op. en_liked_operation e = Some op \<longrightarrow> pop_auth_identity op = i))"

definition playlist_kept :: "engine_snapshot \<Rightarrow> 'w engine \<Rightarrow> bool" where
  "playlist_kept s e =
     (case en_playlist_identity e of
        None \<Rightarrow> playlist_empty s \<and> en_playlists_operation e = None \<and> en_playlist_tracks_operation e = None
      | Some i \<Rightarrow> (\<forall>op. en_playlists_operation e = Some op \<longrightarrow> ppo_auth_identity op = i) \<and>
                  (\<forall>op. en_playlist_tracks_operation e = Some op \<longrightarrow> ppo_auth_identity op = i))"

definition private_kept :: "engine_snapshot \<Rightarrow> 'w engine \<Rightarrow> bool" where
  "private_kept s e = (account_kept s e \<and> profile_kept s e \<and> library_kept s e \<and> playlist_kept s e)"

lemmas kept_defs = account_kept_def profile_kept_def library_kept_def playlist_kept_def private_kept_def

lemma kept_cong:
  "account_part s' e' = account_part s e \<Longrightarrow> account_kept s' e' = account_kept s e"
  "profile_part s' e' = profile_part s e \<Longrightarrow> profile_kept s' e' = profile_kept s e"
  "library_part s' e' = library_part s e \<Longrightarrow> library_kept s' e' = library_kept s e"
  "playlist_part s' e' = playlist_part s e \<Longrightarrow> playlist_kept s' e' = playlist_kept s e"
  by (simp_all add: part_defs kept_defs empty_defs cong: option.case_cong)

lemma private_kept_parts:
  assumes "account_kept s e \<Longrightarrow> account_kept s' e'" "profile_kept s e \<Longrightarrow> profile_kept s' e'"
    and "library_kept s e \<Longrightarrow> library_kept s' e'" "playlist_kept s e \<Longrightarrow> playlist_kept s' e'"
    and "private_kept s e"
  shows "private_kept s' e'"
  using assms by (simp add: private_kept_def)

lemma kept_keep:
  "account_part s' e' = account_part s e \<Longrightarrow> account_kept s e \<Longrightarrow> account_kept s' e'"
  "profile_part s' e' = profile_part s e \<Longrightarrow> profile_kept s e \<Longrightarrow> profile_kept s' e'"
  "library_part s' e' = library_part s e \<Longrightarrow> library_kept s e \<Longrightarrow> library_kept s' e'"
  "playlist_part s' e' = playlist_part s e \<Longrightarrow> playlist_kept s e \<Longrightarrow> playlist_kept s' e'"
  by (blast dest: kept_cong)+

lemma private_kept_rest:
  assumes "private_kept s e"
  shows "private_part s' e' = private_part s e \<Longrightarrow> private_kept s' e'"
    and "but_history s' e' = but_history s e \<Longrightarrow> private_kept s' e'"
    and "but_feed s' e' = but_feed s e \<Longrightarrow> private_kept s' e'"
    and "but_account s' e' = but_account s e \<Longrightarrow> account_kept s' e' \<Longrightarrow> private_kept s' e'"
    and "but_profile s' e' = but_profile s e \<Longrightarrow> profile_kept s' e' \<Longrightarrow> private_kept s' e'"
    and "but_library s' e' = but_library s e \<Longrightarrow> library_kept s' e' \<Longrightarrow> private_kept s' e'"
    and "but_playlist s' e' = but_playlist s e \<Longrightarrow> playlist_kept s' e' \<Longrightarrow> private_kept s' e'"
proof -
  note keep = private_kept_parts [OF _ _ _ _ assms]
  show "private_part s' e' = private_part s e \<Longrightarrow> private_kept s' e'"
    by (rule keep) (simp_all only: private_part_def prod.inject kept_keep)
  show "but_history s' e' = but_history s e \<Longrightarrow> private_kept s' e'"
    by (rule keep) (simp_all only: but_history_def prod.inject kept_keep)
  show "but_feed s' e' = but_feed s e \<Longrightarrow> private_kept s' e'"
    by (rule keep) (simp_all only: but_feed_def prod.inject kept_keep)
  show "but_account s' e' = but_account s e \<Longrightarrow> account_kept s' e' \<Longrightarrow> private_kept s' e'"
    by (rule keep) (simp_all only: but_account_def prod.inject kept_keep)
  show "but_profile s' e' = but_profile s e \<Longrightarrow> profile_kept s' e' \<Longrightarrow> private_kept s' e'"
    by (rule keep) (simp_all only: but_profile_def prod.inject kept_keep)
  show "but_library s' e' = but_library s e \<Longrightarrow> library_kept s' e' \<Longrightarrow> private_kept s' e'"
    by (rule keep) (simp_all only: but_library_def prod.inject kept_keep)
  show "but_playlist s' e' = but_playlist s e \<Longrightarrow> playlist_kept s' e' \<Longrightarrow> private_kept s' e'"
    by (rule keep) (simp_all only: but_playlist_def prod.inject kept_keep)
qed

text \<open>The strict invariants of the components, under which their handlers run.\<close>

definition private_ok :: "engine_snapshot \<Rightarrow> 'w engine \<Rightarrow> bool" where
  "private_ok s e = (account_ok s e \<and> profile_ok s e \<and> library_ok s e \<and> playlist_ok s e)"

lemma ok_kept:
  "account_ok s e \<Longrightarrow> account_kept s e" "profile_ok s e \<Longrightarrow> profile_kept s e"
  "library_ok s e \<Longrightarrow> library_kept s e" "playlist_ok s e \<Longrightarrow> playlist_kept s e"
  by (auto simp: account_ok_def profile_ok_def library_ok_def playlist_ok_def kept_defs account_empty_def
      profile_empty_def)

lemma private_ok_kept: "private_ok s e \<Longrightarrow> private_kept s e"
  by (simp add: private_ok_def private_kept_def ok_kept)

lemma private_ok_cong:
  "private_part s' e' = private_part s e \<Longrightarrow> sn_auth_state s' = sn_auth_state s \<Longrightarrow>
     private_ok s' e' = private_ok s e"
  by (simp add: private_ok_def account_ok_def profile_ok_def library_ok_def playlist_ok_def private_part_def
      part_defs empty_defs)

subsection \<open>Synchronisation makes the invariant strict\<close>

lemma kept_fresh:
  assumes "own = auth_identity_from_state (sn_auth_state s)"
  shows "account_kept s e \<Longrightarrow> \<not> stale (en_account_identity e) own \<Longrightarrow> account_ok s e"
    and "profile_kept s e \<Longrightarrow> \<not> stale (en_profile_identity e) own \<Longrightarrow> profile_ok s e"
    and "library_kept s e \<Longrightarrow> \<not> stale (en_library_identity e) own \<Longrightarrow> library_ok s e"
    and "playlist_kept s e \<Longrightarrow> \<not> stale (en_playlist_identity e) own \<Longrightarrow> playlist_ok s e"
  unfolding assms
     apply (cases "en_account_identity e"; auto simp: account_kept_def account_ok_def not_stale_iff)
    apply (cases "en_profile_identity e"; auto simp: profile_kept_def profile_ok_def not_stale_iff)
   apply (cases "en_library_identity e"; auto simp: library_kept_def library_ok_def not_stale_iff)
  apply (cases "en_playlist_identity e"; auto simp: playlist_kept_def playlist_ok_def not_stale_iff)
  done

lemma sync_step_rest:
  "but_feed (en_snapshot (sync_feed e)) (sync_feed e) = but_feed (en_snapshot e) e"
  "but_account (en_snapshot (sync_account e)) (sync_account e) = but_account (en_snapshot e) e"
  "but_profile (en_snapshot (sync_profile e)) (sync_profile e) = but_profile (en_snapshot e) e"
  "but_history (en_snapshot (sync_history e)) (sync_history e) = but_history (en_snapshot e) e"
  "but_library (en_snapshot (sync_library e)) (sync_library e) = but_library (en_snapshot e) e"
  "but_playlist (en_snapshot (sync_playlist e)) (sync_playlist e) = but_playlist (en_snapshot e) e"
  by (simp_all add: sync_step_defs but_feed_def but_account_def but_profile_def but_history_def but_library_def
      but_playlist_def part_defs clear_defs Let_def)

lemma sync_step_own:
  "account_kept (en_snapshot e) e \<Longrightarrow> account_kept (en_snapshot (sync_account e)) (sync_account e)"
  "profile_kept (en_snapshot e) e \<Longrightarrow> profile_kept (en_snapshot (sync_profile e)) (sync_profile e)"
  "library_kept (en_snapshot e) e \<Longrightarrow> library_kept (en_snapshot (sync_library e)) (sync_library e)"
  "playlist_kept (en_snapshot e) e \<Longrightarrow> playlist_kept (en_snapshot (sync_playlist e)) (sync_playlist e)"
     apply (simp only: sync_account_def split: if_split) apply (simp add: account_kept_def)
    apply (simp only: sync_profile_def split: if_split) apply (simp add: profile_kept_def)
   apply (simp only: sync_library_def split: if_split) apply (simp add: library_kept_def)
  apply (simp only: sync_playlist_def split: if_split) apply (simp add: playlist_kept_def)
  done

lemma sync_step_kept:
  "private_kept (en_snapshot e) e \<Longrightarrow> private_kept (en_snapshot (sync_feed e)) (sync_feed e)"
  "private_kept (en_snapshot e) e \<Longrightarrow> private_kept (en_snapshot (sync_account e)) (sync_account e)"
  "private_kept (en_snapshot e) e \<Longrightarrow> private_kept (en_snapshot (sync_profile e)) (sync_profile e)"
  "private_kept (en_snapshot e) e \<Longrightarrow> private_kept (en_snapshot (sync_history e)) (sync_history e)"
  "private_kept (en_snapshot e) e \<Longrightarrow> private_kept (en_snapshot (sync_library e)) (sync_library e)"
  "private_kept (en_snapshot e) e \<Longrightarrow> private_kept (en_snapshot (sync_playlist e)) (sync_playlist e)"
  by (rule private_kept_rest(3), assumption, rule sync_step_rest)
     (rule private_kept_rest(4), assumption, rule sync_step_rest, rule sync_step_own, simp only: private_kept_def,
      rule private_kept_rest(5), assumption, rule sync_step_rest, rule sync_step_own, simp only: private_kept_def,
      rule private_kept_rest(2), assumption, rule sync_step_rest,
      rule private_kept_rest(6), assumption, rule sync_step_rest, rule sync_step_own, simp only: private_kept_def,
      rule private_kept_rest(7), assumption, rule sync_step_rest, rule sync_step_own, simp only: private_kept_def)

lemma sync_kept:
  assumes "private_kept (en_snapshot e) e"
  shows "private_kept (en_snapshot (sync_auth_state_projection e)) (sync_auth_state_projection e)"
proof -
  let ?e = "e\<lparr>en_snapshot := (en_snapshot e)\<lparr>sn_auth_state := current_auth e\<rparr>\<rparr>"
  have "private_kept (en_snapshot ?e) ?e"
    by (rule private_kept_rest(1) [OF assms]) simp
  then show ?thesis unfolding sync_auth_state_projection_def by (intro sync_step_kept)
qed

lemma sync_ok:
  assumes "private_kept (en_snapshot e) e"
  shows "private_ok (en_snapshot (sync_auth_state_projection e)) (sync_auth_state_projection e)"
proof -
  let ?e = "sync_auth_state_projection e"
  have own: "current_identity e = auth_identity_from_state (sn_auth_state (en_snapshot ?e))"
    by (simp add: current_identity_def)
  have "account_kept (en_snapshot ?e) ?e" "profile_kept (en_snapshot ?e) ?e"
    "library_kept (en_snapshot ?e) ?e" "playlist_kept (en_snapshot ?e) ?e"
    using sync_kept [OF assms] by (simp_all only: private_kept_def)
  then show ?thesis
    unfolding private_ok_def using kept_fresh [OF own] sync_not_stale [of e] by blast
qed

subsection \<open>Commands\<close>

lemma cleared_kept: "private_kept (fst (clear_all_protected_operations s e)) (snd (clear_all_protected_operations s e))"
  by (simp add: clear_all_protected_operations_def clear_account_operation_def forget_account_def private_kept_def
      account_kept_def profile_kept_def library_kept_def playlist_kept_def Let_def)

lemma delete_account_kept:
  assumes "private_kept s e"
  shows "private_kept (fst (snd (delete_account s e))) (snd (snd (delete_account s e)))"
proof -
  have auth: "private_kept (s\<lparr>sn_auth_state := a\<rparr>) (snd (await_call c e))" for a and c :: "'a \<Rightarrow> unit result \<times> 'a"
    by (rule private_kept_rest(1) [OF assms]) simp
  show ?thesis
    by (simp add: delete_account_def assms auth cleared_kept view_unfold split: sum.split)
qed

lemma account_command_kept:
  assumes "private_kept s e" "account_ok s e" "dispatch_account_command command s e = (s', e')"
  shows "private_kept s' e'"
proof (cases "command = DeleteAccount")
  case True
  have "private_kept (set_account_error err t) f = private_kept t f" for err t f
    by (simp only: private_kept_def set_account_error_def)
       (simp add: account_kept_def profile_kept_def library_kept_def playlist_kept_def empty_defs cong: option.case_cong)
  with assms(3) delete_account_kept [OF assms(1)] show ?thesis
    by (auto simp: True dispatch_account_command.simps finish_account_def split: prod.splits sum.splits)
next
  case False
  from vacc.v_account_command [OF False, of s e] assms(3) have "but_account s' e' = but_account s e" by simp
  then show ?thesis
    using private_kept_rest(4) [OF assms(1)] ok_kept(1) [OF dispatch_account_ok [OF assms(2,3)]] by blast
qed

lemma theme_private: "private_part (dispatch_theme_command command s) e = private_part s e"
  for s :: engine_snapshot and e :: "'w engine"
  by (simp add: dispatch_theme_command_def hydrate_theme_def set_theme_def apply_remote_theme_def
      Let_def split: engine_command_type.split)

lemma run_arm_kept:
  assumes "run_arm b prev now command t e = Some (t', e')" "private_ok (ct_snapshot t) e"
    and "private_part (en_snapshot e) e = private_part (ct_snapshot t) e"
  shows "private_kept (ct_snapshot t') e'"
proof -
  let ?s = "ct_snapshot t"
  have ok: "account_ok ?s e" "profile_ok ?s e" "library_ok ?s e" "playlist_ok ?s e"
    using assms(2) by (simp_all add: private_ok_def)
  have kept: "private_kept ?s e" using assms(2) by (rule private_ok_kept)
  show ?thesis
  proof (cases "arm_of command")
    case HistoryArm
    with assms(1) obtain s' where c: "dispatch_history_command command ?s e = Some (s', e')" "ct_snapshot t' = s'"
      by (auto simp: run_arm_def put_snapshot_def)
    show ?thesis
      unfolding c(2) by (rule private_kept_rest(2) [OF kept vhis.v_history_command [OF c(1)]])
  next
    case LibraryArm
    with assms(1) obtain s' where c: "dispatch_library_command command ?s e = Some (s', e')" "ct_snapshot t' = s'"
      by (auto simp: run_arm_def put_snapshot_def)
    show ?thesis
      unfolding c(2)
      by (rule private_kept_rest(6) [OF kept vlib.v_library_command [OF c(1)] ok_kept(3) [OF dispatch_library_ok [OF ok(3) c(1)]]])
  next
    case PlaylistArm
    with assms(1) obtain s' where c: "dispatch_playlist_command command ?s e = Some (s', e')" "ct_snapshot t' = s'"
      by (auto simp: run_arm_def put_snapshot_def)
    show ?thesis
      unfolding c(2)
      by (rule private_kept_rest(7) [OF kept vpla.v_playlist_command [OF c(1)] ok_kept(4) [OF
          dispatch_playlist_owned [OF ok(4) [unfolded playlist_ok_owned] c(1), folded playlist_ok_owned]]])
  next
    case AccountArm
    with assms(1) obtain s' where c: "dispatch_account_command command ?s e = (s', e')" "ct_snapshot t' = s'"
      by (auto simp: run_arm_def put_snapshot_def split: prod.splits)
    show ?thesis unfolding c(2) by (rule account_command_kept [OF kept ok(1) c(1)])
  next
    case ProfileArm
    with assms(1) obtain s' where c: "dispatch_profile_command command ?s e = (s', e')" "ct_snapshot t' = s'"
      by (auto simp: run_arm_def put_snapshot_def split: prod.splits)
    from vpro.v_profile_command [of command ?s e] c(1) have "but_profile s' e' = but_profile ?s e" by simp
    then show ?thesis
      unfolding c(2) by (rule private_kept_rest(5) [OF kept _ ok_kept(2) [OF dispatch_profile_ok [OF ok(2) c(1)]]])
  next
    case CatalogArm
    with assms(1) obtain m s' where c: "dispatch_catalog_command now command ?s e = (m, s', e')" "ct_snapshot t' = s'"
      by (auto simp: run_arm_def run_catalog_def split: prod.splits)
    from vcat.v_catalog_command [of now command ?s e] c(1) have "but_feed s' e' = but_feed ?s e" by simp
    then show ?thesis unfolding c(2) by (rule private_kept_rest(3) [OF kept])
  next
    case TransportArm
    with assms(1) vtra.v_transport_command [OF assms(3), of b prev now command]
    have "private_part (ct_snapshot t') e' = private_part ?s e" by (simp add: run_arm_def)
    then show ?thesis by (rule private_kept_rest(1) [OF kept])
  next
    case ThemeArm
    with assms(1) have "private_part (ct_snapshot t') e' = private_part ?s e"
      by (auto simp: run_arm_def on_snapshot_def theme_private)
    then show ?thesis by (rule private_kept_rest(1) [OF kept])
  next
    case NoArm
    with assms(1) kept show ?thesis by (simp add: run_arm_def)
  qed
qed

subsection \<open>The closing steps\<close>

text \<open>What the middlewares, the player, the projections and the recording leave alone.\<close>

definition engine_private where
  "engine_private e = private_part (en_snapshot e) (e :: 'w engine)"

lemma middleware_after_private:
  "middleware_after m outcome e = (m', outcome', e') \<Longrightarrow> engine_private e' = engine_private e"
  by (cases m)
     (auto simp: recover_network_error_def analyse_outcome_def report_def notify_event_emitted_def
        notify_state_changed_def engine_private_def Let_def split: option.splits if_splits prod.splits)

lemma recover_private:
  "private_part (oc_snapshot (fst (recover_network_error outcome e))) f = private_part (oc_snapshot outcome) f"
  for f :: "'w engine"
  by (simp add: recover_network_error_def Let_def case_prod_beta split: option.split)

lemma middleware_after_outcome:
  "middleware_after m outcome e = (m', outcome', e') \<Longrightarrow>
     private_part (oc_snapshot outcome') f = private_part (oc_snapshot outcome) f"
  for f :: "'w engine"
  using recover_private [of outcome e f] by (cases m) (auto split: prod.splits)

lemma run_after_private:
  "run_after ms outcome e = (ms', outcome', e') \<Longrightarrow> engine_private e' = engine_private e \<and>
     private_part (oc_snapshot outcome') f = private_part (oc_snapshot outcome) f"
  for f :: "'w engine"
proof (induction ms arbitrary: outcome e ms' outcome' e')
  case (Cons m ms)
  obtain m1 outcome1 e1 where m: "middleware_after m outcome e = (m1, outcome1, e1)"
    by (cases "middleware_after m outcome e")
  obtain ms2 outcome2 e2 where ms: "run_after ms outcome1 e1 = (ms2, outcome2, e2)"
    by (cases "run_after ms outcome1 e1")
  show ?case
    using middleware_after_private [OF m] middleware_after_outcome [OF m] Cons.IH [OF ms] Cons.prems
    by (simp add: m ms)
qed simp

lemma device_private [simp]:
  "private_part s (e\<lparr>en_middleware := ms\<rparr>) = private_part s e"
  "private_part s (e\<lparr>en_player := pl\<rparr>) = private_part s e"
  by (simp_all add: private_part_def part_defs)

lemma middleware_private [simp]: "engine_private (e\<lparr>en_middleware := ms\<rparr>) = engine_private e"
  by (simp add: engine_private_def)

lemma execute_private [simp]: "engine_private (execute_effects effects e) = engine_private e"
  by (simp add: execute_effects_def engine_private_def split: option.split)

lemma publish_private:
  fixes f :: "'w engine"
  assumes "publish_outcome outcome e = (outcome', e')"
  shows "engine_private e' = engine_private e"
    and "private_part (oc_snapshot outcome') f = private_part (oc_snapshot outcome) f"
proof -
  obtain ms outcome1 e1 where r: "run_after (en_middleware e) outcome e = (ms, outcome1, e1)"
    by (cases "run_after (en_middleware e) outcome e")
  have "outcome' = outcome1" "e' = execute_effects (oc_effects outcome1) (e1\<lparr>en_middleware := ms\<rparr>)"
    using assms by (auto simp: publish_outcome_def after_dispatch_def r)
  with run_after_private [OF r, of f] show "engine_private e' = engine_private e"
    "private_part (oc_snapshot outcome') f = private_part (oc_snapshot outcome) f" by simp_all
qed

lemma projection_private [simp]:
  "engine_private (refresh_controls e) = engine_private e"
  "engine_private (project_queue e) = engine_private e"
  by (simp_all add: engine_private_def private_part_def part_defs refresh_controls_def project_queue_def
      apply_queue_projection_def Let_def)

definition engine_kept :: "'w engine \<Rightarrow> bool" where
  "engine_kept e = private_kept (en_snapshot e) e"

lemma engine_kept_private: "engine_private e' = engine_private e \<Longrightarrow> engine_kept e \<Longrightarrow> engine_kept e'"
  for e e' :: "'w engine"
  unfolding engine_kept_def engine_private_def by (rule private_kept_rest(1))

lemma record_listening_kept: "engine_kept e \<Longrightarrow> engine_kept (record_listening now e)"
  unfolding engine_kept_def
  by (erule private_kept_rest(2)) (simp add: record_listening_def view_unfold)

lemma before_kept: "before_dispatch command e = (r, e') \<Longrightarrow> engine_kept e \<Longrightarrow> engine_kept e'"
  by (auto simp: engine_private_def dest!: before_dispatch_bus elim!: engine_kept_private [rotated])

lemma note_failure_private [simp]: "private_part (note_backend_failure s) e = private_part s e"
  by (simp add: note_backend_failure_def private_part_def part_defs split: option.split)

text \<open>An outcome of an engine that keeps the invariant: the snapshot returned keeps it as well.\<close>

definition outcome_kept :: "engine_outcome \<Rightarrow> 'w engine \<Rightarrow> bool" where
  "outcome_kept outcome e = (engine_kept e \<and> private_kept (oc_snapshot outcome) e)"

lemma publish_kept:
  assumes "publish_outcome outcome e = (outcome', e')" "engine_kept e" "oc_snapshot outcome = en_snapshot e"
  shows "outcome_kept outcome' e'"
proof -
  have "engine_kept e'" using engine_kept_private [OF publish_private(1) [OF assms(1)] assms(2)] .
  moreover have "private_part (oc_snapshot outcome') e' = private_part (en_snapshot e') e'"
  proof -
    have "private_part (oc_snapshot outcome') e = private_part (en_snapshot e) e"
      using publish_private(2) [OF assms(1)] assms(3) by simp
    moreover have "private_part (en_snapshot e') e' = private_part (en_snapshot e) e"
      using publish_private(1) [OF assms(1)] by (simp add: engine_private_def)
    ultimately show ?thesis by (simp add: private_part_def part_defs)
  qed
  ultimately show ?thesis
    unfolding outcome_kept_def engine_kept_def using private_kept_rest(1) by blast
qed

lemma finish_kept:
  assumes "finish_command command now prev t e = (outcome, e')" "private_kept (ct_snapshot t) e"
  shows "outcome_kept outcome e'"
proof -
  let ?e1 = "refresh_controls (e\<lparr>en_snapshot := note_backend_failure (ct_snapshot t)\<rparr>)"
  let ?e2 = "if prev = Playing \<or> sn_playback_state (en_snapshot ?e1) = Playing
             then record_listening now ?e1 else ?e1"
  have "engine_private ?e1 = private_part (ct_snapshot t) e"
    by (simp add: projection_private) (simp add: engine_private_def)
  then have e1: "engine_kept ?e1"
    unfolding engine_kept_def engine_private_def by (rule private_kept_rest(1) [OF assms(2)])
  have "engine_kept ?e2" using record_listening_kept [OF e1] e1 by (simp only: split: if_split) simp
  then have k: "engine_kept (project_queue ?e2)"
    using engine_kept_private projection_private(2) by blast
  obtain o1 where "publish_outcome o1 (project_queue ?e2) = (outcome, e')" "oc_snapshot o1 = en_snapshot (project_queue ?e2)"
    using assms(1) by (simp only: finish_command_def Let_def engine_outcome.simps that)
  then show ?thesis using publish_kept k by blast
qed

lemma rejected_kept:
  assumes "rejected_command command err e = (outcome, e')" "engine_kept e"
  shows "outcome_kept outcome e'"
proof -
  let ?e = "e\<lparr>en_snapshot := with_busy False (with_error (Some err) (en_snapshot e))\<rparr>"
  have "engine_private ?e = engine_private e" by (simp add: engine_private_def)
  then have "private_kept (en_snapshot ?e) ?e" using assms(2) engine_kept_private unfolding engine_kept_def by blast
  from sync_kept [OF this] assms(1) show ?thesis
    by (auto simp: rejected_command_def outcome_kept_def engine_kept_def Let_def)
qed

subsection \<open>Whole commands\<close>

lemma bus_kept: "engine_kept (e\<lparr>en_bus := bus, en_middleware := ms\<rparr>) = engine_kept e"
  by (simp add: engine_kept_def private_kept_def account_kept_def profile_kept_def library_kept_def playlist_kept_def
      cong: option.case_cong)

lemma intend_ok: "private_ok (en_snapshot (intend_playback c e)) (intend_playback c e) = private_ok (en_snapshot e) e"
  for e :: "'w engine"
  by (rule private_ok_cong) (simp_all add: intend_playback_def set_desired_def split: engine_command_type.split)

lemma open_turn_private [simp]: "private_part (ct_snapshot (open_turn c now s)) e = private_part s e"
  for s :: engine_snapshot and e :: "'w engine"
  by (simp add: open_turn_def)

lemma open_turn_auth [simp]: "sn_auth_state (ct_snapshot (open_turn c now s)) = sn_auth_state s"
  by (simp add: open_turn_def opening_snapshot_def with_defs Let_def)

lemma voice_kept:
  assumes "finish_voice (open_turn c now (en_snapshot e)) e = (q, t, e')" "engine_kept e"
  shows "private_kept (ct_snapshot (end_voice t)) e'" "engine_kept e'"
proof -
  let ?t = "open_turn c now (en_snapshot e)"
  have "private_part (ct_snapshot t) e' = private_part (en_snapshot e) e"
    using vtra.v_voice(3) [of ?t e] assms(1) by simp
  then have "private_part (ct_snapshot (end_voice t)) e' = private_part (en_snapshot e) e"
    by simp
  then show "private_kept (ct_snapshot (end_voice t)) e'"
    using assms(2) unfolding engine_kept_def by (rule private_kept_rest(1) [rotated])
  have "engine_private e' = engine_private e"
    using assms(1)
    by (auto simp: finish_voice_def await_call_def engine_private_def view_unfold
        split: option.splits sum.splits voice_interaction_result.splits)
  then show "engine_kept e'" using assms(2) by (rule engine_kept_private)
qed

lemma dispatch_kept:
  assumes "dispatch_command command now e = Some (outcome, e')" "engine_kept e"
  shows "outcome_kept outcome e'"
  using assms
proof (induction rule: dispatch_induct)
  case (refused command now e err e1)
  then show ?case using rejected_kept before_kept by blast
next
  case (arm command now e e1 e2 t e3)
  have "private_ok (en_snapshot e2) e2"
    unfolding arm(3) intend_ok using before_kept [OF arm(1) arm(6)] sync_ok unfolding engine_kept_def by blast
  then have "private_ok (ct_snapshot (open_turn (command_type command) now (en_snapshot e2))) e2"
    by (subst private_ok_cong) simp_all
  from run_arm_kept [OF arm(4) this] have "private_kept (ct_snapshot t) e3" by simp
  with finish_kept [OF arm(5)] show ?case .
next
  case (voice command now e e1 e2 t e3)
  have "engine_kept e2"
    unfolding voice(3) using before_kept [OF voice(1) voice(6)] sync_kept unfolding engine_kept_def by blast
  with finish_kept [OF voice(5)] voice_kept(1) [OF voice(4)] show ?case by blast
next
  case (nested command now e e1 e2 n t e3 inner e4)
  have "engine_kept e2"
    unfolding nested(3) using before_kept [OF nested(1) nested(7)] sync_kept unfolding engine_kept_def by blast
  from voice_kept(2) [OF nested(4) this] nested.IH have k: "outcome_kept inner e4" by blast
  have "private_part (ct_snapshot (end_voice (adopt_outcome inner t))) e4 = private_part (oc_snapshot inner) e4"
    by (simp add: adopt_outcome_def push_effects_def)
  then have "private_kept (ct_snapshot (end_voice (adopt_outcome inner t))) e4"
    using k private_kept_rest(1) unfolding outcome_kept_def by blast
  with finish_kept [OF nested(5)] show ?case .
qed

subsection \<open>Platform events and ticks\<close>

lemma on_engine_snapshot_private:
  "(\<And>s. private_part (f s) e = private_part s e) \<Longrightarrow> engine_private (on_engine_snapshot f e) = engine_private e"
  by (simp add: engine_private_def on_engine_snapshot_def)

lemma reported_private [simp]: "private_part (fst (reported_progress o' pos s)) e = private_part s e"
  for e :: "'w engine"
  by (simp add: reported_progress_def Let_def split: option.split)

lemma checkpoint_kept: "engine_kept e \<Longrightarrow> engine_kept (apply_checkpoint observation now e)"
proof -
  assume k: "engine_kept e"
  have "engine_kept (accept_checkpoint o' pos now e)" for o' pos
  proof -
    let ?s = "fst (reported_progress o' pos (en_snapshot e))"
    let ?e = "e\<lparr>en_pending_seek := None, en_snapshot := with_progress_tick now
      (with_position (snd (reported_progress o' pos (en_snapshot e))) ?s)\<rparr>"
    have "engine_private ?e = engine_private e" by (simp add: engine_private_def)
    then have "engine_kept ?e" using k by (rule engine_kept_private)
    from record_listening_kept [OF this, of now] k show ?thesis by (simp add: accept_checkpoint_def case_prod_beta)
  qed
  with k show ?thesis by (simp add: apply_checkpoint_def split: option.split)
qed

lemma refresh_source_private: "engine_private (snd (refresh_source resolved now e)) = engine_private e"
proof -
  have "private_part (fst (update_media_state r s f)) (snd (snd (update_media_state r s f))) = private_part s f"
    for r s and f :: "'w engine"
    by simp
  then show ?thesis
    by (simp add: refresh_source_def Let_def case_prod_beta) (simp add: engine_private_def)
qed

lemma fail_player_private: "engine_private (fail_player err now e) = engine_private e"
  unfolding fail_player_def by (rule on_engine_snapshot_private) simp

lemma resolve_private: "engine_private (snd (resolve_playback_source media e)) = engine_private e"
proof -
  have "en_snapshot (snd (resolve_playback_source media e)) = en_snapshot e"
  proof -
    obtain r f where t: "take_prefetched as_playback e = (r, f)" by force
    then have "en_snapshot f = en_snapshot e"
      by (auto simp: take_prefetched_def split: option.splits)
    then show ?thesis
      by (cases r; cases "en_playback_port f"; cases "en_audio_source_client f")
        (simp_all add: resolve_playback_source_def t await_call_def Let_def case_prod_beta split: sum.split)
  qed
  then show ?thesis by (simp add: engine_private_def)
qed

lemma source_rejected_private: "engine_private (snd (source_rejected i now e)) = engine_private e"
proof -
  let ?e = "e\<lparr>en_recovery := (en_recovery e)\<lparr>rs_source_refresh_attempted_for := Some i\<rparr>\<rparr>"
  have e: "engine_private ?e = engine_private e" by (simp add: engine_private_def)
  show ?thesis
    using resolve_private [of _ ?e]
    by (simp add: source_rejected_def fail_player_private refresh_source_private e Let_def case_prod_beta
        split: option.split sum.split prod.split)
qed

lemma desired_private [simp]: "engine_private (set_desired b e) = engine_private e"
  by (simp add: engine_private_def) (simp add: set_desired_def)

lemma recreate_private: "engine_private (snd (recreate_player i now e)) = engine_private e"
  by (simp add: recreate_player_def Let_def on_engine_snapshot_private) (simp add: engine_private_def)

lemma decoder_failed_private: "engine_private (snd (decoder_failed o' now e)) = engine_private e"
  by (simp add: decoder_failed_def recreate_private on_engine_snapshot_private Let_def
      split: option.split bool.split)

lemma completed_kept:
  assumes "playback_completed_event payload now e = (outcome, e')" "engine_kept e"
  shows "engine_kept e'"
proof -
  let ?e = "sync_auth_state_projection e"
  let ?s = "snap_finished_progress (en_codec ?e) payload
    (with_error None (with_playback_state Ended now (en_snapshot ?e)))"
  obtain s2 e2 where c: "record_playback_completion payload ?s ?e = (s2, e2)"
    by (cases "record_playback_completion payload ?s ?e")
  have "private_kept (en_snapshot ?e) ?e" using sync_kept assms(2) unfolding engine_kept_def .
  moreover have "private_part ?s ?e = private_part (en_snapshot ?e) ?e"
    by (simp add: snap_finished_progress_def Let_def split: option.split)
  ultimately have s: "private_kept ?s ?e" by (rule private_kept_rest(1))
  have "but_history s2 e2 = but_history ?s ?e"
    using vhis.v_history_completion [of payload ?s ?e] c by simp
  from private_kept_rest(2) [OF s this] have k: "engine_kept (e2\<lparr>en_snapshot := s2\<rparr>)"
    unfolding engine_kept_def by (rule private_kept_rest(1)) simp
  have "publish_outcome (platform_outcome PlaybackCompleted [PauseEffect] (e2\<lparr>en_snapshot := s2\<rparr>))
      (e2\<lparr>en_snapshot := s2\<rparr>) = (outcome, e')"
    using assms(1) c by (simp add: playback_completed_event_def Let_def)
  from publish_kept [OF this k] have "outcome_kept outcome e'" by (simp add: platform_outcome_def)
  then show ?thesis by (simp add: outcome_kept_def)
qed

lemma platform_snapshot_private [simp]:
  "private_part (platform_snapshot event observation st now cdc s) e = private_part s e"
  for s :: engine_snapshot and e :: "'w engine"
proof -
  have "private_part (vehicle_state event s) e = private_part s e" for s :: engine_snapshot
    by (simp add: vehicle_state_def private_part_def part_defs split: platform_event_type.split)
  then show ?thesis
    by (simp add: platform_snapshot_def Let_def split: option.split)
qed

lemma state_event_kept:
  assumes "state_event event observation now e = (outcome, e')" "engine_kept e"
  shows "engine_kept e'"
proof -
  let ?s = "platform_snapshot event observation (platform_next_state (pe_type event) e) now (en_codec e) (en_snapshot e)"
  let ?e1 = "e\<lparr>en_snapshot := ?s\<lparr>sn_controls := derive_controls (en_queue e) ?s\<rparr>\<rparr>"
  let ?e2 = "project_queue (record_listening now (sync_auth_state_projection ?e1))"
  have "private_part (?s\<lparr>sn_controls := c\<rparr>) e = private_part ?s e" for c
    by (simp add: private_part_def part_defs)
  then have "engine_private ?e1 = engine_private e" by (simp add: engine_private_def)
  then have "engine_kept ?e1" using assms(2) by (rule engine_kept_private)
  then have "engine_kept (sync_auth_state_projection ?e1)" unfolding engine_kept_def by (rule sync_kept)
  then have k: "engine_kept ?e2" by (intro engine_kept_private [OF projection_private(2)] record_listening_kept)
  have "publish_outcome (platform_outcome (pe_type event) (platform_transition_effects
      (sn_playback_state (en_snapshot e)) (platform_next_state (pe_type event) e)) ?e2) ?e2 = (outcome, e')"
    using assms(1) by (simp only: state_event_def Let_def)
  from publish_kept [OF this k] have "outcome_kept outcome e'" by (simp add: platform_outcome_def)
  then show ?thesis by (simp add: outcome_kept_def)
qed

text \<open>The ways a platform event is handled: after the clearing of a pending seek, after a source
  refresh, or as a whole.\<close>

lemma platform_event_cases:
  assumes "dispatch_platform_event event now e = Some (outcome, e')"
  obtains e1 e2 where "e1 = e \<or> e1 = e\<lparr>en_pending_seek := None\<rparr>"
    and "e2 = e1 \<or> (\<exists>i. e2 = snd (source_rejected i now e1))"
    and "e' = e \<or> e' = apply_checkpoint (event_observation (en_codec e) event) now e1 \<or> e' = e2 \<or>
      (\<exists>o'. decoder_failed o' now e2 = (outcome, e')) \<or>
      (\<exists>command. dispatch_command command now e2 = Some (outcome, e')) \<or>
      playback_completed_event (pe_payload event) now e2 = (outcome, e') \<or>
      state_event event (event_observation (en_codec e) event) now e2 = (outcome, e')"
proof -
  let ?ty = "pe_type event" and ?o = "event_observation (en_codec e) event"
  define e1 where "e1 = (if ?ty = MediaLoaded then e\<lparr>en_pending_seek := None\<rparr> else e)"
  define kind where "kind = media_error_kind ?ty ?o"
  obtain early e2 where early: "(case ?o of
        Some o' \<Rightarrow> (if kind = Some ''source_rejected''
                    then source_rejected (po_playback_instance_id o') now e1 else (None, e1))
      | None \<Rightarrow> (None, e1)) = (early, e2)" by fastforce
  have e2: "e2 = e1 \<or> (\<exists>i. e2 = snd (source_rejected i now e1))"
    using early by (auto split: option.splits if_splits dest!: arg_cong [where f = snd])
  have "(if stale_observation e ?ty ?o then Some (platform_outcome ?ty [] e, e)
      else if ?ty = PlaybackPositionCheckpoint
      then Some (platform_outcome ?ty [] (apply_checkpoint ?o now e1), apply_checkpoint ?o now e1)
      else case early of
             Some outcome \<Rightarrow> Some (outcome, e2)
           | None \<Rightarrow>
               (case (?o, kind = Some ''decoder_failed'') of
                  (Some o', True) \<Rightarrow> Some (decoder_failed o' now e2)
                | _ \<Rightarrow>
                    (case (?ty, pe_payload event) of
                       (MediaButtonPressed, Some payload) \<Rightarrow>
                         dispatch_command (engine_command_new (command_from_wire payload) None) now e2
                     | (PlaybackCompleted, _) \<Rightarrow> Some (playback_completed_event (pe_payload event) now e2)
                     | _ \<Rightarrow> Some (state_event event ?o now e2)))) = Some (outcome, e')"
    using assms(1) by (simp only: dispatch_platform_event_def Let_def early [unfolded e1_def kind_def] e1_def kind_def prod.case)
  then have "e' = e \<or> e' = apply_checkpoint ?o now e1 \<or> e' = e2 \<or>
      (\<exists>o'. decoder_failed o' now e2 = (outcome, e')) \<or>
      (\<exists>command. dispatch_command command now e2 = Some (outcome, e')) \<or>
      playback_completed_event (pe_payload event) now e2 = (outcome, e') \<or>
      state_event event ?o now e2 = (outcome, e')"
    by (auto split: if_splits option.splits platform_event_type.splits bool.splits)
  with e2 show thesis by (intro that [of e1 e2]) (auto simp: e1_def)
qed

lemma platform_event_kept:
  assumes "dispatch_platform_event event now e = Some (outcome, e')" "engine_kept e"
  shows "engine_kept e'"
proof -
  obtain e1 e2 where e: "e1 = e \<or> e1 = e\<lparr>en_pending_seek := None\<rparr>" "e2 = e1 \<or> (\<exists>i. e2 = snd (source_rejected i now e1))"
    and e': "e' = e \<or> e' = apply_checkpoint (event_observation (en_codec e) event) now e1 \<or> e' = e2 \<or>
      (\<exists>o'. decoder_failed o' now e2 = (outcome, e')) \<or>
      (\<exists>command. dispatch_command command now e2 = Some (outcome, e')) \<or>
      playback_completed_event (pe_payload event) now e2 = (outcome, e') \<or>
      state_event event (event_observation (en_codec e) event) now e2 = (outcome, e')"
    using assms(1) by (rule platform_event_cases)
  have "engine_private e1 = engine_private e" using e(1) by (auto simp: engine_private_def)
  then have e1: "engine_kept e1" using assms(2) by (rule engine_kept_private)
  have "engine_private e2 = engine_private e1" using e(2) source_rejected_private [of _ now e1] by auto
  then have e2: "engine_kept e2" using e1 by (rule engine_kept_private)
  have "engine_kept e'" if "decoder_failed o' now e2 = (outcome, e')" for o'
    using decoder_failed_private [of o' now e2] that e2 by (auto intro: engine_kept_private)
  moreover have "engine_kept e'" if "dispatch_command command now e2 = Some (outcome, e')" for command
    using dispatch_kept [OF that e2] by (simp add: outcome_kept_def)
  ultimately show ?thesis
    using e' assms(2) checkpoint_kept [OF e1] e2 completed_kept [OF _ e2] state_event_kept [OF _ e2] by metis
qed

lemma dispatch_all_kept: "dispatch_all commands now e = Some (outcomes, e') \<Longrightarrow> engine_kept e \<Longrightarrow> engine_kept e'"
proof (induction commands arbitrary: e outcomes)
  case (Cons command commands)
  from Cons.prems(1) obtain outcome e1 rest where "dispatch_command command now e = Some (outcome, e1)"
    "dispatch_all commands now e1 = Some (rest, e')" by (auto split: option.splits)
  then show ?case using dispatch_kept [of command now e] Cons.IH [of e1] Cons.prems(2) by (simp add: outcome_kept_def)
qed simp

lemma tick_kept:
  assumes "tick now e = Some (outcomes, e')" "engine_kept e"
  shows "engine_kept e'"
proof -
  let ?e = "e\<lparr>en_services := snd (services_tick now (en_services e))\<rparr>"
  have "engine_private ?e = engine_private e" by (simp add: engine_private_def)
  then have "engine_kept ?e" using assms(2) by (rule engine_kept_private)
  moreover obtain outs e1 where d: "dispatch_all (fst (services_tick now (en_services e))) now ?e = Some (outs, e1)"
    using assms(1) by (auto simp: tick_def Let_def case_prod_beta split: option.splits)
  ultimately have "engine_kept (record_listening now e1)"
    using dispatch_all_kept record_listening_kept by blast
  moreover have "engine_private (notify_state_changed s f) = engine_private f" for s and f :: "'a engine"
    by (simp add: notify_state_changed_def engine_private_def)
  ultimately show ?thesis
    using assms(1) d by (auto simp: tick_def Let_def case_prod_beta split: if_splits intro: engine_kept_private)
qed

subsection \<open>Runs of the engine\<close>

text \<open>What can happen to an engine: a command, a platform event or a tick is handled to its end; the
  outside world changes between calls (the login with it); an answer is prefetched; the ports, the
  middlewares, the player, the voice engine or the auth provider are installed.\<close>

inductive engine_step :: "'w engine \<Rightarrow> 'w engine \<Rightarrow> bool" where
  command: "dispatch_command command now e = Some (outcome, e') \<Longrightarrow> engine_step e e'"
| platform: "dispatch_platform_event event now e = Some (outcome, e') \<Longrightarrow> engine_step e e'"
| tick: "tick now e = Some (outcomes, e') \<Longrightarrow> engine_step e e'"
| outside: "engine_step e (e\<lparr>en_world := w\<rparr>)"
| prefetch: "engine_step e (e\<lparr>en_prefetched := p\<rparr>)"
| install: "engine_step e (e\<lparr>en_middleware := ms, en_repository := repo, en_player := player,
    en_voice_engine := voice, en_auth_state_provider := provider, en_audio_source_client := client,
    en_playback_port := pp, en_discovery_port := dp, en_history_port := hp, en_library_port := lp,
    en_playlist_port := plp, en_profile_port := prp, en_account_port := ap\<rparr>)"

inductive engine_run :: "'w engine \<Rightarrow> 'w engine \<Rightarrow> bool" where
  start: "engine_run e e"
| step: "engine_run e e' \<Longrightarrow> engine_step e' e'' \<Longrightarrow> engine_run e e''"

lemma engine_step_kept: "engine_step e e' \<Longrightarrow> engine_kept e \<Longrightarrow> engine_kept e'"
proof (induction rule: engine_step.induct)
  case (command c now e outcome e')
  from dispatch_kept [OF this] show ?case by (simp add: outcome_kept_def)
next
  case platform
  then show ?case by (rule platform_event_kept)
next
  case tick
  then show ?case by (rule tick_kept)
next
  case outside
  then show ?case by (rule engine_kept_private [rotated]) (simp add: engine_private_def)
next
  case prefetch
  then show ?case by (rule engine_kept_private [rotated]) (simp add: engine_private_def)
next
  case install
  then show ?case by (rule engine_kept_private [rotated]) (simp add: engine_private_def private_part_def part_defs)
qed

lemma engine_run_kept: "engine_run e e' \<Longrightarrow> engine_kept e \<Longrightarrow> engine_kept e'"
  by (induction rule: engine_run.induct) (auto intro: engine_step_kept)

lemma engine_new_kept: "engine_kept (engine_new cdc lower w now)"
  by (simp add: engine_kept_def private_kept_def account_kept_def profile_kept_def library_kept_def playlist_kept_def)
     (simp add: engine_new_def engine_fields_new_def Let_def)

text \<open>What a snapshot shows of account, profile, library, playlists and feeds is the current
  identity's, and the account and the profile in it name that identity.\<close>

definition shows_own_data :: "'w engine \<Rightarrow> engine_snapshot \<Rightarrow> bool" where
  "shows_own_data e s =
     ((account_empty s \<or> feed_matches (en_account_identity e) (current_identity e)) \<and>
      (profile_empty s \<or> feed_matches (en_profile_identity e) (current_identity e)) \<and>
      (library_empty s \<or> feed_matches (en_library_identity e) (current_identity e)) \<and>
      (playlist_empty s \<or> feed_matches (en_playlist_identity e) (current_identity e)) \<and>
      (feed_empty s \<or> feed_matches (en_feed_identity e) (current_identity e)) \<and>
      (\<forall>a. sn_protected_account s = Some a \<longrightarrow>
         Some (acct_id a) = map_option ai_account_id (current_identity e)) \<and>
      (\<forall>p. sn_profile s = Some p \<longrightarrow>
         Some (prof_external_user_id p) = map_option ai_account_id (current_identity e)))"

lemma projection_own_fields:
  "account_empty (snapshot_projection e) \<longleftrightarrow>
     stale (en_account_identity e) (current_identity e) \<or> account_empty (en_snapshot e)"
  "profile_empty (snapshot_projection e) \<longleftrightarrow>
     stale (en_profile_identity e) (current_identity e) \<or> profile_empty (en_snapshot e)"
  "library_empty (snapshot_projection e) \<longleftrightarrow>
     stale (en_library_identity e) (current_identity e) \<or> library_empty (en_snapshot e)"
  "playlist_empty (snapshot_projection e) \<longleftrightarrow>
     stale (en_playlist_identity e) (current_identity e) \<or> playlist_empty (en_snapshot e)"
  "feed_empty (snapshot_projection e) \<longleftrightarrow>
     \<not> feed_matches (en_feed_identity e) (current_identity e) \<or> feed_empty (en_snapshot e)"
  by (simp_all add: snapshot_projection_clear_if Let_def clear_if_drops)

lemma clear_account_fields [simp]:
  "sn_protected_account (clear_if b clear_feed_projection s) = sn_protected_account s"
  "sn_protected_account (clear_if b clear_profile_projection s) = sn_protected_account s"
  "sn_protected_account (clear_if b clear_history_projection s) = sn_protected_account s"
  "sn_protected_account (clear_if b clear_library_projection s) = sn_protected_account s"
  "sn_protected_account (clear_if b clear_playlist_projection s) = sn_protected_account s"
  "sn_protected_account (clear_if b clear_account_projection s) = (if b then None else sn_protected_account s)"
  "sn_profile (clear_if b clear_feed_projection s) = sn_profile s"
  "sn_profile (clear_if b clear_account_projection s) = sn_profile s"
  "sn_profile (clear_if b clear_history_projection s) = sn_profile s"
  "sn_profile (clear_if b clear_library_projection s) = sn_profile s"
  "sn_profile (clear_if b clear_playlist_projection s) = sn_profile s"
  "sn_profile (clear_if b clear_profile_projection s) = (if b then None else sn_profile s)"
  by (simp_all add: clear_if_def clear_defs Let_def)

lemma projection_person:
  "sn_protected_account (snapshot_projection e) =
     (if stale (en_account_identity e) (current_identity e) then None else sn_protected_account (en_snapshot e))"
  "sn_profile (snapshot_projection e) =
     (if stale (en_profile_identity e) (current_identity e) then None else sn_profile (en_snapshot e))"
  by (simp_all add: snapshot_projection_clear_if Let_def) (simp_all add: apply_queue_projection_def)

lemma kept_shows_own:
  assumes "engine_kept e"
  shows "shows_own_data e (snapshot_projection e)"
proof -
  have k: "account_kept (en_snapshot e) e" "profile_kept (en_snapshot e) e" "library_kept (en_snapshot e) e"
    "playlist_kept (en_snapshot e) e"
    using assms by (simp_all only: engine_kept_def private_kept_def)
  have fresh: "stale own cur \<or> own = None \<or> feed_matches own cur" for own cur :: "auth_identity option"
    by (auto simp: stale_def feed_matches_def)
  have "account_empty (snapshot_projection e) \<or> feed_matches (en_account_identity e) (current_identity e)"
    using fresh [of "en_account_identity e"] k(1) by (auto simp: projection_own_fields account_kept_def)
  moreover have "profile_empty (snapshot_projection e) \<or> feed_matches (en_profile_identity e) (current_identity e)"
    using fresh [of "en_profile_identity e"] k(2) by (auto simp: projection_own_fields profile_kept_def)
  moreover have "library_empty (snapshot_projection e) \<or> feed_matches (en_library_identity e) (current_identity e)"
    using fresh [of "en_library_identity e"] k(3) by (auto simp: projection_own_fields library_kept_def split: option.splits)
  moreover have "playlist_empty (snapshot_projection e) \<or> feed_matches (en_playlist_identity e) (current_identity e)"
    using fresh [of "en_playlist_identity e"] k(4) by (auto simp: projection_own_fields playlist_kept_def split: option.splits)
  moreover have "Some (acct_id a) = map_option ai_account_id (current_identity e)"
    if "sn_protected_account (snapshot_projection e) = Some a" for a
    using that k(1) by (cases "en_account_identity e")
      (auto simp: projection_person account_kept_def account_empty_def not_stale_iff split: if_splits)
  moreover have "Some (prof_external_user_id p) = map_option ai_account_id (current_identity e)"
    if "sn_profile (snapshot_projection e) = Some p" for p
    using that k(2) by (cases "en_profile_identity e")
      (auto simp: projection_person profile_kept_def profile_empty_def not_stale_iff split: if_splits)
  ultimately show ?thesis
    by (simp add: shows_own_data_def projection_own_fields(5))
qed

text \<open>C1: in every state an engine reaches from its construction, over any commands, platform events,
  ticks, logins, logouts, account switches in the middle of calls and any answers of the ports,
  \<open>snapshot()\<close> shows no account, profile, library, playlist or feed data but the current identity's, and
  the account and the profile shown carry its account id.\<close>

theorem reachable_snapshots_are_private:
  assumes "engine_run (engine_new cdc lower w now) e"
  shows "shows_own_data e (snapshot_projection e)"
  by (rule kept_shows_own [OF engine_run_kept [OF assms engine_new_kept]])

text \<open>An engine whose world is the auth state; it loads the account and then the login is gone.\<close>

definition account_engine :: "auth_state engine" where
  "account_engine = (engine_new null_codec id logged_in 7)
     \<lparr>en_auth_state_provider := Some id, en_account_port := Some (fixed_account_port sample_account)\<rparr>"

theorem reachable_snapshots_are_private_witness:
  "\<exists>outcome e. dispatch_command (engine_command_new GetAccount None) 9 account_engine = Some (outcome, e) \<and>
     shows_own_data (e\<lparr>en_world := Anonymous\<rparr>) (snapshot_projection (e\<lparr>en_world := Anonymous\<rparr>))"
proof -
  have "en_prefetched account_engine = None"
    by (simp add: account_engine_def engine_new_def engine_fields_new_def Let_def)
  then obtain outcome e where d: "dispatch_command (engine_command_new GetAccount None) 9 account_engine = Some (outcome, e)"
    using plain_command_returns [of "engine_command_new GetAccount None" account_engine 9]
    by (auto simp: engine_command_new_def)
  let ?new = "engine_new null_codec id logged_in 7"
  have "account_engine = ?new\<lparr>en_middleware := en_middleware ?new, en_repository := en_repository ?new,
      en_player := en_player ?new, en_voice_engine := en_voice_engine ?new, en_auth_state_provider := Some id,
      en_audio_source_client := en_audio_source_client ?new, en_playback_port := en_playback_port ?new,
      en_discovery_port := en_discovery_port ?new, en_history_port := en_history_port ?new,
      en_library_port := en_library_port ?new, en_playlist_port := en_playlist_port ?new,
      en_profile_port := en_profile_port ?new, en_account_port := en_account_port account_engine\<rparr>"
    by (simp add: account_engine_def)
  then have "engine_run ?new account_engine"
    using engine_run.step [OF engine_run.start engine_step.install] by metis
  from engine_run.step [OF engine_run.step [OF this engine_step.command [OF d]] engine_step.outside]
  have "engine_run ?new (e\<lparr>en_world := Anonymous\<rparr>)" .
  from reachable_snapshots_are_private [OF this] d show ?thesis by blast
qed

end
