(* ===== verification/Leaks.thy ===== *)
theory Leaks
  imports Ownership
begin

text \<open>
  Two ways in which the engine does show private data to somebody else: a snapshot restored from
  persistence, which comes back without owners, and the history list after a login that ended in
  the middle of a command.
\<close>

subsection \<open>Restoring\<close>

text \<open>The protected lists of a snapshot.\<close>

definition protected_lists where
  "protected_lists s =
     (sn_protected_account s, sn_device_sessions s, sn_profile s, sn_history_entries s, sn_saved_tracks s,
      sn_liked_tracks s, sn_playlists s, sn_playlist_tracks s)"

definition unowned :: "'w engine \<Rightarrow> bool" where
  "unowned e = (en_account_identity e = None \<and> en_profile_identity e = None \<and> en_history_owner e = None \<and>
     en_library_identity e = None \<and> en_playlist_identity e = None)"

lemma unowned_shown: "unowned e \<Longrightarrow> protected_lists (snapshot_projection e) = protected_lists (en_snapshot e)"
proof -
  have feed: "protected_lists (clear_if b clear_feed_projection s) = protected_lists s" for b and s :: engine_snapshot
    by (simp add: clear_if_def clear_defs protected_lists_def Let_def)
  assume "unowned e"
  then have "snapshot_projection e = clear_if (\<not> feed_matches (en_feed_identity e) (current_identity e)) clear_feed_projection
      ((apply_queue_projection (en_queue e) (en_snapshot e))\<lparr>sn_auth_state := current_auth e\<rparr>)"
    by (simp add: snapshot_projection_clear_if unowned_def stale_def stale_owner_def Let_def clear_if_def)
  then show ?thesis by (simp add: feed) (simp add: protected_lists_def apply_queue_projection_def)
qed

definition restore_fields where
  "restore_fields (e :: 'w engine) =
     (unowned e, protected_lists (en_snapshot e), en_auth_state_provider e, en_world e)"

lemma restore_step_fields:
  "restore_fields (refresh_controls e) = restore_fields e"
  "restore_fields (execute_effects effects e) = restore_fields e"
  "restore_fields (on_engine_snapshot (set_playback_state st) e) = restore_fields e"
  by (simp_all add: restore_fields_def unowned_def protected_lists_def refresh_controls_def execute_effects_def
      apply_queue_projection_def on_engine_snapshot_def set_playback_state_def Let_def split: option.split)

lemma restore_frame:
  assumes "per_load (en_persistence e) (en_world e) = Inr (Some state)" "restore e = (r, e')"
  shows "r = Inr True" "unowned e' = unowned e" "protected_lists (en_snapshot e') = protected_lists (pst_snapshot state)"
    and "en_auth_state_provider e' = en_auth_state_provider e" "en_world e' = en_world e"
proof -
  have e': "restore_fields e' =
      restore_fields (e\<lparr>en_snapshot := pst_snapshot state, en_queue := pst_queue state\<rparr>)" and r: "r = Inr True"
    using assms by (auto simp: restore_def Let_def restore_step_fields split: if_split_asm)
  show "r = Inr True" by (rule r)
  show "unowned e' = unowned e" "protected_lists (en_snapshot e') = protected_lists (pst_snapshot state)"
    "en_auth_state_provider e' = en_auth_state_provider e" "en_world e' = en_world e"
    using e' by (simp_all add: restore_fields_def unowned_def)
qed

text \<open>A restored snapshot is nobody's, so everybody sees it. An engine without owners, as a new one,
  that restores a persisted state shows every account, session, profile, history, library and
  playlist item in it, whoever is logged in then or at any later moment before the next command.\<close>

lemma restored_private_data_is_shown:
  assumes "per_load (en_persistence e) (en_world e) = Inr (Some state)" "unowned e"
  shows "\<exists>e'. restore e = (Inr True, e') \<and>
    protected_lists (snapshot_projection (e'\<lparr>en_world := w\<rparr>)) = protected_lists (pst_snapshot state)"
proof -
  obtain r e' where r: "restore e = (r, e')" by (cases "restore e")
  note f = restore_frame [OF assms(1) r]
  have "unowned (e'\<lparr>en_world := w\<rparr>)" using f(2) assms(2) by (simp add: unowned_def)
  from unowned_shown [OF this] f r show ?thesis by simp
qed

text \<open>The account of a previous session, shown to an anonymous user.\<close>

definition kept_state :: persistent_state where
  "kept_state = \<lparr>pst_snapshot = snapshot_default\<lparr>sn_protected_account := Some sample_account\<rparr>, pst_queue = queue_default\<rparr>"

definition restoring_engine :: "unit engine" where
  "restoring_engine = (engine_new null_codec id () 7)
     \<lparr>en_persistence := \<lparr>per_save = (\<lambda>_ w. (Inr (), w)), per_load = (\<lambda>_. Inr (Some kept_state))\<rparr>\<rparr>"

lemma restored_private_data_is_shown_witness:
  "\<exists>e'. restore restoring_engine = (Inr True, e') \<and> current_auth e' = Anonymous \<and>
     sn_protected_account (snapshot_projection e') = Some sample_account"
proof -
  have load: "per_load (en_persistence restoring_engine) (en_world restoring_engine) = Inr (Some kept_state)"
    and own: "unowned restoring_engine"
    by (simp_all add: restoring_engine_def unowned_def)
  obtain e' where e': "restore restoring_engine = (Inr True, e')"
    and s: "protected_lists (snapshot_projection (e'\<lparr>en_world := ()\<rparr>)) = protected_lists (pst_snapshot kept_state)"
    using restored_private_data_is_shown [OF load own] by blast
  have "current_auth e' = Anonymous"
    using restore_frame(4) [OF load e'] by (simp add: current_auth_def restoring_engine_def)
  moreover have "e'\<lparr>en_world := ()\<rparr> = e'" by (cases e') simp
  then have "snapshot_projection (e'\<lparr>en_world := ()\<rparr>) = snapshot_projection e'" by (rule arg_cong)
  ultimately show ?thesis using e' s unfolding protected_lists_def prod.inject by (simp add: kept_state_def)
qed

subsection \<open>History after a lost login\<close>

text \<open>Recording for nobody puts the listen in front of whatever list is there, and claims it.\<close>

definition joined_by :: "history_entry \<Rightarrow> history_entry list \<Rightarrow> history_entry list" where
  "joined_by entry es = take (unat MAX_HISTORY_PAGE_SIZE) (entry # filter (\<lambda>x. he_id x \<noteq> he_id entry) es)"

text \<open>The live login, which nothing but an awaited call changes.\<close>

definition login where
  "login e = (en_world e, en_auth_state_provider (e :: 'w engine))"

lemma login_auth: "login e' = login e \<Longrightarrow> current_auth e' = current_auth e"
  by (simp add: login_def current_auth_def cong: option.case_cong)

lemma publish_login: "publish_outcome outcome e = (outcome', e') \<Longrightarrow> login e' = login e"
proof -
  have m: "middleware_after m outcome e = (m', outcome', e') \<Longrightarrow> login e' = login e" for m outcome e m' outcome' e'
    by (cases m)
       (auto simp: recover_network_error_def analyse_outcome_def report_def notify_event_emitted_def
          notify_state_changed_def login_def Let_def split: option.splits if_splits prod.splits)
  have r: "run_after ms outcome e = (ms', outcome', e') \<Longrightarrow> login e' = login e" for ms outcome e ms' outcome' e'
  proof (induction ms arbitrary: outcome e ms' outcome' e')
    case (Cons x xs)
    obtain x1 o1 e1 where x: "middleware_after x outcome e = (x1, o1, e1)" by (cases "middleware_after x outcome e")
    obtain xs2 o2 e2 where xs: "run_after xs o1 e1 = (xs2, o2, e2)" by (cases "run_after xs o1 e1")
    show ?case using m [OF x] Cons.IH [OF xs] Cons.prems by (simp add: x xs)
  qed simp
  have "login (execute_effects effects e) = login e" "login (e\<lparr>en_middleware := ms\<rparr>) = login e" for effects ms and e :: "'a engine"
    by (simp_all add: login_def execute_effects_def split: option.split)
  then show "publish_outcome outcome e = (outcome', e') \<Longrightarrow> login e' = login e"
    by (auto simp: publish_outcome_def after_dispatch_def Let_def dest!: r split: prod.splits)
qed

lemma anonymous_record_claims:
  assumes "auth_identity_from_state (sn_auth_state s) = None" "ah_enabled (en_anonymous_history e)"
    and "record_history_listen rec s e = (s', e')"
  shows "en_history_owner e' = Some OwnerAnonymous" "sn_auth_state s' = sn_auth_state s"
    and "\<exists>entry. sn_history_entries s' = joined_by entry (sn_history_entries s)" "login e' = login e"
  using assms
  by (auto simp: login_def record_history_listen_def record_anonymous_listen_def record_anonymous_history_event_def
      publish_history_entry_def claim_history_def bump_history_generation_def set_history_available_def joined_by_def
      Let_def split: if_splits)

lemma auto_record_claims:
  assumes "auth_identity_from_state (sn_auth_state s) = None" "ah_enabled (en_anonymous_history e)"
    and "visible (sn_media_id s) = Some track"
    and "e1 = sync_history_listen_tracker now (sn_playback_state s) e"
    and "\<not> instance_recorded e1" "5000 \<le> elapsed_millis (en_history_listen e1) now"
    and "maybe_auto_record_history now s e = (s', e')"
  shows "en_history_owner e' = Some OwnerAnonymous" "sn_auth_state s' = sn_auth_state s"
    and "\<exists>entry. sn_history_entries s' = joined_by entry (sn_history_entries s)" "login e' = login e"
proof -
  let ?s = "s\<lparr>sn_updated_at := max (sn_updated_at s) now\<rparr>"
  let ?elapsed = "elapsed_millis (en_history_listen e1) now"
  obtain rec where rec: "listened_record track ?elapsed ?s = Ok rec"
    using listened_record_ok [OF visible_not_blank [OF assms(3)], of ?elapsed ?s] by blast
  obtain s2 e2 where r: "record_history_listen rec ?s (set_recorded_instance (en_current_instance e1) e1) = (s2, e2)"
    by (cases "record_history_listen rec ?s (set_recorded_instance (en_current_instance e1) e1)")
  have "\<not> (instance_recorded e1 \<or> ?elapsed < HISTORY_AUTO_RECORD_THRESHOLD_MILLIS)"
    using assms(5,6) by (simp add: HISTORY_AUTO_RECORD_THRESHOLD_MILLIS_def not_less)
  then have m: "record_once rec ?s e1 = (s', e')"
    using assms(7) assms(3) rec unfolding maybe_auto_record_history_def Let_def assms(4) [symmetric]
    by (simp del: de_Morgan_disj)
  then have "s' = s2 \<and> (e' = set_recorded_instance None e2 \<or> e' = e2)"
    by (auto simp: record_once_def r split: if_splits)
  then have eq: "s' = s2" "en_history_owner e' = en_history_owner e2" "login e' = login e2"
    by (auto simp: set_recorded_instance_def login_def)
  have "login (set_recorded_instance (en_current_instance e1) e1) = login e"
    by (simp add: assms(4) login_def set_recorded_instance_def sync_history_listen_tracker_def Let_def)
  have "ah_enabled (en_anonymous_history (set_recorded_instance (en_current_instance e1) e1))"
    "auth_identity_from_state (sn_auth_state ?s) = None"
    using assms(1,2) by (simp_all add: set_recorded_instance_def assms(4))
  note c = anonymous_record_claims [OF this(2,1) r]
  with \<open>login _ = login e\<close> eq show "login e' = login e" by simp
  from c eq show "en_history_owner e' = Some OwnerAnonymous" "sn_auth_state s' = sn_auth_state s"
    "\<exists>entry. sn_history_entries s' = joined_by entry (sn_history_entries s)" by simp_all
qed

text \<open>The closing steps of a command that found the login gone.\<close>

definition listened :: "u64 \<Rightarrow> engine_snapshot \<Rightarrow> 'w engine \<Rightarrow> bool" where
  "listened now s e =
     (sn_playback_state s = Playing \<and> visible (sn_media_id s) \<noteq> None \<and> ah_enabled (en_anonymous_history e) \<and>
      \<not> instance_recorded (sync_history_listen_tracker now Playing e) \<and>
      5000 \<le> elapsed_millis (en_history_listen (sync_history_listen_tracker now Playing e)) now)"

lemma listened_cong:
  assumes "en_history_listen e' = en_history_listen e" "en_anonymous_history e' = en_anonymous_history e"
    and "en_current_instance e' = en_current_instance e" "sn_playback_state s' = sn_playback_state s"
    and "sn_media_id s' = sn_media_id s"
  shows "listened now s' e' = listened now s e"
proof -
  have "en_history_listen (sync_history_listen_tracker now Playing e') = en_history_listen (sync_history_listen_tracker now Playing e)"
    by (simp add: sync_history_listen_tracker_def assms Let_def)
  then show ?thesis by (simp add: listened_def instance_recorded_def assms)
qed

lemma projection_history [simp]:
  "history_part (en_snapshot (project_queue e)) (project_queue e) = history_part (en_snapshot e) e"
  by (simp add: history_part_def project_queue_def apply_queue_projection_def)

lemma private_history: "engine_private e' = engine_private e \<Longrightarrow>
    sn_history_entries (en_snapshot e') = sn_history_entries (en_snapshot e) \<and> en_history_owner e' = en_history_owner e"
  by (simp add: engine_private_def private_part_def history_part_def)

lemma finish_command_claims:
  assumes "finish_command command now Playing t e = (outcome, e')"
    and "auth_identity_from_state (sn_auth_state (ct_snapshot t)) = None" "listened now (ct_snapshot t) e"
  shows "en_history_owner e' = Some OwnerAnonymous"
    and "\<exists>entry. sn_history_entries (en_snapshot e') = joined_by entry (sn_history_entries (ct_snapshot t))"
    and "login e' = login e"
proof -
  let ?e1 = "refresh_controls (e\<lparr>en_snapshot := note_backend_failure (ct_snapshot t)\<rparr>)"
  obtain s2 e2 where r: "maybe_auto_record_history now (en_snapshot ?e1) ?e1 = (s2, e2)"
    by (cases "maybe_auto_record_history now (en_snapshot ?e1) ?e1")
  have s: "sn_auth_state (en_snapshot ?e1) = sn_auth_state (ct_snapshot t)"
    "sn_playback_state (en_snapshot ?e1) = sn_playback_state (ct_snapshot t)"
    "sn_media_id (en_snapshot ?e1) = sn_media_id (ct_snapshot t)"
    "sn_history_entries (en_snapshot ?e1) = sn_history_entries (ct_snapshot t)"
    by (simp_all add: refresh_controls_def apply_queue_projection_def note_backend_failure_def Let_def split: option.split)
  have e: "en_anonymous_history ?e1 = en_anonymous_history e" "en_history_listen ?e1 = en_history_listen e"
    "en_current_instance ?e1 = en_current_instance e"
    by (simp_all add: refresh_controls_def Let_def)
  have h: "en_history_listen (sync_history_listen_tracker now Playing ?e1) = en_history_listen (sync_history_listen_tracker now Playing e)"
    by (simp add: sync_history_listen_tracker_def e Let_def)
  obtain track where track: "visible (sn_media_id (en_snapshot ?e1)) = Some track"
    using assms(3) s(3) by (auto simp: listened_def)
  have l: "\<not> instance_recorded (sync_history_listen_tracker now Playing ?e1)"
    "5000 \<le> elapsed_millis (en_history_listen (sync_history_listen_tracker now Playing ?e1)) now"
    "ah_enabled (en_anonymous_history ?e1)" "sn_playback_state (en_snapshot ?e1) = Playing"
    using assms(3) s(2) by (simp_all add: listened_def instance_recorded_def h e)
  have "auth_identity_from_state (sn_auth_state (en_snapshot ?e1)) = None" using assms(2) s(1) by simp
  note claims = auto_record_claims [OF this l(3) track refl, unfolded l(4), OF l(1,2) r]
  have "record_listening now ?e1 = e2\<lparr>en_snapshot := s2\<rparr>" by (simp add: record_listening_def r)
  then obtain o1 where p: "publish_outcome o1 (project_queue (e2\<lparr>en_snapshot := s2\<rparr>)) = (outcome, e')"
    using assms(1) by (simp only: finish_command_def Let_def simp_thms if_True)
  have "login (project_queue (e2\<lparr>en_snapshot := s2\<rparr>)) = login e2" "login ?e1 = login e"
    by (simp_all add: login_def project_queue_def refresh_controls_def Let_def)
  with publish_login [OF p] claims(4) show "login e' = login e" by simp
  from private_history [OF publish_private(1) [OF p]] projection_history [of "e2\<lparr>en_snapshot := s2\<rparr>"]
  have "en_history_owner e' = en_history_owner e2" "sn_history_entries (en_snapshot e') = sn_history_entries s2"
    by (simp_all add: history_part_def)
  with claims s(4) show "en_history_owner e' = Some OwnerAnonymous"
    "\<exists>entry. sn_history_entries (en_snapshot e') = joined_by entry (sn_history_entries (ct_snapshot t))" by simp_all
qed

subsection \<open>From end to end\<close>

lemma account_lost:
  assumes "auth_identity_from_state (sn_auth_state s) = Some i" "en_account_port e = Some port" "en_prefetched e = None"
    and "ap_get_account port i (en_world e) = (r, w)" "current_identity (e\<lparr>en_world := w\<rparr>) = None"
  shows "dispatch_account_command GetAccount s e =
    (set_account_error account_login_required
       (clear_account_projection (s\<lparr>sn_auth_state := current_auth (e\<lparr>en_world := w\<rparr>)\<rparr>)),
     forget_account (e\<lparr>en_world := w\<rparr>))"
  using assms
  by (simp add: dispatch_account_command.simps get_account_def account_context_def prefetched_or_def take_prefetched_def
      acc.guard_changed finish_account_def)

lemma sync_own_history:
  assumes "en_history_owner e = Some (history_owner_current (current_auth e))"
  shows "sn_history_entries (en_snapshot (sync_auth_state_projection e)) = sn_history_entries (en_snapshot e)"
  using assms
  by (simp add: sync_auth_state_projection_def sync_step_defs clear_defs stale_owner_def matches_auth_state_iff Let_def)

definition listen_fields where
  "listen_fields e = (en_history_listen e, en_anonymous_history e, en_current_instance (e :: 'w engine),
     en_account_port e, sn_media_id (en_snapshot e))"

lemma sync_step_listen:
  "listen_fields (sync_feed e) = listen_fields e" "listen_fields (sync_account e) = listen_fields e"
  "listen_fields (sync_profile e) = listen_fields e" "listen_fields (sync_history e) = listen_fields e"
  "listen_fields (sync_library e) = listen_fields e" "listen_fields (sync_playlist e) = listen_fields e"
  by (simp_all add: listen_fields_def sync_step_defs clear_defs Let_def)

lemma sync_listen:
  "en_history_listen (sync_auth_state_projection e) = en_history_listen e"
  "en_anonymous_history (sync_auth_state_projection e) = en_anonymous_history e"
  "en_current_instance (sync_auth_state_projection e) = en_current_instance e"
  "en_account_port (sync_auth_state_projection e) = en_account_port e"
  "sn_media_id (en_snapshot (sync_auth_state_projection e)) = sn_media_id (en_snapshot e)"
proof -
  have "listen_fields (sync_auth_state_projection e) =
      listen_fields (e\<lparr>en_snapshot := (en_snapshot e)\<lparr>sn_auth_state := current_auth e\<rparr>\<rparr>)"
    by (simp add: sync_auth_state_projection_def sync_step_listen)
  then show "en_history_listen (sync_auth_state_projection e) = en_history_listen e"
    "en_anonymous_history (sync_auth_state_projection e) = en_anonymous_history e"
    "en_current_instance (sync_auth_state_projection e) = en_current_instance e"
    "en_account_port (sync_auth_state_projection e) = en_account_port e"
    "sn_media_id (en_snapshot (sync_auth_state_projection e)) = sn_media_id (en_snapshot e)"
    by (simp_all add: listen_fields_def)
qed

text \<open>C36: a login that ends during a command hands the history on. While an account's listen of five
  seconds is playing, its history list is loaded and the command awaits the account service, the
  login ends. The command closes the listen for nobody: the new entry joins the account's list, which now
  belongs to the anonymous user, and \<open>snapshot()\<close> shows it to whoever uses the device.\<close>

theorem history_changes_hands:
  assumes "fst (before_dispatch (engine_command_new GetAccount None) e) = None"
    and "current_identity e = Some i" "en_history_owner e = Some (OwnerAuthenticated i)"
    and "en_account_port e = Some port" "en_prefetched e = None"
    and "ap_get_account port i (en_world e) = (r, w)" "current_identity (e\<lparr>en_world := w\<rparr>) = None"
    and "listened now (en_snapshot e) e"
  shows "\<exists>outcome e' entry. dispatch_command (engine_command_new GetAccount None) now e = Some (outcome, e') \<and>
    current_identity e' = None \<and>
    sn_history_entries (snapshot_projection e') = joined_by entry (sn_history_entries (en_snapshot e))"
proof -
  let ?c = "engine_command_new GetAccount None"
  have ty: "command_type ?c = GetAccount" by (simp add: engine_command_new_def)
  obtain e1 where b: "before_dispatch ?c e = (None, e1)" using assms(1) by (cases "before_dispatch ?c e") simp
  obtain bus ms where e1: "e1 = e\<lparr>en_bus := bus, en_middleware := ms\<rparr>" using before_dispatch_bus [OF b] by blast
  define e2 where "e2 = sync_auth_state_projection e1"
  have auth1: "current_auth e1 = current_auth e" by (simp add: e1 current_auth_def cong: option.case_cong)
  have own: "history_owner_current (current_auth e) = OwnerAuthenticated i"
    using assms(2) by (simp add: history_owner_current_def current_identity_def)
  have e2: "en_world e2 = en_world e" "en_auth_state_provider e2 = en_auth_state_provider e" "en_prefetched e2 = None"
    "en_account_port e2 = Some port" "en_history_listen e2 = en_history_listen e"
    "en_anonymous_history e2 = en_anonymous_history e" "en_current_instance e2 = en_current_instance e"
    "sn_media_id (en_snapshot e2) = sn_media_id (en_snapshot e)"
    "sn_playback_state (en_snapshot e2) = Playing" "sn_auth_state (en_snapshot e2) = current_auth e"
    "sn_history_entries (en_snapshot e2) = sn_history_entries (en_snapshot e)"
    using assms(4,5,8) sync_own_history [of e1] assms(3) own auth1
    by (simp_all add: e2_def sync_listen listened_def) (simp_all add: e1)
  define t where "t = open_turn GetAccount now (en_snapshot e2)"
  have s: "sn_auth_state (ct_snapshot t) = current_auth e" "sn_playback_state (ct_snapshot t) = Playing"
    "sn_media_id (ct_snapshot t) = sn_media_id (en_snapshot e)"
    "sn_history_entries (ct_snapshot t) = sn_history_entries (en_snapshot e)"
    using e2 by (simp_all add: t_def open_turn_def opening_snapshot_def with_defs next_state_from_command_def Let_def)
  let ?w = "e2\<lparr>en_world := w\<rparr>"
  have gone: "current_identity ?w = None"
    using assms(7) e2(2) by (simp add: current_identity_def current_auth_def cong: option.case_cong)
  define s3 where "s3 = set_account_error account_login_required
      (clear_account_projection ((ct_snapshot t)\<lparr>sn_auth_state := current_auth ?w\<rparr>))"
  define e3 where "e3 = forget_account ?w"
  have "auth_identity_from_state (sn_auth_state (ct_snapshot t)) = Some i"
    using assms(2) s(1) by (simp add: current_identity_def)
  then have a: "dispatch_account_command GetAccount (ct_snapshot t) e2 = (s3, e3)"
    using account_lost [of "ct_snapshot t" i e2 port r w] e2 assms(6) gone by (simp add: s3_def e3_def)
  let ?t = "t\<lparr>ct_snapshot := s3\<rparr>"
  obtain outcome e' where f: "finish_command GetAccount now Playing ?t e3 = (outcome, e')"
    by (cases "finish_command GetAccount now Playing ?t e3")
  have i: "intend_playback GetAccount e2 = e2" by (simp add: intend_playback_def)
  have d: "dispatch_command ?c now e = Some (outcome, e')"
    by (subst dispatch_command.simps)
       (simp add: b ty e2_def [symmetric] i t_def [symmetric] run_arm_def put_snapshot_def a e2(9) f Let_def)
  have s3: "auth_identity_from_state (sn_auth_state s3) = None" "sn_history_entries s3 = sn_history_entries (en_snapshot e)"
    "sn_playback_state s3 = Playing" "sn_media_id s3 = sn_media_id (en_snapshot e)"
    using gone s by (simp_all add: s3_def set_account_error_def current_identity_def clear_account_projection_def)
  have "listened now s3 e3 = listened now (en_snapshot e) e"
    by (rule listened_cong) (use s3 e2 assms(8) in \<open>simp_all add: e3_def forget_account_def listened_def\<close>)
  then have l: "listened now (ct_snapshot ?t) e3" using assms(8) by simp
  have "auth_identity_from_state (sn_auth_state (ct_snapshot ?t)) = None" using s3(1) by simp
  note claims = finish_command_claims [OF f this l]
  have "login e3 = login ?w" by (simp add: e3_def forget_account_def login_def)
  with claims(3) gone have id: "current_identity e' = None"
    using login_auth [of e' ?w] by (simp add: current_identity_def)
  then have "\<not> stale_owner (en_history_owner e') (current_auth e')"
    by (simp add: claims(1) stale_owner_def matches_auth_state_iff history_owner_current_def current_identity_def)
  then have "sn_history_entries (snapshot_projection e') = sn_history_entries (en_snapshot e')"
    by (simp add: snapshot_projection_clear_if clear_if_def clear_defs apply_queue_projection_def Let_def)
  moreover obtain entry where "sn_history_entries (en_snapshot e') = joined_by entry (sn_history_entries (en_snapshot e))"
    using claims(2) s3(2) by auto
  ultimately show ?thesis using d id by auto
qed

text \<open>The account service answers the engine while the session is closed elsewhere.\<close>

definition leaving_port :: "auth_state account_port" where
  "leaving_port = (fixed_account_port sample_account)\<lparr>ap_get_account := (\<lambda>_ w. (Ok sample_account, Anonymous))\<rparr>"

definition leaving_engine :: "auth_state engine" where
  "leaving_engine = (engine_new null_codec id logged_in 0)
     \<lparr>en_auth_state_provider := Some id, en_account_port := Some leaving_port,
      en_history_owner := Some (OwnerAuthenticated sample_identity), en_current_instance := Some 1,
      en_history_listen := history_listen_default\<lparr>hl_playback_instance_id := Some 1, hl_playing_since := Some 0\<rparr>,
      en_snapshot := listening_snapshot\<lparr>sn_auth_state := logged_in, sn_history_entries := [sample_entry ''private'']\<rparr>\<rparr>"

theorem history_changes_hands_witness:
  "\<exists>outcome e' entry. dispatch_command (engine_command_new GetAccount None) 5000 leaving_engine = Some (outcome, e') \<and>
     current_identity e' = None \<and>
     sn_history_entries (snapshot_projection e') = joined_by entry [sample_entry ''private'']"
proof -
  have mw: "en_middleware leaving_engine = []"
    by (simp add: leaving_engine_def engine_new_def engine_fields_new_def Let_def)
  have fields: "en_prefetched leaving_engine = None" "ah_enabled (en_anonymous_history leaving_engine)"
    by (simp_all add: leaving_engine_def engine_new_def engine_fields_new_def anonymous_history_new_def Let_def)
  have v: "visible (Some ''t'') = Some ''t''"
    by (simp add: visible_def blank_leading_visible)
  have h: "en_history_listen (sync_history_listen_tracker 5000 Playing leaving_engine) =
      history_listen_default\<lparr>hl_playback_instance_id := Some 1, hl_playing_since := Some 0\<rparr>"
    by (simp add: sync_history_listen_tracker_def leaving_engine_def Let_def)
  have l: "listened 5000 (en_snapshot leaving_engine) leaving_engine"
    using fields(2)
    by (simp add: listened_def instance_recorded_def h elapsed_millis_def history_listen_default_def sat_add_def sat_sub_def)
       (simp add: leaving_engine_def v)
  have "fst (before_dispatch (engine_command_new GetAccount None) leaving_engine) = None"
    by (simp add: before_dispatch_def mw)
  moreover have "en_world leaving_engine = logged_in"
    by (simp add: leaving_engine_def engine_new_def engine_fields_new_def Let_def)
  then have "current_identity leaving_engine = Some sample_identity"
    by (simp add: current_identity_def current_auth_def) (simp add: leaving_engine_def)
  moreover have "en_history_owner leaving_engine = Some (OwnerAuthenticated sample_identity)"
    "en_account_port leaving_engine = Some leaving_port"
    "sn_history_entries (en_snapshot leaving_engine) = [sample_entry ''private'']"
    by (simp_all add: leaving_engine_def)
  moreover have "ap_get_account leaving_port sample_identity w = (Ok sample_account, Anonymous)" for w
    by (simp add: leaving_port_def)
  moreover have "current_identity (leaving_engine\<lparr>en_world := Anonymous\<rparr>) = None"
    by (simp add: current_identity_def current_auth_def leaving_engine_def auth_identity_from_state_def)
  ultimately show ?thesis
    using history_changes_hands [of leaving_engine sample_identity leaving_port "Ok sample_account" Anonymous 5000] l fields(1)
    by simp
qed

end
