(* ===== verification/Session.thy ===== *)
theory Session
  imports Model
begin

text \<open>
  The session coordinator of the Canopy adapter (\<open>networking/canopy/session.rs\<close>) with its two ports,
  the session store (\<open>data/session_store.rs\<close>) and the authentication port
  (\<open>networking/auth_port.rs\<close>). The coordinator owns two atomics: the flag \<open>invalidated\<close> and the
  generation, which every change of the stored session advances. Its operations run one at a time
  under the rotation lock, so each is a function from a coordinator to its result and the next
  coordinator; a port call threads the outside world. \<open>auth_state\<close> and
  \<open>current_access_snapshot\<close> do not take the lock and are single steps here. \<open>EngineHistoryIdentity\<close> has the fields of
  \<open>auth_identity\<close> and is that type here.
\<close>

subsection \<open>The stored session\<close>

record envelope =
  ev_access_token :: string
  ev_access_token_expires_at :: u64
  ev_refresh_token :: string
  ev_refresh_token_expires_at :: u64
  ev_account :: account
  ev_session :: auth_session

definition envelope_state :: "envelope \<Rightarrow> auth_state" where
  "envelope_state env = Authenticated (ev_account env) (ev_session env)"

definition envelope_identity :: "envelope \<Rightarrow> auth_identity" where
  "envelope_identity env = \<lparr>ai_account_id = acct_id (ev_account env), ai_session_id = as_id (ev_session env)\<rparr>"

datatype session_store_error = StoreUnavailable string | StoreCorrupted string | InsecureForProduction

definition session_storage_error :: "string \<Rightarrow> engine_error" where
  "session_storage_error msg = engine_error_new SessionStorage msg False"

fun store_error :: "session_store_error \<Rightarrow> engine_error" where
  "store_error (StoreUnavailable _) = session_storage_error ''authentication session storage unavailable''"
| "store_error (StoreCorrupted _) = session_storage_error ''authentication session storage is corrupted''"
| "store_error InsecureForProduction =
     session_storage_error ''production login requires durable secure session storage''"

datatype session_store_security = Ephemeral | DurableSecure

record 'w session_store =
  ss_security_level :: session_store_security
  ss_read :: "'w \<Rightarrow> (session_store_error + envelope option) \<times> 'w"
  ss_replace :: "envelope \<Rightarrow> 'w \<Rightarrow> (session_store_error + unit) \<times> 'w"
  ss_clear :: "'w \<Rightarrow> (session_store_error + unit) \<times> 'w"

definition validate_production_session_store :: "'w session_store \<Rightarrow> session_store_error + unit" where
  "validate_production_session_store store =
     (case ss_security_level store of DurableSecure \<Rightarrow> Ok () | Ephemeral \<Rightarrow> Err InsecureForProduction)"

text \<open>\<open>InMemorySessionStore\<close>, its envelope being a part of the world; its lock is never poisoned here.\<close>

definition in_memory_store ::
  "('w \<Rightarrow> envelope option) \<Rightarrow> (envelope option \<Rightarrow> 'w \<Rightarrow> 'w) \<Rightarrow> 'w session_store" where
  "in_memory_store get put =
     \<lparr>ss_security_level = Ephemeral, ss_read = (\<lambda>w. (Ok (get w), w)),
      ss_replace = (\<lambda>env w. (Ok (), put (Some env) w)), ss_clear = (\<lambda>w. (Ok (), put None w))\<rparr>"

subsection \<open>The authentication port\<close>

record auth_request_acceptance =
  ara_accepted :: bool

record 'w auth_port =
  au_register_password :: "string \<Rightarrow> string \<Rightarrow> 'w \<Rightarrow> auth_request_acceptance result \<times> 'w"
  au_resend_verification :: "string \<Rightarrow> 'w \<Rightarrow> auth_request_acceptance result \<times> 'w"
  au_verify_email :: "string \<Rightarrow> string \<Rightarrow> 'w \<Rightarrow> envelope result \<times> 'w"
  au_login_password :: "string \<Rightarrow> string \<Rightarrow> string \<Rightarrow> 'w \<Rightarrow> envelope result \<times> 'w"
  au_refresh_session :: "string \<Rightarrow> 'w \<Rightarrow> envelope result \<times> 'w"
  au_logout :: "string \<Rightarrow> 'w \<Rightarrow> unit result \<times> 'w"

subsection \<open>The coordinator\<close>

datatype expiry_clock = SystemClock | FixedClock u64

record 'w coordinator =
  sc_store :: "'w session_store"
  sc_auth :: "'w auth_port"
  sc_system_clock :: "'w \<Rightarrow> u64 result \<times> 'w"
  sc_invalidated :: bool
  sc_generation :: u64
  sc_world :: 'w

definition coordinator_new ::
  "'w session_store \<Rightarrow> 'w auth_port \<Rightarrow> ('w \<Rightarrow> u64 result \<times> 'w) \<Rightarrow> 'w \<Rightarrow> 'w coordinator" where
  "coordinator_new store auth clock w =
     \<lparr>sc_store = store, sc_auth = auth, sc_system_clock = clock, sc_invalidated = False,
      sc_generation = 0, sc_world = w\<rparr>"

datatype access_snapshot =
    AnonymousAccess
  | AuthenticatedAccess (snapshot_token: string) (snapshot_generation: u64) (snapshot_identity: auth_identity)

text \<open>A call of a port, with the world threaded.\<close>

definition outside :: "('w \<Rightarrow> 'a \<times> 'w) \<Rightarrow> 'w coordinator \<Rightarrow> 'a \<times> 'w coordinator" where
  "outside call c = (let (r, w) = call (sc_world c) in (r, c\<lparr>sc_world := w\<rparr>))"

definition read_store :: "'w coordinator \<Rightarrow> (session_store_error + envelope option) \<times> 'w coordinator" where
  "read_store c = outside (ss_read (sc_store c)) c"

definition replace_store :: "envelope \<Rightarrow> 'w coordinator \<Rightarrow> (session_store_error + unit) \<times> 'w coordinator" where
  "replace_store env c = outside (ss_replace (sc_store c) env) c"

definition clear_store :: "'w coordinator \<Rightarrow> (session_store_error + unit) \<times> 'w coordinator" where
  "clear_store c = outside (ss_clear (sc_store c)) c"

definition clock_now :: "expiry_clock \<Rightarrow> 'w coordinator \<Rightarrow> u64 result \<times> 'w coordinator" where
  "clock_now clock c =
     (case clock of SystemClock \<Rightarrow> outside (sc_system_clock c) c | FixedClock now \<Rightarrow> (Ok now, c))"

definition session_login_required :: engine_error where
  "session_login_required = engine_error_new LoginRequiredError ''a new interactive login is required'' False"

definition advance_generation :: "'w coordinator \<Rightarrow> u64 result \<times> 'w coordinator" where
  "advance_generation c =
     (if sc_generation c = - 1
      then (let c = c\<lparr>sc_invalidated := True\<rparr>; (r, c) = clear_store c
            in (Err (session_storage_error ''session generation space exhausted''), c))
      else (Ok (sc_generation c + 1), c\<lparr>sc_generation := sc_generation c + 1\<rparr>))"

definition invalidate :: "'w coordinator \<Rightarrow> 'w coordinator" where
  "invalidate c =
     (let (r, c) = clear_store (c\<lparr>sc_invalidated := True\<rparr>); (r, c) = advance_generation c in c)"

definition map_store_error :: "(session_store_error + 'a) \<Rightarrow> 'a result" where
  "map_store_error r = (case r of Inl err \<Rightarrow> Err (store_error err) | Inr a \<Rightarrow> Ok a)"

definition session_auth_state :: "'w coordinator \<Rightarrow> auth_state result \<times> 'w coordinator" where
  "session_auth_state c =
     (if sc_invalidated c then (Ok LoginRequired, c)
      else let (r, c) = read_store c
           in (map_ok (\<lambda>env. case env of None \<Rightarrow> Anonymous | Some env \<Rightarrow> envelope_state env) (map_store_error r), c))"

text \<open>\<open>AuthStateProvider::current_auth_state\<close>.\<close>

definition current_auth_state :: "'w coordinator \<Rightarrow> auth_state \<times> 'w coordinator" where
  "current_auth_state c =
     (let (r, c) = session_auth_state c in (case r of Inl _ \<Rightarrow> LoginRequired | Inr state \<Rightarrow> state, c))"

text \<open>The access snapshot of a stored session; a session that is no longer current is dropped.\<close>

definition envelope_snapshot :: "envelope \<Rightarrow> 'w coordinator \<Rightarrow> access_snapshot result \<times> 'w coordinator" where
  "envelope_snapshot env c =
     (if \<not> as_current (ev_session env) then (Err session_login_required, invalidate c)
      else (Ok (AuthenticatedAccess (ev_access_token env) (sc_generation c) (envelope_identity env)), c))"

definition current_access_snapshot :: "'w coordinator \<Rightarrow> access_snapshot result \<times> 'w coordinator" where
  "current_access_snapshot c =
     (if sc_invalidated c then (Err session_login_required, c)
      else case read_store c of
             (Inl err, c) \<Rightarrow> (Err (store_error err), c)
           | (Inr None, c) \<Rightarrow> (Ok AnonymousAccess, c)
           | (Inr (Some env), c) \<Rightarrow> envelope_snapshot env c)"

subsection \<open>Rotation\<close>

text \<open>\<open>refresh_locked\<close> without the drop of its guard: the replacement, or the error of the step that
  failed while the guard was armed.\<close>

definition try_refresh :: "envelope \<Rightarrow> expiry_clock \<Rightarrow> 'w coordinator \<Rightarrow> envelope result \<times> 'w coordinator" where
  "try_refresh env clock c =
     (case outside (au_refresh_session (sc_auth c) (ev_refresh_token env)) c of
        (Inl _, c) \<Rightarrow> (Err session_login_required, c)
      | (Inr replacement, c) \<Rightarrow>
          (case clock_now clock c of
             (Inl err, c) \<Rightarrow> (Err err, c)
           | (Inr now, c) \<Rightarrow>
               (if ev_access_token_expires_at replacement \<le> now \<or> ev_refresh_token_expires_at replacement \<le> now
                then (Err session_login_required, c)
                else case replace_store replacement c of
                       (Inl err, c) \<Rightarrow> (Err (store_error err), c)
                     | (Inr _, c) \<Rightarrow>
                         (case advance_generation c of
                            (Inl err, c) \<Rightarrow> (Err err, c)
                          | (Inr _, c) \<Rightarrow> (Ok replacement, c)))))"

text \<open>With the guard: dropped while armed, it invalidates the session.\<close>

definition refresh_locked ::
  "envelope \<Rightarrow> expiry_clock \<Rightarrow> u64 \<Rightarrow> 'w coordinator \<Rightarrow> envelope result \<times> 'w coordinator" where
  "refresh_locked env clock now c =
     (if ev_refresh_token_expires_at env \<le> now then (Err session_login_required, invalidate c)
      else case try_refresh env clock c of
             (Inl err, c) \<Rightarrow> (Err err, invalidate c)
           | (Inr replacement, c) \<Rightarrow> (Ok replacement, c))"

definition fresh_envelope_locked ::
  "envelope \<Rightarrow> expiry_clock \<Rightarrow> u64 \<Rightarrow> 'w coordinator \<Rightarrow> envelope result \<times> 'w coordinator" where
  "fresh_envelope_locked env clock now c =
     (if now < ev_access_token_expires_at env then (Ok env, c) else refresh_locked env clock now c)"

definition ensure_fresh_session_with_clock ::
  "expiry_clock \<Rightarrow> 'w coordinator \<Rightarrow> auth_state result \<times> 'w coordinator" where
  "ensure_fresh_session_with_clock clock c =
     (case clock_now clock c of
        (Inl err, c) \<Rightarrow> (Err err, c)
      | (Inr now, c) \<Rightarrow>
          (if sc_invalidated c then (Err session_login_required, c)
           else case read_store c of
                  (Inl err, c) \<Rightarrow> (Err (store_error err), c)
                | (Inr None, c) \<Rightarrow> (Err session_login_required, c)
                | (Inr (Some env), c) \<Rightarrow>
                    (let (r, c) = fresh_envelope_locked env clock now c in (map_ok envelope_state r, c))))"

text \<open>\<open>self.access_snapshot(&current)\<close> on an envelope that may not have come.\<close>

definition snapshot_of :: "envelope result \<times> 'w coordinator \<Rightarrow> access_snapshot result \<times> 'w coordinator" where
  "snapshot_of x = (case x of (Inl err, c) \<Rightarrow> (Err err, c) | (Inr env, c) \<Rightarrow> envelope_snapshot env c)"

definition fresh_access_snapshot_with_clock ::
  "expiry_clock \<Rightarrow> 'w coordinator \<Rightarrow> access_snapshot result \<times> 'w coordinator" where
  "fresh_access_snapshot_with_clock clock c =
     (if sc_invalidated c then (Err session_login_required, c)
      else case read_store c of
             (Inl err, c) \<Rightarrow> (Err (store_error err), c)
           | (Inr None, c) \<Rightarrow> (Ok AnonymousAccess, c)
           | (Inr (Some env), c) \<Rightarrow>
               (case clock_now clock c of
                  (Inl err, c) \<Rightarrow> (Err err, c)
                | (Inr now, c) \<Rightarrow> snapshot_of (fresh_envelope_locked env clock now c)))"

definition refresh_after_rejection_with_clock ::
  "access_snapshot \<Rightarrow> expiry_clock \<Rightarrow> 'w coordinator \<Rightarrow> access_snapshot result \<times> 'w coordinator" where
  "refresh_after_rejection_with_clock rejected clock c =
     (case rejected of
        AnonymousAccess \<Rightarrow> (Err session_login_required, c)
      | AuthenticatedAccess _ rejected_generation _ \<Rightarrow>
          (case clock_now clock c of
             (Inl err, c) \<Rightarrow> (Err err, c)
           | (Inr now, c) \<Rightarrow>
               (if sc_invalidated c then (Err session_login_required, c)
                else case read_store c of
                       (Inl err, c) \<Rightarrow>
                         (Err (store_error err),
                          if sc_generation c \<noteq> rejected_generation then c else invalidate c)
                     | (Inr None, c) \<Rightarrow> (Err session_login_required, invalidate c)
                     | (Inr (Some env), c) \<Rightarrow>
                         snapshot_of
                           (if sc_generation c \<noteq> rejected_generation
                            then fresh_envelope_locked env clock now c
                            else refresh_locked env clock now c))))"

definition invalidate_if_current :: "access_snapshot \<Rightarrow> 'w coordinator \<Rightarrow> unit result \<times> 'w coordinator" where
  "invalidate_if_current rejected c =
     (case rejected of
        AnonymousAccess \<Rightarrow> (Ok (), c)
      | AuthenticatedAccess _ rejected_generation _ \<Rightarrow>
          (Ok (), if \<not> sc_invalidated c \<and> sc_generation c = rejected_generation then invalidate c else c))"

subsection \<open>Login and logout\<close>

text \<open>A session that cannot be committed is cleared and its token logged out.\<close>

definition commit_interactive_session ::
  "envelope \<Rightarrow> 'w coordinator \<Rightarrow> auth_state result \<times> 'w coordinator" where
  "commit_interactive_session env c =
     (let (commit, c) =
            (case replace_store env c of
               (Inl err, c) \<Rightarrow> (Err (store_error err), c)
             | (Inr _, c) \<Rightarrow> (let (r, c) = advance_generation c in (map_ok (\<lambda>_. ()) r, c)))
      in case commit of
           Inr _ \<Rightarrow> (Ok (envelope_state env), c\<lparr>sc_invalidated := False\<rparr>)
         | Inl err \<Rightarrow>
             (let (r, c) = clear_store (c\<lparr>sc_invalidated := True\<rparr>);
                  (r, c) = outside (au_logout (sc_auth c) (ev_access_token env)) c
              in (Err err, c)))"

definition commit_answer :: "envelope result \<times> 'w coordinator \<Rightarrow> auth_state result \<times> 'w coordinator" where
  "commit_answer x = (case x of (Inl err, c) \<Rightarrow> (Err err, c) | (Inr env, c) \<Rightarrow> commit_interactive_session env c)"

definition verify_email :: "string \<Rightarrow> string \<Rightarrow> 'w coordinator \<Rightarrow> auth_state result \<times> 'w coordinator" where
  "verify_email verification_token device_label c =
     commit_answer (outside (au_verify_email (sc_auth c) verification_token device_label) c)"

definition login_password ::
  "string \<Rightarrow> string \<Rightarrow> string \<Rightarrow> 'w coordinator \<Rightarrow> auth_state result \<times> 'w coordinator" where
  "login_password email password device_label c =
     commit_answer (outside (au_login_password (sc_auth c) email password device_label) c)"

definition register_password ::
  "string \<Rightarrow> string \<Rightarrow> 'w coordinator \<Rightarrow> auth_request_acceptance result \<times> 'w coordinator" where
  "register_password email password c = outside (au_register_password (sc_auth c) email password) c"

definition resend_verification :: "string \<Rightarrow> 'w coordinator \<Rightarrow> auth_request_acceptance result \<times> 'w coordinator" where
  "resend_verification email c = outside (au_resend_verification (sc_auth c) email) c"

definition uncertain_logout :: engine_error where
  "uncertain_logout =
     session_storage_error ''local session clear failed and the remote logout outcome is uncertain''"

definition session_logout :: "'w coordinator \<Rightarrow> unit result \<times> 'w coordinator" where
  "session_logout c =
     (let (stored, c) = read_store c;
          (clear, c) = clear_store (c\<lparr>sc_invalidated := True\<rparr>);
          (gen, c) = advance_generation c
      in case stored of
           Inl err \<Rightarrow> (case clear of Inr _ \<Rightarrow> (Err (store_error err), c) | Inl e2 \<Rightarrow> (Err (store_error e2), c))
         | Inr env \<Rightarrow>
             (case gen of
                Inl err \<Rightarrow> (Err err, c)
              | Inr _ \<Rightarrow>
                  (let (remote, c) = (case env of
                         Some env \<Rightarrow> outside (au_logout (sc_auth c) (ev_access_token env)) c
                       | None \<Rightarrow> (Ok (), c))
                   in case (clear, remote) of
                        (Inr _, _) \<Rightarrow> (remote, c\<lparr>sc_invalidated := False\<rparr>)
                      | (Inl err, Inr _) \<Rightarrow> (Err (store_error err), c)
                      | (Inl _, Inl _) \<Rightarrow> (Err uncertain_logout, c))))"

definition clear_after_account_delete :: "auth_identity \<Rightarrow> 'w coordinator \<Rightarrow> unit result \<times> 'w coordinator" where
  "clear_after_account_delete expected c =
     (case current_access_snapshot c of
        (Inl err, c) \<Rightarrow> (Err err, c)
      | (Inr AnonymousAccess, c) \<Rightarrow> (Err session_login_required, c)
      | (Inr (AuthenticatedAccess _ _ identity), c) \<Rightarrow>
          (if identity \<noteq> expected then (Err session_login_required, c)
           else case clear_store c of
                  (Inl err, c) \<Rightarrow> (Err (store_error err), c)
                | (Inr _, c) \<Rightarrow>
                    (case advance_generation c of
                       (Inl err, c) \<Rightarrow> (Err err, c)
                     | (Inr _, c) \<Rightarrow> (Ok (), c\<lparr>sc_invalidated := False\<rparr>))))"

definition access_token_snapshot :: "'w coordinator \<Rightarrow> string option result \<times> 'w coordinator" where
  "access_token_snapshot c =
     (if sc_invalidated c then (Ok None, c)
      else let (r, c) = read_store c in (map_ok (map_option ev_access_token) (map_store_error r), c))"

definition install_session :: "envelope \<Rightarrow> 'w coordinator \<Rightarrow> unit result \<times> 'w coordinator" where
  "install_session env c =
     (case replace_store env c of
        (Inl err, c) \<Rightarrow> (Err (store_error err), c)
      | (Inr _, c) \<Rightarrow>
          (case advance_generation c of
             (Inl err, c) \<Rightarrow> (Err err, c)
           | (Inr _, c) \<Rightarrow> (Ok (), c\<lparr>sc_invalidated := False\<rparr>)))"

end
