(* ===== verification/SessionLaws.thy ===== *)
theory SessionLaws
  imports Session
begin

text \<open>
  Laws of the session coordinator. The contract of a session store is the locale
  \<open>session_contract\<close>, and what the trait documents is its extension
  \<open>atomic_store\<close>. The in-memory store provides both. Under the contract a failed refresh
  closes the session and a logout ends it.
\<close>

subsection \<open>The contract of a session store\<close>

text \<open>What the coordinator needs: a failed operation leaves the previous session, none, or the one being
  written. A written envelope may turn out to be unreadable.\<close>

locale session_contract =
  fixes store :: "'w session_store" and stored :: "'w \<Rightarrow> envelope option"
  assumes read_ok: "ss_read store w = (Inr e, w') \<Longrightarrow> e = stored w \<and> stored w' = stored w"
    and read_err: "ss_read store w = (Inl err, w') \<Longrightarrow> stored w' = stored w"
    and replace_ok: "ss_replace store env w = (Inr u, w') \<Longrightarrow> stored w' = Some env \<or> stored w' = None"
    and replace_err: "ss_replace store env w = (Inl err, w') \<Longrightarrow>
      stored w' = stored w \<or> stored w' = None \<or> stored w' = Some env"
    and clear_ok: "ss_clear store w = (Inr u, w') \<Longrightarrow> stored w' = None"
    and clear_err: "ss_clear store w = (Inl err, w') \<Longrightarrow> stored w' = stored w \<or> stored w' = None"
begin

lemma stored_after_clear: "stored (snd (ss_clear store w)) = stored w \<or> stored (snd (ss_clear store w)) = None"
  using clear_ok [of w] clear_err [of w]
  by (cases "fst (ss_clear store w)") (metis prod.collapse)+

lemma stored_after_read: "stored (snd (ss_read store w)) = stored w"
  using read_ok [of w] read_err [of w]
  by (cases "fst (ss_read store w)") (metis prod.collapse)+

end

text \<open>The contract the trait documents: after a failed replace, the complete previous value or no value.\<close>

locale atomic_store = session_contract +
  assumes replace_keeps: "ss_replace store env w = (Inr u, w') \<Longrightarrow> stored w' = Some env"
    and replace_atomic: "ss_replace store env w = (Inl err, w') \<Longrightarrow> stored w' = stored w \<or> stored w' = None"

text \<open>A world that holds the stored session and anything else.\<close>

definition process_store :: "(envelope option \<times> 'v) session_store" where
  "process_store = in_memory_store fst (\<lambda>env (_, v). (env, v))"

interpretation process: atomic_store process_store fst
  by unfold_locales (auto simp: process_store_def in_memory_store_def)

subsection \<open>Frames\<close>

lemma outside_frame [simp]:
  "sc_store (snd (outside call c)) = sc_store c" "sc_auth (snd (outside call c)) = sc_auth c"
  "sc_system_clock (snd (outside call c)) = sc_system_clock c"
  "sc_invalidated (snd (outside call c)) = sc_invalidated c"
  "sc_generation (snd (outside call c)) = sc_generation c"
  "sc_world (snd (outside call c)) = snd (call (sc_world c))"
  "fst (outside call c) = fst (call (sc_world c))"
  by (simp_all add: outside_def case_prod_beta Let_def)

lemma outsideD:
  assumes "outside call c = (r, c')"
  shows "sc_store c' = sc_store c" "sc_auth c' = sc_auth c" "sc_system_clock c' = sc_system_clock c"
    "sc_invalidated c' = sc_invalidated c" "sc_generation c' = sc_generation c"
    "call (sc_world c) = (r, sc_world c')"
  using assms by (auto simp: outside_def Let_def split: prod.splits)

lemma invalidate_closed [simp]: "sc_invalidated (invalidate c)"
  by (simp add: invalidate_def advance_generation_def clear_store_def Let_def case_prod_beta)

subsection \<open>A failed refresh\<close>

lemma refresh_failed_closed: "refresh_locked env clock now c = (Inl err, c') \<Longrightarrow> sc_invalidated c'"
  by (auto simp: refresh_locked_def split: if_splits prod.splits sum.splits)

text \<open>The ways to a credential, and to the session behind it, and what they grant.\<close>

datatype access_op =
    FreshAccess expiry_clock
  | CurrentAccess
  | RejectedAccess access_snapshot expiry_clock
  | EnsureFresh expiry_clock

datatype access_grant = NoGrant | SessionGrant auth_state | TokenGrant string u64

fun token_grant :: "access_snapshot result \<Rightarrow> access_grant" where
  "token_grant (Inr (AuthenticatedAccess token generation identity)) = TokenGrant token generation"
| "token_grant (Inr AnonymousAccess) = NoGrant"
| "token_grant (Inl err) = NoGrant"

fun run_access :: "access_op \<Rightarrow> 'w coordinator \<Rightarrow> access_grant \<times> 'w coordinator" where
  "run_access (FreshAccess clock) c = map_prod token_grant id (fresh_access_snapshot_with_clock clock c)"
| "run_access CurrentAccess c = map_prod token_grant id (current_access_snapshot c)"
| "run_access (RejectedAccess rejected clock) c =
     map_prod token_grant id (refresh_after_rejection_with_clock rejected clock c)"
| "run_access (EnsureFresh clock) c =
     map_prod (case_sum (\<lambda>_. NoGrant) SessionGrant) id (ensure_fresh_session_with_clock clock c)"

fun run_accesses :: "access_op list \<Rightarrow> 'w coordinator \<Rightarrow> access_grant list \<times> 'w coordinator" where
  "run_accesses [] c = ([], c)"
| "run_accesses (op # ops) c =
     (let (grant, c) = run_access op c; (grants, c) = run_accesses ops c in (grant # grants, c))"

lemma clock_now_frame:
  assumes "clock_now clock c = (r, c')"
  shows "sc_invalidated c' = sc_invalidated c" "sc_generation c' = sc_generation c" "sc_store c' = sc_store c"
    "sc_auth c' = sc_auth c" "sc_system_clock c' = sc_system_clock c"
  using assms outsideD [of "sc_system_clock c" c r c'] by (auto simp: clock_now_def split: expiry_clock.splits)

lemma closed_access:
  assumes "sc_invalidated c" "run_access op c = (grant, c')"
  shows "grant = NoGrant \<and> sc_invalidated c'"
  using assms clock_now_frame(1)
  by (cases op)
     (auto simp: fresh_access_snapshot_with_clock_def current_access_snapshot_def
        refresh_after_rejection_with_clock_def ensure_fresh_session_with_clock_def
        split: access_snapshot.splits prod.splits sum.splits)

lemma run_accesses_invariant:
  assumes "run_accesses ops c = (grants, c')" "J c"
    and "\<And>op c grant c'. run_access op c = (grant, c') \<Longrightarrow> J c \<Longrightarrow> grant = NoGrant \<and> J c'"
  shows "set grants \<subseteq> {NoGrant} \<and> J c'"
  using assms(1,2)
proof (induction ops arbitrary: c c' grants)
  case (Cons op ops)
  obtain g c1 where 1: "run_access op c = (g, c1)" by (cases "run_access op c")
  obtain gs c2 where 2: "run_accesses ops c1 = (gs, c2)" by (cases "run_accesses ops c1")
  show ?case using assms(3) [OF 1 Cons.prems(2)] Cons.IH [OF 2] Cons.prems(1) by (auto simp: 1 2)
qed simp

text \<open>C31: a refresh that fails in any way closes the session. Whatever refused it, the backend, the
  network, the clock, an expired or unstorable replacement, the credential is dropped: until the next
  login or logout no sequence of requests, rejections and freshness checks is granted anything,
  and the auth state shown is \<open>LoginRequired\<close>.\<close>

theorem failed_refresh_closes_session:
  assumes "refresh_locked env clock now c = (Inl err, c')" "run_accesses ops c' = (grants, c'')"
  shows "set grants \<subseteq> {NoGrant} \<and> fst (current_auth_state c'') = LoginRequired"
  using run_accesses_invariant [OF assms(2), of sc_invalidated, OF refresh_failed_closed [OF assms(1)] closed_access]
  by (simp add: current_auth_state_def session_auth_state_def)

text \<open>A world that holds the session, the answer to the next refresh and the number of refreshes.\<close>

type_synonym refresh_world = "envelope option \<times> (envelope result \<times> nat)"

definition sample_auth :: "refresh_world auth_port" where
  "sample_auth =
     \<lparr>au_register_password = (\<lambda>_ _ w. (Ok \<lparr>ara_accepted = True\<rparr>, w)),
      au_resend_verification = (\<lambda>_ w. (Ok \<lparr>ara_accepted = True\<rparr>, w)),
      au_verify_email = (\<lambda>_ _ w. (fst (snd w), w)), au_login_password = (\<lambda>_ _ _ w. (fst (snd w), w)),
      au_refresh_session = (\<lambda>_ (env, answer, n). (answer, (env, answer, Suc n))),
      au_logout = (\<lambda>_ w. (Ok (), w))\<rparr>"

definition sample_envelope :: "string \<Rightarrow> u64 \<Rightarrow> envelope" where
  "sample_envelope token expiry =
     \<lparr>ev_access_token = token, ev_access_token_expires_at = expiry,
      ev_refresh_token = ''refresh'', ev_refresh_token_expires_at = 50000,
      ev_account = \<lparr>acct_id = ''a'', acct_primary_email = [], acct_status = [], acct_created_at_epoch_millis = 0\<rparr>,
      ev_session = \<lparr>as_id = ''s'', as_device_label = [], as_created_at_epoch_millis = 0,
        as_last_used_at_epoch_millis = 0, as_expires_at_epoch_millis = 0, as_current = True\<rparr>\<rparr>"

definition sample_coordinator :: "envelope result \<Rightarrow> refresh_world coordinator" where
  "sample_coordinator answer =
     coordinator_new process_store sample_auth (\<lambda>w. (Ok 1000, w)) (Some (sample_envelope ''old'' 900), answer, 0)"

lemmas sample_defs = sample_coordinator_def coordinator_new_def sample_auth_def sample_envelope_def
  process_store_def in_memory_store_def

text \<open>The backend is unreachable when the token has expired.\<close>

theorem failed_refresh_closes_session_witness:
  "\<exists>c. refresh_locked (sample_envelope ''old'' 900) SystemClock 1000
     (sample_coordinator (Err (engine_error_new Transport ''down'' False))) = (Err session_login_required, c) \<and>
   set (fst (run_accesses [FreshAccess SystemClock, CurrentAccess, EnsureFresh (FixedClock 9)] c)) \<subseteq> {NoGrant}"
proof -
  let ?c = "sample_coordinator (Err (engine_error_new Transport ''down'' False))"
  obtain c where r: "refresh_locked (sample_envelope ''old'' 900) SystemClock 1000 ?c = (Err session_login_required, c)"
    by (simp add: refresh_locked_def try_refresh_def sample_defs outside_def)
  obtain grants c' where "run_accesses [FreshAccess SystemClock, CurrentAccess, EnsureFresh (FixedClock 9)] c = (grants, c')"
    by (cases "run_accesses [FreshAccess SystemClock, CurrentAccess, EnsureFresh (FixedClock 9)] c")
  with failed_refresh_closes_session [OF r this] r show ?thesis by auto
qed

subsection \<open>Logout\<close>

text \<open>What a store contract says of the coordinator's store operations.\<close>

lemma read_store_stored:
  assumes "session_contract (sc_store c) stored" "read_store c = (r, c')"
  shows "stored (sc_world c') = stored (sc_world c)" "r = Inr e \<Longrightarrow> e = stored (sc_world c)"
  using session_contract.read_ok [OF assms(1)] session_contract.read_err [OF assms(1)] outsideD(6) [OF assms(2) [unfolded read_store_def]]
  by (cases r; auto)+

lemma clear_store_stored:
  assumes "session_contract (sc_store c) stored" "clear_store c = (r, c')"
  shows "stored (sc_world c') = stored (sc_world c) \<or> stored (sc_world c') = None"
    "r = Inr u \<Longrightarrow> stored (sc_world c') = None"
  using session_contract.clear_ok [OF assms(1)] session_contract.clear_err [OF assms(1)] outsideD(6) [OF assms(2) [unfolded clear_store_def]]
  by (cases r; auto)+

lemma advance_generationD:
  assumes "advance_generation c = (r, c')" "session_contract (sc_store c) stored"
  shows "sc_store c' = sc_store c" "sc_auth c' = sc_auth c" "sc_system_clock c' = sc_system_clock c"
    "stored (sc_world c') = stored (sc_world c) \<or> stored (sc_world c') = None"
    "r = Inr g \<Longrightarrow> sc_invalidated c' = sc_invalidated c \<and> sc_world c' = sc_world c \<and> sc_generation c' = sc_generation c + 1
       \<and> sc_generation c \<noteq> - 1 \<and> g = sc_generation c + 1"
    "r = Inl err \<Longrightarrow> sc_invalidated c' \<and> sc_generation c' = - 1 \<and> sc_generation c = - 1"
proof -
  have "session_contract (sc_store (c\<lparr>sc_invalidated := True\<rparr>)) stored" using assms(2) by simp
  from clear_store_stored(1) [OF this]
  show "stored (sc_world c') = stored (sc_world c) \<or> stored (sc_world c') = None"
    using assms(1) by (auto simp: advance_generation_def Let_def split: if_splits prod.splits)
qed (use assms(1) in \<open>auto simp: advance_generation_def clear_store_def Let_def case_prod_beta split: if_splits\<close>)

text \<open>A call that leaves a part of the world as it is.\<close>

definition leaves :: "('w \<Rightarrow> 'v) \<Rightarrow> ('w \<Rightarrow> 'a \<times> 'w) \<Rightarrow> bool" where
  "leaves part call = (\<forall>w. part (snd (call w)) = part w)"

lemma outside_leaves: "leaves part call \<Longrightarrow> outside call c = (r, c') \<Longrightarrow> part (sc_world c') = part (sc_world c)"
  by (metis leaves_def outsideD(6) snd_conv)

lemma clock_now_leaves:
  "leaves part (sc_system_clock c) \<Longrightarrow> clock_now clock c = (r, c') \<Longrightarrow> part (sc_world c') = part (sc_world c)"
  using outside_leaves [of part "sc_system_clock c" c r c'] by (auto simp: clock_now_def split: expiry_clock.splits)

text \<open>No credential: the session is invalidated or nothing is stored.\<close>

definition no_session :: "('w \<Rightarrow> envelope option) \<Rightarrow> 'w coordinator \<Rightarrow> bool" where
  "no_session stored c =
     (session_contract (sc_store c) stored \<and> leaves stored (sc_system_clock c) \<and>
      (sc_invalidated c \<or> stored (sc_world c) = None))"

lemma read_store_frame:
  "read_store c = (r, c') \<Longrightarrow> sc_store c' = sc_store c \<and> sc_system_clock c' = sc_system_clock c \<and> sc_auth c' = sc_auth c
     \<and> sc_invalidated c' = sc_invalidated c \<and> sc_generation c' = sc_generation c"
  unfolding read_store_def by (auto dest: outsideD)

lemma invalidate_frame:
  "sc_store (invalidate c) = sc_store c" "sc_system_clock (invalidate c) = sc_system_clock c"
  by (simp_all add: invalidate_def advance_generation_def clear_store_def Let_def case_prod_beta)

lemma no_session_read:
  assumes "no_session stored c" "\<not> sc_invalidated c" "read_store c = (r, c')"
  shows "no_session stored c' \<and> (\<forall>e. r = Inr e \<longrightarrow> e = None)"
  using assms(1,2) read_store_stored [OF _ assms(3), of stored] read_store_frame [OF assms(3)]
  by (auto simp: no_session_def)

lemma no_session_unstored:
  assumes "no_session stored c" "\<not> sc_invalidated c"
  shows "read_store c \<noteq> (Inr (Some env), c')"
  using no_session_read [OF assms] by auto

lemma no_session_clock:
  assumes "no_session stored c" "clock_now clock c = (r, c')"
  shows "no_session stored c'" "sc_invalidated c' = sc_invalidated c"
  using assms(1) clock_now_leaves [OF _ assms(2), of stored] clock_now_frame [OF assms(2)]
  by (auto simp: no_session_def)

lemma no_session_invalidate: "no_session stored c \<Longrightarrow> no_session stored (invalidate c)"
  by (simp add: no_session_def invalidate_frame)

lemma no_session_access:
  assumes "run_access op c = (grant, c')" "no_session stored c"
  shows "grant = NoGrant \<and> no_session stored c'"
proof (cases op)
  case (FreshAccess clock)
  then show ?thesis using assms no_session_read [OF assms(2)]
    by (fastforce simp: fresh_access_snapshot_with_clock_def split: if_splits prod.splits sum.splits option.splits)
next
  case CurrentAccess
  then show ?thesis using assms no_session_read [OF assms(2)]
    by (fastforce simp: current_access_snapshot_def split: if_splits prod.splits sum.splits option.splits)
next
  case (RejectedAccess rejected clock)
  obtain rn c1 where 1: "clock_now clock c = (rn, c1)" by (cases "clock_now clock c")
  note n1 = no_session_clock(1) [OF assms(2) 1]
  obtain re c2 where 2: "read_store c1 = (re, c2)" by (cases "read_store c1")
  have n2: "\<not> sc_invalidated c1 \<Longrightarrow> no_session stored c2 \<and> (\<forall>env. re \<noteq> Inr (Some env))"
    using no_session_read [OF n1 _ 2] by auto
  show ?thesis using assms RejectedAccess n1 n2 no_session_invalidate [of stored c2]
    by (auto simp: refresh_after_rejection_with_clock_def 1 2
        split: if_splits sum.splits option.splits access_snapshot.splits)
next
  case (EnsureFresh clock)
  obtain rn c1 where 1: "clock_now clock c = (rn, c1)" by (cases "clock_now clock c")
  note n1 = no_session_clock(1) [OF assms(2) 1]
  obtain re c2 where 2: "read_store c1 = (re, c2)" by (cases "read_store c1")
  have n2: "\<not> sc_invalidated c1 \<Longrightarrow> no_session stored c2 \<and> (\<forall>env. re \<noteq> Inr (Some env))"
    using no_session_read [OF n1 _ 2] by auto
  show ?thesis using assms EnsureFresh n1 n2
    by (auto simp: ensure_fresh_session_with_clock_def 1 2 split: if_splits sum.splits option.splits)
qed

text \<open>C17: a logout ends the session even when it reports an error: when the store fails to read or
  to clear, when the remote logout fails, when generations run out. Afterwards no sequence of
  requests, rejections and freshness checks is granted anything, and the auth state shown is
  \<open>Anonymous\<close> or \<open>LoginRequired\<close>, given a store that keeps its contract and a
  backend and a clock that do not write to it.\<close>

theorem logout_ends_session:
  assumes "session_contract (sc_store c) stored" "\<And>token. leaves stored (au_logout (sc_auth c) token)"
    "leaves stored (sc_system_clock c)"
    and "session_logout c = (r, c')" "run_accesses ops c' = (grants, c'')"
  shows "set grants \<subseteq> {NoGrant} \<and> fst (current_auth_state c'') \<in> {Anonymous, LoginRequired}"
proof -
  obtain r0 c0 where 0: "read_store c = (r0, c0)" by (cases "read_store c")
  obtain r1 c1 where 1: "clear_store (c0\<lparr>sc_invalidated := True\<rparr>) = (r1, c1)"
    by (cases "clear_store (c0\<lparr>sc_invalidated := True\<rparr>)")
  obtain r2 c2 where 2: "advance_generation c1 = (r2, c2)" by (cases "advance_generation c1")
  note f0 = read_store_frame [OF 0]
  have f1: "sc_store c1 = sc_store c" "sc_auth c1 = sc_auth c" "sc_system_clock c1 = sc_system_clock c"
    "sc_invalidated c1" using outsideD [OF 1 [unfolded clear_store_def]] f0 by auto
  have s1: "r1 = Inr u \<Longrightarrow> stored (sc_world c1) = None" for u
    using clear_store_stored(2) [OF _ 1, of stored] f0 assms(1) by simp
  have a1: "session_contract (sc_store c1) stored" using f1 assms(1) by simp
  note f2 = advance_generationD [OF 2 a1]
  have i2: "sc_invalidated c2" using f2(5,6) f1(4) by (cases r2) auto
  have s2: "r1 = Inr u \<Longrightarrow> stored (sc_world c2) = None" for u using f2(4) s1 by auto
  have out: "r = fst (outside (au_logout (sc_auth c2) t) c2) \<Longrightarrow>
    stored (sc_world (snd (outside (au_logout (sc_auth c2) t) c2))) = stored (sc_world c2)" for t r
    using assms(2) f1(2) f2(2) by (simp add: leaves_def)
  have "no_session stored c'"
    using assms(1,3,4) f1 f2(1-3) i2 s2 out
    by (auto simp: session_logout_def 0 1 2 Let_def no_session_def case_prod_beta split: sum.splits option.splits)
  with run_accesses_invariant [where J = "no_session stored", OF assms(5)] no_session_access
  have "set grants \<subseteq> {NoGrant} \<and> no_session stored c''" by metis
  moreover have "fst (current_auth_state c'') \<in> {Anonymous, LoginRequired}"
    using no_session_read [of stored c''] \<open>set grants \<subseteq> {NoGrant} \<and> no_session stored c''\<close>
    by (cases "read_store c''")
      (auto simp: current_auth_state_def session_auth_state_def map_store_error_def map_ok_def split: sum.splits)
  ultimately show ?thesis by blast
qed

text \<open>A session is stored and the backend confirms the logout.\<close>

theorem logout_ends_session_witness:
  "fst (session_logout (sample_coordinator (Err session_login_required))) = Ok () \<and>
   set (fst (run_accesses [FreshAccess (FixedClock 5), CurrentAccess]
     (snd (session_logout (sample_coordinator (Err session_login_required)))))) \<subseteq> {NoGrant}"
proof -
  let ?c = "sample_coordinator (Err session_login_required)"
  have 1: "session_contract (sc_store ?c) fst"
    by (simp add: sample_coordinator_def coordinator_new_def process.session_contract_axioms)
  have 2: "leaves fst (au_logout (sc_auth ?c) token)" "leaves fst (sc_system_clock ?c)" for token
    by (simp_all add: leaves_def sample_defs)
  have "fst (session_logout ?c) = Ok ()"
    by (simp add: session_logout_def sample_defs read_store_def clear_store_def advance_generation_def outside_def)
  with logout_ends_session [OF 1 2 surjective_pairing surjective_pairing] show ?thesis by blast
qed

end
