(* ===== verification/Rotation.thy ===== *)
theory Rotation
  imports SessionLaws
begin

text \<open>
  Rotation of credentials: what a generation stands for, and how many refreshes a rejected token
  causes. \<open>session_step\<close> is the frame of every coordinator operation: within a generation
  the stored session does not change, except to disappear.
\<close>

subsection \<open>Single flight\<close>

lemma advance_generation_cases:
  "advance_generation c = (Inr (sc_generation c + 1), c\<lparr>sc_generation := sc_generation c + 1\<rparr>) \<and> sc_generation c \<noteq> - 1
   \<or> (\<exists>err c'. advance_generation c = (Inl err, c') \<and> sc_invalidated c' \<and> sc_generation c = - 1)"
  by (auto simp: advance_generation_def clear_store_def Let_def case_prod_beta)

text \<open>What the backend answers to a refresh, the store can keep.\<close>

definition keeps_refreshed :: "('w \<Rightarrow> envelope option) \<Rightarrow> 'w coordinator \<Rightarrow> bool" where
  "keeps_refreshed stored c =
     (\<forall>token env w w1 w2. fst (au_refresh_session (sc_auth c) token w) = Inr env \<and>
        ss_replace (sc_store c) env w1 = (Inr (), w2) \<longrightarrow> stored w2 = Some env)"

lemma refresh_locked_ok:
  assumes "refresh_locked env clock now c = (Inr replacement, c')" "keeps_refreshed stored c"
  shows "stored (sc_world c') = Some replacement" "sc_generation c' = sc_generation c + 1"
    "sc_generation c' \<noteq> sc_generation c" "sc_store c' = sc_store c"
    "sc_invalidated c' = sc_invalidated c"
proof -
  obtain c1 now' c2 c3 u g where
    1: "outside (au_refresh_session (sc_auth c) (ev_refresh_token env)) c = (Inr replacement, c1)"
    and 2: "clock_now clock c1 = (Inr now', c2)" and 3: "replace_store replacement c2 = (Inr u, c3)"
    and 4: "advance_generation c3 = (Inr g, c')"
    using assms(1)
    by (auto simp: refresh_locked_def try_refresh_def split: if_splits prod.splits sum.splits)
  note f = outsideD [OF 1] clock_now_frame [OF 2] outsideD [OF 3 [unfolded replace_store_def]]
  have w: "c' = c3\<lparr>sc_generation := sc_generation c3 + 1\<rparr>" using 4 advance_generation_cases [of c3] by auto
  have "fst (au_refresh_session (sc_auth c) (ev_refresh_token env) (sc_world c)) = Inr replacement"
    using outsideD(6) [OF 1] by simp
  moreover have "ss_replace (sc_store c) replacement (sc_world c2) = (Inr (), sc_world c3)" using f by simp
  ultimately show "stored (sc_world c') = Some replacement"
    using assms(2) w unfolding keeps_refreshed_def by simp
  show "sc_generation c' = sc_generation c + 1" "sc_generation c' \<noteq> sc_generation c" "sc_store c' = sc_store c"
    "sc_invalidated c' = sc_invalidated c" using f w by auto
qed

















subsection \<open>A generation names one token\<close>

text \<open>What a session has been given: a store that keeps its contract and can keep the backend's answers,
  and a backend and a clock that do not write to it.\<close>

definition session_ports :: "('w \<Rightarrow> envelope option) \<Rightarrow> 'w coordinator \<Rightarrow> bool" where
  "session_ports stored c =
     (session_contract (sc_store c) stored \<and> keeps_refreshed stored c \<and> leaves stored (sc_system_clock c) \<and>
      (\<forall>token. leaves stored (au_logout (sc_auth c) token)) \<and>
      (\<forall>token. leaves stored (au_refresh_session (sc_auth c) token)) \<and>
      (\<forall>token label. leaves stored (au_verify_email (sc_auth c) token label)) \<and>
      (\<forall>email password label. leaves stored (au_login_password (sc_auth c) email password label)))"

text \<open>What every operation leaves alone.\<close>

definition session_step :: "('w \<Rightarrow> envelope option) \<Rightarrow> 'w coordinator \<Rightarrow> 'w coordinator \<Rightarrow> bool" where
  "session_step stored c c' =
     (sc_store c' = sc_store c \<and> sc_auth c' = sc_auth c \<and> sc_system_clock c' = sc_system_clock c \<and>
      sc_generation c \<le> sc_generation c' \<and>
      (sc_generation c' = sc_generation c \<and> \<not> sc_invalidated c' \<longrightarrow>
         \<not> sc_invalidated c \<and> (stored (sc_world c') = None \<or> stored (sc_world c') = stored (sc_world c))))"

definition session_kept :: "('w \<Rightarrow> envelope option) \<Rightarrow> 'w coordinator \<Rightarrow> 'w coordinator \<Rightarrow> bool" where
  "session_kept stored c c' = (session_ports stored c \<longrightarrow> session_step stored c c')"

named_theorems session_kepts

lemma session_kept_refl [session_kepts]: "session_kept stored c c"
  by (simp add: session_kept_def session_step_def)

lemma session_ports_step: "session_ports stored c \<Longrightarrow> session_step stored c c' \<Longrightarrow> session_ports stored c'"
  unfolding session_ports_def session_step_def keeps_refreshed_def by simp

lemma session_step_trans: "session_step stored a b \<Longrightarrow> session_step stored b c \<Longrightarrow> session_step stored a c"
  by (auto simp: session_step_def)

lemma session_kept_trans:
  "session_kept stored a b \<Longrightarrow> session_kept stored b c \<Longrightarrow> session_kept stored a c"
  unfolding session_kept_def by (blast intro: session_ports_step session_step_trans)

lemma session_kept_prod [session_kepts]:
  "session_kept stored c (snd x) \<Longrightarrow> session_kept stored (snd x) (snd (f (fst x) (snd x))) \<Longrightarrow>
   session_kept stored c (snd (case x of (r, c') \<Rightarrow> f r c'))"
  using session_kept_trans by (auto simp: case_prod_beta)

lemma session_kept_sum [session_kepts]:
  "(\<And>a. session_kept stored c (snd (f a))) \<Longrightarrow> (\<And>b. session_kept stored c (snd (g b))) \<Longrightarrow>
   session_kept stored c (snd (case x of Inl a \<Rightarrow> f a | Inr b \<Rightarrow> g b))"
  by (cases x) auto

lemma session_kept_option [session_kepts]:
  "session_kept stored c (snd f) \<Longrightarrow> (\<And>b. session_kept stored c (snd (g b))) \<Longrightarrow>
   session_kept stored c (snd (case x of None \<Rightarrow> f | Some b \<Rightarrow> g b))"
  by (cases x) auto

lemma session_kept_if [session_kepts]:
  "session_kept stored c (snd a) \<Longrightarrow> session_kept stored c (snd b) \<Longrightarrow> session_kept stored c (snd (if p then a else b))"
  by simp

lemma session_kept_either [session_kepts]:
  "session_kept stored c a \<Longrightarrow> session_kept stored c b \<Longrightarrow> session_kept stored c (if p then a else b)"
  by simp

lemma session_kept_pair [session_kepts]: "session_kept stored c c' \<Longrightarrow> session_kept stored c (snd (r, c'))"
  by simp

lemma word_less_add_one: "(n :: u64) \<noteq> - 1 \<Longrightarrow> n < n + 1"
  by (metis inc_less_eq_iff order_refl)

lemma word_le_add_one: "(n :: u64) \<noteq> - 1 \<Longrightarrow> n \<le> n + 1"
  using word_less_add_one by (simp add: less_imp_le)

subsection \<open>Every operation is such a step\<close>

lemma session_kept_read [session_kepts]: "session_kept stored c (snd (read_store c))"
  by (auto simp: session_kept_def session_step_def session_ports_def read_store_def session_contract.stored_after_read)

lemma session_kept_clear [session_kepts]: "session_kept stored c (snd (clear_store c))"
  by (auto simp: session_kept_def session_step_def session_ports_def clear_store_def dest: session_contract.stored_after_clear)

lemma session_kept_clock [session_kepts]: "session_kept stored c (snd (clock_now clock c))"
  by (auto simp: session_kept_def session_step_def session_ports_def clock_now_def leaves_def split: expiry_clock.splits)

lemma session_kept_auth [session_kepts]:
  "session_kept stored c (snd (outside (au_logout (sc_auth c) token) c))"
  "session_kept stored c (snd (outside (au_refresh_session (sc_auth c) token) c))"
  "session_kept stored c (snd (outside (au_verify_email (sc_auth c) token label) c))"
  "session_kept stored c (snd (outside (au_login_password (sc_auth c) email password label) c))"
  by (simp_all add: session_kept_def session_step_def session_ports_def leaves_def)

text \<open>An operation that ends closed, or in a later generation, needs no look at the store.\<close>

lemma session_kept_closed:
  "sc_store c' = sc_store c \<Longrightarrow> sc_auth c' = sc_auth c \<Longrightarrow> sc_system_clock c' = sc_system_clock c \<Longrightarrow>
   sc_generation c \<le> sc_generation c' \<Longrightarrow> sc_invalidated c' \<or> sc_generation c \<noteq> sc_generation c' \<Longrightarrow>
   session_kept stored c c'"
  by (auto simp: session_kept_def session_step_def)

lemmas store_ops = read_store_def clear_store_def replace_store_def advance_generation_def invalidate_def
  Let_def case_prod_beta

lemma session_kept_invalidate [session_kepts]: "session_kept stored c (invalidate c)"
  by (rule session_kept_closed) (auto simp: store_ops word_le_add_one)

lemma session_kept_refresh [session_kepts]: "session_kept stored c (snd (refresh_locked env clock now c))"
  by (rule session_kept_closed)
    (auto simp: refresh_locked_def try_refresh_def store_ops clock_now_def word_le_add_one word_less_add_one
      split: sum.splits prod.splits expiry_clock.splits)

lemma session_kept_fresh [session_kepts]: "session_kept stored c (snd (fresh_envelope_locked env clock now c))"
  unfolding fresh_envelope_locked_def by (intro session_kepts)

lemma session_kept_snapshot [session_kepts]: "session_kept stored c (snd (envelope_snapshot env c))"
  unfolding envelope_snapshot_def by (intro session_kepts)

lemma session_kept_snapshot_of [session_kepts]:
  "session_kept stored c (snd x) \<Longrightarrow> session_kept stored c (snd (snapshot_of x))"
  unfolding snapshot_of_def by (intro session_kepts)

lemma session_kept_map [session_kepts]:
  "session_kept stored c (snd x) \<Longrightarrow> session_kept stored c (snd (map_prod f id x))"
  by simp

lemma session_kept_access: "session_kept stored c (snd (run_access op c))"
proof (cases op)
  case (FreshAccess clock)
  show ?thesis unfolding FreshAccess run_access.simps fresh_access_snapshot_with_clock_def by (intro session_kepts)
next
  case CurrentAccess
  show ?thesis unfolding CurrentAccess run_access.simps current_access_snapshot_def by (intro session_kepts)
next
  case (RejectedAccess rejected clock)
  show ?thesis unfolding RejectedAccess run_access.simps refresh_after_rejection_with_clock_def
    by (cases rejected; simp only: access_snapshot.case; intro session_kepts)
next
  case (EnsureFresh clock)
  show ?thesis unfolding EnsureFresh run_access.simps ensure_fresh_session_with_clock_def Let_def by (intro session_kepts)
qed

text \<open>The operations that write a session or end one.\<close>

datatype session_op =
    Access access_op
  | RejectForGood access_snapshot
  | LoginPassword string string string
  | VerifyEmail string string
  | LogOut
  | AccountDeleted auth_identity

fun run_session_op :: "session_op \<Rightarrow> 'w coordinator \<Rightarrow> access_grant \<times> 'w coordinator" where
  "run_session_op (Access op) c = run_access op c"
| "run_session_op (RejectForGood rejected) c = (NoGrant, snd (invalidate_if_current rejected c))"
| "run_session_op (LoginPassword email password label) c = (NoGrant, snd (login_password email password label c))"
| "run_session_op (VerifyEmail token label) c = (NoGrant, snd (verify_email token label c))"
| "run_session_op LogOut c = (NoGrant, snd (session_logout c))"
| "run_session_op (AccountDeleted identity) c = (NoGrant, snd (clear_after_account_delete identity c))"

lemma session_kept_commit [session_kepts]: "session_kept stored c (snd (commit_interactive_session env c))"
  by (rule session_kept_closed)
    (auto simp: commit_interactive_session_def store_ops map_ok_def word_le_add_one word_less_add_one
      split: sum.splits prod.splits)

lemma session_kept_answer [session_kepts]:
  "session_kept stored c (snd x) \<Longrightarrow> session_kept stored c (snd (commit_answer x))"
  unfolding commit_answer_def by (intro session_kepts)

lemma session_kept_logout: "session_kept stored c (snd (session_logout c))"
  by (rule session_kept_closed)
    (auto simp: session_logout_def store_ops word_le_add_one word_less_add_one split: sum.splits option.splits)

text \<open>The flag is cleared after the generation has been advanced.\<close>

lemma session_kept_reopened [session_kepts]:
  "session_kept stored c (snd (case advance_generation c of (Inl err, c') \<Rightarrow> (Inl err, c')
     | (Inr _, c') \<Rightarrow> (Inr (), c'\<lparr>sc_invalidated := False\<rparr>)))"
  by (rule session_kept_closed) (auto simp: store_ops word_le_add_one)

lemma session_kept_account_delete: "session_kept stored c (snd (clear_after_account_delete identity c))"
proof -
  have current: "session_kept stored c (snd (current_access_snapshot c))"
    using session_kept_access [of stored c CurrentAccess] by simp
  show ?thesis unfolding clear_after_account_delete_def
    by (intro session_kepts current) (simp split: access_snapshot.split, intro conjI allI impI session_kepts)
qed

lemma session_kept_op: "session_kept stored c (snd (run_session_op op c))"
proof (cases op)
  case (RejectForGood rejected)
  show ?thesis unfolding RejectForGood run_session_op.simps invalidate_if_current_def snd_conv
    by (cases rejected; simp only: access_snapshot.case; intro session_kepts)
next
  case (LoginPassword email password label)
  show ?thesis unfolding LoginPassword run_session_op.simps login_password_def snd_conv by (intro session_kepts)
next
  case (VerifyEmail token label)
  show ?thesis unfolding VerifyEmail run_session_op.simps verify_email_def snd_conv by (intro session_kepts)
qed (simp_all add: session_kept_access session_kept_logout session_kept_account_delete)

fun run_session_ops :: "session_op list \<Rightarrow> 'w coordinator \<Rightarrow> access_grant list \<times> 'w coordinator" where
  "run_session_ops [] c = ([], c)"
| "run_session_ops (op # ops) c =
     (let (grant, c) = run_session_op op c; (grants, c) = run_session_ops ops c in (grant # grants, c))"

text \<open>An authenticated snapshot is of the session that is stored, in the current generation.\<close>

definition session_granted :: "('w \<Rightarrow> envelope option) \<Rightarrow> access_snapshot result \<Rightarrow> 'w coordinator \<Rightarrow> bool" where
  "session_granted stored r c =
     (\<forall>token generation identity. r = Inr (AuthenticatedAccess token generation identity) \<longrightarrow>
        generation = sc_generation c \<and> \<not> sc_invalidated c \<and>
        (\<exists>env. stored (sc_world c) = Some env \<and> token = ev_access_token env \<and> identity = envelope_identity env))"

lemma session_granted_none [intro, simp]:
  "session_granted stored (Inl err) c" "session_granted stored (Inr AnonymousAccess) c"
  by (simp_all add: session_granted_def)

lemma snapshot_granted:
  assumes "envelope_snapshot env c = (r, c')" "stored (sc_world c) = Some env" "\<not> sc_invalidated c"
  shows "session_granted stored r c'"
  using assms by (auto simp: envelope_snapshot_def session_granted_def split: if_splits)

lemma snapshot_of_granted:
  assumes "snapshot_of x = (r, c')"
    "\<And>env. fst x = Inr env \<Longrightarrow> stored (sc_world (snd x)) = Some env \<and> \<not> sc_invalidated (snd x)"
  shows "session_granted stored r c'"
proof (cases "fst x")
  case (Inl err)
  then show ?thesis using assms(1) by (auto simp: snapshot_of_def split: prod.splits)
next
  case (Inr env)
  then show ?thesis using assms(1) snapshot_granted [of env "snd x" r c' stored] assms(2)
    by (simp add: snapshot_of_def case_prod_beta)
qed

lemma refresh_granted:
  assumes "snapshot_of (refresh_locked env clock now c) = (r, c')"
    "\<not> sc_invalidated c" "keeps_refreshed stored c"
  shows "session_granted stored r c'"
  by (rule snapshot_of_granted [OF assms(1)])
    (metis assms(2,3) prod.collapse refresh_locked_ok(1,5))

lemma fresh_granted:
  assumes "snapshot_of (fresh_envelope_locked env clock now c) = (r, c')"
    "stored (sc_world c) = Some env" "\<not> sc_invalidated c" "keeps_refreshed stored c"
  shows "session_granted stored r c'"
proof (cases "now < ev_access_token_expires_at env")
  case True
  then show ?thesis using assms snapshot_of_granted [of "(Inr env, c)" r c' stored]
    by (simp add: fresh_envelope_locked_def)
next
  case False
  then show ?thesis using assms refresh_granted by (simp add: fresh_envelope_locked_def)
qed

lemma fresh_access_granted:
  assumes "fresh_access_snapshot_with_clock clock c = (r, c')" "session_ports stored c"
  shows "session_granted stored r c'"
proof -
  have st: "session_contract (sc_store c) stored" using assms(2) by (simp add: session_ports_def)
  obtain re c1 where 1: "read_store c = (re, c1)" by (cases "read_store c")
  note f1 = read_store_frame [OF 1] read_store_stored [OF st 1]
  obtain rn c2 where 2: "clock_now clock c1 = (rn, c2)" by (cases "clock_now clock c1")
  note f2 = clock_now_frame [OF 2] clock_now_leaves [OF _ 2, of stored]
  have "keeps_refreshed stored c2" using assms(2) f1 f2 by (simp add: session_ports_def keeps_refreshed_def)
  then show ?thesis using assms f1 f2
    by (auto simp: fresh_access_snapshot_with_clock_def 1 2 session_ports_def
        split: if_splits sum.splits option.splits intro: fresh_granted)
qed

lemma current_access_granted:
  assumes "current_access_snapshot c = (r, c')" "session_ports stored c"
  shows "session_granted stored r c'"
proof -
  have st: "session_contract (sc_store c) stored" using assms(2) by (simp add: session_ports_def)
  obtain re c1 where 1: "read_store c = (re, c1)" by (cases "read_store c")
  note f1 = read_store_frame [OF 1] read_store_stored [OF st 1]
  show ?thesis using assms f1
    by (auto simp: current_access_snapshot_def 1 split: if_splits sum.splits option.splits intro: snapshot_granted)
qed

lemma rejection_granted:
  assumes "refresh_after_rejection_with_clock rejected clock c = (r, c')" "session_ports stored c"
  shows "session_granted stored r c'"
proof -
  have st: "session_contract (sc_store c) stored" using assms(2) by (simp add: session_ports_def)
  obtain rn c1 where 1: "clock_now clock c = (rn, c1)" by (cases "clock_now clock c")
  note f1 = clock_now_frame [OF 1] clock_now_leaves [OF _ 1, of stored]
  obtain re c2 where 2: "read_store c1 = (re, c2)" by (cases "read_store c1")
  have st1: "session_contract (sc_store c1) stored" using st f1 by simp
  note f2 = read_store_frame [OF 2] read_store_stored [OF st1 2]
  have "keeps_refreshed stored c2" using assms(2) f1 f2 by (simp add: session_ports_def keeps_refreshed_def)
  then show ?thesis using assms f1 f2
    by (auto simp: refresh_after_rejection_with_clock_def 1 2 session_ports_def
        split: if_splits sum.splits option.splits access_snapshot.splits intro: fresh_granted refresh_granted)
qed

text \<open>The same of the tokens in a run.\<close>

definition issued :: "('w \<Rightarrow> envelope option) \<Rightarrow> access_grant \<Rightarrow> 'w coordinator \<Rightarrow> bool" where
  "issued stored grant c =
     (\<forall>token generation. grant = TokenGrant token generation \<longrightarrow>
        generation = sc_generation c \<and> \<not> sc_invalidated c \<and>
        (\<exists>env. stored (sc_world c) = Some env \<and> token = ev_access_token env))"

lemma granted_issued:
  assumes "map_prod token_grant id x = (grant, c')" "\<And>r. x = (r, c') \<Longrightarrow> session_granted stored r c'"
  shows "issued stored grant c'"
proof -
  obtain r where x: "x = (r, c')" "grant = token_grant r" using assms(1) by (cases x) auto
  from assms(2) [OF x(1)] show ?thesis
    unfolding x(2) by (cases r rule: token_grant.cases) (auto simp: issued_def session_granted_def)
qed

lemma access_issued:
  assumes "run_access op c = (grant, c')" "session_ports stored c"
  shows "issued stored grant c'"
proof (cases op)
  case (EnsureFresh clock)
  have "grant = case_sum (\<lambda>_. NoGrant) SessionGrant (fst (ensure_fresh_session_with_clock clock c))"
    using assms(1) EnsureFresh by (cases "ensure_fresh_session_with_clock clock c") auto
  moreover obtain x where "fst (ensure_fresh_session_with_clock clock c) = x" by blast
  ultimately show ?thesis by (cases x) (simp_all add: issued_def)
qed (use assms in \<open>auto intro: granted_issued fresh_access_granted current_access_granted rejection_granted\<close>)

lemma session_op_issued:
  assumes "run_session_op op c = (grant, c')" "session_ports stored c"
  shows "issued stored grant c'"
proof (cases op)
  case (Access access)
  then show ?thesis using assms access_issued by auto
qed (use assms in \<open>auto simp: issued_def\<close>)

text \<open>A set of issued tokens fits a coordinator.\<close>

definition log_fits :: "('w \<Rightarrow> envelope option) \<Rightarrow> (u64 \<times> string) set \<Rightarrow> 'w coordinator \<Rightarrow> bool" where
  "log_fits stored tokens c =
     (\<forall>(generation, token)\<in>tokens. generation \<le> sc_generation c \<and>
        (generation = sc_generation c \<and> \<not> sc_invalidated c \<longrightarrow>
           (\<forall>env. stored (sc_world c) = Some env \<longrightarrow> token = ev_access_token env)))"

lemma log_fits_step:
  assumes "log_fits stored tokens c" "session_step stored c c'" "issued stored grant c'"
  shows "log_fits stored (tokens \<union> {(g, t). grant = TokenGrant t g}) c'"
    "grant = TokenGrant t g \<Longrightarrow> (g, t') \<in> tokens \<Longrightarrow> t' = t"
  using assms by (fastforce simp: log_fits_def session_step_def issued_def)+

lemma session_log:
  assumes "run_session_ops ops c = (grants, c')" "session_ports stored c" "log_fits stored tokens c"
    and "\<And>g t t'. (g, t) \<in> tokens \<Longrightarrow> (g, t') \<in> tokens \<Longrightarrow> t = t'"
    and "(g, t) \<in> tokens \<or> TokenGrant t g \<in> set grants" "(g, t') \<in> tokens \<or> TokenGrant t' g \<in> set grants"
  shows "t = t'"
  using assms
proof (induction ops arbitrary: c grants tokens)
  case Nil
  then show ?case by simp
next
  case (Cons op ops)
  obtain r c1 where 1: "run_session_op op c = (r, c1)" by (cases "run_session_op op c")
  obtain rs c2 where 2: "run_session_ops ops c1 = (rs, c2)" by (cases "run_session_ops ops c1")
  have grants: "grants = r # rs" "run_session_ops ops c1 = (rs, c')" using Cons.prems(1) 1 2 by auto
  have step: "session_step stored c c1"
    using session_kept_op [of stored c op] Cons.prems(2) 1 by (simp add: session_kept_def)
  have ports: "session_ports stored c1" by (rule session_ports_step [OF Cons.prems(2) step])
  note fits = log_fits_step [OF Cons.prems(3) step session_op_issued [OF 1 Cons.prems(2)]]
  let ?tokens = "tokens \<union> {(g, t). r = TokenGrant t g}"
  show ?case
  proof (rule Cons.IH [OF grants(2) ports fits(1)])
    show "t = t'" if "(g, t) \<in> ?tokens" "(g, t') \<in> ?tokens" for g t t'
      using that Cons.prems(4) [of g t t'] fits(2) [of t g t'] fits(2) [of t' g t] by auto
  qed (use Cons.prems(5,6) grants(1) in auto)
qed

text \<open>C18: a generation names one token. Over any sequence of logins, logouts, refreshes, rejections,
  account deletions and requests, two tasks that were granted tokens under the same generation hold the same
  token; so comparing generations, as a rejected task does, is comparing tokens. The generation
  counter never wraps: when it is exhausted the session stays closed.\<close>

theorem generation_names_token:
  assumes "session_ports stored c" "run_session_ops ops c = (grants, c')"
    and "TokenGrant t g \<in> set grants" "TokenGrant t' g \<in> set grants"
  shows "t = t'"
  by (rule session_log [OF assms(2,1), of "{}"]) (use assms(3,4) in \<open>simp_all add: log_fits_def\<close>)

lemma sample_ports: "session_ports fst (sample_coordinator answer)"
proof -
  have "keeps_refreshed fst (sample_coordinator answer)" by (auto simp: keeps_refreshed_def sample_defs)
  then show ?thesis
    by (simp add: session_ports_def sample_coordinator_def coordinator_new_def process.session_contract_axioms
        leaves_def sample_auth_def case_prod_beta)
qed

text \<open>The expired token is refreshed, and a second task asks for the current one.\<close>

theorem generation_names_token_witness:
  "\<exists>t t'. fst (run_session_ops [Access (FreshAccess SystemClock), Access CurrentAccess]
       (sample_coordinator (Ok (sample_envelope ''new'' 9000)))) = [TokenGrant t 1, TokenGrant t' 1] \<and> t = t'"
proof -
  let ?c = "sample_coordinator (Ok (sample_envelope ''new'' 9000))"
  let ?ops = "[Access (FreshAccess SystemClock), Access CurrentAccess]"
  have 1: "session_ports fst ?c" by (rule sample_ports)
  obtain t t' c' where 2: "run_session_ops ?ops ?c = ([TokenGrant t 1, TokenGrant t' 1], c')"
    by (simp add: fresh_access_snapshot_with_clock_def clock_now_def read_store_def outside_def sample_defs snapshot_of_def
        fresh_envelope_locked_def refresh_locked_def try_refresh_def replace_store_def advance_generation_def
        envelope_snapshot_def current_access_snapshot_def)
  show ?thesis using generation_names_token [OF 1 2, of t 1 t'] 2 by auto
qed

end
