(* ===== verification/Requests.thy ===== *)
theory Requests
  imports Rotation
begin

text \<open>
  How the Canopy adapter sends one RPC (\<open>networking/canopy/request.rs\<close>, \<open>operation.rs\<close>,
  \<open>error.rs\<close>): access material by operation, one refresh and one retry after a rejection, and
  the identity a protected request is bound to. The send is a parameter that may do anything to
  the coordinator, as other tasks run while a response is awaited. \<open>ex_sent\<close> records
  what was handed to it, and the coordinator at that moment. A coordinator always carries the world; \<open>present\<close> says that the
  caller passed one.
\<close>

subsection \<open>Operations\<close>

datatype retry_class = ReadClass | IdempotentMutation | NonReplayableMutation | RefreshClass

datatype auth_requirement = AnonymousAuth | OptionalAccess | AccessAuthenticated | RefreshCredential

datatype (plugins only: size) canopy_operation =
    Browse | Search | GetMedia | ResolvePlayback | GetDiscoveryFeed | GetForYouFeed | GetRecommendations
  | UpsertProfile | GetProfile | UpdateProfile | DeleteProfile | GetPreferences | UpdatePreferences
  | GetHistorySettings | UpdateHistorySettings | RecordPlayback | ListHistory | DeleteHistoryEntry | ClearHistory
  | SaveTrack | RemoveSavedTrack | ListSavedTracks | LikeTrack | UnlikeTrack | ListLikedTracks
  | CreatePlaylist | GetPlaylist | UpdatePlaylist | DeletePlaylist | ListPlaylists | AddPlaylistTrack
  | RemovePlaylistTrack | ReorderPlaylistTracks | ListPlaylistTracks
  | RegisterPassword | ResendVerification | VerifyEmailOperation | LoginPasswordOperation | RequestPasswordReset
  | CompletePasswordReset | ChangePassword | BeginGoogleLogin | CompleteGoogleLogin | LinkGoogle | UnlinkGoogle
  | RefreshSession | Logout | LogoutAll | ListSessions | RevokeSession | GetAccount | DeleteAccount | GetStatus

definition operation_retry_class :: "canopy_operation \<Rightarrow> retry_class" where
  "operation_retry_class operation =
     (if operation \<in> {Browse, Search, GetMedia, ResolvePlayback, GetDiscoveryFeed, GetForYouFeed,
          GetRecommendations, GetProfile, GetPreferences, GetHistorySettings, ListHistory, ListSavedTracks,
          ListLikedTracks, GetPlaylist, ListPlaylists, ListPlaylistTracks, ListSessions, GetAccount, GetStatus}
      then ReadClass
      else if operation \<in> {UpsertProfile, UpdatePreferences, UpdateHistorySettings, DeleteHistoryEntry,
          ClearHistory, SaveTrack, RemoveSavedTrack, LikeTrack, UnlikeTrack, DeletePlaylist, RemovePlaylistTrack,
          Logout, RevokeSession}
      then IdempotentMutation
      else if operation = RefreshSession then RefreshClass
      else NonReplayableMutation)"

definition operation_auth_requirement :: "canopy_operation \<Rightarrow> auth_requirement" where
  "operation_auth_requirement operation =
     (if operation \<in> {Browse, Search, GetMedia, ResolvePlayback} then OptionalAccess
      else if operation \<in> {RegisterPassword, ResendVerification, VerifyEmailOperation, LoginPasswordOperation,
          RequestPasswordReset, CompletePasswordReset, BeginGoogleLogin, CompleteGoogleLogin, GetStatus}
      then AnonymousAuth
      else if operation = RefreshSession then RefreshCredential
      else AccessAuthenticated)"

subsection \<open>Status codes\<close>

datatype rpc_code =
    CodeOk | CodeCancelled | CodeUnknown | CodeInvalidArgument | CodeDeadlineExceeded | CodeNotFound
  | CodeAlreadyExists | CodePermissionDenied | CodeResourceExhausted | CodeFailedPrecondition | CodeAborted
  | CodeOutOfRange | CodeUnimplemented | CodeInternal | CodeUnavailable | CodeDataLoss | CodeUnauthenticated

record rpc_status =
  st_code :: rpc_code
  st_message :: string

definition rate_limited :: "u64 option \<Rightarrow> engine_error" where
  "rate_limited retry_after =
     (engine_error_new RateLimited ''backend rate limit exceeded'' False)\<lparr>retry_after_millis := retry_after\<rparr>"

definition typed :: "engine_error_type \<Rightarrow> string \<Rightarrow> engine_error" where
  "typed ty msg = engine_error_new ty msg False"

fun map_code :: "rpc_code \<Rightarrow> engine_error" where
  "map_code CodeInvalidArgument = typed InvalidInput ''backend rejected invalid input''"
| "map_code CodeOutOfRange = typed InvalidInput ''backend rejected invalid input''"
| "map_code CodeUnauthenticated = typed LoginRequiredError ''backend authentication is required''"
| "map_code CodePermissionDenied = typed Forbidden ''backend access is forbidden''"
| "map_code CodeNotFound = typed NotFound ''backend resource was not found''"
| "map_code CodeAlreadyExists = typed AlreadyExists ''backend resource already exists''"
| "map_code CodeFailedPrecondition = typed FailedPrecondition ''backend precondition failed''"
| "map_code CodeAborted = typed Conflict ''backend operation conflicted''"
| "map_code CodeResourceExhausted = rate_limited None"
| "map_code CodeUnavailable = typed ServiceUnavailableError ''backend service is unavailable''"
| "map_code CodeCancelled = typed Transport ''backend request did not complete''"
| "map_code CodeDeadlineExceeded = typed Transport ''backend request did not complete''"
| "map_code CodeUnknown = typed BackendFault ''backend request failed''"
| "map_code CodeUnimplemented = typed BackendFault ''backend request failed''"
| "map_code CodeInternal = typed BackendFault ''backend request failed''"
| "map_code CodeDataLoss = typed BackendFault ''backend request failed''"
| "map_code CodeOk = typed BackendFault ''backend request failed''"

definition map_status :: "rpc_status \<Rightarrow> engine_error" where
  "map_status status = map_code (st_code status)"

definition map_operation_status :: "rpc_status \<Rightarrow> bool \<Rightarrow> engine_error" where
  "map_operation_status status uses_explicit_access =
     (if uses_explicit_access \<and> st_code status = CodeUnauthenticated
      then engine_error_new AuthExpired ''backend access credential expired'' False
      else map_status status)"

subsection \<open>A request and its identity\<close>

text \<open>tonic's part: the encoded timeout, and which strings may be a metadata value.\<close>

record tonic =
  tn_rpc_timeout :: string
  tn_valid_metadata :: "string \<Rightarrow> bool"

record 'm rpc_request =
  rq_metadata :: "string \<rightharpoonup> string"
  rq_message :: 'm

definition invalid_authorization_metadata :: engine_error where
  "invalid_authorization_metadata =
     engine_error_new InvalidInput ''access credential cannot be encoded as authorization metadata'' False"

definition authorized_request :: "tonic \<Rightarrow> 'm rpc_request \<Rightarrow> access_snapshot \<Rightarrow> 'm rpc_request result" where
  "authorized_request tonic request snapshot =
     (let request = (if rq_metadata request ''grpc-timeout'' = None
             then request\<lparr>rq_metadata := (rq_metadata request)(''grpc-timeout'' \<mapsto> tn_rpc_timeout tonic)\<rparr> else request)
      in case snapshot of
           AnonymousAccess \<Rightarrow> Ok request
         | AuthenticatedAccess token _ _ \<Rightarrow>
             (if tn_valid_metadata tonic (''Bearer '' @ token)
              then Ok (request\<lparr>rq_metadata := (rq_metadata request)(''authorization'' \<mapsto> ''Bearer '' @ token)\<rparr>)
              else Err invalid_authorization_metadata))"

definition identity_mismatch :: engine_error where
  "identity_mismatch =
     engine_error_new LoginRequiredError ''protected request identity no longer matches the current session'' False"

definition verify_bound_identity :: "access_snapshot \<Rightarrow> auth_identity option \<Rightarrow> unit result" where
  "verify_bound_identity snapshot expected =
     (case expected of
        None \<Rightarrow> Ok ()
      | Some expected \<Rightarrow>
          (case snapshot of
             AuthenticatedAccess _ _ identity \<Rightarrow> if identity = expected then Ok () else Err identity_mismatch
           | AnonymousAccess \<Rightarrow> Err identity_mismatch))"

subsection \<open>One RPC\<close>

text \<open>The coordinator, and the requests handed to the transport with the coordinator of that moment,
  oldest first.\<close>

record ('w, 'm) exchange =
  ex_coordinator :: "'w coordinator"
  ex_sent :: "('m rpc_request \<times> 'w coordinator) list"

text \<open>The transport: the response or status, and whatever happened meanwhile.\<close>

type_synonym ('w, 'm, 'r) transport = "'m rpc_request \<Rightarrow> 'w coordinator \<Rightarrow> (rpc_status + 'r) \<times> 'w coordinator"

definition with_coordinator ::
  "('w coordinator \<Rightarrow> 'a \<times> 'w coordinator) \<Rightarrow> ('w, 'm) exchange \<Rightarrow> 'a \<times> ('w, 'm) exchange" where
  "with_coordinator f ex = (let (r, c) = f (ex_coordinator ex) in (r, ex\<lparr>ex_coordinator := c\<rparr>))"

definition send_request ::
  "('w, 'm, 'r) transport \<Rightarrow> 'm rpc_request \<Rightarrow> ('w, 'm) exchange \<Rightarrow> (rpc_status + 'r) \<times> ('w, 'm) exchange" where
  "send_request execute request ex =
     (let (r, c) = execute request (ex_coordinator ex)
      in (r, ex\<lparr>ex_coordinator := c, ex_sent := ex_sent ex @ [(request, ex_coordinator ex)]\<rparr>))"

definition revalidate_bound_identity ::
  "bool \<Rightarrow> auth_identity option \<Rightarrow> ('w, 'm) exchange \<Rightarrow> unit result \<times> ('w, 'm) exchange" where
  "revalidate_bound_identity present expected ex =
     (if \<not> present \<or> expected = None then (Ok (), ex)
      else case with_coordinator current_access_snapshot ex of
             (Inl err, ex) \<Rightarrow> (Err err, ex)
           | (Inr snapshot, ex) \<Rightarrow> (verify_bound_identity snapshot expected, ex))"

definition request_access_snapshot ::
  "bool \<Rightarrow> expiry_clock \<Rightarrow> ('w, 'm) exchange \<Rightarrow> access_snapshot result \<times> ('w, 'm) exchange" where
  "request_access_snapshot present clock ex =
     (if present then with_coordinator (fresh_access_snapshot_with_clock clock) ex else (Ok AnonymousAccess, ex))"

definition missing_session_coordinator :: engine_error where
  "missing_session_coordinator =
     engine_error_new FailedPrecondition ''authenticated Canopy operation requires a session coordinator'' False"

definition missing_authenticated_session :: engine_error where
  "missing_authenticated_session =
     engine_error_new LoginRequiredError ''authenticated Canopy operation requires a current session'' False"

text \<open>The access material of the first attempt.\<close>

definition first_snapshot ::
  "bool \<Rightarrow> canopy_operation \<Rightarrow> expiry_clock \<Rightarrow> bool \<Rightarrow> ('w, 'm) exchange \<Rightarrow> access_snapshot result \<times> ('w, 'm) exchange" where
  "first_snapshot present operation clock has_explicit_access ex =
     (case operation_auth_requirement operation of
        AnonymousAuth \<Rightarrow> (Ok AnonymousAccess, ex)
      | RefreshCredential \<Rightarrow> (Ok AnonymousAccess, ex)
      | OptionalAccess \<Rightarrow> request_access_snapshot present clock ex
      | AccessAuthenticated \<Rightarrow>
          (if present then request_access_snapshot present clock ex
           else if has_explicit_access then (Ok AnonymousAccess, ex)
           else (Err missing_session_coordinator, ex)))"

text \<open>The second attempt, after the refresh.\<close>

definition retry_request ::
  "tonic \<Rightarrow> auth_identity option \<Rightarrow> canopy_operation \<Rightarrow> 'm rpc_request \<Rightarrow> ('w, 'm, 'r) transport
     \<Rightarrow> access_snapshot \<Rightarrow> ('w, 'm) exchange \<Rightarrow> 'r result \<times> ('w, 'm) exchange" where
  "retry_request tonic expected operation request execute replacement ex =
     (case verify_bound_identity replacement expected of
        Inl err \<Rightarrow> (Err err, ex)
      | Inr _ \<Rightarrow>
          (case authorized_request tonic request replacement of
             Inl err \<Rightarrow> (Err err, ex)
           | Inr authorized \<Rightarrow>
               (let (retry, ex) = send_request execute authorized ex
                in case revalidate_bound_identity True expected ex of
                     (Inl err, ex) \<Rightarrow> (Err err, ex)
                   | (Inr _, ex) \<Rightarrow>
                       (case retry of
                          Inr response \<Rightarrow> (Ok response, ex)
                        | Inl status \<Rightarrow>
                            (let ex = (if st_code status = CodeUnauthenticated \<and>
                                          operation_auth_requirement operation = AccessAuthenticated
                                       then snd (with_coordinator (invalidate_if_current replacement) ex) else ex)
                             in (Err (map_operation_status status False), ex))))))"

text \<open>None is the panic of \<open>coordinator.expect\<close>.\<close>

definition execute_with_auth_with_clock ::
  "tonic \<Rightarrow> bool \<Rightarrow> auth_identity option \<Rightarrow> canopy_operation \<Rightarrow> expiry_clock \<Rightarrow> 'm rpc_request
     \<Rightarrow> ('w, 'm, 'r) transport \<Rightarrow> ('w, 'm) exchange \<Rightarrow> ('r result \<times> ('w, 'm) exchange) option" where
  "execute_with_auth_with_clock tonic present expected operation clock request execute ex =
     (let has_explicit_access = rq_metadata request ''authorization'' \<noteq> None;
          uses_explicit_access =
            operation_auth_requirement operation = AccessAuthenticated \<and> \<not> present \<and> has_explicit_access
      in case first_snapshot present operation clock has_explicit_access ex of
           (Inl err, ex) \<Rightarrow> Some (Err err, ex)
         | (Inr snapshot, ex) \<Rightarrow>
             (if operation_auth_requirement operation = AccessAuthenticated \<and> snapshot = AnonymousAccess \<and> \<not> uses_explicit_access
              then Some (Err missing_authenticated_session, ex)
              else case verify_bound_identity snapshot expected of
                Inl err \<Rightarrow> Some (Err err, ex)
              | Inr _ \<Rightarrow>
                  (case authorized_request tonic request snapshot of
                     Inl err \<Rightarrow> Some (Err err, ex)
                   | Inr authorized \<Rightarrow>
                       (let (first, ex) = send_request execute authorized ex
                        in case revalidate_bound_identity present expected ex of
                             (Inl err, ex) \<Rightarrow> Some (Err err, ex)
                           | (Inr _, ex) \<Rightarrow>
                               (case first of
                                  Inr response \<Rightarrow> Some (Ok response, ex)
                                | Inl status \<Rightarrow>
                                    (if st_code status \<noteq> CodeUnauthenticated \<or>
                                        operation_retry_class operation \<notin> {ReadClass, IdempotentMutation} \<or>
                                        snapshot = AnonymousAccess
                                     then Some (Err (map_operation_status status uses_explicit_access), ex)
                                     else if \<not> present then None
                                     else case with_coordinator (refresh_after_rejection_with_clock snapshot clock) ex of
                                            (Inl err, ex) \<Rightarrow> Some (Err err, ex)
                                          | (Inr replacement, ex) \<Rightarrow>
                                              Some (retry_request tonic expected operation request execute replacement ex)))))))"

text \<open>\<open>execute\<close> and \<open>execute_with_bound_auth\<close>.\<close>

definition execute ::
  "tonic \<Rightarrow> bool \<Rightarrow> canopy_operation \<Rightarrow> 'm rpc_request \<Rightarrow> ('w, 'm, 'r) transport \<Rightarrow> ('w, 'm) exchange
     \<Rightarrow> ('r result \<times> ('w, 'm) exchange) option" where
  "execute tonic present operation request transport ex =
     execute_with_auth_with_clock tonic present None operation SystemClock request transport ex"

definition execute_with_bound_auth ::
  "tonic \<Rightarrow> auth_identity \<Rightarrow> canopy_operation \<Rightarrow> 'm rpc_request \<Rightarrow> ('w, 'm, 'r) transport \<Rightarrow> ('w, 'm) exchange
     \<Rightarrow> ('r result \<times> ('w, 'm) exchange) option" where
  "execute_with_bound_auth tonic identity operation request transport ex =
     execute_with_auth_with_clock tonic True (Some identity) operation SystemClock request transport ex"

end
