(* ===== verification/RequestLaws.thy ===== *)
theory RequestLaws
  imports Requests
begin

text \<open>
  Laws of one RPC: how often it is sent, and whose token it carries.
\<close>

subsection \<open>How often a request is sent\<close>

lemma with_coordinator_sent:
  "with_coordinator f ex = (r, ex') \<Longrightarrow> ex_sent ex' = ex_sent ex \<and> f (ex_coordinator ex) = (r, ex_coordinator ex')"
  by (auto simp: with_coordinator_def split: prod.splits)

lemma revalidate_sent: "revalidate_bound_identity present expected ex = (r, ex') \<Longrightarrow> ex_sent ex' = ex_sent ex"
  by (auto simp: revalidate_bound_identity_def dest: with_coordinator_sent split: if_splits prod.splits sum.splits)

lemma send_sent:
  "send_request transport request ex = (r, ex') \<Longrightarrow>
     ex_sent ex' = ex_sent ex @ [(request, ex_coordinator ex)] \<and> transport request (ex_coordinator ex) = (r, ex_coordinator ex')"
  by (auto simp: send_request_def split: prod.splits)

lemma first_snapshot_sent:
  "first_snapshot present operation clock explicit ex = (r, ex') \<Longrightarrow> ex_sent ex' = ex_sent ex"
  by (auto simp: first_snapshot_def request_access_snapshot_def dest: with_coordinator_sent
      split: auth_requirement.splits if_splits)

lemma first_snapshot_anonymous:
  "first_snapshot False operation clock explicit ex = (Inr snapshot, ex') \<Longrightarrow> snapshot = AnonymousAccess"
  by (auto simp: first_snapshot_def request_access_snapshot_def split: auth_requirement.splits if_splits)

lemma retry_sent:
  assumes "retry_request tonic expected operation request transport replacement ex = (r, ex')"
  shows "\<exists>sent. ex_sent ex' = ex_sent ex @ sent \<and> length sent \<le> 1"
  using assms
  by (auto simp: retry_request_def Let_def with_coordinator_def dest!: send_sent revalidate_sent
      split: sum.splits prod.splits if_splits)

text \<open>The ways an RPC can go: refused before it is sent, sent once, rejected with a failing refresh,
  or sent again.\<close>

lemma execute_cases:
  fixes transport :: "('w, 'm, 'r) transport" and ex :: "('w, 'm) exchange"
  obtains (refused) rs ex1 err where
      "first_snapshot present operation clock (rq_metadata request ''authorization'' \<noteq> None) ex = (rs, ex1)"
      "execute_with_auth_with_clock tonic present expected operation clock request transport ex = Some (Inl err, ex1)"
  | (once) snapshot ex1 authorized first ex2 rv ex3 r where
      "first_snapshot present operation clock (rq_metadata request ''authorization'' \<noteq> None) ex = (Inr snapshot, ex1)"
      "verify_bound_identity snapshot expected = Inr ()" "authorized_request tonic request snapshot = Inr authorized"
      "send_request transport authorized ex1 = (first, ex2)" "revalidate_bound_identity present expected ex2 = (rv, ex3)"
      "execute_with_auth_with_clock tonic present expected operation clock request transport ex = Some (r, ex3)"
      "is_ok r \<Longrightarrow> rv = Inr ()"
  | (unrefreshed) snapshot ex1 authorized first ex2 ex3 err ex4 where
      "first_snapshot present operation clock (rq_metadata request ''authorization'' \<noteq> None) ex = (Inr snapshot, ex1)"
      "verify_bound_identity snapshot expected = Inr ()" "authorized_request tonic request snapshot = Inr authorized"
      "send_request transport authorized ex1 = (first, ex2)" "revalidate_bound_identity present expected ex2 = (Inr (), ex3)"
      "with_coordinator (refresh_after_rejection_with_clock snapshot clock) ex3 = (Inl err, ex4)"
      "execute_with_auth_with_clock tonic present expected operation clock request transport ex = Some (Inl err, ex4)"
  | (twice) snapshot ex1 authorized status ex2 ex3 replacement ex4 where
      "first_snapshot present operation clock (rq_metadata request ''authorization'' \<noteq> None) ex = (Inr snapshot, ex1)"
      "verify_bound_identity snapshot expected = Inr ()" "authorized_request tonic request snapshot = Inr authorized"
      "send_request transport authorized ex1 = (Inl status, ex2)" "revalidate_bound_identity present expected ex2 = (Inr (), ex3)"
      "operation_retry_class operation \<in> {ReadClass, IdempotentMutation}" "st_code status = CodeUnauthenticated" present
      "with_coordinator (refresh_after_rejection_with_clock snapshot clock) ex3 = (Inr replacement, ex4)"
      "execute_with_auth_with_clock tonic present expected operation clock request transport ex =
         Some (retry_request tonic expected operation request transport replacement ex4)"
proof -
  let ?run = "execute_with_auth_with_clock tonic present expected operation clock request transport ex"
  obtain rs ex1 where 1: "first_snapshot present operation clock (rq_metadata request ''authorization'' \<noteq> None) ex = (rs, ex1)"
    by (cases "first_snapshot present operation clock (rq_metadata request ''authorization'' \<noteq> None) ex")
  note run = execute_with_auth_with_clock_def [of tonic present expected operation clock request transport ex, unfolded Let_def 1]
  show ?thesis
  proof (cases "\<exists>snapshot authorized. rs = Inr snapshot \<and> verify_bound_identity snapshot expected = Inr () \<and>
      authorized_request tonic request snapshot = Inr authorized \<and>
      \<not> (operation_auth_requirement operation = AccessAuthenticated \<and> snapshot = AnonymousAccess \<and>
         \<not> (\<not> present \<and> rq_metadata request ''authorization'' \<noteq> None))")
    case False
    have "\<exists>err. ?run = Some (Inl err, ex1)"
      using False unfolding run by (auto split: sum.splits if_splits)
    then show ?thesis using refused [OF 1] by blast
  next
    case True
    then obtain snapshot authorized where rs: "rs = Inr snapshot" and v: "verify_bound_identity snapshot expected = Inr ()"
      and au: "authorized_request tonic request snapshot = Inr authorized"
      and req: "\<not> (operation_auth_requirement operation = AccessAuthenticated \<and> snapshot = AnonymousAccess \<and>
         \<not> (\<not> present \<and> rq_metadata request ''authorization'' \<noteq> None))" by blast
    note 1 = 1 [unfolded rs]
    obtain first ex2 where 2: "send_request transport authorized ex1 = (first, ex2)"
      by (cases "send_request transport authorized ex1")
    obtain rv ex3 where 3: "revalidate_bound_identity present expected ex2 = (rv, ex3)"
      by (cases "revalidate_bound_identity present expected ex2")
    show ?thesis
    proof (cases "\<exists>status. first = Inl status \<and> rv = Inr () \<and> st_code status = CodeUnauthenticated \<and>
        operation_retry_class operation \<in> {ReadClass, IdempotentMutation} \<and> snapshot \<noteq> AnonymousAccess")
      case False
      have "\<exists>r. ?run = Some (r, ex3) \<and> (is_ok r \<longrightarrow> rv = Inr ())"
        using False req unfolding run rs by (auto simp: v au 2 3 split: sum.splits if_splits)
      then show ?thesis using once [OF 1 v au 2 3] by blast
    next
      case True
      then obtain status where st: "first = Inl status" "rv = Inr ()" "st_code status = CodeUnauthenticated"
        "operation_retry_class operation \<in> {ReadClass, IdempotentMutation}" "snapshot \<noteq> AnonymousAccess" by blast
      then have present using first_snapshot_anonymous [of operation clock _ ex snapshot ex1] 1 by (cases present) auto
      obtain re ex4 where 4: "with_coordinator (refresh_after_rejection_with_clock snapshot clock) ex3 = (re, ex4)"
        by (cases "with_coordinator (refresh_after_rejection_with_clock snapshot clock) ex3")
      have present3: "revalidate_bound_identity True expected ex2 = (rv, ex3)" using 3 \<open>present\<close> by simp
      have r: "?run = (case re of Inl err \<Rightarrow> Some (Err err, ex4) | Inr replacement \<Rightarrow>
          Some (retry_request tonic expected operation request transport replacement ex4))"
        using req st \<open>present\<close> unfolding run rs by (simp add: v au 2 present3 4 split: sum.splits)
      show ?thesis
      proof (cases re)
        case (Inl err)
        show ?thesis by (rule unrefreshed [OF 1 v au 2 3 [unfolded st] 4 [unfolded Inl]]) (simp add: r Inl)
      next
        case (Inr replacement)
        show ?thesis by (rule twice [OF 1 v au 2 [unfolded st] 3 [unfolded st] st(4,3) \<open>present\<close> 4 [unfolded Inr]]) (simp add: r Inr)
      qed
    qed
  qed
qed

text \<open>C27: every RPC ends with a response or an error, without the panic of a missing coordinator, and
  the request reaches the backend at most twice; at most once when the operation is a mutation that may not be
  replayed or the refresh itself. This holds whatever the transport answers and whatever other
  tasks do to the session meanwhile.\<close>

theorem request_sent_at_most:
  fixes transport :: "('w, 'm, 'r) transport"
  shows "\<exists>r ex' sent. execute_with_auth_with_clock tonic present expected operation clock request transport ex = Some (r, ex') \<and>
    ex_sent ex' = ex_sent ex @ sent \<and>
    length sent \<le> (if operation_retry_class operation \<in> {ReadClass, IdempotentMutation} then 2 else 1)"
proof (rule execute_cases [of present operation clock request ex tonic expected transport])
  fix rs ex1 err
  assume "first_snapshot present operation clock (rq_metadata request ''authorization'' \<noteq> None) ex = (rs, ex1)"
    "execute_with_auth_with_clock tonic present expected operation clock request transport ex = Some (Inl err, ex1)"
  then show ?thesis using first_snapshot_sent by fastforce
next
  fix snapshot ex1 authorized first ex2 rv ex3 r
  assume "first_snapshot present operation clock (rq_metadata request ''authorization'' \<noteq> None) ex = (Inr snapshot, ex1)"
    "send_request transport authorized ex1 = (first, ex2)" "revalidate_bound_identity present expected ex2 = (rv, ex3)"
    and run: "execute_with_auth_with_clock tonic present expected operation clock request transport ex = Some (r, ex3)"
  then have "ex_sent ex3 = ex_sent ex @ [(authorized, ex_coordinator ex1)]"
    by (metis first_snapshot_sent revalidate_sent send_sent)
  with run show ?thesis by simp
next
  fix snapshot ex1 authorized first ex2 ex3 err ex4
  assume "first_snapshot present operation clock (rq_metadata request ''authorization'' \<noteq> None) ex = (Inr snapshot, ex1)"
    "send_request transport authorized ex1 = (first, ex2)" "revalidate_bound_identity present expected ex2 = (Inr (), ex3)"
    "with_coordinator (refresh_after_rejection_with_clock snapshot clock) ex3 = (Inl err, ex4)"
    and run: "execute_with_auth_with_clock tonic present expected operation clock request transport ex = Some (Inl err, ex4)"
  then have "ex_sent ex4 = ex_sent ex @ [(authorized, ex_coordinator ex1)]"
    by (metis first_snapshot_sent revalidate_sent send_sent with_coordinator_sent)
  with run show ?thesis by simp
next
  fix snapshot ex1 authorized status ex2 ex3 replacement ex4
  assume "first_snapshot present operation clock (rq_metadata request ''authorization'' \<noteq> None) ex = (Inr snapshot, ex1)"
    "send_request transport authorized ex1 = (Inl status, ex2)" "revalidate_bound_identity present expected ex2 = (Inr (), ex3)"
    "with_coordinator (refresh_after_rejection_with_clock snapshot clock) ex3 = (Inr replacement, ex4)"
    and replay: "operation_retry_class operation \<in> {ReadClass, IdempotentMutation}"
    and run: "execute_with_auth_with_clock tonic present expected operation clock request transport ex =
      Some (retry_request tonic expected operation request transport replacement ex4)"
  then have 4: "ex_sent ex4 = ex_sent ex @ [(authorized, ex_coordinator ex1)]"
    by (metis first_snapshot_sent revalidate_sent send_sent with_coordinator_sent)
  obtain r ex5 where 5: "retry_request tonic expected operation request transport replacement ex4 = (r, ex5)"
    by (cases "retry_request tonic expected operation request transport replacement ex4")
  then obtain sent where "ex_sent ex5 = ex_sent ex4 @ sent" "length sent \<le> 1" using retry_sent by blast
  then show ?thesis using run 4 5 replay by simp
qed

subsection \<open>Whose token a request carries\<close>

text \<open>The stored session is the identity's.\<close>

definition session_of :: "('w \<Rightarrow> envelope option) \<Rightarrow> auth_identity \<Rightarrow> 'w coordinator \<Rightarrow> envelope \<Rightarrow> bool" where
  "session_of stored identity c env =
     (\<not> sc_invalidated c \<and> stored (sc_world c) = Some env \<and> envelope_identity env = identity)"

lemma session_ports_kept: "session_ports stored c \<Longrightarrow> session_kept stored c c' \<Longrightarrow> session_ports stored c'"
  by (simp add: session_kept_def session_ports_step)

lemma access_ports:
  "fresh_access_snapshot_with_clock clock c = (r, c') \<Longrightarrow> session_ports stored c \<Longrightarrow> session_ports stored c'"
  "current_access_snapshot c = (r, c') \<Longrightarrow> session_ports stored c \<Longrightarrow> session_ports stored c'"
  "refresh_after_rejection_with_clock rejected clock c = (r, c') \<Longrightarrow> session_ports stored c \<Longrightarrow> session_ports stored c'"
  using session_kept_access [of stored c "FreshAccess clock"] session_kept_access [of stored c CurrentAccess]
    session_kept_access [of stored c "RejectedAccess rejected clock"]
  by (auto intro: session_ports_kept)

lemma authorized_carries:
  "authorized_request tonic request (AuthenticatedAccess token g i) = Inr authorized \<Longrightarrow>
   rq_metadata authorized ''authorization'' = Some (''Bearer '' @ token)"
  by (auto simp: authorized_request_def Let_def split: if_splits)

text \<open>A verified snapshot of a granted session: the request built from it is the identity's.\<close>

lemma verified_carries:
  assumes "session_granted stored (Inr snapshot) c" "verify_bound_identity snapshot (Some identity) = Inr ()"
    "authorized_request tonic request snapshot = Inr authorized"
  shows "\<exists>env. session_of stored identity c env \<and> rq_metadata authorized ''authorization'' = Some (''Bearer '' @ ev_access_token env)"
proof -
  obtain token g where "snapshot = AuthenticatedAccess token g identity"
    using assms(2) by (auto simp: verify_bound_identity_def split: access_snapshot.splits if_splits)
  then show ?thesis using assms(1,3) authorized_carries [of tonic request token g identity authorized]
    by (auto simp: session_granted_def session_of_def)
qed

lemma revalidated:
  assumes "revalidate_bound_identity True (Some identity) ex = (Inr (), ex')" "session_ports stored (ex_coordinator ex)"
  shows "(\<exists>env. session_of stored identity (ex_coordinator ex') env) \<and> session_ports stored (ex_coordinator ex')"
proof -
  obtain snapshot where s: "current_access_snapshot (ex_coordinator ex) = (Inr snapshot, ex_coordinator ex')"
      "verify_bound_identity snapshot (Some identity) = Inr ()"
    using assms(1) by (auto simp: revalidate_bound_identity_def dest!: with_coordinator_sent split: prod.splits sum.splits)
  then obtain token g where "snapshot = AuthenticatedAccess token g identity"
    by (auto simp: verify_bound_identity_def split: access_snapshot.splits if_splits)
  then show ?thesis using current_access_granted [OF s(1) assms(2)] access_ports(2) [OF s(1) assms(2)]
    by (auto simp: session_granted_def session_of_def)
qed

lemma revalidate_ports:
  "revalidate_bound_identity True (Some identity) ex = (r, ex') \<Longrightarrow> session_ports stored (ex_coordinator ex) \<Longrightarrow>
   session_ports stored (ex_coordinator ex')"
  using access_ports(2) by (fastforce simp: revalidate_bound_identity_def dest!: with_coordinator_sent split: prod.splits sum.splits)

lemma first_granted:
  assumes "first_snapshot True operation clock explicit ex = (r, ex')" "session_ports stored (ex_coordinator ex)"
  shows "session_granted stored r (ex_coordinator ex') \<and> session_ports stored (ex_coordinator ex')"
  using assms fresh_access_granted access_ports(1)
  by (auto simp: first_snapshot_def request_access_snapshot_def dest!: with_coordinator_sent split: auth_requirement.splits)

text \<open>A request carries the token of the identity's stored session.\<close>

definition carries_token ::
  "('w \<Rightarrow> envelope option) \<Rightarrow> auth_identity \<Rightarrow> 'm rpc_request \<times> 'w coordinator \<Rightarrow> bool" where
  "carries_token stored identity sent =
     (\<exists>env. session_of stored identity (snd sent) env \<and>
        rq_metadata (fst sent) ''authorization'' = Some (''Bearer '' @ ev_access_token env))"

lemma verified_sent:
  assumes "session_granted stored (Inr snapshot) (ex_coordinator ex)" "verify_bound_identity snapshot (Some identity) = Inr ()"
    "authorized_request tonic request snapshot = Inr authorized" "send_request transport authorized ex = (x, ex')"
  shows "\<exists>sent. ex_sent ex' = ex_sent ex @ [sent] \<and> carries_token stored identity sent"
  using verified_carries [OF assms(1-3)] send_sent [OF assms(4)] by (auto simp: carries_token_def)

lemma sent_ports:
  assumes "send_request transport authorized ex = (x, ex')" "session_ports stored (ex_coordinator ex)"
    "\<And>rq c. session_ports stored c \<Longrightarrow> session_ports stored (snd (transport rq c))"
  shows "session_ports stored (ex_coordinator ex')"
  using send_sent [OF assms(1)] assms(2) assms(3) [of "ex_coordinator ex" authorized] by simp

text \<open>A verified attempt: sent under the identity, and revalidated.\<close>

lemma attempt_bound:
  assumes "session_granted stored (Inr snapshot) (ex_coordinator ex)" "session_ports stored (ex_coordinator ex)"
    "verify_bound_identity snapshot (Some identity) = Inr ()" "authorized_request tonic request snapshot = Inr authorized"
    "send_request transport authorized ex = (x, ex1)" "revalidate_bound_identity True (Some identity) ex1 = (rv, ex2)"
    and others: "\<And>rq c. session_ports stored c \<Longrightarrow> session_ports stored (snd (transport rq c))"
  shows "\<exists>sent. ex_sent ex2 = ex_sent ex @ [sent] \<and> carries_token stored identity sent"
    "session_ports stored (ex_coordinator ex2)"
    "rv = Inr () \<Longrightarrow> \<exists>env. session_of stored identity (ex_coordinator ex2) env"
  using verified_sent [OF assms(1,3-5)] sent_ports [OF assms(5,2) others] revalidate_sent [OF assms(6)]
    revalidate_ports [OF assms(6)] revalidated [of identity ex1 ex2 stored] assms(6)
  by auto

lemma retry_bound:
  assumes "retry_request tonic (Some identity) operation request transport replacement ex = (r, ex')"
    and granted: "session_granted stored (Inr replacement) (ex_coordinator ex)"
    and ports: "session_ports stored (ex_coordinator ex)"
    and others: "\<And>rq c. session_ports stored c \<Longrightarrow> session_ports stored (snd (transport rq c))"
  shows "\<exists>sent. ex_sent ex' = ex_sent ex @ sent \<and> (\<forall>s\<in>set sent. carries_token stored identity s) \<and>
    (is_ok r \<longrightarrow> (\<exists>env. session_of stored identity (ex_coordinator ex') env))"
proof (cases "\<exists>authorized. verify_bound_identity replacement (Some identity) = Inr () \<and>
    authorized_request tonic request replacement = Inr authorized")
  case False
  then show ?thesis using assms(1) by (auto simp: retry_request_def split: sum.splits intro: exI [of _ "[]"])
next
  case True
  then obtain authorized where v: "verify_bound_identity replacement (Some identity) = Inr ()"
    and au: "authorized_request tonic request replacement = Inr authorized" by blast
  obtain x ex1 where 1: "send_request transport authorized ex = (x, ex1)" by (cases "send_request transport authorized ex")
  obtain rv ex2 where 2: "revalidate_bound_identity True (Some identity) ex1 = (rv, ex2)"
    by (cases "revalidate_bound_identity True (Some identity) ex1")
  have "ex_sent ex' = ex_sent ex2 \<and> (is_ok r \<longrightarrow> rv = Inr () \<and> ex' = ex2)"
    using assms(1) by (auto simp: retry_request_def v au 1 2 Let_def with_coordinator_def split: sum.splits prod.splits if_splits)
  then show ?thesis using attempt_bound [OF granted ports v au 1 2 others] by auto
qed

text \<open>A protected request stays bound to the identity it was started for. Every request
  that reaches the backend carries the access token of the session that is stored at that moment, and that
  session is the identity's; and a response is only returned while the identity's session is still
  the stored one. Other tasks may log in, log out, refresh or fail at each point where the request waits;
  only the store's contract is assumed of them.\<close>

lemma bound_request_stays_bound:
  fixes transport :: "('w, 'm, 'r) transport"
  assumes ports: "session_ports stored (ex_coordinator ex)"
    and others: "\<And>rq c. session_ports stored c \<Longrightarrow> session_ports stored (snd (transport rq c))"
    and run: "execute_with_auth_with_clock tonic True (Some identity) operation clock request transport ex = Some (r, ex')"
  shows "\<exists>sent. ex_sent ex' = ex_sent ex @ sent \<and> (\<forall>s\<in>set sent. carries_token stored identity s) \<and>
    (is_ok r \<longrightarrow> (\<exists>env. session_of stored identity (ex_coordinator ex') env))"
proof -
  note first = first_granted [OF _ ports] first_snapshot_sent
  consider "ex_sent ex' = ex_sent ex" "\<not> is_ok r"
    | sent where "ex_sent ex' = ex_sent ex @ [sent]" "carries_token stored identity sent"
        "is_ok r \<Longrightarrow> \<exists>env. session_of stored identity (ex_coordinator ex') env"
    | sent replacement ex4 where "ex_sent ex4 = ex_sent ex @ [sent]" "carries_token stored identity sent"
        "session_granted stored (Inr replacement) (ex_coordinator ex4)" "session_ports stored (ex_coordinator ex4)"
        "retry_request tonic (Some identity) operation request transport replacement ex4 = (r, ex')"
  proof (rule execute_cases [of True operation clock request ex tonic "Some identity" transport], goal_cases)
    case (1 rs ex1 err)
    have "ex_sent ex' = ex_sent ex" "\<not> is_ok r" using 1(5) run first(2) [OF 1(4)] by auto
    then show ?thesis by (rule 1(1))
  next
    case (2 snapshot ex1 authorized x ex2 rv ex3 r3)
    note bound = attempt_bound [OF conjunct1 [OF first(1) [OF 2(4)]] conjunct2 [OF first(1) [OF 2(4)]] 2(5-8) others]
    obtain sent where "ex_sent ex3 = ex_sent ex @ [sent]" "carries_token stored identity sent"
      using bound(1) first(2) [OF 2(4)] by auto
    moreover have "r3 = r" "ex3 = ex'" using 2(9) run by auto
    ultimately show ?thesis using bound(3) 2(10) 2(2) by blast
  next
    case (3 snapshot ex1 authorized x ex2 ex3 err ex4)
    note bound = attempt_bound [OF conjunct1 [OF first(1) [OF 3(4)]] conjunct2 [OF first(1) [OF 3(4)]] 3(5-8) others]
    obtain sent where "ex_sent ex3 = ex_sent ex @ [sent]" "carries_token stored identity sent"
      using bound(1) first(2) [OF 3(4)] by auto
    moreover have "ex_sent ex4 = ex_sent ex3" "ex4 = ex'" "\<not> is_ok r"
      using with_coordinator_sent [OF 3(9)] 3(10) run by auto
    ultimately show ?thesis using 3(2) by auto
  next
    case (4 snapshot ex1 authorized status ex2 ex3 replacement ex4)
    note bound = attempt_bound [OF conjunct1 [OF first(1) [OF 4(4)]] conjunct2 [OF first(1) [OF 4(4)]] 4(5-8) others]
    note f4 = with_coordinator_sent [OF 4(12)]
    have "session_granted stored (Inr replacement) (ex_coordinator ex4)" "session_ports stored (ex_coordinator ex4)"
      using rejection_granted [OF _ bound(2)] access_ports(3) [OF _ bound(2)] f4 by blast+
    moreover obtain sent where "ex_sent ex4 = ex_sent ex @ [sent]" "carries_token stored identity sent"
      using bound(1) first(2) [OF 4(4)] f4 by auto
    ultimately show ?thesis using 4(3) 4(13) run by simp
  qed
  then show ?thesis
  proof cases
    case 3
    with retry_bound [OF 3(5,3,4) others] show ?thesis by (auto intro: exI [of _ "_ # _"])
  qed auto
qed

text \<open>The stored token is rejected, refreshed and accepted: two requests, both of the account.\<close>

definition sample_transport :: "(refresh_world, unit, unit) transport" where
  "sample_transport request c =
     (if rq_metadata request ''authorization'' = Some ''Bearer new'' then Inr ()
      else Inl \<lparr>st_code = CodeUnauthenticated, st_message = []\<rparr>, c)"

lemma bound_request_stays_bound_witness:
  "\<exists>ex'. execute_with_auth_with_clock \<lparr>tn_rpc_timeout = ''5000000u'', tn_valid_metadata = (\<lambda>_. True)\<rparr> True
      (Some \<lparr>ai_account_id = ''a'', ai_session_id = ''s''\<rparr>) ListHistory (FixedClock 5) \<lparr>rq_metadata = Map.empty, rq_message = ()\<rparr>
      sample_transport \<lparr>ex_coordinator = sample_coordinator (Ok (sample_envelope ''new'' 9000)), ex_sent = []\<rparr> = Some (Ok (), ex') \<and>
    length (ex_sent ex') = 2 \<and>
    (\<forall>s\<in>set (ex_sent ex'). carries_token fst \<lparr>ai_account_id = ''a'', ai_session_id = ''s''\<rparr> s)"
proof -
  let ?c = "sample_coordinator (Ok (sample_envelope ''new'' 9000))"
  let ?tonic = "\<lparr>tn_rpc_timeout = ''5000000u'', tn_valid_metadata = (\<lambda>_. True)\<rparr>"
  let ?identity = "\<lparr>ai_account_id = ''a'', ai_session_id = ''s''\<rparr>"
  let ?ex = "\<lparr>ex_coordinator = ?c, ex_sent = []\<rparr>"
  let ?request = "\<lparr>rq_metadata = Map.empty, rq_message = ()\<rparr>"
  have 1: "session_ports fst (ex_coordinator ?ex)" by (simp add: sample_ports)
  have 2: "session_ports fst (snd (sample_transport rq c))" if "session_ports fst c" for rq c
    using that by (simp add: sample_transport_def)
  obtain ex' where 3: "execute_with_auth_with_clock ?tonic True (Some ?identity) ListHistory (FixedClock 5) ?request
      sample_transport ?ex = Some (Ok (), ex')" "length (ex_sent ex') = 2"
    by (simp add: execute_with_auth_with_clock_def first_snapshot_def operation_auth_requirement_def operation_retry_class_def request_access_snapshot_def
        with_coordinator_def fresh_access_snapshot_with_clock_def clock_now_def read_store_def outside_def sample_defs
        snapshot_of_def fresh_envelope_locked_def envelope_snapshot_def verify_bound_identity_def envelope_identity_def
        authorized_request_def send_request_def sample_transport_def revalidate_bound_identity_def current_access_snapshot_def
        refresh_after_rejection_with_clock_def refresh_locked_def try_refresh_def replace_store_def advance_generation_def
        retry_request_def)
  show ?thesis using bound_request_stays_bound [OF 1 2 3(1)] 3 by auto
qed

end
