(* ===== verification/SealedFormat.thy ===== *)
theory SealedFormat
  imports SessionLaws
begin

text \<open>
  The file format of a sealed session (\<open>data/encrypted_session_store.rs\<close>): a header with the
  lengths of the parts, in little-endian bytes, then the purpose and the parts. The sums of lengths
  stay far below \<open>usize\<close>, so the checked additions of the decoder never fail and are plain here.
\<close>

subsection \<open>The file format\<close>

type_synonym byte = "8 word"

definition bytes_of :: "string \<Rightarrow> byte list" where
  "bytes_of s = map of_char s"

definition MAGIC :: "byte list" where "MAGIC = bytes_of ''PWSESS01''"

definition FORMAT_VERSION :: byte where "FORMAT_VERSION = 1"

definition PURPOSE :: "byte list" where "PURPOSE = bytes_of ''pandawave.auth-session-envelope''"

definition ASSOCIATED_DATA :: "byte list" where
  "ASSOCIATED_DATA = bytes_of ''PWSESS01'' @ [0] @ bytes_of ''format=1'' @ [0] @
     bytes_of ''purpose=pandawave.auth-session-envelope'' @ [0] @ bytes_of ''codec=1''"

definition HEADER_LEN :: nat where "HEADER_LEN = 18"

definition MAX_COMPONENT_LEN :: nat where "MAX_COMPONENT_LEN = 1024 * 1024"

record sealed_session =
  se_nonce :: "byte list"
  se_ciphertext :: "byte list"
  se_tag :: "byte list"

primrec to_le_bytes :: "nat \<Rightarrow> nat \<Rightarrow> byte list" where
  "to_le_bytes 0 n = []"
| "to_le_bytes (Suc k) n = word_of_nat n # to_le_bytes k (n div 256)"

primrec from_le_bytes :: "byte list \<Rightarrow> nat" where
  "from_le_bytes [] = 0"
| "from_le_bytes (b # bs) = unat b + 256 * from_le_bytes bs"

definition corrupted_format :: session_store_error where
  "corrupted_format = StoreCorrupted ''encrypted session format is invalid''"

definition validate_component_lengths :: "sealed_session \<Rightarrow> session_store_error + unit" where
  "validate_component_lengths sealed =
     (if se_nonce sealed = [] \<or> se_tag sealed = [] \<or> se_ciphertext sealed = []
         \<or> length (se_nonce sealed) > MAX_COMPONENT_LEN \<or> length (se_tag sealed) > MAX_COMPONENT_LEN
         \<or> length (se_ciphertext sealed) > MAX_COMPONENT_LEN
      then Err corrupted_format else Ok ())"

definition encode_sealed_session :: "sealed_session \<Rightarrow> session_store_error + byte list" where
  "encode_sealed_session sealed =
     (case validate_component_lengths sealed of
        Inl err \<Rightarrow> Err err
      | Inr _ \<Rightarrow>
          if 2 ^ 8 \<le> length PURPOSE then Err (StoreCorrupted ''encrypted session purpose is too large'')
          else if 2 ^ 16 \<le> length (se_nonce sealed) then Err (StoreCorrupted ''encrypted session nonce is too large'')
          else if 2 ^ 16 \<le> length (se_tag sealed) then Err (StoreCorrupted ''encrypted session tag is too large'')
          else if 2 ^ 32 \<le> length (se_ciphertext sealed)
          then Err (StoreCorrupted ''encrypted session ciphertext is too large'')
          else Ok (MAGIC @ [FORMAT_VERSION] @ to_le_bytes 1 (length PURPOSE) @ to_le_bytes 2 (length (se_nonce sealed)) @
                 to_le_bytes 2 (length (se_tag sealed)) @ to_le_bytes 4 (length (se_ciphertext sealed)) @
                 PURPOSE @ se_nonce sealed @ se_tag sealed @ se_ciphertext sealed))"

definition decode_sealed_session :: "byte list \<Rightarrow> session_store_error + sealed_session" where
  "decode_sealed_session encoded =
     (if length encoded < HEADER_LEN then Err corrupted_format
      else if take 8 encoded \<noteq> MAGIC \<or> encoded ! 8 \<noteq> FORMAT_VERSION then Err corrupted_format
      else
        (let purpose_len = unat (encoded ! 9);
             nonce_len = from_le_bytes [encoded ! 10, encoded ! 11];
             tag_len = from_le_bytes [encoded ! 12, encoded ! 13];
             ciphertext_len = from_le_bytes [encoded ! 14, encoded ! 15, encoded ! 16, encoded ! 17]
         in if nonce_len > MAX_COMPONENT_LEN \<or> tag_len > MAX_COMPONENT_LEN \<or> ciphertext_len > MAX_COMPONENT_LEN
            then Err corrupted_format
            else if length encoded \<noteq> HEADER_LEN + purpose_len + nonce_len + tag_len + ciphertext_len
            then Err corrupted_format
            else if take purpose_len (drop HEADER_LEN encoded) \<noteq> PURPOSE then Err corrupted_format
            else
              (let offset = HEADER_LEN + purpose_len;
                   nonce = take nonce_len (drop offset encoded);
                   offset = offset + nonce_len;
                   tag = take tag_len (drop offset encoded);
                   offset = offset + tag_len;
                   ciphertext = drop offset encoded;
                   sealed = \<lparr>se_nonce = nonce, se_ciphertext = ciphertext, se_tag = tag\<rparr>
               in (case validate_component_lengths sealed of Inl err \<Rightarrow> Err err | Inr _ \<Rightarrow> Ok sealed))))"

text \<open>Little-endian numbers of a fixed width.\<close>

lemma length_to_le_bytes [simp]: "length (to_le_bytes k n) = k"
  by (induction k arbitrary: n) simp_all

lemma from_to_le_bytes: "n < 256 ^ k \<Longrightarrow> from_le_bytes (to_le_bytes k n) = n"
  by (induction k arbitrary: n) (simp_all add: unat_of_nat less_mult_imp_div_less mult.commute)

lemma from_le_bytes_less: "from_le_bytes bs < 256 ^ length bs"
proof (induction bs)
  case (Cons b bs)
  have "unat b < 256" using unsigned_less [of b] by simp
  with Cons show ?case by simp
qed simp

lemma to_from_le_bytes: "length bs = k \<Longrightarrow> to_le_bytes k (from_le_bytes bs) = bs"
proof (induction k arbitrary: bs)
  case (Suc k)
  then obtain b cs where bs: "bs = b # cs" "length cs = k" by (auto simp: length_Suc_conv)
  have "unat b < 256" using unsigned_less [of b] by simp
  moreover have "256 * x = (0 :: byte)" for x
  proof -
    have "(256 :: byte) = 0" by simp
    then show ?thesis by (simp only: mult_zero_left)
  qed
  ultimately show ?case using Suc.IH [OF bs(2)] by (simp add: bs)
qed simp

text \<open>A file cut into its header fields and the rest.\<close>

lemma header_split:
  assumes "18 \<le> length bs"
  obtains m v p n0 n1 t0 t1 c0 c1 c2 c3 rest where
    "length m = 8" "bs = m @ v # p # n0 # n1 # t0 # t1 # c0 # c1 # c2 # c3 # rest"
proof -
  have "Suc (Suc (Suc (Suc (Suc (Suc (Suc (Suc (Suc (Suc 0))))))))) \<le> length (drop 8 bs)" using assms by simp
  then obtain v p n0 n1 t0 t1 c0 c1 c2 c3 rest where "drop 8 bs = v # p # n0 # n1 # t0 # t1 # c0 # c1 # c2 # c3 # rest"
    by (simp only: Suc_le_length_iff) blast
  then have "bs = take 8 bs @ v # p # n0 # n1 # t0 # t1 # c0 # c1 # c2 # c3 # rest" by (metis append_take_drop_id)
  then show ?thesis using that [of "take 8 bs"] assms by simp
qed

lemma decode_fields:
  assumes "length m = 8"
  shows "decode_sealed_session (m @ v # p # n0 # n1 # t0 # t1 # c0 # c1 # c2 # c3 # rest) =
    (let n = from_le_bytes [n0, n1]; t = from_le_bytes [t0, t1]; c = from_le_bytes [c0, c1, c2, c3];
         sealed = \<lparr>se_nonce = take n (drop (unat p) rest),
           se_ciphertext = drop (unat p + n + t) rest, se_tag = take t (drop (unat p + n) rest)\<rparr>
     in if m = MAGIC \<and> v = FORMAT_VERSION \<and> n \<le> MAX_COMPONENT_LEN \<and> t \<le> MAX_COMPONENT_LEN \<and> c \<le> MAX_COMPONENT_LEN \<and>
           length rest = unat p + n + t + c \<and> take (unat p) rest = PURPOSE
        then (case validate_component_lengths sealed of Inl err \<Rightarrow> Err err | Inr _ \<Rightarrow> Ok sealed) else Err corrupted_format)"
proof -
  let ?rest = "v # p # n0 # n1 # t0 # t1 # c0 # c1 # c2 # c3 # rest"
  define bs where "bs = m @ ?rest"
  have nth: "bs ! (8 + i) = ?rest ! i" for i
    unfolding bs_def using nth_append_length_plus [of m ?rest i] by (simp only: assms)
  have fields: "bs ! 8 = v" "bs ! 9 = p" "bs ! 10 = n0" "bs ! 11 = n1" "bs ! 12 = t0" "bs ! 13 = t1"
    "bs ! 14 = c0" "bs ! 15 = c1" "bs ! 16 = c2" "bs ! 17 = c3"
    using nth [of 0] nth [of 1] nth [of 2] nth [of 3] nth [of 4] nth [of 5] nth [of 6] nth [of 7] nth [of 8] nth [of 9]
    by simp_all
  have drop18: "drop 18 bs = rest" using assms by (simp add: bs_def)
  have drops: "drop (18 + k) bs = drop k rest" for k
    by (metis add.commute drop18 drop_drop)
  have len: "length bs = 18 + length rest" "take 8 bs = m" using assms by (simp_all add: bs_def)
  show ?thesis
    unfolding bs_def [symmetric] decode_sealed_session_def HEADER_LEN_def Let_def fields len
    by (simp add: drop18 drops add.assoc split: sum.split)
qed

lemma length_constants [simp]: "length MAGIC = 8" "length PURPOSE = 31"
  by (simp_all add: MAGIC_def PURPOSE_def bytes_of_def)

lemma le_bytes_explicit:
  "to_le_bytes 1 n = [word_of_nat n]" "to_le_bytes 2 n = [word_of_nat n, word_of_nat (n div 256)]"
  "to_le_bytes 4 n = [word_of_nat n, word_of_nat (n div 256), word_of_nat (n div 256 div 256), word_of_nat (n div 256 div 256 div 256)]"
proof -
  have n: "1 = Suc 0" "2 = Suc (Suc 0)" "4 = Suc (Suc (Suc (Suc 0)))" by simp_all
  show "to_le_bytes 1 n = [word_of_nat n]" "to_le_bytes 2 n = [word_of_nat n, word_of_nat (n div 256)]"
    "to_le_bytes 4 n = [word_of_nat n, word_of_nat (n div 256), word_of_nat (n div 256 div 256), word_of_nat (n div 256 div 256 div 256)]"
    unfolding n to_le_bytes.simps by (rule refl)+
qed

lemma case_Inr_iff: "(case r of Inl err \<Rightarrow> Inl err | Inr _ \<Rightarrow> Inr s) = Inr x \<longleftrightarrow> is_ok r \<and> s = x"
  by (cases r) auto

lemma validate_ok: "is_ok (validate_component_lengths s) \<longleftrightarrow>
    se_nonce s \<noteq> [] \<and> se_tag s \<noteq> [] \<and> se_ciphertext s \<noteq> [] \<and> length (se_nonce s) \<le> MAX_COMPONENT_LEN \<and>
    length (se_tag s) \<le> MAX_COMPONENT_LEN \<and> length (se_ciphertext s) \<le> MAX_COMPONENT_LEN"
  by (auto simp: validate_component_lengths_def)

text \<open>What an accepted session is, and its file.\<close>

lemma encode_iff:
  "encode_sealed_session s = Inr bs \<longleftrightarrow>
     is_ok (validate_component_lengths s) \<and> length (se_nonce s) < 2 ^ 16 \<and> length (se_tag s) < 2 ^ 16 \<and>
     bs = MAGIC @ [FORMAT_VERSION] @ to_le_bytes 1 31 @ to_le_bytes 2 (length (se_nonce s)) @
        to_le_bytes 2 (length (se_tag s)) @ to_le_bytes 4 (length (se_ciphertext s)) @
        PURPOSE @ se_nonce s @ se_tag s @ se_ciphertext s"
  unfolding encode_sealed_session_def validate_ok length_constants
  by (auto simp: validate_component_lengths_def MAX_COMPONENT_LEN_def not_le)

lemma decode_encoded:
  assumes "encode_sealed_session s = Inr bs"
  shows "decode_sealed_session bs = Inr s"
proof -
  note ok = assms [unfolded encode_iff validate_ok]
  have c: "length (se_ciphertext s) < 256 ^ 4" using ok by (simp add: MAX_COMPONENT_LEN_def)
  have f: "from_le_bytes (to_le_bytes 2 (length (se_nonce s))) = length (se_nonce s)"
    "from_le_bytes (to_le_bytes 2 (length (se_tag s))) = length (se_tag s)"
    "from_le_bytes (to_le_bytes 4 (length (se_ciphertext s))) = length (se_ciphertext s)"
    using ok c by (simp_all add: from_to_le_bytes)
  have bs: "bs = MAGIC @ FORMAT_VERSION # word_of_nat 31 # word_of_nat (length (se_nonce s)) # word_of_nat (length (se_nonce s) div 256) #
      word_of_nat (length (se_tag s)) # word_of_nat (length (se_tag s) div 256) # word_of_nat (length (se_ciphertext s)) #
      word_of_nat (length (se_ciphertext s) div 256) # word_of_nat (length (se_ciphertext s) div 256 div 256) #
      word_of_nat (length (se_ciphertext s) div 256 div 256 div 256) # (PURPOSE @ se_nonce s @ se_tag s @ se_ciphertext s)"
    using ok by (simp add: le_bytes_explicit)
  have "unat (word_of_nat 31 :: byte) = 31" by simp
  then show ?thesis
    unfolding bs decode_fields [OF length_constants(1)] f [unfolded le_bytes_explicit] Let_def
    using ok by (simp add: validate_ok case_Inr_iff)
qed

lemma cut_four: "xs = take a xs @ take n (drop a xs) @ take t (drop (a + n) xs) @ drop (a + n + t) xs"
proof -
  have cut: "drop k xs = take m (drop k xs) @ drop (k + m) xs" for k m
    using append_take_drop_id [of m "drop k xs"] by (simp add: add.commute)
  show ?thesis using append_take_drop_id [of a xs] cut [of a n] cut [of "a + n" t] by metis
qed

lemma encode_decoded:
  assumes "decode_sealed_session bs = Inr s"
  shows "encode_sealed_session s = Inr bs"
proof -
  have "18 \<le> length bs" using assms by (auto simp: decode_sealed_session_def HEADER_LEN_def split: if_splits)
  then obtain m v p n0 n1 t0 t1 c0 c1 c2 c3 rest where m: "length m = 8"
    and bs: "bs = m @ v # p # n0 # n1 # t0 # t1 # c0 # c1 # c2 # c3 # rest" by (rule header_split)
  let ?n = "from_le_bytes [n0, n1]" and ?t = "from_le_bytes [t0, t1]" and ?c = "from_le_bytes [c0, c1, c2, c3]"
  have ok: "m = MAGIC" "v = FORMAT_VERSION" "length rest = unat p + ?n + ?t + ?c" "take (unat p) rest = PURPOSE"
    "is_ok (validate_component_lengths s)"
    and s: "s = \<lparr>se_nonce = take ?n (drop (unat p) rest), se_ciphertext = drop (unat p + ?n + ?t) rest,
      se_tag = take ?t (drop (unat p + ?n) rest)\<rparr>"
    using assms unfolding bs decode_fields [OF m] Let_def by (auto simp: case_Inr_iff split: if_splits simp del: from_le_bytes.simps)
  have "length (take (unat p) rest) = unat p" using ok(3) by simp
  then have p31: "unat p = 31" using ok(4) length_constants(2) by simp
  moreover have "p = word_of_nat (unat p)" by simp
  ultimately have p: "p = word_of_nat 31" by (simp only:)
  have lengths: "length (se_nonce s) = ?n" "length (se_tag s) = ?t" "length (se_ciphertext s) = ?c"
    using ok(3) unfolding s by simp_all
  have less: "?n < 256 ^ 2" "?t < 256 ^ 2"
    using from_le_bytes_less [of "[n0, n1]"] from_le_bytes_less [of "[t0, t1]"] by simp_all
  have le: "to_le_bytes 2 ?n = [n0, n1]" "to_le_bytes 2 ?t = [t0, t1]" "to_le_bytes 4 ?c = [c0, c1, c2, c3]"
    by (simp_all only: to_from_le_bytes list.size)
  have rest: "rest = PURPOSE @ se_nonce s @ se_tag s @ se_ciphertext s"
    unfolding s using cut_four [of rest "unat p" ?n ?t] ok(4) by simp
  show ?thesis unfolding encode_iff lengths le
    using ok less rest p by (simp add: bs le_bytes_explicit(1))
qed

text \<open>C32: the file format is a bijection: a file is accepted as a sealed session exactly when it is the file
  that sealed session is written as. What is written is read back, and no two files stand for one sealed
  session; a file with another header, other lengths or trailing bytes is refused.\<close>

theorem sealed_session_roundtrip: "decode_sealed_session bs = Inr s \<longleftrightarrow> encode_sealed_session s = Inr bs"
  using decode_encoded encode_decoded by blast

end
