(* ===== verification/EncryptedStore.thy ===== *)
theory EncryptedStore
  imports SealedFormat
begin

text \<open>
  The durable session store (\<open>data/encrypted_session_store.rs\<close>) over a file system whose
  operations may fail: reading, the commit of a replacement through a temporary file, removal.
  The platform's cryptography and the JSON codec of serde are parameters. The operation lock
  makes each operation a single step; it is never poisoned here.
\<close>

subsection \<open>Files\<close>

text \<open>A path: its directory, if it has one, and the stem and extension of its name.\<close>

record file_path =
  fp_parent :: "string option"
  fp_stem :: string
  fp_extension :: "string option"

text \<open>The files, the outcomes of the coming operations (Some n: it fails, a write after n bytes; no entry: it
  works), and the rest of the world.\<close>

record 'v disk =
  dk_files :: "file_path \<rightharpoonup> byte list"
  dk_faults :: "nat option list"
  dk_rest :: 'v

datatype io_error = IoNotFound | IoOther

definition next_fault :: "'v disk \<Rightarrow> nat option \<times> 'v disk" where
  "next_fault d = (case dk_faults d of [] \<Rightarrow> (None, d) | f # fs \<Rightarrow> (f, d\<lparr>dk_faults := fs\<rparr>))"

definition set_file :: "file_path \<Rightarrow> byte list option \<Rightarrow> 'v disk \<Rightarrow> 'v disk" where
  "set_file path bytes d = d\<lparr>dk_files := (dk_files d)(path := bytes)\<rparr>"

definition io_open :: "file_path \<Rightarrow> 'v disk \<Rightarrow> (io_error + unit) \<times> 'v disk" where
  "io_open path d =
     (case next_fault d of
        (Some _, d) \<Rightarrow> (Inl IoOther, d)
      | (None, d) \<Rightarrow> (if dk_files d path = None then Inl IoNotFound else Inr (), d))"

text \<open>\<open>file.take(limit).read_to_end\<close> of an open file.\<close>

definition io_read :: "file_path \<Rightarrow> nat \<Rightarrow> 'v disk \<Rightarrow> (io_error + byte list) \<times> 'v disk" where
  "io_read path limit d =
     (case next_fault d of
        (Some _, d) \<Rightarrow> (Inl IoOther, d)
      | (None, d) \<Rightarrow> (Inr (take limit (the (dk_files d path))), d))"

definition io_remove_file :: "file_path \<Rightarrow> 'v disk \<Rightarrow> (io_error + unit) \<times> 'v disk" where
  "io_remove_file path d =
     (case next_fault d of
        (Some _, d) \<Rightarrow> (Inl IoOther, d)
      | (None, d) \<Rightarrow> if dk_files d path = None then (Inl IoNotFound, d) else (Inr (), set_file path None d))"

definition io_create_new :: "file_path \<Rightarrow> 'v disk \<Rightarrow> (io_error + unit) \<times> 'v disk" where
  "io_create_new path d =
     (case next_fault d of
        (Some _, d) \<Rightarrow> (Inl IoOther, d)
      | (None, d) \<Rightarrow> if dk_files d path \<noteq> None then (Inl IoOther, d) else (Inr (), set_file path (Some []) d))"

definition io_write_all :: "file_path \<Rightarrow> byte list \<Rightarrow> 'v disk \<Rightarrow> (io_error + unit) \<times> 'v disk" where
  "io_write_all path bytes d =
     (case next_fault d of
        (Some n, d) \<Rightarrow> (Inl IoOther, set_file path (Some (take n bytes)) d)
      | (None, d) \<Rightarrow> (Inr (), set_file path (Some bytes) d))"

text \<open>An operation that changes no file: creating the directory, flushing.\<close>

definition io_effectless :: "'v disk \<Rightarrow> (io_error + unit) \<times> 'v disk" where
  "io_effectless d = (case next_fault d of (Some _, d) \<Rightarrow> (Inl IoOther, d) | (None, d) \<Rightarrow> (Inr (), d))"

definition io_rename :: "file_path \<Rightarrow> file_path \<Rightarrow> 'v disk \<Rightarrow> (io_error + unit) \<times> 'v disk" where
  "io_rename source destination d =
     (case next_fault d of
        (Some _, d) \<Rightarrow> (Inl IoOther, d)
      | (None, d) \<Rightarrow>
          (case dk_files d source of
             None \<Rightarrow> (Inl IoNotFound, d)
           | Some bytes \<Rightarrow> (Inr (), set_file source None (set_file destination (Some bytes) d))))"

subsection \<open>The stored envelope\<close>

record stored_envelope =
  sv_codec_version :: byte
  sv_access_token :: string
  sv_access_token_expires_at :: u64
  sv_refresh_token :: string
  sv_refresh_token_expires_at :: u64
  sv_account :: account
  sv_session :: auth_session

definition stored_envelope_from :: "envelope \<Rightarrow> stored_envelope" where
  "stored_envelope_from env =
     \<lparr>sv_codec_version = 1, sv_access_token = ev_access_token env,
      sv_access_token_expires_at = ev_access_token_expires_at env, sv_refresh_token = ev_refresh_token env,
      sv_refresh_token_expires_at = ev_refresh_token_expires_at env, sv_account = ev_account env,
      sv_session = ev_session env\<rparr>"

definition envelope_try_from :: "stored_envelope \<Rightarrow> string + envelope" where
  "envelope_try_from stored =
     (if sv_codec_version stored \<noteq> 1 then Inl ''stored session codec version is unsupported''
      else if sv_access_token stored = [] \<or> sv_refresh_token stored = [] \<or> acct_id (sv_account stored) = []
         \<or> acct_primary_email (sv_account stored) = [] \<or> as_id (sv_session stored) = []
         \<or> as_device_label (sv_session stored) = [] \<or> sv_access_token_expires_at stored = 0
         \<or> sv_refresh_token_expires_at stored = 0
      then Inl ''stored session payload is incomplete''
      else Inr \<lparr>ev_access_token = sv_access_token stored,
         ev_access_token_expires_at = sv_access_token_expires_at stored, ev_refresh_token = sv_refresh_token stored,
         ev_refresh_token_expires_at = sv_refresh_token_expires_at stored, ev_account = sv_account stored,
         ev_session = sv_session stored\<rparr>)"

text \<open>serde's part.\<close>

record session_codec =
  to_json :: "stored_envelope \<Rightarrow> byte list option"
  from_json :: "byte list \<Rightarrow> stored_envelope option"

definition to_storage_bytes :: "session_codec \<Rightarrow> envelope \<Rightarrow> byte list option" where
  "to_storage_bytes codec env = to_json codec (stored_envelope_from env)"

definition from_storage_bytes :: "session_codec \<Rightarrow> byte list \<Rightarrow> string + envelope" where
  "from_storage_bytes codec bytes =
     (case from_json codec bytes of
        None \<Rightarrow> Inl ''stored session payload is malformed''
      | Some stored \<Rightarrow> envelope_try_from stored)"

subsection \<open>The store\<close>

record 'v session_cryptor =
  cr_seal :: "byte list \<Rightarrow> byte list \<Rightarrow> 'v \<Rightarrow> (session_store_error + sealed_session) \<times> 'v"
  cr_open :: "sealed_session \<Rightarrow> byte list \<Rightarrow> 'v \<Rightarrow> (session_store_error + byte list) \<times> 'v"

record 'v encrypted_file_store =
  es_path :: file_path
  es_cryptor :: "'v session_cryptor"
  es_codec :: session_codec

definition temporary_path :: "file_path \<Rightarrow> file_path" where
  "temporary_path path =
     path\<lparr>fp_extension := Some (case fp_extension path of None \<Rightarrow> ''tmp'' | Some ext \<Rightarrow> ext @ ''.tmp'')\<rparr>"

definition no_parent :: session_store_error where
  "no_parent = StoreUnavailable ''encrypted session path has no parent''"

definition sync_parent_directory :: "file_path \<Rightarrow> 'v disk \<Rightarrow> (session_store_error + unit) \<times> 'v disk" where
  "sync_parent_directory path d =
     (case fp_parent path of
        None \<Rightarrow> (Err no_parent, d)
      | Some _ \<Rightarrow>
          (case io_effectless d of
             (Inl _, d) \<Rightarrow> (Err (StoreUnavailable ''encrypted session directory could not be flushed''), d)
           | (Inr _, d) \<Rightarrow> (Ok (), d)))"

definition remove_unusable_session :: "file_path \<Rightarrow> 'v disk \<Rightarrow> (session_store_error + unit) \<times> 'v disk" where
  "remove_unusable_session path d =
     (case io_remove_file path d of
        (Inr _, d) \<Rightarrow> sync_parent_directory path d
      | (Inl IoNotFound, d) \<Rightarrow> (Ok (), d)
      | (Inl IoOther, d) \<Rightarrow> (Err (StoreUnavailable ''unusable encrypted session could not be removed''), d))"

text \<open>\<open>cryptor\<close> calls work on the rest of the world.\<close>

definition crypto :: "('v \<Rightarrow> 'a \<times> 'v) \<Rightarrow> 'v disk \<Rightarrow> 'a \<times> 'v disk" where
  "crypto call d = (let (r, v) = call (dk_rest d) in (r, d\<lparr>dk_rest := v\<rparr>))"

text \<open>The bytes of a file as an envelope: the format, the cryptography, the payload.\<close>

definition open_session ::
  "'v encrypted_file_store \<Rightarrow> byte list \<Rightarrow> 'v disk \<Rightarrow> (session_store_error + envelope) \<times> 'v disk" where
  "open_session es encoded d =
     (case decode_sealed_session encoded of
        Inl err \<Rightarrow> (Err err, d)
      | Inr sealed \<Rightarrow>
          (case crypto (cr_open (es_cryptor es) sealed ASSOCIATED_DATA) d of
             (Inl err, d) \<Rightarrow> (Err err, d)
           | (Inr plaintext, d) \<Rightarrow>
               (case from_storage_bytes (es_codec es) plaintext of
                  Inl msg \<Rightarrow> (Err (StoreCorrupted msg), d)
                | Inr env \<Rightarrow> (Ok env, d))))"

definition read_limit :: nat where
  "read_limit = MAX_COMPONENT_LEN * 3 + HEADER_LEN + length PURPOSE + 1"

definition read_locked ::
  "'v encrypted_file_store \<Rightarrow> 'v disk \<Rightarrow> (session_store_error + envelope option) \<times> 'v disk" where
  "read_locked es d =
     (case io_open (es_path es) d of
        (Inl IoNotFound, d) \<Rightarrow> (Ok None, d)
      | (Inl IoOther, d) \<Rightarrow> (Err (StoreUnavailable ''encrypted session could not be opened''), d)
      | (Inr _, d) \<Rightarrow>
          (case io_read (es_path es) read_limit d of
             (Inl _, d) \<Rightarrow> (Err (StoreUnavailable ''encrypted session could not be read''), d)
           | (Inr encoded, d) \<Rightarrow>
               (case open_session es encoded d of
                  (Inr env, d) \<Rightarrow> (Ok (Some env), d)
                | (Inl (StoreCorrupted msg), d) \<Rightarrow>
                    (case remove_unusable_session (es_path es) d of
                       (Inl err, d) \<Rightarrow> (Err err, d)
                     | (Inr _, d) \<Rightarrow> (Err (StoreCorrupted msg), d))
                | (Inl err, d) \<Rightarrow> (Err err, d))))"

definition unavailable :: "string \<Rightarrow> session_store_error" where
  "unavailable msg = StoreUnavailable msg"

text \<open>The steps from the temporary file to the destination.\<close>

definition write_and_rename ::
  "file_path \<Rightarrow> file_path \<Rightarrow> byte list \<Rightarrow> ('v disk \<Rightarrow> (session_store_error + unit) \<times> 'v disk) \<Rightarrow> 'v disk
     \<Rightarrow> (session_store_error + unit) \<times> 'v disk" where
  "write_and_rename destination temporary encoded after_flush d =
     (case io_create_new temporary d of
        (Inl _, d) \<Rightarrow> (Err (unavailable ''encrypted session temporary file could not be created''), d)
      | (Inr _, d) \<Rightarrow>
          (case io_write_all temporary encoded d of
             (Inl _, d) \<Rightarrow> (Err (unavailable ''encrypted session temporary file could not be written''), d)
           | (Inr _, d) \<Rightarrow>
               (case io_effectless d of
                  (Inl _, d) \<Rightarrow> (Err (unavailable ''encrypted session temporary file could not be flushed''), d)
                | (Inr _, d) \<Rightarrow>
                    (case after_flush d of
                       (Inl err, d) \<Rightarrow> (Err err, d)
                     | (Inr _, d) \<Rightarrow>
                         (case io_rename temporary destination d of
                            (Inl _, d) \<Rightarrow> (Err (unavailable ''encrypted session commit failed''), d)
                          | (Inr _, d) \<Rightarrow> sync_parent_directory destination d)))))"

definition commit_same_directory ::
  "file_path \<Rightarrow> file_path \<Rightarrow> byte list \<Rightarrow> ('v disk \<Rightarrow> (session_store_error + unit) \<times> 'v disk) \<Rightarrow> 'v disk
     \<Rightarrow> (session_store_error + unit) \<times> 'v disk" where
  "commit_same_directory destination temporary encoded after_flush d =
     (if fp_parent destination = None then (Err no_parent, d)
      else case io_effectless d of
        (Inl _, d) \<Rightarrow> (Err (unavailable ''encrypted session directory unavailable''), d)
      | (Inr _, d) \<Rightarrow>
          (case io_remove_file temporary d of
             (Inl IoOther, d) \<Rightarrow> (Err (unavailable ''stale encrypted session temporary file could not be removed''), d)
           | (_, d) \<Rightarrow>
               (case write_and_rename destination temporary encoded after_flush d of
                  (Inl err, d) \<Rightarrow> (Err err, snd (io_remove_file temporary d))
                | (Inr _, d) \<Rightarrow> (Ok (), d))))"

definition write_locked :: "'v encrypted_file_store \<Rightarrow> byte list \<Rightarrow> 'v disk \<Rightarrow> (session_store_error + unit) \<times> 'v disk" where
  "write_locked es encoded d =
     commit_same_directory (es_path es) (temporary_path (es_path es)) encoded (\<lambda>d. (Ok (), d)) d"

definition encrypted_replace ::
  "'v encrypted_file_store \<Rightarrow> envelope \<Rightarrow> 'v disk \<Rightarrow> (session_store_error + unit) \<times> 'v disk" where
  "encrypted_replace es env d =
     (case to_storage_bytes (es_codec es) env of
        None \<Rightarrow> (Err (StoreCorrupted ''authentication session could not be encoded''), d)
      | Some plaintext \<Rightarrow>
          (case crypto (cr_seal (es_cryptor es) plaintext ASSOCIATED_DATA) d of
             (Inl err, d) \<Rightarrow> (Err err, d)
           | (Inr sealed, d) \<Rightarrow>
               (case encode_sealed_session sealed of
                  Inl err \<Rightarrow> (Err err, d)
                | Inr encoded \<Rightarrow> write_locked es encoded d)))"

definition encrypted_store :: "'v encrypted_file_store \<Rightarrow> 'v disk session_store" where
  "encrypted_store es =
     \<lparr>ss_security_level = DurableSecure, ss_read = read_locked es,
      ss_replace = encrypted_replace es, ss_clear = remove_unusable_session (es_path es)\<rparr>"

subsection \<open>What the store holds\<close>

text \<open>An ideal cryptography for the lemmas that speak of sessions instead of bytes: which plaintext a sealed session
  opens to. Opening may be unavailable, but only a session that does not open is called corrupted. The
  cryptor of the JNI layer is not of this kind, it calls every failure to open corrupted; what
  holds without the assumption is \<open>session_file_changes_whole\<close> below.\<close>

definition authentic :: "(sealed_session \<Rightarrow> byte list option) \<Rightarrow> 'v session_cryptor \<Rightarrow> bool" where
  "authentic opens cryptor =
     ((\<forall>s v p. fst (cr_open cryptor s ASSOCIATED_DATA v) = Inr p \<longrightarrow> opens s = Some p) \<and>
      (\<forall>s v msg. fst (cr_open cryptor s ASSOCIATED_DATA v) = Inl (StoreCorrupted msg) \<longrightarrow> opens s = None) \<and>
      (\<forall>p v s. fst (cr_seal cryptor p ASSOCIATED_DATA v) = Inr s \<longrightarrow> opens s = Some p))"

definition faithful_codec :: "session_codec \<Rightarrow> bool" where
  "faithful_codec codec = (\<forall>e b. to_json codec e = Some b \<longrightarrow> from_json codec b = Some e)"

text \<open>The envelope in the file.\<close>

definition file_envelope :: "session_codec \<Rightarrow> (sealed_session \<Rightarrow> byte list option) \<Rightarrow> byte list \<Rightarrow> envelope option" where
  "file_envelope codec opens bytes =
     (case decode_sealed_session bytes of
        Inl _ \<Rightarrow> None
      | Inr sealed \<Rightarrow>
          (case opens sealed of
             None \<Rightarrow> None
           | Some plaintext \<Rightarrow> (case from_storage_bytes codec plaintext of Inl _ \<Rightarrow> None | Inr env \<Rightarrow> Some env)))"

definition disk_envelope ::
  "'v encrypted_file_store \<Rightarrow> (sealed_session \<Rightarrow> byte list option) \<Rightarrow> 'v disk \<Rightarrow> envelope option" where
  "disk_envelope es opens d = Option.bind (dk_files d (es_path es)) (file_envelope (es_codec es) opens)"

subsection \<open>Frames of the file operations\<close>

lemma next_fault_files [simp]: "next_fault d = (f, d') \<Longrightarrow> dk_files d' = dk_files d"
  by (auto simp: next_fault_def split: list.splits)

lemma set_file_files [simp]: "dk_files (set_file path bytes d) = (dk_files d)(path := bytes)"
  by (simp add: set_file_def)

lemma io_open_files: "io_open path d = (r, d') \<Longrightarrow> dk_files d' = dk_files d \<and>
    (r = Inr () \<longrightarrow> dk_files d path \<noteq> None) \<and> (r = Inl IoNotFound \<longrightarrow> dk_files d path = None)"
  by (auto simp: io_open_def split: prod.splits option.splits if_splits)

lemma io_read_files: "io_read path limit d = (r, d') \<Longrightarrow> dk_files d' = dk_files d \<and>
    (\<forall>bytes. r = Inr bytes \<longrightarrow> bytes = take limit (the (dk_files d path)))"
  by (auto simp: io_read_def split: prod.splits option.splits)

lemma io_effectless_files: "io_effectless d = (r, d') \<Longrightarrow> dk_files d' = dk_files d"
  by (auto simp: io_effectless_def split: prod.splits option.splits)

lemma io_remove_files: "io_remove_file path d = (r, d') \<Longrightarrow>
    dk_files d' = (if r = Inr () then (dk_files d)(path := None) else dk_files d) \<and>
    (r = Inl IoNotFound \<longrightarrow> dk_files d path = None)"
  by (auto simp: io_remove_file_def split: prod.splits option.splits if_splits)

lemma crypto_files: "crypto call d = (r, d') \<Longrightarrow> dk_files d' = dk_files d \<and> fst (call (dk_rest d)) = r"
  by (auto simp: crypto_def split: prod.splits)

lemma sync_parent_files: "sync_parent_directory path d = (r, d') \<Longrightarrow> dk_files d' = dk_files d"
  by (auto simp: sync_parent_directory_def dest: io_effectless_files split: option.splits prod.splits sum.splits)

lemma remove_unusable_files: "remove_unusable_session path d = (r, d') \<Longrightarrow>
    (r = Inr () \<longrightarrow> dk_files d' path = None) \<and> (dk_files d' = dk_files d \<or> dk_files d' = (dk_files d)(path := None))"
  by (auto simp: remove_unusable_session_def dest!: io_remove_files sync_parent_files
      split: prod.splits sum.splits io_error.splits)

subsection \<open>The contract\<close>

lemma decoded_length: "decode_sealed_session bs = Inr s \<Longrightarrow> length bs < read_limit"
  using encode_decoded [of bs s] by (auto simp: encode_iff validate_ok read_limit_def HEADER_LEN_def)

lemma file_envelope_limit: "file_envelope codec opens (take read_limit bs) = file_envelope codec opens bs"
proof (cases "length bs \<le> read_limit")
  case False
  then have "\<not> length (take read_limit bs) < read_limit" "\<not> length bs < read_limit" by simp_all
  then obtain e1 e2 where "decode_sealed_session (take read_limit bs) = Inl e1" "decode_sealed_session bs = Inl e2"
    using decoded_length by (metis sum.exhaust)
  then show ?thesis by (simp add: file_envelope_def)
qed simp

lemma authenticD:
  assumes "authentic opens cryptor"
  shows "fst (cr_open cryptor s ASSOCIATED_DATA v) = Inr p \<Longrightarrow> opens s = Some p"
    "fst (cr_open cryptor s ASSOCIATED_DATA v) = Inl (StoreCorrupted msg) \<Longrightarrow> opens s = None"
    "fst (cr_seal cryptor p ASSOCIATED_DATA v) = Inr s \<Longrightarrow> opens s = Some p"
  using assms unfolding authentic_def by blast+

lemma open_session_envelope:
  assumes "authentic opens (es_cryptor es)" "open_session es bytes d = (r, d')"
  shows "dk_files d' = dk_files d" "r = Inr env \<Longrightarrow> file_envelope (es_codec es) opens bytes = Some env"
    "r = Inl (StoreCorrupted msg) \<Longrightarrow> file_envelope (es_codec es) opens bytes = None"
  using assms(2)
  by (auto simp: open_session_def file_envelope_def dest!: crypto_files dest: authenticD [OF assms(1)] split: sum.splits prod.splits)

lemma read_locked_envelope:
  assumes "authentic opens (es_cryptor es)" "read_locked es d = (r, d')"
  shows "disk_envelope es opens d' = disk_envelope es opens d \<and> (\<forall>e. r = Inr e \<longrightarrow> e = disk_envelope es opens d)"
proof -
  obtain ro d1 where 1: "io_open (es_path es) d = (ro, d1)" by (cases "io_open (es_path es) d")
  note f1 = io_open_files [OF 1]
  obtain rb d2 where 2: "io_read (es_path es) read_limit d1 = (rb, d2)" by (cases "io_read (es_path es) read_limit d1")
  note f2 = io_read_files [OF 2]
  show ?thesis
  proof (cases "ro = Inr () \<and> (\<exists>encoded. rb = Inr encoded)")
    case False
    then show ?thesis using assms(2) f1 f2
      by (cases ro) (auto simp: read_locked_def 1 2 disk_envelope_def split: io_error.splits sum.splits)
  next
    case True
    then obtain encoded where r: "ro = Inr ()" "rb = Inr encoded" by blast
    obtain bytes where b: "dk_files d (es_path es) = Some bytes" using f1 r(1) by auto
    then have enc: "encoded = take read_limit bytes" using f1 f2 r(2) by simp
    obtain re d3 where 3: "open_session es encoded d2 = (re, d3)" by (cases "open_session es encoded d2")
    note f3 = open_session_envelope [OF assms(1) 3]
    obtain rr d4 where 4: "remove_unusable_session (es_path es) d3 = (rr, d4)"
      by (cases "remove_unusable_session (es_path es) d3")
    note f4 = remove_unusable_files [OF 4]
    have e: "disk_envelope es opens d = file_envelope (es_codec es) opens encoded"
      by (simp add: disk_envelope_def b enc file_envelope_limit)
    show ?thesis
    proof (cases re)
      case (Inr env)
      then show ?thesis using assms(2) r f1 f2 f3 e by (auto simp: read_locked_def 1 2 3 disk_envelope_def)
    next
      case (Inl err)
      show ?thesis
      proof (cases err)
        case (StoreCorrupted msg)
        then have none: "disk_envelope es opens d = None" using f3(3) Inl e by simp
        then have "disk_envelope es opens d4 = None"
          using f1 f2 f3(1) f4 unfolding disk_envelope_def by (auto simp: fun_upd_def)
        then show ?thesis using assms(2) r none
          by (auto simp: read_locked_def 1 2 3 4 Inl StoreCorrupted split: sum.splits)
      qed (use assms(2) r f1 f2 f3 Inl in \<open>auto simp: read_locked_def 1 2 3 disk_envelope_def\<close>)
    qed
  qed
qed

text \<open>Writing touches the destination only by the rename of the complete file.\<close>

lemma io_create_files: "io_create_new path d = (r, d') \<Longrightarrow> q \<noteq> path \<Longrightarrow> dk_files d' q = dk_files d q"
  by (auto simp: io_create_new_def split: prod.splits option.splits if_splits)

lemma io_write_files: "io_write_all path bytes d = (r, d') \<Longrightarrow>
    (\<forall>q. q \<noteq> path \<longrightarrow> dk_files d' q = dk_files d q) \<and> (r = Inr () \<longrightarrow> dk_files d' path = Some bytes)"
  by (auto simp: io_write_all_def split: prod.splits option.splits)

lemma io_rename_files: "io_rename source destination d = (r, d') \<Longrightarrow> source \<noteq> destination \<Longrightarrow>
    (r = Inr () \<longrightarrow> dk_files d' destination = dk_files d source \<and> dk_files d source \<noteq> None) \<and>
    (r \<noteq> Inr () \<longrightarrow> dk_files d' = dk_files d)"
  by (auto simp: io_rename_def split: prod.splits option.splits)

lemma write_and_rename_files:
  assumes "write_and_rename destination temporary encoded (\<lambda>d. (Ok (), d)) d = (r, d')" "temporary \<noteq> destination"
  shows "dk_files d' destination = dk_files d destination \<or> dk_files d' destination = Some encoded"
    "r = Inr () \<Longrightarrow> dk_files d' destination = Some encoded"
proof -
  obtain r1 d1 where 1: "io_create_new temporary d = (r1, d1)" by (cases "io_create_new temporary d")
  obtain r2 d2 where 2: "io_write_all temporary encoded d1 = (r2, d2)" by (cases "io_write_all temporary encoded d1")
  obtain r3 d3 where 3: "io_effectless d2 = (r3, d3)" by (cases "io_effectless d2")
  obtain r4 d4 where 4: "io_rename temporary destination d3 = (r4, d4)" by (cases "io_rename temporary destination d3")
  note f = io_create_files [OF 1, of destination] io_write_files [OF 2] io_effectless_files [OF 3] io_rename_files [OF 4 assms(2)]
  show "dk_files d' destination = dk_files d destination \<or> dk_files d' destination = Some encoded"
    "r = Inr () \<Longrightarrow> dk_files d' destination = Some encoded"
    using assms f by (auto simp: write_and_rename_def 1 2 3 4 dest!: sync_parent_files split: sum.splits)
qed

lemma commit_files:
  assumes "commit_same_directory destination temporary encoded (\<lambda>d. (Ok (), d)) d = (r, d')" "temporary \<noteq> destination"
  shows "dk_files d' destination = dk_files d destination \<or> dk_files d' destination = Some encoded"
    "r = Inr () \<Longrightarrow> dk_files d' destination = Some encoded"
proof -
  obtain r1 d1 where 1: "io_effectless d = (r1, d1)" by (cases "io_effectless d")
  obtain r2 d2 where 2: "io_remove_file temporary d1 = (r2, d2)" by (cases "io_remove_file temporary d1")
  obtain r3 d3 where 3: "write_and_rename destination temporary encoded (\<lambda>d. (Ok (), d)) d2 = (r3, d3)"
    by (cases "write_and_rename destination temporary encoded (\<lambda>d. (Ok (), d)) d2")
  obtain r4 d4 where 4: "io_remove_file temporary d3 = (r4, d4)" by (cases "io_remove_file temporary d3")
  note f = io_effectless_files [OF 1] io_remove_files [OF 2] write_and_rename_files [OF 3 assms(2)] io_remove_files [OF 4]
  show "dk_files d' destination = dk_files d destination \<or> dk_files d' destination = Some encoded"
    "r = Inr () \<Longrightarrow> dk_files d' destination = Some encoded"
    using assms f by (auto simp: commit_same_directory_def 1 2 3 4 split: sum.splits io_error.splits if_splits)
qed

text \<open>An envelope that the store reads back.\<close>

definition complete_envelope :: "envelope \<Rightarrow> bool" where
  "complete_envelope env =
     (ev_access_token env \<noteq> [] \<and> ev_refresh_token env \<noteq> [] \<and> acct_id (ev_account env) \<noteq> [] \<and>
      acct_primary_email (ev_account env) \<noteq> [] \<and> as_id (ev_session env) \<noteq> [] \<and>
      as_device_label (ev_session env) \<noteq> [] \<and> ev_access_token_expires_at env \<noteq> 0 \<and>
      ev_refresh_token_expires_at env \<noteq> 0)"

lemma envelope_try_from_stored:
  "envelope_try_from (stored_envelope_from env) =
     (if complete_envelope env then Inr env else Inl ''stored session payload is incomplete'')"
  by (auto simp: envelope_try_from_def stored_envelope_from_def complete_envelope_def)

lemma temporary_path_differs: "temporary_path path \<noteq> path"
  by (cases path) (auto simp: temporary_path_def split: option.splits)

lemma encrypted_replace_envelope:
  assumes "authentic opens (es_cryptor es)" "faithful_codec (es_codec es)" "encrypted_replace es env d = (r, d')"
  shows "disk_envelope es opens d' = disk_envelope es opens d \<or>
      disk_envelope es opens d' = (if complete_envelope env then Some env else None)"
    "r = Inr () \<Longrightarrow> disk_envelope es opens d' = (if complete_envelope env then Some env else None)"
proof -
  have "dk_files d' (es_path es) = dk_files d (es_path es) \<and> r \<noteq> Inr () \<or>
    (\<exists>encoded. (dk_files d' (es_path es) = dk_files d (es_path es) \<and> r \<noteq> Inr () \<or> dk_files d' (es_path es) = Some encoded) \<and>
       file_envelope (es_codec es) opens encoded = (if complete_envelope env then Some env else None))"
  proof (cases "\<exists>plaintext sealed d1 encoded. to_storage_bytes (es_codec es) env = Some plaintext \<and>
      crypto (cr_seal (es_cryptor es) plaintext ASSOCIATED_DATA) d = (Inr sealed, d1) \<and> encode_sealed_session sealed = Inr encoded")
    case False
    then show ?thesis using assms(3)
      by (auto simp: encrypted_replace_def split: option.splits prod.splits sum.splits dest: crypto_files)
  next
    case True
    then obtain plaintext sealed d1 encoded where b: "to_storage_bytes (es_codec es) env = Some plaintext"
      and c: "crypto (cr_seal (es_cryptor es) plaintext ASSOCIATED_DATA) d = (Inr sealed, d1)"
      and e: "encode_sealed_session sealed = Inr encoded" by blast
    note f1 = crypto_files [OF c]
    have "opens sealed = Some plaintext" using authenticD(3) [OF assms(1)] f1 by blast
    moreover have "from_storage_bytes (es_codec es) plaintext = envelope_try_from (stored_envelope_from env)"
      using assms(2) b by (auto simp: faithful_codec_def to_storage_bytes_def from_storage_bytes_def)
    ultimately have "file_envelope (es_codec es) opens encoded = (if complete_envelope env then Some env else None)"
      by (simp add: file_envelope_def decode_encoded [OF e] envelope_try_from_stored)
    moreover have "write_locked es encoded d1 = (r, d')" using assms(3) by (simp add: encrypted_replace_def b c e)
    from commit_files [OF this [unfolded write_locked_def] temporary_path_differs]
    have "dk_files d' (es_path es) = dk_files d (es_path es) \<and> r \<noteq> Inr () \<or> dk_files d' (es_path es) = Some encoded"
      using f1 by (cases r) auto
    ultimately show ?thesis by blast
  qed
  then show "disk_envelope es opens d' = disk_envelope es opens d \<or>
      disk_envelope es opens d' = (if complete_envelope env then Some env else None)"
    "r = Inr () \<Longrightarrow> disk_envelope es opens d' = (if complete_envelope env then Some env else None)"
    by (auto simp: disk_envelope_def)
qed

lemma encrypted_contract:
  assumes "authentic opens (es_cryptor es)" "faithful_codec (es_codec es)"
  shows "session_contract (encrypted_store es) (disk_envelope es opens)"
proof -
  have clear: "disk_envelope es opens d' = disk_envelope es opens d \<or> disk_envelope es opens d' = None"
    "r = Inr () \<Longrightarrow> disk_envelope es opens d' = None"
    if "remove_unusable_session (es_path es) d = (r, d')" for d r d'
    using remove_unusable_files [OF that] by (auto simp: disk_envelope_def)
  show ?thesis
    by (unfold_locales; unfold encrypted_store_def session_store.simps)
      (use read_locked_envelope [OF assms(1)] encrypted_replace_envelope [OF assms] clear in \<open>fastforce split: if_splits\<close>)+
qed

subsection \<open>The session file under failures\<close>

text \<open>What needs no assumption on the cryptography or the codec: which bytes are in the file.\<close>

definition session_file :: "'v encrypted_file_store \<Rightarrow> 'v disk \<Rightarrow> byte list option" where
  "session_file es d = dk_files d (es_path es)"

text \<open>The bytes a replacement has to write, when the session can be encoded and sealed.\<close>

definition sealed_bytes :: "'v encrypted_file_store \<Rightarrow> envelope \<Rightarrow> 'v disk \<Rightarrow> byte list option" where
  "sealed_bytes es env d =
     Option.bind (to_storage_bytes (es_codec es) env) (\<lambda>plaintext.
       case fst (cr_seal (es_cryptor es) plaintext ASSOCIATED_DATA (dk_rest d)) of
         Inl _ \<Rightarrow> None
       | Inr sealed \<Rightarrow> (case encode_sealed_session sealed of Inl _ \<Rightarrow> None | Inr encoded \<Rightarrow> Some encoded))"

text \<open>What the bytes in the file opened to.\<close>

definition opened_as :: "'v encrypted_file_store \<Rightarrow> 'v disk \<Rightarrow> envelope \<Rightarrow> bool" where
  "opened_as es d env =
     (\<exists>bytes sealed plaintext. session_file es d = Some bytes \<and>
        decode_sealed_session (take read_limit bytes) = Inr sealed \<and>
        fst (cr_open (es_cryptor es) sealed ASSOCIATED_DATA (dk_rest d)) = Inr plaintext \<and>
        from_storage_bytes (es_codec es) plaintext = Inr env)"

definition unflushed :: session_store_error where
  "unflushed = StoreUnavailable ''encrypted session directory could not be flushed''"

text \<open>Only the named files may have changed.\<close>

definition touches :: "file_path set \<Rightarrow> 'v disk \<Rightarrow> 'v disk \<Rightarrow> bool" where
  "touches paths d d' = (\<forall>q. q \<notin> paths \<longrightarrow> dk_files d' q = dk_files d q)"

lemma touches_same: "dk_files d' = dk_files d \<Longrightarrow> touches paths d d'"
  by (simp add: touches_def)

lemma touches_trans: "touches paths d d' \<Longrightarrow> touches paths d' d'' \<Longrightarrow> touches paths d d''"
  by (auto simp: touches_def)

lemma io_touches:
  "io_remove_file path d = (r, d') \<Longrightarrow> path \<in> paths \<Longrightarrow> touches paths d d'"
  "io_create_new path d = (ru, d') \<Longrightarrow> path \<in> paths \<Longrightarrow> touches paths d d'"
  "io_write_all path bytes d = (ru, d') \<Longrightarrow> path \<in> paths \<Longrightarrow> touches paths d d'"
  "io_rename path destination d = (ru, d') \<Longrightarrow> path \<in> paths \<Longrightarrow> destination \<in> paths \<Longrightarrow> touches paths d d'"
  "io_effectless d = (ru, d') \<Longrightarrow> touches paths d d'"
  "sync_parent_directory path d = (re, d') \<Longrightarrow> touches paths d d'"
  by (auto simp: touches_def dest!: io_remove_files io_effectless_files sync_parent_files)
     (auto simp: io_create_new_def io_write_all_def io_rename_def split: prod.splits option.splits if_splits)

lemma sync_parent_error:
  "sync_parent_directory path d = (Inl err, d') \<Longrightarrow> fp_parent path \<noteq> None \<Longrightarrow> err = unflushed"
  by (auto simp: sync_parent_directory_def unflushed_def split: option.splits prod.splits sum.splits)

lemma write_and_rename_error:
  assumes "write_and_rename destination temporary encoded (\<lambda>d. (Ok (), d)) d = (Inl err, d')"
    and "temporary \<noteq> destination" "fp_parent destination \<noteq> None"
  shows "dk_files d' destination = dk_files d destination \<or> err = unflushed"
proof -
  obtain r1 d1 where 1: "io_create_new temporary d = (r1, d1)" by fastforce
  obtain r2 d2 where 2: "io_write_all temporary encoded d1 = (r2, d2)" by fastforce
  obtain r3 d3 where 3: "io_effectless d2 = (r3, d3)" by fastforce
  obtain r4 d4 where 4: "io_rename temporary destination d3 = (r4, d4)" by fastforce
  note f = io_create_files [OF 1, of destination] io_write_files [OF 2] io_effectless_files [OF 3] io_rename_files [OF 4 assms(2)]
  show ?thesis
    using assms f by (auto simp: write_and_rename_def 1 2 3 4 dest: sync_parent_error split: sum.splits)
qed

lemma write_and_rename_touches:
  assumes "write_and_rename destination temporary encoded (\<lambda>d. (Ok (), d)) d = (r, d')"
  shows "touches {destination, temporary} d d'"
proof -
  let ?T = "touches {destination, temporary}"
  obtain r1 d1 where 1: "io_create_new temporary d = (r1, d1)" by fastforce
  obtain r2 d2 where 2: "io_write_all temporary encoded d1 = (r2, d2)" by fastforce
  obtain r3 d3 where 3: "io_effectless d2 = (r3, d3)" by fastforce
  obtain r4 d4 where 4: "io_rename temporary destination d3 = (r4, d4)" by fastforce
  obtain r5 d5 where 5: "sync_parent_directory destination d4 = (r5, d5)" by fastforce
  have t: "?T d d1" "?T d1 d2" "?T d2 d3" "?T d3 d4" "?T d4 d5"
    using io_touches(2) [OF 1] io_touches(3) [OF 2] io_touches(5) [OF 3] io_touches(4) [OF 4] io_touches(6) [OF 5]
    by simp_all
  have "d' \<in> {d1, d2, d3, d4, d5}"
    using assms by (auto simp: write_and_rename_def 1 2 3 4 5 split: sum.splits)
  with t show ?thesis by (auto simp: touches_def)
qed

lemma write_locked_file:
  assumes "write_locked es encoded d = (r, d')"
  shows "case r of Inr _ \<Rightarrow> session_file es d' = Some encoded
      | Inl err \<Rightarrow> session_file es d' = session_file es d \<or> session_file es d' = Some encoded \<and> err = unflushed"
    and "touches {es_path es, temporary_path (es_path es)} d d'"
proof -
  let ?p = "es_path es" let ?t = "temporary_path ?p"
  obtain r1 d1 where 1: "io_effectless d = (r1, d1)" by fastforce
  obtain r2 d2 where 2: "io_remove_file ?t d1 = (r2, d2)" by fastforce
  obtain r3 d3 where 3: "write_and_rename ?p ?t encoded (\<lambda>d. (Ok (), d)) d2 = (r3, d3)" by fastforce
  obtain r4 d4 where 4: "io_remove_file ?t d3 = (r4, d4)" by fastforce
  note p = temporary_path_differs [of ?p]
  note f = io_effectless_files [OF 1] io_remove_files [OF 2] io_remove_files [OF 4] write_and_rename_files [OF 3 p]
  have error: "dk_files d3 ?p = dk_files d2 ?p \<or> err = unflushed" if "r3 = Inl err" "fp_parent ?p \<noteq> None" for err
    using write_and_rename_error [OF 3 [unfolded that(1)] p that(2)] .
  have w: "(if fp_parent ?p = None then (Err no_parent, d)
      else case r1 of Inl _ \<Rightarrow> (Err (unavailable ''encrypted session directory unavailable''), d1)
      | Inr _ \<Rightarrow> (case r2 of
          Inl IoOther \<Rightarrow> (Err (unavailable ''stale encrypted session temporary file could not be removed''), d2)
        | _ \<Rightarrow> (case r3 of Inl err \<Rightarrow> (Err err, d4) | Inr _ \<Rightarrow> (Ok (), d3)))) = (r, d')"
    using assms unfolding write_locked_def commit_same_directory_def
    by (cases "fp_parent ?p = None"; cases r1; cases r2 rule: sum.exhaust; cases r3)
      (auto simp: 1 2 3 4 split: io_error.splits)
  show "case r of Inr _ \<Rightarrow> session_file es d' = Some encoded
      | Inl err \<Rightarrow> session_file es d' = session_file es d \<or> session_file es d' = Some encoded \<and> err = unflushed"
    using w f p error by (auto simp: session_file_def split: if_splits sum.splits io_error.splits)
  have t: "touches {?p, ?t} d d1" "touches {?p, ?t} d1 d2" "touches {?p, ?t} d2 d3" "touches {?p, ?t} d3 d4"
    using io_touches(5) [OF 1] io_touches(1) [OF 2] write_and_rename_touches [OF 3] io_touches(1) [OF 4] by simp_all
  have "d' \<in> {d, d1, d2, d3, d4}"
    using w by (auto split: if_splits sum.splits io_error.splits)
  with t show "touches {?p, ?t} d d'" by (auto simp: touches_def)
qed

text \<open>The file after one operation of the store, by its result.\<close>

definition replaced_properly ::
  "'v encrypted_file_store \<Rightarrow> envelope \<Rightarrow> 'v disk \<Rightarrow> (session_store_error + unit) \<times> 'v disk \<Rightarrow> bool" where
  "replaced_properly es env d answer =
     (case answer of
        (Inr _, d') \<Rightarrow> sealed_bytes es env d \<noteq> None \<and> session_file es d' = sealed_bytes es env d
      | (Inl err, d') \<Rightarrow>
          session_file es d' = session_file es d \<or>
          sealed_bytes es env d \<noteq> None \<and> session_file es d' = sealed_bytes es env d \<and> err = unflushed)"

definition cleared_properly ::
  "'v encrypted_file_store \<Rightarrow> 'v disk \<Rightarrow> (session_store_error + unit) \<times> 'v disk \<Rightarrow> bool" where
  "cleared_properly es d answer =
     (case answer of
        (Inr _, d') \<Rightarrow> session_file es d' = None
      | (Inl _, d') \<Rightarrow> session_file es d' \<in> {session_file es d, None})"

definition read_properly ::
  "'v encrypted_file_store \<Rightarrow> 'v disk \<Rightarrow> (session_store_error + envelope option) \<times> 'v disk \<Rightarrow> bool" where
  "read_properly es d answer =
     (case answer of
        (Inr None, d') \<Rightarrow> session_file es d = None \<and> session_file es d' = None
      | (Inr (Some env), d') \<Rightarrow> opened_as es d env \<and> session_file es d' = session_file es d
      | (Inl (StoreCorrupted _), d') \<Rightarrow> session_file es d' = None
      | (Inl _, d') \<Rightarrow> session_file es d' \<in> {session_file es d, None})"

lemma replace_properly:
  assumes "encrypted_replace es env d = (r, d')"
  shows "replaced_properly es env d (r, d')" "touches {es_path es, temporary_path (es_path es)} d d'"
proof -
  have "replaced_properly es env d (r, d') \<and> touches {es_path es, temporary_path (es_path es)} d d'"
  proof (cases "sealed_bytes es env d")
    case None
    then have "dk_files d' = dk_files d" "\<exists>err. r = Inl err" using assms
      by (auto simp: encrypted_replace_def sealed_bytes_def split: option.splits prod.splits sum.splits dest!: crypto_files)
    then show ?thesis by (auto simp: replaced_properly_def session_file_def intro: touches_same)
  next
    case (Some encoded)
    then obtain d1 where "write_locked es encoded d1 = (r, d')" "dk_files d1 = dk_files d"
      using assms by (auto simp: encrypted_replace_def sealed_bytes_def crypto_def case_prod_beta Let_def Option.bind_eq_Some_conv
          split: option.splits sum.splits)
    with write_locked_file [of es encoded d1 r d'] Some show ?thesis
      by (auto simp: replaced_properly_def session_file_def touches_def split: sum.splits)
  qed
  then show "replaced_properly es env d (r, d')" "touches {es_path es, temporary_path (es_path es)} d d'" by blast+
qed

lemma clear_properly:
  assumes "remove_unusable_session (es_path es) d = (r, d')"
  shows "cleared_properly es d (r, d')" "touches {es_path es} d d'"
  using remove_unusable_files [OF assms]
  by (auto simp: cleared_properly_def session_file_def touches_def split: sum.splits)

lemma next_fault_rest: "next_fault d = (f, d') \<Longrightarrow> dk_rest d' = dk_rest d"
  by (cases "dk_faults d") (auto simp: next_fault_def)

lemma io_rest:
  "io_open path d = (ru, d') \<Longrightarrow> dk_rest d' = dk_rest d"
  "io_read path limit d = (rb, d') \<Longrightarrow> dk_rest d' = dk_rest d"
  by (auto simp: io_open_def io_read_def split: prod.splits option.splits if_splits dest!: next_fault_rest)

lemma remove_error: "remove_unusable_session path d = (r, d') \<Longrightarrow> r \<noteq> Inl (StoreCorrupted msg)"
  by (auto simp: remove_unusable_session_def sync_parent_directory_def no_parent_def
      split: prod.splits sum.splits io_error.splits option.splits)

lemma read_locked_properly:
  assumes "read_locked es d = (r, d')"
  shows "read_properly es d (r, d')" "touches {es_path es} d d'"
proof -
  obtain ro d1 where 1: "io_open (es_path es) d = (ro, d1)" by fastforce
  obtain rb d2 where 2: "io_read (es_path es) read_limit d1 = (rb, d2)" by fastforce
  note f = io_open_files [OF 1] io_read_files [OF 2] io_rest(1) [OF 1] io_rest(2) [OF 2]
  have "read_properly es d (r, d') \<and> touches {es_path es} d d'"
  proof (cases "ro = Inr () \<and> (\<exists>encoded. rb = Inr encoded)")
    case False
    then show ?thesis using assms f
      by (cases ro) (auto simp: read_locked_def 1 2 read_properly_def session_file_def touches_def
          split: sum.splits io_error.splits)
  next
    case True
    then obtain encoded where b: "ro = Inr ()" "rb = Inr encoded" by blast
    obtain re d3 where 3: "open_session es encoded d2 = (re, d3)" by fastforce
    have d3: "dk_files d3 = dk_files d" using 3 f b
      by (auto simp: open_session_def split: sum.splits prod.splits dest!: crypto_files)
    have env: "opened_as es d env" if "re = Inr env" for env
      using 3 that f b unfolding opened_as_def session_file_def
      by (auto simp: open_session_def split: sum.splits prod.splits dest!: crypto_files)
    obtain r4 d4 where 4: "remove_unusable_session (es_path es) d3 = (r4, d4)" by fastforce
    have "(case re of Inr env \<Rightarrow> (Ok (Some env), d3)
        | Inl (StoreCorrupted msg) \<Rightarrow> (case r4 of Inl err \<Rightarrow> (Err err, d4) | Inr _ \<Rightarrow> (Err (StoreCorrupted msg), d4))
        | Inl err \<Rightarrow> (Err err, d3)) = (r, d')"
      using assms by (cases re) (auto simp: read_locked_def 1 2 b 3 4 split: session_store_error.splits sum.splits)
    then show ?thesis using d3 env remove_unusable_files [OF 4] remove_error [OF 4]
      by (auto simp: read_properly_def session_file_def touches_def
          split: sum.splits session_store_error.splits)
  qed
  then show "read_properly es d (r, d')" "touches {es_path es} d d'" by blast+
qed

text \<open>C26: the session file is replaced as a whole, whatever the cryptography and the codec do and whatever
  file operations fail. A replacement that reports success left exactly the bytes sealed for the new session; one that
  fails left the old file, except when the only thing that failed was the flush of the directory after the
  rename, where the new bytes are in place: there the store leaves the contract of its trait. Clearing leaves no file, or on an
  error the old one or none. Reading nothing means that there is no file, reading a session that the
  bytes in the file opened to it; a session reported as corrupted is gone, and no other
  failure leaves anything but the old file or none. No other file is touched but the temporary one of a replacement.\<close>

theorem session_file_changes_whole:
  "replaced_properly es env d (ss_replace (encrypted_store es) env d) \<and>
   cleared_properly es d (ss_clear (encrypted_store es) d) \<and>
   read_properly es d (ss_read (encrypted_store es) d) \<and>
   touches {es_path es, temporary_path (es_path es)} d (snd (ss_replace (encrypted_store es) env d)) \<and>
   touches {es_path es} d (snd (ss_clear (encrypted_store es) d)) \<and>
   touches {es_path es} d (snd (ss_read (encrypted_store es) d))"
  unfolding encrypted_store_def session_store.simps
  by (intro conjI)
     (metis prod.collapse replace_properly clear_properly read_locked_properly)+

text \<open>A store with a fixed sealing and a payload for one session, in a directory.\<close>

definition plain_cryptor :: "'v session_cryptor" where
  "plain_cryptor =
     \<lparr>cr_seal = (\<lambda>p _ v. (Ok \<lparr>se_nonce = [1], se_ciphertext = p, se_tag = [2]\<rparr>, v)),
      cr_open = (\<lambda>s _ v. (Ok (se_ciphertext s), v))\<rparr>"

definition payload_codec :: "envelope \<Rightarrow> session_codec" where
  "payload_codec env =
     \<lparr>to_json = (\<lambda>e. if e = stored_envelope_from env then Some [7] else None),
      from_json = (\<lambda>b. if b = [7] then Some (stored_envelope_from env) else None)\<rparr>"

definition sample_path :: file_path where
  "sample_path = \<lparr>fp_parent = Some ''dir'', fp_stem = ''session'', fp_extension = Some ''bin''\<rparr>"

definition sample_store :: "envelope \<Rightarrow> 'v encrypted_file_store" where
  "sample_store env = \<lparr>es_path = sample_path, es_cryptor = plain_cryptor, es_codec = payload_codec env\<rparr>"

lemma sample_store_laws:
  "authentic (\<lambda>s. Some (se_ciphertext s)) (es_cryptor (sample_store env))" "faithful_codec (es_codec (sample_store env))"
  by (auto simp: sample_store_def authentic_def plain_cryptor_def faithful_codec_def payload_codec_def split: if_splits)

subsection \<open>Where the store leaves the contract of its trait\<close>

text \<open>The steps of a replacement when the next operation works.\<close>

lemma io_works:
  assumes "dk_faults d = None # fs"
  shows "\<exists>d'. io_effectless d = (Inr (), d') \<and> dk_faults d' = fs \<and> dk_files d' = dk_files d"
    "\<exists>r d'. io_remove_file path d = (r, d') \<and> r \<noteq> Inl IoOther \<and> dk_faults d' = fs \<and> dk_files d' path = None"
    "dk_files d path = None \<Longrightarrow> \<exists>d'. io_create_new path d = (Inr (), d') \<and> dk_faults d' = fs"
    "\<exists>d'. io_write_all path bytes d = (Inr (), d') \<and> dk_faults d' = fs \<and> dk_files d' path = Some bytes"
    "dk_files d path = Some bytes \<Longrightarrow> \<exists>d'. io_rename path destination d = (Inr (), d') \<and> dk_faults d' = fs"
  using assms
  by (simp_all add: io_effectless_def io_remove_file_def io_create_new_def io_write_all_def io_rename_def next_fault_def set_file_def)

lemma commit_runs:
  assumes "fp_parent destination \<noteq> None" and differ: "temporary \<noteq> destination"
    and "dk_faults d = [None, None, None, None, None, None, f]"
  shows "\<exists>d'. commit_same_directory destination temporary encoded (\<lambda>d. (Ok (), d)) d = (if f = None then Ok ()
      else Err (StoreUnavailable ''encrypted session directory could not be flushed''), d') \<and>
    dk_files d' destination = Some encoded"
proof -
  obtain d1 where 1: "io_effectless d = (Inr (), d1)" "dk_faults d1 = [None, None, None, None, None, f]"
    using io_works(1) [OF assms(3)] by blast
  obtain r2 d2 where 2: "io_remove_file temporary d1 = (r2, d2)" "r2 \<noteq> Inl IoOther" "dk_faults d2 = [None, None, None, None, f]"
      "dk_files d2 temporary = None"
    using io_works(2) [OF 1(2)] by blast
  obtain d3 where 3: "io_create_new temporary d2 = (Inr (), d3)" "dk_faults d3 = [None, None, None, f]"
    using io_works(3) [OF 2(3,4)] by blast
  obtain d4 where 4: "io_write_all temporary encoded d3 = (Inr (), d4)" "dk_faults d4 = [None, None, f]"
      "dk_files d4 temporary = Some encoded"
    using io_works(4) [OF 3(2)] by blast
  obtain d5 where 5: "io_effectless d4 = (Inr (), d5)" "dk_faults d5 = [None, f]" "dk_files d5 = dk_files d4"
    using io_works(1) [OF 4(2)] by blast
  obtain d6 where 6: "io_rename temporary destination d5 = (Inr (), d6)" "dk_faults d6 = [f]"
    using io_works(5) [OF 5(2)] 4(3) 5(3) by metis
  have d6: "dk_files d6 destination = Some encoded" using io_rename_files [OF 6(1) differ] 4(3) 5(3) by simp
  define d7 where "d7 = d6\<lparr>dk_faults := []\<rparr>"
  have 7: "sync_parent_directory destination d6 = (if f = None then Ok ()
      else Err (StoreUnavailable ''encrypted session directory could not be flushed''), d7)"
    using assms(1) 6(2) by (auto simp: sync_parent_directory_def io_effectless_def next_fault_def d7_def split: option.splits)
  have wr: "write_and_rename destination temporary encoded (\<lambda>d. (Ok (), d)) d2 = sync_parent_directory destination d6"
    by (simp add: write_and_rename_def 3 4 5 6)
  obtain r8 d8 where 8: "io_remove_file temporary d7 = (r8, d8)" by (cases "io_remove_file temporary d7")
  have "dk_files d8 destination = Some encoded" "dk_files d7 destination = Some encoded"
    using io_remove_files [OF 8] d6 differ by (auto simp: d7_def)
  then show ?thesis using assms(1) 2(1,2)
    by (cases f; cases r2 rule: sum.exhaust) (auto simp: commit_same_directory_def 1 2 wr 7 8 split: io_error.splits)
qed

lemma replace_runs:
  assumes "fp_parent (es_path es) \<noteq> None" "to_storage_bytes (es_codec es) env = Some plaintext"
    "cr_seal (es_cryptor es) plaintext ASSOCIATED_DATA (dk_rest d) = (Inr sealed, v)"
    "encode_sealed_session sealed = Inr encoded" "dk_faults d = [None, None, None, None, None, None, f]"
  shows "\<exists>d'. encrypted_replace es env d = (if f = None then Ok ()
      else Err (StoreUnavailable ''encrypted session directory could not be flushed''), d') \<and>
    dk_files d' (es_path es) = Some encoded"
proof -
  have "dk_faults (d\<lparr>dk_rest := v\<rparr>) = [None, None, None, None, None, None, f]" using assms(5) by simp
  from commit_runs [OF assms(1) temporary_path_differs this, of encoded] show ?thesis
    by (simp add: encrypted_replace_def assms(2-4) crypto_def write_locked_def)
qed

text \<open>The store is not atomic as the trait of session stores asks. When the flush of the directory fails
  after the rename, \<open>replace\<close> reports an error although the new session is in place: a read then returns
  neither the previous value nor none. This is so for any session that can be written, in any state of the disk.\<close>

lemma encrypted_store_not_atomic:
  assumes "authentic opens (es_cryptor es)" "faithful_codec (es_codec es)" "fp_parent (es_path es) \<noteq> None"
    and "complete_envelope env" "to_storage_bytes (es_codec es) env = Some plaintext"
    and "cr_seal (es_cryptor es) plaintext ASSOCIATED_DATA (dk_rest d) = (Inr sealed, v)" "encode_sealed_session sealed = Inr encoded"
  shows "\<exists>faults err d'. ss_replace (encrypted_store es) env (d\<lparr>dk_faults := faults\<rparr>) = (Err err, d') \<and>
    disk_envelope es opens d' = Some env"
proof -
  let ?d = "d\<lparr>dk_faults := [None, None, None, None, None, None, Some 0]\<rparr>"
  have "cr_seal (es_cryptor es) plaintext ASSOCIATED_DATA (dk_rest ?d) = (Inr sealed, v)" using assms(6) by simp
  from replace_runs [OF assms(3,5) this assms(7)] obtain d' where
    d': "encrypted_replace es env ?d = (Err (StoreUnavailable ''encrypted session directory could not be flushed''), d')"
      "dk_files d' (es_path es) = Some encoded"
    by fastforce
  have "opens sealed = Some plaintext" using authenticD(3) [OF assms(1), of plaintext "dk_rest d" sealed] assms(6) by simp
  moreover have "from_storage_bytes (es_codec es) plaintext = Inr env"
    using assms(2,4,5) by (auto simp: faithful_codec_def to_storage_bytes_def from_storage_bytes_def envelope_try_from_stored)
  ultimately have "disk_envelope es opens d' = Some env"
    using d'(2) by (simp add: disk_envelope_def file_envelope_def decode_encoded [OF assms(7)])
  with d'(1) show ?thesis by (auto simp: encrypted_store_def)
qed

definition labelled_session :: "string \<Rightarrow> envelope" where
  "labelled_session label =
     (sample_envelope ''token'' 9000)
       \<lparr>ev_account := \<lparr>acct_id = ''a'', acct_primary_email = ''mail'', acct_status = [], acct_created_at_epoch_millis = 0\<rparr>,
        ev_session := (ev_session (sample_envelope ''token'' 9000))\<lparr>as_device_label := label\<rparr>\<rparr>"

definition empty_disk :: "nat option list \<Rightarrow> unit disk" where
  "empty_disk faults = \<lparr>dk_files = Map.empty, dk_faults = faults, dk_rest = ()\<rparr>"

lemma sample_sealing:
  "fp_parent (es_path (sample_store env)) \<noteq> None" "to_storage_bytes (es_codec (sample_store env)) env = Some [7]"
  "cr_seal (es_cryptor (sample_store env)) [7] ASSOCIATED_DATA v = (Inr \<lparr>se_nonce = [1], se_ciphertext = [7], se_tag = [2]\<rparr>, v)"
  "\<exists>encoded. encode_sealed_session \<lparr>se_nonce = [1], se_ciphertext = [7], se_tag = [2]\<rparr> = Inr encoded"
  by (simp_all add: sample_store_def sample_path_def payload_codec_def to_storage_bytes_def plain_cryptor_def
      encode_iff validate_ok MAX_COMPONENT_LEN_def)

lemma encrypted_store_not_atomic_witness:
  "\<exists>faults err d'. ss_replace (encrypted_store (sample_store (labelled_session ''phone''))) (labelled_session ''phone'') (empty_disk faults)
       = (Err err, d') \<and>
     disk_envelope (sample_store (labelled_session ''phone'')) (\<lambda>s. Some (se_ciphertext s)) d' = Some (labelled_session ''phone'')"
proof -
  have c: "complete_envelope (labelled_session ''phone'')"
    by (simp add: complete_envelope_def labelled_session_def sample_envelope_def)
  obtain encoded where e: "encode_sealed_session \<lparr>se_nonce = [1], se_ciphertext = [7], se_tag = [2]\<rparr> = Inr encoded"
    using sample_sealing(4) by blast
  show ?thesis
    using encrypted_store_not_atomic [OF sample_store_laws sample_sealing(1) c sample_sealing(2) sample_sealing(3) e, of "empty_disk []"]
    by (simp add: empty_disk_def)
qed

subsection \<open>A login that is lost\<close>

text \<open>A login answered with an empty device label succeeds and is lost at once. The backend's answer is
  mapped and written without a look at the label, but an envelope without a label is refused when it is
  read back: the login reports the authenticated state, and then no request is granted a token,
  whatever is tried.\<close>

lemma unlabelled_login_is_lost:
  assumes "authentic opens (es_cryptor es)" "faithful_codec (es_codec es)" "sc_store c = encrypted_store es"
    and "leaves (disk_envelope es opens) (sc_system_clock c)"
    and answer: "fst (au_login_password (sc_auth c) email password label (sc_world c)) = Inr env" "as_device_label (ev_session env) = []"
    and login: "login_password email password label c = (Ok state, c')" and "run_accesses ops c' = (grants, c'')"
  shows "state = envelope_state env \<and> set grants \<subseteq> {NoGrant}"
proof -
  obtain c1 where 1: "outside (au_login_password (sc_auth c) email password label) c = (Inr env, c1)"
    using answer(1) by (cases "outside (au_login_password (sc_auth c) email password label) c") (metis fst_conv outside_frame(7))
  note f1 = outsideD [OF 1]
  have commit: "commit_interactive_session env c1 = (Ok state, c')"
    using login by (simp add: login_password_def commit_answer_def 1)
  obtain u c2 where 2: "replace_store env c1 = (Inr u, c2)"
    using commit by (cases "replace_store env c1") (auto simp: commit_interactive_session_def Let_def split: sum.splits prod.splits)
  note f2 = outsideD [OF 2 [unfolded replace_store_def]]
  obtain g where 3: "advance_generation c2 = (Inr g, c2\<lparr>sc_generation := sc_generation c2 + 1\<rparr>)"
    and c': "c' = c2\<lparr>sc_generation := sc_generation c2 + 1, sc_invalidated := False\<rparr>" and st: "state = envelope_state env"
    using commit by (auto simp: commit_interactive_session_def 2 Let_def map_ok_def advance_generation_def split: sum.splits prod.splits if_splits)
  have "encrypted_replace es env (sc_world c1) = (Inr (), sc_world c2)"
    using f1 f2 assms(3) by (simp add: encrypted_store_def)
  then have "disk_envelope es opens (sc_world c') = None"
    using encrypted_replace_envelope(2) [OF assms(1,2)] answer(2) c' by (simp add: complete_envelope_def)
  moreover have "session_contract (encrypted_store es) (disk_envelope es opens)"
    using encrypted_contract [OF assms(1,2)] by blast
  ultimately have "no_session (disk_envelope es opens) c'"
    using c' f1 f2 assms(3,4) by (simp add: no_session_def)
  with run_accesses_invariant [where J = "no_session (disk_envelope es opens)", OF assms(8)] no_session_access
  have "set grants \<subseteq> {NoGrant}" by metis
  with st show ?thesis by blast
qed

text \<open>A backend that answers a login with a session, and a disk without failures.\<close>

definition answering :: "envelope \<Rightarrow> 'w auth_port" where
  "answering env =
     \<lparr>au_register_password = (\<lambda>_ _ w. (Ok \<lparr>ara_accepted = True\<rparr>, w)),
      au_resend_verification = (\<lambda>_ w. (Ok \<lparr>ara_accepted = True\<rparr>, w)),
      au_verify_email = (\<lambda>_ _ w. (Ok env, w)), au_login_password = (\<lambda>_ _ _ w. (Ok env, w)),
      au_refresh_session = (\<lambda>_ w. (Ok env, w)), au_logout = (\<lambda>_ w. (Ok (), w))\<rparr>"

lemma unlabelled_login_is_lost_witness:
  "\<exists>c'. login_password ''mail'' ''pw'' [] (coordinator_new (encrypted_store (sample_store (labelled_session [])))
       (answering (labelled_session [])) (\<lambda>w. (Ok 5, w)) (empty_disk [None, None, None, None, None, None, None]))
     = (Ok (envelope_state (labelled_session [])), c') \<and>
   set (fst (run_accesses [CurrentAccess, FreshAccess SystemClock] c')) \<subseteq> {NoGrant}"
proof -
  let ?env = "labelled_session []" and ?es = "sample_store (labelled_session []) :: unit encrypted_file_store"
  let ?d = "empty_disk [None, None, None, None, None, None, None]"
  let ?c = "coordinator_new (encrypted_store ?es) (answering ?env) (\<lambda>w. (Ok 5, w)) ?d"
  obtain encoded where e: "encode_sealed_session \<lparr>se_nonce = [1], se_ciphertext = [7], se_tag = [2]\<rparr> = Inr encoded"
    using sample_sealing(4) by blast
  have "dk_faults ?d = [None, None, None, None, None, None, None]" by (simp add: empty_disk_def)
  from replace_runs [OF sample_sealing(1-3) e this] obtain d' where r: "encrypted_replace ?es ?env ?d = (Ok (), d')" by auto
  obtain c' where login: "login_password ''mail'' ''pw'' [] ?c = (Ok (envelope_state ?env), c')"
    by (simp add: login_password_def commit_answer_def outside_def answering_def coordinator_new_def commit_interactive_session_def
        replace_store_def encrypted_store_def r advance_generation_def map_ok_def)
  have "leaves (disk_envelope ?es (\<lambda>s. Some (se_ciphertext s))) (sc_system_clock ?c)" "sc_store ?c = encrypted_store ?es"
    "fst (au_login_password (sc_auth ?c) ''mail'' ''pw'' [] (sc_world ?c)) = Inr ?env" "as_device_label (ev_session ?env) = []"
    by (simp_all add: leaves_def coordinator_new_def answering_def labelled_session_def sample_envelope_def)
  from unlabelled_login_is_lost [OF sample_store_laws this(2,1,3,4) login surjective_pairing] login show ?thesis by blast
qed

end
