(* ===== verification/Actor.thy ===== *)
theory Actor
  imports Ownership
begin

text \<open>
  The engine actor (\<open>engine/actor/\<close>): the task that owns the engine and takes its messages from five
  lanes. A command whose remote half can run elsewhere is launched as an operation on a worker; its
  completion comes back through a lane of its own and re-enters the command with the answer prefetched,
  unless its domain has moved to another generation. The login is a cell of the actor
  (\<open>ActorAuthStateProvider\<close>): the world of the actor's engine is that cell with the outside world
  \<open>'x\<close>. Channels are lists; whether a send finds room is an argument of the sender.
\<close>

subsection \<open>Operations\<close>

datatype op_generation =
    AccountGeneration u64 | SearchGeneration u64 | PlaylistGeneration u64
  | HistoryGeneration u64 | LibraryGeneration u64 | PlaybackInstance u64

datatype op_request =
    AccountProjection auth_identity
  | SearchPage string page_request "string option"
  | PlaylistPage auth_identity page_request
  | HistorySettings auth_identity "history_entry list"
  | HistorySettingsUpdate auth_identity bool
  | HistoryPage auth_identity page_request "history_entry list" "bool option"
  | HistoryDelete auth_identity string
  | HistoryClear auth_identity
  | PlaybackResolution string
  | LibraryPage auth_identity page_request bool
  | LibraryMutation auth_identity string library_mutation

record engine_operation =
  eo_operation_id :: u64
  eo_command_id :: u64
  eo_generation :: op_generation
  eo_request :: op_request

datatype op_result =
    AccountProjected account
  | SearchPaged string "media_item list" "page_token option"
  | PlaylistPaged "playlist list" "page_token option"
  | HistorySettingsLoaded history_settings history_reconciliation
  | HistorySettingsUpdated history_settings_update
  | HistoryPaged "history_entry list" "page_token option" history_reconciliation
  | HistoryDeleted
  | HistoryCleared u64
  | PlaybackResolved playback_source
  | LibraryPaged "library_track list" "page_token option"
  | LibraryMutated "library_track option"

record op_completion =
  cp_operation_id :: u64
  cp_command_id :: u64
  cp_generation :: op_generation
  cp_result :: "op_result result"

definition op_completion_of :: "engine_operation \<Rightarrow> op_result result \<Rightarrow> op_completion" where
  "op_completion_of operation r =
     \<lparr>cp_operation_id = eo_operation_id operation, cp_command_id = eo_command_id operation,
      cp_generation = eo_generation operation, cp_result = r\<rparr>"

record domain_generations =
  dg_account :: u64
  dg_search :: u64
  dg_playlist :: u64
  dg_history :: u64
  dg_library :: u64
  dg_playback :: u64

definition domain_generations_default :: domain_generations where
  "domain_generations_default =
     \<lparr>dg_account = 0, dg_search = 0, dg_playlist = 0, dg_history = 0, dg_library = 0, dg_playback = 0\<rparr>"

fun is_current :: "domain_generations \<Rightarrow> op_generation \<Rightarrow> bool" where
  "is_current g (AccountGeneration n) = (dg_account g = n)"
| "is_current g (SearchGeneration n) = (dg_search g = n)"
| "is_current g (PlaylistGeneration n) = (dg_playlist g = n)"
| "is_current g (HistoryGeneration n) = (dg_history g = n)"
| "is_current g (LibraryGeneration n) = (dg_library g = n)"
| "is_current g (PlaybackInstance n) = (dg_playback g = n)"

subsection \<open>The protocol\<close>

record published_snapshot =
  pub_revision :: u64
  pub_message_sequence :: u64
  pub_snapshot :: engine_snapshot

record player_facts =
  pf_playback_instance_id :: u64
  pf_position_millis :: u64
  pf_buffered_position_millis :: u64
  pf_play_when_ready :: bool
  pf_is_playing :: bool

datatype player_edge =
    EdgeEnded u64 | EdgeSourceRejected u64 | EdgeDecoderFailed u64 "32 word" | EdgePlayerFailed u64 "32 word"

datatype actor_lane = CommandLane | CompletionLane | FactsLane | EdgeLane | LifecycleLane | OutcomeLane

datatype cancellation_reason = ShutdownRequested | Superseded

datatype actor_failure = Panicked | CommandChannelClosed | RuntimeUnavailable

datatype outcome_status =
  OutcomeCompleted | OutcomeCancelled cancellation_reason | OutcomeFailed actor_failure

record actor_outcome =
  ao_command_id :: u64
  ao_message_sequence :: u64
  ao_snapshot_revision :: u64
  ao_status :: outcome_status
  ao_snapshot :: engine_snapshot
  ao_event :: "engine_event option"
  ao_effects :: "engine_effect list"

text \<open>\<open>ActorControl\<close> has one constructor, \<open>AuthStateChanged\<close>: a control is an auth state.\<close>

datatype actor_event =
    CommandOutcome actor_outcome
  | OperationLaunched engine_operation u64
  | PlayerFactsApplied player_facts u64
  | PlayerEdgeApplied player_edge u64
  | ControlApplied auth_state u64 u64
  | TickProcessed u64 u64 u64
  | ShutdownStarted u64

datatype submission_error = MailboxFull actor_lane nat | ShuttingDown | ChannelClosed actor_lane

datatype start_error = InvalidCapacity actor_lane | InvalidTickInterval | RuntimeNotImplemented

record actor_config =
  acf_command_capacity :: nat
  acf_completion_capacity :: nat
  acf_edge_capacity :: nat
  acf_lifecycle_capacity :: nat
  acf_outcome_capacity :: nat
  acf_start_epoch_millis :: u64
  acf_tick_interval_nanos :: nat
  acf_split_remote_operations :: bool

definition actor_config_default :: actor_config where
  "actor_config_default =
     \<lparr>acf_command_capacity = 64, acf_completion_capacity = 64, acf_edge_capacity = 32,
      acf_lifecycle_capacity = 4, acf_outcome_capacity = 128, acf_start_epoch_millis = 0,
      acf_tick_interval_nanos = 1000000000, acf_split_remote_operations = True\<rparr>"

subsection \<open>The state of the actor\<close>

type_synonym 'x aworld = "auth_state \<times> 'x"

datatype engine_input = InputCommand engine_command | InputPlatformEvent platform_event

record command_message =
  cm_command_id :: u64
  cm_input :: engine_input
  cm_now_epoch_millis :: u64
  cm_wants_response :: bool

datatype (plugins only: size) 'x lifecycle_message =
    LifecycleControl auth_state
  | LifecycleTick u64
  | LifecycleMutate "'x aworld engine \<Rightarrow> 'x aworld engine"
  | LifecycleShutdown

record pending_operation =
  pd_operation :: engine_operation
  pd_command :: engine_command
  pd_now_epoch_millis :: u64

text \<open>A worker is the operation it completes and the closure over the port it captured.\<close>

type_synonym 'x worker = "engine_operation \<times> ('x aworld \<Rightarrow> op_result result \<times> 'x aworld)"

text \<open>\<open>ac_events\<close> is everything sent to the event receiver, \<open>ac_replies\<close> everything sent to callers
  that wait; \<open>ac_workers\<close> the spawned tasks, \<open>ac_facts\<close> the unseen value of the watch channel.
  \<open>ac_exit\<close> is what the task returned.\<close>

record 'x actor =
  ac_engine :: "'x aworld engine"
  ac_latest :: published_snapshot
  ac_events :: "actor_event list"
  ac_replies :: "actor_outcome list"
  ac_tick_replies :: "engine_outcome list list"
  ac_command_rx :: "command_message list"
  ac_completion_rx :: "op_completion list"
  ac_workers :: "'x worker list"
  ac_facts :: "player_facts option"
  ac_edge_rx :: "player_edge list"
  ac_lifecycle_rx :: "'x lifecycle_message list"
  ac_shutting_down :: bool
  ac_config :: actor_config
  ac_generations :: domain_generations
  ac_next_message_sequence :: u64
  ac_next_operation_id :: u64
  ac_next_command_id :: u64
  ac_accepted :: "u64 list"
  ac_accepted_set :: "u64 set"
  ac_terminal :: "u64 set"
  ac_responses :: "u64 set"
  ac_pending :: "u64 \<rightharpoonup> pending_operation"
  ac_latest_epoch :: u64
  ac_next_tick :: u64
  ac_exit :: "(actor_failure + u64 list) option"

text \<open>\<open>duration_millis\<close> of the tick interval.\<close>

definition tick_interval_millis :: "actor_config \<Rightarrow> u64" where
  "tick_interval_millis cfg =
     (let millis = acf_tick_interval_nanos cfg div 1000000
      in if millis < 2 ^ 64 then of_nat millis else - 1)"

text \<open>\<open>EngineActor::spawn\<close>; the last argument tells whether a runtime is running.\<close>

definition start_check :: "actor_config \<Rightarrow> bool \<Rightarrow> start_error option" where
  "start_check cfg runtime =
     (case find (\<lambda>(capacity, lane). capacity = 0)
             [(acf_command_capacity cfg, CommandLane), (acf_completion_capacity cfg, CompletionLane),
              (acf_edge_capacity cfg, EdgeLane), (acf_lifecycle_capacity cfg, LifecycleLane),
              (acf_outcome_capacity cfg, OutcomeLane)] of
        Some (_, lane) \<Rightarrow> Some (InvalidCapacity lane)
      | None \<Rightarrow>
          (if acf_tick_interval_nanos cfg = 0 then Some InvalidTickInterval
           else if \<not> runtime then Some RuntimeNotImplemented else None))"

definition adopt_engine :: "'x aworld engine \<Rightarrow> 'x aworld engine" where
  "adopt_engine e =
     (let initial = sn_auth_state (snapshot_projection e)
      in sync_auth_state_projection
           (e\<lparr>en_world := (initial, snd (en_world e)), en_auth_state_provider := Some fst\<rparr>))"

definition actor_spawn :: "'x aworld engine \<Rightarrow> actor_config \<Rightarrow> bool \<Rightarrow> start_error + 'x actor" where
  "actor_spawn e cfg runtime =
     (case start_check cfg runtime of
        Some err \<Rightarrow> Inl err
      | None \<Rightarrow>
          (let e = adopt_engine e
           in Inr
             \<lparr>ac_engine = e,
              ac_latest = \<lparr>pub_revision = 0, pub_message_sequence = 0, pub_snapshot = snapshot_projection e\<rparr>,
              ac_events = [], ac_replies = [], ac_tick_replies = [], ac_command_rx = [],
              ac_completion_rx = [], ac_workers = [], ac_facts = None, ac_edge_rx = [],
              ac_lifecycle_rx = [], ac_shutting_down = False, ac_config = cfg,
              ac_generations = domain_generations_default, ac_next_message_sequence = 0,
              ac_next_operation_id = 1, ac_next_command_id = 1, ac_accepted = [], ac_accepted_set = {},
              ac_terminal = {}, ac_responses = {}, ac_pending = Map.empty,
              ac_latest_epoch = acf_start_epoch_millis cfg,
              ac_next_tick = sat_add (acf_start_epoch_millis cfg) (tick_interval_millis cfg),
              ac_exit = None\<rparr>))"

subsection \<open>Bookkeeping\<close>

definition next_sequence :: "'x actor \<Rightarrow> u64 \<times> 'x actor" where
  "next_sequence a =
     (let n = sat_add (ac_next_message_sequence a) 1 in (n, a\<lparr>ac_next_message_sequence := n\<rparr>))"

definition send_event :: "actor_event \<Rightarrow> 'x actor \<Rightarrow> 'x actor" where
  "send_event ev a = a\<lparr>ac_events := ac_events a @ [ev]\<rparr>"

definition observe_clock :: "u64 \<Rightarrow> 'x actor \<Rightarrow> 'x actor" where
  "observe_clock now a = (if ac_latest_epoch a < now then a\<lparr>ac_latest_epoch := now\<rparr> else a)"

text \<open>Snapshots compare by \<open>PartialEq\<close>: a snapshot with a float that is not a number differs
  from itself. The floats are the speed and the completion ratios of the listening history.\<close>

definition snapshot_eq :: "engine_snapshot \<Rightarrow> engine_snapshot \<Rightarrow> bool" where
  "snapshot_eq l r =
     (l = r \<and> sn_playback_speed l \<noteq> FNaN \<and> (\<forall>h \<in> set (sn_history_entries l). he_completion_ratio h \<noteq> FNaN))"

definition snapshots_equal_for_revision :: "engine_snapshot \<Rightarrow> engine_snapshot \<Rightarrow> bool" where
  "snapshots_equal_for_revision l r =
     (snapshot_eq l r \<or> snapshot_eq (l\<lparr>sn_updated_at := 0\<rparr>) (r\<lparr>sn_updated_at := 0\<rparr>))"

definition publish_snapshot :: "engine_snapshot \<Rightarrow> u64 \<Rightarrow> 'x actor \<Rightarrow> u64 \<times> 'x actor" where
  "publish_snapshot s sequence a =
     (if snapshots_equal_for_revision (pub_snapshot (ac_latest a)) s then (pub_revision (ac_latest a), a)
      else let revision = sat_add (pub_revision (ac_latest a)) 1
           in (revision,
               a\<lparr>ac_latest := \<lparr>pub_revision = revision, pub_message_sequence = sequence, pub_snapshot = s\<rparr>\<rparr>))"

definition accept_command :: "u64 \<Rightarrow> bool \<Rightarrow> 'x actor \<Rightarrow> 'x actor" where
  "accept_command command_id wants_response a =
     (if command_id \<in> ac_accepted_set a then a
      else a\<lparr>ac_accepted_set := insert command_id (ac_accepted_set a),
             ac_accepted := ac_accepted a @ [command_id],
             ac_responses := (if wants_response then insert command_id (ac_responses a) else ac_responses a)\<rparr>)"

definition emit_outcome :: "actor_outcome \<Rightarrow> 'x actor \<Rightarrow> 'x actor" where
  "emit_outcome outcome a =
     (let a = a\<lparr>ac_terminal := insert (ao_command_id outcome) (ac_terminal a)\<rparr>;
          a = (if ao_command_id outcome \<in> ac_responses a
               then a\<lparr>ac_responses := ac_responses a - {ao_command_id outcome},
                      ac_replies := ac_replies a @ [outcome]\<rparr>
               else a)
      in send_event (CommandOutcome outcome) a)"

definition drain_queued_commands :: "'x actor \<Rightarrow> 'x actor" where
  "drain_queued_commands a =
     foldl (\<lambda>a m. accept_command (cm_command_id m) (cm_wants_response m) a)
       (a\<lparr>ac_command_rx := []\<rparr>) (ac_command_rx a)"

text \<open>A terminal outcome that carries the latest published snapshot, and one for every command that
  has none yet.\<close>

definition settle_with :: "outcome_status \<Rightarrow> u64 \<Rightarrow> u64 \<Rightarrow> 'x actor \<Rightarrow> 'x actor" where
  "settle_with status sequence command_id a =
     emit_outcome
       \<lparr>ao_command_id = command_id, ao_message_sequence = sequence,
        ao_snapshot_revision = pub_revision (ac_latest a), ao_status = status,
        ao_snapshot = pub_snapshot (ac_latest a), ao_event = None, ao_effects = []\<rparr> a"

definition settle_next :: "outcome_status \<Rightarrow> u64 \<Rightarrow> 'x actor \<Rightarrow> 'x actor" where
  "settle_next status command_id a =
     (if command_id \<in> ac_terminal a then a
      else let (sequence, a) = next_sequence a in settle_with status sequence command_id a)"

definition settle_all :: "outcome_status \<Rightarrow> 'x actor \<Rightarrow> 'x actor" where
  "settle_all status a = foldl (\<lambda>a command_id. settle_next status command_id a) a (ac_accepted a)"

definition fail_all :: "actor_failure \<Rightarrow> 'x actor \<Rightarrow> 'x actor" where
  "fail_all failure a = settle_all (OutcomeFailed failure) (drain_queued_commands a)"

text \<open>The common end of a command that has been dispatched.\<close>

definition complete_command :: "u64 \<Rightarrow> u64 \<Rightarrow> engine_outcome \<Rightarrow> 'x actor \<Rightarrow> 'x actor" where
  "complete_command command_id sequence outcome a =
     (let (revision, a) = publish_snapshot (oc_snapshot outcome) sequence a
      in emit_outcome
           \<lparr>ao_command_id = command_id, ao_message_sequence = sequence,
            ao_snapshot_revision = revision, ao_status = OutcomeCompleted,
            ao_snapshot = oc_snapshot outcome, ao_event = Some (oc_event outcome),
            ao_effects = oc_effects outcome\<rparr> a)"

subsection \<open>Launching operations\<close>

text \<open>The login an account or playlist operation is launched for need not be a current session;
  history and library operations want one.\<close>

definition account_identity :: "auth_state \<Rightarrow> auth_identity option" where
  "account_identity auth =
     (case auth of
        Authenticated account session \<Rightarrow>
          Some \<lparr>ai_account_id = acct_id account, ai_session_id = as_id session\<rparr>
      | _ \<Rightarrow> None)"

definition identity_checked :: "auth_identity \<Rightarrow> auth_identity option" where
  "identity_checked i =
     (if blank (ai_account_id i) \<or> blank (ai_session_id i) then None else Some i)"

definition playlist_identity :: "auth_state \<Rightarrow> auth_identity option" where
  "playlist_identity auth = Option.bind (account_identity auth) identity_checked"

definition current_session_ids :: "auth_state \<Rightarrow> auth_identity option" where
  "current_session_ids auth =
     (case auth of
        Authenticated account session \<Rightarrow>
          (if as_current session
           then Some \<lparr>ai_account_id = acct_id account, ai_session_id = as_id session\<rparr> else None)
      | _ \<Rightarrow> None)"

definition session_identity :: "auth_state \<Rightarrow> auth_identity option" where
  "session_identity auth = Option.bind (current_session_ids auth) identity_checked"

definition actor_auth :: "'x actor \<Rightarrow> auth_state" where
  "actor_auth a = fst (en_world (ac_engine a))"

definition allocate_operation ::
  "u64 \<Rightarrow> op_generation \<Rightarrow> op_request \<Rightarrow> 'x actor \<Rightarrow> engine_operation \<times> 'x actor" where
  "allocate_operation command_id generation request a =
     (\<lparr>eo_operation_id = ac_next_operation_id a, eo_command_id = command_id,
       eo_generation = generation, eo_request = request\<rparr>,
      a\<lparr>ac_next_operation_id := sat_add (ac_next_operation_id a) 1\<rparr>)"

text \<open>\<open>bump_x_generation\<close>, and the bump of all domains when the identity changes.\<close>

datatype domain = SearchDomain | PlaylistDomain | HistoryDomain | LibraryDomain | PlaybackDomain

fun bump :: "domain \<Rightarrow> domain_generations \<Rightarrow> domain_generations" where
  "bump SearchDomain g = g\<lparr>dg_search := sat_add (dg_search g) 1\<rparr>"
| "bump PlaylistDomain g = g\<lparr>dg_playlist := sat_add (dg_playlist g) 1\<rparr>"
| "bump HistoryDomain g = g\<lparr>dg_history := sat_add (dg_history g) 1\<rparr>"
| "bump LibraryDomain g = g\<lparr>dg_library := sat_add (dg_library g) 1\<rparr>"
| "bump PlaybackDomain g = g\<lparr>dg_playback := sat_add (dg_playback g) 1\<rparr>"

fun domain_generation :: "domain \<Rightarrow> domain_generations \<Rightarrow> op_generation" where
  "domain_generation SearchDomain g = SearchGeneration (dg_search g)"
| "domain_generation PlaylistDomain g = PlaylistGeneration (dg_playlist g)"
| "domain_generation HistoryDomain g = HistoryGeneration (dg_history g)"
| "domain_generation LibraryDomain g = LibraryGeneration (dg_library g)"
| "domain_generation PlaybackDomain g = PlaybackInstance (dg_playback g)"

definition bump_identity_generations :: "domain_generations \<Rightarrow> domain_generations" where
  "bump_identity_generations g =
     \<lparr>dg_account = sat_add (dg_account g) 1, dg_search = sat_add (dg_search g) 1,
      dg_playlist = sat_add (dg_playlist g) 1, dg_history = sat_add (dg_history g) 1,
      dg_library = sat_add (dg_library g) 1, dg_playback = sat_add (dg_playback g) 1\<rparr>"

text \<open>Launch under a new generation of the domain, or under the one it has.\<close>

definition launch_new ::
  "u64 \<Rightarrow> domain \<Rightarrow> op_request \<Rightarrow> 'x actor \<Rightarrow> engine_operation option \<times> 'x actor" where
  "launch_new command_id d request a =
     (let g = bump d (ac_generations a);
          (operation, a) = allocate_operation command_id (domain_generation d g) request (a\<lparr>ac_generations := g\<rparr>)
      in (Some operation, a))"

definition launch_under ::
  "u64 \<Rightarrow> op_generation \<Rightarrow> op_request \<Rightarrow> 'x actor \<Rightarrow> engine_operation option \<times> 'x actor" where
  "launch_under command_id generation request a =
     (let (operation, a) = allocate_operation command_id generation request a in (Some operation, a))"

definition library_ready :: "'x actor \<Rightarrow> auth_identity option" where
  "library_ready a =
     (if en_library_port (ac_engine a) = None then None else session_identity (actor_auth a))"

definition history_ready :: "'x actor \<Rightarrow> auth_identity option" where
  "history_ready a =
     (if en_history_port (ac_engine a) = None then None else session_identity (actor_auth a))"

definition prepare_library_page ::
  "u64 \<Rightarrow> page_request \<Rightarrow> bool \<Rightarrow> bool \<Rightarrow> 'x actor \<Rightarrow> engine_operation option \<times> 'x actor" where
  "prepare_library_page command_id page saved fresh a =
     (case library_ready a of
        None \<Rightarrow> (None, a)
      | Some identity \<Rightarrow>
          (if fresh then launch_new command_id LibraryDomain (LibraryPage identity page saved) a
           else launch_under command_id (LibraryGeneration (dg_library (ac_generations a)))
                  (LibraryPage identity page saved) a))"

definition prepare_library_continuation ::
  "u64 \<Rightarrow> bool \<Rightarrow> 'x actor \<Rightarrow> engine_operation option \<times> 'x actor" where
  "prepare_library_continuation command_id saved a =
     (case library_ready a of
        None \<Rightarrow> (None, a)
      | Some identity \<Rightarrow>
          (case actor_library_continuation (ac_engine a) saved of
             None \<Rightarrow> (None, a)
           | Some (continuation_identity, sz, token) \<Rightarrow>
               (if identity \<noteq> continuation_identity then (None, a)
                else prepare_library_page command_id \<lparr>page_size = sz, page_token = Some token\<rparr> saved False a)))"

definition prepare_library_mutation ::
  "u64 \<Rightarrow> string \<Rightarrow> library_mutation \<Rightarrow> 'x actor \<Rightarrow> engine_operation option \<times> 'x actor" where
  "prepare_library_mutation command_id track_id mutation a =
     (if blank track_id then (None, a)
      else case library_ready a of
             None \<Rightarrow> (None, a)
           | Some identity \<Rightarrow>
               launch_new command_id LibraryDomain (LibraryMutation identity track_id mutation) a)"

text \<open>History operations: each starts a new generation but the continuation of a listing.\<close>

definition prepare_history ::
  "u64 \<Rightarrow> (auth_identity \<Rightarrow> op_request) \<Rightarrow> 'x actor \<Rightarrow> engine_operation option \<times> 'x actor" where
  "prepare_history command_id request a =
     (case history_ready a of
        None \<Rightarrow> (None, a)
      | Some identity \<Rightarrow> launch_new command_id HistoryDomain (request identity) a)"

definition prepare_history_continuation :: "u64 \<Rightarrow> 'x actor \<Rightarrow> engine_operation option \<times> 'x actor" where
  "prepare_history_continuation command_id a =
     (case history_ready a of
        None \<Rightarrow> (None, a)
      | Some identity \<Rightarrow>
          (case actor_history_continuation (ac_engine a) of
             None \<Rightarrow> (None, a)
           | Some (continuation_identity, sz, token) \<Rightarrow>
               (if identity \<noteq> continuation_identity then (None, a)
                else launch_under command_id (HistoryGeneration (dg_history (ac_generations a)))
                       (HistoryPage identity \<lparr>page_size = sz, page_token = Some token\<rparr> []
                          (actor_history_settings_enabled (ac_engine a))) a)))"

fun prepare_operation ::
  "u64 \<Rightarrow> engine_command_type \<Rightarrow> 'x actor \<Rightarrow> engine_operation option \<times> 'x actor" where
  "prepare_operation c GetAccount a =
     (case (account_identity (actor_auth a), en_account_port (ac_engine a)) of
        (Some identity, Some _) \<Rightarrow>
          launch_under c (AccountGeneration (dg_account (ac_generations a))) (AccountProjection identity) a
      | _ \<Rightarrow> (None, a))"
| "prepare_operation c (SearchCatalog query page) a = launch_new c SearchDomain (SearchPage query page None) a"
| "prepare_operation c (LoadNextCatalogPage operation_id) a =
     (case actor_catalog_continuation (ac_engine a) operation_id of
        None \<Rightarrow> (None, a)
      | Some (query, sz, token) \<Rightarrow>
          launch_under c (SearchGeneration (dg_search (ac_generations a)))
            (SearchPage query \<lparr>page_size = sz, page_token = Some token\<rparr> (Some operation_id)) a)"
| "prepare_operation c (ListPlaylists page) a =
     (case (playlist_identity (actor_auth a), en_playlist_port (ac_engine a)) of
        (Some identity, Some _) \<Rightarrow> launch_new c PlaylistDomain (PlaylistPage identity page) a
      | _ \<Rightarrow> (None, a))"
| "prepare_operation c LoadHistorySettings a =
     prepare_history c (\<lambda>i. HistorySettings i (actor_pending_anonymous_history (ac_engine a))) a"
| "prepare_operation c (UpdateHistorySettings enabled) a =
     prepare_history c (\<lambda>i. HistorySettingsUpdate i enabled) a"
| "prepare_operation c (ListHistory page) a =
     prepare_history c (\<lambda>i. HistoryPage i (bounded_history_page_request page)
       (actor_pending_anonymous_history (ac_engine a)) (actor_history_settings_enabled (ac_engine a))) a"
| "prepare_operation c LoadNextHistoryPage a = prepare_history_continuation c a"
| "prepare_operation c (DeleteHistoryEntry history_id) a =
     (if blank history_id then (None, a) else prepare_history c (\<lambda>i. HistoryDelete i history_id) a)"
| "prepare_operation c ClearHistory a = prepare_history c HistoryClear a"
| "prepare_operation c (PlayMediaById media_id) a =
     (case en_playback_port (ac_engine a) of
        None \<Rightarrow> (None, a)
      | Some _ \<Rightarrow> launch_new c PlaybackDomain (PlaybackResolution media_id) a)"
| "prepare_operation c (ListSavedTracks page) a = prepare_library_page c page True True a"
| "prepare_operation c (ListLikedTracks page) a = prepare_library_page c page False True a"
| "prepare_operation c LoadNextSavedTracksPage a = prepare_library_continuation c True a"
| "prepare_operation c LoadNextLikedTracksPage a = prepare_library_continuation c False a"
| "prepare_operation c (SaveTrack track_id) a = prepare_library_mutation c track_id Save a"
| "prepare_operation c (RemoveSavedTrack track_id) a = prepare_library_mutation c track_id RemoveSaved a"
| "prepare_operation c (LikeTrack track_id) a = prepare_library_mutation c track_id Like a"
| "prepare_operation c (UnlikeTrack track_id) a = prepare_library_mutation c track_id Unlike a"
| "prepare_operation c _ a = (None, a)"

subsection \<open>Workers\<close>

text \<open>\<open>reconcile_anonymous_entries\<close>.\<close>

fun submit_entries ::
  "'w history_port \<Rightarrow> auth_identity \<Rightarrow> history_entry list \<Rightarrow> string list \<Rightarrow> 'w \<Rightarrow> history_reconciliation \<times> 'w" where
  "submit_entries port identity [] promoted w =
     (\<lparr>hr_promoted_entry_ids = promoted, hr_clear_anonymous = False, hr_error = None\<rparr>, w)"
| "submit_entries port identity (entry # entries) promoted w =
     (case to_playback_record entry of
        None \<Rightarrow> submit_entries port identity entries (promoted @ [he_id entry]) w
      | Some r \<Rightarrow>
          (case hp_record port identity r w of
             (Inr True, w) \<Rightarrow> submit_entries port identity entries (promoted @ [he_id entry]) w
           | (Inr False, w) \<Rightarrow> submit_entries port identity entries promoted w
           | (Inl err, w) \<Rightarrow>
               (\<lparr>hr_promoted_entry_ids = promoted, hr_clear_anonymous = False, hr_error = Some err\<rparr>, w)))"

definition reconcile_anonymous_entries ::
  "'w history_port \<Rightarrow> auth_identity \<Rightarrow> history_entry list \<Rightarrow> bool option \<Rightarrow> 'w \<Rightarrow>
     history_reconciliation \<times> 'w" where
  "reconcile_anonymous_entries port identity pending known_enabled w =
     (if pending = [] then (history_reconciliation_default, w)
      else
        (let (enabled, w) =
               (case known_enabled of
                  Some enabled \<Rightarrow> (Inr enabled, w)
                | None \<Rightarrow> (case hp_get_settings port identity w of
                             (Inr settings, w) \<Rightarrow> (Inr (hs_enabled settings), w)
                           | (Inl err, w) \<Rightarrow> (Inl err, w)))
         in case enabled of
              Inl err \<Rightarrow> (history_reconciliation_default\<lparr>hr_error := Some err\<rparr>, w)
            | Inr False \<Rightarrow> (history_reconciliation_default\<lparr>hr_clear_anonymous := True\<rparr>, w)
            | Inr True \<Rightarrow> submit_entries port identity pending [] w))"

text \<open>\<open>port.call().await.map(constructor)\<close>, and the constructors that take a page apart.\<close>

definition map_answer :: "('a \<Rightarrow> op_result) \<Rightarrow> ('w \<Rightarrow> 'a result \<times> 'w) \<Rightarrow> 'w \<Rightarrow> op_result result \<times> 'w" where
  "map_answer f call w = (case call w of (r, w) \<Rightarrow> (map_ok f r, w))"

definition history_settings_job ::
  "'w history_port \<Rightarrow> auth_identity \<Rightarrow> history_entry list \<Rightarrow> 'w \<Rightarrow> op_result result \<times> 'w" where
  "history_settings_job port identity pending w =
     (case hp_get_settings port identity w of
        (Inl err, w) \<Rightarrow> (Inl err, w)
      | (Inr settings, w) \<Rightarrow>
          (let (reconciliation, w) =
                 (if hs_enabled settings then reconcile_anonymous_entries port identity pending (Some True) w
                  else (history_reconciliation_default, w))
           in (Inr (HistorySettingsLoaded settings reconciliation), w)))"

definition history_page_job ::
  "'w history_port \<Rightarrow> auth_identity \<Rightarrow> page_request \<Rightarrow> history_entry list \<Rightarrow> bool option \<Rightarrow> 'w \<Rightarrow>
     op_result result \<times> 'w" where
  "history_page_job port identity page pending settings_enabled w =
     (let (reconciliation, w) = reconcile_anonymous_entries port identity pending settings_enabled w
      in map_answer (\<lambda>p. HistoryPaged (pr_items p) (pr_next_page_token p) reconciliation)
           (hp_list port identity page) w)"

definition library_mutation_job ::
  "'w library_port \<Rightarrow> auth_identity \<Rightarrow> string \<Rightarrow> library_mutation \<Rightarrow> 'w \<Rightarrow> op_result result \<times> 'w" where
  "library_mutation_job port identity track_id mutation =
     (case mutation of
        Save \<Rightarrow> map_answer (\<lambda>item. LibraryMutated (Some item)) (lp_save port identity track_id)
      | RemoveSaved \<Rightarrow> map_answer (\<lambda>_. LibraryMutated None) (lp_remove_saved port identity track_id)
      | Like \<Rightarrow> map_answer (\<lambda>item. LibraryMutated (Some item)) (lp_like port identity track_id)
      | Unlike \<Rightarrow> map_answer (\<lambda>_. LibraryMutated None) (lp_unlike port identity track_id))"

text \<open>\<open>spawn_operation_worker\<close>: the closure that runs, or None without its port.\<close>

definition spawn_operation_worker :: "op_request \<Rightarrow> 'w engine \<Rightarrow> ('w \<Rightarrow> op_result result \<times> 'w) option" where
  "spawn_operation_worker request e =
     (case request of
        AccountProjection identity \<Rightarrow>
          map_option (\<lambda>port. map_answer AccountProjected (ap_get_account port identity)) (en_account_port e)
      | SearchPage query page operation_id \<Rightarrow>
          Some (map_answer (\<lambda>p. SearchPaged (unwrap_or operation_id []) (pr_items p) (pr_next_page_token p))
                  (rp_search_catalog (en_repository e) query page))
      | PlaylistPage identity page \<Rightarrow>
          map_option (\<lambda>port. map_answer (\<lambda>p. PlaylistPaged (pr_items p) (pr_next_page_token p))
                        (plp_list port identity page)) (en_playlist_port e)
      | HistorySettings identity pending \<Rightarrow>
          map_option (\<lambda>port. history_settings_job port identity pending) (en_history_port e)
      | HistorySettingsUpdate identity enabled \<Rightarrow>
          map_option (\<lambda>port. map_answer HistorySettingsUpdated (hp_update_settings port identity enabled))
            (en_history_port e)
      | HistoryPage identity page pending settings_enabled \<Rightarrow>
          map_option (\<lambda>port. history_page_job port identity page pending settings_enabled) (en_history_port e)
      | HistoryDelete identity history_id \<Rightarrow>
          map_option (\<lambda>port. map_answer (\<lambda>_. HistoryDeleted) (hp_delete_entry port identity history_id))
            (en_history_port e)
      | HistoryClear identity \<Rightarrow>
          map_option (\<lambda>port. map_answer HistoryCleared (hp_clear port identity)) (en_history_port e)
      | PlaybackResolution media_id \<Rightarrow>
          map_option (\<lambda>port. map_answer PlaybackResolved (pp_resolve_playback port media_id))
            (en_playback_port e)
      | LibraryPage identity page saved \<Rightarrow>
          map_option (\<lambda>port. map_answer (\<lambda>p. LibraryPaged (pr_items p) (pr_next_page_token p))
                        (if saved then lp_list_saved port identity page else lp_list_liked port identity page))
            (en_library_port e)
      | LibraryMutation identity track_id mutation \<Rightarrow>
          map_option (\<lambda>port. library_mutation_job port identity track_id mutation) (en_library_port e))"

definition operation_worker_panic_error :: engine_error where
  "operation_worker_panic_error = engine_error_new UnknownError ''asynchronous engine operation failed'' False"

text \<open>\<open>spawn_panic_safe_operation_worker\<close>: a worker ends with the answer of its closure, or with an
  error when the closure panics; the completion goes into the lane.\<close>

definition finish_worker :: "engine_operation \<Rightarrow> op_result result \<Rightarrow> 'x actor \<Rightarrow> 'x actor" where
  "finish_worker operation r a = a\<lparr>ac_completion_rx := ac_completion_rx a @ [op_completion_of operation r]\<rparr>"

definition run_worker :: "bool \<Rightarrow> 'x worker \<Rightarrow> 'x actor \<Rightarrow> 'x actor" where
  "run_worker panics worker a =
     (case worker of
        (operation, job) \<Rightarrow>
          (if panics then finish_worker operation (Inl operation_worker_panic_error) a
           else (let (r, w) = job (en_world (ac_engine a))
                 in finish_worker operation r (a\<lparr>ac_engine := (ac_engine a)\<lparr>en_world := w\<rparr>\<rparr>))))"

text \<open>\<open>prefetched_from\<close>: the slot the inline site of the request reads.\<close>

definition mismatched_result :: engine_error where
  "mismatched_result =
     engine_error_new MappingDefect ''operation completion did not match the launched request'' False"

text \<open>\<open>match result { Ok(Expected(x)) => Ok(x), Ok(_) => Err(mismatched_result()), Err(e) => Err(e) }\<close>.\<close>

definition expect_result :: "(op_result \<Rightarrow> 'a option) \<Rightarrow> op_result result \<Rightarrow> 'a result" where
  "expect_result sel r =
     (case r of
        Inl err \<Rightarrow> Inl err
      | Inr res \<Rightarrow> (case sel res of Some x \<Rightarrow> Inr x | None \<Rightarrow> Inl mismatched_result))"

fun prefetched_from :: "op_request \<Rightarrow> op_result result \<Rightarrow> prefetched_operation" where
  "prefetched_from (AccountProjection _) r =
     PrefetchedAccount (expect_result (\<lambda>AccountProjected a \<Rightarrow> Some a | _ \<Rightarrow> None) r)"
| "prefetched_from (SearchPage _ _ _) r =
     PrefetchedSearch (expect_result
       (\<lambda>SearchPaged _ items next \<Rightarrow> Some \<lparr>pr_items = items, pr_next_page_token = next\<rparr> | _ \<Rightarrow> None) r)"
| "prefetched_from (PlaylistPage _ _) r =
     PrefetchedPlaylists (expect_result
       (\<lambda>PlaylistPaged items next \<Rightarrow> Some \<lparr>pr_items = items, pr_next_page_token = next\<rparr> | _ \<Rightarrow> None) r)"
| "prefetched_from (HistorySettings _ _) r =
     PrefetchedHistorySettings
       (case r of
          Inr (HistorySettingsLoaded settings reconciliation) \<Rightarrow>
            \<lparr>phs_settings = Inr settings, phs_reconciliation = reconciliation\<rparr>
        | Inr _ \<Rightarrow> \<lparr>phs_settings = Inl mismatched_result, phs_reconciliation = history_reconciliation_default\<rparr>
        | Inl err \<Rightarrow> \<lparr>phs_settings = Inl err, phs_reconciliation = history_reconciliation_default\<rparr>)"
| "prefetched_from (HistorySettingsUpdate _ _) r =
     PrefetchedHistorySettingsUpdate (expect_result (\<lambda>HistorySettingsUpdated u \<Rightarrow> Some u | _ \<Rightarrow> None) r)"
| "prefetched_from (HistoryPage _ _ _ _) r =
     PrefetchedHistoryPage
       (case r of
          Inr (HistoryPaged items next reconciliation) \<Rightarrow>
            \<lparr>php_page = Inr \<lparr>pr_items = items, pr_next_page_token = next\<rparr>, php_reconciliation = reconciliation\<rparr>
        | Inr _ \<Rightarrow> \<lparr>php_page = Inl mismatched_result, php_reconciliation = history_reconciliation_default\<rparr>
        | Inl err \<Rightarrow> \<lparr>php_page = Inl err, php_reconciliation = history_reconciliation_default\<rparr>)"
| "prefetched_from (HistoryDelete _ _) r =
     PrefetchedHistoryDelete (expect_result (\<lambda>HistoryDeleted \<Rightarrow> Some () | _ \<Rightarrow> None) r)"
| "prefetched_from (HistoryClear _) r =
     PrefetchedHistoryClear (expect_result (\<lambda>HistoryCleared n \<Rightarrow> Some n | _ \<Rightarrow> None) r)"
| "prefetched_from (PlaybackResolution _) r =
     PrefetchedPlayback (expect_result (\<lambda>PlaybackResolved source \<Rightarrow> Some source | _ \<Rightarrow> None) r)"
| "prefetched_from (LibraryPage _ _ _) r =
     PrefetchedLibraryPage (expect_result
       (\<lambda>LibraryPaged items next \<Rightarrow> Some \<lparr>pr_items = items, pr_next_page_token = next\<rparr> | _ \<Rightarrow> None) r)"
| "prefetched_from (LibraryMutation _ _ _) r =
     PrefetchedLibraryMutation (expect_result (\<lambda>LibraryMutated item \<Rightarrow> Some item | _ \<Rightarrow> None) r)"

subsection \<open>Processing messages\<close>

text \<open>Processing fails when the engine panics (\<open>Inl Panicked\<close>), which the first argument says; None
  means that the engine's dispatch does not return.\<close>

definition launch_operation ::
  "engine_operation \<Rightarrow> ('x aworld \<Rightarrow> op_result result \<times> 'x aworld) \<Rightarrow> engine_command \<Rightarrow> u64 \<Rightarrow>
     'x actor \<Rightarrow> 'x actor" where
  "launch_operation operation job command now a =
     (let a = a\<lparr>ac_workers := ac_workers a @ [(operation, job)],
                ac_pending := (ac_pending a)(eo_operation_id operation \<mapsto>
                  \<lparr>pd_operation = operation, pd_command = command, pd_now_epoch_millis = now\<rparr>)\<rparr>;
          (sequence, a) = next_sequence a
      in send_event (OperationLaunched operation sequence) a)"

definition settle_dispatch ::
  "bool \<Rightarrow> u64 \<Rightarrow> (engine_outcome \<times> 'x aworld engine) option \<Rightarrow> 'x actor \<Rightarrow>
     ((actor_failure + unit) \<times> 'x actor) option" where
  "settle_dispatch panics command_id dispatched a =
     (if panics then Some (Inl Panicked, fail_all Panicked a)
      else case dispatched of
             None \<Rightarrow> None
           | Some (outcome, e) \<Rightarrow>
               (let (sequence, a) = next_sequence (a\<lparr>ac_engine := e\<rparr>)
                in Some (Inr (), complete_command command_id sequence outcome a)))"

text \<open>The split path of a command: an operation with the worker that can complete it. Preparing
  may bump a generation even when no worker is spawned.\<close>

definition try_launch ::
  "u64 \<Rightarrow> engine_command \<Rightarrow> 'x actor \<Rightarrow>
     (engine_operation \<times> ('x aworld \<Rightarrow> op_result result \<times> 'x aworld)) option \<times> 'x actor" where
  "try_launch command_id command a =
     (if \<not> acf_split_remote_operations (ac_config a) then (None, a)
      else case prepare_operation command_id (command_type command) a of
             (None, a) \<Rightarrow> (None, a)
           | (Some operation, a) \<Rightarrow>
               (map_option (Pair operation) (spawn_operation_worker (eo_request operation) (ac_engine a)), a))"

definition process_command ::
  "bool \<Rightarrow> command_message \<Rightarrow> 'x actor \<Rightarrow> ((actor_failure + unit) \<times> 'x actor) option" where
  "process_command panics m a =
     (let now = cm_now_epoch_millis m;
          a = accept_command (cm_command_id m) (cm_wants_response m) (observe_clock now a)
      in case cm_input m of
           InputPlatformEvent event \<Rightarrow>
             settle_dispatch panics (cm_command_id m) (dispatch_platform_event event now (ac_engine a)) a
         | InputCommand command \<Rightarrow>
             (case try_launch (cm_command_id m) command a of
                (Some (operation, job), a) \<Rightarrow> Some (Inr (), launch_operation operation job command now a)
              | (None, a) \<Rightarrow>
                  settle_dispatch panics (cm_command_id m) (dispatch_command command now (ac_engine a)) a))"

text \<open>A completion re-enters the command with its answer in the prefetch slot. A panic of this
  dispatch is not caught.\<close>

definition redispatch ::
  "pending_operation \<Rightarrow> op_result result \<Rightarrow> 'x actor \<Rightarrow> (engine_outcome \<times> 'x aworld engine) option" where
  "redispatch pending r a =
     map_option (\<lambda>(outcome, e). (outcome, e\<lparr>en_prefetched := None\<rparr>))
       (dispatch_command (pd_command pending) (max (pd_now_epoch_millis pending) (ac_latest_epoch a))
          ((ac_engine a)\<lparr>en_prefetched := Some (prefetched_from (eo_request (pd_operation pending)) r)\<rparr>))"

definition process_operation_completion ::
  "bool \<Rightarrow> op_completion \<Rightarrow> 'x actor \<Rightarrow> ((actor_failure + unit) \<times> 'x actor) option" where
  "process_operation_completion panics c a =
     (case ac_pending a (cp_operation_id c) of
        None \<Rightarrow> Some (Inr (), a)
      | Some pending \<Rightarrow>
          (let (sequence, a) = next_sequence (a\<lparr>ac_pending := (ac_pending a)(cp_operation_id c := None)\<rparr>)
           in if eo_generation (pd_operation pending) \<noteq> cp_generation c \<or>
                 \<not> is_current (ac_generations a) (cp_generation c)
              then Some (Inr (), settle_with (OutcomeCancelled Superseded) sequence (cp_command_id c) a)
              else if panics then Some (Inl Panicked, a)
              else case redispatch pending (cp_result c) a of
                     None \<Rightarrow> None
                   | Some (outcome, e) \<Rightarrow>
                       Some (Inr (), complete_command (cp_command_id c) sequence outcome (a\<lparr>ac_engine := e\<rparr>))))"

definition process_player_edge :: "player_edge \<Rightarrow> 'x actor \<Rightarrow> 'x actor" where
  "process_player_edge event a =
     (let (sequence, a) = next_sequence a in send_event (PlayerEdgeApplied event sequence) a)"

definition process_player_facts :: "player_facts \<Rightarrow> 'x actor \<Rightarrow> 'x actor" where
  "process_player_facts facts a =
     (let (sequence, a) = next_sequence a in send_event (PlayerFactsApplied facts sequence) a)"

definition process_tick :: "u64 \<Rightarrow> 'x actor \<Rightarrow> (engine_outcome list \<times> 'x actor) option" where
  "process_tick now a =
     (let a = observe_clock now a
      in case tick now (ac_engine a) of
           None \<Rightarrow> None
         | Some (outcomes, e) \<Rightarrow>
             (let s = (if outcomes = [] then snapshot_projection e else oc_snapshot (last outcomes));
                  (sequence, a) = next_sequence (a\<lparr>ac_engine := e\<rparr>);
                  (revision, a) = publish_snapshot s sequence a
              in Some (outcomes, send_event (TickProcessed now sequence revision) a)))"

text \<open>\<open>publish_snapshot(self.engine.snapshot(), ..)\<close> and the event that announces it.\<close>

definition announce_control :: "auth_state \<Rightarrow> 'x actor \<Rightarrow> 'x actor" where
  "announce_control state a =
     (let (sequence, a) = next_sequence a;
          (revision, a) = publish_snapshot (snapshot_projection (ac_engine a)) sequence a
      in send_event (ControlApplied state sequence revision) a)"

definition set_actor_auth :: "auth_state \<Rightarrow> 'x actor \<Rightarrow> 'x actor" where
  "set_actor_auth state a =
     a\<lparr>ac_engine := (ac_engine a)\<lparr>en_world := (state, snd (en_world (ac_engine a)))\<rparr>\<rparr>"

definition process_control :: "auth_state \<Rightarrow> 'x actor \<Rightarrow> 'x actor" where
  "process_control state a =
     (let previous = actor_auth a;
          a = set_actor_auth state a;
          a = (if state \<noteq> previous
               then a\<lparr>ac_generations := bump_identity_generations (ac_generations a)\<rparr> else a)
      in announce_control state (a\<lparr>ac_engine := sync_auth_state_projection (ac_engine a)\<rparr>))"

definition process_shutdown :: "'x actor \<Rightarrow> 'x actor" where
  "process_shutdown a =
     (let a = drain_queued_commands (a\<lparr>ac_shutting_down := True\<rparr>);
          (sequence, a) = next_sequence a;
          a = send_event (ShutdownStarted sequence) a;
          a = settle_all (OutcomeCancelled ShutdownRequested) a
      in a\<lparr>ac_exit := Some (Inr (ac_accepted a))\<rparr>)"

fun process_lifecycle :: "'x lifecycle_message \<Rightarrow> 'x actor \<Rightarrow> 'x actor option" where
  "process_lifecycle (LifecycleControl state) a = Some (process_control state a)"
| "process_lifecycle (LifecycleTick now) a =
     (case process_tick now a of
        None \<Rightarrow> None
      | Some (outcomes, a) \<Rightarrow> Some (a\<lparr>ac_tick_replies := ac_tick_replies a @ [outcomes]\<rparr>))"
| "process_lifecycle (LifecycleMutate mutation) a =
     (let a = a\<lparr>ac_engine := mutation (ac_engine a)\<rparr> in Some (announce_control (actor_auth a) a))"
| "process_lifecycle LifecycleShutdown a = Some (process_shutdown a)"

subsection \<open>The loop\<close>

text \<open>\<open>while let Ok(message) = lifecycle_rx.try_recv()\<close>; a shutdown ends it.\<close>

fun drain_lifecycle :: "'x lifecycle_message list \<Rightarrow> 'x actor \<Rightarrow> 'x actor option" where
  "drain_lifecycle [] a = Some a"
| "drain_lifecycle (m # ms) a =
     (case process_lifecycle m (a\<lparr>ac_lifecycle_rx := ms\<rparr>) of
        None \<Rightarrow> None
      | Some a \<Rightarrow> (if ac_exit a \<noteq> None then Some a else drain_lifecycle ms a))"

text \<open>What a turn finds: whether all handles are gone, whether the ticker is due, whether the
  engine panics. The task ends with the failure of a command.\<close>

record turn_input =
  ti_closed :: bool
  ti_tick_due :: bool
  ti_panics :: bool

definition end_on_failure :: "((actor_failure + unit) \<times> 'x actor) option \<Rightarrow> 'x actor option" where
  "end_on_failure r =
     (case r of
        None \<Rightarrow> None
      | Some (Inl failure, a) \<Rightarrow> Some (a\<lparr>ac_exit := Some (Inl failure)\<rparr>)
      | Some (Inr _, a) \<Rightarrow> Some a)"

definition close_down :: "'x actor \<Rightarrow> 'x actor" where
  "close_down a = (fail_all CommandChannelClosed a)\<lparr>ac_exit := Some (Inl CommandChannelClosed)\<rparr>"

text \<open>The biased \<open>select!\<close>: the first lane with a message, in the order of the code. The lifecycle
  lane has just been drained. A turn that finds nothing leaves the actor waiting.\<close>

definition select_branch :: "turn_input \<Rightarrow> 'x actor \<Rightarrow> 'x actor option" where
  "select_branch ti a =
     (case ac_edge_rx a of
        edge # edges \<Rightarrow> Some (process_player_edge edge (a\<lparr>ac_edge_rx := edges\<rparr>))
      | [] \<Rightarrow>
     (case ac_completion_rx a of
        c # cs \<Rightarrow> end_on_failure (process_operation_completion (ti_panics ti) c (a\<lparr>ac_completion_rx := cs\<rparr>))
      | [] \<Rightarrow>
     (case ac_facts a of
        Some facts \<Rightarrow> Some (process_player_facts facts (a\<lparr>ac_facts := None\<rparr>))
      | None \<Rightarrow>
     (if ti_tick_due ti
      then map_option snd
             (process_tick (ac_next_tick a)
                (a\<lparr>ac_next_tick := sat_add (ac_next_tick a) (tick_interval_millis (ac_config a))\<rparr>))
      else if ac_shutting_down a then Some a
      else case ac_command_rx a of
             m # ms \<Rightarrow> end_on_failure (process_command (ti_panics ti) m (a\<lparr>ac_command_rx := ms\<rparr>))
           | [] \<Rightarrow> (if ti_closed ti then Some (close_down a) else Some a)))))"

definition actor_turn :: "turn_input \<Rightarrow> 'x actor \<Rightarrow> 'x actor option" where
  "actor_turn ti a =
     (if ti_closed ti \<and> \<not> ac_shutting_down a then Some (close_down a)
      else case drain_lifecycle (ac_lifecycle_rx a) a of
             None \<Rightarrow> None
           | Some a \<Rightarrow> (if ac_exit a \<noteq> None then Some a else select_branch ti a))"

subsection \<open>The handle\<close>

text \<open>The answer of \<open>try_send\<close> on a bounded channel is the channel's.\<close>

datatype lane_answer = Sent | LaneFull | LaneClosed

definition map_try_send :: "lane_answer \<Rightarrow> actor_lane \<Rightarrow> nat \<Rightarrow> submission_error + unit" where
  "map_try_send answer lane capacity =
     (case answer of
        Sent \<Rightarrow> Inr () | LaneFull \<Rightarrow> Inl (MailboxFull lane capacity) | LaneClosed \<Rightarrow> Inl (ChannelClosed lane))"

text \<open>\<open>try_submit\<close>, and the sending half of \<open>submit_and_wait\<close> and
  \<open>submit_platform_event_and_wait\<close>, which then wait for a reply.\<close>

definition submit_input ::
  "lane_answer \<Rightarrow> engine_input \<Rightarrow> u64 \<Rightarrow> bool \<Rightarrow> 'x actor \<Rightarrow> (submission_error + u64) \<times> 'x actor" where
  "submit_input answer input now wants_response a =
     (if ac_shutting_down a then (Inl ShuttingDown, a)
      else
        (let command_id = ac_next_command_id a;
             a = a\<lparr>ac_next_command_id := command_id + 1\<rparr>
         in case map_try_send answer CommandLane (acf_command_capacity (ac_config a)) of
              Inl err \<Rightarrow> (Inl err, a)
            | Inr _ \<Rightarrow>
                (Inr command_id,
                 a\<lparr>ac_command_rx := ac_command_rx a @
                     [\<lparr>cm_command_id = command_id, cm_input = input, cm_now_epoch_millis = now,
                       cm_wants_response = wants_response\<rparr>]\<rparr>)))"

definition try_submit :: "lane_answer \<Rightarrow> engine_command \<Rightarrow> u64 \<Rightarrow> 'x actor \<Rightarrow> (submission_error + u64) \<times> 'x actor" where
  "try_submit answer command now a = submit_input answer (InputCommand command) now False a"

definition submit_and_wait :: "lane_answer \<Rightarrow> engine_command \<Rightarrow> u64 \<Rightarrow> 'x actor \<Rightarrow> (submission_error + u64) \<times> 'x actor" where
  "submit_and_wait answer command now a = submit_input answer (InputCommand command) now True a"

definition submit_platform_event_and_wait ::
  "lane_answer \<Rightarrow> platform_event \<Rightarrow> u64 \<Rightarrow> 'x actor \<Rightarrow> (submission_error + u64) \<times> 'x actor" where
  "submit_platform_event_and_wait answer event now a = submit_input answer (InputPlatformEvent event) now True a"

definition publish_player_facts :: "bool \<Rightarrow> player_facts \<Rightarrow> 'x actor \<Rightarrow> (submission_error + unit) \<times> 'x actor" where
  "publish_player_facts gone facts a =
     (if ac_shutting_down a then (Inl ShuttingDown, a)
      else if gone then (Inl (ChannelClosed FactsLane), a)
      else (Inr (), a\<lparr>ac_facts := Some facts\<rparr>))"

definition try_publish_player_edge :: "lane_answer \<Rightarrow> player_edge \<Rightarrow> 'x actor \<Rightarrow> (submission_error + unit) \<times> 'x actor" where
  "try_publish_player_edge answer event a =
     (if ac_shutting_down a then (Inl ShuttingDown, a)
      else case map_try_send answer EdgeLane (acf_edge_capacity (ac_config a)) of
             Inl err \<Rightarrow> (Inl err, a)
           | Inr _ \<Rightarrow> (Inr (), a\<lparr>ac_edge_rx := ac_edge_rx a @ [event]\<rparr>))"

definition try_complete_operation :: "lane_answer \<Rightarrow> op_completion \<Rightarrow> 'x actor \<Rightarrow> (submission_error + unit) \<times> 'x actor" where
  "try_complete_operation answer c a =
     (if ac_shutting_down a then (Inl ShuttingDown, a)
      else case map_try_send answer CompletionLane (acf_completion_capacity (ac_config a)) of
             Inl err \<Rightarrow> (Inl err, a)
           | Inr _ \<Rightarrow> (Inr (), a\<lparr>ac_completion_rx := ac_completion_rx a @ [c]\<rparr>))"

definition send_lifecycle :: "lane_answer \<Rightarrow> 'x lifecycle_message \<Rightarrow> 'x actor \<Rightarrow> (submission_error + unit) \<times> 'x actor" where
  "send_lifecycle answer m a =
     (case map_try_send answer LifecycleLane (acf_lifecycle_capacity (ac_config a)) of
        Inl err \<Rightarrow> (Inl err, a)
      | Inr _ \<Rightarrow> (Inr (), a\<lparr>ac_lifecycle_rx := ac_lifecycle_rx a @ [m]\<rparr>))"

definition try_send_control :: "lane_answer \<Rightarrow> auth_state \<Rightarrow> 'x actor \<Rightarrow> (submission_error + unit) \<times> 'x actor" where
  "try_send_control answer state a =
     (if ac_shutting_down a then (Inl ShuttingDown, a) else send_lifecycle answer (LifecycleControl state) a)"

definition request_shutdown :: "lane_answer \<Rightarrow> 'x actor \<Rightarrow> (submission_error + unit) \<times> 'x actor" where
  "request_shutdown answer a =
     (if ac_shutting_down a then (Inl ShuttingDown, a)
      else case send_lifecycle answer LifecycleShutdown a of
             (Inl err, a) \<Rightarrow> (Inl err, a)
           | (Inr _, a) \<Rightarrow> (Inr (), a\<lparr>ac_shutting_down := True\<rparr>))"

text \<open>The sending halves of \<open>tick_now\<close> and \<open>mutate_engine\<close>, which do not look at the shutdown flag.\<close>

definition tick_now :: "lane_answer \<Rightarrow> u64 \<Rightarrow> 'x actor \<Rightarrow> (submission_error + unit) \<times> 'x actor" where
  "tick_now answer now a = send_lifecycle answer (LifecycleTick now) a"

definition mutate_engine ::
  "lane_answer \<Rightarrow> ('x aworld engine \<Rightarrow> 'x aworld engine) \<Rightarrow> 'x actor \<Rightarrow> (submission_error + unit) \<times> 'x actor" where
  "mutate_engine answer mutation a = send_lifecycle answer (LifecycleMutate mutation) a"

end
