(* ===== verification/Wiring.thy ===== *)
theory Wiring
  imports Actor
begin

text \<open>
  Handling a command, a platform event or a tick leaves the wiring of the engine alone: the
  provider of the login and the ports stay the ones that were installed. \<open>wiring\<close> is one more view
  of the state, for the handlers of all components.
\<close>

definition ports_of where
  "ports_of e =
     (en_repository e, en_playback_port e, en_history_port e, en_library_port e, en_playlist_port e,
      en_account_port (e :: 'w engine))"

definition wiring where
  "wiring (s :: engine_snapshot) e = (en_auth_state_provider e, ports_of (e :: 'w engine))"

lemmas wiring_defs = wiring_def ports_of_def

interpretation wacc: account_view wiring
  by unfold_locales (simp_all add: wiring_defs)

interpretation wpro: profile_view wiring
  by unfold_locales (simp_all add: wiring_defs)

interpretation whis: history_view wiring
  by unfold_locales (simp_all add: wiring_defs)

interpretation wlib: library_view wiring
  by unfold_locales (simp_all add: wiring_defs)

interpretation wpla: playlist_view wiring
  by unfold_locales (simp_all add: wiring_defs)

interpretation wcat: catalog_view wiring
  by unfold_locales (simp_all add: wiring_defs)

interpretation wtra: transport_view wiring
  by unfold_locales (simp_all add: wiring_defs)

lemma wiring_any: "wiring s e = wiring t e"
  by (simp add: wiring_def)

lemma delete_account_wiring:
  "wiring (fst (dispatch_account_command DeleteAccount s e)) (snd (dispatch_account_command DeleteAccount s e)) = wiring s e"
  by (simp add: dispatch_account_command.simps delete_account_def finish_account_def set_account_error_def
      clear_all_protected_operations_def clear_account_operation_def forget_account_def clear_defs
      wiring_defs await_call_def view_unfold split: sum.split)

lemma account_command_wiring:
  "wiring (fst (dispatch_account_command command s e)) (snd (dispatch_account_command command s e)) = wiring s e"
  using wacc.v_account_command [of command s e] delete_account_wiring [of s e]
  by (cases "command = DeleteAccount") auto

lemma run_arm_wiring:
  assumes "run_arm b prev now command t e = Some (t', e')"
  shows "wiring s e' = wiring s e"
proof -
  have "wiring (ct_snapshot t') e' = wiring (ct_snapshot t) e"
  proof (cases "arm_of command")
    case TransportArm
    have "wiring (en_snapshot e) e = wiring (ct_snapshot t) e" by (rule wiring_any)
    from wtra.v_transport_command [OF this, of b prev now command] TransportArm assms
    show ?thesis by (simp add: run_arm_def)
  next
    case HistoryArm
    with assms show ?thesis by (auto simp: run_arm_def put_snapshot_def dest: whis.v_history_command)
  next
    case LibraryArm
    with assms show ?thesis by (auto simp: run_arm_def put_snapshot_def dest: wlib.v_library_command)
  next
    case PlaylistArm
    with assms show ?thesis by (auto simp: run_arm_def put_snapshot_def dest: wpla.v_playlist_command)
  next
    case AccountArm
    with assms account_command_wiring [of command "ct_snapshot t" e] show ?thesis
      by (auto simp: run_arm_def put_snapshot_def view_unfold)
  next
    case ProfileArm
    with assms wpro.v_profile_command [of command "ct_snapshot t" e] show ?thesis
      by (auto simp: run_arm_def put_snapshot_def view_unfold)
  next
    case CatalogArm
    with assms wcat.v_catalog_command [of now command "ct_snapshot t" e] show ?thesis
      by (auto simp: run_arm_def run_catalog_def view_unfold)
  qed (use assms in \<open>auto simp: run_arm_def wiring_def\<close>)
  then show ?thesis by (simp add: wiring_def)
qed

subsection \<open>Around the arms\<close>

text \<open>The wiring as a function of the engine alone.\<close>

definition wired where
  "wired e = wiring (en_snapshot e) (e :: 'w engine)"

lemma wired_wiring: "wired e' = wired e \<longleftrightarrow> wiring s e' = wiring s e"
  by (simp add: wired_def wiring_def)

lemma wired_small [simp]:
  "wired (e\<lparr>en_snapshot := s\<rparr>) = wired e" "wired (e\<lparr>en_world := w\<rparr>) = wired e"
  "wired (e\<lparr>en_prefetched := p\<rparr>) = wired e" "wired (e\<lparr>en_bus := b\<rparr>) = wired e"
  "wired (e\<lparr>en_middleware := ms\<rparr>) = wired e" "wired (e\<lparr>en_player := pl\<rparr>) = wired e"
  "wired (e\<lparr>en_services := sv\<rparr>) = wired e" "wired (e\<lparr>en_pending_seek := sk\<rparr>) = wired e"
  "wired (e\<lparr>en_recovery := rc\<rparr>) = wired e" "wired (e\<lparr>en_current_instance := i\<rparr>) = wired e"
  "wired (e\<lparr>en_next_instance := n\<rparr>) = wired e" "wired (e\<lparr>en_queue := q\<rparr>) = wired e"
  by (simp_all add: wired_def wiring_defs)

lemma middleware_after_wired: "middleware_after m outcome e = (m', outcome', e') \<Longrightarrow> wired e' = wired e"
  by (cases m)
     (auto simp: recover_network_error_def analyse_outcome_def report_def notify_event_emitted_def
        notify_state_changed_def Let_def split: option.splits if_splits prod.splits)

lemma run_after_wired: "run_after ms outcome e = (ms', outcome', e') \<Longrightarrow> wired e' = wired e"
proof (induction ms arbitrary: outcome e ms' outcome' e')
  case (Cons m ms)
  then show ?case by (auto dest: middleware_after_wired split: prod.splits)
qed simp

lemma publish_wired: "publish_outcome outcome e = (outcome', e') \<Longrightarrow> wired e' = wired e"
  by (auto simp: publish_outcome_def after_dispatch_def execute_effects_def dest!: run_after_wired split: prod.splits option.splits)

lemma record_listening_wired [simp]: "wired (record_listening now e) = wired e"
  using whis.v_history_auto [of now "en_snapshot e" e]
  by (simp add: record_listening_def case_prod_beta wired_wiring [of _ _ undefined] wiring_def)

lemma controls_wired [simp]: "wired (refresh_controls e) = wired e" "wired (project_queue e) = wired e"
  "wired (set_desired b e) = wired e" "wired (on_engine_snapshot f e) = wired e"
  "wired (execute_effects effects e) = wired e" "wired (notify_state_changed s e) = wired e"
  by (simp_all add: refresh_controls_def project_queue_def set_desired_def on_engine_snapshot_def
      execute_effects_def notify_state_changed_def Let_def split: option.split)

lemma sync_step_wired:
  "wired (sync_feed e) = wired e" "wired (sync_account e) = wired e" "wired (sync_profile e) = wired e"
  "wired (sync_history e) = wired e" "wired (sync_library e) = wired e" "wired (sync_playlist e) = wired e"
  by (simp_all add: sync_feed_def sync_account_def sync_profile_def sync_history_def sync_library_def
      sync_playlist_def wired_def wiring_defs)

lemma sync_wired [simp]: "wired (sync_auth_state_projection e) = wired e"
  by (simp add: sync_auth_state_projection_def sync_step_wired)

lemma finish_wired: "finish_command command now prev t e = (outcome, e') \<Longrightarrow> wired e' = wired e"
  by (auto simp: finish_command_def Let_def dest!: publish_wired)

lemma before_wired: "before_dispatch command e = (r, e') \<Longrightarrow> wired e' = wired e"
  by (auto dest!: before_dispatch_bus)

lemma intend_wired [simp]: "wired (intend_playback command e) = wired e"
  by (simp add: intend_playback_def split: engine_command_type.split)

lemma voice_wired: "finish_voice t e = (q, t', e') \<Longrightarrow> wired e' = wired e"
  by (auto simp: finish_voice_def await_call_def view_unfold
      split: option.splits sum.splits voice_interaction_result.splits)

lemma dispatch_wired:
  "dispatch_command command now e = Some (outcome, e') \<Longrightarrow> wired e' = wired e"
proof (induction rule: dispatch_induct)
  case (refused command now e err e1)
  then show ?case by (auto simp: rejected_command_def Let_def dest!: before_wired)
next
  case (arm command now e e1 e2 t e3)
  have "wired e3 = wired e2" using run_arm_wiring [OF arm(4)] by (simp add: wired_wiring [of _ _ undefined])
  then show ?case using finish_wired [OF arm(5)] before_wired [OF arm(1)] arm(3) by simp
next
  case (voice command now e e1 e2 t e3)
  then show ?case using finish_wired [OF voice(5)] before_wired [OF voice(1)] voice_wired [OF voice(4)] by simp
next
  case (nested command now e e1 e2 n t e3 inner e4)
  then show ?case
    using finish_wired [OF nested(5)] before_wired [OF nested(1)] voice_wired [OF nested(4)] by simp
qed

subsection \<open>Platform events and ticks\<close>

lemma checkpoint_wired [simp]: "wired (apply_checkpoint observation now e) = wired e"
  by (simp add: apply_checkpoint_def accept_checkpoint_def case_prod_beta split: option.split)

lemma resolve_wired [simp]: "wired (snd (resolve_playback_source media e)) = wired e"
  using wtra.v_resolve [of undefined media e] by (simp add: wired_wiring [of _ _ undefined])

lemma update_media_wired [simp]: "wired (snd (snd (update_media_state r s e))) = wired e"
  using wtra.v_update_media [of r s e] by (simp add: wired_wiring [of _ _ undefined] wiring_def)

lemma refresh_source_wired [simp]: "wired (snd (refresh_source resolved now e)) = wired e"
  by (simp add: refresh_source_def Let_def case_prod_beta)

lemma fail_player_wired [simp]: "wired (fail_player err now e) = wired e"
  by (simp add: fail_player_def)

lemma source_rejected_wired: "wired (snd (source_rejected i now e)) = wired e"
  by (simp add: source_rejected_def Let_def case_prod_beta split: option.split sum.split prod.split)

lemma recreate_wired [simp]: "wired (snd (recreate_player i now e)) = wired e"
  by (simp add: recreate_player_def Let_def)

lemma decoder_failed_wired: "wired (snd (decoder_failed o' now e)) = wired e"
  by (simp add: decoder_failed_def Let_def split: option.split bool.split)

lemma completed_wired: "playback_completed_event payload now e = (outcome, e') \<Longrightarrow> wired e' = wired e"
proof -
  assume a: "playback_completed_event payload now e = (outcome, e')"
  have "wired (snd (record_playback_completion p s f)) = wired f" for p s and f :: "'a engine"
    using whis.v_history_completion [of p s f] by (simp add: wired_wiring [of _ _ undefined] wiring_def)
  with a show ?thesis by (auto simp: playback_completed_event_def Let_def case_prod_beta dest!: publish_wired)
qed

lemma state_event_wired: "state_event event observation now e = (outcome, e') \<Longrightarrow> wired e' = wired e"
  by (auto simp: state_event_def Let_def dest!: publish_wired)

lemma platform_event_wired:
  assumes "dispatch_platform_event event now e = Some (outcome, e')"
  shows "wired e' = wired e"
  using assms
proof (rule platform_event_cases)
  fix e1 e2
  assume e: "e1 = e \<or> e1 = e\<lparr>en_pending_seek := None\<rparr>" "e2 = e1 \<or> (\<exists>i. e2 = snd (source_rejected i now e1))"
    and e': "e' = e \<or> e' = apply_checkpoint (event_observation (en_codec e) event) now e1 \<or> e' = e2 \<or>
      (\<exists>o'. decoder_failed o' now e2 = (outcome, e')) \<or>
      (\<exists>command. dispatch_command command now e2 = Some (outcome, e')) \<or>
      playback_completed_event (pe_payload event) now e2 = (outcome, e') \<or>
      state_event event (event_observation (en_codec e) event) now e2 = (outcome, e')"
  have e1: "wired e1 = wired e" using e(1) by auto
  have e2: "wired e2 = wired e" using e(2) e1 source_rejected_wired [of _ now e1] by auto
  have "wired e' = wired e" if "decoder_failed o' now e2 = (outcome, e')" for o'
    using decoder_failed_wired [of o' now e2] that e2 by simp
  moreover have "wired e' = wired e" if "dispatch_command command now e2 = Some (outcome, e')" for command
    using dispatch_wired [OF that] e2 by simp
  ultimately show ?thesis
    using e' e1 e2 completed_wired state_event_wired by (metis checkpoint_wired)
qed

lemma dispatch_all_wired: "dispatch_all commands now e = Some (outcomes, e') \<Longrightarrow> wired e' = wired e"
proof (induction commands arbitrary: e outcomes)
  case (Cons command commands)
  then show ?case by (fastforce split: option.splits dest: dispatch_wired)
qed simp

lemma tick_wired: "tick now e = Some (outcomes, e') \<Longrightarrow> wired e' = wired e"
  by (auto simp: tick_def Let_def case_prod_beta split: option.splits if_splits dest!: dispatch_all_wired)

end
