(* ===== verification/ActorLaws.thy ===== *)
theory ActorLaws
  imports Wiring
begin

text \<open>
  The ledger of the actor: which commands it has accepted, which have their outcome and which
  operations are on their way. Steps of the actor are calls on its handle, the end of a worker, changes
  of the outside world and turns of its loop, in any order; runs count their steps, so that
  counters of 64 bits have a bound.
\<close>

subsection \<open>Steps and runs\<close>

text \<open>A call on the handle; it finds the lanes closed once the task has ended. \<open>M\<close> are the mutations
  that callers of \<open>mutate_engine\<close> use. A completion that a caller hands in answers an operation that
  was announced.\<close>

inductive actor_call ::
  "('x aworld engine \<Rightarrow> 'x aworld engine) set \<Rightarrow> 'x actor \<Rightarrow> 'x actor \<Rightarrow> bool" for M where
  submit: "submit_input answer input now wants a = (r, a') \<Longrightarrow> actor_call M a a'"
| facts: "publish_player_facts gone facts a = (u, a') \<Longrightarrow> actor_call M a a'"
| edge: "try_publish_player_edge answer event a = (u, a') \<Longrightarrow> actor_call M a a'"
| complete: "OperationLaunched operation s \<in> set (ac_events a) \<Longrightarrow>
    try_complete_operation answer (op_completion_of operation r) a = (u, a') \<Longrightarrow> actor_call M a a'"
| control: "try_send_control answer state a = (u, a') \<Longrightarrow> actor_call M a a'"
| shutdown: "request_shutdown answer a = (u, a') \<Longrightarrow> actor_call M a a'"
| tick: "tick_now answer now a = (u, a') \<Longrightarrow> actor_call M a a'"
| mutate: "mutation \<in> M \<Longrightarrow> mutate_engine answer mutation a = (u, a') \<Longrightarrow> actor_call M a a'"

inductive actor_step ::
  "('x aworld engine \<Rightarrow> 'x aworld engine) set \<Rightarrow> 'x actor \<Rightarrow> 'x actor \<Rightarrow> bool" for M where
  call: "ac_exit a = None \<Longrightarrow> actor_call M a a' \<Longrightarrow> actor_step M a a'"
| worker: "ac_exit a = None \<Longrightarrow> ac_workers a = ws @ worker # ws' \<Longrightarrow>
    actor_step M a (run_worker panics worker (a\<lparr>ac_workers := ws @ ws'\<rparr>))"
| outside: "actor_step M a (a\<lparr>ac_engine := (ac_engine a)\<lparr>en_world := (actor_auth a, x)\<rparr>\<rparr>)"
| turn: "ac_exit a = None \<Longrightarrow> actor_turn ti a = Some a' \<Longrightarrow> actor_step M a a'"

inductive actor_run ::
  "('x aworld engine \<Rightarrow> 'x aworld engine) set \<Rightarrow> nat \<Rightarrow> 'x actor \<Rightarrow> 'x actor \<Rightarrow> bool" for M where
  start: "actor_run M 0 a a"
| step: "actor_run M n a a' \<Longrightarrow> actor_step M a' a'' \<Longrightarrow> actor_run M (Suc n) a a''"

subsection \<open>What the event log says\<close>

definition outcome_of :: "actor_event \<Rightarrow> actor_outcome option" where
  "outcome_of ev = (case ev of CommandOutcome outcome \<Rightarrow> Some outcome | _ \<Rightarrow> None)"

definition outcomes :: "actor_event list \<Rightarrow> actor_outcome list" where
  "outcomes evs = List.map_filter outcome_of evs"

definition settled :: "'x actor \<Rightarrow> u64 list" where
  "settled a = map ao_command_id (outcomes (ac_events a))"

definition launched :: "'x actor \<Rightarrow> engine_operation set" where
  "launched a = {operation. \<exists>s. OperationLaunched operation s \<in> set (ac_events a)}"

text \<open>An operation is on its way while its worker runs or its completion waits in the lane.\<close>

definition on_its_way :: "engine_operation \<Rightarrow> 'x actor \<Rightarrow> bool" where
  "on_its_way operation a =
     ((\<exists>job. (operation, job) \<in> set (ac_workers a)) \<or>
      (\<exists>r. op_completion_of operation r \<in> set (ac_completion_rx a)))"

lemma outcomes_append [simp]: "outcomes (evs @ evs') = outcomes evs @ outcomes evs'"
  by (simp add: outcomes_def map_filter_def)

lemma outcomes_one [simp]:
  "outcomes [] = []" "outcomes [CommandOutcome outcome] = [outcome]"
  "outcomes [OperationLaunched operation s] = []" "outcomes [PlayerFactsApplied facts s] = []"
  "outcomes [PlayerEdgeApplied edge s] = []" "outcomes [ControlApplied state s rev'] = []"
  "outcomes [TickProcessed now s rev'] = []" "outcomes [ShutdownStarted s] = []"
  by (simp_all add: outcomes_def map_filter_def outcome_of_def)

subsection \<open>The ledger\<close>

text \<open>Accepted commands and their outcomes.\<close>

definition ledger :: "'x actor \<Rightarrow> bool" where
  "ledger a =
     (distinct (ac_accepted a) \<and> ac_accepted_set a = set (ac_accepted a) \<and>
      distinct (settled a) \<and> ac_terminal a = set (settled a) \<and> set (settled a) \<subseteq> set (ac_accepted a))"

text \<open>What the ledger reads; the other fields may change freely.\<close>

definition ledger_fields where
  "ledger_fields a = (ac_accepted a, ac_accepted_set a, settled a, ac_terminal (a :: 'x actor))"

lemma ledger_cong: "ledger_fields a' = ledger_fields a \<Longrightarrow> ledger a' = ledger a"
  by (simp add: ledger_def ledger_fields_def)

lemma accept_ledger: "ledger a \<Longrightarrow> ledger (accept_command c w a)"
  by (auto simp: ledger_def accept_command_def settled_def)

lemma emit_ledger:
  "ledger a \<Longrightarrow> ao_command_id outcome \<in> set (ac_accepted a) \<Longrightarrow> ao_command_id outcome \<notin> ac_terminal a \<Longrightarrow>
     ledger (emit_outcome outcome a)"
  by (auto simp: ledger_def emit_outcome_def settled_def send_event_def Let_def)

lemma emit_fields [simp]:
  "ac_accepted (emit_outcome outcome a) = ac_accepted a"
  "ac_terminal (emit_outcome outcome a) = insert (ao_command_id outcome) (ac_terminal a)"
  "ac_command_rx (emit_outcome outcome a) = ac_command_rx a"
  "ac_exit (emit_outcome outcome a) = ac_exit a"
  by (simp_all add: emit_outcome_def send_event_def Let_def)

lemma settle_next_ledger:
  "ledger a \<Longrightarrow> c \<in> set (ac_accepted a) \<Longrightarrow>
     ledger (settle_next st c a) \<and> ac_accepted (settle_next st c a) = ac_accepted a \<and>
     ac_terminal (settle_next st c a) = insert c (ac_terminal a) \<and>
     ac_command_rx (settle_next st c a) = ac_command_rx a \<and> ac_exit (settle_next st c a) = ac_exit a"
proof -
  assume a: "ledger a" "c \<in> set (ac_accepted a)"
  let ?a = "a\<lparr>ac_next_message_sequence := sat_add (ac_next_message_sequence a) 1\<rparr>"
  have "ledger ?a" using a(1) by (simp add: ledger_def settled_def)
  from emit_ledger [OF this] a(2) show ?thesis
    using a(1) by (auto simp: settle_next_def settle_with_def next_sequence_def Let_def)
qed

lemma settle_list:
  assumes "ledger a" "set cs \<subseteq> set (ac_accepted a)" "b = foldl (\<lambda>a c. settle_next st c a) a cs"
  shows "ledger b \<and> ac_accepted b = ac_accepted a \<and> ac_terminal b = ac_terminal a \<union> set cs \<and>
    ac_command_rx b = ac_command_rx a \<and> ac_exit b = ac_exit a"
  unfolding assms(3) using assms(1,2)
proof (induction cs arbitrary: a)
  case (Cons c cs)
  with settle_next_ledger [of a c st] Cons.IH [of "settle_next st c a"] show ?case by auto
qed simp

lemma settle_all_ledger:
  assumes "ledger a"
  shows "ledger (settle_all st a)" "ac_accepted (settle_all st a) = ac_accepted a"
    "ac_terminal (settle_all st a) = set (ac_accepted a)" "ac_command_rx (settle_all st a) = ac_command_rx a"
    "ac_exit (settle_all st a) = ac_exit a"
  using settle_list [OF assms subset_refl refl, of st] assms by (auto simp: settle_all_def ledger_def)

text \<open>Draining accepts what was queued.\<close>

lemma accept_list:
  assumes "ledger a" "b = foldl (\<lambda>a m. accept_command (cm_command_id m) (cm_wants_response m) a) a ms"
  shows "ledger b \<and> set (ac_accepted b) = set (ac_accepted a) \<union> cm_command_id ` set ms \<and>
    ac_command_rx b = ac_command_rx a \<and> ac_exit b = ac_exit a"
  unfolding assms(2) using assms(1)
proof (induction ms arbitrary: a)
  case (Cons m ms)
  let ?a = "accept_command (cm_command_id m) (cm_wants_response m) a"
  have "set (ac_accepted ?a) = insert (cm_command_id m) (set (ac_accepted a))" "ac_command_rx ?a = ac_command_rx a"
    "ac_exit ?a = ac_exit a"
    using Cons.prems by (auto simp: accept_command_def ledger_def)
  with Cons.IH [OF accept_ledger [OF Cons.prems]] show ?case by auto
qed simp

lemma drain_ledger:
  assumes "ledger a"
  shows "ledger (drain_queued_commands a)"
    "set (ac_accepted (drain_queued_commands a)) = set (ac_accepted a) \<union> cm_command_id ` set (ac_command_rx a)"
    "ac_command_rx (drain_queued_commands a) = []" "ac_exit (drain_queued_commands a) = ac_exit a"
proof -
  have "ledger (a\<lparr>ac_command_rx := []\<rparr>)" using assms by (simp add: ledger_def settled_def)
  from accept_list [OF this refl, of "ac_command_rx a"]
  show "ledger (drain_queued_commands a)"
    "set (ac_accepted (drain_queued_commands a)) = set (ac_accepted a) \<union> cm_command_id ` set (ac_command_rx a)"
    "ac_command_rx (drain_queued_commands a) = []" "ac_exit (drain_queued_commands a) = ac_exit a"
    by (simp_all add: drain_queued_commands_def)
qed

text \<open>The commands a caller knows of: queued or accepted.\<close>

definition known :: "'x actor \<Rightarrow> u64 set" where
  "known a = cm_command_id ` set (ac_command_rx a) \<union> set (ac_accepted a)"

definition closed_books :: "'x actor \<Rightarrow> bool" where
  "closed_books a = (ledger a \<and> ac_command_rx a = [] \<and> set (settled a) = set (ac_accepted a))"

lemma fail_all_books:
  assumes "ledger a"
  shows "closed_books (fail_all failure a)" "known (fail_all failure a) = known a" "ac_exit (fail_all failure a) = ac_exit a"
  using settle_all_ledger [OF drain_ledger(1) [OF assms], of "OutcomeFailed failure"] drain_ledger [OF assms]
  by (auto simp: closed_books_def fail_all_def known_def ledger_def)

lemma exit_books:
  "ledger e \<Longrightarrow> ac_terminal e = set (ac_accepted e) \<Longrightarrow> ac_command_rx e = [] \<Longrightarrow>
   closed_books (e\<lparr>ac_exit := x\<rparr>)"
  by (simp add: closed_books_def ledger_def settled_def)

lemma known_exit: "known (e\<lparr>ac_exit := x\<rparr>) = known e"
  by (simp add: known_def)

lemma shutdown_books:
  assumes "ledger a"
  shows "closed_books (process_shutdown a)" "known (process_shutdown a) = known a"
    "ac_exit (process_shutdown a) = Some (Inr (ac_accepted (process_shutdown a)))"
proof -
  let ?b = "drain_queued_commands (a\<lparr>ac_shutting_down := True\<rparr>)"
  let ?c = "send_event (ShutdownStarted (fst (next_sequence ?b))) (snd (next_sequence ?b))"
  have "ledger (a\<lparr>ac_shutting_down := True\<rparr>)" using assms by (simp add: ledger_def settled_def)
  note d = drain_ledger [OF this]
  have c: "ledger ?c" "ac_accepted ?c = ac_accepted ?b" "ac_command_rx ?c = []"
    using d(1,3) by (simp_all add: ledger_def settled_def send_event_def next_sequence_def Let_def)
  note s = settle_all_ledger [OF c(1), of "OutcomeCancelled ShutdownRequested"]
  let ?e = "settle_all (OutcomeCancelled ShutdownRequested) ?c"
  have p: "process_shutdown a = ?e\<lparr>ac_exit := Some (Inr (ac_accepted ?e))\<rparr>"
    by (simp add: process_shutdown_def case_prod_beta Let_def)
  show "closed_books (process_shutdown a)"
    unfolding p by (rule exit_books) (simp_all only: s c)
  have "known ?e = known ?b" by (simp only: known_def s c d)
  then show "known (process_shutdown a) = known a"
    unfolding p known_exit by (simp add: known_def d Un_commute)
  show "ac_exit (process_shutdown a) = Some (Inr (ac_accepted (process_shutdown a)))"
    unfolding p by simp
qed

subsection \<open>Operations on their way\<close>

text \<open>Workers and completions belong to announced operations, which have identifiers of their own.\<close>

definition announced :: "'x actor \<Rightarrow> bool" where
  "announced a =
     ((\<forall>c \<in> set (ac_completion_rx a). \<exists>operation \<in> launched a. \<exists>r. c = op_completion_of operation r) \<and>
      (\<forall>w \<in> set (ac_workers a). fst w \<in> launched a) \<and>
      (\<forall>operation \<in> launched a. eo_operation_id operation < ac_next_operation_id a) \<and>
      inj_on eo_operation_id (launched a))"

text \<open>A pending operation is on its way for an open command, and each open command has one; \<open>C\<close> is
  the command in hand, accepted and neither settled nor launched.\<close>

definition open_commands :: "u64 set \<Rightarrow> 'x actor \<Rightarrow> u64 set" where
  "open_commands C a = set (ac_accepted a) - set (settled a) - C"

definition pending_tracked :: "u64 set \<Rightarrow> 'x actor \<Rightarrow> bool" where
  "pending_tracked C a =
     (\<forall>k p. ac_pending a k = Some p \<longrightarrow>
        pd_operation p \<in> launched a \<and> eo_operation_id (pd_operation p) = k \<and> on_its_way (pd_operation p) a \<and>
        eo_command_id (pd_operation p) \<in> open_commands C a)"

definition pending_once :: "'x actor \<Rightarrow> bool" where
  "pending_once a =
     (\<forall>k p k' p'. ac_pending a k = Some p \<longrightarrow> ac_pending a k' = Some p' \<longrightarrow>
        eo_command_id (pd_operation p) = eo_command_id (pd_operation p') \<longrightarrow> k = k')"

definition covered :: "u64 set \<Rightarrow> 'x actor \<Rightarrow> bool" where
  "covered C a =
     (C \<subseteq> set (ac_accepted a) - set (settled a) \<and>
      (\<forall>c \<in> open_commands C a. \<exists>k p. ac_pending a k = Some p \<and> eo_command_id (pd_operation p) = c))"

definition queue_fresh :: "'x actor \<Rightarrow> bool" where
  "queue_fresh a =
     (distinct (map cm_command_id (ac_command_rx a)) \<and>
      cm_command_id ` set (ac_command_rx a) \<inter> set (ac_accepted a) = {} \<and>
      (\<forall>c \<in> known a. c < ac_next_command_id a))"

definition flow :: "u64 set \<Rightarrow> 'x actor \<Rightarrow> bool" where
  "flow C a = (announced a \<and> pending_tracked C a \<and> pending_once a \<and> covered C a \<and> queue_fresh a)"

lemmas flow_defs =
  flow_def announced_def pending_tracked_def pending_once_def covered_def queue_fresh_def open_commands_def

definition flow_fields where
  "flow_fields a =
     (ac_completion_rx a, ac_workers a, launched a, ac_next_operation_id a, ac_pending a, ac_accepted a,
      settled a, ac_command_rx a, ac_next_command_id (a :: 'x actor))"

lemma flow_cong: "flow_fields a' = flow_fields a \<Longrightarrow> flow C a' = flow C a"
  unfolding flow_defs on_its_way_def known_def flow_fields_def prod.inject by (elim conjE) (simp only:)

text \<open>Quiet steps write other fields, or events that are neither an outcome nor a launch.\<close>

definition quiet :: "'x actor \<Rightarrow> 'x actor \<Rightarrow> bool" where
  "quiet a' a =
     (ledger_fields a' = ledger_fields a \<and> flow_fields a' = flow_fields a \<and> ac_exit a' = ac_exit a)"

lemmas quiet_defs = quiet_def ledger_fields_def flow_fields_def settled_def launched_def

lemma quiet_refl [simp]: "quiet a a"
  by (simp add: quiet_def)

lemma quiet_trans: "quiet c b \<Longrightarrow> quiet b a \<Longrightarrow> quiet c a"
  by (simp add: quiet_def)

lemma quiet_update [simp]:
  "quiet (a\<lparr>ac_engine := e\<rparr>) b = quiet a b" "quiet (a\<lparr>ac_latest := pub\<rparr>) b = quiet a b"
  "quiet (a\<lparr>ac_next_message_sequence := n\<rparr>) b = quiet a b" "quiet (a\<lparr>ac_latest_epoch := n\<rparr>) b = quiet a b"
  "quiet (a\<lparr>ac_next_tick := n\<rparr>) b = quiet a b" "quiet (a\<lparr>ac_generations := g\<rparr>) b = quiet a b"
  "quiet (a\<lparr>ac_tick_replies := rs\<rparr>) b = quiet a b" "quiet (a\<lparr>ac_lifecycle_rx := ms\<rparr>) b = quiet a b"
  "quiet (a\<lparr>ac_edge_rx := es\<rparr>) b = quiet a b" "quiet (a\<lparr>ac_facts := f\<rparr>) b = quiet a b"
  "quiet (a\<lparr>ac_shutting_down := d\<rparr>) b = quiet a b"
  by (simp_all add: quiet_defs)

lemma quiet_event:
  "quiet a b \<Longrightarrow> outcomes [ev] = [] \<Longrightarrow> (\<And>x s. ev \<noteq> OperationLaunched x s) \<Longrightarrow> quiet (send_event ev a) b"
  by (auto simp: quiet_defs send_event_def)

lemma quiet_sequence [simp]: "quiet (snd (next_sequence a)) b = quiet a b"
  by (simp add: next_sequence_def Let_def)

lemma quiet_publish [simp]: "quiet (snd (publish_snapshot s n a)) b = quiet a b"
  by (simp add: publish_snapshot_def Let_def)

lemma quiet_observe [simp]: "quiet (observe_clock now a) b = quiet a b"
  by (simp add: observe_clock_def)

lemma quiet_tick: "process_tick now a = Some (outs, a') \<Longrightarrow> quiet a' a"
  by (auto simp: process_tick_def Let_def case_prod_beta intro!: quiet_event split: option.splits)

lemma quiet_announce: "quiet (announce_control state a) b = quiet a b"
proof -
  have "quiet (announce_control state a) a"
    by (auto simp: announce_control_def Let_def case_prod_beta intro!: quiet_event)
  then show ?thesis by (simp add: quiet_def)
qed

lemma quiet_control [simp]: "quiet (process_control state a) a"
  by (simp add: process_control_def set_actor_auth_def Let_def quiet_announce)

lemma quiet_player [simp]: "quiet (process_player_edge edge a) a" "quiet (process_player_facts facts a) a"
  by (auto simp: process_player_edge_def process_player_facts_def Let_def case_prod_beta intro!: quiet_event)

lemma quiet_lifecycle:
  "process_lifecycle m a = Some a' \<Longrightarrow> m \<noteq> LifecycleShutdown \<Longrightarrow> quiet a' a"
  by (cases m) (auto simp: quiet_announce Let_def dest: quiet_tick split: option.splits)

text \<open>A reply to a caller is no bookkeeping of commands.\<close>

lemma quiet_ledger: "quiet a' a \<Longrightarrow> ledger a' = ledger a"
  by (rule ledger_cong) (simp add: quiet_def)

lemma quiet_flow: "quiet a' a \<Longrightarrow> flow C a' = flow C a"
  by (rule flow_cong) (simp add: quiet_def)

lemma quiet_known: "quiet a' a \<Longrightarrow> known a' = known a"
  by (simp add: quiet_def flow_fields_def known_def)

subsection \<open>Commands\<close>

lemma flow_emit:
  assumes "flow {ao_command_id outcome} a" "ledger a"
  shows "flow {} (emit_outcome outcome a)" "ledger (emit_outcome outcome a)"
proof -
  let ?c = "ao_command_id outcome" and ?b = "emit_outcome outcome a"
  have c: "?c \<in> set (ac_accepted a)" "?c \<notin> set (settled a)" using assms(1) by (auto simp: flow_def covered_def)
  have f: "ac_completion_rx ?b = ac_completion_rx a" "ac_workers ?b = ac_workers a" "launched ?b = launched a"
    "ac_next_operation_id ?b = ac_next_operation_id a" "ac_pending ?b = ac_pending a"
    "settled ?b = settled a @ [?c]" "known ?b = known a" "ac_next_command_id ?b = ac_next_command_id a"
    by (auto simp: emit_outcome_def send_event_def settled_def launched_def known_def Let_def)
  have o': "open_commands {} ?b = open_commands {?c} a" by (auto simp: open_commands_def f)
  have w: "on_its_way x ?b = on_its_way x a" for x by (simp add: on_its_way_def f)
  have "announced ?b" "pending_once ?b" "queue_fresh ?b"
    using assms(1) by (simp_all add: flow_def announced_def pending_once_def queue_fresh_def f)
  moreover have "pending_tracked {} ?b" using assms(1) by (simp add: flow_def pending_tracked_def f w o')
  moreover have "covered {} ?b" using assms(1) by (simp add: flow_def covered_def f o')
  ultimately show "flow {} ?b" by (simp add: flow_def)
  show "ledger ?b" using emit_ledger [OF assms(2)] c assms(2) by (simp add: ledger_def)
qed

lemma flow_complete:
  assumes "flow {c} a" "ledger a"
  shows "flow {} (complete_command c n outcome a)" "ledger (complete_command c n outcome a)"
    "known (complete_command c n outcome a) = known a" "ac_exit (complete_command c n outcome a) = ac_exit a"
    "ac_next_operation_id (complete_command c n outcome a) = ac_next_operation_id a"
    "ac_next_command_id (complete_command c n outcome a) = ac_next_command_id a"
proof -
  let ?p = "snd (publish_snapshot (oc_snapshot outcome) n a)"
  have q: "quiet ?p a" by simp
  obtain oc where oc: "complete_command c n outcome a = emit_outcome oc ?p" "ao_command_id oc = c"
    by (auto simp: complete_command_def case_prod_beta Let_def)
  have "flow {ao_command_id oc} ?p" "ledger ?p" using assms quiet_flow [OF q] quiet_ledger [OF q] oc(2) by simp_all
  note e = flow_emit [OF this]
  from e show "flow {} (complete_command c n outcome a)" "ledger (complete_command c n outcome a)"
    by (simp_all add: oc(1))
  show "known (complete_command c n outcome a) = known a" "ac_exit (complete_command c n outcome a) = ac_exit a"
    "ac_next_operation_id (complete_command c n outcome a) = ac_next_operation_id a"
    "ac_next_command_id (complete_command c n outcome a) = ac_next_command_id a"
    using q unfolding oc(1)
    by (auto simp: quiet_defs known_def emit_outcome_def send_event_def Let_def)
qed

text \<open>Taking a command from the queue.\<close>

lemma flow_accept:
  assumes "flow {} a" "ledger a" "ac_command_rx a = m # ms"
  defines "b \<equiv> accept_command (cm_command_id m) (cm_wants_response m) (a\<lparr>ac_command_rx := ms\<rparr>)"
  shows "flow {cm_command_id m} b" "ledger b" "known b = known a" "ac_exit b = ac_exit a"
    "ac_next_operation_id b = ac_next_operation_id a" "ac_next_command_id b = ac_next_command_id a"
proof -
  let ?c = "cm_command_id m"
  have new: "?c \<notin> set (ac_accepted a)" using assms(1,3) by (auto simp: flow_def queue_fresh_def)
  have b: "b = a\<lparr>ac_command_rx := ms, ac_accepted_set := insert ?c (ac_accepted_set a),
      ac_accepted := ac_accepted a @ [?c],
      ac_responses := (if cm_wants_response m then insert ?c (ac_responses a) else ac_responses a)\<rparr>"
    using new assms(2) by (simp add: b_def accept_command_def ledger_def)
  have f: "launched b = launched a" "settled b = settled a" "known b = known a"
    "\<And>x. on_its_way x b = on_its_way x a"
    using assms(3) by (auto simp: b launched_def settled_def known_def on_its_way_def)
  have unsettled: "?c \<notin> set (settled a)" using new assms(2) by (auto simp: ledger_def)
  have o': "open_commands {?c} b = open_commands {} a"
    using new unsettled by (auto simp: open_commands_def f) (auto simp: b)
  have "announced b" "pending_once b" using assms(1) by (simp_all add: flow_def announced_def pending_once_def f) (simp_all add: b)
  moreover have "queue_fresh b" using assms(1,3) unfolding flow_def queue_fresh_def f by (auto simp: b)
  moreover have "pending_tracked {?c} b"
    using assms(1) unfolding flow_def pending_tracked_def o' f by (simp add: b)
  moreover have "covered {?c} b" using assms(1) unsettled unfolding flow_def covered_def o' f by (simp add: b)
  ultimately show "flow {?c} b" by (simp add: flow_def)
  show "ledger b" unfolding b_def by (rule accept_ledger) (use assms(2) in \<open>simp add: ledger_def settled_def\<close>)
  show "known b = known a" by (rule f)
  show "ac_exit b = ac_exit a" "ac_next_operation_id b = ac_next_operation_id a"
    "ac_next_command_id b = ac_next_command_id a" by (simp_all add: b)
qed

text \<open>Launching an operation for the command in hand.\<close>

lemma flow_launch:
  assumes "flow {c} a" "ledger a" "eo_command_id x = c" "eo_operation_id x = ac_next_operation_id a"
    and "ac_next_operation_id a \<noteq> - 1"
    and b_def: "b = launch_operation x job command now (a\<lparr>ac_next_operation_id := sat_add (ac_next_operation_id a) 1\<rparr>)"
  shows "flow {} b" "ledger b" "known b = known a" "ac_exit b = ac_exit a"
    "ac_next_operation_id b = sat_add (ac_next_operation_id a) 1" "ac_next_command_id b = ac_next_command_id a"
proof -
  let ?n = "ac_next_operation_id a"
  let ?p = "\<lparr>pd_operation = x, pd_command = command, pd_now_epoch_millis = now\<rparr>"
  have f: "ac_completion_rx b = ac_completion_rx a" "ac_workers b = ac_workers a @ [(x, job)]"
    "launched b = insert x (launched a)" "ac_next_operation_id b = sat_add ?n 1"
    "ac_pending b = (ac_pending a)(?n \<mapsto> ?p)" "ac_accepted b = ac_accepted a"
    "settled b = settled a" "ac_command_rx b = ac_command_rx a" "ac_next_command_id b = ac_next_command_id a"
    "known b = known a"
    by (auto simp: b_def launch_operation_def next_sequence_def send_event_def launched_def settled_def known_def
        assms(4) Let_def)
  have less: "?n < sat_add ?n 1" using assms(5) by (rule sat_add_one_less)
  have ids: "eo_operation_id y < ?n" if "y \<in> launched a" for y
    using that assms(1) by (auto simp: flow_def announced_def)
  have fresh: "ac_pending a ?n = None"
    using assms(1) ids by (auto simp: flow_def pending_tracked_def) (metis less_irrefl not_None_eq)
  have way: "on_its_way y b = (on_its_way y a \<or> y = x)" for y
    by (auto simp: on_its_way_def f)
  have mine: "eo_command_id (pd_operation p) \<noteq> c" if "ac_pending a k = Some p" for k p
    using that assms(1) by (auto simp: flow_def pending_tracked_def open_commands_def)
  have c: "c \<in> set (ac_accepted a) - set (settled a)" using assms(1) by (auto simp: flow_def covered_def)
  have o': "open_commands {} b = insert c (open_commands {c} a)" using c by (auto simp: open_commands_def f)
  have A: "announced a" using assms(1) by (simp add: flow_def)
  have "announced b"
    unfolding announced_def f
  proof (intro conjI ballI)
    fix w assume "w \<in> set (ac_workers a @ [(x, job)])"
    then show "fst w \<in> insert x (launched a)" using A by (auto simp: announced_def)
  next
    fix y assume "y \<in> insert x (launched a)"
    then show "eo_operation_id y < sat_add ?n 1" using ids less less_trans assms(4) by auto
  next
    have "eo_operation_id x \<notin> eo_operation_id ` launched a" using ids assms(4) by (metis imageE less_irrefl)
    then show "inj_on eo_operation_id (insert x (launched a))" using A by (auto simp: announced_def)
  qed (use A in \<open>unfold announced_def, blast\<close>)
  moreover have "pending_once b"
    unfolding pending_once_def f
  proof (intro allI impI)
    fix k q k' q'
    assume q: "((ac_pending a)(?n \<mapsto> ?p)) k = Some q" "((ac_pending a)(?n \<mapsto> ?p)) k' = Some q'"
      and e: "eo_command_id (pd_operation q) = eo_command_id (pd_operation q')"
    have "ac_pending a i = Some y \<Longrightarrow> ac_pending a i' = Some y' \<Longrightarrow>
        eo_command_id (pd_operation y) = eo_command_id (pd_operation y') \<Longrightarrow> i = i'" for i y i' y'
      using assms(1) by (simp add: flow_def pending_once_def)
    with q e mine [of k q] mine [of k' q'] assms(3) show "k = k'" by (cases "k = ?n"; cases "k' = ?n") auto
  qed
  moreover have "queue_fresh b" using assms(1) unfolding flow_def queue_fresh_def f by simp
  moreover have "pending_tracked {} b"
    using assms(1,3,4) unfolding flow_def pending_tracked_def o' way f by auto
  moreover have "covered {} b"
  proof -
    have "\<exists>k p. ac_pending b k = Some p \<and> eo_command_id (pd_operation p) = c'" if c': "c' \<in> open_commands {} b" for c'
    proof (cases "c' = c")
      case True
      then show ?thesis using assms(3) by (intro exI [of _ ?n] exI [of _ ?p]) (simp add: f)
    next
      case False
      with c' o' assms(1) obtain k p where kp: "ac_pending a k = Some p" "eo_command_id (pd_operation p) = c'"
        by (auto simp: flow_def covered_def)
      moreover have "k \<noteq> ?n" using kp(1) fresh by auto
      ultimately show ?thesis by (auto simp: f)
    qed
    then show ?thesis by (simp add: covered_def)
  qed
  ultimately show "flow {} b" by (simp add: flow_def)
  show "ledger b" using assms(2) f by (simp add: ledger_def b_def launch_operation_def next_sequence_def send_event_def Let_def)
  show "known b = known a" "ac_next_operation_id b = sat_add ?n 1" "ac_next_command_id b = ac_next_command_id a"
    by (simp_all add: f)
  show "ac_exit b = ac_exit a" by (simp add: b_def launch_operation_def next_sequence_def send_event_def Let_def)
qed

text \<open>Taking a completion from its lane: a stray one is forgotten, the awaited one puts its command
  in hand.\<close>

lemma flow_completion:
  assumes "flow {} a" "ledger a" "ac_completion_rx a = c # cs"
  defines "b \<equiv> a\<lparr>ac_completion_rx := cs\<rparr>"
  shows "ac_pending a (cp_operation_id c) = None \<Longrightarrow> flow {} b"
    and "ac_pending a (cp_operation_id c) = Some p \<Longrightarrow>
      flow {cp_command_id c} (b\<lparr>ac_pending := (ac_pending a)(cp_operation_id c := None)\<rparr>)"
    and "ac_pending a (cp_operation_id c) = Some p \<Longrightarrow> \<exists>r. c = op_completion_of (pd_operation p) r"
proof -
  obtain x r where x: "x \<in> launched a" "c = op_completion_of x r"
    using assms(1,3) by (auto simp: flow_def announced_def)
  then have c: "cp_operation_id c = eo_operation_id x" "cp_command_id c = eo_command_id x"
    by (simp_all add: op_completion_of_def)
  have same: "y = x" if "y \<in> launched a" "eo_operation_id y = eo_operation_id x" for y
    using that x(1) assms(1) by (auto simp: flow_def announced_def inj_on_def)
  have f: "launched b = launched a" "settled b = settled a" "ac_accepted b = ac_accepted a" "known b = known a"
    "ac_pending b = ac_pending a" "ac_completion_rx b = cs" "ac_workers b = ac_workers a"
    by (simp_all add: b_def launched_def settled_def known_def)
  have way: "on_its_way y b" if "on_its_way y a" "eo_operation_id y \<noteq> eo_operation_id x" for y
    using that assms(3) x(2) unfolding on_its_way_def f by (auto simp: op_completion_of_def)
  {
    assume none: "ac_pending a (cp_operation_id c) = None"
    have "eo_operation_id (pd_operation p) \<noteq> eo_operation_id x" if "ac_pending a k = Some p" for k p
      using that none assms(1) c(1) by (auto simp: flow_def pending_tracked_def)
    then have "pending_tracked {} b"
      using assms(1) way unfolding flow_def pending_tracked_def f by (auto simp: open_commands_def f)
    then show "flow {} b"
      using assms(1,3) unfolding flow_def announced_def pending_once_def covered_def queue_fresh_def
      by (simp add: f open_commands_def) (simp add: b_def)
  }
  {
    assume some: "ac_pending a (cp_operation_id c) = Some p"
    have p: "pd_operation p = x"
      using some assms(1) c(1) same by (auto simp: flow_def pending_tracked_def)
    then show "\<exists>r. c = op_completion_of (pd_operation p) r" using x(2) by blast
    let ?b = "b\<lparr>ac_pending := (ac_pending a)(cp_operation_id c := None)\<rparr>"
    have g: "launched ?b = launched a" "settled ?b = settled a" "known ?b = known a"
      "\<And>y. on_its_way y ?b = on_its_way y b"
      by (simp_all add: b_def launched_def settled_def known_def on_its_way_def)
    have mine: "eo_command_id x \<in> open_commands {} a" using some p assms(1) by (auto simp: flow_def pending_tracked_def)
    have o': "open_commands {cp_command_id c} ?b = open_commands {} a - {cp_command_id c}"
      by (auto simp: open_commands_def g) (auto simp: b_def)
    have other: "eo_command_id (pd_operation q) \<noteq> eo_command_id x" "eo_operation_id (pd_operation q) \<noteq> eo_operation_id x"
      if "ac_pending a k = Some q" "k \<noteq> cp_operation_id c" for k q
    proof -
      have "eo_operation_id (pd_operation q) = k" using that(1) assms(1) by (simp add: flow_def pending_tracked_def)
      then show "eo_operation_id (pd_operation q) \<noteq> eo_operation_id x" using that(2) c(1) by simp
      have "pending_once a" using assms(1) by (simp add: flow_def)
      from this [unfolded pending_once_def, rule_format, OF that(1) some] p that(2)
      show "eo_command_id (pd_operation q) \<noteq> eo_command_id x" by auto
    qed
    have "announced ?b" using assms(1,3) unfolding flow_def announced_def g by (simp add: b_def)
    moreover have "pending_once ?b" using assms(1) unfolding flow_def pending_once_def by (simp add: b_def)
    moreover have "queue_fresh ?b" using assms(1) unfolding flow_def queue_fresh_def g by (simp add: b_def)
    moreover have "pending_tracked {cp_command_id c} ?b"
      unfolding pending_tracked_def g o'
    proof (intro allI impI)
      fix k q assume "ac_pending ?b k = Some q"
      then have q: "ac_pending a k = Some q" "k \<noteq> cp_operation_id c" by (simp_all split: if_splits)
      then have "pd_operation q \<in> launched a" "eo_operation_id (pd_operation q) = k" "on_its_way (pd_operation q) a"
        "eo_command_id (pd_operation q) \<in> open_commands {} a"
        using assms(1) by (simp_all add: flow_def pending_tracked_def)
      with other [OF q] way c(2) show "pd_operation q \<in> launched a \<and> eo_operation_id (pd_operation q) = k \<and>
          on_its_way (pd_operation q) b \<and> eo_command_id (pd_operation q) \<in> open_commands {} a - {cp_command_id c}"
        by simp
    qed
    moreover have "covered {cp_command_id c} ?b"
    proof -
      have "\<exists>k q. ac_pending ?b k = Some q \<and> eo_command_id (pd_operation q) = c'"
        if c': "c' \<in> open_commands {cp_command_id c} ?b" for c'
      proof -
        from c' o' assms(1) obtain k q where "ac_pending a k = Some q" "eo_command_id (pd_operation q) = c'" "c' \<noteq> cp_command_id c"
          by (auto simp: flow_def covered_def)
        moreover from this have "k \<noteq> cp_operation_id c" using some p c(2) by auto
        ultimately show ?thesis by auto
      qed
      then show ?thesis using mine unfolding covered_def g c(2) by (auto simp: open_commands_def b_def)
    qed
    ultimately show "flow {cp_command_id c} ?b" by (simp add: flow_def)
  }
qed

subsection \<open>Workers and calls\<close>

lemma flow_worker:
  assumes "flow {} a" "ledger a" "ac_workers a = ws @ (x, job) # ws'"
    and b: "b = a\<lparr>ac_workers := ws @ ws', ac_completion_rx := ac_completion_rx a @ [op_completion_of x r], ac_engine := e\<rparr>"
  shows "flow {} b" "ledger b" "known b = known a"
proof -
  have f: "launched b = launched a" "settled b = settled a" "known b = known a" "open_commands {} b = open_commands {} a"
    by (simp_all add: b launched_def settled_def known_def open_commands_def)
  have x: "x \<in> launched a" using assms(1,3) by (auto simp: flow_def announced_def)
  have way: "on_its_way y b" if "on_its_way y a" for y
    using that assms(3) by (auto simp: on_its_way_def b)
  have A: "announced a" using assms(1) by (simp add: flow_def)
  then have "\<forall>w \<in> set (ws @ ws'). fst w \<in> launched a" using assms(3) by (auto simp: announced_def)
  then have "announced b" using A x unfolding announced_def f by (auto simp: b)
  moreover have "pending_once b" "queue_fresh b" "covered {} b"
    using assms(1) unfolding flow_def pending_once_def queue_fresh_def covered_def f by (simp_all add: b)
  moreover have "pending_tracked {} b" using assms(1) way unfolding flow_def pending_tracked_def f by (simp add: b)
  ultimately show "flow {} b" by (simp add: flow_def)
  show "ledger b" using assms(2) by (simp add: ledger_def b settled_def)
  show "known b = known a" by (rule f)
qed

lemma unat_plus_one: "n \<noteq> - 1 \<Longrightarrow> unat (n + 1) = Suc (unat n)" for n :: u64
proof -
  assume "n \<noteq> - 1"
  then have "unat n \<noteq> unat (- 1 :: u64)" by (metis unsigned_word_eqI)
  moreover have "unat n < 2 ^ LENGTH(64)" by (rule unsigned_less)
  ultimately have "unat n + 1 < 2 ^ 64" by (simp add: unat_max_word)
  then show ?thesis by (simp add: unat_word_ariths)
qed

lemma submit_cases:
  assumes "submit_input answer input now wants a = (r, b)"
  obtains "b = a" | "b = a\<lparr>ac_next_command_id := ac_next_command_id a + 1\<rparr>"
    | "b = a\<lparr>ac_next_command_id := ac_next_command_id a + 1,
         ac_command_rx := ac_command_rx a @ [\<lparr>cm_command_id = ac_next_command_id a, cm_input = input,
           cm_now_epoch_millis = now, cm_wants_response = wants\<rparr>]\<rparr>"
proof (cases "ac_shutting_down a")
  case True
  with assms that(1) show thesis by (simp add: submit_input_def)
next
  case False
  then show thesis
    using assms that(2,3)
    by (cases "map_try_send answer CommandLane (acf_command_capacity (ac_config a))")
       (simp_all add: submit_input_def Let_def split: unit.splits)
qed

lemma flow_submit:
  assumes "flow {} a" "ledger a" "ac_next_command_id a \<noteq> - 1"
    and "submit_input answer input now wants a = (r, b)"
  shows "flow {} b" "ledger b" "known a \<subseteq> known b" "ac_exit b = ac_exit a"
    "ac_next_operation_id b = ac_next_operation_id a" "unat (ac_next_command_id b) \<le> Suc (unat (ac_next_command_id a))"
proof -
  let ?n = "ac_next_command_id a"
  have n: "unat (?n + 1) = Suc (unat ?n)" "?n < ?n + 1"
    using unat_plus_one [OF assms(3)] by (simp_all add: word_less_nat_alt)
  have "flow {} b \<and> ledger b \<and> known a \<subseteq> known b"
  proof (cases rule: submit_cases [OF assms(4)])
    case 2
    have f: "launched b = launched a" "settled b = settled a" "known b = known a" "open_commands {} b = open_commands {} a"
      "\<And>x. on_its_way x b = on_its_way x a"
      by (simp_all add: 2 launched_def settled_def known_def open_commands_def on_its_way_def)
    have "queue_fresh b" using assms(1) n(2) less_trans unfolding flow_def queue_fresh_def f by (auto simp: 2)
    then show ?thesis
      using assms(1,2) unfolding flow_def announced_def pending_tracked_def pending_once_def covered_def ledger_def f
      by (simp add: 2)
  next
    case 3
    have f: "launched b = launched a" "settled b = settled a" "known b = insert ?n (known a)"
      "open_commands {} b = open_commands {} a" "\<And>x. on_its_way x b = on_its_way x a"
      by (auto simp: 3 launched_def settled_def known_def open_commands_def on_its_way_def)
    have q: "queue_fresh a" using assms(1) by (simp add: flow_def)
    then have fresh: "?n \<notin> known a" by (auto simp: queue_fresh_def)
    have "queue_fresh b"
      using q n(2) less_trans fresh unfolding queue_fresh_def f by (auto simp: 3) (auto simp: known_def)
    then show ?thesis
      using assms(1,2) unfolding flow_def announced_def pending_tracked_def pending_once_def covered_def ledger_def f
      by (auto simp: 3)
  qed (use assms in simp)
  then show "flow {} b" "ledger b" "known a \<subseteq> known b" by simp_all
  show "ac_exit b = ac_exit a" "ac_next_operation_id b = ac_next_operation_id a"
    "unat (ac_next_command_id b) \<le> Suc (unat ?n)"
    using n(1) by (cases rule: submit_cases [OF assms(4)]; simp)+
qed

text \<open>The actor while it runs, after \<open>n\<close> steps.\<close>

definition running :: "nat \<Rightarrow> 'x actor \<Rightarrow> bool" where
  "running n a =
     (flow {} a \<and> ledger a \<and> ac_exit a = None \<and>
      unat (ac_next_operation_id a) \<le> Suc n \<and> unat (ac_next_command_id a) \<le> Suc n)"

lemma running_quiet: "quiet a' a \<Longrightarrow> running n a' = running n a"
  using quiet_flow [of a' a "{}"] quiet_ledger [of a' a] by (auto simp: running_def quiet_def flow_fields_def)

lemma running_mono: "running n a \<Longrightarrow> n \<le> m \<Longrightarrow> running m a"
  by (auto simp: running_def)

lemma bounded_word: "unat x \<le> Suc n \<Longrightarrow> Suc n < 2 ^ 64 - 1 \<Longrightarrow> x \<noteq> (- 1 :: u64)"
  by (auto simp: unat_max_word)

lemma call_running:
  assumes "actor_call M a b" "running n a" "Suc n < 2 ^ 64 - 1"
  shows "running (Suc n) b \<and> known a \<subseteq> known b"
  using assms(1)
proof cases
  case (submit answer input now wants r)
  have "flow {} a" "ledger a" "ac_next_command_id a \<noteq> - 1"
    using assms(2,3) bounded_word [of "ac_next_command_id a" n] by (simp_all add: running_def)
  from flow_submit [OF this submit] assms(2) show ?thesis by (auto simp: running_def)
next
  case (complete x s answer r u)
  consider "b = a" | "b = a\<lparr>ac_completion_rx := ac_completion_rx a @ [op_completion_of x r]\<rparr>"
    using complete(2) by (auto simp: try_complete_operation_def split: if_splits sum.splits unit.splits)
  then show ?thesis
  proof cases
    case 2
    have x: "x \<in> launched a" using complete(1) by (auto simp: launched_def)
    have f: "launched b = launched a" "settled b = settled a" "known b = known a" "open_commands {} b = open_commands {} a"
      by (simp_all add: 2 launched_def settled_def known_def open_commands_def)
    have way: "on_its_way y b" if "on_its_way y a" for y using that by (auto simp: on_its_way_def 2)
    have fl: "flow {} a" "ledger a" using assms(2) by (simp_all add: running_def)
    have "announced b" using fl(1) x unfolding flow_def announced_def f by (auto simp: 2)
    moreover have "pending_tracked {} b" using fl(1) way unfolding flow_def pending_tracked_def f by (simp add: 2)
    moreover have "pending_once b" "queue_fresh b" "covered {} b" "ledger b"
      using fl unfolding flow_def pending_once_def queue_fresh_def covered_def ledger_def f by (simp_all add: 2)
    ultimately show ?thesis using assms(2) f(3) by (simp add: running_def flow_def) (simp add: 2)
  qed (use assms running_mono [of n a "Suc n"] in auto)
next
  case (facts gone facts u)
  then have "quiet b a" by (auto simp: publish_player_facts_def split: if_splits)
  then show ?thesis using assms(2) running_mono [of n a "Suc n"] by (simp add: running_quiet quiet_known)
next
  case (edge answer event u)
  then have "quiet b a" by (auto simp: try_publish_player_edge_def split: if_splits sum.splits unit.splits)
  then show ?thesis using assms(2) running_mono [of n a "Suc n"] by (simp add: running_quiet quiet_known)
next
  case (control answer state u)
  then have "quiet b a" by (auto simp: try_send_control_def send_lifecycle_def split: if_splits sum.splits unit.splits)
  then show ?thesis using assms(2) running_mono [of n a "Suc n"] by (simp add: running_quiet quiet_known)
next
  case (shutdown answer u)
  then have "quiet b a"
    by (auto simp: request_shutdown_def send_lifecycle_def split: if_splits sum.splits unit.splits prod.splits)
  then show ?thesis using assms(2) running_mono [of n a "Suc n"] by (simp add: running_quiet quiet_known)
next
  case (tick answer now u)
  then have "quiet b a" by (auto simp: tick_now_def send_lifecycle_def split: if_splits sum.splits unit.splits)
  then show ?thesis using assms(2) running_mono [of n a "Suc n"] by (simp add: running_quiet quiet_known)
next
  case (mutate mutation answer u)
  then have "quiet b a" by (auto simp: mutate_engine_def send_lifecycle_def split: if_splits sum.splits unit.splits)
  then show ?thesis using assms(2) running_mono [of n a "Suc n"] by (simp add: running_quiet quiet_known)
qed

lemma worker_running:
  assumes "running n a" "ac_workers a = ws @ worker # ws'"
  shows "running n (run_worker panics worker (a\<lparr>ac_workers := ws @ ws'\<rparr>)) \<and>
    known (run_worker panics worker (a\<lparr>ac_workers := ws @ ws'\<rparr>)) = known a"
proof -
  obtain x job where w: "worker = (x, job)" by (cases worker)
  let ?b = "run_worker panics worker (a\<lparr>ac_workers := ws @ ws'\<rparr>)"
  obtain r e where b: "?b = a\<lparr>ac_workers := ws @ ws', ac_completion_rx := ac_completion_rx a @ [op_completion_of x r], ac_engine := e\<rparr>"
  proof (cases panics)
    case True
    show thesis by (rule that [where r = "Inl operation_worker_panic_error" and e = "ac_engine a"]) (simp add: True w run_worker_def finish_worker_def)
  next
    case False
    show thesis
      by (rule that [where r = "fst (job (en_world (ac_engine a)))" and
            e = "(ac_engine a)\<lparr>en_world := snd (job (en_world (ac_engine a)))\<rparr>"])
         (simp add: False w run_worker_def finish_worker_def case_prod_beta Let_def)
  qed
  have "flow {} a" "ledger a" using assms(1) by (simp_all add: running_def)
  from flow_worker [OF this assms(2) [unfolded w] b] assms(1) show ?thesis by (simp add: running_def) (simp add: b)
qed

end
