(* ===== verification/ActorRuns.thy ===== *)
theory ActorRuns
  imports ActorLaws
begin

text \<open>
  Whole runs of the actor: every accepted command gets exactly one outcome, the event log counts up,
  a change of the login cancels the operations launched before it and is published without data of
  anyone else.
\<close>

subsection \<open>Launching\<close>

text \<open>Generations only grow, by at most one at a time.\<close>

definition gens_of :: "domain_generations \<Rightarrow> u64 list" where
  "gens_of g = [dg_account g, dg_search g, dg_playlist g, dg_history g, dg_library g, dg_playback g]"

definition grown :: "domain_generations \<Rightarrow> domain_generations \<Rightarrow> bool" where
  "grown g g' = list_all2 (\<lambda>n n'. n' = n \<or> n' = sat_add n 1) (gens_of g) (gens_of g')"

lemma grown_refl [simp]: "grown g g"
  by (simp add: grown_def gens_of_def)

lemma grown_bump [simp]: "grown g (bump d g)" "grown g (bump_identity_generations g)"
  by (cases d; simp add: grown_def gens_of_def) (simp add: grown_def gens_of_def bump_identity_generations_def)

lemma bump_current [simp]: "is_current (bump d g) (domain_generation d (bump d g))"
  by (cases d) simp_all

text \<open>What preparing does: it may start a generation, and an operation has the next identifier, the
  command and the generation of its domain.\<close>

definition prepares :: "u64 \<Rightarrow> 'x actor \<Rightarrow> engine_operation option \<times> 'x actor \<Rightarrow> bool" where
  "prepares c a r =
     (\<exists>g. grown (ac_generations a) g \<and>
        (case fst r of
           None \<Rightarrow> snd r = a\<lparr>ac_generations := g\<rparr>
         | Some x \<Rightarrow>
             snd r = a\<lparr>ac_generations := g, ac_next_operation_id := sat_add (ac_next_operation_id a) 1\<rparr> \<and>
             eo_operation_id x = ac_next_operation_id a \<and> eo_command_id x = c \<and>
             is_current g (eo_generation x)))"

lemma prepares_none [simp]: "prepares c a (None, a)"
  by (auto simp: prepares_def intro!: exI [of _ "ac_generations a"])

lemma prepares_new [simp]: "prepares c a (launch_new c d request a)"
  by (auto simp: prepares_def launch_new_def allocate_operation_def Let_def
        intro!: exI [of _ "bump d (ac_generations a)"])

lemma prepares_under [simp]:
  "is_current (ac_generations a) g \<Longrightarrow> prepares c a (launch_under c g request a)"
  by (auto simp: prepares_def launch_under_def allocate_operation_def Let_def intro!: exI [of _ "ac_generations a"])

lemma prepares_parts [simp]:
  "prepares c a (prepare_library_page c page saved fresh a)"
  "prepares c a (prepare_library_continuation c saved a)"
  "prepares c a (prepare_library_mutation c track m a)"
  "prepares c a (prepare_history c request a)"
  "prepares c a (prepare_history_continuation c a)"
  by (simp_all add: prepare_library_page_def prepare_library_continuation_def prepare_library_mutation_def
      prepare_history_def prepare_history_continuation_def split: option.split)

lemma prepares_operation: "prepares c a (prepare_operation c ty a)"
  by (cases ty) (simp_all split: option.split)

lemma try_launch_cases:
  assumes "try_launch c command a = (r, a')"
  obtains g where "grown (ac_generations a) g" "r = None"
      "a' = a\<lparr>ac_generations := g, ac_next_operation_id := ac_next_operation_id a'\<rparr>"
      "ac_next_operation_id a' = ac_next_operation_id a \<or> ac_next_operation_id a' = sat_add (ac_next_operation_id a) 1"
  | g x job where "grown (ac_generations a) g" "r = Some (x, job)"
      "a' = a\<lparr>ac_generations := g, ac_next_operation_id := sat_add (ac_next_operation_id a) 1\<rparr>"
      "eo_operation_id x = ac_next_operation_id a" "eo_command_id x = c" "is_current g (eo_generation x)"
proof (cases "acf_split_remote_operations (ac_config a)")
  case False
  with assms show thesis by (intro that(1) [of "ac_generations a"]) (simp_all add: try_launch_def)
next
  case True
  obtain op a1 where p: "prepare_operation c (command_type command) a = (op, a1)"
    by (cases "prepare_operation c (command_type command) a")
  obtain g where g: "grown (ac_generations a) g"
    "case op of None \<Rightarrow> a1 = a\<lparr>ac_generations := g\<rparr>
      | Some x \<Rightarrow> a1 = a\<lparr>ac_generations := g, ac_next_operation_id := sat_add (ac_next_operation_id a) 1\<rparr> \<and>
          eo_operation_id x = ac_next_operation_id a \<and> eo_command_id x = c \<and> is_current g (eo_generation x)"
    using prepares_operation [of c a "command_type command", unfolded p prepares_def fst_conv snd_conv] by blast
  show thesis
  proof (cases op)
    case None
    with assms p True g show thesis by (intro that(1) [of g]) (simp_all add: try_launch_def)
  next
    case (Some x)
    with g(2) have a1: "a1 = a\<lparr>ac_generations := g, ac_next_operation_id := sat_add (ac_next_operation_id a) 1\<rparr>"
      and x: "eo_operation_id x = ac_next_operation_id a" "eo_command_id x = c" "is_current g (eo_generation x)"
      by simp_all
    from assms p True Some have r: "r = map_option (Pair x) (spawn_operation_worker (eo_request x) (ac_engine a1))" "a' = a1"
      by (auto simp: try_launch_def)
    show thesis
    proof (cases r)
      case None
      then show thesis using g(1) r(2) a1 by (intro that(1) [of g]) simp_all
    next
      case (Some q)
      then obtain job where "r = Some (x, job)" using r(1) by auto
      then show thesis using g(1) r(2) a1 x by (intro that(2) [of g x job]) simp_all
    qed
  qed
qed

subsection \<open>Turns\<close>

text \<open>A step that keeps the actor running, or closes its books, or is killed by a panic.\<close>

definition goes_on :: "nat \<Rightarrow> 'x actor \<Rightarrow> 'x actor \<Rightarrow> bool" where
  "goes_on n a b =
     (known a \<subseteq> known b \<and>
      (running n b \<or>
       closed_books b \<and> ac_exit b \<noteq> None \<and> (\<forall>acc. ac_exit b = Some (Inr acc) \<longrightarrow> acc = ac_accepted b) \<or>
       ledger b \<and> ac_exit b = Some (Inl Panicked)))"

lemma quiet_goes_on: "quiet b a \<Longrightarrow> running n a \<Longrightarrow> goes_on n a b"
  by (simp add: goes_on_def running_quiet quiet_known)

lemma exit_only:
  "ledger (a\<lparr>ac_exit := x\<rparr>) = ledger a" "closed_books (a\<lparr>ac_exit := x\<rparr>) = closed_books a"
  "known (a\<lparr>ac_exit := x\<rparr>) = known a"
  by (simp_all add: ledger_def closed_books_def known_def settled_def)

lemma close_down_goes_on: "running n a \<Longrightarrow> goes_on m a (close_down a)"
  using fail_all_books [of a CommandChannelClosed]
  by (simp add: goes_on_def close_down_def exit_only running_def)

lemma settle_dispatch_goes_on:
  assumes "settle_dispatch panics c dispatched a = Some (r, b)" "flow {c} a" "ledger a" "ac_exit a = None"
    and "unat (ac_next_operation_id a) \<le> Suc n" "unat (ac_next_command_id a) \<le> Suc n"
  shows "goes_on n a (case r of Inl failure \<Rightarrow> b\<lparr>ac_exit := Some (Inl failure)\<rparr> | Inr _ \<Rightarrow> b)"
proof (cases panics)
  case True
  then have "r = Inl Panicked" "b = fail_all Panicked a" using assms(1) by (simp_all add: settle_dispatch_def)
  with fail_all_books [OF assms(3), of Panicked] show ?thesis by (simp add: goes_on_def exit_only)
next
  case False
  with assms(1) obtain outcome e where "dispatched = Some (outcome, e)" by (auto simp: settle_dispatch_def split: option.splits)
  with False assms(1) have b: "r = Inr ()"
    "b = complete_command c (fst (next_sequence (a\<lparr>ac_engine := e\<rparr>))) outcome (snd (next_sequence (a\<lparr>ac_engine := e\<rparr>)))"
    by (auto simp: settle_dispatch_def case_prod_beta Let_def)
  let ?a = "snd (next_sequence (a\<lparr>ac_engine := e\<rparr>))"
  have q: "quiet ?a a" by simp
  have "flow {c} ?a" "ledger ?a" using assms(2,3) quiet_flow [OF q] quiet_ledger [OF q] by simp_all
  note k = flow_complete [OF this, of "fst (next_sequence (a\<lparr>ac_engine := e\<rparr>))" outcome]
  have "ac_next_operation_id ?a = ac_next_operation_id a" "ac_next_command_id ?a = ac_next_command_id a" "ac_exit ?a = None"
    using q assms(4) by (simp_all add: quiet_def flow_fields_def)
  with k assms(5,6) quiet_known [OF q] show ?thesis by (simp add: goes_on_def running_def b)
qed


lemma running_parts:
  "running n a \<Longrightarrow> flow {} a" "running n a \<Longrightarrow> ledger a" "running n a \<Longrightarrow> ac_exit a = None"
  "running n a \<Longrightarrow> unat (ac_next_operation_id a) \<le> Suc n"
  "running n a \<Longrightarrow> unat (ac_next_command_id a) \<le> Suc n"
  by (simp_all add: running_def)

lemma unat_sat_one: "unat n \<le> Suc m \<Longrightarrow> unat (sat_add n 1 :: u64) \<le> Suc (Suc m)"
  by (simp add: unat_sat_add)

text \<open>Raising the operation counter disturbs nothing.\<close>

lemma flow_counter:
  assumes "flow C a" "ac_next_operation_id a \<le> k"
  shows "flow C (a\<lparr>ac_generations := g, ac_next_operation_id := k\<rparr>)"
    "ledger (a\<lparr>ac_generations := g, ac_next_operation_id := k\<rparr>) = ledger a"
    "known (a\<lparr>ac_generations := g, ac_next_operation_id := k\<rparr>) = known a"
proof -
  let ?b = "a\<lparr>ac_generations := g, ac_next_operation_id := k\<rparr>"
  have f: "launched ?b = launched a" "settled ?b = settled a" "known ?b = known a" "open_commands C ?b = open_commands C a"
    "\<And>x. on_its_way x ?b = on_its_way x a"
    by (simp_all add: launched_def settled_def known_def open_commands_def on_its_way_def)
  have "announced ?b" using assms order_less_le_trans unfolding flow_def announced_def f by simp blast
  then show "flow C ?b"
    using assms(1) unfolding flow_def pending_tracked_def pending_once_def covered_def queue_fresh_def f by simp
  show "ledger ?b = ledger a" "known ?b = known a" by (simp_all add: ledger_def f)
qed

lemma process_command_goes_on:
  assumes "process_command panics m (a\<lparr>ac_command_rx := ms\<rparr>) = Some (r, b)" "running n a" "ac_command_rx a = m # ms"
    and "Suc n < 2 ^ 64 - 1"
  shows "goes_on (Suc n) a (case r of Inl failure \<Rightarrow> b\<lparr>ac_exit := Some (Inl failure)\<rparr> | Inr _ \<Rightarrow> b)"
proof -
  let ?c = "cm_command_id m" and ?now = "cm_now_epoch_millis m"
  let ?o = "observe_clock ?now a"
  define a1 where "a1 = accept_command ?c (cm_wants_response m) (?o\<lparr>ac_command_rx := ms\<rparr>)"
  have q: "quiet ?o a" by simp
  have o': "flow {} ?o" "ledger ?o" "ac_command_rx ?o = m # ms"
    using quiet_flow [OF q] quiet_ledger [OF q] running_parts(1,2) [OF assms(2)] apply (simp_all)
    using assms(3) by (simp add: observe_clock_def)
  have swap: "observe_clock ?now (a\<lparr>ac_command_rx := ms\<rparr>) = ?o\<lparr>ac_command_rx := ms\<rparr>"
    by (simp add: observe_clock_def)
  note ac = flow_accept [OF o', folded a1_def]
  have a1: "flow {?c} a1" "ledger a1" "known a1 = known a" "ac_exit a1 = None"
    "unat (ac_next_operation_id a1) \<le> Suc n" "unat (ac_next_command_id a1) \<le> Suc n"
    using ac quiet_known [OF q] q running_parts [OF assms(2)] by (simp_all add: quiet_def flow_fields_def)
  have settle: "goes_on (Suc n) a (case r of Inl failure \<Rightarrow> b\<lparr>ac_exit := Some (Inl failure)\<rparr> | Inr _ \<Rightarrow> b)"
    if "settle_dispatch panics ?c d a2 = Some (r, b)" "flow {?c} a2" "ledger a2" "known a2 = known a" "ac_exit a2 = None"
      "unat (ac_next_operation_id a2) \<le> Suc (Suc n)" "unat (ac_next_command_id a2) \<le> Suc (Suc n)" for d a2
    using settle_dispatch_goes_on [OF that(1,2,3,5-7)] that(4) by (simp add: goes_on_def)
  show ?thesis
  proof (cases "cm_input m")
    case (InputPlatformEvent event)
    with assms(1) have "settle_dispatch panics ?c (dispatch_platform_event event ?now (ac_engine a1)) a1 = Some (r, b)"
      by (simp add: process_command_def a1_def swap Let_def)
    from settle [OF this] a1 show ?thesis by simp
  next
    case (InputCommand command)
    obtain l a2 where l: "try_launch ?c command a1 = (l, a2)" by (cases "try_launch ?c command a1")
    from assms(1) InputCommand have run: "(case l of
          Some (operation, job) \<Rightarrow> Some (Inr (), launch_operation operation job command ?now a2)
        | None \<Rightarrow> settle_dispatch panics ?c (dispatch_command command ?now (ac_engine a2)) a2) = Some (r, b)"
      by (simp add: process_command_def swap a1_def [symmetric] l Let_def split: option.splits prod.splits)
    from l show ?thesis
    proof (cases rule: try_launch_cases)
      case (1 g)
      have le: "ac_next_operation_id a1 \<le> ac_next_operation_id a2"
        using 1(4) sat_add_ge [of "ac_next_operation_id a1" 1] by auto
      have "flow {?c} a2" "ledger a2" "known a2 = known a" "ac_exit a2 = None" "ac_next_command_id a2 = ac_next_command_id a1"
        using flow_counter [OF a1(1) le, of g] a1(2-4) by (simp_all add: 1(3) [symmetric]) (subst 1(3), simp)+
      moreover have "unat (ac_next_operation_id a2) \<le> Suc (Suc n)"
        using 1(4) unat_sat_one [OF a1(5)] a1(5) by auto
      ultimately show ?thesis using settle [of _ a2] run 1(2) a1(6) by simp
    next
      case (2 g x job)
      have "ac_next_operation_id a1 \<noteq> - 1" using bounded_word a1(5) assms(4) by blast
      moreover have q: "quiet (a1\<lparr>ac_generations := g\<rparr>) a1" by simp
      moreover have b: "b = launch_operation x job command ?now ((a1\<lparr>ac_generations := g\<rparr>)
          \<lparr>ac_next_operation_id := sat_add (ac_next_operation_id (a1\<lparr>ac_generations := g\<rparr>)) 1\<rparr>)" "r = Inr ()"
        using run 2(2,3) by simp_all
      ultimately have "flow {} b" "ledger b" "known b = known a" "ac_exit b = None"
        "ac_next_operation_id b = sat_add (ac_next_operation_id a1) 1" "ac_next_command_id b = ac_next_command_id a1"
        using flow_launch [of ?c "a1\<lparr>ac_generations := g\<rparr>" x b job command ?now] 2(4,5) a1
          quiet_flow [OF q] quiet_ledger [OF q] quiet_known [OF q] by simp_all
      with unat_sat_one [OF a1(5)] a1(6) show ?thesis by (simp add: b(2) goes_on_def running_def)
    qed
  qed
qed

lemma process_completion_goes_on:
  assumes "process_operation_completion panics c (a\<lparr>ac_completion_rx := cs\<rparr>) = Some (r, b)" "running n a"
    and "ac_completion_rx a = c # cs"
  shows "goes_on n a (case r of Inl failure \<Rightarrow> b\<lparr>ac_exit := Some (Inl failure)\<rparr> | Inr _ \<Rightarrow> b)"
proof -
  note fl = running_parts(1,2) [OF assms(2)]
  let ?b = "a\<lparr>ac_completion_rx := cs\<rparr>"
  have small: "ledger ?b" "known ?b = known a" "ac_exit ?b = None" using fl running_parts(3) [OF assms(2)]
    by (simp_all add: ledger_def settled_def known_def)
  show ?thesis
  proof (cases "ac_pending a (cp_operation_id c)")
    case None
    with assms(1) have "b = ?b" "r = Inr ()" by (simp_all add: process_operation_completion_def)
    with flow_completion(1) [OF fl assms(3) None] small assms(2) show ?thesis by (simp add: goes_on_def running_def)
  next
    case (Some p)
    let ?p = "?b\<lparr>ac_pending := (ac_pending a)(cp_operation_id c := None)\<rparr>"
    let ?n = "fst (next_sequence ?p)" and ?a = "snd (next_sequence ?p)"
    have q: "quiet ?a ?p" by simp
    have p: "ledger ?p" "known ?p = known a"
      using small(1,2) by (simp_all add: ledger_def settled_def known_def)
    have f: "flow {cp_command_id c} ?a" "ledger ?a" "known ?a = known a"
      using flow_completion(2) [OF fl assms(3) Some] quiet_flow [OF q] quiet_ledger [OF q] quiet_known [OF q] p by simp_all
    have f': "ac_exit ?a = None" "ac_next_operation_id ?a = ac_next_operation_id a" "ac_next_command_id ?a = ac_next_command_id a"
      using running_parts(3) [OF assms(2)] by (simp_all add: next_sequence_def Let_def)
    from assms(1) Some have run: "(if eo_generation (pd_operation p) \<noteq> cp_generation c \<or>
            \<not> is_current (ac_generations ?a) (cp_generation c)
          then Some (Inr (), settle_with (OutcomeCancelled Superseded) ?n (cp_command_id c) ?a)
          else if panics then Some (Inl Panicked, ?a)
          else case redispatch p (cp_result c) ?a of
                 None \<Rightarrow> None
               | Some (outcome, e) \<Rightarrow>
                   Some (Inr (), complete_command (cp_command_id c) ?n outcome (?a\<lparr>ac_engine := e\<rparr>))) = Some (r, b)"
      by (simp add: process_operation_completion_def case_prod_beta Let_def)
    consider (stale) "r = Inr ()" "b = settle_with (OutcomeCancelled Superseded) ?n (cp_command_id c) ?a"
      | (panic) "r = Inl Panicked" "b = ?a"
      | (ok) outcome e where "r = Inr ()" "b = complete_command (cp_command_id c) ?n outcome (?a\<lparr>ac_engine := e\<rparr>)"
      using run by (auto split: if_splits option.splits)
    then show ?thesis
    proof cases
      case stale
      let ?o = "\<lparr>ao_command_id = cp_command_id c, ao_message_sequence = ?n,
        ao_snapshot_revision = pub_revision (ac_latest ?a), ao_status = OutcomeCancelled Superseded,
        ao_snapshot = pub_snapshot (ac_latest ?a), ao_event = None, ao_effects = []\<rparr>"
      have b: "b = emit_outcome ?o ?a" by (simp add: stale settle_with_def)
      have "flow {ao_command_id ?o} ?a" using f(1) by simp
      note e = flow_emit [OF this f(2), folded b]
      have "known b = known a" "ac_next_operation_id b = ac_next_operation_id a"
        "ac_next_command_id b = ac_next_command_id a" "ac_exit b = None"
        using f(3) f' unfolding b by (simp_all add: emit_outcome_def send_event_def known_def Let_def)
      with e running_parts(4,5) [OF assms(2)] show ?thesis by (simp add: stale(1) goes_on_def running_def)
    next
      case panic
      with f show ?thesis by (simp add: goes_on_def exit_only)
    next
      case (ok outcome e)
      let ?e = "?a\<lparr>ac_engine := e\<rparr>"
      have qe: "quiet ?e ?a" by simp
      have "flow {cp_command_id c} ?e" "ledger ?e" using f(1,2) quiet_flow [OF qe] quiet_ledger [OF qe] by simp_all
      note k = flow_complete [OF this, of ?n outcome, folded ok(2)]
      with f(3) f' quiet_known [OF qe] running_parts(4,5) [OF assms(2)] show ?thesis
        by (simp add: ok(1) goes_on_def running_def)
    qed
  qed
qed


text \<open>Messages of the lifecycle lane: quiet, or the shutdown.\<close>

lemma goes_on_trans: "quiet b a \<Longrightarrow> goes_on n b c \<Longrightarrow> goes_on n a c"
  by (auto simp: goes_on_def dest: quiet_known)

lemma lifecycle_goes_on:
  assumes "process_lifecycle m (a\<lparr>ac_lifecycle_rx := ms\<rparr>) = Some b" "running n a"
  shows "(ac_exit b = None \<longrightarrow> quiet b a) \<and> goes_on n a b"
proof (cases "m = LifecycleShutdown")
  case True
  then have b: "b = process_shutdown (a\<lparr>ac_lifecycle_rx := ms\<rparr>)" using assms(1) by simp
  have q: "quiet (a\<lparr>ac_lifecycle_rx := ms\<rparr>) a" by simp
  have "ledger (a\<lparr>ac_lifecycle_rx := ms\<rparr>)" using quiet_ledger [OF q] running_parts(2) [OF assms(2)] by simp
  from shutdown_books [OF this] quiet_known [OF q] show ?thesis by (simp add: b goes_on_def)
next
  case False
  from quiet_lifecycle [OF assms(1) this] have "quiet b a" by (rule quiet_trans) simp
  with quiet_goes_on [OF this assms(2)] show ?thesis by simp
qed

lemma drain_goes_on:
  "drain_lifecycle ms a = Some b \<Longrightarrow> running n a \<Longrightarrow> (ac_exit b = None \<longrightarrow> quiet b a) \<and> goes_on n a b"
proof (induction ms arbitrary: a)
  case Nil
  then show ?case using quiet_goes_on [OF quiet_refl Nil.prems(2)] by simp
next
  case (Cons m ms)
  from Cons.prems(1) obtain c where c: "process_lifecycle m (a\<lparr>ac_lifecycle_rx := ms\<rparr>) = Some c"
    and rest: "if ac_exit c \<noteq> None then b = c else drain_lifecycle ms c = Some b"
    by (auto split: option.splits if_splits)
  note l = lifecycle_goes_on [OF c Cons.prems(2)]
  show ?case
  proof (cases "ac_exit c = None")
    case True
    with l have q: "quiet c a" by simp
    with Cons.prems(2) have "running n c" by (simp add: running_quiet)
    from Cons.IH [OF _ this] rest True q show ?thesis by (auto intro: quiet_trans goes_on_trans)
  next
    case False
    with rest l show ?thesis by auto
  qed
qed

lemma goes_on_mono: "goes_on n a b \<Longrightarrow> n \<le> m \<Longrightarrow> goes_on m a b"
  by (auto simp: goes_on_def dest: running_mono)

lemma end_on_failure_Some:
  "end_on_failure r = Some b \<Longrightarrow>
     r = Some (Inr (), b) \<or> (\<exists>failure c. r = Some (Inl failure, c) \<and> b = c\<lparr>ac_exit := Some (Inl failure)\<rparr>)"
  by (auto simp: end_on_failure_def split: option.splits sum.splits)

lemma select_goes_on:
  assumes "select_branch ti a = Some b" "running n a" "Suc n < 2 ^ 64 - 1"
  shows "goes_on (Suc n) a b"
proof -
  have quiet: "goes_on (Suc n) a b" if "quiet b a"
    using quiet_goes_on [OF that assms(2)] by (rule goes_on_mono) simp
  show ?thesis
  proof (cases "ac_edge_rx a")
    case (Cons edge es)
    with assms(1) show ?thesis
      by (intro quiet) (auto simp: select_branch_def intro: quiet_trans [OF quiet_player(1)])
  next
    case edges: Nil
    show ?thesis
    proof (cases "ac_completion_rx a")
      case (Cons c cs)
      with edges assms(1) have "end_on_failure (process_operation_completion (ti_panics ti) c (a\<lparr>ac_completion_rx := cs\<rparr>)) = Some b"
        by (simp add: select_branch_def)
      from end_on_failure_Some [OF this] process_completion_goes_on [OF _ assms(2) Cons]
      have "goes_on n a b" by fastforce
      then show ?thesis by (rule goes_on_mono) simp
    next
      case completions: Nil
      show ?thesis
      proof (cases "ac_facts a")
        case (Some facts)
        with edges completions assms(1) show ?thesis
          by (intro quiet) (auto simp: select_branch_def intro: quiet_trans [OF quiet_player(2)])
      next
        case None
        note lanes = edges completions None
        consider (tick) t outs where "process_tick (ac_next_tick a) (a\<lparr>ac_next_tick := t\<rparr>) = Some (outs, b)"
          | (wait) "b = a" | (closed) "b = close_down a"
          | (command) m ms where "ac_command_rx a = m # ms"
              "end_on_failure (process_command (ti_panics ti) m (a\<lparr>ac_command_rx := ms\<rparr>)) = Some b"
          using assms(1) lanes unfolding select_branch_def
          by (cases "ti_tick_due ti"; cases "ac_shutting_down a"; cases "ac_command_rx a"; cases "ti_closed ti") fastforce+
        then show ?thesis
        proof cases
          case tick
          then show ?thesis by (intro quiet) (auto dest: quiet_tick intro: quiet_trans)
        next
          case wait
          then show ?thesis by (intro quiet) simp
        next
          case closed
          then show ?thesis using close_down_goes_on [OF assms(2)] by simp
        next
          case command
          from end_on_failure_Some [OF command(2)] process_command_goes_on [OF _ assms(2) command(1) assms(3)]
          show ?thesis by fastforce
        qed
      qed
    qed
  qed
qed

lemma turn_goes_on:
  assumes "actor_turn ti a = Some b" "running n a" "Suc n < 2 ^ 64 - 1"
  shows "goes_on (Suc n) a b"
proof (cases "ti_closed ti \<and> \<not> ac_shutting_down a")
  case True
  then show ?thesis using assms(1) close_down_goes_on [OF assms(2)] by (simp add: actor_turn_def)
next
  case False
  with assms(1) obtain c where c: "drain_lifecycle (ac_lifecycle_rx a) a = Some c"
    and rest: "if ac_exit c \<noteq> None then b = c else select_branch ti c = Some b"
    by (auto simp: actor_turn_def split: option.splits if_splits)
  note d = drain_goes_on [OF c assms(2)]
  show ?thesis
  proof (cases "ac_exit c = None")
    case True
    with d have q: "quiet c a" by simp
    then have "running n c" using assms(2) by (simp add: running_quiet)
    from select_goes_on [OF _ this assms(3)] rest True show ?thesis by (auto intro: goes_on_trans [OF q])
  next
    case False
    with d rest show ?thesis by (auto intro: goes_on_mono [of n])
  qed
qed

subsection \<open>Runs\<close>

lemma step_goes_on:
  assumes "actor_step M a b" "running n a" "Suc n < 2 ^ 64 - 1"
  shows "goes_on (Suc n) a b"
  using assms(1)
proof cases
  case call
  from call_running [OF call(2) assms(2,3)] show ?thesis by (simp add: goes_on_def)
next
  case (worker ws worker ws' panics)
  from worker_running [OF assms(2) worker(3), of panics] worker(1) running_mono [of n _ "Suc n"]
  show ?thesis by (auto simp: goes_on_def)
next
  case outside
  then show ?thesis using goes_on_mono [OF quiet_goes_on [OF _ assms(2)]] by simp
next
  case turn
  from turn_goes_on [OF turn(2) assms(2,3)] show ?thesis .
qed

lemma step_ended: "actor_step M a b \<Longrightarrow> ac_exit a \<noteq> None \<Longrightarrow> \<exists>e. b = a\<lparr>ac_engine := e\<rparr>"
  by (auto elim: actor_step.cases)

lemma spawn_running: "actor_spawn e cfg rt = Inr a \<Longrightarrow> running 0 a"
  by (auto simp: actor_spawn_def Let_def running_def flow_defs ledger_def settled_def launched_def known_def
      on_its_way_def split: option.splits)

text \<open>All that a run can come to, from any state in which the actor runs.\<close>

lemma run_goes_on:
  assumes "actor_run M m a b" "running n a" "n + m < 2 ^ 64 - 1"
  shows "goes_on (n + m) a b"
  using assms
proof (induction arbitrary: n rule: actor_run.induct)
  case (start a)
  then show ?case using quiet_goes_on [OF quiet_refl] by simp
next
  case (step m a b c)
  then have g: "goes_on (n + m) a b" by simp
  show ?case
  proof (cases "ac_exit b = None")
    case True
    with g have "running (n + m) b" "known a \<subseteq> known b" by (auto simp: goes_on_def)
    with step_goes_on [OF step.hyps(2), of "n + m"] step.prems(2) show ?thesis
      by (auto simp: goes_on_def)
  next
    case False
    with step_ended [OF step.hyps(2)] obtain e where c: "c = b\<lparr>ac_engine := e\<rparr>" by auto
    have q: "quiet c b" by (simp add: c)
    have "closed_books c = closed_books b" "ac_accepted c = ac_accepted b"
      by (simp_all add: c closed_books_def ledger_def settled_def)
    with g False q quiet_known [OF q] quiet_ledger [OF q] show ?thesis
      by (simp add: goes_on_def quiet_def running_def)
  qed
qed

text \<open>C3: the actor settles every command. Whatever calls, workers, turns and outside changes a run is made
  of, no command gets two outcomes and only accepted commands get one; as long as the actor runs, every
  accepted command either has its outcome or is the command of an announced operation whose worker
  runs or whose completion waits in the lane. (Fewer than 2^64 - 1 steps: the identifiers are
  words.)\<close>

theorem accepted_commands_are_tracked:
  assumes "actor_spawn e cfg rt = Inr a0" "actor_run M n a0 a" "n < 2 ^ 64 - 1"
  shows "distinct (settled a) \<and> set (settled a) \<subseteq> set (ac_accepted a) \<and> distinct (ac_accepted a) \<and>
    (ac_exit a = None \<longrightarrow>
       (\<forall>c \<in> set (ac_accepted a) - set (settled a).
          \<exists>operation \<in> launched a. eo_command_id operation = c \<and> on_its_way operation a))"
proof -
  have g: "goes_on n a0 a" using run_goes_on [OF assms(2) spawn_running [OF assms(1)]] assms(3) by simp
  then have "ledger a" by (auto simp: goes_on_def running_def closed_books_def)
  moreover have "\<exists>operation \<in> launched a. eo_command_id operation = c \<and> on_its_way operation a"
    if "ac_exit a = None" "c \<in> set (ac_accepted a) - set (settled a)" for c
  proof -
    have "flow {} a" using g that(1) by (auto simp: goes_on_def running_def)
    moreover have "c \<in> open_commands {} a" using that(2) by (simp add: open_commands_def)
    ultimately obtain k p where kp: "ac_pending a k = Some p" "eo_command_id (pd_operation p) = c"
      unfolding flow_def covered_def by blast
    with \<open>flow {} a\<close> have "pd_operation p \<in> launched a" "on_its_way (pd_operation p) a"
      by (auto simp: flow_def pending_tracked_def)
    with kp(2) show ?thesis by blast
  qed
  ultimately show ?thesis by (simp add: ledger_def)
qed

text \<open>An actor without a login; a search is submitted and launched.\<close>

definition sample_actor :: "unit actor" where
  "sample_actor =
     (case actor_spawn (engine_new null_codec id (Anonymous, ()) 7) actor_config_default True of
        Inr a \<Rightarrow> a)"

definition sample_search :: engine_command where
  "sample_search = engine_command_new (SearchCatalog ''abba'' page_request_default) None"

definition calm :: turn_input where
  "calm = \<lparr>ti_closed = False, ti_tick_due = False, ti_panics = False\<rparr>"

lemma sample_spawned:
  "actor_spawn (engine_new null_codec id (Anonymous, ()) 7) actor_config_default True = Inr sample_actor"
  by (simp add: sample_actor_def actor_spawn_def start_check_def actor_config_default_def Let_def)

lemma sample_fields:
  "ac_shutting_down sample_actor = False" "ac_next_command_id sample_actor = 1" "ac_command_rx sample_actor = []"
  "ac_completion_rx sample_actor = []" "ac_edge_rx sample_actor = []" "ac_facts sample_actor = None"
  "ac_lifecycle_rx sample_actor = []" "ac_exit sample_actor = None" "ac_events sample_actor = []"
  "ac_accepted sample_actor = []" "ac_accepted_set sample_actor = {}" "ac_workers sample_actor = []"
  "ac_next_operation_id sample_actor = 1" "ac_next_message_sequence sample_actor = 0" "ac_responses sample_actor = {}"
  "ac_terminal sample_actor = {}" "ac_config sample_actor = actor_config_default"
  "ac_generations sample_actor = domain_generations_default" "ac_pending sample_actor = Map.empty"
  by (simp_all add: sample_actor_def actor_spawn_def start_check_def actor_config_default_def Let_def)

lemma sample_login: "actor_auth sample_actor = Anonymous"
proof -
  have "sn_auth_state (snapshot_projection (engine_new cdc lower w now)) = Anonymous"
    for cdc lower now and w :: "unit aworld"
    by (simp add: snapshot_projection_def current_auth_def engine_new_def engine_fields_new_def Let_def)
  then show ?thesis
    by (simp add: actor_auth_def sample_actor_def actor_spawn_def start_check_def actor_config_default_def
        adopt_engine_def Let_def)
qed

definition submitted_actor :: "unit actor" where
  "submitted_actor = snd (try_submit Sent sample_search 9 sample_actor)"

lemma submitted_eq:
  "submitted_actor = sample_actor\<lparr>ac_next_command_id := 2,
     ac_command_rx := [\<lparr>cm_command_id = 1, cm_input = InputCommand sample_search, cm_now_epoch_millis = 9,
       cm_wants_response = False\<rparr>]\<rparr>"
  by (simp add: submitted_actor_def try_submit_def submit_input_def map_try_send_def sample_fields Let_def)

lemma submitted_run: "actor_run {} 1 sample_actor submitted_actor"
proof -
  have "submit_input Sent (InputCommand sample_search) 9 False sample_actor =
      (fst (try_submit Sent sample_search 9 sample_actor), submitted_actor)"
    by (simp add: submitted_actor_def try_submit_def)
  from actor_run.step [OF actor_run.start actor_step.call [OF sample_fields(8) actor_call.submit [OF this]]]
  show ?thesis by simp
qed

lemma launched_turn:
  "\<exists>job. actor_turn calm submitted_actor =
     Some (launch_operation \<lparr>eo_operation_id = 1, eo_command_id = 1, eo_generation = SearchGeneration (sat_add 0 1),
         eo_request = SearchPage ''abba'' page_request_default None\<rparr> job sample_search 9
       ((accept_command 1 False (observe_clock 9 (submitted_actor\<lparr>ac_command_rx := []\<rparr>)))
          \<lparr>ac_generations := bump SearchDomain domain_generations_default, ac_next_operation_id := sat_add 1 1\<rparr>))"
proof -
  let ?m = "\<lparr>cm_command_id = 1, cm_input = InputCommand sample_search, cm_now_epoch_millis = 9, cm_wants_response = False\<rparr>"
  let ?a = "accept_command 1 False (observe_clock 9 (submitted_actor\<lparr>ac_command_rx := []\<rparr>))"
  have f: "ac_config ?a = actor_config_default" "ac_generations ?a = domain_generations_default"
    "ac_next_operation_id ?a = 1"
    by (simp_all add: accept_command_def observe_clock_def submitted_eq sample_fields)
  have "actor_turn calm submitted_actor = end_on_failure (process_command False ?m (submitted_actor\<lparr>ac_command_rx := []\<rparr>))"
    by (simp add: actor_turn_def select_branch_def calm_def submitted_eq sample_fields)
  moreover have "command_type sample_search = SearchCatalog ''abba'' page_request_default"
    by (simp add: sample_search_def engine_command_new_def)
  ultimately show ?thesis
    using f by (simp add: process_command_def try_launch_def launch_new_def allocate_operation_def
        spawn_operation_worker_def end_on_failure_def actor_config_default_def domain_generations_default_def Let_def)
      (rule exI, rule refl)
qed

lemma launched_run:
  "\<exists>a. actor_run {} 2 sample_actor a \<and> ac_exit a = None \<and> ac_accepted a = [1] \<and> settled a = [] \<and> length (ac_events a) = 1"
proof -
  obtain a where t: "actor_turn calm submitted_actor = Some a" and f: "ac_exit a = None" "ac_accepted a = [1]" "settled a = []"
    "length (ac_events a) = 1"
    using launched_turn
    by (auto simp: launch_operation_def next_sequence_def send_event_def settled_def accept_command_def observe_clock_def
        submitted_eq sample_fields Let_def)
  have "ac_exit submitted_actor = None" by (simp add: submitted_eq sample_fields)
  from actor_run.step [OF submitted_run actor_step.turn [OF this t]] have "actor_run {} 2 sample_actor a"
    by (simp add: numeral_2_eq_2)
  with f show ?thesis by blast
qed

theorem accepted_commands_are_tracked_witness:
  "\<exists>a. actor_run {} 2 sample_actor a \<and> ac_exit a = None \<and> ac_accepted a = [1] \<and> settled a = [] \<and>
     (\<exists>operation \<in> launched a. eo_command_id operation = 1 \<and> on_its_way operation a)"
proof -
  obtain a where r: "actor_run {} 2 sample_actor a" and f: "ac_exit a = None" "ac_accepted a = [1]" "settled a = []"
    using launched_run by blast
  from accepted_commands_are_tracked [OF sample_spawned r] f r show ?thesis by auto
qed

text \<open>C5: a clean end leaves nothing open. When the task of the actor returns, what it returns lists every
  accepted command once, each of them has exactly one outcome, and every command that was in the
  queue or accepted in an earlier state is among them.\<close>

theorem shutdown_settles_every_command:
  assumes "actor_spawn e cfg rt = Inr a0" "actor_run M n a0 a" "actor_run M m a b" "n + m < 2 ^ 64 - 1"
    and "ac_exit b = Some (Inr acc)" "ac_exit a = None"
  shows "mset (settled b) = mset acc \<and> distinct acc \<and> known a \<subseteq> set acc"
proof -
  have "goes_on n a0 a" using run_goes_on [OF assms(2) spawn_running [OF assms(1)]] assms(4) by simp
  then have r: "running n a" using assms(6) by (auto simp: goes_on_def)
  have "goes_on (n + m) a b" by (rule run_goes_on [OF assms(3) r assms(4)])
  then have b: "closed_books b" "acc = ac_accepted b" "known a \<subseteq> known b"
    using assms(5) by (auto simp: goes_on_def running_def)
  then have "distinct (settled b)" "distinct acc" "set (settled b) = set acc" "known b = set acc"
    by (auto simp: closed_books_def ledger_def known_def)
  with b(3) show ?thesis by (simp add: set_eq_iff_mset_eq_distinct [symmetric])
qed


text \<open>A command is submitted and the shutdown requested before the actor looks.\<close>

theorem shutdown_settles_every_command_witness:
  "\<exists>b. actor_run {} 2 submitted_actor b \<and> ac_exit b = Some (Inr [1]) \<and> mset (settled b) = {#1#}"
proof -
  let ?a = "snd (request_shutdown Sent submitted_actor)"
  note defs = submitted_eq map_try_send_def sample_fields request_shutdown_def send_lifecycle_def Let_def
  have exit: "ac_exit submitted_actor = None" "ac_exit ?a = None" by (simp_all add: defs)
  have "actor_call {} submitted_actor ?a" by (rule actor_call.shutdown [OF prod.collapse [symmetric]])
  from actor_run.step [OF actor_run.start actor_step.call [OF exit(1) this]] have 1: "actor_run {} 1 submitted_actor ?a"
    by simp
  obtain b where t: "actor_turn calm ?a = Some b" and b: "ac_exit b = Some (Inr [1])"
    by (simp add: defs actor_turn_def calm_def process_shutdown_def drain_queued_commands_def accept_command_def
        settle_all_def settle_next_def settle_with_def emit_outcome_def next_sequence_def send_event_def)
  from actor_run.step [OF 1 actor_step.turn [OF exit(2) t]] have 2: "actor_run {} 2 submitted_actor b"
    by (simp add: numeral_2_eq_2)
  from shutdown_settles_every_command [OF sample_spawned submitted_run 2 _ b exit(1)] b 2 show ?thesis by auto
qed

end
