(* ===== verification/ActorLog.thy ===== *)
theory ActorLog
  imports ActorRuns
begin

text \<open>
  The event log of the actor: every event carries its place in the log, and the snapshot revisions
  it names never fall.
\<close>

fun event_sequence :: "actor_event \<Rightarrow> u64" where
  "event_sequence (CommandOutcome outcome) = ao_message_sequence outcome"
| "event_sequence (OperationLaunched _ n) = n"
| "event_sequence (PlayerFactsApplied _ n) = n"
| "event_sequence (PlayerEdgeApplied _ n) = n"
| "event_sequence (ControlApplied _ n _) = n"
| "event_sequence (TickProcessed _ n _) = n"
| "event_sequence (ShutdownStarted n) = n"

fun event_revision :: "actor_event \<Rightarrow> u64 option" where
  "event_revision (CommandOutcome outcome) = Some (ao_snapshot_revision outcome)"
| "event_revision (ControlApplied _ _ n) = Some n"
| "event_revision (TickProcessed _ _ n) = Some n"
| "event_revision _ = None"

text \<open>One event more, with the next number; or nothing the log sees.\<close>

definition advances :: "'x actor \<Rightarrow> 'x actor \<Rightarrow> bool" where
  "advances a b =
     (\<exists>ev. ac_events b = ac_events a @ [ev] \<and>
        ac_next_message_sequence b = sat_add (ac_next_message_sequence a) 1 \<and>
        event_sequence ev = ac_next_message_sequence b \<and>
        pub_revision (ac_latest a) \<le> pub_revision (ac_latest b) \<and>
        (\<forall>n. event_revision ev = Some n \<longrightarrow> n = pub_revision (ac_latest b)))"

definition silent :: "'x actor \<Rightarrow> 'x actor \<Rightarrow> bool" where
  "silent a b =
     (ac_events b = ac_events a \<and> ac_next_message_sequence b = ac_next_message_sequence a \<and>
      ac_latest b = ac_latest a)"

inductive logs :: "'x actor \<Rightarrow> 'x actor \<Rightarrow> bool" where
  same: "silent a b \<Longrightarrow> logs a b"
| more: "logs a b \<Longrightarrow> advances b c \<Longrightarrow> logs a c"

lemma silent_refl [simp]: "silent a a"
  by (simp add: silent_def)

lemma advances_silent:
  "advances a b \<Longrightarrow> silent b c \<Longrightarrow> advances a c" "silent a b \<Longrightarrow> advances b c \<Longrightarrow> advances a c"
  by (auto simp: advances_def silent_def)

lemma logs_silent: "logs a b \<Longrightarrow> silent b c \<Longrightarrow> logs a c"
proof (induction rule: logs.induct)
  case (same a b)
  then show ?case by (intro logs.same) (simp add: silent_def)
next
  case (more a b d)
  from logs.more [OF more.hyps(1) advances_silent(1) [OF more.hyps(2) more.prems]] show ?case .
qed

lemma logs_trans: "logs b c \<Longrightarrow> logs a b \<Longrightarrow> logs a c"
  by (induction rule: logs.induct) (auto intro: logs.intros logs_silent)

lemma logs_one: "silent a b \<Longrightarrow> advances b c \<Longrightarrow> logs a c"
  by (intro logs.more [OF logs.same])

subsection \<open>Each step\<close>

lemma publish_revision:
  "publish_snapshot s n a = (r, b) \<Longrightarrow>
     r = pub_revision (ac_latest b) \<and> pub_revision (ac_latest a) \<le> pub_revision (ac_latest b) \<and>
     ac_events b = ac_events a \<and> ac_next_message_sequence b = ac_next_message_sequence a"
  by (auto simp: publish_snapshot_def Let_def split: if_splits)

lemma numbered_event:
  "next_sequence a = (n, b) \<Longrightarrow> n = ac_next_message_sequence b \<and> n = sat_add (ac_next_message_sequence a) 1 \<and>
     ac_events b = ac_events a \<and> ac_latest b = ac_latest a"
  by (auto simp: next_sequence_def Let_def)

lemma emit_log:
  "ac_events (emit_outcome outcome a) = ac_events a @ [CommandOutcome outcome]"
  "ac_next_message_sequence (emit_outcome outcome a) = ac_next_message_sequence a"
  "ac_latest (emit_outcome outcome a) = ac_latest a"
  by (simp_all add: emit_outcome_def send_event_def Let_def)

lemma settle_with_advances:
  assumes "next_sequence a = (n, b)" "silent b c"
  shows "advances a (settle_with st n k c)"
  using numbered_event [OF assms(1)] assms(2)
  by (auto simp: settle_with_def emit_log advances_def silent_def)

lemma complete_advances:
  assumes "next_sequence a = (n, b)" "silent b c"
  shows "advances a (complete_command k n outcome c)"
proof -
  obtain r d where p: "publish_snapshot (oc_snapshot outcome) n c = (r, d)"
    by (cases "publish_snapshot (oc_snapshot outcome) n c")
  have "\<exists>oc. complete_command k n outcome c = emit_outcome oc d \<and> ao_message_sequence oc = n \<and> ao_snapshot_revision oc = r"
    by (simp add: complete_command_def p) (rule exI, rule conjI, rule refl, simp)
  then show ?thesis
    using numbered_event [OF assms(1)] assms(2) publish_revision [OF p] by (auto simp: emit_log advances_def silent_def)
qed

lemma settle_next_logs: "logs a (settle_next st c a)"
proof (cases "c \<in> ac_terminal a")
  case False
  obtain n b where n: "next_sequence a = (n, b)" by (cases "next_sequence a")
  with False settle_with_advances [OF n silent_refl] show ?thesis
    by (simp add: settle_next_def) (rule logs_one [OF silent_refl])
qed (simp add: settle_next_def logs.same)

lemma settle_all_logs: "logs a (settle_all st a)"
proof -
  have "logs a (foldl (\<lambda>a c. settle_next st c a) b cs)" if "logs a b" for b cs
    using that
  proof (induction cs arbitrary: b)
    case (Cons c cs)
    from Cons.IH [OF logs_trans [OF settle_next_logs Cons.prems]] show ?case by simp
  qed simp
  from this [OF logs.same [OF silent_refl]] show ?thesis by (simp add: settle_all_def)
qed

lemma drain_silent: "silent a (drain_queued_commands a)"
proof -
  have "silent a (foldl (\<lambda>a m. accept_command (cm_command_id m) (cm_wants_response m) a) b ms)" if "silent a b" for b ms
    using that
  proof (induction ms arbitrary: b)
    case (Cons m ms)
    then have "silent a (accept_command (cm_command_id m) (cm_wants_response m) b)"
      by (simp add: silent_def accept_command_def)
    from Cons.IH [OF this] show ?case by simp
  qed simp
  from this [of "a\<lparr>ac_command_rx := []\<rparr>"] show ?thesis by (simp add: drain_queued_commands_def) (simp add: silent_def)
qed

lemma fail_all_logs: "logs a (fail_all failure a)"
  unfolding fail_all_def by (rule logs_trans [OF settle_all_logs]) (rule logs.same [OF drain_silent])

lemma settle_dispatch_logs:
  assumes "settle_dispatch panics c d a = Some (r, b)"
  shows "logs a b"
proof (cases panics)
  case True
  with assms fail_all_logs [of a Panicked] show ?thesis by (simp add: settle_dispatch_def)
next
  case False
  with assms obtain outcome e where d: "d = Some (outcome, e)" by (auto simp: settle_dispatch_def split: option.splits)
  obtain n a1 where n: "next_sequence (a\<lparr>ac_engine := e\<rparr>) = (n, a1)" by (cases "next_sequence (a\<lparr>ac_engine := e\<rparr>)")
  from complete_advances [OF n silent_refl, of c outcome] False assms d n
  have "advances (a\<lparr>ac_engine := e\<rparr>) b" by (simp add: settle_dispatch_def)
  then show ?thesis by (rule logs_one [rotated]) (simp add: silent_def)
qed

lemma launch_advances: "advances a (launch_operation x job command now a)"
  by (auto simp: advances_def launch_operation_def next_sequence_def send_event_def Let_def)

lemma process_command_logs:
  assumes "process_command panics m a = Some (r, b)"
  shows "logs a b"
proof -
  let ?c = "cm_command_id m" and ?now = "cm_now_epoch_millis m"
  define a1 where "a1 = accept_command ?c (cm_wants_response m) (observe_clock ?now a)"
  have s: "silent a a1" by (simp add: a1_def silent_def accept_command_def observe_clock_def)
  show ?thesis
  proof (cases "cm_input m")
    case (InputPlatformEvent event)
    with assms have "settle_dispatch panics ?c (dispatch_platform_event event ?now (ac_engine a1)) a1 = Some (r, b)"
      by (simp add: process_command_def a1_def Let_def)
    from logs_trans [OF settle_dispatch_logs [OF this] logs.same [OF s]] show ?thesis .
  next
    case (InputCommand command)
    obtain l a2 where l: "try_launch ?c command a1 = (l, a2)" by (cases "try_launch ?c command a1")
    from assms InputCommand have run: "(case l of
          Some (operation, job) \<Rightarrow> Some (Inr (), launch_operation operation job command ?now a2)
        | None \<Rightarrow> settle_dispatch panics ?c (dispatch_command command ?now (ac_engine a2)) a2) = Some (r, b)"
      by (simp add: process_command_def a1_def [symmetric] l Let_def split: option.splits prod.splits)
    from l have "silent a1 a2"
    proof (cases rule: try_launch_cases)
      case (1 g)
      show ?thesis by (subst 1(3)) (simp add: silent_def)
    qed (simp add: silent_def)
    with s have s2: "silent a a2" by (simp add: silent_def)
    show ?thesis
    proof (cases l)
      case None
      with run have "settle_dispatch panics ?c (dispatch_command command ?now (ac_engine a2)) a2 = Some (r, b)" by simp
      from logs_trans [OF settle_dispatch_logs [OF this] logs.same [OF s2]] show ?thesis .
    next
      case (Some q)
      with run have "b = launch_operation (fst q) (snd q) command ?now a2" by (cases q) simp
      then show ?thesis using logs_one [OF s2 launch_advances] by simp
    qed
  qed
qed


text \<open>A panic of a redispatch consumes a number without an event, and is the end.\<close>

lemma process_completion_logs:
  assumes "process_operation_completion panics c a = Some (r, b)"
  shows "logs a b \<or> r = Inl Panicked \<and> ac_events b = ac_events a \<and> ac_latest b = ac_latest a"
proof (cases "ac_pending a (cp_operation_id c)")
  case None
  with assms show ?thesis by (auto simp: process_operation_completion_def intro: logs.same)
next
  case (Some p)
  let ?p = "a\<lparr>ac_pending := (ac_pending a)(cp_operation_id c := None)\<rparr>"
  have s: "silent a ?p" by (simp add: silent_def)
  obtain n a1 where n: "next_sequence ?p = (n, a1)" by (cases "next_sequence ?p")
  from assms Some have run: "(if eo_generation (pd_operation p) \<noteq> cp_generation c \<or>
          \<not> is_current (ac_generations a1) (cp_generation c)
        then Some (Inr (), settle_with (OutcomeCancelled Superseded) n (cp_command_id c) a1)
        else if panics then Some (Inl Panicked, a1)
        else case redispatch p (cp_result c) a1 of
               None \<Rightarrow> None
             | Some (outcome, e) \<Rightarrow>
                 Some (Inr (), complete_command (cp_command_id c) n outcome (a1\<lparr>ac_engine := e\<rparr>))) = Some (r, b)"
    by (simp add: process_operation_completion_def n)
  have "silent a1 (a1\<lparr>ac_engine := e\<rparr>)" for e by (simp add: silent_def)
  with run have "advances ?p b \<or> r = Inl Panicked \<and> b = a1"
    using settle_with_advances [OF n silent_refl] complete_advances [OF n]
    by (auto split: if_splits option.splits)
  with logs_one [OF s] numbered_event [OF n] show ?thesis by auto
qed

lemma announce_advances: "advances a (announce_control state a)"
proof -
  obtain n b where n: "next_sequence a = (n, b)" by (cases "next_sequence a")
  obtain r c where p: "publish_snapshot (snapshot_projection (ac_engine b)) n b = (r, c)"
    by (cases "publish_snapshot (snapshot_projection (ac_engine b)) n b")
  have "announce_control state a = send_event (ControlApplied state n r) c" by (simp add: announce_control_def n p)
  then show ?thesis
    using numbered_event [OF n] publish_revision [OF p] by (auto simp: send_event_def advances_def)
qed

lemma tick_logs: "process_tick now a = Some (outs, b) \<Longrightarrow> logs a b"
proof -
  assume a: "process_tick now a = Some (outs, b)"
  then obtain e where t: "tick now (ac_engine (observe_clock now a)) = Some (outs, e)"
    by (auto simp: process_tick_def Let_def case_prod_beta split: option.splits)
  let ?e = "(observe_clock now a)\<lparr>ac_engine := e\<rparr>"
  obtain n c where n: "next_sequence ?e = (n, c)" by (cases "next_sequence ?e")
  let ?s = "if outs = [] then snapshot_projection e else oc_snapshot (last outs)"
  obtain r d where p: "publish_snapshot ?s n c = (r, d)" by (cases "publish_snapshot ?s n c")
  have "b = send_event (TickProcessed now n r) d" using a by (simp add: process_tick_def t n p Let_def)
  then have "advances ?e b"
    using numbered_event [OF n] publish_revision [OF p] by (auto simp: send_event_def advances_def)
  then show ?thesis by (rule logs_one [rotated]) (simp add: silent_def observe_clock_def)
qed

lemma shutdown_logs: "logs a (process_shutdown a)"
proof -
  let ?b = "drain_queued_commands (a\<lparr>ac_shutting_down := True\<rparr>)"
  obtain n c where n: "next_sequence ?b = (n, c)" by (cases "next_sequence ?b")
  have "silent a ?b" using drain_silent [of "a\<lparr>ac_shutting_down := True\<rparr>"] by (simp add: silent_def)
  moreover have "advances ?b (send_event (ShutdownStarted n) c)"
    using numbered_event [OF n] by (auto simp: advances_def send_event_def)
  ultimately have "logs a (send_event (ShutdownStarted n) c)" by (rule logs_one)
  from logs_trans [OF settle_all_logs this] show ?thesis
    by (rule logs_silent) (simp add: process_shutdown_def n silent_def Let_def)
qed

lemma lifecycle_logs: "process_lifecycle m a = Some b \<Longrightarrow> logs a b"
proof (cases m)
  case (LifecycleControl state)
  assume "process_lifecycle m a = Some b"
  then obtain c where "b = announce_control state c" "silent a c"
    using LifecycleControl by (auto simp: process_control_def set_actor_auth_def silent_def Let_def)
  then show ?thesis using logs_one announce_advances by blast
next
  case (LifecycleTick now)
  assume "process_lifecycle m a = Some b"
  with LifecycleTick obtain outs c where "process_tick now a = Some (outs, c)"
    "b = c\<lparr>ac_tick_replies := ac_tick_replies c @ [outs]\<rparr>"
    by (auto split: option.splits)
  moreover from this have "silent c b" by (simp add: silent_def)
  ultimately show ?thesis using logs_silent tick_logs by blast
next
  case (LifecycleMutate f)
  assume "process_lifecycle m a = Some b"
  with LifecycleMutate obtain c where "b = announce_control (actor_auth c) c" "c = a\<lparr>ac_engine := f (ac_engine a)\<rparr>"
    by (simp add: Let_def)
  moreover from this have "silent a c" by (simp add: silent_def)
  ultimately show ?thesis using logs_one announce_advances by blast
next
  case LifecycleShutdown
  assume "process_lifecycle m a = Some b"
  with LifecycleShutdown shutdown_logs [of a] show ?thesis by simp
qed


subsection \<open>Runs\<close>

lemma drain_logs: "drain_lifecycle ms a = Some b \<Longrightarrow> logs a b"
proof (induction ms arbitrary: a)
  case Nil
  then show ?case by (simp add: logs.same)
next
  case (Cons m ms)
  from Cons.prems obtain c where c: "process_lifecycle m (a\<lparr>ac_lifecycle_rx := ms\<rparr>) = Some c"
    and rest: "if ac_exit c \<noteq> None then b = c else drain_lifecycle ms c = Some b"
    by (auto split: option.splits if_splits)
  have "silent a (a\<lparr>ac_lifecycle_rx := ms\<rparr>)" by (simp add: silent_def)
  from logs_trans [OF lifecycle_logs [OF c] logs.same [OF this]] have "logs a c" .
  with rest Cons.IH [of c] logs_trans [of c b a] show ?case by (auto split: if_splits)
qed

text \<open>A step logs, or ends the actor on what has been logged.\<close>

definition logs_or_ends :: "'x actor \<Rightarrow> 'x actor \<Rightarrow> bool" where
  "logs_or_ends a b =
     (logs a b \<or> ac_exit b \<noteq> None \<and> (\<exists>c. logs a c \<and> ac_events b = ac_events c \<and> ac_latest b = ac_latest c))"

lemma logs_or_ends_trans: "logs a b \<Longrightarrow> logs_or_ends b c \<Longrightarrow> logs_or_ends a c"
  by (auto simp: logs_or_ends_def intro: logs_trans)

lemma silent_exit: "logs a b \<Longrightarrow> logs a (b\<lparr>ac_exit := x\<rparr>)"
  by (erule logs_silent) (simp add: silent_def)

lemma close_down_logs: "logs a (close_down a)"
  unfolding close_down_def by (rule silent_exit [OF fail_all_logs])

lemma select_logs:
  assumes "select_branch ti a = Some b"
  shows "logs_or_ends a b"
proof -
  have silent: "logs_or_ends a d" if "logs c d" "silent a c" for c d
    using logs_trans [OF that(1) logs.same [OF that(2)]] by (simp add: logs_or_ends_def)
  have player: "advances c (process_player_edge edge c)" "advances c (process_player_facts facts c)" for c edge facts
    by (auto simp: process_player_edge_def process_player_facts_def next_sequence_def send_event_def advances_def Let_def)
  show ?thesis
  proof (cases "ac_edge_rx a")
    case (Cons edge es)
    with assms have "b = process_player_edge edge (a\<lparr>ac_edge_rx := es\<rparr>)" by (simp add: select_branch_def)
    moreover have "silent a (a\<lparr>ac_edge_rx := es\<rparr>)" by (simp add: silent_def)
    ultimately show ?thesis using silent [OF logs_one [OF silent_refl player(1)]] by simp
  next
    case edges: Nil
    show ?thesis
    proof (cases "ac_completion_rx a")
      case (Cons c cs)
      let ?a = "a\<lparr>ac_completion_rx := cs\<rparr>"
      have s: "silent a ?a" by (simp add: silent_def)
      from Cons edges assms have "end_on_failure (process_operation_completion (ti_panics ti) c ?a) = Some b"
        by (simp add: select_branch_def)
      from end_on_failure_Some [OF this] show ?thesis
      proof (elim disjE exE conjE)
        assume "process_operation_completion (ti_panics ti) c ?a = Some (Inr (), b)"
        from process_completion_logs [OF this] silent [OF _ s] show ?thesis by simp
      next
        fix f d assume d: "process_operation_completion (ti_panics ti) c ?a = Some (Inl f, d)"
          and b: "b = d\<lparr>ac_exit := Some (Inl f)\<rparr>"
        from process_completion_logs [OF d] show ?thesis
        proof (elim disjE conjE)
          assume "logs ?a d"
          from silent [OF silent_exit [OF this] s] show ?thesis unfolding b .
        next
          assume "ac_events d = ac_events ?a" "ac_latest d = ac_latest ?a"
          then show ?thesis using logs.same [OF silent_refl [of a]] by (auto simp: logs_or_ends_def b)
        qed
      qed
    next
      case completions: Nil
      show ?thesis
      proof (cases "ac_facts a")
        case (Some facts)
        with edges completions assms have "b = process_player_facts facts (a\<lparr>ac_facts := None\<rparr>)" by (simp add: select_branch_def)
        moreover have "silent a (a\<lparr>ac_facts := None\<rparr>)" by (simp add: silent_def)
        ultimately show ?thesis using silent [OF logs_one [OF silent_refl player(2)]] by simp
      next
        case None
        note lanes = edges completions None
        consider (tick) t outs where "process_tick (ac_next_tick a) (a\<lparr>ac_next_tick := t\<rparr>) = Some (outs, b)"
          | (wait) "b = a" | (closed) "b = close_down a"
          | (command) m ms where "ac_command_rx a = m # ms"
              "end_on_failure (process_command (ti_panics ti) m (a\<lparr>ac_command_rx := ms\<rparr>)) = Some b"
          using assms lanes unfolding select_branch_def
          by (cases "ti_tick_due ti"; cases "ac_shutting_down a"; cases "ac_command_rx a"; cases "ti_closed ti") fastforce+
        then show ?thesis
        proof cases
          case (tick t outs)
          from silent [OF tick_logs [OF tick]] show ?thesis by (simp add: silent_def)
        next
          case wait
          then show ?thesis by (simp add: logs_or_ends_def logs.same)
        next
          case closed
          then show ?thesis using close_down_logs [of a] by (simp add: logs_or_ends_def)
        next
          case (command m ms)
          have s: "silent a (a\<lparr>ac_command_rx := ms\<rparr>)" by (simp add: silent_def)
          from end_on_failure_Some [OF command(2)] have "logs (a\<lparr>ac_command_rx := ms\<rparr>) b"
            by (elim disjE exE conjE) (auto intro: silent_exit dest: process_command_logs)
          from silent [OF this s] show ?thesis .
        qed
      qed
    qed
  qed
qed

lemma turn_logs:
  assumes "actor_turn ti a = Some b"
  shows "logs_or_ends a b"
proof (cases "ti_closed ti \<and> \<not> ac_shutting_down a")
  case True
  with assms have "b = close_down a" by (simp add: actor_turn_def)
  then show ?thesis using close_down_logs [of a] by (simp add: logs_or_ends_def)
next
  case False
  with assms obtain c where c: "drain_lifecycle (ac_lifecycle_rx a) a = Some c"
    and rest: "if ac_exit c \<noteq> None then b = c else select_branch ti c = Some b"
    by (auto simp: actor_turn_def split: option.splits if_splits)
  show ?thesis
  proof (cases "ac_exit c = None")
    case True
    with rest have "select_branch ti c = Some b" by simp
    from logs_or_ends_trans [OF drain_logs [OF c] select_logs [OF this]] show ?thesis .
  next
    case False
    with rest drain_logs [OF c] show ?thesis by (simp add: logs_or_ends_def)
  qed
qed

lemma call_silent: "actor_call M a b \<Longrightarrow> silent a b"
proof (induction rule: actor_call.induct)
  case (submit answer input now wants a r b)
  then show ?case by (cases rule: submit_cases) (simp_all add: silent_def)
qed (auto simp: silent_def publish_player_facts_def try_publish_player_edge_def try_complete_operation_def
    try_send_control_def send_lifecycle_def request_shutdown_def tick_now_def mutate_engine_def
    split: if_splits sum.splits prod.splits)

lemma step_logs: "actor_step M a b \<Longrightarrow> logs_or_ends a b"
proof (induction rule: actor_step.induct)
  case (call a b)
  then show ?case using logs.same [OF call_silent] by (auto simp: logs_or_ends_def)
next
  case (worker a ws worker ws' panics)
  have "silent a (run_worker panics worker (a\<lparr>ac_workers := ws @ ws'\<rparr>))"
    by (simp add: run_worker_def finish_worker_def silent_def case_prod_beta Let_def)
  then show ?case by (simp add: logs_or_ends_def logs.same)
next
  case (outside a x)
  have "silent a (a\<lparr>ac_engine := (ac_engine a)\<lparr>en_world := (actor_auth a, x)\<rparr>\<rparr>)" by (simp add: silent_def)
  then show ?case by (simp add: logs_or_ends_def logs.same)
next
  case (turn a ti b)
  from turn_logs [OF turn(2)] show ?case .
qed

text \<open>What a log shows, and the counter behind it.\<close>

definition revisions :: "actor_event list \<Rightarrow> u64 list" where
  "revisions evs = List.map_filter event_revision evs"

definition places :: "nat \<Rightarrow> u64 list" where
  "places n = map of_nat [1..<Suc n]"

lemma places_Suc: "places 0 = []" "places (Suc n) = places n @ [of_nat (Suc n)]"
  by (simp_all add: places_def)

definition log_shown :: "'x actor \<Rightarrow> bool" where
  "log_shown a =
     (sorted (revisions (ac_events a)) \<and> (\<forall>r \<in> set (revisions (ac_events a)). r \<le> pub_revision (ac_latest a)) \<and>
      (length (ac_events a) < 2 ^ 64 \<longrightarrow>
         map event_sequence (ac_events a) = places (length (ac_events a))))"

definition log_counted :: "'x actor \<Rightarrow> bool" where
  "log_counted a =
     (length (ac_events a) < 2 ^ 64 \<longrightarrow> ac_next_message_sequence a = of_nat (length (ac_events a)))"

lemma sat_of_nat: "Suc n < 2 ^ 64 \<Longrightarrow> sat_add (of_nat n) 1 = (of_nat (Suc n) :: u64)"
proof (rule unsigned_word_eqI)
  assume n: "Suc n < 2 ^ 64"
  then have "unat (of_nat n :: u64) = n" "unat (of_nat (Suc n) :: u64) = Suc n"
    by (simp_all only: unat_of_nat take_bit_nat_eq_self_iff) auto
  with n show "unat (sat_add (of_nat n) 1 :: u64) = unat (of_nat (Suc n) :: u64)" by (simp add: unat_sat_add)
qed

lemma advances_log:
  assumes "advances a b" "log_shown a" "log_counted a"
  shows "log_shown b \<and> log_counted b"
proof -
  obtain ev where ev: "ac_events b = ac_events a @ [ev]"
    "ac_next_message_sequence b = sat_add (ac_next_message_sequence a) 1" "event_sequence ev = ac_next_message_sequence b"
    "pub_revision (ac_latest a) \<le> pub_revision (ac_latest b)" "\<And>n. event_revision ev = Some n \<Longrightarrow> n = pub_revision (ac_latest b)"
    using assms(1) by (auto simp: advances_def)
  have n: "ac_next_message_sequence b = of_nat (Suc (length (ac_events a)))" if "Suc (length (ac_events a)) < 2 ^ 64"
    using that assms(3) ev(2) sat_of_nat by (simp add: log_counted_def)
  have r: "revisions (ac_events b) = revisions (ac_events a) @ (case event_revision ev of None \<Rightarrow> [] | Some n \<Rightarrow> [n])"
    by (simp add: ev(1) revisions_def map_filter_def split: option.split)
  have "sorted (revisions (ac_events b)) \<and> (\<forall>r \<in> set (revisions (ac_events b)). r \<le> pub_revision (ac_latest b))"
    using assms(2) ev(4,5) unfolding r log_shown_def
    by (auto simp: sorted_append split: option.splits intro: order_trans)
  moreover have "map event_sequence (ac_events b) = places (length (ac_events b))"
    if "length (ac_events b) < 2 ^ 64"
    using that assms(2) n ev(1,3) by (simp add: log_shown_def places_Suc)
  ultimately show ?thesis using n by (simp add: log_shown_def log_counted_def ev(1))
qed

lemma logs_log: "logs a b \<Longrightarrow> log_shown a \<Longrightarrow> log_counted a \<Longrightarrow> log_shown b \<and> log_counted b"
proof (induction rule: logs.induct)
  case (same a b)
  then show ?case by (simp add: silent_def log_shown_def log_counted_def)
next
  case (more a b c)
  then show ?case using advances_log by blast
qed

lemma run_log: "actor_run M n a b \<Longrightarrow> ac_exit a = None \<Longrightarrow> log_shown a \<Longrightarrow> log_counted a \<Longrightarrow>
  log_shown b \<and> (ac_exit b = None \<longrightarrow> log_counted b)"
proof (induction rule: actor_run.induct)
  case (step n a b c)
  then have b: "log_shown b" "ac_exit b = None \<Longrightarrow> log_counted b" by simp_all
  show ?case
  proof (cases "ac_exit b = None")
    case True
    note l = logs_log [OF _ b(1) b(2) [OF True]]
    from step_logs [OF step.hyps(2)] show ?thesis
      unfolding logs_or_ends_def
    proof (elim disjE exE conjE)
      assume "logs b c"
      with l show ?thesis by blast
    next
      fix d assume "ac_exit c \<noteq> None" "logs b d" "ac_events c = ac_events d" "ac_latest c = ac_latest d"
      with l [of d] show ?thesis by (auto simp: log_shown_def)
    qed
  next
    case False
    with step_ended [OF step.hyps(2)] b show ?thesis by (auto simp: log_shown_def)
  qed
qed simp

text \<open>C25: the events of the actor are numbered from 1 in the order in which they are sent, without a gap or a
  repetition, and the snapshot revisions they name never go back, over any run (a log of fewer
  than 2^64 events).\<close>

theorem events_are_numbered:
  assumes "actor_spawn e cfg rt = Inr a0" "actor_run M n a0 a" "length (ac_events a) < 2 ^ 64"
  shows "map event_sequence (ac_events a) = map of_nat [1..<Suc (length (ac_events a))] \<and>
    sorted (revisions (ac_events a))"
proof -
  have "ac_exit a0 = None" "log_shown a0" "log_counted a0"
    using assms(1) by (auto simp: actor_spawn_def log_shown_def log_counted_def revisions_def map_filter_def places_Suc Let_def split: option.splits)
  from run_log [OF assms(2) this] assms(3) show ?thesis by (simp add: log_shown_def places_def)
qed


theorem events_are_numbered_witness:
  "\<exists>a. actor_run {} 2 sample_actor a \<and> map event_sequence (ac_events a) = [1]"
proof -
  obtain a where r: "actor_run {} 2 sample_actor a" and l: "length (ac_events a) = 1" using launched_run by blast
  from events_are_numbered [OF sample_spawned r] l r show ?thesis by auto
qed

end
