(* ===== verification/ActorLogins.thy ===== *)
theory ActorLogins
  imports ActorRuns
begin

text \<open>
  Changes of the login: the generations of all domains move on, so that no operation launched before can
  reach the engine, and the snapshot that is published shows nobody else's data.
\<close>

subsection \<open>Generations along a run\<close>

text \<open>Neither ahead of a generation, and behind it.\<close>

fun generation_number :: "domain_generations \<Rightarrow> op_generation \<Rightarrow> u64 \<times> u64" where
  "generation_number g (AccountGeneration n) = (n, dg_account g)"
| "generation_number g (SearchGeneration n) = (n, dg_search g)"
| "generation_number g (PlaylistGeneration n) = (n, dg_playlist g)"
| "generation_number g (HistoryGeneration n) = (n, dg_history g)"
| "generation_number g (LibraryGeneration n) = (n, dg_library g)"
| "generation_number g (PlaybackInstance n) = (n, dg_playback g)"

definition not_ahead :: "domain_generations \<Rightarrow> op_generation \<Rightarrow> bool" where
  "not_ahead g x = (case generation_number g x of (n, m) \<Rightarrow> n \<le> m)"

definition behind :: "domain_generations \<Rightarrow> op_generation \<Rightarrow> bool" where
  "behind g x = (case generation_number g x of (n, m) \<Rightarrow> n < m)"

text \<open>Growth by at most \<open>k\<close> in each domain.\<close>

definition gens_up :: "nat \<Rightarrow> domain_generations \<Rightarrow> domain_generations \<Rightarrow> bool" where
  "gens_up k g g' = list_all2 (\<lambda>n n'. n \<le> n' \<and> unat n' \<le> unat n + k) (gens_of g) (gens_of g')"

lemma behind_stale: "behind g x \<Longrightarrow> \<not> is_current g x"
  by (cases x) (auto simp: behind_def)

lemma current_not_ahead: "is_current g x \<Longrightarrow> not_ahead g x"
  by (cases x) (auto simp: not_ahead_def)

lemma gens_up_member:
  "gens_up k g g' \<Longrightarrow> n' \<in> set (gens_of g') \<Longrightarrow> \<exists>n \<in> set (gens_of g). unat n' \<le> unat n + k"
  by (auto simp: gens_up_def gens_of_def)

lemma gens_up_not_ahead: "gens_up k g g' \<Longrightarrow> not_ahead g x \<Longrightarrow> not_ahead g' x"
  by (cases x) (auto simp: not_ahead_def gens_up_def gens_of_def intro: order_trans)

lemma gens_up_behind: "gens_up k g g' \<Longrightarrow> behind g x \<Longrightarrow> behind g' x"
  by (cases x) (auto simp: behind_def gens_up_def gens_of_def intro: less_le_trans)

lemma gens_up_refl [simp]: "gens_up k g g"
  by (simp add: gens_up_def gens_of_def)

lemma gens_up_trans: "gens_up k g g' \<Longrightarrow> gens_up l g' g'' \<Longrightarrow> gens_up (k + l) g g''"
  by (auto simp: gens_up_def gens_of_def intro: order_trans)

lemma gens_up_mono: "gens_up k g g' \<Longrightarrow> k \<le> l \<Longrightarrow> gens_up l g g'"
  by (auto simp: gens_up_def gens_of_def)

lemma grown_up: "grown g g' \<Longrightarrow> gens_up (Suc 0) g g'"
  unfolding grown_def gens_up_def by (erule list_all2_mono) (auto simp: sat_add_ge unat_sat_add)

lemma bumped_behind:
  assumes "\<forall>k \<in> set (gens_of g). unat k < 2 ^ 64 - 1" "not_ahead g x"
  shows "behind (bump_identity_generations g) x"
proof -
  have "n < sat_add k 1" if "n \<le> k" "unat k < 2 ^ 64 - 1" for n k :: u64
  proof -
    have "k \<noteq> - 1" using that(2) by (auto simp: unat_max_word)
    from le_less_trans [OF that(1) sat_add_one_less [OF this]] show ?thesis .
  qed
  with assms show ?thesis
    by (cases x) (auto simp: not_ahead_def behind_def bump_identity_generations_def gens_of_def)
qed

text \<open>A part of a run: the generations grow, and what it launches is not ahead of them. A single
  message does not touch the lifecycle lane.\<close>

definition dated :: "nat \<Rightarrow> 'x actor \<Rightarrow> 'x actor \<Rightarrow> bool" where
  "dated k a b =
     (gens_up k (ac_generations a) (ac_generations b) \<and>
      (\<forall>x \<in> launched b - launched a. not_ahead (ac_generations b) (eo_generation x)))"

definition dates :: "nat \<Rightarrow> 'x actor \<Rightarrow> 'x actor \<Rightarrow> bool" where
  "dates k a b = (dated k a b \<and> ac_lifecycle_rx b = ac_lifecycle_rx a)"

lemma dated_trans: "dated k a b \<Longrightarrow> dated l b c \<Longrightarrow> dated (k + l) a c"
  using gens_up_trans gens_up_not_ahead unfolding dated_def by blast

lemma dated_mono: "dated k a b \<Longrightarrow> k \<le> l \<Longrightarrow> dated l a b"
  by (auto simp: dated_def intro: gens_up_mono)

lemma dated_refl [simp]: "dated k a a"
  by (simp add: dated_def)

text \<open>Most steps leave generations and launches alone.\<close>

definition undated :: "'x actor \<Rightarrow> 'x actor \<Rightarrow> bool" where
  "undated a b =
     (ac_generations b = ac_generations a \<and> launched b = launched a \<and> ac_lifecycle_rx b = ac_lifecycle_rx a)"

lemma undated_dates: "undated a b \<Longrightarrow> dates k a b"
  by (simp add: undated_def dates_def dated_def)

lemma undated_refl [simp]: "undated a a"
  by (simp add: undated_def)

lemma undated_trans: "undated b c \<Longrightarrow> undated a b \<Longrightarrow> undated a c"
  by (simp add: undated_def)

lemma undated_update [simp]:
  "undated a (b\<lparr>ac_engine := e\<rparr>) = undated a b" "undated a (b\<lparr>ac_latest := pub\<rparr>) = undated a b"
  "undated a (b\<lparr>ac_next_message_sequence := n\<rparr>) = undated a b" "undated a (b\<lparr>ac_latest_epoch := n\<rparr>) = undated a b"
  "undated a (b\<lparr>ac_next_tick := n\<rparr>) = undated a b" "undated a (b\<lparr>ac_exit := x\<rparr>) = undated a b"
  "undated a (b\<lparr>ac_tick_replies := rs\<rparr>) = undated a b"
  "undated a (b\<lparr>ac_edge_rx := es\<rparr>) = undated a b" "undated a (b\<lparr>ac_facts := f\<rparr>) = undated a b"
  "undated a (b\<lparr>ac_shutting_down := d\<rparr>) = undated a b" "undated a (b\<lparr>ac_command_rx := cs\<rparr>) = undated a b"
  "undated a (b\<lparr>ac_completion_rx := ps\<rparr>) = undated a b" "undated a (b\<lparr>ac_pending := q\<rparr>) = undated a b"
  "undated a (b\<lparr>ac_workers := ws\<rparr>) = undated a b" "undated a (b\<lparr>ac_next_command_id := n\<rparr>) = undated a b"
  "undated a (b\<lparr>ac_next_operation_id := n\<rparr>) = undated a b"
  by (simp_all add: undated_def launched_def)

lemma undated_event: "undated a b \<Longrightarrow> (\<And>x s. ev \<noteq> OperationLaunched x s) \<Longrightarrow> undated a (send_event ev b)"
  by (auto simp: undated_def launched_def send_event_def)

lemma undated_small [simp]:
  "undated a (snd (next_sequence b)) = undated a b" "undated a (snd (publish_snapshot s n b)) = undated a b"
  "undated a (observe_clock now b) = undated a b" "undated a (accept_command c w b) = undated a b"
  by (simp_all add: next_sequence_def publish_snapshot_def observe_clock_def Let_def)
     (simp add: undated_def launched_def accept_command_def)

lemma undated_emit [simp]: "undated a (emit_outcome outcome b) = undated a b"
  by (auto simp: emit_outcome_def send_event_def undated_def launched_def Let_def)

lemma undated_settle [simp]: "undated a (settle_next st c b) = undated a b" "undated a (settle_with st n c b) = undated a b"
  by (simp_all add: settle_next_def settle_with_def case_prod_beta)

lemma undated_complete [simp]: "undated a (complete_command c n outcome b) = undated a b"
  by (simp add: complete_command_def case_prod_beta)

lemma undated_folds [simp]:
  "undated a (foldl (\<lambda>a c. settle_next st c a) b cs) = undated a b"
  "undated a (foldl (\<lambda>a m. accept_command (cm_command_id m) (cm_wants_response m) a) b ms) = undated a b"
  by (induction cs arbitrary: b; simp) (induction ms arbitrary: b; simp)

lemma undated_fail [simp]: "undated a (fail_all failure b) = undated a b" "undated a (drain_queued_commands b) = undated a b"
  "undated a (settle_all st b) = undated a b"
  by (simp_all add: fail_all_def settle_all_def drain_queued_commands_def)

lemma undated_shutdown: "undated a (process_shutdown a)"
  by (simp add: process_shutdown_def case_prod_beta Let_def) (rule undated_event, simp_all)

lemma undated_announce: "undated a b \<Longrightarrow> undated a (announce_control state b)"
  by (simp add: announce_control_def case_prod_beta Let_def) (rule undated_event, simp_all)

lemma undated_tick: "process_tick now b = Some (outs, c) \<Longrightarrow> undated a b \<Longrightarrow> undated a c"
  by (auto simp: process_tick_def case_prod_beta Let_def split: option.splits intro!: undated_event)

lemma undated_player:
  "undated a b \<Longrightarrow> undated a (process_player_edge edge b)" "undated a b \<Longrightarrow> undated a (process_player_facts facts b)"
  by (auto simp: process_player_edge_def process_player_facts_def case_prod_beta intro!: undated_event)

lemma undated_dispatch: "settle_dispatch panics c d b = Some (r, e) \<Longrightarrow> undated a b \<Longrightarrow> undated a e"
  by (auto simp: settle_dispatch_def case_prod_beta split: if_splits option.splits)

lemma undated_completion: "process_operation_completion panics c b = Some (r, e) \<Longrightarrow> undated a b \<Longrightarrow> undated a e"
  by (auto simp: process_operation_completion_def case_prod_beta Let_def split: if_splits option.splits)

lemma control_dates: "dates (Suc 0) a (process_control state a)"
proof -
  let ?b = "set_actor_auth state a"
  let ?g = "if state \<noteq> actor_auth a then bump_identity_generations (ac_generations a) else ac_generations a"
  obtain c where "process_control state a = announce_control state c" "ac_generations c = ?g" "launched c = launched a"
    "ac_lifecycle_rx c = ac_lifecycle_rx a"
    by (simp add: process_control_def set_actor_auth_def launched_def Let_def)
  moreover from this have "undated c (process_control state a)" using undated_announce [OF undated_refl] by metis
  moreover have "gens_up (Suc 0) (ac_generations a) ?g" by (simp add: grown_up)
  ultimately show ?thesis by (simp add: dates_def dated_def undated_def)
qed

lemma lifecycle_dates: "process_lifecycle m a = Some b \<Longrightarrow> dates (Suc 0) a b"
proof (cases m)
  case (LifecycleMutate f)
  assume "process_lifecycle m a = Some b"
  with LifecycleMutate have "undated a b" by (auto simp: Let_def intro: undated_announce)
  then show ?thesis by (rule undated_dates)
next
  case LifecycleShutdown
  assume "process_lifecycle m a = Some b"
  with LifecycleShutdown undated_shutdown [of a] show ?thesis by (auto intro: undated_dates)
next
  case (LifecycleControl state)
  assume "process_lifecycle m a = Some b"
  with LifecycleControl control_dates [of a state] show ?thesis by simp
next
  case (LifecycleTick now)
  assume "process_lifecycle m a = Some b"
  with LifecycleTick have "undated a b" by (auto split: option.splits dest: undated_tick [OF _ undated_refl])
  then show ?thesis by (rule undated_dates)
qed

lemma process_command_dates:
  assumes "process_command panics m a = Some (r, b)"
  shows "dates (Suc 0) a b"
proof -
  let ?c = "cm_command_id m" and ?now = "cm_now_epoch_millis m"
  define a1 where "a1 = accept_command ?c (cm_wants_response m) (observe_clock ?now a)"
  have s: "undated a a1" by (simp add: a1_def)
  show ?thesis
  proof (cases "cm_input m")
    case (InputPlatformEvent event)
    with assms have "settle_dispatch panics ?c (dispatch_platform_event event ?now (ac_engine a1)) a1 = Some (r, b)"
      by (simp add: process_command_def a1_def Let_def)
    from undated_dates [OF undated_dispatch [OF this s]] show ?thesis .
  next
    case (InputCommand command)
    obtain l a2 where l: "try_launch ?c command a1 = (l, a2)" by (cases "try_launch ?c command a1")
    from assms InputCommand have run: "(case l of
          Some (operation, job) \<Rightarrow> Some (Inr (), launch_operation operation job command ?now a2)
        | None \<Rightarrow> settle_dispatch panics ?c (dispatch_command command ?now (ac_engine a2)) a2) = Some (r, b)"
      by (simp add: process_command_def a1_def [symmetric] l Let_def split: option.splits prod.splits)
    from l show ?thesis
    proof (cases rule: try_launch_cases)
      case (1 g)
      have a2: "ac_generations a2 = g" "launched a2 = launched a1" "ac_lifecycle_rx a2 = ac_lifecycle_rx a1"
        by (subst 1(3), simp add: launched_def)+
      from run 1(2) have "settle_dispatch panics ?c (dispatch_command command ?now (ac_engine a2)) a2 = Some (r, b)" by simp
      from undated_dispatch [OF this undated_refl] have "undated a2 b" .
      with a2 s 1(1) show ?thesis by (simp add: dates_def dated_def undated_def grown_up)
    next
      case (2 g x job)
      from run 2(2) have b: "b = launch_operation x job command ?now a2" by simp
      have "ac_generations b = g" "launched b = insert x (launched a1)" "ac_lifecycle_rx b = ac_lifecycle_rx a1"
        unfolding b 2(3) by (auto simp: launch_operation_def next_sequence_def send_event_def launched_def Let_def)
      with s 2(1) current_not_ahead [OF 2(6)] show ?thesis by (auto simp: dates_def dated_def undated_def grown_up)
    qed
  qed
qed


lemma drain_dated:
  "drain_lifecycle ms a = Some b \<Longrightarrow> ac_lifecycle_rx a = ms \<Longrightarrow>
     dated (length ms) a b \<and> (ac_exit b = None \<longrightarrow> ac_lifecycle_rx b = [])"
proof (induction ms arbitrary: a)
  case (Cons m ms)
  from Cons.prems(1) obtain c where c: "process_lifecycle m (a\<lparr>ac_lifecycle_rx := ms\<rparr>) = Some c"
    and rest: "if ac_exit c \<noteq> None then b = c else drain_lifecycle ms c = Some b"
    by (auto split: option.splits if_splits)
  from lifecycle_dates [OF c] have d: "dated (Suc 0) a c" "ac_lifecycle_rx c = ms"
    by (simp_all add: dates_def dated_def launched_def)
  show ?case
  proof (cases "ac_exit c = None")
    case True
    with rest Cons.IH [OF _ d(2)] dated_trans [OF d(1), of "length ms" b] show ?thesis by simp
  next
    case False
    with rest d(1) dated_mono [of "Suc 0" a b "length (m # ms)"] show ?thesis by auto
  qed
qed simp

lemma end_dates: "end_on_failure r = Some b \<Longrightarrow> (\<And>x c. r = Some (x, c) \<Longrightarrow> dates k a c) \<Longrightarrow> dates k a b"
  by (fastforce dest!: end_on_failure_Some simp: dates_def dated_def launched_def)

lemma undated_close: "undated a (close_down a)"
  by (simp add: close_down_def)

lemma select_dates:
  assumes "select_branch ti a = Some b"
  shows "dates (Suc 0) a b"
proof (cases "ac_edge_rx a")
  case (Cons edge es)
  with assms have "undated a b" by (auto simp: select_branch_def intro: undated_player)
  then show ?thesis by (rule undated_dates)
next
  case edges: Nil
  show ?thesis
  proof (cases "ac_completion_rx a")
    case (Cons c cs)
    with edges assms have "end_on_failure (process_operation_completion (ti_panics ti) c (a\<lparr>ac_completion_rx := cs\<rparr>)) = Some b"
      by (simp add: select_branch_def)
    then show ?thesis by (rule end_dates) (auto intro!: undated_dates elim: undated_completion)
  next
    case completions: Nil
    show ?thesis
    proof (cases "ac_facts a")
      case (Some facts)
      with edges completions assms have "undated a b" by (auto simp: select_branch_def intro: undated_player)
      then show ?thesis by (rule undated_dates)
    next
      case None
      note lanes = edges completions None
      consider (tick) t outs where "process_tick (ac_next_tick a) (a\<lparr>ac_next_tick := t\<rparr>) = Some (outs, b)"
        | (wait) "b = a" | (closed) "b = close_down a"
        | (command) m ms where "end_on_failure (process_command (ti_panics ti) m (a\<lparr>ac_command_rx := ms\<rparr>)) = Some b"
        using assms lanes unfolding select_branch_def
        by (cases "ti_tick_due ti"; cases "ac_shutting_down a"; cases "ac_command_rx a"; cases "ti_closed ti") fastforce+
      then show ?thesis
      proof cases
        case (tick t outs)
        from undated_tick [OF this, of a] show ?thesis by (simp add: undated_dates)
      next
        case wait
        then show ?thesis by (simp add: undated_dates)
      next
        case closed
        then show ?thesis using undated_close [of a] by (simp add: undated_dates)
      next
        case (command m ms)
        then show ?thesis
        proof (rule end_dates)
          fix x c assume "process_command (ti_panics ti) m (a\<lparr>ac_command_rx := ms\<rparr>) = Some (x, c)"
          from process_command_dates [OF this] show "dates (Suc 0) a c" by (simp add: dates_def dated_def launched_def)
        qed
      qed
    qed
  qed
qed

lemma turn_dated:
  assumes "actor_turn ti a = Some b"
  shows "dated (Suc (length (ac_lifecycle_rx a))) a b \<and> (ac_exit b = None \<longrightarrow> ac_lifecycle_rx b = [])"
proof (cases "ti_closed ti \<and> \<not> ac_shutting_down a")
  case True
  with assms have "b = close_down a" by (simp add: actor_turn_def)
  then show ?thesis using undated_dates [OF undated_close [of a]] by (simp add: dates_def) (simp add: close_down_def)
next
  case False
  with assms obtain c where c: "drain_lifecycle (ac_lifecycle_rx a) a = Some c"
    and rest: "if ac_exit c \<noteq> None then b = c else select_branch ti c = Some b"
    by (auto simp: actor_turn_def split: option.splits if_splits)
  note d = drain_dated [OF c refl]
  show ?thesis
  proof (cases "ac_exit c = None")
    case True
    with rest select_dates have "dates (Suc 0) c b" by auto
    with dated_trans [of "length (ac_lifecycle_rx a)" a c "Suc 0" b] d True show ?thesis by (simp add: dates_def)
  next
    case False
    with rest d show ?thesis by (auto intro: dated_mono)
  qed
qed

text \<open>Calls put at most one message into the lifecycle lane.\<close>

lemma call_dated:
  "actor_call M a b \<Longrightarrow> dated 0 a b \<and> length (ac_lifecycle_rx b) \<le> Suc (length (ac_lifecycle_rx a))"
proof (induction rule: actor_call.induct)
  case (submit answer input now wants a r b)
  then show ?case by (cases rule: submit_cases) (simp_all add: dated_def launched_def)
qed (auto simp: dated_def launched_def publish_player_facts_def try_publish_player_edge_def try_complete_operation_def
    try_send_control_def send_lifecycle_def request_shutdown_def tick_now_def mutate_engine_def
    split: if_splits sum.splits prod.splits)

text \<open>The counters after \<open>n\<close> steps.\<close>

definition young :: "nat \<Rightarrow> 'x actor \<Rightarrow> bool" where
  "young n a =
     ((\<forall>k \<in> set (gens_of (ac_generations a)). unat k + length (ac_lifecycle_rx a) \<le> n) \<and>
      (\<forall>x \<in> launched a. not_ahead (ac_generations a) (eo_generation x)))"

lemma young_dated:
  assumes "young n a" "dated k a b" "k + length (ac_lifecycle_rx b) \<le> Suc (length (ac_lifecycle_rx a))"
  shows "young (Suc n) b"
proof -
  have "unat k' + length (ac_lifecycle_rx b) \<le> Suc n" if "k' \<in> set (gens_of (ac_generations b))" for k'
  proof -
    from that assms(2) obtain m where "m \<in> set (gens_of (ac_generations a))" "unat k' \<le> unat m + k"
      unfolding dated_def using gens_up_member by blast
    with assms(1,3) show ?thesis by (fastforce simp: young_def)
  qed
  moreover have "not_ahead (ac_generations b) (eo_generation x)" if "x \<in> launched b" for x
    using that assms(1,2) by (cases "x \<in> launched a") (auto simp: young_def dated_def intro: gens_up_not_ahead)
  ultimately show ?thesis by (simp add: young_def)
qed

lemma young_mono: "young n a \<Longrightarrow> n \<le> m \<Longrightarrow> young m a"
  by (fastforce simp: young_def)

lemma step_young:
  "actor_step M a b \<Longrightarrow> (\<exists>k. dated k a b) \<and> (young n a \<longrightarrow> young (Suc n) b \<or> ac_exit b \<noteq> None)"
proof (induction rule: actor_step.induct)
  case (call a b)
  from call_dated [OF call(2)] young_dated [of n a 0 b] show ?case by auto
next
  case (worker a ws worker ws' panics)
  let ?b = "run_worker panics worker (a\<lparr>ac_workers := ws @ ws'\<rparr>)"
  have "dated 0 a ?b" "ac_lifecycle_rx ?b = ac_lifecycle_rx a"
    by (simp_all add: run_worker_def finish_worker_def dated_def launched_def case_prod_beta Let_def)
  with young_dated [of n a 0 ?b] show ?case by auto
next
  case (outside a x)
  let ?b = "a\<lparr>ac_engine := (ac_engine a)\<lparr>en_world := (actor_auth a, x)\<rparr>\<rparr>"
  have "dated 0 a ?b" "ac_lifecycle_rx ?b = ac_lifecycle_rx a" by (simp_all add: dated_def launched_def)
  with young_dated [of n a 0 ?b] show ?case by auto
next
  case (turn a ti b)
  from turn_dated [OF turn(2)] young_dated [of n a _ b] show ?case by fastforce
qed

lemma run_dated: "actor_run M n a b \<Longrightarrow> \<exists>k. dated k a b"
proof (induction rule: actor_run.induct)
  case (start a)
  show ?case by (rule exI [of _ 0]) simp
next
  case (step n a b c)
  then show ?case using step_young [OF step.hyps(2)] dated_trans by blast
qed

lemma run_young: "actor_run M n a b \<Longrightarrow> young 0 a \<Longrightarrow> ac_exit b = None \<Longrightarrow> young n b"
proof (induction rule: actor_run.induct)
  case (step n a b c)
  have "ac_exit b = None"
  proof (rule ccontr)
    assume "ac_exit b \<noteq> None"
    with step_ended [OF step.hyps(2)] step.prems(2) show False by auto
  qed
  with step step_young [OF step.hyps(2), of n] show ?case by blast
qed simp

lemma spawn_young: "actor_spawn e cfg rt = Inr a \<Longrightarrow> young 0 a"
  by (auto simp: actor_spawn_def young_def gens_of_def domain_generations_default_def launched_def Let_def
      split: option.splits)


lemma control_generations:
  "state \<noteq> actor_auth a \<Longrightarrow>
     ac_generations (process_control state a) = bump_identity_generations (ac_generations a)"
proof -
  assume "state \<noteq> actor_auth a"
  then obtain c where c: "process_control state a = announce_control state c"
    "ac_generations c = bump_identity_generations (ac_generations a)"
    by (simp add: process_control_def set_actor_auth_def Let_def)
  moreover have "undated c (announce_control state c)" by (rule undated_announce) simp
  ultimately show ?thesis by (simp add: undated_def)
qed

text \<open>The rest of a turn after its first lifecycle message.\<close>

lemma turn_after_control:
  assumes "actor_turn ti a = Some b" "ac_exit b = None" "ac_exit a = None"
    and "ac_lifecycle_rx a = LifecycleControl state # ms"
  shows "\<exists>k. dated k (process_control state (a\<lparr>ac_lifecycle_rx := ms\<rparr>)) b"
proof -
  let ?p = "process_control state (a\<lparr>ac_lifecycle_rx := ms\<rparr>)"
  have "b \<noteq> close_down a" using assms(2) by (auto simp: close_down_def)
  with assms(1) obtain c where c: "drain_lifecycle (ac_lifecycle_rx a) a = Some c"
    and rest: "if ac_exit c \<noteq> None then b = c else select_branch ti c = Some b"
    by (auto simp: actor_turn_def split: option.splits if_splits)
  have p: "ac_exit ?p = None" using assms(3) quiet_control [of state "a\<lparr>ac_lifecycle_rx := ms\<rparr>"] by (simp add: quiet_def)
  with c assms(4) have d: "drain_lifecycle ms ?p = Some c" by simp
  have "ac_lifecycle_rx ?p = ms" using control_dates [of "a\<lparr>ac_lifecycle_rx := ms\<rparr>" state] by (simp add: dates_def)
  from drain_dated [OF d this] have pc: "dated (length ms) ?p c" by simp
  from rest assms(2) have "select_branch ti c = Some b" by (auto split: if_splits)
  from select_dates [OF this] dated_trans [OF pc] show ?thesis by (auto simp: dates_def)
qed

text \<open>C4: an operation does not outlive the login it was launched under. Once a turn has processed a change of
  the login, no operation launched before it is current again, and whatever its worker answers, and
  however late, its completion leaves the engine and the published snapshot as they are.\<close>

theorem login_change_supersedes:
  assumes "actor_spawn e cfg rt = Inr a0" "actor_run M n a0 a" "n < 2 ^ 64 - 1" "ac_exit a = None"
    and "ac_lifecycle_rx a = LifecycleControl state # ms" "state \<noteq> actor_auth a"
    and "actor_turn ti a = Some b" "ac_exit b = None" "actor_run M m b c" "operation \<in> launched a"
  shows "\<not> is_current (ac_generations c) (eo_generation operation) \<and>
    (\<exists>d. process_operation_completion panics (op_completion_of operation r) c = Some (Inr (), d) \<and>
       ac_engine d = ac_engine c \<and> ac_latest d = ac_latest c)"
proof -
  let ?p = "process_control state (a\<lparr>ac_lifecycle_rx := ms\<rparr>)"
  have y: "young n a" by (rule run_young [OF assms(2) spawn_young [OF assms(1)] assms(4)])
  then have "\<forall>k \<in> set (gens_of (ac_generations a)). unat k < 2 ^ 64 - 1" using assms(3) by (fastforce simp: young_def)
  moreover have "not_ahead (ac_generations a) (eo_generation operation)" using y assms(10) by (simp add: young_def)
  ultimately have "behind (bump_identity_generations (ac_generations a)) (eo_generation operation)" by (rule bumped_behind)
  moreover have "ac_generations ?p = bump_identity_generations (ac_generations a)"
    using control_generations [of state "a\<lparr>ac_lifecycle_rx := ms\<rparr>"] assms(6) by (simp add: actor_auth_def)
  ultimately have "behind (ac_generations ?p) (eo_generation operation)" by simp
  moreover obtain k l where "dated k ?p b" "dated l b c"
    using turn_after_control [OF assms(7,8,4,5)] run_dated [OF assms(9)] by blast
  then have "gens_up (k + l) (ac_generations ?p) (ac_generations c)" by (auto simp: dated_def intro: gens_up_trans)
  ultimately have "behind (ac_generations c) (eo_generation operation)" using gens_up_behind by blast
  then have s: "\<not> is_current (ac_generations c) (eo_generation operation)" by (rule behind_stale)
  have "\<exists>d. process_operation_completion panics (op_completion_of operation r) c = Some (Inr (), d) \<and>
      ac_engine d = ac_engine c \<and> ac_latest d = ac_latest c"
  proof (cases "ac_pending c (eo_operation_id operation)")
    case None
    then show ?thesis by (simp add: process_operation_completion_def op_completion_of_def)
  next
    case (Some p)
    with s show ?thesis
      by (simp add: process_operation_completion_def op_completion_of_def settle_with_def emit_outcome_def
          send_event_def next_sequence_def Let_def)
  qed
  with s show ?thesis by simp
qed

lemma launched_actor:
  "\<exists>a operation. actor_run {} 2 sample_actor a \<and> operation \<in> launched a \<and> ac_exit a = None \<and>
     ac_shutting_down a = False \<and> ac_lifecycle_rx a = [] \<and> ac_edge_rx a = [] \<and> ac_completion_rx a = [] \<and>
     ac_facts a = None \<and> ac_command_rx a = [] \<and> actor_auth a = Anonymous"
proof -
  obtain job where t: "actor_turn calm submitted_actor =
     Some (launch_operation \<lparr>eo_operation_id = 1, eo_command_id = 1, eo_generation = SearchGeneration (sat_add 0 1),
         eo_request = SearchPage ''abba'' page_request_default None\<rparr> job sample_search 9
       ((accept_command 1 False (observe_clock 9 (submitted_actor\<lparr>ac_command_rx := []\<rparr>)))
          \<lparr>ac_generations := bump SearchDomain domain_generations_default, ac_next_operation_id := sat_add 1 1\<rparr>))"
    (is "_ = Some ?a") using launched_turn by blast
  have "ac_exit submitted_actor = None" by (simp add: submitted_eq sample_fields)
  from actor_run.step [OF submitted_run actor_step.turn [OF this t]] have "actor_run {} 2 sample_actor ?a"
    by (simp add: numeral_2_eq_2)
  moreover have "\<exists>operation. operation \<in> launched ?a"
    by (auto simp: launched_def launch_operation_def next_sequence_def send_event_def Let_def)
  moreover have "ac_exit ?a = None" "ac_shutting_down ?a = False" "ac_lifecycle_rx ?a = []" "ac_edge_rx ?a = []"
    "ac_completion_rx ?a = []" "ac_facts ?a = None" "ac_command_rx ?a = []" "actor_auth ?a = Anonymous"
    using sample_login by (simp_all add: launch_operation_def next_sequence_def send_event_def accept_command_def observe_clock_def
        submitted_eq sample_fields Let_def actor_auth_def)
  ultimately show ?thesis by blast
qed

text \<open>The session of the sample actor is lost while its search is in flight.\<close>

theorem login_change_supersedes_witness:
  "\<exists>a b operation. actor_run {} 3 sample_actor a \<and> actor_turn calm a = Some b \<and> operation \<in> launched a \<and>
     \<not> is_current (ac_generations b) (eo_generation operation)"
proof -
  obtain a operation where a: "actor_run {} 2 sample_actor a" "operation \<in> launched a" "ac_exit a = None"
    and idle: "ac_shutting_down a = False" "ac_lifecycle_rx a = []" "ac_edge_rx a = []" "ac_completion_rx a = []"
      "ac_facts a = None" "ac_command_rx a = []" and auth: "actor_auth a = Anonymous"
    using launched_actor by blast
  let ?c = "a\<lparr>ac_lifecycle_rx := [LifecycleControl LoginRequired]\<rparr>"
  have "try_send_control Sent LoginRequired a = (Inr (), ?c)"
    by (simp add: try_send_control_def send_lifecycle_def map_try_send_def idle)
  from actor_run.step [OF a(1) actor_step.call [OF a(3) actor_call.control [OF this]]]
  have run: "actor_run {} 3 sample_actor ?c" by (simp add: numeral_3_eq_3 numeral_2_eq_2)
  let ?b = "process_control LoginRequired (?c\<lparr>ac_lifecycle_rx := []\<rparr>)"
  note steps = process_control_def announce_control_def set_actor_auth_def next_sequence_def publish_snapshot_def
    send_event_def Let_def
  have idle': "ac_exit ?b = None" "ac_edge_rx ?b = []" "ac_completion_rx ?b = []" "ac_facts ?b = None"
    "ac_command_rx ?b = []" "ac_shutting_down ?b = False"
    by (simp_all add: steps idle a(3))
  have turn: "actor_turn calm ?c = Some ?b"
    using idle' by (simp add: actor_turn_def select_branch_def calm_def)
  have "\<not> is_current (ac_generations ?b) (eo_generation operation)"
    using login_change_supersedes [OF sample_spawned run _ _ _ _ turn idle'(1) actor_run.start, of LoginRequired "[]" operation]
      a(2,3) auth by (simp add: launched_def actor_auth_def)
  with run turn a(2) show ?thesis by (force simp: launched_def)
qed

subsection \<open>Publishing a new login\<close>

text \<open>Mutations that keep the ownership of private data and the provider.\<close>

definition trusted :: "('w engine \<Rightarrow> 'w engine) set" where
  "trusted = {f. \<forall>e. (engine_kept e \<longrightarrow> engine_kept (f e)) \<and> en_auth_state_provider (f e) = en_auth_state_provider e}"

definition housed :: "'x aworld engine \<Rightarrow> bool" where
  "housed e = (engine_kept e \<and> en_auth_state_provider e = Some fst)"

lemma wired_provider: "wired e' = wired e \<Longrightarrow> en_auth_state_provider e' = en_auth_state_provider e"
  by (simp add: wired_def wiring_def)

lemma housed_dispatch: "dispatch_command command now e = Some (outcome, e') \<Longrightarrow> housed e \<Longrightarrow> housed e'"
  using wired_provider [OF dispatch_wired] dispatch_kept by (fastforce simp: housed_def outcome_kept_def)

lemma housed_platform: "dispatch_platform_event event now e = Some (outcome, e') \<Longrightarrow> housed e \<Longrightarrow> housed e'"
  using wired_provider [OF platform_event_wired] platform_event_kept by (fastforce simp: housed_def)

lemma housed_tick: "tick now e = Some (outs, e') \<Longrightarrow> housed e \<Longrightarrow> housed e'"
  using wired_provider [OF tick_wired] tick_kept by (fastforce simp: housed_def)

lemma housed_update [simp]:
  "housed (e\<lparr>en_world := w\<rparr>) = housed e" "housed (e\<lparr>en_prefetched := p\<rparr>) = housed e"
proof -
  have "engine_private (e\<lparr>en_world := w\<rparr>) = engine_private e" "engine_private (e\<lparr>en_prefetched := p\<rparr>) = engine_private e"
    by (simp_all add: engine_private_def private_part_def part_defs)
  then have "engine_kept (e\<lparr>en_world := w\<rparr>) = engine_kept e" "engine_kept (e\<lparr>en_prefetched := p\<rparr>) = engine_kept e"
    by (metis engine_kept_private)+
  then show "housed (e\<lparr>en_world := w\<rparr>) = housed e" "housed (e\<lparr>en_prefetched := p\<rparr>) = housed e"
    by (simp_all add: housed_def)
qed

lemma housed_sync: "housed e \<Longrightarrow> housed (sync_auth_state_projection e)"
  using sync_kept [of e] wired_provider [OF sync_wired [of e]] by (simp add: housed_def engine_kept_def)


text \<open>Engine and lifecycle lane of the steps.\<close>

definition hosts :: "'x actor \<Rightarrow> 'x actor \<Rightarrow> bool" where
  "hosts a b = (housed (ac_engine a) \<longrightarrow> housed (ac_engine b))"

lemma hosts_same: "ac_engine b = ac_engine a \<Longrightarrow> hosts a b"
  by (simp add: hosts_def)

lemma hosts_trans: "hosts a b \<Longrightarrow> hosts b c \<Longrightarrow> hosts a c"
  by (simp add: hosts_def)

lemma engine_small [simp]:
  "ac_engine (snd (next_sequence a)) = ac_engine a" "ac_engine (snd (publish_snapshot s n a)) = ac_engine a"
  "ac_engine (observe_clock now a) = ac_engine a" "ac_engine (accept_command c w a) = ac_engine a"
  "ac_engine (send_event ev a) = ac_engine a" "ac_engine (emit_outcome outcome a) = ac_engine a"
  "ac_engine (settle_with st n c a) = ac_engine a" "ac_engine (settle_next st c a) = ac_engine a"
  "ac_engine (complete_command c n oc a) = ac_engine a" "ac_engine (launch_operation x job command now a) = ac_engine a"
  "ac_engine (announce_control state a) = ac_engine a"
  by (simp_all add: next_sequence_def publish_snapshot_def observe_clock_def accept_command_def send_event_def
      emit_outcome_def settle_with_def settle_next_def complete_command_def launch_operation_def announce_control_def
      case_prod_beta Let_def)

lemma engine_folds [simp]:
  "ac_engine (foldl (\<lambda>a c. settle_next st c a) a cs) = ac_engine a"
  "ac_engine (foldl (\<lambda>a m. accept_command (cm_command_id m) (cm_wants_response m) a) a ms) = ac_engine a"
  by (induction cs arbitrary: a; simp) (induction ms arbitrary: a; simp)

lemma engine_settled [simp]:
  "ac_engine (settle_all st a) = ac_engine a" "ac_engine (drain_queued_commands a) = ac_engine a"
  "ac_engine (fail_all failure a) = ac_engine a" "ac_engine (process_shutdown a) = ac_engine a"
  "ac_engine (close_down a) = ac_engine a"
  by (simp_all add: settle_all_def drain_queued_commands_def fail_all_def process_shutdown_def close_down_def
      case_prod_beta Let_def)

lemma dispatch_hosts:
  "settle_dispatch panics c d a = Some (r, b) \<Longrightarrow>
     (\<And>outcome e. d = Some (outcome, e) \<Longrightarrow> housed (ac_engine a) \<Longrightarrow> housed e) \<Longrightarrow> hosts a b"
  by (auto simp: settle_dispatch_def hosts_def case_prod_beta split: if_splits option.splits)

lemma process_command_hosts:
  assumes "process_command panics m a = Some (r, b)"
  shows "hosts a b"
proof -
  let ?c = "cm_command_id m" and ?now = "cm_now_epoch_millis m"
  define a1 where "a1 = accept_command ?c (cm_wants_response m) (observe_clock ?now a)"
  have a1: "ac_engine a1 = ac_engine a" by (simp add: a1_def)
  show ?thesis
  proof (cases "cm_input m")
    case (InputPlatformEvent event)
    with assms have "settle_dispatch panics ?c (dispatch_platform_event event ?now (ac_engine a1)) a1 = Some (r, b)"
      by (simp add: process_command_def a1_def Let_def)
    from dispatch_hosts [OF this housed_platform] a1 show ?thesis by (simp add: hosts_def)
  next
    case (InputCommand command)
    obtain l a2 where l: "try_launch ?c command a1 = (l, a2)" by (cases "try_launch ?c command a1")
    from assms InputCommand have run: "(case l of
          Some (operation, job) \<Rightarrow> Some (Inr (), launch_operation operation job command ?now a2)
        | None \<Rightarrow> settle_dispatch panics ?c (dispatch_command command ?now (ac_engine a2)) a2) = Some (r, b)"
      by (simp add: process_command_def a1_def [symmetric] l Let_def split: option.splits prod.splits)
    from l have a2: "ac_engine a2 = ac_engine a"
    proof (cases rule: try_launch_cases)
      case (1 g)
      show ?thesis by (subst 1(3)) (simp add: a1)
    qed (simp add: a1)
    show ?thesis
    proof (cases l)
      case None
      with run have "settle_dispatch panics ?c (dispatch_command command ?now (ac_engine a2)) a2 = Some (r, b)" by simp
      from dispatch_hosts [OF this housed_dispatch] a2 show ?thesis by (simp add: hosts_def)
    next
      case (Some q)
      with run have "b = launch_operation (fst q) (snd q) command ?now a2" by (cases q) simp
      then show ?thesis using a2 by (simp add: hosts_def)
    qed
  qed
qed

lemma redispatch_housed:
  "redispatch p r a = Some (outcome, e) \<Longrightarrow> housed (ac_engine a) \<Longrightarrow> housed e"
  by (auto simp: redispatch_def dest!: housed_dispatch)

lemma completion_hosts: "process_operation_completion panics c a = Some (r, b) \<Longrightarrow> hosts a b"
  by (auto simp: process_operation_completion_def case_prod_beta Let_def hosts_def
      split: if_splits option.splits dest: redispatch_housed)

lemma tick_hosts: "process_tick now a = Some (outs, b) \<Longrightarrow> hosts a b"
  by (auto simp: process_tick_def case_prod_beta Let_def hosts_def split: option.splits dest: housed_tick)

lemma control_engine:
  "ac_engine (process_control state a) =
     sync_auth_state_projection ((ac_engine a)\<lparr>en_world := (state, snd (en_world (ac_engine a)))\<rparr>)"
  by (simp add: process_control_def set_actor_auth_def Let_def)

lemma lifecycle_hosts:
  "process_lifecycle m a = Some b \<Longrightarrow> (\<And>f. m = LifecycleMutate f \<Longrightarrow> f \<in> trusted) \<Longrightarrow> hosts a b"
proof (cases m)
  case (LifecycleControl state)
  assume "process_lifecycle m a = Some b"
  with LifecycleControl have "b = process_control state a" by simp
  then show ?thesis by (simp add: hosts_def control_engine housed_sync)
next
  case (LifecycleTick now)
  assume "process_lifecycle m a = Some b"
  with LifecycleTick obtain outs c where "process_tick now a = Some (outs, c)" "ac_engine b = ac_engine c"
    by (auto split: option.splits)
  with tick_hosts [of now a outs c] show ?thesis by (simp add: hosts_def)
next
  case (LifecycleMutate f)
  assume "process_lifecycle m a = Some b" "\<And>f. m = LifecycleMutate f \<Longrightarrow> f \<in> trusted"
  with LifecycleMutate show ?thesis by (auto simp: Let_def hosts_def housed_def trusted_def)
next
  case LifecycleShutdown
  assume "process_lifecycle m a = Some b"
  with LifecycleShutdown have "b = process_shutdown a" by simp
  then show ?thesis by (simp add: hosts_def)
qed

definition trusted_lane :: "'x lifecycle_message list \<Rightarrow> bool" where
  "trusted_lane ms = (\<forall>f. LifecycleMutate f \<in> set ms \<longrightarrow> f \<in> trusted)"

lemma drain_hosts:
  "drain_lifecycle ms a = Some b \<Longrightarrow> trusted_lane ms \<Longrightarrow> ac_lifecycle_rx a = ms \<Longrightarrow>
     hosts a b \<and> trusted_lane (ac_lifecycle_rx b)"
proof (induction ms arbitrary: a)
  case (Cons m ms)
  from Cons.prems(1) obtain c where c: "process_lifecycle m (a\<lparr>ac_lifecycle_rx := ms\<rparr>) = Some c"
    and rest: "if ac_exit c \<noteq> None then b = c else drain_lifecycle ms c = Some b"
    by (auto split: option.splits if_splits)
  have ms: "trusted_lane ms" "\<And>f. m = LifecycleMutate f \<Longrightarrow> f \<in> trusted" using Cons.prems(2) by (auto simp: trusted_lane_def)
  have l: "ac_lifecycle_rx c = ms" using lifecycle_dates [OF c] by (simp add: dates_def)
  have "hosts a c" using lifecycle_hosts [OF c ms(2)] by (simp add: hosts_def)
  with rest Cons.IH [OF _ ms(1) l] ms(1) l show ?case by (auto intro: hosts_trans split: if_splits)
qed (simp add: hosts_def)

lemma end_hosts: "end_on_failure r = Some b \<Longrightarrow> (\<And>x c. r = Some (x, c) \<Longrightarrow> hosts a c) \<Longrightarrow> hosts a b"
  by (fastforce dest!: end_on_failure_Some simp: hosts_def)

lemma select_hosts:
  assumes "select_branch ti a = Some b"
  shows "hosts a b"
proof -
  have player: "ac_engine (process_player_edge edge a) = ac_engine a" "ac_engine (process_player_facts facts a) = ac_engine a"
    for edge facts and a :: "'a actor"
    by (simp_all add: process_player_edge_def process_player_facts_def case_prod_beta)
  show ?thesis
  proof (cases "ac_edge_rx a")
    case (Cons edge es)
    with assms show ?thesis by (auto simp: select_branch_def player intro!: hosts_same)
  next
    case edges: Nil
    show ?thesis
    proof (cases "ac_completion_rx a")
      case (Cons c cs)
      with edges assms have "end_on_failure (process_operation_completion (ti_panics ti) c (a\<lparr>ac_completion_rx := cs\<rparr>)) = Some b"
        by (simp add: select_branch_def)
      then show ?thesis by (rule end_hosts) (auto dest!: completion_hosts simp: hosts_def)
    next
      case completions: Nil
      show ?thesis
      proof (cases "ac_facts a")
        case (Some facts)
        with edges completions assms show ?thesis by (auto simp: select_branch_def player intro!: hosts_same)
      next
        case None
        note lanes = edges completions None
        consider (tick) t outs where "process_tick (ac_next_tick a) (a\<lparr>ac_next_tick := t\<rparr>) = Some (outs, b)"
          | (wait) "b = a" | (closed) "b = close_down a"
          | (command) m ms where "end_on_failure (process_command (ti_panics ti) m (a\<lparr>ac_command_rx := ms\<rparr>)) = Some b"
          using assms lanes unfolding select_branch_def
          by (cases "ti_tick_due ti"; cases "ac_shutting_down a"; cases "ac_command_rx a"; cases "ti_closed ti") fastforce+
        then show ?thesis
        proof cases
          case (tick t outs)
          from tick_hosts [OF this] show ?thesis by (simp add: hosts_def)
        next
          case (command m ms)
          then show ?thesis by (rule end_hosts) (auto dest!: process_command_hosts simp: hosts_def)
        qed (simp_all add: hosts_def)
      qed
    qed
  qed
qed

lemma step_hosts:
  "actor_step M a b \<Longrightarrow> M \<subseteq> trusted \<Longrightarrow> trusted_lane (ac_lifecycle_rx a) \<Longrightarrow>
     hosts a b \<and> trusted_lane (ac_lifecycle_rx b)"
proof (induction rule: actor_step.induct)
  case (call a b)
  from call(2,3,4) show ?case
  proof (induction rule: actor_call.induct)
    case (submit answer input now wants a r b)
    then show ?case by (cases rule: submit_cases) (simp_all add: hosts_def)
  qed (auto simp: hosts_def trusted_lane_def publish_player_facts_def try_publish_player_edge_def
      try_complete_operation_def try_send_control_def send_lifecycle_def request_shutdown_def tick_now_def
      mutate_engine_def split: if_splits sum.splits prod.splits)
next
  case (worker a ws worker ws' panics)
  then show ?case by (simp add: run_worker_def finish_worker_def hosts_def case_prod_beta Let_def)
next
  case (outside a x)
  then show ?case by (simp add: hosts_def)
next
  case (turn a ti b)
  show ?case
  proof (cases "ti_closed ti \<and> \<not> ac_shutting_down a")
    case True
    with turn have "b = close_down a" by (simp add: actor_turn_def)
    moreover have "ac_lifecycle_rx (close_down a) = ac_lifecycle_rx a"
      using undated_close [of a] by (simp add: undated_def)
    ultimately show ?thesis using turn by (simp add: hosts_def)
  next
    case False
    with turn obtain c where c: "drain_lifecycle (ac_lifecycle_rx a) a = Some c"
      and rest: "if ac_exit c \<noteq> None then b = c else select_branch ti c = Some b"
      by (auto simp: actor_turn_def split: option.splits if_splits)
    note d = drain_hosts [OF c turn(4) refl]
    show ?thesis
    proof (cases "ac_exit c = None")
      case True
      with rest have s: "select_branch ti c = Some b" by simp
      from select_hosts [OF s] select_dates [OF s] d show ?thesis by (auto simp: dates_def intro: hosts_trans)
    next
      case False
      with rest d show ?thesis by simp
    qed
  qed
qed

lemma run_hosts:
  "actor_run M n a b \<Longrightarrow> M \<subseteq> trusted \<Longrightarrow> trusted_lane (ac_lifecycle_rx a) \<Longrightarrow>
     hosts a b \<and> trusted_lane (ac_lifecycle_rx b)"
proof (induction rule: actor_run.induct)
  case (step n a b c)
  then show ?case using step_hosts [OF step.hyps(2)] hosts_trans by blast
qed (simp add: hosts_def)

lemma spawn_housed:
  assumes "actor_spawn e cfg rt = Inr a" "engine_kept e"
  shows "housed (ac_engine a)" "ac_lifecycle_rx a = []"
proof -
  let ?e = "e\<lparr>en_world := (sn_auth_state (snapshot_projection e), snd (en_world e)), en_auth_state_provider := Some fst\<rparr>"
  have a: "ac_engine a = sync_auth_state_projection ?e" "ac_lifecycle_rx a = []"
    using assms(1) by (auto simp: actor_spawn_def adopt_engine_def Let_def split: option.splits)
  have "engine_private ?e = engine_private e" by (simp add: engine_private_def private_part_def part_defs)
  then have "engine_kept ?e" using assms(2) by (rule engine_kept_private)
  then have "housed ?e" by (simp add: housed_def)
  then show "housed (ac_engine a)" "ac_lifecycle_rx a = []" using a housed_sync [of ?e] by simp_all
qed

lemma own_data_clock: "shows_own_data e (s\<lparr>sn_updated_at := t\<rparr>) = shows_own_data e s"
  by (simp add: shows_own_data_def empty_defs)

lemma equal_own_data:
  "snapshots_equal_for_revision s t \<Longrightarrow> shows_own_data e t \<Longrightarrow> shows_own_data e s"
proof -
  assume e: "snapshots_equal_for_revision s t" and own: "shows_own_data e t"
  then have "s\<lparr>sn_updated_at := 0\<rparr> = t\<lparr>sn_updated_at := 0\<rparr>"
    by (auto simp: snapshots_equal_for_revision_def snapshot_eq_def)
  then show "shows_own_data e s" using own own_data_clock [of e 0 s] own_data_clock [of e 0 t] by simp
qed

text \<open>C15: a new login is published without anyone else's data. In any state the actor reaches, over commands,
  operations in flight, ticks and earlier changes of the login, processing a change of the login
  leaves an engine of that login, and the snapshot every reader of the handle now sees shows no
  account, profile, library, playlist or feed data but that login's: each of these five is the new login's or
  empty. The listening history is excepted, it can change hands (see C36). Assumed is that the
  mutations the embedding sends to the actor from outside (\<open>M\<close>) respect the ownership themselves
  (\<open>trusted\<close>).\<close>

theorem login_change_publishes_private:
  assumes "engine_run (engine_new cdc lower w now) e" "actor_spawn e cfg rt = Inr a0" "M \<subseteq> trusted"
    and "actor_run M n a0 a"
  shows "current_identity (ac_engine (process_control state a)) = auth_identity_from_state state \<and>
    shows_own_data (ac_engine (process_control state a)) (pub_snapshot (ac_latest (process_control state a)))"
proof -
  have "engine_kept e" by (rule engine_run_kept [OF assms(1) engine_new_kept])
  note sp = spawn_housed [OF assms(2) this]
  have "housed (ac_engine a)"
    using run_hosts [OF assms(4,3)] sp by (simp add: hosts_def trusted_lane_def)
  then have h: "housed (ac_engine (process_control state a))" by (simp add: control_engine housed_sync)
  have w: "en_world (sync_auth_state_projection e) = en_world e" for e :: "'a aworld engine"
    by (simp add: sync_auth_state_projection_def sync_feed_def sync_account_def sync_profile_def sync_history_def
        sync_library_def sync_playlist_def)
  have "current_identity (ac_engine (process_control state a)) = auth_identity_from_state state"
    using h by (simp add: current_identity_def current_auth_def housed_def) (simp add: control_engine w)
  moreover have "shows_own_data (ac_engine (process_control state a)) (pub_snapshot (ac_latest (process_control state a)))"
  proof -
    obtain c where c: "process_control state a = announce_control state c" by (simp add: process_control_def Let_def)
    then have e: "ac_engine c = ac_engine (process_control state a)" by simp
    with h have own: "shows_own_data (ac_engine c) (snapshot_projection (ac_engine c))"
      by (simp add: kept_shows_own housed_def)
    have "pub_snapshot (ac_latest (announce_control state c)) = snapshot_projection (ac_engine c) \<or>
        snapshots_equal_for_revision (pub_snapshot (ac_latest (announce_control state c))) (snapshot_projection (ac_engine c))"
      by (simp add: announce_control_def next_sequence_def publish_snapshot_def send_event_def Let_def)
    with own equal_own_data show ?thesis unfolding e [symmetric] c by auto
  qed
  ultimately show ?thesis by simp
qed

text \<open>The sample engine, spawned and just told that the session is lost.\<close>

theorem login_change_publishes_private_witness:
  "current_identity (ac_engine (process_control LoginRequired sample_actor)) = auth_identity_from_state LoginRequired \<and>
   shows_own_data (ac_engine (process_control LoginRequired sample_actor))
     (pub_snapshot (ac_latest (process_control LoginRequired sample_actor)))"
  by (rule login_change_publishes_private [OF engine_run.start sample_spawned empty_subsetI actor_run.start])

end
