(* ===== verification/SplitLaws.thy ===== *)
theory SplitLaws
  imports ActorRuns
begin

text \<open>
  The split path of a command against the inline path. An operation asks the port first, off the actor,
  and the command then runs with the answer in the prefetch slot (\<open>process_operation_completion\<close> in
  \<open>engine/actor/state/operations.rs\<close>); inline the command asks the port itself in the middle. For
  the commands that ask once, both give the same outcome and the same engine.
\<close>

subsection \<open>An engine that is ahead of its command\<close>

text \<open>The world has answered already, the answer waits in the slot.\<close>

definition ahead :: "prefetched_operation \<Rightarrow> 'x aworld \<Rightarrow> 'x aworld engine \<Rightarrow> 'x aworld engine" where
  "ahead p w e = e\<lparr>en_world := w, en_prefetched := Some p\<rparr>"

definition foresees :: "'x aworld \<Rightarrow> 'x aworld engine \<Rightarrow> bool" where
  "foresees w e = (en_auth_state_provider e = Some fst \<and> en_prefetched e = None \<and> fst w = fst (en_world e))"

lemma ahead_selectors [simp]:
  "en_snapshot (ahead p w e) = en_snapshot e" "en_middleware (ahead p w e) = en_middleware e"
  "en_repository (ahead p w e) = en_repository e" "en_queue (ahead p w e) = en_queue e"
  "en_bus (ahead p w e) = en_bus e" "en_codec (ahead p w e) = en_codec e" "en_recovery (ahead p w e) = en_recovery e"
  "en_auth_state_provider (ahead p w e) = en_auth_state_provider e" "en_history_port (ahead p w e) = en_history_port e"
  "en_library_port (ahead p w e) = en_library_port e" "en_playlist_port (ahead p w e) = en_playlist_port e"
  "en_account_port (ahead p w e) = en_account_port e" "en_account_identity (ahead p w e) = en_account_identity e"
  "en_profile_identity (ahead p w e) = en_profile_identity e" "en_history_owner (ahead p w e) = en_history_owner e"
  "en_library_identity (ahead p w e) = en_library_identity e" "en_playlist_identity (ahead p w e) = en_playlist_identity e"
  "en_feed_identity (ahead p w e) = en_feed_identity e" "en_catalog_operations (ahead p w e) = en_catalog_operations e"
  "en_anonymous_history (ahead p w e) = en_anonymous_history e"
  by (simp_all add: ahead_def)

lemma ahead_updates [simp]:
  "(ahead p w e)\<lparr>en_snapshot := s\<rparr> = ahead p w (e\<lparr>en_snapshot := s\<rparr>)"
  "(ahead p w e)\<lparr>en_middleware := ms\<rparr> = ahead p w (e\<lparr>en_middleware := ms\<rparr>)"
  "(ahead p w e)\<lparr>en_bus := bus\<rparr> = ahead p w (e\<lparr>en_bus := bus\<rparr>)"
  "(ahead p w e)\<lparr>en_recovery := r\<rparr> = ahead p w (e\<lparr>en_recovery := r\<rparr>)"
  "(ahead p w e)\<lparr>en_account_identity := i\<rparr> = ahead p w (e\<lparr>en_account_identity := i\<rparr>)"
  "(ahead p w e)\<lparr>en_device_sessions_operation := d\<rparr> = ahead p w (e\<lparr>en_device_sessions_operation := d\<rparr>)"
  "(ahead p w e)\<lparr>en_profile_identity := i\<rparr> = ahead p w (e\<lparr>en_profile_identity := i\<rparr>)"
  "(ahead p w e)\<lparr>en_history_owner := own\<rparr> = ahead p w (e\<lparr>en_history_owner := own\<rparr>)"
  "(ahead p w e)\<lparr>en_history_operation := h\<rparr> = ahead p w (e\<lparr>en_history_operation := h\<rparr>)"
  "(ahead p w e)\<lparr>en_library_identity := i\<rparr> = ahead p w (e\<lparr>en_library_identity := i\<rparr>)"
  "(ahead p w e)\<lparr>en_saved_operation := l\<rparr> = ahead p w (e\<lparr>en_saved_operation := l\<rparr>)"
  "(ahead p w e)\<lparr>en_liked_operation := l\<rparr> = ahead p w (e\<lparr>en_liked_operation := l\<rparr>)"
  "(ahead p w e)\<lparr>en_playlist_identity := i\<rparr> = ahead p w (e\<lparr>en_playlist_identity := i\<rparr>)"
  "(ahead p w e)\<lparr>en_playlists_operation := q\<rparr> = ahead p w (e\<lparr>en_playlists_operation := q\<rparr>)"
  "(ahead p w e)\<lparr>en_playlist_tracks_operation := q\<rparr> = ahead p w (e\<lparr>en_playlist_tracks_operation := q\<rparr>)"
  "(ahead p w e)\<lparr>en_feed_identity := i\<rparr> = ahead p w (e\<lparr>en_feed_identity := i\<rparr>)"
  "(ahead p w e)\<lparr>en_discovery_operation := dop\<rparr> = ahead p w (e\<lparr>en_discovery_operation := dop\<rparr>)"
  by (simp_all add: ahead_def)

text \<open>A site that reads the slot catches up: what is left is the engine that asks now.\<close>

lemma ahead_prefetched:
  assumes "foresees w e" "sel p = Some r" "call (en_world e) = (r, w)"
  shows "prefetched_or sel call (ahead p w e) = prefetched_or sel call e"
  using assms by (simp add: prefetched_or_def take_prefetched_def ahead_def foresees_def)

text \<open>Nothing before it looks at the world but for the login.\<close>

lemma ahead_auth: "foresees w e \<Longrightarrow> current_auth (ahead p w e) = current_auth e"
  by (simp add: current_auth_def foresees_def) (simp add: ahead_def)

lemma ahead_snapshot: "foresees w e \<Longrightarrow> snapshot_projection (ahead p w e) = snapshot_projection e"
  by (simp add: snapshot_projection_def ahead_auth)

lemma foresees_updates [simp]:
  "foresees w (e\<lparr>en_snapshot := s\<rparr>) = foresees w e" "foresees w (e\<lparr>en_bus := bus\<rparr>) = foresees w e"
  "foresees w (e\<lparr>en_middleware := ms\<rparr>) = foresees w e" "foresees w (e\<lparr>en_recovery := r\<rparr>) = foresees w e"
  "foresees w (e\<lparr>en_playlists_operation := q\<rparr>) = foresees w e"
  "foresees w (e\<lparr>en_saved_operation := l\<rparr>) = foresees w e" "foresees w (e\<lparr>en_liked_operation := l\<rparr>) = foresees w e"
  "foresees w (e\<lparr>en_library_identity := i\<rparr>) = foresees w e"
  by (simp_all add: foresees_def)

lemma ahead_report [simp]: "report name media text (ahead p w e) = ahead p w (report name media text e)"
  by (simp add: report_def notify_event_emitted_def)

lemma ahead_middleware:
  "foresees w e \<Longrightarrow> middleware_before m c e = (r, m', e') \<Longrightarrow>
     middleware_before m c (ahead p w e) = (r, m', ahead p w e') \<and> foresees w e'"
  by (cases m)
     (auto simp: ahead_snapshot case_prod_beta Let_def report_def notify_event_emitted_def split: engine_command_type.splits)

lemma ahead_run:
  "foresees w e \<Longrightarrow> run_before ms c e = (r, ms', e') \<Longrightarrow>
     run_before ms c (ahead p w e) = (r, ms', ahead p w e') \<and> foresees w e'"
proof (induction ms arbitrary: e ms')
  case (Cons m ms)
  obtain r1 m1 e1 where m: "middleware_before m c e = (r1, m1, e1)" by (cases "middleware_before m c e")
  note a = ahead_middleware [OF Cons.prems(1) m]
  show ?case
  proof (cases r1)
    case None
    obtain r2 ms2 e2 where rest: "run_before ms c e1 = (r2, ms2, e2)" by (cases "run_before ms c e1")
    with Cons.prems m None have "r = r2" "ms' = m1 # ms2" "e' = e2" by auto
    then show ?thesis using a None Cons.IH [of e1 ms2] rest by simp
  qed (use a m Cons.prems in auto)
qed simp

lemma ahead_before:
  "foresees w e \<Longrightarrow> before_dispatch c e = (r, e') \<Longrightarrow>
     before_dispatch c (ahead p w e) = (r, ahead p w e') \<and> foresees w e'"
proof -
  assume f: "foresees w e" and b: "before_dispatch c e = (r, e')"
  obtain ms e1 where run: "run_before (en_middleware e) c e = (r, ms, e1)" "e' = e1\<lparr>en_middleware := ms\<rparr>"
    using b by (auto simp: before_dispatch_def split: prod.splits)
  from ahead_run [OF f run(1)] run(2) show ?thesis by (simp add: before_dispatch_def)
qed

lemma ahead_sync:
  assumes "foresees w e"
  shows "sync_auth_state_projection (ahead p w e) = ahead p w (sync_auth_state_projection e)"
    "foresees w (sync_auth_state_projection e)"
proof -
  have s: "sync_feed (ahead p w e) = ahead p w (sync_feed e)" "sync_account (ahead p w e) = ahead p w (sync_account e)"
    "sync_profile (ahead p w e) = ahead p w (sync_profile e)" "sync_history (ahead p w e) = ahead p w (sync_history e)"
    "sync_library (ahead p w e) = ahead p w (sync_library e)" "sync_playlist (ahead p w e) = ahead p w (sync_playlist e)"
    for e :: "'a aworld engine"
    by (simp_all add: sync_feed_def sync_account_def sync_profile_def sync_history_def sync_library_def sync_playlist_def)
  show "sync_auth_state_projection (ahead p w e) = ahead p w (sync_auth_state_projection e)"
    by (simp add: sync_auth_state_projection_def ahead_auth [OF assms] s)
  have f: "foresees w (sync_feed e) = foresees w e" "foresees w (sync_account e) = foresees w e"
    "foresees w (sync_profile e) = foresees w e" "foresees w (sync_history e) = foresees w e"
    "foresees w (sync_library e) = foresees w e" "foresees w (sync_playlist e) = foresees w e"
    for e :: "'a aworld engine"
    by (simp_all add: sync_feed_def sync_account_def sync_profile_def sync_history_def sync_library_def
        sync_playlist_def foresees_def)
  show "foresees w (sync_auth_state_projection e)" using assms by (simp add: sync_auth_state_projection_def f)
qed

subsection \<open>Commands that ask once\<close>

text \<open>The commands whose inline site is one call of one port, and the request that stands for it.\<close>

definition asks ::
  "engine_command_type \<Rightarrow> auth_identity option \<Rightarrow> 'w engine \<Rightarrow> op_request \<Rightarrow> bool" where
  "asks ty identity e q =
     (case ty of
        SearchCatalog query page \<Rightarrow> q = SearchPage query page None
      | LoadNextCatalogPage operation_id \<Rightarrow>
          (\<exists>query sz token items. en_catalog_operations e operation_id = Some (CatalogSearch query sz (Some token) items) \<and>
             q = SearchPage query \<lparr>page_size = sz, page_token = Some token\<rparr> (Some operation_id))
      | GetAccount \<Rightarrow> (\<exists>i. identity = Some i \<and> q = AccountProjection i)
      | ListPlaylists page \<Rightarrow> (\<exists>i. identity = Some i \<and> q = PlaylistPage i page)
      | UpdateHistorySettings enabled \<Rightarrow> (\<exists>i. identity = Some i \<and> q = HistorySettingsUpdate i enabled)
      | DeleteHistoryEntry history_id \<Rightarrow> (\<exists>i. identity = Some i \<and> \<not> blank history_id \<and> q = HistoryDelete i history_id)
      | ClearHistory \<Rightarrow> (\<exists>i. identity = Some i \<and> q = HistoryClear i)
      | ListSavedTracks page \<Rightarrow> (\<exists>i. identity = Some i \<and> q = LibraryPage i page True)
      | ListLikedTracks page \<Rightarrow> (\<exists>i. identity = Some i \<and> q = LibraryPage i page False)
      | SaveTrack track_id \<Rightarrow> (\<exists>i. identity = Some i \<and> \<not> blank track_id \<and> q = LibraryMutation i track_id Save)
      | RemoveSavedTrack track_id \<Rightarrow> (\<exists>i. identity = Some i \<and> \<not> blank track_id \<and> q = LibraryMutation i track_id RemoveSaved)
      | LikeTrack track_id \<Rightarrow> (\<exists>i. identity = Some i \<and> \<not> blank track_id \<and> q = LibraryMutation i track_id Like)
      | UnlikeTrack track_id \<Rightarrow> (\<exists>i. identity = Some i \<and> \<not> blank track_id \<and> q = LibraryMutation i track_id Unlike)
      | _ \<Rightarrow> False)"

lemma asks_cong: "en_catalog_operations e = en_catalog_operations e' \<Longrightarrow> asks ty i e q = asks ty i e' q"
  by (simp only: asks_def)

lemma map_answerD: "map_answer f call w0 = (r, w) \<Longrightarrow> \<exists>r0. call w0 = (r0, w) \<and> r = map_ok f r0"
  by (auto simp: map_answer_def split: prod.splits)

lemma expect_map_ok [simp]: "(\<And>x. sel (f x) = Some x) \<Longrightarrow> expect_result sel (map_ok f r) = r"
  by (cases r) (simp_all add: expect_result_def)

lemma account_catches_up:
  assumes "foresees w e" "en_account_port e = Some port" "ap_get_account port i (en_world e) = (r, w)"
    "auth_identity_from_state (sn_auth_state s) = Some i"
  shows "dispatch_account_command GetAccount s (ahead (PrefetchedAccount r) w e) = dispatch_account_command GetAccount s e"
  using ahead_prefetched [of w e as_account "PrefetchedAccount r" r "ap_get_account port i"] assms
  by (simp add: dispatch_account_command.simps get_account_def account_context_def)

lemma search_catches_up:
  assumes "foresees w e" "rp_search_catalog (en_repository e) query page (en_world e) = (r, w)"
  shows "search_catalog now query page s (ahead (PrefetchedSearch r) w e) = search_catalog now query page s e"
    "page = \<lparr>page_size = sz, page_token = Some token\<rparr> \<Longrightarrow>
       continue_search operation_id query sz token items s (ahead (PrefetchedSearch r) w e) =
       continue_search operation_id query sz token items s e"
  using ahead_prefetched [of w e as_search "PrefetchedSearch r" r "rp_search_catalog (en_repository e) query page"] assms
  by (simp_all add: search_catalog_def continue_search_def)

lemma playlists_catch_up:
  assumes "foresees w e" "en_playlist_port e = Some port" "plp_list port i page (en_world e) = (r, w)"
    "auth_identity_from_state (sn_auth_state s) = Some i"
  shows "list_playlists page s (ahead (PrefetchedPlaylists r) w e) = list_playlists page s e"
  using ahead_prefetched [of w "e\<lparr>en_playlists_operation := None\<rparr>" as_playlists "PrefetchedPlaylists r" r "plp_list port i page"]
    assms by (simp add: list_playlists_def playlist_context_def)

lemma history_catches_up:
  assumes "foresees w e" "en_history_port e = Some port" "auth_identity_from_state (sn_auth_state s) = Some i"
  shows "hp_update_settings port i enabled (en_world e) = (ru, w) \<Longrightarrow>
      update_history_settings enabled s (ahead (PrefetchedHistorySettingsUpdate ru) w e) = update_history_settings enabled s e"
    "hp_delete_entry port i history_id (en_world e) = (rd, w) \<Longrightarrow> \<not> blank history_id \<Longrightarrow>
      delete_history_entry history_id s (ahead (PrefetchedHistoryDelete rd) w e) = delete_history_entry history_id s e"
    "hp_clear port i (en_world e) = (rc, w) \<Longrightarrow>
      clear_history s (ahead (PrefetchedHistoryClear rc) w e) = clear_history s e"
proof -
  have c: "history_context s (Some port) = Ok (i, port)"
    using assms(3) by (auto simp: history_context_def history_owner_identity_def is_authenticated_def
        auth_identity_from_state_def split: auth_state.splits if_splits)
  show "hp_update_settings port i enabled (en_world e) = (ru, w) \<Longrightarrow>
      update_history_settings enabled s (ahead (PrefetchedHistorySettingsUpdate ru) w e) = update_history_settings enabled s e"
    using ahead_prefetched [OF assms(1), of as_history_settings_update "PrefetchedHistorySettingsUpdate ru" ru
        "hp_update_settings port i enabled"] assms(2,3)
    by (simp add: update_history_settings_def)
  show "hp_delete_entry port i history_id (en_world e) = (rd, w) \<Longrightarrow> \<not> blank history_id \<Longrightarrow>
      delete_history_entry history_id s (ahead (PrefetchedHistoryDelete rd) w e) = delete_history_entry history_id s e"
    using ahead_prefetched [OF assms(1), of as_history_delete "PrefetchedHistoryDelete rd" rd
        "hp_delete_entry port i history_id"] assms(2,3) c
    by (simp add: delete_history_entry_def)
  show "hp_clear port i (en_world e) = (rc, w) \<Longrightarrow>
      clear_history s (ahead (PrefetchedHistoryClear rc) w e) = clear_history s e"
    using ahead_prefetched [OF assms(1), of as_history_clear "PrefetchedHistoryClear rc" rc "hp_clear port i"] assms(2,3) c
    by (simp add: clear_history_def)
qed

lemma library_page_catches_up:
  assumes "foresees w e" "en_library_port e = Some port" "auth_identity_from_state (sn_auth_state s) = Some i"
    "(if saved then lp_list_saved port i page else lp_list_liked port i page) (en_world e) = (r, w)"
  shows "load_library_page s page saved (ahead (PrefetchedLibraryPage r) w e) = load_library_page s page saved e"
  using ahead_prefetched [of w e as_library_page "PrefetchedLibraryPage r" r
      "if saved then lp_list_saved port i page else lp_list_liked port i page"] assms
  by (simp add: load_library_page_def fetch_library_page_def library_context_def)

lemma library_mutation_catches_up:
  assumes "foresees w e" "en_library_port e = Some port" "auth_identity_from_state (sn_auth_state s) = Some i"
    "library_mutation_call port mutation i track_id (en_world e) = (r, w)" "\<not> blank track_id"
  shows "mutate_library s track_id mutation (ahead (PrefetchedLibraryMutation r) w e) = mutate_library s track_id mutation e"
proof -
  let ?e = "publish_intermediate_snapshot (library_pend track_id mutation s) (e\<lparr>en_library_identity := Some i\<rparr>)"
  have p: "publish_intermediate_snapshot t (ahead p w x) = ahead p w (publish_intermediate_snapshot t x)" for t p x
    by (simp add: publish_intermediate_snapshot_def notify_state_changed_def)
  have "foresees w ?e" "en_world ?e = en_world e"
    using assms(1) by (simp_all add: publish_intermediate_snapshot_def notify_state_changed_def)
  from ahead_prefetched [OF this(1), of as_library_mutation "PrefetchedLibraryMutation r" r
      "library_mutation_call port mutation i track_id"] this(2) assms(2-5)
  show ?thesis by (simp add: mutate_library_def library_context_def p)
qed

lemma asks_cases:
  assumes "asks ty identity e q"
  obtains (search) query page where "ty = SearchCatalog query page" "q = SearchPage query page None"
  | (more) operation_id query sz token items where "ty = LoadNextCatalogPage operation_id"
      "en_catalog_operations e operation_id = Some (CatalogSearch query sz (Some token) items)"
      "q = SearchPage query \<lparr>page_size = sz, page_token = Some token\<rparr> (Some operation_id)"
  | (account) i where "ty = GetAccount" "identity = Some i" "q = AccountProjection i"
  | (playlists) i page where "ty = ListPlaylists page" "identity = Some i" "q = PlaylistPage i page"
  | (settings) i enabled where "ty = UpdateHistorySettings enabled" "identity = Some i" "q = HistorySettingsUpdate i enabled"
  | (delete) i history_id where "ty = DeleteHistoryEntry history_id" "identity = Some i" "\<not> blank history_id"
      "q = HistoryDelete i history_id"
  | (clear) i where "ty = ClearHistory" "identity = Some i" "q = HistoryClear i"
  | (saved) i page where "ty = ListSavedTracks page" "identity = Some i" "q = LibraryPage i page True"
  | (liked) i page where "ty = ListLikedTracks page" "identity = Some i" "q = LibraryPage i page False"
  | (mutation) i track_id mutation where "identity = Some i" "\<not> blank track_id" "q = LibraryMutation i track_id mutation"
      "ty = (case mutation of Save \<Rightarrow> SaveTrack track_id | RemoveSaved \<Rightarrow> RemoveSavedTrack track_id
              | Like \<Rightarrow> LikeTrack track_id | Unlike \<Rightarrow> UnlikeTrack track_id)"
  using assms unfolding asks_def
  by (cases ty; simp only: engine_command_type.case; (elim exE conjE)?; fastforce)

lemma mutation_answer:
  assumes "library_mutation_job port i track_id mutation w0 = (r, w)"
  shows "\<exists>r0. library_mutation_call port mutation i track_id w0 = (r0, w) \<and> r = map_ok LibraryMutated r0"
proof -
  have m: "map_ok f (map_ok g x) = map_ok (f \<circ> g) x" for f :: "'b \<Rightarrow> 'c" and g :: "'d \<Rightarrow> 'b" and x :: "'d result"
    by (cases x) simp_all
  show ?thesis using assms
    by (cases mutation) (auto simp: library_mutation_job_def library_mutation_call_def map_answer_def m comp_def split: prod.splits)
qed

lemma arm_catches_up:
  assumes "foresees w e" "spawn_operation_worker q e = Some job" "job (en_world e) = (r, w)"
    and "asks ty (auth_identity_from_state (sn_auth_state (ct_snapshot t))) e q"
  shows "run_arm d prev now ty t (ahead (prefetched_from q r) w e) = run_arm d prev now ty t e"
  using assms(4)
proof (cases rule: asks_cases)
  case (search query page)
  with assms(2,3) obtain r0 where "rp_search_catalog (en_repository e) query page (en_world e) = (r0, w)"
    "prefetched_from q r = PrefetchedSearch r0"
    by (auto simp: spawn_operation_worker_def dest!: map_answerD)
  with search search_catches_up(1) [OF assms(1)] show ?thesis
    by (simp add: run_arm_def run_catalog_def dispatch_catalog_command_def)
next
  case (more operation_id query sz token items)
  with assms(2,3) obtain r0 where
    "rp_search_catalog (en_repository e) query \<lparr>page_size = sz, page_token = Some token\<rparr> (en_world e) = (r0, w)"
    "prefetched_from q r = PrefetchedSearch r0"
    by (auto simp: spawn_operation_worker_def dest!: map_answerD)
  with more search_catches_up(2) [OF assms(1)] show ?thesis
    by (simp add: run_arm_def run_catalog_def dispatch_catalog_command_def load_next_catalog_page_def)
next
  case (account i)
  with assms(2,3) obtain port r0 where "en_account_port e = Some port" "ap_get_account port i (en_world e) = (r0, w)"
    "prefetched_from q r = PrefetchedAccount r0"
    by (auto simp: spawn_operation_worker_def dest!: map_answerD)
  with account account_catches_up [OF assms(1)] show ?thesis by (simp add: run_arm_def)
next
  case (playlists i page)
  with assms(2,3) obtain port r0 where "en_playlist_port e = Some port" "plp_list port i page (en_world e) = (r0, w)"
    "prefetched_from q r = PrefetchedPlaylists r0"
    by (auto simp: spawn_operation_worker_def dest!: map_answerD)
  with playlists playlists_catch_up [OF assms(1)] show ?thesis by (simp add: run_arm_def dispatch_playlist_command_def)
next
  case (settings i enabled)
  with assms(2,3) obtain port r0 where "en_history_port e = Some port" "hp_update_settings port i enabled (en_world e) = (r0, w)"
    "prefetched_from q r = PrefetchedHistorySettingsUpdate r0"
    by (auto simp: spawn_operation_worker_def dest!: map_answerD)
  with settings history_catches_up(1) [OF assms(1)] show ?thesis by (simp add: run_arm_def dispatch_history_command_def)
next
  case (delete i history_id)
  with assms(2,3) obtain port r0 where "en_history_port e = Some port" "hp_delete_entry port i history_id (en_world e) = (r0, w)"
    "prefetched_from q r = PrefetchedHistoryDelete r0"
    by (auto simp: spawn_operation_worker_def dest!: map_answerD)
  with delete history_catches_up(2) [OF assms(1)] show ?thesis by (simp add: run_arm_def dispatch_history_command_def)
next
  case (clear i)
  with assms(2,3) obtain port r0 where "en_history_port e = Some port" "hp_clear port i (en_world e) = (r0, w)"
    "prefetched_from q r = PrefetchedHistoryClear r0"
    by (auto simp: spawn_operation_worker_def dest!: map_answerD)
  with clear history_catches_up(3) [OF assms(1)] show ?thesis by (simp add: run_arm_def dispatch_history_command_def)
next
  case (saved i page)
  with assms(2,3) obtain port r0 where "en_library_port e = Some port" "lp_list_saved port i page (en_world e) = (r0, w)"
    "prefetched_from q r = PrefetchedLibraryPage r0"
    by (auto simp: spawn_operation_worker_def dest!: map_answerD)
  with saved library_page_catches_up [of w "e\<lparr>en_saved_operation := None\<rparr>" port
      "(ct_snapshot t)\<lparr>sn_saved_tracks := [], sn_saved_tracks_next := None\<rparr>" i True page r0] assms(1)
  show ?thesis by (simp add: run_arm_def dispatch_library_command_def)
next
  case (liked i page)
  with assms(2,3) obtain port r0 where "en_library_port e = Some port" "lp_list_liked port i page (en_world e) = (r0, w)"
    "prefetched_from q r = PrefetchedLibraryPage r0"
    by (auto simp: spawn_operation_worker_def dest!: map_answerD)
  with liked library_page_catches_up [of w "e\<lparr>en_liked_operation := None\<rparr>" port
      "(ct_snapshot t)\<lparr>sn_liked_tracks := [], sn_liked_tracks_next := None\<rparr>" i False page r0] assms(1)
  show ?thesis by (simp add: run_arm_def dispatch_library_command_def)
next
  case (mutation i track_id m)
  with assms(2,3) obtain port r0 where p: "en_library_port e = Some port"
    "library_mutation_call port m i track_id (en_world e) = (r0, w)" "prefetched_from q r = PrefetchedLibraryMutation r0"
    by (auto simp: spawn_operation_worker_def dest!: mutation_answer)
  from library_mutation_catches_up [OF assms(1) p(1) _ p(2) mutation(2), of "ct_snapshot t"] mutation p(3)
  show ?thesis by (cases m) (simp_all add: run_arm_def dispatch_library_command_def)
qed

subsection \<open>The split path\<close>

definition asks_once :: "engine_command_type \<Rightarrow> bool" where
  "asks_once ty =
     (case ty of
        GetAccount \<Rightarrow> True | SearchCatalog _ _ \<Rightarrow> True | LoadNextCatalogPage _ \<Rightarrow> True | ListPlaylists _ \<Rightarrow> True
      | UpdateHistorySettings _ \<Rightarrow> True | DeleteHistoryEntry _ \<Rightarrow> True | ClearHistory \<Rightarrow> True
      | ListSavedTracks _ \<Rightarrow> True | ListLikedTracks _ \<Rightarrow> True
      | SaveTrack _ \<Rightarrow> True | RemoveSavedTrack _ \<Rightarrow> True | LikeTrack _ \<Rightarrow> True | UnlikeTrack _ \<Rightarrow> True
      | _ \<Rightarrow> False)"

lemma launchedD:
  assumes "try_launch n c a = (Some (operation, job), b)"
  shows "prepare_operation n (command_type c) a = (Some operation, b) \<and>
    spawn_operation_worker (eo_request operation) (ac_engine b) = Some job"
proof -
  obtain q a1 where p: "prepare_operation n (command_type c) a = (q, a1)" by (cases "prepare_operation n (command_type c) a")
  with assms show ?thesis by (cases q) (auto simp: try_launch_def split: if_splits)
qed

lemma asks_once_plain: "asks_once ty \<Longrightarrow> ty \<noteq> StopVoiceInteraction \<and> intend_playback ty e = e"
  by (cases ty) (simp_all add: asks_once_def intend_playback_def)

lemma identity_ready:
  "auth_identity_from_state auth = account_identity auth \<Longrightarrow>
     (account_identity auth = Some i \<longrightarrow> auth_identity_from_state auth = Some i) \<and>
     (playlist_identity auth = Some i \<longrightarrow> auth_identity_from_state auth = Some i)"
  by (auto simp: playlist_identity_def identity_checked_def bind_eq_Some_conv split: if_splits)

lemma session_identity_eq: "session_identity auth = auth_identity_from_state auth"
  by (simp add: session_identity_def current_session_ids_def identity_checked_def auth_identity_from_state_def
      split: auth_state.split)

lemma prepared_asks:
  assumes "prepare_operation n ty a = (Some operation, a')" "asks_once ty"
    and "auth_identity_from_state (actor_auth a) = account_identity (actor_auth a)"
  shows "asks ty (auth_identity_from_state (actor_auth a)) (ac_engine a) (eo_request operation) \<and> ac_engine a' = ac_engine a"
proof -
  note launch = launch_new_def launch_under_def allocate_operation_def Let_def
  note library = prepare_library_page_def prepare_library_mutation_def library_ready_def session_identity_eq
  note history = prepare_history_def history_ready_def session_identity_eq
  note ready = identity_ready [OF assms(3)]
  show ?thesis
  proof (cases ty)
    case GetAccount
    with assms(1) ready show ?thesis by (auto simp: asks_def launch split: option.splits)
  next
    case (SearchCatalog query page)
    with assms(1) show ?thesis by (auto simp: asks_def launch)
  next
    case (LoadNextCatalogPage operation_id)
    with assms(1) show ?thesis
      by (auto simp: asks_def launch actor_catalog_continuation_def split: option.splits catalog_operation.splits)
  next
    case (ListPlaylists page)
    with assms(1) ready show ?thesis by (auto simp: asks_def launch split: option.splits)
  next
    case (UpdateHistorySettings enabled)
    with assms(1) show ?thesis by (auto simp: asks_def launch history split: option.splits if_splits)
  next
    case (DeleteHistoryEntry history_id)
    with assms(1) show ?thesis by (auto simp: asks_def launch history split: option.splits if_splits)
  next
    case ClearHistory
    with assms(1) show ?thesis by (auto simp: asks_def launch history split: option.splits if_splits)
  next
    case (ListSavedTracks page)
    with assms(1) show ?thesis by (auto simp: asks_def launch library split: option.splits if_splits)
  next
    case (ListLikedTracks page)
    with assms(1) show ?thesis by (auto simp: asks_def launch library split: option.splits if_splits)
  next
    case (SaveTrack track_id)
    with assms(1) show ?thesis by (auto simp: asks_def launch library split: option.splits if_splits)
  next
    case (RemoveSavedTrack track_id)
    with assms(1) show ?thesis by (auto simp: asks_def launch library split: option.splits if_splits)
  next
    case (LikeTrack track_id)
    with assms(1) show ?thesis by (auto simp: asks_def launch library split: option.splits if_splits)
  next
    case (UnlikeTrack track_id)
    with assms(1) show ?thesis by (auto simp: asks_def launch library split: option.splits if_splits)
  qed (use assms(2) in \<open>simp_all add: asks_once_def\<close>)
qed

text \<open>What a worker is made of.\<close>

definition worker_part :: "'w engine \<Rightarrow> _" where
  "worker_part e =
     (en_world e, en_repository e, en_account_port e, en_playlist_port e, en_history_port e, en_library_port e,
      en_playback_port e, en_catalog_operations e, en_auth_state_provider e, en_prefetched e, en_middleware e)"

lemma worker_part_sync [simp]: "worker_part (sync_auth_state_projection e) = worker_part e"
proof -
  have steps: "worker_part (sync_feed e) = worker_part e" "worker_part (sync_account e) = worker_part e"
    "worker_part (sync_profile e) = worker_part e" "worker_part (sync_history e) = worker_part e"
    "worker_part (sync_library e) = worker_part e" "worker_part (sync_playlist e) = worker_part e" for e :: "'w engine"
    by (simp_all add: worker_part_def sync_feed_def sync_account_def sync_profile_def sync_history_def sync_library_def
        sync_playlist_def)
  show ?thesis unfolding sync_auth_state_projection_def steps by (simp add: worker_part_def)
qed

lemma spawn_kept:
  "spawn_operation_worker q (sync_auth_state_projection (e\<lparr>en_bus := bus, en_middleware := ms\<rparr>)) = spawn_operation_worker q e"
  "en_world (sync_auth_state_projection (e\<lparr>en_bus := bus, en_middleware := ms\<rparr>)) = en_world e"
  "en_catalog_operations (sync_auth_state_projection (e\<lparr>en_bus := bus, en_middleware := ms\<rparr>)) = en_catalog_operations e"
proof -
  let ?s = "sync_auth_state_projection (e\<lparr>en_bus := bus, en_middleware := ms\<rparr>)"
  have "worker_part ?s = worker_part (e\<lparr>en_bus := bus, en_middleware := ms\<rparr>)" by (rule worker_part_sync)
  then have part: "en_world ?s = en_world e" "en_repository ?s = en_repository e" "en_account_port ?s = en_account_port e"
    "en_playlist_port ?s = en_playlist_port e" "en_history_port ?s = en_history_port e"
    "en_library_port ?s = en_library_port e" "en_playback_port ?s = en_playback_port e"
    "en_catalog_operations ?s = en_catalog_operations e"
    by (simp_all add: worker_part_def)
  show "spawn_operation_worker q ?s = spawn_operation_worker q e" by (simp only: spawn_operation_worker_def part)
  show "en_world ?s = en_world e" "en_catalog_operations ?s = en_catalog_operations e" by (fact part)+
qed

lemma opening_auth: "sn_auth_state (ct_snapshot (open_turn ty now s)) = sn_auth_state s"
  by (simp add: open_turn_def opening_snapshot_def Let_def with_busy_def with_error_def with_playback_state_def
      with_position_rebased_at_def with_progress_tick_def)

text \<open>C2: the split path does what the inline path does. Take a command that asks a port once, in a state in which
  its operation is launched: if the port answers the worker, leaves the login as it is, and nothing
  else happens until the completion, then the command completed with that answer has the outcome the
  inline command has, and leaves the same engine, queue, operations, projections, port states and
  observers' reports included (and an empty slot). The login must be a current session, and the
  middlewares must not refuse the command.\<close>

theorem split_path_equals_inline:
  assumes "asks_once (command_type c)" "try_launch n c a = (Some (operation, job), b)"
    and "auth_identity_from_state (actor_auth a) = account_identity (actor_auth a)"
    and "en_auth_state_provider (ac_engine a) = Some fst" "en_prefetched (ac_engine a) = None"
    and "fst (before_dispatch c (ac_engine a)) = None" "ac_latest_epoch b \<le> now"
    and "job (en_world (ac_engine a)) = (r, w)" "fst w = actor_auth a"
  shows "redispatch \<lparr>pd_operation = operation, pd_command = c, pd_now_epoch_millis = now\<rparr> r
      (b\<lparr>ac_engine := (ac_engine b)\<lparr>en_world := w\<rparr>\<rparr>) =
    map_option (\<lambda>(outcome, e). (outcome, e\<lparr>en_prefetched := None\<rparr>)) (dispatch_command c now (ac_engine a))"
proof -
  let ?e = "ac_engine a" and ?ty = "command_type c" and ?q = "eo_request operation"
  obtain a1 where pr: "prepare_operation n ?ty a = (Some operation, a1)"
    and sp: "spawn_operation_worker ?q (ac_engine a1) = Some job" and b: "b = a1"
    using launchedD [OF assms(2)] by blast
  from prepared_asks [OF pr assms(1,3)] have asks: "asks ?ty (auth_identity_from_state (actor_auth a)) ?e ?q"
    and e: "ac_engine a1 = ?e" by simp_all
  let ?p = "prefetched_from ?q r"
  have f: "foresees w ?e" using assms(4,5,9) by (simp add: foresees_def actor_auth_def)
  obtain e1 where before: "before_dispatch c ?e = (None, e1)" using assms(6) by (cases "before_dispatch c ?e") simp
  obtain bus ms where e1: "e1 = ?e\<lparr>en_bus := bus, en_middleware := ms\<rparr>" using before_dispatch_bus [OF before] by blast
  note ahead1 = ahead_before [OF f before, of ?p]
  then have f1: "foresees w e1" by simp
  let ?e2 = "sync_auth_state_projection e1" and ?t = "open_turn ?ty now (en_snapshot (sync_auth_state_projection e1))"
  note ahead2 = ahead_sync(1) [OF f1, of ?p] ahead_sync(2) [OF f1]
  have auth: "sn_auth_state (ct_snapshot ?t) = actor_auth a"
    using assms(4) by (simp add: opening_auth actor_auth_def) (simp add: e1 current_auth_def)
  have world: "job (en_world ?e2) = (r, w)" using assms(8) by (simp add: e1 spawn_kept)
  have spawn: "spawn_operation_worker ?q ?e2 = Some job" using sp e by (simp add: e1 spawn_kept)
  have asks2: "asks ?ty (auth_identity_from_state (sn_auth_state (ct_snapshot ?t))) ?e2 ?q"
    using asks asks_cong [of ?e2 ?e] unfolding auth by (simp add: e1 spawn_kept)
  have arm: "run_arm d prev now ?ty ?t (ahead ?p w ?e2) = run_arm d prev now ?ty ?t ?e2" for d prev
    by (rule arm_catches_up [OF ahead2(2) spawn world asks2])
  have plain: "?ty \<noteq> StopVoiceInteraction" "intend_playback ?ty x = x" for x :: "'a aworld engine"
    using asks_once_plain [OF assms(1), of x] by simp_all
  have "dispatch_command c now (ahead ?p w ?e) = dispatch_command c now ?e"
    unfolding dispatch_command.simps [of c now "ahead ?p w ?e"] dispatch_command.simps [of c now ?e]
    using ahead1 ahead2(1) plain by (simp add: before arm Let_def cong: option.case_cong)
  moreover have "max now (ac_latest_epoch a1) = now" using assms(7) b by (simp add: max_def)
  ultimately show ?thesis by (simp add: redispatch_def b e ahead_def)
qed

text \<open>A search without a login, launched in the sample actor: split and inline it ends in the same way.\<close>

theorem split_path_equals_inline_witness:
  "\<exists>operation job b r w. try_launch 1 sample_search sample_actor = (Some (operation, job), b) \<and>
     job (en_world (ac_engine sample_actor)) = (r, w) \<and>
     redispatch \<lparr>pd_operation = operation, pd_command = sample_search, pd_now_epoch_millis = 9\<rparr> r
       (b\<lparr>ac_engine := (ac_engine b)\<lparr>en_world := w\<rparr>\<rparr>) =
     map_option (\<lambda>(outcome, e). (outcome, e\<lparr>en_prefetched := None\<rparr>)) (dispatch_command sample_search 9 (ac_engine sample_actor))"
proof -
  have ty: "command_type sample_search = SearchCatalog ''abba'' page_request_default"
    by (simp add: sample_search_def engine_command_new_def)
  obtain operation job b where l: "try_launch 1 sample_search sample_actor = (Some (operation, job), b)"
    and job: "job = map_answer (\<lambda>p. SearchPaged [] (pr_items p) (pr_next_page_token p))
       (rp_search_catalog (en_repository (ac_engine sample_actor)) ''abba'' page_request_default)"
    and late: "ac_latest_epoch b = ac_latest_epoch sample_actor"
    by (simp add: try_launch_def ty launch_new_def allocate_operation_def spawn_operation_worker_def sample_fields
        actor_config_default_def Let_def)
  have "worker_part (ac_engine sample_actor) =
      worker_part ((engine_new null_codec id (Anonymous, ()) 7)\<lparr>en_world := (Anonymous, ()), en_auth_state_provider := Some fst\<rparr>)"
    using sample_login by (simp add: sample_actor_def actor_spawn_def start_check_def actor_config_default_def adopt_engine_def
        actor_auth_def Let_def)
  then have fields: "en_repository (ac_engine sample_actor) = in_memory_repository id []"
    "en_auth_state_provider (ac_engine sample_actor) = Some fst" "en_prefetched (ac_engine sample_actor) = None"
    "en_middleware (ac_engine sample_actor) = []" "ac_latest_epoch sample_actor = 0"
    by (simp_all add: worker_part_def engine_new_def engine_fields_new_def Let_def)
      (simp add: sample_actor_def actor_spawn_def start_check_def actor_config_default_def Let_def)
  let ?w = "en_world (ac_engine sample_actor)"
  obtain r where j: "job ?w = (r, ?w)"
    by (simp add: job fields map_answer_def in_memory_repository_def)
  have "auth_identity_from_state (actor_auth sample_actor) = account_identity (actor_auth sample_actor)"
    by (simp add: sample_login account_identity_def)
  with l j late fields have "redispatch \<lparr>pd_operation = operation, pd_command = sample_search, pd_now_epoch_millis = 9\<rparr> r
       (b\<lparr>ac_engine := (ac_engine b)\<lparr>en_world := ?w\<rparr>\<rparr>) =
     map_option (\<lambda>(outcome, e). (outcome, e\<lparr>en_prefetched := None\<rparr>)) (dispatch_command sample_search 9 (ac_engine sample_actor))"
    by (intro split_path_equals_inline [OF _ l _ _ _ _ _ j]) (simp_all add: asks_once_def ty before_dispatch_def actor_auth_def)
  with l j show ?thesis by blast
qed

subsection \<open>Anonymous history on the split path\<close>

text \<open>A worker for the settings and one for the listing each carry the anonymous entries of the moment they
  were launched, and submit them.\<close>

lemma submit_entries_world:
  "\<forall>rec v. fst (hp_record port i rec v) = Inr True \<Longrightarrow>
     snd (submit_entries port i es promoted v) = submit_records port i (List.map_filter to_playback_record es) v"
proof (induction es arbitrary: promoted v)
  case (Cons entry es)
  show ?case
  proof (cases "to_playback_record entry")
    case (Some rec)
    obtain v' where "hp_record port i rec v = (Inr True, v')" using Cons.prems by (metis prod.collapse)
    with Some Cons show ?thesis by (simp add: map_filter_simps)
  qed (use Cons in \<open>simp add: map_filter_simps\<close>)
qed (simp add: map_filter_simps)

lemma reconcile_entries_world:
  assumes "\<forall>rec v. fst (hp_record port i rec v) = Inr True" "\<forall>v. hp_get_settings port i v = (Inr s, v)" "hs_enabled s"
    and "setting \<noteq> Some False"
  shows "snd (reconcile_anonymous_entries port i es setting v) = submit_records port i (List.map_filter to_playback_record es) v"
  using assms submit_entries_world [OF assms(1)]
  by (cases setting) (auto simp: reconcile_anonymous_entries_def map_filter_simps Let_def)

text \<open>C16: listing the history right after loading its settings submits anonymous listens twice. Both commands are
  launched with the same buffered entries. The listing supersedes the settings, whose answer then
  never reaches the engine, but the worker of the settings submits all entries to the account just
  the same, and the worker of the listing submits all of them again.\<close>

theorem anonymous_history_submitted_twice:
  fixes a :: "'x actor"
  defines "recs \<equiv> List.map_filter to_playback_record (actor_pending_anonymous_history (ac_engine a))"
  assumes "command_type c = LoadHistorySettings" "command_type c' = ListHistory page"
    and "acf_split_remote_operations (ac_config a)" "history_ready a = Some i"
    and "en_history_port (ac_engine a) = Some port" "unat (dg_history (ac_generations a)) < 2 ^ 64 - 2"
    and "\<forall>rec v. fst (hp_record port i rec v) = Inr True" "\<forall>v. hp_get_settings port i v = (Inr s, v)" "hs_enabled s"
    and "actor_history_settings_enabled (ac_engine a) \<noteq> Some False"
  shows "\<exists>q job b q' job' d. try_launch n c a = (Some (q, job), b) \<and> try_launch n' c' b = (Some (q', job'), d) \<and>
    \<not> is_current (ac_generations d) (eo_generation q) \<and>
    (\<forall>v. snd (job v) = submit_records port i recs v) \<and>
    (\<forall>v. snd (job' v) = snd (hp_list port i (bounded_history_page_request page) (submit_records port i recs v)))"
proof -
  let ?es = "actor_pending_anonymous_history (ac_engine a)" and ?known = "actor_history_settings_enabled (ac_engine a)"
  have get: "hp_get_settings port i v = (Inr s, v)" for v using assms(9) by blast
  have ready: "history_ready (a\<lparr>ac_generations := g, ac_next_operation_id := k\<rparr>) = Some i" for g k
    using assms(5) by (auto simp: history_ready_def actor_auth_def split: if_splits)
  obtain q b where 1: "try_launch n c a = (Some (q, history_settings_job port i ?es), b)"
    and b: "ac_engine b = ac_engine a" "history_ready b = Some i" "ac_config b = ac_config a"
      "ac_generations b = bump HistoryDomain (ac_generations a)"
    and q: "eo_generation q = HistoryGeneration (sat_add (dg_history (ac_generations a)) 1)"
    using assms(2,4,5,6) ready
    by (simp add: try_launch_def prepare_history_def launch_new_def allocate_operation_def spawn_operation_worker_def Let_def)
  obtain q' d where 2: "try_launch n' c' b = (Some (q', history_page_job port i (bounded_history_page_request page) ?es ?known), d)"
    and d: "dg_history (ac_generations d) = sat_add (sat_add (dg_history (ac_generations a)) 1) 1"
    using assms(3,4,6) b
    by (simp add: try_launch_def prepare_history_def launch_new_def allocate_operation_def spawn_operation_worker_def Let_def)
  have "sat_add (sat_add (dg_history (ac_generations a)) 1) 1 \<noteq> sat_add (dg_history (ac_generations a)) 1"
    using sat_add_one_less [of "sat_add (dg_history (ac_generations a)) 1"] assms(7)
    by (auto simp: word_unat_eq_iff unat_sat_add)
  then have "\<not> is_current (ac_generations d) (eo_generation q)" by (simp add: q d)
  moreover have "snd (history_settings_job port i ?es v) = submit_records port i recs v" for v
    using reconcile_entries_world [OF assms(8-10), of "Some True" ?es v] assms(10)
    by (simp add: history_settings_job_def recs_def get case_prod_beta Let_def)
  moreover have "snd (history_page_job port i (bounded_history_page_request page) ?es ?known v) =
      snd (hp_list port i (bounded_history_page_request page) (submit_records port i recs v))" for v
    using reconcile_entries_world [OF assms(8-10) assms(11), of ?es v]
    by (simp add: history_page_job_def map_answer_def recs_def case_prod_beta Let_def)
  ultimately show ?thesis using 1 2 by blast
qed

text \<open>A login with one buffered listen: the account gets it twice.\<close>

definition recording_port :: "(playback_record list) aworld history_port" where
  "recording_port =
     (sample_history_port (Inr \<lparr>hs_enabled = True\<rparr>) (\<lambda>_. Inr True) (Inr \<lparr>pr_items = [], pr_next_page_token = None\<rparr>)
        (logged_in, []))\<lparr>hp_list := \<lambda>_ _ w. (Inr \<lparr>pr_items = [], pr_next_page_token = None\<rparr>, w)\<rparr>"

definition promoting_actor :: "playback_record list actor" where
  "promoting_actor =
     (case actor_spawn (sample_history_engine [sample_entry ''a'']) actor_config_default True of Inr a \<Rightarrow>
        a\<lparr>ac_engine := (sample_history_engine [sample_entry ''a''])\<lparr>en_history_port := Some recording_port\<rparr>\<rparr>)"

theorem anonymous_history_submitted_twice_witness:
  "\<exists>q job b q' job' d.
     try_launch 1 (engine_command_new LoadHistorySettings None) promoting_actor = (Some (q, job), b) \<and>
     try_launch 2 (engine_command_new (ListHistory page_request_default) None) b = (Some (q', job'), d) \<and>
     length (snd (snd (job' (snd (job (logged_in, [])))))) = 2"
proof -
  let ?a = "promoting_actor" and ?i = "sample_identity"
  let ?recs = "List.map_filter to_playback_record (actor_pending_anonymous_history (ac_engine ?a))"
  have e: "ac_engine ?a = (sample_history_engine [sample_entry ''a''])\<lparr>en_history_port := Some recording_port\<rparr>"
    and f: "acf_split_remote_operations (ac_config ?a)" "unat (dg_history (ac_generations ?a)) < 2 ^ 64 - 2"
    by (simp_all add: promoting_actor_def actor_spawn_def start_check_def actor_config_default_def
        domain_generations_default_def Let_def)
  have ready: "history_ready ?a = Some ?i" by (simp add: history_ready_def actor_auth_def e session_identity_eq)
  have settings: "actor_history_settings_enabled (ac_engine ?a) \<noteq> Some False"
    by (simp add: actor_history_settings_enabled_def e sample_history_engine_def engine_new_def engine_fields_new_def
        snapshot_idle_def snapshot_default_def apply_queue_projection_def Let_def)
  have port: "\<forall>rec v. fst (hp_record recording_port ?i rec v) = Inr True"
    "\<forall>v. hp_get_settings recording_port ?i v = (Inr \<lparr>hs_enabled = True\<rparr>, v)"
    by (auto simp: recording_port_def sample_history_port_def)
  have "length ?recs = 1"
    by (simp add: e actor_pending_anonymous_history_def map_filter_simps to_playback_record_def sample_entry_def
        playback_record_new_def sample_track_def blank_leading_visible normalize_completion_ratio_def)
  then obtain x where recs: "?recs = [x]" by (auto simp: length_Suc_conv)
  from anonymous_history_submitted_twice [OF _ _ f(1) ready _ f(2) port _ settings,
      of "engine_command_new LoadHistorySettings None" "engine_command_new (ListHistory page_request_default) None"
        page_request_default 1 2] recs
  show ?thesis
    by (simp add: engine_command_new_def e) (auto simp: recording_port_def sample_history_port_def)
qed

subsection \<open>A panic at the completion\<close>

text \<open>A panic at a completion strands every open command. A command that panics when it is first dispatched makes the actor
  settle all accepted commands; one that panics when its operation completes ends the task with no
  outcome for it, for any other accepted command or for those in the queue.\<close>

lemma completion_panic_strands_commands:
  assumes "ac_exit a = None" "ac_lifecycle_rx a = []" "ac_edge_rx a = []" "ac_completion_rx a = c # cs"
    and "ac_pending a (cp_operation_id c) = Some p" "cp_generation c = eo_generation (pd_operation p)"
    and "is_current (ac_generations a) (cp_generation c)" "ti_panics ti" "\<not> ti_closed ti"
  shows "\<exists>b. actor_turn ti a = Some b \<and> ac_exit b = Some (Inl Panicked) \<and> ac_events b = ac_events a \<and>
    settled b = settled a \<and> ac_replies b = ac_replies a \<and> ac_accepted b = ac_accepted a \<and>
    ac_responses b = ac_responses a \<and> ac_command_rx b = ac_command_rx a"
  using assms
  by (simp add: actor_turn_def select_branch_def process_operation_completion_def end_on_failure_def
      next_sequence_def settled_def Let_def)

text \<open>The search of the sample actor is answered, and showing its results panics.\<close>

lemma completion_panic_strands_commands_witness:
  "\<exists>a b. actor_run {} 3 sample_actor a \<and> actor_turn (calm\<lparr>ti_panics := True\<rparr>) a = Some b \<and>
     ac_exit b = Some (Inl Panicked) \<and> ac_accepted b = [1] \<and> settled b = []"
proof -
  obtain job where t: "actor_turn calm submitted_actor =
     Some (launch_operation \<lparr>eo_operation_id = 1, eo_command_id = 1, eo_generation = SearchGeneration (sat_add 0 1),
         eo_request = SearchPage ''abba'' page_request_default None\<rparr> job sample_search 9
       ((accept_command 1 False (observe_clock 9 (submitted_actor\<lparr>ac_command_rx := []\<rparr>)))
          \<lparr>ac_generations := bump SearchDomain domain_generations_default, ac_next_operation_id := sat_add 1 1\<rparr>))"
    (is "_ = Some (launch_operation ?q job sample_search 9 ?s)") using launched_turn by blast
  let ?l = "launch_operation ?q job sample_search 9 ?s"
  have "ac_exit submitted_actor = None" by (simp add: submitted_eq sample_fields)
  from actor_run.step [OF submitted_run actor_step.turn [OF this t]] have run: "actor_run {} 2 sample_actor ?l"
    by (simp add: numeral_2_eq_2)
  note steps = launch_operation_def next_sequence_def send_event_def accept_command_def observe_clock_def
    submitted_eq sample_fields Let_def
  have l: "ac_exit ?l = None" "ac_workers ?l = [] @ (?q, job) # []" "ac_lifecycle_rx ?l = []" "ac_edge_rx ?l = []"
    "ac_completion_rx ?l = []" "ac_accepted ?l = [1]" "settled ?l = []" "ac_generations ?l = bump SearchDomain domain_generations_default"
    "ac_pending ?l 1 = Some \<lparr>pd_operation = ?q, pd_command = sample_search, pd_now_epoch_millis = 9\<rparr>"
    by (simp_all add: steps settled_def)
  let ?w = "run_worker False (?q, job) (?l\<lparr>ac_workers := [] @ []\<rparr>)"
  from actor_run.step [OF run actor_step.worker [OF l(1,2)], of False] have run3: "actor_run {} 3 sample_actor ?w"
    by (simp add: numeral_3_eq_3 numeral_2_eq_2)
  define x r where "x = ?w" and "r = fst (job (en_world (ac_engine ?l)))"
  have w: "ac_exit x = None" "ac_lifecycle_rx x = []" "ac_edge_rx x = []" "ac_completion_rx x = op_completion_of ?q r # []"
    "ac_pending x 1 = Some \<lparr>pd_operation = ?q, pd_command = sample_search, pd_now_epoch_millis = 9\<rparr>"
    "ac_accepted x = [1]" "settled x = []" "ac_generations x = bump SearchDomain domain_generations_default"
    using l by (simp_all add: x_def r_def run_worker_def finish_worker_def settled_def case_prod_beta Let_def)
  have c: "cp_operation_id (op_completion_of ?q r) = 1" "cp_generation (op_completion_of ?q r) = SearchGeneration (sat_add 0 1)"
    by (simp_all add: op_completion_of_def)
  from completion_panic_strands_commands [OF w(1-4), unfolded c, OF w(5), of "calm\<lparr>ti_panics := True\<rparr>"] w(6-8)
  obtain b where "actor_turn (calm\<lparr>ti_panics := True\<rparr>) x = Some b" "ac_exit b = Some (Inl Panicked)"
    "ac_accepted b = [1]" "settled b = []"
    by (auto simp: domain_generations_default_def calm_def)
  with run3 show ?thesis unfolding x_def by blast
qed

end
