(* ===== verification/RetryAudio.thy ===== *)
theory RetryAudio
  imports Ports
begin

text \<open>
  The retrying client around an audio source client (\<open>networking/retrying_audio_source_client.rs\<close>,
  the trait in \<open>networking/audio_source_client.rs\<close>): its delay strategies, the budget of delays, and
  the loop its three operations share. A duration is its number of nanoseconds, at most
  \<open>Duration::MAX\<close>. The random generator, the clock that sleeps and the wrapped client act on the
  outside world; an error carries the context the client adds in front of it.
\<close>

subsection \<open>Durations\<close>

type_synonym duration = nat

definition DURATION_MAX :: duration where
  "DURATION_MAX = (2 ^ 64 - 1) * 1000000000 + 999999999"

definition dur_add :: "duration \<Rightarrow> duration \<Rightarrow> duration" where
  "dur_add a b = min (a + b) DURATION_MAX"

definition dur_mul :: "duration \<Rightarrow> u32 \<Rightarrow> duration" where
  "dur_mul a k = min (a * unat k) DURATION_MAX"

definition as_millis :: "duration \<Rightarrow> nat" where
  "as_millis d = d div 1000000"

definition from_millis :: "u64 \<Rightarrow> duration" where
  "from_millis n = unat n * 1000000"

text \<open>\<open>saturating_mul\<close> of \<open>u128\<close>.\<close>

definition mul_u128 :: "nat \<Rightarrow> nat \<Rightarrow> nat" where
  "mul_u128 a b = min (a * b) (2 ^ 128 - 1)"

subsection \<open>The client\<close>

datatype audio_operation = ResolveTrack | PrefetchFull | FetchChunk

datatype delay_strategy =
    FixedDelay
  | ExponentialDelay duration
  | JitteredDelay duration "8 word"

record ('e, 'w) retry_client =
  rt_max_retry_attempts :: nat
  rt_retry_delay :: duration
  rt_max_total_retry_delay :: "duration option"
  rt_strategy :: delay_strategy
  rt_policy :: "audio_operation \<Rightarrow> 'e \<Rightarrow> bool"
  rt_random :: "nat \<Rightarrow> 'w \<Rightarrow> nat \<times> 'w"
  rt_sleep :: "duration \<Rightarrow> 'w \<Rightarrow> 'w"

definition never_retry :: "audio_operation \<Rightarrow> 'e \<Rightarrow> bool" where
  "never_retry _ _ = False"

definition retry_client_new ::
  "nat \<Rightarrow> duration \<Rightarrow> (nat \<Rightarrow> 'w \<Rightarrow> nat \<times> 'w) \<Rightarrow> (duration \<Rightarrow> 'w \<Rightarrow> 'w) \<Rightarrow> ('e, 'w) retry_client" where
  "retry_client_new max_retries delay random sleep =
     \<lparr>rt_max_retry_attempts = max_retries, rt_retry_delay = delay, rt_max_total_retry_delay = None,
      rt_strategy = FixedDelay, rt_policy = never_retry, rt_random = random, rt_sleep = sleep\<rparr>"

definition with_exponential_backoff :: "duration \<Rightarrow> ('e, 'w) retry_client \<Rightarrow> ('e, 'w) retry_client" where
  "with_exponential_backoff max_delay rc = rc\<lparr>rt_strategy := ExponentialDelay max_delay\<rparr>"

definition with_exponential_backoff_and_jitter ::
  "duration \<Rightarrow> 8 word \<Rightarrow> ('e, 'w) retry_client \<Rightarrow> ('e, 'w) retry_client" where
  "with_exponential_backoff_and_jitter max_delay jitter_percent rc =
     rc\<lparr>rt_strategy := JitteredDelay max_delay jitter_percent\<rparr>"

definition with_retry_policy ::
  "(audio_operation \<Rightarrow> 'e \<Rightarrow> bool) \<Rightarrow> ('e, 'w) retry_client \<Rightarrow> ('e, 'w) retry_client" where
  "with_retry_policy policy rc = rc\<lparr>rt_policy := policy\<rparr>"

definition with_retry_time_budget :: "duration \<Rightarrow> ('e, 'w) retry_client \<Rightarrow> ('e, 'w) retry_client" where
  "with_retry_time_budget budget rc = rc\<lparr>rt_max_total_retry_delay := Some budget\<rparr>"

subsection \<open>Delays\<close>

text \<open>\<open>next_attempt_number.saturating_sub(1) as u32\<close>, \<open>1u32.checked_shl(shift).unwrap_or(u32::MAX)\<close>.\<close>

definition backoff_multiplier :: "nat \<Rightarrow> u32" where
  "backoff_multiplier attempt =
     (let shift = (of_nat (attempt - 1) :: u32) in if shift < 32 then push_bit (unat shift) 1 else - 1)"

definition jitter_floor :: "nat \<Rightarrow> nat \<Rightarrow> nat" where
  "jitter_floor base_ms percent = mul_u128 base_ms (100 - percent) div 100"

definition jitter_spread :: "nat \<Rightarrow> nat \<Rightarrow> nat" where
  "jitter_spread base_ms percent = mul_u128 base_ms (100 + percent) div 100 - jitter_floor base_ms percent"

definition millis_capped :: "nat \<Rightarrow> duration" where
  "millis_capped ms = from_millis (of_nat (min ms (2 ^ 64 - 1)))"

definition apply_jitter ::
  "(nat \<Rightarrow> 'w \<Rightarrow> nat \<times> 'w) \<Rightarrow> duration \<Rightarrow> 8 word \<Rightarrow> 'w \<Rightarrow> duration \<times> 'w" where
  "apply_jitter random base percent w =
     (let percent = min (unat percent) 100; base_ms = as_millis base
      in if percent = 0 \<or> base_ms = 0 then (base, w)
         else let spread = jitter_spread base_ms percent;
                  (extra, w) = (if spread = 0 then (0, w) else random spread w)
              in (millis_capped (jitter_floor base_ms percent + extra), w))"

definition retry_delay_for_attempt ::
  "('e, 'w) retry_client \<Rightarrow> nat \<Rightarrow> 'w \<Rightarrow> duration \<times> 'w" where
  "retry_delay_for_attempt rc attempt w =
     (case rt_strategy rc of
        FixedDelay \<Rightarrow> (rt_retry_delay rc, w)
      | ExponentialDelay max_delay \<Rightarrow>
          (min (dur_mul (rt_retry_delay rc) (backoff_multiplier attempt)) max_delay, w)
      | JitteredDelay max_delay percent \<Rightarrow>
          (let capped = min (dur_mul (rt_retry_delay rc) (backoff_multiplier attempt)) max_delay;
               (delay, w) = apply_jitter (rt_random rc) capped percent w
           in (min delay max_delay, w)))"

definition retry_sleep_delay_for_attempt ::
  "('e, 'w) retry_client \<Rightarrow> nat \<Rightarrow> duration \<Rightarrow> 'w \<Rightarrow> duration option \<times> 'w" where
  "retry_sleep_delay_for_attempt rc attempt spent w =
     (let (delay, w) = retry_delay_for_attempt rc attempt w
      in (case rt_max_total_retry_delay rc of
            None \<Rightarrow> Some delay
          | Some budget \<Rightarrow> if budget \<le> spent then None else Some (min delay (budget - spent)), w))"

subsection \<open>The loop\<close>

text \<open>The error of a failed call with the context in front: how many attempts were made.\<close>

record 'e retry_error =
  re_operation :: audio_operation
  re_attempts :: nat
  re_cause :: 'e

fun operation_name :: "audio_operation \<Rightarrow> string" where
  "operation_name ResolveTrack = ''resolve_track''"
| "operation_name PrefetchFull = ''prefetch_full''"
| "operation_name FetchChunk = ''fetch_chunk''"

definition retry_context :: "'e retry_error \<Rightarrow> string" where
  "retry_context err =
     operation_name (re_operation err) @ '' failed after '' @ show_nat (re_attempts err) @ '' attempt(s)''"

function retry_loop ::
  "('e, 'w) retry_client \<Rightarrow> audio_operation \<Rightarrow> ('w \<Rightarrow> ('e + 'a) \<times> 'w) \<Rightarrow> nat \<Rightarrow> duration \<Rightarrow> 'w \<Rightarrow>
     ('e retry_error + 'a) \<times> 'w" where
  "retry_loop rc op call attempts spent w =
     (case call w of
        (Inr x, w) \<Rightarrow> (Inr x, w)
      | (Inl err, w) \<Rightarrow>
          (if attempts < rt_max_retry_attempts rc \<and> rt_policy rc op err
           then case retry_sleep_delay_for_attempt rc (attempts + 1) spent w of
                  (None, w) \<Rightarrow>
                    (Inl \<lparr>re_operation = op, re_attempts = attempts + 1, re_cause = err\<rparr>, w)
                | (Some delay, w) \<Rightarrow>
                    retry_loop rc op call (attempts + 1) (dur_add spent delay) (rt_sleep rc delay w)
           else (Inl \<lparr>re_operation = op, re_attempts = attempts + 1, re_cause = err\<rparr>, w)))"
  by pat_completeness auto
termination
  by (relation "measure (\<lambda>(rc, op, call, attempts, spent, w). rt_max_retry_attempts rc - attempts)") auto

declare retry_loop.simps [simp del]

definition retrying ::
  "('e, 'w) retry_client \<Rightarrow> audio_operation \<Rightarrow> ('w \<Rightarrow> ('e + 'a) \<times> 'w) \<Rightarrow> 'w \<Rightarrow> ('e retry_error + 'a) \<times> 'w" where
  "retrying rc op call w = retry_loop rc op call 0 0 w"

text \<open>\<open>AudioSourceClient for RetryingAudioSourceClient\<close>.\<close>

record audio_chunk =
  chk_source_id :: string
  chk_index :: u64
  chk_bytes :: "8 word list"
  chk_is_last :: bool

record ('e, 'w) audio_client =
  aud_resolve_track :: "string \<Rightarrow> 'w \<Rightarrow> ('e + audio_source) \<times> 'w"
  aud_prefetch_full :: "string \<Rightarrow> 'w \<Rightarrow> ('e + string) \<times> 'w"
  aud_fetch_chunk :: "string \<Rightarrow> u64 \<Rightarrow> 'w \<Rightarrow> ('e + audio_chunk) \<times> 'w"

definition retrying_audio_client ::
  "('e, 'w) retry_client \<Rightarrow> ('e, 'w) audio_client \<Rightarrow> ('e retry_error, 'w) audio_client" where
  "retrying_audio_client rc inner =
     \<lparr>aud_resolve_track = (\<lambda>track_id. retrying rc ResolveTrack (aud_resolve_track inner track_id)),
      aud_prefetch_full = (\<lambda>source_id. retrying rc PrefetchFull (aud_prefetch_full inner source_id)),
      aud_fetch_chunk = (\<lambda>source_id i. retrying rc FetchChunk (aud_fetch_chunk inner source_id i))\<rparr>"

subsection \<open>What a call costs\<close>

text \<open>The same client in a world that counts the calls and keeps the delays it sleeps.\<close>

definition metered_client ::
  "('e, 'w) retry_client \<Rightarrow> ('e, nat \<times> duration list \<times> 'w) retry_client" where
  "metered_client rc =
     \<lparr>rt_max_retry_attempts = rt_max_retry_attempts rc, rt_retry_delay = rt_retry_delay rc,
      rt_max_total_retry_delay = rt_max_total_retry_delay rc, rt_strategy = rt_strategy rc, rt_policy = rt_policy rc,
      rt_random = (\<lambda>spread (n, ds, w). case rt_random rc spread w of (x, w) \<Rightarrow> (x, (n, ds, w))),
      rt_sleep = (\<lambda>d (n, ds, w). (n, ds @ [d], rt_sleep rc d w))\<rparr>"

definition metered_call ::
  "('w \<Rightarrow> ('e + 'a) \<times> 'w) \<Rightarrow> nat \<times> duration list \<times> 'w \<Rightarrow> ('e + 'a) \<times> (nat \<times> duration list \<times> 'w)" where
  "metered_call call = (\<lambda>(n, ds, w). case call w of (r, w) \<Rightarrow> (r, (n + 1, ds, w)))"

definition delay_cap :: "('e, 'w) retry_client \<Rightarrow> duration" where
  "delay_cap rc =
     (case rt_strategy rc of FixedDelay \<Rightarrow> rt_retry_delay rc | ExponentialDelay m \<Rightarrow> m | JitteredDelay m _ \<Rightarrow> m)"

lemma metered_fields [simp]:
  "rt_max_retry_attempts (metered_client rc) = rt_max_retry_attempts rc"
  "rt_max_total_retry_delay (metered_client rc) = rt_max_total_retry_delay rc"
  "rt_policy (metered_client rc) = rt_policy rc"
  by (simp_all add: metered_client_def)

lemma metered_jitter:
  "apply_jitter (rt_random (metered_client rc)) base percent (n, ds, w) =
     (case apply_jitter (rt_random rc) base percent w of (d, w) \<Rightarrow> (d, (n, ds, w)))"
  by (simp add: apply_jitter_def metered_client_def Let_def case_prod_beta min_def)

lemma metered_delay:
  "retry_delay_for_attempt (metered_client rc) k (n, ds, w) =
     (case retry_delay_for_attempt rc k w of (d, w) \<Rightarrow> (d, (n, ds, w)))"
proof -
  have "rt_strategy (metered_client rc) = rt_strategy rc" "rt_retry_delay (metered_client rc) = rt_retry_delay rc"
    by (simp_all add: metered_client_def)
  then show ?thesis
    by (simp add: retry_delay_for_attempt_def metered_jitter Let_def case_prod_beta split: delay_strategy.split)
qed

lemma metered_sleep_delay:
  "retry_sleep_delay_for_attempt (metered_client rc) k spent (n, ds, w) =
     (case retry_sleep_delay_for_attempt rc k spent w of (d, w) \<Rightarrow> (d, (n, ds, w)))"
  by (simp add: retry_sleep_delay_for_attempt_def metered_delay case_prod_beta Let_def split: option.split)

lemma delay_capped: "fst (retry_delay_for_attempt rc k w) \<le> delay_cap rc"
  by (simp add: retry_delay_for_attempt_def delay_cap_def Let_def case_prod_beta split: delay_strategy.split)

lemma sleep_delayD:
  assumes "retry_sleep_delay_for_attempt rc k spent w = (Some d, w')"
  shows "d \<le> delay_cap rc" "rt_max_total_retry_delay rc = Some b \<Longrightarrow> spent < b \<and> spent + d \<le> b"
  using assms delay_capped [of rc k w]
  by (auto simp: retry_sleep_delay_for_attempt_def case_prod_beta Let_def min_def split: option.splits if_splits)

lemma metered_loop:
  assumes "retry_loop (metered_client rc) op (metered_call call) attempts spent (attempts, ds, w) = (r, (n, ds', w'))"
    and "length ds = attempts" "attempts \<le> rt_max_retry_attempts rc" "\<forall>d \<in> set ds. d \<le> delay_cap rc"
    and "\<And>b. rt_max_total_retry_delay rc = Some b \<Longrightarrow> b \<le> DURATION_MAX \<and> spent = sum_list ds \<and> sum_list ds \<le> b"
  shows "retry_loop rc op call attempts spent w = (r, w') \<and> n \<le> rt_max_retry_attempts rc + 1 \<and> length ds' + 1 = n \<and>
    (\<forall>d \<in> set ds'. d \<le> delay_cap rc) \<and>
    (\<forall>b. rt_max_total_retry_delay rc = Some b \<longrightarrow> sum_list ds' \<le> b) \<and>
    (\<forall>err. r = Inl err \<longrightarrow> re_operation err = op \<and> re_attempts err = n)"
  using assms
proof (induction rc op call attempts spent w arbitrary: ds rule: retry_loop.induct)
  case (1 rc op call attempts spent w)
  obtain x w1 where c: "call w = (x, w1)" by (cases "call w")
  then have m: "metered_call call (attempts, ds, w) = (x, (attempts + 1, ds, w1))" by (simp add: metered_call_def)
  note unfold = retry_loop.simps [of rc op call attempts spent w]
    retry_loop.simps [of "metered_client rc" op "metered_call call" attempts spent "(attempts, ds, w)"]
  show ?case
  proof (cases x)
    case (Inr v)
    then show ?thesis using "1.prems" by (auto simp: unfold c m)
  next
    case (Inl err)
    show ?thesis
    proof (cases "attempts < rt_max_retry_attempts rc \<and> rt_policy rc op err")
      case False
      then show ?thesis using "1.prems" Inl by (auto simp: unfold c m)
    next
      case True
      obtain d w2 where d: "retry_sleep_delay_for_attempt rc (attempts + 1) spent w1 = (d, w2)"
        by (cases "retry_sleep_delay_for_attempt rc (attempts + 1) spent w1")
      show ?thesis
      proof (cases d)
        case None
        then show ?thesis using "1.prems" Inl True d by (auto simp: unfold c m metered_sleep_delay)
      next
        case (Some delay)
        note s = sleep_delayD [OF d [unfolded Some]]
        have sleep: "rt_sleep (metered_client rc) delay (n, ds, v) = (n, ds @ [delay], rt_sleep rc delay v)" for n v
          by (simp add: metered_client_def)
        have "retry_loop (metered_client rc) op (metered_call call) (attempts + 1) (dur_add spent delay)
            (attempts + 1, ds @ [delay], rt_sleep rc delay w2) = (r, (n, ds', w'))"
          using "1.prems"(1) Inl True d Some sleep by (simp add: unfold(2) m metered_sleep_delay)
        moreover have "dur_add spent delay = sum_list (ds @ [delay]) \<and> sum_list (ds @ [delay]) \<le> b \<and> b \<le> DURATION_MAX"
          if b: "rt_max_total_retry_delay rc = Some b" for b
          using "1.prems"(5) [OF b] s(2) [OF b] by (auto simp: dur_add_def)
        ultimately show ?thesis
          using "1.IH" [OF c [symmetric] Inl True d [symmetric] Some, of "ds @ [delay]"] "1.prems"(2-4) s(1) True
          by (simp add: unfold(1) c Inl d [unfolded Some, simplified])
      qed
    qed
  qed
qed

text \<open>C28: what a retried call costs. However the wrapped client answers, the call is made at least once and at most
  one time more than there are retries, the client sleeps between the calls and no delay is longer than
  the strategy's cap, all delays together stay within the budget, and a reported error tells how often
  the call was made. (A budget is a \<open>Duration\<close>.)\<close>

theorem retried_call_is_bounded:
  assumes "retrying (metered_client rc) op (metered_call call) (0, [], w) = (r, (n, delays, w'))"
    and "\<forall>b. rt_max_total_retry_delay rc = Some b \<longrightarrow> b \<le> DURATION_MAX"
  shows "retrying rc op call w = (r, w') \<and> n \<le> rt_max_retry_attempts rc + 1 \<and> length delays + 1 = n \<and>
    (\<forall>d \<in> set delays. d \<le> delay_cap rc) \<and>
    (\<forall>b. rt_max_total_retry_delay rc = Some b \<longrightarrow> sum_list delays \<le> b) \<and>
    (\<forall>err. r = Inl err \<longrightarrow> re_operation err = op \<and> re_attempts err = n)"
  using metered_loop [of rc op call 0 0 "[]" w r n delays w'] assms by (simp add: retrying_def)

text \<open>Two retries with a doubling delay of a second against a client that never answers.\<close>

definition patient_client :: "(string, nat) retry_client" where
  "patient_client =
     with_retry_time_budget 2500000000 (with_retry_policy (\<lambda>_ _. True)
       (with_exponential_backoff 5000000000 (retry_client_new 2 1000000000 (\<lambda>_ w. (0, w)) (\<lambda>_ w. w + 1))))"

theorem retried_call_is_bounded_witness:
  "\<exists>n delays w'. retrying (metered_client patient_client) ResolveTrack (metered_call (\<lambda>w. (Inl ''down'' :: string + string, w))) (0, [], 0) =
       (Inl \<lparr>re_operation = ResolveTrack, re_attempts = 3, re_cause = ''down''\<rparr>, (n, delays, w')) \<and>
     n = 3 \<and> delays = [1000000000, 1500000000] \<and> sum_list delays \<le> 2500000000"
proof -
  note client = patient_client_def with_retry_time_budget_def with_retry_policy_def with_exponential_backoff_def
    retry_client_new_def
  have run: "retrying (metered_client patient_client) ResolveTrack (metered_call (\<lambda>w. (Inl ''down'' :: string + string, w))) (0, [], 0) =
       (Inl \<lparr>re_operation = ResolveTrack, re_attempts = 3, re_cause = ''down''\<rparr>, (3, [1000000000, 1500000000], 2))"
    by (simp add: retrying_def retry_loop.simps metered_call_def metered_sleep_delay retry_sleep_delay_for_attempt_def
        retry_delay_for_attempt_def backoff_multiplier_def dur_mul_def dur_add_def DURATION_MAX_def
        client metered_client_def Let_def)
  have "\<forall>b. rt_max_total_retry_delay patient_client = Some b \<longrightarrow> b \<le> DURATION_MAX"
    by (simp add: client DURATION_MAX_def)
  from retried_call_is_bounded [OF run this] run show ?thesis by (auto simp: client)
qed

end
