(* ===== verification/WireModel.thy ===== *)
theory WireModel
  imports Playback
begin

text \<open>
  The Canopy messages and how the adapters read them (\<open>networking/canopy/catalog.rs\<close>,
  \<open>auth.rs\<close>, \<open>history.rs\<close>, \<open>library.rs\<close>, \<open>playlist.rs\<close>, \<open>profile.rs\<close>, \<open>playback.rs\<close>,
  \<open>system.rs\<close>, \<open>discovery.rs\<close>). The message types are generated; the records here have the fields
  the adapters use. Every mapper refuses a response that lacks what the engine relies on with a
  mapping defect. Joining a URL is the \<open>url\<close> crate's and a parameter.
\<close>

subsection \<open>Messages\<close>

record timestamp =
  ts_seconds :: "64 word"
  ts_nanos :: "32 word"

record page_info =
  pi_next_page_token :: string

record wire_page_request =
  wpr_page_size :: u32
  wpr_page_token :: string

record artist_summary =
  war_id :: string
  war_name :: string

record album_summary =
  wal_id :: string
  wal_title :: string

record artwork_ref =
  waw_id :: string
  waw_content_hash :: string

record track_summary =
  wtr_id :: string
  wtr_title :: string
  wtr_artist :: "artist_summary option"
  wtr_album :: "album_summary option"
  wtr_duration_ms :: u64
  wtr_explicit :: bool
  wtr_artwork :: "artwork_ref option"

record wire_track =
  wt_summary :: "track_summary option"
  wt_genres :: "string list"

record tracks_response =
  trs_tracks :: "track_summary list"
  trs_page_info :: "page_info option"

record wire_history_settings =
  whs_enabled :: bool

record update_settings_response =
  usr_settings :: "wire_history_settings option"
  usr_deleted_count :: u64

record wire_history_entry =
  whe_id :: string
  whe_played_at :: "timestamp option"
  whe_duration_ms :: u64
  whe_completion_ratio :: f32
  whe_track :: "track_summary option"

record list_history_response =
  lhr_entries :: "wire_history_entry list"
  lhr_page_info :: "page_info option"

record saved_track =
  svt_track :: "track_summary option"
  svt_saved_at :: "timestamp option"

record liked_track =
  lkt_track :: "track_summary option"
  lkt_liked_at :: "timestamp option"

record saved_tracks_response =
  str_tracks :: "saved_track list"
  str_page_info :: "page_info option"

record liked_tracks_response =
  ltr_tracks :: "liked_track list"
  ltr_page_info :: "page_info option"

record wire_playlist =
  wpl_id :: string
  wpl_name :: string
  wpl_description :: "string option"
  wpl_revision :: u64
  wpl_created_at :: "timestamp option"
  wpl_updated_at :: "timestamp option"

record wire_playlist_track =
  wpt_playlist_id :: string
  wpt_track :: "track_summary option"
  wpt_position :: u32
  wpt_added_at :: "timestamp option"

record list_playlists_response =
  lpr_playlists :: "wire_playlist list"
  lpr_page_info :: "page_info option"

record playlist_tracks_response =
  ptr_tracks :: "wire_playlist_track list"
  ptr_page_info :: "page_info option"

record account_summary =
  acs_id :: string
  acs_primary_email :: string
  acs_status :: string
  acs_created_at :: "timestamp option"

record session_summary =
  sms_id :: string
  sms_device_label :: string
  sms_created_at :: "timestamp option"
  sms_last_used_at :: "timestamp option"
  sms_expires_at :: "timestamp option"
  sms_current :: bool

record list_sessions_response =
  lsr_sessions :: "session_summary list"
  lsr_page_info :: "page_info option"

record wire_playback_source =
  wps_track_id :: string
  wps_stream_url :: string
  wps_content_type :: string
  wps_codec :: string
  wps_duration_ms :: u64
  wps_expires_at :: "timestamp option"

record wire_dependency =
  wd_name :: string
  wd_status :: string
  wd_message :: string

record status_response =
  sr_healthy :: bool
  sr_version :: string
  sr_status :: string
  sr_dependencies :: "wire_dependency list"
  sr_checked_at :: "timestamp option"

record wire_profile =
  wpf_id :: string
  wpf_external_user_id :: string
  wpf_display_name :: "string option"
  wpf_created_at :: "timestamp option"
  wpf_updated_at :: "timestamp option"

text \<open>\<open>google.protobuf.Value\<close>, whose kind may be missing; the \<open>NullValue\<close> carries an unused number.\<close>

datatype wire_value =
    NoKind | NullValue | NumberValue f64 | StringValue string | BoolValue bool
  | StructValue "(string \<times> wire_value) list" | ListValue "wire_value list"

subsection \<open>Collecting results\<close>

text \<open>\<open>collect::<Result<Vec<_>, _>>()\<close>: the first error in order, or all the values.\<close>

fun collect_results :: "('e + 'a) list \<Rightarrow> 'e + 'a list" where
  "collect_results [] = Ok []"
| "collect_results (Inl e # rs) = Err e"
| "collect_results (Inr a # rs) = map_ok (\<lambda>as. a # as) (collect_results rs)"

definition transposed :: "('e + 'a) option \<Rightarrow> 'e + 'a option" where
  "transposed x = (case x of None \<Rightarrow> Ok None | Some r \<Rightarrow> map_ok Some r)"

definition bind_ok :: "'e + 'a \<Rightarrow> ('a \<Rightarrow> 'e + 'b) \<Rightarrow> 'e + 'b" where
  "bind_ok r f = (case r of Inl e \<Rightarrow> Err e | Inr a \<Rightarrow> f a)"

definition ok_or :: "'e \<Rightarrow> 'a option \<Rightarrow> 'e + 'a" where
  "ok_or e x = (case x of None \<Rightarrow> Err e | Some a \<Rightarrow> Ok a)"

lemma bind_ok_Inr: "bind_ok r f = Inr b \<longleftrightarrow> (\<exists>a. r = Inr a \<and> f a = Inr b)"
  by (cases r) (simp_all add: bind_ok_def)

lemma map_ok_Inr: "map_ok f r = Inr b \<longleftrightarrow> (\<exists>a. r = Inr a \<and> b = f a)"
  by (cases r) auto

lemma ok_or_Inr: "ok_or e x = Inr a \<longleftrightarrow> x = Some a"
  by (simp add: ok_or_def split: option.split)

definition mapping_defect :: "string \<Rightarrow> engine_error" where
  "mapping_defect message = engine_error_new MappingDefect message False"

subsection \<open>Timestamps\<close>

text \<open>\<open>checked_mul\<close> and \<open>checked_add\<close> on \<open>u64\<close>.\<close>

definition checked_mul :: "u64 \<Rightarrow> u64 \<Rightarrow> u64 option" where
  "checked_mul a b = (if unat a * unat b < 2 ^ 64 then Some (a * b) else None)"

definition checked_add :: "u64 \<Rightarrow> u64 \<Rightarrow> u64 option" where
  "checked_add a b = (if unat a + unat b < 2 ^ 64 then Some (a + b) else None)"

definition PROTOBUF_TIMESTAMP_MAX_SECONDS :: int where
  "PROTOBUF_TIMESTAMP_MAX_SECONDS = 253402300799"

definition nanos_in_range :: "timestamp \<Rightarrow> bool" where
  "nanos_in_range t \<longleftrightarrow> 0 \<le> sint (ts_nanos t) \<and> sint (ts_nanos t) < 1000000000"

definition millis_of :: "engine_error \<Rightarrow> timestamp \<Rightarrow> u64 result" where
  "millis_of overflow t =
     ok_or overflow
       (case checked_mul (ts_seconds t) 1000 of
          None \<Rightarrow> None
        | Some millis \<Rightarrow> checked_add millis (of_nat (unat (ts_nanos t) div 1000000)))"

text \<open>The adapters' \<open>timestamp_to_epoch_millis\<close>: the range first, then the checked arithmetic; the
  status one has no upper bound. The two errors are each adapter's own.\<close>

definition timestamp_to_epoch_millis :: "engine_error \<Rightarrow> engine_error \<Rightarrow> timestamp \<Rightarrow> u64 result" where
  "timestamp_to_epoch_millis invalid overflow t =
     (if \<not> (0 \<le> sint (ts_seconds t) \<and> sint (ts_seconds t) \<le> PROTOBUF_TIMESTAMP_MAX_SECONDS) \<or>
         \<not> nanos_in_range t
      then Err invalid
      else millis_of overflow t)"

definition status_defect :: engine_error where
  "status_defect = mapping_defect ''invalid canonical Canopy status response''"

definition status_timestamp :: "timestamp \<Rightarrow> u64 result" where
  "status_timestamp t =
     (if sint (ts_seconds t) < 0 \<or> \<not> nanos_in_range t then Err status_defect
      else millis_of status_defect t)"

subsection \<open>Pages\<close>

definition map_page_request :: "page_request \<Rightarrow> wire_page_request" where
  "map_page_request page =
     \<lparr>wpr_page_size = page_size page,
      wpr_page_token = (case page_token page of None \<Rightarrow> [] | Some t \<Rightarrow> token_str t)\<rparr>"

text \<open>Each adapter words an invalid token its own way; none arises, as the token is not empty.\<close>

definition next_page_token :: "(engine_error \<Rightarrow> engine_error) \<Rightarrow> page_info option \<Rightarrow> page_token option result" where
  "next_page_token reworded info =
     (case map_option pi_next_page_token info of
        Some token \<Rightarrow>
          (if token \<noteq> []
           then (case page_token_new token of
                   Inl e \<Rightarrow> Err (reworded e) | Inr t \<Rightarrow> Ok (Some t))
           else Ok None)
      | None \<Rightarrow> Ok None)"

text \<open>A page: the items in order, refused as a whole at the first defect.\<close>

definition map_items_page ::
  "(engine_error \<Rightarrow> engine_error) \<Rightarrow> 'a result list \<Rightarrow> page_info option \<Rightarrow> 'a paged_result result" where
  "map_items_page reworded items info =
     bind_ok (collect_results items) (\<lambda>items.
       map_ok (\<lambda>token. \<lparr>pr_items = items, pr_next_page_token = token\<rparr>) (next_page_token reworded info))"

subsection \<open>Catalog\<close>

text \<open>\<open>media_origin.join(path)\<close> rendered, when it succeeds.\<close>

type_synonym media_origin = "string \<Rightarrow> string option"

definition canopy_artwork_http_uri :: "media_origin \<Rightarrow> string \<Rightarrow> string \<Rightarrow> string option" where
  "canopy_artwork_http_uri origin artwork_id content_hash =
     (if artwork_id = [] \<or> content_hash = [] then None
      else origin (''artwork/'' @ artwork_id @ ''/'' @ content_hash))"

definition map_artwork_ref :: "media_origin option \<Rightarrow> artwork_ref \<Rightarrow> engine_artwork option" where
  "map_artwork_ref origin artwork =
     (if waw_id artwork = [] \<or> waw_content_hash artwork = [] then None
      else Some \<lparr>aw_id = waw_id artwork, aw_content_hash = waw_content_hash artwork,
             aw_uri = (case origin of None \<Rightarrow> None
                       | Some origin \<Rightarrow>
                           canopy_artwork_http_uri origin (waw_id artwork) (waw_content_hash artwork))\<rparr>)"

definition map_track_summary ::
  "string list \<Rightarrow> media_origin option \<Rightarrow> track_summary \<Rightarrow> engine_track result" where
  "map_track_summary genres origin summary =
     (if wtr_id summary = [] \<or> wtr_title summary = []
      then Err (mapping_defect ''catalog track missing required identity'')
      else case wtr_artist summary of
             None \<Rightarrow> Err (mapping_defect ''catalog track missing artist'')
           | Some artist \<Rightarrow>
               (if war_name artist = [] then Err (mapping_defect ''catalog track has invalid artist'')
                else Ok \<lparr>tr_id = wtr_id summary, tr_title = wtr_title summary,
                   tr_artist = \<lparr>artist_id = war_id artist, artist_name = war_name artist\<rparr>,
                   tr_album = map_option (\<lambda>album. \<lparr>album_id = wal_id album, album_title = wal_title album\<rparr>)
                     (wtr_album summary),
                   tr_duration_millis = wtr_duration_ms summary, tr_explicit = wtr_explicit summary,
                   tr_artwork = (case wtr_artwork summary of None \<Rightarrow> None
                                 | Some artwork \<Rightarrow> map_artwork_ref origin artwork),
                   tr_genres = genres\<rparr>))"

definition map_track :: "media_origin option \<Rightarrow> wire_track \<Rightarrow> engine_track result" where
  "map_track origin track =
     bind_ok (ok_or (mapping_defect ''catalog track missing summary'') (wt_summary track))
       (map_track_summary (wt_genres track) origin)"

text \<open>\<open>map_page\<close>, and the search, browse and feed responses that are such pages.\<close>

definition map_tracks_page :: "media_origin option \<Rightarrow> tracks_response \<Rightarrow> engine_track paged_result result" where
  "map_tracks_page origin response =
     map_items_page id (map (map_track_summary [] origin) (trs_tracks response)) (trs_page_info response)"

subsection \<open>Accounts and sessions\<close>

definition session_defect :: engine_error where
  "session_defect = mapping_defect ''invalid canonical Canopy session response''"

definition session_timestamp :: "timestamp option \<Rightarrow> u64 result" where
  "session_timestamp t =
     bind_ok (ok_or session_defect t) (timestamp_to_epoch_millis session_defect session_defect)"

definition map_account :: "account_summary \<Rightarrow> account result" where
  "map_account wire =
     (if acs_id wire = [] \<or> acs_primary_email wire = [] then Err session_defect
      else map_ok (\<lambda>created. \<lparr>acct_id = acs_id wire, acct_primary_email = acs_primary_email wire,
              acct_status = acs_status wire, acct_created_at_epoch_millis = created\<rparr>)
            (session_timestamp (acs_created_at wire)))"

definition map_session :: "session_summary \<Rightarrow> auth_session result" where
  "map_session wire =
     (if sms_id wire = [] then Err session_defect
      else bind_ok (session_timestamp (sms_created_at wire)) (\<lambda>created.
           bind_ok (session_timestamp (sms_last_used_at wire)) (\<lambda>last_used.
           map_ok (\<lambda>expires. \<lparr>as_id = sms_id wire, as_device_label = sms_device_label wire,
                as_created_at_epoch_millis = created, as_last_used_at_epoch_millis = last_used,
                as_expires_at_epoch_millis = expires, as_current = sms_current wire\<rparr>)
             (session_timestamp (sms_expires_at wire)))))"

definition map_session_page :: "list_sessions_response \<Rightarrow> auth_session paged_result result" where
  "map_session_page wire =
     map_items_page (\<lambda>_. session_defect) (map map_session (lsr_sessions wire)) (lsr_page_info wire)"

subsection \<open>History\<close>

definition map_settings :: "wire_history_settings \<Rightarrow> history_settings" where
  "map_settings settings = \<lparr>hs_enabled = whs_enabled settings\<rparr>"

definition map_settings_update :: "update_settings_response \<Rightarrow> history_settings_update result" where
  "map_settings_update response =
     map_ok (\<lambda>settings. \<lparr>hsu_settings = map_settings settings,
        hsu_deleted_count = usr_deleted_count response\<rparr>)
       (ok_or (mapping_defect ''history settings update missing settings'') (usr_settings response))"

definition map_history_entry :: "media_origin option \<Rightarrow> wire_history_entry \<Rightarrow> history_entry result" where
  "map_history_entry origin entry =
     (if blank (whe_id entry) then Err (mapping_defect ''history entry missing id'')
      else case normalize_completion_ratio (whe_completion_ratio entry) of
             Inl _ \<Rightarrow> Err (mapping_defect ''history entry has invalid completion ratio'')
           | Inr ratio \<Rightarrow>
               bind_ok (transposed (map_option
                   (timestamp_to_epoch_millis (mapping_defect ''history entry has invalid played_at'')
                      (mapping_defect ''history entry played_at overflowed'')) (whe_played_at entry)))
                 (\<lambda>played_at.
                   map_ok (\<lambda>track. \<lparr>he_id = whe_id entry, he_played_at_epoch_millis = played_at,
                       he_duration_millis = whe_duration_ms entry, he_completion_ratio = ratio,
                       he_track = track\<rparr>)
                     (transposed (map_option (map_track_summary [] origin) (whe_track entry)))))"

definition map_history_page ::
  "media_origin option \<Rightarrow> list_history_response \<Rightarrow> history_entry paged_result result" where
  "map_history_page origin response =
     map_items_page (\<lambda>_. mapping_defect ''history returned an invalid page token'')
       (map (map_history_entry origin) (lhr_entries response)) (lhr_page_info response)"

subsection \<open>Library\<close>

definition map_relationship ::
  "media_origin option \<Rightarrow> track_summary option \<Rightarrow> timestamp option \<Rightarrow> library_track result" where
  "map_relationship origin track timestamp =
     bind_ok (ok_or (mapping_defect ''library relationship missing track'') track) (\<lambda>track.
     bind_ok (ok_or (mapping_defect ''library relationship missing timestamp'') timestamp) (\<lambda>timestamp.
       if blank (wtr_id track) then Err (mapping_defect ''library relationship missing track id'')
       else bind_ok (map_track_summary [] origin track) (\<lambda>mapped.
              map_ok (\<lambda>millis. \<lparr>lt_relationship_id = wtr_id track, lt_track = mapped,
                  lt_relationship_at_epoch_millis = millis\<rparr>)
                (timestamp_to_epoch_millis (mapping_defect ''library relationship has invalid timestamp'')
                   (mapping_defect ''library relationship timestamp overflowed'') timestamp))))"

definition map_saved_track :: "media_origin option \<Rightarrow> saved_track \<Rightarrow> library_track result" where
  "map_saved_track origin value = map_relationship origin (svt_track value) (svt_saved_at value)"

definition map_liked_track :: "media_origin option \<Rightarrow> liked_track \<Rightarrow> library_track result" where
  "map_liked_track origin value = map_relationship origin (lkt_track value) (lkt_liked_at value)"

definition map_relationship_page ::
  "library_track result list \<Rightarrow> page_info option \<Rightarrow> library_track paged_result result" where
  "map_relationship_page =
     map_items_page (\<lambda>_. mapping_defect ''library returned an invalid page token'')"

definition map_saved_response ::
  "media_origin option \<Rightarrow> saved_tracks_response \<Rightarrow> library_track paged_result result" where
  "map_saved_response origin response =
     map_relationship_page (map (map_saved_track origin) (str_tracks response)) (str_page_info response)"

definition map_liked_response ::
  "media_origin option \<Rightarrow> liked_tracks_response \<Rightarrow> library_track paged_result result" where
  "map_liked_response origin response =
     map_relationship_page (map (map_liked_track origin) (ltr_tracks response)) (ltr_page_info response)"

subsection \<open>Playlists\<close>

definition require_mapping :: "string \<Rightarrow> string \<Rightarrow> unit result" where
  "require_mapping label value =
     (if blank value then Err (mapping_defect (label @ '' is missing'')) else Ok ())"

definition playlist_timestamp :: "string \<Rightarrow> timestamp option \<Rightarrow> u64 result" where
  "playlist_timestamp missing t =
     bind_ok (ok_or (mapping_defect missing) t)
       (timestamp_to_epoch_millis (mapping_defect ''playlist timestamp is invalid'')
          (mapping_defect ''playlist timestamp overflowed''))"

definition map_playlist :: "wire_playlist \<Rightarrow> playlist result" where
  "map_playlist value =
     bind_ok (require_mapping ''playlist id'' (wpl_id value)) (\<lambda>_.
     bind_ok (require_mapping ''playlist name'' (wpl_name value)) (\<lambda>_.
     bind_ok (playlist_timestamp ''playlist missing created timestamp'' (wpl_created_at value)) (\<lambda>created.
       map_ok (\<lambda>updated. \<lparr>pl_id = wpl_id value, pl_name = wpl_name value,
            pl_description = wpl_description value, pl_revision = wpl_revision value,
            pl_created_at_epoch_millis = created, pl_updated_at_epoch_millis = updated\<rparr>)
         (playlist_timestamp ''playlist missing updated timestamp'' (wpl_updated_at value)))))"

definition map_playlist_track :: "media_origin option \<Rightarrow> wire_playlist_track \<Rightarrow> playlist_track result" where
  "map_playlist_track origin value =
     bind_ok (require_mapping ''playlist track playlist id'' (wpt_playlist_id value)) (\<lambda>_.
     bind_ok (ok_or (mapping_defect ''playlist track missing track'') (wpt_track value)) (\<lambda>track.
     bind_ok (require_mapping ''playlist track id'' (wtr_id track)) (\<lambda>_.
     bind_ok (map_track_summary [] origin track) (\<lambda>mapped.
       map_ok (\<lambda>added. \<lparr>pt_membership_id = wtr_id track, pt_playlist_id = wpt_playlist_id value,
            pt_track = mapped, pt_position = wpt_position value, pt_added_at_epoch_millis = added\<rparr>)
         (playlist_timestamp ''playlist track missing added timestamp'' (wpt_added_at value))))))"

definition playlist_token :: "engine_error \<Rightarrow> engine_error" where
  "playlist_token _ = mapping_defect ''playlist returned an invalid page token''"

definition map_playlist_page :: "list_playlists_response \<Rightarrow> playlist paged_result result" where
  "map_playlist_page response =
     map_items_page playlist_token (map map_playlist (lpr_playlists response)) (lpr_page_info response)"

definition map_playlist_track_page ::
  "media_origin option \<Rightarrow> playlist_tracks_response \<Rightarrow> playlist_track paged_result result" where
  "map_playlist_track_page origin response =
     map_items_page playlist_token (map (map_playlist_track origin) (ptr_tracks response))
       (ptr_page_info response)"

subsection \<open>Playback and status\<close>

definition playback_defect :: engine_error where
  "playback_defect = mapping_defect ''invalid canonical Canopy playback response''"

definition map_playback_source :: "wire_playback_source \<Rightarrow> playback_source result" where
  "map_playback_source source =
     map_ok (\<lambda>expires. \<lparr>ps_track_id = wps_track_id source, ps_url = wps_stream_url source,
         ps_content_type = wps_content_type source, ps_codec = wps_codec source,
         ps_duration_millis = wps_duration_ms source, ps_expires_at_epoch_millis = expires\<rparr>)
       (bind_ok (ok_or playback_defect (wps_expires_at source))
          (timestamp_to_epoch_millis playback_defect playback_defect))"

definition map_status_response :: "status_response \<Rightarrow> backend_status result" where
  "map_status_response response =
     map_ok (\<lambda>checked. \<lparr>bs_healthy = sr_healthy response, bs_version = sr_version response,
         bs_status = sr_status response,
         bs_dependencies = map (\<lambda>d. \<lparr>ds_name = wd_name d, ds_status = wd_status d,
             ds_message = wd_message d\<rparr>) (sr_dependencies response),
         bs_checked_at_epoch_millis = checked\<rparr>)
       (transposed (map_option status_timestamp (sr_checked_at response)))"

subsection \<open>Profiles and preferences\<close>

definition profile_defect :: engine_error where
  "profile_defect = mapping_defect ''invalid canonical Canopy profile response''"

definition profile_timestamp :: "timestamp option \<Rightarrow> u64 option result" where
  "profile_timestamp t =
     transposed (map_option (timestamp_to_epoch_millis profile_defect profile_defect) t)"

definition map_profile :: "wire_profile \<Rightarrow> profile result" where
  "map_profile wire =
     (if wpf_id wire = [] \<or> wpf_external_user_id wire = [] then Err profile_defect
      else bind_ok (profile_timestamp (wpf_created_at wire)) (\<lambda>created.
             map_ok (\<lambda>updated. \<lparr>prof_id = wpf_id wire, prof_external_user_id = wpf_external_user_id wire,
                 prof_display_name = wpf_display_name wire, prof_created_at_epoch_millis = created,
                 prof_updated_at_epoch_millis = updated\<rparr>)
               (profile_timestamp (wpf_updated_at wire))))"

definition profile_to_wire :: "profile \<Rightarrow> wire_profile" where
  "profile_to_wire profile =
     \<lparr>wpf_id = prof_id profile, wpf_external_user_id = prof_external_user_id profile,
      wpf_display_name = prof_display_name profile, wpf_created_at = None, wpf_updated_at = None\<rparr>"

definition profile_update_apply_to :: "profile_update \<Rightarrow> profile \<Rightarrow> profile" where
  "profile_update_apply_to update profile =
     (case pu_display_name update of
        None \<Rightarrow> profile | Some display_name \<Rightarrow> profile\<lparr>prof_display_name := display_name\<rparr>)"

definition field_mask_paths :: "profile_update \<Rightarrow> string list" where
  "field_mask_paths update =
     (case pu_display_name update of None \<Rightarrow> [] | Some _ \<Rightarrow> [''display_name''])"

text \<open>A JSON number and its float: \<open>as_f64\<close> and \<open>Number::from_f64\<close> are \<open>serde_json\<close>'s.\<close>

record number_codec =
  nc_as_f64 :: "string \<Rightarrow> f64 option"
  nc_from_f64 :: "f64 \<Rightarrow> string option"

fun value_to_json :: "number_codec \<Rightarrow> wire_value \<Rightarrow> json result"
and struct_to_json :: "number_codec \<Rightarrow> (string \<times> wire_value) list \<Rightarrow> json_map result"
and values_to_json :: "number_codec \<Rightarrow> wire_value list \<Rightarrow> json list result" where
  "value_to_json nc NoKind = Ok JNull"
| "value_to_json nc NullValue = Ok JNull"
| "value_to_json nc (NumberValue x) =
     (if fp_is_finite x then map_ok JNumber (ok_or profile_defect (nc_from_f64 nc x))
      else Err profile_defect)"
| "value_to_json nc (StringValue s) = Ok (JString s)"
| "value_to_json nc (BoolValue b) = Ok (JBool b)"
| "value_to_json nc (StructValue entries) = map_ok JObject (struct_to_json nc entries)"
| "value_to_json nc (ListValue vs) = map_ok JArray (values_to_json nc vs)"
| "struct_to_json nc [] = Ok []"
| "struct_to_json nc ((key, v) # entries) =
     bind_ok (value_to_json nc v) (\<lambda>j. map_ok (\<lambda>js. (key, j) # js) (struct_to_json nc entries))"
| "values_to_json nc [] = Ok []"
| "values_to_json nc (v # vs) =
     bind_ok (value_to_json nc v) (\<lambda>j. map_ok (\<lambda>js. j # js) (values_to_json nc vs))"

fun json_to_value :: "number_codec \<Rightarrow> json \<Rightarrow> wire_value"
and json_to_struct :: "number_codec \<Rightarrow> json_map \<Rightarrow> (string \<times> wire_value) list"
and json_to_values :: "number_codec \<Rightarrow> json list \<Rightarrow> wire_value list" where
  "json_to_value nc JNull = NullValue"
| "json_to_value nc (JBool b) = BoolValue b"
| "json_to_value nc (JNumber n) = NumberValue (case nc_as_f64 nc n of None \<Rightarrow> Fin 0 | Some x \<Rightarrow> x)"
| "json_to_value nc (JString s) = StringValue s"
| "json_to_value nc (JArray vs) = ListValue (json_to_values nc vs)"
| "json_to_value nc (JObject entries) = StructValue (json_to_struct nc entries)"
| "json_to_struct nc [] = []"
| "json_to_struct nc ((key, v) # entries) = (key, json_to_value nc v) # json_to_struct nc entries"
| "json_to_values nc [] = []"
| "json_to_values nc (v # vs) = json_to_value nc v # json_to_values nc vs"

definition map_preferences :: "number_codec \<Rightarrow> (string \<times> wire_value) list option \<Rightarrow> json_map result" where
  "map_preferences nc preferences =
     map_ok (\<lambda>m. case m of None \<Rightarrow> [] | Some m \<Rightarrow> m)
       (transposed (map_option (struct_to_json nc) preferences))"

end
