(* ===== verification/ConnectionConfig.thy ===== *)
theory ConnectionConfig
  imports WireModel
begin

text \<open>
  The connection configuration of the Canopy backend (\<open>networking/canopy/config.rs\<close>): what a handed
  over document has to say, which endpoints may be contacted in the clear, the TLS server name, and
  the loop that recognises a chain of public certificates. Decoding JSON is \<open>serde_json\<close>'s,
  splitting an address into its parts is \<open>http::Uri\<close>'s and \<open>url::Url\<close>'s; they are parameters.
\<close>

subsection \<open>Documents and addresses\<close>

record raw_contract =
  ctr_protobuf_package :: string
  ctr_bsr_module :: string
  ctr_release :: string
  ctr_commit :: string
  ctr_prost_package :: string
  ctr_prost_version :: string
  ctr_tonic_package :: string
  ctr_tonic_version :: string

record raw_transport =
  rtr_grpc_endpoint :: string
  rtr_stream_base_url :: string
  rtr_openapi_url :: string
  rtr_tls_required_outside_loopback :: bool
  rtr_tls_server_name :: "string option"
  rtr_private_ca_pem :: "string option"

record raw_authentication =
  rau_metadata_key :: string
  rau_metadata_scheme :: string
  rau_verification_action_relative_path :: string
  rau_verification_token_query_parameter :: string
  rau_password_reset_action_relative_path :: string
  rau_password_reset_token_query_parameter :: string
  rau_expiry_query_parameter :: string
  rau_auth_service_requires_postgresql :: bool
  rau_password_bootstrap_requires_email_delivery :: bool

record raw_connection_config =
  rcc_schema_version :: u32
  rcc_environment :: string
  rcc_contract :: raw_contract
  rcc_transport :: raw_transport
  rcc_authentication :: raw_authentication

text \<open>The parts of a parsed address, with the text it was parsed from. \<open>http::Uri\<close> has an equality of its
  own, which ignores the case of scheme and host.\<close>

record uri =
  uri_text :: string
  uri_scheme :: "string option"
  uri_userinfo :: "string option"
  uri_host :: "string option"

record url =
  url_text :: string
  url_scheme :: string
  url_username :: string
  url_password :: "string option"
  url_host :: "string option"

record address_parser =
  decode_connection :: "string \<Rightarrow> raw_connection_config option"
  parse_uri :: "string \<Rightarrow> uri option"
  parse_url :: "string \<Rightarrow> url option"
  same_uri :: "uri \<Rightarrow> uri \<Rightarrow> bool"

datatype deployment_mode = Development | Production

record canopy_tls_config =
  tls_server_name :: string
  tls_private_ca_pem :: "string option"

record canopy_connection_config =
  ccc_grpc_endpoint :: uri
  ccc_stream_base_url :: url
  ccc_openapi_url :: url
  ccc_environment :: string
  ccc_tls :: canopy_tls_config

text \<open>The derived equality.\<close>

definition same_configuration ::
  "address_parser \<Rightarrow> canopy_connection_config \<Rightarrow> canopy_connection_config \<Rightarrow> bool" where
  "same_configuration ap a b \<longleftrightarrow>
     same_uri ap (ccc_grpc_endpoint a) (ccc_grpc_endpoint b) \<and>
     ccc_stream_base_url a = ccc_stream_base_url b \<and> ccc_openapi_url a = ccc_openapi_url b \<and>
     ccc_environment a = ccc_environment b \<and> ccc_tls a = ccc_tls b"

definition config_error :: "string \<Rightarrow> engine_error" where
  "config_error message = engine_error_new InvalidInput message False"

definition unsafe_transport :: engine_error where
  "unsafe_transport = engine_error_new UnsafeTransport ''unsafe backend transport configuration'' False"

subsection \<open>The contract and the authentication metadata\<close>

definition PROTOBUF_PACKAGE :: string where "PROTOBUF_PACKAGE = ''canopy.v1''"
definition BSR_MODULE :: string where "BSR_MODULE = ''buf.build/pandawave/canopy-api''"
definition RELEASE :: string where "RELEASE = ''v0.3.0''"
definition COMMIT :: string where "COMMIT = ''ff8940d1a15b4034bb430fd47dd45cdc''"
definition PROST_PACKAGE :: string where
  "PROST_PACKAGE = ''pandawave_canopy-api_community_neoeinstein-prost''"
definition PROST_VERSION :: string where "PROST_VERSION = ''=0.5.0-00000000000000-ff8940d1a15b.2''"
definition TONIC_PACKAGE :: string where
  "TONIC_PACKAGE = ''pandawave_canopy-api_community_neoeinstein-tonic''"
definition TONIC_VERSION :: string where "TONIC_VERSION = ''=0.5.0-00000000000000-ff8940d1a15b.4''"
definition MAX_PUBLIC_CA_PEM_BYTES :: nat where "MAX_PUBLIC_CA_PEM_BYTES = 64 * 1024"

definition required :: "string \<Rightarrow> bool \<Rightarrow> unit result" where
  "required message valid = (if valid then Ok () else Err (config_error message))"

definition validate_contract :: "raw_contract \<Rightarrow> unit result" where
  "validate_contract contract =
     required ''unsupported Canopy contract''
       (ctr_protobuf_package contract = PROTOBUF_PACKAGE \<and>
        ctr_bsr_module contract = BSR_MODULE \<and>
        ctr_release contract = RELEASE \<and>
        ctr_commit contract = COMMIT \<and>
        ctr_prost_package contract = PROST_PACKAGE \<and>
        ctr_prost_version contract = PROST_VERSION \<and>
        ctr_tonic_package contract = TONIC_PACKAGE \<and>
        ctr_tonic_version contract = TONIC_VERSION)"

definition validate_authentication :: "raw_authentication \<Rightarrow> unit result" where
  "validate_authentication authentication =
     required ''unsupported authentication metadata''
       (rau_metadata_key authentication = ''authorization'' \<and>
        rau_metadata_scheme authentication = ''Bearer'' \<and>
        rau_verification_action_relative_path authentication = ''verify-email'' \<and>
        rau_verification_token_query_parameter authentication = ''token'' \<and>
        rau_password_reset_action_relative_path authentication = ''reset-password'' \<and>
        rau_password_reset_token_query_parameter authentication = ''token'' \<and>
        rau_expiry_query_parameter authentication = ''expires_at'' \<and>
        rau_auth_service_requires_postgresql authentication \<and>
        rau_password_bootstrap_requires_email_delivery authentication)"

subsection \<open>Endpoints\<close>

definition is_development_host :: "string \<Rightarrow> bool" where
  "is_development_host host \<longleftrightarrow> host \<in> set [''127.0.0.1'', ''localhost'', ''10.0.2.2'', ''::1'']"

definition is_listen_address :: "string \<Rightarrow> bool" where
  "is_listen_address host \<longleftrightarrow> host \<in> set [''0.0.0.0'', ''::'']"

definition validate_public_url :: "url \<Rightarrow> string \<Rightarrow> string result" where
  "validate_public_url address label =
     (if url_scheme address \<notin> {''http'', ''https''}
      then Err (config_error (''unsupported '' @ label @ '' URL scheme''))
      else if url_username address \<noteq> [] \<or> url_password address \<noteq> None
      then Err (config_error (label @ '' URL contains credentials''))
      else ok_or (config_error (label @ '' URL has no host'')) (url_host address))"

definition validate_endpoints :: "uri \<Rightarrow> url \<Rightarrow> url \<Rightarrow> deployment_mode \<Rightarrow> unit result" where
  "validate_endpoints grpc stream openapi mode =
     bind_ok (ok_or (config_error ''gRPC endpoint has no scheme'') (uri_scheme grpc)) (\<lambda>grpc_scheme.
     bind_ok (ok_or (config_error ''gRPC endpoint has no host'') (uri_host grpc)) (\<lambda>grpc_host.
     bind_ok (validate_public_url stream ''stream'') (\<lambda>stream_host.
     bind_ok (validate_public_url openapi ''OpenAPI'') (\<lambda>openapi_host.
       let hosts = [grpc_host, stream_host, openapi_host];
           cleartext = (grpc_scheme = ''http'' \<or> url_scheme stream = ''http'' \<or> url_scheme openapi = ''http'')
       in if list_ex is_listen_address hosts
          then Err (config_error ''listen address is not a client endpoint'')
          else if grpc_scheme \<notin> {''http'', ''https''}
          then Err (config_error ''unsupported gRPC endpoint scheme'')
          else if cleartext \<and> \<not> (mode = Development \<and> list_all is_development_host hosts)
          then Err unsafe_transport
          else Ok ()))))"

subsection \<open>Certificates\<close>

text \<open>\<open>str::trim\<close>.\<close>

function trim_start :: "string \<Rightarrow> string" where
  "trim_start s = (if s = [] \<or> ws_width s = 0 then s else trim_start (drop (ws_width s) s))"
  by pat_completeness auto
termination
  by (relation "measure length") (auto simp: neq_Nil_conv)

declare trim_start.simps [simp del]

primrec trim_end :: "string \<Rightarrow> string" where
  "trim_end [] = []"
| "trim_end (c # cs) = (if blank (c # cs) then [] else c # trim_end cs)"

definition trim :: "string \<Rightarrow> string" where
  "trim s = trim_end (trim_start s)"

definition strip_prefix :: "string \<Rightarrow> string \<Rightarrow> string option" where
  "strip_prefix prefix s = (if take (length prefix) s = prefix then Some (drop (length prefix) s) else None)"

text \<open>\<open>split_once\<close>: at the first occurrence.\<close>

fun split_once :: "string \<Rightarrow> string \<Rightarrow> (string \<times> string) option" where
  "split_once sep s =
     (case strip_prefix sep s of
        Some rest \<Rightarrow> Some ([], rest)
      | None \<Rightarrow>
          (case s of
             [] \<Rightarrow> None
           | c # cs \<Rightarrow> map_option (\<lambda>(a, b). (c # a, b)) (split_once sep cs)))"

declare split_once.simps [simp del]

definition BEGIN_CERTIFICATE :: string where
  "BEGIN_CERTIFICATE = ''-----BEGIN CERTIFICATE-----''"

definition END_CERTIFICATE :: string where
  "END_CERTIFICATE = ''-----END CERTIFICATE-----''"

text \<open>The characters of Base64 text in lines.\<close>

definition certificate_char :: "char \<Rightarrow> bool" where
  "certificate_char c \<longleftrightarrow>
     (let n = (of_char c :: nat) in
      48 \<le> n \<and> n \<le> 57 \<or> 65 \<le> n \<and> n \<le> 90 \<or> 97 \<le> n \<and> n \<le> 122 \<or> n \<in> {43, 47, 61, 13, 10})"

lemma trim_end_length: "length (trim_end s) \<le> length s"
  by (induction s) auto

lemma trim_length: "length (trim s) \<le> length s"
proof -
  have "length (trim_start s) \<le> length s"
    by (induction s rule: trim_start.induct) (subst trim_start.simps, auto)
  with trim_end_length [of "trim_start s"] show ?thesis
    by (simp add: trim_def)
qed

lemma split_once_shorter: "split_once sep s = Some (a, b) \<Longrightarrow> length b \<le> length s"
  by (induction sep s arbitrary: a b rule: split_once.induct)
    (subst (asm) (2) split_once.simps,
     force simp: strip_prefix_def split: option.splits if_splits list.splits)

lemma strip_prefix_Some: "strip_prefix p s = Some rest \<longleftrightarrow> s = p @ rest"
  by (auto simp: strip_prefix_def dest: sym) (metis append_take_drop_id)

text \<open>The loop over the certificates, with their number so far.\<close>

function certificate_chain_loop :: "string \<Rightarrow> nat \<Rightarrow> bool" where
  "certificate_chain_loop remaining count =
     (if remaining = [] then 0 < count
      else case strip_prefix BEGIN_CERTIFICATE remaining of
             None \<Rightarrow> False
           | Some after_begin \<Rightarrow>
               (case split_once END_CERTIFICATE after_begin of
                  None \<Rightarrow> False
                | Some (body, after_end) \<Rightarrow>
                    (if body = [] \<or> \<not> list_all certificate_char body then False
                     else certificate_chain_loop (trim after_end) (count + 1))))"
  by pat_completeness auto
termination
proof (relation "measure (length \<circ> fst)")
  fix remaining count after_begin x body after_end
  assume "strip_prefix BEGIN_CERTIFICATE remaining = Some after_begin"
    and "split_once END_CERTIFICATE after_begin = Some x" "(body, after_end) = x"
  then have "length after_end + length BEGIN_CERTIFICATE \<le> length remaining"
    using split_once_shorter [of END_CERTIFICATE after_begin body after_end]
    by (auto simp: strip_prefix_Some)
  with trim_length [of after_end]
  show "((trim after_end, count + 1), (remaining, count)) \<in> measure (length \<circ> fst)"
    by (simp add: BEGIN_CERTIFICATE_def)
qed simp

declare certificate_chain_loop.simps [simp del]

definition is_public_certificate_chain :: "string \<Rightarrow> bool" where
  "is_public_certificate_chain pem = certificate_chain_loop (trim pem) 0"

definition validate_public_ca_pem :: "string \<Rightarrow> string result" where
  "validate_public_ca_pem pem =
     (if MAX_PUBLIC_CA_PEM_BYTES < length pem \<or> \<not> is_public_certificate_chain pem
      then Err (config_error ''invalid TLS trust certificate'')
      else Ok pem)"

text \<open>\<open>eq_ignore_ascii_case\<close>.\<close>

definition ascii_lower :: "char \<Rightarrow> char" where
  "ascii_lower c = (let n = (of_char c :: nat) in if 65 \<le> n \<and> n \<le> 90 then char_of (n + 32) else c)"

definition eq_ignore_ascii_case :: "string \<Rightarrow> string \<Rightarrow> bool" where
  "eq_ignore_ascii_case a b \<longleftrightarrow> map ascii_lower a = map ascii_lower b"

definition validate_tls_config :: "uri \<Rightarrow> raw_transport \<Rightarrow> canopy_tls_config result" where
  "validate_tls_config grpc_endpoint tr =
     bind_ok (ok_or (config_error ''gRPC endpoint has no host'') (uri_host grpc_endpoint)) (\<lambda>grpc_host.
       let server_name = (case rtr_tls_server_name tr of None \<Rightarrow> grpc_host | Some name \<Rightarrow> name)
       in if server_name = [] \<or> \<not> eq_ignore_ascii_case server_name grpc_host
          then Err (config_error ''TLS server name must match gRPC endpoint host'')
          else
            bind_ok (case rtr_private_ca_pem tr of
                     None \<Rightarrow> Ok None
                   | Some pem \<Rightarrow> map_ok Some (validate_public_ca_pem pem)) (\<lambda>private_ca_pem.
              if private_ca_pem \<noteq> None \<and> uri_scheme grpc_endpoint \<noteq> Some ''https''
              then Err unsafe_transport
              else Ok \<lparr>tls_server_name = server_name, tls_private_ca_pem = private_ca_pem\<rparr>))"

subsection \<open>The whole document\<close>

definition parse_and_validate ::
  "address_parser \<Rightarrow> string \<Rightarrow> deployment_mode \<Rightarrow> canopy_connection_config result" where
  "parse_and_validate ap json mode =
     bind_ok (ok_or (config_error ''invalid connection JSON'') (decode_connection ap json)) (\<lambda>raw.
       if rcc_schema_version raw \<noteq> 1 then Err (config_error ''unsupported connection schema'')
       else if rcc_environment raw = [] then Err (config_error ''empty connection environment'')
       else
         bind_ok (validate_contract (rcc_contract raw)) (\<lambda>_.
         bind_ok (validate_authentication (rcc_authentication raw)) (\<lambda>_.
         let tr = rcc_transport raw in
         bind_ok (required ''Canopy handoff must require TLS outside loopback''
                  (rtr_tls_required_outside_loopback tr)) (\<lambda>_.
         bind_ok (ok_or (config_error ''invalid gRPC endpoint'') (parse_uri ap (rtr_grpc_endpoint tr))) (\<lambda>grpc.
         bind_ok (ok_or (config_error ''invalid stream URL'') (parse_url ap (rtr_stream_base_url tr))) (\<lambda>stream.
         bind_ok (ok_or (config_error ''invalid OpenAPI URL'') (parse_url ap (rtr_openapi_url tr))) (\<lambda>openapi.
         bind_ok (validate_endpoints grpc stream openapi mode) (\<lambda>_.
         map_ok (\<lambda>tls. \<lparr>ccc_grpc_endpoint = grpc, ccc_stream_base_url = stream,
             ccc_openapi_url = openapi, ccc_environment = rcc_environment raw, ccc_tls = tls\<rparr>)
           (validate_tls_config grpc tr)))))))))"

subsection \<open>What a chain of certificates is\<close>

text \<open>The language that is meant: certificates with white space between them and at the end.\<close>

inductive certificate_chain :: "string \<Rightarrow> bool" where
  last_certificate:
    "body \<noteq> [] \<Longrightarrow> list_all certificate_char body \<Longrightarrow> blank space \<Longrightarrow>
     certificate_chain (BEGIN_CERTIFICATE @ body @ END_CERTIFICATE @ space)"
| further_certificate:
    "body \<noteq> [] \<Longrightarrow> list_all certificate_char body \<Longrightarrow> blank space \<Longrightarrow> certificate_chain rest \<Longrightarrow>
     certificate_chain (BEGIN_CERTIFICATE @ body @ END_CERTIFICATE @ space @ rest)"

text \<open>A character that is printed, so that no text with it is blank.\<close>

definition printed :: "char \<Rightarrow> bool" where
  "printed c \<longleftrightarrow> (let n = (of_char c :: nat) in 33 \<le> n \<and> n < 128)"

lemma byte_at_simps [simp]:
  "byte_at [] i = 0" "byte_at (a # s) 0 = of_char a" "byte_at [a] (Suc 0) = 0" "byte_at [a] 2 = 0"
  "byte_at (a # b # s) (Suc 0) = of_char b" "byte_at [a, b] 2 = 0" "byte_at (a # b # c # s) 2 = of_char c"
  by (simp_all add: byte_at_def)

text \<open>The three shapes of a leading white space.\<close>

lemma ws_width_cases:
  assumes "ws_width s \<noteq> 0"
  obtains
    (one) a r where "s = a # r" "(9 \<le> (of_char a :: nat) \<and> (of_char a :: nat) \<le> 13) \<or> (of_char a :: nat) = 32"
  | (two) a b r where "s = a # b # r" "(of_char a :: nat) = 0xC2"
      "(of_char b :: nat) = 0x85 \<or> (of_char b :: nat) = 0xA0"
  | (three) a b c r where "s = a # b # c # r"
      "(of_char a :: nat) = 0xE1 \<and> (of_char b :: nat) = 0x9A \<and> (of_char c :: nat) = 0x80 \<or>
       (of_char a :: nat) = 0xE2 \<and> (of_char b :: nat) = 0x80 \<and>
         (0x80 \<le> (of_char c :: nat) \<and> (of_char c :: nat) \<le> 0x8A \<or> (of_char c :: nat) \<in> {0xA8, 0xA9, 0xAF}) \<or>
       (of_char a :: nat) = 0xE2 \<and> (of_char b :: nat) = 0x81 \<and> (of_char c :: nat) = 0x9F \<or>
       (of_char a :: nat) = 0xE3 \<and> (of_char b :: nat) = 0x80 \<and> (of_char c :: nat) = 0x80"
proof -
  consider "s = []" | a where "s = [a]" | a b where "s = [a, b]" | a b c r where "s = a # b # c # r"
    by (metis list.exhaust)
  then show thesis
  proof cases
    case 1
    with assms show ?thesis by (simp add: ws_width_def Let_def)
  next
    case (2 a)
    with assms one show ?thesis by (simp add: ws_width_def Let_def split: if_split_asm)
  next
    case (3 a b)
    with assms one two show ?thesis by (simp add: ws_width_def Let_def split: if_split_asm)
  next
    case (4 a b c r)
    with assms one two three show ?thesis
      by (simp add: ws_width_def Let_def split: if_split_asm)
  qed
qed

lemma ws_width_spaces:
  assumes "ws_width s \<noteq> 0"
  shows "ws_width s \<le> length s" "\<forall>c \<in> set (take (ws_width s) s). \<not> printed c"
    "ws_width (take (ws_width s) s @ t) = ws_width s"
  using assms
  by (cases rule: ws_width_cases; auto simp: ws_width_def Let_def printed_def)+

lemma ws_width_append: "ws_width s \<noteq> 0 \<Longrightarrow> ws_width (s @ t) = ws_width s"
  using ws_width_spaces(3) [of s "drop (ws_width s) s @ t"] by (metis append.assoc append_take_drop_id)

lemma ws_width_printed: "printed c \<Longrightarrow> ws_width (c # s) = 0"
  by (auto simp: ws_width_def printed_def Let_def)

lemma blank_append: "blank s \<Longrightarrow> blank (s @ t) \<longleftrightarrow> blank t"
proof (induction s rule: blank.induct)
  case (1 s)
  show ?case
  proof (cases "s = []")
    case False
    with 1 have w: "ws_width s \<noteq> 0" "blank (drop (ws_width s) s)"
      by (subst (asm) (2) blank.simps, simp split: if_splits)+
    with 1 False show ?thesis
      by (subst blank.simps) (simp add: ws_width_append ws_width_spaces(1))
  qed simp
qed

lemma trim_start_append: "blank s \<Longrightarrow> trim_start (s @ t) = trim_start t"
proof (induction s rule: blank.induct)
  case (1 s)
  show ?case
  proof (cases "s = []")
    case False
    with 1 have w: "ws_width s \<noteq> 0" "blank (drop (ws_width s) s)"
      by (subst (asm) (2) blank.simps, simp split: if_splits)+
    with 1 False show ?thesis
      by (subst trim_start.simps) (simp add: ws_width_append ws_width_spaces(1))
  qed simp
qed

lemma blank_not_printed: "blank s \<Longrightarrow> c \<in> set s \<Longrightarrow> \<not> printed c"
proof (induction s rule: blank.induct)
  case (1 s)
  then have s: "s \<noteq> []" "ws_width s \<noteq> 0" "blank (drop (ws_width s) s)"
    by (auto simp: blank.simps [of s] split: if_splits)
  from 1(3) have "c \<in> set (take (ws_width s) s) \<or> c \<in> set (drop (ws_width s) s)"
    by (metis append_take_drop_id set_append UnE)
  with 1(1) [OF s] ws_width_spaces(2) [OF s(2)] show ?case by blast
qed

lemma trim_start_prefix: "\<exists>w. blank w \<and> s = w @ trim_start s"
proof (induction s rule: trim_start.induct)
  case (1 s)
  show ?case
  proof (cases "s = [] \<or> ws_width s = 0")
    case True
    then show ?thesis
      by (subst trim_start.simps) (auto intro: exI [of _ "[]"])
  next
    case False
    with 1 obtain w where w: "blank w" "drop (ws_width s) s = w @ trim_start (drop (ws_width s) s)"
      by blast
    let ?k = "take (ws_width s) s"
    have "?k \<noteq> []" "ws_width (?k @ w) = ws_width s" "length ?k = ws_width s"
      using False ws_width_spaces [of s] by auto
    with w(1) False have "blank (?k @ w)"
      by (subst blank.simps) simp
    moreover have "s = (?k @ w) @ trim_start s"
      using False w(2) by (subst trim_start.simps) (metis append.assoc append_take_drop_id)
    ultimately show ?thesis by blast
  qed
qed

lemma trim_end_suffix: "\<exists>w. blank w \<and> s = trim_end s @ w"
  by (induction s) (auto intro: exI [of _ "[]"])

lemma trim_end_append:
  "c \<in> set t \<Longrightarrow> printed c \<Longrightarrow> trim_end (s @ t) = s @ trim_end t"
  by (induction s) (auto dest: blank_not_printed)

lemma trim_end_blank: "blank w \<Longrightarrow> trim_end w = []"
  by (cases w) auto

lemma trim_end_idem: "trim_end (trim_end s) = trim_end s"
proof (induction s)
  case (Cons c cs)
  show ?case
  proof (cases "blank (c # cs)")
    case False
    obtain w where w: "blank w" "cs = trim_end cs @ w"
      using trim_end_suffix by blast
    then have "\<not> blank (c # trim_end cs)"
      using False blank_append [of "c # trim_end cs" w] by (metis append_Cons)
    with False Cons show ?thesis by simp
  qed simp
qed simp

lemma trim_start_printed: "printed c \<Longrightarrow> trim_start (c # s) = c # s"
  by (subst trim_start.simps) (simp add: ws_width_printed)

lemma trim_surrounded: "\<exists>v w. blank v \<and> blank w \<and> s = v @ trim s @ w"
  unfolding trim_def using trim_start_prefix [of s] trim_end_suffix [of "trim_start s"] by metis

text \<open>Text that begins with a printed character, between two blanks.\<close>

lemma trim_blank_before: "blank w \<Longrightarrow> trim (w @ s) = trim s"
  by (simp add: trim_def trim_start_append)

lemma trim_trim_end:
  assumes "blank w" and "printed c"
  shows "trim (trim_end (w @ c # s)) = trim (w @ c # s)"
proof -
  have "trim_end (w @ c # s) = w @ trim_end (c # s)"
    by (rule trim_end_append [of c]) (simp_all add: assms(2))
  moreover have cs: "trim_end (c # s) = c # trim_end s"
    using assms(2) blank_not_printed [of "c # s" c] by auto
  ultimately have "trim (trim_end (w @ c # s)) = trim_end (c # trim_end s)"
    using assms by (simp add: trim_blank_before trim_def [of "c # trim_end s"] trim_start_printed del: trim_end.simps)
  then show ?thesis
    using assms cs trim_end_idem [of "c # s"]
    by (simp add: trim_blank_before trim_def [of "c # s"] trim_start_printed del: trim_end.simps)
qed

lemma split_once_parts: "split_once sep s = Some (a, b) \<Longrightarrow> s = a @ sep @ b"
  by (induction sep s arbitrary: a b rule: split_once.induct)
    (subst (asm) (2) split_once.simps,
     auto simp: strip_prefix_Some split: option.splits if_splits list.splits)

lemma split_once_first:
  assumes "sep = d # ds" and "d \<notin> set a"
  shows "split_once sep (a @ sep @ b) = Some (a, b)"
  using assms(2)
proof (induction a)
  case Nil
  have "strip_prefix sep (sep @ b) = Some b"
    by (simp add: strip_prefix_Some)
  then show ?case
    by (subst split_once.simps) simp
next
  case (Cons c a)
  have "strip_prefix sep ((c # a) @ sep @ b) = None"
    using Cons.prems assms(1) by (auto simp: strip_prefix_def)
  with Cons show ?case
    by (subst split_once.simps) simp
qed

lemma dash:
  "printed CHR ''-''" "\<not> certificate_char CHR ''-''"
  "BEGIN_CERTIFICATE = CHR ''-'' # tl BEGIN_CERTIFICATE" "END_CERTIFICATE = CHR ''-'' # tl END_CERTIFICATE"
  by (simp_all add: printed_def certificate_char_def BEGIN_CERTIFICATE_def END_CERTIFICATE_def)

lemma chain_step:
  assumes "body \<noteq> []" "list_all certificate_char body"
  shows "certificate_chain_loop (BEGIN_CERTIFICATE @ body @ END_CERTIFICATE @ after) n =
     certificate_chain_loop (trim after) (n + 1)"
proof -
  have "CHR ''-'' \<notin> set body"
    using assms(2) dash(2) by (auto simp: list_all_iff)
  then have "split_once END_CERTIFICATE (body @ END_CERTIFICATE @ after) = Some (body, after)"
    by (rule split_once_first [OF dash(4)])
  moreover have "strip_prefix BEGIN_CERTIFICATE (BEGIN_CERTIFICATE @ t) = Some t" for t
    by (simp add: strip_prefix_Some)
  moreover have "BEGIN_CERTIFICATE \<noteq> []"
    by (simp add: BEGIN_CERTIFICATE_def)
  ultimately show ?thesis
    using assms by (subst certificate_chain_loop.simps) simp
qed

lemma certificate_chain_append: "certificate_chain r \<Longrightarrow> blank w \<Longrightarrow> certificate_chain (r @ w)"
  by (induction rule: certificate_chain.induct)
    (auto simp: blank_append intro: certificate_chain.intros)

lemma certificate_chain_dash: "certificate_chain r \<Longrightarrow> \<exists>s. r = CHR ''-'' # s"
  by (cases rule: certificate_chain.cases) (auto simp: BEGIN_CERTIFICATE_def)

lemma trim_certificate:
  "trim (BEGIN_CERTIFICATE @ body @ END_CERTIFICATE @ after) =
   BEGIN_CERTIFICATE @ body @ END_CERTIFICATE @ trim_end after"
proof -
  have last: "END_CERTIFICATE = butlast END_CERTIFICATE @ [CHR ''-'']"
    by (simp add: END_CERTIFICATE_def)
  have "trim_end (s @ CHR ''-'' # after) = s @ CHR ''-'' # trim_end after" for s
  proof -
    have "\<not> blank (CHR ''-'' # after)"
      using blank_not_printed [of "CHR ''-'' # after" "CHR ''-''"] dash(1) by auto
    then show ?thesis
      using trim_end_append [of "CHR ''-''" "CHR ''-'' # after" s] dash(1) by simp
  qed
  from this [of "BEGIN_CERTIFICATE @ body @ butlast END_CERTIFICATE"]
  have "trim_end (BEGIN_CERTIFICATE @ body @ END_CERTIFICATE @ after) =
      BEGIN_CERTIFICATE @ body @ END_CERTIFICATE @ trim_end after"
    by (subst (1 2) last) simp
  moreover have "trim_start (BEGIN_CERTIFICATE @ t) = BEGIN_CERTIFICATE @ t" for t
    by (subst (1 2) dash(3)) (simp only: append_Cons trim_start_printed [OF dash(1)])
  ultimately show ?thesis
    by (simp add: trim_def)
qed

lemma loop_of_chain: "certificate_chain r \<Longrightarrow> certificate_chain_loop (trim r) n"
proof (induction arbitrary: n rule: certificate_chain.induct)
  case (last_certificate body space)
  have "certificate_chain_loop (trim (trim_end space)) (m + 1)" for m
    using last_certificate by (subst certificate_chain_loop.simps) (simp add: trim_end_blank trim_def trim_start.simps)
  with last_certificate show ?case
    by (simp add: trim_certificate chain_step)
next
  case (further_certificate body space rest)
  obtain s where "rest = CHR ''-'' # s"
    using certificate_chain_dash [OF further_certificate.hyps(4)] ..
  then have "trim (trim_end (space @ rest)) = trim rest"
    using trim_trim_end [OF further_certificate.hyps(3) dash(1)] trim_blank_before [OF further_certificate.hyps(3)]
    by metis
  with further_certificate show ?case
    by (simp add: trim_certificate chain_step)
qed

lemma chain_of_loop:
  "certificate_chain_loop (trim x) n \<Longrightarrow> blank x \<and> 0 < n \<or> (\<exists>v r. x = v @ r \<and> blank v \<and> certificate_chain r)"
proof (induction "length x" arbitrary: x n rule: less_induct)
  case less
  obtain v w where x: "blank v" "blank w" "x = v @ trim x @ w"
    using trim_surrounded by blast
  show ?case
  proof (cases "trim x = []")
    case True
    with less.prems have "0 < n" by (subst (asm) certificate_chain_loop.simps) simp
    moreover have "blank x" using x True by (metis append_Nil blank_append)
    ultimately show ?thesis by simp
  next
    case False
    with less.prems obtain body after
      where y: "trim x = BEGIN_CERTIFICATE @ body @ END_CERTIFICATE @ after"
        and body: "body \<noteq> []" "list_all certificate_char body"
        and rest: "certificate_chain_loop (trim after) (n + 1)"
      by (subst (asm) certificate_chain_loop.simps)
        (auto simp: strip_prefix_Some dest!: split_once_parts split: option.splits if_splits)
    have "length x = length v + length (trim x) + length w"
      using arg_cong [OF x(3), of length] by (simp add: add.assoc)
    then have "length after < length x"
      unfolding y by (simp add: BEGIN_CERTIFICATE_def)
    from less.hyps [OF this rest] have "certificate_chain (BEGIN_CERTIFICATE @ body @ END_CERTIFICATE @ after)"
      using body by (auto intro: certificate_chain.intros)
    with y x show ?thesis
      using certificate_chain_append by metis
  qed
qed

text \<open>C12: the loop accepts exactly the language that is meant, a non-empty sequence of certificates of
Base64 text, in lines or not, with white space around them and between them: anything else, a
private key or a certificate with headers for instance, is refused.\<close>

theorem certificate_chains_are_recognised:
  "is_public_certificate_chain pem \<longleftrightarrow> (\<exists>v r. pem = v @ r \<and> blank v \<and> certificate_chain r)"
  using chain_of_loop [of pem 0] loop_of_chain [of _ 0]
  by (auto simp: is_public_certificate_chain_def trim_blank_before)

subsection \<open>What a validated configuration promises\<close>

lemmas ok_steps = bind_ok_Inr map_ok_Inr ok_or_Inr

lemma validated_url: "validate_public_url address label = Inr host \<longleftrightarrow>
  url_scheme address \<in> {''http'', ''https''} \<and> url_username address = [] \<and> url_password address = None \<and>
  url_host address = Some host"
  by (auto simp: validate_public_url_def ok_or_Inr)

definition endpoint_schemes :: "canopy_connection_config \<Rightarrow> string set" where
  "endpoint_schemes cfg =
     {the (uri_scheme (ccc_grpc_endpoint cfg)), url_scheme (ccc_stream_base_url cfg), url_scheme (ccc_openapi_url cfg)}"

definition endpoint_hosts :: "canopy_connection_config \<Rightarrow> string option set" where
  "endpoint_hosts cfg =
     {uri_host (ccc_grpc_endpoint cfg), url_host (ccc_stream_base_url cfg), url_host (ccc_openapi_url cfg)}"

definition without_credentials :: "url \<Rightarrow> bool" where
  "without_credentials address \<longleftrightarrow> url_username address = [] \<and> url_password address = None"

lemma validated_endpoints:
  assumes "validate_endpoints grpc stream openapi mode = Inr x"
  obtains scheme host stream_host openapi_host
  where "uri_scheme grpc = Some scheme" "uri_host grpc = Some host"
    "validate_public_url stream ''stream'' = Inr stream_host" "validate_public_url openapi ''OpenAPI'' = Inr openapi_host"
    "list_all (\<lambda>h. \<not> is_listen_address h) [host, stream_host, openapi_host]"
    "scheme \<in> {''http'', ''https''}"
    "scheme = ''http'' \<or> url_scheme stream = ''http'' \<or> url_scheme openapi = ''http'' \<Longrightarrow>
     mode = Development \<and> list_all is_development_host [host, stream_host, openapi_host]"
  using assms
  by (auto simp: validate_endpoints_def ok_steps Let_def split: if_split_asm)

lemma validated_tls:
  assumes "validate_tls_config grpc tr = Inr tls"
  shows "\<exists>host. uri_host grpc = Some host \<and> eq_ignore_ascii_case (tls_server_name tls) host \<and> tls_server_name tls \<noteq> [] \<and>
    pred_option (\<lambda>pem. uri_scheme grpc = Some ''https'' \<and> length pem \<le> MAX_PUBLIC_CA_PEM_BYTES \<and>
      is_public_certificate_chain pem) (tls_private_ca_pem tls)"
  using assms
  by (auto simp: validate_tls_config_def validate_public_ca_pem_def ok_steps Let_def
      split: if_split_asm option.split_asm)

text \<open>The credentials in the address of the gRPC endpoint are not looked at, where those of the other two
  endpoints are refused.\<close>

lemma grpc_credentials_are_accepted:
  "validate_endpoints (grpc\<lparr>uri_userinfo := u\<rparr>) stream openapi mode = validate_endpoints grpc stream openapi mode"
  "validate_tls_config (grpc\<lparr>uri_userinfo := u\<rparr>) tr = validate_tls_config grpc tr"
  by (simp_all add: validate_endpoints_def validate_tls_config_def cong: if_cong)

text \<open>C7: in a configuration that was accepted each of the three endpoints has http or https as its scheme and
a host, whose text is neither 0.0.0.0 nor ::, and the stream and OpenAPI addresses carry no
credentials. One endpoint in the clear means a development build and three approved development hosts, so that production is https
throughout. The TLS server name is the host of the gRPC endpoint up to letter case, and a certificate
authority of the deployment's own is a chain of public certificates of at most 64 KiB, for https. (The bracketed
form of the listen address passes, see \<open>bracketed_hosts\<close>, and so do credentials in the gRPC address.)\<close>

theorem cleartext_only_in_development:
  assumes "parse_and_validate ap json mode = Inr cfg"
  shows "endpoint_schemes cfg \<subseteq> {''http'', ''https''} \<and>
    None \<notin> endpoint_hosts cfg \<and> Some ''0.0.0.0'' \<notin> endpoint_hosts cfg \<and> Some ''::'' \<notin> endpoint_hosts cfg \<and>
    without_credentials (ccc_stream_base_url cfg) \<and> without_credentials (ccc_openapi_url cfg) \<and>
    (''http'' \<in> endpoint_schemes cfg \<longrightarrow>
       mode = Development \<and> endpoint_hosts cfg \<subseteq> Some ` Collect is_development_host) \<and>
    (mode = Production \<longrightarrow> endpoint_schemes cfg = {''https''}) \<and>
    eq_ignore_ascii_case (tls_server_name (ccc_tls cfg)) (the (uri_host (ccc_grpc_endpoint cfg))) \<and>
    pred_option (\<lambda>pem. uri_scheme (ccc_grpc_endpoint cfg) = Some ''https'' \<and>
        length pem \<le> 65536 \<and> is_public_certificate_chain pem)
      (tls_private_ca_pem (ccc_tls cfg))"
proof -
  from assms obtain grpc stream openapi tr x tls environment
    where endpoints: "validate_endpoints grpc stream openapi mode = Inr x"
      and tls: "validate_tls_config grpc tr = Inr tls"
      and cfg: "cfg = \<lparr>ccc_grpc_endpoint = grpc, ccc_stream_base_url = stream,
             ccc_openapi_url = openapi, ccc_environment = environment, ccc_tls = tls\<rparr>"
    by (auto simp: parse_and_validate_def ok_steps Let_def split: if_split_asm)
  from validated_tls [OF tls] have tls': "eq_ignore_ascii_case (tls_server_name tls) (the (uri_host grpc))"
    "pred_option (\<lambda>pem. uri_scheme grpc = Some ''https'' \<and> length pem \<le> 65536 \<and> is_public_certificate_chain pem)
      (tls_private_ca_pem tls)"
    by (auto simp: MAX_PUBLIC_CA_PEM_BYTES_def elim!: option.pred_mono_strong)
  from endpoints show ?thesis
    by (rule validated_endpoints)
      (use tls' in \<open>auto simp: cfg endpoint_schemes_def endpoint_hosts_def without_credentials_def
        validated_url is_listen_address_def\<close>)
qed

definition sample_parser :: address_parser where
  "sample_parser =
     \<lparr>decode_connection = (\<lambda>_. Some
        \<lparr>rcc_schema_version = 1, rcc_environment = ''production'',
         rcc_contract = \<lparr>ctr_protobuf_package = PROTOBUF_PACKAGE, ctr_bsr_module = BSR_MODULE,
           ctr_release = RELEASE, ctr_commit = COMMIT, ctr_prost_package = PROST_PACKAGE,
           ctr_prost_version = PROST_VERSION, ctr_tonic_package = TONIC_PACKAGE,
           ctr_tonic_version = TONIC_VERSION\<rparr>,
         rcc_transport = \<lparr>rtr_grpc_endpoint = ''https://a.b'', rtr_stream_base_url = ''https://c.d'',
           rtr_openapi_url = ''https://e.f'', rtr_tls_required_outside_loopback = True,
           rtr_tls_server_name = Some ''a.b'',
           rtr_private_ca_pem = Some (BEGIN_CERTIFICATE @ ''QQ=='' @ END_CERTIFICATE)\<rparr>,
         rcc_authentication = \<lparr>rau_metadata_key = ''authorization'', rau_metadata_scheme = ''Bearer'',
           rau_verification_action_relative_path = ''verify-email'',
           rau_verification_token_query_parameter = ''token'',
           rau_password_reset_action_relative_path = ''reset-password'',
           rau_password_reset_token_query_parameter = ''token'',
           rau_expiry_query_parameter = ''expires_at'', rau_auth_service_requires_postgresql = True,
           rau_password_bootstrap_requires_email_delivery = True\<rparr>\<rparr>),
      parse_uri = (\<lambda>s. Some \<lparr>uri_text = s, uri_scheme = Some ''https'', uri_userinfo = None,
        uri_host = Some ''a.b''\<rparr>),
      parse_url = (\<lambda>s. Some \<lparr>url_text = s, url_scheme = ''https'', url_username = [], url_password = None,
         url_host = Some ''c.d''\<rparr>),
      same_uri = (\<lambda>a b. uri_text a = uri_text b)\<rparr>"

lemma sample_chain: "is_public_certificate_chain (BEGIN_CERTIFICATE @ ''QQ=='' @ END_CERTIFICATE)"
proof -
  have "certificate_chain (BEGIN_CERTIFICATE @ ''QQ=='' @ END_CERTIFICATE @ [])"
    by (rule certificate_chain.intros(1)) (simp_all add: certificate_char_def)
  from loop_of_chain [OF this, of 0] show ?thesis
    by (simp add: is_public_certificate_chain_def)
qed

lemma length_certificate: "length BEGIN_CERTIFICATE = 27" "length END_CERTIFICATE = 25"
  by (simp_all add: BEGIN_CERTIFICATE_def END_CERTIFICATE_def)

lemma sample_validated: "\<exists>cfg. parse_and_validate sample_parser [] Production = Inr cfg"
  by (simp add: parse_and_validate_def sample_parser_def bind_ok_def ok_or_def map_ok_def required_def Let_def
      validate_contract_def validate_authentication_def validate_endpoints_def validate_public_url_def
      is_listen_address_def validate_tls_config_def validate_public_ca_pem_def eq_ignore_ascii_case_def
      sample_chain [simplified] MAX_PUBLIC_CA_PEM_BYTES_def length_certificate)

theorem cleartext_only_in_development_witness:
  "\<exists>cfg. parse_and_validate sample_parser [] Production = Inr cfg \<and> endpoint_schemes cfg = {''https''}"
proof -
  obtain cfg where cfg: "parse_and_validate sample_parser [] Production = Inr cfg"
    using sample_validated by blast
  from cleartext_only_in_development [OF cfg] cfg show ?thesis by blast
qed

text \<open>\<open>Uri::host\<close> and \<open>Url::host_str\<close> give an IPv6 host with its brackets, so neither list of hosts ever
  meets one: the loopback address is not approved, and the listen address is not recognised.\<close>

lemma bracketed_hosts: "\<not> is_development_host ''[::1]'' \<and> \<not> is_listen_address ''[::]''"
  by (simp add: is_development_host_def is_listen_address_def)

end
