(* ===== verification/CanopyPorts.thy ===== *)
theory CanopyPorts
  imports WireModel Ports RequestLaws
begin

text \<open>
  The Canopy adapters as the ports of the engine (\<open>networking/canopy/catalog.rs\<close>, \<open>discovery.rs\<close>,
  \<open>history.rs\<close>, \<open>library.rs\<close>, \<open>playlist.rs\<close>, \<open>profile.rs\<close>, \<open>auth.rs\<close>, \<open>playback.rs\<close>,
  \<open>system.rs\<close>): each operation checks its arguments, sends one message through
  \<open>execute_with_bound_auth\<close> or \<open>execute\<close>, and maps the answer. A generated service client is a
  record with one transport per RPC; the world of the ports is the exchange with
  the session coordinator.
\<close>

subsection \<open>Messages and services\<close>

datatype canopy_message =
    MsgBrowse "string option" "string list" wire_page_request
  | MsgSearch string wire_page_request
  | MsgGetMedia string
  | MsgResolvePlayback string
  | MsgGetFeed "string list" wire_page_request
  | MsgGetHistorySettings
  | MsgUpdateHistorySettings bool
  | MsgRecordPlayback string u64 f32
  | MsgListHistory wire_page_request
  | MsgDeleteHistoryEntry string
  | MsgClearHistory
  | MsgSaveTrack string
  | MsgRemoveSavedTrack string
  | MsgListSavedTracks wire_page_request
  | MsgLikeTrack string
  | MsgUnlikeTrack string
  | MsgListLikedTracks wire_page_request
  | MsgCreatePlaylist string "string option"
  | MsgGetPlaylist string
  | MsgUpdatePlaylist wire_playlist "string list"
  | MsgDeletePlaylist string
  | MsgListPlaylists wire_page_request
  | MsgAddPlaylistTrack string string "u32 option"
  | MsgRemovePlaylistTrack string string
  | MsgReorderPlaylistTracks string "string list" u64
  | MsgListPlaylistTracks string wire_page_request
  | MsgUpsertProfile "string option"
  | MsgGetProfile
  | MsgUpdateProfile wire_profile "string list"
  | MsgDeleteProfile
  | MsgGetPreferences
  | MsgUpdatePreferences "(string \<times> wire_value) list"
  | MsgGetAccount
  | MsgListSessions wire_page_request
  | MsgRevokeSession string
  | MsgDeleteAccount
  | MsgGetStatus

record 'w catalog_service =
  rpc_browse :: "('w, canopy_message, tracks_response) transport"
  rpc_search :: "('w, canopy_message, tracks_response) transport"
  rpc_get_media :: "('w, canopy_message, wire_track) transport"

record 'w playback_service =
  rpc_resolve_playback :: "('w, canopy_message, wire_playback_source) transport"

record 'w discovery_service =
  rpc_get_discovery_feed :: "('w, canopy_message, tracks_response) transport"
  rpc_get_for_you_feed :: "('w, canopy_message, tracks_response) transport"
  rpc_get_recommendations :: "('w, canopy_message, tracks_response) transport"

record 'w history_service =
  rpc_get_history_settings :: "('w, canopy_message, wire_history_settings) transport"
  rpc_update_history_settings :: "('w, canopy_message, update_settings_response) transport"
  rpc_record_playback :: "('w, canopy_message, bool) transport"
  rpc_list_history :: "('w, canopy_message, list_history_response) transport"
  rpc_delete_history_entry :: "('w, canopy_message, unit) transport"
  rpc_clear_history :: "('w, canopy_message, u64) transport"

record 'w library_service =
  rpc_save_track :: "('w, canopy_message, saved_track) transport"
  rpc_remove_saved_track :: "('w, canopy_message, unit) transport"
  rpc_list_saved_tracks :: "('w, canopy_message, saved_tracks_response) transport"
  rpc_like_track :: "('w, canopy_message, liked_track) transport"
  rpc_unlike_track :: "('w, canopy_message, unit) transport"
  rpc_list_liked_tracks :: "('w, canopy_message, liked_tracks_response) transport"

record 'w playlist_service =
  rpc_create_playlist :: "('w, canopy_message, wire_playlist) transport"
  rpc_get_playlist :: "('w, canopy_message, wire_playlist) transport"
  rpc_update_playlist :: "('w, canopy_message, wire_playlist) transport"
  rpc_delete_playlist :: "('w, canopy_message, unit) transport"
  rpc_list_playlists :: "('w, canopy_message, list_playlists_response) transport"
  rpc_add_playlist_track :: "('w, canopy_message, wire_playlist_track) transport"
  rpc_remove_playlist_track :: "('w, canopy_message, unit) transport"
  rpc_reorder_playlist_tracks :: "('w, canopy_message, wire_playlist) transport"
  rpc_list_playlist_tracks :: "('w, canopy_message, playlist_tracks_response) transport"

record 'w profile_service =
  rpc_upsert_profile :: "('w, canopy_message, wire_profile) transport"
  rpc_get_profile :: "('w, canopy_message, wire_profile) transport"
  rpc_update_profile :: "('w, canopy_message, wire_profile) transport"
  rpc_delete_profile :: "('w, canopy_message, unit) transport"
  rpc_get_preferences :: "('w, canopy_message, ((string \<times> wire_value) list option)) transport"
  rpc_update_preferences :: "('w, canopy_message, ((string \<times> wire_value) list option)) transport"

record 'w auth_service =
  rpc_get_account :: "('w, canopy_message, (account_summary option)) transport"
  rpc_list_sessions :: "('w, canopy_message, list_sessions_response) transport"
  rpc_revoke_session :: "('w, canopy_message, unit) transport"
  rpc_delete_account :: "('w, canopy_message, unit) transport"

record 'w system_service =
  rpc_get_status :: "('w, canopy_message, status_response) transport"

type_synonym 'w canopy_exchange = "('w, canopy_message) exchange"

text \<open>An adapter: tonic's part, whether it was composed with a session coordinator, the
  media origin, and tonic's text for a timeout in seconds.\<close>

record canopy =
  cn_tonic :: tonic
  cn_session :: bool
  cn_media_origin :: "media_origin option"
  cn_timeout :: "nat \<Rightarrow> string"
  cn_numbers :: number_codec

subsection \<open>One call\<close>

definition request_new :: "canopy_message \<Rightarrow> canopy_message rpc_request" where
  "request_new message = \<lparr>rq_metadata = Map.empty, rq_message = message\<rparr>"

definition set_timeout :: "string \<Rightarrow> 'm rpc_request \<Rightarrow> 'm rpc_request" where
  "set_timeout encoded request =
     request\<lparr>rq_metadata := (rq_metadata request)(''grpc-timeout'' \<mapsto> encoded)\<rparr>"

text \<open>An RPC of an adapter never panics (\<open>rpc_returns\<close> below), so the last case does not arise.\<close>

definition returned :: "('r result \<times> 'x) option \<Rightarrow> 'x \<Rightarrow> 'r result \<times> 'x" where
  "returned outcome ex =
     (case outcome of Some answer \<Rightarrow> answer | None \<Rightarrow> (Err missing_session_coordinator, ex))"

definition bound_rpc ::
  "canopy \<Rightarrow> auth_identity \<Rightarrow> canopy_operation \<Rightarrow> canopy_message \<Rightarrow> ('w, canopy_message, 'r) transport \<Rightarrow>
     'w canopy_exchange \<Rightarrow> 'r result \<times> 'w canopy_exchange" where
  "bound_rpc cn identity operation message transport ex =
     returned (execute_with_bound_auth (cn_tonic cn) identity operation (request_new message) transport ex) ex"

definition open_rpc ::
  "canopy \<Rightarrow> bool \<Rightarrow> canopy_operation \<Rightarrow> canopy_message rpc_request \<Rightarrow> ('w, canopy_message, 'r) transport \<Rightarrow>
     'w canopy_exchange \<Rightarrow> 'r result \<times> 'w canopy_exchange" where
  "open_rpc cn present operation request transport ex =
     returned (execute (cn_tonic cn) present operation request transport ex) ex"

definition answer_with :: "('r \<Rightarrow> 'a result) \<Rightarrow> 'r result \<times> 'x \<Rightarrow> 'a result \<times> 'x" where
  "answer_with f answer = (bind_ok (fst answer) f, snd answer)"

definition invalid_input :: "string \<Rightarrow> engine_error" where
  "invalid_input message = engine_error_new InvalidInput message False"

text \<open>An argument check in front of a call.\<close>

definition guarded :: "unit result \<Rightarrow> ('x \<Rightarrow> 'a result \<times> 'x) \<Rightarrow> 'x \<Rightarrow> 'a result \<times> 'x" where
  "guarded check call ex = (case check of Inl e \<Rightarrow> (Err e, ex) | Inr _ \<Rightarrow> call ex)"

subsection \<open>Catalog, discovery, playback, status\<close>

record 'w catalog_port =
  cp_browse :: "string option \<Rightarrow> string list \<Rightarrow> page_request \<Rightarrow> (engine_track paged_result, 'w) io"
  cp_search :: "string \<Rightarrow> page_request \<Rightarrow> (engine_track paged_result, 'w) io"
  cp_get_media :: "string \<Rightarrow> (engine_track, 'w) io"

definition canopy_catalog :: "canopy \<Rightarrow> 'w catalog_service \<Rightarrow> 'w canopy_exchange catalog_port" where
  "canopy_catalog cn service =
     \<lparr>cp_browse = (\<lambda>parent_id genres page ex.
        answer_with (map_tracks_page (cn_media_origin cn))
          (open_rpc cn (cn_session cn) Browse (request_new (MsgBrowse parent_id genres (map_page_request page)))
             (rpc_browse service) ex)),
      cp_search = (\<lambda>query page ex.
        answer_with (map_tracks_page (cn_media_origin cn))
          (open_rpc cn (cn_session cn) Search (request_new (MsgSearch query (map_page_request page)))
             (rpc_search service) ex)),
      cp_get_media = (\<lambda>track_id ex.
        answer_with (map_track (cn_media_origin cn))
          (open_rpc cn (cn_session cn) GetMedia (request_new (MsgGetMedia track_id))
             (rpc_get_media service) ex))\<rparr>"

fun feed_operation :: "discovery_feed \<Rightarrow> canopy_operation" where
  "feed_operation Discovery = GetDiscoveryFeed"
| "feed_operation ForYou = GetForYouFeed"
| "feed_operation Recommendations = GetRecommendations"

fun feed_rpc :: "discovery_feed \<Rightarrow> 'w discovery_service \<Rightarrow> ('w, canopy_message, tracks_response) transport" where
  "feed_rpc Discovery = rpc_get_discovery_feed"
| "feed_rpc ForYou = rpc_get_for_you_feed"
| "feed_rpc Recommendations = rpc_get_recommendations"

definition canopy_discovery :: "canopy \<Rightarrow> 'w discovery_service \<Rightarrow> 'w canopy_exchange discovery_port" where
  "canopy_discovery cn service =
     \<lparr>dp_get_feed = (\<lambda>feed identity excluded page ex.
        answer_with (map_tracks_page (cn_media_origin cn))
          (bound_rpc cn identity (feed_operation feed) (MsgGetFeed excluded (map_page_request page))
             (feed_rpc feed service) ex))\<rparr>"

definition canopy_playback :: "canopy \<Rightarrow> 'w playback_service \<Rightarrow> 'w canopy_exchange playback_port" where
  "canopy_playback cn service =
     \<lparr>pp_resolve_playback = (\<lambda>track_id ex.
        answer_with map_playback_source
          (open_rpc cn (cn_session cn) ResolvePlayback
             (set_timeout (cn_timeout cn 3) (request_new (MsgResolvePlayback track_id)))
             (rpc_resolve_playback service) ex))\<rparr>"

definition canopy_system :: "canopy \<Rightarrow> 'w system_service \<Rightarrow> 'w canopy_exchange system_port" where
  "canopy_system cn service =
     \<lparr>sp_get_status = (\<lambda>ex.
        answer_with map_status_response
          (open_rpc cn False GetStatus (set_timeout (cn_timeout cn 3) (request_new MsgGetStatus))
             (rpc_get_status service) ex))\<rparr>"

subsection \<open>History\<close>

definition require_history_id :: "string \<Rightarrow> unit result" where
  "require_history_id history_id =
     (if blank history_id then Err (invalid_input ''history id is required'') else Ok ())"

definition map_record_request :: "playback_record \<Rightarrow> canopy_message" where
  "map_record_request event =
     MsgRecordPlayback (rec_track_id event) (rec_duration_millis event) (rec_completion_ratio event)"

definition canopy_history :: "canopy \<Rightarrow> 'w history_service \<Rightarrow> 'w canopy_exchange history_port" where
  "canopy_history cn service =
     \<lparr>hp_get_settings = (\<lambda>identity ex.
        answer_with (\<lambda>r. Ok (map_settings r))
          (bound_rpc cn identity GetHistorySettings MsgGetHistorySettings
             (rpc_get_history_settings service) ex)),
      hp_update_settings = (\<lambda>identity enabled ex.
        answer_with map_settings_update
          (bound_rpc cn identity UpdateHistorySettings (MsgUpdateHistorySettings enabled)
             (rpc_update_history_settings service) ex)),
      hp_record = (\<lambda>identity event.
        bound_rpc cn identity RecordPlayback (map_record_request event) (rpc_record_playback service)),
      hp_list = (\<lambda>identity page ex.
        answer_with (map_history_page (cn_media_origin cn))
          (bound_rpc cn identity ListHistory (MsgListHistory (map_page_request page))
             (rpc_list_history service) ex)),
      hp_delete_entry = (\<lambda>identity history_id.
        guarded (require_history_id history_id)
          (bound_rpc cn identity DeleteHistoryEntry (MsgDeleteHistoryEntry history_id)
             (rpc_delete_history_entry service))),
      hp_clear = (\<lambda>identity.
        bound_rpc cn identity ClearHistory MsgClearHistory (rpc_clear_history service))\<rparr>"

subsection \<open>Library\<close>

definition require_track_id :: "string \<Rightarrow> unit result" where
  "require_track_id track_id =
     (if blank track_id then Err (invalid_input ''library track id is required'') else Ok ())"

definition canopy_library :: "canopy \<Rightarrow> 'w library_service \<Rightarrow> 'w canopy_exchange library_port" where
  "canopy_library cn service =
     \<lparr>lp_save = (\<lambda>identity track_id. guarded (require_track_id track_id) (\<lambda>ex.
        answer_with (map_saved_track (cn_media_origin cn))
          (bound_rpc cn identity SaveTrack (MsgSaveTrack track_id) (rpc_save_track service) ex))),
      lp_remove_saved = (\<lambda>identity track_id. guarded (require_track_id track_id)
        (bound_rpc cn identity RemoveSavedTrack (MsgRemoveSavedTrack track_id)
           (rpc_remove_saved_track service))),
      lp_list_saved = (\<lambda>identity page ex.
        answer_with (map_saved_response (cn_media_origin cn))
          (bound_rpc cn identity ListSavedTracks (MsgListSavedTracks (map_page_request page))
             (rpc_list_saved_tracks service) ex)),
      lp_like = (\<lambda>identity track_id. guarded (require_track_id track_id) (\<lambda>ex.
        answer_with (map_liked_track (cn_media_origin cn))
          (bound_rpc cn identity LikeTrack (MsgLikeTrack track_id) (rpc_like_track service) ex))),
      lp_unlike = (\<lambda>identity track_id. guarded (require_track_id track_id)
        (bound_rpc cn identity UnlikeTrack (MsgUnlikeTrack track_id) (rpc_unlike_track service))),
      lp_list_liked = (\<lambda>identity page ex.
        answer_with (map_liked_response (cn_media_origin cn))
          (bound_rpc cn identity ListLikedTracks (MsgListLikedTracks (map_page_request page))
             (rpc_list_liked_tracks service) ex))\<rparr>"

subsection \<open>Playlists\<close>

definition require_id :: "string \<Rightarrow> string \<Rightarrow> unit result" where
  "require_id label value = (if blank value then Err (invalid_input (label @ '' is required'')) else Ok ())"

definition validate_name :: "string \<Rightarrow> unit result" where
  "validate_name name = (if blank name then Err (invalid_input ''playlist name is required'') else Ok ())"

definition require_order :: "string list \<Rightarrow> unit result" where
  "require_order ids =
     (if ids = [] \<or> list_ex blank ids
      then Err (invalid_input ''playlist reorder requires complete ordered membership ids'') else Ok ())"

text \<open>Two checks in order.\<close>

definition both :: "unit result \<Rightarrow> unit result \<Rightarrow> unit result" where
  "both first second = bind_ok first (\<lambda>_. second)"

definition update_playlist_message :: "update_playlist \<Rightarrow> canopy_message" where
  "update_playlist_message input =
     MsgUpdatePlaylist
       \<lparr>wpl_id = up_id input, wpl_name = up_name input, wpl_description = up_description input,
        wpl_revision = up_expected_revision input, wpl_created_at = None, wpl_updated_at = None\<rparr>
       [''name'', ''description'']"

definition playlist_add_track ::
  "canopy \<Rightarrow> 'w playlist_service \<Rightarrow> auth_identity \<Rightarrow> string \<Rightarrow> string \<Rightarrow>
     'w canopy_exchange \<Rightarrow> playlist_track result \<times> 'w canopy_exchange" where
  "playlist_add_track cn service identity playlist_id track_id =
     guarded (both (require_id ''playlist id'' playlist_id) (require_id ''track id'' track_id)) (\<lambda>ex.
       answer_with (map_playlist_track (cn_media_origin cn))
         (bound_rpc cn identity AddPlaylistTrack (MsgAddPlaylistTrack playlist_id track_id None)
            (rpc_add_playlist_track service) ex))"

definition playlist_remove_track ::
  "canopy \<Rightarrow> 'w playlist_service \<Rightarrow> auth_identity \<Rightarrow> string \<Rightarrow> string \<Rightarrow>
     'w canopy_exchange \<Rightarrow> unit result \<times> 'w canopy_exchange" where
  "playlist_remove_track cn service identity playlist_id track_id =
     guarded (both (require_id ''playlist id'' playlist_id) (require_id ''track id'' track_id))
       (bound_rpc cn identity RemovePlaylistTrack (MsgRemovePlaylistTrack playlist_id track_id)
          (rpc_remove_playlist_track service))"

definition playlist_reorder_call ::
  "canopy \<Rightarrow> 'w playlist_service \<Rightarrow> auth_identity \<Rightarrow> string \<Rightarrow> string list \<Rightarrow> u64 \<Rightarrow>
     'w canopy_exchange \<Rightarrow> playlist result \<times> 'w canopy_exchange" where
  "playlist_reorder_call cn service identity playlist_id ids revision =
     guarded (both (require_id ''playlist id'' playlist_id) (require_order ids)) (\<lambda>ex.
       answer_with map_playlist
         (bound_rpc cn identity ReorderPlaylistTracks (MsgReorderPlaylistTracks playlist_id ids revision)
            (rpc_reorder_playlist_tracks service) ex))"

definition playlist_list_tracks ::
  "canopy \<Rightarrow> 'w playlist_service \<Rightarrow> auth_identity \<Rightarrow> string \<Rightarrow> page_request \<Rightarrow>
     'w canopy_exchange \<Rightarrow> playlist_track paged_result result \<times> 'w canopy_exchange" where
  "playlist_list_tracks cn service identity playlist_id page =
     guarded (require_id ''playlist id'' playlist_id) (\<lambda>ex.
       answer_with (map_playlist_track_page (cn_media_origin cn))
         (bound_rpc cn identity ListPlaylistTracks (MsgListPlaylistTracks playlist_id (map_page_request page))
            (rpc_list_playlist_tracks service) ex))"

lemmas playlist_track_calls =
  playlist_add_track_def playlist_remove_track_def playlist_reorder_call_def playlist_list_tracks_def

definition canopy_playlists :: "canopy \<Rightarrow> 'w playlist_service \<Rightarrow> 'w canopy_exchange playlist_port" where
  "canopy_playlists cn service =
     \<lparr>plp_create = (\<lambda>identity input. guarded (validate_name (cp_name input)) (\<lambda>ex.
        answer_with map_playlist
          (bound_rpc cn identity CreatePlaylist (MsgCreatePlaylist (cp_name input) (cp_description input))
             (rpc_create_playlist service) ex))),
      plp_get = (\<lambda>identity playlist_id. guarded (require_id ''playlist id'' playlist_id) (\<lambda>ex.
        answer_with map_playlist
          (bound_rpc cn identity GetPlaylist (MsgGetPlaylist playlist_id)
             (rpc_get_playlist service) ex))),
      plp_update = (\<lambda>identity input.
        guarded (both (require_id ''playlist id'' (up_id input)) (validate_name (up_name input))) (\<lambda>ex.
          answer_with map_playlist
            (bound_rpc cn identity UpdatePlaylist (update_playlist_message input)
               (rpc_update_playlist service) ex))),
      plp_delete = (\<lambda>identity playlist_id. guarded (require_id ''playlist id'' playlist_id)
        (bound_rpc cn identity DeletePlaylist (MsgDeletePlaylist playlist_id)
           (rpc_delete_playlist service))),
      plp_list = (\<lambda>identity page ex.
        answer_with map_playlist_page
          (bound_rpc cn identity ListPlaylists (MsgListPlaylists (map_page_request page))
             (rpc_list_playlists service) ex)),
      plp_add_track = playlist_add_track cn service,
      plp_remove_track = playlist_remove_track cn service,
      plp_reorder = playlist_reorder_call cn service,
      plp_list_tracks = playlist_list_tracks cn service\<rparr>"

subsection \<open>Profile\<close>

definition profile_rpc ::
  "canopy \<Rightarrow> canopy_operation \<Rightarrow> canopy_message \<Rightarrow> ('w, canopy_message, 'r) transport \<Rightarrow>
     'w canopy_exchange \<Rightarrow> 'r result \<times> 'w canopy_exchange" where
  "profile_rpc cn operation message transport ex =
     open_rpc cn True operation (request_new message) transport ex"

definition profile_get :: "canopy \<Rightarrow> 'w profile_service \<Rightarrow> 'w canopy_exchange \<Rightarrow> profile result \<times> 'w canopy_exchange" where
  "profile_get cn service ex =
     answer_with map_profile (profile_rpc cn GetProfile MsgGetProfile (rpc_get_profile service) ex)"

definition profile_update_call ::
  "canopy \<Rightarrow> 'w profile_service \<Rightarrow> profile_update \<Rightarrow> 'w canopy_exchange \<Rightarrow> profile result \<times> 'w canopy_exchange" where
  "profile_update_call cn service update ex =
     (if field_mask_paths update = [] then profile_get cn service ex
      else case profile_get cn service ex of
             (Inl err, ex) \<Rightarrow> (Err err, ex)
           | (Inr current, ex) \<Rightarrow>
               answer_with map_profile
                 (profile_rpc cn UpdateProfile
                    (MsgUpdateProfile (profile_to_wire (profile_update_apply_to update current))
                       (field_mask_paths update))
                    (rpc_update_profile service) ex))"

definition canopy_profile :: "canopy \<Rightarrow> 'w profile_service \<Rightarrow> 'w canopy_exchange profile_port" where
  "canopy_profile cn service =
     \<lparr>prp_upsert = (\<lambda>display_name ex.
        answer_with map_profile
          (profile_rpc cn UpsertProfile (MsgUpsertProfile display_name)
             (rpc_upsert_profile service) ex)),
      prp_get = profile_get cn service,
      prp_update = profile_update_call cn service,
      prp_delete = profile_rpc cn DeleteProfile MsgDeleteProfile (rpc_delete_profile service),
      prp_get_preferences = (\<lambda>ex.
        answer_with (map_preferences (cn_numbers cn))
          (profile_rpc cn GetPreferences MsgGetPreferences (rpc_get_preferences service) ex)),
      prp_update_preferences = (\<lambda>values ex.
        answer_with (map_preferences (cn_numbers cn))
          (profile_rpc cn UpdatePreferences (MsgUpdatePreferences (json_to_struct (cn_numbers cn) values))
             (rpc_update_preferences service) ex))\<rparr>"

subsection \<open>Account\<close>

definition protected_client_unavailable :: engine_error where
  "protected_client_unavailable =
     engine_error_new FailedPrecondition ''protected account service is not configured'' False"

definition execute_account ::
  "canopy \<Rightarrow> auth_identity \<Rightarrow> canopy_operation \<Rightarrow> canopy_message \<Rightarrow> ('w, canopy_message, 'r) transport \<Rightarrow>
     'w canopy_exchange \<Rightarrow> 'r result \<times> 'w canopy_exchange" where
  "execute_account cn identity operation message transport ex =
     (if \<not> cn_session cn then (Err protected_client_unavailable, ex)
      else bound_rpc cn identity operation message transport ex)"

definition require_session_id :: "string \<Rightarrow> unit result" where
  "require_session_id session_id =
     (if blank session_id then Err (invalid_input ''session id is required'') else Ok ())"

definition delete_account_call ::
  "canopy \<Rightarrow> 'w auth_service \<Rightarrow> auth_identity \<Rightarrow> 'w canopy_exchange \<Rightarrow> unit result \<times> 'w canopy_exchange" where
  "delete_account_call cn service identity ex =
     (case execute_account cn identity DeleteAccount MsgDeleteAccount (rpc_delete_account service) ex of
        (Inl err, ex) \<Rightarrow> (Err err, ex)
      | (Inr _, ex) \<Rightarrow> with_coordinator (clear_after_account_delete identity) ex)"

definition canopy_account :: "canopy \<Rightarrow> 'w auth_service \<Rightarrow> 'w canopy_exchange account_port" where
  "canopy_account cn service =
     \<lparr>ap_get_account = (\<lambda>identity ex.
        answer_with (\<lambda>r. bind_ok (ok_or session_defect r) map_account)
          (execute_account cn identity GetAccount MsgGetAccount (rpc_get_account service) ex)),
      ap_list_sessions = (\<lambda>identity page ex.
        answer_with map_session_page
          (execute_account cn identity ListSessions (MsgListSessions (map_page_request page))
             (rpc_list_sessions service) ex)),
      ap_revoke_session = (\<lambda>identity session_id. guarded (require_session_id session_id)
        (execute_account cn identity RevokeSession (MsgRevokeSession session_id)
           (rpc_revoke_session service))),
      ap_delete_account = delete_account_call cn service\<rparr>"

end
