(* ===== verification/AuthAdapter.thy ===== *)
theory AuthAdapter
  imports CanopyPorts
begin

text \<open>
  The authentication adapter (\<open>networking/canopy/auth.rs\<close>) as the coordinator's authentication port:
  the messages, their deadline and credential, the session envelope of an answer. It is composed
  without a coordinator, so its world is the coordinator's own outside world.
\<close>

subsection \<open>Messages\<close>

datatype auth_message =
    MsgRegisterPassword string string
  | MsgResendVerification string
  | MsgVerifyEmail string string
  | MsgLoginPassword string string string
  | MsgRefreshSession string
  | MsgLogout

record session_envelope =
  sev_access_token :: string
  sev_access_expires_at_epoch_ms :: "64 word"
  sev_refresh_token :: string
  sev_refresh_expires_at_epoch_ms :: "64 word"
  sev_account :: "account_summary option"
  sev_session :: "session_summary option"

type_synonym ('w, 'r) auth_rpc = "auth_message rpc_request \<Rightarrow> 'w \<Rightarrow> (rpc_status + 'r) \<times> 'w"

record 'w auth_rpcs =
  arp_register_password :: "('w, bool) auth_rpc"
  arp_resend_verification :: "('w, bool) auth_rpc"
  arp_verify_email :: "('w, session_envelope) auth_rpc"
  arp_login_password :: "('w, session_envelope) auth_rpc"
  arp_refresh_session :: "('w, session_envelope) auth_rpc"
  arp_logout :: "('w, unit) auth_rpc"

subsection \<open>The session envelope\<close>

text \<open>\<open>u64::try_from\<close> of an \<open>i64\<close>.\<close>

definition epoch_from_i64 :: "64 word \<Rightarrow> u64 result" where
  "epoch_from_i64 value = (if sint value < 0 then Err session_defect else Ok value)"

definition map_session_envelope :: "session_envelope \<Rightarrow> envelope result" where
  "map_session_envelope wire =
     (if sev_access_token wire = [] \<or> sev_refresh_token wire = [] then Err session_defect
      else bind_ok (epoch_from_i64 (sev_access_expires_at_epoch_ms wire)) (\<lambda>access_expiry.
           bind_ok (epoch_from_i64 (sev_refresh_expires_at_epoch_ms wire)) (\<lambda>refresh_expiry.
           bind_ok (bind_ok (ok_or session_defect (sev_account wire)) map_account) (\<lambda>account.
           map_ok (\<lambda>session. \<lparr>ev_access_token = sev_access_token wire, ev_access_token_expires_at = access_expiry,
                ev_refresh_token = sev_refresh_token wire, ev_refresh_token_expires_at = refresh_expiry,
                ev_account = account, ev_session = session\<rparr>)
             (bind_ok (ok_or session_defect (sev_session wire)) map_session)))))"

subsection \<open>The adapter\<close>

text \<open>\<open>execute\<close> without a coordinator: the exchange needs one to thread the world, and never looks at it
  (\<open>detached_answer\<close>).\<close>

definition detached :: "'w \<Rightarrow> 'w coordinator" where
  "detached w =
     coordinator_new
       \<lparr>ss_security_level = Ephemeral, ss_read = (\<lambda>w. (Err (StoreUnavailable []), w)),
        ss_replace = (\<lambda>_ w. (Err (StoreUnavailable []), w)), ss_clear = (\<lambda>w. (Err (StoreUnavailable []), w))\<rparr>
       \<lparr>au_register_password = (\<lambda>_ _ w. (Err session_login_required, w)),
        au_resend_verification = (\<lambda>_ w. (Err session_login_required, w)),
        au_verify_email = (\<lambda>_ _ w. (Err session_login_required, w)),
        au_login_password = (\<lambda>_ _ _ w. (Err session_login_required, w)),
        au_refresh_session = (\<lambda>_ w. (Err session_login_required, w)),
        au_logout = (\<lambda>_ w. (Err session_login_required, w))\<rparr>
       (\<lambda>w. (Err session_login_required, w)) w"

definition detached_rpc ::
  "tonic \<Rightarrow> canopy_operation \<Rightarrow> auth_message rpc_request \<Rightarrow> ('w, 'r) auth_rpc \<Rightarrow> 'w \<Rightarrow> 'r result \<times> 'w" where
  "detached_rpc tonic operation request call w =
     (let transport = (\<lambda>request c. let (r, w) = call request (sc_world c) in (r, c\<lparr>sc_world := w\<rparr>));
          (r, ex) = returned (execute tonic False operation request transport
                       \<lparr>ex_coordinator = detached w, ex_sent = []\<rparr>) \<lparr>ex_coordinator = detached w, ex_sent = []\<rparr>
      in (r, sc_world (ex_coordinator ex)))"

text \<open>Every authentication message has the deadline of five seconds.\<close>

definition auth_request :: "canopy \<Rightarrow> auth_message \<Rightarrow> auth_message rpc_request" where
  "auth_request cn message = set_timeout (cn_timeout cn 5) \<lparr>rq_metadata = Map.empty, rq_message = message\<rparr>"

definition authorization_metadata :: "tonic \<Rightarrow> string \<Rightarrow> string result" where
  "authorization_metadata tonic access_token =
     (if tn_valid_metadata tonic (''Bearer '' @ access_token) then Ok (''Bearer '' @ access_token)
      else Err invalid_authorization_metadata)"

definition logout_request :: "canopy \<Rightarrow> string \<Rightarrow> auth_message rpc_request" where
  "logout_request cn authorization =
     (let request = auth_request cn MsgLogout
      in request\<lparr>rq_metadata := (rq_metadata request)(''authorization'' \<mapsto> authorization)\<rparr>)"

definition canopy_auth :: "canopy \<Rightarrow> 'w auth_rpcs \<Rightarrow> 'w auth_port" where
  "canopy_auth cn rpcs =
     \<lparr>au_register_password = (\<lambda>email password w.
        answer_with (\<lambda>accepted. Ok \<lparr>ara_accepted = accepted\<rparr>)
          (detached_rpc (cn_tonic cn) RegisterPassword (auth_request cn (MsgRegisterPassword email password))
             (arp_register_password rpcs) w)),
      au_resend_verification = (\<lambda>email w.
        answer_with (\<lambda>accepted. Ok \<lparr>ara_accepted = accepted\<rparr>)
          (detached_rpc (cn_tonic cn) ResendVerification (auth_request cn (MsgResendVerification email))
             (arp_resend_verification rpcs) w)),
      au_verify_email = (\<lambda>token device_label w.
        answer_with map_session_envelope
          (detached_rpc (cn_tonic cn) VerifyEmailOperation (auth_request cn (MsgVerifyEmail token device_label))
             (arp_verify_email rpcs) w)),
      au_login_password = (\<lambda>email password device_label w.
        answer_with map_session_envelope
          (detached_rpc (cn_tonic cn) LoginPasswordOperation
             (auth_request cn (MsgLoginPassword email password device_label)) (arp_login_password rpcs) w)),
      au_refresh_session = (\<lambda>refresh_token w.
        answer_with map_session_envelope
          (detached_rpc (cn_tonic cn) RefreshSession (auth_request cn (MsgRefreshSession refresh_token))
             (arp_refresh_session rpcs) w)),
      au_logout = (\<lambda>access_token w.
        (case authorization_metadata (cn_tonic cn) access_token of
           Inl err \<Rightarrow> (Err err, w)
         | Inr authorization \<Rightarrow>
             detached_rpc (cn_tonic cn) Logout (logout_request cn authorization) (arp_logout rpcs) w))\<rparr>"

subsection \<open>One message per call\<close>

text \<open>A request that has its own deadline, and its own credential when it needs one, is sent exactly as
  it is, once; nothing of the detached coordinator shows.\<close>

definition needs_no_coordinator :: "canopy_operation \<Rightarrow> auth_message rpc_request \<Rightarrow> bool" where
  "needs_no_coordinator operation request \<longleftrightarrow>
     operation_auth_requirement operation \<in> {AnonymousAuth, RefreshCredential} \<or>
     operation_auth_requirement operation = AccessAuthenticated \<and> rq_metadata request ''authorization'' \<noteq> None"

lemma detached_answer:
  fixes call :: "('w, 'r) auth_rpc"
  assumes "needs_no_coordinator operation request" "rq_metadata request ''grpc-timeout'' \<noteq> None"
  shows "detached_rpc tonic operation request call w =
    (case call request w of
       (Inl status, w) \<Rightarrow>
         (Err (map_operation_status status
            (operation_auth_requirement operation = AccessAuthenticated)), w)
     | (Inr response, w) \<Rightarrow> (Ok response, w))"
proof -
  obtain x w' where call: "call request w = (x, w')"
    by (cases "call request w")
  let ?run = "returned (execute tonic False operation request
      (\<lambda>request c. let (r, w) = call request (sc_world c) in (r, c\<lparr>sc_world := w\<rparr>))
      \<lparr>ex_coordinator = detached w, ex_sent = []\<rparr>) \<lparr>ex_coordinator = detached w, ex_sent = []\<rparr>"
  have world: "sc_world (detached w) = w"
    by (simp add: detached_def coordinator_new_def)
  obtain flag where flag: "(rq_metadata request ''authorization'' \<noteq> None) = flag"
    by blast
  have first: "first_snapshot False operation clock flag ex = (Ok AnonymousAccess, ex)"
    for clock and ex :: "('w, auth_message) exchange"
    using assms(1) by (auto simp: first_snapshot_def needs_no_coordinator_def simp flip: flag)
  have timeout: "(rq_metadata request ''grpc-timeout'' = None) = False"
    using assms(2) by simp
  have send: "send_request (\<lambda>request c. let (r, w) = call request (sc_world c) in (r, c\<lparr>sc_world := w\<rparr>)) request
      \<lparr>ex_coordinator = detached w, ex_sent = []\<rparr> =
      (x, \<lparr>ex_coordinator = (detached w)\<lparr>sc_world := w'\<rparr>, ex_sent = [(request, detached w)]\<rparr>)"
    by (simp add: send_request_def world call)
  have explicit: "(operation_auth_requirement operation = AccessAuthenticated \<and> flag) =
      (operation_auth_requirement operation = AccessAuthenticated)"
    using assms(1) by (auto simp: needs_no_coordinator_def simp flip: flag)
  have "?run = (case x of Inl status \<Rightarrow> Err (map_operation_status status
          (operation_auth_requirement operation = AccessAuthenticated)) | Inr response \<Rightarrow> Ok response,
      \<lparr>ex_coordinator = (detached w)\<lparr>sc_world := w'\<rparr>, ex_sent = [(request, detached w)]\<rparr>)"
    unfolding execute_def execute_with_auth_with_clock_def flag Let_def first
    by (cases x) (auto simp: returned_def explicit verify_bound_identity_def authorized_request_def timeout
        Let_def send [unfolded Let_def] revalidate_bound_identity_def simp del: not_None_eq)
  then show ?thesis
    by (cases x) (simp_all add: detached_rpc_def call)
qed

lemma auth_requirements [simp]:
  "operation_auth_requirement RegisterPassword = AnonymousAuth"
  "operation_auth_requirement ResendVerification = AnonymousAuth"
  "operation_auth_requirement VerifyEmailOperation = AnonymousAuth"
  "operation_auth_requirement LoginPasswordOperation = AnonymousAuth"
  "operation_auth_requirement RefreshSession = RefreshCredential"
  "operation_auth_requirement Logout = AccessAuthenticated"
  by (simp_all add: operation_auth_requirement_def)

lemma auth_request_timeout [simp]:
  "rq_metadata (auth_request cn message) ''grpc-timeout'' = Some (cn_timeout cn 5)"
  "rq_metadata (logout_request cn authorization) ''grpc-timeout'' = Some (cn_timeout cn 5)"
  "rq_metadata (logout_request cn authorization) ''authorization'' = Some authorization"
  by (simp_all add: auth_request_def logout_request_def set_timeout_def)

lemma anonymous_rpc:
  assumes "operation_auth_requirement operation \<in> {AnonymousAuth, RefreshCredential}"
  shows "detached_rpc tonic operation (auth_request cn message) call w =
    (case call (auth_request cn message) w of
       (Inl status, w) \<Rightarrow> (Err (map_status status), w) | (Inr response, w) \<Rightarrow> (Ok response, w))"
  using assms by (subst detached_answer)
    (auto simp: needs_no_coordinator_def map_operation_status_def split: prod.split sum.split)

text \<open>A login is one message with the credentials given; a rejected logout says that the access token
  expired.\<close>

lemma login_message:
  "au_login_password (canopy_auth cn rpcs) email password device_label w =
     (case arp_login_password rpcs (auth_request cn (MsgLoginPassword email password device_label)) w of
        (Inl status, w) \<Rightarrow> (Err (map_status status), w)
      | (Inr wire, w) \<Rightarrow> (map_session_envelope wire, w))"
  by (simp add: canopy_auth_def anonymous_rpc answer_with_def bind_ok_def split: prod.split sum.split)

lemma logout_message:
  "tn_valid_metadata (cn_tonic cn) (''Bearer '' @ token) \<Longrightarrow>
   au_logout (canopy_auth cn rpcs) token w =
     (case arp_logout rpcs (logout_request cn (''Bearer '' @ token)) w of
        (Inl status, w) \<Rightarrow> (Err (map_operation_status status True), w)
      | (Inr _, w) \<Rightarrow> (Ok (), w))"
  by (simp add: canopy_auth_def authorization_metadata_def detached_answer needs_no_coordinator_def
      split: prod.split sum.split)

text \<open>An accepted session names its account and itself and has both tokens; its device label may be
  empty.\<close>

lemma accepted_session_complete:
  assumes "map_session_envelope wire = Inr env"
  shows "ev_access_token env \<noteq> [] \<and> ev_refresh_token env \<noteq> [] \<and> acct_id (ev_account env) \<noteq> [] \<and>
    acct_primary_email (ev_account env) \<noteq> [] \<and> as_id (ev_session env) \<noteq> [] \<and>
    0 \<le> sint (ev_access_token_expires_at env) \<and> 0 \<le> sint (ev_refresh_token_expires_at env)"
  using assms
  by (auto simp: map_session_envelope_def bind_ok_def map_ok_def ok_or_def epoch_from_i64_def map_account_def
      map_session_def split: if_splits sum.splits option.splits)

subsection \<open>The coordinator's contract\<close>

text \<open>The backend calls do not touch the stored session; then neither do the port's, which is what the
  session coordinator assumes of its port.\<close>

definition leave_session :: "('w \<Rightarrow> envelope option) \<Rightarrow> 'w auth_rpcs \<Rightarrow> bool" where
  "leave_session stored rpcs =
     ((\<forall>request. leaves stored (arp_verify_email rpcs request)) \<and>
      (\<forall>request. leaves stored (arp_login_password rpcs request)) \<and>
      (\<forall>request. leaves stored (arp_refresh_session rpcs request)) \<and>
      (\<forall>request. leaves stored (arp_logout rpcs request)))"

lemma answering_leaves: "leaves part call \<Longrightarrow> leaves part (\<lambda>w. answer_with f (call w))"
  by (simp add: leaves_def answer_with_def)

lemma detached_leaves:
  assumes "needs_no_coordinator operation request" "rq_metadata request ''grpc-timeout'' \<noteq> None"
    "leaves part (call request)"
  shows "leaves part (detached_rpc tonic operation request call)"
proof -
  have "part (snd (detached_rpc tonic operation request call w)) = part w" for w
  proof -
    obtain x w' where call: "call request w = (x, w')"
      by (cases "call request w")
    then have "part w' = part w"
      using assms(3) [unfolded leaves_def, rule_format, of w] by simp
    then show ?thesis
      by (cases x) (simp_all add: detached_answer [OF assms(1,2)] call)
  qed
  then show ?thesis
    by (simp add: leaves_def)
qed

lemma canopy_auth_leaves:
  assumes "leave_session stored rpcs"
  shows "(\<forall>token label. leaves stored (au_verify_email (canopy_auth cn rpcs) token label)) \<and>
    (\<forall>email password label. leaves stored (au_login_password (canopy_auth cn rpcs) email password label)) \<and>
    (\<forall>token. leaves stored (au_refresh_session (canopy_auth cn rpcs) token)) \<and>
    (\<forall>token. leaves stored (au_logout (canopy_auth cn rpcs) token))"
proof -
  note rules = answering_leaves detached_leaves
  have "leaves stored (au_logout (canopy_auth cn rpcs) token)" for token
  proof (cases "tn_valid_metadata (cn_tonic cn) (''Bearer '' @ token)")
    case True
    then show ?thesis
      using assms by (simp add: canopy_auth_def authorization_metadata_def rules needs_no_coordinator_def leave_session_def)
  qed (simp add: canopy_auth_def authorization_metadata_def leaves_def)
  then show ?thesis
    using assms by (simp add: canopy_auth_def rules needs_no_coordinator_def leave_session_def)
qed

end
