(* ===== verification/BackendSetup.thy ===== *)
theory BackendSetup
  imports ConnectionConfig AuthAdapter
begin

text \<open>
  Setting the backend up (\<open>ffi/src/api/backend.rs\<close>, \<open>networking/canopy/channel.rs\<close>,
  \<open>networking/remote_repository.rs\<close>, parts of \<open>ffi/src/engine_handle.rs\<close>) and the authentication
  calls of the C boundary that need it (\<open>ffi/src/api/auth.rs\<close>). Every operation here holds the lock
  of the configuration from its first look at it to its last write, so calls from several threads
  are sequences of these operations. Opening a channel is tonic's and a parameter.
\<close>

subsection \<open>The repository over the catalog\<close>

type_synonym media_cache = "string \<rightharpoonup> media_item"

definition extend_cache :: "media_item list \<Rightarrow> media_cache \<Rightarrow> media_cache" where
  "extend_cache items cache = fold (\<lambda>item c. c(mi_id item \<mapsto> item)) items cache"

definition project_page ::
  "engine_track paged_result \<Rightarrow> media_cache \<Rightarrow> media_item paged_result \<times> media_cache" where
  "project_page page cache =
     (let items = map project_discovery_track (pr_items page)
      in (\<lparr>pr_items = items, pr_next_page_token = pr_next_page_token page\<rparr>, extend_cache items cache))"

definition cached_page ::
  "engine_track paged_result result \<times> 'w \<Rightarrow> media_cache \<Rightarrow>
     media_item paged_result result \<times> media_cache \<times> 'w" where
  "cached_page answer cache =
     (case answer of
        (Inl err, w) \<Rightarrow> (Err err, cache, w)
      | (Inr page, w) \<Rightarrow> (let (page, cache) = project_page page cache in (Ok page, cache, w)))"

text \<open>\<open>search\<close> renders the error, as \<open>anyhow\<close> does with the \<open>Display\<close> of \<open>EngineError\<close>.\<close>

definition remote_repository ::
  "(engine_error \<Rightarrow> string) \<Rightarrow> 'w catalog_port \<Rightarrow> (media_cache \<times> 'w) repository" where
  "remote_repository render port =
     \<lparr>rp_get_by_id = (\<lambda>i (cache, w). cache i),
      rp_search = (\<lambda>query (cache, w).
        (case cached_page (cp_search port query page_request_default w) cache of
           (Inl err, world) \<Rightarrow> (Inl (render err), world)
         | (Inr page, world) \<Rightarrow> (Inr (pr_items page), world))),
      rp_browse_catalog = (\<lambda>parent_id genres page (cache, w).
        cached_page (cp_browse port parent_id genres page w) cache),
      rp_search_catalog = (\<lambda>query page (cache, w). cached_page (cp_search port query page w) cache)\<rparr>"

subsection \<open>The channel\<close>

record channel =
  ch_endpoint :: string
  ch_connect_timeout_secs :: nat
  ch_tls :: "(string \<times> string option) option"

definition CONNECT_TIMEOUT :: nat where "CONNECT_TIMEOUT = 5"

record connector =
  cnn_endpoint_valid :: "string \<Rightarrow> bool"
  cnn_tls_valid :: "string \<Rightarrow> string \<times> string option \<Rightarrow> bool"

definition apply_tls_config ::
  "connector \<Rightarrow> channel \<Rightarrow> string \<times> string option \<Rightarrow> channel result" where
  "apply_tls_config cnn endpoint tls =
     (if cnn_tls_valid cnn (ch_endpoint endpoint) tls then Ok (endpoint\<lparr>ch_tls := Some tls\<rparr>)
      else Err (config_error ''invalid gRPC TLS configuration''))"

definition connect_lazy :: "connector \<Rightarrow> canopy_connection_config \<Rightarrow> channel result" where
  "connect_lazy cnn config =
     (let text = uri_text (ccc_grpc_endpoint config);
          endpoint = \<lparr>ch_endpoint = text, ch_connect_timeout_secs = CONNECT_TIMEOUT, ch_tls = None\<rparr>
      in if \<not> cnn_endpoint_valid cnn text then Err (config_error ''invalid gRPC endpoint'')
         else if uri_scheme (ccc_grpc_endpoint config) = Some ''https''
         then apply_tls_config cnn endpoint
                (tls_server_name (ccc_tls config), tls_private_ca_pem (ccc_tls config))
         else Ok endpoint)"

subsection \<open>The composition\<close>

text \<open>The generated clients over one channel, and what the adapters take from their surroundings.\<close>

record 'w canopy_clients =
  cls_auth :: "'w auth_rpcs"
  cls_account :: "'w auth_service"
  cls_catalog :: "'w catalog_service"
  cls_playback :: "'w playback_service"
  cls_discovery :: "'w discovery_service"
  cls_system :: "'w system_service"
  cls_profile :: "'w profile_service"
  cls_history :: "'w history_service"
  cls_library :: "'w library_service"
  cls_playlist :: "'w playlist_service"

record 'w surroundings =
  srd_parser :: address_parser
  srd_connector :: connector
  srd_clients :: "channel \<Rightarrow> 'w canopy_clients"
  srd_tonic :: tonic
  srd_timeout :: "nat \<Rightarrow> string"
  srd_numbers :: number_codec
  srd_join :: "url \<Rightarrow> media_origin"
  srd_clock :: "'w \<Rightarrow> u64 result \<times> 'w"
  srd_render :: "engine_error \<Rightarrow> string"
  srd_world :: 'w

record 'w backend_composition =
  bc_session :: "'w coordinator"
  bc_repository :: "(media_cache \<times> 'w canopy_exchange) repository"
  bc_playback :: "'w canopy_exchange playback_port"
  bc_discovery :: "'w canopy_exchange discovery_port"
  bc_system :: "'w canopy_exchange system_port"
  bc_profile :: "'w canopy_exchange profile_port"
  bc_history :: "'w canopy_exchange history_port"
  bc_library :: "'w canopy_exchange library_port"
  bc_playlist :: "'w canopy_exchange playlist_port"
  bc_account :: "'w canopy_exchange account_port"

definition compose_backend ::
  "'w surroundings \<Rightarrow> channel \<Rightarrow> 'w session_store \<Rightarrow> url \<Rightarrow> 'w backend_composition" where
  "compose_backend srd chan store media_origin =
     (let clients = srd_clients srd chan;
          plain = \<lparr>cn_tonic = srd_tonic srd, cn_session = False, cn_media_origin = None,
                   cn_timeout = srd_timeout srd, cn_numbers = srd_numbers srd\<rparr>;
          bound = plain\<lparr>cn_session := True\<rparr>;
          media = bound\<lparr>cn_media_origin := Some (srd_join srd media_origin)\<rparr>
      in \<lparr>bc_session = coordinator_new store (canopy_auth plain (cls_auth clients)) (srd_clock srd) (srd_world srd),
          bc_repository = remote_repository (srd_render srd) (canopy_catalog media (cls_catalog clients)),
          bc_playback = canopy_playback bound (cls_playback clients),
          bc_discovery = canopy_discovery media (cls_discovery clients),
          bc_system = canopy_system plain (cls_system clients),
          bc_profile = canopy_profile bound (cls_profile clients),
          bc_history = canopy_history media (cls_history clients),
          bc_library = canopy_library media (cls_library clients),
          bc_playlist = canopy_playlists media (cls_playlist clients),
          bc_account = canopy_account bound (cls_account clients)\<rparr>)"

subsection \<open>Configuring the backend\<close>

datatype backend_configuration =
    Unconfigured | Configuring | Ready canopy_connection_config | ConfigurationFailed

record 'w engine_auth_runtime =
  ar_coordinator :: "'w coordinator"
  ar_store :: "'w session_store"
  ar_production :: bool

text \<open>The fields of \<open>PandaEngine\<close> that are used here; \<open>pa_backend\<close> is what the engine inside was
  given, \<open>pa_published\<close> the auth states sent to the actor.\<close>

record 'w panda_engine =
  pa_configuration :: backend_configuration
  pa_session_store :: "'w session_store"
  pa_auth_runtime :: "'w engine_auth_runtime option"
  pa_backend :: "'w backend_composition option"
  pa_availability :: backend_availability
  pa_published :: "auth_state list"

definition install_session_store :: "'w session_store \<Rightarrow> 'w panda_engine \<Rightarrow> bool \<times> 'w panda_engine" where
  "install_session_store store pa =
     (if pa_configuration pa \<noteq> Unconfigured then (False, pa)
      else (True, pa\<lparr>pa_session_store := store\<rparr>))"

definition configuration_error :: engine_error where
  "configuration_error = engine_error_new InvalidInput ''backend configuration has already been attempted'' False"

definition fail_configuration :: "'w panda_engine \<Rightarrow> 'w panda_engine" where
  "fail_configuration pa =
     (if pa_configuration pa = Configuring then pa\<lparr>pa_configuration := ConfigurationFailed\<rparr> else pa)"

definition fail_unstarted_configuration :: "'w panda_engine \<Rightarrow> 'w panda_engine" where
  "fail_unstarted_configuration pa =
     (if pa_configuration pa = Unconfigured then pa\<lparr>pa_configuration := ConfigurationFailed\<rparr> else pa)"

definition begin_configuration ::
  "'w surroundings \<Rightarrow> string \<Rightarrow> deployment_mode \<Rightarrow> 'w panda_engine \<Rightarrow>
     canopy_connection_config option result \<times> 'w panda_engine" where
  "begin_configuration srd json mode pa =
     (case parse_and_validate (srd_parser srd) json mode of
        Inl err \<Rightarrow> (Err err, fail_unstarted_configuration pa)
      | Inr config \<Rightarrow>
          (case pa_configuration pa of
             Unconfigured \<Rightarrow> (Ok (Some config), pa\<lparr>pa_configuration := Configuring\<rparr>)
           | Ready ready \<Rightarrow> if same_configuration (srd_parser srd) ready config then (Ok None, pa) else (Err configuration_error, pa)
           | _ \<Rightarrow> (Err configuration_error, pa)))"

definition finish_configuration ::
  "'w surroundings \<Rightarrow> canopy_connection_config \<Rightarrow> channel \<Rightarrow> deployment_mode \<Rightarrow> 'w panda_engine \<Rightarrow>
     unit result \<times> 'w panda_engine" where
  "finish_configuration srd config chan mode pa =
     (if pa_configuration pa \<noteq> Configuring then (Err configuration_error, pa)
      else
        let store = pa_session_store pa;
            composition = compose_backend srd chan store (ccc_stream_base_url config)
        in (Ok (),
            pa\<lparr>pa_backend := Some composition, pa_availability := Connecting,
              pa_auth_runtime := Some \<lparr>ar_coordinator = bc_session composition, ar_store = store,
                ar_production = (mode = Production)\<rparr>,
              pa_configuration := Ready config\<rparr>))"

text \<open>After a successful \<open>begin_configuration\<close>, outside the lock: the channel, then its end.\<close>

definition continue_configuration ::
  "'w surroundings \<Rightarrow> canopy_connection_config \<Rightarrow> deployment_mode \<Rightarrow> 'w panda_engine \<Rightarrow>
     unit result \<times> 'w panda_engine" where
  "continue_configuration srd config mode pa =
     (case connect_lazy (srd_connector srd) config of
        Inr chan \<Rightarrow> finish_configuration srd config chan mode pa
      | Inl err \<Rightarrow> (Err err, fail_configuration pa))"

definition configure_backend ::
  "'w surroundings \<Rightarrow> string \<Rightarrow> deployment_mode \<Rightarrow> 'w panda_engine \<Rightarrow> unit result \<times> 'w panda_engine" where
  "configure_backend srd json mode pa =
     (case begin_configuration srd json mode pa of
        (Inl err, pa) \<Rightarrow> (Err err, pa)
      | (Inr None, pa) \<Rightarrow> (Ok (), pa)
      | (Inr (Some config), pa) \<Rightarrow> continue_configuration srd config mode pa)"

subsection \<open>Authentication calls\<close>

datatype auth_operation_result =
    AuthAccepted bool | AuthAuthenticated | AuthAnonymous | AuthFailed engine_error

fun error_type_name :: "engine_error_type \<Rightarrow> string" where
  "error_type_name InvalidInput = ''invalid_input''"
| "error_type_name NotFound = ''not_found''"
| "error_type_name LoginRequiredError = ''login_required''"
| "error_type_name AuthExpired = ''auth_expired''"
| "error_type_name Forbidden = ''forbidden''"
| "error_type_name AlreadyExists = ''already_exists''"
| "error_type_name FailedPrecondition = ''failed_precondition''"
| "error_type_name Conflict = ''conflict''"
| "error_type_name RateLimited = ''rate_limited''"
| "error_type_name ServiceUnavailableError = ''service_unavailable''"
| "error_type_name BackendFault = ''backend_fault''"
| "error_type_name Transport = ''transport''"
| "error_type_name UnsafeTransport = ''unsafe_transport''"
| "error_type_name MappingDefect = ''mapping_defect''"
| "error_type_name NetworkError = ''network_error''"
| "error_type_name PlayerError = ''player_error''"
| "error_type_name AuthenticationError = ''authentication_error''"
| "error_type_name SessionStorage = ''session_storage''"
| "error_type_name MediaSkipped = ''media_skipped''"
| "error_type_name CommandRejected = ''command_rejected''"
| "error_type_name UnknownError = ''unknown''"

fun auth_result_strings :: "auth_operation_result \<Rightarrow> string list" where
  "auth_result_strings (AuthAccepted accepted) = [if accepted then ''accepted'' else ''rejected'', [], []]"
| "auth_result_strings AuthAuthenticated = [''authenticated'', [], []]"
| "auth_result_strings AuthAnonymous = [''anonymous'', [], []]"
| "auth_result_strings (AuthFailed err) =
     [''error'', error_type_name (error_type err),
      (case retry_after_millis err of None \<Rightarrow> [] | Some millis \<Rightarrow> show_u64 millis)]"

text \<open>An operation on the coordinator gives its result, the auth state it publishes and the coordinator
  after it.\<close>

type_synonym 'w auth_operation =
  "'w coordinator \<Rightarrow> auth_operation_result result \<times> auth_state list \<times> 'w coordinator"

definition with_runtime ::
  "bool \<Rightarrow> 'w auth_operation \<Rightarrow> 'w panda_engine \<Rightarrow> auth_operation_result \<times> 'w panda_engine" where
  "with_runtime requires_secure_store operation pa =
     (case pa_auth_runtime pa of
        None \<Rightarrow>
          (AuthFailed (engine_error_new ServiceUnavailableError ''authentication backend is unavailable'' False), pa)
      | Some runtime \<Rightarrow>
          (case if requires_secure_store \<and> ar_production runtime
                then validate_production_session_store (ar_store runtime) else Ok () of
             Inl err \<Rightarrow> (AuthFailed (store_error err), pa)
           | Inr _ \<Rightarrow>
               (case operation (ar_coordinator runtime) of
                  (r, published, c) \<Rightarrow>
                    (case r of Inl err \<Rightarrow> AuthFailed err | Inr answer \<Rightarrow> answer,
                     pa\<lparr>pa_auth_runtime := Some (runtime\<lparr>ar_coordinator := c\<rparr>),
                       pa_published := pa_published pa @ published\<rparr>))))"

definition accepting :: "auth_request_acceptance result \<times> 'w coordinator \<Rightarrow>
    auth_operation_result result \<times> auth_state list \<times> 'w coordinator" where
  "accepting answer = (map_ok (\<lambda>a. AuthAccepted (ara_accepted a)) (fst answer), [], snd answer)"

text \<open>A committed session is published before the call returns.\<close>

definition publishing :: "auth_state result \<times> 'w coordinator \<Rightarrow>
    auth_operation_result result \<times> auth_state list \<times> 'w coordinator" where
  "publishing answer =
     (case answer of (Inl err, c) \<Rightarrow> (Err err, [], c) | (Inr state, c) \<Rightarrow> (Ok AuthAuthenticated, [state], c))"

definition ffi_register_password :: "string \<Rightarrow> string \<Rightarrow> 'w panda_engine \<Rightarrow> auth_operation_result \<times> 'w panda_engine" where
  "ffi_register_password email password =
     with_runtime True (\<lambda>c. accepting (register_password email password c))"

definition ffi_resend_verification :: "string \<Rightarrow> 'w panda_engine \<Rightarrow> auth_operation_result \<times> 'w panda_engine" where
  "ffi_resend_verification email = with_runtime False (\<lambda>c. accepting (resend_verification email c))"

definition ffi_verify_email :: "string \<Rightarrow> string \<Rightarrow> 'w panda_engine \<Rightarrow> auth_operation_result \<times> 'w panda_engine" where
  "ffi_verify_email verification_token device_label =
     with_runtime True (\<lambda>c. publishing (verify_email verification_token device_label c))"

definition ffi_login_password ::
  "string \<Rightarrow> string \<Rightarrow> string \<Rightarrow> 'w panda_engine \<Rightarrow> auth_operation_result \<times> 'w panda_engine" where
  "ffi_login_password email password device_label =
     with_runtime True (\<lambda>c. publishing (login_password email password device_label c))"

definition ffi_logout :: "'w panda_engine \<Rightarrow> auth_operation_result \<times> 'w panda_engine" where
  "ffi_logout =
     with_runtime False (\<lambda>c. case session_logout c of
         (Inl err, c) \<Rightarrow> (Err err, [], c)
       | (Inr _, c) \<Rightarrow> (Ok AuthAnonymous, [Anonymous], c))"

text \<open>The number of worker threads from the environment.\<close>

definition sanitize_runtime_worker_threads :: "nat \<Rightarrow> nat" where
  "sanitize_runtime_worker_threads worker_threads = max 1 (min worker_threads 8)"

definition parse_runtime_worker_threads :: "string option \<Rightarrow> nat" where
  "parse_runtime_worker_threads value =
     (case Option.bind value (\<lambda>value. parse_usize (trim value)) of
        None \<Rightarrow> 2
      | Some n \<Rightarrow> sanitize_runtime_worker_threads n)"

end
