(* ===== verification/CanopyLaws.thy ===== *)
theory CanopyLaws
  imports CanopyPorts
begin

text \<open>
  What the Canopy adapters promise the engine: an operation for an identity sends only requests of
  that identity's session and answers only while it is the stored one, whatever other tasks do in
  the meantime; what a mapped answer looks like; timestamps and preferences. The profile port takes
  no identity, and the last section shows what that allows.
\<close>

subsection \<open>Calls on behalf of an identity\<close>

definition answers_for ::
  "('w \<Rightarrow> envelope option) \<Rightarrow> auth_identity \<Rightarrow> 'w canopy_exchange \<Rightarrow> 'a result \<times> 'w canopy_exchange \<Rightarrow> bool" where
  "answers_for stored identity ex answer =
     (\<exists>sent. ex_sent (snd answer) = ex_sent ex @ sent \<and> (\<forall>s\<in>set sent. carries_token stored identity s) \<and>
        (is_ok (fst answer) \<longrightarrow> (\<exists>env. session_of stored identity (ex_coordinator (snd answer)) env)))"

definition protected ::
  "('w \<Rightarrow> envelope option) \<Rightarrow> (auth_identity \<Rightarrow> 'w canopy_exchange \<Rightarrow> 'a result \<times> 'w canopy_exchange) \<Rightarrow> bool" where
  "protected stored call =
     (\<forall>identity ex. session_ports stored (ex_coordinator ex) \<longrightarrow> answers_for stored identity ex (call identity ex))"

text \<open>A transport during which other tasks may do anything the session contract allows.\<close>

definition honest :: "('w \<Rightarrow> envelope option) \<Rightarrow> ('w, 'm, 'r) transport \<Rightarrow> bool" where
  "honest stored transport = (\<forall>rq c. session_ports stored c \<longrightarrow> session_ports stored (snd (transport rq c)))"

lemma rpc_returns:
  "\<exists>r ex'. execute_with_auth_with_clock tonic present expected operation clock request transport ex = Some (r, ex')"
  by (rule execute_cases [of present operation clock request ex tonic expected transport]) auto

lemma is_ok_bind: "is_ok (bind_ok r f) \<Longrightarrow> is_ok r"
  by (cases r) (simp_all add: bind_ok_def)

lemma bound_rpc_protected:
  assumes "honest stored transport"
  shows "protected stored (\<lambda>identity. bound_rpc cn identity operation message transport)"
  unfolding protected_def
proof (intro allI impI)
  fix identity and ex :: "'a canopy_exchange"
  assume ports: "session_ports stored (ex_coordinator ex)"
  obtain r ex' where run: "execute_with_auth_with_clock (cn_tonic cn) True (Some identity) operation SystemClock
      (request_new message) transport ex = Some (r, ex')"
    using rpc_returns by blast
  have others: "session_ports stored (snd (transport rq c))" if "session_ports stored c" for rq c
    using assms that by (simp add: honest_def)
  show "answers_for stored identity ex (bound_rpc cn identity operation message transport ex)"
    using bound_request_stays_bound [OF ports others run] run
    by (simp add: answers_for_def bound_rpc_def execute_with_bound_auth_def returned_def)
qed

lemma answering_protected:
  "protected stored call \<Longrightarrow> protected stored (\<lambda>identity ex. answer_with f (call identity ex))"
  using is_ok_bind by (fastforce simp: protected_def answers_for_def answer_with_def)

lemma refused_answers: "answers_for stored identity ex (Err e, ex)"
  by (auto simp: answers_for_def)

lemma guarded_protected:
  "protected stored call \<Longrightarrow> protected stored (\<lambda>identity. guarded check (call identity))"
  by (auto simp: protected_def guarded_def refused_answers split: sum.split)

lemma account_protected:
  "honest stored transport \<Longrightarrow> protected stored (\<lambda>identity. execute_account cn identity operation message transport)"
  using bound_rpc_protected [of stored transport cn operation message]
  by (auto simp: protected_def execute_account_def refused_answers)

lemmas protected_rules = answering_protected guarded_protected bound_rpc_protected account_protected

definition honest_history :: "('w \<Rightarrow> envelope option) \<Rightarrow> 'w history_service \<Rightarrow> bool" where
  "honest_history stored service =
     (honest stored (rpc_get_history_settings service) \<and> honest stored (rpc_update_history_settings service) \<and>
      honest stored (rpc_record_playback service) \<and> honest stored (rpc_list_history service) \<and>
      honest stored (rpc_delete_history_entry service) \<and> honest stored (rpc_clear_history service))"

definition honest_library :: "('w \<Rightarrow> envelope option) \<Rightarrow> 'w library_service \<Rightarrow> bool" where
  "honest_library stored service =
     (honest stored (rpc_save_track service) \<and> honest stored (rpc_remove_saved_track service) \<and>
      honest stored (rpc_list_saved_tracks service) \<and> honest stored (rpc_like_track service) \<and>
      honest stored (rpc_unlike_track service) \<and> honest stored (rpc_list_liked_tracks service))"

definition honest_playlists :: "('w \<Rightarrow> envelope option) \<Rightarrow> 'w playlist_service \<Rightarrow> bool" where
  "honest_playlists stored service =
     (honest stored (rpc_create_playlist service) \<and> honest stored (rpc_get_playlist service) \<and>
      honest stored (rpc_update_playlist service) \<and> honest stored (rpc_delete_playlist service) \<and>
      honest stored (rpc_list_playlists service) \<and> honest stored (rpc_add_playlist_track service) \<and>
      honest stored (rpc_remove_playlist_track service) \<and> honest stored (rpc_reorder_playlist_tracks service) \<and>
      honest stored (rpc_list_playlist_tracks service))"

definition history_protected :: "('w \<Rightarrow> envelope option) \<Rightarrow> 'w canopy_exchange history_port \<Rightarrow> bool" where
  "history_protected stored port =
     (protected stored (hp_get_settings port) \<and>
      (\<forall>enabled. protected stored (\<lambda>identity. hp_update_settings port identity enabled)) \<and>
      (\<forall>event. protected stored (\<lambda>identity. hp_record port identity event)) \<and>
      (\<forall>page. protected stored (\<lambda>identity. hp_list port identity page)) \<and>
      (\<forall>entry. protected stored (\<lambda>identity. hp_delete_entry port identity entry)) \<and>
      protected stored (hp_clear port))"

definition library_protected :: "('w \<Rightarrow> envelope option) \<Rightarrow> 'w canopy_exchange library_port \<Rightarrow> bool" where
  "library_protected stored port =
     ((\<forall>track. protected stored (\<lambda>identity. lp_save port identity track)) \<and>
      (\<forall>track. protected stored (\<lambda>identity. lp_remove_saved port identity track)) \<and>
      (\<forall>page. protected stored (\<lambda>identity. lp_list_saved port identity page)) \<and>
      (\<forall>track. protected stored (\<lambda>identity. lp_like port identity track)) \<and>
      (\<forall>track. protected stored (\<lambda>identity. lp_unlike port identity track)) \<and>
      (\<forall>page. protected stored (\<lambda>identity. lp_list_liked port identity page)))"

definition playlists_protected :: "('w \<Rightarrow> envelope option) \<Rightarrow> 'w canopy_exchange playlist_port \<Rightarrow> bool" where
  "playlists_protected stored port =
     ((\<forall>input. protected stored (\<lambda>identity. plp_create port identity input)) \<and>
      (\<forall>playlist. protected stored (\<lambda>identity. plp_get port identity playlist)) \<and>
      (\<forall>input. protected stored (\<lambda>identity. plp_update port identity input)) \<and>
      (\<forall>playlist. protected stored (\<lambda>identity. plp_delete port identity playlist)) \<and>
      (\<forall>page. protected stored (\<lambda>identity. plp_list port identity page)) \<and>
      (\<forall>playlist track. protected stored (\<lambda>identity. plp_add_track port identity playlist track)) \<and>
      (\<forall>playlist track. protected stored (\<lambda>identity. plp_remove_track port identity playlist track)) \<and>
      (\<forall>playlist ids revision. protected stored (\<lambda>identity. plp_reorder port identity playlist ids revision)) \<and>
      (\<forall>playlist page. protected stored (\<lambda>identity. plp_list_tracks port identity playlist page)))"

lemma canopy_history_protected:
  "honest_history stored service \<Longrightarrow> history_protected stored (canopy_history cn service)"
  by (simp add: honest_history_def history_protected_def canopy_history_def protected_rules)

lemma canopy_library_protected:
  "honest_library stored service \<Longrightarrow> library_protected stored (canopy_library cn service)"
  by (simp add: honest_library_def library_protected_def canopy_library_def protected_rules)

lemma canopy_playlists_protected:
  "honest_playlists stored service \<Longrightarrow> playlists_protected stored (canopy_playlists cn service)"
  by (simp add: honest_playlists_def playlists_protected_def canopy_playlists_def playlist_track_calls protected_rules)


subsection \<open>Timestamps\<close>

definition timestamp_millis :: "timestamp \<Rightarrow> int" where
  "timestamp_millis t = sint (ts_seconds t) * 1000 + sint (ts_nanos t) div 1000000"

lemma uint_nonneg_sint:
  fixes w :: "'l::len word"
  assumes "0 \<le> sint w"
  shows "uint w = sint w"
proof -
  have "sint w < 2 ^ LENGTH('l)"
    using sint_less [of w] by (rule order_less_le_trans) simp
  then show ?thesis
    using assms uint_sint [of w] by (simp add: take_bit_eq_mod)
qed

lemma millis_of_exact:
  assumes "0 \<le> sint (ts_seconds t)" "nanos_in_range t"
  shows "millis_of overflow t =
    (if timestamp_millis t < 2 ^ 64 then Ok (word_of_int (timestamp_millis t)) else Err overflow)"
proof -
  let ?s = "ts_seconds t" and ?n = "ts_nanos t"
  have n: "0 \<le> sint ?n" "sint ?n < 1000000000"
    using assms(2) by (auto simp: nanos_in_range_def)
  have s: "sint ?s = int (unat ?s)" "sint ?n = int (unat ?n)"
    using uint_nonneg_sint [OF assms(1)] uint_nonneg_sint [OF n(1)] by simp_all
  have small: "unat ?n div 1000000 < 1000"
    using n(2) s(2) by linarith
  then have part: "unat (of_nat (unat ?n div 1000000) :: u64) = unat ?n div 1000000"
    by (simp add: unat_of_nat)
  have millis: "timestamp_millis t = int (unat ?s * 1000 + unat ?n div 1000000)"
    unfolding timestamp_millis_def s by (simp add: zdiv_int)
  have whole: "w = word_of_int (timestamp_millis t)" if "unat w = unat ?s * 1000 + unat ?n div 1000000" for w :: u64
    unfolding millis that [symmetric] by simp
  show ?thesis
  proof (cases "unat ?s * 1000 < 2 ^ 64")
    case True
    have mul: "unat (?s * 1000) = unat ?s * 1000"
      using unat_mult_lem [of ?s 1000] True by simp
    have add: "unat (?s * 1000 + of_nat (unat ?n div 1000000)) = unat ?s * 1000 + unat ?n div 1000000"
      if "unat ?s * 1000 + unat ?n div 1000000 < 2 ^ 64"
      using unat_add_lem [of "?s * 1000" "of_nat (unat ?n div 1000000)"] that mul part by simp
    have "timestamp_millis t < 2 ^ 64 \<longleftrightarrow> unat ?s * 1000 + unat ?n div 1000000 < 2 ^ 64"
      unfolding millis by (simp flip: of_nat_less_iff [where 'a = int])
    then show ?thesis
      using True whole [OF add] mul part
      by (simp add: millis_of_def checked_mul_def checked_add_def ok_or_def)
  next
    case False
    then have "\<not> unat ?s * 1000 + unat ?n div 1000000 < 2 ^ 64"
      by linarith
    then have "\<not> timestamp_millis t < 2 ^ 64"
      unfolding millis by (simp flip: of_nat_less_iff [where 'a = int])
    then show ?thesis
      using False by (simp add: millis_of_def checked_mul_def ok_or_def)
  qed
qed

lemma uint_of_millis:
  assumes "0 \<le> sint (ts_seconds t)" "nanos_in_range t" "timestamp_millis t < 2 ^ 64"
  shows "uint (word_of_int (timestamp_millis t) :: u64) = timestamp_millis t"
proof -
  have "0 \<le> timestamp_millis t"
    using assms(1,2) by (simp add: timestamp_millis_def nanos_in_range_def pos_imp_zdiv_nonneg_iff)
  then show ?thesis
    using assms(3) by (simp add: uint_word_of_int)
qed

lemma timestamps_exact:
  "(case timestamp_to_epoch_millis invalid overflow t of
      Inr m \<Rightarrow> 0 \<le> sint (ts_seconds t) \<and> sint (ts_seconds t) \<le> PROTOBUF_TIMESTAMP_MAX_SECONDS \<and>
        nanos_in_range t \<and> uint m = timestamp_millis t
    | Inl e \<Rightarrow> e = invalid \<and> \<not> (0 \<le> sint (ts_seconds t) \<and>
        sint (ts_seconds t) \<le> PROTOBUF_TIMESTAMP_MAX_SECONDS \<and> nanos_in_range t)) \<and>
   (case status_timestamp t of
      Inr m \<Rightarrow> 0 \<le> sint (ts_seconds t) \<and> nanos_in_range t \<and> uint m = timestamp_millis t
    | Inl e \<Rightarrow> e = status_defect \<and> \<not> (0 \<le> sint (ts_seconds t) \<and> nanos_in_range t \<and>
        timestamp_millis t < 2 ^ 64))"
proof -
  have bounded: "timestamp_millis t < 2 ^ 64"
    if "sint (ts_seconds t) \<le> PROTOBUF_TIMESTAMP_MAX_SECONDS" "nanos_in_range t"
  proof -
    have "sint (ts_nanos t) div 1000000 < 1000"
      using that(2) by (auto simp: nanos_in_range_def)
    then show ?thesis
      using that(1) by (simp add: timestamp_millis_def PROTOBUF_TIMESTAMP_MAX_SECONDS_def)
  qed
  show ?thesis
    using bounded by (auto simp: timestamp_to_epoch_millis_def status_timestamp_def millis_of_exact
        uint_of_millis split: sum.split)
qed

lemma timestamps_exact_Inr:
  "timestamp_to_epoch_millis invalid overflow t = Inr m \<Longrightarrow> uint m = timestamp_millis t"
  using timestamps_exact [where invalid = invalid and overflow = overflow and t = t] by simp

text \<open>C29: a protobuf timestamp is accepted exactly when its seconds lie between 1970 and the year 9999
  and its nanoseconds are a proper fraction; it is then the exact number of milliseconds, rounded
  down, and the checked arithmetic never overflows. The status adapter has no upper bound on the
  seconds, and refuses exactly what does not fit.\<close>

theorem timestamps_are_exact:
  "(case timestamp_to_epoch_millis invalid overflow t of
      Inr m \<Rightarrow> 0 \<le> sint (ts_seconds t) \<and> sint (ts_seconds t) \<le> PROTOBUF_TIMESTAMP_MAX_SECONDS \<and>
        nanos_in_range t \<and> uint m = timestamp_millis t
    | Inl e \<Rightarrow> e = invalid \<and> \<not> (0 \<le> sint (ts_seconds t) \<and>
        sint (ts_seconds t) \<le> PROTOBUF_TIMESTAMP_MAX_SECONDS \<and> nanos_in_range t)) \<and>
   (case status_timestamp t of
      Inr m \<Rightarrow> 0 \<le> sint (ts_seconds t) \<and> nanos_in_range t \<and> uint m = timestamp_millis t
    | Inl e \<Rightarrow> e = status_defect \<and> \<not> (0 \<le> sint (ts_seconds t) \<and> nanos_in_range t \<and>
        timestamp_millis t < 2 ^ 64))"
  by (rule timestamps_exact)

subsection \<open>Mapped answers\<close>

lemma collect_results_ok: "collect_results rs = Inr xs \<longleftrightarrow> rs = map Inr xs"
proof (induction rs arbitrary: xs rule: collect_results.induct)
  case (3 a rs)
  then show ?case
    by (cases "collect_results rs") (auto simp: map_ok_def Cons_eq_map_conv split: sum.splits)
qed (auto simp: map_ok_def)

lemmas mapped_ok = bind_ok_Inr map_ok_Inr ok_or_Inr collect_results_ok

lemma map_items_page_ok:
  assumes "map_items_page reworded (map f xs) info = Inr page"
  shows "list_all2 (\<lambda>x y. f x = Inr y) xs (pr_items page)"
proof -
  have "map f xs = map Inr (pr_items page)"
    using assms by (auto simp: map_items_page_def mapped_ok)
  then have "list_all2 (=) (map f xs) (map Inr (pr_items page))"
    by (simp add: list.rel_eq)
  then show ?thesis
    by (simp add: list.rel_map)
qed

lemma collect_results_error: "collect_results rs = Inl e \<Longrightarrow> Inl e \<in> set rs"
  by (induction rs rule: collect_results.induct) (auto simp: map_ok_def split: sum.splits)

text \<open>Whatever a mapper refuses it calls a mapping defect.\<close>

definition defective :: "'a result \<Rightarrow> bool" where
  "defective r = (case r of Inl e \<Rightarrow> error_type e = MappingDefect | Inr _ \<Rightarrow> True)"

lemma defective_simps [simp]:
  "defective (Inr a)"
  "defective (Inl (mapping_defect message))"
  "defective (ok_or (mapping_defect message) x)"
  "defective (map_ok f r) \<longleftrightarrow> defective r"
  by (auto simp: defective_def mapping_defect_def ok_or_def map_ok_def split: sum.split option.split)

lemma defective_bind: "defective r \<Longrightarrow> (\<And>a. defective (f a)) \<Longrightarrow> defective (bind_ok r f)"
  by (cases r) (simp_all add: bind_ok_def defective_def)

lemma defective_page:
  assumes "\<And>x. defective (f x)" "\<And>e. defective (Inl (reworded e) :: 'a paged_result result)"
  shows "defective (map_items_page reworded (map f xs) info :: 'a paged_result result)"
proof -
  have "defective (collect_results (map f xs))"
    using assms(1) by (fastforce simp: defective_def dest!: collect_results_error split: sum.splits)
  moreover have "defective (next_page_token reworded info)"
    using assms(2) by (auto simp: next_page_token_def defective_def split: option.split sum.split)
  ultimately show ?thesis
    by (simp add: map_items_page_def defective_bind)
qed

lemma defective_timestamp:
  "defective (timestamp_to_epoch_millis (mapping_defect m) (mapping_defect m') t)"
  by (simp add: timestamp_to_epoch_millis_def millis_of_def)

lemma defective_track: "defective (map_track_summary genres origin summary)"
  by (simp add: map_track_summary_def split: option.split)

lemmas defective_rules = defective_bind defective_timestamp defective_track

lemma defective_saved: "defective (map_saved_track origin wire)"
  by (simp add: map_saved_track_def map_relationship_def defective_rules)

lemma defective_member: "defective (map_playlist_track origin wire)"
  by (simp add: map_playlist_track_def require_mapping_def playlist_timestamp_def defective_rules)

lemma mapped_track:
  "map_track_summary genres origin summary = Inr track \<Longrightarrow>
   tr_id track = wtr_id summary \<and> tr_title track = wtr_title summary \<and>
   tr_id track \<noteq> [] \<and> tr_title track \<noteq> [] \<and> artist_name (tr_artist track) \<noteq> []"
  by (auto simp: map_track_summary_def split: if_splits option.splits)

text \<open>What the engine's library and playlist components rely on: the server's order, a relationship
  or membership named by the track it is of, an id that shows something.\<close>

definition shows_saved :: "saved_track \<Rightarrow> library_track \<Rightarrow> bool" where
  "shows_saved wire mapped =
     (\<exists>summary moment. svt_track wire = Some summary \<and> svt_saved_at wire = Some moment \<and>
        lt_relationship_id mapped = wtr_id summary \<and> tr_id (lt_track mapped) = wtr_id summary \<and>
        \<not> blank (lt_relationship_id mapped) \<and>
        uint (lt_relationship_at_epoch_millis mapped) = timestamp_millis moment)"

definition shows_member :: "wire_playlist_track \<Rightarrow> playlist_track \<Rightarrow> bool" where
  "shows_member wire mapped =
     (\<exists>summary. wpt_track wire = Some summary \<and> pt_membership_id mapped = wtr_id summary \<and>
        tr_id (pt_track mapped) = wtr_id summary \<and> \<not> blank (pt_membership_id mapped) \<and>
        pt_playlist_id mapped = wpt_playlist_id wire \<and> pt_position mapped = wpt_position wire)"

lemma map_saved_track_shows: "map_saved_track origin wire = Inr mapped \<Longrightarrow> shows_saved wire mapped"
  using timestamps_exact_Inr mapped_track
  by (fastforce simp: map_saved_track_def map_relationship_def mapped_ok shows_saved_def split: if_splits)

lemma map_playlist_track_shows: "map_playlist_track origin wire = Inr mapped \<Longrightarrow> shows_member wire mapped"
  using mapped_track
  by (fastforce simp: map_playlist_track_def mapped_ok shows_member_def require_mapping_def split: if_splits)

text \<open>C30: an accepted listing is the server's listing: one item for each of its entries, in its order,
  each naming the track it is of with an id that shows something; a saved track keeps its exact
  time, a member its playlist and position. A single defective entry refuses the whole page.\<close>

theorem listings_are_the_servers:
  "(case map_saved_response origin saved of
      Inl e \<Rightarrow> error_type e = MappingDefect
    | Inr page \<Rightarrow> list_all2 shows_saved (str_tracks saved) (pr_items page)) \<and>
   (case map_playlist_track_page origin members of
      Inl e \<Rightarrow> error_type e = MappingDefect
    | Inr page \<Rightarrow> list_all2 shows_member (ptr_tracks members) (pr_items page))"
proof
  have "defective (map_saved_response origin saved)"
    by (simp add: map_saved_response_def map_relationship_page_def defective_page defective_saved)
  then show "case map_saved_response origin saved of Inl e \<Rightarrow> error_type e = MappingDefect
      | Inr page \<Rightarrow> list_all2 shows_saved (str_tracks saved) (pr_items page)"
    by (auto simp: defective_def map_saved_response_def map_relationship_page_def
        dest!: map_items_page_ok intro: map_saved_track_shows elim!: list_all2_mono split: sum.split)
  have "defective (map_playlist_track_page origin members)"
    by (simp add: map_playlist_track_page_def playlist_token_def defective_page defective_member)
  then show "case map_playlist_track_page origin members of Inl e \<Rightarrow> error_type e = MappingDefect
      | Inr page \<Rightarrow> list_all2 shows_member (ptr_tracks members) (pr_items page)"
    by (auto simp: defective_def map_playlist_track_page_def
        dest!: map_items_page_ok intro: map_playlist_track_shows elim!: list_all2_mono split: sum.split)
qed

subsection \<open>Preferences through the wire\<close>

text \<open>A document with every number rendered from its float.\<close>

fun refloat :: "number_codec \<Rightarrow> json \<Rightarrow> json"
and refloat_entries :: "number_codec \<Rightarrow> json_map \<Rightarrow> json_map"
and refloat_list :: "number_codec \<Rightarrow> json list \<Rightarrow> json list" where
  "refloat nc (JNumber n) =
     JNumber (case nc_from_f64 nc (case nc_as_f64 nc n of None \<Rightarrow> Fin 0 | Some x \<Rightarrow> x) of
                None \<Rightarrow> n | Some rendered \<Rightarrow> rendered)"
| "refloat nc (JArray vs) = JArray (refloat_list nc vs)"
| "refloat nc (JObject entries) = JObject (refloat_entries nc entries)"
| "refloat nc JNull = JNull"
| "refloat nc (JBool b) = JBool b"
| "refloat nc (JString s) = JString s"
| "refloat_entries nc [] = []"
| "refloat_entries nc ((key, v) # entries) = (key, refloat nc v) # refloat_entries nc entries"
| "refloat_list nc [] = []"
| "refloat_list nc (v # vs) = refloat nc v # refloat_list nc vs"

definition finite_numbers :: "number_codec \<Rightarrow> bool" where
  "finite_numbers nc \<longleftrightarrow>
     (\<forall>n x. nc_as_f64 nc n = Some x \<longrightarrow> fp_is_finite x) \<and>
     (\<forall>x. fp_is_finite x \<longrightarrow> nc_from_f64 nc x \<noteq> None)"

lemma preferences_through_wire:
  "finite_numbers nc \<Longrightarrow> value_to_json nc (json_to_value nc v) = Inr (refloat nc v)"
  "finite_numbers nc \<Longrightarrow> struct_to_json nc (json_to_struct nc entries) = Inr (refloat_entries nc entries)"
  "finite_numbers nc \<Longrightarrow> values_to_json nc (json_to_values nc vs) = Inr (refloat_list nc vs)"
proof (induction nc v and nc entries and nc vs
    rule: refloat_refloat_entries_refloat_list.induct [case_names num arr obj null bool str e0 e1 l0 l1])
  case (num nc n)
  let ?x = "case nc_as_f64 nc n of None \<Rightarrow> Fin 0 | Some x \<Rightarrow> x"
  have "fp_is_finite ?x"
    using num by (auto simp: finite_numbers_def split: option.split)
  moreover from this obtain rendered where "nc_from_f64 nc ?x = Some rendered"
    using num unfolding finite_numbers_def by blast
  ultimately show ?case
    by (simp add: ok_or_def)
qed (simp_all add: bind_ok_def)

lemma refloat_keys: "map fst (refloat_entries nc entries) = map fst entries"
  by (induction entries) auto

text \<open>C33: preferences sent to Canopy and read back are the same document, keys, order, nesting and all,
  except that every number comes back as its float renders: an integer is not an integer any more.
  The two facts about \<open>serde_json\<close> are that a number is a finite float and that a finite float is
  a number.\<close>

theorem preferences_survive_the_wire:
  assumes "finite_numbers nc"
  shows "map_preferences nc (Some (json_to_struct nc m)) = Inr (refloat_entries nc m) \<and>
         map fst (refloat_entries nc m) = map fst m"
  using preferences_through_wire(2) [OF assms, of m] refloat_keys [of nc m]
  by (simp add: map_preferences_def transposed_def)

text \<open>A volume of 7, set in the car, comes back as 7.0; the rest of the document does not change.\<close>

definition plain_numbers :: number_codec where
  "plain_numbers =
     \<lparr>nc_as_f64 = (\<lambda>n. if n = ''7'' then Some (Fin 7) else None),
      nc_from_f64 = (\<lambda>x. if x = Fin 7 then Some ''7.0'' else Some ''0.0'')\<rparr>"

theorem preferences_survive_the_wire_witness:
  "map_preferences plain_numbers (Some (json_to_struct plain_numbers
     [(''audio'', JObject [(''volume'', JNumber ''7''), (''mono'', JBool False)]), (''theme'', JString ''dark'')])) =
   Inr [(''audio'', JObject [(''volume'', JNumber ''7.0''), (''mono'', JBool False)]), (''theme'', JString ''dark'')]"
proof -
  have "finite_numbers plain_numbers"
    by (simp add: finite_numbers_def plain_numbers_def)
  from preferences_survive_the_wire [OF this,
      of "[(''audio'', JObject [(''volume'', JNumber ''7''), (''mono'', JBool False)]), (''theme'', JString ''dark'')]"]
  show ?thesis
    by (simp add: plain_numbers_def)
qed

subsection \<open>The ports that take an identity\<close>

lemma feed_protected:
  "(\<And>feed. honest stored (feed_rpc feed service)) \<Longrightarrow>
   protected stored (\<lambda>identity. dp_get_feed (canopy_discovery cn service) feed identity excluded page)"
  by (simp add: canopy_discovery_def protected_rules)

text \<open>C6: every operation of the history, library, playlist and discovery adapters that is called for an
  identity sends only requests that carry the access token of that identity's stored session, and
  returns an answer only while that session is still the stored one; an argument it refuses is not
  sent at all. Other tasks may log in, log out, refresh or fail while an answer is awaited: only the
  session contract is assumed of them.\<close>

theorem protected_ports_stay_bound:
  assumes "honest_history stored hs" "honest_library stored ls" "honest_playlists stored ps"
    "\<And>feed. honest stored (feed_rpc feed ds)"
  shows "history_protected stored (canopy_history cn hs) \<and> library_protected stored (canopy_library cn ls) \<and>
    playlists_protected stored (canopy_playlists cn ps) \<and>
    (\<forall>feed excluded page. protected stored
       (\<lambda>identity. dp_get_feed (canopy_discovery cn ds) feed identity excluded page))"
  using assms canopy_history_protected canopy_library_protected canopy_playlists_protected feed_protected
  by blast

text \<open>A backend that saves tracks and is down otherwise; saving a track in the sample session refreshes the
  old token and sends one request.\<close>

definition down :: "('w, 'm, 'r) transport" where
  "down request c = (Inl \<lparr>st_code = CodeUnavailable, st_message = []\<rparr>, c)"

definition sample_summary :: track_summary where
  "sample_summary = \<lparr>wtr_id = ''t'', wtr_title = ''Song'', wtr_artist = Some \<lparr>war_id = [], war_name = ''Band''\<rparr>,
     wtr_album = None, wtr_duration_ms = 42, wtr_explicit = False, wtr_artwork = None\<rparr>"

definition saving_library :: "'w library_service" where
  "saving_library =
     \<lparr>rpc_save_track = (\<lambda>request c. (Inr \<lparr>svt_track = Some sample_summary,
        svt_saved_at = Some \<lparr>ts_seconds = 2, ts_nanos = 3000000\<rparr>\<rparr>, c)),
      rpc_remove_saved_track = down, rpc_list_saved_tracks = down, rpc_like_track = down,
      rpc_unlike_track = down, rpc_list_liked_tracks = down\<rparr>"

definition down_history :: "'w history_service" where
  "down_history =
     \<lparr>rpc_get_history_settings = down, rpc_update_history_settings = down, rpc_record_playback = down,
      rpc_list_history = down, rpc_delete_history_entry = down, rpc_clear_history = down\<rparr>"

definition down_playlists :: "'w playlist_service" where
  "down_playlists =
     \<lparr>rpc_create_playlist = down, rpc_get_playlist = down, rpc_update_playlist = down,
      rpc_delete_playlist = down, rpc_list_playlists = down, rpc_add_playlist_track = down,
      rpc_remove_playlist_track = down, rpc_reorder_playlist_tracks = down,
      rpc_list_playlist_tracks = down\<rparr>"

definition down_discovery :: "'w discovery_service" where
  "down_discovery =
     \<lparr>rpc_get_discovery_feed = down, rpc_get_for_you_feed = down, rpc_get_recommendations = down\<rparr>"

definition sample_canopy :: canopy where
  "sample_canopy =
     \<lparr>cn_tonic = \<lparr>tn_rpc_timeout = ''5000000u'', tn_valid_metadata = (\<lambda>_. True)\<rparr>, cn_session = True,
      cn_media_origin = None, cn_timeout = (\<lambda>_. ''3000000u''), cn_numbers = plain_numbers\<rparr>"

lemma honest_samples [simp]:
  "honest stored down"
  "honest_history stored down_history" "honest_library stored saving_library"
  "honest_playlists stored down_playlists" "honest stored (feed_rpc feed down_discovery)"
  by (cases feed; simp add: honest_def down_def honest_history_def down_history_def honest_library_def
      saving_library_def honest_playlists_def down_playlists_def down_discovery_def)+

lemmas rpc_defs = bound_rpc_def open_rpc_def returned_def execute_with_bound_auth_def execute_def request_new_def
  execute_with_auth_with_clock_def first_snapshot_def operation_auth_requirement_def operation_retry_class_def
  request_access_snapshot_def with_coordinator_def fresh_access_snapshot_with_clock_def clock_now_def
  read_store_def outside_def snapshot_of_def fresh_envelope_locked_def envelope_snapshot_def
  verify_bound_identity_def envelope_identity_def authorized_request_def send_request_def
  revalidate_bound_identity_def current_access_snapshot_def refresh_locked_def try_refresh_def
  replace_store_def advance_generation_def retry_request_def

theorem protected_ports_stay_bound_witness:
  "\<exists>saved ex'. lp_save (canopy_library sample_canopy saving_library) \<lparr>ai_account_id = ''a'', ai_session_id = ''s''\<rparr> ''t''
      \<lparr>ex_coordinator = sample_coordinator (Ok (sample_envelope ''new'' 90000)), ex_sent = []\<rparr> = (Ok saved, ex') \<and>
    lt_relationship_id saved = ''t'' \<and> length (ex_sent ex') = 1 \<and>
    (\<forall>sent\<in>set (ex_sent ex'). carries_token fst \<lparr>ai_account_id = ''a'', ai_session_id = ''s''\<rparr> sent)"
proof -
  let ?i = "\<lparr>ai_account_id = ''a'', ai_session_id = ''s''\<rparr>"
  let ?ex = "\<lparr>ex_coordinator = sample_coordinator (Ok (sample_envelope ''new'' 90000)), ex_sent = []\<rparr>"
  have "library_protected (fst :: refresh_world \<Rightarrow> envelope option) (canopy_library sample_canopy saving_library)"
    using protected_ports_stay_bound [where stored = "fst :: refresh_world \<Rightarrow> envelope option" and hs = down_history and ls = saving_library and
        ps = down_playlists and ds = down_discovery and cn = sample_canopy] by simp
  then have "answers_for fst ?i ?ex (lp_save (canopy_library sample_canopy saving_library) ?i ''t'' ?ex)"
    by (simp add: library_protected_def protected_def sample_ports)
  moreover obtain saved ex' where "lp_save (canopy_library sample_canopy saving_library) ?i ''t'' ?ex = (Ok saved, ex')"
      "lt_relationship_id saved = ''t''" "length (ex_sent ex') = 1"
    by (simp add: canopy_library_def guarded_def require_track_id_def blank_leading_visible answer_with_def rpc_defs
        sample_canopy_def saving_library_def sample_defs map_saved_track_def map_relationship_def bind_ok_def
        ok_or_def sample_summary_def map_track_summary_def timestamp_to_epoch_millis_def
        PROTOBUF_TIMESTAMP_MAX_SECONDS_def nanos_in_range_def millis_of_def checked_mul_def checked_add_def)
  ultimately show ?thesis
    by (auto simp: answers_for_def)
qed

subsection \<open>The profile port takes no identity\<close>

text \<open>What was sent, and with which credential.\<close>

definition sent_with :: "('w, 'm) exchange \<Rightarrow> (string option \<times> 'm) list" where
  "sent_with ex = map (\<lambda>(request, _). (rq_metadata request ''authorization'', rq_message request)) (ex_sent ex)"

text \<open>An answered request went out with the credential of that moment.\<close>

lemma profile_rpc_sends:
  assumes "operation_auth_requirement operation = AccessAuthenticated"
    and "fresh_access_snapshot_with_clock SystemClock (ex_coordinator ex) = (Ok (AuthenticatedAccess token g i), c1)"
    and "tn_valid_metadata (cn_tonic cn) (''Bearer '' @ token)"
    and "\<And>request. rq_message request = message \<Longrightarrow> transport request c1 = (Inr response, c2)"
  shows "\<exists>ex'. profile_rpc cn operation message transport ex = (Ok response, ex') \<and> ex_coordinator ex' = c2 \<and>
    sent_with ex' = sent_with ex @ [(Some (''Bearer '' @ token), message)]"
  using assms
  by (simp add: profile_rpc_def open_rpc_def returned_def execute_def request_new_def
      execute_with_auth_with_clock_def first_snapshot_def request_access_snapshot_def with_coordinator_def
      verify_bound_identity_def authorized_request_def send_request_def revalidate_bound_identity_def sent_with_def)

text \<open>C22: a profile update reads the profile and writes it back in two requests that are bound to no
  identity. Whatever happens while the profile is being read, the second request goes out under the login of that later moment
  and carries the profile that was read under the earlier one, its id included: when another account has
  signed in meanwhile, its credential is used to write the first account's profile, and the call succeeds when the
  server takes it. This is so for any accounts, any update that changes something, and any answers.\<close>

theorem profile_update_crosses_logins:
  assumes "field_mask_paths update \<noteq> []"
    and "fresh_access_snapshot_with_clock SystemClock (ex_coordinator ex) = (Ok (AuthenticatedAccess first g i), c1)"
    and "\<And>request. rq_message request = MsgGetProfile \<Longrightarrow> rpc_get_profile service request c1 = (Inr answer, c2)"
    and "map_profile answer = Ok current"
    and "fresh_access_snapshot_with_clock SystemClock c2 = (Ok (AuthenticatedAccess second g' i'), c3)"
    and "\<And>request. rpc_update_profile service request c3 = (Inr answer', c4)" and "map_profile answer' = Ok updated"
    and "tn_valid_metadata (cn_tonic cn) (''Bearer '' @ first)" "tn_valid_metadata (cn_tonic cn) (''Bearer '' @ second)"
  shows "\<exists>ex' written. prp_update (canopy_profile cn service) update ex = (Ok updated, ex') \<and>
    sent_with ex' = sent_with ex @
      [(Some (''Bearer '' @ first), MsgGetProfile),
       (Some (''Bearer '' @ second), MsgUpdateProfile written (field_mask_paths update))] \<and>
    wpf_id written = wpf_id answer \<and> wpf_external_user_id written = wpf_external_user_id answer \<and>
    ex_coordinator ex' = c4"
proof -
  let ?written = "profile_to_wire (profile_update_apply_to update current)"
  obtain ex1 where 1: "profile_rpc cn GetProfile MsgGetProfile (rpc_get_profile service) ex = (Ok answer, ex1)"
    "ex_coordinator ex1 = c2" "sent_with ex1 = sent_with ex @ [(Some (''Bearer '' @ first), MsgGetProfile)]"
    using profile_rpc_sends [of GetProfile ex first g i c1 cn MsgGetProfile "rpc_get_profile service" answer c2] assms
    by (auto simp: operation_auth_requirement_def)
  obtain ex2 where 2: "profile_rpc cn UpdateProfile (MsgUpdateProfile ?written (field_mask_paths update))
      (rpc_update_profile service) ex1 = (Ok answer', ex2)" "ex_coordinator ex2 = c4"
    "sent_with ex2 = sent_with ex1 @ [(Some (''Bearer '' @ second), MsgUpdateProfile ?written (field_mask_paths update))]"
    using profile_rpc_sends [of UpdateProfile ex1 second g' i' c3 cn
        "MsgUpdateProfile ?written (field_mask_paths update)" "rpc_update_profile service" answer' c4] assms 1(2)
    by (auto simp: operation_auth_requirement_def)
  have get: "profile_get cn service ex = (Ok current, ex1)"
    using 1(1) assms(4) by (simp add: profile_get_def answer_with_def bind_ok_def)
  have "prp_update (canopy_profile cn service) update ex = (Ok updated, ex2)"
    using assms(1,7) get 2(1) by (simp add: canopy_profile_def profile_update_call_def answer_with_def bind_ok_def)
  moreover have "wpf_id ?written = wpf_id answer" "wpf_external_user_id ?written = wpf_external_user_id answer"
    using assms(4) by (auto simp: map_profile_def profile_to_wire_def profile_update_apply_to_def bind_ok_def map_ok_def
        split: sum.splits option.splits if_splits)
  ultimately show ?thesis using 1(3) 2(2,3) by auto
qed

text \<open>Another account signs in while the profile is being read.\<close>

definition other_envelope :: envelope where
  "other_envelope = (sample_envelope ''other'' 90000)\<lparr>
     ev_account := \<lparr>acct_id = ''b'', acct_primary_email = [], acct_status = [], acct_created_at_epoch_millis = 0\<rparr>\<rparr>"

definition first_profile :: wire_profile where
  "first_profile = \<lparr>wpf_id = ''profile-a'', wpf_external_user_id = ''a'', wpf_display_name = Some ''Ann'',
     wpf_created_at = None, wpf_updated_at = None\<rparr>"

definition switching_profiles :: "'w profile_service" where
  "switching_profiles =
     \<lparr>rpc_upsert_profile = down,
      rpc_get_profile = (\<lambda>request c. (Inr first_profile, snd (login_password ''b@x'' ''pw'' ''car'' c))),
      rpc_update_profile = (\<lambda>request c. (Inr first_profile, c)),
      rpc_delete_profile = down, rpc_get_preferences = down, rpc_update_preferences = down\<rparr>"

definition before_switch :: "refresh_world canopy_exchange" where
  "before_switch =
     \<lparr>ex_coordinator = (sample_coordinator (Ok other_envelope))\<lparr>
        sc_world := (Some (sample_envelope ''first'' 90000), Ok other_envelope, 0)\<rparr>, ex_sent = []\<rparr>"

theorem profile_update_crosses_logins_witness:
  "\<exists>updated ex' written. prp_update (canopy_profile sample_canopy switching_profiles)
      \<lparr>pu_display_name = Some (Some ''Bea'')\<rparr> before_switch = (Ok updated, ex') \<and>
    sent_with ex' = [(Some ''Bearer first'', MsgGetProfile),
      (Some ''Bearer other'', MsgUpdateProfile written [''display_name''])] \<and> wpf_id written = ''profile-a''"
proof -
  let ?c = "ex_coordinator before_switch" and ?update = "\<lparr>pu_display_name = Some (Some ''Bea'')\<rparr>"
  obtain g i where first: "fresh_access_snapshot_with_clock SystemClock ?c = (Ok (AuthenticatedAccess ''first'' g i), ?c)"
    by (simp add: before_switch_def rpc_defs sample_defs)
  obtain c2 where switched: "snd (login_password ''b@x'' ''pw'' ''car'' ?c) = c2" by blast
  obtain g' i' where second: "fresh_access_snapshot_with_clock SystemClock c2 = (Ok (AuthenticatedAccess ''other'' g' i'), c2)"
    unfolding switched [symmetric]
    by (simp add: before_switch_def login_password_def commit_answer_def commit_interactive_session_def rpc_defs sample_defs
        other_envelope_def)
  obtain current where current: "map_profile first_profile = Ok current"
    by (simp add: map_profile_def first_profile_def profile_timestamp_def transposed_def bind_ok_def)
  have valid: "tn_valid_metadata (cn_tonic sample_canopy) token" for token by (simp add: sample_canopy_def)
  have fields: "field_mask_paths ?update = [''display_name'']" "sent_with before_switch = []"
    by (simp_all add: field_mask_paths_def sent_with_def before_switch_def)
  have "\<exists>ex' written. prp_update (canopy_profile sample_canopy switching_profiles) ?update before_switch = (Ok current, ex') \<and>
    sent_with ex' = sent_with before_switch @
      [(Some (''Bearer '' @ ''first''), MsgGetProfile),
       (Some (''Bearer '' @ ''other''), MsgUpdateProfile written (field_mask_paths ?update))] \<and>
    wpf_id written = wpf_id first_profile \<and> wpf_external_user_id written = wpf_external_user_id first_profile \<and>
    ex_coordinator ex' = c2"
    by (rule profile_update_crosses_logins [OF _ first _ current second _ current valid valid])
      (simp_all add: fields(1) switching_profiles_def switched)
  then show ?thesis by (fastforce simp: fields first_profile_def)
qed

end
