(* ===== verification/BackendLaws.thy ===== *)
theory BackendLaws
  imports BackendSetup CanopyLaws "HOL-Library.Multiset"
begin

text \<open>
  Laws of the backend's set-up: calls of several threads in any order configure it at most once, a
  production build makes no session in a store that does not keep it safe, and what the catalog
  showed is found again.
\<close>

subsection \<open>The repository\<close>

text \<open>One call of the repository; what it showed and the world after it.\<close>

datatype catalog_call = SearchCall string page_request | BrowseCall "string option" "string list" page_request

fun catalog_answer :: "'v repository \<Rightarrow> catalog_call \<Rightarrow> 'v \<Rightarrow> media_item paged_result result \<times> 'v" where
  "catalog_answer repo (SearchCall query page) = rp_search_catalog repo query page"
| "catalog_answer repo (BrowseCall parent_id genres page) = rp_browse_catalog repo parent_id genres page"

fun catalog_run :: "'v repository \<Rightarrow> catalog_call list \<Rightarrow> 'v \<Rightarrow> media_item list \<times> 'v" where
  "catalog_run repo [] v = ([], v)"
| "catalog_run repo (call # calls) v =
     (let (answer, v) = catalog_answer repo call v; (shown, v) = catalog_run repo calls v
      in ((case answer of Inl _ \<Rightarrow> [] | Inr page \<Rightarrow> pr_items page) @ shown, v))"

lemma extend_cache_append: "extend_cache (xs @ ys) cache = extend_cache ys (extend_cache xs cache)"
  by (simp add: extend_cache_def)

lemma extend_cache_find:
  "extend_cache items cache i =
     (case find (\<lambda>item. mi_id item = i) (rev items) of None \<Rightarrow> cache i | Some item \<Rightarrow> Some item)"
proof (induction items rule: rev_induct)
  case (snoc item items)
  then show ?case by (simp add: extend_cache_append extend_cache_def)
qed (simp add: extend_cache_def)

lemma cached_page_cache:
  "cached_page x cache = (answer, cache', w') \<Longrightarrow>
   cache' = extend_cache (case answer of Inl _ \<Rightarrow> [] | Inr page \<Rightarrow> pr_items page) cache"
  by (cases x; cases "fst x") (auto simp: cached_page_def project_page_def Let_def extend_cache_def)

lemma catalog_answer_cache:
  assumes "catalog_answer (remote_repository render port) call (cache, w) = (answer, cache', w')"
  shows "cache' = extend_cache (case answer of Inl _ \<Rightarrow> [] | Inr page \<Rightarrow> pr_items page) cache"
  using assms cached_page_cache by (cases call) (fastforce simp: remote_repository_def)+

lemma catalog_run_cache:
  "catalog_run (remote_repository render port) calls (cache, w) = (shown, cache', w') \<Longrightarrow>
   cache' = extend_cache shown cache"
proof (induction calls arbitrary: cache w shown)
  case (Cons call calls)
  obtain answer cache1 w1 where answer:
    "catalog_answer (remote_repository render port) call (cache, w) = (answer, cache1, w1)"
    by (metis prod_cases3)
  obtain later where "catalog_run (remote_repository render port) calls (cache1, w1) = (later, cache', w')"
    and "shown = (case answer of Inl _ \<Rightarrow> [] | Inr page \<Rightarrow> pr_items page) @ later"
    using Cons.prems answer by (auto simp: Let_def split: prod.splits)
  with Cons.IH catalog_answer_cache [OF answer] show ?case
    by (metis extend_cache_append)
qed (simp add: extend_cache_def)

text \<open>Whatever pages were shown, an item is found by its id exactly when one was, as it was shown last.\<close>

lemma repository_remembers_every_item:
  assumes "catalog_run (remote_repository render port) calls (Map.empty, w) = (shown, world)"
  shows "rp_get_by_id (remote_repository render port) i world = find (\<lambda>item. mi_id item = i) (rev shown)"
  using catalog_run_cache [of render port calls Map.empty w shown "fst world" "snd world"] assms
  by (cases world) (simp add: remote_repository_def extend_cache_find split: option.split)

subsection \<open>Configurations from several threads\<close>

text \<open>The engine, the calls that are between \<open>begin_configuration\<close> and their end, and how many calls
  composed a backend. Authentication calls and the installation of a session store interleave.\<close>

inductive setup_reach ::
  "'w surroundings \<Rightarrow> 'w panda_engine \<Rightarrow> (canopy_connection_config \<times> deployment_mode) multiset \<Rightarrow> nat \<Rightarrow> bool"
  for srd where
  created:
    "setup_reach srd
       \<lparr>pa_configuration = Unconfigured, pa_session_store = store, pa_auth_runtime = None,
        pa_backend = None, pa_availability = availability, pa_published = []\<rparr> {#} 0"
| installed:
    "setup_reach srd pa pending n \<Longrightarrow> setup_reach srd (snd (install_session_store store pa)) pending n"
| refused:
    "setup_reach srd pa pending n \<Longrightarrow> begin_configuration srd json mode pa = (Inl err, pa') \<Longrightarrow>
     setup_reach srd pa' pending n"
| repeated:
    "setup_reach srd pa pending n \<Longrightarrow> begin_configuration srd json mode pa = (Inr None, pa') \<Longrightarrow>
     setup_reach srd pa' pending n"
| begun:
    "setup_reach srd pa pending n \<Longrightarrow> begin_configuration srd json mode pa = (Inr (Some config), pa') \<Longrightarrow>
     setup_reach srd pa' (add_mset (config, mode) pending) n"
| ended:
    "setup_reach srd pa (add_mset (config, mode) pending) n \<Longrightarrow>
     continue_configuration srd config mode pa = (answer, pa') \<Longrightarrow>
     setup_reach srd pa' pending (if is_ok answer then n + 1 else n)"
| registered: "setup_reach srd pa pending n \<Longrightarrow> setup_reach srd (snd (ffi_register_password email password pa)) pending n"
| resent: "setup_reach srd pa pending n \<Longrightarrow> setup_reach srd (snd (ffi_resend_verification email pa)) pending n"
| verified: "setup_reach srd pa pending n \<Longrightarrow> setup_reach srd (snd (ffi_verify_email token label pa)) pending n"
| logged_in: "setup_reach srd pa pending n \<Longrightarrow> setup_reach srd (snd (ffi_login_password email password label pa)) pending n"
| logged_out: "setup_reach srd pa pending n \<Longrightarrow> setup_reach srd (snd (ffi_logout pa)) pending n"

text \<open>Each authentication call keeps the store of the coordinator and everything of the configuration.\<close>

definition store_kept :: "'w auth_operation \<Rightarrow> bool" where
  "store_kept operation \<longleftrightarrow> (\<forall>c. sc_store (snd (snd (operation c))) = sc_store c)"

lemma store_of_parts:
  "outside f c = (r, c') \<Longrightarrow> sc_store c' = sc_store c"
  "read_store c = (r1, c') \<Longrightarrow> sc_store c' = sc_store c"
  "replace_store env c = (r2, c') \<Longrightarrow> sc_store c' = sc_store c"
  "clear_store c = (r2, c') \<Longrightarrow> sc_store c' = sc_store c"
  "advance_generation c = (r3, c') \<Longrightarrow> sc_store c' = sc_store c"
  by (auto simp: outside_def read_store_def replace_store_def clear_store_def advance_generation_def
      Let_def split: prod.splits if_splits)

lemma store_of_commit: "commit_interactive_session env c = (r, c') \<Longrightarrow> sc_store c' = sc_store c"
  unfolding commit_interactive_session_def Let_def
  by (auto split: prod.splits sum.splits dest!: store_of_parts)

lemma store_of_logout: "session_logout c = (r, c') \<Longrightarrow> sc_store c' = sc_store c"
  unfolding session_logout_def Let_def
  by (auto split: prod.splits sum.splits option.splits dest!: store_of_parts)

lemma store_of_answer: "commit_answer (outside f c) = (r, c') \<Longrightarrow> sc_store c' = sc_store c"
  unfolding commit_answer_def
  by (auto split: prod.splits sum.splits dest!: store_of_parts store_of_commit)

lemma auth_calls_keep_store:
  "store_kept (\<lambda>c. accepting (register_password email password c))"
  "store_kept (\<lambda>c. accepting (resend_verification email c))"
  "store_kept (\<lambda>c. publishing (verify_email token label c))"
  "store_kept (\<lambda>c. publishing (login_password email password label c))"
  "store_kept (\<lambda>c. case session_logout c of
     (Inl err, c) \<Rightarrow> (Err err, [], c) | (Inr _, c) \<Rightarrow> (Ok AuthAnonymous, [Anonymous], c))"
  by (auto simp: store_kept_def accepting_def publishing_def register_password_def resend_verification_def
      verify_email_def login_password_def split: prod.splits sum.splits
      intro: store_of_parts store_of_answer store_of_logout dest!: store_of_logout store_of_answer)

text \<open>What holds at every moment: one call at most is configuring; the backend is composed when and only
  when the configuration is ready, by one call and for a validated configuration, over the store
  that was installed before, and the coordinator keeps that store.\<close>

definition composed_by ::
  "'w surroundings \<Rightarrow> canopy_connection_config \<Rightarrow> 'w panda_engine \<Rightarrow> bool" where
  "composed_by srd config pa \<longleftrightarrow>
     (\<exists>json mode chan runtime.
        parse_and_validate (srd_parser srd) json mode = Inr config \<and>
        connect_lazy (srd_connector srd) config = Inr chan \<and>
        pa_backend pa = Some (compose_backend srd chan (pa_session_store pa) (ccc_stream_base_url config)) \<and>
        pa_auth_runtime pa = Some runtime \<and> ar_store runtime = pa_session_store pa \<and>
        sc_store (ar_coordinator runtime) = pa_session_store pa \<and> ar_production runtime = (mode = Production))"

definition setup_sound ::
  "'w surroundings \<Rightarrow> 'w panda_engine \<Rightarrow> (canopy_connection_config \<times> deployment_mode) multiset \<Rightarrow> nat \<Rightarrow> bool" where
  "setup_sound srd pa pending n \<longleftrightarrow>
     size pending = (if pa_configuration pa = Configuring then 1 else 0) \<and>
     (\<forall>(config, mode) \<in># pending. \<exists>json. parse_and_validate (srd_parser srd) json mode = Inr config) \<and>
     (case pa_configuration pa of
        Ready config \<Rightarrow> n = 1 \<and> composed_by srd config pa
      | _ \<Rightarrow> n = 0 \<and> pa_backend pa = None \<and> pa_auth_runtime pa = None)"

lemma composed_by_runtime:
  "composed_by srd config pa \<Longrightarrow> pa_auth_runtime pa = Some runtime \<Longrightarrow>
   sc_store c = sc_store (ar_coordinator runtime) \<Longrightarrow>
   composed_by srd config
     (pa\<lparr>pa_auth_runtime := Some (runtime\<lparr>ar_coordinator := c\<rparr>), pa_published := published\<rparr>)"
  unfolding composed_by_def by fastforce

lemma with_runtime_result:
  obtains "snd (with_runtime requires operation pa) = pa"
  | runtime published where "pa_auth_runtime pa = Some runtime"
    "snd (with_runtime requires operation pa) =
       pa\<lparr>pa_auth_runtime := Some (runtime\<lparr>ar_coordinator := snd (snd (operation (ar_coordinator runtime)))\<rparr>),
         pa_published := published\<rparr>"
proof (cases "pa_auth_runtime pa")
  case None
  then have "snd (with_runtime requires operation pa) = pa"
    by (simp add: with_runtime_def)
  then show ?thesis by (rule that(1))
next
  case (Some runtime)
  obtain r published c where op: "operation (ar_coordinator runtime) = (r, published, c)"
    by (metis prod_cases3)
  show ?thesis
  proof (cases "requires \<and> ar_production runtime \<and> \<not> is_ok (validate_production_session_store (ar_store runtime))")
    case True
    then have "snd (with_runtime requires operation pa) = pa"
      using Some by (cases "validate_production_session_store (ar_store runtime)") (simp_all add: with_runtime_def)
    then show ?thesis by (rule that(1))
  next
    case False
    then have "snd (with_runtime requires operation pa) =
        pa\<lparr>pa_auth_runtime := Some (runtime\<lparr>ar_coordinator := c\<rparr>), pa_published := pa_published pa @ published\<rparr>"
      using Some op
      by (cases "validate_production_session_store (ar_store runtime)") (auto simp: with_runtime_def)
    then show ?thesis using that(2) [OF Some] op by simp
  qed
qed

lemma sound_auth_call:
  assumes "setup_sound srd pa pending n" "store_kept operation"
  shows "setup_sound srd (snd (with_runtime requires operation pa)) pending n"
proof (rule with_runtime_result [of requires operation pa])
  fix runtime published
  assume runtime: "pa_auth_runtime pa = Some runtime"
    and pa': "snd (with_runtime requires operation pa) =
       pa\<lparr>pa_auth_runtime := Some (runtime\<lparr>ar_coordinator := snd (snd (operation (ar_coordinator runtime)))\<rparr>),
         pa_published := published\<rparr>"
  have "sc_store (snd (snd (operation (ar_coordinator runtime)))) = sc_store (ar_coordinator runtime)"
    using assms(2) by (simp add: store_kept_def)
  with assms(1) runtime show ?thesis
    unfolding pa' by (cases "pa_configuration pa") (auto simp: setup_sound_def intro: composed_by_runtime)
qed (use assms in simp)

lemma sound_created:
  "setup_sound srd \<lparr>pa_configuration = Unconfigured, pa_session_store = store, pa_auth_runtime = None,
     pa_backend = None, pa_availability = availability, pa_published = []\<rparr> {#} 0"
  by (simp add: setup_sound_def)

lemma sound_installed: "setup_sound srd pa pending n \<Longrightarrow> setup_sound srd (snd (install_session_store store pa)) pending n"
  by (cases "pa_configuration pa") (simp_all add: setup_sound_def install_session_store_def)

lemma sound_begin:
  assumes "setup_sound srd pa pending n" "begin_configuration srd json mode pa = (answer, pa')"
  shows "setup_sound srd pa' (case answer of Inr (Some config) \<Rightarrow> add_mset (config, mode) pending | _ \<Rightarrow> pending) n"
  using assms
  by (cases "pa_configuration pa"; cases "parse_and_validate (srd_parser srd) json mode")
    (auto simp: setup_sound_def begin_configuration_def fail_unstarted_configuration_def composed_by_def
      split: if_splits)

lemma store_of_composition: "sc_store (bc_session (compose_backend srd chan store origin)) = store"
  by (simp add: compose_backend_def coordinator_new_def Let_def)

lemma sound_ended:
  assumes "setup_sound srd pa (add_mset (config, mode) pending) n"
    "continue_configuration srd config mode pa = (answer, pa')"
  shows "setup_sound srd pa' pending (if is_ok answer then n + 1 else n)"
proof -
  from assms(1) have pa: "pa_configuration pa = Configuring" "pending = {#}" "n = 0" "pa_backend pa = None"
    "pa_auth_runtime pa = None" and "\<exists>json. parse_and_validate (srd_parser srd) json mode = Inr config"
    by (auto simp: setup_sound_def split: if_splits)
  then obtain json where json: "parse_and_validate (srd_parser srd) json mode = Inr config" by blast
  show ?thesis
  proof (cases "connect_lazy (srd_connector srd) config")
    case (Inl err)
    with assms(2) pa show ?thesis
      by (auto simp: continue_configuration_def fail_configuration_def setup_sound_def)
  next
    case (Inr chan)
    with assms(2) pa json show ?thesis
      by (auto simp: continue_configuration_def finish_configuration_def setup_sound_def composed_by_def Let_def
          store_of_composition intro!: exI [of _ json] exI [of _ mode])
  qed
qed

lemma setup_reach_sound: "setup_reach srd pa pending n \<Longrightarrow> setup_sound srd pa pending n"
proof (induction rule: setup_reach.induct)
  case (refused pa pending n json mode err pa')
  then show ?case using sound_begin by fastforce
next
  case (repeated pa pending n json mode pa')
  then show ?case using sound_begin by fastforce
next
  case (begun pa pending n json mode config pa')
  then show ?case using sound_begin by fastforce
next
  case (ended pa config mode pending n answer pa')
  then show ?case using sound_ended by blast
qed (simp_all add: sound_created sound_installed sound_auth_call auth_calls_keep_store
    ffi_register_password_def ffi_resend_verification_def ffi_verify_email_def ffi_login_password_def
    ffi_logout_def)

text \<open>C8: however the calls of several threads interleave, one call at most is in the middle of a
configuration and one call at most composes a backend. When the configuration is ready it is a
validated one, the backend is exactly the composition over its channel and over the session store
that is installed, and the coordinator of every later login works on that very store; before,
nothing of it exists.\<close>

theorem backend_is_configured_once:
  assumes "setup_reach srd pa pending n"
  shows "n \<le> 1 \<and> size pending = (if pa_configuration pa = Configuring then 1 else 0) \<and>
    (case pa_configuration pa of
       Ready config \<Rightarrow> n = 1 \<and> composed_by srd config pa
     | _ \<Rightarrow> n = 0 \<and> pa_backend pa = None \<and> pa_auth_runtime pa = None)"
  using setup_reach_sound [OF assms] by (auto simp: setup_sound_def split: backend_configuration.splits)

text \<open>A backend that is never there, for concrete engines.\<close>

definition unanswered :: "('w, 'r) auth_rpc" where
  "unanswered request w = (Inl \<lparr>st_code = CodeUnavailable, st_message = []\<rparr>, w)"

definition down_clients :: "'w canopy_clients" where
  "down_clients =
     \<lparr>cls_auth = \<lparr>arp_register_password = unanswered, arp_resend_verification = unanswered,
        arp_verify_email = unanswered, arp_login_password = unanswered,
        arp_refresh_session = unanswered, arp_logout = unanswered\<rparr>,
      cls_account = \<lparr>rpc_get_account = down, rpc_list_sessions = down, rpc_revoke_session = down,
        rpc_delete_account = down\<rparr>,
      cls_catalog = \<lparr>rpc_browse = down, rpc_search = down, rpc_get_media = down\<rparr>,
      cls_playback = \<lparr>rpc_resolve_playback = down\<rparr>,
      cls_discovery = down_discovery,
      cls_system = \<lparr>rpc_get_status = down\<rparr>,
      cls_profile = \<lparr>rpc_upsert_profile = down, rpc_get_profile = down, rpc_update_profile = down,
        rpc_delete_profile = down, rpc_get_preferences = down, rpc_update_preferences = down\<rparr>,
      cls_history = down_history,
      cls_library = saving_library,
      cls_playlist = down_playlists\<rparr>"

definition sample_surroundings :: "refresh_world surroundings" where
  "sample_surroundings =
     \<lparr>srd_parser = sample_parser, srd_connector = \<lparr>cnn_endpoint_valid = (\<lambda>_. True), cnn_tls_valid = (\<lambda>_ _. True)\<rparr>,
      srd_clients = (\<lambda>_. down_clients), srd_tonic = cn_tonic sample_canopy, srd_timeout = cn_timeout sample_canopy,
      srd_numbers = plain_numbers, srd_join = (\<lambda>_ path. Some path), srd_clock = (\<lambda>w. (Ok 1000, w)),
      srd_render = error_message, srd_world = (Some (sample_envelope ''first'' 90000), Err session_login_required, 0)\<rparr>"

definition sample_start :: "refresh_world panda_engine" where
  "sample_start =
     \<lparr>pa_configuration = Unconfigured, pa_session_store = process_store, pa_auth_runtime = None,
      pa_backend = None, pa_availability = Connecting, pa_published = []\<rparr>"

definition sample_runtime :: "refresh_world engine_auth_runtime" where
  "sample_runtime =
     \<lparr>ar_coordinator = coordinator_new process_store
        (canopy_auth (sample_canopy\<lparr>cn_session := False\<rparr>) (cls_auth down_clients)) (\<lambda>w. (Ok 1000, w))
        (srd_world sample_surroundings),
      ar_store = process_store, ar_production = True\<rparr>"

lemma sample_ready:
  "\<exists>pa config. setup_reach sample_surroundings pa {#} 1 \<and> pa_configuration pa = Ready config \<and>
     pa_auth_runtime pa = Some sample_runtime \<and> pa_published pa = []"
proof -
  obtain config where config: "parse_and_validate sample_parser [] Production = Inr config"
    using sample_validated by blast
  let ?begun = "sample_start\<lparr>pa_configuration := Configuring\<rparr>"
  have "setup_reach sample_surroundings sample_start {#} 0"
    unfolding sample_start_def by (rule setup_reach.created)
  moreover have "begin_configuration sample_surroundings [] Production sample_start = (Inr (Some config), ?begun)"
    by (simp add: begin_configuration_def sample_surroundings_def sample_start_def config)
  ultimately have begun: "setup_reach sample_surroundings ?begun (add_mset (config, Production) {#}) 0"
    by (rule setup_reach.begun)
  obtain chan where chan: "connect_lazy (srd_connector sample_surroundings) config = Inr chan"
    by (cases "uri_scheme (ccc_grpc_endpoint config) = Some ''https''")
      (simp_all add: connect_lazy_def apply_tls_config_def sample_surroundings_def Let_def)
  obtain answer pa where ended: "continue_configuration sample_surroundings config Production ?begun = (answer, pa)"
    by fastforce
  then have "answer = Ok ()" "pa_configuration pa = Ready config" "pa_published pa = []"
    "pa_auth_runtime pa = Some sample_runtime"
    using chan
    by (auto simp: continue_configuration_def finish_configuration_def Let_def sample_start_def sample_runtime_def
        compose_backend_def sample_surroundings_def sample_canopy_def)
  with setup_reach.ended [OF begun ended] show ?thesis by auto
qed

theorem backend_is_configured_once_witness:
  "\<exists>pa config. setup_reach sample_surroundings pa {#} 1 \<and> pa_configuration pa = Ready config \<and>
     composed_by sample_surroundings config pa"
proof -
  obtain pa config where ready: "setup_reach sample_surroundings pa {#} 1" "pa_configuration pa = Ready config"
    using sample_ready by blast
  with backend_is_configured_once [OF ready(1)] show ?thesis by auto
qed

subsection \<open>Authentication calls\<close>

text \<open>C9: in a production build no call that would make a session reaches the backend while the store that
the coordinator works on is not durable and secure: registration, verification and login fail with
the storage error, and nothing has changed.\<close>

theorem production_login_needs_a_secure_store:
  assumes "setup_reach srd pa pending n"
    and "pa_auth_runtime pa = Some runtime" "ar_production runtime"
    and "ss_security_level (sc_store (ar_coordinator runtime)) = Ephemeral"
  shows "ffi_login_password email password label pa = (AuthFailed (store_error InsecureForProduction), pa) \<and>
    ffi_verify_email token label pa = (AuthFailed (store_error InsecureForProduction), pa) \<and>
    ffi_register_password email password pa = (AuthFailed (store_error InsecureForProduction), pa)"
proof -
  from setup_reach_sound [OF assms(1)] assms(2) have "ar_store runtime = sc_store (ar_coordinator runtime)"
    by (auto simp: setup_sound_def composed_by_def split: backend_configuration.splits)
  with assms(2-4) show ?thesis
    by (simp add: ffi_login_password_def ffi_verify_email_def ffi_register_password_def with_runtime_def
        validate_production_session_store_def)
qed

theorem production_login_needs_a_secure_store_witness:
  "\<exists>pa. setup_reach sample_surroundings pa {#} 1 \<and>
     ffi_login_password ''a@b'' ''pw'' ''car'' pa = (AuthFailed (store_error InsecureForProduction), pa)"
proof -
  obtain pa where pa: "setup_reach sample_surroundings pa {#} 1" "pa_auth_runtime pa = Some sample_runtime"
    using sample_ready by blast
  have "ar_production sample_runtime"
    "ss_security_level (sc_store (ar_coordinator sample_runtime)) = Ephemeral"
    by (simp_all add: sample_runtime_def coordinator_new_def process_store_def in_memory_store_def)
  from production_login_needs_a_secure_store [OF pa this] pa(1) show ?thesis by blast
qed

text \<open>A logout that cannot reach the backend has closed the session but publishes nothing: the snapshot the
  user interface reads still shows the account.\<close>

lemma failed_logout_is_not_published:
  "\<exists>pa err pa' runtime. setup_reach sample_surroundings pa {#} 1 \<and>
     ffi_logout pa = (AuthFailed err, pa') \<and> pa_published pa' = [] \<and>
     pa_auth_runtime pa' = Some runtime \<and> fst (current_auth_state (ar_coordinator runtime)) = Anonymous"
proof -
  obtain pa where pa: "setup_reach sample_surroundings pa {#} 1" "pa_auth_runtime pa = Some sample_runtime"
    "pa_published pa = []"
    using sample_ready by blast
  let ?c = "ar_coordinator sample_runtime"
  have gone: "session_logout ?c = (Err (map_operation_status \<lparr>st_code = CodeUnavailable, st_message = []\<rparr> True),
      ?c\<lparr>sc_generation := 1, sc_world := (None, Err session_login_required, 0)\<rparr>)"
    by (simp add: session_logout_def read_store_def clear_store_def advance_generation_def outside_def Let_def
        sample_runtime_def coordinator_new_def process_store_def in_memory_store_def sample_surroundings_def
        logout_message sample_canopy_def down_clients_def unanswered_def)
  have "fst (current_auth_state (?c\<lparr>sc_generation := 1, sc_world := (None, Err session_login_required, 0)\<rparr>)) = Anonymous"
    by (simp add: current_auth_state_def session_auth_state_def read_store_def outside_def map_store_error_def Let_def
        sample_runtime_def coordinator_new_def process_store_def in_memory_store_def)
  with pa gone show ?thesis
    by (intro exI [of _ pa]) (simp add: ffi_logout_def with_runtime_def)
qed

end
