(* ===== verification/Payloads.thy ===== *)
theory Payloads
  imports Commands
begin

text \<open>
  The versioned payloads of the wire commands (\<open>model/command/payloads.rs\<close>,
  \<open>model/command/parsing.rs\<close>, \<open>model/command.rs\<close>): the payload structs, the checks each parser
  makes, the dispatch of a wire name to its parser and the constructors that produce a command
  together with its payload. Turning JSON text into a struct and back is \<open>serde_json\<close>'s and enters
  as the fields of \<open>command_codec\<close>. The lemmas say which commands the parsers can let through and
  that a produced command is read back as it was.
\<close>

subsection \<open>Payload structs\<close>

record initial_page =
  ip_page_size :: u32

record search_payload =
  sp_version :: u32
  sp_query :: string
  sp_page :: initial_page

record browse_payload =
  bp_version :: u32
  bp_parent_id :: "string option"
  bp_genres :: "string list"
  bp_page :: initial_page

record next_catalog_payload =
  np_version :: u32
  np_operation_id :: string

record feed_payload =
  fp_version :: u32
  fp_exclude_track_ids :: "string list"
  fp_page :: initial_page

record next_feed_payload =
  nf_version :: u32

record history_settings_payload =
  hsp_version :: u32
  hsp_enabled :: bool

record list_history_payload =
  lh_version :: u32
  lh_page :: initial_page

record track_payload =
  tp_version :: u32
  tp_track_id :: string

record list_library_payload =
  ll_version :: u32
  ll_page :: initial_page

record delete_history_payload =
  dh_version :: u32
  dh_history_id :: string

record playlist_payload =
  pp_version :: u32
  pp_playlist_id :: string

record playlist_page_payload =
  pg_version :: u32
  pg_playlist_id :: "string option"
  pg_page :: initial_page

record playlist_details_payload =
  pd_version :: u32
  pd_playlist_id :: "string option"
  pd_name :: string
  pd_description :: "string option"
  pd_expected_revision :: "u64 option"

record playlist_track_payload =
  ptp_version :: u32
  ptp_playlist_id :: string
  ptp_track_id :: string

record playlist_reorder_payload =
  por_version :: u32
  por_playlist_id :: string
  por_ordered_membership_ids :: "string list"
  por_expected_revision :: u64

record list_sessions_payload =
  ls_version :: u32
  ls_page :: initial_page

record revoke_session_payload =
  rs_version :: u32
  rs_session_id :: string

record play_queue_payload =
  pq_version :: u32
  pq_media_ids :: "string list"
  pq_start_index :: usize

record command_codec =
  decode_search :: "string \<Rightarrow> search_payload option"
  decode_browse :: "string \<Rightarrow> browse_payload option"
  decode_next_catalog :: "string \<Rightarrow> next_catalog_payload option"
  decode_feed :: "string \<Rightarrow> feed_payload option"
  decode_next_feed :: "string \<Rightarrow> next_feed_payload option"
  decode_history_settings :: "string \<Rightarrow> history_settings_payload option"
  decode_list_history :: "string \<Rightarrow> list_history_payload option"
  decode_track :: "string \<Rightarrow> track_payload option"
  decode_list_library :: "string \<Rightarrow> list_library_payload option"
  decode_delete_history :: "string \<Rightarrow> delete_history_payload option"
  decode_playlist :: "string \<Rightarrow> playlist_payload option"
  decode_playlist_page :: "string \<Rightarrow> playlist_page_payload option"
  decode_playlist_details :: "string \<Rightarrow> playlist_details_payload option"
  decode_playlist_track :: "string \<Rightarrow> playlist_track_payload option"
  decode_playlist_reorder :: "string \<Rightarrow> playlist_reorder_payload option"
  decode_list_sessions :: "string \<Rightarrow> list_sessions_payload option"
  decode_revoke_session :: "string \<Rightarrow> revoke_session_payload option"
  decode_play_queue :: "string \<Rightarrow> play_queue_payload option"
  encode_search :: "search_payload \<Rightarrow> string option"
  encode_browse :: "browse_payload \<Rightarrow> string option"
  encode_next_catalog :: "next_catalog_payload \<Rightarrow> string option"
  encode_feed :: "feed_payload \<Rightarrow> string option"
  encode_next_feed :: "next_feed_payload \<Rightarrow> string option"

definition CATALOG_PAYLOAD_VERSION :: u32 where
  "CATALOG_PAYLOAD_VERSION = 1"

text \<open>The page a payload asks for: its size, and never a continuation token.\<close>

definition first_page :: "initial_page \<Rightarrow> page_request" where
  "first_page page = \<lparr>page_size = ip_page_size page, page_token = None\<rparr>"

definition then_some :: "bool \<Rightarrow> 'a \<Rightarrow> 'a option" where
  "then_some condition x = (if condition then Some x else None)"

subsection \<open>The parsers\<close>

definition parse_search_catalog_payload :: "command_codec \<Rightarrow> string \<Rightarrow> engine_command_type option" where
  "parse_search_catalog_payload cd text =
     (case decode_search cd text of None \<Rightarrow> None | Some p \<Rightarrow>
        then_some (sp_version p = CATALOG_PAYLOAD_VERSION \<and> \<not> blank (sp_query p))
          (SearchCatalog (sp_query p) (first_page (sp_page p))))"

definition parse_browse_catalog_payload :: "command_codec \<Rightarrow> string \<Rightarrow> engine_command_type option" where
  "parse_browse_catalog_payload cd text =
     (case decode_browse cd text of None \<Rightarrow> None | Some p \<Rightarrow>
        then_some (bp_version p = CATALOG_PAYLOAD_VERSION)
          (BrowseCatalog (bp_parent_id p) (bp_genres p) (first_page (bp_page p))))"

definition parse_load_next_catalog_page_payload :: "command_codec \<Rightarrow> string \<Rightarrow> engine_command_type option" where
  "parse_load_next_catalog_page_payload cd text =
     (case decode_next_catalog cd text of None \<Rightarrow> None | Some p \<Rightarrow>
        then_some (np_version p = CATALOG_PAYLOAD_VERSION \<and> \<not> blank (np_operation_id p))
          (LoadNextCatalogPage (np_operation_id p)))"

definition parse_discovery_feed_payload ::
  "discovery_feed \<Rightarrow> command_codec \<Rightarrow> string \<Rightarrow> engine_command_type option" where
  "parse_discovery_feed_payload feed cd text =
     (case decode_feed cd text of None \<Rightarrow> None | Some p \<Rightarrow>
        then_some (fp_version p = CATALOG_PAYLOAD_VERSION)
          (case feed of
             Discovery \<Rightarrow> LoadDiscoveryFeed (fp_exclude_track_ids p) (first_page (fp_page p))
           | ForYou \<Rightarrow> LoadForYouFeed (fp_exclude_track_ids p) (first_page (fp_page p))
           | Recommendations \<Rightarrow>
               LoadRecommendations (fp_exclude_track_ids p) (first_page (fp_page p))))"

definition parse_load_next_discovery_page_payload :: "command_codec \<Rightarrow> string \<Rightarrow> engine_command_type option" where
  "parse_load_next_discovery_page_payload cd text =
     (case decode_next_feed cd text of None \<Rightarrow> None | Some p \<Rightarrow>
        then_some (nf_version p = CATALOG_PAYLOAD_VERSION)
          (LoadNextDiscoveryPage))"

definition parse_update_history_settings_payload :: "command_codec \<Rightarrow> string \<Rightarrow> engine_command_type option" where
  "parse_update_history_settings_payload cd text =
     (case decode_history_settings cd text of None \<Rightarrow> None | Some p \<Rightarrow>
        then_some (hsp_version p = CATALOG_PAYLOAD_VERSION)
          (UpdateHistorySettings (hsp_enabled p)))"

definition parse_list_history_payload :: "command_codec \<Rightarrow> string \<Rightarrow> engine_command_type option" where
  "parse_list_history_payload cd text =
     (case decode_list_history cd text of None \<Rightarrow> None | Some p \<Rightarrow>
        then_some (lh_version p = CATALOG_PAYLOAD_VERSION)
          (ListHistory (first_page (lh_page p))))"

definition parse_delete_history_entry_payload :: "command_codec \<Rightarrow> string \<Rightarrow> engine_command_type option" where
  "parse_delete_history_entry_payload cd text =
     (case decode_delete_history cd text of None \<Rightarrow> None | Some p \<Rightarrow>
        then_some (dh_version p = CATALOG_PAYLOAD_VERSION \<and> \<not> blank (dh_history_id p))
          (DeleteHistoryEntry (dh_history_id p)))"

definition parse_track_relationship_payload ::
  "string \<Rightarrow> command_codec \<Rightarrow> string \<Rightarrow> engine_command_type option" where
  "parse_track_relationship_payload wire cd text =
     (case decode_track cd text of None \<Rightarrow> None | Some p \<Rightarrow>
        if tp_version p \<noteq> CATALOG_PAYLOAD_VERSION \<or> blank (tp_track_id p) then None
        else if wire = ''save_track'' then Some (SaveTrack (tp_track_id p))
        else if wire = ''remove_saved_track'' then Some (RemoveSavedTrack (tp_track_id p))
        else if wire = ''like_track'' then Some (LikeTrack (tp_track_id p))
        else if wire = ''unlike_track'' then Some (UnlikeTrack (tp_track_id p))
        else None)"

definition parse_list_library_payload ::
  "string \<Rightarrow> command_codec \<Rightarrow> string \<Rightarrow> engine_command_type option" where
  "parse_list_library_payload wire cd text =
     (case decode_list_library cd text of None \<Rightarrow> None | Some p \<Rightarrow>
        if ll_version p \<noteq> CATALOG_PAYLOAD_VERSION then None
        else if wire = ''list_saved_tracks'' then Some (ListSavedTracks (first_page (ll_page p)))
        else if wire = ''list_liked_tracks'' then Some (ListLikedTracks (first_page (ll_page p)))
        else None)"

definition parse_create_playlist_payload :: "command_codec \<Rightarrow> string \<Rightarrow> engine_command_type option" where
  "parse_create_playlist_payload cd text =
     (case decode_playlist_details cd text of None \<Rightarrow> None | Some p \<Rightarrow>
        then_some (pd_version p = CATALOG_PAYLOAD_VERSION \<and> pd_playlist_id p = None \<and>
           pd_expected_revision p = None \<and> \<not> blank (pd_name p))
          (CreatePlaylist \<lparr>cp_name = pd_name p, cp_description = pd_description p\<rparr>))"

definition parse_update_playlist_payload :: "command_codec \<Rightarrow> string \<Rightarrow> engine_command_type option" where
  "parse_update_playlist_payload cd text =
     (case decode_playlist_details cd text of None \<Rightarrow> None | Some p \<Rightarrow>
        case pd_playlist_id p of None \<Rightarrow> None | Some playlist_id \<Rightarrow>
        case pd_expected_revision p of None \<Rightarrow> None | Some revision \<Rightarrow>
        then_some (pd_version p = CATALOG_PAYLOAD_VERSION \<and> \<not> blank playlist_id \<and> \<not> blank (pd_name p))
          (UpdatePlaylist \<lparr>up_id = playlist_id, up_name = pd_name p, up_description = pd_description p,
             up_expected_revision = revision\<rparr>))"

definition parse_delete_playlist_payload :: "command_codec \<Rightarrow> string \<Rightarrow> engine_command_type option" where
  "parse_delete_playlist_payload cd text =
     (case decode_playlist cd text of None \<Rightarrow> None | Some p \<Rightarrow>
        then_some (pp_version p = CATALOG_PAYLOAD_VERSION \<and> \<not> blank (pp_playlist_id p))
          (DeletePlaylist (pp_playlist_id p)))"

definition parse_list_playlists_payload :: "command_codec \<Rightarrow> string \<Rightarrow> engine_command_type option" where
  "parse_list_playlists_payload cd text =
     (case decode_playlist_page cd text of None \<Rightarrow> None | Some p \<Rightarrow>
        then_some (pg_version p = CATALOG_PAYLOAD_VERSION \<and> pg_playlist_id p = None)
          (ListPlaylists (first_page (pg_page p))))"

definition parse_list_playlist_tracks_payload :: "command_codec \<Rightarrow> string \<Rightarrow> engine_command_type option" where
  "parse_list_playlist_tracks_payload cd text =
     (case decode_playlist_page cd text of None \<Rightarrow> None | Some p \<Rightarrow>
        case pg_playlist_id p of None \<Rightarrow> None | Some playlist_id \<Rightarrow>
        then_some (pg_version p = CATALOG_PAYLOAD_VERSION \<and> \<not> blank playlist_id)
          (ListPlaylistTracks playlist_id (first_page (pg_page p))))"

definition parse_playlist_track_payload ::
  "string \<Rightarrow> command_codec \<Rightarrow> string \<Rightarrow> engine_command_type option" where
  "parse_playlist_track_payload wire cd text =
     (case decode_playlist_track cd text of None \<Rightarrow> None | Some p \<Rightarrow>
        if ptp_version p \<noteq> CATALOG_PAYLOAD_VERSION \<or> blank (ptp_playlist_id p) \<or> blank (ptp_track_id p)
        then None
        else if wire = ''add_playlist_track''
        then Some (AddPlaylistTrack (ptp_playlist_id p) (ptp_track_id p))
        else if wire = ''remove_playlist_track''
        then Some (RemovePlaylistTrack (ptp_playlist_id p) (ptp_track_id p))
        else None)"

definition parse_reorder_playlist_tracks_payload :: "command_codec \<Rightarrow> string \<Rightarrow> engine_command_type option" where
  "parse_reorder_playlist_tracks_payload cd text =
     (case decode_playlist_reorder cd text of None \<Rightarrow> None | Some p \<Rightarrow>
        then_some (por_version p = CATALOG_PAYLOAD_VERSION \<and> \<not> blank (por_playlist_id p) \<and>
           por_ordered_membership_ids p \<noteq> [] \<and> list_all (\<lambda>id. \<not> blank id) (por_ordered_membership_ids p))
          (ReorderPlaylistTracks (por_playlist_id p) (por_ordered_membership_ids p)
             (por_expected_revision p)))"

definition parse_list_device_sessions_payload :: "command_codec \<Rightarrow> string \<Rightarrow> engine_command_type option" where
  "parse_list_device_sessions_payload cd text =
     (case decode_list_sessions cd text of None \<Rightarrow> None | Some p \<Rightarrow>
        then_some (ls_version p = CATALOG_PAYLOAD_VERSION)
          (ListDeviceSessions (first_page (ls_page p))))"

definition parse_revoke_device_session_payload :: "command_codec \<Rightarrow> string \<Rightarrow> engine_command_type option" where
  "parse_revoke_device_session_payload cd text =
     (case decode_revoke_session cd text of None \<Rightarrow> None | Some p \<Rightarrow>
        then_some (rs_version p = CATALOG_PAYLOAD_VERSION \<and> \<not> blank (rs_session_id p))
          (RevokeDeviceSession (rs_session_id p)))"

definition parse_play_queue_payload :: "command_codec \<Rightarrow> string \<Rightarrow> engine_command_type option" where
  "parse_play_queue_payload cd text =
     (case decode_play_queue cd text of None \<Rightarrow> None | Some p \<Rightarrow>
        then_some (pq_version p = CATALOG_PAYLOAD_VERSION \<and> pq_media_ids p \<noteq> [] \<and>
           list_all (\<lambda>id. \<not> blank id) (pq_media_ids p) \<and> pq_start_index p < length (pq_media_ids p))
          (PlayQueue (pq_media_ids p) (pq_start_index p)))"

subsection \<open>From a wire name and a payload to a command\<close>

text \<open>\<open>payload.as_deref().and_then(f)\<close>, and the arms that take no payload.\<close>

definition with_payload :: "string option \<Rightarrow> (string \<Rightarrow> 'a option) \<Rightarrow> 'a option" where
  "with_payload payload f = (case payload of None \<Rightarrow> None | Some text \<Rightarrow> f text)"

definition without_payload :: "string option \<Rightarrow> string \<Rightarrow> engine_command_type option" where
  "without_payload payload wire = then_some (payload = None) (command_from_wire wire)"

definition parsed_command :: "command_codec \<Rightarrow> string \<Rightarrow> string option \<Rightarrow> engine_command_type option" where
  "parsed_command cd wire payload =
     (if wire = ''search'' then with_payload payload (parse_search_catalog_payload cd)
      else if wire = ''browse'' then with_payload payload (parse_browse_catalog_payload cd)
      else if wire = ''load_next_catalog_page''
      then with_payload payload (parse_load_next_catalog_page_payload cd)
      else if wire = ''load_discovery_feed''
      then with_payload payload (parse_discovery_feed_payload Discovery cd)
      else if wire = ''load_for_you_feed''
      then with_payload payload (parse_discovery_feed_payload ForYou cd)
      else if wire = ''load_recommendations''
      then with_payload payload (parse_discovery_feed_payload Recommendations cd)
      else if wire = ''load_next_discovery_page''
      then with_payload payload (parse_load_next_discovery_page_payload cd)
      else if wire = ''update_history_settings''
      then with_payload payload (parse_update_history_settings_payload cd)
      else if wire = ''list_history'' then with_payload payload (parse_list_history_payload cd)
      else if wire = ''delete_history_entry''
      then with_payload payload (parse_delete_history_entry_payload cd)
      else if wire = ''save_track'' \<or> wire = ''remove_saved_track'' \<or> wire = ''like_track'' \<or>
              wire = ''unlike_track''
      then with_payload payload (parse_track_relationship_payload wire cd)
      else if wire = ''list_saved_tracks'' \<or> wire = ''list_liked_tracks''
      then with_payload payload (parse_list_library_payload wire cd)
      else if wire = ''load_next_saved_tracks_page'' \<or> wire = ''load_next_liked_tracks_page''
      then without_payload payload wire
      else if wire = ''create_playlist'' then with_payload payload (parse_create_playlist_payload cd)
      else if wire = ''update_playlist'' then with_payload payload (parse_update_playlist_payload cd)
      else if wire = ''delete_playlist'' then with_payload payload (parse_delete_playlist_payload cd)
      else if wire = ''list_playlists'' then with_payload payload (parse_list_playlists_payload cd)
      else if wire = ''load_next_playlists_page'' \<or> wire = ''load_next_playlist_tracks_page''
      then without_payload payload wire
      else if wire = ''add_playlist_track'' \<or> wire = ''remove_playlist_track''
      then with_payload payload (parse_playlist_track_payload wire cd)
      else if wire = ''list_playlist_tracks''
      then with_payload payload (parse_list_playlist_tracks_payload cd)
      else if wire = ''reorder_playlist_tracks''
      then with_payload payload (parse_reorder_playlist_tracks_payload cd)
      else if wire = ''get_account'' \<or> wire = ''delete_account'' \<or>
              wire = ''load_next_device_sessions_page''
      then without_payload payload wire
      else if wire = ''list_device_sessions''
      then with_payload payload (parse_list_device_sessions_payload cd)
      else if wire = ''revoke_device_session''
      then with_payload payload (parse_revoke_device_session_payload cd)
      else if wire = ''play_queue'' then with_payload payload (parse_play_queue_payload cd)
      else Some (command_from_wire wire))"

definition invalid_command :: "string \<Rightarrow> engine_command_type" where
  "invalid_command wire = UnknownCommand (''invalid_'' @ wire @ ''_payload'')"

definition engine_command_from_wire :: "command_codec \<Rightarrow> string \<Rightarrow> string option \<Rightarrow> engine_command" where
  "engine_command_from_wire cd wire payload =
     engine_command_new
       (case parsed_command cd wire payload of None \<Rightarrow> invalid_command wire | Some ty \<Rightarrow> ty) payload"

subsection \<open>Commands produced together with their payload\<close>

definition initial_page_of :: "page_request \<Rightarrow> initial_page" where
  "initial_page_of page = \<lparr>ip_page_size = page_size page\<rparr>"

definition without_token :: "page_request \<Rightarrow> page_request" where
  "without_token page = \<lparr>page_size = page_size page, page_token = None\<rparr>"

definition search_payload_of :: "string \<Rightarrow> page_request \<Rightarrow> search_payload" where
  "search_payload_of query page = \<lparr>sp_version = CATALOG_PAYLOAD_VERSION, sp_query = query,
     sp_page = initial_page_of page\<rparr>"

definition browse_payload_of :: "string option \<Rightarrow> string list \<Rightarrow> page_request \<Rightarrow> browse_payload" where
  "browse_payload_of parent_id genres page = \<lparr>bp_version = CATALOG_PAYLOAD_VERSION,
     bp_parent_id = parent_id, bp_genres = genres, bp_page = initial_page_of page\<rparr>"

definition next_catalog_payload_of :: "string \<Rightarrow> next_catalog_payload" where
  "next_catalog_payload_of operation_id =
     \<lparr>np_version = CATALOG_PAYLOAD_VERSION, np_operation_id = operation_id\<rparr>"

definition feed_payload_of :: "string list \<Rightarrow> page_request \<Rightarrow> feed_payload" where
  "feed_payload_of excluded page = \<lparr>fp_version = CATALOG_PAYLOAD_VERSION,
     fp_exclude_track_ids = excluded, fp_page = initial_page_of page\<rparr>"

definition next_feed_payload_of :: next_feed_payload where
  "next_feed_payload_of = \<lparr>nf_version = CATALOG_PAYLOAD_VERSION\<rparr>"

definition command_search_catalog :: "command_codec \<Rightarrow> string \<Rightarrow> page_request \<Rightarrow> engine_command" where
  "command_search_catalog cd query page =
     engine_command_new (SearchCatalog query (without_token page))
       (encode_search cd (search_payload_of query page))"

definition command_browse_catalog ::
  "command_codec \<Rightarrow> string option \<Rightarrow> string list \<Rightarrow> page_request \<Rightarrow> engine_command" where
  "command_browse_catalog cd parent_id genres page =
     engine_command_new (BrowseCatalog parent_id genres (without_token page))
       (encode_browse cd (browse_payload_of parent_id genres page))"

definition command_search :: "command_codec \<Rightarrow> string \<Rightarrow> engine_command" where
  "command_search cd query = command_search_catalog cd query page_request_default"

definition command_browse :: "command_codec \<Rightarrow> string \<Rightarrow> engine_command" where
  "command_browse cd parent_id = command_browse_catalog cd (Some parent_id) [] page_request_default"

definition command_load_next_catalog_page :: "command_codec \<Rightarrow> string \<Rightarrow> engine_command" where
  "command_load_next_catalog_page cd operation_id =
     engine_command_new (LoadNextCatalogPage operation_id)
       (encode_next_catalog cd (next_catalog_payload_of operation_id))"

definition command_load_discovery_feed ::
  "command_codec \<Rightarrow> string list \<Rightarrow> page_request \<Rightarrow> engine_command" where
  "command_load_discovery_feed cd excluded_track_ids page =
     engine_command_new (LoadDiscoveryFeed excluded_track_ids (without_token page))
       (encode_feed cd (feed_payload_of excluded_track_ids page))"

definition command_load_next_discovery_page :: "command_codec \<Rightarrow> engine_command" where
  "command_load_next_discovery_page cd =
     engine_command_new LoadNextDiscoveryPage
       (encode_next_feed cd next_feed_payload_of)"

subsection \<open>Commands produced without a payload\<close>

definition page_of_size :: "u32 \<Rightarrow> page_request" where
  "page_of_size n = \<lparr>page_size = n, page_token = None\<rparr>"

definition command_play :: engine_command where
  "command_play = engine_command_new Play None"

definition command_pause :: engine_command where
  "command_pause = engine_command_new Pause None"

definition command_skip_next :: engine_command where
  "command_skip_next = engine_command_new SkipNext None"

definition command_skip_previous :: engine_command where
  "command_skip_previous = engine_command_new SkipPrevious None"

definition command_start_session :: "string \<Rightarrow> engine_command" where
  "command_start_session user_id = engine_command_new (StartSession user_id) None"

definition command_end_session :: engine_command where
  "command_end_session = engine_command_new EndSession None"

definition command_refresh_backend_status :: engine_command where
  "command_refresh_backend_status = engine_command_new RefreshBackendStatus None"

definition command_load_history_settings :: engine_command where
  "command_load_history_settings = engine_command_new LoadHistorySettings None"

definition command_update_history_settings :: "bool \<Rightarrow> engine_command" where
  "command_update_history_settings enabled = engine_command_new (UpdateHistorySettings enabled) None"

definition command_list_history :: "u32 \<Rightarrow> engine_command" where
  "command_list_history n = engine_command_new (ListHistory (page_of_size n)) None"

definition command_load_next_history_page :: engine_command where
  "command_load_next_history_page = engine_command_new LoadNextHistoryPage None"

definition command_delete_history_entry :: "string \<Rightarrow> engine_command" where
  "command_delete_history_entry history_id = engine_command_new (DeleteHistoryEntry history_id) None"

definition command_clear_history :: engine_command where
  "command_clear_history = engine_command_new ClearHistory None"

definition command_save_track :: "string \<Rightarrow> engine_command" where
  "command_save_track track_id = engine_command_new (SaveTrack track_id) None"

definition command_remove_saved_track :: "string \<Rightarrow> engine_command" where
  "command_remove_saved_track track_id = engine_command_new (RemoveSavedTrack track_id) None"

definition command_list_saved_tracks :: "u32 \<Rightarrow> engine_command" where
  "command_list_saved_tracks n = engine_command_new (ListSavedTracks (page_of_size n)) None"

definition command_load_next_saved_tracks_page :: engine_command where
  "command_load_next_saved_tracks_page = engine_command_new LoadNextSavedTracksPage None"

definition command_like_track :: "string \<Rightarrow> engine_command" where
  "command_like_track track_id = engine_command_new (LikeTrack track_id) None"

definition command_unlike_track :: "string \<Rightarrow> engine_command" where
  "command_unlike_track track_id = engine_command_new (UnlikeTrack track_id) None"

definition command_list_liked_tracks :: "u32 \<Rightarrow> engine_command" where
  "command_list_liked_tracks n = engine_command_new (ListLikedTracks (page_of_size n)) None"

definition command_load_next_liked_tracks_page :: engine_command where
  "command_load_next_liked_tracks_page = engine_command_new LoadNextLikedTracksPage None"

definition command_set_speed :: "f32 \<Rightarrow> engine_command" where
  "command_set_speed speed = engine_command_new (SetSpeed speed) None"

definition command_seek :: "u64 \<Rightarrow> engine_command" where
  "command_seek position = engine_command_new (Seek position) None"

definition command_update_config :: "engine_config \<Rightarrow> engine_command" where
  "command_update_config config = engine_command_new (UpdateConfig config) None"

definition command_hydrate_theme_preference :: "theme_preference \<Rightarrow> engine_command" where
  "command_hydrate_theme_preference theme = engine_command_new (HydrateThemePreference theme) None"

definition command_set_theme_preference :: "theme_preference \<Rightarrow> engine_command" where
  "command_set_theme_preference theme = engine_command_new (SetThemePreference theme) None"

definition command_apply_remote_theme_preference ::
  "theme_preference \<Rightarrow> string \<Rightarrow> u64 \<Rightarrow> engine_command" where
  "command_apply_remote_theme_preference theme user_id baseline =
     engine_command_new (ApplyRemoteThemePreference theme user_id baseline) None"

definition command_upsert_profile :: "string option \<Rightarrow> engine_command" where
  "command_upsert_profile display_name = engine_command_new (UpsertProfile display_name) None"

definition command_get_profile :: engine_command where
  "command_get_profile = engine_command_new GetProfile None"

definition command_update_profile :: "profile_update \<Rightarrow> engine_command" where
  "command_update_profile update = engine_command_new (UpdateProfile update) None"

definition command_delete_profile :: engine_command where
  "command_delete_profile = engine_command_new DeleteProfile None"

definition command_load_profile_preferences :: engine_command where
  "command_load_profile_preferences = engine_command_new LoadProfilePreferences None"

definition command_update_profile_preferences :: "json_map \<Rightarrow> engine_command" where
  "command_update_profile_preferences values = engine_command_new (UpdateProfilePreferences values) None"

definition command_voice_play :: "string \<Rightarrow> engine_command" where
  "command_voice_play query = engine_command_new (VoicePlay query) None"

definition command_start_voice_interaction :: engine_command where
  "command_start_voice_interaction = engine_command_new StartVoiceInteraction None"

definition command_stop_voice_interaction :: engine_command where
  "command_stop_voice_interaction = engine_command_new StopVoiceInteraction None"

definition command_process_voice_audio :: "16 word list \<Rightarrow> engine_command" where
  "command_process_voice_audio chunk = engine_command_new (ProcessVoiceAudio chunk) None"

definition command_play_media_by_id :: "string \<Rightarrow> engine_command" where
  "command_play_media_by_id media_id = engine_command_new (PlayMediaById media_id) None"

definition command_play_queue :: "string list \<Rightarrow> usize \<Rightarrow> engine_command" where
  "command_play_queue media_ids start_index = engine_command_new (PlayQueue media_ids start_index) None"

definition command_set_sleep_timer :: "u64 option \<Rightarrow> engine_command" where
  "command_set_sleep_timer duration = engine_command_new (SetSleepTimer duration) None"

subsection \<open>What the wire can let through\<close>

text \<open>The commands the parsers promise: ids and names that show something, a start index inside the
  snapshot, a page that begins at its beginning.\<close>

definition fresh_page :: "page_request \<Rightarrow> bool" where
  "fresh_page page \<longleftrightarrow> page_token page = None"

definition visible_text :: "string \<Rightarrow> bool" where
  "visible_text text \<longleftrightarrow> \<not> blank text"

definition well_formed :: "engine_command_type \<Rightarrow> bool" where
  "well_formed ty =
     (case ty of
        SearchCatalog query page \<Rightarrow> visible_text query \<and> fresh_page page
      | BrowseCatalog _ _ page \<Rightarrow> fresh_page page
      | LoadNextCatalogPage operation_id \<Rightarrow> visible_text operation_id
      | LoadDiscoveryFeed _ page \<Rightarrow> fresh_page page
      | LoadForYouFeed _ page \<Rightarrow> fresh_page page
      | LoadRecommendations _ page \<Rightarrow> fresh_page page
      | ListHistory page \<Rightarrow> fresh_page page
      | DeleteHistoryEntry history_id \<Rightarrow> visible_text history_id
      | SaveTrack track_id \<Rightarrow> visible_text track_id
      | RemoveSavedTrack track_id \<Rightarrow> visible_text track_id
      | LikeTrack track_id \<Rightarrow> visible_text track_id
      | UnlikeTrack track_id \<Rightarrow> visible_text track_id
      | ListSavedTracks page \<Rightarrow> fresh_page page
      | ListLikedTracks page \<Rightarrow> fresh_page page
      | CreatePlaylist input \<Rightarrow> visible_text (cp_name input)
      | UpdatePlaylist input \<Rightarrow> visible_text (up_id input) \<and> visible_text (up_name input)
      | DeletePlaylist playlist_id \<Rightarrow> visible_text playlist_id
      | ListPlaylists page \<Rightarrow> fresh_page page
      | AddPlaylistTrack playlist_id track_id \<Rightarrow> visible_text playlist_id \<and> visible_text track_id
      | RemovePlaylistTrack playlist_id track_id \<Rightarrow> visible_text playlist_id \<and> visible_text track_id
      | ListPlaylistTracks playlist_id page \<Rightarrow> visible_text playlist_id \<and> fresh_page page
      | ReorderPlaylistTracks playlist_id ids _ \<Rightarrow> visible_text playlist_id \<and> ids \<noteq> [] \<and> list_all visible_text ids
      | ListDeviceSessions page \<Rightarrow> fresh_page page
      | RevokeDeviceSession session_id \<Rightarrow> visible_text session_id
      | PlayQueue ids start_index \<Rightarrow> start_index < length ids \<and> list_all visible_text ids
      | _ \<Rightarrow> True)"

definition read_as :: "string \<Rightarrow> engine_command_type option \<Rightarrow> bool" where
  "read_as wire parsed \<longleftrightarrow>
     (case parsed of None \<Rightarrow> True | Some ty \<Rightarrow> well_formed ty \<and> command_as_wire ty = wire)"

text \<open>A payload the codec reads back as the struct it was written from.\<close>

definition carries :: "('p \<Rightarrow> string option) \<Rightarrow> (string \<Rightarrow> 'p option) \<Rightarrow> 'p \<Rightarrow> bool" where
  "carries encode decode p \<longleftrightarrow>
     (case encode p of None \<Rightarrow> False | Some text \<Rightarrow> decode text = Some p)"

named_theorems payload_defs

lemmas [payload_defs] =
  parse_search_catalog_payload_def parse_browse_catalog_payload_def
  parse_load_next_catalog_page_payload_def parse_discovery_feed_payload_def
  parse_load_next_discovery_page_payload_def parse_update_history_settings_payload_def
  parse_list_history_payload_def parse_delete_history_entry_payload_def
  parse_track_relationship_payload_def parse_list_library_payload_def
  parse_create_playlist_payload_def parse_update_playlist_payload_def
  parse_delete_playlist_payload_def parse_list_playlists_payload_def
  parse_list_playlist_tracks_payload_def parse_playlist_track_payload_def
  parse_reorder_playlist_tracks_payload_def parse_list_device_sessions_payload_def
  parse_revoke_device_session_payload_def parse_play_queue_payload_def

lemma read_as_simps [simp]:
  "read_as wire None"
  "read_as wire (Some ty) \<longleftrightarrow> well_formed ty \<and> command_as_wire ty = wire"
  by (simp_all add: read_as_def)

lemma read_as_then_some [intro]:
  "(condition \<Longrightarrow> well_formed ty \<and> command_as_wire ty = wire) \<Longrightarrow>
   read_as wire (then_some condition ty)"
  by (simp add: then_some_def)

lemma read_as_with_payload [intro]:
  "(\<And>text. read_as wire (f text)) \<Longrightarrow> read_as wire (with_payload payload f)"
  by (simp add: with_payload_def split: option.split)

lemma visible_text_blank [simp]: "visible_text text \<longleftrightarrow> \<not> blank text"
  by (simp add: visible_text_def)

lemma fresh_first_page [simp]: "fresh_page (first_page page)"
  by (simp add: fresh_page_def first_page_def)

lemma list_all_visible [simp]: "list_all visible_text ids \<longleftrightarrow> list_all (\<lambda>id. \<not> blank id) ids"
  by (simp add: visible_text_def[abs_def])

lemma parsers_read [simp]:
  "read_as ''search'' (parse_search_catalog_payload cd text)"
  "read_as ''browse'' (parse_browse_catalog_payload cd text)"
  "read_as ''load_next_catalog_page'' (parse_load_next_catalog_page_payload cd text)"
  "read_as ''load_discovery_feed'' (parse_discovery_feed_payload Discovery cd text)"
  "read_as ''load_for_you_feed'' (parse_discovery_feed_payload ForYou cd text)"
  "read_as ''load_recommendations'' (parse_discovery_feed_payload Recommendations cd text)"
  "read_as ''load_next_discovery_page'' (parse_load_next_discovery_page_payload cd text)"
  "read_as ''update_history_settings'' (parse_update_history_settings_payload cd text)"
  "read_as ''list_history'' (parse_list_history_payload cd text)"
  "read_as ''delete_history_entry'' (parse_delete_history_entry_payload cd text)"
  "read_as ''create_playlist'' (parse_create_playlist_payload cd text)"
  "read_as ''update_playlist'' (parse_update_playlist_payload cd text)"
  "read_as ''delete_playlist'' (parse_delete_playlist_payload cd text)"
  "read_as ''list_playlists'' (parse_list_playlists_payload cd text)"
  "read_as ''list_playlist_tracks'' (parse_list_playlist_tracks_payload cd text)"
  "read_as ''reorder_playlist_tracks'' (parse_reorder_playlist_tracks_payload cd text)"
  "read_as ''list_device_sessions'' (parse_list_device_sessions_payload cd text)"
  "read_as ''revoke_device_session'' (parse_revoke_device_session_payload cd text)"
  "read_as ''play_queue'' (parse_play_queue_payload cd text)"
  by (auto simp: payload_defs well_formed_def split: option.split)

lemma shared_parsers_read [simp]:
  "read_as wire (parse_track_relationship_payload wire cd text)"
  "read_as wire (parse_list_library_payload wire cd text)"
  "read_as wire (parse_playlist_track_payload wire cd text)"
  by (auto simp: payload_defs well_formed_def split: option.split)

lemma without_payload_reads:
  "well_formed (command_from_wire wire) \<Longrightarrow> read_as wire (without_payload payload wire)"
  by (simp add: without_payload_def then_some_def command_as_wire_from_wire)

lemma paging_commands_well_formed [simp]:
  "well_formed (command_from_wire ''load_next_saved_tracks_page'')"
  "well_formed (command_from_wire ''load_next_liked_tracks_page'')"
  "well_formed (command_from_wire ''load_next_playlists_page'')"
  "well_formed (command_from_wire ''load_next_playlist_tracks_page'')"
  "well_formed (command_from_wire ''get_account'')"
  "well_formed (command_from_wire ''delete_account'')"
  "well_formed (command_from_wire ''load_next_device_sessions_page'')"
  by (simp_all add: command_from_wire_def well_formed_def)

lemma read_as_if:
  "(condition \<Longrightarrow> read_as wire a) \<Longrightarrow> (\<not> condition \<Longrightarrow> read_as wire b) \<Longrightarrow>
   read_as wire (if condition then a else b)"
  by simp

lemma well_formed_if:
  "(condition \<Longrightarrow> well_formed a) \<Longrightarrow> well_formed b \<Longrightarrow>
   well_formed (if condition then a else b)"
  by simp

lemma other_commands_well_formed:
  "wire \<noteq> ''search'' \<Longrightarrow> wire \<noteq> ''load_next_catalog_page'' \<Longrightarrow> wire \<noteq> ''delete_history_entry'' \<Longrightarrow>
   \<not> (wire = ''save_track'' \<or> wire = ''remove_saved_track'' \<or> wire = ''like_track'' \<or>
      wire = ''unlike_track'') \<Longrightarrow>
   wire \<noteq> ''create_playlist'' \<Longrightarrow> wire \<noteq> ''update_playlist'' \<Longrightarrow> wire \<noteq> ''delete_playlist'' \<Longrightarrow>
   \<not> (wire = ''add_playlist_track'' \<or> wire = ''remove_playlist_track'') \<Longrightarrow>
   wire \<noteq> ''list_playlist_tracks'' \<Longrightarrow> wire \<noteq> ''reorder_playlist_tracks'' \<Longrightarrow>
   wire \<noteq> ''revoke_device_session'' \<Longrightarrow> wire \<noteq> ''play_queue'' \<Longrightarrow>
   well_formed (command_from_wire wire)"
  unfolding command_from_wire_def de_Morgan_disj
  apply (elim conjE)
  apply (intro well_formed_if; (erule (1) notE)?)
  apply (simp_all add: well_formed_def fresh_page_def page_request_default_def)
  done

lemma parsed_command_reads: "read_as wire (parsed_command cd wire payload)"
  unfolding parsed_command_def
  apply (intro read_as_if)
  apply ((erule ssubst, rule read_as_with_payload, rule parsers_read)
    | (rule read_as_with_payload, rule shared_parsers_read)
    | (rule without_payload_reads, elim disjE; erule ssubst, rule paging_commands_well_formed))+
  apply (unfold read_as_simps command_as_wire_from_wire)
  apply (rule conjI [OF other_commands_well_formed refl]; assumption)
  done

text \<open>C10: every wire name and payload gives a command, whatever the decoder answers: a well-formed
  command of that very name (ids and names that show something, a start index inside the queue, a
  page that begins at the beginning), or the unknown command that says which payload was invalid;
  the payload itself is kept for the handlers.\<close>

theorem wire_commands_are_well_formed:
  "let command = engine_command_from_wire cd wire payload in
     well_formed (command_type command) \<and>
     command_as_wire (command_type command)
       \<in> {wire, ''invalid_'' @ wire @ ''_payload''} \<and>
     command_payload command = payload"
proof (cases "parsed_command cd wire payload")
  case None
  then show ?thesis
    by (simp add: engine_command_from_wire_def engine_command_new_def invalid_command_def well_formed_def)
next
  case (Some ty)
  then show ?thesis
    using parsed_command_reads [of wire cd payload]
    by (simp add: engine_command_from_wire_def engine_command_new_def)
qed

subsection \<open>A produced command is read back\<close>

definition reads_back :: "command_codec \<Rightarrow> engine_command \<Rightarrow> bool" where
  "reads_back cd command \<longleftrightarrow>
     engine_command_from_wire cd (command_as_wire (command_type command)) (command_payload command) = command"

lemma reads_backI:
  assumes "parsed_command cd (command_as_wire ty) payload = Some ty"
  shows "reads_back cd (engine_command_new ty payload)"
  using assms by (simp add: reads_back_def engine_command_from_wire_def engine_command_new_def)

lemma written_reads_back:
  assumes "carries encode decode p"
    and "\<And>written. decode written = Some p \<Longrightarrow>
           parsed_command cd (command_as_wire ty) (Some written) = Some ty"
  shows "reads_back cd (engine_command_new ty (encode p))"
  using assms by (auto simp: carries_def intro: reads_backI split: option.splits)

lemma first_page_initial [simp]: "first_page (initial_page_of page) = without_token page"
  by (simp add: first_page_def initial_page_of_def without_token_def)

text \<open>The commands the engine writes together with a payload are read back as they were, when
  the codec reads back the payloads it writes for them and the search text and the operation id show something.\<close>

lemma written_commands_read_back:
  assumes "carries (encode_search cd) (decode_search cd) (search_payload_of query page)"
    and "carries (encode_browse cd) (decode_browse cd) (browse_payload_of parent_id genres page)"
    and "carries (encode_next_catalog cd) (decode_next_catalog cd) (next_catalog_payload_of operation_id)"
    and "carries (encode_feed cd) (decode_feed cd) (feed_payload_of excluded page)"
    and "carries (encode_next_feed cd) (decode_next_feed cd) next_feed_payload_of"
    and "\<not> blank query" and "\<not> blank operation_id"
  shows "reads_back cd (command_search_catalog cd query page) \<and>
         reads_back cd (command_browse_catalog cd parent_id genres page) \<and>
         reads_back cd (command_load_next_catalog_page cd operation_id) \<and>
         reads_back cd (command_load_discovery_feed cd excluded page) \<and>
         reads_back cd (command_load_next_discovery_page cd)"
proof -
  note reading = parsed_command_def with_payload_def payload_defs then_some_def
    without_token_def first_page_def initial_page_of_def search_payload_of_def browse_payload_of_def
    next_catalog_payload_of_def feed_payload_of_def next_feed_payload_of_def
  have "reads_back cd (command_search_catalog cd query page)"
    unfolding command_search_catalog_def
    by (rule written_reads_back [OF assms(1)], simp add: reading assms(6))
  moreover have "reads_back cd (command_browse_catalog cd parent_id genres page)"
    unfolding command_browse_catalog_def
    by (rule written_reads_back [OF assms(2)], simp add: reading)
  moreover have "reads_back cd (command_load_next_catalog_page cd operation_id)"
    unfolding command_load_next_catalog_page_def
    by (rule written_reads_back [OF assms(3)], simp add: reading assms(7))
  moreover have "reads_back cd (command_load_discovery_feed cd excluded page)"
    unfolding command_load_discovery_feed_def
    by (rule written_reads_back [OF assms(4)], simp add: reading)
  moreover have "reads_back cd (command_load_next_discovery_page cd)"
    unfolding command_load_next_discovery_page_def
    by (rule written_reads_back [OF assms(5)], simp add: reading)
  ultimately show ?thesis
    by blast
qed

text \<open>A codec that writes the one text field of a payload (none for a browse of the root) and reads
  every page as one of twenty entries.\<close>

definition plain_page :: initial_page where
  "plain_page = \<lparr>ip_page_size = 20\<rparr>"

definition plain_codec :: command_codec where
  "plain_codec = \<lparr>
     decode_search = (\<lambda>written. Some \<lparr>sp_version = 1, sp_query = written, sp_page = plain_page\<rparr>),
     decode_browse = (\<lambda>written. Some \<lparr>bp_version = 1,
       bp_parent_id = (if written = [] then None else Some written), bp_genres = [],
       bp_page = plain_page\<rparr>),
     decode_next_catalog = (\<lambda>written. Some \<lparr>np_version = 1, np_operation_id = written\<rparr>),
     decode_feed = (\<lambda>written. Some \<lparr>fp_version = 1, fp_exclude_track_ids = [written],
       fp_page = plain_page\<rparr>),
     decode_next_feed = (\<lambda>written. Some \<lparr>nf_version = 1\<rparr>),
     decode_history_settings = (\<lambda>_. None), decode_list_history = (\<lambda>_. None),
     decode_track = (\<lambda>written. Some \<lparr>tp_version = 1, tp_track_id = written\<rparr>),
     decode_list_library = (\<lambda>_. None), decode_delete_history = (\<lambda>_. None),
     decode_playlist = (\<lambda>_. None), decode_playlist_page = (\<lambda>_. None),
     decode_playlist_details = (\<lambda>_. None), decode_playlist_track = (\<lambda>_. None),
     decode_playlist_reorder = (\<lambda>_. None), decode_list_sessions = (\<lambda>_. None),
     decode_revoke_session = (\<lambda>_. None), decode_play_queue = (\<lambda>_. None),
     encode_search = (\<lambda>p. Some (sp_query p)),
     encode_browse = (\<lambda>p. Some (case bp_parent_id p of None \<Rightarrow> [] | Some parent_id \<Rightarrow> parent_id)),
     encode_next_catalog = (\<lambda>p. Some (np_operation_id p)),
     encode_feed = (\<lambda>p. Some (concat (fp_exclude_track_ids p))),
     encode_next_feed = (\<lambda>_. Some [])\<rparr>"

lemma written_commands_read_back_witness:
  "reads_back plain_codec (command_search_catalog plain_codec ''jazz'' (page_of_size 20)) \<and>
   reads_back plain_codec (command_browse_catalog plain_codec (Some ''root'') [] (page_of_size 20)) \<and>
   reads_back plain_codec (command_load_next_catalog_page plain_codec ''op-1'') \<and>
   reads_back plain_codec (command_load_discovery_feed plain_codec [''t-1''] (page_of_size 20)) \<and>
   reads_back plain_codec (command_load_next_discovery_page plain_codec)"
  by (rule written_commands_read_back)
    (simp_all add: carries_def plain_codec_def plain_page_def search_payload_of_def
      browse_payload_of_def next_catalog_payload_of_def feed_payload_of_def next_feed_payload_of_def
      initial_page_of_def page_of_size_def CATALOG_PAYLOAD_VERSION_def blank_leading_visible)

text \<open>A command of the same name produced without its payload is not read back: the wire form of a
  listing or of a saved track carries what it asks for only in the payload.\<close>

lemma payloadless_commands_are_refused:
  "engine_command_from_wire cd (command_as_wire (command_type (command_save_track track_id)))
     (command_payload (command_save_track track_id)) =
   engine_command_new (invalid_command ''save_track'') None"
  "engine_command_from_wire cd (command_as_wire (command_type (command_play_queue ids i)))
     (command_payload (command_play_queue ids i)) =
   engine_command_new (invalid_command ''play_queue'') None"
  by (simp_all add: engine_command_from_wire_def engine_command_new_def command_save_track_def
      command_play_queue_def parsed_command_def with_payload_def)

end
