(* ===== verification/FfiBoundary.thy ===== *)
theory FfiBoundary
  imports Payloads Middlewares
begin

text \<open>
  The C boundary of the engine (\<open>ffi/src/constants.rs\<close>, \<open>ffi/src/mappings.rs\<close>,
  \<open>ffi/src/api/dispatch.rs\<close>, \<open>ffi/src/engine_handle.rs\<close>, parts of \<open>ffi/src/types.rs\<close>): numeric
  codes for commands, events, effects and states, the decoding of a command with its payload, and
  what a call leaves behind. An \<open>i32\<close> that only passes through is an \<open>int\<close>. A C string has
  become a string; JSON and float parsing are parameters.
\<close>

subsection \<open>Codes\<close>

abbreviation FFI_COMMAND_BOOTSTRAP :: int where "FFI_COMMAND_BOOTSTRAP \<equiv> 0"
abbreviation FFI_COMMAND_PLAY :: int where "FFI_COMMAND_PLAY \<equiv> 1"
abbreviation FFI_COMMAND_PAUSE :: int where "FFI_COMMAND_PAUSE \<equiv> 2"
abbreviation FFI_COMMAND_SKIP_PREVIOUS :: int where "FFI_COMMAND_SKIP_PREVIOUS \<equiv> 3"
abbreviation FFI_COMMAND_SKIP_NEXT :: int where "FFI_COMMAND_SKIP_NEXT \<equiv> 4"
abbreviation FFI_COMMAND_START_SESSION :: int where "FFI_COMMAND_START_SESSION \<equiv> 5"
abbreviation FFI_COMMAND_END_SESSION :: int where "FFI_COMMAND_END_SESSION \<equiv> 6"
abbreviation FFI_COMMAND_SEARCH :: int where "FFI_COMMAND_SEARCH \<equiv> 7"
abbreviation FFI_COMMAND_BROWSE :: int where "FFI_COMMAND_BROWSE \<equiv> 8"
abbreviation FFI_COMMAND_SET_SPEED :: int where "FFI_COMMAND_SET_SPEED \<equiv> 9"
abbreviation FFI_COMMAND_SEEK :: int where "FFI_COMMAND_SEEK \<equiv> 10"
abbreviation FFI_COMMAND_START_VOICE :: int where "FFI_COMMAND_START_VOICE \<equiv> 11"
abbreviation FFI_COMMAND_STOP_VOICE :: int where "FFI_COMMAND_STOP_VOICE \<equiv> 12"
abbreviation FFI_COMMAND_PROCESS_VOICE :: int where "FFI_COMMAND_PROCESS_VOICE \<equiv> 13"
abbreviation FFI_COMMAND_PLAY_MEDIA_BY_ID :: int where "FFI_COMMAND_PLAY_MEDIA_BY_ID \<equiv> 14"
abbreviation FFI_COMMAND_HYDRATE_THEME_PREFERENCE :: int where "FFI_COMMAND_HYDRATE_THEME_PREFERENCE \<equiv> 15"
abbreviation FFI_COMMAND_SET_THEME_PREFERENCE :: int where "FFI_COMMAND_SET_THEME_PREFERENCE \<equiv> 16"
abbreviation FFI_COMMAND_APPLY_REMOTE_THEME_PREFERENCE :: int where "FFI_COMMAND_APPLY_REMOTE_THEME_PREFERENCE \<equiv> 17"
abbreviation FFI_COMMAND_REFRESH_BACKEND_STATUS :: int where "FFI_COMMAND_REFRESH_BACKEND_STATUS \<equiv> 18"
abbreviation FFI_COMMAND_LOAD_NEXT_CATALOG_PAGE :: int where "FFI_COMMAND_LOAD_NEXT_CATALOG_PAGE \<equiv> 19"
abbreviation FFI_COMMAND_UPSERT_PROFILE :: int where "FFI_COMMAND_UPSERT_PROFILE \<equiv> 20"
abbreviation FFI_COMMAND_GET_PROFILE :: int where "FFI_COMMAND_GET_PROFILE \<equiv> 21"
abbreviation FFI_COMMAND_UPDATE_PROFILE :: int where "FFI_COMMAND_UPDATE_PROFILE \<equiv> 22"
abbreviation FFI_COMMAND_DELETE_PROFILE :: int where "FFI_COMMAND_DELETE_PROFILE \<equiv> 23"
abbreviation FFI_COMMAND_LOAD_PROFILE_PREFERENCES :: int where "FFI_COMMAND_LOAD_PROFILE_PREFERENCES \<equiv> 24"
abbreviation FFI_COMMAND_UPDATE_PROFILE_PREFERENCES :: int where "FFI_COMMAND_UPDATE_PROFILE_PREFERENCES \<equiv> 25"
abbreviation FFI_COMMAND_LOAD_HISTORY_SETTINGS :: int where "FFI_COMMAND_LOAD_HISTORY_SETTINGS \<equiv> 26"
abbreviation FFI_COMMAND_UPDATE_HISTORY_SETTINGS :: int where "FFI_COMMAND_UPDATE_HISTORY_SETTINGS \<equiv> 27"
abbreviation FFI_COMMAND_LIST_HISTORY :: int where "FFI_COMMAND_LIST_HISTORY \<equiv> 28"
abbreviation FFI_COMMAND_LOAD_NEXT_HISTORY_PAGE :: int where "FFI_COMMAND_LOAD_NEXT_HISTORY_PAGE \<equiv> 29"
abbreviation FFI_COMMAND_DELETE_HISTORY_ENTRY :: int where "FFI_COMMAND_DELETE_HISTORY_ENTRY \<equiv> 30"
abbreviation FFI_COMMAND_CLEAR_HISTORY :: int where "FFI_COMMAND_CLEAR_HISTORY \<equiv> 31"
abbreviation FFI_COMMAND_SAVE_TRACK :: int where "FFI_COMMAND_SAVE_TRACK \<equiv> 32"
abbreviation FFI_COMMAND_REMOVE_SAVED_TRACK :: int where "FFI_COMMAND_REMOVE_SAVED_TRACK \<equiv> 33"
abbreviation FFI_COMMAND_LIST_SAVED_TRACKS :: int where "FFI_COMMAND_LIST_SAVED_TRACKS \<equiv> 34"
abbreviation FFI_COMMAND_LOAD_NEXT_SAVED_TRACKS_PAGE :: int where "FFI_COMMAND_LOAD_NEXT_SAVED_TRACKS_PAGE \<equiv> 35"
abbreviation FFI_COMMAND_LIKE_TRACK :: int where "FFI_COMMAND_LIKE_TRACK \<equiv> 36"
abbreviation FFI_COMMAND_UNLIKE_TRACK :: int where "FFI_COMMAND_UNLIKE_TRACK \<equiv> 37"
abbreviation FFI_COMMAND_LIST_LIKED_TRACKS :: int where "FFI_COMMAND_LIST_LIKED_TRACKS \<equiv> 38"
abbreviation FFI_COMMAND_LOAD_NEXT_LIKED_TRACKS_PAGE :: int where "FFI_COMMAND_LOAD_NEXT_LIKED_TRACKS_PAGE \<equiv> 39"
abbreviation FFI_COMMAND_CREATE_PLAYLIST :: int where "FFI_COMMAND_CREATE_PLAYLIST \<equiv> 40"
abbreviation FFI_COMMAND_UPDATE_PLAYLIST :: int where "FFI_COMMAND_UPDATE_PLAYLIST \<equiv> 41"
abbreviation FFI_COMMAND_DELETE_PLAYLIST :: int where "FFI_COMMAND_DELETE_PLAYLIST \<equiv> 42"
abbreviation FFI_COMMAND_LIST_PLAYLISTS :: int where "FFI_COMMAND_LIST_PLAYLISTS \<equiv> 43"
abbreviation FFI_COMMAND_LOAD_NEXT_PLAYLISTS_PAGE :: int where "FFI_COMMAND_LOAD_NEXT_PLAYLISTS_PAGE \<equiv> 44"
abbreviation FFI_COMMAND_ADD_PLAYLIST_TRACK :: int where "FFI_COMMAND_ADD_PLAYLIST_TRACK \<equiv> 45"
abbreviation FFI_COMMAND_REMOVE_PLAYLIST_TRACK :: int where "FFI_COMMAND_REMOVE_PLAYLIST_TRACK \<equiv> 46"
abbreviation FFI_COMMAND_LIST_PLAYLIST_TRACKS :: int where "FFI_COMMAND_LIST_PLAYLIST_TRACKS \<equiv> 47"
abbreviation FFI_COMMAND_LOAD_NEXT_PLAYLIST_TRACKS_PAGE :: int where "FFI_COMMAND_LOAD_NEXT_PLAYLIST_TRACKS_PAGE \<equiv> 48"
abbreviation FFI_COMMAND_REORDER_PLAYLIST_TRACKS :: int where "FFI_COMMAND_REORDER_PLAYLIST_TRACKS \<equiv> 49"
abbreviation FFI_COMMAND_GET_ACCOUNT :: int where "FFI_COMMAND_GET_ACCOUNT \<equiv> 50"
abbreviation FFI_COMMAND_DELETE_ACCOUNT :: int where "FFI_COMMAND_DELETE_ACCOUNT \<equiv> 51"
abbreviation FFI_COMMAND_LIST_DEVICE_SESSIONS :: int where "FFI_COMMAND_LIST_DEVICE_SESSIONS \<equiv> 52"
abbreviation FFI_COMMAND_LOAD_NEXT_DEVICE_SESSIONS_PAGE :: int where "FFI_COMMAND_LOAD_NEXT_DEVICE_SESSIONS_PAGE \<equiv> 53"
abbreviation FFI_COMMAND_REVOKE_DEVICE_SESSION :: int where "FFI_COMMAND_REVOKE_DEVICE_SESSION \<equiv> 54"
abbreviation FFI_COMMAND_LOAD_DISCOVERY_FEED :: int where "FFI_COMMAND_LOAD_DISCOVERY_FEED \<equiv> 55"
abbreviation FFI_COMMAND_LOAD_NEXT_DISCOVERY_PAGE :: int where "FFI_COMMAND_LOAD_NEXT_DISCOVERY_PAGE \<equiv> 56"
abbreviation FFI_COMMAND_LOAD_FOR_YOU_FEED :: int where "FFI_COMMAND_LOAD_FOR_YOU_FEED \<equiv> 57"
abbreviation FFI_COMMAND_LOAD_RECOMMENDATIONS :: int where "FFI_COMMAND_LOAD_RECOMMENDATIONS \<equiv> 58"
abbreviation FFI_COMMAND_PLAY_QUEUE :: int where "FFI_COMMAND_PLAY_QUEUE \<equiv> 59"
abbreviation FFI_COMMAND_UNKNOWN :: int where "FFI_COMMAND_UNKNOWN \<equiv> - 1"

fun effect_to_ffi :: "engine_effect \<Rightarrow> int" where
  "effect_to_ffi PlayEffect = 0"
| "effect_to_ffi PauseEffect = 1"
| "effect_to_ffi StopEffect = 2"
| "effect_to_ffi (SeekEffect _) = 3"
| "effect_to_ffi (UpdateMetadata _ _ _) = 6"
| "effect_to_ffi (SessionStarted _) = 7"
| "effect_to_ffi SessionEnded = 8"
| "effect_to_ffi (SetSpeedEffect _) = 9"
| "effect_to_ffi (NotifyUser _) = 10"
| "effect_to_ffi StartAudioCapture = 11"
| "effect_to_ffi StopAudioCapture = 12"
| "effect_to_ffi DuckAudio = 13"
| "effect_to_ffi UnduckAudio = 14"
| "effect_to_ffi (PreparePlaybackSource _ _ _) = 15"
| "effect_to_ffi (RecreatePlayerAndLoad _ _ _) = 16"

fun playback_to_ffi :: "playback_state \<Rightarrow> int" where
  "playback_to_ffi Idle = 0"
| "playback_to_ffi Playing = 1"
| "playback_to_ffi Paused = 2"
| "playback_to_ffi Buffering = 3"
| "playback_to_ffi PlaybackError = 4"
| "playback_to_ffi Ended = 5"
| "playback_to_ffi Recovering = 6"

fun restriction_to_ffi :: "restriction_state \<Rightarrow> int" where
  "restriction_to_ffi RestrictionUnknown = 0"
| "restriction_to_ffi Unrestricted = 1"
| "restriction_to_ffi Restricted = 2"

fun driving_state_to_ffi :: "driving_state \<Rightarrow> int" where
  "driving_state_to_ffi DrivingUnknown = 0"
| "driving_state_to_ffi Parked = 1"
| "driving_state_to_ffi Idling = 2"
| "driving_state_to_ffi Moving = 3"

fun theme_preference_to_ffi :: "theme_preference \<Rightarrow> int" where
  "theme_preference_to_ffi SystemDefault = 0"
| "theme_preference_to_ffi BambooGroveLight = 1"
| "theme_preference_to_ffi MoonlitBambooDark = 2"
| "theme_preference_to_ffi ForestTechLight = 3"
| "theme_preference_to_ffi ForestTechDark = 4"

fun preference_source_to_ffi :: "preference_source \<Rightarrow> int" where
  "preference_source_to_ffi Uninitialized = 0"
| "preference_source_to_ffi LocalCache = 1"
| "preference_source_to_ffi LocalUser = 2"
| "preference_source_to_ffi RemoteProfile = 3"

fun event_to_ffi :: "engine_event_type \<Rightarrow> int" where
  "event_to_ffi CommandApplied = 0"
| "event_to_ffi PlatformEventApplied = 0"
| "event_to_ffi ListenerRegistered = 1"
| "event_to_ffi AnalyticsReported = 2"

fun media_item_type_to_ffi :: "media_item_type \<Rightarrow> int" where
  "media_item_type_to_ffi TrackItem = 0"
| "media_item_type_to_ffi ArtistItem = 1"
| "media_item_type_to_ffi AlbumItem = 2"
| "media_item_type_to_ffi FolderItem = 3"
| "media_item_type_to_ffi PlaylistItem = 4"
| "media_item_type_to_ffi RadioStationItem = 5"

text \<open>\<open>i32::to_string\<close>.\<close>

definition show_int :: "int \<Rightarrow> string" where
  "show_int n = (if n < 0 then ''-'' @ show_nat (nat (- n)) else show_nat (nat n))"

definition platform_event_from_ffi :: "int \<Rightarrow> platform_event_type" where
  "platform_event_from_ffi code =
     (if code = 0 then AppForegrounded
      else if code = 1 then AppBackgrounded
      else if code = 2 then SuspendToRam
      else if code = 3 then ResumeFromRam
      else if code = 4 then UxRestrictionsChanged
      else if code = 6 then MediaLoaded
      else if code = 7 then MediaError
      else if code = 8 then VehicleDrivingStateChanged
      else if code = 9 then PlaybackCompleted
      else if code = 10 then PlaybackPositionCheckpoint
      else UnknownPlatformEvent (show_int code))"

text \<open>The code alone, with every payload empty.\<close>

definition command_from_ffi :: "int \<Rightarrow> engine_command_type" where
  "command_from_ffi code =
     (if code = FFI_COMMAND_BOOTSTRAP then Bootstrap
      else if code = FFI_COMMAND_PLAY then Play
      else if code = FFI_COMMAND_PAUSE then Pause
      else if code = FFI_COMMAND_SKIP_PREVIOUS then SkipPrevious
      else if code = FFI_COMMAND_SKIP_NEXT then SkipNext
      else if code = FFI_COMMAND_START_SESSION then StartSession ''unknown''
      else if code = FFI_COMMAND_END_SESSION then EndSession
      else if code = FFI_COMMAND_START_VOICE then StartVoiceInteraction
      else if code = FFI_COMMAND_STOP_VOICE then StopVoiceInteraction
      else if code = FFI_COMMAND_PLAY_MEDIA_BY_ID then PlayMediaById []
      else if code = FFI_COMMAND_PLAY_QUEUE then PlayQueue [] 0
      else if code = FFI_COMMAND_HYDRATE_THEME_PREFERENCE then HydrateThemePreference SystemDefault
      else if code = FFI_COMMAND_SET_THEME_PREFERENCE then SetThemePreference SystemDefault
      else if code = FFI_COMMAND_APPLY_REMOTE_THEME_PREFERENCE then ApplyRemoteThemePreference SystemDefault [] 0
      else if code = FFI_COMMAND_REFRESH_BACKEND_STATUS then RefreshBackendStatus
      else if code = FFI_COMMAND_UPSERT_PROFILE then UpsertProfile None
      else if code = FFI_COMMAND_GET_PROFILE then GetProfile
      else if code = FFI_COMMAND_UPDATE_PROFILE then UpdateProfile \<lparr>pu_display_name = None\<rparr>
      else if code = FFI_COMMAND_DELETE_PROFILE then DeleteProfile
      else if code = FFI_COMMAND_LOAD_PROFILE_PREFERENCES then LoadProfilePreferences
      else if code = FFI_COMMAND_UPDATE_PROFILE_PREFERENCES then UpdateProfilePreferences []
      else if code = FFI_COMMAND_LOAD_HISTORY_SETTINGS then LoadHistorySettings
      else if code = FFI_COMMAND_UPDATE_HISTORY_SETTINGS then UpdateHistorySettings False
      else if code = FFI_COMMAND_LIST_HISTORY then ListHistory page_request_default
      else if code = FFI_COMMAND_LOAD_NEXT_HISTORY_PAGE then LoadNextHistoryPage
      else if code = FFI_COMMAND_DELETE_HISTORY_ENTRY then DeleteHistoryEntry []
      else if code = FFI_COMMAND_CLEAR_HISTORY then ClearHistory
      else if code = FFI_COMMAND_SAVE_TRACK then SaveTrack []
      else if code = FFI_COMMAND_REMOVE_SAVED_TRACK then RemoveSavedTrack []
      else if code = FFI_COMMAND_LIST_SAVED_TRACKS then ListSavedTracks page_request_default
      else if code = FFI_COMMAND_LOAD_NEXT_SAVED_TRACKS_PAGE then LoadNextSavedTracksPage
      else if code = FFI_COMMAND_LIKE_TRACK then LikeTrack []
      else if code = FFI_COMMAND_UNLIKE_TRACK then UnlikeTrack []
      else if code = FFI_COMMAND_LIST_LIKED_TRACKS then ListLikedTracks page_request_default
      else if code = FFI_COMMAND_LOAD_NEXT_LIKED_TRACKS_PAGE then LoadNextLikedTracksPage
      else if code = FFI_COMMAND_GET_ACCOUNT then GetAccount
      else if code = FFI_COMMAND_DELETE_ACCOUNT then DeleteAccount
      else if code = FFI_COMMAND_LIST_DEVICE_SESSIONS then ListDeviceSessions page_request_default
      else if code = FFI_COMMAND_LOAD_NEXT_DEVICE_SESSIONS_PAGE then LoadNextDeviceSessionsPage
      else if code = FFI_COMMAND_REVOKE_DEVICE_SESSION then RevokeDeviceSession []
      else UnknownCommand (show_int code))"

subsection \<open>Payloads of the boundary\<close>

record theme_payload =
  thp_version :: u32
  thp_theme_id :: string
  thp_user_id :: "string option"
  thp_baseline_revision :: "u64 option"

record upsert_profile_payload =
  upp_version :: u32
  upp_display_name :: "string option"

record update_profile_payload =
  udp_version :: u32
  udp_update_display_name :: bool
  udp_display_name :: "string option"

record update_preferences_payload =
  uprp_version :: u32
  uprp_values :: json_map

record ffi_codec =
  ffi_decode_theme :: "string \<Rightarrow> theme_payload option"
  ffi_decode_upsert_profile :: "string \<Rightarrow> upsert_profile_payload option"
  ffi_decode_update_profile :: "string \<Rightarrow> update_profile_payload option"
  ffi_decode_update_preferences :: "string \<Rightarrow> update_preferences_payload option"
  ffi_parse_f32 :: "string \<Rightarrow> f32 option"

text \<open>A theme payload that names no theme of the engine is refused.\<close>

definition parse_theme_payload :: "ffi_codec \<Rightarrow> string option \<Rightarrow> theme_payload option" where
  "parse_theme_payload fc payload =
     with_payload payload (\<lambda>written. case ffi_decode_theme fc written of None \<Rightarrow> None | Some p \<Rightarrow>
       then_some (thp_version p = 1 \<and> theme_from_wire (thp_theme_id p) \<noteq> None) p)"

definition profile_command_from_ffi :: "ffi_codec \<Rightarrow> int \<Rightarrow> string option \<Rightarrow> engine_command option" where
  "profile_command_from_ffi fc code payload =
     (if code = FFI_COMMAND_UPSERT_PROFILE then
        with_payload payload (\<lambda>written. case ffi_decode_upsert_profile fc written of None \<Rightarrow> None | Some p \<Rightarrow>
          then_some (upp_version p = 1) (command_upsert_profile (upp_display_name p)))
      else if code = FFI_COMMAND_GET_PROFILE then Some command_get_profile
      else if code = FFI_COMMAND_UPDATE_PROFILE then
        with_payload payload (\<lambda>written. case ffi_decode_update_profile fc written of None \<Rightarrow> None | Some p \<Rightarrow>
          then_some (udp_version p = 1 \<and> udp_update_display_name p)
            (command_update_profile \<lparr>pu_display_name = Some (udp_display_name p)\<rparr>))
      else if code = FFI_COMMAND_DELETE_PROFILE then Some command_delete_profile
      else if code = FFI_COMMAND_LOAD_PROFILE_PREFERENCES then Some command_load_profile_preferences
      else if code = FFI_COMMAND_UPDATE_PROFILE_PREFERENCES then
        with_payload payload (\<lambda>written. case ffi_decode_update_preferences fc written of None \<Rightarrow> None | Some p \<Rightarrow>
          then_some (uprp_version p = 1) (command_update_profile_preferences (uprp_values p)))
      else None)"

definition is_unknown :: "engine_command_type \<Rightarrow> bool" where
  "is_unknown ty = (case ty of UnknownCommand _ \<Rightarrow> True | _ \<Rightarrow> False)"

text \<open>A command read from its wire name, unless that gave the unknown command.\<close>

definition parsed_wire_command :: "command_codec \<Rightarrow> string \<Rightarrow> string option \<Rightarrow> engine_command option" where
  "parsed_wire_command pc wire payload =
     (let command = engine_command_from_wire pc wire payload
      in if is_unknown (command_type command) then None else Some command)"

definition history_command_from_ffi :: "command_codec \<Rightarrow> int \<Rightarrow> string option \<Rightarrow> engine_command option" where
  "history_command_from_ffi pc code payload =
     (if code = FFI_COMMAND_LOAD_HISTORY_SETTINGS then Some command_load_history_settings
      else if code = FFI_COMMAND_UPDATE_HISTORY_SETTINGS
      then parsed_wire_command pc ''update_history_settings'' payload
      else if code = FFI_COMMAND_LIST_HISTORY then parsed_wire_command pc ''list_history'' payload
      else if code = FFI_COMMAND_LOAD_NEXT_HISTORY_PAGE then Some command_load_next_history_page
      else if code = FFI_COMMAND_DELETE_HISTORY_ENTRY
      then parsed_wire_command pc ''delete_history_entry'' payload
      else if code = FFI_COMMAND_CLEAR_HISTORY then Some command_clear_history
      else None)"

definition library_command_from_ffi :: "command_codec \<Rightarrow> int \<Rightarrow> string option \<Rightarrow> engine_command option" where
  "library_command_from_ffi pc code payload =
     (if code = FFI_COMMAND_SAVE_TRACK then parsed_wire_command pc ''save_track'' payload
      else if code = FFI_COMMAND_REMOVE_SAVED_TRACK then parsed_wire_command pc ''remove_saved_track'' payload
      else if code = FFI_COMMAND_LIST_SAVED_TRACKS then parsed_wire_command pc ''list_saved_tracks'' payload
      else if code = FFI_COMMAND_LOAD_NEXT_SAVED_TRACKS_PAGE then parsed_wire_command pc ''load_next_saved_tracks_page'' payload
      else if code = FFI_COMMAND_LIKE_TRACK then parsed_wire_command pc ''like_track'' payload
      else if code = FFI_COMMAND_UNLIKE_TRACK then parsed_wire_command pc ''unlike_track'' payload
      else if code = FFI_COMMAND_LIST_LIKED_TRACKS then parsed_wire_command pc ''list_liked_tracks'' payload
      else if code = FFI_COMMAND_LOAD_NEXT_LIKED_TRACKS_PAGE then parsed_wire_command pc ''load_next_liked_tracks_page'' payload
      else None)"

definition playlist_command_from_ffi :: "command_codec \<Rightarrow> int \<Rightarrow> string option \<Rightarrow> engine_command option" where
  "playlist_command_from_ffi pc code payload =
     (if code = FFI_COMMAND_CREATE_PLAYLIST then parsed_wire_command pc ''create_playlist'' payload
      else if code = FFI_COMMAND_UPDATE_PLAYLIST then parsed_wire_command pc ''update_playlist'' payload
      else if code = FFI_COMMAND_DELETE_PLAYLIST then parsed_wire_command pc ''delete_playlist'' payload
      else if code = FFI_COMMAND_LIST_PLAYLISTS then parsed_wire_command pc ''list_playlists'' payload
      else if code = FFI_COMMAND_LOAD_NEXT_PLAYLISTS_PAGE then parsed_wire_command pc ''load_next_playlists_page'' payload
      else if code = FFI_COMMAND_ADD_PLAYLIST_TRACK then parsed_wire_command pc ''add_playlist_track'' payload
      else if code = FFI_COMMAND_REMOVE_PLAYLIST_TRACK then parsed_wire_command pc ''remove_playlist_track'' payload
      else if code = FFI_COMMAND_LIST_PLAYLIST_TRACKS then parsed_wire_command pc ''list_playlist_tracks'' payload
      else if code = FFI_COMMAND_LOAD_NEXT_PLAYLIST_TRACKS_PAGE then parsed_wire_command pc ''load_next_playlist_tracks_page'' payload
      else if code = FFI_COMMAND_REORDER_PLAYLIST_TRACKS then parsed_wire_command pc ''reorder_playlist_tracks'' payload
      else None)"

definition account_command_from_ffi :: "command_codec \<Rightarrow> int \<Rightarrow> string option \<Rightarrow> engine_command option" where
  "account_command_from_ffi pc code payload =
     (if code = FFI_COMMAND_GET_ACCOUNT then parsed_wire_command pc ''get_account'' payload
      else if code = FFI_COMMAND_DELETE_ACCOUNT then parsed_wire_command pc ''delete_account'' payload
      else if code = FFI_COMMAND_LIST_DEVICE_SESSIONS then parsed_wire_command pc ''list_device_sessions'' payload
      else if code = FFI_COMMAND_LOAD_NEXT_DEVICE_SESSIONS_PAGE then parsed_wire_command pc ''load_next_device_sessions_page'' payload
      else if code = FFI_COMMAND_REVOKE_DEVICE_SESSION then parsed_wire_command pc ''revoke_device_session'' payload
      else None)"

definition discovery_command_from_ffi :: "command_codec \<Rightarrow> int \<Rightarrow> string option \<Rightarrow> engine_command option" where
  "discovery_command_from_ffi pc code payload =
     (if code = FFI_COMMAND_LOAD_DISCOVERY_FEED then parsed_wire_command pc ''load_discovery_feed'' payload
      else if code = FFI_COMMAND_LOAD_FOR_YOU_FEED then parsed_wire_command pc ''load_for_you_feed'' payload
      else if code = FFI_COMMAND_LOAD_RECOMMENDATIONS then parsed_wire_command pc ''load_recommendations'' payload
      else if code = FFI_COMMAND_LOAD_NEXT_DISCOVERY_PAGE then parsed_wire_command pc ''load_next_discovery_page'' payload
      else None)"

subsection \<open>Decoding a command\<close>

text \<open>\<open>unwrap_or_else(|| EngineCommand::from_wire(label, None))\<close>.\<close>

definition or_invalid :: "command_codec \<Rightarrow> string \<Rightarrow> engine_command option \<Rightarrow> engine_command" where
  "or_invalid pc label parsed =
     (case parsed of None \<Rightarrow> engine_command_from_wire pc label None | Some command \<Rightarrow> command)"

definition theme_command ::
  "ffi_codec \<Rightarrow> command_codec \<Rightarrow> (theme_preference \<Rightarrow> engine_command) \<Rightarrow> string option \<Rightarrow> engine_command" where
  "theme_command fc pc build payload =
     or_invalid pc ''invalid_theme_payload''
       (case parse_theme_payload fc payload of None \<Rightarrow> None
        | Some p \<Rightarrow> map_option build (theme_from_wire (thp_theme_id p)))"

definition remote_theme_command :: "ffi_codec \<Rightarrow> command_codec \<Rightarrow> string option \<Rightarrow> engine_command" where
  "remote_theme_command fc pc payload =
     or_invalid pc ''invalid_theme_payload''
       (case parse_theme_payload fc payload of None \<Rightarrow> None
        | Some p \<Rightarrow>
            (case (theme_from_wire (thp_theme_id p), thp_user_id p, thp_baseline_revision p) of
               (Some theme, Some user_id, Some baseline) \<Rightarrow>
                 Some (command_apply_remote_theme_preference theme user_id baseline)
             | _ \<Rightarrow> None))"

definition default_to :: "'a \<Rightarrow> 'a option \<Rightarrow> 'a" where
  "default_to a x = (case x of None \<Rightarrow> a | Some a \<Rightarrow> a)"

definition session_user :: "string option \<Rightarrow> string" where
  "session_user payload =
     (case payload of None \<Rightarrow> ''unknown'' | Some user_id \<Rightarrow> if user_id = [] then ''unknown'' else user_id)"

text \<open>None is the early return: voice audio has an entry point of its own.\<close>

definition ffi_command :: "ffi_codec \<Rightarrow> command_codec \<Rightarrow> int \<Rightarrow> string option \<Rightarrow> engine_command option" where
  "ffi_command fc pc code payload =
     (if code = FFI_COMMAND_SEARCH then Some (engine_command_from_wire pc ''search'' payload)
      else if code = FFI_COMMAND_BROWSE then Some (engine_command_from_wire pc ''browse'' payload)
      else if code = FFI_COMMAND_LOAD_NEXT_CATALOG_PAGE
      then Some (engine_command_from_wire pc ''load_next_catalog_page'' payload)
      else if code = FFI_COMMAND_SET_SPEED
      then Some (engine_command_new
             (SetSpeed (default_to (Fin 1) (with_payload payload (ffi_parse_f32 fc)))) None)
      else if code = FFI_COMMAND_SEEK
      then Some (engine_command_new
             (Seek (of_nat (default_to 0 (with_payload payload parse_usize)))) None)
      else if code = FFI_COMMAND_START_SESSION
      then Some (engine_command_new (StartSession (session_user payload)) None)
      else if code = FFI_COMMAND_PLAY_MEDIA_BY_ID
      then Some (engine_command_new (PlayMediaById (default_to [] payload)) None)
      else if code = FFI_COMMAND_PLAY_QUEUE then Some (engine_command_from_wire pc ''play_queue'' payload)
      else if code = FFI_COMMAND_HYDRATE_THEME_PREFERENCE
      then Some (theme_command fc pc command_hydrate_theme_preference payload)
      else if code = FFI_COMMAND_SET_THEME_PREFERENCE
      then Some (theme_command fc pc command_set_theme_preference payload)
      else if code = FFI_COMMAND_APPLY_REMOTE_THEME_PREFERENCE
      then Some (remote_theme_command fc pc payload)
      else if code \<in> {FFI_COMMAND_UPSERT_PROFILE, FFI_COMMAND_GET_PROFILE,
        FFI_COMMAND_UPDATE_PROFILE, FFI_COMMAND_DELETE_PROFILE,
        FFI_COMMAND_LOAD_PROFILE_PREFERENCES, FFI_COMMAND_UPDATE_PROFILE_PREFERENCES}
      then Some (or_invalid pc ''invalid_profile_payload'' (profile_command_from_ffi fc code payload))
      else if code \<in> {FFI_COMMAND_LOAD_HISTORY_SETTINGS, FFI_COMMAND_UPDATE_HISTORY_SETTINGS,
        FFI_COMMAND_LIST_HISTORY, FFI_COMMAND_LOAD_NEXT_HISTORY_PAGE,
        FFI_COMMAND_DELETE_HISTORY_ENTRY, FFI_COMMAND_CLEAR_HISTORY}
      then Some (or_invalid pc ''invalid_history_payload'' (history_command_from_ffi pc code payload))
      else if code \<in> {FFI_COMMAND_SAVE_TRACK, FFI_COMMAND_REMOVE_SAVED_TRACK,
        FFI_COMMAND_LIST_SAVED_TRACKS, FFI_COMMAND_LOAD_NEXT_SAVED_TRACKS_PAGE,
        FFI_COMMAND_LIKE_TRACK, FFI_COMMAND_UNLIKE_TRACK, FFI_COMMAND_LIST_LIKED_TRACKS,
        FFI_COMMAND_LOAD_NEXT_LIKED_TRACKS_PAGE}
      then Some (or_invalid pc ''invalid_library_payload'' (library_command_from_ffi pc code payload))
      else if code \<in> {FFI_COMMAND_CREATE_PLAYLIST, FFI_COMMAND_UPDATE_PLAYLIST,
        FFI_COMMAND_DELETE_PLAYLIST, FFI_COMMAND_LIST_PLAYLISTS,
        FFI_COMMAND_LOAD_NEXT_PLAYLISTS_PAGE, FFI_COMMAND_ADD_PLAYLIST_TRACK,
        FFI_COMMAND_REMOVE_PLAYLIST_TRACK, FFI_COMMAND_LIST_PLAYLIST_TRACKS,
        FFI_COMMAND_LOAD_NEXT_PLAYLIST_TRACKS_PAGE, FFI_COMMAND_REORDER_PLAYLIST_TRACKS}
      then Some (or_invalid pc ''invalid_playlist_payload'' (playlist_command_from_ffi pc code payload))
      else if code \<in> {FFI_COMMAND_GET_ACCOUNT, FFI_COMMAND_DELETE_ACCOUNT,
        FFI_COMMAND_LIST_DEVICE_SESSIONS, FFI_COMMAND_LOAD_NEXT_DEVICE_SESSIONS_PAGE,
        FFI_COMMAND_REVOKE_DEVICE_SESSION}
      then Some (or_invalid pc ''invalid_account_payload'' (account_command_from_ffi pc code payload))
      else if code \<in> {FFI_COMMAND_LOAD_DISCOVERY_FEED, FFI_COMMAND_LOAD_FOR_YOU_FEED,
        FFI_COMMAND_LOAD_RECOMMENDATIONS, FFI_COMMAND_LOAD_NEXT_DISCOVERY_PAGE}
      then Some (or_invalid pc ''invalid_discovery_payload'' (discovery_command_from_ffi pc code payload))
      else if code = FFI_COMMAND_PROCESS_VOICE then None
      else Some (engine_command_new (command_from_ffi code) payload))"

subsection \<open>A call and what it leaves behind\<close>

text \<open>The engine behind the boundary may panic (\<open>run_future_safely\<close> turns that into \<open>None\<close>) or fail; only
  an outcome is remembered. The answer is \<open>None\<close> for \<open>FfiEngineOutcome::invalid()\<close>, otherwise the
  outcome with the event code and the applied command code.\<close>

record ffi_memory =
  fm_last_effects :: "engine_effect list"
  fm_last_event :: "engine_event option"

definition remember_outcome :: "engine_outcome \<Rightarrow> ffi_memory \<Rightarrow> ffi_memory" where
  "remember_outcome outcome m =
     m\<lparr>fm_last_effects := oc_effects outcome, fm_last_event := Some (oc_event outcome)\<rparr>"

type_synonym ('i, 's) ffi_engine = "'i \<Rightarrow> u64 \<Rightarrow> 's \<Rightarrow> (unit + engine_outcome) option \<times> 's"

definition ffi_call ::
  "('i, 's) ffi_engine \<Rightarrow> 'i \<Rightarrow> u64 \<Rightarrow> int \<Rightarrow> ffi_memory \<times> 's \<Rightarrow>
     (engine_outcome \<times> int \<times> int) option \<times> ffi_memory \<times> 's" where
  "ffi_call engine input now applied state =
     (case engine input now (snd state) of
        (Some (Inr outcome), s) \<Rightarrow>
          (Some (outcome, event_to_ffi (event_type (oc_event outcome)), applied),
           remember_outcome outcome (fst state), s)
      | (_, s) \<Rightarrow> (None, fst state, s))"

definition panda_engine_dispatch ::
  "ffi_codec \<Rightarrow> command_codec \<Rightarrow> (engine_command, 's) ffi_engine \<Rightarrow> int \<Rightarrow> string option \<Rightarrow> u64 \<Rightarrow>
     ffi_memory \<times> 's \<Rightarrow> (engine_outcome \<times> int \<times> int) option \<times> ffi_memory \<times> 's" where
  "panda_engine_dispatch fc pc engine code payload now state =
     (case ffi_command fc pc code payload of
        None \<Rightarrow> (None, state)
      | Some command \<Rightarrow> ffi_call engine command now code state)"

text \<open>\<open>None\<close> for a null buffer with a positive length.\<close>

definition panda_engine_process_audio_raw ::
  "(engine_command, 's) ffi_engine \<Rightarrow> 16 word list option \<Rightarrow> usize \<Rightarrow> u64 \<Rightarrow> ffi_memory \<times> 's \<Rightarrow>
     (engine_outcome \<times> int \<times> int) option \<times> ffi_memory \<times> 's" where
  "panda_engine_process_audio_raw engine audio n now state =
     (if 0 < n \<and> audio = None then (None, state)
      else ffi_call engine (command_process_voice_audio (if n = 0 then [] else take n (default_to [] audio)))
             now FFI_COMMAND_PROCESS_VOICE state)"

definition panda_engine_dispatch_platform_event ::
  "(platform_event, 's) ffi_engine \<Rightarrow> int \<Rightarrow> string option \<Rightarrow> u64 \<Rightarrow> ffi_memory \<times> 's \<Rightarrow>
     (engine_outcome \<times> int \<times> int) option \<times> ffi_memory \<times> 's" where
  "panda_engine_dispatch_platform_event engine code payload now state =
     ffi_call engine \<lparr>pe_type = platform_event_from_ffi code, pe_payload = payload\<rparr> now FFI_COMMAND_UNKNOWN state"

text \<open>\<open>panda_engine_tick\<close>: the number of outcomes, the last of which is remembered.\<close>

definition panda_engine_tick ::
  "(u64 \<Rightarrow> 's \<Rightarrow> (unit + engine_outcome list) option \<times> 's) \<Rightarrow> u64 \<Rightarrow> ffi_memory \<times> 's \<Rightarrow>
     nat \<times> ffi_memory \<times> 's" where
  "panda_engine_tick tick now state =
     (case tick now (snd state) of
        (Some (Inr outcomes), s) \<Rightarrow>
          (length outcomes,
           if outcomes = [] then fst state else remember_outcome (last outcomes) (fst state), s)
      | (_, s) \<Rightarrow> (0, fst state, s))"

subsection \<open>Snapshot values in C types\<close>

fun error_type_to_ffi :: "engine_error_type \<Rightarrow> int" where
  "error_type_to_ffi NotFound = 1"
| "error_type_to_ffi NetworkError = 2"
| "error_type_to_ffi RateLimited = 2"
| "error_type_to_ffi ServiceUnavailableError = 2"
| "error_type_to_ffi Transport = 2"
| "error_type_to_ffi PlayerError = 3"
| "error_type_to_ffi AuthenticationError = 4"
| "error_type_to_ffi LoginRequiredError = 4"
| "error_type_to_ffi AuthExpired = 4"
| "error_type_to_ffi SessionStorage = 4"
| "error_type_to_ffi Forbidden = 4"
| "error_type_to_ffi MediaSkipped = 5"
| "error_type_to_ffi InvalidInput = - 1"
| "error_type_to_ffi AlreadyExists = - 1"
| "error_type_to_ffi FailedPrecondition = - 1"
| "error_type_to_ffi Conflict = - 1"
| "error_type_to_ffi BackendFault = - 1"
| "error_type_to_ffi UnsafeTransport = - 1"
| "error_type_to_ffi MappingDefect = - 1"
| "error_type_to_ffi CommandRejected = - 1"
| "error_type_to_ffi UnknownError = - 1"

definition snapshot_error_to_ffi :: "engine_snapshot \<Rightarrow> int" where
  "snapshot_error_to_ffi s =
     (case sn_last_error s of None \<Rightarrow> 0 | Some e \<Rightarrow> error_type_to_ffi (error_type e))"

text \<open>\<open>min(i64::MAX) as i64\<close>, and -1 for nothing; \<open>i64::try_from\<close> gives nothing beyond the range.\<close>

definition clamped_i64 :: "u64 option \<Rightarrow> int" where
  "clamped_i64 x = (case x of None \<Rightarrow> - 1 | Some v \<Rightarrow> min (uint v) (2 ^ 63 - 1))"

definition checked_i64 :: "u64 option \<Rightarrow> int" where
  "checked_i64 x = (case x of None \<Rightarrow> - 1 | Some v \<Rightarrow> if uint v < 2 ^ 63 then uint v else - 1)"

definition index_i64 :: "usize option \<Rightarrow> int" where
  "index_i64 x = (case x of None \<Rightarrow> - 1 | Some i \<Rightarrow> if i < 2 ^ 63 then int i else - 1)"

definition auth_state_to_ffi :: "auth_state \<Rightarrow> int" where
  "auth_state_to_ffi state = (case state of Anonymous \<Rightarrow> 0 | Authenticated _ _ \<Rightarrow> 1 | LoginRequired \<Rightarrow> 2)"

definition availability_to_ffi :: "backend_availability \<Rightarrow> int" where
  "availability_to_ffi availability =
     (case availability of Connecting \<Rightarrow> 0 | BackendAvailable \<Rightarrow> 1 | BackendUnavailable _ \<Rightarrow> 2)"

definition unavailable_reason_to_ffi :: "backend_availability \<Rightarrow> int" where
  "unavailable_reason_to_ffi availability =
     (case availability of
        BackendUnavailable reason \<Rightarrow>
          (case reason of NetworkUnavailable \<Rightarrow> 1 | ConnectionFailed \<Rightarrow> 2 | Timeout \<Rightarrow> 3
           | ServiceUnavailable \<Rightarrow> 4)
      | _ \<Rightarrow> 0)"

subsection \<open>Which command a code means\<close>

definition ffi_wire_name :: "int \<Rightarrow> string option" where
  "ffi_wire_name code =
     (if code = FFI_COMMAND_BOOTSTRAP then Some ''bootstrap''
      else if code = FFI_COMMAND_PLAY then Some ''play''
      else if code = FFI_COMMAND_PAUSE then Some ''pause''
      else if code = FFI_COMMAND_SKIP_PREVIOUS then Some ''skip_previous''
      else if code = FFI_COMMAND_SKIP_NEXT then Some ''skip_next''
      else if code = FFI_COMMAND_START_SESSION then Some ''start_session''
      else if code = FFI_COMMAND_END_SESSION then Some ''end_session''
      else if code = FFI_COMMAND_SEARCH then Some ''search''
      else if code = FFI_COMMAND_BROWSE then Some ''browse''
      else if code = FFI_COMMAND_SET_SPEED then Some ''set_speed''
      else if code = FFI_COMMAND_SEEK then Some ''seek''
      else if code = FFI_COMMAND_START_VOICE then Some ''start_voice_interaction''
      else if code = FFI_COMMAND_STOP_VOICE then Some ''stop_voice_interaction''
      else if code = FFI_COMMAND_PROCESS_VOICE then Some ''process_voice_audio''
      else if code = FFI_COMMAND_PLAY_MEDIA_BY_ID then Some ''play_media_by_id''
      else if code = FFI_COMMAND_HYDRATE_THEME_PREFERENCE then Some ''hydrate_theme_preference''
      else if code = FFI_COMMAND_SET_THEME_PREFERENCE then Some ''set_theme_preference''
      else if code = FFI_COMMAND_APPLY_REMOTE_THEME_PREFERENCE then Some ''apply_remote_theme_preference''
      else if code = FFI_COMMAND_REFRESH_BACKEND_STATUS then Some ''refresh_backend_status''
      else if code = FFI_COMMAND_LOAD_NEXT_CATALOG_PAGE then Some ''load_next_catalog_page''
      else if code = FFI_COMMAND_UPSERT_PROFILE then Some ''upsert_profile''
      else if code = FFI_COMMAND_GET_PROFILE then Some ''get_profile''
      else if code = FFI_COMMAND_UPDATE_PROFILE then Some ''update_profile''
      else if code = FFI_COMMAND_DELETE_PROFILE then Some ''delete_profile''
      else if code = FFI_COMMAND_LOAD_PROFILE_PREFERENCES then Some ''load_profile_preferences''
      else if code = FFI_COMMAND_UPDATE_PROFILE_PREFERENCES then Some ''update_profile_preferences''
      else if code = FFI_COMMAND_LOAD_HISTORY_SETTINGS then Some ''load_history_settings''
      else if code = FFI_COMMAND_UPDATE_HISTORY_SETTINGS then Some ''update_history_settings''
      else if code = FFI_COMMAND_LIST_HISTORY then Some ''list_history''
      else if code = FFI_COMMAND_LOAD_NEXT_HISTORY_PAGE then Some ''load_next_history_page''
      else if code = FFI_COMMAND_DELETE_HISTORY_ENTRY then Some ''delete_history_entry''
      else if code = FFI_COMMAND_CLEAR_HISTORY then Some ''clear_history''
      else if code = FFI_COMMAND_SAVE_TRACK then Some ''save_track''
      else if code = FFI_COMMAND_REMOVE_SAVED_TRACK then Some ''remove_saved_track''
      else if code = FFI_COMMAND_LIST_SAVED_TRACKS then Some ''list_saved_tracks''
      else if code = FFI_COMMAND_LOAD_NEXT_SAVED_TRACKS_PAGE then Some ''load_next_saved_tracks_page''
      else if code = FFI_COMMAND_LIKE_TRACK then Some ''like_track''
      else if code = FFI_COMMAND_UNLIKE_TRACK then Some ''unlike_track''
      else if code = FFI_COMMAND_LIST_LIKED_TRACKS then Some ''list_liked_tracks''
      else if code = FFI_COMMAND_LOAD_NEXT_LIKED_TRACKS_PAGE then Some ''load_next_liked_tracks_page''
      else if code = FFI_COMMAND_CREATE_PLAYLIST then Some ''create_playlist''
      else if code = FFI_COMMAND_UPDATE_PLAYLIST then Some ''update_playlist''
      else if code = FFI_COMMAND_DELETE_PLAYLIST then Some ''delete_playlist''
      else if code = FFI_COMMAND_LIST_PLAYLISTS then Some ''list_playlists''
      else if code = FFI_COMMAND_LOAD_NEXT_PLAYLISTS_PAGE then Some ''load_next_playlists_page''
      else if code = FFI_COMMAND_ADD_PLAYLIST_TRACK then Some ''add_playlist_track''
      else if code = FFI_COMMAND_REMOVE_PLAYLIST_TRACK then Some ''remove_playlist_track''
      else if code = FFI_COMMAND_LIST_PLAYLIST_TRACKS then Some ''list_playlist_tracks''
      else if code = FFI_COMMAND_LOAD_NEXT_PLAYLIST_TRACKS_PAGE then Some ''load_next_playlist_tracks_page''
      else if code = FFI_COMMAND_REORDER_PLAYLIST_TRACKS then Some ''reorder_playlist_tracks''
      else if code = FFI_COMMAND_GET_ACCOUNT then Some ''get_account''
      else if code = FFI_COMMAND_DELETE_ACCOUNT then Some ''delete_account''
      else if code = FFI_COMMAND_LIST_DEVICE_SESSIONS then Some ''list_device_sessions''
      else if code = FFI_COMMAND_LOAD_NEXT_DEVICE_SESSIONS_PAGE then Some ''load_next_device_sessions_page''
      else if code = FFI_COMMAND_REVOKE_DEVICE_SESSION then Some ''revoke_device_session''
      else if code = FFI_COMMAND_LOAD_DISCOVERY_FEED then Some ''load_discovery_feed''
      else if code = FFI_COMMAND_LOAD_NEXT_DISCOVERY_PAGE then Some ''load_next_discovery_page''
      else if code = FFI_COMMAND_LOAD_FOR_YOU_FEED then Some ''load_for_you_feed''
      else if code = FFI_COMMAND_LOAD_RECOMMENDATIONS then Some ''load_recommendations''
      else if code = FFI_COMMAND_PLAY_QUEUE then Some ''play_queue''
      else None)"

definition means :: "string \<Rightarrow> engine_command \<Rightarrow> bool" where
  "means wire command \<longleftrightarrow>
     well_formed (command_type command) \<and>
     (command_as_wire (command_type command) = wire \<or> is_unknown (command_type command))"

lemma is_unknown_simps [simp]: "is_unknown (UnknownCommand value)" "is_unknown (invalid_command wire)"
  by (simp_all add: is_unknown_def invalid_command_def)

lemma well_formed_unknown [simp]: "well_formed (UnknownCommand value)" "well_formed (invalid_command wire)"
  by (simp_all add: well_formed_def invalid_command_def)

lemma means_from_wire [simp]: "means wire (engine_command_from_wire pc wire payload)"
  using parsed_command_reads [of wire pc payload]
  by (cases "parsed_command pc wire payload")
    (simp_all add: means_def engine_command_from_wire_def engine_command_new_def)







text \<open>The name of each code.\<close>

lemma ffi_wire_name_simps [simp]:
  "ffi_wire_name FFI_COMMAND_BOOTSTRAP = Some ''bootstrap''"
  "ffi_wire_name FFI_COMMAND_PLAY = Some ''play''"
  "ffi_wire_name FFI_COMMAND_PAUSE = Some ''pause''"
  "ffi_wire_name FFI_COMMAND_SKIP_PREVIOUS = Some ''skip_previous''"
  "ffi_wire_name FFI_COMMAND_SKIP_NEXT = Some ''skip_next''"
  "ffi_wire_name FFI_COMMAND_START_SESSION = Some ''start_session''"
  "ffi_wire_name FFI_COMMAND_END_SESSION = Some ''end_session''"
  "ffi_wire_name FFI_COMMAND_SEARCH = Some ''search''"
  "ffi_wire_name FFI_COMMAND_BROWSE = Some ''browse''"
  "ffi_wire_name FFI_COMMAND_SET_SPEED = Some ''set_speed''"
  "ffi_wire_name FFI_COMMAND_SEEK = Some ''seek''"
  "ffi_wire_name FFI_COMMAND_START_VOICE = Some ''start_voice_interaction''"
  "ffi_wire_name FFI_COMMAND_STOP_VOICE = Some ''stop_voice_interaction''"
  "ffi_wire_name FFI_COMMAND_PROCESS_VOICE = Some ''process_voice_audio''"
  "ffi_wire_name FFI_COMMAND_PLAY_MEDIA_BY_ID = Some ''play_media_by_id''"
  "ffi_wire_name FFI_COMMAND_HYDRATE_THEME_PREFERENCE = Some ''hydrate_theme_preference''"
  "ffi_wire_name FFI_COMMAND_SET_THEME_PREFERENCE = Some ''set_theme_preference''"
  "ffi_wire_name FFI_COMMAND_APPLY_REMOTE_THEME_PREFERENCE = Some ''apply_remote_theme_preference''"
  "ffi_wire_name FFI_COMMAND_REFRESH_BACKEND_STATUS = Some ''refresh_backend_status''"
  "ffi_wire_name FFI_COMMAND_LOAD_NEXT_CATALOG_PAGE = Some ''load_next_catalog_page''"
  "ffi_wire_name FFI_COMMAND_UPSERT_PROFILE = Some ''upsert_profile''"
  "ffi_wire_name FFI_COMMAND_GET_PROFILE = Some ''get_profile''"
  "ffi_wire_name FFI_COMMAND_UPDATE_PROFILE = Some ''update_profile''"
  "ffi_wire_name FFI_COMMAND_DELETE_PROFILE = Some ''delete_profile''"
  "ffi_wire_name FFI_COMMAND_LOAD_PROFILE_PREFERENCES = Some ''load_profile_preferences''"
  "ffi_wire_name FFI_COMMAND_UPDATE_PROFILE_PREFERENCES = Some ''update_profile_preferences''"
  "ffi_wire_name FFI_COMMAND_LOAD_HISTORY_SETTINGS = Some ''load_history_settings''"
  "ffi_wire_name FFI_COMMAND_UPDATE_HISTORY_SETTINGS = Some ''update_history_settings''"
  "ffi_wire_name FFI_COMMAND_LIST_HISTORY = Some ''list_history''"
  "ffi_wire_name FFI_COMMAND_LOAD_NEXT_HISTORY_PAGE = Some ''load_next_history_page''"
  "ffi_wire_name FFI_COMMAND_DELETE_HISTORY_ENTRY = Some ''delete_history_entry''"
  "ffi_wire_name FFI_COMMAND_CLEAR_HISTORY = Some ''clear_history''"
  "ffi_wire_name FFI_COMMAND_SAVE_TRACK = Some ''save_track''"
  "ffi_wire_name FFI_COMMAND_REMOVE_SAVED_TRACK = Some ''remove_saved_track''"
  "ffi_wire_name FFI_COMMAND_LIST_SAVED_TRACKS = Some ''list_saved_tracks''"
  "ffi_wire_name FFI_COMMAND_LOAD_NEXT_SAVED_TRACKS_PAGE = Some ''load_next_saved_tracks_page''"
  "ffi_wire_name FFI_COMMAND_LIKE_TRACK = Some ''like_track''"
  "ffi_wire_name FFI_COMMAND_UNLIKE_TRACK = Some ''unlike_track''"
  "ffi_wire_name FFI_COMMAND_LIST_LIKED_TRACKS = Some ''list_liked_tracks''"
  "ffi_wire_name FFI_COMMAND_LOAD_NEXT_LIKED_TRACKS_PAGE = Some ''load_next_liked_tracks_page''"
  "ffi_wire_name FFI_COMMAND_CREATE_PLAYLIST = Some ''create_playlist''"
  "ffi_wire_name FFI_COMMAND_UPDATE_PLAYLIST = Some ''update_playlist''"
  "ffi_wire_name FFI_COMMAND_DELETE_PLAYLIST = Some ''delete_playlist''"
  "ffi_wire_name FFI_COMMAND_LIST_PLAYLISTS = Some ''list_playlists''"
  "ffi_wire_name FFI_COMMAND_LOAD_NEXT_PLAYLISTS_PAGE = Some ''load_next_playlists_page''"
  "ffi_wire_name FFI_COMMAND_ADD_PLAYLIST_TRACK = Some ''add_playlist_track''"
  "ffi_wire_name FFI_COMMAND_REMOVE_PLAYLIST_TRACK = Some ''remove_playlist_track''"
  "ffi_wire_name FFI_COMMAND_LIST_PLAYLIST_TRACKS = Some ''list_playlist_tracks''"
  "ffi_wire_name FFI_COMMAND_LOAD_NEXT_PLAYLIST_TRACKS_PAGE = Some ''load_next_playlist_tracks_page''"
  "ffi_wire_name FFI_COMMAND_REORDER_PLAYLIST_TRACKS = Some ''reorder_playlist_tracks''"
  "ffi_wire_name FFI_COMMAND_GET_ACCOUNT = Some ''get_account''"
  "ffi_wire_name FFI_COMMAND_DELETE_ACCOUNT = Some ''delete_account''"
  "ffi_wire_name FFI_COMMAND_LIST_DEVICE_SESSIONS = Some ''list_device_sessions''"
  "ffi_wire_name FFI_COMMAND_LOAD_NEXT_DEVICE_SESSIONS_PAGE = Some ''load_next_device_sessions_page''"
  "ffi_wire_name FFI_COMMAND_REVOKE_DEVICE_SESSION = Some ''revoke_device_session''"
  "ffi_wire_name FFI_COMMAND_LOAD_DISCOVERY_FEED = Some ''load_discovery_feed''"
  "ffi_wire_name FFI_COMMAND_LOAD_NEXT_DISCOVERY_PAGE = Some ''load_next_discovery_page''"
  "ffi_wire_name FFI_COMMAND_LOAD_FOR_YOU_FEED = Some ''load_for_you_feed''"
  "ffi_wire_name FFI_COMMAND_LOAD_RECOMMENDATIONS = Some ''load_recommendations''"
  "ffi_wire_name FFI_COMMAND_PLAY_QUEUE = Some ''play_queue''"
  by (simp_all add: ffi_wire_name_def)














text \<open>A call that fails or panics leaves the remembered outcome alone.\<close>

lemma failed_call_remembers_nothing:
  assumes "ffi_call engine input now applied state = (None, state')"
  shows "fst state' = fst state"
  using assms by (auto simp: ffi_call_def split: prod.splits option.splits sum.splits)

lemma answered_call_is_remembered:
  assumes "ffi_call engine input now applied state = (Some (outcome, event, code), state')"
  shows "fm_last_effects (fst state') = oc_effects outcome"
    and "fm_last_event (fst state') = Some (oc_event outcome)"
  using assms by (auto simp: ffi_call_def remember_outcome_def split: prod.splits option.splits sum.splits)

text \<open>Every state the boundary reports has a code of its own.\<close>

lemma state_codes_are_distinct:
  "inj playback_to_ffi" "inj restriction_to_ffi" "inj driving_state_to_ffi"
  "inj theme_preference_to_ffi" "inj preference_source_to_ffi" "inj media_item_type_to_ffi"
  by (rule injI, case_tac x; case_tac y; simp)+

subsection \<open>What a payload means\<close>







































end
