(* ===== verification/FfiQueries.thy ===== *)
theory FfiQueries
  imports FfiBoundary
begin

text \<open>
  What the C boundary lets its caller read (\<open>ffi/src/api/query.rs\<close>) and the two small groups of calls that
  set the queue and persist (\<open>ffi/src/api/queue.rs\<close>, \<open>ffi/src/api/persistence.rs\<close>). A C string that is
  null is \<open>None\<close>; so is the string of a text with a NUL character in it. A null engine is \<open>None\<close> too.
  The locks and the allocation of the strings are left out.
\<close>

record ffi_view =
  fv_snapshot :: engine_snapshot
  fv_memory :: ffi_memory
  fv_config :: engine_config

definition ffi_string :: "string \<Rightarrow> string option" where
  "ffi_string value = (if CHR 0x00 \<in> set value then None else Some value)"

definition nth_option :: "'a list \<Rightarrow> nat \<Rightarrow> 'a option" where
  "nth_option xs i = (if i < length xs then Some (xs ! i) else None)"

subsection \<open>Strings of the snapshot\<close>

definition current_snapshot_string :: "ffi_view option \<Rightarrow> (engine_snapshot \<Rightarrow> string option) \<Rightarrow> string option" where
  "current_snapshot_string v value =
     (case v of None \<Rightarrow> None | Some view \<Rightarrow> Option.bind (value (fv_snapshot view)) ffi_string)"

definition backend_status_string :: "ffi_view option \<Rightarrow> (backend_status \<Rightarrow> string) \<Rightarrow> string option" where
  "backend_status_string v value =
     (case v of None \<Rightarrow> None | Some view \<Rightarrow>
        Option.bind (sn_backend_status (fv_snapshot view)) (\<lambda>status. ffi_string (value status)))"

definition backend_dependency_string ::
  "ffi_view option \<Rightarrow> nat \<Rightarrow> (dependency_status \<Rightarrow> string) \<Rightarrow> string option" where
  "backend_dependency_string v index value =
     (case v of None \<Rightarrow> None | Some view \<Rightarrow>
        Option.bind (Option.bind (sn_backend_status (fv_snapshot view))
            (\<lambda>status. nth_option (bs_dependencies status) index))
          (\<lambda>dependency. ffi_string (value dependency)))"

definition search_result_string ::
  "ffi_view option \<Rightarrow> nat \<Rightarrow> (media_item \<Rightarrow> string option) \<Rightarrow> string option" where
  "search_result_string v index value =
     (case v of None \<Rightarrow> None | Some view \<Rightarrow>
        Option.bind (nth_option (sn_search_results (fv_snapshot view)) index)
          (\<lambda>item. Option.bind (value item) ffi_string))"

definition browse_result_string ::
  "ffi_view option \<Rightarrow> nat \<Rightarrow> (media_item \<Rightarrow> string option) \<Rightarrow> string option" where
  "browse_result_string v index value =
     (case v of None \<Rightarrow> None | Some view \<Rightarrow>
        Option.bind (nth_option (sn_browse_results (fv_snapshot view)) index)
          (\<lambda>item. Option.bind (value item) ffi_string))"

definition discovery_result_string ::
  "ffi_view option \<Rightarrow> nat \<Rightarrow> (media_item \<Rightarrow> string option) \<Rightarrow> string option" where
  "discovery_result_string v index value =
     (case v of None \<Rightarrow> None | Some view \<Rightarrow>
        Option.bind (nth_option (sn_discovery_results (fv_snapshot view)) index)
          (\<lambda>item. Option.bind (value item) ffi_string))"

definition get_current_media_id :: "ffi_view option \<Rightarrow> string option" where
  "get_current_media_id v =
     current_snapshot_string v sn_media_id"

definition get_current_title :: "ffi_view option \<Rightarrow> string option" where
  "get_current_title v =
     current_snapshot_string v sn_title"

definition get_current_artist :: "ffi_view option \<Rightarrow> string option" where
  "get_current_artist v =
     current_snapshot_string v sn_artist"

definition get_current_album :: "ffi_view option \<Rightarrow> string option" where
  "get_current_album v =
     current_snapshot_string v sn_album"

definition get_current_thumbnail_url :: "ffi_view option \<Rightarrow> string option" where
  "get_current_thumbnail_url v =
     current_snapshot_string v sn_thumbnail_url"

definition get_current_source_uri :: "ffi_view option \<Rightarrow> string option" where
  "get_current_source_uri v =
     current_snapshot_string v sn_source_uri"

definition get_current_mime_type :: "ffi_view option \<Rightarrow> string option" where
  "get_current_mime_type v =
     current_snapshot_string v sn_mime_type"

definition get_current_playback_expiry_epoch_millis :: "ffi_view option \<Rightarrow> int" where
  "get_current_playback_expiry_epoch_millis v =
     (case v of None \<Rightarrow> - 1 | Some view \<Rightarrow> checked_i64 (sn_playback_expires_at (fv_snapshot view)))"

definition get_current_user_id :: "ffi_view option \<Rightarrow> string option" where
  "get_current_user_id v =
     current_snapshot_string v (\<lambda>s. map_option ms_user_id (sn_session s))"

definition get_pending_library_track_id :: "ffi_view option \<Rightarrow> nat \<Rightarrow> string option" where
  "get_pending_library_track_id v index =
     current_snapshot_string v (\<lambda>s. nth_option (sn_library_pending s) index)"

definition get_voice_hypothesis :: "ffi_view option \<Rightarrow> string option" where
  "get_voice_hypothesis v = current_snapshot_string v sn_voice_hypothesis"

definition get_last_error_message :: "ffi_view option \<Rightarrow> string option" where
  "get_last_error_message v =
     current_snapshot_string v (\<lambda>s. map_option error_message (sn_last_error s))"

definition get_last_event_message :: "ffi_view option \<Rightarrow> string option" where
  "get_last_event_message v =
     (case v of None \<Rightarrow> None | Some view \<Rightarrow>
        Option.bind (Option.bind (fm_last_event (fv_memory view)) event_message) ffi_string)"

text \<open>Only a preference whose value is a JSON string is shown.\<close>

fun json_as_str :: "json \<Rightarrow> string option" where
  "json_as_str (JString text) = Some text"
| "json_as_str _ = None"

definition get_profile_preference_value :: "ffi_view option \<Rightarrow> string option \<Rightarrow> string option" where
  "get_profile_preference_value v key =
     (case key of None \<Rightarrow> None | Some key \<Rightarrow>
        current_snapshot_string v (\<lambda>s. Option.bind (obj_get key (sn_profile_preferences s)) json_as_str))"

definition get_backend_version :: "ffi_view option \<Rightarrow> string option" where
  "get_backend_version v =
     backend_status_string v bs_version"

definition get_backend_status_text :: "ffi_view option \<Rightarrow> string option" where
  "get_backend_status_text v =
     backend_status_string v bs_status"

definition get_backend_dependency_name :: "ffi_view option \<Rightarrow> nat \<Rightarrow> string option" where
  "get_backend_dependency_name v index =
     backend_dependency_string v index ds_name"

definition get_backend_dependency_status :: "ffi_view option \<Rightarrow> nat \<Rightarrow> string option" where
  "get_backend_dependency_status v index =
     backend_dependency_string v index ds_status"

definition get_backend_dependency_message :: "ffi_view option \<Rightarrow> nat \<Rightarrow> string option" where
  "get_backend_dependency_message v index =
     backend_dependency_string v index ds_message"

subsection \<open>Results\<close>

definition get_search_result_id :: "ffi_view option \<Rightarrow> nat \<Rightarrow> string option" where
  "get_search_result_id v index =
     search_result_string v index (\<lambda>item. Some (mi_id item))"

definition get_search_result_title :: "ffi_view option \<Rightarrow> nat \<Rightarrow> string option" where
  "get_search_result_title v index =
     search_result_string v index (\<lambda>item. Some (mi_title item))"

definition get_search_result_artist :: "ffi_view option \<Rightarrow> nat \<Rightarrow> string option" where
  "get_search_result_artist v index =
     search_result_string v index (\<lambda>item. Some (mi_artist item))"

definition get_search_result_album :: "ffi_view option \<Rightarrow> nat \<Rightarrow> string option" where
  "get_search_result_album v index =
     search_result_string v index mi_album"

definition get_search_result_thumbnail_url :: "ffi_view option \<Rightarrow> nat \<Rightarrow> string option" where
  "get_search_result_thumbnail_url v index =
     search_result_string v index mi_thumbnail_url"

definition get_search_result_source_uri :: "ffi_view option \<Rightarrow> nat \<Rightarrow> string option" where
  "get_search_result_source_uri v index =
     search_result_string v index mi_source_uri"

definition get_search_result_mime_type :: "ffi_view option \<Rightarrow> nat \<Rightarrow> string option" where
  "get_search_result_mime_type v index =
     search_result_string v index mi_mime_type"

definition get_search_result_item_type :: "ffi_view option \<Rightarrow> nat \<Rightarrow> int" where
  "get_search_result_item_type v index =
     (case Option.bind v (\<lambda>view. nth_option (sn_search_results (fv_snapshot view)) index) of
        None \<Rightarrow> media_item_type_to_ffi TrackItem
      | Some item \<Rightarrow> media_item_type_to_ffi (mi_item_type item))"

definition get_browse_result_id :: "ffi_view option \<Rightarrow> nat \<Rightarrow> string option" where
  "get_browse_result_id v index =
     browse_result_string v index (\<lambda>item. Some (mi_id item))"

definition get_browse_result_title :: "ffi_view option \<Rightarrow> nat \<Rightarrow> string option" where
  "get_browse_result_title v index =
     browse_result_string v index (\<lambda>item. Some (mi_title item))"

definition get_browse_result_artist :: "ffi_view option \<Rightarrow> nat \<Rightarrow> string option" where
  "get_browse_result_artist v index =
     browse_result_string v index (\<lambda>item. Some (mi_artist item))"

definition get_browse_result_album :: "ffi_view option \<Rightarrow> nat \<Rightarrow> string option" where
  "get_browse_result_album v index =
     browse_result_string v index mi_album"

definition get_browse_result_thumbnail_url :: "ffi_view option \<Rightarrow> nat \<Rightarrow> string option" where
  "get_browse_result_thumbnail_url v index =
     browse_result_string v index mi_thumbnail_url"

definition get_browse_result_source_uri :: "ffi_view option \<Rightarrow> nat \<Rightarrow> string option" where
  "get_browse_result_source_uri v index =
     browse_result_string v index mi_source_uri"

definition get_browse_result_mime_type :: "ffi_view option \<Rightarrow> nat \<Rightarrow> string option" where
  "get_browse_result_mime_type v index =
     browse_result_string v index mi_mime_type"

definition get_browse_result_item_type :: "ffi_view option \<Rightarrow> nat \<Rightarrow> int" where
  "get_browse_result_item_type v index =
     (case Option.bind v (\<lambda>view. nth_option (sn_browse_results (fv_snapshot view)) index) of
        None \<Rightarrow> media_item_type_to_ffi TrackItem
      | Some item \<Rightarrow> media_item_type_to_ffi (mi_item_type item))"

definition get_discovery_result_id :: "ffi_view option \<Rightarrow> nat \<Rightarrow> string option" where
  "get_discovery_result_id v index =
     discovery_result_string v index (\<lambda>item. Some (mi_id item))"

definition get_discovery_result_title :: "ffi_view option \<Rightarrow> nat \<Rightarrow> string option" where
  "get_discovery_result_title v index =
     discovery_result_string v index (\<lambda>item. Some (mi_title item))"

definition get_discovery_result_artist :: "ffi_view option \<Rightarrow> nat \<Rightarrow> string option" where
  "get_discovery_result_artist v index =
     discovery_result_string v index (\<lambda>item. Some (mi_artist item))"

definition get_discovery_result_album :: "ffi_view option \<Rightarrow> nat \<Rightarrow> string option" where
  "get_discovery_result_album v index =
     discovery_result_string v index mi_album"

definition get_discovery_result_thumbnail_url :: "ffi_view option \<Rightarrow> nat \<Rightarrow> string option" where
  "get_discovery_result_thumbnail_url v index =
     discovery_result_string v index mi_thumbnail_url"

definition get_discovery_result_source_uri :: "ffi_view option \<Rightarrow> nat \<Rightarrow> string option" where
  "get_discovery_result_source_uri v index =
     discovery_result_string v index mi_source_uri"

definition get_discovery_result_mime_type :: "ffi_view option \<Rightarrow> nat \<Rightarrow> string option" where
  "get_discovery_result_mime_type v index =
     discovery_result_string v index mi_mime_type"

definition get_discovery_result_item_type :: "ffi_view option \<Rightarrow> nat \<Rightarrow> int" where
  "get_discovery_result_item_type v index =
     (case Option.bind v (\<lambda>view. nth_option (sn_discovery_results (fv_snapshot view)) index) of
        None \<Rightarrow> media_item_type_to_ffi TrackItem
      | Some item \<Rightarrow> media_item_type_to_ffi (mi_item_type item))"

subsection \<open>The remembered effects\<close>

definition remembered_effect :: "ffi_view option \<Rightarrow> nat \<Rightarrow> engine_effect option" where
  "remembered_effect v index = Option.bind v (\<lambda>view. nth_option (fm_last_effects (fv_memory view)) index)"

definition get_effects_count :: "ffi_view option \<Rightarrow> nat" where
  "get_effects_count v = (case v of None \<Rightarrow> 0 | Some view \<Rightarrow> length (fm_last_effects (fv_memory view)))"

text \<open>What is written to the caller's array.\<close>

definition get_effects_types :: "ffi_view option \<Rightarrow> int list" where
  "get_effects_types v =
     (case v of None \<Rightarrow> [] | Some view \<Rightarrow> map effect_to_ffi (fm_last_effects (fv_memory view)))"

definition get_effect_type :: "ffi_view option \<Rightarrow> nat \<Rightarrow> int" where
  "get_effect_type v index =
     (case remembered_effect v index of None \<Rightarrow> FFI_COMMAND_UNKNOWN | Some effect \<Rightarrow> effect_to_ffi effect)"

definition get_effect_media_id :: "ffi_view option \<Rightarrow> nat \<Rightarrow> string option" where
  "get_effect_media_id v index =
     (case remembered_effect v index of
        Some (PreparePlaybackSource media_id _ _) \<Rightarrow> ffi_string media_id
      | Some (RecreatePlayerAndLoad media_id _ _) \<Rightarrow> ffi_string media_id
      | Some (UpdateMetadata media_id _ _) \<Rightarrow> ffi_string media_id
      | _ \<Rightarrow> None)"

text \<open>\<open>try_into().unwrap_or(i64::MAX)\<close>.\<close>

definition saturated_i64 :: "u64 \<Rightarrow> int" where
  "saturated_i64 x = (if uint x < 2 ^ 63 then uint x else 2 ^ 63 - 1)"

definition get_effect_position_millis :: "ffi_view option \<Rightarrow> nat \<Rightarrow> int" where
  "get_effect_position_millis v index =
     (case remembered_effect v index of
        Some (SeekEffect position) \<Rightarrow> saturated_i64 position
      | Some (PreparePlaybackSource _ _ position) \<Rightarrow> saturated_i64 position
      | Some (RecreatePlayerAndLoad _ _ position) \<Rightarrow> saturated_i64 position
      | _ \<Rightarrow> - 1)"

definition get_effect_playback_instance_id :: "ffi_view option \<Rightarrow> nat \<Rightarrow> int" where
  "get_effect_playback_instance_id v index =
     (case remembered_effect v index of
        Some (PreparePlaybackSource _ instance_id _) \<Rightarrow> saturated_i64 instance_id
      | Some (RecreatePlayerAndLoad _ instance_id _) \<Rightarrow> saturated_i64 instance_id
      | _ \<Rightarrow> - 1)"

definition get_effect_speed :: "ffi_view option \<Rightarrow> nat \<Rightarrow> f32" where
  "get_effect_speed v index =
     (case remembered_effect v index of Some (SetSpeedEffect speed) \<Rightarrow> speed | _ \<Rightarrow> FNaN)"

definition get_effect_notify_message :: "ffi_view option \<Rightarrow> nat \<Rightarrow> string option" where
  "get_effect_notify_message v index =
     (case remembered_effect v index of Some (NotifyUser message) \<Rightarrow> ffi_string message | _ \<Rightarrow> None)"

subsection \<open>Configuration, queue, persistence\<close>

definition get_config :: "ffi_view option \<Rightarrow> string option \<times> bool \<times> 8 word \<times> bool \<times> string option" where
  "get_config v =
     (case v of
        None \<Rightarrow> (None, False, 0, False, None)
      | Some view \<Rightarrow>
          (let config = fv_config view
           in (ffi_string (vehicle_name config), hifi_enabled config, max_volume config,
               auto_resume config, ffi_string (preferred_language config))))"

definition queue_item :: "string \<times> string \<times> string \<Rightarrow> media_item" where
  "queue_item = (\<lambda>(i, title, artist). media_item_default\<lparr>mi_id := i, mi_title := title, mi_artist := artist\<rparr>)"

definition panda_engine_queue_set_items :: "(string \<times> string \<times> string) list \<Rightarrow> 'w engine \<Rightarrow> 'w engine" where
  "panda_engine_queue_set_items items e = e\<lparr>en_queue := set_items (map queue_item items) (en_queue e)\<rparr>"

definition repeat_mode_from_ffi :: "int \<Rightarrow> repeat_mode" where
  "repeat_mode_from_ffi mode = (if mode = 1 then RepeatOne else if mode = 2 then RepeatAll else RepeatNone)"

definition panda_engine_queue_set_repeat_mode :: "int \<Rightarrow> 'w engine \<Rightarrow> 'w engine" where
  "panda_engine_queue_set_repeat_mode mode e =
     e\<lparr>en_queue := set_repeat_mode (repeat_mode_from_ffi mode) (en_queue e)\<rparr>"

definition panda_engine_queue_set_shuffle :: "bool \<Rightarrow> 'w engine \<Rightarrow> 'w engine" where
  "panda_engine_queue_set_shuffle enabled e = e\<lparr>en_queue := set_shuffle enabled (en_queue e)\<rparr>"

subsection \<open>Reading an effect back\<close>

text \<open>A caller that knows the codes: the effect as far as the accessors tell it. Title and artist of a
  metadata update and the user of a session are not told; the snapshot has them.\<close>

definition effect_read :: "ffi_view option \<Rightarrow> nat \<Rightarrow> engine_effect option" where
  "effect_read v index =
     (let code = get_effect_type v index;
          media = default_to [] (get_effect_media_id v index);
          position = word_of_int (get_effect_position_millis v index);
          instance_id = word_of_int (get_effect_playback_instance_id v index)
      in map_of
           [(0, PlayEffect), (1, PauseEffect), (2, StopEffect), (3, SeekEffect position),
            (6, UpdateMetadata media [] []), (7, SessionStarted []), (8, SessionEnded),
            (9, SetSpeedEffect (get_effect_speed v index)),
            (10, NotifyUser (default_to [] (get_effect_notify_message v index))),
            (11, StartAudioCapture), (12, StopAudioCapture), (13, DuckAudio), (14, UnduckAudio),
            (15, PreparePlaybackSource media instance_id position),
            (16, RecreatePlayerAndLoad media instance_id position)] code)"

fun told :: "engine_effect \<Rightarrow> engine_effect" where
  "told (UpdateMetadata media_id _ _) = UpdateMetadata media_id [] []"
| "told (SessionStarted _) = SessionStarted []"
| "told effect = effect"

fun tellable :: "engine_effect \<Rightarrow> bool" where
  "tellable (SeekEffect position) = (uint position < 2 ^ 63)"
| "tellable (PreparePlaybackSource media_id instance_id position) =
     (CHR 0x00 \<notin> set media_id \<and> uint instance_id < 2 ^ 63 \<and> uint position < 2 ^ 63)"
| "tellable (RecreatePlayerAndLoad media_id instance_id position) =
     (CHR 0x00 \<notin> set media_id \<and> uint instance_id < 2 ^ 63 \<and> uint position < 2 ^ 63)"
| "tellable (UpdateMetadata media_id _ _) = (CHR 0x00 \<notin> set media_id)"
| "tellable (NotifyUser message) = (CHR 0x00 \<notin> set message)"
| "tellable _ = True"

lemma effects_are_read_back:
  assumes "pred_option tellable (remembered_effect v index)"
  shows "effect_read v index = map_option told (remembered_effect v index)"
proof (cases "remembered_effect v index")
  case None
  then show ?thesis
    by (simp add: effect_read_def get_effect_type_def)
next
  case (Some effect)
  with assms have "tellable effect" by simp
  with Some show ?thesis
    by (cases effect)
      (simp_all add: effect_read_def get_effect_type_def get_effect_media_id_def get_effect_position_millis_def
        get_effect_playback_instance_id_def get_effect_speed_def get_effect_notify_message_def
        saturated_i64_def ffi_string_def default_to_def)
qed

lemma effects_read_in_order:
  assumes "v = Some view" "\<forall>effect \<in> set (fm_last_effects (fv_memory view)). tellable effect"
  shows "map (effect_read v) [0..<get_effects_count v] = map (Some \<circ> told) (fm_last_effects (fv_memory view))"
proof (rule nth_equalityI)
  fix i
  assume "i < length (map (effect_read v) [0..<get_effects_count v])"
  then have "remembered_effect v i = Some (fm_last_effects (fv_memory view) ! i)"
    "i < length (fm_last_effects (fv_memory view))"
    using assms by (simp_all add: remembered_effect_def nth_option_def get_effects_count_def)
  with assms effects_are_read_back [of v i]
  show "map (effect_read v) [0..<get_effects_count v] ! i = map (Some \<circ> told) (fm_last_effects (fv_memory view)) ! i"
    by (simp add: get_effects_count_def)
qed (use assms in \<open>simp add: get_effects_count_def\<close>)

end
