(* ===== verification/Voice.thy ===== *)
theory Voice
  imports Ports Payloads
begin

text \<open>
  The voice engines (\<open>services/voice.rs\<close>): from recognised text to a command. The recogniser is the
  \<open>vosk\<close> crate's and a parameter; its state and the last partial hypothesis are the world of the
  engine's voice port. The fallback without the crate and the mock of the tests are here too.
\<close>

text \<open>\<open>str::replace(pat, "")\<close>: every occurrence from the left, none of which overlap.\<close>

function remove_all :: "string \<Rightarrow> string \<Rightarrow> string" where
  "remove_all pat s =
     (case s of
        [] \<Rightarrow> []
      | c # cs \<Rightarrow>
          (if pat \<noteq> [] \<and> take (length pat) s = pat then remove_all pat (drop (length pat) s)
           else c # remove_all pat cs))"
  by pat_completeness auto
termination
  by (relation "measure (length \<circ> snd)") (auto simp: neq_Nil_conv)

declare remove_all.simps [simp del]

definition PLAY_PREFIX :: string where "PLAY_PREFIX = ''play ''"

definition has_play_prefix :: "string \<Rightarrow> bool" where
  "has_play_prefix query \<longleftrightarrow> take (length PLAY_PREFIX) query = PLAY_PREFIX"

subsection \<open>Vosk\<close>

record 'r recognizer =
  rc_accept_waveform :: "16 word list \<Rightarrow> 'r \<Rightarrow> 'r"
  rc_partial_result :: "'r \<Rightarrow> string"
  rc_final_result :: "'r \<Rightarrow> string option \<times> 'r"
  rc_reset :: "'r \<Rightarrow> 'r"
  rc_with_grammar :: "string list \<Rightarrow> 'r option"

record 'r vosk =
  vk_recognizer :: 'r
  vk_last_partial :: string

definition spoken_command :: "string \<Rightarrow> voice_interaction_result" where
  "spoken_command query =
     (if query = [] then NoMatch
      else if has_play_prefix query then VoiceCommand (command_voice_play (remove_all PLAY_PREFIX query))
      else VoiceCommand (command_voice_play query))"

definition vosk_voice_engine :: "'r recognizer \<Rightarrow> 'r vosk voice_engine" where
  "vosk_voice_engine rc =
     \<lparr>ve_process_audio_chunk = (\<lambda>chunk w.
        (let r = rc_accept_waveform rc chunk (vk_recognizer w)
         in (Ok (), w\<lparr>vk_recognizer := r, vk_last_partial := rc_partial_result rc r\<rparr>))),
      ve_finish = (\<lambda>w.
        (let (text, r) = rc_final_result rc (vk_recognizer w)
         in (Ok (spoken_command (case text of None \<Rightarrow> [] | Some text \<Rightarrow> text)), w\<lparr>vk_recognizer := r\<rparr>))),
      ve_partial_hypothesis = vk_last_partial,
      ve_reset = (\<lambda>w. w\<lparr>vk_recognizer := rc_reset rc (vk_recognizer w), vk_last_partial := []\<rparr>),
      ve_set_context = (\<lambda>_ w. w)\<rparr>"

definition vosk_set_vocabulary :: "'r recognizer \<Rightarrow> string list \<Rightarrow> 'r vosk \<Rightarrow> (string + unit) \<times> 'r vosk" where
  "vosk_set_vocabulary rc vocabulary w =
     (if vocabulary = [] then (Ok (), w)
      else case rc_with_grammar rc vocabulary of
             Some r \<Rightarrow> (Ok (), w\<lparr>vk_recognizer := r\<rparr>)
           | None \<Rightarrow> (Err ''Failed to create Vosk recognizer with grammar'', w))"

subsection \<open>Without Vosk, and in tests\<close>

definition fallback_voice_engine :: "string voice_engine" where
  "fallback_voice_engine =
     \<lparr>ve_process_audio_chunk = (\<lambda>_ w. (Ok (), ''fallback hypothesis'')),
      ve_finish = (\<lambda>w. (Ok NoMatch, w)),
      ve_partial_hypothesis = (\<lambda>w. w),
      ve_reset = (\<lambda>_. []),
      ve_set_context = (\<lambda>_ w. w)\<rparr>"

record mock_voice =
  mv_last_query :: string
  mv_should_fail :: bool

definition mock_voice_engine :: "mock_voice voice_engine" where
  "mock_voice_engine =
     \<lparr>ve_process_audio_chunk = (\<lambda>_ w.
        if mv_should_fail w then (Err ''Mock ASR failure'', w)
        else (Ok (), w\<lparr>mv_last_query := ''play jazz''\<rparr>)),
      ve_finish = (\<lambda>w.
        (Ok (if mv_should_fail w then VoiceError ''Failed to recognize speech''
             else if mv_last_query w = [] then NoMatch
             else if has_play_prefix (mv_last_query w)
             then VoiceCommand (command_voice_play (remove_all PLAY_PREFIX (mv_last_query w)))
             else NoMatch), w)),
      ve_partial_hypothesis = mv_last_query,
      ve_reset = (\<lambda>w. w\<lparr>mv_last_query := []\<rparr>),
      ve_set_context = (\<lambda>_ w. w)\<rparr>"

subsection \<open>What is searched for\<close>

lemma remove_all_shorter: "length (remove_all pat s) \<le> length s"
proof (induction pat s rule: remove_all.induct)
  case (1 pat s)
  then show ?case
    by (subst remove_all.simps) (force split: list.split)
qed

lemma remove_all_prefix: "pat \<noteq> [] \<Longrightarrow> remove_all pat (pat @ s) = remove_all pat s"
  by (subst remove_all.simps) (auto simp: neq_Nil_conv)

lemma remove_all_kept:
  assumes "pat \<noteq> []"
  shows "remove_all pat s = s \<longleftrightarrow> \<not> (\<exists>a b. s = a @ pat @ b)"
proof (induction s)
  case Nil
  with assms show ?case by (subst remove_all.simps) simp
next
  case (Cons c s)
  show ?case
  proof (cases "take (length pat) (c # s) = pat")
    case True
    then obtain b where b: "c # s = pat @ b"
      by (metis append_take_drop_id)
    have "length (remove_all pat (c # s)) < length (c # s)"
      unfolding b remove_all_prefix [OF assms] using remove_all_shorter [of pat b] assms
      by (cases pat) auto
    with b show ?thesis
      by (metis append_Nil order_less_irrefl)
  next
    case False
    then have kept: "remove_all pat (c # s) = c # remove_all pat s"
      by (subst remove_all.simps) simp
    have "(\<exists>a b. c # s = a @ pat @ b) \<longleftrightarrow> (\<exists>a b. s = a @ pat @ b)"
    proof
      assume "\<exists>a b. c # s = a @ pat @ b"
      then obtain a b where ab: "c # s = a @ pat @ b" by blast
      with False have "a \<noteq> []" by auto
      with ab show "\<exists>a b. s = a @ pat @ b"
        by (metis append_Cons list.exhaust list.sel(3))
    next
      assume "\<exists>a b. s = a @ pat @ b"
      then show "\<exists>a b. c # s = a @ pat @ b"
        by (metis append_Cons)
    qed
    with Cons.IH kept show ?thesis by simp
  qed
qed

lemma spoken_play: "spoken_command (PLAY_PREFIX @ query) = VoiceCommand (command_voice_play (remove_all PLAY_PREFIX query))"
proof -
  have "PLAY_PREFIX \<noteq> []" by (simp add: PLAY_PREFIX_def)
  then show ?thesis
    by (simp add: spoken_command_def has_play_prefix_def remove_all_prefix)
qed

text \<open>C23: the voice command for the recognised words "play" and a query searches for that query exactly
when the query does not contain "play " again: the word is cut out wherever it stands, at the end
of another word too.\<close>

theorem spoken_query_is_cut:
  assumes "rc_final_result rc (vk_recognizer w) = (Some (''play '' @ query), r)"
  shows "fst (ve_finish (vosk_voice_engine rc) w) = Ok (VoiceCommand (command_voice_play query)) \<longleftrightarrow>
    \<not> (\<exists>a b. query = a @ ''play '' @ b)"
proof -
  have "fst (ve_finish (vosk_voice_engine rc) w) =
      Ok (VoiceCommand (command_voice_play (remove_all PLAY_PREFIX query)))"
    using assms spoken_play [of query] by (simp add: vosk_voice_engine_def PLAY_PREFIX_def)
  moreover have "command_voice_play a = command_voice_play b \<longleftrightarrow> a = b" for a b
    by (simp add: command_voice_play_def engine_command_new_def)
  ultimately show ?thesis
    using remove_all_kept [of PLAY_PREFIX query] by (simp add: PLAY_PREFIX_def)
qed

text \<open>Coldplay live.\<close>

definition hearing :: "string \<Rightarrow> unit recognizer" where
  "hearing text =
     \<lparr>rc_accept_waveform = (\<lambda>_ r. r), rc_partial_result = (\<lambda>_. text), rc_final_result = (\<lambda>r. (Some text, r)),
      rc_reset = (\<lambda>r. r), rc_with_grammar = (\<lambda>_. None)\<rparr>"

theorem spoken_query_is_cut_witness:
  "fst (ve_finish (vosk_voice_engine (hearing ''play coldplay live'')) \<lparr>vk_recognizer = (), vk_last_partial = []\<rparr>)
     \<noteq> Ok (VoiceCommand (command_voice_play ''coldplay live''))"
proof -
  have "\<exists>a b. ''coldplay live'' = a @ ''play '' @ b"
    by (rule exI [of _ "''cold''"], rule exI [of _ "''live''"]) simp
  then show ?thesis
    using spoken_query_is_cut [of "hearing ''play coldplay live''" "\<lparr>vk_recognizer = (), vk_last_partial = []\<rparr>"
        "''coldplay live''" "()"]
    by (simp add: hearing_def)
qed

end
