(* ===== verification/Spec2Isabelle.thy ===== *)
theory Spec2Isabelle
  imports PlayerLaws Leaks RequestLaws EncryptedStore ActorLog ActorLogins SplitLaws
    RetryAudio BackendLaws FfiQueries Voice
begin

text \<open>
  \<^bold>\<open>PandaWave media engine: a model of the Rust core and its correctness theorems\<close>

  The program is an Android music player whose logic lives in a Rust engine
  (src/rust/engine/crates/app_core, with its C boundary in src/rust/engine/crates/ffi).  The
  engine is one actor that owns a snapshot (what the user interface shows) and private
  fields (queue, ports, pagination operations, owners of projections).  A command or a platform event is handled to the
  end, with calls to injected ports, before the next one is looked at.  All paths below
  are relative to src/rust/engine/crates/app_core/src, those with ffi to src/rust/engine/crates.

  \<^bold>\<open>How code becomes definitions.\<close>
  An asynchronous method with `&mut self` and `&mut EngineSnapshot` is a function from a
  snapshot and an engine to both.  The engine record carries a world of a type of its own
  (`'w`): each port operation is a field of a port record, a function that takes the
  world and returns its result with the next world.  Nothing is assumed about a port: it may
  fail, reply stale data, or change between calls.  A clock is a port too.  `Result` is
  a sum type (`Inl` the error), an unsigned Rust integer is a word of its width (wrapping
  or saturating as the code writes it), `f32` and `f64` are non-negative rationals rounded
  to the format, strings are character lists of bytes, JSON encoders that live in
  `serde_json` are parameters.  A Rust loop without a bound of its own is a
  `partial_function (option)`: None means that it never returns.

  \<^bold>\<open>Theories, in the order of import.\<close>
    \<^item> Prelude, RustStd, Floats: results, saturating arithmetic, trimming, decimal printing
      and parsing, binary floating point rounding.
    \<^item> Model (model/*.rs, data/repository/types.rs): the data types of the engine's boundary.
    \<^item> Preferences (model/preferences.rs, model/config.rs): merging of JSON objects, theme
      preferences, configuration.
    \<^item> Commands (model/command/types.rs, model/command.rs): the commands and their wire names.
    \<^item> Playback (model/playback.rs, model/event.rs, model/platform_event.rs,
      engine/state_machine.rs): the playback state machine.
    \<^item> Queue (data/queue/manager.rs): repeat and cursor; a ring refinement for repeat all.
    \<^item> Snapshot (model/snapshot.rs): media projection, position rebasing.
    \<^item> Ports (networking/system_port.rs, services/*.rs, data/*.rs): the boundary as records of
      functions.
    \<^item> EngineState (engine/core.rs, engine/core/controls.rs, engine/core/effects.rs): the
      engine's fields, what `snapshot()` shows and its synchronisation with the auth state.
    \<^item> Identity: the contract shared by all protected commands, as locales; every
      component interprets them for its own result guard.
    \<^item> Account, Library, Playlists, History (engine/core/*.rs), Profile and Catalog (arms of
      engine/core/dispatch_command.rs): the command handlers.
    \<^item> HistoryLaws, Listening: the laws of history and what they mean for whole listening
      sessions.
    \<^item> Transport, Dispatch (engine/core/dispatch_command.rs): playback, session and voice arms
      and the dispatcher around all arms; Middlewares (middleware/*.rs, services/service.rs).
    \<^item> PlatformEvents (engine/core/dispatch_platform_event.rs), Persist
      (engine/core/persistence_state.rs).
    \<^item> DispatchLaws, Returns: throttling, and which commands return.
    \<^item> Views, Turns: locales that say what each handler leaves alone, interpreted on the parts
      of the state that belong to the components.
    \<^item> PlayerLaws: a player (services/player.rs) fed by the engine plays as the state says.
    \<^item> Ownership, Leaks: what any run of the engine shows belongs to the login of that moment, and
      the one way around it.
    \<^item> Session, SessionLaws, Rotation (networking/canopy/session.rs, data/session_store.rs): the
      session coordinator, login, refresh and logout; tasks that refresh at the same time.
    \<^item> Requests, RequestLaws (networking/canopy/request.rs, operation.rs, error.rs): one RPC, its
      credential, its retry and the identity it is bound to.
    \<^item> SealedFormat, EncryptedStore (data/encrypted_session_store.rs): the file format, and the
      store over file operations that may fail.
    \<^item> Actor, Wiring, ActorLaws, ActorRuns, ActorLog, ActorLogins, SplitLaws (engine/actor/*.rs): the
      actor as one turn per message, its operations with workers and generations, the handle; runs,
      the event log, login changes, and the split of a command into an operation and its completion.
    \<^item> Payloads (model/command/parsing.rs, model/command/payloads.rs): commands with payloads.
    \<^item> RetryAudio (networking/retrying_audio_source_client.rs): retries of the audio source.
    \<^item> WireModel, CanopyPorts, CanopyLaws, AuthAdapter (networking/canopy/catalog.rs, auth.rs,
      history.rs, library.rs, playlist.rs, profile.rs, playback.rs, system.rs, discovery.rs): the
      messages, their mapping in both directions, and the adapters as the engine's ports.
    \<^item> ConnectionConfig (networking/canopy/config.rs), BackendSetup, BackendLaws (channel.rs,
      networking/remote_repository.rs, ffi/src/api/backend.rs, ffi/src/api/auth.rs): the connection
      document, certificates, the composition of the backend, logins through the C boundary.
    \<^item> FfiBoundary, FfiQueries (ffi/src/constants.rs, mappings.rs, api/dispatch.rs, api/query.rs,
      api/queue.rs): the numeric codes of the C boundary, the commands they stand for, and what its
      caller may read.
    \<^item> Voice (services/voice.rs): from recognised words to a command.

  \<^bold>\<open>What the theorems show.\<close>
  \<^emph>\<open>Privacy.\<close> What the snapshot shows is decided projection by projection by its tag and the live
  login (snapshot_shows_by_owner); in any run the account, profile, library, playlist and feed data shown
  belong to the identity that is logged in (reachable_snapshots_are_private,
  login_change_publishes_private), while the listening history can change hands
  (history_changes_hands); every handler keeps that ownership whatever the ports answer,
  and results that arrive after the identity changed are discarded. A protected request carries the
  token of its identity only, through every adapter (bound_request_stays_bound,
  protected_ports_stay_bound). A logout or a failed refresh closes the session; a production build
  makes no session in an unsafe store and talks in the clear to nobody; credentials in the gRPC address are not refused
  (grpc_credentials_are_accepted).
  \<^emph>\<open>The actor.\<close> Every accepted command has one outcome, superseded operations never act, a
  shutdown settles everything, events are numbered, and an operation answered by its worker leaves
  the same engine as the command run inline (split_path_equals_inline).
  \<^emph>\<open>Commands.\<close> A wire name or a numeric code becomes the command its payload stands for, well formed, or
  an unknown one when the payload cannot be read; commands return when the pipeline holds a throttle (dispatch_returns); failed
  mutations roll back exactly; reorders settle conflicts; catalog pages do not mix.
  \<^emph>\<open>Playback.\<close> The player follows the playback state, the queue stays in range and moves as a ring,
  positions are rebased without overflow, listened time is measured exactly and recorded once.
  \<^emph>\<open>Data.\<close> Whatever file operations fail, the session file is replaced as a whole or kept, and gone when it
  was reported as corrupted (session_file_changes_whole); the sealed file, command
  payloads, preferences and effects are read back as written, timestamps and listings are exact, certificate
  chains are recognised exactly, retries keep their budget.
  Some theorems state what the code does against its intent: throttled_command_starves,
  stale_error_repeats_record, login_change_loses_anonymous_history,
  unowned_settings_survive_login_change, unthrottled_voice_loop, history_changes_hands,
  anonymous_history_submitted_twice, unlabelled_login_is_lost, profile_update_crosses_logins,
  failed_logout_is_not_published, bracketed_hosts, grpc_credentials_are_accepted,
  encrypted_store_not_atomic, spoken_query_is_cut.

  \<^bold>\<open>Bounds.\<close> Nothing is bounded by fuel. The reorder conflict loop and the dispatcher are
  partial functions; where a theorem speaks of a result, it either assumes that there is one
  or proves it (dispatch_returns, unthrottled_voice_loop, reorder_conflict_endless_paging). The
  retry loop of the audio client ends by the number of attempts left, the certificate loop by the
  length of the text. Sequence numbers of the actor are words of 64 bits: where a theorem needs
  them not to wrap it bounds the number of steps of the run.

  \<^bold>\<open>Not modelled.\<close> The JNI bridge (construction of Java objects), the flat snapshot struct of the C
  boundary beyond its conversions, and the Android application. The generated gRPC clients, TLS, address
  and JSON parsing, cryptography, the file system and speech recognition are parameters. A panic of the
  code is modelled where it catches one (calls of the actor and of the C boundary), not in ticks and
  mutations. Text produced by Rust's derived `Debug` is a parameter (\<open>codec\<close>). Log lines are left
  out.
\<close>

end
